(* ===== verification/Prelude.thy ===== *)
theory Prelude
  imports Main "HOL-Library.Char_ord" "HOL-Library.List_Lexorder" "HOL-Library.Multiset"
    "HOL-Library.AList"
begin

text \<open>
  Shared ground of the development: Go's strings as byte lists with the functions of the
  package \<open>strings\<close> the program calls, \<open>sort.Slice\<close>, fallible computations, and two
  interfaces used by several components: sorters of slices and closures of a successor
  function. A Go string is a \<^typ>\<open>string\<close>; the order on strings is the bytewise
  lexicographic one (\<open>HOL-Library.List_Lexorder\<close> over \<open>HOL-Library.Char_ord\<close>).
\<close>

section \<open>Collections of rewrite rules\<close>

named_theorems go_string \<open>definitions of the string functions\<close>
named_theorems odh_defs \<open>definitions of small operations of the program that proofs unfold\<close>

section \<open>Fallible computations\<close>

text \<open>
  A Go function that returns \<open>(T, error)\<close> or may panic has a sum as its result: \<open>Inl\<close> holds
  the error or the panic, \<open>Inr\<close> the value.
\<close>

definition bind_res :: "'e + 'a \<Rightarrow> ('a \<Rightarrow> 'e + 'b) \<Rightarrow> 'e + 'b" where
  "bind_res r f = (case r of Inl e \<Rightarrow> Inl e | Inr a \<Rightarrow> f a)"

lemma bind_res_simps [simp]:
  "bind_res (Inl e) f = Inl e"
  "bind_res (Inr a) f = f a"
  by (simp_all add: bind_res_def)

lemma bind_res_Inr_iff [simp]:
  "bind_res r f = Inr b \<longleftrightarrow> (\<exists>a. r = Inr a \<and> f a = Inr b)"
  by (cases r) auto

lemma bind_res_Inl_iff:
  "bind_res r f = Inl e \<longleftrightarrow> r = Inl e \<or> (\<exists>a. r = Inr a \<and> f a = Inl e)"
  by (cases r) auto

text \<open>What the runtime panics with when a nil pointer is dereferenced.\<close>

abbreviation nil_dereference :: string where
  "nil_dereference \<equiv> ''runtime error: invalid memory address or nil pointer dereference''"

text \<open>The first element on which a partial function is defined.\<close>

fun first_some :: "('a \<Rightarrow> 'b option) \<Rightarrow> 'a list \<Rightarrow> 'b option" where
  "first_some f [] = None"
| "first_some f (x # xs) = (case f x of Some y \<Rightarrow> Some y | None \<Rightarrow> first_some f xs)"

lemma first_some_append:
  "first_some f (xs @ ys) = (case first_some f xs of Some y \<Rightarrow> Some y | None \<Rightarrow> first_some f ys)"
  by (induction xs) (auto split: option.splits)

lemma first_some_None_iff: "first_some f xs = None \<longleftrightarrow> (\<forall>x\<in>set xs. f x = None)"
  by (induction xs) (auto split: option.splits)

lemma first_some_Some_mem: "first_some f xs = Some y \<Longrightarrow> \<exists>x\<in>set xs. f x = Some y"
  by (induction xs) (auto split: option.splits)

section \<open>Maps\<close>

text \<open>
  A Go map is an association list with distinct keys: the order of the list is the order in
  which a \<open>range\<close> loop happens to visit it, which Go leaves open. Theorems quantify over the list,
  so they hold for every order. \<open>map_of\<close> looks a key up, \<open>AList.update\<close> stores, \<open>AList.delete\<close>
  deletes.
\<close>

type_synonym ('k, 'v) gomap = "('k \<times> 'v) list"

abbreviation wf_gomap :: "('k, 'v) gomap \<Rightarrow> bool" where
  "wf_gomap m \<equiv> distinct (map fst m)"

lemma wf_gomap_update [simp]: "wf_gomap m \<Longrightarrow> wf_gomap (AList.update k v m)"
  by (rule distinct_update)

lemma set_update_fresh:
  "map_of r k = None \<Longrightarrow> set (AList.update k v r) = insert (k, v) (set r)"
  by (induction r) (auto split: if_splits)

lemma map_of_update [simp]: "map_of (AList.update k v m) = (map_of m)(k \<mapsto> v)"
  by (rule update_conv')

lemma map_of_mem: "wf_gomap m \<Longrightarrow> (k, v) \<in> set m \<longleftrightarrow> map_of m k = Some v"
  by simp

section \<open>Strings\<close>

abbreviation nl :: string where "nl \<equiv> [CHR 0x0A]"

definition has_prefix :: "string \<Rightarrow> string \<Rightarrow> bool" where
  "has_prefix s p \<longleftrightarrow> take (length p) s = p"

definition has_suffix :: "string \<Rightarrow> string \<Rightarrow> bool" where
  "has_suffix s p \<longleftrightarrow> length p \<le> length s \<and> drop (length s - length p) s = p"

definition trim_prefix :: "string \<Rightarrow> string \<Rightarrow> string" where
  "trim_prefix s p = (if has_prefix s p then drop (length p) s else s)"

definition cut_suffix :: "string \<Rightarrow> string \<Rightarrow> string \<times> bool" where
  "cut_suffix s p = (if has_suffix s p then (take (length s - length p) s, True) else (s, False))"

fun str_index :: "string \<Rightarrow> string \<Rightarrow> nat option" where
  "str_index [] p = (if p = [] then Some 0 else None)"
| "str_index (c # s) p =
     (if has_prefix (c # s) p then Some 0 else map_option Suc (str_index s p))"

definition str_contains :: "string \<Rightarrow> string \<Rightarrow> bool" where
  "str_contains s p \<longleftrightarrow> str_index s p \<noteq> None"

text \<open>\<open>strings.Split\<close> with a separator of one byte; never empty, as in Go.\<close>

fun split_on :: "char \<Rightarrow> string \<Rightarrow> string list" where
  "split_on c [] = [[]]"
| "split_on c (x # s) =
     (if x = c then [] # split_on c s
      else (case split_on c s of [] \<Rightarrow> [[x]] | p # ps \<Rightarrow> (x # p) # ps))"

fun str_join :: "string \<Rightarrow> string list \<Rightarrow> string" where
  "str_join sep [] = []"
| "str_join sep [s] = s"
| "str_join sep (s # t # ts) = s @ sep @ str_join sep (t # ts)"

definition lower_char :: "char \<Rightarrow> char" where
  "lower_char c = (if CHR ''A'' \<le> c \<and> c \<le> CHR ''Z'' then char_of (of_char c + 32 :: nat) else c)"

text \<open>\<open>strings.ToLower\<close> on ASCII strings, the alphabet of Kubernetes resource names.\<close>

definition to_lower :: "string \<Rightarrow> string" where
  "to_lower s = map lower_char s"

text \<open>\<open>strings.ReplaceAll(s, c, "")\<close> for a one-byte pattern.\<close>

definition remove_char :: "char \<Rightarrow> string \<Rightarrow> string" where
  "remove_char c s = filter (\<lambda>x. x \<noteq> c) s"

text \<open>The decimal notation of \<open>strconv.Itoa\<close> and of the verb \<open>%d\<close>, for counts.\<close>

fun itoa :: "nat \<Rightarrow> string" where
  "itoa n = (if n < 10 then [char_of (48 + n)]
             else itoa (n div 10) @ [char_of (48 + n mod 10)])"

declare itoa.simps [simp del]

text \<open>The verb \<open>%q\<close> on printable ASCII text.\<close>

definition go_quote :: "string \<Rightarrow> string" where
  "go_quote s = [CHR 0x22]
     @ concat (map (\<lambda>c. if c = CHR 0x22 \<or> c = CHR 0x5C then [CHR 0x5C, c] else [c]) s) @ [CHR 0x22]"

lemmas go_string_defs [go_string] =
  has_prefix_def has_suffix_def trim_prefix_def cut_suffix_def str_contains_def
  to_lower_def remove_char_def

lemma has_prefix_iff: "has_prefix s p \<longleftrightarrow> (\<exists>t. s = p @ t)"
  by (metis append_eq_conv_conj append_take_drop_id has_prefix_def)

lemma has_prefix_append [simp]: "has_prefix (p @ s) p"
  by (simp add: has_prefix_def)

lemma has_suffix_iff: "has_suffix s p \<longleftrightarrow> (\<exists>t. s = t @ p)"
proof
  assume "has_suffix s p"
  then have "s = take (length s - length p) s @ p"
    by (metis append_take_drop_id has_suffix_def)
  then show "\<exists>t. s = t @ p" by blast
qed (auto simp: has_suffix_def)

lemma has_suffix_append [simp]: "has_suffix (s @ p) p"
  by (auto simp: has_suffix_iff)

lemma trim_prefix_append [simp]: "trim_prefix (p @ s) p = s"
  by (simp add: trim_prefix_def)

lemma cut_suffix_append [simp]: "cut_suffix (s @ p) p = (s, True)"
  by (simp add: cut_suffix_def has_suffix_def)

lemma cut_suffix_True: "cut_suffix s p = (t, True) \<Longrightarrow> s = t @ p"
  by (auto simp: cut_suffix_def has_suffix_iff split: if_splits)

lemma str_index_Some: "str_index s p = Some i \<Longrightarrow> \<exists>t. s = take i s @ p @ t \<and> i \<le> length s"
proof (induction s p arbitrary: i rule: str_index.induct)
  case (1 p)
  then show ?case by (auto split: if_splits)
next
  case (2 c s p)
  show ?case
  proof (cases "has_prefix (c # s) p")
    case True
    with 2 show ?thesis by (auto simp: has_prefix_iff)
  next
    case False
    with 2 obtain j where "str_index s p = Some j" "i = Suc j" by auto
    with 2(1)[OF False] show ?thesis by auto
  qed
qed

lemma split_on_not_Nil [simp]: "split_on c s \<noteq> []"
  by (cases s) (auto split: list.splits)

lemma split_on_pieces: "p \<in> set (split_on c s) \<Longrightarrow> c \<notin> set p"
  by (induction s arbitrary: p) (auto split: if_splits list.splits)

lemma str_join_Cons_Nil: "xs \<noteq> [] \<Longrightarrow> str_join sep (s # xs) = s @ sep @ str_join sep xs"
  by (cases xs) auto

lemma str_join_split_on: "str_join [c] (split_on c s) = s"
proof (induction s)
  case (Cons x s)
  show ?case
  proof (cases "x = c")
    case True
    with Cons show ?thesis by (simp add: str_join_Cons_Nil)
  next
    case False
    obtain p ps where "split_on c s = p # ps" by (cases "split_on c s") auto
    with False Cons show ?thesis by (cases ps) auto
  qed
qed simp

lemma split_on_append_sep: "c \<notin> set a \<Longrightarrow> split_on c (a @ c # b) = a # split_on c b"
  by (induction a) auto

lemma split_on_no_sep: "c \<notin> set a \<Longrightarrow> split_on c a = [a]"
  by (induction a) auto

lemma length_to_lower [simp]: "length (to_lower s) = length s"
  by (simp add: to_lower_def)

section \<open>Sorting slices\<close>

text \<open>
  \<open>sort.Slice(xs, less)\<close> sorts in place and is not stable. The model is the insertion sort
  that Go's \<open>pdqsort\<close> uses on short slices; the interface \<open>slice_sorter\<close> lists what a caller may
  rely on, and \<open>sorted_perm_unique\<close> shows that nothing else is observable when the keys of the
  elements are distinct.
\<close>

fun slice_insert :: "('a \<Rightarrow> 'a \<Rightarrow> bool) \<Rightarrow> 'a \<Rightarrow> 'a list \<Rightarrow> 'a list" where
  "slice_insert lt x [] = [x]"
| "slice_insert lt x (y # ys) = (if lt y x then y # slice_insert lt x ys else x # y # ys)"

definition sort_slice :: "('a \<Rightarrow> 'a \<Rightarrow> bool) \<Rightarrow> 'a list \<Rightarrow> 'a list" where
  "sort_slice lt xs = foldr (slice_insert lt) xs []"

lemma sort_slice_Nil [simp]: "sort_slice lt [] = []"
  and sort_slice_Cons: "sort_slice lt (x # xs) = slice_insert lt x (sort_slice lt xs)"
  by (simp_all add: sort_slice_def)

lemma mset_slice_insert: "mset (slice_insert lt x xs) = add_mset x (mset xs)"
  by (induction xs) auto

lemma set_slice_insert: "set (slice_insert lt x xs) = insert x (set xs)"
  by (induction xs) auto

lemma mset_sort_slice [simp]: "mset (sort_slice lt xs) = mset xs"
  by (induction xs) (auto simp: sort_slice_Cons mset_slice_insert)

lemma set_sort_slice [simp]: "set (sort_slice lt xs) = set xs"
  by (metis mset_sort_slice set_mset_mset)

lemma length_sort_slice [simp]: "length (sort_slice lt xs) = length xs"
  by (metis mset_sort_slice size_mset)

lemma distinct_sort_slice [simp]: "distinct (sort_slice lt xs) = distinct xs"
  by (metis mset_sort_slice mset_eq_imp_distinct_iff)

text \<open>
  \<open>less\<close> is a strict weak order when it compares keys of a linear order.
\<close>

lemma sorted_slice_insert:
  fixes key :: "'a \<Rightarrow> 'k::linorder"
  shows "sorted (map key xs) \<Longrightarrow>
     sorted (map key (slice_insert (\<lambda>a b. key a < key b) x xs))"
  by (induction xs) (auto simp: set_slice_insert)

lemma sorted_sort_slice:
  fixes key :: "'a \<Rightarrow> 'k::linorder"
  shows "sorted (map key (sort_slice (\<lambda>a b. key a < key b) xs))"
  by (induction xs) (auto simp: sort_slice_Cons intro: sorted_slice_insert)

lemma sorted_perm_unique:
  fixes key :: "'a \<Rightarrow> 'k::linorder"
  assumes "mset xs = mset ys" and "inj_on key (set xs)"
    and "sorted (map key xs)" and "sorted (map key ys)"
  shows "xs = ys"
proof -
  have "mset (map key xs) = mset (map key ys)"
    using assms(1) by (metis mset_map)
  with assms(3,4) have eq: "map key xs = map key ys"
    by (metis properties_for_sort)
  moreover have "set xs = set ys" using assms(1) by (rule mset_eq_setD)
  ultimately show ?thesis using assms(2) by (simp add: inj_on_map_eq_map)
qed

text \<open>What the callers of \<open>sort.Slice\<close> use of it.\<close>

locale slice_sorter =
  fixes key :: "'a \<Rightarrow> 'k::linorder" and srt :: "'a list \<Rightarrow> 'a list"
  assumes srt_perm: "mset (srt xs) = mset xs"
    and srt_sorted: "sorted (map key (srt xs))"
begin

lemma srt_set: "set (srt xs) = set xs"
  using srt_perm by (metis set_mset_mset)

lemma srt_length: "length (srt xs) = length xs"
  using srt_perm by (metis size_mset)

lemma srt_order_irrelevant:
  assumes "mset xs = mset ys" and "inj_on key (set xs)"
  shows "srt xs = srt ys"
  by (rule sorted_perm_unique [where key = key])
     (use assms srt_perm srt_sorted srt_set in simp_all)

lemma srt_strict:
  assumes "distinct (map key xs)"
  shows "sorted_wrt (\<lambda>a b. key a < key b) (srt xs)"
proof -
  have "mset (map key (srt xs)) = mset (map key xs)"
    using srt_perm by simp
  then have "distinct (map key (srt xs))"
    using assms by (metis mset_eq_imp_distinct_iff)
  then have "sorted_wrt (<) (map key (srt xs))"
    using srt_sorted by (simp add: strict_sorted_iff)
  then show ?thesis by (simp add: sorted_wrt_map)
qed

end

interpretation slice: slice_sorter key "sort_slice (\<lambda>a b. key a < key b)" for key
  by unfold_locales (simp_all add: sorted_sort_slice)

text \<open>\<open>sort.Strings\<close> and the like: the elements are their own keys.\<close>

lemma sorted_sort_less: "sorted (sort_slice (<) (xs :: 'a::linorder list))"
  using sorted_sort_slice [of "id :: 'a \<Rightarrow> 'a" xs] by simp

lemma strict_sort_less: "distinct xs \<Longrightarrow> sorted_wrt (<) (sort_slice (<) (xs :: 'a::linorder list))"
  by (simp add: strict_sorted_iff sorted_sort_less)

section \<open>Closures of a successor function\<close>

text \<open>
  Two components walk a graph with a visited set (the dependency graph and the ownership
  graph). What each promises: the root is visited, the visited set is closed under successors,
  and nothing is visited that the root does not reach.
\<close>

locale visit_closure =
  fixes succs :: "'n \<Rightarrow> 'n set" and visit :: "'n \<Rightarrow> 'n set"
  assumes visit_root: "r \<in> visit r"
    and visit_closed: "x \<in> visit r \<Longrightarrow> y \<in> succs x \<Longrightarrow> y \<in> visit r"
    and visit_sound: "x \<in> visit r \<Longrightarrow> (r, x) \<in> {(a, b). b \<in> succs a}\<^sup>*"
begin

lemma reach_visited: "(r, x) \<in> {(a, b). b \<in> succs a}\<^sup>* \<Longrightarrow> x \<in> visit r"
proof (induction rule: rtrancl_induct)
  case base
  show ?case by (rule visit_root)
next
  case (step y z)
  from step.IH step.hyps(2) show ?case by (auto intro: visit_closed)
qed

lemma visit_eq_reachable: "visit r = {x. (r, x) \<in> {(a, b). b \<in> succs a}\<^sup>*}"
  using reach_visited visit_sound by blast

lemma visit_trans: "y \<in> visit x \<Longrightarrow> z \<in> visit y \<Longrightarrow> z \<in> visit x"
  by (simp add: visit_eq_reachable)

lemma visit_minus_root: "visit r - {r} \<subseteq> {x. (r, x) \<in> {(a, b). b \<in> succs a}\<^sup>+}"
  by (auto simp: visit_eq_reachable rtrancl_eq_or_trancl)

end

section \<open>Keyed registries\<close>

text \<open>
  The registry of checks and the registry of actions share a contract: an item is stored under
  its identifier unless that identifier is taken. \<open>register_all\<close> is what the constructors of the
  commands do: register one item after the other and stop (panic) at the first failure.
\<close>

fun register_all :: "('m \<Rightarrow> 'a \<Rightarrow> 'e + 'm) \<Rightarrow> 'm \<Rightarrow> 'a list \<Rightarrow> 'e + 'm" where
  "register_all reg m [] = Inr m"
| "register_all reg m (a # as) = bind_res (reg m a) (\<lambda>m'. register_all reg m' as)"

locale keyed_registry =
  fixes key :: "'a \<Rightarrow> string" and empty :: 'm
    and reg :: "'m \<Rightarrow> 'a \<Rightarrow> 'e + 'm" and get :: "'m \<Rightarrow> string \<Rightarrow> 'a option"
    and items :: "'m \<Rightarrow> 'a list" and ok :: "'m \<Rightarrow> bool"
  assumes empty_ok: "ok empty" "items empty = []"
    and reg_fresh: "get m (key a) = None \<Longrightarrow> \<exists>m'. reg m a = Inr m'"
    and reg_taken: "get m (key a) \<noteq> None \<Longrightarrow> \<exists>e. reg m a = Inl e"
    and reg_get: "reg m a = Inr m' \<Longrightarrow> get m' k = (if k = key a then Some a else get m k)"
    and reg_items: "reg m a = Inr m' \<Longrightarrow> set (items m') = insert a (set (items m))"
    and reg_ok: "ok m \<Longrightarrow> reg m a = Inr m' \<Longrightarrow> ok m'"
    and get_items: "ok m \<Longrightarrow> get m k = Some a \<longleftrightarrow> a \<in> set (items m) \<and> key a = k"
begin

lemma reg_iff: "(\<exists>m'. reg m a = Inr m') \<longleftrightarrow> get m (key a) = None"
  using reg_fresh [of m a] reg_taken [of m a] by (metis Inl_Inr_False)

lemma register_all_ok: "ok m \<Longrightarrow> register_all reg m as = Inr m' \<Longrightarrow> ok m'"
  by (induction as arbitrary: m) (auto intro: reg_ok)

lemma register_all_items: "register_all reg m as = Inr m' \<Longrightarrow> set (items m') = set (items m) \<union> set as"
  by (induction as arbitrary: m) (auto dest: reg_items)

lemma register_all_succeeds:
  "(\<exists>m'. register_all reg m as = Inr m') \<longleftrightarrow>
     distinct (map key as) \<and> (\<forall>a\<in>set as. get m (key a) = None)"
proof (induction as arbitrary: m)
  case (Cons a as)
  show ?case
  proof (cases "reg m a")
    case (Inl e)
    then have "get m (key a) \<noteq> None" using reg_fresh [of m a] by auto
    with Inl show ?thesis by auto
  next
    case (Inr m')
    then have free: "get m (key a) = None" using reg_iff [of m a] by blast
    have "(\<exists>m''. register_all reg m (a # as) = Inr m'') \<longleftrightarrow>
        distinct (map key as) \<and> (\<forall>b\<in>set as. get m' (key b) = None)"
      using Inr Cons.IH [of m'] by simp
    also have "(\<forall>b\<in>set as. get m' (key b) = None) \<longleftrightarrow>
        key a \<notin> key ` set as \<and> (\<forall>b\<in>set as. get m (key b) = None)"
      using reg_get [OF Inr] by (auto, metis image_eqI)
    finally show ?thesis using free by auto
  qed
qed simp

lemma register_all_empty:
  assumes "distinct (map key as)"
  shows "\<exists>m. register_all reg empty as = Inr m \<and> set (items m) = set as
    \<and> (\<forall>a\<in>set as. get m (key a) = Some a)"
proof -
  have "get empty k = None" for k
    using get_items [OF empty_ok(1)] empty_ok(2) by (metis not_None_eq empty_iff list.set(1))
  with assms obtain m where m: "register_all reg empty as = Inr m"
    using register_all_succeeds [of empty as] by auto
  with register_all_items [OF m] register_all_ok [OF empty_ok(1) m] empty_ok(2)
  show ?thesis by (auto simp: get_items)
qed

end

end
