(* ===== verification/Errors.thy ===== *)
theory Errors
  imports Prelude
begin

text \<open>
  The package \<open>pkg/util/errors\<close> (\<open>types.go\<close>, \<open>exitcode.go\<close>, \<open>errors.go\<close>, \<open>common.go\<close>,
  \<open>output.go\<close>) and \<open>main\<close> of \<open>cmd/main.go\<close>: error values with their wrapping chain, their
  classification into structured errors, exit codes and their precedence, and how the process
  reports an error. The predicates of \<open>k8s.io/apimachinery/pkg/api/errors\<close> and the JSON and
  YAML encoders are parameters.
\<close>

section \<open>Error values\<close>

type_synonym ErrorCategory = string

abbreviation CategoryAuthentication :: ErrorCategory where "CategoryAuthentication \<equiv> ''authentication''"
abbreviation CategoryAuthorization :: ErrorCategory where "CategoryAuthorization \<equiv> ''authorization''"
abbreviation CategoryConnection :: ErrorCategory where "CategoryConnection \<equiv> ''connection''"
abbreviation CategoryNotFound :: ErrorCategory where "CategoryNotFound \<equiv> ''not_found''"
abbreviation CategoryValidation :: ErrorCategory where "CategoryValidation \<equiv> ''validation''"
abbreviation CategoryConflict :: ErrorCategory where "CategoryConflict \<equiv> ''conflict''"
abbreviation CategoryServer :: ErrorCategory where "CategoryServer \<equiv> ''server''"
abbreviation CategoryTimeout :: ErrorCategory where "CategoryTimeout \<equiv> ''timeout''"
abbreviation CategoryInternal :: ErrorCategory where "CategoryInternal \<equiv> ''internal''"

type_synonym ExitCode = int

abbreviation (input) ExitSuccess :: ExitCode where "ExitSuccess \<equiv> 0"
abbreviation (input) ExitError :: ExitCode where "ExitError \<equiv> 1"
abbreviation (input) ExitWarning :: ExitCode where "ExitWarning \<equiv> 2"
abbreviation (input) ExitValidation :: ExitCode where "ExitValidation \<equiv> 3"
abbreviation (input) ExitAuth :: ExitCode where "ExitAuth \<equiv> 4"
abbreviation (input) ExitConnection :: ExitCode where "ExitConnection \<equiv> 5"

text \<open>The exported fields of \<open>StructuredError\<close>; its \<open>cause\<close> is kept beside them.\<close>

record StructuredError =
  Code :: string
  Message :: string
  Category :: ErrorCategory
  ExitCodeField :: ExitCode
  Retriable :: bool
  Suggestion :: string

text \<open>The sentinel errors the program compares with \<open>errors.Is\<close>.\<close>

datatype sentinel =
    ErrAlreadyHandled | ErrLintBlocked | ErrLintAdvisory
  | DeadlineExceeded | Canceled | ErrPermission | JqErrNotFound

datatype tls_kind = UnknownAuthority | CertificateInvalid | HostnameMismatch | RecordHeader

text \<open>
  A Go error value. \<open>Wrap\<close> is the result of \<open>fmt.Errorf\<close> with \<open>%w\<close> verbs (the message is
  formatted when it is built); \<open>Foreign\<close> is an error value of a package outside the
  repository, such as a Kubernetes status error, with its type and its message; the
  constructors before it are the standard library's error types the classification looks for.
\<close>

datatype err =
    NewError string
  | Sentinel sentinel
  | Wrap string "err list"
  | Structured StructuredError "err option"
  | ConfigError err
  | ExitCodeError ExitCode err
  | PathError string string err
  | Errno nat string
  | DNSError string bool "err option"
  | NetError string bool "err option"
  | TLSError tls_kind string
  | Foreign string string

fun sentinel_string :: "sentinel \<Rightarrow> string" where
  "sentinel_string ErrAlreadyHandled = ''error already rendered to output''"
| "sentinel_string ErrLintBlocked = ''prohibited or blocking findings detected''"
| "sentinel_string ErrLintAdvisory = ''advisory findings detected''"
| "sentinel_string DeadlineExceeded = ''context deadline exceeded''"
| "sentinel_string Canceled = ''context canceled''"
| "sentinel_string ErrPermission = ''permission denied''"
| "sentinel_string JqErrNotFound = ''field not found''"

text \<open>The method \<open>Error\<close>.\<close>

fun err_string :: "err \<Rightarrow> string" where
  "err_string (NewError m) = m"
| "err_string (Sentinel s) = sentinel_string s"
| "err_string (Wrap m es) = m"
| "err_string (Structured s c) = ''['' @ Category s @ ''] '' @ Message s"
| "err_string (ConfigError e) = err_string e"
| "err_string (ExitCodeError code e) = err_string e"
| "err_string (PathError op path e) = op @ '' '' @ path @ '': '' @ err_string e"
| "err_string (Errno n m) = m"
| "err_string (DNSError m t c) = m"
| "err_string (NetError m t c) = m"
| "err_string (TLSError k m) = m"
| "err_string (Foreign ty m) = m"

text \<open>
  \<open>errors.Is\<close> and \<open>errors.As\<close> visit an error and then, depth first, the errors it unwraps to.
\<close>

fun chain :: "err \<Rightarrow> err list" where
  "chain (Wrap m es) = Wrap m es # concat (map chain es)"
| "chain (Structured s (Some e)) = Structured s (Some e) # chain e"
| "chain (ConfigError e) = ConfigError e # chain e"
| "chain (ExitCodeError code e) = ExitCodeError code e # chain e"
| "chain (PathError op path e) = PathError op path e # chain e"
| "chain (DNSError m t (Some e)) = DNSError m t (Some e) # chain e"
| "chain (NetError m t (Some e)) = NetError m t (Some e) # chain e"
| "chain e = [e]"

definition errors_as :: "(err \<Rightarrow> 'a option) \<Rightarrow> err \<Rightarrow> 'a option" where
  "errors_as f e = first_some f (chain e)"

definition errors_is :: "(err \<Rightarrow> bool) \<Rightarrow> err \<Rightarrow> bool" where
  "errors_is p e = list_ex p (chain e)"

text \<open>
  The types \<open>errors.As\<close> is asked for. \<open>net.Error\<close> is an interface: a deadline error and a
  system call number satisfy it as well as the errors of package \<open>net\<close>.
\<close>

fun as_exit_code :: "err \<Rightarrow> ExitCode option" where
  "as_exit_code (ExitCodeError code e) = Some code"
| "as_exit_code _ = None"

fun as_structured :: "err \<Rightarrow> (StructuredError \<times> err option) option" where
  "as_structured (Structured s c) = Some (s, c)"
| "as_structured _ = None"

definition errno_timeout :: "nat \<Rightarrow> bool" where
  "errno_timeout n \<longleftrightarrow> n = 11 \<or> n = 110"

fun as_net_error :: "err \<Rightarrow> bool option" where
  "as_net_error (DNSError m t c) = Some t"
| "as_net_error (NetError m t c) = Some t"
| "as_net_error (Sentinel DeadlineExceeded) = Some True"
| "as_net_error (Errno n m) = Some (errno_timeout n)"
| "as_net_error _ = None"

section \<open>Constructors of \<open>types.go\<close>\<close>

definition NewAlreadyHandledError :: "err \<Rightarrow> err" where
  "NewAlreadyHandledError e =
     Wrap (sentinel_string ErrAlreadyHandled @ '': '' @ err_string e) [Sentinel ErrAlreadyHandled, e]"

definition NewConfigError :: "err \<Rightarrow> err" where
  "NewConfigError e = ConfigError e"

definition NewValidationError :: "string \<Rightarrow> string \<Rightarrow> string \<Rightarrow> err" where
  "NewValidationError code msg suggestion =
     Structured \<lparr>Code = code, Message = msg, Category = CategoryValidation, ExitCodeField = 0,
       Retriable = False, Suggestion = suggestion\<rparr> None"

definition NewExitCodeError :: "ExitCode \<Rightarrow> err option \<Rightarrow> err option" where
  "NewExitCodeError code e = (case e of None \<Rightarrow> None | Some x \<Rightarrow> Some (ExitCodeError code x))"

section \<open>Classification (\<open>errors.go\<close>)\<close>

text \<open>
  The predicates of \<open>apierrors\<close> are a parameter \<open>api\<close>: which of them an error satisfies.
\<close>

datatype api_check =
    IsUnauthorized | IsForbidden | IsNotFound | IsAlreadyExists | IsConflict | IsInvalid
  | IsBadRequest | IsMethodNotSupported | IsNotAcceptable | IsUnsupportedMediaType
  | IsRequestEntityTooLargeError | IsGone | IsResourceExpired | IsServerTimeout
  | IsServiceUnavailable | IsUnexpectedServerError | IsInternalError | IsTimeout
  | IsTooManyRequests | IsUnexpectedObjectError | IsStoreReadError

type_synonym api_preds = "api_check \<Rightarrow> err \<Rightarrow> bool"

abbreviation suggestionAuthentication :: string where
  "suggestionAuthentication \<equiv> ''Refresh your kubeconfig credentials with 'oc login' or 'kubectl config'' @ [CHR 0x27]"
abbreviation suggestionAuthorization :: string where
  "suggestionAuthorization \<equiv> ''Verify your RBAC permissions for the required resources''"
abbreviation suggestionConnection :: string where
  "suggestionConnection \<equiv> ''Check if the API server is reachable''"
abbreviation suggestionNotFound :: string where
  "suggestionNotFound \<equiv> ''Verify the resource exists in the cluster''"
abbreviation suggestionAlreadyExists :: string where
  "suggestionAlreadyExists \<equiv> ''Resource already exists, use update or delete first''"
abbreviation suggestionConflict :: string where
  "suggestionConflict \<equiv> ''Retry the operation (resource was modified concurrently)''"
abbreviation suggestionValidation :: string where
  "suggestionValidation \<equiv> ''Check the request parameters and resource spec''"
abbreviation suggestionGone :: string where
  "suggestionGone \<equiv> ''Resource version expired, retry with a fresh list/watch''"
abbreviation suggestionServer :: string where
  "suggestionServer \<equiv> ''API server error, retry later''"
abbreviation suggestionTimeout :: string where
  "suggestionTimeout \<equiv> ''Increase --timeout value or retry the operation''"
abbreviation suggestionRateLimited :: string where
  "suggestionRateLimited \<equiv> ''Too many requests, retry after a brief wait''"
abbreviation suggestionRequestTooLarge :: string where
  "suggestionRequestTooLarge \<equiv> ''Reduce the size of the request payload''"
abbreviation suggestionInternal :: string where
  "suggestionInternal \<equiv> ''Unexpected error, please report a bug''"
abbreviation suggestionCanceled :: string where
  "suggestionCanceled \<equiv> ''Operation was canceled''"
abbreviation suggestionFilePath :: string where
  "suggestionFilePath \<equiv> ''Verify the file path exists and is readable (e.g. --kubeconfig)''"
abbreviation suggestionConfig :: string where
  "suggestionConfig \<equiv> ''Check your kubeconfig: verify the --context, --cluster, and --kubeconfig flags are correct''"
abbreviation suggestionTLS :: string where
  "suggestionTLS \<equiv> ''Verify the certificate authority bundle, check the server certificate validity, and ensure the hostname matches the certificate''"
abbreviation suggestionDNS :: string where
  "suggestionDNS \<equiv> ''Verify the server hostname in your kubeconfig is correct and DNS is configured''"
abbreviation suggestionPermission :: string where
  "suggestionPermission \<equiv> ''Check file and directory permissions for the target path''"
abbreviation suggestionLintAdvisory :: string where
  "suggestionLintAdvisory \<equiv> ''Review the advisory findings before proceeding with the upgrade''"
abbreviation suggestionLintBlocked :: string where
  "suggestionLintBlocked \<equiv> ''Address the prohibited or blocking findings before proceeding with the upgrade''"
abbreviation suggestionInputValidation :: string where
  "suggestionInputValidation \<equiv> ''Check the command arguments and flags''"

record errorEntry =
  check :: "err \<Rightarrow> bool"
  code :: string
  category :: ErrorCategory
  retriable :: bool
  suggestion :: string

abbreviation entry :: "(err \<Rightarrow> bool) \<Rightarrow> string \<Rightarrow> ErrorCategory \<Rightarrow> bool \<Rightarrow> string \<Rightarrow> errorEntry" where
  "entry p c cat r sg \<equiv> \<lparr>check = p, code = c, category = cat, retriable = r, suggestion = sg\<rparr>"

definition apiErrorTable :: "api_preds \<Rightarrow> errorEntry list" where
  "apiErrorTable api = [
     entry (api IsUnauthorized) ''AUTH_FAILED'' CategoryAuthentication False suggestionAuthentication,
     entry (api IsForbidden) ''AUTHZ_DENIED'' CategoryAuthorization False suggestionAuthorization,
     entry (api IsNotFound) ''NOT_FOUND'' CategoryNotFound False suggestionNotFound,
     entry (api IsAlreadyExists) ''ALREADY_EXISTS'' CategoryConflict False suggestionAlreadyExists,
     entry (api IsConflict) ''CONFLICT'' CategoryConflict True suggestionConflict,
     entry (api IsInvalid) ''INVALID'' CategoryValidation False suggestionValidation,
     entry (api IsBadRequest) ''BAD_REQUEST'' CategoryValidation False suggestionValidation,
     entry (api IsMethodNotSupported) ''METHOD_NOT_SUPPORTED'' CategoryValidation False suggestionValidation,
     entry (api IsNotAcceptable) ''NOT_ACCEPTABLE'' CategoryValidation False suggestionValidation,
     entry (api IsUnsupportedMediaType) ''UNSUPPORTED_MEDIA_TYPE'' CategoryValidation False suggestionValidation,
     entry (api IsRequestEntityTooLargeError) ''REQUEST_TOO_LARGE'' CategoryValidation False suggestionRequestTooLarge,
     entry (api IsGone) ''GONE'' CategoryServer True suggestionGone,
     entry (api IsResourceExpired) ''RESOURCE_EXPIRED'' CategoryServer True suggestionGone,
     entry (api IsServerTimeout) ''SERVER_TIMEOUT'' CategoryTimeout True suggestionTimeout,
     entry (api IsServiceUnavailable) ''SERVER_UNAVAILABLE'' CategoryServer True suggestionServer,
     entry (api IsUnexpectedServerError) ''UNEXPECTED_SERVER_ERROR'' CategoryServer True suggestionServer,
     entry (api IsInternalError) ''SERVER_ERROR'' CategoryServer True suggestionServer,
     entry (api IsTimeout) ''GATEWAY_TIMEOUT'' CategoryTimeout True suggestionTimeout,
     entry (api IsTooManyRequests) ''RATE_LIMITED'' CategoryServer True suggestionRateLimited,
     entry (api IsUnexpectedObjectError) ''UNEXPECTED_OBJECT'' CategoryServer False suggestionServer,
     entry (api IsStoreReadError) ''STORE_READ_ERROR'' CategoryServer True suggestionServer]"

definition isDeadlineExceeded :: "err \<Rightarrow> bool" where
  "isDeadlineExceeded = errors_is (\<lambda>x. x = Sentinel DeadlineExceeded)"

definition isContextCanceled :: "err \<Rightarrow> bool" where
  "isContextCanceled = errors_is (\<lambda>x. x = Sentinel Canceled)"

text \<open>\<open>os.ErrPermission\<close> is also matched by the method \<open>Is\<close> of \<open>EPERM\<close> and \<open>EACCES\<close>.\<close>

fun is_permission :: "err \<Rightarrow> bool" where
  "is_permission (Sentinel ErrPermission) = True"
| "is_permission (Errno n m) = (n = 1 \<or> n = 13)"
| "is_permission _ = False"

definition isPermissionError :: "err \<Rightarrow> bool" where
  "isPermissionError = errors_is is_permission"

definition isFilesystemError :: "err \<Rightarrow> bool" where
  "isFilesystemError = errors_is (\<lambda>x. case x of PathError _ _ _ \<Rightarrow> True | _ \<Rightarrow> False)"

definition isConfigError :: "err \<Rightarrow> bool" where
  "isConfigError = errors_is (\<lambda>x. case x of ConfigError _ \<Rightarrow> True | _ \<Rightarrow> False)"

definition isTLSError :: "err \<Rightarrow> bool" where
  "isTLSError = errors_is (\<lambda>x. case x of TLSError _ _ \<Rightarrow> True | _ \<Rightarrow> False)"

definition isDNSError :: "err \<Rightarrow> bool" where
  "isDNSError = errors_is (\<lambda>x. case x of DNSError _ _ _ \<Rightarrow> True | _ \<Rightarrow> False)"

definition isNetworkTimeout :: "err \<Rightarrow> bool" where
  "isNetworkTimeout e = (case errors_as as_net_error e of None \<Rightarrow> False | Some t \<Rightarrow> t)"

definition isNetworkError :: "err \<Rightarrow> bool" where
  "isNetworkError e = (errors_as as_net_error e \<noteq> None)"

definition localErrorTable :: "errorEntry list" where
  "localErrorTable = [
     entry isDeadlineExceeded ''TIMEOUT'' CategoryTimeout True suggestionTimeout,
     entry isContextCanceled ''CANCELED'' CategoryInternal False suggestionCanceled,
     entry isPermissionError ''PERMISSION_DENIED'' CategoryValidation False suggestionPermission,
     entry isFilesystemError ''CONFIG_INVALID'' CategoryValidation False suggestionFilePath,
     entry isConfigError ''CONFIG_INVALID'' CategoryValidation False suggestionConfig,
     entry isTLSError ''TLS_CERT_INVALID'' CategoryAuthentication False suggestionTLS,
     entry isDNSError ''DNS_FAILED'' CategoryConnection True suggestionDNS,
     entry isNetworkTimeout ''NET_TIMEOUT'' CategoryTimeout True suggestionTimeout,
     entry isNetworkError ''CONN_FAILED'' CategoryConnection True suggestionConnection]"

definition ExitCodeFromCategory :: "ErrorCategory \<Rightarrow> ExitCode" where
  "ExitCodeFromCategory cat =
     (if cat = CategoryAuthentication \<or> cat = CategoryAuthorization then ExitAuth
      else if cat = CategoryConnection \<or> cat = CategoryTimeout then ExitConnection
      else if cat = CategoryValidation then ExitValidation
      else if cat = CategoryServer \<or> cat = CategoryNotFound \<or> cat = CategoryConflict
              \<or> cat = CategoryInternal then ExitError
      else ExitError)"

definition entry_error :: "errorEntry \<Rightarrow> err \<Rightarrow> StructuredError" where
  "entry_error en e = \<lparr>Code = code en, Message = err_string e, Category = category en,
     ExitCodeField = ExitCodeFromCategory (category en), Retriable = retriable en,
     Suggestion = suggestion en\<rparr>"

fun matchEntry :: "errorEntry list \<Rightarrow> err \<Rightarrow> (StructuredError \<times> err option) option" where
  "matchEntry [] e = None"
| "matchEntry (en # table) e =
     (if check en e then Some (entry_error en e, Some e) else matchEntry table e)"

abbreviation mk_structured :: "string \<Rightarrow> string \<Rightarrow> ErrorCategory \<Rightarrow> ExitCode \<Rightarrow> bool \<Rightarrow> string \<Rightarrow> StructuredError" where
  "mk_structured c m cat ec r sg \<equiv>
     \<lparr>Code = c, Message = m, Category = cat, ExitCodeField = ec, Retriable = r, Suggestion = sg\<rparr>"

definition classifyFromExitCode :: "ExitCode \<Rightarrow> err \<Rightarrow> StructuredError \<times> err option" where
  "classifyFromExitCode c e =
     ((if c = ExitWarning then
         mk_structured ''LINT_ADVISORY'' (err_string e) CategoryValidation ExitWarning False suggestionLintAdvisory
       else if c = ExitValidation then
         mk_structured ''VALIDATION_FAILED'' (err_string e) CategoryValidation ExitValidation False suggestionInputValidation
       else if c = ExitAuth then
         mk_structured ''AUTH_FAILED'' (err_string e) CategoryAuthentication ExitAuth False suggestionAuthentication
       else if c = ExitConnection then
         mk_structured ''CONN_FAILED'' (err_string e) CategoryConnection ExitConnection True suggestionConnection
       else if c = ExitError \<and> errors_is (\<lambda>x. x = Sentinel ErrLintBlocked) e then
         mk_structured ''LINT_BLOCKED'' (err_string e) CategoryValidation ExitError False suggestionLintBlocked
       else
         mk_structured ''INTERNAL'' (err_string e) CategoryInternal ExitError False suggestionInternal),
      Some e)"

definition classify_nonnil :: "api_preds \<Rightarrow> err \<Rightarrow> StructuredError \<times> err option" where
  "classify_nonnil api e =
     (case errors_as as_structured e of Some s \<Rightarrow> s
      | None \<Rightarrow> (case matchEntry (apiErrorTable api) e of Some s \<Rightarrow> s
      | None \<Rightarrow> (case matchEntry localErrorTable e of Some s \<Rightarrow> s
      | None \<Rightarrow> (case errors_as as_exit_code e of Some c \<Rightarrow> classifyFromExitCode c e
      | None \<Rightarrow> (mk_structured ''INTERNAL'' (err_string e) CategoryInternal
                   (ExitCodeFromCategory CategoryInternal) False suggestionInternal, Some e)))))"

definition Classify :: "api_preds \<Rightarrow> err option \<Rightarrow> (StructuredError \<times> err option) option" where
  "Classify api eo = (case eo of None \<Rightarrow> None | Some e \<Rightarrow> Some (classify_nonnil api e))"

section \<open>Exit codes (\<open>exitcode.go\<close>)\<close>

definition ExitCodeFromError :: "api_preds \<Rightarrow> err option \<Rightarrow> ExitCode" where
  "ExitCodeFromError api eo =
     (case eo of None \<Rightarrow> ExitSuccess
      | Some e \<Rightarrow> (case errors_as as_exit_code e of Some c \<Rightarrow> c
      | None \<Rightarrow> (case errors_as as_structured e of
          Some s \<Rightarrow> (if ExitCodeField (fst s) \<noteq> 0 then ExitCodeField (fst s)
                     else ExitCodeFromCategory (Category (fst s)))
      | None \<Rightarrow> (case Classify api (Some e) of
          Some s \<Rightarrow> ExitCodeFromCategory (Category (fst s)) | None \<Rightarrow> ExitError))))"

text \<open>The map \<open>exitCodePriority\<close>; a code that is not a key ranks as an error.\<close>

definition exitCodePriority :: "ExitCode \<rightharpoonup> nat" where
  "exitCodePriority = [ExitSuccess \<mapsto> 0, ExitWarning \<mapsto> 1, ExitError \<mapsto> 2,
     ExitValidation \<mapsto> 3, ExitAuth \<mapsto> 4, ExitConnection \<mapsto> 5]"

definition priority :: "ExitCode \<Rightarrow> nat" where
  "priority c = (case exitCodePriority c of Some p \<Rightarrow> p | None \<Rightarrow> 2)"

definition IsHigherPriority :: "ExitCode \<Rightarrow> ExitCode \<Rightarrow> bool" where
  "IsHigherPriority a b = (priority a > priority b)"

section \<open>Common errors (\<open>common.go\<close>)\<close>

abbreviation SuggestCheckKubeconfig :: string where
  "SuggestCheckKubeconfig \<equiv> ''Verify your kubeconfig is valid and the cluster is reachable''"
abbreviation SuggestCheckCluster :: string where
  "SuggestCheckCluster \<equiv> ''Ensure the cluster is running and accessible''"
abbreviation SuggestCheckODH :: string where
  "SuggestCheckODH \<equiv> ''Ensure ODH/RHOAI is properly installed''"
abbreviation SuggestRetry :: string where
  "SuggestRetry \<equiv> ''Try again; if the problem persists, check cluster connectivity''"

text \<open>
  \<open>classifyOrWrap\<close>, called with a non-nil error.
\<close>

definition classifyOrWrap ::
  "api_preds \<Rightarrow> err \<Rightarrow> string \<Rightarrow> string \<Rightarrow> string \<Rightarrow> ErrorCategory \<Rightarrow> bool \<Rightarrow> err" where
  "classifyOrWrap api e c ctxt sug cat retr =
     (case Classify api (Some e) of
        Some s \<Rightarrow> Structured ((fst s)\<lparr>Message := ctxt @ '': '' @ Message (fst s)\<rparr>) (snd s)
      | None \<Rightarrow> Structured (mk_structured c (ctxt @ '': '' @ err_string e) cat 0 retr sug) None)"

definition ErrConfigFailed :: "api_preds \<Rightarrow> err \<Rightarrow> err" where
  "ErrConfigFailed api e = classifyOrWrap api e ''CONFIG_FAILED'' ''failed to create REST config''
     SuggestCheckKubeconfig CategoryValidation False"

definition ErrClientFailed :: "api_preds \<Rightarrow> err \<Rightarrow> err" where
  "ErrClientFailed api e = classifyOrWrap api e ''CLIENT_FAILED'' ''failed to create Kubernetes client''
     SuggestCheckCluster CategoryConnection True"

definition ErrCRClientFailed :: "api_preds \<Rightarrow> err \<Rightarrow> err" where
  "ErrCRClientFailed api e = classifyOrWrap api e ''CLIENT_FAILED''
     ''failed to create controller-runtime client'' SuggestCheckCluster CategoryConnection True"

definition ErrNamespaceFailed :: "api_preds \<Rightarrow> err \<Rightarrow> err" where
  "ErrNamespaceFailed api e = classifyOrWrap api e ''NAMESPACE_FAILED''
     ''failed to determine namespace from kubeconfig'' SuggestCheckKubeconfig CategoryValidation False"

definition ErrDSCIFailed :: "api_preds \<Rightarrow> err \<Rightarrow> err" where
  "ErrDSCIFailed api e = classifyOrWrap api e ''DSCI_FAILED'' ''failed to get DSCInitialization''
     SuggestCheckODH CategoryInternal True"

definition ErrEventsFetchFailed :: "api_preds \<Rightarrow> err \<Rightarrow> err" where
  "ErrEventsFetchFailed api e = classifyOrWrap api e ''EVENTS_FETCH_FAILED'' ''failed to fetch events''
     SuggestRetry CategoryInternal True"

definition ErrNoNamespacesDiscovered :: err where
  "ErrNoNamespacesDiscovered = Structured (mk_structured ''NOT_FOUND''
     ''no ODH namespaces discovered'' CategoryNotFound 0 False SuggestCheckODH) None"

definition ErrOperatorNamespaceNotFound :: err where
  "ErrOperatorNamespaceNotFound = Structured (mk_structured ''NOT_FOUND''
     ''could not discover operator namespace'' CategoryNotFound 0 False
     ''Use --operator-namespace to specify the operator namespace'') None"

definition ErrRenderFailed :: "string \<Rightarrow> err \<Rightarrow> err" where
  "ErrRenderFailed format e = Structured (mk_structured ''RENDER_FAILED''
     (''failed to render '' @ format @ '' output: '' @ err_string e) CategoryInternal 0 False SuggestRetry) None"

section \<open>Reporting (\<open>output.go\<close>, \<open>cmd/main.go\<close>)\<close>

text \<open>
  The encoders are parameters (\<open>Inl\<close> when encoding fails), and so is the writer: which of the
  texts handed to it it accepts. The functions return the texts written and Go's result.
\<close>

type_synonym encoder = "StructuredError \<Rightarrow> string + string"
type_synonym out_writer = "string \<Rightarrow> bool"

definition structured_of :: "api_preds \<Rightarrow> err \<Rightarrow> StructuredError" where
  "structured_of api e = (case errors_as as_structured e of
     Some s \<Rightarrow> fst s | None \<Rightarrow> fst (classify_nonnil api e))"

definition WriteSuggestion :: "api_preds \<Rightarrow> err option \<Rightarrow> string list" where
  "WriteSuggestion api eo = (case eo of None \<Rightarrow> []
     | Some e \<Rightarrow> [''Suggestion: '' @ Suggestion (structured_of api e) @ nl])"

definition WriteTextError :: "api_preds \<Rightarrow> out_writer \<Rightarrow> err option \<Rightarrow> string list \<times> bool" where
  "WriteTextError api w eo = (case eo of None \<Rightarrow> ([], False)
     | Some e \<Rightarrow>
       (let s = structured_of api e;
            t = Message s @ nl @ ''Suggestion: '' @ Suggestion s @ nl
        in ([t], w t)))"

definition WriteStructuredError ::
  "api_preds \<Rightarrow> encoder \<Rightarrow> encoder \<Rightarrow> out_writer \<Rightarrow> err option \<Rightarrow> string \<Rightarrow> string list \<times> bool" where
  "WriteStructuredError api json yaml w eo format =
     (case eo of None \<Rightarrow> ([], False)
      | Some e \<Rightarrow>
        (let s = structured_of api e; failed = ''Error: '' @ err_string e @ nl in
         if format = ''json'' then
           (case json s of Inl _ \<Rightarrow> ([failed], w failed)
            | Inr data \<Rightarrow> ([data @ nl], w (data @ nl)))
         else if format = ''yaml'' then
           (case yaml s of Inl _ \<Rightarrow> ([failed], w failed)
            | Inr data \<Rightarrow> ([data], w data))
         else ([], False)))"

definition HandleError ::
  "api_preds \<Rightarrow> encoder \<Rightarrow> encoder \<Rightarrow> out_writer \<Rightarrow> err option \<Rightarrow> string \<Rightarrow> string list \<times> err option" where
  "HandleError api json yaml w eo format =
     (case eo of None \<Rightarrow> ([], None)
      | Some e \<Rightarrow>
        (case WriteStructuredError api json yaml w eo format of
           (out, True) \<Rightarrow> (out, Some (NewAlreadyHandledError e))
         | (out, False) \<Rightarrow>
             (out @ fst (WriteTextError api w eo), Some (NewAlreadyHandledError e))))"

text \<open>\<open>main\<close>, given the error of \<open>cmd.Execute\<close>: what it writes to stderr and the exit code.\<close>

definition main_exit :: "api_preds \<Rightarrow> err option \<Rightarrow> string list \<times> ExitCode" where
  "main_exit api eo = (case eo of None \<Rightarrow> ([], 0)
     | Some e \<Rightarrow>
       (if \<not> errors_is (\<lambda>x. x = Sentinel ErrAlreadyHandled) e then [err_string e @ nl] else [],
        ExitCodeFromError api eo))"

section \<open>Lemmas on chains and classification\<close>

lemma chain_self: "e \<in> set (chain e)"
  by (cases e rule: chain.cases) auto

lemma errors_as_Wrap:
  "f (Wrap m es) = None \<Longrightarrow> errors_as f (Wrap m es) = first_some f (concat (map chain es))"
  by (simp add: errors_as_def)

lemma errors_as_handled:
  assumes "\<And>m es. f (Wrap m es) = None" and "f (Sentinel ErrAlreadyHandled) = None"
  shows "errors_as f (NewAlreadyHandledError e) = errors_as f e"
  using assms by (simp add: NewAlreadyHandledError_def errors_as_Wrap) (simp add: errors_as_def)

lemma errors_is_handled:
  assumes "\<And>m es. \<not> p (Wrap m es)" and "\<not> p (Sentinel ErrAlreadyHandled)"
  shows "errors_is p (NewAlreadyHandledError e) = errors_is p e"
  using assms by (simp add: NewAlreadyHandledError_def errors_is_def)

lemma matchEntry_entry:
  "matchEntry t e = Some s \<Longrightarrow>
     \<exists>en\<in>set t. check en e \<and> s = (entry_error en e, Some e)"
  by (induction t) (auto split: if_splits)

lemma matchEntry_None_iff: "matchEntry t e = None \<longleftrightarrow> (\<forall>en\<in>set t. \<not> check en e)"
  by (induction t) auto

lemma matchEntry_cong:
  assumes "\<And>en. en \<in> set t \<Longrightarrow> check en e = check en e'"
  shows "map_option (Category \<circ> fst) (matchEntry t e) = map_option (Category \<circ> fst) (matchEntry t e')"
  using assms by (induction t) (auto simp: entry_error_def)

lemma matchEntry_exit_code:
  "matchEntry t e = Some s \<Longrightarrow> ExitCodeField (fst s) = ExitCodeFromCategory (Category (fst s))"
  by (auto dest!: matchEntry_entry simp: entry_error_def)

lemma Classify_total: "Classify api (Some e) = Some (classify_nonnil api e)"
  by (simp add: Classify_def)

lemma ExitCodeFromCategory_range: "ExitCodeFromCategory cat \<in> {1, 3, 4, 5}"
  by (simp add: ExitCodeFromCategory_def)

lemma local_check_handled:
  "en \<in> set localErrorTable \<Longrightarrow> check en (NewAlreadyHandledError e) = check en e"
  by (auto simp: localErrorTable_def isDeadlineExceeded_def isContextCanceled_def
      isPermissionError_def isFilesystemError_def isConfigError_def isTLSError_def isDNSError_def
      isNetworkTimeout_def isNetworkError_def errors_is_handled errors_as_handled)

lemmas local_check_defs = isDeadlineExceeded_def isContextCanceled_def isPermissionError_def
  isFilesystemError_def isConfigError_def isTLSError_def isDNSError_def isNetworkTimeout_def
  isNetworkError_def errors_is_def errors_as_def

text \<open>
  What the program relies on of \<open>apierrors\<close>: its predicates look through wrapping (they use
  \<open>errors.As\<close>) and a sentinel is not an API error.
\<close>

definition api_see_through :: "api_preds \<Rightarrow> bool" where
  "api_see_through api \<longleftrightarrow> (\<forall>c m e. api c (Wrap m [e]) = api c e
     \<and> (\<forall>s. api c (Wrap m [Sentinel s, e]) = api c e))"

lemma api_check_handled:
  "api_see_through api \<Longrightarrow> en \<in> set (apiErrorTable api) \<Longrightarrow>
     check en (NewAlreadyHandledError e) = check en e"
  by (auto simp: apiErrorTable_def api_see_through_def NewAlreadyHandledError_def)

lemma ExitCodeFromError_tables:
  assumes "errors_as as_exit_code e = None" and "errors_as as_structured e = None"
  shows "ExitCodeFromError api (Some e) =
    (case map_option (Category \<circ> fst) (matchEntry (apiErrorTable api) e) of
       Some c \<Rightarrow> ExitCodeFromCategory c
     | None \<Rightarrow> (case map_option (Category \<circ> fst) (matchEntry localErrorTable e) of
         Some c \<Rightarrow> ExitCodeFromCategory c | None \<Rightarrow> ExitError))"
  using assms
  by (cases "matchEntry (apiErrorTable api) e"; cases "matchEntry localErrorTable e")
     (simp_all add: ExitCodeFromError_def Classify_def classify_nonnil_def ExitCodeFromCategory_def)

lemma ExitCodeFromError_explicit:
  "errors_as as_exit_code e = Some c \<Longrightarrow> ExitCodeFromError api (Some e) = c"
  by (simp add: ExitCodeFromError_def)

lemma ExitCodeFromError_structured:
  "errors_as as_exit_code e = None \<Longrightarrow> errors_as as_structured e = Some s \<Longrightarrow>
     ExitCodeFromError api (Some e) =
       (if ExitCodeField (fst s) \<noteq> 0 then ExitCodeField (fst s) else ExitCodeFromCategory (Category (fst s)))"
  by (simp add: ExitCodeFromError_def)

lemma exit_code_handled:
  assumes "api_see_through api"
  shows "ExitCodeFromError api (Some (NewAlreadyHandledError e)) = ExitCodeFromError api (Some e)"
proof -
  let ?h = "NewAlreadyHandledError e"
  have as: "errors_as as_exit_code ?h = errors_as as_exit_code e"
    "errors_as as_structured ?h = errors_as as_structured e"
    by (simp_all add: errors_as_handled)
  have m1: "map_option (Category \<circ> fst) (matchEntry (apiErrorTable api) ?h)
      = map_option (Category \<circ> fst) (matchEntry (apiErrorTable api) e)"
    using assms by (intro matchEntry_cong) (rule api_check_handled)
  have m2: "map_option (Category \<circ> fst) (matchEntry localErrorTable ?h)
      = map_option (Category \<circ> fst) (matchEntry localErrorTable e)"
    by (intro matchEntry_cong) (rule local_check_handled)
  show ?thesis
  proof (cases "errors_as as_exit_code e")
    case (Some c)
    with as show ?thesis by (simp add: ExitCodeFromError_explicit)
  next
    case exit: None
    show ?thesis
    proof (cases "errors_as as_structured e")
      case (Some s)
      with exit as show ?thesis by (simp add: ExitCodeFromError_structured)
    next
      case None
      with exit as have h: "errors_as as_exit_code ?h = None" "errors_as as_structured ?h = None"
        by simp_all
      show ?thesis
        unfolding ExitCodeFromError_tables [OF h] ExitCodeFromError_tables [OF exit None] m1 m2 ..
    qed
  qed
qed

lemma WriteStructuredError_format:
  "format \<noteq> ''json'' \<Longrightarrow> format \<noteq> ''yaml'' \<Longrightarrow>
     WriteStructuredError api json yaml w (Some e) format = ([], False)"
  by (simp add: WriteStructuredError_def Let_def)

lemma HandleError_result: "snd (HandleError api json yaml w eo format) = map_option NewAlreadyHandledError eo"
  by (cases eo) (auto simp: HandleError_def split: prod.splits bool.splits)

lemma classify_table_entry:
  assumes "errors_as as_structured e = None"
    and "matchEntry (apiErrorTable api) e = Some s \<or>
         (matchEntry (apiErrorTable api) e = None \<and> matchEntry localErrorTable e = Some s)"
  shows "classify_nonnil api e = s"
  using assms by (auto simp: classify_nonnil_def)

lemma classifyFromExitCode_code:
  "c \<in> {1, 2, 3, 4, 5} \<Longrightarrow> ExitCodeField (fst (classifyFromExitCode c e)) = c"
  by (auto simp: classifyFromExitCode_def)

section \<open>Properties\<close>

text \<open>
  When a command reports its error through \<open>HandleError\<close>, in whatever format, \<open>main\<close> prints
  nothing a second time and the process exits with the code of the original error.
\<close>

theorem HandleError_main_exit:
  assumes "api_see_through api"
  shows "main_exit api (snd (HandleError api json yaml w (Some e) format))
    = ([], ExitCodeFromError api (Some e))"
  using exit_code_handled [OF assms, of e]
  by (simp add: HandleError_result main_exit_def errors_is_def NewAlreadyHandledError_def)

definition status_api :: api_preds where
  "status_api c e = (case filter (\<lambda>x. case x of Foreign ty m \<Rightarrow> True | _ \<Rightarrow> False) (chain e) of
     Foreign ty m # _ \<Rightarrow> (ty = ''Unauthorized'' \<and> c = IsUnauthorized) \<or> (ty = ''NotFound'' \<and> c = IsNotFound)
     | _ \<Rightarrow> False)"

theorem HandleError_main_exit_witness:
  "api_see_through status_api \<and>
   main_exit status_api (snd (HandleError status_api (\<lambda>s. Inr (Code s)) (\<lambda>s. Inr (Code s)) (\<lambda>_. True)
      (Some (Foreign ''Unauthorized'' ''token expired'')) ''json'')) = ([], 4)"
proof -
  have a: "api_see_through status_api"
    by (simp add: api_see_through_def status_api_def)
  have c: "ExitCodeFromError status_api (Some (Foreign ''Unauthorized'' ''token expired'')) = 4"
    by (simp add: ExitCodeFromError_def Classify_def classify_nonnil_def errors_as_def
        apiErrorTable_def entry_error_def ExitCodeFromCategory_def status_api_def)
  show ?thesis using a c HandleError_main_exit [OF a] by simp
qed

text \<open>
  The structured error the CLI renders carries the exit code of the process: this holds for
  every error that has no structured error in its chain, provided an explicit exit code
  in the chain is one of the documented codes 1 to 5 and, where the tables classify the error,
  is the code of that classification.
\<close>

theorem structured_exit_code_agrees:
  assumes ns: "errors_as as_structured e = None"
    and explicit: "\<And>c. errors_as as_exit_code e = Some c \<Longrightarrow>
       c \<in> {1, 2, 3, 4, 5} \<and>
       (\<forall>t s. t \<in> {apiErrorTable api, localErrorTable} \<longrightarrow> matchEntry t e = Some s
          \<longrightarrow> ExitCodeFromCategory (Category (fst s)) = c)"
  shows "ExitCodeField (structured_of api e) = ExitCodeFromError api (Some e)"
proof -
  have so: "structured_of api e = fst (classify_nonnil api e)"
    using ns by (simp add: structured_of_def)
  consider (tab) t s where "t \<in> {apiErrorTable api, localErrorTable}"
      "matchEntry t e = Some s" "classify_nonnil api e = s"
    | (none) "matchEntry (apiErrorTable api) e = None" "matchEntry localErrorTable e = None"
    using ns by (cases "matchEntry (apiErrorTable api) e"; cases "matchEntry localErrorTable e")
       (auto dest: classify_table_entry)
  then show ?thesis
  proof cases
    case tab
    show ?thesis
    proof (cases "errors_as as_exit_code e")
      case None
      with tab ns so show ?thesis
        by (simp add: matchEntry_exit_code ExitCodeFromError_def Classify_def)
    next
      case (Some c)
      from tab explicit [OF Some] have "ExitCodeFromCategory (Category (fst s)) = c" by blast
      with tab Some so show ?thesis
        by (simp add: matchEntry_exit_code ExitCodeFromError_explicit)
    qed
  next
    case none
    show ?thesis
    proof (cases "errors_as as_exit_code e")
      case None
      with none ns so show ?thesis
        by (simp add: ExitCodeFromError_tables classify_nonnil_def ExitCodeFromCategory_def)
    next
      case (Some c)
      with none ns so explicit [OF Some] show ?thesis
        by (simp add: ExitCodeFromError_explicit classify_nonnil_def classifyFromExitCode_code)
    qed
  qed
qed

theorem structured_exit_code_agrees_witness:
  "errors_as as_structured (ExitCodeError 2 (NewError ''advisory'')) = None \<and>
   ExitCodeField (structured_of status_api (ExitCodeError 2 (NewError ''advisory'')))
     = ExitCodeFromError status_api (Some (ExitCodeError 2 (NewError ''advisory'')))"
proof -
  let ?e = "ExitCodeError 2 (NewError ''advisory'')"
  have ns: "errors_as as_structured ?e = None" by (simp add: errors_as_def)
  have m: "matchEntry (apiErrorTable status_api) ?e = None" "matchEntry localErrorTable ?e = None"
    by (simp_all add: apiErrorTable_def localErrorTable_def status_api_def local_check_defs)
  have "ExitCodeField (structured_of status_api ?e) = ExitCodeFromError status_api (Some ?e)"
    by (rule structured_exit_code_agrees [OF ns]) (use m in \<open>auto simp: errors_as_def\<close>)
  with ns show ?thesis by blast
qed

text \<open>
  A validation error made by \<open>NewValidationError\<close> is rendered with \<open>exitCode\<close> 0 in the JSON and
  YAML output while the process exits with code 3: the constructor leaves the field \<open>ExitCode\<close>
  unset.
\<close>

theorem validation_error_renders_success_code:
  "ExitCodeField (structured_of api (NewValidationError c m sg)) = ExitSuccess
   \<and> ExitCodeFromError api (Some (NewValidationError c m sg)) = ExitValidation"
  by (simp add: NewValidationError_def structured_of_def ExitCodeFromError_def errors_as_def
      ExitCodeFromCategory_def)

text \<open>
  The fallback of \<open>classifyOrWrap\<close> is never taken: whatever code, suggestion, category and
  retriable flag its callers pass, the result is the classification of the error with the
  context prepended. In particular a plain error during the creation of the REST
  configuration is reported as \<open>INTERNAL\<close>, not as \<open>CONFIG_FAILED\<close>.
\<close>

theorem classifyOrWrap_fallback_unreachable:
  "classifyOrWrap api e c ctxt sg cat r = classifyOrWrap api e c' ctxt sg' cat' r'
   \<and> as_structured (classifyOrWrap api e c ctxt sg cat r) =
       Some ((structured_of api e)\<lparr>Message := ctxt @ '': '' @ Message (structured_of api e)\<rparr>,
             snd (classify_nonnil api e))
   \<and> map_option (\<lambda>s. (Code (fst s), Category (fst s)))
        (as_structured (ErrConfigFailed (\<lambda>_ _. False) (NewError m))) = Some (''INTERNAL'', CategoryInternal)
   \<and> ExitCodeFromError (\<lambda>_ _. False) (Some (ErrConfigFailed (\<lambda>_ _. False) (NewError m))) = ExitError"
proof -
  have n: "matchEntry (apiErrorTable (\<lambda>_ _. False)) (NewError m) = None"
    "matchEntry localErrorTable (NewError m) = None"
    by (simp_all add: apiErrorTable_def localErrorTable_def local_check_defs)
  have so: "structured_of api e = fst (classify_nonnil api e)"
    by (simp add: structured_of_def classify_nonnil_def split: option.split)
  have "classifyOrWrap api e c ctxt sg cat r =
      Structured ((structured_of api e)\<lparr>Message := ctxt @ '': '' @ Message (structured_of api e)\<rparr>)
        (snd (classify_nonnil api e))" for c sg cat r
    by (simp add: so classifyOrWrap_def Classify_total)
  moreover have "ErrConfigFailed (\<lambda>_ _. False) (NewError m) =
      Structured (mk_structured ''INTERNAL'' (''failed to create REST config: '' @ m) CategoryInternal
        ExitError False suggestionInternal) (Some (NewError m))"
    using n by (simp add: ErrConfigFailed_def classifyOrWrap_def Classify_total classify_nonnil_def
        errors_as_def ExitCodeFromCategory_def)
  ultimately show ?thesis by (simp add: ExitCodeFromError_def errors_as_def)
qed

text \<open>
  \<open>IsHigherPriority\<close> is a strict weak order on exit codes with the documented precedence
  Connection, Auth, Validation, Error, Warning, Success; codes outside the table rank
  with Error, above Success and Warning.
\<close>

theorem IsHigherPriority_precedence:
  "sorted_wrt IsHigherPriority [ExitConnection, ExitAuth, ExitValidation, ExitError, ExitWarning, ExitSuccess]
   \<and> irreflp IsHigherPriority \<and> transp IsHigherPriority
   \<and> (\<forall>a b c. IsHigherPriority a c \<longrightarrow> IsHigherPriority a b \<or> IsHigherPriority b c)
   \<and> (\<forall>c. c \<notin> {0, 1, 2, 3, 4, 5} \<longrightarrow>
        IsHigherPriority c ExitWarning \<and> \<not> IsHigherPriority c ExitError \<and> \<not> IsHigherPriority ExitError c)"
proof -
  have un: "c \<notin> {0, 1, 2, 3, 4, 5} \<Longrightarrow> priority c = 2" for c
    by (simp add: priority_def exitCodePriority_def)
  have "sorted_wrt IsHigherPriority [5, 4, 3, 1, 2, 0]"
    by (simp add: IsHigherPriority_def priority_def exitCodePriority_def)
  moreover have "irreflp IsHigherPriority" "transp IsHigherPriority"
    by (auto simp: IsHigherPriority_def intro!: irreflpI transpI)
  moreover have "priority 2 = 1" "priority 1 = 2"
    by (simp_all add: priority_def exitCodePriority_def)
  ultimately show ?thesis using un by (auto simp: IsHigherPriority_def)
qed

theorem IsHigherPriority_precedence_witness:
  "IsHigherPriority 7 ExitWarning \<and> \<not> IsHigherPriority 7 ExitError"
  using IsHigherPriority_precedence by simp

end
