(* ===== verification/Resources.thy ===== *)
theory Resources
  imports Errors
begin

text \<open>
  The package \<open>pkg/resources\<close>: resource types with their names, and the central list of the types
  the program uses (\<open>types.go\<close>).
\<close>

record ResourceType =
  rtGroup :: string
  rtVersion :: string
  rtKind :: string
  rtResource :: string

definition CRDFQN :: "ResourceType \<Rightarrow> string" where
  "CRDFQN r = (if rtGroup r = [] then rtResource r else rtResource r @ ''.'' @ rtGroup r)"

definition APIVersion :: "ResourceType \<Rightarrow> string" where
  "APIVersion r = (if rtGroup r = [] then rtVersion r else rtGroup r @ ''/'' @ rtVersion r)"

definition GVR :: "ResourceType \<Rightarrow> string \<times> string \<times> string" where
  "GVR r = (rtGroup r, rtVersion r, rtResource r)"

definition ListKind :: "ResourceType \<Rightarrow> string" where
  "ListKind r = rtKind r @ ''List''"

definition mk_resource :: "string \<Rightarrow> string \<Rightarrow> string \<Rightarrow> string \<Rightarrow> ResourceType" where
  "mk_resource g v k r = \<lparr>rtGroup = g, rtVersion = v, rtKind = k, rtResource = r\<rparr>"

definition rt_DataScienceCluster :: ResourceType where
  "rt_DataScienceCluster = mk_resource ''datasciencecluster.opendatahub.io'' ''v2'' ''DataScienceCluster'' ''datascienceclusters''"

definition rt_DataScienceClusterV1 :: ResourceType where
  "rt_DataScienceClusterV1 = mk_resource ''datasciencecluster.opendatahub.io'' ''v1'' ''DataScienceCluster'' ''datascienceclusters''"

definition rt_DSCInitialization :: ResourceType where
  "rt_DSCInitialization = mk_resource ''dscinitialization.opendatahub.io'' ''v2'' ''DSCInitialization'' ''dscinitializations''"

definition rt_DSCInitializationV1 :: ResourceType where
  "rt_DSCInitializationV1 = mk_resource ''dscinitialization.opendatahub.io'' ''v1'' ''DSCInitialization'' ''dscinitializations''"

definition rt_DataSciencePipelinesApplicationV1 :: ResourceType where
  "rt_DataSciencePipelinesApplicationV1 = mk_resource ''datasciencepipelinesapplications.opendatahub.io'' ''v1'' ''DataSciencePipelinesApplication'' ''datasciencepipelinesapplications''"

definition rt_DataSciencePipelinesApplicationV1Alpha1 :: ResourceType where
  "rt_DataSciencePipelinesApplicationV1Alpha1 = mk_resource ''datasciencepipelinesapplications.opendatahub.io'' ''v1alpha1'' ''DataSciencePipelinesApplication'' ''datasciencepipelinesapplications''"

definition rt_StatefulSet :: ResourceType where
  "rt_StatefulSet = mk_resource ''apps'' ''v1'' ''StatefulSet'' ''statefulsets''"

definition rt_ReplicaSet :: ResourceType where
  "rt_ReplicaSet = mk_resource ''apps'' ''v1'' ''ReplicaSet'' ''replicasets''"

definition rt_DaemonSet :: ResourceType where
  "rt_DaemonSet = mk_resource ''apps'' ''v1'' ''DaemonSet'' ''daemonsets''"

definition rt_Deployment :: ResourceType where
  "rt_Deployment = mk_resource ''apps'' ''v1'' ''Deployment'' ''deployments''"

definition rt_Job :: ResourceType where
  "rt_Job = mk_resource ''batch'' ''v1'' ''Job'' ''jobs''"

definition rt_CronJob :: ResourceType where
  "rt_CronJob = mk_resource ''batch'' ''v1'' ''CronJob'' ''cronjobs''"

definition rt_Namespace :: ResourceType where
  "rt_Namespace = mk_resource [] ''v1'' ''Namespace'' ''namespaces''"

definition rt_Pod :: ResourceType where
  "rt_Pod = mk_resource [] ''v1'' ''Pod'' ''pods''"

definition rt_Service :: ResourceType where
  "rt_Service = mk_resource [] ''v1'' ''Service'' ''services''"

definition rt_ConfigMap :: ResourceType where
  "rt_ConfigMap = mk_resource [] ''v1'' ''ConfigMap'' ''configmaps''"

definition rt_Secret :: ResourceType where
  "rt_Secret = mk_resource [] ''v1'' ''Secret'' ''secrets''"

definition rt_ServiceAccount :: ResourceType where
  "rt_ServiceAccount = mk_resource [] ''v1'' ''ServiceAccount'' ''serviceaccounts''"

definition rt_Role :: ResourceType where
  "rt_Role = mk_resource ''rbac.authorization.k8s.io'' ''v1'' ''Role'' ''roles''"

definition rt_RoleBinding :: ResourceType where
  "rt_RoleBinding = mk_resource ''rbac.authorization.k8s.io'' ''v1'' ''RoleBinding'' ''rolebindings''"

definition rt_PersistentVolumeClaim :: ResourceType where
  "rt_PersistentVolumeClaim = mk_resource [] ''v1'' ''PersistentVolumeClaim'' ''persistentvolumeclaims''"

definition rt_Notebook :: ResourceType where
  "rt_Notebook = mk_resource ''kubeflow.org'' ''v1'' ''Notebook'' ''notebooks''"

definition rt_CustomResourceDefinition :: ResourceType where
  "rt_CustomResourceDefinition = mk_resource ''apiextensions.k8s.io'' ''v1'' ''CustomResourceDefinition'' ''customresourcedefinitions''"

definition rt_ClusterServiceVersion :: ResourceType where
  "rt_ClusterServiceVersion = mk_resource ''operators.coreos.com'' ''v1alpha1'' ''ClusterServiceVersion'' ''clusterserviceversions''"

definition rt_Subscription :: ResourceType where
  "rt_Subscription = mk_resource ''operators.coreos.com'' ''v1alpha1'' ''Subscription'' ''subscriptions''"

definition rt_ClusterExtension :: ResourceType where
  "rt_ClusterExtension = mk_resource ''olm.operatorframework.io'' ''v1'' ''ClusterExtension'' ''clusterextensions''"

definition rt_ClusterCatalog :: ResourceType where
  "rt_ClusterCatalog = mk_resource ''olm.operatorframework.io'' ''v1'' ''ClusterCatalog'' ''clustercatalogs''"

definition rt_InstallPlan :: ResourceType where
  "rt_InstallPlan = mk_resource ''operators.coreos.com'' ''v1alpha1'' ''InstallPlan'' ''installplans''"

definition rt_OperatorGroup :: ResourceType where
  "rt_OperatorGroup = mk_resource ''operators.coreos.com'' ''v1'' ''OperatorGroup'' ''operatorgroups''"

definition rt_ClusterQueue :: ResourceType where
  "rt_ClusterQueue = mk_resource ''kueue.x-k8s.io'' ''v1beta1'' ''ClusterQueue'' ''clusterqueues''"

definition rt_LocalQueue :: ResourceType where
  "rt_LocalQueue = mk_resource ''kueue.x-k8s.io'' ''v1beta1'' ''LocalQueue'' ''localqueues''"

definition rt_InferenceService :: ResourceType where
  "rt_InferenceService = mk_resource ''serving.kserve.io'' ''v1beta1'' ''InferenceService'' ''inferenceservices''"

definition rt_ServingRuntime :: ResourceType where
  "rt_ServingRuntime = mk_resource ''serving.kserve.io'' ''v1alpha1'' ''ServingRuntime'' ''servingruntimes''"

definition rt_RayCluster :: ResourceType where
  "rt_RayCluster = mk_resource ''ray.io'' ''v1'' ''RayCluster'' ''rayclusters''"

definition rt_RayJob :: ResourceType where
  "rt_RayJob = mk_resource ''ray.io'' ''v1'' ''RayJob'' ''rayjobs''"

definition rt_PyTorchJob :: ResourceType where
  "rt_PyTorchJob = mk_resource ''kubeflow.org'' ''v1'' ''PyTorchJob'' ''pytorchjobs''"

definition rt_TFJob :: ResourceType where
  "rt_TFJob = mk_resource ''kubeflow.org'' ''v1'' ''TFJob'' ''tfjobs''"

definition rt_MPIJob :: ResourceType where
  "rt_MPIJob = mk_resource ''kubeflow.org'' ''v1'' ''MPIJob'' ''mpijobs''"

definition rt_XGBoostJob :: ResourceType where
  "rt_XGBoostJob = mk_resource ''kubeflow.org'' ''v1'' ''XGBoostJob'' ''xgboostjobs''"

definition rt_TrainJob :: ResourceType where
  "rt_TrainJob = mk_resource ''trainer.kubeflow.org'' ''v1alpha1'' ''TrainJob'' ''trainjobs''"

definition rt_GuardrailsOrchestrator :: ResourceType where
  "rt_GuardrailsOrchestrator = mk_resource ''trustyai.opendatahub.io'' ''v1alpha1'' ''GuardrailsOrchestrator'' ''guardrailsorchestrators''"

definition rt_AppWrapper :: ResourceType where
  "rt_AppWrapper = mk_resource ''workload.codeflare.dev'' ''v1beta2'' ''AppWrapper'' ''appwrappers''"

definition rt_OdhDashboardConfig :: ResourceType where
  "rt_OdhDashboardConfig = mk_resource ''opendatahub.io'' ''v1alpha'' ''OdhDashboardConfig'' ''odhdashboardconfigs''"

definition rt_ClusterAutoscaler :: ResourceType where
  "rt_ClusterAutoscaler = mk_resource ''autoscaling.openshift.io'' ''v1'' ''ClusterAutoscaler'' ''clusterautoscalers''"

definition rt_Node :: ResourceType where
  "rt_Node = mk_resource [] ''v1'' ''Node'' ''nodes''"

definition rt_ClusterVersion :: ResourceType where
  "rt_ClusterVersion = mk_resource ''config.openshift.io'' ''v1'' ''ClusterVersion'' ''clusterversions''"

definition rt_AcceleratorProfile :: ResourceType where
  "rt_AcceleratorProfile = mk_resource ''dashboard.opendatahub.io'' ''v1'' ''AcceleratorProfile'' ''acceleratorprofiles''"

definition rt_HardwareProfile :: ResourceType where
  "rt_HardwareProfile = mk_resource ''dashboard.opendatahub.io'' ''v1alpha1'' ''HardwareProfile'' ''hardwareprofiles''"

definition rt_InfrastructureHardwareProfile :: ResourceType where
  "rt_InfrastructureHardwareProfile = mk_resource ''infrastructure.opendatahub.io'' ''v1'' ''HardwareProfile'' ''hardwareprofiles''"

definition rt_LlamaStackDistribution :: ResourceType where
  "rt_LlamaStackDistribution = mk_resource ''llamastack.io'' ''v1alpha1'' ''LlamaStackDistribution'' ''llamastackdistributions''"

definition rt_OGXServer :: ResourceType where
  "rt_OGXServer = mk_resource ''ogx.io'' ''v1beta1'' ''OGXServer'' ''ogxservers''"

definition rt_Kuadrant :: ResourceType where
  "rt_Kuadrant = mk_resource ''kuadrant.io'' ''v1beta1'' ''Kuadrant'' ''kuadrants''"

definition rt_Authorino :: ResourceType where
  "rt_Authorino = mk_resource ''operator.authorino.kuadrant.io'' ''v1beta1'' ''Authorino'' ''authorinos''"

definition rt_LLMInferenceService :: ResourceType where
  "rt_LLMInferenceService = mk_resource ''serving.kserve.io'' ''v1alpha1'' ''LLMInferenceService'' ''llminferenceservices''"

definition rt_ImageStream :: ResourceType where
  "rt_ImageStream = mk_resource ''image.openshift.io'' ''v1'' ''ImageStream'' ''imagestreams''"

definition rt_ImageStreamTag :: ResourceType where
  "rt_ImageStreamTag = mk_resource ''image.openshift.io'' ''v1'' ''ImageStreamTag'' ''imagestreamtags''"

definition rt_PackageManifest :: ResourceType where
  "rt_PackageManifest = mk_resource ''packages.operators.coreos.com'' ''v1'' ''PackageManifest'' ''packagemanifests''"

definition rt_HTTPRoute :: ResourceType where
  "rt_HTTPRoute = mk_resource ''gateway.networking.k8s.io'' ''v1'' ''HTTPRoute'' ''httproutes''"

definition rt_Gateway :: ResourceType where
  "rt_Gateway = mk_resource ''gateway.networking.k8s.io'' ''v1'' ''Gateway'' ''gateways''"

definition rt_OAuthClient :: ResourceType where
  "rt_OAuthClient = mk_resource ''oauth.openshift.io'' ''v1'' ''OAuthClient'' ''oauthclients''"

definition rt_Route :: ResourceType where
  "rt_Route = mk_resource ''route.openshift.io'' ''v1'' ''Route'' ''routes''"

definition rt_TrustyAIService :: ResourceType where
  "rt_TrustyAIService = mk_resource ''trustyai.opendatahub.io'' ''v1alpha1'' ''TrustyAIService'' ''trustyaiservices''"

definition rt_ServiceMeshControlPlane :: ResourceType where
  "rt_ServiceMeshControlPlane = mk_resource ''maistra.io'' ''v2'' ''ServiceMeshControlPlane'' ''servicemeshcontrolplanes''"

definition rt_ServiceMeshMemberRoll :: ResourceType where
  "rt_ServiceMeshMemberRoll = mk_resource ''maistra.io'' ''v1'' ''ServiceMeshMemberRoll'' ''servicemeshmemberrolls''"

definition rt_ServiceMeshMember :: ResourceType where
  "rt_ServiceMeshMember = mk_resource ''maistra.io'' ''v1'' ''ServiceMeshMember'' ''servicemeshmembers''"

definition rt_VirtualService :: ResourceType where
  "rt_VirtualService = mk_resource ''networking.istio.io'' ''v1beta1'' ''VirtualService'' ''virtualservices''"

definition rt_KnativeServing :: ResourceType where
  "rt_KnativeServing = mk_resource ''operator.knative.dev'' ''v1beta1'' ''KnativeServing'' ''knativeservings''"

definition rt_KnativeEventing :: ResourceType where
  "rt_KnativeEventing = mk_resource ''operator.knative.dev'' ''v1beta1'' ''KnativeEventing'' ''knativeeventings''"

definition rt_StorageVersionMigration :: ResourceType where
  "rt_StorageVersionMigration = mk_resource ''storagemigration.k8s.io'' ''v1'' ''StorageVersionMigration'' ''storageversionmigrations''"

definition rt_StorageVersionMigrationBeta :: ResourceType where
  "rt_StorageVersionMigrationBeta = mk_resource ''storagemigration.k8s.io'' ''v1beta1'' ''StorageVersionMigration'' ''storageversionmigrations''"

definition rt_StorageVersionMigrationAlpha :: ResourceType where
  "rt_StorageVersionMigrationAlpha = mk_resource ''storagemigration.k8s.io'' ''v1alpha1'' ''StorageVersionMigration'' ''storageversionmigrations''"

definition rt_OpenShiftStorageVersionMigration :: ResourceType where
  "rt_OpenShiftStorageVersionMigration = mk_resource ''migration.k8s.io'' ''v1alpha1'' ''StorageVersionMigration'' ''storageversionmigrations''"

definition rt_KnativeService :: ResourceType where
  "rt_KnativeService = mk_resource ''serving.knative.dev'' ''v1'' ''Service'' ''services''"

end
