(* ===== verification/LintResult.thy ===== *)
theory LintResult
  imports Resources
begin

text \<open>
  Diagnostic results: \<open>pkg/lint/check/result/result.go\<close>, \<open>pkg/lint/check/condition.go\<close>, the
  envelope of \<open>pkg/output/envelope.go\<close>.
  Impacts and statuses are open string types in the source and stay strings here. Time
  stamps are left out: no operation reads them.
\<close>

section \<open>Data\<close>

type_synonym Impact = string

abbreviation ImpactProhibited :: Impact where "ImpactProhibited \<equiv> ''prohibited''"
abbreviation ImpactBlocking :: Impact where "ImpactBlocking \<equiv> ''blocking''"
abbreviation ImpactAdvisory :: Impact where "ImpactAdvisory \<equiv> ''advisory''"
abbreviation (input) ImpactNone :: Impact where "ImpactNone \<equiv> []"

type_synonym ConditionStatus = string

abbreviation ConditionTrue :: ConditionStatus where "ConditionTrue \<equiv> ''True''"
abbreviation ConditionFalse :: ConditionStatus where "ConditionFalse \<equiv> ''False''"
abbreviation ConditionUnknown :: ConditionStatus where "ConditionUnknown \<equiv> ''Unknown''"

record Condition =
  CondType :: string
  CondStatus :: ConditionStatus
  CondReason :: string
  CondMessage :: string
  CondImpact :: Impact
  Remediation :: string

text \<open>\<open>metav1.PartialObjectMetadata\<close>, with the fields the program reads and writes.\<close>

record ObjectMeta =
  omAPIVersion :: string
  omKind :: string
  omNamespace :: string
  omName :: string
  omAnnotations :: "(string, string) gomap"

record DiagnosticResult =
  Group :: string
  Kind :: string
  Name :: string
  Annotations :: "(string, string) gomap"
  Description :: string
  Conditions :: "Condition list"
  ImpactedObjects :: "ObjectMeta list"

abbreviation AnnotationResourceCRDName :: string where
  "AnnotationResourceCRDName \<equiv> ''resource.opendatahub.io/crd-name''"

section \<open>Validation\<close>

definition ConditionValidate :: "Condition \<Rightarrow> err option" where
  "ConditionValidate c =
     (if CondStatus c = ConditionTrue then
        (if CondImpact c \<noteq> ImpactNone then
           Some (NewError (''condition with Status=True must have Impact=None, got Impact=''
             @ go_quote (CondImpact c) @ '' (if there's an impact, the condition is not met)''))
         else None)
      else if CondStatus c = ConditionFalse \<or> CondStatus c = ConditionUnknown then
        (if CondImpact c = ImpactNone then
           Some (NewError (''condition with Status='' @ go_quote (CondStatus c)
             @ '' must have Impact specified (Prohibited, Blocking, or Advisory), got Impact=''
             @ go_quote (CondImpact c)))
         else if CondImpact c \<noteq> ImpactProhibited \<and> CondImpact c \<noteq> ImpactBlocking
                 \<and> CondImpact c \<noteq> ImpactAdvisory then
           Some (NewError (''invalid Impact='' @ go_quote (CondImpact c) @ '', must be ''
             @ go_quote ImpactProhibited @ '', '' @ go_quote ImpactBlocking @ '', or ''
             @ go_quote ImpactAdvisory))
         else None)
      else Some (NewError (''invalid Status: '' @ go_quote (CondStatus c))))"

definition isValidAnnotationKey :: "string \<Rightarrow> bool" where
  "isValidAnnotationKey key =
     (let parts = split_on CHR ''/'' key in
      if length parts \<noteq> 2 then False
      else (let domain = parts ! 0; name = parts ! 1 in
        if domain = [] \<or> name = [] then False
        else if \<not> str_contains domain ''.'' then False
        else True))"

definition validateCondition :: "Condition \<Rightarrow> err option" where
  "validateCondition c =
     (if CondType c = [] then Some (NewError ''condition with empty type found'')
      else if CondStatus c \<noteq> ConditionTrue \<and> CondStatus c \<noteq> ConditionFalse
              \<and> CondStatus c \<noteq> ConditionUnknown then
        Some (NewError (''condition '' @ go_quote (CondType c)
          @ '' has invalid status (must be True, False, or Unknown)''))
      else if CondReason c = [] then
        Some (NewError (''condition '' @ go_quote (CondType c) @ '' has empty reason''))
      else None)"

definition annotationKeyError :: "string \<Rightarrow> err option" where
  "annotationKeyError key =
     (if isValidAnnotationKey key then None
      else Some (NewError (''annotation key '' @ go_quote key
        @ '' must be in domain/key format (e.g., openshiftai.io/version)'')))"

definition ResultValidate :: "DiagnosticResult \<Rightarrow> err option" where
  "ResultValidate r =
     (if Group r = [] then Some (NewError ''group must not be empty'')
      else if Kind r = [] then Some (NewError ''kind must not be empty'')
      else if Name r = [] then Some (NewError ''name must not be empty'')
      else case first_some annotationKeyError (map fst (Annotations r)) of
        Some e \<Rightarrow> Some e
      | None \<Rightarrow>
          if Conditions r = [] then
            Some (NewError ''status.conditions must contain at least one condition'')
          else first_some validateCondition (Conditions r))"

section \<open>Operations on results\<close>

definition NewResult :: "string \<Rightarrow> string \<Rightarrow> string \<Rightarrow> string \<Rightarrow> DiagnosticResult" where
  "NewResult grp kind name description =
     \<lparr>Group = grp, Kind = kind, Name = name, Annotations = [], Description = description,
      Conditions = [], ImpactedObjects = []\<rparr>"

definition IsFailing :: "DiagnosticResult \<Rightarrow> bool" where
  "IsFailing r = list_ex (\<lambda>c. CondStatus c = ConditionFalse \<or> CondStatus c = ConditionUnknown) (Conditions r)"

definition GetMessage :: "DiagnosticResult \<Rightarrow> string" where
  "GetMessage r = (case Conditions r of [] \<Rightarrow> [] | c # _ \<Rightarrow> CondMessage c)"

text \<open>The loop of \<open>GetImpact\<close> with its early return and the maximum so far.\<close>

fun impact_loop :: "Impact \<Rightarrow> Condition list \<Rightarrow> Impact" where
  "impact_loop maxImpact [] = maxImpact"
| "impact_loop maxImpact (c # cs) =
     (if CondImpact c = ImpactProhibited then ImpactProhibited
      else if CondImpact c = ImpactBlocking then impact_loop ImpactBlocking cs
      else if CondImpact c = ImpactAdvisory then
        impact_loop (if maxImpact = ImpactNone then ImpactAdvisory else maxImpact) cs
      else impact_loop maxImpact cs)"

definition GetImpact :: "DiagnosticResult \<Rightarrow> Impact" where
  "GetImpact r = impact_loop ImpactNone (Conditions r)"

definition GetRemediation :: "DiagnosticResult \<Rightarrow> string" where
  "GetRemediation r = (case filter (\<lambda>c. Remediation c \<noteq> []) (Conditions r) of
     [] \<Rightarrow> [] | c # _ \<Rightarrow> Remediation c)"

fun status_loop :: "Condition list \<Rightarrow> string" where
  "status_loop [] = ''Pass''"
| "status_loop (c # cs) =
     (if CondStatus c = ConditionFalse then ''Fail''
      else if CondStatus c = ConditionUnknown then ''Error''
      else status_loop cs)"

definition GetStatusString :: "DiagnosticResult \<Rightarrow> string" where
  "GetStatusString r = (if Conditions r = [] then ''Unknown'' else status_loop (Conditions r))"

fun set_condition :: "Condition \<Rightarrow> Condition list \<Rightarrow> Condition list" where
  "set_condition c [] = [c]"
| "set_condition c (d # ds) =
     (if CondType d = CondType c then c # ds else d # set_condition c ds)"

definition SetCondition :: "DiagnosticResult \<Rightarrow> Condition \<Rightarrow> DiagnosticResult" where
  "SetCondition r c = r\<lparr>Conditions := set_condition c (Conditions r)\<rparr>"

definition impacted_object :: "ResourceType \<Rightarrow> string \<times> string \<Rightarrow> ObjectMeta" where
  "impacted_object rt n = \<lparr>omAPIVersion = APIVersion rt, omKind = rtKind rt,
     omNamespace = fst n, omName = snd n, omAnnotations = []\<rparr>"

definition SetImpactedObjects ::
  "DiagnosticResult \<Rightarrow> ResourceType \<Rightarrow> (string \<times> string) list \<Rightarrow> DiagnosticResult" where
  "SetImpactedObjects r rt names =
     r\<lparr>Annotations := AList.update AnnotationResourceCRDName (CRDFQN rt) (Annotations r),
       ImpactedObjects := map (impacted_object rt) names\<rparr>"

definition AddImpactedObjects ::
  "DiagnosticResult \<Rightarrow> ResourceType \<Rightarrow> (string \<times> string) list \<Rightarrow> DiagnosticResult" where
  "AddImpactedObjects r rt names =
     r\<lparr>Annotations := (case map_of (Annotations r) AnnotationResourceCRDName of
          Some _ \<Rightarrow> Annotations r
        | None \<Rightarrow> AList.update AnnotationResourceCRDName (CRDFQN rt) (Annotations r)),
       ImpactedObjects := ImpactedObjects r @ map (impacted_object rt) names\<rparr>"

section \<open>Building conditions (\<open>condition.go\<close>)\<close>

type_synonym ConditionOption = "Condition \<Rightarrow> Condition"

definition WithReason :: "string \<Rightarrow> ConditionOption" where
  "WithReason reason c = c\<lparr>CondReason := reason\<rparr>"

text \<open>The argument is the message after formatting.\<close>

definition WithMessage :: "string \<Rightarrow> ConditionOption" where
  "WithMessage msg c = c\<lparr>CondMessage := msg\<rparr>"

definition WithImpact :: "Impact \<Rightarrow> ConditionOption" where
  "WithImpact impact c = c\<lparr>CondImpact := impact\<rparr>"

definition WithRemediation :: "string \<Rightarrow> ConditionOption" where
  "WithRemediation remediation c = c\<lparr>Remediation := remediation\<rparr>"

definition deriveImpact :: "ConditionStatus \<Rightarrow> Impact" where
  "deriveImpact status = (if status = ConditionTrue then ImpactNone else ImpactAdvisory)"

text \<open>\<open>NewCondition\<close> panics (\<open>Inl\<close>) when the options leave an invalid condition.\<close>

definition NewCondition :: "string \<Rightarrow> ConditionStatus \<Rightarrow> ConditionOption list \<Rightarrow> string + Condition" where
  "NewCondition conditionType status opts =
     (let c = fold (\<lambda>opt c. opt c) opts
        \<lparr>CondType = conditionType, CondStatus = status, CondReason = [], CondMessage = [],
         CondImpact = deriveImpact status, Remediation = []\<rparr>
      in case ConditionValidate c of
           Some e \<Rightarrow> Inl (''invalid condition: '' @ err_string e)
         | None \<Rightarrow> Inr c)"

section \<open>Envelope (\<open>pkg/output/envelope.go\<close>)\<close>

record Status =
  StResult :: string
  StWarnings :: int
  StErrors :: int

definition NewStatus :: "int \<Rightarrow> int \<Rightarrow> Status" where
  "NewStatus warnings errors =
     (let w = (if warnings < 0 then 0 else warnings);
          e = (if errors < 0 then 0 else errors)
      in \<lparr>StResult = (if e > 0 then ''failure'' else if w > 0 then ''warning'' else ''success''),
          StWarnings = w, StErrors = e\<rparr>)"

text \<open>\<open>ComputeStatus\<close> over the results of the list; a nil result is skipped.\<close>

fun status_counts :: "DiagnosticResult option list \<Rightarrow> int \<times> int" where
  "status_counts [] = (0, 0)"
| "status_counts (None # rs) = status_counts rs"
| "status_counts (Some r # rs) =
     (let (w, e) = status_counts rs; i = GetImpact r in
      if i = ImpactProhibited \<or> i = ImpactBlocking then (w, e + 1)
      else if i = ImpactAdvisory then (w + 1, e)
      else (w, e))"

definition ComputeStatus :: "DiagnosticResult option list \<Rightarrow> Status" where
  "ComputeStatus rs = (case status_counts rs of (w, e) \<Rightarrow> NewStatus w e)"

section \<open>Lemmas\<close>

lemmas condition_options = WithReason_def WithMessage_def WithImpact_def WithRemediation_def

text \<open>Severity as a number; impacts the code does not know count as none.\<close>

definition impact_rank :: "Impact \<Rightarrow> nat" where
  "impact_rank i = (if i = ImpactProhibited then 3 else if i = ImpactBlocking then 2
     else if i = ImpactAdvisory then 1 else 0)"

definition known_impact :: "Impact \<Rightarrow> bool" where
  "known_impact i \<longleftrightarrow> i \<in> {ImpactProhibited, ImpactBlocking, ImpactAdvisory, ImpactNone}"

lemma impact_rank_simps [simp]:
  "impact_rank ImpactProhibited = 3" "impact_rank ImpactBlocking = 2"
  "impact_rank ImpactAdvisory = 1" "impact_rank ImpactNone = 0"
  by (simp_all add: impact_rank_def)

lemma impact_rank_le: "impact_rank i \<le> 3"
  by (simp add: impact_rank_def)

lemma impact_loop_known: "known_impact m \<Longrightarrow> known_impact (impact_loop m cs)"
  by (induction m cs rule: impact_loop.induct) (auto simp: known_impact_def)

lemma impact_rank_below: "m \<noteq> ImpactProhibited \<Longrightarrow> impact_rank m \<le> 2"
  by (simp add: impact_rank_def)

lemma impact_rank_advisory:
  "known_impact m \<Longrightarrow> impact_rank (if m = ImpactNone then ImpactAdvisory else m) = max 1 (impact_rank m)"
  by (auto simp: known_impact_def)

lemma fold_max_top: "fold max (map (\<lambda>c. impact_rank (f c)) cs) 3 = (3::nat)"
  by (induction cs) (simp_all add: impact_rank_le max_absorb2)

lemma impact_loop_rank:
  "known_impact m \<Longrightarrow> m \<noteq> ImpactProhibited \<Longrightarrow>
     impact_rank (impact_loop m cs) = fold max (map (\<lambda>c. impact_rank (CondImpact c)) cs) (impact_rank m)"
proof (induction cs arbitrary: m)
  case (Cons c cs)
  consider "CondImpact c = ImpactProhibited" | "CondImpact c = ImpactBlocking"
    | "CondImpact c = ImpactAdvisory"
    | (other) "CondImpact c \<noteq> ImpactProhibited" "CondImpact c \<noteq> ImpactBlocking"
        "CondImpact c \<noteq> ImpactAdvisory"
    by blast
  then show ?case
  proof cases
    case 1
    then show ?thesis by (simp add: impact_rank_le max_absorb1 fold_max_top)
  next
    case 2
    with Cons.IH [of ImpactBlocking] show ?thesis
      using impact_rank_below [OF Cons.prems(2)] by (simp add: known_impact_def max_absorb1)
  next
    case 3
    have "known_impact (if m = ImpactNone then ImpactAdvisory else m)"
      "(if m = ImpactNone then ImpactAdvisory else m) \<noteq> ImpactProhibited"
      using Cons.prems by (auto simp: known_impact_def)
    from Cons.IH [OF this] 3 show ?thesis
      by (simp only: impact_loop.simps if_False if_True list.map fold_simps comp_def
          impact_rank_advisory [OF Cons.prems(1)] impact_rank_simps) simp
  next
    case other
    then have "impact_rank (CondImpact c) = 0" by (simp add: impact_rank_def)
    with other Cons show ?thesis by simp
  qed
qed simp

lemma fold_max_ge: "(a::nat) \<le> fold max xs a"
  by (induction xs arbitrary: a) (simp, metis fold_simps(2) max.bounded_iff)

lemma fold_max_mem_le: "x \<in> set xs \<Longrightarrow> (x::nat) \<le> fold max xs a"
  by (induction xs arbitrary: a) (auto intro: order_trans [OF max.cobounded1 fold_max_ge])

lemma fold_max_attained: "fold max xs (a::nat) \<in> insert a (set xs)"
  by (induction xs arbitrary: a) (auto simp: max_def)

lemma rank_inj: "known_impact i \<Longrightarrow> known_impact j \<Longrightarrow> impact_rank i = impact_rank j \<Longrightarrow> i = j"
  by (auto simp: known_impact_def)

lemma GetImpact_known: "known_impact (GetImpact r)"
  unfolding GetImpact_def by (rule impact_loop_known) (simp add: known_impact_def)

lemma GetImpact_rank:
  "impact_rank (GetImpact r) = fold max (map (\<lambda>c. impact_rank (CondImpact c)) (Conditions r)) 0"
  by (simp add: GetImpact_def impact_loop_rank known_impact_def)

lemma ConditionValidate_iff:
  "ConditionValidate c = None \<longleftrightarrow>
     (CondStatus c = ConditionTrue \<and> CondImpact c = ImpactNone)
     \<or> (CondStatus c \<in> {ConditionFalse, ConditionUnknown}
        \<and> CondImpact c \<in> {ImpactProhibited, ImpactBlocking, ImpactAdvisory})"
  by (auto simp: ConditionValidate_def)

lemma NewCondition_Inr:
  "NewCondition t st opts = Inr c \<Longrightarrow> ConditionValidate c = None"
  by (auto simp: NewCondition_def Let_def split: option.splits)

lemma set_condition_types:
  "distinct (map CondType cs) \<Longrightarrow> distinct (map CondType (set_condition c cs))"
  and set_condition_type_set: "CondType ` set (set_condition c cs) = insert (CondType c) (CondType ` set cs)"
proof -
  show *: "CondType ` set (set_condition c cs) = insert (CondType c) (CondType ` set cs)" for cs
    by (induction cs) auto
  show "distinct (map CondType cs) \<Longrightarrow> distinct (map CondType (set_condition c cs))"
  proof (induction cs)
    case (Cons d ds)
    then show ?case using * [of ds] by auto
  qed simp
qed

lemma set_condition_lookup:
  "find (\<lambda>d. CondType d = t) (set_condition c cs) =
     (if t = CondType c then Some c else find (\<lambda>d. CondType d = t) cs)"
  by (induction cs) auto

lemma GetImpact_None_iff:
  assumes "\<And>c. c \<in> set (Conditions r) \<Longrightarrow> known_impact (CondImpact c)"
  shows "GetImpact r = ImpactNone \<longleftrightarrow> (\<forall>c\<in>set (Conditions r). CondImpact c = ImpactNone)"
proof -
  have "GetImpact r = ImpactNone \<longleftrightarrow> impact_rank (GetImpact r) = 0"
    using rank_inj [OF GetImpact_known [of r], of ImpactNone] by (auto simp: known_impact_def)
  also have "\<dots> \<longleftrightarrow> (\<forall>c\<in>set (Conditions r). impact_rank (CondImpact c) = 0)"
    using fold_max_mem_le [of _ "map (\<lambda>c. impact_rank (CondImpact c)) (Conditions r)" 0]
      fold_max_attained [of "map (\<lambda>c. impact_rank (CondImpact c)) (Conditions r)" 0]
    by (auto simp: GetImpact_rank)
  also have "\<dots> \<longleftrightarrow> (\<forall>c\<in>set (Conditions r). CondImpact c = ImpactNone)"
    using assms rank_inj [of _ ImpactNone] by (auto simp: known_impact_def)
  finally show ?thesis .
qed

lemma status_loop_Pass:
  "status_loop cs = ''Pass'' \<longleftrightarrow>
     (\<forall>c\<in>set cs. CondStatus c \<noteq> ConditionFalse \<and> CondStatus c \<noteq> ConditionUnknown)"
  by (induction cs) auto

lemma status_counts_pos:
  "snd (status_counts rs) \<ge> 0 \<and> fst (status_counts rs) \<ge> 0"
  "snd (status_counts rs) > 0 \<longleftrightarrow>
     (\<exists>r. Some r \<in> set rs \<and> GetImpact r \<in> {ImpactProhibited, ImpactBlocking})"
  "fst (status_counts rs) > 0 \<longleftrightarrow> (\<exists>r. Some r \<in> set rs \<and> GetImpact r = ImpactAdvisory)"
proof -
  show nn: "snd (status_counts rs) \<ge> 0 \<and> fst (status_counts rs) \<ge> 0" for rs
    by (induction rs rule: status_counts.induct) (auto simp: Let_def split: prod.split)
  show "snd (status_counts rs) > 0 \<longleftrightarrow>
     (\<exists>r. Some r \<in> set rs \<and> GetImpact r \<in> {ImpactProhibited, ImpactBlocking})"
  proof (induction rs rule: status_counts.induct)
    case (3 r rs)
    then show ?case using nn [of rs] by (cases "status_counts rs") (auto simp: Let_def)
  qed simp_all
  show "fst (status_counts rs) > 0 \<longleftrightarrow> (\<exists>r. Some r \<in> set rs \<and> GetImpact r = ImpactAdvisory)"
  proof (induction rs rule: status_counts.induct)
    case (3 r rs)
    then show ?case using nn [of rs] by (cases "status_counts rs") (auto simp: Let_def)
  qed simp_all
qed

section \<open>Properties\<close>

text \<open>
  \<open>GetImpact\<close> is the highest impact of the conditions: one of the four levels, at least as
  severe as every condition, and the level of some condition unless it is none.
\<close>

theorem GetImpact_maximum:
  "known_impact (GetImpact r)
   \<and> (\<forall>c\<in>set (Conditions r). impact_rank (CondImpact c) \<le> impact_rank (GetImpact r))
   \<and> (GetImpact r = ImpactNone \<or> GetImpact r \<in> CondImpact ` set (Conditions r))"
proof -
  let ?ranks = "map (\<lambda>c. impact_rank (CondImpact c)) (Conditions r)"
  have le: "\<forall>c\<in>set (Conditions r). impact_rank (CondImpact c) \<le> impact_rank (GetImpact r)"
    by (auto simp: GetImpact_rank intro!: fold_max_mem_le)
  have "GetImpact r = ImpactNone \<or> GetImpact r \<in> CondImpact ` set (Conditions r)"
  proof (cases "impact_rank (GetImpact r) = 0")
    case True
    then show ?thesis
      using rank_inj [OF GetImpact_known [of r], of ImpactNone] by (simp add: known_impact_def)
  next
    case False
    then obtain c where c: "c \<in> set (Conditions r)" "impact_rank (CondImpact c) = impact_rank (GetImpact r)"
      using fold_max_attained [of ?ranks 0] by (auto simp: GetImpact_rank)
    with False have "known_impact (CondImpact c)"
      by (auto simp: impact_rank_def known_impact_def split: if_splits)
    with c show ?thesis using rank_inj GetImpact_known by fastforce
  qed
  with le GetImpact_known show ?thesis by blast
qed

text \<open>A result with an advisory and a blocking condition, for the witnesses.\<close>

definition sample_condition :: "string \<Rightarrow> ConditionStatus \<Rightarrow> Impact \<Rightarrow> Condition" where
  "sample_condition t st i = \<lparr>CondType = t, CondStatus = st, CondReason = ''Deprecated'',
     CondMessage = ''m'', CondImpact = i, Remediation = []\<rparr>"

definition sample_result :: DiagnosticResult where
  "sample_result = (NewResult ''component'' ''kserve'' ''removal'' ''d'')
     \<lparr>Conditions := [sample_condition ''Ready'' ConditionFalse ImpactAdvisory,
        sample_condition ''Compatible'' ConditionUnknown ImpactBlocking]\<rparr>"

lemmas sample_defs = sample_condition_def sample_result_def NewResult_def

theorem GetImpact_maximum_witness:
  "GetImpact sample_result = ImpactBlocking
   \<and> impact_rank ImpactAdvisory \<le> impact_rank (GetImpact sample_result)"
proof -
  have c: "sample_condition ''Ready'' ConditionFalse ImpactAdvisory \<in> set (Conditions sample_result)"
    by (simp add: sample_result_def)
  have "GetImpact sample_result = ImpactBlocking" by (simp add: GetImpact_def sample_defs)
  with bspec [OF conjunct1 [OF conjunct2 [OF GetImpact_maximum]] c] show ?thesis
    by (simp add: sample_condition_def)
qed

text \<open>
  On conditions that \<open>Condition.Validate\<close> accepts, the three summaries of a result agree: it
  is failing exactly when its impact is not none, and (with at least one condition) its status
  string is Pass exactly when its impact is none.
\<close>

theorem summaries_agree:
  assumes "\<And>c. c \<in> set (Conditions r) \<Longrightarrow> ConditionValidate c = None"
  shows "(IsFailing r \<longleftrightarrow> GetImpact r \<noteq> ImpactNone)
     \<and> (Conditions r \<noteq> [] \<longrightarrow> (GetStatusString r = ''Pass'' \<longleftrightarrow> GetImpact r = ImpactNone))"
proof -
  have c: "known_impact (CondImpact c)"
    "CondImpact c = ImpactNone \<longleftrightarrow> \<not> (CondStatus c = ConditionFalse \<or> CondStatus c = ConditionUnknown)"
    if "c \<in> set (Conditions r)" for c
    using assms [OF that] unfolding ConditionValidate_iff by (auto simp: known_impact_def)
  have "GetImpact r = ImpactNone \<longleftrightarrow> (\<forall>c\<in>set (Conditions r).
      \<not> (CondStatus c = ConditionFalse \<or> CondStatus c = ConditionUnknown))"
    using GetImpact_None_iff [of r, OF c(1)] c(2) by simp
  then show ?thesis
    unfolding IsFailing_def GetStatusString_def list_ex_iff
    using status_loop_Pass [of "Conditions r"] by auto
qed

theorem summaries_agree_witness:
  "list_all (\<lambda>c. ConditionValidate c = None) (Conditions sample_result) \<and> IsFailing sample_result"
proof -
  have v: "ConditionValidate c = None" if "c \<in> set (Conditions sample_result)" for c
    using that by (auto simp: sample_defs ConditionValidate_def)
  have "GetImpact sample_result \<noteq> ImpactNone" by (simp add: GetImpact_def sample_defs)
  with summaries_agree [OF v] show ?thesis using v by (simp add: list_all_iff)
qed

text \<open>
  A condition that \<open>NewCondition\<close> returns (it panics otherwise) passes \<open>Condition.Validate\<close>, so
  its impact is none exactly when its status is True; and with a standard status and options
  that set the reason, the message or the remediation only, it always returns, with the
  impact derived from the status.
\<close>

theorem NewCondition_valid:
  "(\<forall>c. NewCondition t st opts = Inr c \<longrightarrow> ConditionValidate c = None
      \<and> (CondImpact c = ImpactNone \<longleftrightarrow> CondStatus c = ConditionTrue))
   \<and> (st \<in> {ConditionTrue, ConditionFalse, ConditionUnknown} \<longrightarrow>
      NewCondition t st [WithReason rs, WithMessage msg, WithRemediation rm] =
        Inr \<lparr>CondType = t, CondStatus = st, CondReason = rs, CondMessage = msg,
             CondImpact = deriveImpact st, Remediation = rm\<rparr>)"
proof -
  have "CondImpact c = ImpactNone \<longleftrightarrow> CondStatus c = ConditionTrue" if "ConditionValidate c = None" for c
    using that unfolding ConditionValidate_iff by auto
  moreover have "ConditionValidate \<lparr>CondType = t, CondStatus = st, CondReason = rs, CondMessage = msg,
      CondImpact = deriveImpact st, Remediation = rm\<rparr> = None"
    if "st \<in> {ConditionTrue, ConditionFalse, ConditionUnknown}"
    using that unfolding ConditionValidate_iff deriveImpact_def by auto
  ultimately show ?thesis
    by (auto dest: NewCondition_Inr) (simp_all add: NewCondition_def Let_def condition_options)
qed

theorem NewCondition_valid_witness:
  "ConditionValidate \<lparr>CondType = ''Ready'', CondStatus = ConditionUnknown, CondReason = ''R'',
     CondMessage = ''m'', CondImpact = ImpactAdvisory, Remediation = []\<rparr> = None"
proof -
  have "NewCondition ''Ready'' ConditionUnknown [WithReason ''R'', WithMessage ''m'', WithRemediation []]
      = Inr \<lparr>CondType = ''Ready'', CondStatus = ConditionUnknown, CondReason = ''R'',
          CondMessage = ''m'', CondImpact = ImpactAdvisory, Remediation = []\<rparr>"
    using NewCondition_valid [of _ ConditionUnknown] by (simp add: deriveImpact_def)
  with NewCondition_valid show ?thesis by blast
qed

text \<open>
  \<open>SetCondition\<close> is an update by type: afterwards the condition of that type is the given
  one, the conditions of every other type are found as before, and if no two conditions
  had the same type, none do.
\<close>

theorem SetCondition_updates:
  "find (\<lambda>d. CondType d = t) (Conditions (SetCondition r c)) =
     (if t = CondType c then Some c else find (\<lambda>d. CondType d = t) (Conditions r))
   \<and> (distinct (map CondType (Conditions r)) \<longrightarrow> distinct (map CondType (Conditions (SetCondition r c))))"
  using set_condition_types by (simp add: SetCondition_def set_condition_lookup)

theorem SetCondition_updates_witness:
  "distinct (map CondType (Conditions (SetCondition sample_result
     (sample_condition ''Ready'' ConditionTrue ImpactNone))))"
  using SetCondition_updates [of _ sample_result] by (simp add: sample_defs)

text \<open>
  The status of a list of results is failure exactly when some result is prohibited or
  blocking, warning exactly when none is but some is advisory, and success otherwise.
\<close>

theorem ComputeStatus_result:
  "StResult (ComputeStatus rs) =
     (if \<exists>r. Some r \<in> set rs \<and> GetImpact r \<in> {ImpactProhibited, ImpactBlocking} then ''failure''
      else if \<exists>r. Some r \<in> set rs \<and> GetImpact r = ImpactAdvisory then ''warning''
      else ''success'')"
proof -
  obtain w e where "status_counts rs = (w, e)" by fastforce
  with status_counts_pos [of rs] show ?thesis
    by (simp add: ComputeStatus_def NewStatus_def Let_def)
qed

end
