(* ===== verification/Glob.thy ===== *)
theory Glob
  imports Prelude
begin

text \<open>
  \<open>path.Match\<close> of the Go standard library, which \<open>pkg/lint/check/selector.go\<close>,
  \<open>pkg/lint/command_options.go\<close> and, as \<open>filepath.Match\<close>, \<open>pkg/migrate/action/registry.go\<close> use to
  match selectors. The functions follow the library's \<open>scanChunk\<close>, \<open>matchChunk\<close>, \<open>getEsc\<close> and \<open>Match\<close> on
  ASCII text; \<open>Inl ()\<close> is \<open>ErrBadPattern\<close>. A reference matcher \<open>glob\<close> by backtracking is proved
  equivalent on patterns made of literals and stars.
\<close>

section \<open>The matcher\<close>

fun scan :: "bool \<Rightarrow> string \<Rightarrow> string \<times> string" where
  "scan inrange [] = ([], [])"
| "scan inrange (c # p) =
     (if c = CHR 0x5C then
        (case p of [] \<Rightarrow> ([c], [])
         | d # p' \<Rightarrow> (case scan inrange p' of (x, y) \<Rightarrow> (c # d # x, y)))
      else if c = CHR ''['' then (case scan True p of (x, y) \<Rightarrow> (c # x, y))
      else if c = CHR '']'' then (case scan False p of (x, y) \<Rightarrow> (c # x, y))
      else if c = CHR ''*'' \<and> \<not> inrange then ([], c # p)
      else (case scan inrange p of (x, y) \<Rightarrow> (c # x, y)))"

definition scanChunk :: "string \<Rightarrow> bool \<times> string \<times> string" where
  "scanChunk pattern =
     (let p = dropWhile (\<lambda>c. c = CHR ''*'') pattern
      in (p \<noteq> pattern, scan False p))"

definition getEsc :: "string \<Rightarrow> unit + (char \<times> string)" where
  "getEsc chunk =
     (case chunk of [] \<Rightarrow> Inl ()
      | c # cs \<Rightarrow>
        if c = CHR ''-'' \<or> c = CHR '']'' then Inl ()
        else (case (if c = CHR 0x5C then cs else chunk) of
            [] \<Rightarrow> Inl ()
          | r # rest \<Rightarrow> if rest = [] then Inl () else Inr (r, rest)))"

lemma getEsc_length: "getEsc ch = Inr (r, ch') \<Longrightarrow> length ch' < length ch"
  by (auto simp: getEsc_def split: list.splits if_splits)

function (sequential) class_loop :: "char \<Rightarrow> string \<Rightarrow> nat \<Rightarrow> bool \<Rightarrow> unit + (bool \<times> string)" where
  "class_loop r chunk nrange mtch =
     (if chunk \<noteq> [] \<and> hd chunk = CHR '']'' \<and> nrange > 0 then Inr (mtch, tl chunk)
      else (case getEsc chunk of
          Inl _ \<Rightarrow> Inl ()
        | Inr (lo, ch1) \<Rightarrow>
            if hd ch1 = CHR ''-'' then
              (case getEsc (tl ch1) of
                 Inl _ \<Rightarrow> Inl ()
               | Inr (hi, ch2) \<Rightarrow> class_loop r ch2 (Suc nrange) (mtch \<or> (lo \<le> r \<and> r \<le> hi)))
            else class_loop r ch1 (Suc nrange) (mtch \<or> (lo \<le> r \<and> r \<le> lo))))"
  by pat_completeness auto
termination
  by (relation "measure (\<lambda>(r, chunk, n, m). length chunk)")
     (auto dest!: getEsc_length)

declare class_loop.simps [simp del]

lemma class_loop_length: "class_loop r chunk n m = Inr (b, ch') \<Longrightarrow> length ch' < length chunk"
proof (induction r chunk n m rule: class_loop.induct)
  case (1 r chunk n m)
  show ?case
  proof (cases "chunk \<noteq> [] \<and> hd chunk = CHR '']'' \<and> n > 0")
    case True
    with "1.prems" show ?thesis by (cases chunk) (auto simp: class_loop.simps)
  next
    case False
    then obtain lo ch1 where g: "getEsc chunk = Inr (lo, ch1)"
      using "1.prems" by (cases "getEsc chunk") (auto simp: class_loop.simps)
    show ?thesis
    proof (cases "hd ch1 = CHR ''-''")
      case True
      then obtain hi ch2 where g2: "getEsc (tl ch1) = Inr (hi, ch2)"
        using "1.prems" False g by (cases "getEsc (tl ch1)") (auto simp: class_loop.simps)
      have "length ch' < length ch2"
        using "1.IH"(1) [OF False g _ True g2] "1.prems" False g g2 True
        by (simp add: class_loop.simps [of r chunk])
      with getEsc_length [OF g] getEsc_length [OF g2] show ?thesis by simp
    next
      case noDash: False
      have "length ch' < length ch1"
        using "1.IH"(2) [OF False g _ noDash] "1.prems" False g noDash
        by (simp add: class_loop.simps [of r chunk])
      with getEsc_length [OF g] show ?thesis by simp
    qed
  qed
qed

text \<open>
  \<open>matchChunk\<close>: after a mismatch the chunk is still read to its end, to report a bad pattern.
  The result is the rest of the name, or \<open>None\<close> when there is no match.
\<close>

function (sequential) match_chunk :: "bool \<Rightarrow> string \<Rightarrow> string \<Rightarrow> unit + string option" where
  "match_chunk failed [] s = Inr (if failed then None else Some s)"
| "match_chunk failed0 (c # ch) s =
     (let failed = (failed0 \<or> s = []) in
      if c = CHR ''['' then
        (let r = (if failed then CHR 0x00 else hd s);
             s' = (if failed then s else tl s);
             negated = (ch \<noteq> [] \<and> hd ch = CHR ''^'');
             ch1 = (if negated then tl ch else ch)
         in case class_loop r ch1 0 False of
              Inl _ \<Rightarrow> Inl ()
            | Inr (mtch, ch2) \<Rightarrow> match_chunk (failed \<or> mtch = negated) ch2 s')
      else if c = CHR ''?'' then
        (if failed then match_chunk True ch s else match_chunk (hd s = CHR ''/'') ch (tl s))
      else if c = CHR 0x5C then
        (case ch of [] \<Rightarrow> Inl ()
         | d # ch' \<Rightarrow> if failed then match_chunk True ch' s else match_chunk (d \<noteq> hd s) ch' (tl s))
      else
        (if failed then match_chunk True ch s else match_chunk (c \<noteq> hd s) ch (tl s)))"
  by pat_completeness auto
termination
  by (relation "measure (\<lambda>(f, chunk, s). length chunk)")
     (auto dest!: class_loop_length split: if_splits)

declare match_chunk.simps(2) [simp del]

abbreviation matchChunk :: "string \<Rightarrow> string \<Rightarrow> unit + string option" where
  "matchChunk \<equiv> match_chunk False"

fun skip_loop :: "string \<Rightarrow> string \<Rightarrow> string \<Rightarrow> unit + string option" where
  "skip_loop chunk rest [] = Inr None"
| "skip_loop chunk rest (x # name) =
     (if x = CHR ''/'' then Inr None
      else (case matchChunk chunk name of
          Inl _ \<Rightarrow> Inl ()
        | Inr None \<Rightarrow> skip_loop chunk rest name
        | Inr (Some t) \<Rightarrow> if rest = [] \<and> t \<noteq> [] then skip_loop chunk rest name else Inr (Some t)))"

definition match_step :: "bool \<Rightarrow> string \<Rightarrow> string \<Rightarrow> string \<Rightarrow> unit + string option" where
  "match_step star chunk rest name =
     (case matchChunk chunk name of
        Inl _ \<Rightarrow> Inl ()
      | Inr (Some t) \<Rightarrow> if t = [] \<or> rest \<noteq> [] then Inr (Some t)
                         else if star then skip_loop chunk rest name else Inr None
      | Inr None \<Rightarrow> if star then skip_loop chunk rest name else Inr None)"

lemma scan_length: "scan b p = (x, y) \<Longrightarrow> length x + length y = length p"
  by (induction b p arbitrary: x y rule: scan.induct)
     (auto split: if_splits list.splits prod.splits)

lemma scan_progress: "p \<noteq> [] \<Longrightarrow> hd p \<noteq> CHR ''*'' \<Longrightarrow> scan False p = (x, y) \<Longrightarrow> length y < length p"
  using scan_length [of False p x y] by (cases p) (auto split: if_splits list.splits prod.splits)

lemma dropWhile_shorter: "dropWhile P xs \<noteq> xs \<Longrightarrow> length (dropWhile P xs) < length xs"
  by (induction xs) (auto simp: length_dropWhile_le less_Suc_eq_le split: if_splits)

lemma scanChunk_progress:
  assumes "scanChunk p = (star, x, y)" and "p \<noteq> []"
  shows "length y < length p"
proof -
  let ?q = "dropWhile (\<lambda>c. c = CHR ''*'') p"
  have s: "scan False ?q = (x, y)" using assms(1) by (auto simp: scanChunk_def Let_def)
  show ?thesis
  proof (cases "?q = p")
    case True
    then have "hd p \<noteq> CHR ''*''"
      using hd_dropWhile [of "\<lambda>c. c = CHR ''*''" p] assms(2) by simp
    with s True assms(2) show ?thesis by (simp add: scan_progress)
  next
    case False
    have "length y \<le> length ?q" using scan_length [OF s] by simp
    also have "\<dots> < length p" using False by (rule dropWhile_shorter)
    finally show ?thesis .
  qed
qed

function (sequential) validate_rest :: "string \<Rightarrow> unit + bool" where
  "validate_rest [] = Inr False"
| "validate_rest (c # p) =
     (case scanChunk (c # p) of (_, chunk, rest) \<Rightarrow>
        (case matchChunk chunk [] of Inl _ \<Rightarrow> Inl () | Inr _ \<Rightarrow> validate_rest rest))"
  by pat_completeness auto
termination
  by (relation "measure length") (auto dest!: scanChunk_progress [OF sym])

function (sequential) path_match :: "string \<Rightarrow> string \<Rightarrow> unit + bool" where
  "path_match [] name = Inr (name = [])"
| "path_match (c # p) name =
     (case scanChunk (c # p) of (star, chunk, rest) \<Rightarrow>
        if star \<and> chunk = [] then Inr (CHR ''/'' \<notin> set name)
        else (case match_step star chunk rest name of
            Inl _ \<Rightarrow> Inl ()
          | Inr (Some t) \<Rightarrow> path_match rest t
          | Inr None \<Rightarrow> validate_rest rest))"
  by pat_completeness auto
termination
  by (relation "measure (\<lambda>(p, n). length p)") (auto dest!: scanChunk_progress [OF sym])

declare validate_rest.simps(2) [simp del] path_match.simps(2) [simp del]

section \<open>Reference matcher\<close>

text \<open>A star matches any text without a slash; every other character matches itself.\<close>

fun glob :: "string \<Rightarrow> string \<Rightarrow> bool" where
  "glob [] n = (n = [])"
| "glob (c # p) [] = (c = CHR ''*'' \<and> glob p [])"
| "glob (c # p) (x # n) =
     (if c = CHR ''*'' then glob p (x # n) \<or> (x \<noteq> CHR ''/'' \<and> glob (c # p) n)
      else c = x \<and> glob p n)"

definition plain_pattern :: "string \<Rightarrow> bool" where
  "plain_pattern p = list_all (\<lambda>c. c \<notin> {CHR ''['', CHR ''?'', CHR 0x5C}) p"

lemma plain_Cons [simp]:
  "plain_pattern (c # p) \<longleftrightarrow> c \<noteq> CHR ''['' \<and> c \<noteq> CHR ''?'' \<and> c \<noteq> CHR 0x5C \<and> plain_pattern p"
  by (simp add: plain_pattern_def)

lemma plain_append: "plain_pattern (p @ q) \<longleftrightarrow> plain_pattern p \<and> plain_pattern q"
  by (simp add: plain_pattern_def)

lemma scan_plain:
  "plain_pattern p \<Longrightarrow> scan False p = (takeWhile (\<lambda>c. c \<noteq> CHR ''*'') p, dropWhile (\<lambda>c. c \<noteq> CHR ''*'') p)"
  by (induction "False" p rule: scan.induct) (auto split: list.splits)

lemma match_chunk_plain_failed: "plain_pattern ch \<Longrightarrow> match_chunk True ch s = Inr None"
  by (induction ch arbitrary: s) (auto simp: match_chunk.simps(2) Let_def)

lemma matchChunk_plain:
  "plain_pattern ch \<Longrightarrow>
     matchChunk ch s = Inr (if has_prefix s ch then Some (drop (length ch) s) else None)"
proof (induction ch arbitrary: s)
  case Nil
  show ?case by (simp add: has_prefix_def)
next
  case (Cons c ch)
  then show ?case
    by (cases s; cases "c = hd s")
       (auto simp: match_chunk.simps(2) Let_def match_chunk_plain_failed has_prefix_def)
qed

lemma glob_literal:
  "CHR ''*'' \<notin> set ch \<Longrightarrow> glob (ch @ p) n \<longleftrightarrow> has_prefix n ch \<and> glob p (drop (length ch) n)"
proof (induction ch arbitrary: n)
  case Nil
  show ?case by (simp add: has_prefix_def)
next
  case (Cons c ch)
  then show ?case by (cases n) (auto simp: has_prefix_def)
qed

lemma glob_star:
  "CHR ''/'' \<notin> set n \<Longrightarrow> glob (CHR ''*'' # p) n \<longleftrightarrow> (\<exists>k\<le>length n. glob p (drop k n))"
proof (induction n)
  case (Cons x n)
  have "(\<exists>k\<le>length (x # n). glob p (drop k (x # n))) \<longleftrightarrow>
      glob p (x # n) \<or> (\<exists>k\<le>length n. glob p (drop k n))"
    by (simp add: Ex_less_Suc2 flip: less_Suc_eq_le)
  with Cons show ?case by auto
qed simp

lemma glob_star_suffix:
  "CHR ''/'' \<notin> set n \<Longrightarrow> i \<le> j \<Longrightarrow> glob (CHR ''*'' # p) (drop j n) \<Longrightarrow> glob (CHR ''*'' # p) (drop i n)"
proof -
  assume a: "CHR ''/'' \<notin> set n" "i \<le> j" "glob (CHR ''*'' # p) (drop j n)"
  have nos: "CHR ''/'' \<notin> set (drop i n)" "CHR ''/'' \<notin> set (drop j n)" for i j
    using a(1) by (auto dest: in_set_dropD)
  from a(3) obtain k where k: "k \<le> length (drop j n)" "glob p (drop k (drop j n))"
    unfolding glob_star [OF nos(2)] by blast
  show ?thesis
  proof (cases "j \<le> length n")
    case True
    have "drop (k + j - i) (drop i n) = drop k (drop j n)" using a(2) by simp
    moreover have "k + j - i \<le> length (drop i n)" using k(1) a(2) True by simp
    ultimately show ?thesis unfolding glob_star [OF nos(1)] using k(2) by metis
  next
    case False
    then have "glob p []" using k(2) by simp
    then have "glob p (drop (length (drop i n)) (drop i n))" by simp
    then show ?thesis unfolding glob_star [OF nos(1)] by blast
  qed
qed

lemma glob_stars:
  "CHR ''/'' \<notin> set n \<Longrightarrow> c = CHR ''*'' \<Longrightarrow>
     glob (c # p) n = glob (CHR ''*'' # dropWhile (\<lambda>c. c = CHR ''*'') p) n"
proof (induction p)
  case (Cons d p)
  have star2: "glob (CHR ''*'' # CHR ''*'' # p) n = glob (CHR ''*'' # p) n"
  proof
    assume "glob (CHR ''*'' # CHR ''*'' # p) n"
    then obtain k where "glob (CHR ''*'' # p) (drop k n)" using glob_star [OF Cons.prems(1)] by blast
    with glob_star_suffix [OF Cons.prems(1), of 0 k] show "glob (CHR ''*'' # p) n" by simp
  next
    assume "glob (CHR ''*'' # p) n"
    then show "glob (CHR ''*'' # CHR ''*'' # p) n" using glob_star [OF Cons.prems(1)] by (metis drop0 le0)
  qed
  with Cons show ?case by (cases "d = CHR ''*''") auto
qed simp

section \<open>Equivalence\<close>

lemma plain_takeWhile: "plain_pattern p \<Longrightarrow> plain_pattern (takeWhile P p)"
  and plain_dropWhile: "plain_pattern p \<Longrightarrow> plain_pattern (dropWhile P p)"
  by (auto simp: plain_pattern_def list_all_iff dest: set_takeWhileD set_dropWhileD)

lemma dropWhile_neq_shape: "dropWhile (\<lambda>c. c \<noteq> a) q = [] \<or> (\<exists>r. dropWhile (\<lambda>c. c \<noteq> a) q = a # r)"
  by (induction q) auto

lemma glob_star_only: "CHR ''/'' \<notin> set n \<Longrightarrow> glob ''*'' n"
  by (induction n) auto

lemma scanChunk_plain:
  assumes "plain_pattern p" and "scanChunk p = (star, ch, rest)"
  shows "plain_pattern ch" "plain_pattern rest" "CHR ''*'' \<notin> set ch"
    "rest = [] \<or> (\<exists>q. rest = CHR ''*'' # q)"
    "dropWhile (\<lambda>c. c = CHR ''*'') p = ch @ rest" "star \<longleftrightarrow> p \<noteq> [] \<and> hd p = CHR ''*''"
proof -
  let ?q = "dropWhile (\<lambda>c. c = CHR ''*'') p"
  have e: "ch = takeWhile (\<lambda>c. c \<noteq> CHR ''*'') ?q" "rest = dropWhile (\<lambda>c. c \<noteq> CHR ''*'') ?q"
    "star \<longleftrightarrow> ?q \<noteq> p"
    using assms by (auto simp: scanChunk_def Let_def scan_plain plain_dropWhile)
  show "plain_pattern ch" "plain_pattern rest"
    using assms(1) by (simp_all add: e plain_takeWhile plain_dropWhile)
  show "CHR ''*'' \<notin> set ch" by (auto simp: e dest: set_takeWhileD)
  show "rest = [] \<or> (\<exists>q. rest = CHR ''*'' # q)"
    unfolding e(2) by (rule dropWhile_neq_shape)
  show "?q = ch @ rest" by (simp add: e)
  show "star \<longleftrightarrow> p \<noteq> [] \<and> hd p = CHR ''*''"
    unfolding e(3) using dropWhile_shorter [of "\<lambda>c. c = CHR ''*''" p] by (cases p) (auto, metis length_dropWhile_le Suc_n_not_le_n length_Cons)
qed

lemma validate_rest_plain: "plain_pattern p \<Longrightarrow> validate_rest p = Inr False"
proof (induction p rule: validate_rest.induct)
  case (2 c p)
  obtain star ch rest where s: "scanChunk (c # p) = (star, ch, rest)" by (metis prod_cases3)
  note sp = scanChunk_plain [OF "2.prems" s]
  from "2.IH" [OF s [symmetric] refl _ sp(2)] s sp(1) show ?case
    by (auto simp: validate_rest.simps(2) matchChunk_plain)
qed simp

lemma skip_loop_plain:
  assumes "plain_pattern ch" and "CHR ''*'' \<notin> set ch" and "rest = [] \<or> (\<exists>q. rest = CHR ''*'' # q)"
  shows "CHR ''/'' \<notin> set n \<Longrightarrow>
    \<exists>r. skip_loop ch rest n = Inr r \<and> (\<forall>t. r = Some t \<longrightarrow> set t \<subseteq> set n)
      \<and> ((\<exists>k<length n. glob (ch @ rest) (drop (Suc k) n)) \<longleftrightarrow> (case r of None \<Rightarrow> False | Some t \<Rightarrow> glob rest t))"
proof (induction n)
  case (Cons x n)
  let ?t = "drop (length ch) n"
  have ex: "(\<exists>k<length (x # n). glob (ch @ rest) (drop (Suc k) (x # n))) \<longleftrightarrow>
      glob (ch @ rest) n \<or> (\<exists>k<length n. glob (ch @ rest) (drop (Suc k) n))"
    by (simp add: Ex_less_Suc2)
  have here: "glob (ch @ rest) n \<longleftrightarrow> has_prefix n ch \<and> glob rest ?t"
    by (rule glob_literal [OF assms(2)])
  show ?case
  proof (cases "has_prefix n ch \<and> (?t = [] \<or> rest \<noteq> [])")
    case True
    have later: "glob rest ?t" if "glob (ch @ rest) (drop (Suc k) n)" for k
    proof (cases "rest = []")
      case False
      then obtain q where q: "rest = CHR ''*'' # q" using assms(3) by blast
      have "glob rest (drop (length ch + Suc k) n)"
        using that glob_literal [OF assms(2)] by (simp add: add.commute)
      with q glob_star_suffix [of n "length ch" "length ch + Suc k" q] Cons.prems show ?thesis by simp
    qed (use True in simp)
    have "skip_loop ch rest (x # n) = Inr (Some ?t)"
      using True Cons.prems by (auto simp: matchChunk_plain [OF assms(1)])
    moreover have "set ?t \<subseteq> set (x # n)" using set_drop_subset by fastforce
    ultimately show ?thesis unfolding ex here using True later by auto
  next
    case False
    then have "\<not> glob (ch @ rest) n" unfolding here by auto
    moreover have "skip_loop ch rest (x # n) = skip_loop ch rest n"
      using False Cons.prems by (auto simp: matchChunk_plain [OF assms(1)])
    ultimately show ?thesis unfolding ex using Cons by fastforce
  qed
qed simp

lemma match_step_star: "match_step True ch rest n = skip_loop ch rest (CHR ''a'' # n)"
  by (auto simp: match_step_def split: sum.splits option.splits)

lemma match_step_plain:
  assumes "plain_pattern ch" and "CHR ''*'' \<notin> set ch" and "rest = [] \<or> (\<exists>q. rest = CHR ''*'' # q)"
    and "CHR ''/'' \<notin> set n"
  shows "\<exists>r. match_step star ch rest n = Inr r \<and> (\<forall>t. r = Some t \<longrightarrow> CHR ''/'' \<notin> set t)
    \<and> (glob (if star then CHR ''*'' # ch @ rest else ch @ rest) n
        \<longleftrightarrow> (case r of None \<Rightarrow> False | Some t \<Rightarrow> glob rest t))"
proof (cases star)
  case True
  have ns: "CHR ''/'' \<notin> set (CHR ''a'' # n)" using assms(4) by simp
  obtain r where r: "skip_loop ch rest (CHR ''a'' # n) = Inr r"
      "\<forall>t. r = Some t \<longrightarrow> set t \<subseteq> set (CHR ''a'' # n)"
      "(\<exists>k<length (CHR ''a'' # n). glob (ch @ rest) (drop (Suc k) (CHR ''a'' # n)))
         \<longleftrightarrow> (case r of None \<Rightarrow> False | Some t \<Rightarrow> glob rest t)"
    using skip_loop_plain [OF assms(1-3) ns] by blast
  have "glob (CHR ''*'' # ch @ rest) n \<longleftrightarrow> (case r of None \<Rightarrow> False | Some t \<Rightarrow> glob rest t)"
    using r(3) unfolding glob_star [OF assms(4)] by (simp add: less_Suc_eq_le)
  moreover have "CHR ''/'' \<notin> set t" if "r = Some t" for t using r(2) ns that by blast
  ultimately show ?thesis using True r(1) match_step_star by auto
next
  case False
  have "CHR ''/'' \<notin> set (drop (length ch) n)" using assms(4) by (auto dest: in_set_dropD)
  with False show ?thesis
    by (auto simp: match_step_def matchChunk_plain [OF assms(1)] glob_literal [OF assms(2)])
qed

lemma glob_leading:
  assumes "CHR ''/'' \<notin> set n"
  shows "glob (c # p) n = glob (if c = CHR ''*'' then CHR ''*'' # dropWhile (\<lambda>c. c = CHR ''*'') (c # p)
     else dropWhile (\<lambda>c. c = CHR ''*'') (c # p)) n"
  using glob_stars [OF assms, of c p] by simp

theorem path_match_glob:
  "plain_pattern p \<Longrightarrow> CHR ''/'' \<notin> set n \<Longrightarrow> path_match p n = Inr (glob p n)"
proof (induction p n rule: path_match.induct)
  case (2 c p n)
  obtain star ch rest where s: "scanChunk (c # p) = (star, ch, rest)" by (metis prod_cases3)
  note sp = scanChunk_plain [OF "2.prems"(1) s]
  have star: "star \<longleftrightarrow> c = CHR ''*''" using sp(6) by simp
  have g: "glob (c # p) n = glob (if star then CHR ''*'' # ch @ rest else ch @ rest) n"
    unfolding star by (rule glob_leading [OF "2.prems"(2), of c p, unfolded sp(5)])
  show ?case
  proof (cases "star \<and> ch = []")
    case True
    with sp(4,5) have "rest = []" using hd_dropWhile [of "\<lambda>c. c = CHR ''*''" "c # p"] by auto
    with True g have "glob (c # p) n" using glob_star_only [OF "2.prems"(2)] by simp
    with True "2.prems"(2) s show ?thesis by (simp add: path_match.simps(2))
  next
    case False
    obtain r where r: "match_step star ch rest n = Inr r" "\<forall>t. r = Some t \<longrightarrow> CHR ''/'' \<notin> set t"
      "glob (c # p) n \<longleftrightarrow> (case r of None \<Rightarrow> False | Some t \<Rightarrow> glob rest t)"
      using match_step_plain [OF sp(1,3,4) "2.prems"(2), of star] unfolding g by blast
    show ?thesis
    proof (cases r)
      case None
      with r s False sp(2) show ?thesis by (auto simp: path_match.simps(2) validate_rest_plain)
    next
      case (Some t)
      have "path_match rest t = Inr (glob rest t)"
        using "2.IH" [OF s [symmetric] refl] False r Some sp(2) by auto
      with r s False Some show ?thesis by (auto simp: path_match.simps(2))
    qed
  qed
qed simp

section \<open>Bad patterns\<close>

text \<open>
  Whether a pattern is malformed does not depend on the name it is matched against: the loops read
  every chunk to its end, matched or not.
\<close>

lemma class_loop_shape:
  "map_sum id snd (class_loop r ch n m) = map_sum id snd (class_loop r' ch n m')"
proof (induction r ch n m arbitrary: m' rule: class_loop.induct)
  case (1 r ch n m)
  show ?case
  proof (cases "ch \<noteq> [] \<and> hd ch = CHR '']'' \<and> n > 0")
    case True
    then show ?thesis by (simp add: class_loop.simps)
  next
    case False
    show ?thesis
    proof (cases "getEsc ch")
      case (Inl u)
      with False show ?thesis by (simp add: class_loop.simps)
    next
      case (Inr p)
      obtain lo ch1 where p: "p = (lo, ch1)" by (cases p)
      note g = Inr [unfolded p]
      show ?thesis
      proof (cases "hd ch1 = CHR ''-''")
        case True
        show ?thesis
        proof (cases "getEsc (tl ch1)")
          case (Inl u)
          with False g True show ?thesis by (simp add: class_loop.simps)
        next
          case (Inr p2)
          obtain hi ch2 where p2: "p2 = (hi, ch2)" by (cases p2)
          from "1.IH"(1) [OF False g refl True Inr p2 [symmetric]] False g True Inr p2 show ?thesis
            by (auto simp: class_loop.simps [of _ ch])
        qed
      next
        case noDash: False
        from "1.IH"(2) [OF False g refl noDash] False g noDash show ?thesis
          by (auto simp: class_loop.simps [of _ ch])
      qed
    qed
  qed
qed

lemma class_loop_same:
  "class_loop r ch n m = Inl u \<Longrightarrow> class_loop r' ch n m' = Inl ()"
  "class_loop r ch n m = Inr (b, ch2) \<Longrightarrow> \<exists>b'. class_loop r' ch n m' = Inr (b', ch2)"
  using class_loop_shape [of r ch n m r' m']
  by (cases "class_loop r' ch n m'"; force)+

lemma match_chunk_bad: "match_chunk f ch s = Inl () \<longleftrightarrow> match_chunk True ch [] = Inl ()"
proof (induction f ch s rule: match_chunk.induct)
  case (2 f0 c ch s)
  consider (cls) "c = CHR ''[''" | (any) "c = CHR ''?''" | (esc) "c = CHR 0x5C"
    | (lit) "c \<noteq> CHR ''[''" "c \<noteq> CHR ''?''" "c \<noteq> CHR 0x5C" by blast
  then show ?case
  proof cases
    case cls
    let ?neg = "ch \<noteq> [] \<and> hd ch = CHR ''^''"
    let ?ch1 = "if ?neg then tl ch else ch"
    let ?r = "if f0 \<or> s = [] then CHR 0x00 else hd s"
    show ?thesis
    proof (cases "class_loop ?r ?ch1 0 False")
      case (Inl u)
      from class_loop_same(1) [OF this, of "CHR 0x00" False] Inl cls show ?thesis
        by (simp add: match_chunk.simps(2) Let_def)
    next
      case (Inr p)
      obtain b ch2 where p: "p = (b, ch2)" by (cases p)
      obtain b' where b': "class_loop (CHR 0x00) ?ch1 0 False = Inr (b', ch2)"
        using class_loop_same(2) [OF Inr [unfolded p]] by blast
      have "match_chunk f ch2 t = Inl () \<longleftrightarrow> match_chunk True ch2 [] = Inl ()"
        if "f = ((f0 \<or> s = []) \<or> b = ?neg)" "t = (if f0 \<or> s = [] then s else tl s)" for f t
        using "2.IH"(1) [OF refl cls refl refl refl refl Inr p [symmetric]] that by simp
      with Inr p b' cls show ?thesis by (simp add: match_chunk.simps(2) Let_def)
    qed
  next
    case any
    with "2.IH"(2,3) show ?thesis by (auto simp: match_chunk.simps(2) Let_def)
  next
    case esc
    with "2.IH"(4,5) show ?thesis
      by (auto simp: match_chunk.simps(2) Let_def split: list.splits)
  next
    case lit
    with "2.IH"(6,7) show ?thesis by (auto simp: match_chunk.simps(2) Let_def)
  qed
qed simp

lemma skip_loop_bad:
  "matchChunk ch [] \<noteq> Inl () \<Longrightarrow> skip_loop ch rest n \<noteq> Inl ()"
proof (induction n)
  case (Cons x n)
  then have "matchChunk ch n \<noteq> Inl ()" using match_chunk_bad [of False ch] by simp
  with Cons show ?case by (auto split: sum.splits option.splits)
qed simp

lemma match_step_bad: "match_step star ch rest n = Inl () \<longleftrightarrow> matchChunk ch [] = Inl ()"
proof (cases "matchChunk ch [] = Inl ()")
  case True
  then have "matchChunk ch n = Inl ()" using match_chunk_bad [of False ch] by simp
  with True show ?thesis by (simp add: match_step_def)
next
  case False
  then have "matchChunk ch n \<noteq> Inl ()" using match_chunk_bad [of False ch] by simp
  with False skip_loop_bad [OF False, of rest n] show ?thesis
    by (auto simp: match_step_def split: sum.splits option.splits)
qed

lemma scanChunk_star_end:
  assumes "scanChunk p = (True, [], rest)"
  shows "rest = []"
proof (rule ccontr)
  assume "rest \<noteq> []"
  let ?q = "dropWhile (\<lambda>c. c = CHR ''*'') p"
  have s: "scan False ?q = ([], rest)" using assms by (simp only: scanChunk_def Let_def prod.inject)
  have "length ?q = length rest" using scan_length [OF s] by simp
  with \<open>rest \<noteq> []\<close> have q: "?q \<noteq> []" by (metis length_0_conv)
  then have "hd ?q \<noteq> CHR ''*''" by (rule hd_dropWhile)
  from scan_progress [OF q this s] \<open>length ?q = length rest\<close> show False by simp
qed

lemma path_match_bad_iff: "path_match p n = Inl () \<longleftrightarrow> validate_rest p = Inl ()"
proof (induction p n rule: path_match.induct)
  case (2 c p n)
  obtain star ch rest where s: "scanChunk (c # p) = (star, ch, rest)" by (metis prod_cases3)
  show ?case
  proof (cases "star \<and> ch = []")
    case True
    then have "rest = []" using s scanChunk_star_end [of "c # p" rest] by simp
    with True s show ?thesis by (simp add: path_match.simps(2) validate_rest.simps(2))
  next
    case False
    show ?thesis
    proof (cases "matchChunk ch [] = Inl ()")
      case True
      with match_step_bad [of star ch rest n] False s show ?thesis
        by (simp add: path_match.simps(2) validate_rest.simps(2))
    next
      case ok: False
      then obtain r where r: "match_step star ch rest n = Inr r"
        using match_step_bad [of star ch rest n] by (cases "match_step star ch rest n") auto
      have v: "validate_rest (c # p) = validate_rest rest"
        using ok s by (cases "matchChunk ch []") (auto simp: validate_rest.simps(2))
      show ?thesis
      proof (cases r)
        case None
        with r s False v show ?thesis by (auto simp: path_match.simps(2))
      next
        case (Some t)
        with "2.IH" [OF s [symmetric] refl _ r] r s False v show ?thesis
          by (auto simp: path_match.simps(2))
      qed
    qed
  qed
qed simp

text \<open>So a pattern that is accepted for one name is accepted for all.\<close>

lemma path_match_good: "path_match p n = Inr b \<Longrightarrow> \<exists>b'. path_match p m = Inr b'"
  using path_match_bad_iff [of p n] path_match_bad_iff [of p m]
  by (cases "path_match p m") auto

end
