(* ===== verification/Versions.thy ===== *)
theory Versions
  imports Errors
begin

text \<open>
  The package \<open>pkg/util/version\<close>: the version predicates of \<open>helpers.go\<close>, the branch mapping of
  \<open>version.go\<close>, the sources of \<open>sources.go\<close> and the prioritised detection of \<open>detector.go\<close>, and the
  OpenShift version of \<open>openshift.go\<close>. The library \<open>blang/semver\<close> is a record of functions
  (parsing, comparison, printing), the cluster objects and the queries on them are arguments.
\<close>

record Version =
  Major :: nat
  Minor :: nat
  Patch :: nat
  Pre :: "string list"
  Build :: "string list"

definition zero_version :: Version where
  "zero_version = \<lparr>Major = 0, Minor = 0, Patch = 0, Pre = [], Build = []\<rparr>"

record semver_lib =
  sv_Parse :: "string \<Rightarrow> err + Version"
  sv_ParseTolerant :: "string \<Rightarrow> err + Version"
  sv_EQ :: "Version \<Rightarrow> Version \<Rightarrow> bool"
  sv_LT :: "Version \<Rightarrow> Version \<Rightarrow> bool"
  sv_String :: "Version \<Rightarrow> string"

text \<open>A small instance of the version library, used to evaluate the definitions on examples.\<close>

definition sample_semver :: semver_lib where
  "sample_semver = \<lparr>sv_Parse = \<lambda>s. Inr zero_version, sv_ParseTolerant = \<lambda>s. Inr zero_version, sv_EQ = (=),
     sv_LT = \<lambda>a b. Major a < Major b \<or> Major a = Major b \<and> Minor a < Minor b, sv_String = \<lambda>v. []\<rparr>"

definition sample_version :: "nat \<Rightarrow> nat \<Rightarrow> Version" where
  "sample_version major minor = zero_version\<lparr>Major := major, Minor := minor\<rparr>"

section \<open>Helpers (\<open>helpers.go\<close>)\<close>

definition MajorMinorLabel :: "Version option \<Rightarrow> string" where
  "MajorMinorLabel v = (case v of None \<Rightarrow> ''unknown''
     | Some x \<Rightarrow> itoa (Major x) @ ''.'' @ itoa (Minor x))"

definition IsUpgradeFrom2xTo3x :: "Version option \<Rightarrow> Version option \<Rightarrow> bool" where
  "IsUpgradeFrom2xTo3x fromV toV = (case (fromV, toV) of
     (Some f, Some t) \<Rightarrow> Major f = 2 \<and> Major t = 3 | _ \<Rightarrow> False)"

definition IsVersion3x :: "Version option \<Rightarrow> bool" where
  "IsVersion3x v = (case v of None \<Rightarrow> False | Some x \<Rightarrow> Major x = 3)"

definition SameMajorMinor :: "Version option \<Rightarrow> Version option \<Rightarrow> bool" where
  "SameMajorMinor a b = (case (a, b) of
     (Some x, Some y) \<Rightarrow> Major x = Major y \<and> Minor x = Minor y | _ \<Rightarrow> False)"

definition IsVersionAtLeast :: "Version option \<Rightarrow> nat \<Rightarrow> nat \<Rightarrow> bool" where
  "IsVersionAtLeast v major minor = (case v of None \<Rightarrow> False
     | Some x \<Rightarrow> if Major x > major then True else Major x = major \<and> Minor x \<ge> minor)"

definition IsUpgradeFrom34To35 :: "Version option \<Rightarrow> Version option \<Rightarrow> bool" where
  "IsUpgradeFrom34To35 fromV toV = (case (fromV, toV) of
     (Some f, Some t) \<Rightarrow> Major f = 3 \<and> Minor f = 4 \<and> Major t = 3 \<and> Minor t = 5 | _ \<Rightarrow> False)"

section \<open>Branches (\<open>version.go\<close>)\<close>

definition VersionToBranch :: "string \<Rightarrow> err + string" where
  "VersionToBranch v =
     (case split_on CHR ''.'' v of
        major # minor # _ \<Rightarrow>
          (if major = ''2'' then Inr (''stable-'' @ major @ ''.'' @ minor)
           else if major = ''3'' then Inr ''main''
           else Inl (NewError (''unsupported version: '' @ v)))
      | _ \<Rightarrow> Inl (NewError (''invalid version format: '' @ v)))"

section \<open>Sources (\<open>sources.go\<close>)\<close>

text \<open>
  A source is the result of reading its object (\<open>dsc\<close>, \<open>dsci\<close>) and of the query
  \<open>.status.release.version\<close> on it; the result says whether a version was found.
\<close>

definition wrapf :: "string \<Rightarrow> err \<Rightarrow> err" where
  "wrapf ctxt e = Wrap (ctxt @ '': '' @ err_string e) [e]"

definition DetectFromDataScienceCluster ::
  "api_preds \<Rightarrow> err + 'o \<Rightarrow> ('o \<Rightarrow> err + string) \<Rightarrow> err + string option" where
  "DetectFromDataScienceCluster api dsc query =
     (case dsc of
        Inl e \<Rightarrow> if api IsNotFound e then Inr None else Inl (wrapf ''getting DataScienceCluster'' e)
      | Inr obj \<Rightarrow> (case query obj of
          Inl e \<Rightarrow> Inl (wrapf ''querying .status.release.version'' e)
        | Inr v \<Rightarrow> Inr (if v = [] then None else Some v)))"

definition DetectFromDSCInitialization ::
  "api_preds \<Rightarrow> err + 'o \<Rightarrow> ('o \<Rightarrow> err + string) \<Rightarrow> err + string option" where
  "DetectFromDSCInitialization api dsci query =
     (case dsci of
        Inl e \<Rightarrow> if api IsNotFound e then Inr None else Inl (wrapf ''getting DSCInitialization'' e)
      | Inr obj \<Rightarrow> (case query obj of
          Inl e \<Rightarrow> Inl (wrapf ''querying .status.release.version'' e)
        | Inr v \<Rightarrow> Inr (if v = [] then None else Some v)))"

text \<open>
  \<open>DetectFromOLM\<close>: whether the client has a controller-runtime reader, the platform and the
  operator information come from \<open>odh-platform-utilities\<close> (arguments), as does the test for a
  missing API kind.
\<close>

datatype platform = OpenDataHub | ManagedRhoai | SelfManagedRhoai | OtherPlatform

definition DetectFromOLM ::
  "api_preds \<Rightarrow> (err \<Rightarrow> bool) \<Rightarrow> (err \<Rightarrow> bool) \<Rightarrow> bool \<Rightarrow> err + platform
     \<Rightarrow> (string \<Rightarrow> err + string option) \<Rightarrow> err + string option" where
  "DetectFromOLM api no_match not_installed has_reader detect operatorExists =
     (if \<not> has_reader then Inr None
      else (case detect of
        Inl e \<Rightarrow> if api IsNotFound e \<or> no_match e then Inr None
                  else Inl (wrapf ''detecting platform from OLM'' e)
      | Inr p \<Rightarrow>
          (let pkg = (if p = ManagedRhoai \<or> p = SelfManagedRhoai then ''rhods-operator''
                      else ''opendatahub-operator'')
           in case operatorExists pkg of
                Inl e \<Rightarrow> if not_installed e \<or> no_match e then Inr None
                          else Inl (wrapf (''detecting '' @ pkg @ '' version from OLM'') e)
              | Inr info \<Rightarrow> (case info of None \<Rightarrow> Inr None
                  | Some v \<Rightarrow> if v = [] then Inr None else Inr (Some (trim_prefix v ''v''))))))"

section \<open>Detection (\<open>detector.go\<close>)\<close>

definition detect_source ::
  "semver_lib \<Rightarrow> string \<Rightarrow> err + string option \<Rightarrow> (err + Version) option" where
  "detect_source sv ctxt src =
     (case src of
        Inl e \<Rightarrow> Some (Inl (wrapf ctxt e))
      | Inr None \<Rightarrow> None
      | Inr (Some s) \<Rightarrow> (case sv_Parse sv s of
          Inl e \<Rightarrow> Some (Inl (wrapf (''parsing version '' @ go_quote s) e))
        | Inr ver \<Rightarrow> if \<not> sv_EQ sv ver zero_version then Some (Inr ver) else None))"

definition Detect ::
  "semver_lib \<Rightarrow> err + string option \<Rightarrow> err + string option \<Rightarrow> err + string option \<Rightarrow> err + Version" where
  "Detect sv dsc dsci olm =
     (case detect_source sv ''detecting from DataScienceCluster'' dsc of Some r \<Rightarrow> r
      | None \<Rightarrow> (case detect_source sv ''detecting from DSCInitialization'' dsci of Some r \<Rightarrow> r
      | None \<Rightarrow> (case detect_source sv ''detecting from OLM'' olm of Some r \<Rightarrow> r
      | None \<Rightarrow> Inl (NewError ''unable to detect cluster version: no nonzero version found from DataScienceCluster, DSCInitialization, or OLM resources''))))"

section \<open>OpenShift (\<open>openshift.go\<close>)\<close>

definition parseOpenShiftVersion :: "semver_lib \<Rightarrow> string \<Rightarrow> err + Version" where
  "parseOpenShiftVersion sv s =
     (let t = trim_prefix s ''v'' in
      case sv_Parse sv t of
        Inl e \<Rightarrow> Inl (wrapf (''failed to parse OpenShift version '' @ go_quote t) e)
      | Inr v \<Rightarrow> Inr v)"

text \<open>
  The object is read through the fields the code looks up: the desired version and the
  version of the first history entry, each present or not.
\<close>

record ClusterVersionObj =
  desired_version :: "string option"
  history_version :: "string option"

definition DetectOpenShiftVersion ::
  "semver_lib \<Rightarrow> (err + ClusterVersionObj) option \<Rightarrow> err + Version" where
  "DetectOpenShiftVersion sv client =
     (case client of None \<Rightarrow> Inl (NewError ''kubernetes client not available'')
      | Some (Inl e) \<Rightarrow> Inl (wrapf ''failed to get ClusterVersion'' e)
      | Some (Inr cv) \<Rightarrow>
        (case (case desired_version cv of
                 Some d \<Rightarrow> if d \<noteq> [] then (case parseOpenShiftVersion sv d of Inr v \<Rightarrow> Some v | Inl _ \<Rightarrow> None) else None
               | None \<Rightarrow> None) of
           Some v \<Rightarrow> Inr v
         | None \<Rightarrow>
             (case history_version cv of
                Some h \<Rightarrow> if h \<noteq> [] then parseOpenShiftVersion sv h
                  else Inl (NewError ''unable to determine OpenShift version from ClusterVersion resource'')
              | None \<Rightarrow> Inl (NewError ''unable to determine OpenShift version from ClusterVersion resource''))))"

section \<open>Lemmas\<close>

text \<open>
  What a source contributes: it is skipped when it is absent or reports the placeholder
  0.0.0, and it gives a version when it reports one that parses and is not the placeholder.
\<close>

definition source_skipped :: "semver_lib \<Rightarrow> err + string option \<Rightarrow> bool" where
  "source_skipped sv src \<longleftrightarrow> src = Inr None \<or>
     (\<exists>s v. src = Inr (Some s) \<and> sv_Parse sv s = Inr v \<and> sv_EQ sv v zero_version)"

definition source_version :: "semver_lib \<Rightarrow> err + string option \<Rightarrow> Version \<Rightarrow> bool" where
  "source_version sv src v \<longleftrightarrow>
     (\<exists>s. src = Inr (Some s) \<and> sv_Parse sv s = Inr v \<and> \<not> sv_EQ sv v zero_version)"

lemma detect_source_Inr: "detect_source sv c src = Some (Inr v) \<longleftrightarrow> source_version sv src v"
  by (auto simp: detect_source_def source_version_def split: sum.splits option.splits)

lemma detect_source_None: "detect_source sv c src = None \<longleftrightarrow> source_skipped sv src"
  by (auto simp: detect_source_def source_skipped_def split: sum.splits option.splits)

lemma detect_step:
  "((case detect_source sv c src of Some r \<Rightarrow> r | None \<Rightarrow> k) = Inr v) \<longleftrightarrow>
     source_version sv src v \<or> (source_skipped sv src \<and> k = Inr v)"
  unfolding detect_source_Inr [of sv c, symmetric] detect_source_None [of sv c, symmetric]
  by (cases "detect_source sv c src") auto

section \<open>Properties\<close>

text \<open>
  \<open>Detect\<close> returns a version exactly when some source reports one that parses and is not
  0.0.0 and every source of higher priority is absent or reports the placeholder 0.0.0: an
  error or an unparsable version of a source of higher priority is never skipped.
\<close>

theorem Detect_priority:
  "Detect sv dsc dsci olm = Inr v \<longleftrightarrow>
     source_version sv dsc v
     \<or> source_skipped sv dsc \<and> source_version sv dsci v
     \<or> source_skipped sv dsc \<and> source_skipped sv dsci \<and> source_version sv olm v"
  unfolding Detect_def detect_step by blast

end
