(* ===== verification/LintRegistry.thy ===== *)
theory LintRegistry
  imports LintResult Glob Versions
begin

text \<open>
  The checks and their registry: \<open>pkg/lint/check/check.go\<close>, \<open>base.go\<close>, \<open>registry.go\<close>,
  \<open>selector.go\<close>, and the registrations of \<open>NewCommand\<close> in \<open>pkg/lint/command.go\<close>. The type \<open>'t\<close> is
  the target a check is run against. The lock of the registry guards single operations; each
  operation below is one such critical section.
\<close>

section \<open>Checks\<close>

type_synonym CheckGroupT = string

abbreviation GroupComponent :: CheckGroupT where "GroupComponent \<equiv> ''component''"
abbreviation GroupDependency :: CheckGroupT where "GroupDependency \<equiv> ''dependency''"
abbreviation GroupPlatform :: CheckGroupT where "GroupPlatform \<equiv> ''platform''"
abbreviation GroupService :: CheckGroupT where "GroupService \<equiv> ''service''"
abbreviation GroupWorkload :: CheckGroupT where "GroupWorkload \<equiv> ''workload''"

definition CanonicalGroupOrder :: "CheckGroupT list" where
  "CanonicalGroupOrder =
     [GroupDependency, GroupService, GroupPlatform, GroupComponent, GroupWorkload]"

text \<open>
  The interface \<open>Check\<close>: the metadata of \<open>BaseCheck\<close> and the two methods each check implements.
  \<open>Validate\<close> returns a result that may be nil and an error that may be nil, or panics (\<open>Inl\<close>): the check of the
  InferenceService configuration does, on a ConfigMap that is not there. No \<open>CanApply\<close> of a registered check panics.
\<close>

record 't Check =
  CheckID :: string
  CheckName :: string
  CheckDescription :: string
  CheckGroup :: CheckGroupT
  CheckKind :: string
  CheckType :: string
  CanApply :: "'t \<Rightarrow> err + bool"
  Validate :: "'t \<Rightarrow> string + (DiagnosticResult option \<times> err option)"

text \<open>\<open>BaseCheck.NewResult\<close>, also spelled out in the executor.\<close>

definition check_result :: "'t Check \<Rightarrow> DiagnosticResult" where
  "check_result c = NewResult (CheckGroup c) (CheckKind c) (CheckType c) (CheckDescription c)"

section \<open>Targets (\<open>target.go\<close>)\<close>

text \<open>The client and the two versions, and whether there are streams; no check reads the resource.\<close>

record 'c Target =
  tgtClient :: 'c
  CurrentVersion :: "Version option"
  TargetVersion :: "Version option"
  tgtIO :: bool
  tgtDebug :: bool

section \<open>Selectors (\<open>selector.go\<close>)\<close>

abbreviation SelectorComponents :: string where "SelectorComponents \<equiv> ''components''"
abbreviation SelectorDependencies :: string where "SelectorDependencies \<equiv> ''dependencies''"
abbreviation SelectorPlatform :: string where "SelectorPlatform \<equiv> ''platform''"
abbreviation SelectorServices :: string where "SelectorServices \<equiv> ''services''"
abbreviation SelectorWorkloads :: string where "SelectorWorkloads \<equiv> ''workloads''"

abbreviation ErrBadPattern :: err where "ErrBadPattern \<equiv> NewError ''syntax error in pattern''"

definition matchesPattern :: "'t Check \<Rightarrow> string \<Rightarrow> err + bool" where
  "matchesPattern c pattern =
     (if pattern = ''*'' then Inr True
      else if pattern = SelectorComponents then Inr (CheckGroup c = GroupComponent)
      else if pattern = SelectorDependencies then Inr (CheckGroup c = GroupDependency)
      else if pattern = SelectorPlatform then Inr (CheckGroup c = GroupPlatform)
      else if pattern = SelectorServices then Inr (CheckGroup c = GroupService)
      else if pattern = SelectorWorkloads then Inr (CheckGroup c = GroupWorkload)
      else if pattern = CheckID c then Inr True
      else case path_match pattern (CheckID c) of
          Inl _ \<Rightarrow> Inl (Wrap (''invalid pattern '' @ go_quote pattern @ '': ''
             @ err_string ErrBadPattern) [ErrBadPattern])
        | Inr matched \<Rightarrow> Inr matched)"

section \<open>The registry (\<open>registry.go\<close>)\<close>

type_synonym 't CheckRegistry = "(string, 't Check) gomap"

definition NewRegistry :: "'t CheckRegistry" where
  "NewRegistry = []"

definition Register :: "'t CheckRegistry \<Rightarrow> 't Check \<Rightarrow> err + 't CheckRegistry" where
  "Register r c =
     (case map_of r (CheckID c) of
        Some _ \<Rightarrow> Inl (NewError (''check with ID '' @ CheckID c @ '' already registered''))
      | None \<Rightarrow> Inr (AList.update (CheckID c) c r))"

text \<open>\<open>Inl\<close> is the value the method panics with.\<close>

definition MustRegister :: "'t CheckRegistry \<Rightarrow> 't Check \<Rightarrow> string + 't CheckRegistry" where
  "MustRegister r c =
     (case Register r c of
        Inl e \<Rightarrow> Inl (''failed to register check '' @ CheckID c @ '': '' @ err_string e)
      | Inr r' \<Rightarrow> Inr r')"

definition Get :: "'t CheckRegistry \<Rightarrow> string \<Rightarrow> 't Check option" where
  "Get r cid = map_of r cid"

definition ListByGroup :: "'t CheckRegistry \<Rightarrow> CheckGroupT \<Rightarrow> 't Check list" where
  "ListByGroup r g = filter (\<lambda>c. CheckGroup c = g) (map snd r)"

definition ListBySelector :: "'t CheckRegistry \<Rightarrow> CheckGroupT \<Rightarrow> 't Check list" where
  "ListBySelector r g = filter (\<lambda>c. \<not> (g \<noteq> [] \<and> CheckGroup c \<noteq> g)) (map snd r)"

definition ListAll :: "'t CheckRegistry \<Rightarrow> 't Check list" where
  "ListAll r = map snd r"

text \<open>The inner loop over the patterns, left at the first match or error.\<close>

fun match_any :: "'t Check \<Rightarrow> string list \<Rightarrow> err + bool" where
  "match_any c [] = Inr False"
| "match_any c (p # ps) =
     (case matchesPattern c p of
        Inl e \<Rightarrow> Inl (Wrap (''pattern matching for check '' @ CheckID c @ '': '' @ err_string e) [e])
      | Inr matched \<Rightarrow> if matched then Inr True else match_any c ps)"

fun list_by_patterns :: "'t Check list \<Rightarrow> string list \<Rightarrow> CheckGroupT \<Rightarrow> err + 't Check list" where
  "list_by_patterns [] patterns g = Inr []"
| "list_by_patterns (c # cs) patterns g =
     (if g \<noteq> [] \<and> CheckGroup c \<noteq> g then list_by_patterns cs patterns g
      else bind_res (match_any c patterns) (\<lambda>matched.
        bind_res (list_by_patterns cs patterns g) (\<lambda>result.
          Inr (if matched then c # result else result))))"

definition ListByPatterns ::
  "'t CheckRegistry \<Rightarrow> string list \<Rightarrow> CheckGroupT \<Rightarrow> err + 't Check list" where
  "ListByPatterns r patterns g = list_by_patterns (map snd r) patterns g"

fun matches_any_check :: "'t Check list \<Rightarrow> string list \<Rightarrow> err + bool" where
  "matches_any_check [] patterns = Inr False"
| "matches_any_check (c # cs) patterns =
     bind_res (match_any c patterns) (\<lambda>matched.
       if matched then Inr True else matches_any_check cs patterns)"

definition MatchesAnyCheck :: "'t CheckRegistry \<Rightarrow> string list \<Rightarrow> err + bool" where
  "MatchesAnyCheck r patterns = matches_any_check (map snd r) patterns"

definition AllCheckIDs :: "'t CheckRegistry \<Rightarrow> string list" where
  "AllCheckIDs r = sort_slice (\<lambda>a b. a < b) (map fst r)"

definition ListByPattern ::
  "'t CheckRegistry \<Rightarrow> string \<Rightarrow> CheckGroupT \<Rightarrow> err + 't Check list" where
  "ListByPattern r pattern g = ListByPatterns r [pattern] g"

section \<open>The registered checks (\<open>NewCommand\<close>)\<close>

text \<open>
  Group, kind, type and identifier of the checks in the order in which \<open>NewCommand\<close> registers
  them, from the \<open>BaseCheck\<close> literal of each constructor. Names, descriptions and the methods of
  the checks are an argument, indexed by identifier.
\<close>

definition lint_check_table :: "(CheckGroupT \<times> string \<times> string \<times> string) list" where
  "lint_check_table = [
     (GroupPlatform, ''dsci'', ''readiness'', ''platform.dsci.readiness''),
     (GroupPlatform, ''dsc'', ''readiness'', ''platform.dsc.readiness''),
     (GroupPlatform, ''dsc'', ''storage-version'', ''platform.dsc.storage-version''),
     (GroupComponent, ''aigateway'', ''maas-field-migration'', ''components.aigateway.maas-field-migration''),
     (GroupComponent, ''ray'', ''removal'', ''components.ray.codeflare-removal''),
     (GroupComponent, ''dashboard'', ''acceleratorprofile-migration'', ''components.dashboard.acceleratorprofile-migration''),
     (GroupComponent, ''dashboard'', ''hardwareprofile-migration'', ''components.dashboard.hardwareprofile-migration''),
     (GroupComponent, ''dashboard'', ''auth-model-migration'', ''components.dashboard.auth-model-migration''),
     (GroupComponent, ''dashboard'', ''route-migration'', ''components.dashboard.route-migration''),
     (GroupComponent, ''dashboard'', ''resource-capacity'', ''components.dashboard.resource-capacity''),
     (GroupComponent, ''dashboard'', ''rollout-strategy'', ''components.dashboard.rollout-strategy''),
     (GroupComponent, ''dashboard'', ''config-compatibility'', ''components.dashboard.config-compatibility''),
     (GroupComponent, ''datasciencepipelines'', ''renaming'', ''components.datasciencepipelines.renaming''),
     (GroupComponent, ''feastoperator'', ''renaming'', ''components.feastoperator.renaming''),
     (GroupComponent, ''kserve'', ''serverless-removal'', ''components.kserve.serverless-removal''),
     (GroupComponent, ''kserve'', ''wva-removal'', ''components.kserve.wva-removal''),
     (GroupComponent, ''kserve'', ''kuadrant-readiness'', ''components.kserve.kuadrant-readiness''),
     (GroupComponent, ''kserve'', ''authorino-tls-readiness'', ''components.kserve.authorino-tls-readiness''),
     (GroupComponent, ''kserve'', ''servicemesh-operator-upgrade'', ''components.kserve.servicemesh-operator-upgrade''),
     (GroupComponent, ''kserve'', ''servicemesh-removal'', ''components.kserve.servicemesh-removal''),
     (GroupComponent, ''kueue'', ''management-state'', ''components.kueue.management-state''),
     (GroupComponent, ''kueue'', ''operator-installed'', ''components.kueue.operator-installed''),
     (GroupComponent, ''llamastackoperator'', ''removal'', ''components.llamastackoperator.removal''),
     (GroupComponent, ''modelmeshserving'', ''removal'', ''components.modelmesh.removal''),
     (GroupComponent, ''modelregistry'', ''renaming'', ''components.modelregistry.renaming''),
     (GroupComponent, ''trainingoperator'', ''deprecation'', ''components.trainingoperator.deprecation''),
     (GroupComponent, ''trainingoperator'', ''removal'', ''components.trainingoperator.removal''),
     (GroupDependency, ''cert-manager'', ''installed'', ''dependencies.certmanager.installed''),
     (GroupDependency, ''openshift-platform'', ''version-requirement'', ''dependencies.openshift.version-requirement''),
     (GroupDependency, ''orphaned-sm2-crds'', ''readiness'', ''dependencies.orphaned-sm2-crds.readiness''),
     (GroupDependency, ''ossm-v3-compatibility'', ''compatibility'', ''dependencies.ossm-v3-compatibility.compatibility''),
     (GroupDependency, ''servicemesh-v3'', ''installed'', ''dependencies.servicemesh.installed''),
     (GroupDependency, ''shared-ossm'', ''shared-usage'', ''dependencies.shared-ossm.shared-usage''),
     (GroupDependency, ''shared-serverless'', ''shared-usage'', ''dependencies.shared-serverless.shared-usage''),
     (GroupWorkload, ''ray'', ''impacted-workloads'', ''workloads.ray.appwrapper-cleanup''),
     (GroupWorkload, ''datasciencepipelines'', ''custom-rbac-api-subresource'', ''workloads.datasciencepipelines.custom-rbac-api-subresource''),
     (GroupWorkload, ''datasciencepipelines'', ''instructlab-removal'', ''workloads.datasciencepipelines.instructlab-removal''),
     (GroupWorkload, ''datasciencepipelines'', ''stored-version-removal'', ''workloads.datasciencepipelines.stored-version-removal''),
     (GroupWorkload, ''guardrails'', ''impacted-workloads'', ''workloads.guardrails.impacted-workloads''),
     (GroupWorkload, ''guardrails'', ''config-migration'', ''workloads.guardrails.otel-config-migration''),
     (GroupWorkload, ''kserve'', ''impacted-workloads'', ''workloads.kserve.inferenceservice-config''),
     (GroupWorkload, ''kserve'', ''impacted-workloads'', ''workloads.kserve.accelerator-migration''),
     (GroupWorkload, ''kserve'', ''config-migration'', ''workloads.kserve.hardwareprofile-migration''),
     (GroupWorkload, ''kserve'', ''impacted-workloads'', ''workloads.kserve.impacted-workloads''),
     (GroupWorkload, ''kueue'', ''data-integrity'', ''workloads.kueue.data-integrity''),
     (GroupWorkload, ''llamastackdistribution'', ''config'', ''workloads.llamastack.config''),
     (GroupWorkload, ''llamastackdistribution'', ''migration'', ''workloads.llamastack.migration''),
     (GroupWorkload, ''ogx'', ''impacted-workloads'', ''workloads.ogx.externalaccess-tls''),
     (GroupWorkload, ''notebook'', ''acceleratorprofile-migration'', ''workloads.notebook.accelerator-migration''),
     (GroupWorkload, ''notebook'', ''config-migration'', ''workloads.notebook.container-name-mismatch''),
     (GroupWorkload, ''notebook'', ''config-migration'', ''workloads.notebook.hardwareprofile-migration''),
     (GroupWorkload, ''notebook'', ''data-integrity'', ''workloads.notebook.connection-integrity''),
     (GroupWorkload, ''notebook'', ''data-integrity'', ''workloads.notebook.hardware-profile-integrity''),
     (GroupWorkload, ''notebook'', ''impacted-workloads'', ''workloads.notebook.impacted-workloads''),
     (GroupWorkload, ''notebook'', ''workload-state'', ''workloads.notebook.non-stopped-workloads''),
     (GroupWorkload, ''ray'', ''impacted-workloads'', ''workloads.ray.impacted-workloads''),
     (GroupWorkload, ''trainer'', ''impacted-workloads'', ''workloads.trainer.numprocpernode''),
     (GroupWorkload, ''trainer'', ''impacted-workloads'', ''workloads.trainer.podtemplateoverrides''),
     (GroupWorkload, ''trainingoperator'', ''impacted-workloads'', ''workloads.trainingoperator.impacted-workloads'')]"

record 't check_impl =
  implName :: string
  implDescription :: string
  implCanApply :: "'t \<Rightarrow> err + bool"
  implValidate :: "'t \<Rightarrow> string + (DiagnosticResult option \<times> err option)"

definition mk_check ::
  "(string \<Rightarrow> 't check_impl) \<Rightarrow> CheckGroupT \<times> string \<times> string \<times> string \<Rightarrow> 't Check" where
  "mk_check impl e = (case e of (g, k, t, cid) \<Rightarrow>
     \<lparr>CheckID = cid, CheckName = implName (impl cid), CheckDescription = implDescription (impl cid),
      CheckGroup = g, CheckKind = k, CheckType = t,
      CanApply = implCanApply (impl cid), Validate = implValidate (impl cid)\<rparr>)"

definition NewCommand_registry :: "(string \<Rightarrow> 't check_impl) \<Rightarrow> string + 't CheckRegistry" where
  "NewCommand_registry impl = register_all MustRegister NewRegistry (map (mk_check impl) lint_check_table)"

section \<open>Lemmas\<close>

text \<open>The invariant of the map: one entry per identifier, under the identifier of its check.\<close>

definition wf_registry :: "'t CheckRegistry \<Rightarrow> bool" where
  "wf_registry r \<longleftrightarrow> wf_gomap r \<and> (\<forall>(k, c)\<in>set r. k = CheckID c)"

lemma Register_Inr_iff:
  "Register r c = Inr r' \<longleftrightarrow> map_of r (CheckID c) = None \<and> r' = AList.update (CheckID c) c r"
  by (auto simp: Register_def split: option.splits)

lemma MustRegister_Inr_iff: "MustRegister r c = Inr r' \<longleftrightarrow> Register r c = Inr r'"
  by (auto simp: MustRegister_def split: sum.splits)

lemma wf_registry_Register: "wf_registry r \<Longrightarrow> Register r c = Inr r' \<Longrightarrow> wf_registry r'"
  by (auto simp: wf_registry_def Register_Inr_iff set_update_fresh)

lemma wf_registry_Get:
  "wf_registry r \<Longrightarrow> Get r k = Some c \<longleftrightarrow> c \<in> set (ListAll r) \<and> CheckID c = k"
  by (force simp: wf_registry_def Get_def ListAll_def simp flip: map_of_mem)

interpretation checks: keyed_registry CheckID NewRegistry MustRegister Get ListAll wf_registry
proof unfold_locales
  fix m m' :: "'a CheckRegistry" and a k
  show "wf_registry NewRegistry" "ListAll NewRegistry = []"
    by (simp_all add: wf_registry_def NewRegistry_def ListAll_def)
  show "Get m (CheckID a) = None \<Longrightarrow> \<exists>m'. MustRegister m a = Inr m'"
    by (simp add: Get_def MustRegister_Inr_iff Register_Inr_iff)
  show "Get m (CheckID a) \<noteq> None \<Longrightarrow> \<exists>e. MustRegister m a = Inl e"
    by (auto simp: Get_def MustRegister_def Register_def)
  show "MustRegister m a = Inr m' \<Longrightarrow> Get m' k = (if k = CheckID a then Some a else Get m k)"
    by (auto simp: Get_def MustRegister_Inr_iff Register_Inr_iff)
  show "MustRegister m a = Inr m' \<Longrightarrow> set (ListAll m') = insert a (set (ListAll m))"
    by (auto simp: MustRegister_Inr_iff Register_Inr_iff ListAll_def set_update_fresh)
  show "wf_registry m \<Longrightarrow> MustRegister m a = Inr m' \<Longrightarrow> wf_registry m'"
    by (auto simp: MustRegister_Inr_iff intro: wf_registry_Register)
  show "wf_registry m \<Longrightarrow> Get m k = Some a \<longleftrightarrow> a \<in> set (ListAll m) \<and> CheckID a = k"
    by (rule wf_registry_Get)
qed

text \<open>Which checks a list of patterns selects, when every pattern is well formed.\<close>

abbreviation good_pattern :: "string \<Rightarrow> bool" where
  "good_pattern p \<equiv> path_match p ''test.check'' \<noteq> Inl ()"

definition selects :: "'t Check \<Rightarrow> string \<Rightarrow> bool" where
  "selects c p \<longleftrightarrow> matchesPattern c p = Inr True"

lemma matchesPattern_good: "good_pattern p \<Longrightarrow> matchesPattern c p = Inr (selects c p)"
proof -
  assume "good_pattern p"
  then have "path_match p (CheckID c) \<noteq> Inl ()"
    using path_match_bad_iff by metis
  then obtain b where "path_match p (CheckID c) = Inr b"
    by (cases "path_match p (CheckID c)") auto
  then have "\<not> isl (matchesPattern c p)" unfolding matchesPattern_def by simp
  then show ?thesis by (cases "matchesPattern c p") (auto simp: selects_def)
qed

lemma match_any_good:
  "list_all good_pattern ps \<Longrightarrow> match_any c ps = Inr (list_ex (selects c) ps)"
  by (induction ps) (auto simp: matchesPattern_good)

lemma list_by_patterns_good:
  "list_all good_pattern ps \<Longrightarrow> list_by_patterns cs ps g =
     Inr (filter (\<lambda>c. (g = [] \<or> CheckGroup c = g) \<and> list_ex (selects c) ps) cs)"
  by (induction cs) (auto simp: match_any_good)

lemma matches_any_check_good:
  "list_all good_pattern ps \<Longrightarrow> matches_any_check cs ps = Inr (list_ex (\<lambda>c. list_ex (selects c) ps) cs)"
  by (induction cs) (auto simp: match_any_good)

lemma mk_check_simps [simp]:
  "CheckID (mk_check impl e) = snd (snd (snd e))" "CheckGroup (mk_check impl e) = fst e"
  "CheckKind (mk_check impl e) = fst (snd e)" "CheckType (mk_check impl e) = fst (snd (snd e))"
  by (simp_all add: mk_check_def split: prod.splits)

lemma lint_check_ids_distinct: "distinct (map (\<lambda>e. snd (snd (snd e))) lint_check_table)"
  by code_simp

text \<open>The shortcut a group has on the command line.\<close>

definition group_shortcut :: "CheckGroupT \<Rightarrow> string" where
  "group_shortcut g = (if g = GroupComponent then SelectorComponents
     else if g = GroupDependency then SelectorDependencies
     else if g = GroupService then SelectorServices
     else if g = GroupWorkload then SelectorWorkloads else SelectorPlatform)"

lemma lint_check_table_groups:
  "list_all (\<lambda>(g, k, t, cid). g \<in> set CanonicalGroupOrder \<and> CHR ''/'' \<notin> set cid \<and> CHR ''*'' \<notin> set cid
      \<and> takeWhile (\<lambda>c. c \<noteq> CHR ''.'') cid = group_shortcut g
      \<and> has_prefix cid (group_shortcut g @ ''.'')
      \<and> k \<noteq> [] \<and> t \<noteq> []) lint_check_table"
  by code_simp

lemma glob_dot_star:
  assumes "CHR ''/'' \<notin> set n" and "CHR ''*'' \<notin> set p"
  shows "glob (p @ ''*'') n \<longleftrightarrow> has_prefix n p"
proof -
  have "CHR ''/'' \<notin> set (drop (length p) n)" using assms(1) by (auto dest: in_set_dropD)
  then have "glob ''*'' (drop (length p) n)" by (rule glob_star_only)
  with glob_literal [OF assms(2), of "''*''" n] show ?thesis by simp
qed

text \<open>A selector with a dot is never a shortcut.\<close>

lemma matchesPattern_dotted:
  assumes "CHR ''.'' \<in> set p" and "p \<noteq> CheckID c" and "path_match p (CheckID c) = Inr b"
  shows "matchesPattern c p = Inr b"
proof -
  have "p \<noteq> q" if "CHR ''.'' \<notin> set q" for q using assms(1) that by blast
  then have "p \<noteq> ''*''" "p \<noteq> SelectorComponents" "p \<noteq> SelectorDependencies"
    "p \<noteq> SelectorPlatform" "p \<noteq> SelectorServices" "p \<noteq> SelectorWorkloads"
    by simp_all
  with assms(2,3) show ?thesis unfolding matchesPattern_def by (simp only: if_False sum.case)
qed

lemma takeWhile_prefix:
  "has_prefix s (p @ [c]) \<Longrightarrow> c \<notin> set p \<Longrightarrow> takeWhile (\<lambda>x. x \<noteq> c) s = p"
  by (auto simp: has_prefix_iff takeWhile_tail)

section \<open>Properties\<close>

text \<open>
  \<open>NewCommand\<close> never panics: its 59 registrations have distinct identifiers, the registry it
  builds holds exactly these checks, and each is found under its identifier.
\<close>

theorem NewCommand_registers_all:
  "\<exists>r. NewCommand_registry impl = Inr r
     \<and> set (ListAll r) = mk_check impl ` set lint_check_table
     \<and> length lint_check_table = 59
     \<and> list_all (\<lambda>e. Get r (snd (snd (snd e))) = Some (mk_check impl e)) lint_check_table"
proof -
  have "length lint_check_table = 59" by (simp add: lint_check_table_def)
  moreover have "distinct (map CheckID (map (mk_check impl) lint_check_table))"
    using lint_check_ids_distinct by (simp add: comp_def)
  from checks.register_all_empty [OF this] show ?thesis
    using calculation unfolding NewCommand_registry_def by (auto simp: list_all_iff)
qed

text \<open>
  On the registered checks the shortcut of a group and the glob over its identifiers select
  the same checks: \<open>components\<close> and \<open>components.*\<close>, and likewise for the other groups; the
  selector for all checks is \<open>*\<close>.
\<close>

theorem shortcut_is_glob:
  assumes "e \<in> set lint_check_table" and "g \<in> set CanonicalGroupOrder"
  shows "matchesPattern (mk_check impl e) (group_shortcut g) = Inr (fst e = g)
    \<and> matchesPattern (mk_check impl e) (group_shortcut g @ ''.*'') = Inr (fst e = g)"
proof
  obtain h k t cid where e: "e = (h, k, t, cid)" by (cases e)
  have h: "h \<in> set CanonicalGroupOrder" "CHR ''/'' \<notin> set cid"
      "takeWhile (\<lambda>c. c \<noteq> CHR ''.'') cid = group_shortcut h" "has_prefix cid (group_shortcut h @ ''.'')"
    using lint_check_table_groups assms(1) unfolding e list_all_iff by auto
  have sc: "CHR ''.'' \<notin> set (group_shortcut g)" "CHR ''*'' \<notin> set (group_shortcut g)"
      "plain_pattern (group_shortcut g @ ''.*'')"
      "inj_on group_shortcut (set CanonicalGroupOrder)"
    by (simp_all add: group_shortcut_def plain_pattern_def CanonicalGroupOrder_def)
  show "matchesPattern (mk_check impl e) (group_shortcut g) = Inr (fst e = g)"
    using assms(2) by (auto simp: matchesPattern_def group_shortcut_def CanonicalGroupOrder_def)
  have neq: "CHR ''*'' \<notin> set cid"
    using lint_check_table_groups assms(1) unfolding e list_all_iff by auto
  have "has_prefix cid (group_shortcut g @ ''.'') \<longleftrightarrow> h = g"
  proof
    assume "has_prefix cid (group_shortcut g @ ''.'')"
    from takeWhile_prefix [OF this sc(1)] h(3) have "group_shortcut h = group_shortcut g" by simp
    with sc(4) h(1) assms(2) show "h = g" by (auto dest: inj_onD)
  qed (use h(4) in simp)
  moreover have "path_match (group_shortcut g @ ''.*'') cid = Inr (glob (group_shortcut g @ ''.*'') cid)"
    by (rule path_match_glob [OF sc(3) h(2)])
  moreover have "glob (group_shortcut g @ ''.*'') cid \<longleftrightarrow> has_prefix cid (group_shortcut g @ ''.'')"
    using glob_dot_star [OF h(2), of "group_shortcut g @ ''.''"] sc(2) by simp
  ultimately have pm: "path_match (group_shortcut g @ ''.*'') cid = Inr (h = g)" by simp
  have "group_shortcut g @ ''.*'' \<noteq> cid" using neq by auto
  with pm matchesPattern_dotted [of "group_shortcut g @ ''.*''" "mk_check impl e" "h = g"]
  show "matchesPattern (mk_check impl e) (group_shortcut g @ ''.*'') = Inr (fst e = g)"
    by (simp add: e)
qed

theorem shortcut_is_glob_witness:
  "matchesPattern (mk_check (undefined :: string \<Rightarrow> unit check_impl)
     (GroupPlatform, ''dsci'', ''readiness'', ''platform.dsci.readiness'')) ''platform.*'' = Inr True"
proof -
  have "(GroupPlatform, ''dsci'', ''readiness'', ''platform.dsci.readiness'') \<in> set lint_check_table"
    "GroupPlatform \<in> set CanonicalGroupOrder"
    by (simp_all add: lint_check_table_def CanonicalGroupOrder_def)
  from conjunct2 [OF shortcut_is_glob [OF this]] show ?thesis by (simp add: group_shortcut_def)
qed

end
