(* ===== verification/LintExecutor.thy ===== *)
theory LintExecutor
  imports LintRegistry
begin

text \<open>
  Running checks: \<open>pkg/lint/check/executor.go\<close> and \<open>context.go\<close>. The context is a function from
  the number of the poll to the error \<open>ctx.Err()\<close> gives then (none while the context is
  live); a run threads the poll counter. A panic, of \<open>NewCondition\<close> or of the \<open>Validate\<close> of a check, which
  nothing recovers, is \<open>Inl\<close>. The lines written to the error stream are collected in a log.
\<close>

section \<open>Context errors\<close>

abbreviation ErrCheckTimeout :: err where "ErrCheckTimeout \<equiv> NewError ''check execution timed out''"
abbreviation ErrCheckCanceled :: err where "ErrCheckCanceled \<equiv> NewError ''check execution canceled''"

definition CheckContextError :: "err option \<Rightarrow> err option" where
  "CheckContextError ctxErr = (case ctxErr of
     None \<Rightarrow> None
   | Some e \<Rightarrow>
       if errors_is (\<lambda>x. x = Sentinel DeadlineExceeded) e then Some ErrCheckTimeout
       else if errors_is (\<lambda>x. x = Sentinel Canceled) e then Some ErrCheckCanceled
       else Some (Wrap (''context error: '' @ err_string e) [e]))"

section \<open>Executions\<close>

record 't CheckExecution =
  ExCheck :: "'t Check"
  ExResult :: "DiagnosticResult option"
  ExError :: "err option"

text \<open>
  The executor: its registry, whether it has streams, the predicates of \<open>apierrors\<close>, and how a
  target gets the executor's streams when it has none.
\<close>

record 't Executor =
  execRegistry :: "'t CheckRegistry"
  execIO :: bool
  execAPI :: api_preds
  ensureIO :: "'t \<Rightarrow> 't"

abbreviation ConditionTypeValidated :: string where "ConditionTypeValidated \<equiv> ''Validated''"
abbreviation ReasonCheckExecutionFailed :: string where
  "ReasonCheckExecutionFailed \<equiv> ''CheckExecutionFailed''"
abbreviation ReasonAPIAccessDenied :: string where "ReasonAPIAccessDenied \<equiv> ''APIAccessDenied''"

definition error_result :: "'t Check \<Rightarrow> Condition \<Rightarrow> DiagnosticResult" where
  "error_result c cond = (check_result c)\<lparr>Conditions := [cond]\<rparr>"

definition buildCanApplyError :: "'t Check \<Rightarrow> err \<Rightarrow> string + 't CheckExecution" where
  "buildCanApplyError c e =
     bind_res (NewCondition ConditionTypeValidated ConditionUnknown
         [WithReason ReasonCheckExecutionFailed,
          WithMessage (''Check applicability failed: '' @ err_string e)])
       (\<lambda>cond. Inr \<lparr>ExCheck = c, ExResult = Some (error_result c cond),
          ExError = Some (Wrap (''CanApply failed for check '' @ CheckID c @ '': '' @ err_string e) [e])\<rparr>)"

text \<open>The reason, the message and the log lines that \<open>buildValidateError\<close> picks for an error.\<close>

definition validate_error_text :: "api_preds \<Rightarrow> bool \<Rightarrow> 't Check \<Rightarrow> err \<Rightarrow> string \<times> string \<times> string list" where
  "validate_error_text api io c e =
     (if api IsForbidden e then
        (let message = ''Insufficient permissions to access cluster resources'' in
         (ReasonAPIAccessDenied, message,
          if io then [''Permission denied: '' @ message @ '' - Check: '' @ CheckName c] else []))
      else if api IsUnauthorized e then
        (let message = ''Authentication required to access cluster resources'' in
         (ReasonAPIAccessDenied, message,
          if io then [''Unauthorized: '' @ message @ '' - Check: '' @ CheckName c] else []))
      else if api IsTimeout e then (ReasonCheckExecutionFailed, ''Request timed out'', [])
      else if api IsServiceUnavailable e \<or> api IsServerTimeout e then
        (ReasonCheckExecutionFailed, ''API server is unavailable or overloaded'', [])
      else (ReasonCheckExecutionFailed, [], []))"

definition buildValidateError ::
  "api_preds \<Rightarrow> bool \<Rightarrow> 't Check \<Rightarrow> err \<Rightarrow> string + ('t CheckExecution \<times> string list)" where
  "buildValidateError api io c e =
     (case validate_error_text api io c e of (reason, message, log) \<Rightarrow>
        bind_res
          (if reason = ReasonCheckExecutionFailed \<and> message = [] then
             NewCondition ConditionTypeValidated ConditionUnknown
               [WithReason reason, WithMessage (''Check execution failed: '' @ err_string e)]
           else
             NewCondition ConditionTypeValidated ConditionUnknown
               [WithReason reason, WithMessage (message @ '': '' @ err_string e)])
          (\<lambda>cond. Inr (\<lparr>ExCheck = c, ExResult = Some (error_result c cond), ExError = Some e\<rparr>, log)))"

definition executeCheck ::
  "'t Executor \<Rightarrow> 't \<Rightarrow> 't Check \<Rightarrow> string + ('t CheckExecution \<times> string list)" where
  "executeCheck ex target c =
     (case Validate c (ensureIO ex target) of
        Inl p \<Rightarrow> Inl p
      | Inr (None, None) \<Rightarrow> Inr (\<lparr>ExCheck = c, ExResult = None, ExError = None\<rparr>, [])
      | Inr (_, Some e) \<Rightarrow> buildValidateError (execAPI ex) (execIO ex) c e
      | Inr (Some r, None) \<Rightarrow>
          (case ResultValidate r of
             Some e \<Rightarrow>
               bind_res (NewCondition ConditionTypeValidated ConditionUnknown
                   [WithReason ReasonCheckExecutionFailed,
                    WithMessage (''Invalid check result: '' @ err_string e)])
                 (\<lambda>cond. Inr (\<lparr>ExCheck = c, ExResult = Some (error_result c cond),
                    ExError = Some (Wrap (''invalid result from check '' @ CheckID c @ '': ''
                      @ err_string e) [e])\<rparr>, []))
           | None \<Rightarrow> Inr (\<lparr>ExCheck = c, ExResult = Some r, ExError = None\<rparr>, [])))"

text \<open>The loop of \<open>executeChecks\<close>: executions, log and the number of the next poll.\<close>

fun executeChecks ::
  "'t Executor \<Rightarrow> (nat \<Rightarrow> err option) \<Rightarrow> nat \<Rightarrow> 't \<Rightarrow> 't Check list
     \<Rightarrow> string + ('t CheckExecution list \<times> string list \<times> nat)" where
  "executeChecks ex ctx k target [] = Inr ([], [], k)"
| "executeChecks ex ctx k target (c # cs) =
     (case CheckContextError (ctx k) of
        Some _ \<Rightarrow> Inr ([], [], Suc k)
      | None \<Rightarrow>
          (case CanApply c target of
             Inl e \<Rightarrow>
               bind_res (buildCanApplyError c e) (\<lambda>x.
               bind_res (executeChecks ex ctx (Suc k) target cs) (\<lambda>(xs, log, k').
                 Inr (x # xs, log, k')))
           | Inr False \<Rightarrow> executeChecks ex ctx (Suc k) target cs
           | Inr True \<Rightarrow>
               bind_res (executeCheck ex target c) (\<lambda>(x, l).
               bind_res (executeChecks ex ctx (Suc k) target cs) (\<lambda>(xs, log, k').
                 Inr (if ExResult x \<noteq> None then x # xs else xs, l @ log, k')))))"

definition ExecuteAll ::
  "'t Executor \<Rightarrow> (nat \<Rightarrow> err option) \<Rightarrow> nat \<Rightarrow> 't
     \<Rightarrow> string + ('t CheckExecution list \<times> string list \<times> nat)" where
  "ExecuteAll ex ctx k target = executeChecks ex ctx k target (ListAll (execRegistry ex))"

text \<open>
  \<open>ExecuteSelective\<close> returns an error when the selection fails; inside the value, \<open>Inl\<close> is again
  a panic.
\<close>

definition ExecuteSelective ::
  "'t Executor \<Rightarrow> (nat \<Rightarrow> err option) \<Rightarrow> nat \<Rightarrow> 't \<Rightarrow> string list \<Rightarrow> CheckGroupT
     \<Rightarrow> err + (string + ('t CheckExecution list \<times> string list \<times> nat))" where
  "ExecuteSelective ex ctx k target patterns g =
     (case ListByPatterns (execRegistry ex) patterns g of
        Inl e \<Rightarrow> Inl (Wrap (''selecting checks: '' @ err_string e) [e])
      | Inr cs \<Rightarrow> Inr (executeChecks ex ctx k target cs))"

section \<open>Lemmas\<close>

text \<open>The condition of an error result.\<close>

definition unknown_condition :: "string \<Rightarrow> string \<Rightarrow> Condition" where
  "unknown_condition reason msg = \<lparr>CondType = ConditionTypeValidated, CondStatus = ConditionUnknown,
     CondReason = reason, CondMessage = msg, CondImpact = ImpactAdvisory, Remediation = []\<rparr>"

lemma NewCondition_unknown:
  "NewCondition ConditionTypeValidated ConditionUnknown [WithReason rs, WithMessage msg] =
     Inr (unknown_condition rs msg)"
proof -
  have "ConditionValidate (unknown_condition rs msg) = None"
    by (simp add: unknown_condition_def ConditionValidate_def)
  then show ?thesis
    by (simp add: NewCondition_def Let_def condition_options deriveImpact_def unknown_condition_def)
qed

definition named_check :: "'t Check \<Rightarrow> bool" where
  "named_check c \<longleftrightarrow> CheckGroup c \<noteq> [] \<and> CheckKind c \<noteq> [] \<and> CheckType c \<noteq> []"

lemma error_result_valid:
  "named_check c \<Longrightarrow> rs \<noteq> [] \<Longrightarrow> ResultValidate (error_result c (unknown_condition rs msg)) = None"
  by (simp add: named_check_def error_result_def check_result_def NewResult_def ResultValidate_def
      validateCondition_def unknown_condition_def)

lemma error_result_impact: "GetImpact (error_result c (unknown_condition rs msg)) = ImpactAdvisory"
  by (simp add: error_result_def GetImpact_def unknown_condition_def)

lemma validate_error_text_reason: "fst (validate_error_text api io c e) \<noteq> []"
  unfolding validate_error_text_def by (simp add: Let_def)

lemma buildCanApplyError_eq:
  "buildCanApplyError c e = Inr \<lparr>ExCheck = c,
     ExResult = Some (error_result c (unknown_condition ReasonCheckExecutionFailed
        (''Check applicability failed: '' @ err_string e))),
     ExError = Some (Wrap (''CanApply failed for check '' @ CheckID c @ '': '' @ err_string e) [e])\<rparr>"
  by (simp add: buildCanApplyError_def NewCondition_unknown)

lemma buildValidateError_eq:
  "\<exists>rs msg log. buildValidateError api io c e =
     Inr (\<lparr>ExCheck = c, ExResult = Some (error_result c (unknown_condition rs msg)), ExError = Some e\<rparr>, log)
     \<and> rs \<noteq> []"
proof -
  obtain rs m log where t: "validate_error_text api io c e = (rs, m, log)" by (cases "validate_error_text api io c e")
  with validate_error_text_reason [of api io c e] have "rs \<noteq> []" by simp
  with t show ?thesis
    by (simp add: buildValidateError_def NewCondition_unknown) blast
qed

text \<open>What one execution of a check looks like.\<close>

definition good_execution :: "'t CheckExecution \<Rightarrow> bool" where
  "good_execution x \<longleftrightarrow> (\<exists>r. ExResult x = Some r \<and> ResultValidate r = None
     \<and> (ExError x = None \<or> (\<exists>rs msg. Conditions r = [unknown_condition rs msg])))"

text \<open>The checks that show up in the report of a run that is not cut short.\<close>

definition reported :: "'t Executor \<Rightarrow> 't \<Rightarrow> 't Check \<Rightarrow> bool" where
  "reported ex target c = (case CanApply c target of
     Inl _ \<Rightarrow> True
   | Inr b \<Rightarrow> b \<and> Validate c (ensureIO ex target) \<noteq> Inr (None, None))"

text \<open>A check that applies and whose \<open>Validate\<close> panics.\<close>

definition panics :: "'t Executor \<Rightarrow> 't \<Rightarrow> 't Check \<Rightarrow> bool" where
  "panics ex target c \<longleftrightarrow> CanApply c target = Inr True \<and> isl (Validate c (ensureIO ex target))"

lemma good_error_execution:
  "named_check c \<Longrightarrow> rs \<noteq> [] \<Longrightarrow> good_execution \<lparr>ExCheck = c,
     ExResult = Some (error_result c (unknown_condition rs msg)), ExError = e\<rparr>"
  unfolding good_execution_def by (simp add: error_result_valid) (auto simp: error_result_def)

lemma executeCheck_cases:
  assumes "named_check c" "\<not> isl (Validate c (ensureIO ex target))"
  shows "\<exists>x log. executeCheck ex target c = Inr (x, log) \<and> ExCheck x = c
    \<and> (if Validate c (ensureIO ex target) = Inr (None, None) then ExResult x = None
       else good_execution x)"
proof -
  obtain r e where v: "Validate c (ensureIO ex target) = Inr (r, e)"
    using assms(2) by (cases "Validate c (ensureIO ex target)") auto
  show ?thesis
  proof (cases e)
    case (Some e')
    obtain rs msg log where b: "buildValidateError (execAPI ex) (execIO ex) c e' =
        Inr (\<lparr>ExCheck = c, ExResult = Some (error_result c (unknown_condition rs msg)), ExError = Some e'\<rparr>, log)"
        "rs \<noteq> []"
      using buildValidateError_eq by blast
    have "executeCheck ex target c = buildValidateError (execAPI ex) (execIO ex) c e'"
      using v Some by (cases r) (simp_all add: executeCheck_def)
    with b v Some good_error_execution [OF assms(1) b(2)] show ?thesis by simp
  next
    case None
    show ?thesis
    proof (cases r)
      case None
      with v \<open>e = None\<close> show ?thesis by (simp add: executeCheck_def)
    next
      case (Some r')
      with v \<open>e = None\<close> good_error_execution [OF assms(1), of ReasonCheckExecutionFailed] show ?thesis
        by (cases "ResultValidate r'")
           (simp_all add: executeCheck_def NewCondition_unknown, simp add: good_execution_def)
    qed
  qed
qed

lemma good_execution_result: "good_execution x \<Longrightarrow> ExResult x \<noteq> None"
  by (auto simp: good_execution_def)

lemma CheckContextError_None [simp]:
  "CheckContextError e = None \<longleftrightarrow> e = None" "CheckContextError None = None"
  by (simp_all add: CheckContextError_def split: option.splits)

text \<open>How many checks are started before the context is done.\<close>

fun started :: "(nat \<Rightarrow> err option) \<Rightarrow> nat \<Rightarrow> nat \<Rightarrow> nat" where
  "started ctx k 0 = 0"
| "started ctx k (Suc n) = (if ctx k = None then Suc (started ctx (Suc k) n) else 0)"

lemma started_live: "(\<And>i. ctx i = None) \<Longrightarrow> started ctx k n = n"
  by (induction n arbitrary: k) auto

lemma started_le: "started ctx k n \<le> n"
  by (induction n arbitrary: k) auto

lemma executeChecks_step:
  assumes "named_check c" and "ctx k = None" and "\<not> panics ex target c"
    and "executeChecks ex ctx (Suc k) target cs = Inr (xs, log, k')"
  shows "\<exists>ys log'. executeChecks ex ctx k target (c # cs) = Inr (ys @ xs, log', k')
    \<and> map ExCheck ys = filter (reported ex target) [c] \<and> list_all good_execution ys"
proof (cases "CanApply c target")
  case (Inl e)
  let ?x = "\<lparr>ExCheck = c, ExResult = Some (error_result c (unknown_condition ReasonCheckExecutionFailed
        (''Check applicability failed: '' @ err_string e))),
     ExError = Some (Wrap (''CanApply failed for check '' @ CheckID c @ '': '' @ err_string e) [e])\<rparr>"
  have "executeChecks ex ctx k target (c # cs) = Inr ([?x] @ xs, log, k')"
    using assms Inl by (simp add: buildCanApplyError_eq)
  moreover have "good_execution ?x" by (rule good_error_execution [OF assms(1)]) simp
  ultimately show ?thesis using Inl by (intro exI [of _ "[?x]"]) (simp add: reported_def)
next
  case (Inr b)
  show ?thesis
  proof (cases b)
    case False
    with assms Inr show ?thesis by - (rule exI [of _ "[]"], simp add: reported_def)
  next
    case True
    with assms(3) Inr have "\<not> isl (Validate c (ensureIO ex target))" by (simp add: panics_def)
    from executeCheck_cases [OF assms(1) this]
    obtain x l where x: "executeCheck ex target c = Inr (x, l)" "ExCheck x = c"
        "if Validate c (ensureIO ex target) = Inr (None, None) then ExResult x = None else good_execution x" by blast
    show ?thesis
    proof (cases "Validate c (ensureIO ex target) = Inr (None, None)")
      case False
      then have "good_execution x" using x(3) by simp
      with good_execution_result [OF this] False True x assms Inr show ?thesis
        by (intro exI [of _ "[x]"]) (simp add: reported_def)
    next
      case nil: True
      with True x assms Inr show ?thesis by - (rule exI [of _ "[]"], simp add: reported_def)
    qed
  qed
qed

lemma executeChecks_spec:
  "list_all named_check cs \<Longrightarrow> \<not> list_ex (panics ex target) (take (started ctx k (length cs)) cs) \<Longrightarrow>
     \<exists>xs log k'. executeChecks ex ctx k target cs = Inr (xs, log, k')
       \<and> map ExCheck xs = filter (reported ex target) (take (started ctx k (length cs)) cs)
       \<and> list_all good_execution xs"
proof (induction cs arbitrary: k)
  case (Cons c cs)
  show ?case
  proof (cases "ctx k")
    case None
    obtain xs log k' where xs: "executeChecks ex ctx (Suc k) target cs = Inr (xs, log, k')"
        "map ExCheck xs = filter (reported ex target) (take (started ctx (Suc k) (length cs)) cs)"
        "list_all good_execution xs"
      using Cons.IH [of "Suc k"] Cons.prems None by auto
    have "named_check c" "\<not> panics ex target c" using Cons.prems None by simp_all
    from executeChecks_step [OF this(1) None this(2) xs(1)] obtain ys log' where
      "executeChecks ex ctx k target (c # cs) = Inr (ys @ xs, log', k')"
      "map ExCheck ys = filter (reported ex target) [c]" "list_all good_execution ys" by blast
    with xs None show ?thesis by auto
  next
    case (Some e)
    then obtain e' where "CheckContextError (ctx k) = Some e'"
      by (cases "CheckContextError (ctx k)") simp_all
    with Some show ?thesis by simp
  qed
qed simp

lemma executeCheck_panics: "panics ex target c \<Longrightarrow> \<exists>p. executeCheck ex target c = Inl p"
  by (auto simp: panics_def executeCheck_def split: sum.split)

lemma executeChecks_panics:
  "list_ex (panics ex target) (take (started ctx k (length cs)) cs) \<Longrightarrow> \<exists>p. executeChecks ex ctx k target cs = Inl p"
proof (induction cs arbitrary: k)
  case (Cons c cs)
  then have k: "ctx k = None" by (cases "ctx k = None") simp_all
  show ?case
  proof (cases "panics ex target c")
    case True
    with executeCheck_panics [OF this] k show ?thesis by (auto simp: panics_def)
  next
    case False
    with Cons k obtain p where "executeChecks ex ctx (Suc k) target cs = Inl p" by auto
    with k show ?thesis
      by (auto simp: buildCanApplyError_eq split: sum.split bool.split) (cases "executeCheck ex target c", auto)
  qed
qed simp

section \<open>Properties\<close>

text \<open>
  Running checks panics exactly when a check that is started applies and its \<open>Validate\<close> panics, and else what it
  returns is well formed: on checks with a group, a
  kind and a type, every execution has a result that passes the validation of results,
  and an execution with an error carries exactly one condition, of status Unknown and advisory
  impact. The executions are, in order, those of the checks that were started before the
  context was done and that either failed to decide whether they apply or apply and
  did not return a nil result; with a live context no check is left out.
\<close>

theorem executeChecks_reports:
  assumes "list_all named_check cs"
  shows "if list_ex (panics ex target) (take (started ctx k (length cs)) cs)
     then \<exists>p. executeChecks ex ctx k target cs = Inl p
     else \<exists>xs log k'. executeChecks ex ctx k target cs = Inr (xs, log, k')
       \<and> list_all good_execution xs
       \<and> map ExCheck xs = filter (reported ex target) (take (started ctx k (length cs)) cs)
       \<and> ((\<forall>i. ctx i = None) \<longrightarrow> map ExCheck xs = filter (reported ex target) cs)"
proof (cases "list_ex (panics ex target) (take (started ctx k (length cs)) cs)")
  case True
  then show ?thesis using executeChecks_panics by simp
next
  case False
  then show ?thesis
    using executeChecks_spec [OF assms False] started_live [of ctx k "length cs"] by fastforce
qed

text \<open>A check that reports a blocking condition, one that fails, and an executor for them.\<close>

definition sample_check :: "string \<Rightarrow> (unit \<Rightarrow> string + (DiagnosticResult option \<times> err option)) \<Rightarrow> unit Check" where
  "sample_check cid v = \<lparr>CheckID = cid, CheckName = ''n'', CheckDescription = ''d'',
     CheckGroup = GroupComponent, CheckKind = ''kserve'', CheckType = ''removal'',
     CanApply = (\<lambda>_. Inr True), Validate = v\<rparr>"

definition sample_executor :: "unit CheckRegistry \<Rightarrow> unit Executor" where
  "sample_executor r = \<lparr>execRegistry = r, execIO = True, execAPI = status_api, ensureIO = id\<rparr>"

theorem executeChecks_reports_witness:
  "\<exists>xs log k'. executeChecks (sample_executor []) (\<lambda>_. None) 0 ()
       [sample_check ''a'' (\<lambda>_. Inr (Some sample_result, None)), sample_check ''b'' (\<lambda>_. Inr (None, None)),
        sample_check ''c'' (\<lambda>_. Inr (None, Some (NewError ''x'')))] = Inr (xs, log, k')
     \<and> map (CheckID \<circ> ExCheck) xs = [''a'', ''c'']"
proof -
  let ?cs = "[sample_check ''a'' (\<lambda>_. Inr (Some sample_result, None)), sample_check ''b'' (\<lambda>_. Inr (None, None)),
        sample_check ''c'' (\<lambda>_. Inr (None, Some (NewError ''x'')))]"
  have "list_all named_check ?cs" by (simp add: named_check_def sample_check_def)
  moreover have "\<not> list_ex (panics (sample_executor []) ()) (take (started (\<lambda>_. None) 0 (length ?cs)) ?cs)"
    by (simp add: panics_def sample_check_def)
  ultimately obtain xs log k' where x: "executeChecks (sample_executor []) (\<lambda>_. None) 0 () ?cs = Inr (xs, log, k')"
      "map ExCheck xs = filter (reported (sample_executor []) ()) ?cs"
    using executeChecks_reports [of ?cs "sample_executor []" "()" "\<lambda>_. None" 0] by (simp only: if_False) blast
  have "map (CheckID \<circ> ExCheck) xs = map CheckID (filter (reported (sample_executor []) ()) ?cs)"
    using x(2) by (metis map_map)
  also have "\<dots> = [''a'', ''c'']"
    by (simp add: reported_def sample_check_def sample_executor_def)
  finally show ?thesis using x(1) by (intro exI conjI)
qed

end
