(* ===== verification/LintOutput.thy ===== *)
theory LintOutput
  imports LintExecutor "HOL-Library.Product_Lexorder"
begin

text \<open>
  What the lint command does with the executions before it prints them: the functions on results
  of \<open>pkg/lint/command_options.go\<close> (\<open>FlattenResults\<close>, \<open>FilterBySeverity\<close> and the sort priorities)
  and the rows and totals of \<open>pkg/lint/output_table.go\<close>. The texts of the table (colours,
  borders, padding) are left to the printers.
\<close>

section \<open>Severity\<close>

type_synonym SeverityLevel = string

abbreviation SeverityLevelProhibited :: SeverityLevel where "SeverityLevelProhibited \<equiv> ''prohibited''"
abbreviation SeverityLevelCritical :: SeverityLevel where "SeverityLevelCritical \<equiv> ''critical''"
abbreviation SeverityLevelWarning :: SeverityLevel where "SeverityLevelWarning \<equiv> ''warning''"
abbreviation SeverityLevelInfo :: SeverityLevel where "SeverityLevelInfo \<equiv> ''info''"

definition SeverityLevelValidate :: "SeverityLevel \<Rightarrow> err option" where
  "SeverityLevelValidate s =
     (if s \<in> set [SeverityLevelProhibited, SeverityLevelCritical, SeverityLevelWarning, SeverityLevelInfo]
      then None
      else Some (NewError (''invalid severity level: '' @ s
             @ '' (must be one of: prohibited, critical, warning, info)'')))"

definition meetsMinSeverity :: "Impact \<Rightarrow> SeverityLevel \<Rightarrow> bool" where
  "meetsMinSeverity impact minLevel =
     (if minLevel = SeverityLevelProhibited then impact = ImpactProhibited
      else if minLevel = SeverityLevelCritical then impact = ImpactProhibited \<or> impact = ImpactBlocking
      else if minLevel = SeverityLevelWarning then
        impact = ImpactProhibited \<or> impact = ImpactBlocking \<or> impact = ImpactAdvisory
      else True)"

fun filter_by_severity :: "SeverityLevel \<Rightarrow> 't CheckExecution list \<Rightarrow> 't CheckExecution list" where
  "filter_by_severity minLevel [] = []"
| "filter_by_severity minLevel (x # xs) =
     (case ExResult x of
        None \<Rightarrow> filter_by_severity minLevel xs
      | Some r \<Rightarrow>
          (let kept = filter (\<lambda>c. meetsMinSeverity (CondImpact c) minLevel) (Conditions r) in
           if kept = [] then filter_by_severity minLevel xs
           else x\<lparr>ExResult := Some (r\<lparr>Conditions := kept\<rparr>)\<rparr> # filter_by_severity minLevel xs))"

definition FilterBySeverity :: "'t CheckExecution list \<Rightarrow> SeverityLevel \<Rightarrow> 't CheckExecution list" where
  "FilterBySeverity results minLevel =
     (if minLevel = SeverityLevelInfo then results else filter_by_severity minLevel results)"

section \<open>Orders\<close>

definition impactSortPriority :: "Impact \<Rightarrow> nat" where
  "impactSortPriority impact = (if impact = ImpactProhibited then 0 else if impact = ImpactBlocking then 1
     else if impact = ImpactAdvisory then 2 else if impact = ImpactNone then 3 else 3)"

fun index_of :: "nat \<Rightarrow> string list \<Rightarrow> string \<Rightarrow> nat" where
  "index_of i [] g = i"
| "index_of i (x # xs) g = (if x = g then i else index_of (Suc i) xs g)"

text \<open>The loop returns the index of the group, or the length of the order.\<close>

definition groupSortPriority :: "string \<Rightarrow> nat" where
  "groupSortPriority g = index_of 0 CanonicalGroupOrder g"

fun max_impact_loop :: "Impact \<Rightarrow> Condition list \<Rightarrow> Impact" where
  "max_impact_loop maxImpact [] = maxImpact"
| "max_impact_loop maxImpact (c # cs) =
     max_impact_loop (if impactSortPriority (CondImpact c) < impactSortPriority maxImpact
                      then CondImpact c else maxImpact) cs"

definition checkMaxImpact :: "DiagnosticResult \<Rightarrow> Impact" where
  "checkMaxImpact r = max_impact_loop ImpactNone (Conditions r)"

section \<open>Flattening\<close>

text \<open>The comparison of \<open>FlattenResults\<close>; a nil result is a nil dereference there.\<close>

definition execution_less :: "'t CheckExecution \<Rightarrow> 't CheckExecution \<Rightarrow> bool" where
  "execution_less x y =
     (let r = the (ExResult x); s = the (ExResult y) in
      if Kind r \<noteq> Kind s then Kind r < Kind s else Name r < Name s)"

definition sort_group :: "'t CheckExecution list \<Rightarrow> string + 't CheckExecution list" where
  "sort_group xs =
     (if length xs \<ge> 2 \<and> list_ex (\<lambda>x. ExResult x = None) xs then Inl nil_dereference
      else Inr (sort_slice execution_less xs))"

fun flatten_groups ::
  "CheckGroupT list \<Rightarrow> (CheckGroupT \<Rightarrow> 't CheckExecution list) \<Rightarrow> string + 't CheckExecution list" where
  "flatten_groups [] byGroup = Inr []"
| "flatten_groups (g # gs) byGroup =
     bind_res (sort_group (byGroup g)) (\<lambda>xs.
     bind_res (flatten_groups gs byGroup) (\<lambda>ys. Inr (xs @ ys)))"

text \<open>The map of results: a group that is not a key has no results.\<close>

definition FlattenResults ::
  "(CheckGroupT \<Rightarrow> 't CheckExecution list) \<Rightarrow> string + 't CheckExecution list" where
  "FlattenResults byGroup = flatten_groups CanonicalGroupOrder byGroup"

section \<open>Table rows (\<open>output_table.go\<close>)\<close>

text \<open>A row with the raw impact of its condition; symbols and colours are functions of it.\<close>

record sortableRow =
  rowKind :: string
  rowGroup :: string
  rowCheck :: string
  rowMessage :: string
  rowDescription :: string
  rowImpact :: Impact

definition mk_row :: "DiagnosticResult \<Rightarrow> Condition \<Rightarrow> sortableRow" where
  "mk_row r c = \<lparr>rowKind = Kind r, rowGroup = Group r, rowCheck = Name r, rowMessage = CondMessage c,
     rowDescription = Description r, rowImpact = CondImpact c\<rparr>"

definition collect_rows :: "'t CheckExecution list \<Rightarrow> sortableRow list" where
  "collect_rows results = concat (map (\<lambda>x. case ExResult x of None \<Rightarrow> []
     | Some r \<Rightarrow> map (mk_row r) (Conditions r)) results)"

definition row_less :: "sortableRow \<Rightarrow> sortableRow \<Rightarrow> bool" where
  "row_less a b =
     (let gi = groupSortPriority (rowGroup a); gj = groupSortPriority (rowGroup b) in
      if gi \<noteq> gj then gi < gj
      else if rowKind a \<noteq> rowKind b then rowKind a < rowKind b
      else (let pi = impactSortPriority (rowImpact a); pj = impactSortPriority (rowImpact b) in
        if pi \<noteq> pj then pi < pj else rowCheck a < rowCheck b))"

definition collectSortedRows :: "'t CheckExecution list \<Rightarrow> sortableRow list" where
  "collectSortedRows results = sort_slice row_less (collect_rows results)"

record table_totals =
  totalChecks :: nat
  totalPassed :: nat
  totalWarnings :: nat
  totalFailed :: nat
  totalProhibited :: nat

fun count_row :: "sortableRow \<Rightarrow> table_totals \<Rightarrow> table_totals" where
  "count_row sr t =
     (let t = t\<lparr>totalChecks := totalChecks t + 1\<rparr>; i = rowImpact sr in
      if i = ImpactProhibited then t\<lparr>totalProhibited := totalProhibited t + 1\<rparr>
      else if i = ImpactBlocking then t\<lparr>totalFailed := totalFailed t + 1\<rparr>
      else if i = ImpactAdvisory then t\<lparr>totalWarnings := totalWarnings t + 1\<rparr>
      else if i = ImpactNone then t\<lparr>totalPassed := totalPassed t + 1\<rparr>
      else t)"

definition no_totals :: table_totals where
  "no_totals = \<lparr>totalChecks = 0, totalPassed = 0, totalWarnings = 0, totalFailed = 0, totalProhibited = 0\<rparr>"

text \<open>
  What \<open>OutputTable\<close> hands to the printers: the prohibited findings of the banner, the rows and the
  totals of the summary line.
\<close>

definition OutputTable_data :: "'t CheckExecution list \<Rightarrow> sortableRow list \<times> sortableRow list \<times> table_totals" where
  "OutputTable_data results =
     (let rows = collectSortedRows results in
      (filter (\<lambda>sr. rowImpact sr = ImpactProhibited) rows, rows, fold count_row rows no_totals))"

section \<open>Lemmas\<close>

lemma impactSortPriority_rank: "impactSortPriority i + impact_rank i = 3"
  by (simp add: impactSortPriority_def impact_rank_def)

lemma max_impact_loop_rank:
  "impact_rank (max_impact_loop m cs) = fold max (map (\<lambda>c. impact_rank (CondImpact c)) cs) (impact_rank m)"
proof (induction cs arbitrary: m)
  case (Cons c cs)
  have "impact_rank (if impactSortPriority (CondImpact c) < impactSortPriority m then CondImpact c else m)
      = max (impact_rank (CondImpact c)) (impact_rank m)"
    using impactSortPriority_rank [of "CondImpact c"] impactSortPriority_rank [of m] by auto
  with Cons.IH show ?case by simp
qed simp

lemma max_impact_loop_known: "known_impact m \<Longrightarrow> known_impact (max_impact_loop m cs)"
proof (induction cs arbitrary: m)
  case (Cons c cs)
  have "known_impact (CondImpact c)" if "impactSortPriority (CondImpact c) < impactSortPriority m"
  proof (rule ccontr)
    assume "\<not> known_impact (CondImpact c)"
    then have "impact_rank (CondImpact c) = 0" by (simp add: known_impact_def impact_rank_def)
    with that impactSortPriority_rank [of "CondImpact c"] impactSortPriority_rank [of m] show False by simp
  qed
  with Cons show ?case by simp
qed simp

lemma filter_by_severity_results:
  "x \<in> set (filter_by_severity l xs) \<Longrightarrow> ExResult x \<noteq> None"
  by (induction xs) (auto simp: Let_def split: option.splits if_splits)

lemma execution_less_key:
  "execution_less x y \<longleftrightarrow> (Kind (the (ExResult x)), Name (the (ExResult x))) <
     (Kind (the (ExResult y)), Name (the (ExResult y)))"
  by (auto simp: execution_less_def Let_def)

abbreviation exec_key :: "'t CheckExecution \<Rightarrow> string \<times> string" where
  "exec_key x \<equiv> (Kind (the (ExResult x)), Name (the (ExResult x)))"

lemma sort_execution_less:
  "sort_slice execution_less = sort_slice (\<lambda>a b :: 'a CheckExecution. exec_key a < exec_key b)"
proof -
  have "execution_less = (\<lambda>a b :: 'a CheckExecution. exec_key a < exec_key b)"
    by (intro ext) (rule execution_less_key)
  then show ?thesis by (rule arg_cong)
qed

abbreviation row_key :: "sortableRow \<Rightarrow> nat \<times> string \<times> nat \<times> string" where
  "row_key r \<equiv> (groupSortPriority (rowGroup r), rowKind r, impactSortPriority (rowImpact r), rowCheck r)"

lemma sort_row_less: "sort_slice row_less = sort_slice (\<lambda>a b. row_key a < row_key b)"
proof -
  have "row_less = (\<lambda>a b. row_key a < row_key b :: bool)"
    by (intro ext) (auto simp: row_less_def Let_def)
  then show ?thesis by (rule arg_cong)
qed

lemma sort_group_Inr:
  "list_all (\<lambda>x. ExResult x \<noteq> None) xs \<Longrightarrow> sort_group xs = Inr (sort_slice execution_less xs)"
  by (auto simp: sort_group_def list_all_iff list_ex_iff)

lemma flatten_groups_Inr:
  "(\<And>g. g \<in> set gs \<Longrightarrow> list_all (\<lambda>x. ExResult x \<noteq> None) (byGroup g)) \<Longrightarrow>
     flatten_groups gs byGroup = Inr (concat (map (\<lambda>g. sort_slice execution_less (byGroup g)) gs))"
  by (induction gs) (auto simp: sort_group_Inr)

lemma count_row_totals:
  "totalChecks (count_row sr t) = totalChecks t + 1"
  "known_impact (rowImpact sr) \<Longrightarrow>
     totalPassed (count_row sr t) + totalWarnings (count_row sr t) + totalFailed (count_row sr t)
       + totalProhibited (count_row sr t) =
     totalPassed t + totalWarnings t + totalFailed t + totalProhibited t + 1"
  by (auto simp: Let_def known_impact_def)

lemma count_row_fields:
  "totalProhibited (count_row sr t) = totalProhibited t + of_bool (rowImpact sr = ImpactProhibited)"
  "totalFailed (count_row sr t) = totalFailed t + of_bool (rowImpact sr = ImpactBlocking)"
  "totalWarnings (count_row sr t) = totalWarnings t + of_bool (rowImpact sr = ImpactAdvisory)"
  "totalPassed (count_row sr t) = totalPassed t + of_bool (rowImpact sr = ImpactNone)"
  by (auto simp: Let_def)

declare count_row.simps [simp del]

lemma fold_count:
  "totalChecks (fold count_row rows t) = totalChecks t + length rows"
  "totalProhibited (fold count_row rows t) =
     totalProhibited t + length (filter (\<lambda>r. rowImpact r = ImpactProhibited) rows)"
  "totalFailed (fold count_row rows t) =
     totalFailed t + length (filter (\<lambda>r. rowImpact r = ImpactBlocking) rows)"
  "totalWarnings (fold count_row rows t) =
     totalWarnings t + length (filter (\<lambda>r. rowImpact r = ImpactAdvisory) rows)"
  "totalPassed (fold count_row rows t) =
     totalPassed t + length (filter (\<lambda>r. rowImpact r = ImpactNone) rows)"
  by (induction rows arbitrary: t) (auto simp: count_row_totals count_row_fields)

text \<open>Concatenating sorted blocks whose first key components increase.\<close>

lemma sorted_concat_groups:
  assumes "sorted_wrt (<) (map p gs)"
    and "\<And>g. g \<in> set gs \<Longrightarrow> sorted (map k (f g))"
    and "\<And>g x. g \<in> set gs \<Longrightarrow> x \<in> set (f g) \<Longrightarrow> q x = p g"
  shows "sorted (map (\<lambda>x. (q x :: nat, k x :: string \<times> string)) (concat (map f gs)))"
  using assms
proof (induction gs)
  case (Cons g gs)
  have "sorted (map (\<lambda>x. (q x, k x)) (f g))"
    using Cons.prems(2,3) [of g] by (auto simp: sorted_map elim!: sorted_wrt_mono_rel [rotated])
  moreover have "sorted (map (\<lambda>x. (q x, k x)) (concat (map f gs)))"
    using Cons by auto
  moreover have "q x < q y" if x: "x \<in> set (f g)" and y: "y \<in> set (concat (map f gs))" for x y
  proof -
    obtain h where "h \<in> set gs" "y \<in> set (f h)" using y by auto
    with x Cons.prems(3) [of g x] Cons.prems(3) [of h y] Cons.prems(1) show ?thesis by simp
  qed
  ultimately show ?case by (force simp: sorted_append)
qed simp

lemma groupSortPriority_canonical:
  "map groupSortPriority CanonicalGroupOrder = [0, 1, 2, 3, 4]"
  by (simp add: groupSortPriority_def CanonicalGroupOrder_def)

lemma collect_rows_Cons:
  "collect_rows (x # xs) = (case ExResult x of None \<Rightarrow> [] | Some r \<Rightarrow> map (mk_row r) (Conditions r))
     @ collect_rows xs"
  by (simp add: collect_rows_def)

lemma mk_row_filtered: "mk_row (r\<lparr>Conditions := cs\<rparr>) = mk_row r"
  by (intro ext) (simp add: mk_row_def)

lemma filter_by_severity_rows:
  "collect_rows (filter_by_severity l xs) = filter (\<lambda>r. meetsMinSeverity (rowImpact r) l) (collect_rows xs)"
proof (induction xs)
  case (Cons x xs)
  show ?case
  proof (cases "ExResult x")
    case None
    with Cons show ?thesis by (simp add: collect_rows_Cons)
  next
    case (Some r)
    let ?kept = "filter (\<lambda>c. meetsMinSeverity (CondImpact c) l) (Conditions r)"
    have rows: "filter (\<lambda>r. meetsMinSeverity (rowImpact r) l) (map (mk_row r) (Conditions r)) = map (mk_row r) ?kept"
      by (simp add: filter_map comp_def mk_row_def)
    show ?thesis
    proof (cases "?kept = []")
      case True
      with Some Cons rows show ?thesis by (simp add: collect_rows_Cons)
    next
      case False
      with Some Cons rows show ?thesis by (simp add: collect_rows_Cons Let_def mk_row_filtered)
    qed
  qed
qed (simp add: collect_rows_def)

section \<open>Properties\<close>

text \<open>
  C6. Flattening does not lose, invent or repeat an execution, its result is ordered by
  canonical group, then kind, then name (for results filed under their own group), and
  when no two results of a group share kind and name it does not depend on the order in
  which the executions of a group arrived.
\<close>

theorem FlattenResults_sorted:
  assumes "\<And>g. list_all (\<lambda>x. ExResult x \<noteq> None) (byGroup g)"
  shows "\<exists>ys. FlattenResults byGroup = Inr ys
    \<and> mset ys = sum_list (map (\<lambda>g. mset (byGroup g)) CanonicalGroupOrder)
    \<and> ((\<forall>g\<in>set CanonicalGroupOrder. \<forall>x\<in>set (byGroup g). Group (the (ExResult x)) = g) \<longrightarrow>
        sorted (map (\<lambda>x. (groupSortPriority (Group (the (ExResult x))), exec_key x)) ys))
    \<and> (\<forall>byGroup'. (\<forall>g. mset (byGroup' g) = mset (byGroup g) \<and> distinct (map exec_key (byGroup g))) \<longrightarrow>
        FlattenResults byGroup' = Inr ys)"
proof -
  let ?ys = "concat (map (\<lambda>g. sort_slice execution_less (byGroup g)) CanonicalGroupOrder)"
  have F: "FlattenResults byGroup = Inr ?ys"
    unfolding FlattenResults_def using assms by (simp add: flatten_groups_Inr)
  have M: "mset ?ys = sum_list (map (\<lambda>g. mset (byGroup g)) CanonicalGroupOrder)"
    by (simp add: mset_concat comp_def)
  have S: "sorted (map (\<lambda>x. (groupSortPriority (Group (the (ExResult x))), exec_key x)) ?ys)"
    if "\<forall>g\<in>set CanonicalGroupOrder. \<forall>x\<in>set (byGroup g). Group (the (ExResult x)) = g"
  proof (rule sorted_concat_groups [where p = groupSortPriority])
    show "sorted_wrt (<) (map groupSortPriority CanonicalGroupOrder)"
      by (simp add: groupSortPriority_canonical)
    show "sorted (map exec_key (sort_slice execution_less (byGroup g)))" for g
      unfolding sort_execution_less by (rule slice.srt_sorted)
  qed (use that in auto)
  have D: "FlattenResults byGroup' = Inr ?ys"
    if h: "\<forall>g. mset (byGroup' g) = mset (byGroup g) \<and> distinct (map exec_key (byGroup g))" for byGroup'
  proof -
    have "list_all (\<lambda>x. ExResult x \<noteq> None) (byGroup' g)" for g
      using assms [of g] h by (metis list_all_iff mset_eq_setD)
    moreover have "sort_slice execution_less (byGroup' g) = sort_slice execution_less (byGroup g)" for g
      unfolding sort_execution_less
    proof (rule slice.srt_order_irrelevant)
      show m: "mset (byGroup' g) = mset (byGroup g)" using h by blast
      have "inj_on exec_key (set (byGroup g))" using h distinct_map by blast
      then show "inj_on exec_key (set (byGroup' g))" unfolding mset_eq_setD [OF m] .
    qed
    ultimately show ?thesis unfolding FlattenResults_def by (simp add: flatten_groups_Inr)
  qed
  from F M S D show ?thesis by blast
qed

definition sample_execution :: "string \<Rightarrow> string \<Rightarrow> Impact \<Rightarrow> unit CheckExecution" where
  "sample_execution kind name i = \<lparr>ExCheck = sample_check name (\<lambda>_. Inr (None, None)),
     ExResult = Some ((NewResult GroupComponent kind name ''d'')
       \<lparr>Conditions := [sample_condition ''Ready'' ConditionFalse i]\<rparr>), ExError = None\<rparr>"

theorem FlattenResults_sorted_witness:
  "FlattenResults (\<lambda>g. if g = GroupComponent
       then [sample_execution ''ray'' ''a'' ImpactBlocking, sample_execution ''kueue'' ''b'' ImpactBlocking] else [])
     = Inr [sample_execution ''kueue'' ''b'' ImpactBlocking, sample_execution ''ray'' ''a'' ImpactBlocking]"
  (is "FlattenResults ?f = Inr ?out")
proof -
  have nn: "list_all (\<lambda>x. ExResult x \<noteq> None) (?f g)" for g by (simp add: sample_execution_def)
  obtain ys where ys: "\<forall>byGroup'. (\<forall>g. mset (byGroup' g) = mset (?f g) \<and> distinct (map exec_key (?f g))) \<longrightarrow>
      FlattenResults byGroup' = Inr ys" "FlattenResults ?f = Inr ys"
    using FlattenResults_sorted [of ?f, OF nn] by blast
  have "FlattenResults (\<lambda>g. if g = GroupComponent then ?out else []) = Inr ys"
    using ys(1) by (simp add: sample_execution_def NewResult_def add_mset_commute)
  moreover have "FlattenResults (\<lambda>g. if g = GroupComponent then ?out else []) = Inr ?out"
    by (simp add: FlattenResults_def CanonicalGroupOrder_def sort_group_def sort_slice_def
        execution_less_def Let_def sample_execution_def NewResult_def)
  ultimately show ?thesis using ys(2) by simp
qed

text \<open>
  Filtering by severity keeps exactly the conditions at or above the threshold, in order, and
  never leaves a result without conditions; for the level info it changes nothing, and for
  the level warning what it removes are the conditions without impact.
\<close>

theorem FilterBySeverity_conditions:
  assumes "SeverityLevelValidate l = None"
  shows "collect_rows (FilterBySeverity xs l) = filter (\<lambda>r. meetsMinSeverity (rowImpact r) l) (collect_rows xs)
    \<and> (l = SeverityLevelInfo \<longrightarrow> FilterBySeverity xs l = xs)
    \<and> (l \<noteq> SeverityLevelInfo \<longrightarrow>
        (\<forall>x\<in>set (FilterBySeverity xs l). \<exists>r. ExResult x = Some r \<and> Conditions r \<noteq> []))
    \<and> (\<forall>i. meetsMinSeverity i l \<longleftrightarrow>
        impact_rank i \<ge> (if l = SeverityLevelProhibited then 3 else if l = SeverityLevelCritical then 2
          else if l = SeverityLevelWarning then 1 else 0))"
proof (intro conjI impI allI)
  show "collect_rows (FilterBySeverity xs l) = filter (\<lambda>r. meetsMinSeverity (rowImpact r) l) (collect_rows xs)"
    by (simp add: FilterBySeverity_def filter_by_severity_rows) (simp add: meetsMinSeverity_def)
  show "FilterBySeverity xs l = xs" if "l = SeverityLevelInfo"
    using that by (simp add: FilterBySeverity_def)
  show "\<forall>x\<in>set (FilterBySeverity xs l). \<exists>r. ExResult x = Some r \<and> Conditions r \<noteq> []"
    if "l \<noteq> SeverityLevelInfo"
  proof -
    have "\<exists>r. ExResult x = Some r \<and> Conditions r \<noteq> []" if "x \<in> set (filter_by_severity l xs)" for x
      using that by (induction xs) (auto simp: Let_def split: option.splits if_splits)
    with that show ?thesis by (simp add: FilterBySeverity_def)
  qed
  show "meetsMinSeverity i l \<longleftrightarrow>
      impact_rank i \<ge> (if l = SeverityLevelProhibited then 3 else if l = SeverityLevelCritical then 2
        else if l = SeverityLevelWarning then 1 else 0)" for i
    by (simp add: meetsMinSeverity_def impact_rank_def)
qed

theorem FilterBySeverity_conditions_witness:
  "map rowCheck (collect_rows (FilterBySeverity
     [sample_execution ''ray'' ''a'' ImpactAdvisory, sample_execution ''kueue'' ''b'' ImpactBlocking]
     SeverityLevelCritical)) = [''b'']"
proof -
  have "SeverityLevelValidate SeverityLevelCritical = None" by (simp add: SeverityLevelValidate_def)
  note rows = conjunct1 [OF FilterBySeverity_conditions [OF this]]
  show ?thesis unfolding rows
    by (simp add: collect_rows_def sample_execution_def mk_row_def sample_condition_def
        NewResult_def meetsMinSeverity_def)
qed

text \<open>
  The table has one row per condition, ordered by canonical group, kind, severity and check;
  the totals of the summary line count its rows, they add up to the total when every
  impact is one of the four levels, and the banner lists the prohibited rows.
\<close>

theorem OutputTable_summary:
  assumes "\<And>r. r \<in> set (collect_rows xs) \<Longrightarrow> known_impact (rowImpact r)"
  shows "case OutputTable_data xs of (banner, rows, t) \<Rightarrow>
     mset rows = mset (collect_rows xs) \<and> sorted (map row_key rows)
     \<and> totalChecks t = length (collect_rows xs)
     \<and> totalPassed t + totalWarnings t + totalFailed t + totalProhibited t = totalChecks t
     \<and> length banner = totalProhibited t
     \<and> mset banner = filter_mset (\<lambda>r. rowImpact r = ImpactProhibited) (mset (collect_rows xs))"
proof -
  let ?rows = "collectSortedRows xs"
  have m: "mset ?rows = mset (collect_rows xs)" by (simp add: collectSortedRows_def)
  have s: "sorted (map row_key ?rows)"
    unfolding collectSortedRows_def sort_row_less by (rule slice.srt_sorted)
  have k: "list_all (\<lambda>r. known_impact (rowImpact r)) ?rows"
    using assms by (simp add: collectSortedRows_def list_all_iff)
  have "length (filter (\<lambda>r. rowImpact r = ImpactNone) rs) + length (filter (\<lambda>r. rowImpact r = ImpactAdvisory) rs)
      + length (filter (\<lambda>r. rowImpact r = ImpactBlocking) rs)
      + length (filter (\<lambda>r. rowImpact r = ImpactProhibited) rs) = length rs"
    if "list_all (\<lambda>r. known_impact (rowImpact r)) rs" for rs
    using that by (induction rs) (auto simp: known_impact_def)
  note sum = this [OF k]
  have len: "length ?rows = length (collect_rows xs)" by (simp add: collectSortedRows_def)
  let ?t = "fold count_row ?rows no_totals"
  have t: "totalChecks ?t = length ?rows"
    "totalPassed ?t + totalWarnings ?t + totalFailed ?t + totalProhibited ?t = length ?rows"
    "totalProhibited ?t = length (filter (\<lambda>r. rowImpact r = ImpactProhibited) ?rows)"
    using sum by (simp_all add: fold_count no_totals_def)
  show ?thesis
    unfolding OutputTable_data_def Let_def prod.case
    by (intro conjI) (simp_all only: m s t(1,2) t(3) [symmetric] len mset_filter)
qed

theorem OutputTable_summary_witness:
  "totalFailed (snd (snd (OutputTable_data [sample_execution ''ray'' ''a'' ImpactBlocking]))) = 1
   \<and> totalChecks (snd (snd (OutputTable_data [sample_execution ''ray'' ''a'' ImpactBlocking]))) = 1"
proof -
  have k: "known_impact (rowImpact r)"
    if "r \<in> set (collect_rows [sample_execution ''ray'' ''a'' ImpactBlocking])" for r
    using that by (simp add: collect_rows_def sample_execution_def sample_condition_def mk_row_def
        known_impact_def NewResult_def)
  have rows: "collect_rows [sample_execution ''ray'' ''a'' ImpactBlocking] =
      [\<lparr>rowKind = ''ray'', rowGroup = GroupComponent, rowCheck = ''a'', rowMessage = ''m'',
        rowDescription = ''d'', rowImpact = ImpactBlocking\<rparr>]"
    by (simp add: collect_rows_def sample_execution_def sample_condition_def mk_row_def NewResult_def)
  obtain b rs t where t: "OutputTable_data [sample_execution ''ray'' ''a'' ImpactBlocking] = (b, rs, t)"
    by (metis prod_cases3)
  then have "totalFailed t = 1"
    by (auto simp: OutputTable_data_def Let_def count_row_fields no_totals_def collectSortedRows_def rows
        sort_slice_def)
  moreover have "totalChecks t = 1"
    using OutputTable_summary [of "[sample_execution ''ray'' ''a'' ImpactBlocking]", OF k] t rows by simp
  ultimately show ?thesis using t by simp
qed

text \<open>
  The impact used to order the verbose table is the impact of the result that the verdict
  uses: the two loops, one over sort priorities and one over the levels, agree.
\<close>

theorem checkMaxImpact_GetImpact: "checkMaxImpact r = GetImpact r"
proof (rule rank_inj)
  show "known_impact (checkMaxImpact r)"
    unfolding checkMaxImpact_def by (rule max_impact_loop_known) (simp add: known_impact_def)
  show "impact_rank (checkMaxImpact r) = impact_rank (GetImpact r)"
    by (simp add: checkMaxImpact_def max_impact_loop_rank GetImpact_rank)
qed (rule GetImpact_known)

end
