(* ===== verification/LintCommand.thy ===== *)
theory LintCommand
  imports LintOutput Versions
begin

text \<open>
  The lint command: options and their validation (\<open>pkg/lint/command_options.go\<close>), the phases
  \<open>Complete\<close>, \<open>Validate\<close> and \<open>Run\<close> with the verdict (\<open>pkg/lint/command.go\<close>), and the handler of
  \<open>cmd/lint/lint.go\<close> that turns their errors into exit codes. Reading stdin, creating the client,
  the cluster reads and the printers are parameters. A panic is \<open>Inl\<close>.
\<close>

section \<open>Options\<close>

type_synonym OutputFormat = string

abbreviation OutputFormatTable :: OutputFormat where "OutputFormatTable \<equiv> ''table''"
abbreviation OutputFormatJSON :: OutputFormat where "OutputFormatJSON \<equiv> ''json''"
abbreviation OutputFormatYAML :: OutputFormat where "OutputFormatYAML \<equiv> ''yaml''"

definition OutputFormatValidate :: "OutputFormat \<Rightarrow> err option" where
  "OutputFormatValidate f =
     (if f \<in> set [OutputFormatTable, OutputFormatJSON, OutputFormatYAML] then None
      else Some (NewError (''invalid output format: '' @ f @ '' (must be one of: table, json, yaml)'')))"

record StdinInput =
  inChecks :: "string list"
  inSeverity :: string
  inTargetVersion :: string
  inVerbose :: bool
  inQuiet :: bool
  inOutput :: string

record 'c Command =
  cmdTargetVersion :: string
  ISVCDeploymentMode :: string
  parsedTargetVersion :: "Version option"
  currentClusterVersion :: string
  currentOpenShiftVersion :: string
  registry :: "'c Target CheckRegistry"
  cmdOutputFormat :: OutputFormat
  CheckSelectors :: "string list"
  cmdSeverityLevel :: SeverityLevel
  Verbose :: bool
  Quiet :: bool
  Debug :: bool
  NoColor :: bool
  FromStdin :: bool
  OutputSchema :: bool
  Timeout :: int
  cmdClient :: "'c option"

definition ValidateCheckSelector :: "string \<Rightarrow> err option" where
  "ValidateCheckSelector selector =
     (if selector = [] then Some (NewError ''check selector cannot be empty'')
      else case path_match selector ''test.check'' of
          Inl _ \<Rightarrow> Some (Wrap (''invalid check selector pattern '' @ go_quote selector @ '': ''
                    @ err_string ErrBadPattern) [ErrBadPattern])
        | Inr _ \<Rightarrow> None)"

definition ValidateCheckSelectors :: "string list \<Rightarrow> err option" where
  "ValidateCheckSelectors selectors =
     (if selectors = [] then Some (NewError ''at least one check selector is required'')
      else first_some ValidateCheckSelector selectors)"

definition SharedOptionsValidate :: "'c Command \<Rightarrow> err option" where
  "SharedOptionsValidate c =
     (case OutputFormatValidate (cmdOutputFormat c) of Some e \<Rightarrow> Some e
      | None \<Rightarrow> (case SeverityLevelValidate (cmdSeverityLevel c) of Some e \<Rightarrow> Some e
      | None \<Rightarrow> (case ValidateCheckSelectors (CheckSelectors c) of Some e \<Rightarrow> Some e
      | None \<Rightarrow> if Timeout c \<le> 0 then Some (NewError ''timeout must be greater than 0'') else None)))"

definition CommandValidate :: "'c Command \<Rightarrow> err option" where
  "CommandValidate c =
     (if OutputSchema c then None
      else case SharedOptionsValidate c of
          Some e \<Rightarrow> Some (wrapf ''validating shared options'' e)
        | None \<Rightarrow>
            if ISVCDeploymentMode c \<notin> set [''all'', ''serverless'', ''modelmesh''] then
              Some (NewError (''invalid isvc-deployment-mode: '' @ ISVCDeploymentMode c
                @ '' (must be one of: all, serverless, modelmesh)''))
            else None)"

section \<open>Stdin (\<open>applyStdinInput\<close>)\<close>

text \<open>
  \<open>changed\<close> is \<open>stdin.FlagChanged\<close>. The assignments made before an error stay, so the command is
  returned in both cases.
\<close>

definition stdin_checks :: "(string \<Rightarrow> bool) \<Rightarrow> StdinInput \<Rightarrow> 'c Command \<Rightarrow> 'c Command" where
  "stdin_checks changed input c =
     (if inChecks input \<noteq> [] \<and> \<not> changed ''checks'' then c\<lparr>CheckSelectors := inChecks input\<rparr> else c)"

definition stdin_flags :: "(string \<Rightarrow> bool) \<Rightarrow> StdinInput \<Rightarrow> 'c Command \<Rightarrow> 'c Command" where
  "stdin_flags changed input c =
     (let c = (if inTargetVersion input \<noteq> [] \<and> \<not> changed ''target-version''
               then c\<lparr>cmdTargetVersion := inTargetVersion input\<rparr> else c);
          c = (if inVerbose input \<and> \<not> changed ''verbose'' then c\<lparr>Verbose := True\<rparr> else c)
      in if inQuiet input \<and> \<not> changed ''quiet'' then c\<lparr>Quiet := True\<rparr> else c)"

definition stdin_severity ::
  "(string \<Rightarrow> bool) \<Rightarrow> StdinInput \<Rightarrow> 'c Command \<Rightarrow> 'c Command \<times> err option" where
  "stdin_severity changed input c =
     (if inSeverity input \<noteq> [] \<and> \<not> changed ''severity'' then
        (case SeverityLevelValidate (inSeverity input) of
           Some e \<Rightarrow> (c, Some (wrapf ''stdin input'' e))
         | None \<Rightarrow> (c\<lparr>cmdSeverityLevel := inSeverity input\<rparr>, None))
      else (c, None))"

definition stdin_output ::
  "(string \<Rightarrow> bool) \<Rightarrow> StdinInput \<Rightarrow> 'c Command \<Rightarrow> 'c Command \<times> err option" where
  "stdin_output changed input c =
     (if inOutput input \<noteq> [] \<and> \<not> changed ''output'' then
        (case OutputFormatValidate (inOutput input) of
           Some e \<Rightarrow> (c, Some (wrapf ''stdin input'' e))
         | None \<Rightarrow> (c\<lparr>cmdOutputFormat := inOutput input\<rparr>, None))
      else (c, None))"

definition applyStdinInput ::
  "(string \<Rightarrow> bool) \<Rightarrow> StdinInput \<Rightarrow> 'c Command \<Rightarrow> 'c Command \<times> err option" where
  "applyStdinInput changed input c =
     (case stdin_severity changed input (stdin_checks changed input c) of
        (c', Some e) \<Rightarrow> (c', Some e)
      | (c', None) \<Rightarrow> stdin_output changed input (stdin_flags changed input c'))"

text \<open>The two steps before it: \<open>stdin.CheckPiped\<close> and \<open>stdin.Parse\<close>.\<close>

record stdin_source =
  checkPiped :: "err option"
  parseStdin :: "err + StdinInput"

definition parseStdinConfig ::
  "stdin_source \<Rightarrow> (string \<Rightarrow> bool) \<Rightarrow> 'c Command \<Rightarrow> 'c Command \<times> err option" where
  "parseStdinConfig src changed c =
     (case checkPiped src of Some e \<Rightarrow> (c, Some e)
      | None \<Rightarrow> (case parseStdin src of
          Inl e \<Rightarrow> (c, Some (wrapf ''parsing stdin'' e))
        | Inr input \<Rightarrow> applyStdinInput changed input c))"

section \<open>\<open>Complete\<close>\<close>

text \<open>The client of \<open>SharedOptions.Complete\<close>: the REST configuration and the client built from it.\<close>

definition SharedOptionsComplete :: "err option \<Rightarrow> err + 'c \<Rightarrow> err + 'c" where
  "SharedOptionsComplete rest newClient =
     (case rest of Some e \<Rightarrow> Inl (wrapf ''failed to create REST config'' e)
      | None \<Rightarrow> (case newClient of
          Inl e \<Rightarrow> Inl (wrapf ''failed to create Kubernetes client'' e)
        | Inr cl \<Rightarrow> Inr cl))"

record 'c complete_env =
  envStdin :: stdin_source
  envChanged :: "string \<Rightarrow> bool"
  envRest :: "err option"
  envClient :: "err + 'c"
  envSemver :: semver_lib

definition complete_version :: "semver_lib \<Rightarrow> 'c Command \<Rightarrow> 'c Command \<times> err option" where
  "complete_version sv c =
     (if cmdTargetVersion c \<noteq> [] then
        (case sv_ParseTolerant sv (cmdTargetVersion c) of
           Inl e \<Rightarrow> (c, Some (wrapf (''invalid target version '' @ go_quote (cmdTargetVersion c)) e))
         | Inr v \<Rightarrow> (c\<lparr>parsedTargetVersion := Some v\<rparr>, None))
      else (c, None))"

definition complete_client :: "'c complete_env \<Rightarrow> 'c Command \<Rightarrow> 'c Command \<times> err option" where
  "complete_client env c =
     (if Verbose c \<and> Quiet c then (c, Some (NewError ''--verbose and --quiet are mutually exclusive''))
      else case SharedOptionsComplete (envRest env) (envClient env) of
          Inl e \<Rightarrow> (c, Some (wrapf ''completing shared options'' e))
        | Inr cl \<Rightarrow>
            complete_version (envSemver env)
              (c\<lparr>cmdClient := Some cl,
                 NoColor := NoColor c \<or> cmdOutputFormat c = OutputFormatJSON \<or> cmdOutputFormat c = OutputFormatYAML\<rparr>))"

definition CommandComplete :: "'c complete_env \<Rightarrow> 'c Command \<Rightarrow> 'c Command \<times> err option" where
  "CommandComplete env c =
     (if OutputSchema c then (c, None)
      else if FromStdin c then
        (case parseStdinConfig (envStdin env) (envChanged env) c of
           (c', Some e) \<Rightarrow> (c', NewExitCodeError ExitValidation (Some e))
         | (c', None) \<Rightarrow> complete_client env c')
      else complete_client env c)"

section \<open>The verdict\<close>

datatype verdict = VerdictProhibited | VerdictFail | VerdictWarning | VerdictPass

definition has_impact :: "Impact \<Rightarrow> 't CheckExecution list \<Rightarrow> bool" where
  "has_impact i results =
     list_ex (\<lambda>x. case ExResult x of None \<Rightarrow> False | Some r \<Rightarrow> GetImpact r = i) results"

definition printVerdict :: "bool \<Rightarrow> bool \<Rightarrow> bool \<Rightarrow> verdict" where
  "printVerdict hasProhibited hasBlocking hasAdvisory =
     (if hasProhibited then VerdictProhibited else if hasBlocking then VerdictFail
      else if hasAdvisory then VerdictWarning else VerdictPass)"

abbreviation msgProhibitedOrBlocking :: string where
  "msgProhibitedOrBlocking \<equiv> ''prohibited or blocking findings detected: upgrade cannot proceed''"
abbreviation msgAdvisoryFindings :: string where
  "msgAdvisoryFindings \<equiv> ''advisory findings detected: review recommended before upgrade''"
abbreviation msgInfrastructureErrors :: string where
  "msgInfrastructureErrors \<equiv> ''one or more checks failed due to infrastructure errors''"

definition evaluateVerdict :: "OutputFormat \<Rightarrow> 't CheckExecution list \<Rightarrow> verdict option \<times> err option" where
  "evaluateVerdict format results =
     (let hasProhibited = has_impact ImpactProhibited results;
          hasBlocking = has_impact ImpactBlocking results;
          hasAdvisory = has_impact ImpactAdvisory results in
      (if format = OutputFormatTable then Some (printVerdict hasProhibited hasBlocking hasAdvisory) else None,
       if hasProhibited \<or> hasBlocking then
         NewExitCodeError ExitError (Some (Wrap (sentinel_string ErrLintBlocked @ '': ''
           @ msgProhibitedOrBlocking) [Sentinel ErrLintBlocked]))
       else if hasAdvisory then
         NewExitCodeError ExitWarning (Some (Wrap (sentinel_string ErrLintAdvisory @ '': ''
           @ msgAdvisoryFindings) [Sentinel ErrLintAdvisory]))
       else None))"

record execErrorSummary =
  sumExitCode :: ExitCode
  sumErr :: "err option"

definition exec_error_step :: "api_preds \<Rightarrow> 't CheckExecution \<Rightarrow> execErrorSummary \<Rightarrow> execErrorSummary" where
  "exec_error_step api x summary =
     (case ExError x of None \<Rightarrow> summary
      | Some e \<Rightarrow>
          (let code = ExitCodeFromError api (Some e) in
           if IsHigherPriority code (sumExitCode summary)
           then \<lparr>sumExitCode = code, sumErr = Some e\<rparr> else summary))"

definition highestPriorityExecError :: "api_preds \<Rightarrow> 't CheckExecution list \<Rightarrow> execErrorSummary" where
  "highestPriorityExecError api results =
     fold (exec_error_step api) results \<lparr>sumExitCode = ExitSuccess, sumErr = None\<rparr>"

text \<open>
  \<open>fmt.Errorf\<close> with \<open>%w\<close> of a nil error formats it as \<open>%!w(<nil>)\<close> and wraps nothing.
\<close>

definition errorf_w :: "string \<Rightarrow> err option \<Rightarrow> err" where
  "errorf_w prefix eo = (case eo of Some e \<Rightarrow> Wrap (prefix @ err_string e) [e]
     | None \<Rightarrow> NewError (prefix @ ''%!w(<nil>)''))"

definition resolveExitError ::
  "api_preds \<Rightarrow> execErrorSummary \<Rightarrow> err option \<Rightarrow> OutputFormat \<Rightarrow> err option" where
  "resolveExitError api summary findingsErr format =
     (let findingsExitCode = ExitCodeFromError api findingsErr in
      if sumExitCode summary \<noteq> ExitSuccess
         \<and> (IsHigherPriority (sumExitCode summary) findingsExitCode \<or> sumExitCode summary = findingsExitCode)
      then
        (if findingsErr \<noteq> None
         then NewExitCodeError (sumExitCode summary)
                (Some (errorf_w ''check execution errors detected: '' (sumErr summary)))
         else NewExitCodeError (sumExitCode summary)
                (Some (errorf_w (msgInfrastructureErrors @ '': '') (sumErr summary))))
      else (case findingsErr of None \<Rightarrow> None
        | Some e \<Rightarrow> if format = OutputFormatTable then Some (NewAlreadyHandledError e) else Some e))"

section \<open>Output\<close>

record VersionInfo =
  RHOAICurrentVersion :: string
  RHOAITargetVersion :: string
  OpenShiftVersion :: string

record DiagnosticResultList =
  dlClusterVersion :: "string option"
  dlTargetVersion :: "string option"
  dlOpenShiftVersion :: "string option"
  dlResults :: "DiagnosticResult list"
  dlStatus :: Status

text \<open>What a run hands to the printers, in order.\<close>

datatype document =
    SchemaDoc
  | SameVersionDoc VersionInfo string
  | TableDoc "sortableRow list" "sortableRow list" table_totals VersionInfo "(string, string) gomap option"
  | JSONDoc DiagnosticResultList
  | YAMLDoc DiagnosticResultList
  | VerdictDoc verdict

text \<open>The printers fail or not; a table printer has wrapped its error already.\<close>

record printers =
  printSchema :: "err option"
  printJSON :: "DiagnosticResultList \<Rightarrow> err option"
  printYAML :: "DiagnosticResultList \<Rightarrow> err option"
  printTable :: "sortableRow list \<Rightarrow> err option"

definition result_list ::
  "'t CheckExecution list \<Rightarrow> string option \<Rightarrow> string option \<Rightarrow> string option \<Rightarrow> DiagnosticResultList" where
  "result_list results clusterVersion targetVersion openShiftVersion =
     (let rs = List.map_filter ExResult results in
      \<lparr>dlClusterVersion = clusterVersion, dlTargetVersion = targetVersion,
       dlOpenShiftVersion = openShiftVersion, dlResults = rs, dlStatus = ComputeStatus (map Some rs)\<rparr>)"

definition OutputJSON ::
  "printers \<Rightarrow> 't CheckExecution list \<Rightarrow> string option \<Rightarrow> string option \<Rightarrow> string option
     \<Rightarrow> document list \<times> err option" where
  "OutputJSON pr results cv tv ov =
     (let l = result_list results cv tv ov in
      ([JSONDoc l], map_option (wrapf ''rendering JSON output'') (printJSON pr l)))"

definition OutputYAML ::
  "printers \<Rightarrow> 't CheckExecution list \<Rightarrow> string option \<Rightarrow> string option \<Rightarrow> string option
     \<Rightarrow> document list \<times> err option" where
  "OutputYAML pr results cv tv ov =
     (let l = result_list results cv tv ov in
      ([YAMLDoc l], map_option (wrapf ''rendering YAML output'') (printYAML pr l)))"

definition openShiftVersionPtr :: "'c Command \<Rightarrow> string option" where
  "openShiftVersionPtr c =
     (if currentOpenShiftVersion c = [] then None else Some (currentOpenShiftVersion c))"

definition impacted_namespaces :: "'t CheckExecution list \<Rightarrow> string list" where
  "impacted_namespaces results = remdups (filter (\<lambda>ns. ns \<noteq> []) (concat (map (\<lambda>x.
     case ExResult x of None \<Rightarrow> [] | Some r \<Rightarrow> map omNamespace (ImpactedObjects r)) results)))"

text \<open>\<open>reader\<close> gives the annotations of a namespace, or an error.\<close>

definition collectNamespaceRequesters ::
  "(string \<Rightarrow> err + (string, string) gomap) \<Rightarrow> 't CheckExecution list \<Rightarrow> (string, string) gomap option" where
  "collectNamespaceRequesters reader results =
     (let namespaces = impacted_namespaces results in
      if namespaces = [] then None
      else Some (List.map_filter (\<lambda>ns. case reader ns of
             Inl _ \<Rightarrow> None
           | Inr annotations \<Rightarrow>
               map_option (\<lambda>requester. (ns, requester)) (map_of annotations ''openshift.io/requester''))
         namespaces))"

definition outputUpgradeTable ::
  "printers \<Rightarrow> (string \<Rightarrow> err + (string, string) gomap) \<Rightarrow> 'c Command \<Rightarrow> 't CheckExecution list
     \<Rightarrow> document list \<times> err option" where
  "outputUpgradeTable pr reader c results =
     (case OutputTable_data results of (banner, rows, totals) \<Rightarrow>
        ([TableDoc banner rows totals
            \<lparr>RHOAICurrentVersion = currentClusterVersion c, RHOAITargetVersion = cmdTargetVersion c,
             OpenShiftVersion = currentOpenShiftVersion c\<rparr>
            (if Verbose c then collectNamespaceRequesters reader results else None)],
         map_option (wrapf ''outputting table'') (printTable pr rows)))"

definition formatAndOutputUpgradeResults ::
  "printers \<Rightarrow> (string \<Rightarrow> err + (string, string) gomap) \<Rightarrow> 'c Command \<Rightarrow> 't CheckExecution list
     \<Rightarrow> document list \<times> err option" where
  "formatAndOutputUpgradeResults pr reader c results =
     (let cv = Some (currentClusterVersion c); tv = Some (cmdTargetVersion c); ov = openShiftVersionPtr c in
      if cmdOutputFormat c = OutputFormatTable then outputUpgradeTable pr reader c results
      else if cmdOutputFormat c = OutputFormatJSON then
        (case OutputJSON pr results cv tv ov of (d, e) \<Rightarrow> (d, map_option (wrapf ''outputting JSON'') e))
      else if cmdOutputFormat c = OutputFormatYAML then
        (case OutputYAML pr results cv tv ov of (d, e) \<Rightarrow> (d, map_option (wrapf ''outputting YAML'') e))
      else ([], Some (NewError (''unsupported output format: '' @ cmdOutputFormat c))))"

section \<open>\<open>Run\<close>\<close>

record 'c run_env =
  runAPI :: api_preds
  runSemver :: semver_lib
  runDetect :: "err + Version"
  runOpenShift :: "err + Version"
  runCtx :: "nat \<Rightarrow> err option"
  runPrinters :: printers
  runReader :: "string \<Rightarrow> err + (string, string) gomap"
  isISVCCheck :: "'c Target Check \<Rightarrow> bool"
  SetDeploymentModeFilter :: "string \<Rightarrow> 'c Target Check \<Rightarrow> 'c Target Check"

definition NewExecutor :: "api_preds \<Rightarrow> 'c Target CheckRegistry \<Rightarrow> bool \<Rightarrow> 'c Target Executor" where
  "NewExecutor api r io = \<lparr>execRegistry = r, execIO = io, execAPI = api,
     ensureIO = (\<lambda>t. if \<not> tgtIO t then t\<lparr>tgtIO := io\<rparr> else t)\<rparr>"

definition configureCheckSettings :: "'c run_env \<Rightarrow> 'c Command \<Rightarrow> 'c Target CheckRegistry" where
  "configureCheckSettings env c = map (\<lambda>(k, chk).
     (k, if isISVCCheck env chk then SetDeploymentModeFilter env (ISVCDeploymentMode c) chk else chk)) (registry c)"

definition runLintMode :: "'c Command \<Rightarrow> semver_lib \<Rightarrow> Version \<Rightarrow> document list \<times> err option" where
  "runLintMode c sv currentVersion =
     ([SameVersionDoc \<lparr>RHOAICurrentVersion = sv_String sv currentVersion, RHOAITargetVersion = [],
         OpenShiftVersion = currentOpenShiftVersion c\<rparr>
         (''Current and target versions are the same ('' @ MajorMinorLabel (Some currentVersion)
          @ ''), no checks will be executed.'')], None)"

definition isDefaultSelector :: "string list \<Rightarrow> bool" where
  "isDefaultSelector selectors \<longleftrightarrow> length selectors = 1 \<and> selectors ! 0 = ''*''"

definition no_match_error :: "'c Target CheckRegistry \<Rightarrow> string list \<Rightarrow> err" where
  "no_match_error r selectors =
     NewError (''no registered checks match '' @ (if length selectors > 1 then ''selectors'' else ''selector'')
       @ '': ['' @ str_join '' '' selectors @ '']'' @ nl @ nl @ ''Available check IDs:'' @ nl @ ''  ''
       @ str_join (nl @ ''  '') (AllCheckIDs r))"

definition validate_selectors :: "'c Target CheckRegistry \<Rightarrow> string list \<Rightarrow> err option" where
  "validate_selectors r selectors =
     (if isDefaultSelector selectors then None
      else case MatchesAnyCheck r selectors of
          Inl e \<Rightarrow> Some (wrapf ''validating check selectors'' e)
        | Inr matched \<Rightarrow> if matched then None else Some (no_match_error r selectors))"

text \<open>The loop over the canonical groups; the map of results is a function.\<close>

fun run_groups ::
  "'t Executor \<Rightarrow> (nat \<Rightarrow> err option) \<Rightarrow> nat \<Rightarrow> 't \<Rightarrow> string list \<Rightarrow> CheckGroupT list
     \<Rightarrow> string + (err + (CheckGroupT \<Rightarrow> 't CheckExecution list))" where
  "run_groups ex ctx k target selectors [] = Inr (Inr (\<lambda>_. []))"
| "run_groups ex ctx k target selectors (g # gs) =
     (case ExecuteSelective ex ctx k target selectors g of
        Inl e \<Rightarrow> Inr (Inl (wrapf (''executing '' @ g @ '' checks'') e))
      | Inr r \<Rightarrow>
          bind_res r (\<lambda>(xs, log, k').
          bind_res (run_groups ex ctx k' target selectors gs) (\<lambda>rest.
            Inr (bind_res rest (\<lambda>m. Inr (m(g := xs)))))))"

definition finish_upgrade ::
  "'c run_env \<Rightarrow> 'c Command \<Rightarrow> 'c Target CheckExecution list \<Rightarrow> document list \<times> err option" where
  "finish_upgrade env c flat =
     (let execSummary = highestPriorityExecError (runAPI env) flat;
          shown = FilterBySeverity (filter (\<lambda>x. ExResult x \<noteq> None) flat) (cmdSeverityLevel c)
      in case formatAndOutputUpgradeResults (runPrinters env) (runReader env) c shown of
           (docs, Some e) \<Rightarrow> (docs, Some e)
         | (docs, None) \<Rightarrow>
             (case evaluateVerdict (cmdOutputFormat c) shown of (v, findingsErr) \<Rightarrow>
                (docs @ (case v of None \<Rightarrow> [] | Some x \<Rightarrow> [VerdictDoc x]),
                 resolveExitError (runAPI env) execSummary findingsErr (cmdOutputFormat c))))"

definition check_target :: "'c Command \<Rightarrow> 'c \<Rightarrow> Version \<Rightarrow> 'c Target" where
  "check_target c client currentVersion = \<lparr>tgtClient = client, CurrentVersion = Some currentVersion,
     TargetVersion = parsedTargetVersion c, tgtIO = True, tgtDebug = Debug c\<rparr>"

definition runUpgradeMode ::
  "'c run_env \<Rightarrow> 'c Command \<Rightarrow> 'c \<Rightarrow> Version \<Rightarrow> string + (document list \<times> err option)" where
  "runUpgradeMode env c client currentVersion =
     (let r = configureCheckSettings env c in
      case validate_selectors r (CheckSelectors c) of
        Some e \<Rightarrow> Inr ([], Some e)
      | None \<Rightarrow>
          bind_res (run_groups (NewExecutor (runAPI env) r True) (runCtx env) 0
                     (check_target c client currentVersion) (CheckSelectors c) CanonicalGroupOrder)
            (\<lambda>res. case res of
               Inl e \<Rightarrow> Inr ([], Some e)
             | Inr byGroup \<Rightarrow>
                 bind_res (FlattenResults byGroup) (\<lambda>flat. Inr (finish_upgrade env c flat))))"

text \<open>Without a client, which \<open>Complete\<close> sets, the first read of the cluster is a nil dereference.\<close>

definition CommandRun :: "'c run_env \<Rightarrow> 'c Command \<Rightarrow> string + (document list \<times> err option)" where
  "CommandRun env c =
     (if OutputSchema c then Inr ([SchemaDoc], map_option (wrapf ''outputting schema'') (printSchema (runPrinters env)))
      else case cmdClient c of None \<Rightarrow> Inl nil_dereference
      | Some client \<Rightarrow> (case runDetect env of
          Inl e \<Rightarrow> Inr ([], Some (wrapf ''detecting cluster version'' e))
        | Inr currentVersion \<Rightarrow>
            (let sv = runSemver env;
                 c1 = c\<lparr>currentClusterVersion := sv_String sv currentVersion\<rparr>;
                 c2 = (case runOpenShift env of Inl _ \<Rightarrow> c1
                       | Inr ocp \<Rightarrow> c1\<lparr>currentOpenShiftVersion := sv_String sv ocp\<rparr>);
                 targetVersion = (case parsedTargetVersion c2 of Some v \<Rightarrow> v | None \<Rightarrow> currentVersion)
             in if SameMajorMinor (Some currentVersion) (Some targetVersion) then
                  Inr (runLintMode c2 sv currentVersion)
                else if sv_LT sv targetVersion currentVersion then
                  Inr ([], NewExitCodeError ExitValidation (Some (NewError (''target version ''
                    @ cmdTargetVersion c2 @ '' is older than current version '' @ sv_String sv currentVersion
                    @ '' (downgrades not supported)''))))
                else runUpgradeMode env c2 client currentVersion)))"

section \<open>The handler of \<open>cmd/lint/lint.go\<close>\<close>

definition wrapHandledError :: "api_preds \<Rightarrow> err \<Rightarrow> err" where
  "wrapHandledError api e =
     NewAlreadyHandledError (ExitCodeError (ExitCodeFromError api (Some e)) e)"

record cli_env =
  cliAPI :: api_preds
  cliJSON :: encoder
  cliYAML :: encoder
  cliWriter :: out_writer

text \<open>
  The texts written to the error stream: the structured form of one error when the output format
  has one, otherwise the plain text of another.
\<close>

definition report_error :: "cli_env \<Rightarrow> string \<Rightarrow> bool \<Rightarrow> err \<Rightarrow> err \<Rightarrow> string list" where
  "report_error cli format verbose structured plain =
     (case WriteStructuredError (cliAPI cli) (cliJSON cli) (cliYAML cli) (cliWriter cli) (Some structured) format of
        (out, True) \<Rightarrow> out
      | (out, False) \<Rightarrow>
          out @ (if verbose then [''Error: '' @ err_string plain @ nl] @ WriteSuggestion (cliAPI cli) (Some plain)
                 else fst (WriteTextError (cliAPI cli) (cliWriter cli) (Some plain))))"

text \<open>The result: documents on stdout, texts on stderr and the error for \<open>main\<close>.\<close>

definition lint_RunE ::
  "cli_env \<Rightarrow> 'c complete_env \<Rightarrow> 'c run_env \<Rightarrow> 'c Command
     \<Rightarrow> string + (document list \<times> string list \<times> err option)" where
  "lint_RunE cli cenv renv c =
     (let outputFormat = cmdOutputFormat c; api = cliAPI cli in
      case CommandComplete cenv c of
        (c', Some e) \<Rightarrow> Inr ([], report_error cli outputFormat (Verbose c') e e, Some (wrapHandledError api e))
      | (c', None) \<Rightarrow>
          (case CommandValidate c' of
             Some e \<Rightarrow>
               (let exitErr = ExitCodeError ExitValidation e in
                Inr ([], report_error cli outputFormat (Verbose c') exitErr e, Some (NewAlreadyHandledError exitErr)))
           | None \<Rightarrow>
               bind_res (CommandRun renv c') (\<lambda>(docs, eo). Inr (case eo of
                   None \<Rightarrow> (docs, [], None)
                 | Some e \<Rightarrow>
                     if errors_is (\<lambda>x. x = Sentinel ErrAlreadyHandled) e then (docs, [], Some e)
                     else (docs, report_error cli outputFormat (Verbose c') e e, Some (wrapHandledError api e))))))"

section \<open>Lemmas\<close>

lemma ExitCodeFromError_ExitCodeError [simp]: "ExitCodeFromError api (Some (ExitCodeError c e)) = c"
  by (simp add: ExitCodeFromError_def errors_as_def)

lemma ExitCodeFromError_None [simp]: "ExitCodeFromError api None = ExitSuccess"
  by (simp add: ExitCodeFromError_def)

lemma ExitCodeFromError_handled [simp]:
  "ExitCodeFromError api (Some (NewAlreadyHandledError (ExitCodeError c e))) = c"
  by (simp add: ExitCodeFromError_def NewAlreadyHandledError_def errors_as_def)

lemma NewExitCodeError_Some [simp]: "NewExitCodeError c (Some e) = Some (ExitCodeError c e)"
  by (simp add: NewExitCodeError_def)

lemma handled_is_handled [simp]: "errors_is (\<lambda>x. x = Sentinel ErrAlreadyHandled) (NewAlreadyHandledError e)"
  by (simp add: errors_is_def NewAlreadyHandledError_def)

definition verdict_code :: "'t CheckExecution list \<Rightarrow> ExitCode" where
  "verdict_code results =
     (if has_impact ImpactProhibited results \<or> has_impact ImpactBlocking results then ExitError
      else if has_impact ImpactAdvisory results then ExitWarning else ExitSuccess)"

lemma evaluateVerdict_code: "ExitCodeFromError api (snd (evaluateVerdict fmt results)) = verdict_code results"
  by (simp add: evaluateVerdict_def Let_def verdict_code_def)

lemma evaluateVerdict_shape:
  "snd (evaluateVerdict fmt results) = None \<or> (\<exists>c e. snd (evaluateVerdict fmt results) = Some (ExitCodeError c e))"
  by (simp add: evaluateVerdict_def Let_def)

text \<open>The codes of the execution errors.\<close>

definition exec_codes :: "api_preds \<Rightarrow> 't CheckExecution list \<Rightarrow> ExitCode list" where
  "exec_codes api results = map (\<lambda>e. ExitCodeFromError api (Some e)) (List.map_filter ExError results)"

lemma exec_codes_Cons:
  "exec_codes api (x # xs) = (case ExError x of None \<Rightarrow> exec_codes api xs
     | Some e \<Rightarrow> ExitCodeFromError api (Some e) # exec_codes api xs)"
  by (simp add: exec_codes_def List.map_filter_def split: option.splits)

lemma exec_codes_Nil [simp]: "exec_codes api [] = []"
  by (simp add: exec_codes_def List.map_filter_def)

lemma exec_error_fold:
  "priority (sumExitCode (fold (exec_error_step api) xs s)) =
     fold max (map priority (exec_codes api xs)) (priority (sumExitCode s))
   \<and> sumExitCode (fold (exec_error_step api) xs s) \<in> insert (sumExitCode s) (set (exec_codes api xs))"
proof (induction xs arbitrary: s)
  case (Cons x xs)
  show ?case
  proof (cases "ExError x")
    case None
    with Cons.IH [of s] show ?thesis by (simp add: exec_error_step_def exec_codes_Cons)
  next
    case (Some e)
    let ?c = "ExitCodeFromError api (Some e)" and ?s' = "exec_error_step api x s"
    have p: "priority (sumExitCode ?s') = max (priority ?c) (priority (sumExitCode s))"
      "sumExitCode ?s' \<in> {?c, sumExitCode s}"
      using Some by (simp_all add: exec_error_step_def Let_def IsHigherPriority_def)
    show ?thesis
      using Cons.IH [of ?s'] p Some by (auto simp: exec_codes_Cons)
  qed
qed simp

lemma highestPriorityExecError_priority:
  "priority (sumExitCode (highestPriorityExecError api xs)) = fold max (map priority (exec_codes api xs)) 0"
  "sumExitCode (highestPriorityExecError api xs) \<in> insert ExitSuccess (set (exec_codes api xs))"
  using exec_error_fold [of api xs "\<lparr>sumExitCode = ExitSuccess, sumErr = None\<rparr>"]
  by (simp_all add: highestPriorityExecError_def) (simp add: priority_def exitCodePriority_def)

lemma priority_Success: "priority ExitSuccess = 0"
  by (simp add: priority_def exitCodePriority_def)

lemma resolveExitError_code:
  assumes "findingsErr = None \<or> (\<exists>c e. findingsErr = Some (ExitCodeError c e))"
  shows "ExitCodeFromError api (resolveExitError api summary findingsErr fmt) =
    (if sumExitCode summary \<noteq> ExitSuccess
        \<and> (priority (sumExitCode summary) > priority (ExitCodeFromError api findingsErr)
           \<or> sumExitCode summary = ExitCodeFromError api findingsErr)
     then sumExitCode summary else ExitCodeFromError api findingsErr)"
  using assms by (auto simp: resolveExitError_def Let_def IsHigherPriority_def split: option.splits)

lemma fold_max_Max: "fold max xs (a::nat) = Max (insert a (set xs))"
  by (induction xs arbitrary: a) (simp, metis List.finite_set Max.set_eq_fold fold_simps(2) list.set(2))

lemma fold_max_start: "fold max xs (max a b) = max a (fold max xs (b::nat))"
  by (induction xs arbitrary: b) (simp, metis fold_simps(2) max.left_commute)

lemma final_priority:
  "priority (ExitCodeFromError api (resolveExitError api (highestPriorityExecError api xs)
      (snd (evaluateVerdict fmt ys)) fmt)) =
     fold max (map priority (exec_codes api xs)) (priority (verdict_code ys))"
proof -
  let ?s = "highestPriorityExecError api xs" and ?v = "verdict_code ys"
  have "fold max (map priority (exec_codes api xs)) (priority ?v) = max (priority ?v) (priority (sumExitCode ?s))"
    using fold_max_start [of "map priority (exec_codes api xs)" "priority ?v" 0]
    by (simp add: highestPriorityExecError_priority)
  moreover have "ExitCodeFromError api (resolveExitError api ?s (snd (evaluateVerdict fmt ys)) fmt) =
      (if sumExitCode ?s \<noteq> ExitSuccess \<and> (priority (sumExitCode ?s) > priority ?v \<or> sumExitCode ?s = ?v)
       then sumExitCode ?s else ?v)"
    unfolding resolveExitError_code [OF evaluateVerdict_shape] evaluateVerdict_code by (rule refl)
  ultimately show ?thesis using priority_Success by auto
qed

lemma final_member:
  "ExitCodeFromError api (resolveExitError api (highestPriorityExecError api xs)
      (snd (evaluateVerdict fmt ys)) fmt) \<in> insert (verdict_code ys) (set (exec_codes api xs))"
  unfolding resolveExitError_code [OF evaluateVerdict_shape] evaluateVerdict_code
  using highestPriorityExecError_priority(2) [of api xs] by auto

text \<open>What the severity filter does to the impact of a result.\<close>

definition severity_rank :: "SeverityLevel \<Rightarrow> nat" where
  "severity_rank l = (if l = SeverityLevelProhibited then 3 else if l = SeverityLevelCritical then 2
     else if l = SeverityLevelWarning then 1 else 0)"

lemma meetsMinSeverity_rank: "meetsMinSeverity i l \<longleftrightarrow> severity_rank l \<le> impact_rank i"
  by (simp add: meetsMinSeverity_def severity_rank_def impact_rank_def)

lemma fold_max_filter:
  "n \<le> fold max xs a \<Longrightarrow> a = 0 \<Longrightarrow> 0 < n \<Longrightarrow> fold max (filter (\<lambda>x. n \<le> x) xs) 0 = fold max xs (0::nat)"
proof -
  assume n: "n \<le> fold max xs a" "a = 0" "0 < n"
  have "Max (insert 0 (set (filter (\<lambda>x. n \<le> x) xs))) = Max (insert 0 (set xs))"
  proof (rule antisym)
    have "Max (insert 0 (set xs)) \<in> insert 0 (set xs)" by (rule Max_in) auto
    with n have "Max (insert 0 (set xs)) \<in> insert 0 (set (filter (\<lambda>x. n \<le> x) xs))"
      by (auto simp: fold_max_Max)
    then show "Max (insert 0 (set xs)) \<le> Max (insert 0 (set (filter (\<lambda>x. n \<le> x) xs)))" by simp
  qed (rule Max_mono; auto)
  then show ?thesis by (simp add: fold_max_Max)
qed

lemma GetImpact_filtered:
  assumes "0 < severity_rank l"
    and "kept = filter (\<lambda>c. meetsMinSeverity (CondImpact c) l) (Conditions r)"
  shows "kept = [] \<longleftrightarrow> impact_rank (GetImpact r) < severity_rank l"
    and "kept \<noteq> [] \<Longrightarrow> GetImpact (r\<lparr>Conditions := kept\<rparr>) = GetImpact r"
proof -
  let ?ranks = "map (\<lambda>c. impact_rank (CondImpact c)) (Conditions r)"
  have "kept = [] \<longleftrightarrow> (\<forall>x\<in>set ?ranks. x < severity_rank l)"
    by (auto simp: assms(2) filter_empty_conv meetsMinSeverity_rank)
  also have "\<dots> \<longleftrightarrow> Max (insert 0 (set ?ranks)) < severity_rank l"
    using assms(1) by (subst Max_less_iff) auto
  finally show e: "kept = [] \<longleftrightarrow> impact_rank (GetImpact r) < severity_rank l"
    by (simp only: GetImpact_rank fold_max_Max)
  assume "kept \<noteq> []"
  with e have "severity_rank l \<le> fold max ?ranks 0" by (simp add: GetImpact_rank)
  from fold_max_filter [OF this refl assms(1)]
  have "impact_rank (GetImpact (r\<lparr>Conditions := kept\<rparr>)) = impact_rank (GetImpact r)"
    by (simp add: GetImpact_rank assms(2) meetsMinSeverity_rank filter_map comp_def)
  then show "GetImpact (r\<lparr>Conditions := kept\<rparr>) = GetImpact r"
    by (rule rank_inj [OF GetImpact_known GetImpact_known])
qed

lemma has_impact_Cons:
  "has_impact i (x # xs) \<longleftrightarrow> (\<exists>r. ExResult x = Some r \<and> GetImpact r = i) \<or> has_impact i xs"
  by (auto simp: has_impact_def split: option.splits)

lemma has_impact_filter:
  assumes "0 < severity_rank l"
  shows "has_impact i (filter_by_severity l xs) \<longleftrightarrow> severity_rank l \<le> impact_rank i \<and> has_impact i xs"
proof (induction xs)
  case (Cons x xs)
  show ?case
  proof (cases "ExResult x")
    case None
    with Cons show ?thesis by (simp add: has_impact_Cons)
  next
    case (Some r)
    let ?kept = "filter (\<lambda>c. meetsMinSeverity (CondImpact c) l) (Conditions r)"
    note f = GetImpact_filtered [OF assms refl [of ?kept]]
    show ?thesis
    proof (cases "?kept = []")
      case True
      with f(1) have "impact_rank (GetImpact r) < severity_rank l" by simp
      with True Some Cons show ?thesis by (auto simp: has_impact_Cons)
    next
      case False
      with f(1) have "severity_rank l \<le> impact_rank (GetImpact r)" by simp
      with False f(2) Some Cons show ?thesis by (auto simp: has_impact_Cons Let_def)
    qed
  qed
qed (simp add: has_impact_def)

text \<open>A context that is done stops the run of a group at once.\<close>

lemma executeChecks_done:
  assumes "\<And>i. ctx i \<noteq> None"
  shows "\<exists>k'. executeChecks ex ctx k target cs = Inr ([], [], k')"
proof (cases cs)
  case (Cons c cs')
  obtain e where "CheckContextError (ctx k) = Some e"
    using assms [of k] by (cases "CheckContextError (ctx k)") auto
  with Cons show ?thesis by simp
qed simp

lemma run_groups_done:
  assumes "\<And>i. ctx i \<noteq> None" and "list_all good_pattern ps"
  shows "run_groups ex ctx k target ps gs = Inr (Inr (\<lambda>_. []))"
proof (induction gs arbitrary: k)
  case (Cons g gs)
  obtain cs where cs: "ListByPatterns (execRegistry ex) ps g = Inr cs"
    using list_by_patterns_good [OF assms(2)] unfolding ListByPatterns_def by blast
  obtain k' where k': "executeChecks ex ctx k target cs = Inr ([], [], k')"
    using executeChecks_done [of ctx ex k target cs, OF assms(1)] by blast
  have e: "(\<lambda>_. [])(g := []) = (\<lambda>_. [])" by auto
  from cs k' Cons [of k'] show ?case by (simp add: ExecuteSelective_def e)
qed simp

lemma ValidateCheckSelectors_good: "ValidateCheckSelectors ps = None \<Longrightarrow> list_all good_pattern ps"
  by (auto simp: ValidateCheckSelectors_def first_some_None_iff list_all_iff ValidateCheckSelector_def
      split: if_splits sum.splits)

text \<open>The checks of a group that the selectors select.\<close>

definition selected :: "'t CheckRegistry \<Rightarrow> string list \<Rightarrow> CheckGroupT \<Rightarrow> 't Check list" where
  "selected r ps g = filter (\<lambda>c. (g = [] \<or> CheckGroup c = g) \<and> list_ex (selects c) ps) (ListAll r)"

lemma ListByPatterns_selected: "list_all good_pattern ps \<Longrightarrow> ListByPatterns r ps g = Inr (selected r ps g)"
  by (simp add: ListByPatterns_def list_by_patterns_good selected_def ListAll_def)

lemma named_selected: "list_all named_check (ListAll r) \<Longrightarrow> list_all named_check (selected r ps g)"
  by (auto simp: selected_def list_all_iff)

lemma run_groups_spec:
  assumes "list_all good_pattern ps" and "list_all named_check (ListAll (execRegistry ex))"
  shows "distinct gs \<Longrightarrow> (\<And>g. g \<in> set gs \<Longrightarrow> \<not> list_ex (panics ex target) (selected (execRegistry ex) ps g))
     \<Longrightarrow> \<exists>m. run_groups ex ctx k target ps gs = Inr (Inr m)
     \<and> (\<forall>g. list_all good_execution (m g))
     \<and> ((\<forall>i. ctx i = None) \<longrightarrow>
         (\<forall>g\<in>set gs. map ExCheck (m g) = filter (reported ex target) (selected (execRegistry ex) ps g)))"
proof (induction gs arbitrary: k)
  case (Cons g gs)
  let ?cs = "selected (execRegistry ex) ps g"
  have "\<not> list_ex (panics ex target) (take (started ctx k (length ?cs)) ?cs)"
    using Cons.prems(2) [of g] by (auto simp: list_ex_iff dest: in_set_takeD)
  from executeChecks_spec [OF named_selected [OF assms(2), of ps g] this]
  obtain xs log k' where x: "executeChecks ex ctx k target ?cs = Inr (xs, log, k')"
      "list_all good_execution xs"
      "(\<forall>i. ctx i = None) \<longrightarrow> map ExCheck xs = filter (reported ex target) ?cs"
    using started_live [of ctx k] by fastforce
  obtain m where m: "run_groups ex ctx k' target ps gs = Inr (Inr m)" "\<forall>g. list_all good_execution (m g)"
      "(\<forall>i. ctx i = None) \<longrightarrow>
         (\<forall>g\<in>set gs. map ExCheck (m g) = filter (reported ex target) (selected (execRegistry ex) ps g))"
    using Cons.IH [of k'] Cons.prems by auto
  have "run_groups ex ctx k target ps (g # gs) = Inr (Inr (m(g := xs)))"
    using x(1) m(1) by (simp add: ExecuteSelective_def ListByPatterns_selected [OF assms(1)])
  with x(2,3) m(2,3) Cons.prems(1) show ?case by (intro exI [of _ "m(g := xs)"]) auto
qed simp

text \<open>A panic of a selected check is the panic of the run.\<close>

lemma run_groups_panics:
  assumes "list_all good_pattern ps" and live: "\<And>i. ctx i = None"
  shows "g \<in> set gs \<Longrightarrow> list_ex (panics ex target) (selected (execRegistry ex) ps g)
     \<Longrightarrow> \<exists>p. run_groups ex ctx k target ps gs = Inl p"
proof (induction gs arbitrary: k)
  case (Cons h gs)
  let ?cs = "selected (execRegistry ex) ps h"
  have run: "ExecuteSelective ex ctx k target ps h = Inr (executeChecks ex ctx k target ?cs)"
    by (simp add: ExecuteSelective_def ListByPatterns_selected [OF assms(1)])
  show ?case
  proof (cases "executeChecks ex ctx k target ?cs")
    case (Inr y)
    with executeChecks_panics [of ex target ctx k ?cs] started_live [of ctx k "length ?cs", OF live] Cons.prems
    have "g \<in> set gs" by auto
    obtain xs log k' where y: "y = (xs, log, k')" by (cases y)
    from Cons.IH [OF \<open>g \<in> set gs\<close> Cons.prems(2), of k'] Inr run y show ?thesis by auto
  qed (use run in simp)
qed simp

lemma good_executions_results: "list_all good_execution xs \<Longrightarrow> list_all (\<lambda>x. ExResult x \<noteq> None) xs"
  by (auto simp: list_all_iff dest: good_execution_result)

text \<open>The steps of \<open>applyStdinInput\<close> as single updates.\<close>

lemma stdin_checks_eq:
  "stdin_checks changed input c =
     c\<lparr>CheckSelectors := if inChecks input \<noteq> [] \<and> \<not> changed ''checks'' then inChecks input else CheckSelectors c\<rparr>"
  by (simp add: stdin_checks_def)

lemma stdin_flags_eq:
  "stdin_flags changed input c = c
     \<lparr>cmdTargetVersion := if inTargetVersion input \<noteq> [] \<and> \<not> changed ''target-version''
        then inTargetVersion input else cmdTargetVersion c,
      Verbose := if inVerbose input \<and> \<not> changed ''verbose'' then True else Verbose c,
      Quiet := if inQuiet input \<and> \<not> changed ''quiet'' then True else Quiet c\<rparr>"
  unfolding stdin_flags_def Let_def by simp

lemma stdin_output_cases:
  "stdin_output changed input c =
     (c\<lparr>cmdOutputFormat := if inOutput input \<noteq> [] \<and> \<not> changed ''output'' \<and> OutputFormatValidate (inOutput input) = None
         then inOutput input else cmdOutputFormat c\<rparr>,
      if inOutput input \<noteq> [] \<and> \<not> changed ''output''
      then map_option (wrapf ''stdin input'') (OutputFormatValidate (inOutput input)) else None)"
  by (simp add: stdin_output_def split: option.splits)

section \<open>Properties\<close>

text \<open>
  C1. The exit code of an upgrade assessment is the one of highest precedence among the code of the
  verdict on the displayed results and the codes of all execution errors: it is one of
  them and none of them has a higher priority. (Given that the results could be printed.)
\<close>

theorem upgrade_exit_code:
  assumes "snd (formatAndOutputUpgradeResults (runPrinters env) (runReader env) c
     (FilterBySeverity (filter (\<lambda>x. ExResult x \<noteq> None) flat) (cmdSeverityLevel c))) = None"
  shows "let shown = FilterBySeverity (filter (\<lambda>x. ExResult x \<noteq> None) flat) (cmdSeverityLevel c);
      codes = insert (verdict_code shown) (set (exec_codes (runAPI env) flat));
      exit = ExitCodeFromError (runAPI env) (snd (finish_upgrade env c flat))
    in exit \<in> codes \<and> (\<forall>d\<in>codes. \<not> IsHigherPriority d exit)"
proof -
  let ?shown = "FilterBySeverity (filter (\<lambda>x. ExResult x \<noteq> None) flat) (cmdSeverityLevel c)"
  have fin: "snd (finish_upgrade env c flat) = resolveExitError (runAPI env)
      (highestPriorityExecError (runAPI env) flat) (snd (evaluateVerdict (cmdOutputFormat c) ?shown)) (cmdOutputFormat c)"
    using assms by (auto simp: finish_upgrade_def Let_def split: prod.splits)
  show ?thesis
    unfolding Let_def fin IsHigherPriority_def final_priority fold_max_Max
    using final_member by (auto simp: not_less)
qed

text \<open>An environment with a reader of no namespaces and printers that work.\<close>

definition sample_run_env :: "unit run_env" where
  "sample_run_env = \<lparr>runAPI = status_api,
     runSemver = \<lparr>sv_Parse = (\<lambda>s. Inl (NewError s)), sv_ParseTolerant = (\<lambda>s. Inl (NewError s)),
       sv_EQ = (=), sv_LT = (\<lambda>a b. Major a < Major b), sv_String = (\<lambda>v. itoa (Major v))\<rparr>,
     runDetect = Inr (zero_version\<lparr>Major := 2\<rparr>), runOpenShift = Inl (NewError ''none''),
     runCtx = (\<lambda>_. None),
     runPrinters = \<lparr>printSchema = None, printJSON = (\<lambda>_. None), printYAML = (\<lambda>_. None), printTable = (\<lambda>_. None)\<rparr>,
     runReader = (\<lambda>_. Inl (NewError ''none'')), isISVCCheck = (\<lambda>_. False),
     SetDeploymentModeFilter = (\<lambda>_ c. c)\<rparr>"

definition sample_command :: "unit Command" where
  "sample_command = \<lparr>cmdTargetVersion = ''3.0'', ISVCDeploymentMode = ''all'',
     parsedTargetVersion = Some (zero_version\<lparr>Major := 3\<rparr>), currentClusterVersion = [],
     currentOpenShiftVersion = [], registry = [], cmdOutputFormat = OutputFormatTable,
     CheckSelectors = [''*''], cmdSeverityLevel = SeverityLevelInfo, Verbose = False, Quiet = False,
     Debug = False, NoColor = False, FromStdin = False, OutputSchema = False, Timeout = 300,
     cmdClient = Some ()\<rparr>"

definition sample_target_execution :: "Impact \<Rightarrow> err option \<Rightarrow> unit Target CheckExecution" where
  "sample_target_execution i e = \<lparr>ExCheck = \<lparr>CheckID = ''a'', CheckName = ''n'', CheckDescription = ''d'',
       CheckGroup = GroupComponent, CheckKind = ''kserve'', CheckType = ''removal'',
       CanApply = (\<lambda>_. Inr True), Validate = (\<lambda>_. Inr (None, None))\<rparr>,
     ExResult = Some ((NewResult GroupComponent ''kserve'' ''removal'' ''d'')
       \<lparr>Conditions := [sample_condition ''Ready'' ConditionFalse i]\<rparr>), ExError = e\<rparr>"

theorem upgrade_exit_code_witness:
  "ExitCodeFromError status_api (snd (finish_upgrade sample_run_env sample_command
     [sample_target_execution ImpactBlocking None,
      sample_target_execution ImpactAdvisory (Some (Sentinel DeadlineExceeded))])) = ExitConnection"
proof -
  let ?flat = "[sample_target_execution ImpactBlocking None,
      sample_target_execution ImpactAdvisory (Some (Sentinel DeadlineExceeded))]"
  have api: "runAPI sample_run_env = status_api" by (simp add: sample_run_env_def)
  have pr: "snd (formatAndOutputUpgradeResults (runPrinters sample_run_env) (runReader sample_run_env) sample_command
      (FilterBySeverity (filter (\<lambda>x. ExResult x \<noteq> None) ?flat) (cmdSeverityLevel sample_command))) = None"
    by (simp add: formatAndOutputUpgradeResults_def outputUpgradeTable_def sample_command_def sample_run_env_def
        Let_def split: prod.splits)
  have codes: "exec_codes status_api ?flat = [5]"
    by (simp add: exec_codes_Cons sample_target_execution_def ExitCodeFromError_def errors_as_def Classify_def
        classify_nonnil_def status_api_def apiErrorTable_def localErrorTable_def entry_error_def
        isDeadlineExceeded_def errors_is_def ExitCodeFromCategory_def)
  have v: "verdict_code (FilterBySeverity (filter (\<lambda>x. ExResult x \<noteq> None) ?flat) (cmdSeverityLevel sample_command)) = 1"
    by (simp add: verdict_code_def has_impact_def FilterBySeverity_def sample_command_def
        sample_target_execution_def sample_condition_def GetImpact_def)
  from upgrade_exit_code [OF pr] show ?thesis
    unfolding Let_def api codes v by (auto simp: IsHigherPriority_def priority_def exitCodePriority_def)
qed

text \<open>
  C4. Selectors that the validation accepts never fail later, whatever the registry: the
  selection of a group is the union over the selectors, in registry order, and the test
  whether anything matches agrees with it.
\<close>

theorem accepted_selectors_select:
  assumes "ValidateCheckSelectors ps = None"
  shows "ListByPatterns r ps g = Inr (filter (\<lambda>c. (g = [] \<or> CheckGroup c = g)
        \<and> (\<exists>p\<in>set ps. matchesPattern c p = Inr True)) (ListAll r))
    \<and> MatchesAnyCheck r ps = Inr (\<exists>c\<in>set (ListAll r). \<exists>p\<in>set ps. matchesPattern c p = Inr True)"
proof -
  have g: "list_all good_pattern ps" using assms by (rule ValidateCheckSelectors_good)
  from ListByPatterns_selected [OF g, of r g] matches_any_check_good [OF g, of "map snd r"]
  show ?thesis
    by (simp add: selected_def selects_def list_ex_iff MatchesAnyCheck_def ListAll_def)
qed

theorem accepted_selectors_select_witness:
  "MatchesAnyCheck [(''a'', sample_check ''a'' (\<lambda>_. Inr (None, None)))] [''components''] = Inr True"
proof -
  have v: "ValidateCheckSelectors [''components''] = None"
  proof -
    have "path_match ''components'' ''test.check'' = Inr (glob ''components'' ''test.check'')"
      by (rule path_match_glob) (simp_all add: plain_pattern_def)
    then show ?thesis by (simp add: ValidateCheckSelectors_def ValidateCheckSelector_def)
  qed
  from conjunct2 [OF accepted_selectors_select [OF v, of "[(''a'', sample_check ''a'' (\<lambda>_. Inr (None, None)))]"]]
  show ?thesis by (simp add: ListAll_def matchesPattern_def sample_check_def)
qed

text \<open>An assessment in which no selected check panics.\<close>

lemma assessed:
  fixes env :: "'c run_env" and c :: "'c Command"
  defines "r \<equiv> configureCheckSettings env c" and "ps \<equiv> CheckSelectors c"
  assumes good: "list_all good_pattern ps" and none: "validate_selectors r ps = None"
    and named: "list_all named_check (ListAll r)"
    and calm: "\<not> (\<exists>chk\<in>{chk \<in> set (ListAll r). CheckGroup chk \<in> set CanonicalGroupOrder \<and> list_ex (selects chk) ps}.
      panics (NewExecutor (runAPI env) r True) (check_target c client v) chk)"
  shows "\<exists>flat. runUpgradeMode env c client v = Inr (finish_upgrade env c flat) \<and> list_all good_execution flat
      \<and> ((\<forall>i. runCtx env i = None) \<longrightarrow>
         {chk \<in> {chk \<in> set (ListAll r). CheckGroup chk \<in> set CanonicalGroupOrder \<and> list_ex (selects chk) ps}.
            reported (NewExecutor (runAPI env) r True) (check_target c client v) chk} \<subseteq> ExCheck ` set flat)"
proof -
  let ?ex = "NewExecutor (runAPI env) r True" and ?t = "check_target c client v"
  have r: "execRegistry ?ex = r" by (simp add: NewExecutor_def)
  have e: "g \<noteq> []" if "g \<in> set CanonicalGroupOrder" for g
    using that by (auto simp: CanonicalGroupOrder_def)
  have d: "distinct CanonicalGroupOrder" by (simp add: CanonicalGroupOrder_def)
  have np: "\<not> list_ex (panics ?ex ?t) (selected (execRegistry ?ex) ps g)" if "g \<in> set CanonicalGroupOrder" for g
    using calm e [OF that] that unfolding r by (auto simp: list_ex_iff selected_def)
  obtain m where m: "run_groups ?ex (runCtx env) 0 ?t ps CanonicalGroupOrder = Inr (Inr m)"
      "\<forall>g. list_all good_execution (m g)"
      "(\<forall>i. runCtx env i = None) \<longrightarrow>
         (\<forall>g\<in>set CanonicalGroupOrder. map ExCheck (m g) = filter (reported ?ex ?t) (selected r ps g))"
    using run_groups_spec [OF good, of ?ex, unfolded r, OF named d np [unfolded r]] by blast
  let ?flat = "concat (map (\<lambda>g. sort_slice execution_less (m g)) CanonicalGroupOrder)"
  have f: "FlattenResults m = Inr ?flat"
    unfolding FlattenResults_def by (rule flatten_groups_Inr) (use m(2) good_executions_results in blast)
  have "chk \<in> ExCheck ` set ?flat"
    if "\<forall>i. runCtx env i = None" "chk \<in> set (ListAll r)" "CheckGroup chk \<in> set CanonicalGroupOrder"
      "list_ex (selects chk) ps" "reported ?ex ?t chk" for chk
  proof -
    have "chk \<in> set (filter (reported ?ex ?t) (selected r ps (CheckGroup chk)))"
      using that by (simp add: selected_def)
    then have "chk \<in> set (map ExCheck (m (CheckGroup chk)))" using m(3) that by simp
    with that(3) show ?thesis by auto
  qed
  moreover have "list_all good_execution ?flat" using m(2) by (auto simp: list_all_iff)
  moreover have "runUpgradeMode env c client v = Inr (finish_upgrade env c ?flat)"
    using none m(1) f unfolding r_def ps_def by (simp add: runUpgradeMode_def Let_def)
  ultimately show ?thesis by blast
qed

text \<open>
  C3. With selectors that passed validation, an upgrade assessment either reports that they match nothing, or assesses the
  checks they select in the five groups. When one of them applies and its \<open>Validate\<close> panics, a run with a live context
  panics. When none does and the checks have a group, a kind and a type, it does not panic, whatever the context:
  the assessment is the end of the flattened executions of the five groups, all with valid results; with a live context
  every selected check that has something to report is among them.
\<close>

theorem runUpgradeMode_assesses:
  assumes "ValidateCheckSelectors (CheckSelectors c) = None"
  shows "case validate_selectors (configureCheckSettings env c) (CheckSelectors c) of
      Some e \<Rightarrow> runUpgradeMode env c client v = Inr ([], Some e)
    | None \<Rightarrow>
       (let ex = NewExecutor (runAPI env) (configureCheckSettings env c) True; target = check_target c client v;
            run = {chk \<in> set (ListAll (configureCheckSettings env c)).
                     CheckGroup chk \<in> set CanonicalGroupOrder \<and> list_ex (selects chk) (CheckSelectors c)} in
        ((\<forall>i. runCtx env i = None) \<and> (\<exists>chk\<in>run. panics ex target chk) \<longrightarrow> (\<exists>p. runUpgradeMode env c client v = Inl p))
        \<and> (\<not> (\<exists>chk\<in>run. panics ex target chk) \<and> list_all named_check (ListAll (configureCheckSettings env c)) \<longrightarrow>
            (\<exists>flat. runUpgradeMode env c client v = Inr (finish_upgrade env c flat)
               \<and> list_all good_execution flat
               \<and> ((\<forall>i. runCtx env i = None) \<longrightarrow> {chk \<in> run. reported ex target chk} \<subseteq> ExCheck ` set flat))))"
proof (cases "validate_selectors (configureCheckSettings env c) (CheckSelectors c)")
  case (Some e)
  then show ?thesis by (simp add: runUpgradeMode_def Let_def)
next
  case None
  let ?r = "configureCheckSettings env c" and ?ps = "CheckSelectors c"
  let ?ex = "NewExecutor (runAPI env) ?r True" and ?t = "check_target c client v"
  let ?run = "{chk \<in> set (ListAll ?r). CheckGroup chk \<in> set CanonicalGroupOrder \<and> list_ex (selects chk) ?ps}"
  have r: "execRegistry ?ex = ?r" by (simp add: NewExecutor_def)
  note good = ValidateCheckSelectors_good [OF assms]
  have run: "chk \<in> set (selected ?r ?ps (CheckGroup chk))" if "chk \<in> ?run" for chk
    using that by (simp add: selected_def)
  have "\<exists>p. runUpgradeMode env c client v = Inl p"
    if live: "\<forall>i. runCtx env i = None" and chk: "chk \<in> ?run" "panics ?ex ?t chk" for chk
  proof -
    have "list_ex (panics ?ex ?t) (selected (execRegistry ?ex) ?ps (CheckGroup chk))"
      unfolding r list_ex_iff using run [OF chk(1)] chk(2) by blast
    from run_groups_panics [OF good _ _ this] live chk(1)
    obtain p where "run_groups ?ex (runCtx env) 0 ?t ?ps CanonicalGroupOrder = Inl p" by blast
    with None show ?thesis by (simp add: runUpgradeMode_def Let_def)
  qed
  moreover have "\<exists>flat. runUpgradeMode env c client v = Inr (finish_upgrade env c flat) \<and> list_all good_execution flat
      \<and> ((\<forall>i. runCtx env i = None) \<longrightarrow> {chk \<in> ?run. reported ?ex ?t chk} \<subseteq> ExCheck ` set flat)"
    if calm: "\<not> (\<exists>chk\<in>?run. panics ?ex ?t chk)" and named: "list_all named_check (ListAll ?r)"
    using assessed [OF good None named calm] .
  ultimately show ?thesis unfolding None option.case Let_def by blast
qed

definition sample_lint_check :: "unit Target Check" where
  "sample_lint_check = \<lparr>CheckID = ''components.kserve.removal'', CheckName = ''n'', CheckDescription = ''d'',
     CheckGroup = GroupComponent, CheckKind = ''kserve'', CheckType = ''removal'', CanApply = (\<lambda>_. Inr True),
     Validate = (\<lambda>_. Inr (Some sample_result, None))\<rparr>"

definition sample_lint_command :: "unit Command" where
  "sample_lint_command = sample_command\<lparr>registry := [(''components.kserve.removal'', sample_lint_check)]\<rparr>"

lemma wildcard_valid: "ValidateCheckSelectors [''*''] = None"
proof -
  have "path_match ''*'' ''test.check'' = Inr (glob ''*'' ''test.check'')"
    by (rule path_match_glob) (simp_all add: plain_pattern_def)
  then show ?thesis by (simp add: ValidateCheckSelectors_def ValidateCheckSelector_def)
qed

theorem runUpgradeMode_assesses_witness:
  "\<exists>flat. runUpgradeMode sample_run_env sample_lint_command () zero_version =
      Inr (finish_upgrade sample_run_env sample_lint_command flat) \<and> sample_lint_check \<in> ExCheck ` set flat"
proof -
  have cfg: "configureCheckSettings sample_run_env sample_lint_command = [(''components.kserve.removal'', sample_lint_check)]"
    by (simp add: configureCheckSettings_def sample_run_env_def sample_lint_command_def)
  have sel: "CheckSelectors sample_lint_command = [''*'']"
    by (simp add: sample_lint_command_def sample_command_def)
  have h: "ValidateCheckSelectors (CheckSelectors sample_lint_command) = None"
    unfolding sel by (rule wildcard_valid)
  have n: "list_all named_check (ListAll (configureCheckSettings sample_run_env sample_lint_command))"
    unfolding cfg by (simp add: ListAll_def named_check_def sample_lint_check_def)
  have v: "validate_selectors (configureCheckSettings sample_run_env sample_lint_command)
      (CheckSelectors sample_lint_command) = None"
    unfolding sel by (simp add: validate_selectors_def isDefaultSelector_def)
  have ctx: "runCtx sample_run_env i = None" for i by (simp add: sample_run_env_def)
  have rep: "CheckGroup sample_lint_check \<in> set CanonicalGroupOrder" "selects sample_lint_check ''*''"
      "reported ex t sample_lint_check" "\<not> panics ex t sample_lint_check" for ex t
    by (simp_all add: sample_lint_check_def CanonicalGroupOrder_def selects_def matchesPattern_def reported_def panics_def)
  have all: "set (ListAll (configureCheckSettings sample_run_env sample_lint_command)) = {sample_lint_check}"
    unfolding cfg by (simp add: ListAll_def)
  note runUpgradeMode_assesses [OF h, of sample_run_env "()" zero_version, unfolded v option.case Let_def]
  from conjunct2 [OF this [unfolded all sel]]
  show ?thesis using ctx rep n by (simp add: Collect_conv_if) blast
qed

text \<open>
  C7. A run whose context is done from the start reports success: for every registry, the default
  selectors and the table output, no check is started, the verdict is that all checks passed
  and the run returns no error, so the process exits with 0.
\<close>

theorem expired_context_reports_pass:
  assumes "\<And>i. runCtx env i \<noteq> None" and "CheckSelectors c = [''*'']"
    and "cmdOutputFormat c = OutputFormatTable" and "\<And>rows. printTable (runPrinters env) rows = None"
  shows "\<exists>doc. runUpgradeMode env c client v = Inr ([doc, VerdictDoc VerdictPass], None)"
proof -
  have good: "list_all good_pattern (CheckSelectors c)"
    unfolding assms(2) by (rule ValidateCheckSelectors_good [OF wildcard_valid])
  have "run_groups ex (runCtx env) 0 t (CheckSelectors c) CanonicalGroupOrder = Inr (Inr (\<lambda>_. []))"
    for ex :: "'a Target Executor" and t
    by (rule run_groups_done [OF assms(1) good])
  moreover have "FlattenResults (\<lambda>_. []) = Inr ([] :: 'a Target CheckExecution list)"
    by (simp add: FlattenResults_def CanonicalGroupOrder_def sort_group_def)
  moreover have "\<exists>doc. finish_upgrade env c [] = ([doc, VerdictDoc VerdictPass], None)"
    using assms(3,4)
    by (simp add: finish_upgrade_def Let_def FilterBySeverity_def formatAndOutputUpgradeResults_def
        outputUpgradeTable_def evaluateVerdict_def has_impact_def printVerdict_def resolveExitError_def
        highestPriorityExecError_def split: prod.splits)
  moreover have "validate_selectors r (CheckSelectors c) = None" for r :: "'a Target CheckRegistry"
    by (simp add: assms(2) validate_selectors_def isDefaultSelector_def)
  ultimately show ?thesis by (simp add: runUpgradeMode_def Let_def)
qed

theorem expired_context_reports_pass_witness:
  "\<exists>doc. runUpgradeMode (sample_run_env\<lparr>runCtx := (\<lambda>_. Some (Sentinel DeadlineExceeded))\<rparr>) sample_lint_command ()
     zero_version = Inr ([doc, VerdictDoc VerdictPass], None)"
  by (rule expired_context_reports_pass)
     (simp_all add: sample_lint_command_def sample_command_def sample_run_env_def)

text \<open>
  The severity level changes the verdict, not only the display: with level warning the exit code
  of the verdict is that of the unfiltered results, with level critical advisory findings no longer
  count, and with level prohibited blocking findings no longer count, so that an assessment
  with blocking findings exits with 0.
\<close>

theorem severity_changes_verdict:
  "verdict_code (FilterBySeverity xs SeverityLevelWarning) = verdict_code xs
   \<and> verdict_code (FilterBySeverity xs SeverityLevelCritical) =
       (if has_impact ImpactProhibited xs \<or> has_impact ImpactBlocking xs then ExitError else ExitSuccess)
   \<and> verdict_code (FilterBySeverity xs SeverityLevelProhibited) =
       (if has_impact ImpactProhibited xs then ExitError else ExitSuccess)"
proof -
  have "has_impact i (filter_by_severity SeverityLevelWarning xs) \<longleftrightarrow> 1 \<le> impact_rank i \<and> has_impact i xs"
    "has_impact i (filter_by_severity SeverityLevelCritical xs) \<longleftrightarrow> 2 \<le> impact_rank i \<and> has_impact i xs"
    "has_impact i (filter_by_severity SeverityLevelProhibited xs) \<longleftrightarrow> 3 \<le> impact_rank i \<and> has_impact i xs" for i
    using has_impact_filter [of SeverityLevelWarning i xs] has_impact_filter [of SeverityLevelCritical i xs]
      has_impact_filter [of SeverityLevelProhibited i xs]
    by (simp_all add: severity_rank_def)
  then show ?thesis by (simp add: verdict_code_def FilterBySeverity_def)
qed

text \<open>
  C5. \<open>Run\<close> decides its mode by the versions alone: without a target version, or with one of the same
  major and minor version, no check is run and it succeeds; with an older one it fails
  with the validation code; otherwise it is an upgrade assessment.
\<close>

theorem CommandRun_mode:
  assumes "\<not> OutputSchema c" and "cmdClient c = Some client" and "runDetect env = Inr cur"
  defines "target \<equiv> (case parsedTargetVersion c of Some v \<Rightarrow> v | None \<Rightarrow> cur)"
  shows "(if Major cur = Major target \<and> Minor cur = Minor target
      then \<exists>doc. CommandRun env c = Inr ([doc], None)
      else if sv_LT (runSemver env) target cur
      then \<exists>e. CommandRun env c = Inr ([], Some e) \<and> ExitCodeFromError api (Some e) = ExitValidation
      else \<exists>c'. registry c' = registry c \<and> CheckSelectors c' = CheckSelectors c
        \<and> CommandRun env c = runUpgradeMode env c' client cur)
    \<and> (parsedTargetVersion c = None \<longrightarrow> target = cur)"
proof -
  let ?c1 = "c\<lparr>currentClusterVersion := sv_String (runSemver env) cur\<rparr>"
  let ?c2 = "case runOpenShift env of Inl _ \<Rightarrow> ?c1
     | Inr ocp \<Rightarrow> ?c1\<lparr>currentOpenShiftVersion := sv_String (runSemver env) ocp\<rparr>"
  have c2: "parsedTargetVersion ?c2 = parsedTargetVersion c" "registry ?c2 = registry c"
      "CheckSelectors ?c2 = CheckSelectors c"
    by (simp_all split: sum.splits)
  have same: "SameMajorMinor (Some cur) (Some target) \<longleftrightarrow> Major cur = Major target \<and> Minor cur = Minor target"
    by (simp add: SameMajorMinor_def)
  have run: "CommandRun env c =
      (if SameMajorMinor (Some cur) (Some target) then Inr (runLintMode ?c2 (runSemver env) cur)
       else if sv_LT (runSemver env) target cur then
         Inr ([], NewExitCodeError ExitValidation (Some (NewError (''target version ''
           @ cmdTargetVersion ?c2 @ '' is older than current version '' @ sv_String (runSemver env) cur
           @ '' (downgrades not supported)''))))
       else runUpgradeMode env ?c2 client cur)"
    using assms(1-3) by (simp add: CommandRun_def Let_def c2(1) target_def)
  show ?thesis
    unfolding run same using c2 by (auto simp: runLintMode_def target_def)
qed

theorem CommandRun_mode_witness:
  "\<exists>doc. CommandRun sample_run_env (sample_lint_command\<lparr>parsedTargetVersion := None\<rparr>) = Inr ([doc], None)"
proof -
  let ?c = "sample_lint_command\<lparr>parsedTargetVersion := None\<rparr>"
  have h: "\<not> OutputSchema ?c" "cmdClient ?c = Some ()" "runDetect sample_run_env = Inr (zero_version\<lparr>Major := 2\<rparr>)"
    by (simp_all add: sample_lint_command_def sample_command_def sample_run_env_def)
  from conjunct1 [OF CommandRun_mode [OF h]] show ?thesis by simp
qed

text \<open>
  C2. How the process ends after the lint command returned: \<open>main\<close> prints nothing more, because every
  error has been reported, and its exit code is 3 when the options are invalid and otherwise
  the code of the error of the phase that failed, or 0.
\<close>

theorem lint_process_exit:
  assumes "lint_RunE cli cenv renv c = Inr (docs, errs, eo)"
  shows "main_exit (cliAPI cli) eo = ([],
    (case CommandComplete cenv c of
       (c', Some e) \<Rightarrow> ExitCodeFromError (cliAPI cli) (Some e)
     | (c', None) \<Rightarrow>
         (case CommandValidate c' of
            Some e \<Rightarrow> ExitValidation
          | None \<Rightarrow> (case CommandRun renv c' of
              Inr (_, e) \<Rightarrow> ExitCodeFromError (cliAPI cli) e
            | Inl _ \<Rightarrow> ExitSuccess))))"
proof -
  obtain c' ce where c: "CommandComplete cenv c = (c', ce)" by fastforce
  have fin: "main_exit (cliAPI cli) (Some (NewAlreadyHandledError (ExitCodeError k e))) = ([], k)" for k e
    by (simp add: main_exit_def)
  show ?thesis
  proof (cases ce)
    case (Some e)
    with assms c fin show ?thesis by (auto simp: lint_RunE_def Let_def wrapHandledError_def)
  next
    case None
    note ce = this
    show ?thesis
    proof (cases "CommandValidate c'")
      case (Some e)
      with assms c ce fin show ?thesis by (auto simp: lint_RunE_def Let_def)
    next
      case None
      with assms c ce obtain rd re where r: "CommandRun renv c' = Inr (rd, re)"
        by (auto simp: lint_RunE_def Let_def)
      show ?thesis
      proof (cases re)
        case None
        with assms c ce \<open>CommandValidate c' = None\<close> r show ?thesis
          by (auto simp: lint_RunE_def Let_def main_exit_def)
      next
        case (Some e)
        show ?thesis
        proof (cases "errors_is (\<lambda>x. x = Sentinel ErrAlreadyHandled) e")
          case True
          with assms c ce \<open>CommandValidate c' = None\<close> r Some show ?thesis
            by (auto simp: lint_RunE_def Let_def main_exit_def)
        next
          case False
          with assms c ce \<open>CommandValidate c' = None\<close> r Some fin show ?thesis
            by (auto simp: lint_RunE_def Let_def wrapHandledError_def)
        qed
      qed
    qed
  qed
qed

definition sample_cli :: cli_env where
  "sample_cli = \<lparr>cliAPI = status_api, cliJSON = (\<lambda>s. Inr (Code s)), cliYAML = (\<lambda>s. Inr (Code s)),
     cliWriter = (\<lambda>_. True)\<rparr>"

definition sample_complete_env :: "unit complete_env" where
  "sample_complete_env = \<lparr>envStdin = \<lparr>checkPiped = None, parseStdin = Inl (NewError ''eof'')\<rparr>,
     envChanged = (\<lambda>_. False), envRest = None, envClient = Inr (),
     envSemver = \<lparr>sv_Parse = (\<lambda>s. Inl (NewError s)), sv_ParseTolerant = (\<lambda>s. Inr zero_version),
       sv_EQ = (=), sv_LT = (\<lambda>a b. Major a < Major b), sv_String = (\<lambda>v. itoa (Major v))\<rparr>\<rparr>"

theorem lint_process_exit_witness:
  "\<exists>docs errs eo. lint_RunE sample_cli sample_complete_env sample_run_env
       (sample_command\<lparr>cmdSeverityLevel := ''none''\<rparr>) = Inr (docs, errs, eo)
     \<and> main_exit status_api eo = ([], 3)"
proof -
  let ?c = "sample_command\<lparr>cmdSeverityLevel := ''none''\<rparr>"
  obtain c' where cc: "CommandComplete sample_complete_env ?c = (c', None)" "\<exists>e. CommandValidate c' = Some e"
    by (simp add: CommandComplete_def complete_client_def complete_version_def SharedOptionsComplete_def
        sample_complete_env_def sample_command_def CommandValidate_def SharedOptionsValidate_def
        OutputFormatValidate_def SeverityLevelValidate_def)
  then obtain docs errs eo where r: "lint_RunE sample_cli sample_complete_env sample_run_env ?c = Inr (docs, errs, eo)"
    by (auto simp: lint_RunE_def Let_def)
  have api: "cliAPI sample_cli = status_api" by (simp add: sample_cli_def)
  from lint_process_exit [OF r] cc have "main_exit status_api eo = ([], 3)" by (auto simp: api)
  with r show ?thesis by blast
qed

text \<open>
  Configuration from stdin: a flag given on the command line wins over the value from stdin, an
  absent value keeps the option, and otherwise the value from stdin is used; no other option
  changes. It fails exactly on a severity or an output format that would be used and is not valid.
\<close>

theorem stdin_precedence:
  "let use = (\<lambda>flag present. present \<and> \<not> changed flag);
       sevUsed = use ''severity'' (inSeverity input \<noteq> []);
       outUsed = use ''output'' (inOutput input \<noteq> []) in
   (snd (applyStdinInput changed input c) = None \<longleftrightarrow>
      (sevUsed \<longrightarrow> SeverityLevelValidate (inSeverity input) = None)
      \<and> (outUsed \<longrightarrow> OutputFormatValidate (inOutput input) = None))
   \<and> (snd (applyStdinInput changed input c) = None \<longrightarrow>
      fst (applyStdinInput changed input c) = c
        \<lparr>CheckSelectors := if use ''checks'' (inChecks input \<noteq> []) then inChecks input else CheckSelectors c,
         cmdSeverityLevel := if sevUsed then inSeverity input else cmdSeverityLevel c,
         cmdTargetVersion := if use ''target-version'' (inTargetVersion input \<noteq> [])
           then inTargetVersion input else cmdTargetVersion c,
         Verbose := if use ''verbose'' (inVerbose input) then True else Verbose c,
         Quiet := if use ''quiet'' (inQuiet input) then True else Quiet c,
         cmdOutputFormat := if outUsed then inOutput input else cmdOutputFormat c\<rparr>)"
proof -
  let ?c1 = "stdin_checks changed input c"
  consider (none) "\<not> (inSeverity input \<noteq> [] \<and> \<not> changed ''severity'')"
    | (bad) e where "inSeverity input \<noteq> [] \<and> \<not> changed ''severity''" "SeverityLevelValidate (inSeverity input) = Some e"
    | (ok) "inSeverity input \<noteq> [] \<and> \<not> changed ''severity''" "SeverityLevelValidate (inSeverity input) = None"
    by (cases "SeverityLevelValidate (inSeverity input)") auto
  then show ?thesis
  proof cases
    case none
    then have "applyStdinInput changed input c = stdin_output changed input (stdin_flags changed input ?c1)"
      unfolding applyStdinInput_def stdin_severity_def by (simp only: if_False prod.case option.case)
    with none show ?thesis
      unfolding Let_def by (simp only: stdin_output_cases stdin_flags_eq stdin_checks_eq) simp
  next
    case bad
    then show ?thesis unfolding Let_def applyStdinInput_def stdin_severity_def by simp
  next
    case ok
    then have "applyStdinInput changed input c =
        stdin_output changed input (stdin_flags changed input (?c1\<lparr>cmdSeverityLevel := inSeverity input\<rparr>))"
      unfolding applyStdinInput_def stdin_severity_def by (simp only: if_True prod.case option.case simp_thms)
    with ok show ?thesis
      unfolding Let_def by (simp only: stdin_output_cases stdin_flags_eq stdin_checks_eq) simp
  qed
qed

theorem stdin_precedence_witness:
  "cmdOutputFormat (fst (applyStdinInput (\<lambda>f. f = ''severity'')
     \<lparr>inChecks = [], inSeverity = ''bogus'', inTargetVersion = [], inVerbose = False, inQuiet = False, inOutput = ''json''\<rparr>
     sample_command)) = ''json''"
  using stdin_precedence [of "\<lambda>f. f = ''severity''"
     "\<lparr>inChecks = [], inSeverity = ''bogus'', inTargetVersion = [], inVerbose = False, inQuiet = False, inOutput = ''json''\<rparr>"
     sample_command]
  by (simp add: Let_def OutputFormatValidate_def)

end
