(* ===== verification/DepsManifest.thy ===== *)
theory DepsManifest
  imports LintResult
begin

text \<open>
  The dependency manifest and its graph: \<open>pkg/deps/manifest.go\<close> and \<open>pkg/deps/graph.go\<close>. A manifest is the
  parsed form of \<open>values.yaml\<close> (the YAML parser and \<open>validation.IsDNS1123Label\<close> are parameters).
\<close>

section \<open>Data\<close>

text \<open>The values of \<open>map[string]any\<close> that \<open>isEnabled\<close> tells apart.\<close>

datatype yaml_value = YBool bool | YString string | YOther

record OLMConfig =
  olmChannel :: string
  olmName :: string
  olmNamespace :: string
  olmSource :: string
  olmTargetNamespaces :: "string list"

record Dependency =
  Enabled :: string
  OLM :: OLMConfig
  DepDependencies :: "(string, yaml_value) gomap"

record Manifest =
  Dependencies :: "(string, Dependency) gomap"
  Components :: "(string, (string, yaml_value) gomap) gomap"

record DependencyInfo =
  diName :: string
  diDisplayName :: string
  diEnabled :: string
  diSubscription :: string
  diNamespace :: string
  diChannel :: string
  diSource :: string
  diTargetNamespaces :: "string list"
  diRequiredBy :: "string list"

definition allowedCatalogSources :: "string list" where
  "allowedCatalogSources =
     ['''', ''redhat-operators'', ''community-operators'', ''certified-operators'', ''redhat-marketplace'']"

definition displayNames :: "(string, string) gomap" where
  "displayNames = [
     (''certManager'', ''Cert Manager''),
     (''leaderWorkerSet'', ''Leader Worker Set''),
     (''jobSet'', ''Job Set''),
     (''rhcl'', ''Red Hat Connectivity Link''),
     (''customMetricsAutoscaler'', ''Custom Metrics Autoscaler''),
     (''serviceMesh'', ''Service Mesh''),
     (''serverless'', ''Serverless''),
     (''authorino'', ''Authorino''),
     (''kueue'', ''Kueue''),
     (''opentelemetry'', ''OpenTelemetry''),
     (''tempo'', ''Tempo''),
     (''clusterObservability'', ''Cluster Observability''),
     (''nfd'', ''Node Feature Discovery''),
     (''nvidiaGPUOperator'', ''NVIDIA GPU Operator''),
     (''aipipelines'', ''AI Pipelines''),
     (''dashboard'', ''Dashboard''),
     (''feastoperator'', ''Feast Operator''),
     (''kserve'', ''KServe''),
     (''modelregistry'', ''Model Registry''),
     (''ray'', ''Ray''),
     (''trainer'', ''Trainer''),
     (''trainingoperator'', ''Training Operator''),
     (''trustyai'', ''TrustyAI''),
     (''workbenches'', ''Workbenches''),
     (''mlflowoperator'', ''MLflow Operator''),
     (''llamastackoperator'', ''LlamaStack Operator''),
     (''sparkoperator'', ''Spark Operator'')]"

definition toDisplayName :: "string \<Rightarrow> string" where
  "toDisplayName name = (case map_of displayNames name of Some d \<Rightarrow> d | None \<Rightarrow> name)"

fun isEnabled :: "yaml_value \<Rightarrow> bool" where
  "isEnabled (YBool b) = b"
| "isEnabled (YString s) = (s = ''true'' \<or> s = ''auto'')"
| "isEnabled YOther = False"

section \<open>Validation\<close>

text \<open>\<open>dns\<close> is \<open>validation.IsDNS1123Label\<close>: the list of what is wrong with a label.\<close>

definition validateTargetNamespace ::
  "(string \<Rightarrow> string list) \<Rightarrow> string \<Rightarrow> string \<Rightarrow> string \<Rightarrow> err option" where
  "validateTargetNamespace dns depName ns operatorNamespace =
     (if dns ns \<noteq> [] then
        Some (NewError (''dependency '' @ go_quote depName @ '': invalid targetNamespace '' @ go_quote ns @ '': ''
          @ str_join '', '' (dns ns)))
      else if ns = operatorNamespace then None
      else if has_prefix ns ''kube-'' \<or> has_prefix ns ''openshift-'' then
        Some (NewError (''dependency '' @ go_quote depName @ '': targetNamespace '' @ go_quote ns
          @ '' is a system namespace; only the operator's own namespace '' @ go_quote operatorNamespace
          @ '' is allowed''))
      else None)"

definition validateOLMConfig :: "(string \<Rightarrow> string list) \<Rightarrow> string \<Rightarrow> OLMConfig \<Rightarrow> err option" where
  "validateOLMConfig dns depName olm =
     (if olmSource olm \<notin> set allowedCatalogSources then
        Some (NewError (''dependency '' @ go_quote depName @ '': untrusted catalog source '' @ go_quote (olmSource olm)
          @ ''; allowed: redhat-operators, community-operators, certified-operators, redhat-marketplace''))
      else first_some (\<lambda>ns. validateTargetNamespace dns depName ns (olmNamespace olm)) (olmTargetNamespaces olm))"

definition ManifestValidate :: "(string \<Rightarrow> string list) \<Rightarrow> Manifest \<Rightarrow> err option" where
  "ManifestValidate dns m = first_some (\<lambda>(name, dep). validateOLMConfig dns name (OLM dep)) (Dependencies m)"

text \<open>\<open>Parse\<close>, with the YAML decoder as an argument.\<close>

definition ManifestParse ::
  "(string \<Rightarrow> err + Manifest) \<Rightarrow> (string \<Rightarrow> string list) \<Rightarrow> string \<Rightarrow> err + Manifest" where
  "ManifestParse unmarshal dns data =
     (case unmarshal data of
        Inl e \<Rightarrow> Inl (Wrap (''parse manifest: '' @ err_string e) [e])
      | Inr m \<Rightarrow>
          (case ManifestValidate dns m of
             Some e \<Rightarrow> Inl (Wrap (''validate manifest: '' @ err_string e) [e])
           | None \<Rightarrow> Inr m))"

section \<open>Flat view\<close>

definition enabled_keys :: "(string, yaml_value) gomap \<Rightarrow> string list" where
  "enabled_keys deps = map fst (filter (\<lambda>(n, v). isEnabled v) deps)"

text \<open>
  The entries \<open>(dependency, required by)\<close> that \<open>buildRequiredByMap\<close> inserts into its sets, from the
  components and then from the dependencies.
\<close>

definition required_entries :: "Manifest \<Rightarrow> (string \<times> string) list" where
  "required_entries m =
     concat (map (\<lambda>(compName, deps). map (\<lambda>d. (d, toDisplayName compName)) (enabled_keys deps)) (Components m))
     @ concat (map (\<lambda>(depName, dep). map (\<lambda>d. (d, toDisplayName depName)) (enabled_keys (DepDependencies dep)))
         (Dependencies m))"

text \<open>\<open>sets.List\<close> returns the elements of a set in sorted order.\<close>

definition requiredBy_of :: "Manifest \<Rightarrow> string \<Rightarrow> string list" where
  "requiredBy_of m d =
     sort_slice (\<lambda>a b. a < b) (remdups (map snd (filter (\<lambda>(n, by). n = d) (required_entries m))))"

definition buildRequiredByMap :: "Manifest \<Rightarrow> (string, string list) gomap" where
  "buildRequiredByMap m = map (\<lambda>d. (d, requiredBy_of m d)) (remdups (map fst (required_entries m)))"

definition dependency_info :: "Manifest \<Rightarrow> string \<times> Dependency \<Rightarrow> DependencyInfo" where
  "dependency_info m nd = (case nd of (name, dep) \<Rightarrow>
     \<lparr>diName = name, diDisplayName = toDisplayName name, diEnabled = Enabled dep,
      diSubscription = olmName (OLM dep), diNamespace = olmNamespace (OLM dep), diChannel = olmChannel (OLM dep),
      diSource = olmSource (OLM dep), diTargetNamespaces = olmTargetNamespaces (OLM dep),
      diRequiredBy = (case map_of (buildRequiredByMap m) name of Some l \<Rightarrow> l | None \<Rightarrow> [])\<rparr>)"

definition GetDependencies :: "Manifest \<Rightarrow> DependencyInfo list" where
  "GetDependencies m = sort_slice (\<lambda>a b. diName a < diName b) (map (dependency_info m) (Dependencies m))"

section \<open>Transitive dependencies (\<open>graph.go\<close>)\<close>

definition dep_succs :: "Manifest \<Rightarrow> string \<Rightarrow> string list" where
  "dep_succs m name = (case map_of (Dependencies m) name of None \<Rightarrow> []
     | Some dep \<Rightarrow> enabled_keys (DepDependencies dep))"

lemma fresh_key_decreases:
  "name \<notin> set visited \<Longrightarrow> name \<in> fst ` set (Dependencies m) \<Longrightarrow>
     card (fst ` set (Dependencies m) - set (name # visited)) < card (fst ` set (Dependencies m) - set visited)"
  by (rule psubset_card_mono) auto

lemma unknown_no_succs: "name \<notin> fst ` set (Dependencies m) \<Longrightarrow> dep_succs m name = []"
  by (simp add: dep_succs_def map_of_eq_None_iff [THEN iffD2])

text \<open>
  \<open>collectTransitiveDeps\<close> with the pending calls of its recursion as an explicit stack: a visited name
  returns at once, any other is marked and its enabled dependencies are called in order, before the
  callers' remaining ones.
\<close>

function (sequential) collectTransitiveDeps :: "Manifest \<Rightarrow> string list \<Rightarrow> string list \<Rightarrow> string list" where
  "collectTransitiveDeps m [] visited = visited"
| "collectTransitiveDeps m (name # stack) visited =
     (if name \<in> set visited then collectTransitiveDeps m stack visited
      else collectTransitiveDeps m (dep_succs m name @ stack) (name # visited))"
  by pat_completeness auto

termination
proof (relation "measures [\<lambda>(m, stack, visited). card (fst ` set (Dependencies m) - set visited),
    \<lambda>(m, stack, visited). length stack]")
  fix m :: Manifest and name :: string and stack visited :: "string list"
  assume n: "name \<notin> set visited"
  show "((m, dep_succs m name @ stack, name # visited), m, name # stack, visited)
      \<in> measures [\<lambda>(m, stack, visited). card (fst ` set (Dependencies m) - set visited),
          \<lambda>(m, stack, visited). length stack]"
  proof (cases "name \<in> fst ` set (Dependencies m)")
    case True
    with fresh_key_decreases [OF n True] show ?thesis by simp
  next
    case False
    then have "fst ` set (Dependencies m) - set (name # visited) = fst ` set (Dependencies m) - set visited"
      by auto
    with unknown_no_succs [OF False] show ?thesis by simp
  qed
qed simp_all

definition transitive_deps :: "Manifest \<Rightarrow> string \<Rightarrow> string list" where
  "transitive_deps m name =
     sort_slice (\<lambda>a b. a < b) (map toDisplayName (filter (\<lambda>d. d \<noteq> name) (collectTransitiveDeps m [name] [])))"

definition buildDepMap :: "Manifest \<Rightarrow> (string, string list) gomap" where
  "buildDepMap m = map (\<lambda>(name, dep). (name, transitive_deps m name)) (Dependencies m)"

section \<open>Lemmas\<close>

lemma collect_mono: "set visited \<subseteq> set (collectTransitiveDeps m stack visited)"
  by (induction m stack visited rule: collectTransitiveDeps.induct) auto

lemma collect_stack: "set stack \<subseteq> set (collectTransitiveDeps m stack visited)"
proof (induction m stack visited rule: collectTransitiveDeps.induct)
  case (2 m name stack visited)
  then show ?case using collect_mono [of visited m stack] collect_mono [of "name # visited" m "dep_succs m name @ stack"]
    by auto
qed simp

lemma collect_distinct: "distinct visited \<Longrightarrow> distinct (collectTransitiveDeps m stack visited)"
  by (induction m stack visited rule: collectTransitiveDeps.induct) auto

lemma collect_closed:
  assumes "\<And>x y. x \<in> set visited \<Longrightarrow> y \<in> set (dep_succs m x) \<Longrightarrow> y \<in> set visited \<union> set stack"
    and "x \<in> set (collectTransitiveDeps m stack visited)" and "y \<in> set (dep_succs m x)"
  shows "y \<in> set (collectTransitiveDeps m stack visited)"
  using assms
proof (induction m stack visited rule: collectTransitiveDeps.induct)
  case (1 m visited)
  then show ?case by auto
next
  case (2 m name stack visited)
  show ?case
  proof (cases "name \<in> set visited")
    case True
    with 2 show ?thesis by (auto split: if_splits)
  next
    case False
    have "v \<in> set (name # visited) \<union> set (dep_succs m name @ stack)"
      if "u \<in> set (name # visited)" "v \<in> set (dep_succs m u)" for u v
      using that "2.prems"(1) by auto
    with False 2 show ?thesis by simp
  qed
qed

lemma collect_sound:
  "x \<in> set (collectTransitiveDeps m stack visited) \<Longrightarrow>
     x \<in> set visited \<or> (\<exists>s\<in>set stack. (s, x) \<in> {(a, b). b \<in> set (dep_succs m a)}\<^sup>*)"
proof (induction m stack visited rule: collectTransitiveDeps.induct)
  case (2 m name stack visited)
  show ?case
  proof (cases "name \<in> set visited")
    case True
    with 2 show ?thesis by auto
  next
    case False
    with 2 consider "x \<in> set visited" | "x = name"
      | s where "s \<in> set (dep_succs m name)" "(s, x) \<in> {(a, b). b \<in> set (dep_succs m a)}\<^sup>*"
      | s where "s \<in> set stack" "(s, x) \<in> {(a, b). b \<in> set (dep_succs m a)}\<^sup>*"
      by auto
    then show ?thesis
      by cases (auto intro: converse_rtrancl_into_rtrancl)
  qed
qed simp

interpretation dep_graph: visit_closure "\<lambda>x. set (dep_succs m x)" "\<lambda>r. set (collectTransitiveDeps m [r] [])" for m
proof unfold_locales
  fix r x y
  show "r \<in> set (collectTransitiveDeps m [r] [])" using collect_stack [of "[r]" m "[]"] by simp
  show "x \<in> set (collectTransitiveDeps m [r] []) \<Longrightarrow> y \<in> set (dep_succs m x) \<Longrightarrow>
      y \<in> set (collectTransitiveDeps m [r] [])"
    by (rule collect_closed) auto
  show "x \<in> set (collectTransitiveDeps m [r] []) \<Longrightarrow> (r, x) \<in> {(a, b). b \<in> set (dep_succs m a)}\<^sup>*"
    using collect_sound [of x m "[r]" "[]"] by auto
qed

lemma validate_dep: 
  "ManifestValidate dns m = None \<Longrightarrow> (name, dep) \<in> set (Dependencies m) \<Longrightarrow> validateOLMConfig dns name (OLM dep) = None"
  by (auto simp: ManifestValidate_def first_some_None_iff)

lemma validateOLMConfig_iff:
  "validateOLMConfig dns name olm = None \<longleftrightarrow>
     olmSource olm \<in> set allowedCatalogSources
     \<and> (\<forall>ns\<in>set (olmTargetNamespaces olm). dns ns = []
         \<and> (ns = olmNamespace olm \<or> \<not> (has_prefix ns ''kube-'' \<or> has_prefix ns ''openshift-'')))"
  unfolding validateOLMConfig_def
  by (simp add: first_some_None_iff) (auto simp: validateTargetNamespace_def)

lemma required_entries_iff:
  "(d, b) \<in> set (required_entries m) \<longleftrightarrow>
     (\<exists>n deps. (n, deps) \<in> set (Components m) \<and> d \<in> set (enabled_keys deps) \<and> b = toDisplayName n)
     \<or> (\<exists>n dep. (n, dep) \<in> set (Dependencies m) \<and> d \<in> set (enabled_keys (DepDependencies dep)) \<and> b = toDisplayName n)"
  by (force simp: required_entries_def)

lemma requiredBy_of_set: "set (requiredBy_of m d) = {b. (d, b) \<in> set (required_entries m)}"
  by (force simp: requiredBy_of_def)

lemma lookup_requiredBy:
  "(case map_of (buildRequiredByMap m) d of Some l \<Rightarrow> l | None \<Rightarrow> []) = requiredBy_of m d"
proof (cases "d \<in> fst ` set (required_entries m)")
  case True
  then have "map_of (buildRequiredByMap m) d = Some (requiredBy_of m d)"
    unfolding buildRequiredByMap_def by (auto simp: map_of_map_restrict)
  then show ?thesis by simp
next
  case False
  then have "set (requiredBy_of m d) = {}" unfolding requiredBy_of_set by (metis (no_types, lifting) Collect_empty_eq fst_conv imageI)
  moreover have "map_of (buildRequiredByMap m) d = None"
    using False by (simp add: buildRequiredByMap_def map_of_eq_None_iff image_image)
  ultimately show ?thesis by simp
qed

section \<open>Properties\<close>

text \<open>
  C11. The graph of \<open>deps graph\<close>: for every dependency of the manifest the listed dependencies are, by display
  name and in sorted order, exactly the other dependencies it reaches through enabled edges, also
  when the manifest has cycles.
\<close>

theorem buildDepMap_closure:
  assumes "map_of (buildDepMap m) name = Some ds"
  shows "set ds = toDisplayName ` ({x. (name, x) \<in> {(a, b). b \<in> set (dep_succs m a)}\<^sup>+} - {name})
    \<and> sorted ds"
proof
  have "map_of (map (\<lambda>(name, dep). (name, f name)) l) = (\<lambda>n. map_option (\<lambda>_. f n) (map_of l n))"
    for f :: "string \<Rightarrow> string list" and l :: "(string \<times> Dependency) list"
    by (induction l) (auto simp: fun_eq_iff)
  with assms have ds: "ds = transitive_deps m name" by (auto simp: buildDepMap_def)
  have "set ds = toDisplayName ` (set (collectTransitiveDeps m [name] []) - {name})"
    by (auto simp: ds transitive_deps_def)
  also have "set (collectTransitiveDeps m [name] []) - {name}
      = {x. (name, x) \<in> {(a, b). b \<in> set (dep_succs m a)}\<^sup>+} - {name}"
    unfolding dep_graph.visit_eq_reachable by (auto simp: rtrancl_eq_or_trancl)
  finally show "set ds = toDisplayName ` ({x. (name, x) \<in> {(a, b). b \<in> set (dep_succs m a)}\<^sup>+} - {name})" .
  show "sorted ds" by (simp add: ds transitive_deps_def sorted_sort_less)
qed

definition sample_olm :: "string \<Rightarrow> OLMConfig" where
  "sample_olm n = \<lparr>olmChannel = ''stable'', olmName = n, olmNamespace = ''openshift-'' @ n, olmSource = [],
     olmTargetNamespaces = [''openshift-'' @ n]\<rparr>"

definition sample_manifest :: Manifest where
  "sample_manifest = \<lparr>Dependencies =
     [(''a'', \<lparr>Enabled = ''true'', OLM = sample_olm ''a'', DepDependencies = [(''b'', YBool True)]\<rparr>),
      (''b'', \<lparr>Enabled = ''auto'', OLM = sample_olm ''b'', DepDependencies = [(''c'', YString ''auto''), (''a'', YBool True)]\<rparr>),
      (''c'', \<lparr>Enabled = ''false'', OLM = sample_olm ''c'', DepDependencies = [(''a'', YBool False)]\<rparr>)],
     Components = [(''kserve'', [(''a'', YBool True)])]\<rparr>"

theorem buildDepMap_closure_witness:
  "map_of (buildDepMap sample_manifest) ''a'' = Some [''b'', ''c'']
   \<and> {x. (''a'', x) \<in> {(a, b). b \<in> set (dep_succs sample_manifest a)}\<^sup>+} - {''a''} \<noteq> {}"
proof -
  have m: "map_of (buildDepMap sample_manifest) ''a'' = Some [''b'', ''c'']" by code_simp
  from buildDepMap_closure [OF m] m show ?thesis by auto
qed

text \<open>
  A manifest that parses is safe: every dependency comes from an allowed catalog source, and every
  target namespace is a valid label and a system namespace only if it is the namespace of the
  operator itself.
\<close>

theorem parsed_manifest_safe:
  assumes "ManifestParse unmarshal dns data = Inr m" and "(name, dep) \<in> set (Dependencies m)"
  shows "olmSource (OLM dep) \<in> set allowedCatalogSources
    \<and> (\<forall>ns\<in>set (olmTargetNamespaces (OLM dep)). dns ns = []
        \<and> (ns = olmNamespace (OLM dep) \<or> \<not> (has_prefix ns ''kube-'' \<or> has_prefix ns ''openshift-'')))"
proof -
  have "ManifestValidate dns m = None"
    using assms(1) by (auto simp: ManifestParse_def split: sum.splits option.splits)
  from validate_dep [OF this assms(2)] show ?thesis by (simp add: validateOLMConfig_iff)
qed

theorem parsed_manifest_safe_witness:
  "olmSource (sample_olm ''a'') \<in> set allowedCatalogSources"
proof -
  have "ManifestValidate (\<lambda>_. []) sample_manifest = None" by code_simp
  then have p: "ManifestParse (\<lambda>_. Inr sample_manifest) (\<lambda>_. []) [] = Inr sample_manifest"
    by (simp add: ManifestParse_def)
  have "(''a'', \<lparr>Enabled = ''true'', OLM = sample_olm ''a'', DepDependencies = [(''b'', YBool True)]\<rparr>)
      \<in> set (Dependencies sample_manifest)" by (simp add: sample_manifest_def)
  from parsed_manifest_safe [OF p this] show ?thesis by simp
qed

text \<open>
  The flat list of dependencies: one entry per dependency of the manifest, strictly ordered by name,
  and each lists, sorted and without repetition, exactly the display names of the components and
  dependencies that enable it.
\<close>

theorem GetDependencies_flat:
  assumes "wf_gomap (Dependencies m)"
  shows "sorted_wrt (\<lambda>a b. diName a < diName b) (GetDependencies m)
    \<and> mset (map diName (GetDependencies m)) = mset (map fst (Dependencies m))
    \<and> (\<forall>d\<in>set (GetDependencies m). sorted_wrt (<) (diRequiredBy d)
        \<and> set (diRequiredBy d) = {b. (diName d, b) \<in> set (required_entries m)})"
proof (intro conjI ballI)
  have names: "map diName (map (dependency_info m) (Dependencies m)) = map fst (Dependencies m)"
    by (simp add: dependency_info_def case_prod_beta comp_def)
  show "sorted_wrt (\<lambda>a b. diName a < diName b) (GetDependencies m)"
    unfolding GetDependencies_def by (rule slice.srt_strict) (simp only: names assms)
  show "mset (map diName (GetDependencies m)) = mset (map fst (Dependencies m))"
    by (metis GetDependencies_def mset_map mset_sort_slice names)
  fix d
  assume "d \<in> set (GetDependencies m)"
  then have d: "diRequiredBy d = requiredBy_of m (diName d)"
    by (auto simp: GetDependencies_def dependency_info_def lookup_requiredBy)
  show "sorted_wrt (<) (diRequiredBy d)"
    unfolding d requiredBy_of_def by (simp add: strict_sort_less)
  show "set (diRequiredBy d) = {b. (diName d, b) \<in> set (required_entries m)}"
    unfolding d by (rule requiredBy_of_set)
qed

theorem GetDependencies_flat_witness:
  "sorted_wrt (\<lambda>a b. diName a < diName b) (GetDependencies sample_manifest)
   \<and> map (\<lambda>d. (diName d, diRequiredBy d)) (GetDependencies sample_manifest) =
       [(''a'', [''KServe'', ''b'']), (''b'', [''a'']), (''c'', [''b''])]"
proof -
  have "wf_gomap (Dependencies sample_manifest)" by (simp add: sample_manifest_def)
  from GetDependencies_flat [OF this]
  have "sorted_wrt (\<lambda>a b. diName a < diName b) (GetDependencies sample_manifest)" by blast
  moreover have "map (\<lambda>d. (diName d, diRequiredBy d)) (GetDependencies sample_manifest) =
       [(''a'', [''KServe'', ''b'']), (''b'', [''a'']), (''c'', [''b''])]" by code_simp
  ultimately show ?thesis by blast
qed

end
