(* ===== verification/DepsOlm.thy ===== *)
theory DepsOlm
  imports DepsManifest Versions
begin

text \<open>
  The state of operators on a cluster: \<open>pkg/deps/olm_state.go\<close>, \<open>pkg/deps/check.go\<close> and the name matching of
  \<open>pkg/deps/install.go\<close>. The cluster is a parameter: what each read returns at one moment. Queries on
  unstructured objects are values of \<open>jq_result\<close>, one per query the code makes.
\<close>

section \<open>Objects\<close>

record SubscriptionSpec =
  subChannel :: string
  subPackage :: string
  subSource :: string

record SubscriptionCondition =
  scType :: string
  scStatus :: string
  scMessage :: string

record Subscription =
  subName :: string
  subSpec :: "SubscriptionSpec option"
  subInstalledCSV :: string
  subConditions :: "SubscriptionCondition list"

record CSV =
  csvName :: string
  csvPhase :: string
  csvReason :: string
  csvVersion :: string

abbreviation CSVPhaseSucceeded :: string where "CSVPhaseSucceeded \<equiv> ''Succeeded''"
abbreviation CSVPhaseFailed :: string where "CSVPhaseFailed \<equiv> ''Failed''"

datatype 'a jq_result = Found 'a | NotFound | JqError err

fun jq_value :: "string jq_result \<Rightarrow> string" where
  "jq_value (Found v) = v"
| "jq_value _ = []"

record extension_condition =
  ecType :: string
  ecStatus :: string
  ecReason :: string
  ecMessage :: string

text \<open>A condition that is not a map is \<open>None\<close>.\<close>

record Extension =
  extName :: string
  extNamespace :: "string jq_result"
  extSourceType :: "string jq_result"
  extPackage :: "string jq_result"
  extVersion :: "string jq_result"
  extConditions :: "extension_condition option list jq_result"
  extChannel :: "string jq_result"
  extCatalog :: "string jq_result"
  extServiceAccount :: "string jq_result"

text \<open>The reads of the cluster; \<open>noMatch\<close> is \<open>meta.IsNoMatchError\<close>.\<close>

record cluster_reads =
  rdAPI :: api_preds
  noMatch :: "err \<Rightarrow> bool"
  rdSubscription :: "string \<Rightarrow> string \<Rightarrow> err + Subscription"
  rdSubscriptions :: "string \<Rightarrow> err + Subscription list"
  rdCSV :: "string \<Rightarrow> string \<Rightarrow> err + CSV"
  rdCSVs :: "string \<Rightarrow> err + CSV list"
  rdExtensions :: "err + Extension list"
  rdInstallsPackage :: "string \<Rightarrow> string \<Rightarrow> bool \<times> err option"
  rdServiceAccount :: "string \<Rightarrow> string \<Rightarrow> err option"

section \<open>Reads with the missing object as a value (\<open>check.go\<close>)\<close>

definition getSubscription :: "cluster_reads \<Rightarrow> string \<Rightarrow> string \<Rightarrow> err + Subscription option" where
  "getSubscription cl namespace name =
     (if namespace = [] \<or> name = [] then Inr None
      else case rdSubscription cl namespace name of
          Inl e \<Rightarrow> if rdAPI cl IsNotFound e then Inr None
                    else Inl (wrapf (''get subscription '' @ namespace @ ''/'' @ name) e)
        | Inr sub \<Rightarrow> Inr (Some sub))"

definition getCSV :: "cluster_reads \<Rightarrow> string \<Rightarrow> string \<Rightarrow> err + CSV option" where
  "getCSV cl namespace name =
     (if namespace = [] \<or> name = [] then Inr None
      else case rdCSV cl namespace name of
          Inl e \<Rightarrow> if rdAPI cl IsNotFound e then Inr None
                    else Inl (wrapf (''get csv '' @ namespace @ ''/'' @ name) e)
        | Inr csv \<Rightarrow> Inr (Some csv))"

section \<open>Names of cluster service versions (\<open>MatchesSubscription\<close>)\<close>

definition MatchesSubscription :: "string \<Rightarrow> string \<Rightarrow> bool" where
  "MatchesSubscription csv sub =
     (let csvLower = to_lower csv; subLower = to_lower sub;
          subWithoutPrefix = trim_prefix subLower ''openshift-'' in
      if has_prefix csvLower (subLower @ ''.v'') then True
      else if subWithoutPrefix \<noteq> subLower \<and> has_prefix csvLower (subWithoutPrefix @ ''.v'') then True
      else if (\<not> has_suffix subWithoutPrefix ''-operator'' \<and> \<not> has_suffix subWithoutPrefix ''operator'')
           \<and> has_prefix csvLower (subWithoutPrefix @ ''-operator.v'') then True
      else if (case cut_suffix subWithoutPrefix ''-product'' of (subBase, found) \<Rightarrow>
             found \<and> has_prefix csvLower (subBase @ ''-operator.v'')) then True
      else case str_index csvLower ''.v'' of
          None \<Rightarrow> False
        | Some idx \<Rightarrow>
            if idx = 0 then False
            else remove_char CHR ''-'' (take idx csvLower) = remove_char CHR ''-'' subWithoutPrefix)"

text \<open>The loop over a list of versions, in three functions of the source.\<close>

definition first_succeeded :: "string \<Rightarrow> CSV list \<Rightarrow> CSV option" where
  "first_succeeded sub csvs =
     find (\<lambda>csv. csvPhase csv = CSVPhaseSucceeded \<and> MatchesSubscription (csvName csv) sub) csvs"

definition findMatchingCSVVersion :: "cluster_reads \<Rightarrow> string \<Rightarrow> string \<Rightarrow> err + string" where
  "findMatchingCSVVersion cl namespace sub =
     (case rdCSVs cl namespace of
        Inl e \<Rightarrow> Inl (wrapf (''list CSVs in '' @ namespace) e)
      | Inr csvs \<Rightarrow> Inr (case first_succeeded sub csvs of Some csv \<Rightarrow> csvVersion csv | None \<Rightarrow> []))"

definition getVersionFromCSV :: "cluster_reads \<Rightarrow> string \<Rightarrow> string \<Rightarrow> err + string" where
  "getVersionFromCSV cl namespace name =
     (if name = [] then Inr []
      else bind_res (getCSV cl namespace name) (\<lambda>csv.
        Inr (case csv of None \<Rightarrow> [] | Some c \<Rightarrow> csvVersion c)))"

section \<open>OLM v1 state (\<open>olm_state.go\<close>)\<close>

definition requestedClusterExtension :: "cluster_reads \<Rightarrow> string \<Rightarrow> string \<Rightarrow> bool \<times> err option" where
  "requestedClusterExtension cl packageName namespace =
     (case rdInstallsPackage cl packageName namespace of
        (requested, Some e) \<Rightarrow>
          if noMatch cl e \<or> rdAPI cl IsNotFound e then (False, None) else (requested, Some e)
      | (requested, None) \<Rightarrow> (requested, None))"

definition requestedV0Subscription ::
  "cluster_reads \<Rightarrow> string \<Rightarrow> string \<Rightarrow> Subscription option \<times> err option" where
  "requestedV0Subscription cl packageName namespace =
     (case rdSubscriptions cl namespace of
        Inl e \<Rightarrow> if noMatch cl e \<or> rdAPI cl IsNotFound e then (None, None)
                  else (None, Some (wrapf (''list subscriptions in '' @ namespace) e))
      | Inr subs \<Rightarrow> (find (\<lambda>s. case subSpec s of None \<Rightarrow> False | Some sp \<Rightarrow> subPackage sp = packageName) subs, None))"

record install_state =
  stVersion :: string
  stRequested :: bool
  stInstalled :: bool

definition clusterExtensionMatches :: "Extension \<Rightarrow> string \<Rightarrow> string \<Rightarrow> err + bool" where
  "clusterExtensionMatches ext packageName namespace =
     (case extNamespace ext of
        JqError e \<Rightarrow> Inl (wrapf (''read ClusterExtension '' @ extName ext @ '' namespace'') e)
      | _ \<Rightarrow>
        if namespace \<noteq> [] \<and> jq_value (extNamespace ext) \<noteq> namespace then Inr False
        else (case extSourceType ext of
          JqError e \<Rightarrow> Inl (wrapf (''read ClusterExtension '' @ extName ext @ '' source type'') e)
        | _ \<Rightarrow>
          if jq_value (extSourceType ext) \<noteq> ''Catalog'' then Inr False
          else (case extPackage ext of
            JqError e \<Rightarrow> Inl (wrapf (''read ClusterExtension '' @ extName ext @ '' package'') e)
          | _ \<Rightarrow> Inr (jq_value (extPackage ext) = packageName))))"

fun installed_loop :: "string \<Rightarrow> bool \<Rightarrow> extension_condition option list \<Rightarrow> err + bool" where
  "installed_loop name installed [] = Inr installed"
| "installed_loop name installed (None # cs) =
     Inl (NewError (''ClusterExtension '' @ name @ '' has malformed condition''))"
| "installed_loop name installed (Some c # cs) =
     (if ecType c = ''Progressing'' \<and> ecStatus c = ''False'' \<and> ecReason c = ''Blocked'' then
        Inl (NewError (''ClusterExtension '' @ name @ '' progress blocked: '' @ ecMessage c))
      else if ecType c = ''Installed'' then
        (if ecStatus c = ''False'' \<and> ecReason c = ''Failed'' then
           Inl (NewError (''ClusterExtension '' @ name @ '' installation failed ('' @ ecReason c @ ''): '' @ ecMessage c))
         else installed_loop name (ecStatus c = ''True'' \<and> ecReason c = ''Succeeded'') cs)
      else installed_loop name installed cs)"

definition clusterExtensionInstalled :: "Extension \<Rightarrow> err + bool" where
  "clusterExtensionInstalled ext =
     (case extConditions ext of
        JqError e \<Rightarrow> Inl (wrapf (''read ClusterExtension '' @ extName ext @ '' conditions'') e)
      | NotFound \<Rightarrow> Inr False
      | Found cs \<Rightarrow> installed_loop (extName ext) False cs)"

text \<open>The loop over the extensions returns the state so far also with an error.\<close>

fun state_loop :: "string \<Rightarrow> string \<Rightarrow> install_state \<Rightarrow> Extension list \<Rightarrow> install_state \<times> err option" where
  "state_loop packageName namespace st [] = (st, None)"
| "state_loop packageName namespace st (ext # exts) =
     (case clusterExtensionMatches ext packageName namespace of
        Inl e \<Rightarrow> (st, Some e)
      | Inr False \<Rightarrow> state_loop packageName namespace st exts
      | Inr True \<Rightarrow>
          (let st1 = st\<lparr>stRequested := True\<rparr> in
           case clusterExtensionInstalled ext of
             Inl e \<Rightarrow> (st1, Some e)
           | Inr False \<Rightarrow> state_loop packageName namespace st1 exts
           | Inr True \<Rightarrow>
               (case extVersion ext of
                  JqError e \<Rightarrow> (st1, Some (wrapf (''read ClusterExtension '' @ extName ext @ '' version'') e))
                | _ \<Rightarrow> (st1\<lparr>stVersion := jq_value (extVersion ext), stInstalled := True\<rparr>, None))))"

definition findClusterExtensionInstallState ::
  "cluster_reads \<Rightarrow> string \<Rightarrow> string \<Rightarrow> install_state \<times> err option" where
  "findClusterExtensionInstallState cl packageName namespace =
     (let st = \<lparr>stVersion = [], stRequested = False, stInstalled = False\<rparr> in
      case rdExtensions cl of
        Inl e \<Rightarrow> if noMatch cl e \<or> rdAPI cl IsNotFound e then (st, None)
                  else (st, Some (wrapf ''list ClusterExtensions'' e))
      | Inr exts \<Rightarrow> state_loop packageName namespace st exts)"

section \<open>Status of a dependency (\<open>check.go\<close>)\<close>

abbreviation StatusInstalled :: string where "StatusInstalled \<equiv> ''installed''"
abbreviation StatusPending :: string where "StatusPending \<equiv> ''pending''"
abbreviation StatusMissing :: string where "StatusMissing \<equiv> ''missing''"
abbreviation StatusOptional :: string where "StatusOptional \<equiv> ''optional''"
abbreviation StatusUnknown :: string where "StatusUnknown \<equiv> ''unknown''"

record DependencyStatus =
  dsName :: string
  dsDisplayName :: string
  dsStatus :: string
  dsVersion :: string
  dsNamespace :: string
  dsSubscription :: string
  dsRequiredBy :: "string list"
  dsError :: string

definition initial_status :: "DependencyInfo \<Rightarrow> DependencyStatus" where
  "initial_status dep = \<lparr>dsName = diName dep, dsDisplayName = diDisplayName dep, dsStatus = [], dsVersion = [],
     dsNamespace = diNamespace dep, dsSubscription = diSubscription dep, dsRequiredBy = diRequiredBy dep, dsError = []\<rparr>"

definition absent_status :: "DependencyInfo \<Rightarrow> string" where
  "absent_status dep = (if diEnabled dep = ''auto'' \<or> diEnabled dep = ''false'' then StatusOptional else StatusMissing)"

definition v0SubscriptionStatus ::
  "cluster_reads \<Rightarrow> DependencyInfo \<Rightarrow> DependencyStatus \<Rightarrow> Subscription \<Rightarrow> DependencyStatus" where
  "v0SubscriptionStatus cl dep status sub =
     (let st = status\<lparr>dsStatus := StatusInstalled\<rparr> in
      case getVersionFromCSV cl (diNamespace dep) (subInstalledCSV sub) of
        Inl e \<Rightarrow> st\<lparr>dsError := err_string e, dsVersion := []\<rparr>
      | Inr version \<Rightarrow>
          if version = [] then
            (case findMatchingCSVVersion cl (diNamespace dep) (diSubscription dep) of
               Inl e \<Rightarrow> st\<lparr>dsError := (if dsError st = [] then err_string e else dsError st), dsVersion := []\<rparr>
             | Inr v \<Rightarrow> st\<lparr>dsVersion := v\<rparr>)
          else st\<lparr>dsVersion := version\<rparr>)"

definition checkSingleDependencyV0 :: "cluster_reads \<Rightarrow> DependencyInfo \<Rightarrow> DependencyStatus" where
  "checkSingleDependencyV0 cl dep =
     (let status = initial_status dep in
      case getSubscription cl (diNamespace dep) (diSubscription dep) of
        Inl e \<Rightarrow> status\<lparr>dsStatus := StatusUnknown, dsError := err_string e\<rparr>
      | Inr None \<Rightarrow> status\<lparr>dsStatus := absent_status dep\<rparr>
      | Inr (Some sub) \<Rightarrow> v0SubscriptionStatus cl dep status sub)"

text \<open>\<open>errors.Join\<close>: the non-nil errors, their messages joined by newlines.\<close>

definition errors_join :: "err option list \<Rightarrow> err option" where
  "errors_join es = (let xs = List.map_filter id es in
     if xs = [] then None else Some (Wrap (str_join nl (map err_string xs)) xs))"

definition checkSingleDependencyV1 :: "cluster_reads \<Rightarrow> bool \<Rightarrow> DependencyInfo \<Rightarrow> DependencyStatus" where
  "checkSingleDependencyV1 cl hasOLM dep =
     (let status = initial_status dep in
      case findClusterExtensionInstallState cl (diSubscription dep) (diNamespace dep) of (st, extensionErr) \<Rightarrow>
        if stInstalled st then
          status\<lparr>dsStatus := StatusInstalled, dsVersion := trim_prefix (stVersion st) ''v''\<rparr>
        else
          (case (if hasOLM then requestedV0Subscription cl (diSubscription dep) (diNamespace dep) else (None, None)) of
             (Some sub, _) \<Rightarrow> v0SubscriptionStatus cl dep status sub
           | (None, v0Err) \<Rightarrow>
               (case errors_join [extensionErr, v0Err] of
                  Some e \<Rightarrow> status\<lparr>dsStatus := StatusUnknown, dsError := err_string e\<rparr>
                | None \<Rightarrow>
                    if stRequested st then status\<lparr>dsStatus := StatusPending\<rparr>
                    else status\<lparr>dsStatus := absent_status dep\<rparr>)))"

fun dependency_counts :: "DependencyStatus list \<Rightarrow> int \<times> int" where
  "dependency_counts [] = (0, 0)"
| "dependency_counts (d # ds) =
     (case dependency_counts ds of (w, e) \<Rightarrow>
        if dsError d \<noteq> [] then (w, e + 1)
        else if dsStatus d = StatusMissing then (w, e + 1)
        else if dsStatus d = StatusUnknown \<or> dsStatus d = StatusPending then (w + 1, e)
        else (w, e))"

definition computeDependencyStatus :: "DependencyStatus list \<Rightarrow> Status" where
  "computeDependencyStatus ds = (case dependency_counts ds of (w, e) \<Rightarrow> NewStatus w e)"

section \<open>Modes (\<open>pkg/util/kube/olm/mode.go\<close>)\<close>

datatype olm_mode = ModeV0 | ModeV1

abbreviation ErrUnavailable :: err where "ErrUnavailable \<equiv> NewError ''OLM installation API is not available''"

text \<open>
  The discovery client, when there is one: for a group version the resource names it serves
  (if any) and the error.
\<close>

type_synonym discovery = "(string \<Rightarrow> string list option \<times> err option) option"

record discovery_preds =
  dcAPI :: api_preds
  dcNoMatch :: "err \<Rightarrow> bool"

definition resourceAvailable ::
  "discovery_preds \<Rightarrow> (string \<Rightarrow> string list option \<times> err option) \<Rightarrow> string \<Rightarrow> string \<Rightarrow> err + bool" where
  "resourceAvailable dp d groupVersion resource =
     (case d groupVersion of (resources, e) \<Rightarrow>
        if (case resources of None \<Rightarrow> False | Some rs \<Rightarrow> resource \<in> set rs) then Inr True
        else (case e of None \<Rightarrow> Inr False
          | Some x \<Rightarrow> if dcAPI dp IsNotFound x \<or> dcNoMatch dp x then Inr False
                      else Inl (wrapf (''discovering resource '' @ resource @ '' in '' @ groupVersion) x)))"

abbreviation olm_v1 :: "discovery_preds \<Rightarrow> (string \<Rightarrow> string list option \<times> err option) \<Rightarrow> err + bool" where
  "olm_v1 dp d \<equiv> resourceAvailable dp d ''olm.operatorframework.io/v1'' ''clusterextensions''"

abbreviation olm_v0 :: "discovery_preds \<Rightarrow> (string \<Rightarrow> string list option \<times> err option) \<Rightarrow> err + bool" where
  "olm_v0 dp d \<equiv> resourceAvailable dp d ''operators.coreos.com/v1alpha1'' ''subscriptions''"

definition DetectMode :: "discovery_preds \<Rightarrow> discovery \<Rightarrow> err + olm_mode" where
  "DetectMode dp disc =
     (case disc of None \<Rightarrow> Inl ErrUnavailable
      | Some d \<Rightarrow>
          (case olm_v1 dp d of
             Inl e \<Rightarrow> Inl (wrapf ''discovering OLM v1'' e)
           | Inr True \<Rightarrow> Inr ModeV1
           | Inr False \<Rightarrow>
               (case olm_v0 dp d of
                  Inl e \<Rightarrow> Inl (wrapf ''discovering OLM v0'' e)
                | Inr True \<Rightarrow> Inr ModeV0
                | Inr False \<Rightarrow> Inl ErrUnavailable)))"

definition mode_unavailable :: "string \<Rightarrow> err" where
  "mode_unavailable mode = Wrap (''requested OLM '' @ mode @ '' API is not available: ''
     @ err_string ErrUnavailable) [ErrUnavailable]"

definition ResolveInstallMode :: "discovery_preds \<Rightarrow> discovery \<Rightarrow> olm_mode option \<Rightarrow> err + olm_mode" where
  "ResolveInstallMode dp disc requested =
     (case disc of None \<Rightarrow> Inl ErrUnavailable
      | Some d \<Rightarrow>
          if requested = Some ModeV1 then
            bind_res (olm_v1 dp d) (\<lambda>available.
              if available then Inr ModeV1 else Inl (mode_unavailable ''v1''))
          else
            bind_res (olm_v0 dp d) (\<lambda>available.
              if available then Inr ModeV0
              else if requested = Some ModeV0 then Inl (mode_unavailable ''v0'')
              else bind_res (olm_v1 dp d) (\<lambda>available1.
                if available1 then Inr ModeV1 else Inl ErrUnavailable)))"

section \<open>\<open>CheckDependencies\<close>\<close>

text \<open>
  The arguments after the discovery say which readers the client has. The checks run
  concurrently; each sees the cluster at its own moment, \<open>cl i\<close> for the \<open>i\<close>th dependency.
\<close>

abbreviation ErrOLMNotAvailable :: err where
  "ErrOLMNotAvailable \<equiv> NewError ''OLM (Operator Lifecycle Manager) is not available in this cluster; cannot check operator dependencies''"

definition check_results :: "olm_mode \<Rightarrow> bool \<Rightarrow> (nat \<Rightarrow> cluster_reads) \<Rightarrow> DependencyInfo list \<Rightarrow> DependencyStatus list" where
  "check_results mode hasOLM cl deps = map (\<lambda>(i, dep). case mode of
       ModeV1 \<Rightarrow> checkSingleDependencyV1 (cl i) hasOLM dep
     | ModeV0 \<Rightarrow> checkSingleDependencyV0 (cl i) dep) (List.enumerate 0 deps)"

definition CheckDependencies ::
  "discovery_preds \<Rightarrow> discovery \<Rightarrow> bool \<Rightarrow> bool \<Rightarrow> bool \<Rightarrow> (nat \<Rightarrow> cluster_reads) \<Rightarrow> Manifest
     \<Rightarrow> err + DependencyStatus list" where
  "CheckDependencies dp disc hasCR hasOLM olmAvailable cl manifest =
     (case DetectMode dp disc of
        Inl e \<Rightarrow> if errors_is (\<lambda>x. x = ErrUnavailable) e then Inl ErrOLMNotAvailable
                  else Inl (wrapf ''detect OLM API'' e)
      | Inr mode \<Rightarrow>
          if mode = ModeV1 \<and> \<not> hasCR then Inl ErrOLMNotAvailable
          else if mode = ModeV0 \<and> (\<not> hasOLM \<or> \<not> olmAvailable) then Inl ErrOLMNotAvailable
          else Inr (sort_slice (\<lambda>a b. dsName a < dsName b)
                 (check_results mode hasOLM cl (GetDependencies manifest))))"

section \<open>Lemmas\<close>

lemma to_lower_append [simp]: "to_lower (a @ b) = to_lower a @ to_lower b"
  by (simp add: to_lower_def)

lemma lower_char_dot: "lower_char c = CHR ''.'' \<longleftrightarrow> c = CHR ''.''"
proof (cases "CHR ''A'' \<le> c \<and> c \<le> CHR ''Z''")
  case True
  then have c: "(65::nat) \<le> of_char c" "of_char c \<le> (90::nat)" by (simp_all add: less_eq_char_def)
  have "lower_char c \<noteq> CHR ''.''"
  proof
    assume "lower_char c = CHR ''.''"
    then have "of_char (char_of (of_char c + 32 :: nat)) = (of_char CHR ''.'' :: nat)"
      using True by (simp add: lower_char_def)
    with c show False by simp
  qed
  moreover have "c \<noteq> CHR ''.''" using c by auto
  ultimately show ?thesis by simp
qed (auto simp: lower_char_def)

lemma dot_to_lower [simp]: "CHR ''.'' \<in> set (to_lower s) \<longleftrightarrow> CHR ''.'' \<in> set s"
proof (induction s)
  case (Cons c s)
  then show ?case using lower_char_dot [of c] by (simp add: to_lower_def eq_commute)
qed (simp add: to_lower_def)

lemma dot_trim_prefix: "CHR ''.'' \<notin> set s \<Longrightarrow> CHR ''.'' \<notin> set (trim_prefix s p)"
  by (auto simp: trim_prefix_def dest: in_set_dropD)

text \<open>Up to the first dot a prefix is the whole text.\<close>

lemma prefix_to_dot:
  assumes "CHR ''.'' \<notin> set p" and "CHR ''.'' \<notin> set s"
  shows "has_prefix (p @ ''.v'' @ v) (s @ ''.v'') \<longleftrightarrow> p = s"
proof
  assume "has_prefix (p @ ''.v'' @ v) (s @ ''.v'')"
  then obtain t where "p @ ''.v'' @ v = s @ ''.v'' @ t" by (auto simp: has_prefix_iff)
  then have "takeWhile (\<lambda>c. c \<noteq> CHR ''.'') (p @ CHR ''.'' # ''v'' @ v) = takeWhile (\<lambda>c. c \<noteq> CHR ''.'') (s @ CHR ''.'' # ''v'' @ t)"
    by simp
  moreover have "takeWhile (\<lambda>c. c \<noteq> CHR ''.'') q = q" if "CHR ''.'' \<notin> set q" for q
    using that by (auto simp: takeWhile_eq_all_conv)
  ultimately show "p = s" using assms by (simp add: takeWhile_tail)
next
  assume "p = s"
  then show "has_prefix (p @ ''.v'' @ v) (s @ ''.v'')" by (auto simp: has_prefix_iff)
qed

lemma str_index_dot: "CHR ''.'' \<notin> set p \<Longrightarrow> str_index (p @ ''.v'' @ v) ''.v'' = Some (length p)"
proof (induction p)
  case (Cons c p)
  then have "\<not> has_prefix (c # p @ ''.v'' @ v) ''.v''" by (auto simp: has_prefix_iff)
  with Cons show ?case by simp
qed (simp add: has_prefix_def)

lemma lower_v [simp]: "to_lower ''.v'' = ''.v''"
  by code_simp

lemma initial_name [simp]: "dsName (initial_status dep) = diName dep"
  by (simp add: initial_status_def)

lemma v0SubscriptionStatus_fields:
  "dsName (v0SubscriptionStatus cl dep st sub) = dsName st"
  "dsStatus (v0SubscriptionStatus cl dep st sub) = StatusInstalled"
  by (simp_all add: v0SubscriptionStatus_def Let_def split: sum.splits)

lemma single_name:
  "dsName (checkSingleDependencyV0 cl dep) = diName dep"
  "dsName (checkSingleDependencyV1 cl hasOLM dep) = diName dep"
  by (simp_all add: checkSingleDependencyV0_def checkSingleDependencyV1_def Let_def v0SubscriptionStatus_fields
      split: sum.splits option.splits prod.splits)

lemma check_results_names: "map dsName (check_results mode hasOLM cl deps) = map diName deps"
  by (rule nth_equalityI)
     (auto simp: check_results_def nth_enumerate_eq single_name split: olm_mode.splits)

lemma dependency_counts_pos:
  "fst (dependency_counts ds) \<ge> 0 \<and> snd (dependency_counts ds) \<ge> 0"
  by (induction ds) (auto split: prod.splits)

lemma dependency_errors_pos:
  "snd (dependency_counts ds) > 0 \<longleftrightarrow> (\<exists>d\<in>set ds. dsError d \<noteq> [] \<or> dsStatus d = StatusMissing)"
proof (induction ds)
  case (Cons d ds)
  then show ?case using dependency_counts_pos [of ds] by (cases "dependency_counts ds") auto
qed simp

lemma matches_error_text: "clusterExtensionMatches ext p ns = Inl e \<Longrightarrow> err_string e \<noteq> []"
  by (auto simp: clusterExtensionMatches_def wrapf_def split: jq_result.splits if_splits)

lemma installed_loop_error_text: "installed_loop n b cs = Inl e \<Longrightarrow> err_string e \<noteq> []"
  by (induction n b cs rule: installed_loop.induct) (auto split: if_splits)

lemma state_loop_error_text: "state_loop p ns st exts = (st', Some e) \<Longrightarrow> err_string e \<noteq> []"
proof (induction exts arbitrary: st)
  case (Cons ext exts)
  then show ?case
    by (auto simp: Let_def wrapf_def clusterExtensionInstalled_def
        dest: matches_error_text installed_loop_error_text
        split: sum.splits bool.splits jq_result.splits)
qed simp

lemma str_join_nonempty: "x \<noteq> [] \<Longrightarrow> str_join sep (x # xs) \<noteq> []"
  by (cases xs) auto

lemma errors_join_text:
  assumes "errors_join [a, b] = Some e" and "\<And>x. a = Some x \<or> b = Some x \<Longrightarrow> err_string x \<noteq> []"
  shows "err_string e \<noteq> []"
  using assms by (cases a; cases b) (auto simp: errors_join_def List.map_filter_def Let_def)

text \<open>The status is one of the five, and unknown only with the text of an error.\<close>

definition status_ok :: "DependencyInfo \<Rightarrow> DependencyStatus \<Rightarrow> bool" where
  "status_ok dep d \<longleftrightarrow> dsStatus d \<in> {StatusInstalled, StatusPending, StatusMissing, StatusOptional, StatusUnknown}
     \<and> (dsStatus d = StatusUnknown \<longrightarrow> dsError d \<noteq> [])
     \<and> (dsStatus d = StatusMissing \<longrightarrow> dsError d = [] \<and> diEnabled dep \<noteq> ''auto'' \<and> diEnabled dep \<noteq> ''false'')"

lemma status_ok_v0: "status_ok dep (v0SubscriptionStatus cl dep st sub)"
  by (simp add: status_ok_def v0SubscriptionStatus_fields)

lemma status_ok_absent: "status_ok dep ((initial_status dep)\<lparr>dsStatus := absent_status dep\<rparr>)"
  by (simp add: status_ok_def absent_status_def initial_status_def)

lemma status_ok_unknown: "err_string e \<noteq> [] \<Longrightarrow> status_ok dep (st\<lparr>dsStatus := StatusUnknown, dsError := err_string e\<rparr>)"
  by (simp add: status_ok_def)

lemma checkSingleV0_ok: "status_ok dep (checkSingleDependencyV0 cl dep)"
proof -
  have "err_string e \<noteq> []" if "getSubscription cl ns n = Inl e" for ns n e
    using that by (auto simp: getSubscription_def wrapf_def split: if_splits sum.splits)
  then show ?thesis
    by (auto simp: checkSingleDependencyV0_def Let_def split: sum.splits option.splits
        intro!: status_ok_v0 status_ok_absent status_ok_unknown)
qed

lemma checkSingleV1_ok: "status_ok dep (checkSingleDependencyV1 cl hasOLM dep)"
proof -
  obtain st xe where f: "findClusterExtensionInstallState cl (diSubscription dep) (diNamespace dep) = (st, xe)" by fastforce
  obtain sub ve where v: "(if hasOLM then requestedV0Subscription cl (diSubscription dep) (diNamespace dep) else (None, None)) = (sub, ve)" by fastforce
  have "err_string e \<noteq> []" if "xe = Some e" for e
    using f that by (auto simp: findClusterExtensionInstallState_def Let_def wrapf_def
        dest: state_loop_error_text split: sum.splits if_splits)
  moreover have "err_string e \<noteq> []" if "ve = Some e" for e
    using v that by (auto simp: requestedV0Subscription_def wrapf_def split: sum.splits if_splits)
  ultimately have t: "err_string e \<noteq> []" if "errors_join [xe, ve] = Some e" for e
    using errors_join_text [OF that] by blast
  have "status_ok dep ((initial_status dep)\<lparr>dsStatus := StatusInstalled, dsVersion := x\<rparr>)"
    "status_ok dep ((initial_status dep)\<lparr>dsStatus := StatusPending\<rparr>)" for x
    by (simp_all add: status_ok_def)
  with f v t show ?thesis
    by (auto simp: checkSingleDependencyV1_def Let_def split: option.splits
        intro!: status_ok_v0 status_ok_absent status_ok_unknown)
qed

section \<open>Properties\<close>

text \<open>
  How a cluster service version is matched with a subscription, for names without dots: exactly when,
  ignoring case, its package is the name of the subscription, that name without the prefix
  \<open>openshift-\<close>, such a name with \<open>-operator\<close> appended, a name ending in \<open>-product\<close> with that ending replaced by
  \<open>-operator\<close>, or equal up to hyphens.
\<close>

theorem MatchesSubscription_spec:
  assumes "CHR ''.'' \<notin> set pkg" and "CHR ''.'' \<notin> set sub"
  shows "MatchesSubscription (pkg @ ''.v'' @ version) sub \<longleftrightarrow>
    (let p = to_lower pkg; s = to_lower sub; t = trim_prefix s ''openshift-'' in
     p = s \<or> (t \<noteq> s \<and> p = t)
     \<or> (\<not> has_suffix t ''operator'' \<and> p = t @ ''-operator'')
     \<or> (\<exists>b. t = b @ ''-product'' \<and> p = b @ ''-operator'')
     \<or> (p \<noteq> [] \<and> remove_char CHR ''-'' p = remove_char CHR ''-'' t))"
proof -
  let ?p = "to_lower pkg" and ?s = "to_lower sub" and ?v = "to_lower version"
  let ?t = "trim_prefix ?s ''openshift-''"
  have low: "to_lower (pkg @ ''.v'' @ version) = ?p @ ''.v'' @ ?v" using lower_v by (simp only: to_lower_append)
  have nd: "CHR ''.'' \<notin> set ?p" "CHR ''.'' \<notin> set ?s" "CHR ''.'' \<notin> set ?t"
    using assms dot_trim_prefix [of ?s] by simp_all
  have pre: "has_prefix (?p @ ''.v'' @ ?v) (q @ ''.v'') \<longleftrightarrow> ?p = q" if "CHR ''.'' \<notin> set q" for q
    by (rule prefix_to_dot [OF nd(1) that])
  have op: "has_prefix (?p @ ''.v'' @ ?v) (q @ ''-operator.v'') \<longleftrightarrow> ?p = q @ ''-operator''" if "CHR ''.'' \<notin> set q" for q
    using pre [of "q @ ''-operator''"] that by simp
  have suf: "has_suffix ?t ''-operator'' \<Longrightarrow> has_suffix ?t ''operator''"
    by (auto simp: has_suffix_iff)
  have cut: "(case cut_suffix ?t ''-product'' of (b, found) \<Rightarrow> found \<and> has_prefix (?p @ ''.v'' @ ?v) (b @ ''-operator.v''))
      \<longleftrightarrow> (\<exists>b. ?t = b @ ''-product'' \<and> ?p = b @ ''-operator'')"
  proof (cases "has_suffix ?t ''-product''")
    case True
    then obtain b where b: "?t = b @ ''-product''" by (auto simp: has_suffix_iff)
    have "CHR ''.'' \<notin> set b" using nd(3) b by auto
    from op [OF this] b show ?thesis by (simp add: cut_suffix_append [of b "''-product''"] del: cut_suffix_append)
  next
    case False
    then show ?thesis by (auto simp: cut_suffix_def has_suffix_iff)
  qed
  have idx: "str_index (?p @ ''.v'' @ ?v) ''.v'' = Some (length ?p)" by (rule str_index_dot [OF nd(1)])
  show ?thesis
    unfolding MatchesSubscription_def Let_def low pre [OF nd(2)] pre [OF nd(3)] op [OF nd(3)] cut idx
    using suf by (auto simp del: length_to_lower)
qed

theorem MatchesSubscription_spec_witness:
  "MatchesSubscription (''opentelemetry-operator'' @ ''.v'' @ ''0.144.0-2'') ''opentelemetry-product''"
  using MatchesSubscription_spec [of "''opentelemetry-operator''" "''opentelemetry-product''" "''0.144.0-2''"]
  by (simp add: Let_def to_lower_def lower_char_def trim_prefix_def has_prefix_def)

text \<open>
  C12. The report of \<open>deps\<close>: one status per dependency of the manifest, strictly ordered by name, each of the
  five statuses; a dependency is missing only if it is neither optional nor disabled, unknown
  only with the text of an error; and the envelope reports failure exactly when
  something is missing or could not be checked.
\<close>

theorem CheckDependencies_report:
  assumes "CheckDependencies dp disc hasCR hasOLM olmAvailable cl m = Inr ds" and "wf_gomap (Dependencies m)"
  shows "map dsName ds = map diName (GetDependencies m)
    \<and> sorted_wrt (\<lambda>a b. dsName a < dsName b) ds
    \<and> (\<forall>d\<in>set ds. \<exists>dep\<in>set (GetDependencies m). dsName d = diName dep \<and> status_ok dep d)
    \<and> (StResult (computeDependencyStatus ds) = ''failure'' \<longleftrightarrow>
        (\<exists>d\<in>set ds. dsError d \<noteq> [] \<or> dsStatus d = StatusMissing))"
proof -
  obtain mode where ds: "ds = sort_slice (\<lambda>a b. dsName a < dsName b) (check_results mode hasOLM cl (GetDependencies m))"
    using assms(1) by (auto simp: CheckDependencies_def split: sum.splits if_splits)
  let ?rs = "check_results mode hasOLM cl (GetDependencies m)"
  have names: "map dsName ?rs = map diName (GetDependencies m)" by (rule check_results_names)
  have sd: "sorted_wrt (<) (map diName (GetDependencies m))"
    using slice.srt_strict [of diName "map (dependency_info m) (Dependencies m)"] assms(2)
    by (simp add: GetDependencies_def sorted_wrt_map dependency_info_def case_prod_beta comp_def)
  have strict: "sorted_wrt (\<lambda>a b. dsName a < dsName b) ds"
    unfolding ds using sd names by (intro slice.srt_strict) (simp add: strict_sorted_iff)
  have "mset (map dsName ds) = mset (map diName (GetDependencies m))"
    using names by (metis ds mset_map mset_sort_slice)
  moreover have "sorted_wrt (<) (map dsName ds)" using strict by (simp add: sorted_wrt_map)
  ultimately have "map dsName ds = map diName (GetDependencies m)"
    using sd by (metis mset_eq_setD strict_sorted_equal)
  moreover have "\<exists>dep\<in>set (GetDependencies m). dsName d = diName dep \<and> status_ok dep d" if "d \<in> set ds" for d
  proof -
    from that have "d \<in> set ?rs" by (simp add: ds)
    then obtain i where i: "i < length (GetDependencies m)" "d = (case mode of
        ModeV1 \<Rightarrow> checkSingleDependencyV1 (cl i) hasOLM (GetDependencies m ! i)
      | ModeV0 \<Rightarrow> checkSingleDependencyV0 (cl i) (GetDependencies m ! i))"
      by (auto simp: check_results_def in_set_enumerate_eq)
    from nth_mem [OF i(1)] i(2) show ?thesis by (cases mode) (auto simp: single_name checkSingleV0_ok checkSingleV1_ok)
  qed
  moreover have "StResult (computeDependencyStatus ds) = ''failure'' \<longleftrightarrow>
      (\<exists>d\<in>set ds. dsError d \<noteq> [] \<or> dsStatus d = StatusMissing)"
    unfolding dependency_errors_pos [symmetric] using dependency_counts_pos [of ds]
    by (cases "dependency_counts ds") (simp add: computeDependencyStatus_def NewStatus_def Let_def)
  ultimately show ?thesis using strict by blast
qed

definition sample_cluster :: cluster_reads where
  "sample_cluster = \<lparr>rdAPI = status_api, noMatch = (\<lambda>_. False),
     rdSubscription = (\<lambda>ns n. if n = ''a'' then Inr \<lparr>subName = n, subSpec = None, subInstalledCSV = [], subConditions = []\<rparr>
        else Inl (Foreign ''NotFound'' ''not found'')),
     rdSubscriptions = (\<lambda>_. Inr []), rdCSV = (\<lambda>_ _. Inl (NewError ''x'')), rdCSVs = (\<lambda>_. Inr []),
     rdExtensions = Inr [], rdInstallsPackage = (\<lambda>_ _. (False, None)), rdServiceAccount = (\<lambda>_ _. None)\<rparr>"

theorem CheckDependencies_report_witness:
  "\<exists>ds. CheckDependencies \<lparr>dcAPI = status_api, dcNoMatch = (\<lambda>_. False)\<rparr>
      (Some (\<lambda>gv. (if gv = ''operators.coreos.com/v1alpha1'' then Some [''subscriptions''] else None, None)))
      False True True (\<lambda>_. sample_cluster) sample_manifest = Inr ds
    \<and> map dsName ds = [''a'', ''b'', ''c'']"
proof -
  let ?r = "CheckDependencies \<lparr>dcAPI = status_api, dcNoMatch = (\<lambda>_. False)\<rparr>
      (Some (\<lambda>gv. (if gv = ''operators.coreos.com/v1alpha1'' then Some [''subscriptions''] else None, None)))
      False True True (\<lambda>_. sample_cluster) sample_manifest"
  obtain ds where ds: "?r = Inr ds"
    by (simp add: CheckDependencies_def DetectMode_def resourceAvailable_def)
  have "wf_gomap (Dependencies sample_manifest)" by (simp add: sample_manifest_def)
  from CheckDependencies_report [OF ds this]
  have "map dsName ds = map diName (GetDependencies sample_manifest)" by blast
  moreover have "map diName (GetDependencies sample_manifest) = [''a'', ''b'', ''c'']" by code_simp
  ultimately show ?thesis using ds by simp
qed

end
