(* ===== verification/Stdin.thy ===== *)
theory Stdin
  imports Versions
begin

text \<open>
  Reading configuration from stdin: \<open>pkg/util/stdin/stdin.go\<close>, with a reader limited to a number of bytes
  and the strict YAML decoder as an argument.
\<close>

text \<open>\<open>strings.TrimSpace\<close> on ASCII text.\<close>

definition is_space :: "char \<Rightarrow> bool" where
  "is_space c \<longleftrightarrow> c \<in> {CHR '' '', CHR 0x09, CHR 0x0A, CHR 0x0B, CHR 0x0C, CHR 0x0D}"

definition trim_space :: "string \<Rightarrow> string" where
  "trim_space s = rev (dropWhile is_space (rev (dropWhile is_space s)))"

text \<open>A limited reader: \<open>Inl\<close> is an error before the limit, otherwise the text up to the limit.\<close>

definition read_limited :: "nat \<Rightarrow> err + string \<Rightarrow> err + string" where
  "read_limited n r = map_sum id (take n) r"

text \<open>A reader: a file whose mode is a character device or cannot be read, a wrapper that knows, or another.\<close>

datatype stdin_reader = FileReader "err + bool" | PipeReader bool | OtherReader

definition IsPiped :: "err + bool \<Rightarrow> bool" where
  "IsPiped stat = (case stat of Inl _ \<Rightarrow> False | Inr charDevice \<Rightarrow> \<not> charDevice)"

definition CheckPiped :: "stdin_reader \<Rightarrow> err option" where
  "CheckPiped r = (let e = NewError ''stdin is a terminal; pipe input or omit --from-stdin'' in
     case r of FileReader stat \<Rightarrow> if \<not> IsPiped stat then Some e else None
     | PipeReader piped \<Rightarrow> if \<not> piped then Some e else None
     | OtherReader \<Rightarrow> None)"

abbreviation maxInputBytes :: nat where "maxInputBytes \<equiv> 1048576"

definition StdinParse :: "(string \<Rightarrow> err + 'a) \<Rightarrow> err + string \<Rightarrow> err + 'a" where
  "StdinParse unmarshalStrict input =
     (case read_limited (maxInputBytes + 1) input of
        Inl e \<Rightarrow> Inl (wrapf ''reading input'' e)
      | Inr data \<Rightarrow>
          if length data > maxInputBytes then Inl (NewError (''input too large: max '' @ itoa maxInputBytes @ '' bytes''))
          else if length (trim_space data) = 0 then Inl (NewError ''empty input: expected JSON or YAML'')
          else case unmarshalStrict data of
              Inl e \<Rightarrow> Inl (wrapf ''parsing input'' e)
            | Inr v \<Rightarrow> Inr v)"

end
