(* ===== verification/DepsInstall.thy ===== *)
theory DepsInstall
  imports DepsOlm Stdin
begin

text \<open>
  Installing dependencies: \<open>pkg/deps/install.go\<close>. The cluster answers reads and create requests
  depending on the create requests it has received so far, so a run threads the history of
  requests; which answers it gives is a parameter. Progress texts are left out. A nil dereference
  is \<open>Inl\<close>; a wait that never returns is \<open>None\<close>.
\<close>

section \<open>Command and requests\<close>

text \<open>
  \<open>TargetDeps\<close> distinguishes nil (all dependencies) from an empty list; \<open>icClient\<close> says whether
  \<open>Complete\<close> has created the client, \<open>selectedOLMMode\<close> is \<open>None\<close> until \<open>Validate\<close> resolves it.
\<close>

record InstallCommand =
  icDryRun :: bool
  IncludeOptional :: bool
  TargetDep :: string
  TargetDeps :: "string list option"
  icVersion :: string
  icRefresh :: bool
  icServiceAccount :: string
  OLMMode :: string
  icTimeout :: int
  icFromStdin :: bool
  icClient :: bool
  selectedOLMMode :: "olm_mode option"
  icManifestVersion :: string

abbreviation defaultCatalogSource :: string where "defaultCatalogSource \<equiv> ''redhat-operators''"
abbreviation defaultServiceAccount :: string where "defaultServiceAccount \<equiv> ''odh-cli-dependency-installer''"
abbreviation sourceNamespace :: string where "sourceNamespace \<equiv> ''openshift-marketplace''"

text \<open>The create requests; every object carries the label of the tool.\<close>

record extension_request =
  xrName :: string
  xrNamespace :: string
  xrServiceAccount :: string
  xrPackage :: string
  xrCatalog :: string
  xrChannels :: "string list"
  xrWatchNamespace :: "string option"

datatype request =
    CreateNamespace string
  | CreateOperatorGroup string string "string list"
  | CreateSubscription string string SubscriptionSpec string
  | CreateClusterExtension extension_request

record install_api =
  iaReads :: "request list \<Rightarrow> cluster_reads"
  iaWrite :: "request list \<Rightarrow> request \<Rightarrow> err option"
  iaConvert :: "request \<Rightarrow> err option"
  iaOperatorGroups :: "request list \<Rightarrow> string \<Rightarrow> err + (string \<times> string list) list"
  iaExtension :: "request list \<Rightarrow> string \<Rightarrow> err + Extension"
  iaAPI :: api_preds

section \<open>Options from stdin\<close>

record InstallInput =
  inDeps :: "string list option"
  inVersion :: string
  inDryRun :: bool
  inIncludeOptional :: bool
  inRefresh :: bool
  inServiceAccount :: string
  inOLMMode :: string

fun trim_names :: "nat \<Rightarrow> string list \<Rightarrow> err + string list" where
  "trim_names i [] = Inr []"
| "trim_names i (n # ns) =
     (if trim_space n = [] then Inl (NewError (''empty dep name at index '' @ itoa i))
      else bind_res (trim_names (Suc i) ns) (\<lambda>r. Inr (trim_space n # r)))"

definition applyStdinOptions :: "(string \<Rightarrow> bool) \<Rightarrow> InstallInput \<Rightarrow> InstallCommand \<Rightarrow> InstallCommand" where
  "applyStdinOptions changed input c = c
     \<lparr>icVersion := (if inVersion input \<noteq> [] \<and> \<not> changed ''version'' then inVersion input else icVersion c),
      icDryRun := (if inDryRun input \<and> \<not> changed ''dry-run'' then True else icDryRun c),
      IncludeOptional := (if inIncludeOptional input \<and> \<not> changed ''include-optional'' then True else IncludeOptional c),
      icRefresh := (if inRefresh input \<and> \<not> changed ''refresh'' then True else icRefresh c),
      icServiceAccount := (if inServiceAccount input \<noteq> [] \<and> \<not> changed ''service-account''
        then inServiceAccount input else icServiceAccount c),
      OLMMode := (if inOLMMode input \<noteq> [] \<and> \<not> changed ''olm-mode'' then inOLMMode input else OLMMode c)\<rparr>"

definition installApplyStdin :: "(string \<Rightarrow> bool) \<Rightarrow> InstallInput \<Rightarrow> InstallCommand \<Rightarrow> err + InstallCommand" where
  "installApplyStdin changed input c =
     (case inDeps input of
        None \<Rightarrow> Inr (applyStdinOptions changed input c)
      | Some names \<Rightarrow>
          bind_res (trim_names 0 names) (\<lambda>deps.
            if TargetDep c \<noteq> [] \<or> (\<exists>t ts. TargetDeps c = Some (t # ts)) then
              Inl (NewError ''cannot specify both a positional dependency argument and deps in stdin'')
            else Inr (applyStdinOptions changed input (c\<lparr>TargetDeps := Some deps\<rparr>))))"

definition requestedOLMMode :: "InstallCommand \<Rightarrow> err + olm_mode option" where
  "requestedOLMMode c =
     (if OLMMode c = [] \<or> OLMMode c = ''auto'' then Inr None
      else if OLMMode c = ''v0'' then Inr (Some ModeV0)
      else if OLMMode c = ''v1'' then Inr (Some ModeV1)
      else Inl (NewError (''invalid --olm-mode '' @ go_quote (OLMMode c) @ '': must be auto, v0, or v1'')))"

section \<open>Choosing what to install\<close>

definition shouldInstallDep :: "InstallCommand \<Rightarrow> DependencyInfo \<Rightarrow> bool" where
  "shouldInstallDep c dep =
     (case TargetDeps c of
        Some ts \<Rightarrow> diName dep \<in> set ts
      | None \<Rightarrow>
          if diEnabled dep = ''true'' then True
          else if diEnabled dep = ''auto'' \<and> IncludeOptional c then True
          else False)"

definition filterDepsForDryRun :: "InstallCommand \<Rightarrow> DependencyInfo list \<Rightarrow> DependencyInfo list" where
  "filterDepsForDryRun c deps = filter (shouldInstallDep c) deps"

definition hasSucceededCSV :: "cluster_reads \<Rightarrow> string \<Rightarrow> string \<Rightarrow> err + bool" where
  "hasSucceededCSV cl namespace sub =
     (case rdCSVs cl namespace of
        Inl e \<Rightarrow> if noMatch cl e then Inr False else Inl (wrapf (''list CSVs in '' @ namespace) e)
      | Inr csvs \<Rightarrow> Inr (first_succeeded sub csvs \<noteq> None))"

definition source_or_default :: "DependencyInfo \<Rightarrow> string" where
  "source_or_default dep = (if diSource dep = [] then defaultCatalogSource else diSource dep)"

text \<open>The comparison of two functions of the source; it dereferences the specification.\<close>

definition subscription_mismatches :: "Subscription \<Rightarrow> DependencyInfo \<Rightarrow> string \<Rightarrow> string + string list" where
  "subscription_mismatches sub dep expectedSource =
     (case subSpec sub of None \<Rightarrow> Inl nil_dereference
      | Some sp \<Rightarrow> Inr (
          (if subChannel sp \<noteq> diChannel dep then [''channel: '' @ subChannel sp @ '' (expected '' @ diChannel dep @ '')''] else [])
          @ (if subSource sp \<noteq> expectedSource then [''source: '' @ subSource sp @ '' (expected '' @ expectedSource @ '')''] else [])))"

definition isAlreadyInstalled ::
  "InstallCommand \<Rightarrow> bool \<Rightarrow> cluster_reads \<Rightarrow> DependencyInfo \<Rightarrow> string + (err + bool)" where
  "isAlreadyInstalled c hasCR cl dep =
     (if selectedOLMMode c = Some ModeV1 then
        (case requestedClusterExtension cl (diSubscription dep) (diNamespace dep) of (requested, extensionErr) \<Rightarrow>
           if requested then Inr (Inr True)
           else (case requestedV0Subscription cl (diSubscription dep) (diNamespace dep) of
               (Some sub, v0Err) \<Rightarrow> Inr (Inr True)
             | (None, v0Err) \<Rightarrow>
                 (case errors_join [extensionErr, v0Err] of
                    Some e \<Rightarrow> Inr (Inl (wrapf (''check if '' @ diName dep @ '' is requested'') e))
                  | None \<Rightarrow> Inr (Inr False))))
      else
        (case getSubscription cl (diNamespace dep) (diSubscription dep) of
           Inl e \<Rightarrow> Inr (Inl (wrapf (''check if '' @ diName dep @ '' is installed'') e))
         | Inr (Some sub) \<Rightarrow>
             bind_res (subscription_mismatches sub dep (source_or_default dep)) (\<lambda>_. Inr (Inr True))
         | Inr None \<Rightarrow>
             (case hasSucceededCSV cl (diNamespace dep) (diSubscription dep) of
                Inl e \<Rightarrow> Inr (Inl e)
              | Inr True \<Rightarrow> Inr (Inr True)
              | Inr False \<Rightarrow>
                  if \<not> hasCR then Inr (Inr False)
                  else (case requestedClusterExtension cl (diSubscription dep) (diNamespace dep) of
                      (True, _) \<Rightarrow> Inr (Inr True)
                    | (False, None) \<Rightarrow> Inr (Inr False)
                    | (False, Some e) \<Rightarrow>
                        if rdAPI cl IsForbidden e then Inr (Inr False)
                        else Inr (Inl (wrapf (''check if '' @ diName dep @ '' has an OLM v1 request'') e))))))"

text \<open>
  The checks run concurrently, each on the cluster of its own moment \<open>cl j\<close>; \<open>pick\<close> is the error the
  group saw first.
\<close>

fun installed_flags ::
  "InstallCommand \<Rightarrow> bool \<Rightarrow> (nat \<Rightarrow> cluster_reads) \<Rightarrow> nat \<Rightarrow> DependencyInfo list \<Rightarrow> string + (err + bool) list" where
  "installed_flags c hasCR cl j [] = Inr []"
| "installed_flags c hasCR cl j (d # ds) =
     bind_res (isAlreadyInstalled c hasCR (cl j) d) (\<lambda>r.
     bind_res (installed_flags c hasCR cl (Suc j) ds) (\<lambda>rs. Inr (r # rs)))"

definition flag_errors :: "(err + bool) list \<Rightarrow> err list" where
  "flag_errors rs = List.map_filter (\<lambda>r. case r of Inl e \<Rightarrow> Some e | Inr _ \<Rightarrow> None) rs"

definition filterDepsToInstall ::
  "InstallCommand \<Rightarrow> bool \<Rightarrow> (nat \<Rightarrow> cluster_reads) \<Rightarrow> (err list \<Rightarrow> err) \<Rightarrow> DependencyInfo list
     \<Rightarrow> string + (err + DependencyInfo list)" where
  "filterDepsToInstall c hasCR cl pick deps =
     (let wanted = filter (shouldInstallDep c) deps in
      bind_res (installed_flags c hasCR cl 0 wanted) (\<lambda>rs.
        if flag_errors rs \<noteq> [] then Inr (Inl (wrapf ''check installed operator requests'' (pick (flag_errors rs))))
        else Inr (Inr (map fst (filter (\<lambda>(d, r). r \<noteq> Inr True) (zip wanted rs))))))"

section \<open>Creating resources\<close>

text \<open>A create request: converted, sent and recorded.\<close>

definition send :: "install_api \<Rightarrow> request list \<Rightarrow> request \<Rightarrow> request list \<times> err option" where
  "send api h w = (h @ [w], iaWrite api h w)"

definition createNamespace :: "install_api \<Rightarrow> request list \<Rightarrow> string \<Rightarrow> request list \<times> err option" where
  "createNamespace api h name =
     (case iaConvert api (CreateNamespace name) of
        Some e \<Rightarrow> (h, Some (wrapf (''create namespace '' @ name) (wrapf ''convert to unstructured'' e)))
      | None \<Rightarrow>
          (case send api h (CreateNamespace name) of
             (h', None) \<Rightarrow> (h', None)
           | (h', Some e) \<Rightarrow>
               if iaAPI api IsAlreadyExists e then (h', None)
               else (h', Some (wrapf (''create namespace '' @ name) e))))"

text \<open>\<open>slicesEqualUnordered\<close> with its map of counts.\<close>

definition count_up :: "string list \<Rightarrow> string \<Rightarrow> int" where
  "count_up a = fold (\<lambda>v counts. counts(v := counts v + 1)) a (\<lambda>_. 0)"

fun count_down :: "(string \<Rightarrow> int) \<Rightarrow> string list \<Rightarrow> bool" where
  "count_down counts [] = True"
| "count_down counts (v # vs) =
     (let counts' = counts(v := counts v - 1) in if counts' v < 0 then False else count_down counts' vs)"

definition slicesEqualUnordered :: "string list \<Rightarrow> string list \<Rightarrow> bool" where
  "slicesEqualUnordered a b = (if length a \<noteq> length b then False else count_down (count_up a) b)"

definition go_list :: "string list \<Rightarrow> string" where
  "go_list xs = ''['' @ str_join '' '' xs @ '']''"

definition ensureOperatorGroup ::
  "install_api \<Rightarrow> request list \<Rightarrow> string \<Rightarrow> string list \<Rightarrow> request list \<times> (err + bool)" where
  "ensureOperatorGroup api h namespace targets =
     (case iaOperatorGroups api h namespace of
        Inl e \<Rightarrow> (h, Inl (wrapf ''list operatorgroups'' e))
      | Inr ((name, existing) # _) \<Rightarrow>
          if \<not> slicesEqualUnordered existing targets then
            (h, Inl (NewError (''operatorgroup '' @ namespace @ ''/'' @ name @ '' exists with targetNamespaces ''
               @ go_list existing @ '', but requested '' @ go_list targets)))
          else (h, Inr False)
      | Inr [] \<Rightarrow>
          (let og = CreateOperatorGroup (namespace @ ''-og'') namespace targets in
           case iaConvert api og of
             Some e \<Rightarrow> (h, Inl (wrapf ''create operatorgroup'' (wrapf ''convert to unstructured'' e)))
           | None \<Rightarrow>
               (case send api h og of
                  (h', None) \<Rightarrow> (h', Inr True)
                | (h', Some e) \<Rightarrow>
                    if iaAPI api IsAlreadyExists e then (h', Inr False)
                    else (h', Inl (wrapf ''create operatorgroup'' e)))))"

definition verifyExistingSubscription ::
  "install_api \<Rightarrow> request list \<Rightarrow> DependencyInfo \<Rightarrow> string \<Rightarrow> string + err option" where
  "verifyExistingSubscription api h dep expectedSource =
     (case rdSubscription (iaReads api h) (diNamespace dep) (diSubscription dep) of
        Inl e \<Rightarrow> Inr (Some (wrapf ''get existing subscription'' e))
      | Inr sub \<Rightarrow> bind_res (subscription_mismatches sub dep expectedSource) (\<lambda>_. Inr None))"

definition subscription_request :: "DependencyInfo \<Rightarrow> request" where
  "subscription_request dep = CreateSubscription (diSubscription dep) (diNamespace dep)
     \<lparr>subChannel = diChannel dep, subPackage = diSubscription dep, subSource = source_or_default dep\<rparr> sourceNamespace"

definition createSubscription ::
  "install_api \<Rightarrow> request list \<Rightarrow> DependencyInfo \<Rightarrow> string + (request list \<times> err option)" where
  "createSubscription api h dep =
     (case iaConvert api (subscription_request dep) of
        Some e \<Rightarrow> Inr (h, Some (wrapf ''create subscription'' (wrapf ''convert to unstructured'' e)))
      | None \<Rightarrow>
          (case send api h (subscription_request dep) of
             (h', None) \<Rightarrow> Inr (h', None)
           | (h', Some e) \<Rightarrow>
               if \<not> iaAPI api IsAlreadyExists e then Inr (h', Some (wrapf ''create subscription'' e))
               else bind_res (verifyExistingSubscription api h' dep (source_or_default dep)) (\<lambda>r. Inr (h', r))))"

definition createDepResourcesV0 ::
  "install_api \<Rightarrow> request list \<Rightarrow> DependencyInfo \<Rightarrow> string + (request list \<times> err option)" where
  "createDepResourcesV0 api h dep =
     (case createNamespace api h (diNamespace dep) of
        (h1, Some e) \<Rightarrow> Inr (h1, Some e)
      | (h1, None) \<Rightarrow>
          (case ensureOperatorGroup api h1 (diNamespace dep) (diTargetNamespaces dep) of
             (h2, Inl e) \<Rightarrow> Inr (h2, Some e)
           | (h2, Inr _) \<Rightarrow> createSubscription api h2 dep))"

definition serviceAccountName :: "InstallCommand \<Rightarrow> string" where
  "serviceAccountName c = (if icServiceAccount c \<noteq> [] then icServiceAccount c else defaultServiceAccount)"

definition clusterCatalogName :: "string \<Rightarrow> string" where
  "clusterCatalogName source =
     (if source \<in> set [''redhat-operators'', ''community-operators'', ''certified-operators'', ''redhat-marketplace'']
      then ''openshift-'' @ source else source)"

definition clusterExtension :: "InstallCommand \<Rightarrow> DependencyInfo \<Rightarrow> err + extension_request" where
  "clusterExtension c dep =
     (if length (diTargetNamespaces dep) > 1 then
        Inl (NewError (''dependency '' @ go_quote (diName dep) @ '' has '' @ itoa (length (diTargetNamespaces dep))
          @ '' target namespaces; OLM v1 supports only one watch namespace''))
      else Inr \<lparr>xrName = diSubscription dep, xrNamespace = diNamespace dep, xrServiceAccount = serviceAccountName c,
        xrPackage = diSubscription dep, xrCatalog = clusterCatalogName (source_or_default dep),
        xrChannels = (if diChannel dep \<noteq> [] then [diChannel dep] else []),
        xrWatchNamespace = (case diTargetNamespaces dep of [ns] \<Rightarrow> Some ns | _ \<Rightarrow> None)\<rparr>)"

text \<open>\<open>jq.Query\<close> as \<open>(value, error)\<close>; a missing value is the error \<open>jq.ErrNotFound\<close>.\<close>

abbreviation jqErrNotFound :: err where "jqErrNotFound \<equiv> NewError ''not found''"

fun jq_sum :: "'a jq_result \<Rightarrow> err + 'a" where
  "jq_sum (Found v) = Inr v"
| "jq_sum NotFound = Inl jqErrNotFound"
| "jq_sum (JqError e) = Inl e"

text \<open>The warnings of \<open>verifyExistingClusterExtension\<close> do not change its result.\<close>

definition verifyExistingClusterExtension ::
  "install_api \<Rightarrow> request list \<Rightarrow> DependencyInfo \<Rightarrow> err option" where
  "verifyExistingClusterExtension api h dep =
     (case iaExtension api h (diSubscription dep) of
        Inl e \<Rightarrow> Some (wrapf ''get existing ClusterExtension'' e)
      | Inr existing \<Rightarrow>
          (case jq_sum (extNamespace existing) of
             Inl e \<Rightarrow> Some (wrapf ''query existing ClusterExtension namespace'' e)
           | Inr namespace \<Rightarrow>
               (case jq_sum (extPackage existing) of
                  Inl e \<Rightarrow> Some (wrapf ''query existing ClusterExtension package'' e)
                | Inr packageName \<Rightarrow>
                    if namespace \<noteq> diNamespace dep \<or> packageName \<noteq> diSubscription dep then
                      Some (NewError (''ClusterExtension '' @ diSubscription dep @ '' requests package '' @ go_quote packageName
                        @ '' in namespace '' @ go_quote namespace @ '', expected package '' @ go_quote (diSubscription dep)
                        @ '' in namespace '' @ go_quote (diNamespace dep)))
                    else None)))"

definition createClusterExtension ::
  "install_api \<Rightarrow> request list \<Rightarrow> DependencyInfo \<Rightarrow> extension_request \<Rightarrow> request list \<times> err option" where
  "createClusterExtension api h dep ext =
     (case send api h (CreateClusterExtension ext) of
        (h', None) \<Rightarrow> (h', None)
      | (h', Some e) \<Rightarrow>
          if \<not> iaAPI api IsAlreadyExists e then (h', Some (wrapf ''create ClusterExtension'' e))
          else (h', verifyExistingClusterExtension api h' dep))"

definition createDepResourcesV1 ::
  "InstallCommand \<Rightarrow> install_api \<Rightarrow> request list \<Rightarrow> DependencyInfo \<Rightarrow> request list \<times> err option" where
  "createDepResourcesV1 c api h dep =
     (case clusterExtension c dep of
        Inl e \<Rightarrow> (h, Some e)
      | Inr ext \<Rightarrow>
          (case createNamespace api h (diNamespace dep) of
             (h1, Some e) \<Rightarrow> (h1, Some e)
           | (h1, None) \<Rightarrow> createClusterExtension api h1 dep ext))"

definition createDepResources ::
  "InstallCommand \<Rightarrow> install_api \<Rightarrow> request list \<Rightarrow> DependencyInfo \<Rightarrow> string + (request list \<times> err option)" where
  "createDepResources c api h dep =
     (if selectedOLMMode c = Some ModeV1 then Inr (createDepResourcesV1 c api h dep)
      else createDepResourcesV0 api h dep)"

definition validateServiceAccounts ::
  "InstallCommand \<Rightarrow> cluster_reads \<Rightarrow> DependencyInfo list \<Rightarrow> err option" where
  "validateServiceAccounts c cl deps =
     (if selectedOLMMode c \<noteq> Some ModeV1 then None
      else first_some (\<lambda>ns. case rdServiceAccount cl ns (serviceAccountName c) of
          None \<Rightarrow> None
        | Some e \<Rightarrow>
            if rdAPI cl IsNotFound e then
              Some (wrapf (''OLM v1 requires ServiceAccount '' @ serviceAccountName c @ '' in namespace '' @ ns
                @ ''; create it with the operator bundle's required permissions or set --service-account'') e)
            else Some (wrapf (''check OLM v1 ServiceAccount '' @ serviceAccountName c @ '' in namespace '' @ ns) e))
        (rev (remdups (rev (map diNamespace deps)))))"

section \<open>Waiting\<close>

text \<open>
  One round of a wait: the cluster it reads, whether the select after it sees the context
  done, and the elapsed time it prints.
\<close>

record poll =
  plReads :: cluster_reads
  plDone :: "err option"
  plElapsed :: string

datatype csv_result = CSVReady string | CSVError err | CSVWaiting

definition tryCSVFromSubscription :: "cluster_reads \<Rightarrow> string \<Rightarrow> string \<Rightarrow> csv_result" where
  "tryCSVFromSubscription cl namespace sub =
     (case getSubscription cl namespace sub of
        Inl e \<Rightarrow> CSVError (wrapf ''get subscription'' e)
      | Inr None \<Rightarrow> CSVWaiting
      | Inr (Some s) \<Rightarrow>
          (case find (\<lambda>cond. scType cond = ''ResolutionFailed'' \<and> scStatus cond = ''True'') (subConditions s) of
             Some cond \<Rightarrow> CSVError (NewError (''subscription resolution failed: '' @ scMessage cond))
           | None \<Rightarrow>
               if subInstalledCSV s = [] then CSVWaiting
               else (case rdCSV cl namespace (subInstalledCSV s) of
                   Inl e \<Rightarrow> if rdAPI cl IsNotFound e then CSVWaiting
                             else CSVError (wrapf (''get CSV '' @ subInstalledCSV s) e)
                 | Inr csv \<Rightarrow>
                     if csvPhase csv = CSVPhaseSucceeded then CSVReady (csvVersion csv)
                     else if csvPhase csv = CSVPhaseFailed then
                       CSVError (NewError (''CSV '' @ csvName csv @ '' failed: ''
                         @ (if csvReason csv = [] then ''unknown'' else csvReason csv)))
                     else CSVWaiting)))"

definition findSucceededCSVInNamespace :: "cluster_reads \<Rightarrow> string \<Rightarrow> string \<Rightarrow> csv_result" where
  "findSucceededCSVInNamespace cl namespace sub =
     (case rdCSVs cl namespace of
        Inl e \<Rightarrow> CSVError (wrapf (''list CSVs in '' @ namespace) e)
      | Inr csvs \<Rightarrow> (case first_succeeded sub csvs of Some csv \<Rightarrow> CSVReady (csvVersion csv) | None \<Rightarrow> CSVWaiting))"

text \<open>Poll number \<open>n\<close> (from 1): the subscription, and every third time also the list of versions.\<close>

definition poll_csv :: "cluster_reads \<Rightarrow> string \<Rightarrow> string \<Rightarrow> nat \<Rightarrow> csv_result" where
  "poll_csv cl namespace sub n =
     (case tryCSVFromSubscription cl namespace sub of
        CSVWaiting \<Rightarrow> if n mod 3 = 0 then findSucceededCSVInNamespace cl namespace sub else CSVWaiting
      | r \<Rightarrow> r)"

partial_function (option) csv_loop ::
  "(nat \<Rightarrow> poll) \<Rightarrow> string \<Rightarrow> string \<Rightarrow> nat \<Rightarrow> (err + string) option" where
  "csv_loop polls namespace sub n =
     (case poll_csv (plReads (polls n)) namespace sub n of
        CSVError e \<Rightarrow> Some (Inl e)
      | CSVReady v \<Rightarrow> Some (Inr v)
      | CSVWaiting \<Rightarrow>
          (case plDone (polls n) of
             Some e \<Rightarrow> Some (Inl (wrapf (''timeout waiting for CSV after '' @ plElapsed (polls n)) e))
           | None \<Rightarrow> csv_loop polls namespace sub (Suc n)))"

definition waitForCSV :: "(nat \<Rightarrow> poll) \<Rightarrow> string \<Rightarrow> string \<Rightarrow> (err + string) option" where
  "waitForCSV polls namespace sub = csv_loop polls namespace sub 1"

partial_function (option) operator_loop ::
  "(nat \<Rightarrow> poll) \<Rightarrow> string \<Rightarrow> string \<Rightarrow> nat \<Rightarrow> (err + string) option" where
  "operator_loop polls packageName namespace n =
     (case findClusterExtensionInstallState (plReads (polls n)) packageName namespace of
        (st, Some e) \<Rightarrow> Some (Inl (wrapf (''check operator '' @ packageName) e))
      | (st, None) \<Rightarrow>
          if stInstalled st then Some (Inr (trim_prefix (stVersion st) ''v''))
          else (case plDone (polls n) of
             Some e \<Rightarrow> Some (Inl (wrapf (''timeout waiting for operator after '' @ plElapsed (polls n)) e))
           | None \<Rightarrow> operator_loop polls packageName namespace (Suc n)))"

definition waitForOperator :: "(nat \<Rightarrow> poll) \<Rightarrow> string \<Rightarrow> string \<Rightarrow> (err + string) option" where
  "waitForOperator polls packageName namespace = operator_loop polls packageName namespace 1"

definition waitForDependency :: "InstallCommand \<Rightarrow> (nat \<Rightarrow> poll) \<Rightarrow> DependencyInfo \<Rightarrow> (err + string) option" where
  "waitForDependency c polls dep =
     (if selectedOLMMode c = Some ModeV1 then waitForOperator polls (diSubscription dep) (diNamespace dep)
      else waitForCSV polls (diNamespace dep) (diSubscription dep))"

declare csv_loop.simps [code] operator_loop.simps [code]

section \<open>\<open>runInstall\<close>\<close>

datatype install_status = NotDone | Installed string | Failed err

record InstallResult =
  irName :: string
  irDisplayName :: string
  irStatus :: install_status

text \<open>Phase 1: one result per dependency; the ones created are pending.\<close>

fun create_phase ::
  "InstallCommand \<Rightarrow> install_api \<Rightarrow> request list \<Rightarrow> DependencyInfo list \<Rightarrow> string + (request list \<times> err option list)" where
  "create_phase c api h [] = Inr (h, [])"
| "create_phase c api h (d # ds) =
     bind_res (createDepResources c api h d) (\<lambda>(h1, r).
     bind_res (create_phase c api h1 ds) (\<lambda>(h2, rs). Inr (h2, r # rs)))"

definition install_result :: "DependencyInfo \<Rightarrow> install_status \<Rightarrow> InstallResult" where
  "install_result dep st = \<lparr>irName = diName dep, irDisplayName = diDisplayName dep, irStatus = st\<rparr>"

text \<open>
  Phase 2: the waits for the created dependencies, in parallel, \<open>polls i\<close> being the rounds of the
  \<open>i\<close>th; the phase ends when all of them have returned.
\<close>

fun wait_phase ::
  "InstallCommand \<Rightarrow> (nat \<Rightarrow> nat \<Rightarrow> poll) \<Rightarrow> nat \<Rightarrow> (DependencyInfo \<times> err option) list \<Rightarrow> InstallResult list option" where
  "wait_phase c polls i [] = Some []"
| "wait_phase c polls i ((d, created) # ds) =
     (case (case created of
          Some e \<Rightarrow> Some (Failed e)
        | None \<Rightarrow> map_option (\<lambda>r. case r of Inl e \<Rightarrow> Failed e | Inr v \<Rightarrow> Installed v) (waitForDependency c (polls i) d)) of
        None \<Rightarrow> None
      | Some st \<Rightarrow> map_option (\<lambda>rs. install_result d st # rs) (wait_phase c polls (Suc i) ds))"

definition result_error :: "InstallResult \<Rightarrow> err option" where
  "result_error r = (case irStatus r of Failed e \<Rightarrow> Some (wrapf (irName r) e) | _ \<Rightarrow> None)"

text \<open>The cluster before the run, for the checks (\<open>before j\<close>) and the service accounts.\<close>

record install_env =
  ieHasCR :: bool
  ieBefore :: "nat \<Rightarrow> cluster_reads"
  iePick :: "err list \<Rightarrow> err"
  ieAccounts :: cluster_reads
  ieAPI :: install_api
  iePolls :: "nat \<Rightarrow> nat \<Rightarrow> poll"

text \<open>The result: the requests sent, the results and the error.\<close>

definition runInstall ::
  "InstallCommand \<Rightarrow> install_env \<Rightarrow> DependencyInfo list
     \<Rightarrow> (string + (request list \<times> InstallResult list \<times> err option)) option" where
  "runInstall c env deps =
     (case filterDepsToInstall c (ieHasCR env) (ieBefore env) (iePick env) deps of
        Inl p \<Rightarrow> Some (Inl p)
      | Inr (Inl e) \<Rightarrow> Some (Inr ([], [], Some (wrapf ''filter dependencies'' e)))
      | Inr (Inr toInstall) \<Rightarrow>
          if toInstall = [] then Some (Inr ([], [], None))
          else (case validateServiceAccounts c (ieAccounts env) toInstall of
              Some e \<Rightarrow> Some (Inr ([], [], Some e))
            | None \<Rightarrow>
                (case create_phase c (ieAPI env) [] toInstall of
                   Inl p \<Rightarrow> Some (Inl p)
                 | Inr (h, created) \<Rightarrow>
                     map_option (\<lambda>results. Inr (h, results, errors_join (map result_error results)))
                       (wait_phase c (iePolls env) 0 (zip toInstall created)))))"

record install_counts =
  countInstalled :: nat
  failedNames :: "string list"

fun is_installed :: "install_status \<Rightarrow> bool" where
  "is_installed (Installed v) = True"
| "is_installed _ = False"

fun is_failed :: "install_status \<Rightarrow> bool" where
  "is_failed (Failed e) = True"
| "is_failed _ = False"

definition printSummary :: "InstallResult list \<Rightarrow> install_counts" where
  "printSummary results = \<lparr>countInstalled = length (filter (is_installed \<circ> irStatus) results),
     failedNames = map irDisplayName (filter (is_failed \<circ> irStatus) results)\<rparr>"

definition isValidDependency :: "DependencyInfo list \<Rightarrow> string \<Rightarrow> bool" where
  "isValidDependency deps name = list_ex (\<lambda>d. diName d = name) deps"

section \<open>Lemmas\<close>

lemma fold_count_up: "fold (\<lambda>v counts. counts(v := counts v + 1)) a c x = c x + int (count (mset a) x)"
  for c :: "string \<Rightarrow> int"
  by (induction a arbitrary: c) auto

lemma count_up_eq: "count_up a x = int (count (mset a) x)"
  by (simp add: count_up_def fold_count_up)

lemma count_down_iff: "(\<And>x. 0 \<le> counts x) \<Longrightarrow> count_down counts b \<longleftrightarrow> (\<forall>x. int (count (mset b) x) \<le> counts x)"
proof (induction b arbitrary: counts)
  case (Cons v b)
  let ?c = "counts(v := counts v - 1)"
  show ?case
  proof (cases "?c v < 0")
    case True
    then have "int (count (mset (v # b)) v) > counts v" by simp
    then have "\<not> (\<forall>x. int (count (mset (v # b)) x) \<le> counts x)" by (meson not_less)
    with True show ?thesis by simp
  next
    case False
    then have nn: "0 \<le> ?c x" for x using Cons.prems [of x] by (cases "x = v") simp_all
    have "int (count (mset b) x) \<le> ?c x \<longleftrightarrow> int (count (mset (v # b)) x) \<le> counts x" for x
      by (cases "x = v") auto
    with Cons.IH [of ?c, OF nn] False show ?thesis by (simp only: count_down.simps Let_def if_False)
  qed
qed simp

lemma slicesEqualUnordered_iff: "slicesEqualUnordered a b \<longleftrightarrow> mset a = mset b"
proof
  assume s: "slicesEqualUnordered a b"
  then have len: "length a = length b" and "count_down (count_up a) b"
    by (auto simp: slicesEqualUnordered_def split: if_splits)
  then have "mset b \<subseteq># mset a"
    using count_down_iff [of "count_up a" b] by (simp add: count_up_eq subseteq_mset_def)
  moreover have "size (mset a) = size (mset b)" using len by simp
  ultimately show "mset a = mset b" by (metis mset_subset_size nless_le subset_mset.le_less)
next
  assume m: "mset a = mset b"
  then have "length a = length b" by (rule mset_eq_length)
  with m show "slicesEqualUnordered a b"
    using count_down_iff [of "count_up a" b] by (simp add: slicesEqualUnordered_def count_up_eq)
qed

lemma csv_loop_returns:
  "plDone (polls (n + k)) \<noteq> None \<Longrightarrow> \<exists>r. csv_loop polls ns sub n = Some r"
proof (induction k arbitrary: n)
  case 0
  then show ?case by (subst csv_loop.simps) (auto split: csv_result.split)
next
  case (Suc k)
  then obtain r where "csv_loop polls ns sub (Suc n) = Some r" by fastforce
  then show ?case by (subst csv_loop.simps) (auto split: csv_result.split option.split)
qed

lemma operator_loop_returns:
  "plDone (polls (n + k)) \<noteq> None \<Longrightarrow> \<exists>r. operator_loop polls p ns n = Some r"
proof (induction k arbitrary: n)
  case 0
  then show ?case by (subst operator_loop.simps) (auto split: prod.split option.split)
next
  case (Suc k)
  then obtain r where "operator_loop polls p ns (Suc n) = Some r" by fastforce
  then show ?case by (subst operator_loop.simps) (auto split: prod.split option.split)
qed

lemma csv_loop_polled:
  "csv_loop polls ns sub n = Some r \<Longrightarrow>
     \<forall>v. r = Inr v \<longrightarrow> (\<exists>k\<ge>n. poll_csv (plReads (polls k)) ns sub k = CSVReady v)"
proof (erule csv_loop.raw_induct [rotated])
  fix loop polls ns sub n r
  assume IH: "\<And>polls ns sub n r. loop polls ns sub n = Some r \<Longrightarrow>
      \<forall>v. r = Inr v \<longrightarrow> (\<exists>k\<ge>n. poll_csv (plReads (polls k)) ns sub k = CSVReady v)"
    and r: "(case poll_csv (plReads (polls n)) ns sub n of
        CSVReady v \<Rightarrow> Some (Inr v) | CSVError e \<Rightarrow> Some (Inl e)
      | CSVWaiting \<Rightarrow> (case plDone (polls n) of None \<Rightarrow> loop polls ns sub (Suc n)
          | Some e \<Rightarrow> Some (Inl (wrapf (''timeout waiting for CSV after '' @ plElapsed (polls n)) e)))) = Some r"
  show "\<forall>v. r = Inr v \<longrightarrow> (\<exists>k\<ge>n. poll_csv (plReads (polls k)) ns sub k = CSVReady v)"
  proof (cases "poll_csv (plReads (polls n)) ns sub n")
    case (CSVReady w)
    with r show ?thesis by auto
  next
    case (CSVError e)
    with r show ?thesis by auto
  next
    case CSVWaiting
    show ?thesis
    proof (cases "plDone (polls n)")
      case None
      with r CSVWaiting have "loop polls ns sub (Suc n) = Some r" by simp
      from IH [OF this] show ?thesis using Suc_leD by blast
    next
      case (Some e)
      with r CSVWaiting show ?thesis by auto
    qed
  qed
qed

lemma csv_loop_version:
  "csv_loop polls ns sub n = Some (Inr v) \<Longrightarrow>
     \<exists>k\<ge>n. poll_csv (plReads (polls k)) ns sub k = CSVReady v"
  using csv_loop_polled by blast

text \<open>A version is only reported for an operator whose cluster service version has succeeded.\<close>

lemma find_memD: "find P xs = Some x \<Longrightarrow> x \<in> set xs \<and> P x"
  by (induction xs) (auto split: if_splits)

lemma poll_csv_ready:
  assumes "poll_csv cl ns sub n = CSVReady v"
  shows "\<exists>csv. csvPhase csv = CSVPhaseSucceeded \<and> csvVersion csv = v
    \<and> ((\<exists>s. getSubscription cl ns sub = Inr (Some s) \<and> rdCSV cl ns (subInstalledCSV s) = Inr csv)
       \<or> (\<exists>csvs. rdCSVs cl ns = Inr csvs \<and> csv \<in> set csvs \<and> MatchesSubscription (csvName csv) sub))"
proof (cases "tryCSVFromSubscription cl ns sub")
  case (CSVReady w)
  with assms have "w = v" by (simp add: poll_csv_def)
  with CSVReady show ?thesis
    by (auto simp: tryCSVFromSubscription_def split: sum.splits option.splits if_splits)
next
  case (CSVError e)
  with assms show ?thesis by (simp add: poll_csv_def)
next
  case CSVWaiting
  with assms have "findSucceededCSVInNamespace cl ns sub = CSVReady v" by (simp add: poll_csv_def split: if_splits)
  then show ?thesis
    by (fastforce simp: findSucceededCSVInNamespace_def first_succeeded_def dest: find_memD split: sum.splits option.splits)
qed

text \<open>The requests that installing one dependency may send.\<close>

definition request_for :: "InstallCommand \<Rightarrow> DependencyInfo \<Rightarrow> request \<Rightarrow> bool" where
  "request_for c d w \<longleftrightarrow> w = CreateNamespace (diNamespace d)
     \<or> (if selectedOLMMode c = Some ModeV1 then \<exists>x. clusterExtension c d = Inr x \<and> w = CreateClusterExtension x
        else w = CreateOperatorGroup (diNamespace d @ ''-og'') (diNamespace d) (diTargetNamespaces d)
          \<or> w = subscription_request d)"

lemma createNamespace_requests:
  "createNamespace api h ns = (h', r) \<Longrightarrow> h' = h \<or> h' = h @ [CreateNamespace ns]"
  by (auto simp: createNamespace_def send_def split: option.splits if_splits)

lemma ensureOperatorGroup_requests:
  "ensureOperatorGroup api h ns ts = (h', r) \<Longrightarrow> h' = h \<or> h' = h @ [CreateOperatorGroup (ns @ ''-og'') ns ts]"
  by (auto simp: ensureOperatorGroup_def send_def Let_def split: sum.splits list.splits option.splits if_splits)

lemma createSubscription_requests:
  "createSubscription api h d = Inr (h', r) \<Longrightarrow> h' = h \<or> h' = h @ [subscription_request d]"
  by (auto simp: createSubscription_def send_def split: option.splits if_splits)

lemma createDepResources_requests:
  assumes "createDepResources c api h d = Inr (h', r)"
  shows "\<exists>ws. h' = h @ ws \<and> list_all (request_for c d) ws"
proof (cases "selectedOLMMode c = Some ModeV1")
  case True
  show ?thesis
  proof (cases "clusterExtension c d")
    case (Inl e)
    with assms True show ?thesis by (simp add: createDepResources_def createDepResourcesV1_def)
  next
    case (Inr x)
    obtain h1 r1 where n: "createNamespace api h (diNamespace d) = (h1, r1)" by fastforce
    have "h' = h1 \<or> h' = h1 @ [CreateClusterExtension x]"
      using assms True Inr n
      by (auto simp: createDepResources_def createDepResourcesV1_def createClusterExtension_def send_def
          split: option.splits if_splits)
    with createNamespace_requests [OF n] Inr True show ?thesis
      by (auto simp: request_for_def)
  qed
next
  case False
  obtain h1 r1 where n: "createNamespace api h (diNamespace d) = (h1, r1)" by fastforce
  obtain h2 r2 where o: "ensureOperatorGroup api h1 (diNamespace d) (diTargetNamespaces d) = (h2, r2)" by fastforce
  have "h' = h1 \<or> h' = h2 \<or> h' = h2 @ [subscription_request d]"
    using assms False n o
    by (auto simp: createDepResources_def createDepResourcesV0_def dest: createSubscription_requests
        split: option.splits sum.splits)
  with createNamespace_requests [OF n] ensureOperatorGroup_requests [OF o] False show ?thesis
    by (auto simp: request_for_def)
qed

lemma create_phase_requests:
  "create_phase c api h ds = Inr (h', rs) \<Longrightarrow>
     length rs = length ds \<and> (\<exists>ws. h' = h @ ws \<and> (\<forall>w\<in>set ws. \<exists>d\<in>set ds. request_for c d w))"
proof (induction ds arbitrary: h rs)
  case (Cons d ds)
  then obtain h1 r rs' where r: "createDepResources c api h d = Inr (h1, r)"
      "create_phase c api h1 ds = Inr (h', rs')" "rs = r # rs'"
    by auto
  obtain ws1 where "h1 = h @ ws1" "list_all (request_for c d) ws1"
    using createDepResources_requests [OF r(1)] by blast
  moreover obtain ws2 where "length rs' = length ds" "h' = h1 @ ws2"
      "\<forall>w\<in>set ws2. \<exists>d\<in>set ds. request_for c d w"
    using Cons.IH [OF r(2)] by blast
  ultimately show ?case using r(3) by (auto simp: list_all_iff)
qed simp

lemma waitForDependency_returns:
  assumes "plDone (polls k) \<noteq> None" and "1 \<le> k"
  shows "\<exists>r. waitForDependency c polls d = Some r"
proof -
  have "plDone (polls (1 + (k - 1))) \<noteq> None" using assms by simp
  from csv_loop_returns [of polls 1 "k - 1", OF this] operator_loop_returns [of polls 1 "k - 1", OF this]
  show ?thesis by (simp add: waitForDependency_def waitForCSV_def waitForOperator_def)
qed

lemma wait_phase_returns:
  assumes "\<And>i. \<exists>k\<ge>1. plDone (polls i k) \<noteq> None"
  shows "\<exists>rs. wait_phase c polls i ds = Some rs \<and> map irName rs = map (diName \<circ> fst) ds
    \<and> list_all (\<lambda>r. irStatus r \<noteq> NotDone) rs"
proof (induction ds arbitrary: i)
  case (Cons dc ds)
  obtain d created where dc: "dc = (d, created)" by (cases dc)
  obtain r where r: "waitForDependency c (polls i) d = Some r"
    using assms [of i] waitForDependency_returns by blast
  obtain rs where rs: "wait_phase c polls (Suc i) ds = Some rs" "map irName rs = map (diName \<circ> fst) ds"
      "list_all (\<lambda>r. irStatus r \<noteq> NotDone) rs"
    using Cons by blast
  show ?case
    by (cases created; cases r) (simp_all add: dc r rs install_result_def)
qed simp

lemma errors_join_None: "errors_join es = None \<longleftrightarrow> list_all (\<lambda>e. e = None) es"
  by (auto simp: errors_join_def Let_def List.map_filter_def list_all_iff filter_empty_conv)

lemma installed_flags_nth:
  "installed_flags c hasCR cl j ds = Inr rs \<Longrightarrow>
     length rs = length ds \<and> (\<forall>i<length ds. isAlreadyInstalled c hasCR (cl (j + i)) (ds ! i) = Inr (rs ! i))"
proof (induction ds arbitrary: j rs)
  case (Cons d ds)
  then obtain r rs' where r: "isAlreadyInstalled c hasCR (cl j) d = Inr r"
      "installed_flags c hasCR cl (Suc j) ds = Inr rs'" "rs = r # rs'"
    by auto
  from Cons.IH [OF r(2)] r(1,3) show ?case by (auto simp: nth_Cons split: nat.splits)
qed simp

lemma filterDepsToInstall_spec:
  assumes "filterDepsToInstall c hasCR cl pick deps = Inr (Inr t)" and "d \<in> set t"
  shows "d \<in> set deps \<and> shouldInstallDep c d \<and> (\<exists>j. isAlreadyInstalled c hasCR (cl j) d = Inr (Inr False))"
proof -
  let ?w = "filter (shouldInstallDep c) deps"
  obtain rs where rs: "installed_flags c hasCR cl 0 ?w = Inr rs" "flag_errors rs = []"
      "t = map fst (filter (\<lambda>(d, r). r \<noteq> Inr True) (zip ?w rs))"
    using assms(1) by (auto simp: filterDepsToInstall_def Let_def split: if_splits)
  have n: "length rs = length ?w" "\<forall>i<length ?w. isAlreadyInstalled c hasCR (cl i) (?w ! i) = Inr (rs ! i)"
    using installed_flags_nth [OF rs(1)] by simp_all
  obtain r where "(d, r) \<in> set (zip ?w rs)" "r \<noteq> Inr True" using rs(3) assms(2) by auto
  then obtain i where i: "i < length ?w" "?w ! i = d" "rs ! i = r" "r \<noteq> Inr True" "r \<in> set rs"
    using n(1) by (auto simp: in_set_zip)
  have "r = Inr False"
  proof (cases r)
    case (Inl e)
    with i(5) have "e \<in> set (flag_errors rs)"
      by (auto simp: flag_errors_def List.map_filter_def image_iff split: sum.splits)
    with rs(2) show ?thesis by simp
  qed (use i(4) in auto)
  moreover have "d \<in> set ?w" using i(1,2) nth_mem by blast
  moreover have "isAlreadyInstalled c hasCR (cl i) d = Inr r" using n(2) i(1,2,3) by blast
  ultimately show ?thesis by auto
qed

text \<open>
  A cluster on which nothing is installed, on which the requests succeed, and on which every
  operator is ready at the second poll.
\<close>

definition empty_cluster :: cluster_reads where
  "empty_cluster = \<lparr>rdAPI = status_api, noMatch = (\<lambda>_. False),
     rdSubscription = (\<lambda>_ _. Inl (Foreign ''NotFound'' ''not found'')),
     rdSubscriptions = (\<lambda>_. Inr []), rdCSV = (\<lambda>_ _. Inl (Foreign ''NotFound'' ''not found'')), rdCSVs = (\<lambda>_. Inr []),
     rdExtensions = Inr [], rdInstallsPackage = (\<lambda>_ _. (False, None)), rdServiceAccount = (\<lambda>_ _. None)\<rparr>"

definition ready_cluster :: cluster_reads where
  "ready_cluster = empty_cluster
     \<lparr>rdSubscription := (\<lambda>_ n. Inr \<lparr>subName = n, subSpec = None, subInstalledCSV = n @ ''.v1.2.0'', subConditions = []\<rparr>),
      rdCSV := (\<lambda>_ n. Inr \<lparr>csvName = n, csvPhase = CSVPhaseSucceeded, csvReason = [], csvVersion = ''1.2.0''\<rparr>)\<rparr>"

definition sample_polls :: "nat \<Rightarrow> poll" where
  "sample_polls k = (if k < 2 then \<lparr>plReads = empty_cluster, plDone = None, plElapsed = ''5s''\<rparr>
     else if k = 2 then \<lparr>plReads = ready_cluster, plDone = None, plElapsed = ''10s''\<rparr>
     else \<lparr>plReads = empty_cluster, plDone = Some (NewError ''context deadline exceeded''), plElapsed = ''15s''\<rparr>)"

definition sample_env :: install_env where
  "sample_env = \<lparr>ieHasCR = False, ieBefore = (\<lambda>_. empty_cluster), iePick = hd, ieAccounts = empty_cluster,
     ieAPI = \<lparr>iaReads = (\<lambda>_. empty_cluster), iaWrite = (\<lambda>_ _. None), iaConvert = (\<lambda>_. None),
       iaOperatorGroups = (\<lambda>_ _. Inr []), iaExtension = (\<lambda>_ _. Inl (NewError ''x'')), iaAPI = status_api\<rparr>,
     iePolls = (\<lambda>_. sample_polls)\<rparr>"

definition sample_install :: InstallCommand where
  "sample_install = \<lparr>icDryRun = False, IncludeOptional = False, TargetDep = [], TargetDeps = None, icVersion = [],
     icRefresh = False, icServiceAccount = [], OLMMode = ''auto'',
     icTimeout = 300, icFromStdin = False, icClient = True, selectedOLMMode = Some ModeV0, icManifestVersion = ''3.4.0''\<rparr>"

lemma result_error_None: "irStatus r \<noteq> NotDone \<Longrightarrow> result_error r = None \<longleftrightarrow> is_installed (irStatus r)"
  by (cases "irStatus r") (simp_all add: result_error_def)

lemma install_phases:
  assumes "\<And>i. \<exists>k\<ge>1. plDone (polls i k) \<noteq> None" and "create_phase c api [] t = Inr (h, created)"
  shows "\<exists>rs. wait_phase c polls 0 (zip t created) = Some rs \<and> map irName rs = map diName t
    \<and> (errors_join (map result_error rs) = None \<longleftrightarrow> list_all (is_installed \<circ> irStatus) rs)
    \<and> (\<forall>w\<in>set h. \<exists>d\<in>set t. request_for c d w)"
proof -
  from create_phase_requests [OF assms(2)] have len: "length created = length t"
    and req: "\<forall>w\<in>set h. \<exists>d\<in>set t. request_for c d w" by auto
  obtain rs where rs: "wait_phase c polls 0 (zip t created) = Some rs" "map irName rs = map (diName \<circ> fst) (zip t created)"
      "list_all (\<lambda>r. irStatus r \<noteq> NotDone) rs"
    using wait_phase_returns [of polls, OF assms(1)] by blast
  have "map (diName \<circ> fst) (zip t created) = map diName t" using len by (metis map_map map_fst_zip)
  moreover have "errors_join (map result_error rs) = None \<longleftrightarrow> list_all (is_installed \<circ> irStatus) rs"
    using rs(3) by (auto simp: errors_join_None list_all_iff result_error_None)
  ultimately show ?thesis using rs req by auto
qed

lemma runInstall_requests:
  assumes "runInstall c env deps = Some (Inr (h, rs, e))" and "w \<in> set h"
  shows "\<exists>d\<in>set deps. request_for c d w \<and> shouldInstallDep c d
    \<and> (\<exists>j. isAlreadyInstalled c (ieHasCR env) (ieBefore env j) d = Inr (Inr False))"
proof -
  obtain t created where "filterDepsToInstall c (ieHasCR env) (ieBefore env) (iePick env) deps = Inr (Inr t)"
      "create_phase c (ieAPI env) [] t = Inr (h, created)"
    using assms by (auto simp: runInstall_def split: sum.splits if_splits option.splits)
  from create_phase_requests [OF this(2)] filterDepsToInstall_spec [OF this(1)] assms(2) show ?thesis by fastforce
qed

section \<open>Properties\<close>

text \<open>
  \<open>slicesEqualUnordered\<close>, which decides whether an existing operator group fits, is equality of the
  two lists as multisets.
\<close>

theorem slicesEqualUnordered_mset: "slicesEqualUnordered a b \<longleftrightarrow> mset a = mset b"
  by (rule slicesEqualUnordered_iff)

text \<open>
  Waiting for an operator of OLM v0 returns as soon as the context ends, and the version it
  reports is the one of a cluster service version that has succeeded at one of the polls: the one
  the subscription names, or one in the namespace whose name matches the subscription.
\<close>

theorem waitForCSV_outcome:
  assumes "1 \<le> k" and "plDone (polls k) \<noteq> None"
  shows "waitForCSV polls ns sub \<noteq> None \<and> (\<forall>v. waitForCSV polls ns sub = Some (Inr v) \<longrightarrow>
    (\<exists>n\<ge>1. \<exists>csv. csvPhase csv = CSVPhaseSucceeded \<and> csvVersion csv = v
      \<and> ((\<exists>s. getSubscription (plReads (polls n)) ns sub = Inr (Some s) \<and> rdCSV (plReads (polls n)) ns (subInstalledCSV s) = Inr csv)
         \<or> (\<exists>csvs. rdCSVs (plReads (polls n)) ns = Inr csvs \<and> csv \<in> set csvs \<and> MatchesSubscription (csvName csv) sub))))"
proof -
  have "plDone (polls (1 + (k - 1))) \<noteq> None" using assms by simp
  then have "waitForCSV polls ns sub \<noteq> None" using csv_loop_returns unfolding waitForCSV_def by blast
  moreover have "\<exists>n\<ge>1. poll_csv (plReads (polls n)) ns sub n = CSVReady v" if "waitForCSV polls ns sub = Some (Inr v)" for v
    using csv_loop_version that unfolding waitForCSV_def by blast
  ultimately show ?thesis using poll_csv_ready by meson
qed

theorem waitForCSV_outcome_witness:
  "waitForCSV sample_polls ''openshift-a'' ''a'' = Some (Inr ''1.2.0'')
   \<and> (\<exists>n\<ge>1. \<exists>csv. csvPhase csv = CSVPhaseSucceeded \<and> csvVersion csv = ''1.2.0''
      \<and> ((\<exists>s. getSubscription (plReads (sample_polls n)) ''openshift-a'' ''a'' = Inr (Some s)
            \<and> rdCSV (plReads (sample_polls n)) ''openshift-a'' (subInstalledCSV s) = Inr csv)
         \<or> (\<exists>csvs. rdCSVs (plReads (sample_polls n)) ''openshift-a'' = Inr csvs \<and> csv \<in> set csvs
            \<and> MatchesSubscription (csvName csv) ''a'')))"
proof -
  have "(1::nat) \<le> 3" "plDone (sample_polls 3) \<noteq> None" by (simp_all add: sample_polls_def)
  note w = waitForCSV_outcome [of 3 sample_polls "''openshift-a''" "''a''", OF this]
  have "waitForCSV sample_polls ''openshift-a'' ''a'' = Some (Inr ''1.2.0'')"
    unfolding waitForCSV_def
    by (subst csv_loop.simps, subst csv_loop.simps)
      (simp add: sample_polls_def poll_csv_def tryCSVFromSubscription_def getSubscription_def empty_cluster_def
        ready_cluster_def status_api_def)
  from this w [THEN conjunct2, THEN spec, THEN mp, OF this] show ?thesis by (rule conjI)
qed

text \<open>
  C9. An installation returns when each wait's context ends. The requests it sends are only for
  dependencies that are selected and that were found neither installed nor requested; every
  dependency it installs gets one result, in order; and it reports success exactly when every one of them
  is installed.
\<close>

theorem runInstall_outcome:
  assumes "\<And>i. \<exists>k\<ge>1. plDone (iePolls env i k) \<noteq> None"
  shows "\<exists>r. runInstall c env deps = Some r \<and> (\<forall>h results e. r = Inr (h, results, e) \<longrightarrow>
    (\<forall>w\<in>set h. \<exists>d\<in>set deps. request_for c d w \<and> shouldInstallDep c d
        \<and> (\<exists>j. isAlreadyInstalled c (ieHasCR env) (ieBefore env j) d = Inr (Inr False)))
    \<and> (h \<noteq> [] \<longrightarrow> (\<exists>t. filterDepsToInstall c (ieHasCR env) (ieBefore env) (iePick env) deps = Inr (Inr t)
        \<and> map irName results = map diName t))
    \<and> (results \<noteq> [] \<longrightarrow> (e = None \<longleftrightarrow> list_all (is_installed \<circ> irStatus) results)))"
proof (cases "filterDepsToInstall c (ieHasCR env) (ieBefore env) (iePick env) deps")
  case (Inr f)
  show ?thesis
  proof (cases f)
    case (Inr t)
    note f = \<open>filterDepsToInstall _ _ _ _ _ = Inr f\<close> [unfolded Inr]
    show ?thesis
    proof (cases "t = [] \<or> validateServiceAccounts c (ieAccounts env) t \<noteq> None \<or> (\<exists>p. create_phase c (ieAPI env) [] t = Inl p)")
      case True
      then show ?thesis by (auto simp: runInstall_def f split: option.split sum.split)
    next
      case False
      then obtain h created where go: "create_phase c (ieAPI env) [] t = Inr (h, created)" "t \<noteq> []"
          "validateServiceAccounts c (ieAccounts env) t = None"
        by (metis old.prod.exhaust sum.exhaust)
      obtain rs where rs: "wait_phase c (iePolls env) 0 (zip t created) = Some rs" "map irName rs = map diName t"
          "errors_join (map result_error rs) = None \<longleftrightarrow> list_all (is_installed \<circ> irStatus) rs"
          "\<forall>w\<in>set h. \<exists>d\<in>set t. request_for c d w"
        using install_phases [of "iePolls env", OF assms go(1)] by (elim exE conjE) (rule that)
      have "runInstall c env deps = Some (Inr (h, rs, errors_join (map result_error rs)))"
        using go rs(1) by (simp add: runInstall_def f)
      then show ?thesis using rs(2,3,4) f filterDepsToInstall_spec [OF f] by fastforce
    qed
  qed (simp add: runInstall_def \<open>filterDepsToInstall _ _ _ _ _ = Inr f\<close>)
qed (simp add: runInstall_def)

theorem runInstall_outcome_witness:
  "map_option (map_sum id (\<lambda>(h, rs, e). (h, map irStatus rs, e))) (runInstall sample_install sample_env (GetDependencies sample_manifest)) =
     Some (Inr ([CreateNamespace ''openshift-a'', CreateOperatorGroup ''openshift-a-og'' ''openshift-a'' [''openshift-a''],
       CreateSubscription ''a'' ''openshift-a'' \<lparr>subChannel = ''stable'', subPackage = ''a'', subSource = ''redhat-operators''\<rparr>
         ''openshift-marketplace''], [Installed ''1.2.0''], None))
   \<and> (\<exists>r. runInstall sample_install sample_env (GetDependencies sample_manifest) = Some r)"
proof
  have "\<exists>k\<ge>1. plDone (iePolls sample_env i k) \<noteq> None" for i
    by (rule exI [of _ 3]) (simp add: sample_env_def sample_polls_def)
  from runInstall_outcome [of sample_env, OF this] show "\<exists>r. runInstall sample_install sample_env (GetDependencies sample_manifest) = Some r"
    by blast
qed code_simp

end
