(* ===== verification/DepsCommand.thy ===== *)
theory DepsCommand
  imports DepsInstall
begin

text \<open>
  The commands around the dependency manifest: where it comes from (\<open>pkg/deps/fetch.go\<close>,
  \<open>embed.go\<close>), the commands \<open>deps\<close> (\<open>command.go\<close>), \<open>deps graph\<close> (\<open>graph.go\<close>) and \<open>deps install\<close>
  (\<open>install.go\<close>) with \<open>Complete\<close>, \<open>Validate\<close> and \<open>Run\<close>, and the
  lifecycle of \<open>cmd/deps/deps.go\<close>. The HTTP client, the YAML decoders, the client construction and
  the terminal are arguments; printed text is kept as the data it shows.
\<close>

section \<open>The manifest (\<open>fetch.go\<close>, \<open>embed.go\<close>)\<close>

definition gitopsBaseURL :: string where
  "gitopsBaseURL = ''https://raw.githubusercontent.com/opendatahub-io/odh-gitops''"

definition gitopsRef :: string where
  "gitopsRef = ''1a55af06b8fe85c8ed63b1eff680477d9bf86be3''"

abbreviation valuesPath :: string where "valuesPath \<equiv> ''charts/rhai-on-openshift-chart/values.yaml''"
abbreviation chartPath :: string where "chartPath \<equiv> ''charts/rhai-on-openshift-chart/Chart.yaml''"
abbreviation maxFetchSize :: nat where "maxFetchSize \<equiv> 5 * 1024 * 1024"

text \<open>\<open>getGitopsRef\<close>, given the variable \<open>ODH_GITOPS_COMMIT\<close> of the environment.\<close>

definition getGitopsRef :: "string \<Rightarrow> string" where
  "getGitopsRef envRef = (if envRef \<noteq> [] then envRef else gitopsRef)"

text \<open>A request: refused, failed, or answered with a status and a body that may fail to be read.\<close>

datatype http_result = RequestError err | DoError err | Response nat "err + string"

definition fetchFile :: "(string \<Rightarrow> http_result) \<Rightarrow> string \<Rightarrow> string \<Rightarrow> string \<Rightarrow> err + string" where
  "fetchFile http envRef baseURL path =
     (case http (baseURL @ ''/'' @ getGitopsRef envRef @ ''/'' @ path) of
        RequestError e \<Rightarrow> Inl (wrapf ''create request'' e)
      | DoError e \<Rightarrow> Inl (wrapf ''fetch file'' e)
      | Response status body \<Rightarrow>
          if status \<noteq> 200 then Inl (NewError (''fetch file '' @ path @ '': HTTP '' @ itoa status))
          else (case read_limited (maxFetchSize + 1) body of
              Inl e \<Rightarrow> Inl (wrapf ''read response'' e)
            | Inr data \<Rightarrow>
                if length data > maxFetchSize then
                  Inl (NewError (''response exceeds maximum size of '' @ itoa maxFetchSize @ '' bytes''))
                else Inr data))"

text \<open>The decoders, the check of labels, the embedded files, the network and the environment.\<close>

record manifest_env =
  meValues :: "string \<Rightarrow> err + Manifest"
  meChart :: "string \<Rightarrow> err + string"
  meDNS :: "string \<Rightarrow> string list"
  meEmbeddedManifest :: string
  meEmbeddedChart :: string
  meHTTP :: "string \<Rightarrow> http_result"
  meRef :: string

definition parseChartVersion :: "manifest_env \<Rightarrow> string \<Rightarrow> err + string" where
  "parseChartVersion env data =
     (case meChart env data of
        Inl e \<Rightarrow> Inl (wrapf ''parse Chart.yaml'' e)
      | Inr v \<Rightarrow> if v = [] then Inl (NewError ''parse Chart.yaml: appVersion field is empty'') else Inr v)"

definition ManifestVersion :: "manifest_env \<Rightarrow> err + string" where
  "ManifestVersion env = parseChartVersion env (meEmbeddedChart env)"

definition fetchAndParseManifest :: "manifest_env \<Rightarrow> string \<Rightarrow> err + (Manifest \<times> string)" where
  "fetchAndParseManifest env baseURL =
     (case fetchFile (meHTTP env) (meRef env) baseURL valuesPath of
        Inl e \<Rightarrow> Inl (wrapf ''fetch latest manifest'' e)
      | Inr values \<Rightarrow>
          bind_res (ManifestParse (meValues env) (meDNS env) values) (\<lambda>manifest.
            case fetchFile (meHTTP env) (meRef env) baseURL chartPath of
              Inl e \<Rightarrow> Inl (wrapf ''fetch chart metadata'' e)
            | Inr chart \<Rightarrow>
                (case parseChartVersion env chart of
                   Inl e \<Rightarrow> Inl (wrapf ''fetch chart metadata'' e)
                 | Inr version \<Rightarrow> Inr (manifest, version))))"

definition parseEmbeddedManifest :: "manifest_env \<Rightarrow> err + (Manifest \<times> string)" where
  "parseEmbeddedManifest env =
     (if meEmbeddedManifest env = [] then Inl (NewError ''embedded manifest is empty'')
      else bind_res (ManifestParse (meValues env) (meDNS env) (meEmbeddedManifest env)) (\<lambda>manifest.
        bind_res (ManifestVersion env) (\<lambda>version. Inr (manifest, version))))"

definition GetManifest :: "manifest_env \<Rightarrow> bool \<Rightarrow> err + (Manifest \<times> string)" where
  "GetManifest env refresh =
     (if refresh then fetchAndParseManifest env gitopsBaseURL else parseEmbeddedManifest env)"

section \<open>Versions\<close>

definition majorMinorMatch :: "semver_lib \<Rightarrow> string \<Rightarrow> string \<Rightarrow> bool" where
  "majorMinorMatch sv v1 v2 =
     (if v1 = [] \<or> v2 = [] then False
      else case sv_Parse sv (trim_prefix v1 ''v'') of
          Inl _ \<Rightarrow> False
        | Inr ver1 \<Rightarrow>
            (case sv_Parse sv (trim_prefix v2 ''v'') of
               Inl _ \<Rightarrow> False
             | Inr ver2 \<Rightarrow> Major ver1 = Major ver2 \<and> Minor ver1 = Minor ver2))"

definition version_unavailable :: "string \<Rightarrow> string \<Rightarrow> string \<Rightarrow> bool \<Rightarrow> err" where
  "version_unavailable subject version manifestVersion refresh = NewValidationError ''VERSION_UNAVAILABLE''
     (subject @ '' for version '' @ go_quote version @
        (if subject = ''dependencies'' then '' are'' else '' is'')
        @ '' not available; only version '' @ manifestVersion @ '' is supported'')
     (if refresh then ''Omit --version to use the fetched manifest version''
      else ''Use --refresh to fetch the latest manifest, or omit --version to use the embedded version'')"

text \<open>
  The check of the embedded version, in the \<open>Validate\<close> of the three commands; the first result is
  the new manifest version.
\<close>

definition validate_version ::
  "semver_lib \<Rightarrow> manifest_env \<Rightarrow> string \<Rightarrow> string \<Rightarrow> bool \<Rightarrow> string \<Rightarrow> string \<Rightarrow> string \<times> err option" where
  "validate_version sv env ctxt subject refresh version manifestVersion =
     (if refresh then (manifestVersion, None)
      else case ManifestVersion env of
          Inl e \<Rightarrow> (manifestVersion, Some (wrapf ctxt e))
        | Inr v \<Rightarrow>
            if version \<noteq> [] \<and> \<not> majorMinorMatch sv version v then
              (v, Some (version_unavailable subject version v False))
            else (v, None))"

text \<open>The start of the \<open>Run\<close> of the three commands: the manifest and its version.\<close>

definition load_manifest ::
  "semver_lib \<Rightarrow> manifest_env \<Rightarrow> string \<Rightarrow> bool \<Rightarrow> string \<Rightarrow> string \<Rightarrow> err + (Manifest \<times> string)" where
  "load_manifest sv env subject refresh version manifestVersion =
     (case GetManifest env refresh of
        Inl e \<Rightarrow> Inl (wrapf ''get manifest'' e)
      | Inr (manifest, v) \<Rightarrow>
          (let mv = (if v \<noteq> [] then v else manifestVersion) in
           if version \<noteq> [] \<and> \<not> majorMinorMatch sv version mv then
             Inl (version_unavailable subject version mv refresh)
           else Inr (manifest, mv)))"

section \<open>\<open>deps\<close> (\<open>command.go\<close>)\<close>

record DepsCommand =
  dcOutputSchema :: bool
  dcRefresh :: bool
  dcDryRun :: bool
  dcOutput :: string
  dcVersion :: string
  dcVerbose :: bool
  dcQuiet :: bool
  dcQuietIO :: bool
  dcClient :: bool
  dcUseColor :: bool
  dcClusterVersion :: string
  dcManifestVersion :: string

text \<open>
  \<open>shouldUseColor\<close>: the variable \<open>NO_COLOR\<close>, whether the writer is a file and whether that is a
  terminal.
\<close>

definition shouldUseColor :: "string \<Rightarrow> bool \<Rightarrow> bool \<Rightarrow> bool" where
  "shouldUseColor noColor isFile isTerminal =
     (if noColor \<noteq> [] then False else if \<not> isFile then False else isTerminal)"

definition DepsComplete :: "bool \<Rightarrow> err option \<Rightarrow> DepsCommand \<Rightarrow> DepsCommand \<times> err option" where
  "DepsComplete color newClient c =
     (if dcOutputSchema c then (c, None)
      else if dcVerbose c \<and> dcQuiet c then (c, Some (NewError ''--verbose and --quiet are mutually exclusive''))
      else let c1 = c\<lparr>dcUseColor := color\<rparr>; c2 = (if dcQuiet c then c1\<lparr>dcQuietIO := True\<rparr> else c1) in
        if dcDryRun c then (c2, None)
        else case newClient of
            Some e \<Rightarrow> (c2, Some (wrapf ''create kubernetes client'' e))
          | None \<Rightarrow> (c2\<lparr>dcClient := True\<rparr>, None))"

definition DepsValidate :: "semver_lib \<Rightarrow> manifest_env \<Rightarrow> DepsCommand \<Rightarrow> DepsCommand \<times> err option" where
  "DepsValidate sv env c =
     (if dcOutputSchema c then (c, None)
      else if dcOutput c \<notin> {''table'', ''json'', ''yaml''} then
        (c, Some (NewError (''invalid output format '' @ go_quote (dcOutput c) @ '': must be table, json, or yaml'')))
      else case validate_version sv env ''failed to determine manifest version from embedded Chart.yaml''
             ''dependency graph'' (dcRefresh c) (dcVersion c) (dcManifestVersion c) of
          (v, r) \<Rightarrow> (c\<lparr>dcManifestVersion := v\<rparr>, r))"

text \<open>What is printed: a schema, a list in a format, or the rows of a table.\<close>

datatype deps_output =
    SchemaOut string
  | InfoListOut string "DependencyInfo list"
  | InfoTable string "(string \<times> string \<times> string \<times> string \<times> string) list"
  | StatusListOut string "DependencyStatus list" Status
  | StatusTable string string "(string \<times> string \<times> string \<times> string \<times> string) list"
  | Warning string

definition dash_if_empty :: "string \<Rightarrow> string" where
  "dash_if_empty s = (if s = [] then ''-'' else s)"

text \<open>The texts are UTF-8.\<close>

definition paint :: "bool \<Rightarrow> string \<Rightarrow> string \<Rightarrow> string" where
  "paint useColor color text = (if useColor then CHR 0x1B # color @ text @ (CHR 0x1B # ''[0m'') else text)"

definition statusToIcon :: "bool \<Rightarrow> string \<Rightarrow> string" where
  "statusToIcon useColor status =
     (if status = StatusInstalled then paint useColor ''[32m'' ([CHR 0xE2, CHR 0x9C, CHR 0x93] @ '' installed'')
      else if status = StatusPending then paint useColor ''[33m'' ([CHR 0xE2, CHR 0x80, CHR 0xA6] @ '' pending'')
      else if status = StatusMissing then paint useColor ''[31m'' ([CHR 0xE2, CHR 0x9C, CHR 0x97] @ '' MISSING'')
      else if status = StatusOptional then paint useColor ''[33m'' ([CHR 0xE2, CHR 0x97, CHR 0x8B] @ '' optional'')
      else if status = StatusUnknown then paint useColor ''[36m'' ''? unknown''
      else status)"

definition info_row :: "DependencyInfo \<Rightarrow> string \<times> string \<times> string \<times> string \<times> string" where
  "info_row d = (diDisplayName d, diEnabled d, diSubscription d, diNamespace d,
     dash_if_empty (str_join '', '' (diRequiredBy d)))"

definition status_row :: "bool \<Rightarrow> DependencyStatus \<Rightarrow> string \<times> string \<times> string \<times> string \<times> string" where
  "status_row useColor s = (dsDisplayName s, statusToIcon useColor (dsStatus s), dash_if_empty (dsVersion s),
     dsNamespace s, dash_if_empty (str_join '', '' (dsRequiredBy s)))"

text \<open>The encoders may fail; \<open>encode\<close> says with which error.\<close>

definition printDryRun ::
  "(deps_output \<Rightarrow> err option) \<Rightarrow> DepsCommand \<Rightarrow> Manifest \<Rightarrow> deps_output list \<times> err option" where
  "printDryRun encode c manifest =
     (let deps = GetDependencies manifest; out = InfoListOut (dcOutput c) deps in
      if dcOutput c = ''json'' then ([out], map_option (wrapf ''encode json'') (encode out))
      else if dcOutput c = ''yaml'' then ([out], map_option (wrapf ''encode yaml'') (encode out))
      else ([InfoTable (dcManifestVersion c) (map info_row deps)], None))"

definition printResults ::
  "(deps_output \<Rightarrow> err option) \<Rightarrow> DepsCommand \<Rightarrow> DependencyStatus list \<Rightarrow> deps_output list \<times> err option" where
  "printResults encode c statuses =
     (let out = StatusListOut (dcOutput c) statuses (computeDependencyStatus statuses) in
      if dcOutput c = ''json'' then ([out], map_option (wrapf ''encode json'') (encode out))
      else if dcOutput c = ''yaml'' then ([out], map_option (wrapf ''encode yaml'') (encode out))
      else ([StatusTable (dcManifestVersion c) (dcClusterVersion c) (map (status_row (dcUseColor c)) statuses)], None))"

record deps_cluster =
  clDetect :: "err + Version"
  clPreds :: discovery_preds
  clDiscovery :: discovery
  clHasCR :: bool
  clHasOLM :: bool
  clOLMAvailable :: bool
  clReads :: "nat \<Rightarrow> cluster_reads"

definition version_mismatch :: "string \<Rightarrow> string \<Rightarrow> err" where
  "version_mismatch cluster manifest = NewValidationError ''VERSION_MISMATCH''
     (''cluster version '' @ cluster @ '' does not match dependency graph version '' @ manifest
       @ ''; use --dry-run to view the manifest without cluster validation'')
     ''Use --dry-run to view the manifest without cluster validation''"

text \<open>The checks on the cluster, after the version has been compared.\<close>

definition check_and_print ::
  "(deps_output \<Rightarrow> err option) \<Rightarrow> deps_cluster \<Rightarrow> DepsCommand \<Rightarrow> Manifest \<Rightarrow> deps_output list \<times> err option" where
  "check_and_print encode cl c manifest =
     (case CheckDependencies (clPreds cl) (clDiscovery cl) (clHasCR cl) (clHasOLM cl) (clOLMAvailable cl) (clReads cl) manifest of
        Inl e \<Rightarrow> ([], Some (wrapf ''check dependencies'' e))
      | Inr statuses \<Rightarrow> printResults encode c statuses)"

definition DepsRun ::
  "semver_lib \<Rightarrow> manifest_env \<Rightarrow> (deps_output \<Rightarrow> err option) \<Rightarrow> deps_cluster \<Rightarrow> DepsCommand
     \<Rightarrow> deps_output list \<times> err option" where
  "DepsRun sv env encode cl c =
     (if dcOutputSchema c then
        (let out = SchemaOut (if dcDryRun c then ''dependency_info_list'' else ''dependency_status_list'') in
         ([out], map_option (wrapf ''outputting schema'') (encode out)))
      else case load_manifest sv env ''dependency graph'' (dcRefresh c) (dcVersion c) (dcManifestVersion c) of
          Inl e \<Rightarrow> ([], Some e)
        | Inr (manifest, mv) \<Rightarrow>
            let c1 = c\<lparr>dcManifestVersion := mv\<rparr> in
            if dcDryRun c then printDryRun encode c1 manifest
            else case clDetect cl of
                Inl e \<Rightarrow>
                  (case check_and_print encode cl c1 manifest of
                     (out, r) \<Rightarrow> (Warning (''Warning: failed to detect cluster version: '' @ err_string e) # out, r))
              | Inr ver \<Rightarrow>
                  let cv = sv_String sv ver in
                  if \<not> majorMinorMatch sv cv mv then ([], Some (version_mismatch cv mv))
                  else check_and_print encode cl (c1\<lparr>dcClusterVersion := cv\<rparr>) manifest)"

section \<open>\<open>deps graph\<close> (\<open>graph.go\<close>)\<close>

record GraphCommand =
  gcRefresh :: bool
  gcVersion :: string
  gcManifestVersion :: string

definition GraphValidate :: "semver_lib \<Rightarrow> manifest_env \<Rightarrow> GraphCommand \<Rightarrow> GraphCommand \<times> err option" where
  "GraphValidate sv env c =
     (case validate_version sv env ''failed to determine manifest version'' ''dependency graph''
             (gcRefresh c) (gcVersion c) (gcManifestVersion c) of
        (v, r) \<Rightarrow> (c\<lparr>gcManifestVersion := v\<rparr>, r))"

definition none_or_joined :: "string list \<Rightarrow> string" where
  "none_or_joined xs = (if length xs > 0 then str_join '', '' xs else ''(none)'')"

text \<open>A node: the name, what requires it and what it depends on.\<close>

definition printDepNode :: "(string, string list) gomap \<Rightarrow> DependencyInfo \<Rightarrow> string \<times> string \<times> string" where
  "printDepNode depMap dep = (diDisplayName dep, none_or_joined (diRequiredBy dep),
     none_or_joined (case map_of depMap (diName dep) of Some ds \<Rightarrow> ds | None \<Rightarrow> []))"

definition GraphRun ::
  "semver_lib \<Rightarrow> manifest_env \<Rightarrow> GraphCommand \<Rightarrow> err + string \<times> (string \<times> string \<times> string) list" where
  "GraphRun sv env c =
     bind_res (load_manifest sv env ''dependency graph'' (gcRefresh c) (gcVersion c) (gcManifestVersion c))
       (\<lambda>(manifest, mv). Inr (mv, map (printDepNode (buildDepMap manifest)) (GetDependencies manifest)))"

section \<open>\<open>deps install\<close> (\<open>install.go\<close>)\<close>

record install_world =
  wReader :: stdin_reader
  wStdin :: "err + string"
  wUnmarshal :: "string \<Rightarrow> err + InstallInput"
  wChanged :: "string \<Rightarrow> bool"
  wHasConfig :: bool
  wNewClient :: "err option"
  wDuration :: "int \<Rightarrow> string"
  wPreds :: discovery_preds
  wDiscovery :: discovery
  wHasCR :: bool
  wMarshal :: "extension_request \<Rightarrow> err option"
  wInstall :: install_env

definition installParseStdin :: "install_world \<Rightarrow> InstallCommand \<Rightarrow> err + InstallCommand" where
  "installParseStdin w c =
     (case CheckPiped (wReader w) of
        Some e \<Rightarrow> Inl e
      | None \<Rightarrow>
          (case StdinParse (wUnmarshal w) (wStdin w) of
             Inl e \<Rightarrow> Inl (wrapf ''parsing stdin'' e)
           | Inr input \<Rightarrow> installApplyStdin (wChanged w) input c))"

text \<open>The positional argument becomes the list of targets.\<close>

definition normalize_target :: "InstallCommand \<Rightarrow> InstallCommand" where
  "normalize_target c =
     (if (TargetDeps c = None \<or> TargetDeps c = Some []) \<and> TargetDep c \<noteq> [] then
        c\<lparr>TargetDeps := Some [TargetDep c], TargetDep := []\<rparr>
      else c)"

definition InstallComplete :: "install_world \<Rightarrow> InstallCommand \<Rightarrow> InstallCommand \<times> err option" where
  "InstallComplete w c =
     (case (if icFromStdin c then installParseStdin w c else Inr c) of
        Inl e \<Rightarrow> (c, NewExitCodeError ExitValidation (Some e))
      | Inr c1 \<Rightarrow>
          let c2 = normalize_target c1 in
          if icDryRun c2 then (c2, None)
          else case wNewClient w of
              Some e \<Rightarrow> (c2, Some (wrapf ''create kubernetes client'' e))
            | None \<Rightarrow> (c2\<lparr>icClient := True\<rparr>, None))"

abbreviation msgOLMNotAvailableInst :: string where
  "msgOLMNotAvailableInst \<equiv> ''OLM (Operator Lifecycle Manager) is not available; cannot install dependencies''"

text \<open>The installation mode, unless it is a dry run.\<close>

definition select_mode :: "install_world \<Rightarrow> olm_mode option \<Rightarrow> InstallCommand \<Rightarrow> InstallCommand \<times> err option" where
  "select_mode w requestedMode c =
     (if icDryRun c then (c, None)
      else case ResolveInstallMode (wPreds w) (wDiscovery w) requestedMode of
          Inl e \<Rightarrow>
            if requestedMode = None \<and> errors_is (\<lambda>x. x = ErrUnavailable) e then
              (c, Some (NewError msgOLMNotAvailableInst))
            else (c, Some (wrapf ''detect OLM API'' e))
        | Inr mode \<Rightarrow>
            if mode = ModeV1 \<and> \<not> wHasCR w then
              (c\<lparr>selectedOLMMode := Some mode\<rparr>, Some (NewError msgOLMNotAvailableInst))
            else (c\<lparr>selectedOLMMode := Some mode\<rparr>, None))"

definition InstallValidate ::
  "semver_lib \<Rightarrow> manifest_env \<Rightarrow> install_world \<Rightarrow> InstallCommand \<Rightarrow> InstallCommand \<times> err option" where
  "InstallValidate sv env w c =
     (if icTimeout c \<le> 0 then (c, Some (NewError (''--timeout must be positive, got '' @ wDuration w (icTimeout c))))
      else case requestedOLMMode c of
          Inl e \<Rightarrow> (c, Some e)
        | Inr requestedMode \<Rightarrow>
            (case select_mode w requestedMode c of
               (c1, Some e) \<Rightarrow> (c1, Some e)
             | (c1, None) \<Rightarrow>
                 (case validate_version sv env ''failed to determine manifest version'' ''dependencies''
                         (icRefresh c1) (icVersion c1) (icManifestVersion c1) of
                    (v, r) \<Rightarrow> (c1\<lparr>icManifestVersion := v\<rparr>, r))))"

text \<open>The preview of a dry run: resources, texts, and either of them commented out.\<close>

datatype dry_item = DryText string | DryResource request | DryCommented dry_item

fun dry_requests :: "dry_item \<Rightarrow> request list" where
  "dry_requests (DryResource r) = [r]"
| "dry_requests _ = []"

definition printDryRunV0Resources :: "DependencyInfo \<Rightarrow> dry_item list" where
  "printDryRunV0Resources dep =
     [DryResource (CreateOperatorGroup (diNamespace dep @ ''-og'') (diNamespace dep) (diTargetNamespaces dep)),
      DryResource (subscription_request dep)]"

definition printDryRunClusterExtension ::
  "(extension_request \<Rightarrow> err option) \<Rightarrow> InstallCommand \<Rightarrow> DependencyInfo \<Rightarrow> dry_item list \<times> err option" where
  "printDryRunClusterExtension marshal c dep =
     (case clusterExtension c dep of
        Inl e \<Rightarrow> ([], Some e)
      | Inr ext \<Rightarrow>
          (case marshal ext of
             Some e \<Rightarrow> ([], Some (wrapf (''render ClusterExtension for '' @ diName dep) e))
           | None \<Rightarrow> ([DryText (''# Requires an existing ServiceAccount '' @ serviceAccountName c @ '' in namespace ''
                         @ diNamespace dep @ '' with permissions for this operator.''),
                       DryResource (CreateClusterExtension ext)], None)))"

definition printDryRunManifests ::
  "(extension_request \<Rightarrow> err option) \<Rightarrow> InstallCommand \<Rightarrow> DependencyInfo \<Rightarrow> olm_mode option
     \<Rightarrow> dry_item list \<times> err option" where
  "printDryRunManifests marshal c dep mode =
     (let head = [DryText (''# '' @ diDisplayName dep), DryResource (CreateNamespace (diNamespace dep))] in
      case mode of
        Some ModeV1 \<Rightarrow> (case printDryRunClusterExtension marshal c dep of (items, r) \<Rightarrow> (head @ items, r))
      | Some ModeV0 \<Rightarrow> (head @ printDryRunV0Resources dep, None)
      | None \<Rightarrow>
          (head @ [DryText ''# OLM v0 alternative''] @ printDryRunV0Resources dep @ [DryText ''# OLM v1 alternative'']
             @ (case printDryRunClusterExtension marshal c dep of
                  (items, None) \<Rightarrow> items
                | (items, Some e) \<Rightarrow> items @ [DryText (''# OLM v1 path unavailable: '' @ err_string e)]), None))"

definition dryRunMode :: "install_world \<Rightarrow> InstallCommand \<Rightarrow> err + olm_mode" where
  "dryRunMode w c =
     (case selectedOLMMode c of
        Some m \<Rightarrow> Inr m
      | None \<Rightarrow>
          bind_res (requestedOLMMode c) (\<lambda>requested.
            case requested of
              Some m \<Rightarrow> Inr m
            | None \<Rightarrow>
                if \<not> icClient c \<and> \<not> wHasConfig w then Inl (NewError ''no cluster configuration'')
                else if \<not> icClient c \<and> wNewClient w \<noteq> None then
                  Inl (wrapf ''create kubernetes client'' (the (wNewClient w)))
                else ResolveInstallMode (wPreds w) (wDiscovery w) None))"

fun dry_run_loop ::
  "(extension_request \<Rightarrow> err option) \<Rightarrow> InstallCommand \<Rightarrow> olm_mode option \<Rightarrow> DependencyInfo list
     \<Rightarrow> dry_item list \<times> err option" where
  "dry_run_loop marshal c mode [] = ([], None)"
| "dry_run_loop marshal c mode (d # ds) =
     (case printDryRunManifests marshal c d mode of
        (items, Some e) \<Rightarrow> (if mode = None then [] else items, Some e)
      | (items, None) \<Rightarrow>
          (case dry_run_loop marshal c mode ds of
             (rest, r) \<Rightarrow> ((if mode = None then map DryCommented items else items) @ rest, r)))"

definition nothing_text :: "string \<Rightarrow> string \<Rightarrow> InstallCommand \<Rightarrow> string" where
  "nothing_text targeted bulk c =
     (case TargetDeps c of
        Some [] \<Rightarrow> ''No dependencies to install.''
      | Some (t # ts) \<Rightarrow> str_join '', '' (t # ts) @ targeted
      | None \<Rightarrow> bulk)"

definition printNoInstallNeeded :: "InstallCommand \<Rightarrow> string" where
  "printNoInstallNeeded = nothing_text '' already has an installation request or is installed.''
     ''All dependencies already have installation requests or are installed.''"

definition runDryRun :: "install_world \<Rightarrow> InstallCommand \<Rightarrow> DependencyInfo list \<Rightarrow> dry_item list \<times> err option" where
  "runDryRun w c deps =
     (let (head, mode) = (case dryRunMode w c of
            Inl e \<Rightarrow> (DryText (''[DRY RUN] OLM API could not be detected ('' @ err_string e
              @ ''); showing both installation paths as comments. Use --olm-mode=v0 or --olm-mode=v1 to render active manifests.''), None)
          | Inr m \<Rightarrow> (DryText ''[DRY RUN] The following resources would be created:'', Some m));
          toInstall = filterDepsForDryRun c deps in
      if toInstall = [] then
        ([head, DryText (nothing_text '' is already installed.'' ''All dependencies are already installed.'' c)], None)
      else case dry_run_loop (wMarshal w) c mode toInstall of (items, r) \<Rightarrow> (head # items, r))"

text \<open>The result of \<open>Run\<close>: the preview, the requests sent, the results and the error.\<close>

definition InstallRun ::
  "semver_lib \<Rightarrow> manifest_env \<Rightarrow> install_world \<Rightarrow> InstallCommand
     \<Rightarrow> (string + dry_item list \<times> request list \<times> InstallResult list \<times> err option) option" where
  "InstallRun sv env w c =
     (case load_manifest sv env ''dependencies'' (icRefresh c) (icVersion c) (icManifestVersion c) of
        Inl e \<Rightarrow> Some (Inr ([], [], [], Some e))
      | Inr (manifest, mv) \<Rightarrow>
          let deps = GetDependencies manifest in
          case find (\<lambda>n. \<not> isValidDependency deps n) (case TargetDeps c of None \<Rightarrow> [] | Some ts \<Rightarrow> ts) of
            Some n \<Rightarrow> Some (Inr ([], [], [], Some (NewError (''unknown dependency '' @ go_quote n
              @ ''; run 'kubectl odh deps' to see available dependencies''))))
          | None \<Rightarrow>
              if icDryRun c then (case runDryRun w c deps of (items, r) \<Rightarrow> Some (Inr (items, [], [], r)))
              else map_option (map_sum id (Pair [])) (runInstall c (wInstall w) deps))"

section \<open>The lifecycle (\<open>cmd/deps/deps.go\<close>)\<close>

text \<open>The output of \<open>Run\<close>, the texts on the error stream and the error for \<open>main\<close>.\<close>

definition runCommand ::
  "(err option \<Rightarrow> string list \<times> err option) \<Rightarrow> ('c \<Rightarrow> 'c \<times> err option) \<Rightarrow> ('c \<Rightarrow> 'c \<times> err option)
     \<Rightarrow> ('c \<Rightarrow> 'o list \<times> err option) \<Rightarrow> 'c \<Rightarrow> 'o list \<times> string list \<times> err option" where
  "runCommand handle complete validate run c =
     (case complete c of
        (c1, Some e) \<Rightarrow> ([], handle (Some e))
      | (c1, None) \<Rightarrow>
          (case validate c1 of
             (c2, Some e) \<Rightarrow> ([], handle (Some e))
           | (c2, None) \<Rightarrow>
               (case run c2 of
                  (out, Some e) \<Rightarrow> (out, handle (Some e))
                | (out, None) \<Rightarrow> (out, [], None))))"

definition deps_RunE ::
  "api_preds \<Rightarrow> encoder \<Rightarrow> encoder \<Rightarrow> out_writer \<Rightarrow> semver_lib \<Rightarrow> manifest_env \<Rightarrow> (deps_output \<Rightarrow> err option)
     \<Rightarrow> bool \<Rightarrow> err option \<Rightarrow> deps_cluster \<Rightarrow> DepsCommand \<Rightarrow> deps_output list \<times> string list \<times> err option" where
  "deps_RunE api json yaml wr sv env encode color newClient cl c =
     runCommand (\<lambda>e. HandleError api json yaml wr e (dcOutput c)) (DepsComplete color newClient) (DepsValidate sv env)
       (DepsRun sv env encode cl) c"

section \<open>Lemmas\<close>






lemma map_sum_eq_Inr: "map_sum f g z = Inr b \<longleftrightarrow> (\<exists>a. z = Inr a \<and> b = g a)"
  by (cases z) auto




text \<open>
  A cluster that accepts what it has not got yet: a request succeeds the first time, every resource can be converted, and a namespace
  has no operator group until one is requested.
\<close>

definition accepts_new :: "install_api \<Rightarrow> bool" where
  "accepts_new api \<longleftrightarrow> (\<forall>h r. r \<notin> set h \<longrightarrow> iaWrite api h r = None) \<and> (\<forall>r. iaConvert api r = None)
     \<and> (\<forall>h ns. (\<forall>name ts. CreateOperatorGroup name ns ts \<notin> set h) \<longrightarrow> iaOperatorGroups api h ns = Inr [])"

fun request_namespace :: "request \<Rightarrow> string" where
  "request_namespace (CreateNamespace ns) = ns"
| "request_namespace (CreateOperatorGroup name ns ts) = ns"
| "request_namespace (CreateSubscription name ns spec sns) = ns"
| "request_namespace (CreateClusterExtension ext) = xrNamespace ext"

definition previewed :: "(extension_request \<Rightarrow> err option) \<Rightarrow> InstallCommand \<Rightarrow> olm_mode \<Rightarrow> DependencyInfo \<Rightarrow> request list" where
  "previewed marshal c mode d = concat (map dry_requests (fst (printDryRunManifests marshal c d (Some mode))))"

lemma create_previewed:
  assumes "accepts_new api" and "selectedOLMMode c = Some mode" and "snd (printDryRunManifests marshal c d (Some mode)) = None"
    and "\<forall>r\<in>set h. request_namespace r \<noteq> diNamespace d"
  shows "createDepResources c api h d = Inr (h @ previewed marshal c mode d, None)"
    and "\<forall>r\<in>set (previewed marshal c mode d). request_namespace r = diNamespace d"
proof -
  have new: "r \<notin> set h" if "request_namespace r = diNamespace d" for r using assms(4) that by auto
  have fresh: "iaWrite api (h @ xs) r = None" if "request_namespace r = diNamespace d" "r \<notin> set xs" for xs r
    using assms(1) new [OF that(1)] that(2) by (simp add: accepts_new_def)
  have convert: "iaConvert api r = None" for r using assms(1) by (simp add: accepts_new_def)
  have groups: "iaOperatorGroups api (h @ [CreateNamespace (diNamespace d)]) (diNamespace d) = Inr []"
  proof -
    have "CreateOperatorGroup name (diNamespace d) ts \<notin> set (h @ [CreateNamespace (diNamespace d)])" for name ts
      using new [of "CreateOperatorGroup name (diNamespace d) ts"] by simp
    then show ?thesis using assms(1) unfolding accepts_new_def by blast
  qed
  have first: "iaWrite api h r = None" if "request_namespace r = diNamespace d" for r using fresh [of r "[]"] that by simp
  have both: "createDepResources c api h d = Inr (h @ previewed marshal c mode d, None)
    \<and> (\<forall>r\<in>set (previewed marshal c mode d). request_namespace r = diNamespace d)"
  proof (cases mode)
    case ModeV0
    have sub: "request_namespace (subscription_request d) = diNamespace d" by (simp add: subscription_request_def)
    have w: "iaWrite api (h @ [CreateNamespace (diNamespace d), CreateOperatorGroup (diNamespace d @ ''-og'') (diNamespace d) (diTargetNamespaces d)])
        (subscription_request d) = None"
      by (rule fresh [OF sub]) (simp add: subscription_request_def)
    have g: "iaWrite api (h @ [CreateNamespace (diNamespace d)])
        (CreateOperatorGroup (diNamespace d @ ''-og'') (diNamespace d) (diTargetNamespaces d)) = None"
      by (rule fresh) simp_all
    show ?thesis using ModeV0 assms(2) convert groups w g first [of "CreateNamespace (diNamespace d)"] sub
      by (simp add: createDepResources_def createDepResourcesV0_def createNamespace_def send_def ensureOperatorGroup_def
          createSubscription_def previewed_def printDryRunManifests_def printDryRunV0Resources_def Let_def)
  next
    case ModeV1
    then obtain ext where ext: "clusterExtension c d = Inr ext"
      using assms(3) by (cases "clusterExtension c d") (simp_all add: printDryRunManifests_def printDryRunClusterExtension_def Let_def)
    have ns: "xrNamespace ext = diNamespace d" using ext by (auto simp: clusterExtension_def split: if_splits)
    have w: "iaWrite api (h @ [CreateNamespace (diNamespace d)]) (CreateClusterExtension ext) = None"
      by (rule fresh) (simp_all add: ns)
    show ?thesis using ModeV1 assms(2,3) ext ns convert w first [of "CreateNamespace (diNamespace d)"]
      by (auto simp: createDepResources_def createDepResourcesV1_def createNamespace_def send_def createClusterExtension_def
          previewed_def printDryRunManifests_def printDryRunClusterExtension_def Let_def split: option.splits)
  qed
  then show "createDepResources c api h d = Inr (h @ previewed marshal c mode d, None)"
    "\<forall>r\<in>set (previewed marshal c mode d). request_namespace r = diNamespace d" by blast+
qed

lemma create_phase_previewed:
  assumes "accepts_new api" and "selectedOLMMode c = Some mode"
  shows "distinct (map diNamespace ds) \<Longrightarrow> \<forall>d\<in>set ds. snd (printDryRunManifests marshal c d (Some mode)) = None \<Longrightarrow>
    \<forall>r\<in>set h. request_namespace r \<notin> diNamespace ` set ds \<Longrightarrow>
    \<exists>rs. create_phase c api h ds = Inr (h @ concat (map (previewed marshal c mode) ds), rs)"
proof (induction ds arbitrary: h)
  case (Cons d ds)
  have d: "snd (printDryRunManifests marshal c d (Some mode)) = None" "\<forall>r\<in>set h. request_namespace r \<noteq> diNamespace d"
    using Cons.prems(2,3) by auto
  note made = create_previewed [OF assms d]
  have "\<forall>r\<in>set (h @ previewed marshal c mode d). request_namespace r \<notin> diNamespace ` set ds"
    using made(2) Cons.prems(1,3) by auto
  from Cons.IH [OF _ _ this] Cons.prems show ?case by (auto simp: made(1))
qed simp

lemma dry_loop_previewed:
  assumes "dry_run_loop marshal c (Some mode) ds = (items, None)"
  shows "(\<forall>d\<in>set ds. snd (printDryRunManifests marshal c d (Some mode)) = None)
    \<and> concat (map dry_requests items) = concat (map (previewed marshal c mode) ds)"
  using assms
proof (induction ds arbitrary: items)
  case (Cons d ds)
  obtain xs e where one: "printDryRunManifests marshal c d (Some mode) = (xs, e)" by fastforce
  obtain ys e' where rest: "dry_run_loop marshal c (Some mode) ds = (ys, e')" by fastforce
  have "e = None" "e' = None" "items = xs @ ys" using Cons.prems one rest by (auto split: option.splits)
  then show ?case using Cons.IH [of ys] rest one by (simp add: previewed_def)
qed simp

text \<open>A preview does not depend on the flag that asks for it, and on the chosen API only through \<open>dryRunMode\<close>.\<close>

lemma preview_flags [simp]:
  fixes c :: InstallCommand and b sel
  defines "c' \<equiv> c\<lparr>icDryRun := b, selectedOLMMode := sel\<rparr>"
  shows "shouldInstallDep c' = shouldInstallDep c" and "printDryRunManifests marshal c' = printDryRunManifests marshal c"
proof -
  have account: "serviceAccountName c' = serviceAccountName c" by (simp add: c'_def serviceAccountName_def)
  then have "clusterExtension c' = clusterExtension c" by (simp add: clusterExtension_def fun_eq_iff)
  with account have "printDryRunClusterExtension marshal c' = printDryRunClusterExtension marshal c"
    by (intro ext) (simp only: printDryRunClusterExtension_def)
  then show "printDryRunManifests marshal c' = printDryRunManifests marshal c" by (intro ext) (simp only: printDryRunManifests_def)
  have "TargetDeps c' = TargetDeps c" "IncludeOptional c' = IncludeOptional c" by (simp_all add: c'_def)
  then show "shouldInstallDep c' = shouldInstallDep c" by (intro ext) (simp only: shouldInstallDep_def)
qed

lemma preview_flags_loop [simp]:
  "dry_run_loop marshal (c\<lparr>icDryRun := b, selectedOLMMode := sel\<rparr>) mode ds = dry_run_loop marshal c mode ds"
  by (induction ds) simp_all

text \<open>Without requests on the cluster, everything that is selected is installed.\<close>

lemma filterDeps_fresh:
  assumes "\<And>j d. isAlreadyInstalled c hasCR (cl j) d = Inr (Inr False)"
  shows "filterDepsToInstall c hasCR cl pick deps = Inr (Inr (filter (shouldInstallDep c) deps))"
proof -
  have flags: "installed_flags c hasCR cl j ds = Inr (map (\<lambda>_. Inr False) ds)" for j ds
    using assms by (induction ds arbitrary: j) simp_all
  have none: "flag_errors (map (\<lambda>_. Inr False) ds) = []" for ds :: "DependencyInfo list"
    by (induction ds) (simp_all add: flag_errors_def List.map_filter_simps)
  have all: "map fst (filter (\<lambda>(d, r). r \<noteq> Inr True) (zip ds (map (\<lambda>_. Inr False :: err + bool) ds))) = ds" for ds :: "DependencyInfo list"
    by (induction ds) simp_all
  show ?thesis by (simp add: filterDepsToInstall_def Let_def flags none all)
qed

section \<open>Properties\<close>


definition deps_semver :: semver_lib where
  "deps_semver = \<lparr>sv_Parse = (\<lambda>s. if s = ''3.4.0'' then Inr \<lparr>Major = 3, Minor = 4, Patch = 0, Pre = [], Build = []\<rparr>
       else Inl (NewError ''Invalid character(s) found in version'')),
     sv_ParseTolerant = (\<lambda>s. Inl (NewError ''not used'')), sv_EQ = (=), sv_LT = (\<lambda>_ _. False),
     sv_String = (\<lambda>v. ''3.4.0'')\<rparr>"

definition sample_manifest_env :: manifest_env where
  "sample_manifest_env = \<lparr>meValues = (\<lambda>_. Inr sample_manifest), meChart = (\<lambda>_. Inr ''3.4.0''), meDNS = (\<lambda>_. []),
     meEmbeddedManifest = ''dependencies:'', meEmbeddedChart = ''appVersion: 3.4.0'', meHTTP = (\<lambda>_. Response 404 (Inr [])),
     meRef = []\<rparr>"

definition sample_world :: install_world where
  "sample_world = \<lparr>wReader = OtherReader, wStdin = Inr [], wUnmarshal = (\<lambda>_. Inl (NewError ''x'')), wChanged = (\<lambda>_. False),
     wHasConfig = True, wNewClient = None, wDuration = (\<lambda>_. []), wPreds = \<lparr>dcAPI = status_api, dcNoMatch = (\<lambda>_. False)\<rparr>,
     wDiscovery = None, wHasCR = False, wMarshal = (\<lambda>_. None), wInstall = sample_env\<rparr>"


text \<open>
  C10. The dry run shows what an installation sends: on a cluster that accepts what it has not got yet and has no request for any
  dependency, with the service accounts that OLM v1 needs, if the dry run of a command returns no error then an
  installation with the same command sends exactly the requests of the preview, in their order, provided that the selected dependencies have
  different namespaces. (Where two share one, the preview repeats its operator group; and the dry run stops at the first dependency
  that OLM v1 cannot install, while the installation goes on with the others.)
\<close>

theorem dry_run_previews_install:
  assumes "InstallRun sv env w (c\<lparr>icDryRun := True, selectedOLMMode := sel\<rparr>) = Some (Inr (items, [], [], None))"
    and "dryRunMode w (c\<lparr>icDryRun := True, selectedOLMMode := sel\<rparr>) = Inr mode"
    and "InstallRun sv env w c = Some (Inr ([], h, rs, e))" and "\<not> icDryRun c" and "selectedOLMMode c = Some mode"
    and "accepts_new (ieAPI (wInstall w))"
    and "\<And>j d. isAlreadyInstalled c (ieHasCR (wInstall w)) (ieBefore (wInstall w) j) d = Inr (Inr False)"
    and "\<And>ns. mode = ModeV1 \<Longrightarrow> rdServiceAccount (ieAccounts (wInstall w)) ns (serviceAccountName c) = None"
    and "\<And>m mv. load_manifest sv env ''dependencies'' (icRefresh c) (icVersion c) (icManifestVersion c) = Inr (m, mv)
      \<Longrightarrow> distinct (map diNamespace (filter (shouldInstallDep c) (GetDependencies m)))"
  shows "concat (map dry_requests items) = h"
proof -
  let ?c = "c\<lparr>icDryRun := True, selectedOLMMode := sel\<rparr>"
  let ?l = "load_manifest sv env ''dependencies'' (icRefresh c) (icVersion c) (icManifestVersion c)"
  obtain m mv where l: "?l = Inr (m, mv)" using assms(1) by (cases ?l) (auto simp: InstallRun_def)
  let ?deps = "GetDependencies m" and ?ds = "filter (shouldInstallDep c) (GetDependencies m)"
  have known: "find (\<lambda>n. \<not> isValidDependency ?deps n) (case TargetDeps c of None \<Rightarrow> [] | Some ts \<Rightarrow> ts) = None"
    using assms(1) l by (auto simp: InstallRun_def Let_def split: option.splits)
  have dry: "runDryRun w ?c ?deps = (items, None)"
    using assms(1) l known by (auto simp: InstallRun_def Let_def split: prod.splits)
  have run: "runInstall c (wInstall w) ?deps = Some (Inr (h, rs, e))"
    using assms(3,4) l known by (auto simp: InstallRun_def Let_def map_sum_eq_Inr)
  have fresh: "filterDepsToInstall c (ieHasCR (wInstall w)) (ieBefore (wInstall w)) (iePick (wInstall w)) ?deps = Inr (Inr ?ds)"
    by (rule filterDeps_fresh [OF assms(7)])
  show ?thesis
  proof (cases "?ds = []")
    case True
    then show ?thesis using dry run fresh assms(2) by (auto simp: runDryRun_def runInstall_def filterDepsForDryRun_def)
  next
    case False
    then obtain its where its: "dry_run_loop (wMarshal w) c (Some mode) ?ds = (its, None)" "concat (map dry_requests items) = concat (map dry_requests its)"
      using dry assms(2) by (auto simp: runDryRun_def filterDepsForDryRun_def split: prod.splits)
    note shown = dry_loop_previewed [OF its(1)]
    from create_phase_previewed [OF assms(6,5) assms(9) [OF l], of "wMarshal w" "[]"] shown obtain cs where
      made: "create_phase c (ieAPI (wInstall w)) [] ?ds = Inr (concat (map (previewed (wMarshal w) c mode) ?ds), cs)" by auto
    have "validateServiceAccounts c (ieAccounts (wInstall w)) ?ds = None"
    proof (cases mode)
      case ModeV0
      then show ?thesis using assms(5) by (simp add: validateServiceAccounts_def)
    next
      case ModeV1
      have "first_some (\<lambda>_. None :: err option) xs = None" for xs :: "string list" by (induction xs) simp_all
      then show ?thesis using assms(8) ModeV1 by (simp add: validateServiceAccounts_def)
    qed
    then have "h = concat (map (previewed (wMarshal w) c mode) ?ds)"
      using run fresh made False by (auto simp: runInstall_def)
    then show ?thesis using its(2) shown by simp
  qed
qed

theorem dry_run_previews_install_witness:
  "\<exists>items h rs e.
     InstallRun deps_semver sample_manifest_env sample_world (sample_install\<lparr>icVersion := ''v3.4.0'', OLMMode := ''v0'', icDryRun := True, selectedOLMMode := None\<rparr>)
       = Some (Inr (items, [], [], None))
     \<and> InstallRun deps_semver sample_manifest_env sample_world (sample_install\<lparr>icVersion := ''v3.4.0'', OLMMode := ''v0''\<rparr>) = Some (Inr ([], h, rs, e))
     \<and> length h = 3 \<and> concat (map dry_requests items) = h"
proof -
  let ?c = "sample_install\<lparr>icVersion := ''v3.4.0'', OLMMode := ''v0''\<rparr>"
  let ?dry = "InstallRun deps_semver sample_manifest_env sample_world (?c\<lparr>icDryRun := True, selectedOLMMode := None\<rparr>)"
  let ?run = "InstallRun deps_semver sample_manifest_env sample_world ?c"
  have "case ?dry of Some (Inr (items, [], [], None)) \<Rightarrow> True | _ \<Rightarrow> False" by code_simp
  then obtain items where dry: "?dry = Some (Inr (items, [], [], None))"
    by (auto split: option.splits sum.splits prod.splits list.splits)
  have "case ?run of Some (Inr ([], h, rs, e)) \<Rightarrow> length h = 3 | _ \<Rightarrow> False" by code_simp
  then obtain h rs e where run: "?run = Some (Inr ([], h, rs, e))" "length h = 3"
    by (auto split: option.splits sum.splits prod.splits list.splits)
  have mode: "dryRunMode sample_world (?c\<lparr>icDryRun := True, selectedOLMMode := None\<rparr>) = Inr ModeV0" by code_simp
  have "case load_manifest deps_semver sample_manifest_env ''dependencies'' (icRefresh ?c) (icVersion ?c) (icManifestVersion ?c) of
      Inl _ \<Rightarrow> True | Inr (m, mv) \<Rightarrow> distinct (map diNamespace (filter (shouldInstallDep ?c) (GetDependencies m)))" by code_simp
  then have names: "distinct (map diNamespace (filter (shouldInstallDep ?c) (GetDependencies m)))"
    if "load_manifest deps_semver sample_manifest_env ''dependencies'' (icRefresh ?c) (icVersion ?c) (icManifestVersion ?c) = Inr (m, mv)" for m mv
    using that by simp
  have new: "accepts_new (ieAPI (wInstall sample_world))" by (simp add: accepts_new_def sample_world_def sample_env_def)
  have none: "isAlreadyInstalled ?c (ieHasCR (wInstall sample_world)) (ieBefore (wInstall sample_world) j) d = Inr (Inr False)" for j d
    by (simp add: isAlreadyInstalled_def sample_world_def sample_env_def sample_install_def empty_cluster_def getSubscription_def hasSucceededCSV_def
        first_succeeded_def status_api_def)
  have "concat (map dry_requests items) = h"
    by (rule dry_run_previews_install [OF dry mode run(1) _ _ new none _ names]) (simp_all add: sample_install_def)
  then show ?thesis using dry run by blast
qed

text \<open>
  The choice of the API: an explicitly requested API is used only if it is served and never
  replaced by the other; without a request installing prefers OLM v0, while checking prefers v1.
\<close>

theorem ResolveInstallMode_choice:
  "(ResolveInstallMode dp (Some d) requested = Inr mode \<longleftrightarrow>
      (case mode of ModeV0 \<Rightarrow> requested \<noteq> Some ModeV1 \<and> olm_v0 dp d = Inr True
       | ModeV1 \<Rightarrow> olm_v1 dp d = Inr True \<and> (requested = Some ModeV1 \<or> requested = None \<and> olm_v0 dp d = Inr False)))
   \<and> (DetectMode dp (Some d) = Inr mode \<longleftrightarrow>
      (case mode of ModeV1 \<Rightarrow> olm_v1 dp d = Inr True | ModeV0 \<Rightarrow> olm_v1 dp d = Inr False \<and> olm_v0 dp d = Inr True))
   \<and> (\<exists>e. ResolveInstallMode dp None requested = Inl e)"
proof (intro conjI)
  show "ResolveInstallMode dp (Some d) requested = Inr mode \<longleftrightarrow>
      (case mode of ModeV0 \<Rightarrow> requested \<noteq> Some ModeV1 \<and> olm_v0 dp d = Inr True
       | ModeV1 \<Rightarrow> olm_v1 dp d = Inr True \<and> (requested = Some ModeV1 \<or> requested = None \<and> olm_v0 dp d = Inr False))"
    by (cases "olm_v0 dp d"; cases "olm_v1 dp d"; cases mode; cases requested rule: option.exhaust; cases "the requested")
      (auto simp: ResolveInstallMode_def)
  show "DetectMode dp (Some d) = Inr mode \<longleftrightarrow>
      (case mode of ModeV1 \<Rightarrow> olm_v1 dp d = Inr True | ModeV0 \<Rightarrow> olm_v1 dp d = Inr False \<and> olm_v0 dp d = Inr True)"
    by (cases "olm_v0 dp d"; cases "olm_v1 dp d"; cases mode) (auto simp: DetectMode_def split: bool.splits)
qed (simp add: ResolveInstallMode_def)

end
