(* ===== verification/MigrateRecorder.thy ===== *)
theory MigrateRecorder
  imports Versions
begin

text \<open>
  Results and the recorder of migration steps: \<open>pkg/migrate/action/result/result.go\<close>,
  \<open>recorder.go\<close> and \<open>recorder_impl.go\<close>. Recorders are objects that point to each other; they are
  modelled as a store of nodes whose pointers are positions. Format strings are applied by the
  caller: operations take the message; the time of a step and the texts of details are arguments.
\<close>

section \<open>Results (\<open>result.go\<close>)\<close>

datatype StepStatus = StepPending | StepRunning | StepCompleted | StepFailed | StepSkipped

datatype ActionStep = ActionStep (asName: string) (asDescription: string) (asStatus: StepStatus) (asMessage: string)
  (asTimestamp: int) (asChildren: "ActionStep list") (asDetails: "(string, string) gomap")

record ActionResult =
  arGroup :: string
  arKind :: string
  arName :: string
  arAnnotations :: "(string, string) gomap"
  arDescription :: string
  arDryRun :: bool
  arSteps :: "ActionStep list"
  arCompleted :: bool
  arError :: string

definition NewActionResult :: "string \<Rightarrow> string \<Rightarrow> string \<Rightarrow> string \<Rightarrow> ActionResult" where
  "NewActionResult g kind name description = \<lparr>arGroup = g, arKind = kind, arName = name, arAnnotations = [],
     arDescription = description, arDryRun = False, arSteps = [], arCompleted = False, arError = []\<rparr>"

fun hasSkipped :: "ActionStep list \<Rightarrow> bool" where
  "hasSkipped [] = False"
| "hasSkipped (ActionStep n d st m t children det # steps) =
     (if st = StepSkipped then True else if hasSkipped children then True else hasSkipped steps)"

fun hasFailed :: "ActionStep list \<Rightarrow> bool" where
  "hasFailed [] = False"
| "hasFailed (ActionStep n d st m t children det # steps) =
     (if st = StepFailed then True else if hasFailed children then True else hasFailed steps)"

definition HasSkippedSteps :: "ActionResult \<Rightarrow> bool" where
  "HasSkippedSteps r = hasSkipped (arSteps r)"

definition HasFailedSteps :: "ActionResult \<Rightarrow> bool" where
  "HasFailedSteps r = hasFailed (arSteps r)"

definition NewStep :: "int \<Rightarrow> string \<Rightarrow> string \<Rightarrow> StepStatus \<Rightarrow> string \<Rightarrow> ActionStep" where
  "NewStep now name description status message = ActionStep name description status message now [] []"

section \<open>The recorder (\<open>recorder_impl.go\<close>)\<close>

text \<open>
  A node is a \<open>stepRecorderImpl\<close>: the step it records (none for the root), its parent and its
  children. The fields \<open>io\<close> and \<open>verbose\<close> are handed from the root to every child and are kept
  once. A recorder is only obtained from \<open>NewRootRecorder\<close> or \<open>Child\<close>, so its position is valid.
\<close>

record step_data =
  sdName :: string
  sdDescription :: string
  sdStatus :: StepStatus
  sdMessage :: string
  sdTimestamp :: int
  sdDetails :: "(string, string) gomap"

record rec_node =
  rnStep :: "step_data option"
  rnParent :: "nat option"
  rnChildren :: "nat list"

datatype rec_out = OutStart string | OutDone "string \<times> string" string

record recorder =
  rcNodes :: "rec_node list"
  rcVerbose :: bool
  rcIO :: bool
  rcOut :: "rec_out list"

definition NewRootRecorder :: recorder where
  "NewRootRecorder = \<lparr>rcNodes = [\<lparr>rnStep = None, rnParent = None, rnChildren = []\<rparr>], rcVerbose = False, rcIO = False, rcOut = []\<rparr>"

definition NewVerboseRootRecorder :: "bool \<Rightarrow> recorder" where
  "NewVerboseRootRecorder hasIO = NewRootRecorder\<lparr>rcIO := hasIO, rcVerbose := True\<rparr>"

definition RecChild :: "int \<Rightarrow> recorder \<Rightarrow> nat \<Rightarrow> string \<Rightarrow> string \<Rightarrow> recorder \<times> nat" where
  "RecChild now r p name description =
     (let ns = rcNodes r; n = length ns;
          step = \<lparr>sdName = name, sdDescription = description, sdStatus = StepRunning, sdMessage = [],
            sdTimestamp = now, sdDetails = []\<rparr>;
          child = \<lparr>rnStep = Some step, rnParent = Some p, rnChildren = []\<rparr> in
      (r\<lparr>rcNodes := ns[p := (ns ! p)\<lparr>rnChildren := rnChildren (ns ! p) @ [n]\<rparr>] @ [child],
         rcOut := rcOut r @ (if rcVerbose r \<and> rcIO r then [OutStart description] else [])\<rparr>, n))"

text \<open>The icon of a status: its colour and the glyph, in UTF-8.\<close>

definition getStatusIcon :: "StepStatus \<Rightarrow> string \<times> string" where
  "getStatusIcon status = (case status of
       StepCompleted \<Rightarrow> (''green'', [CHR 0xE2, CHR 0x9C, CHR 0x93])
     | StepFailed \<Rightarrow> (''red'', [CHR 0xE2, CHR 0x9C, CHR 0x97])
     | StepSkipped \<Rightarrow> (''yellow'', [CHR 0xE2, CHR 0x86, CHR 0x92])
     | _ \<Rightarrow> (''cyan'', [CHR 0xE2, CHR 0x8B, CHR 0xAF]))"

definition upd_step :: "(step_data \<Rightarrow> step_data) \<Rightarrow> rec_node list \<Rightarrow> nat \<Rightarrow> rec_node list" where
  "upd_step f ns p = ns[p := (ns ! p)\<lparr>rnStep := map_option f (rnStep (ns ! p))\<rparr>]"

definition RecCompletef :: "recorder \<Rightarrow> nat \<Rightarrow> StepStatus \<Rightarrow> string \<Rightarrow> recorder" where
  "RecCompletef r p status message =
     r\<lparr>rcNodes := upd_step (\<lambda>s. s\<lparr>sdStatus := status, sdMessage := message\<rparr>) (rcNodes r) p,
       rcOut := rcOut r @ (if rcVerbose r \<and> rcIO r \<and> message \<noteq> [] then [OutDone (getStatusIcon status) message] else [])\<rparr>"

definition RecAddDetail :: "recorder \<Rightarrow> nat \<Rightarrow> string \<Rightarrow> string \<Rightarrow> recorder" where
  "RecAddDetail r p key v =
     r\<lparr>rcNodes := upd_step (\<lambda>s. s\<lparr>sdDetails := AList.update key v (sdDetails s)\<rparr>) (rcNodes r) p\<rparr>"

definition RecRecordf :: "int \<Rightarrow> recorder \<Rightarrow> nat \<Rightarrow> string \<Rightarrow> string \<Rightarrow> StepStatus \<Rightarrow> recorder" where
  "RecRecordf now r p name message status =
     (case RecChild now r p name message of (r', child) \<Rightarrow> RecCompletef r' child status message)"

text \<open>
  The children of a node. A child is created after its parent, so the bounds always hold
  (\<open>wf_nodes\<close> below); they make the recursion of \<open>buildSteps\<close> visibly finite.
\<close>

definition node_children :: "rec_node list \<Rightarrow> nat \<Rightarrow> nat list" where
  "node_children ns p = filter (\<lambda>c. p < c \<and> c < length ns) (rnChildren (ns ! p))"

definition step_of :: "step_data \<Rightarrow> ActionStep list \<Rightarrow> ActionStep" where
  "step_of s children = ActionStep (sdName s) (sdDescription s) (sdStatus s) (sdMessage s) (sdTimestamp s) children (sdDetails s)"

function buildSteps :: "rec_node list \<Rightarrow> nat \<Rightarrow> ActionStep list" where
  "buildSteps ns p = concat (map (\<lambda>c. case rnStep (ns ! c) of None \<Rightarrow> []
     | Some s \<Rightarrow> [step_of s (buildSteps ns c)]) (node_children ns p))"
  by pat_completeness auto
termination
  by (relation "measure (\<lambda>(ns, p). length ns - p)") (auto simp: node_children_def)

definition RecBuild :: "recorder \<Rightarrow> nat \<Rightarrow> ActionResult" where
  "RecBuild r p = (NewActionResult [] [] [] [])\<lparr>arSteps := buildSteps (rcNodes r) p, arCompleted := True\<rparr>"

section \<open>Specification: a tree of steps\<close>

datatype rec_tree = RecTree nat "step_data option" "rec_tree list"

fun tree_add :: "nat \<Rightarrow> nat \<Rightarrow> step_data \<Rightarrow> rec_tree \<Rightarrow> rec_tree" where
  "tree_add p n s (RecTree q d ts) =
     RecTree q d (map (tree_add p n s) ts @ (if q = p then [RecTree n (Some s) []] else []))"

fun tree_update :: "nat \<Rightarrow> (step_data \<Rightarrow> step_data) \<Rightarrow> rec_tree \<Rightarrow> rec_tree" where
  "tree_update p f (RecTree q d ts) = RecTree q (if q = p then map_option f d else d) (map (tree_update p f) ts)"

fun tree_steps :: "rec_tree \<Rightarrow> ActionStep list" where
  "tree_steps (RecTree q d ts) = (case d of None \<Rightarrow> [] | Some s \<Rightarrow> [step_of s (concat (map tree_steps ts))])"

text \<open>The tree a store represents.\<close>

function rec_abs :: "rec_node list \<Rightarrow> nat \<Rightarrow> rec_tree" where
  "rec_abs ns p = RecTree p (rnStep (ns ! p)) (map (rec_abs ns) (node_children ns p))"
  by pat_completeness auto
termination
  by (relation "measure (\<lambda>(ns, p). length ns - p)") (auto simp: node_children_def)

text \<open>The invariant of the store.\<close>

definition wf_nodes :: "rec_node list \<Rightarrow> bool" where
  "wf_nodes ns \<longleftrightarrow> ns \<noteq> [] \<and> rnParent (ns ! 0) = None \<and> rnStep (ns ! 0) = None
     \<and> (\<forall>p<length ns. \<forall>c\<in>set (rnChildren (ns ! p)). p < c \<and> c < length ns \<and> rnParent (ns ! c) = Some p)
     \<and> (\<forall>c<length ns. 0 < c \<longrightarrow> rnStep (ns ! c) \<noteq> None
          \<and> (\<exists>p<c. rnParent (ns ! c) = Some p \<and> c \<in> set (rnChildren (ns ! p))))"

text \<open>The operations on a recorder, for sequences of them; positions are checked as handed out.\<close>

datatype rec_op =
    OpChild int nat string string
  | OpComplete nat StepStatus string
  | OpDetail nat string string
  | OpRecord int nat string string StepStatus

fun rec_step :: "recorder \<Rightarrow> rec_op \<Rightarrow> recorder" where
  "rec_step r (OpChild now p name d) = fst (RecChild now r p name d)"
| "rec_step r (OpComplete p st m) = RecCompletef r p st m"
| "rec_step r (OpDetail p k v) = RecAddDetail r p k v"
| "rec_step r (OpRecord now p name m st) = RecRecordf now r p name m st"

fun op_target :: "rec_op \<Rightarrow> nat" where
  "op_target (OpChild now p name d) = p"
| "op_target (OpComplete p st m) = p"
| "op_target (OpDetail p k v) = p"
| "op_target (OpRecord now p name m st) = p"

inductive recorded :: "recorder \<Rightarrow> bool" where
  recorded_new: "recorded NewRootRecorder"
| recorded_verbose: "recorded (NewVerboseRootRecorder hasIO)"
| recorded_step: "recorded r \<Longrightarrow> op_target op < length (rcNodes r) \<Longrightarrow> recorded (rec_step r op)"

section \<open>Lemmas\<close>

declare buildSteps.simps [simp del] rec_abs.simps [simp del]

lemma tree_steps_abs:
  "tree_steps (rec_abs ns p) = (case rnStep (ns ! p) of None \<Rightarrow> []
     | Some s \<Rightarrow> [step_of s (concat (map (\<lambda>c. tree_steps (rec_abs ns c)) (node_children ns p)))])"
  by (subst rec_abs.simps) (simp only: tree_steps.simps map_map comp_def)

lemma buildSteps_abs: "buildSteps ns p = concat (map (\<lambda>c. tree_steps (rec_abs ns c)) (node_children ns p))"
proof (induction ns p rule: buildSteps.induct)
  case (1 ns p)
  have "(case rnStep (ns ! c) of None \<Rightarrow> [] | Some s \<Rightarrow> [step_of s (buildSteps ns c)]) = tree_steps (rec_abs ns c)"
    if "c \<in> set (node_children ns p)" for c
    unfolding tree_steps_abs [of ns c] using 1 [OF that] by (cases "rnStep (ns ! c)") simp_all
  then show ?case by (subst buildSteps.simps) (simp cong: map_cong)
qed

lemma wf_child_bound:
  "wf_nodes ns \<Longrightarrow> p < length ns \<Longrightarrow> c \<in> set (rnChildren (ns ! p)) \<Longrightarrow> p < c \<and> c < length ns \<and> rnParent (ns ! c) = Some p"
  unfolding wf_nodes_def by blast

lemma wf_parent:
  "wf_nodes ns \<Longrightarrow> c < length ns \<Longrightarrow> 0 < c \<Longrightarrow>
     rnStep (ns ! c) \<noteq> None \<and> (\<exists>p<c. rnParent (ns ! c) = Some p \<and> c \<in> set (rnChildren (ns ! p)))"
  unfolding wf_nodes_def by blast

lemma wf_root: "wf_nodes ns \<Longrightarrow> ns \<noteq> [] \<and> rnParent (ns ! 0) = None \<and> rnStep (ns ! 0) = None"
  unfolding wf_nodes_def by blast

lemma wf_children: "wf_nodes ns \<Longrightarrow> p < length ns \<Longrightarrow> node_children ns p = rnChildren (ns ! p)"
  unfolding node_children_def filter_id_conv using wf_child_bound by blast

text \<open>The store after \<open>Child\<close>.\<close>

definition add_child :: "rec_node list \<Rightarrow> nat \<Rightarrow> step_data \<Rightarrow> rec_node list" where
  "add_child ns p s = ns[p := (ns ! p)\<lparr>rnChildren := rnChildren (ns ! p) @ [length ns]\<rparr>]
     @ [\<lparr>rnStep = Some s, rnParent = Some p, rnChildren = []\<rparr>]"

definition new_step :: "int \<Rightarrow> string \<Rightarrow> string \<Rightarrow> step_data" where
  "new_step now name description = \<lparr>sdName = name, sdDescription = description, sdStatus = StepRunning, sdMessage = [],
     sdTimestamp = now, sdDetails = []\<rparr>"

lemma RecChild_nodes:
  "rcNodes (fst (RecChild now r p name d)) = add_child (rcNodes r) p (new_step now name d)"
  "snd (RecChild now r p name d) = length (rcNodes r)"
  by (simp_all add: RecChild_def add_child_def new_step_def Let_def)

lemma add_child_nth:
  assumes "p < length ns" and "c < length (add_child ns p s)"
  shows "rnStep (add_child ns p s ! c) = (if c = length ns then Some s else rnStep (ns ! c))"
    and "rnParent (add_child ns p s ! c) = (if c = length ns then Some p else rnParent (ns ! c))"
    and "rnChildren (add_child ns p s ! c) = (if c = length ns then [] else
      rnChildren (ns ! c) @ (if c = p then [length ns] else []))"
  using assms by (auto simp: add_child_def nth_append nth_list_update)

lemma length_add_child [simp]: "length (add_child ns p s) = Suc (length ns)"
  by (simp add: add_child_def)

lemma wf_add_child:
  assumes wf: "wf_nodes ns" and p: "p < length ns"
  shows "wf_nodes (add_child ns p s)"
  unfolding wf_nodes_def
proof (intro conjI allI impI ballI)
  note nth = add_child_nth [OF p, of _ s]
  have ne: "0 < length ns" using p by (rule le_less_trans [OF le0])
  show "add_child ns p s \<noteq> []" by (simp add: add_child_def)
  show "rnParent (add_child ns p s ! 0) = None" "rnStep (add_child ns p s ! 0) = None"
    using wf_root [OF wf] ne by (auto simp: nth)
  fix q c
  assume q: "q < length (add_child ns p s)" and c: "c \<in> set (rnChildren (add_child ns p s ! q))"
  show "q < c" "c < length (add_child ns p s)" "rnParent (add_child ns p s ! c) = Some q"
    using q c p wf_child_bound [OF wf, of q c] by (auto simp: nth split: if_splits)
next
  note nth = add_child_nth [OF p, of _ s]
  fix c
  assume c: "c < length (add_child ns p s)" "0 < c"
  show "rnStep (add_child ns p s ! c) \<noteq> None" using c wf_parent [OF wf, of c] by (auto simp: nth less_Suc_eq)
  show "\<exists>q<c. rnParent (add_child ns p s ! c) = Some q \<and> c \<in> set (rnChildren (add_child ns p s ! q))"
  proof (cases "c = length ns")
    case True
    with p c show ?thesis by (intro exI [of _ p]) (simp add: nth)
  next
    case False
    then obtain q where "q < c" "rnParent (ns ! c) = Some q" "c \<in> set (rnChildren (ns ! q))"
      using c wf_parent [OF wf, of c] by auto
    with c False show ?thesis by (intro exI [of _ q]) (simp add: nth)
  qed
qed

lemma length_upd_step [simp]: "length (upd_step f ns p) = length ns"
  by (simp add: upd_step_def)

lemma upd_step_nth:
  assumes "p < length ns"
  shows "rnChildren (upd_step f ns p ! q) = rnChildren (ns ! q)" "rnParent (upd_step f ns p ! q) = rnParent (ns ! q)"
    and "rnStep (upd_step f ns p ! q) = (if q = p then map_option f (rnStep (ns ! q)) else rnStep (ns ! q))"
  using assms by (cases "q = p"; simp add: upd_step_def)+

lemma wf_upd_step:
  assumes "wf_nodes ns" and "p < length ns"
  shows "wf_nodes (upd_step f ns p)"
proof -
  note nth = upd_step_nth [OF assms(2), of f]
  have st: "rnStep (upd_step f ns p ! q) = None \<longleftrightarrow> rnStep (ns ! q) = None" for q
    by (simp add: nth)
  have "upd_step f ns p = [] \<longleftrightarrow> ns = []" by (simp add: upd_step_def)
  with assms(1) show ?thesis unfolding wf_nodes_def nth(1,2) st length_upd_step by blast
qed

text \<open>Each operation on the store is the one on the tree.\<close>

lemma abs_add_child:
  assumes "wf_nodes ns" and "p < length ns"
  shows "q < length ns \<Longrightarrow> rec_abs (add_child ns p s) q = tree_add p (length ns) s (rec_abs ns q)"
proof (induction "length ns - q" arbitrary: q rule: less_induct)
  case less
  let ?ns = "add_child ns p s"
  have kids: "node_children ?ns q = rnChildren (ns ! q) @ (if q = p then [length ns] else [])"
    using wf_children [OF wf_add_child [OF assms], of q s] less.prems by (simp add: add_child_nth assms(2))
  have leaf: "rec_abs ?ns (length ns) = RecTree (length ns) (Some s) []"
    using wf_children [OF wf_add_child [OF assms], of "length ns" s]
    by (subst rec_abs.simps) (simp add: add_child_nth assms(2))
  have "rec_abs ?ns c = tree_add p (length ns) s (rec_abs ns c)" if "c \<in> set (rnChildren (ns ! q))" for c
    using wf_child_bound [OF assms(1) less.prems that] less.prems by (intro less.hyps) auto
  then show ?case using less.prems
    unfolding rec_abs.simps [of ?ns q] rec_abs.simps [of ns q]
    by (simp add: kids leaf wf_children assms add_child_nth)
qed

lemma abs_upd_step:
  assumes "wf_nodes ns" and "p < length ns"
  shows "q < length ns \<Longrightarrow> rec_abs (upd_step f ns p) q = tree_update p f (rec_abs ns q)"
proof (induction "length ns - q" arbitrary: q rule: less_induct)
  case less
  let ?ns = "upd_step f ns p"
  have kids: "node_children ?ns q = rnChildren (ns ! q)"
    using wf_children [OF wf_upd_step [OF assms], of q f] less.prems by (simp add: upd_step_nth assms(2))
  have "rec_abs ?ns c = tree_update p f (rec_abs ns c)" if "c \<in> set (rnChildren (ns ! q))" for c
    using wf_child_bound [OF assms(1) less.prems that] less.prems by (intro less.hyps) auto
  then show ?case using less.prems
    unfolding rec_abs.simps [of ?ns q] rec_abs.simps [of ns q]
    by (simp add: kids wf_children assms upd_step_nth)
qed

text \<open>Which statuses occur among recorded steps.\<close>

fun any_status :: "StepStatus \<Rightarrow> ActionStep list \<Rightarrow> bool" where
  "any_status x [] = False"
| "any_status x (ActionStep n d st m t children det # steps) = (st = x \<or> any_status x children \<or> any_status x steps)"

lemma hasFailed_any: "hasFailed steps = any_status StepFailed steps"
  by (induction steps rule: hasFailed.induct) auto

lemma hasSkipped_any: "hasSkipped steps = any_status StepSkipped steps"
  by (induction steps rule: hasSkipped.induct) auto

lemma bex_nth: "(\<exists>x\<in>set xs. P x) \<longleftrightarrow> (\<exists>i<length xs. P (xs ! i))"
  by (metis in_set_conv_nth)

lemma any_status_append [simp]: "any_status x (as @ bs) = (any_status x as \<or> any_status x bs)"
  by (induction x as rule: any_status.induct) auto

lemma any_status_concat: "any_status x (concat xss) = (\<exists>xs\<in>set xss. any_status x xs)"
  by (induction xss) auto

definition node_status :: "rec_node \<Rightarrow> StepStatus option" where
  "node_status n = map_option sdStatus (rnStep n)"

lemma any_status_build:
  "any_status x (buildSteps ns p) = (\<exists>c\<in>set (node_children ns p). node_status (ns ! c) = Some x
     \<or> (rnStep (ns ! c) \<noteq> None \<and> any_status x (buildSteps ns c)))"
  by (subst buildSteps.simps) (force simp: any_status_concat node_status_def step_of_def split: option.splits)

lemma any_status_node:
  "any_status x (buildSteps ns p) \<Longrightarrow> \<exists>c<length ns. node_status (ns ! c) = Some x"
proof (induction ns p rule: buildSteps.induct)
  case (1 ns p)
  then obtain c where c: "c \<in> set (node_children ns p)"
      "node_status (ns ! c) = Some x \<or> (rnStep (ns ! c) \<noteq> None \<and> any_status x (buildSteps ns c))"
    using any_status_build by blast
  then have "c < length ns" by (simp add: node_children_def)
  with c 1(1) [OF c(1)] show ?case by blast
qed

lemma any_status_root:
  assumes "wf_nodes ns"
  shows "c < length ns \<Longrightarrow> any_status x (buildSteps ns c) \<or> node_status (ns ! c) = Some x \<Longrightarrow> any_status x (buildSteps ns 0)"
proof (induction c rule: less_induct)
  case (less c)
  show ?case
  proof (cases "c = 0")
    case True
    with less.prems wf_root [OF assms] show ?thesis by (auto simp: node_status_def)
  next
    case False
    then obtain p where p: "p < c" "c \<in> set (rnChildren (ns ! p))" and st: "rnStep (ns ! c) \<noteq> None"
      using wf_parent [OF assms less.prems(1)] by auto
    have "c \<in> set (node_children ns p)" using p less.prems(1) by (simp add: node_children_def)
    then have "any_status x (buildSteps ns p)" using any_status_build st less.prems(2) by blast
    with p(1) less.prems(1) less.IH [of p] show ?thesis by simp
  qed
qed

lemma any_status_iff:
  "wf_nodes ns \<Longrightarrow> any_status x (buildSteps ns 0) \<longleftrightarrow> (\<exists>c<length ns. node_status (ns ! c) = Some x)"
  using any_status_node any_status_root by blast

lemma wf_rec_step:
  assumes "wf_nodes (rcNodes r)" and "op_target op < length (rcNodes r)"
  shows "wf_nodes (rcNodes (rec_step r op))"
proof (cases op)
  case (OpChild now p name d)
  with assms show ?thesis by (simp add: RecChild_nodes wf_add_child)
next
  case (OpComplete p st m)
  with assms show ?thesis by (simp add: RecCompletef_def wf_upd_step)
next
  case (OpDetail p k v)
  with assms show ?thesis by (simp add: RecAddDetail_def wf_upd_step)
next
  case (OpRecord now p name m st)
  with assms show ?thesis
    by (simp add: RecRecordf_def RecCompletef_def case_prod_beta RecChild_nodes wf_add_child wf_upd_step)
qed

lemma recorded_wf: "recorded r \<Longrightarrow> wf_nodes (rcNodes r)"
proof (induction rule: recorded.induct)
  case (recorded_step r op)
  then show ?case by (blast intro: wf_rec_step)
qed (auto simp: NewRootRecorder_def NewVerboseRootRecorder_def wf_nodes_def)

lemma upd_new_child:
  "p < length ns \<Longrightarrow> upd_step f (add_child ns p s) (length ns) = add_child ns p (f s)"
  by (simp add: upd_step_def add_child_def nth_append list_update_append)

section \<open>Properties\<close>

text \<open>
  C17. The recorder is a tree of steps: on every store reached by its operations, \<open>Child\<close> adds a leaf
  below the node it is called on and nothing else, \<open>Completef\<close> and \<open>AddDetail\<close> change the step of that node only,
  \<open>Recordf\<close> adds a leaf that already has its status and message,
  and \<open>Build\<close> returns the steps of the tree, every child below its parent and in the order
  of creation.
\<close>

theorem recorder_refines_tree:
  assumes "recorded r" and "p < length (rcNodes r)"
  shows "(rec_abs (rcNodes (fst (RecChild now r p name d))) 0
      = tree_add p (snd (RecChild now r p name d)) (new_step now name d) (rec_abs (rcNodes r) 0))
    \<and> (rec_abs (rcNodes (RecCompletef r p st m)) 0
      = tree_update p (\<lambda>s. s\<lparr>sdStatus := st, sdMessage := m\<rparr>) (rec_abs (rcNodes r) 0))
    \<and> (rec_abs (rcNodes (RecAddDetail r p k v)) 0
      = tree_update p (\<lambda>s. s\<lparr>sdDetails := AList.update k v (sdDetails s)\<rparr>) (rec_abs (rcNodes r) 0))
    \<and> (rec_abs (rcNodes (RecRecordf now r p name m st)) 0
      = tree_add p (length (rcNodes r)) \<lparr>sdName = name, sdDescription = m, sdStatus = st, sdMessage = m, sdTimestamp = now, sdDetails = []\<rparr>
          (rec_abs (rcNodes r) 0))
    \<and> arSteps (RecBuild r 0) = (case rec_abs (rcNodes r) 0 of RecTree q s ts \<Rightarrow> concat (map tree_steps ts))"
proof (intro conjI)
  note wf = recorded_wf [OF assms(1)]
  have z: "0 < length (rcNodes r)" using assms(2) by (rule le_less_trans [OF le0])
  show "rec_abs (rcNodes (fst (RecChild now r p name d))) 0
      = tree_add p (snd (RecChild now r p name d)) (new_step now name d) (rec_abs (rcNodes r) 0)"
    by (simp add: RecChild_nodes abs_add_child [OF wf assms(2) z])
  show "rec_abs (rcNodes (RecCompletef r p st m)) 0
      = tree_update p (\<lambda>s. s\<lparr>sdStatus := st, sdMessage := m\<rparr>) (rec_abs (rcNodes r) 0)"
    by (simp add: RecCompletef_def abs_upd_step [OF wf assms(2) z])
  show "rec_abs (rcNodes (RecAddDetail r p k v)) 0
      = tree_update p (\<lambda>s. s\<lparr>sdDetails := AList.update k v (sdDetails s)\<rparr>) (rec_abs (rcNodes r) 0)"
    by (simp add: RecAddDetail_def abs_upd_step [OF wf assms(2) z])
  show "rec_abs (rcNodes (RecRecordf now r p name m st)) 0
      = tree_add p (length (rcNodes r)) \<lparr>sdName = name, sdDescription = m, sdStatus = st, sdMessage = m, sdTimestamp = now, sdDetails = []\<rparr>
          (rec_abs (rcNodes r) 0)"
    by (simp add: RecRecordf_def RecCompletef_def case_prod_beta RecChild_nodes upd_new_child [OF assms(2)] abs_add_child [OF wf assms(2) z])
      (simp add: new_step_def)
  show "arSteps (RecBuild r 0) = (case rec_abs (rcNodes r) 0 of RecTree q s ts \<Rightarrow> concat (map tree_steps ts))"
    by (subst rec_abs.simps) (simp add: RecBuild_def buildSteps_abs comp_def)
qed

text \<open>
  C18. A result reports failed (skipped) steps exactly when some step, at whatever depth, was last
  completed as failed (skipped): nothing recorded on any recorder is lost, and the result is
  always marked completed.
\<close>

theorem recorded_status_reported:
  assumes "recorded r"
  shows "(HasFailedSteps (RecBuild r 0) \<longleftrightarrow> (\<exists>n\<in>set (rcNodes r). node_status n = Some StepFailed))
    \<and> (HasSkippedSteps (RecBuild r 0) \<longleftrightarrow> (\<exists>n\<in>set (rcNodes r). node_status n = Some StepSkipped))
    \<and> arCompleted (RecBuild r 0)"
  by (simp add: HasFailedSteps_def HasSkippedSteps_def hasFailed_any hasSkipped_any RecBuild_def NewActionResult_def
      any_status_iff [OF recorded_wf [OF assms]] bex_nth)

text \<open>A recorder with a step that has a failed and a skipped sub-step.\<close>

definition sample_recorder :: recorder where
  "sample_recorder = foldl rec_step NewRootRecorder
     [OpChild 1 0 ''backup'' ''Back up'', OpRecord 2 1 ''a'' ''denied'' StepFailed, OpRecord 3 1 ''b'' ''absent'' StepSkipped,
      OpDetail 1 ''count'' ''2'', OpComplete 1 StepCompleted ''done'']"

lemma sample_recorded: "recorded sample_recorder"
  unfolding sample_recorder_def foldl.simps by (intro recorded_step recorded_new) code_simp+

theorem recorder_refines_tree_witness:
  "rec_abs (rcNodes (RecRecordf 4 sample_recorder 2 ''c'' ''again'' StepFailed)) 0
     = tree_add 2 4 \<lparr>sdName = ''c'', sdDescription = ''again'', sdStatus = StepFailed, sdMessage = ''again'', sdTimestamp = 4, sdDetails = []\<rparr>
         (rec_abs (rcNodes sample_recorder) 0)"
proof -
  have two: "2 < length (rcNodes sample_recorder)" and len: "length (rcNodes sample_recorder) = 4" by code_simp+
  from recorder_refines_tree [OF sample_recorded two, of 4 "''c''" "''again''" "StepFailed" "''again''"] len
  show ?thesis by simp
qed

theorem recorded_status_reported_witness:
  "HasFailedSteps (RecBuild sample_recorder 0) \<and> HasSkippedSteps (RecBuild sample_recorder 0)
   \<and> arCompleted (RecBuild sample_recorder 0)"
proof -
  have "\<exists>n\<in>set (rcNodes sample_recorder). node_status n = Some StepFailed"
       "\<exists>n\<in>set (rcNodes sample_recorder). node_status n = Some StepSkipped" by code_simp+
  with recorded_status_reported [OF sample_recorded] show ?thesis by blast
qed

end
