(* ===== verification/MigrateAction.thy ===== *)
theory MigrateAction
  imports MigrateRecorder Glob
begin

text \<open>
  Migration actions: \<open>pkg/migrate/action/action.go\<close>, \<open>registry.go\<close>, \<open>executor.go\<close>, \<open>flags.go\<close>, the
  phases of \<open>pkg/migrate/phase.go\<close> and the actions of \<open>pkg/migrate/registry.go\<close> with the versions
  each applies to. The type \<open>'s\<close> is the state outside the program (cluster and files) that tasks
  read and change; what a task does is an argument. \<open>Inl\<close> of a string is a panic.
\<close>

section \<open>Actions (\<open>action.go\<close>)\<close>

abbreviation GroupMigration :: string where "GroupMigration \<equiv> ''migration''"
abbreviation GroupBackup :: string where "GroupBackup \<equiv> ''backup''"
abbreviation GroupValidation :: string where "GroupValidation \<equiv> ''validation''"

abbreviation PhasePreUpgrade :: string where "PhasePreUpgrade \<equiv> ''pre-upgrade''"
abbreviation PhasePostUpgrade :: string where "PhasePostUpgrade \<equiv> ''post-upgrade''"
abbreviation PhasePreEnablement :: string where "PhasePreEnablement \<equiv> ''pre-enablement''"

definition PhaseValidate :: "string \<Rightarrow> err option" where
  "PhaseValidate p = (if p \<in> {PhasePreUpgrade, PhasePostUpgrade, PhasePreEnablement, []} then None
     else Some (NewError (''invalid phase '' @ go_quote p @ '': must be one of: pre-upgrade, post-upgrade, pre-enablement'')))"

record MigrateTarget =
  tgCurrent :: "Version option"
  tgTarget :: "Version option"
  tgDryRun :: bool
  tgSkipConfirm :: bool
  tgOutputDir :: string

text \<open>A task returns a result that may be nil and an error that may be nil.\<close>

record 's Task =
  tkValidate :: "MigrateTarget \<Rightarrow> 's \<Rightarrow> 's \<times> ActionResult option \<times> err option"
  tkExecute :: "MigrateTarget \<Rightarrow> 's \<Rightarrow> 's \<times> ActionResult option \<times> err option"

text \<open>\<open>actFlags\<close>: for an \<open>ActionConfigurer\<close>, the flags it adds, each with the variable it sets.\<close>

record 's Action =
  actID :: string
  actName :: string
  actDescription :: string
  actGroup :: string
  actPhase :: string
  actCanApply :: "MigrateTarget \<Rightarrow> string + bool"
  actPrepare :: "'s Task option"
  actRun :: "'s Task option"
  actFlags :: "(string \<times> string) list option"

section \<open>The registry (\<open>registry.go\<close>)\<close>

type_synonym 's ActionRegistry = "(string, 's Action) gomap"

definition NewActionRegistry :: "'s ActionRegistry" where
  "NewActionRegistry = []"

definition ActionRegister :: "'s ActionRegistry \<Rightarrow> 's Action \<Rightarrow> err + 's ActionRegistry" where
  "ActionRegister r a =
     (case map_of r (actID a) of
        Some _ \<Rightarrow> Inl (NewError (''action with ID '' @ go_quote (actID a) @ '' already registered''))
      | None \<Rightarrow> Inr (AList.update (actID a) a r))"

definition ActionMustRegister :: "'s ActionRegistry \<Rightarrow> 's Action \<Rightarrow> string + 's ActionRegistry" where
  "ActionMustRegister r a = (case ActionRegister r a of Inl e \<Rightarrow> Inl (err_string e) | Inr r' \<Rightarrow> Inr r')"

definition ActionGet :: "'s ActionRegistry \<Rightarrow> string \<Rightarrow> 's Action option" where
  "ActionGet r aid = map_of r aid"

definition sort_actions :: "'s Action list \<Rightarrow> 's Action list" where
  "sort_actions as = sort_slice (\<lambda>a b. actID a < actID b) as"

definition ActionListAll :: "'s ActionRegistry \<Rightarrow> 's Action list" where
  "ActionListAll r = sort_actions (map snd r)"

definition ActionIDs :: "'s ActionRegistry \<Rightarrow> string list" where
  "ActionIDs r = map actID (ActionListAll r)"

definition ActionListByPhase :: "'s ActionRegistry \<Rightarrow> string \<Rightarrow> 's Action list" where
  "ActionListByPhase r phase = sort_actions (filter (\<lambda>a. actPhase a = phase) (map snd r))"

text \<open>The loop over the map, in its iteration order.\<close>

fun filter_actions :: "string \<Rightarrow> string \<Rightarrow> string \<Rightarrow> (string \<times> 's Action) list \<Rightarrow> err + 's Action list" where
  "filter_actions pattern g phase [] = Inr []"
| "filter_actions pattern g phase ((aid, a) # as) =
     (if g \<noteq> [] \<and> actGroup a \<noteq> g then filter_actions pattern g phase as
      else if phase \<noteq> [] \<and> actPhase a \<noteq> phase then filter_actions pattern g phase as
      else case path_match pattern aid of
          Inl _ \<Rightarrow> Inl (wrapf (''invalid pattern '' @ go_quote pattern) (NewError ''syntax error in pattern''))
        | Inr match \<Rightarrow> bind_res (filter_actions pattern g phase as) (\<lambda>rest. Inr (if match then a # rest else rest)))"

definition ActionListByFilter :: "'s ActionRegistry \<Rightarrow> string \<Rightarrow> string \<Rightarrow> string \<Rightarrow> err + 's Action list" where
  "ActionListByFilter r pattern g phase =
     bind_res (filter_actions pattern g phase r) (\<lambda>as. Inr (sort_actions as))"

definition ActionListByPattern :: "'s ActionRegistry \<Rightarrow> string \<Rightarrow> string \<Rightarrow> err + 's Action list" where
  "ActionListByPattern r pattern g = ActionListByFilter r pattern g []"

section \<open>The executor (\<open>executor.go\<close>)\<close>

record 's ActionExecution =
  aeAction :: "'s Action"
  aeResult :: "ActionResult option"
  aeError :: "err option"

definition action_error_result :: "'s Action \<Rightarrow> string \<Rightarrow> ActionResult" where
  "action_error_result a msg =
     (NewActionResult (actGroup a) (actID a) (actName a) (actDescription a))\<lparr>arError := msg\<rparr>"

definition executeAction :: "MigrateTarget \<Rightarrow> 's Action \<Rightarrow> 's \<Rightarrow> 's \<times> 's ActionExecution" where
  "executeAction target a s =
     (case actRun a of
        None \<Rightarrow> (s, \<lparr>aeAction = a, aeResult = Some (action_error_result a ''Action has no run task''),
                    aeError = Some (NewError (''action '' @ actID a @ '' has no run task''))\<rparr>)
      | Some t \<Rightarrow>
          (case tkExecute t target s of
             (s', r, Some e) \<Rightarrow> (s', \<lparr>aeAction = a,
                 aeResult = Some (action_error_result a (''Action execution failed: '' @ err_string e)), aeError = Some e\<rparr>)
           | (s', r, None) \<Rightarrow> (s', \<lparr>aeAction = a, aeResult = r, aeError = None\<rparr>)))"

fun executeActions ::
  "MigrateTarget \<Rightarrow> 's Action list \<Rightarrow> 's \<Rightarrow> string + ('s \<times> 's ActionExecution list)" where
  "executeActions target [] s = Inr (s, [])"
| "executeActions target (a # as) s =
     bind_res (actCanApply a target) (\<lambda>apply.
       if \<not> apply then executeActions target as s
       else case executeAction target a s of (s', ex) \<Rightarrow>
         bind_res (executeActions target as s') (\<lambda>(s'', exs). Inr (s'', ex # exs)))"

definition ActionExecuteAll ::
  "'s ActionRegistry \<Rightarrow> MigrateTarget \<Rightarrow> 's \<Rightarrow> string + ('s \<times> 's ActionExecution list)" where
  "ActionExecuteAll r target s = executeActions target (ActionListAll r) s"

definition ActionExecuteSelective ::
  "'s ActionRegistry \<Rightarrow> MigrateTarget \<Rightarrow> string \<Rightarrow> string \<Rightarrow> string \<Rightarrow> 's
     \<Rightarrow> string + (err + ('s \<times> 's ActionExecution list))" where
  "ActionExecuteSelective r target pattern g phase s =
     (case ActionListByFilter r pattern g phase of
        Inl e \<Rightarrow> Inr (Inl (wrapf ''selecting actions'' e))
      | Inr as \<Rightarrow> bind_res (executeActions target as s) (\<lambda>x. Inr (Inr x)))"

section \<open>Flags of actions (\<open>flags.go\<close>)\<close>

text \<open>A flag set: names and the variables they set, whose identity is compared.\<close>

fun merge_flags :: "string \<Rightarrow> (string \<times> string) list \<Rightarrow> (string, string) gomap \<Rightarrow> string + (string, string) gomap" where
  "merge_flags aid [] fs = Inr fs"
| "merge_flags aid ((name, var) # flags) fs =
     (case map_of fs name of
        Some existing \<Rightarrow>
          if existing = var then merge_flags aid flags fs
          else Inl (''flag --'' @ name @ '' registered by action '' @ go_quote aid
            @ '' conflicts with an existing flag; use a unique flag name, e.g., --''
            @ hd (split_on CHR ''.'' aid) @ ''-'' @ name)
      | None \<Rightarrow> merge_flags aid flags (fs @ [(name, var)]))"

fun register_action_flags :: "'s Action list \<Rightarrow> (string, string) gomap \<Rightarrow> string + (string, string) gomap" where
  "register_action_flags [] fs = Inr fs"
| "register_action_flags (a # as) fs =
     (case actFlags a of
        None \<Rightarrow> register_action_flags as fs
      | Some flags \<Rightarrow>
          bind_res (merge_flags (actID a) (sort_slice (\<lambda>x y. fst x < fst y) flags) fs) (register_action_flags as))"

definition RegisterActionFlags :: "'s ActionRegistry \<Rightarrow> (string, string) gomap \<Rightarrow> string + (string, string) gomap" where
  "RegisterActionFlags r fs = register_action_flags (ActionListAll r) fs"

section \<open>Phases (\<open>phase.go\<close>)\<close>

definition DetectPhase :: "semver_lib \<Rightarrow> Version option \<Rightarrow> Version option \<Rightarrow> err + string" where
  "DetectPhase sv current target =
     (case current of
        None \<Rightarrow> Inl (NewError ''current version is required for phase detection'')
      | Some c \<Rightarrow>
          (case target of
             None \<Rightarrow> Inl (NewError ''target version is required for phase detection'')
           | Some t \<Rightarrow> Inr (if sv_LT sv c t then PhasePreUpgrade else PhasePostUpgrade)))"

definition filterByPhase :: "'s Action list \<Rightarrow> string \<Rightarrow> 's Action list" where
  "filterByPhase as phase = (if phase = [] then as else filter (\<lambda>a. actPhase a = phase) as)"

fun applicable_ids :: "MigrateTarget \<Rightarrow> 's Action list \<Rightarrow> string + string list" where
  "applicable_ids target [] = Inr []"
| "applicable_ids target (a # as) =
     bind_res (actCanApply a target) (\<lambda>apply.
       bind_res (applicable_ids target as) (\<lambda>ids. Inr (if apply then actID a # ids else ids)))"

definition resolve_target :: "Version option \<Rightarrow> Version option \<Rightarrow> MigrateTarget" where
  "resolve_target current target =
     \<lparr>tgCurrent = current, tgTarget = target, tgDryRun = False, tgSkipConfirm = False, tgOutputDir = []\<rparr>"

definition resolvePhaseAndMigrations ::
  "semver_lib \<Rightarrow> string \<Rightarrow> string list \<Rightarrow> Version option \<Rightarrow> Version option \<Rightarrow> 's ActionRegistry
     \<Rightarrow> string + (err + string \<times> string list)" where
  "resolvePhaseAndMigrations sv parsedPhase ids current target r =
     (case (if parsedPhase = [] then DetectPhase sv current target else Inr parsedPhase) of
        Inl e \<Rightarrow> Inr (Inl (wrapf ''detecting phase'' e))
      | Inr phase \<Rightarrow>
          if ids = [] then
            bind_res (applicable_ids (resolve_target current target) (filterByPhase (ActionListAll r) phase))
              (\<lambda>ids'. Inr (Inr (phase, ids')))
          else Inr (Inr (phase, ids)))"

section \<open>The registered actions (\<open>pkg/migrate/registry.go\<close>)\<close>

text \<open>
  When an action applies. The actions for model serving read the current version without a check for
  nil.
\<close>

definition can_rhbok :: "MigrateTarget \<Rightarrow> string + bool" where
  "can_rhbok t = (case tgCurrent t of None \<Rightarrow> Inr False | Some c \<Rightarrow> Inr (Major c = 2 \<and> Minor c \<ge> 25))"

definition can_storage_version :: "MigrateTarget \<Rightarrow> string + bool" where
  "can_storage_version t = Inr (IsVersionAtLeast (tgTarget t) 3 6)"

definition can_from_2x :: "MigrateTarget \<Rightarrow> string + bool" where
  "can_from_2x t = (case tgCurrent t of None \<Rightarrow> Inr False | Some c \<Rightarrow> Inr (Major c = 2))"

definition can_modelserving :: "MigrateTarget \<Rightarrow> string + bool" where
  "can_modelserving t = (case tgCurrent t of None \<Rightarrow> Inl nil_dereference | Some c \<Rightarrow> Inr (Major c = 2 \<and> Minor c \<ge> 25))"

definition can_managed_isvc :: "MigrateTarget \<Rightarrow> string + bool" where
  "can_managed_isvc t = (case tgCurrent t of None \<Rightarrow> Inl nil_dereference | Some c \<Rightarrow> Inr (Major c = 3))"

definition can_from_216_to_3x :: "MigrateTarget \<Rightarrow> string + bool" where
  "can_from_216_to_3x t = (case (tgCurrent t, tgTarget t) of
     (Some c, Some v) \<Rightarrow> Inr (Major c = 2 \<and> Minor c \<ge> 16 \<and> Major v \<ge> 3) | _ \<Rightarrow> Inr False)"

definition can_to_3x :: "MigrateTarget \<Rightarrow> string + bool" where
  "can_to_3x t = (case tgTarget t of None \<Rightarrow> Inr False | Some v \<Rightarrow> Inr (Major v \<ge> 3))"

definition can_from_2x_to_3x :: "MigrateTarget \<Rightarrow> string + bool" where
  "can_from_2x_to_3x t = (case (tgCurrent t, tgTarget t) of
     (Some c, Some v) \<Rightarrow> Inr (Major c = 2 \<and> Major v \<ge> 3) | _ \<Rightarrow> Inr False)"

definition can_target_3x :: "MigrateTarget \<Rightarrow> string + bool" where
  "can_target_3x t = Inr (IsVersion3x (tgTarget t))"

definition can_llamastack :: "MigrateTarget \<Rightarrow> string + bool" where
  "can_llamastack t = (case tgTarget t of None \<Rightarrow> Inr False | Some v \<Rightarrow> Inr (Major v = 3 \<and> Minor v \<le> 5))"

definition can_ray_backup :: "MigrateTarget \<Rightarrow> string + bool" where
  "can_ray_backup t = (case tgCurrent t of None \<Rightarrow> Inr False | Some c \<Rightarrow> Inr (Major c = 2))"

definition can_always :: "MigrateTarget \<Rightarrow> string + bool" where
  "can_always t = Inr True"

text \<open>
  The registrations: identifier, name, description, group, phase, when it applies, whether it has a
  prepare and a run task, and its flags. The tasks themselves are given by the identifier.
\<close>

datatype action_entry = ActionEntry (enID: string) (enName: string) (enDescription: string) (enGroup: string)
  (enPhase: string) (enCan: "MigrateTarget \<Rightarrow> string + bool") (enPrepare: bool) (enRun: bool)
  (enFlags: "(string \<times> string) list option")

definition default_actions :: "action_entry list" where
  "default_actions = [
     ActionEntry ''kueue.rhbok.migrate'' ''Migrate Kueue to Red Hat build of Kueue''
       ''Migrates from OpenShift AI built-in Kueue to Red Hat Build of Kueue operator''
       GroupMigration PhasePreUpgrade can_rhbok True True (Some [(''cluster-queue-name'', ''rhbok.ClusterQueueName''), (''local-queue-name'', ''rhbok.LocalQueueName''), (''workload-queue-name'', ''rhbok.QueueName''), (''channel'', ''rhbok.Channel''), (''skip-remove-embedded'', ''rhbok.SkipRemoveEmbedded''), (''force-delete-legacy-crds'', ''rhbok.ForceDeleteLegacyCRDs''), (''kueue-olm-mode'', ''rhbok.OLMMode''), (''kueue-service-account'', ''rhbok.ServiceAccount'')]),
     ActionEntry ''dsc.storage-version.migrate'' ''Migrate DataScienceCluster storage version''
       ''Rewrite stored DataScienceClusters and remove obsolete CRD storage history''
       GroupMigration PhasePreUpgrade can_storage_version False True None,
     ActionEntry ''ai-pipelines.pre-upgrade-check'' ''AI Pipelines pre-upgrade check''
       ''Captures DSPA pod health, migrates v1alpha1 resources to v1, and detects RBAC gaps''
       GroupMigration PhasePreUpgrade can_from_2x True True None,
     ActionEntry ''ai-pipelines.update-dsp-role'' ''Update custom DSP roles''
       ''Patches custom RBAC roles to add datasciencepipelinesapplications/api subresource''
       GroupMigration PhasePreUpgrade can_from_2x True True None,
     ActionEntry ''ai-pipelines.post-upgrade-check'' ''AI Pipelines post-upgrade check''
       ''Verifies pipeline server pods are healthy post-upgrade against pre-upgrade baseline''
       GroupValidation PhasePostUpgrade can_from_2x False True None,
     ActionEntry ''modelserving.serverless-to-raw'' ''Convert Serverless InferenceServices to RawDeployment''
       ''Converts InferenceServices using Serverless deployment mode to RawDeployment and creates associated auth resources (ServiceAccount, Role, RoleBinding)''
       GroupMigration PhasePreUpgrade can_modelserving True True None,
     ActionEntry ''modelserving.modelmesh-to-raw'' ''Convert ModelMesh InferenceServices to RawDeployment''
       ''Converts InferenceServices using ModelMesh deployment mode to RawDeployment, updates associated ServingRuntimes, and creates auth resources''
       GroupMigration PhasePreUpgrade can_modelserving True True None,
     ActionEntry ''modelserving.hardwareprofiles-ignorelist'' ''Add hardware profile annotations to ignore list''
       ''Patches inferenceservice-config ConfigMap to set opendatahub.io/managed=false and add hardware-profile annotations to serviceAnnotationDisallowedList before upgrading to RHOAI 3.x''
       GroupMigration PhasePreUpgrade can_modelserving True True None,
     ActionEntry ''modelserving.add-owner-references'' ''Add owner references to auth resources''
       ''Patches ServiceAccounts, Roles, and RoleBindings associated with RawDeployment InferenceServices with ownerReferences pointing to the ISVC''
       GroupMigration PhasePreUpgrade can_modelserving False True None,
     ActionEntry ''modelserving.managed-isvc-config'' ''Restore managed inferenceservice-config''
       ''Sets opendatahub.io/managed=true on inferenceservice-config ConfigMap and restarts KServe controller after upgrading to RHOAI 3.x''
       GroupMigration PhasePostUpgrade can_managed_isvc False True None,
     ActionEntry ''workbenches.upgrade-2x-to-3x'' ''Upgrade workbenches from 2.x to 3.x''
       ''Updates workbench notebook container names for 3.x compatibility. Run workbenches.patch-auth-model separately to complete the auth model migration.''
       GroupMigration PhasePreUpgrade can_from_216_to_3x True True (Some [(''force-non-stopped'', ''upgrade.ForceNonStopped'')]),
     ActionEntry ''workbenches.attach-kueue-label'' ''Attach Kueue queue-name label to workbenches''
       ''Adds the kueue.x-k8s.io/queue-name label to notebooks in Kueue-managed namespaces''
       GroupMigration PhasePostUpgrade can_to_3x False True (Some [(''queue-name'', ''kueue.QueueName''), (''workbench-namespace'', ''wbScope.WorkbenchNamespace''), (''workbench-name'', ''wbScope.WorkbenchName'')]),
     ActionEntry ''workbenches.cleanup-oauth'' ''Clean up legacy OAuth resources from workbenches''
       ''Removes stale OAuth-proxy resources (Route, Service, Secrets, OAuthClient) left behind after migrating workbenches from 2.x to 3.x''
       GroupMigration PhasePostUpgrade can_to_3x False True (Some [(''workbench-namespace'', ''wbScope.WorkbenchNamespace''), (''workbench-name'', ''wbScope.WorkbenchName'')]),
     ActionEntry ''workbenches.patch-auth-model'' ''Patch workbench auth model from OAuth-proxy to kube-rbac-proxy''
       ''Migrates Notebook CRs from oauth-proxy (2.x) to kube-rbac-proxy (3.x) auth model by removing OAuth sidecar, annotations, volumes, finalizers, and tornado_settings''
       GroupMigration PhasePostUpgrade can_from_216_to_3x True True (Some [(''workbench-namespace'', ''wbScope.WorkbenchNamespace''), (''workbench-name'', ''wbScope.WorkbenchName''), (''skip-stop'', ''authmodel.SkipStop''), (''only-stopped'', ''authmodel.OnlyStopped''), (''with-cleanup'', ''authmodel.WithCleanup'')]),
     ActionEntry ''workbenches.verify-migration'' ''Verify workbench migration status''
       ''Verifies migration and cleanup status of workbench notebooks and classifies them by migration state (LEGACY, MIGRATED, UNRECONCILED, INVALID, UNKNOWN)''
       GroupValidation PhasePostUpgrade can_to_3x False True (Some [(''workbench-namespace'', ''wbScope.WorkbenchNamespace''), (''workbench-name'', ''wbScope.WorkbenchName''), (''verify-phase'', ''verify.VerifyPhase'')]),
     ActionEntry ''trustyai.break-gpu-deadlock'' ''Break GPU deployment deadlocks''
       ''Detect and fix GPU deployment deadlocks caused by TrustyAI patching InferenceServices''
       GroupMigration PhasePostUpgrade can_always False True None,
     ActionEntry ''trustyai.patch-guardrails'' ''Patch GuardrailsOrchestrator readinessProbe''
       ''Add readinessProbe to GuardrailsOrchestrator deployments for RHOAI 2.5 to 3.3 upgrades''
       GroupMigration PhasePostUpgrade can_from_2x_to_3x False True (Some [(''gorch-name'', ''guardrails.GorchName'')]),
     ActionEntry ''trustyai.migrate-gorch-otel-exporter'' ''Migrate GuardrailsOrchestrator otelExporter schema''
       ''Migrate otelExporter from RHOAI 2.25 schema to current schema''
       GroupMigration PhasePostUpgrade can_from_2x_to_3x False True None,
     ActionEntry ''trustyai.metrics'' ''Backup and restore TrustyAI scheduled metrics''
       ''Backup scheduled metrics via REST API before upgrade, restore after upgrade''
       GroupBackup PhasePreUpgrade can_always True True (Some [(''metrics-dir'', ''metrics.BackupDir''), (''metrics-file'', ''metrics.BackupFile''), (''metrics-type'', ''metrics.MetricType''), (''metrics-skip-existing'', ''metrics.SkipExisting''), (''metrics-route-label'', ''metrics.RouteLabel'')]),
     ActionEntry ''trustyai.data'' ''Backup and restore TrustyAI data storage''
       ''Backup and restore TrustyAI PVC files or MariaDB database''
       GroupBackup PhasePreUpgrade can_always True True (Some [(''data-dir'', ''data.BackupDir''), (''data-file'', ''data.BackupFile''), (''data-service-name'', ''data.ServiceName'')]),
     ActionEntry ''training.verify-workloads'' ''Verify training workloads''
       ''Pre-upgrade check for Kubeflow v1 training workloads requiring migration to Trainer v2 TrainJob''
       GroupValidation PhasePostUpgrade can_target_3x False True None,
     ActionEntry ''llamastack.backup'' ''Backup LlamaStack Resources''
       ''Backup all LlamaStack resources before upgrade (LlamaStack->OGX rename in 3.5)''
       GroupBackup PhasePreUpgrade can_llamastack True False None,
     ActionEntry ''raycluster.backup'' ''Backup RayClusters for RHOAI 3.x migration''
       ''Backup RayCluster configurations and run pre-flight checks before RHOAI upgrade''
       GroupBackup PhasePreUpgrade can_ray_backup True True (Some [(''raycluster-cluster'', ''ray.ClusterName''), (''raycluster-namespace'', ''ray.Namespace''), (''raycluster-output-dir'', ''ray.OutputDir'')]),
     ActionEntry ''raycluster.migrate'' ''Migrate RayClusters to RHOAI 3.x''
       ''Migrate RayClusters after RHOAI upgrade (live in-place or from backup)''
       GroupMigration PhasePostUpgrade can_to_3x False True (Some [(''raycluster-cluster'', ''ray.ClusterName''), (''raycluster-namespace'', ''ray.Namespace''), (''raycluster-from-backup'', ''ray.FromBackup''), (''raycluster-timeout'', ''ray.RouteTimeout'')])
   ]"

definition mk_action :: "(string \<Rightarrow> 's Task) \<Rightarrow> (string \<Rightarrow> 's Task) \<Rightarrow> action_entry \<Rightarrow> 's Action" where
  "mk_action prep run e =
     \<lparr>actID = enID e, actName = enName e, actDescription = enDescription e, actGroup = enGroup e, actPhase = enPhase e,
      actCanApply = enCan e, actPrepare = (if enPrepare e then Some (prep (enID e)) else None),
      actRun = (if enRun e then Some (run (enID e)) else None), actFlags = enFlags e\<rparr>"

definition newDefaultRegistry :: "(string \<Rightarrow> 's Task) \<Rightarrow> (string \<Rightarrow> 's Task) \<Rightarrow> string + 's ActionRegistry" where
  "newDefaultRegistry prep run = register_all ActionMustRegister NewActionRegistry (map (mk_action prep run) default_actions)"

section \<open>Lemmas\<close>

definition wf_actions :: "'s ActionRegistry \<Rightarrow> bool" where
  "wf_actions r \<longleftrightarrow> wf_gomap r \<and> (\<forall>(k, a)\<in>set r. k = actID a)"

lemma ActionRegister_Inr_iff:
  "ActionRegister r a = Inr r' \<longleftrightarrow> map_of r (actID a) = None \<and> r' = AList.update (actID a) a r"
  by (auto simp: ActionRegister_def split: option.splits)

lemma ActionMustRegister_Inr_iff: "ActionMustRegister r a = Inr r' \<longleftrightarrow> ActionRegister r a = Inr r'"
  by (auto simp: ActionMustRegister_def split: sum.splits)

lemma set_ActionListAll [simp]: "set (ActionListAll r) = snd ` set r"
  by (simp add: ActionListAll_def sort_actions_def)

interpretation actions: keyed_registry actID NewActionRegistry ActionMustRegister ActionGet ActionListAll wf_actions
proof unfold_locales
  fix m m' :: "'a ActionRegistry" and a k
  show "wf_actions NewActionRegistry" "ActionListAll NewActionRegistry = []"
    by (simp_all add: wf_actions_def NewActionRegistry_def ActionListAll_def sort_actions_def)
  show "ActionGet m (actID a) = None \<Longrightarrow> \<exists>m'. ActionMustRegister m a = Inr m'"
    by (simp add: ActionGet_def ActionMustRegister_Inr_iff ActionRegister_Inr_iff)
  show "ActionGet m (actID a) \<noteq> None \<Longrightarrow> \<exists>e. ActionMustRegister m a = Inl e"
    by (auto simp: ActionGet_def ActionMustRegister_def ActionRegister_def)
  show "ActionMustRegister m a = Inr m' \<Longrightarrow> ActionGet m' k = (if k = actID a then Some a else ActionGet m k)"
    by (auto simp: ActionGet_def ActionMustRegister_Inr_iff ActionRegister_Inr_iff)
  show "ActionMustRegister m a = Inr m' \<Longrightarrow> set (ActionListAll m') = insert a (set (ActionListAll m))"
    by (auto simp: ActionMustRegister_Inr_iff ActionRegister_Inr_iff set_update_fresh)
  show "wf_actions m \<Longrightarrow> ActionMustRegister m a = Inr m' \<Longrightarrow> wf_actions m'"
    by (auto simp: ActionMustRegister_Inr_iff ActionRegister_Inr_iff wf_actions_def set_update_fresh)
  show "wf_actions m \<Longrightarrow> ActionGet m k = Some a \<longleftrightarrow> a \<in> set (ActionListAll m) \<and> actID a = k"
    by (force simp: wf_actions_def ActionGet_def simp flip: map_of_mem)
qed

lemma mk_action_simps [simp]:
  "actID (mk_action prep run e) = enID e" "actPhase (mk_action prep run e) = enPhase e"
  "actCanApply (mk_action prep run e) = enCan e" "actFlags (mk_action prep run e) = enFlags e"
  "actRun (mk_action prep run e) = (if enRun e then Some (run (enID e)) else None)"
  "actPrepare (mk_action prep run e) = (if enPrepare e then Some (prep (enID e)) else None)"
  by (simp_all add: mk_action_def)

lemma default_ids_distinct: "distinct (map enID default_actions)"
  by code_simp

lemma newDefaultRegistry_ok:
  obtains r where "newDefaultRegistry prep run = Inr r" "wf_actions r"
    "set (ActionListAll r) = mk_action prep run ` set default_actions"
proof -
  have "distinct (map actID (map (mk_action prep run) default_actions))"
    using default_ids_distinct by (simp add: comp_def)
  from actions.register_all_empty [OF this] obtain r
    where "newDefaultRegistry prep run = Inr r" "set (ActionListAll r) = mk_action prep run ` set default_actions"
    unfolding newDefaultRegistry_def by auto
  moreover have "wf_actions r"
    using actions.register_all_ok [OF actions.empty_ok(1)] calculation(1) unfolding newDefaultRegistry_def by blast
  ultimately show thesis using that by blast
qed

text \<open>The sorted list of a registry depends on its contents only.\<close>

lemma ActionListAll_sorted: "wf_actions r \<Longrightarrow> sorted_wrt (\<lambda>a b. actID a < actID b) (ActionListAll r)"
proof -
  assume "wf_actions r"
  then have "map actID (map snd r) = map fst r" by (auto simp: wf_actions_def)
  with \<open>wf_actions r\<close> show ?thesis
    unfolding ActionListAll_def sort_actions_def by (intro slice.srt_strict) (simp add: wf_actions_def del: map_map)
qed

lemma applicable_ids_iff:
  "applicable_ids t as = Inr ids \<Longrightarrow> k \<in> set ids \<longleftrightarrow> (\<exists>a\<in>set as. actID a = k \<and> actCanApply a t = Inr True)"
proof (induction as arbitrary: ids)
  case (Cons a as)
  then obtain b ids' where b: "actCanApply a t = Inr b" "applicable_ids t as = Inr ids'"
      "ids = (if b then actID a # ids' else ids')"
    by auto
  with Cons.IH [OF b(2)] show ?case by auto
qed auto

lemma applicable_ids_total:
  "list_all (\<lambda>a. \<exists>b. actCanApply a t = Inr b) as \<Longrightarrow> \<exists>ids. applicable_ids t as = Inr ids"
proof (induction as)
  case (Cons a as)
  then obtain b ids where "actCanApply a t = Inr b" "applicable_ids t as = Inr ids" by auto
  then show ?case by (cases b) simp_all
qed simp

text \<open>Sorting commutes with a map that keeps the comparison, so the default list can be computed.\<close>

lemma slice_insert_map: "slice_insert lt (f x) (map f xs) = map f (slice_insert (\<lambda>a b. lt (f a) (f b)) x xs)"
  by (induction xs) auto

lemma sort_slice_map: "sort_slice lt (map f xs) = map f (sort_slice (\<lambda>a b. lt (f a) (f b)) xs)"
  by (induction xs) (auto simp: sort_slice_def slice_insert_map)

lemma update_fresh: "map_of r k = None \<Longrightarrow> AList.update k v r = r @ [(k, v)]"
  by (induction r) (auto split: if_splits)

lemma register_all_actions:
  "distinct (map actID as) \<Longrightarrow> set (map fst r) \<inter> set (map actID as) = {} \<Longrightarrow>
     register_all ActionMustRegister r as = Inr (r @ map (\<lambda>a. (actID a, a)) as)"
proof (induction as arbitrary: r)
  case (Cons a as)
  have "map_of r (actID a) = None" using Cons.prems(2) by (auto simp: map_of_eq_None_iff)
  then have "ActionMustRegister r a = Inr (r @ [(actID a, a)])"
    by (simp add: ActionMustRegister_Inr_iff ActionRegister_Inr_iff update_fresh)
  then show ?case using Cons.prems Cons.IH [of "r @ [(actID a, a)]"] by auto
qed simp

definition sorted_entries :: "action_entry list" where
  "sorted_entries = sort_slice (\<lambda>a b. enID a < enID b) default_actions"

lemma newDefaultRegistry_eq:
  "newDefaultRegistry prep run = Inr (map (\<lambda>e. (enID e, mk_action prep run e)) default_actions)"
  using register_all_actions [of "map (mk_action prep run) default_actions" "[]"] default_ids_distinct
  by (simp add: newDefaultRegistry_def NewActionRegistry_def comp_def)

lemma default_ActionListAll:
  "newDefaultRegistry prep run = Inr r \<Longrightarrow> ActionListAll r = map (mk_action prep run) sorted_entries"
  by (auto simp: newDefaultRegistry_eq ActionListAll_def sort_actions_def sorted_entries_def comp_def
      sort_slice_map [of _ "mk_action prep run"])

fun entry_flags :: "action_entry list \<Rightarrow> (string, string) gomap \<Rightarrow> string + (string, string) gomap" where
  "entry_flags [] fs = Inr fs"
| "entry_flags (e # es) fs = (case enFlags e of None \<Rightarrow> entry_flags es fs
     | Some flags \<Rightarrow> bind_res (merge_flags (enID e) (sort_slice (\<lambda>x y. fst x < fst y) flags) fs) (entry_flags es))"

lemma register_action_flags_entries:
  "register_action_flags (map (mk_action prep run) es) fs = entry_flags es fs"
proof (induction es arbitrary: fs)
  case (Cons e es)
  then have "register_action_flags (map (mk_action prep run) es) = entry_flags es" by (rule ext)
  with Cons show ?case by (simp split: option.split)
qed simp

text \<open>The flags of \<open>migrate run\<close> and \<open>migrate prepare\<close> themselves.\<close>

definition run_flags :: "(string, string) gomap" where
  "run_flags = map (\<lambda>n. (n, ''command.'' @ n)) [''output'', ''verbose'', ''timeout'', ''dry-run'', ''yes'', ''migration'',
     ''target-version'', ''phase'', ''from-stdin'', ''qps'', ''burst'']"

definition prepare_flags :: "(string, string) gomap" where
  "prepare_flags = map (\<lambda>n. (n, ''command.'' @ n)) [''output'', ''verbose'', ''timeout'', ''dry-run'', ''yes'', ''output-dir'',
     ''migration'', ''target-version'', ''phase'', ''qps'', ''burst'']"

section \<open>Properties\<close>

text \<open>
  The registry of migrations is built without a panic and holds the 24 actions, each found under its
  identifier and listed in the order of identifiers; and registering the flags of the actions, for
  \<open>migrate run\<close> and for \<open>migrate prepare\<close>, never panics: flags that two actions share are bound to the same
  variable.
\<close>

theorem default_registry_no_panic:
  "\<exists>r. newDefaultRegistry prep run = Inr r \<and> length default_actions = 24
     \<and> list_all (\<lambda>e. ActionGet r (enID e) = Some (mk_action prep run e)) default_actions
     \<and> sorted_wrt (\<lambda>a b. actID a < actID b) (ActionListAll r)
     \<and> (\<exists>fs. RegisterActionFlags r run_flags = Inr fs) \<and> (\<exists>fs. RegisterActionFlags r prepare_flags = Inr fs)"
proof -
  obtain r where r: "newDefaultRegistry prep run = Inr r" "wf_actions r"
      "set (ActionListAll r) = mk_action prep run ` set default_actions"
    by (rule newDefaultRegistry_ok)
  have "list_all (\<lambda>e. ActionGet r (enID e) = Some (mk_action prep run e)) default_actions"
    using r(3) by (auto simp: list_all_iff actions.get_items [OF r(2)])
  moreover have "\<not> isl (entry_flags sorted_entries run_flags)" "\<not> isl (entry_flags sorted_entries prepare_flags)"
    by code_simp+
  then have "\<exists>fs. RegisterActionFlags r run_flags = Inr fs" "\<exists>fs. RegisterActionFlags r prepare_flags = Inr fs"
    unfolding RegisterActionFlags_def default_ActionListAll [OF r(1)] register_action_flags_entries
    by (metis isl_def sum.exhaust)+
  moreover have "length default_actions = 24" by (simp add: default_actions_def)
  ultimately show ?thesis using r(1) ActionListAll_sorted [OF r(2)] by blast
qed

text \<open>
  Four actions of the phase after the upgrade apply only while the cluster still runs version 2: when
  the phase is detected as post-upgrade for a target of version 3 or later, none of them is
  selected.
\<close>

theorem post_upgrade_actions_unselected:
  assumes "\<And>a b. Major a < Major b \<Longrightarrow> sv_LT sv a b"
    and "newDefaultRegistry prep run = Inr r" and "3 \<le> Major t"
    and "resolvePhaseAndMigrations sv [] [] (Some c) (Some t) r = Inr (Inr (PhasePostUpgrade, ids))"
  shows "list_all (\<lambda>k. k \<notin> set ids) [''ai-pipelines.post-upgrade-check'', ''trustyai.patch-guardrails'',
    ''trustyai.migrate-gorch-otel-exporter'', ''workbenches.patch-auth-model'']"
proof -
  let ?t = "resolve_target (Some c) (Some t)"
  have lt: "\<not> sv_LT sv c t"
    using assms(4) by (auto simp: resolvePhaseAndMigrations_def DetectPhase_def split: if_splits)
  then have "\<not> Major c < Major t" using assms(1) by blast
  then have c: "Major c \<noteq> 2" using assms(3) by simp
  have "applicable_ids ?t (filterByPhase (ActionListAll r) PhasePostUpgrade) = Inr ids"
    using assms(4) lt by (auto simp: resolvePhaseAndMigrations_def DetectPhase_def)
  from applicable_ids_iff [OF this]
  have sel: "\<exists>e\<in>set sorted_entries. enID e = k \<and> enCan e ?t = Inr True" if "k \<in> set ids" for k
    using that by (auto simp: filterByPhase_def default_ActionListAll [OF assms(2)])
  have never: "enCan e ?t \<noteq> Inr True" if "enCan e \<in> {can_from_2x, can_from_2x_to_3x, can_from_216_to_3x}" for e
    using that c by (auto simp: can_from_2x_def can_from_2x_to_3x_def can_from_216_to_3x_def resolve_target_def)
  have "k \<notin> set ids" if "map_of (map (\<lambda>e. (enID e, enCan e)) default_actions) k = Some can"
      "can \<in> {can_from_2x, can_from_2x_to_3x, can_from_216_to_3x}" for k can
  proof
    assume "k \<in> set ids"
    then obtain e where e: "e \<in> set default_actions" "enID e = k" "enCan e ?t = Inr True"
      using sel by (auto simp: sorted_entries_def)
    then have "map_of (map (\<lambda>e. (enID e, enCan e)) default_actions) k = Some (enCan e)"
      using default_ids_distinct by (intro map_of_is_SomeI) (auto simp: comp_def)
    with that e(3) never [of e] show False by simp
  qed
  then show ?thesis by (simp add: default_actions_def)
qed

text \<open>A cluster that runs 3.0.0 with the target 3.0.0 is after the upgrade; tasks that do nothing.\<close>

definition idle_task :: "nat Task" where
  "idle_task = \<lparr>tkValidate = \<lambda>t s. (s, None, None), tkExecute = \<lambda>t s. (s, Some (NewActionResult [] [] [] []), None)\<rparr>"

lemma post_upgrade_actions_unselected_witness:
  "\<exists>r ids. newDefaultRegistry (\<lambda>_. idle_task) (\<lambda>_. idle_task) = Inr r
     \<and> resolvePhaseAndMigrations sample_semver [] [] (Some (sample_version 3 0)) (Some (sample_version 3 0)) r
         = Inr (Inr (PhasePostUpgrade, ids))
     \<and> list_all (\<lambda>k. k \<notin> set ids) [''ai-pipelines.post-upgrade-check'', ''trustyai.patch-guardrails'',
         ''trustyai.migrate-gorch-otel-exporter'', ''workbenches.patch-auth-model'']"
proof -
  let ?r = "map (\<lambda>e. (enID e, mk_action (\<lambda>_. idle_task) (\<lambda>_. idle_task) e)) default_actions"
  let ?v = "Some (sample_version 3 0)"
  have r: "newDefaultRegistry (\<lambda>_. idle_task) (\<lambda>_. idle_task) = Inr ?r" by (rule newDefaultRegistry_eq)
  have "list_all (\<lambda>e. \<not> isl (enCan e (resolve_target ?v ?v))) sorted_entries" by code_simp
  then have "list_all (\<lambda>a. \<exists>b. actCanApply a (resolve_target ?v ?v) = Inr b)
      (filterByPhase (ActionListAll ?r) PhasePostUpgrade)"
    unfolding default_ActionListAll [OF r] filterByPhase_def by (auto simp: list_all_iff isl_def) (metis sum.exhaust)
  from applicable_ids_total [OF this] obtain ids
    where "applicable_ids (resolve_target ?v ?v) (filterByPhase (ActionListAll ?r) PhasePostUpgrade) = Inr ids" by blast
  then have sel: "resolvePhaseAndMigrations sample_semver [] [] ?v ?v ?r = Inr (Inr (PhasePostUpgrade, ids))"
    by (simp add: resolvePhaseAndMigrations_def DetectPhase_def sample_semver_def)
  have lt: "\<And>a b. Major a < Major b \<Longrightarrow> sv_LT sample_semver a b" by (simp add: sample_semver_def)
  have "3 \<le> Major (sample_version 3 0)" by (simp add: sample_version_def)
  from post_upgrade_actions_unselected [OF lt r this sel] r sel show ?thesis by blast
qed

end
