(* ===== verification/MigrateCommand.thy ===== *)
theory MigrateCommand
  imports MigrateAction Stdin LintResult
begin

text \<open>
  The commands \<open>migrate run\<close>, \<open>migrate prepare\<close> and \<open>migrate list\<close>: \<open>pkg/migrate/command_run.go\<close>,
  \<open>command_prepare.go\<close>, \<open>command_list.go\<close>, \<open>command_options.go\<close> and \<open>output.go\<close>. Progress texts are left
  out; the documents written to stdout and the returned error are kept. Client construction, the
  detected version, the encoders and the directory functions are arguments.
\<close>

section \<open>Options (\<open>command_options.go\<close>)\<close>

text \<open>The fields the commands share; \<open>moQuiet\<close> says whether the output is wrapped.\<close>

record MigrateOptions =
  moOutputFormat :: string
  moVerbose :: bool
  moTimeout :: int
  moClient :: bool
  moQuiet :: bool
  moDryRun :: bool
  moYes :: bool
  moMigrationIDs :: "string list"
  moTargetVersion :: string
  moPhase :: string
  moParsedTarget :: "Version option"
  moParsedPhase :: string

record RunCommand = MigrateOptions +
  rcFromStdin :: bool

record PrepareCommand = MigrateOptions +
  pcOutputDir :: string

record ListCommand = MigrateOptions +
  lcShowAll :: bool

definition MigrateFormatValidate :: "string \<Rightarrow> err option" where
  "MigrateFormatValidate f = (if f \<in> {''table'', ''json'', ''yaml''} then None
     else Some (NewError (''invalid output format: '' @ f @ '' (must be one of: table, json, yaml)'')))"

definition MigrateSharedValidate :: "'z MigrateOptions_scheme \<Rightarrow> err option" where
  "MigrateSharedValidate c =
     (case MigrateFormatValidate (moOutputFormat c) of
        Some e \<Rightarrow> Some e
      | None \<Rightarrow> if moTimeout c \<le> 0 then Some (NewError ''timeout must be greater than 0'') else None)"

text \<open>The REST configuration and the client may fail.\<close>

record migrate_env =
  gvRest :: "err option"
  gvClient :: "err option"
  gvSemver :: semver_lib

definition MigrateSharedComplete :: "migrate_env \<Rightarrow> 'z MigrateOptions_scheme \<Rightarrow> 'z MigrateOptions_scheme \<times> err option" where
  "MigrateSharedComplete env c =
     (case gvRest env of
        Some e \<Rightarrow> (c, Some (wrapf ''failed to create REST config'' e))
      | None \<Rightarrow>
          (case gvClient env of
             Some e \<Rightarrow> (c, Some (wrapf ''failed to create Kubernetes client'' e))
           | None \<Rightarrow> (c\<lparr>moClient := True\<rparr>, None)))"

text \<open>The target version, in the \<open>Complete\<close> of all three commands.\<close>

definition complete_target :: "migrate_env \<Rightarrow> 'z MigrateOptions_scheme \<Rightarrow> 'z MigrateOptions_scheme \<times> err option" where
  "complete_target env c =
     (if moTargetVersion c = [] then (c, None)
      else case sv_ParseTolerant (gvSemver env) (moTargetVersion c) of
          Inl e \<Rightarrow> (c, Some (wrapf (''invalid target version '' @ go_quote (moTargetVersion c)) e))
        | Inr v \<Rightarrow> (c\<lparr>moParsedTarget := Some v\<rparr>, None))"

text \<open>The shared part of \<open>RunCommand.Complete\<close> and \<open>PrepareCommand.Complete\<close>.\<close>

definition complete_common :: "migrate_env \<Rightarrow> 'z MigrateOptions_scheme \<Rightarrow> 'z MigrateOptions_scheme \<times> err option" where
  "complete_common env c =
     (case MigrateSharedComplete env c of
        (c1, Some e) \<Rightarrow> (c1, Some (wrapf ''completing shared options'' e))
      | (c1, None) \<Rightarrow> complete_target env
          (c1\<lparr>moQuiet := (if moOutputFormat c1 \<noteq> ''table'' then True else moQuiet c1), moVerbose := True,
              moParsedPhase := (if moPhase c1 \<noteq> [] then moPhase c1 else [])\<rparr>))"

definition validate_common :: "string \<Rightarrow> 'z MigrateOptions_scheme \<Rightarrow> err option" where
  "validate_common verb c =
     (case MigrateSharedValidate c of
        Some e \<Rightarrow> Some (wrapf ''validating shared options'' e)
      | None \<Rightarrow>
          if moMigrationIDs c = [] \<and> moPhase c = [] then
            Some (NewError (''--migration flag is required (or use --phase to '' @ verb @ '' all actions for a lifecycle phase)''))
          else if moTargetVersion c = [] then Some (NewError ''--target-version flag is required'')
          else map_option (wrapf ''validating phase'') (PhaseValidate (moParsedPhase c)))"

section \<open>Structured output (\<open>output.go\<close>)\<close>

record MigrationResultItem =
  miID :: string
  miCompleted :: bool
  miSkipped :: bool
  miHasSkippedSteps :: bool
  miHasFailedSteps :: bool
  miPhaseMismatch :: bool

text \<open>\<open>RunResult\<close> and \<open>PrepareResult\<close>; the former has no directory.\<close>

record MigrateResult =
  mrKind :: string
  mrStatus :: Status
  mrCurrentVersion :: string
  mrTargetVersion :: string
  mrPhase :: string
  mrDryRun :: bool
  mrOutputDir :: string
  mrMigrations :: "MigrationResultItem list"

definition countWarnings :: "MigrationResultItem list \<Rightarrow> int" where
  "countWarnings ms = int (length (filter (\<lambda>m. miSkipped m \<or> miHasSkippedSteps m \<or> miPhaseMismatch m) ms))"

definition countErrors :: "MigrationResultItem list \<Rightarrow> int" where
  "countErrors ms = int (length (filter miHasFailedSteps ms))"

text \<open>The errors of marshalling and of writing, per format.\<close>

record migrate_writer =
  mwMarshal :: "string \<Rightarrow> MigrateResult \<Rightarrow> err option"
  mwWrite :: "string \<Rightarrow> MigrateResult \<Rightarrow> err option"

definition writeStructuredOutput ::
  "migrate_writer \<Rightarrow> string \<Rightarrow> MigrateResult \<Rightarrow> MigrateResult list \<times> err option" where
  "writeStructuredOutput w format result =
     (if format = ''json'' \<or> format = ''yaml'' then
        (let f = (if format = ''json'' then ''JSON'' else ''YAML'') in
         case mwMarshal w format result of
           Some e \<Rightarrow> ([], Some (wrapf (''marshaling '' @ f) e))
         | None \<Rightarrow>
             (case mwWrite w format result of
                Some e \<Rightarrow> ([], Some (wrapf (''writing '' @ f @ '' output'') e))
              | None \<Rightarrow> ([result], None)))
      else ([], Some (NewError (''unsupported output format: '' @ format))))"

section \<open>\<open>migrate run\<close> (\<open>command_run.go\<close>)\<close>

record MigrateStdin =
  msMigrations :: "string list"
  msTargetVersion :: string
  msPhase :: string
  msDryRun :: bool
  msSkipConfirm :: bool

definition migrateApplyStdin :: "(string \<Rightarrow> bool) \<Rightarrow> MigrateStdin \<Rightarrow> RunCommand \<Rightarrow> RunCommand" where
  "migrateApplyStdin changed input c = c
     \<lparr>moMigrationIDs := (if msMigrations input \<noteq> [] \<and> \<not> changed ''migration'' then msMigrations input else moMigrationIDs c),
      moTargetVersion := (if msTargetVersion input \<noteq> [] \<and> \<not> changed ''target-version'' then msTargetVersion input else moTargetVersion c),
      moPhase := (if msPhase input \<noteq> [] \<and> \<not> changed ''phase'' then msPhase input else moPhase c),
      moDryRun := (if msDryRun input \<and> \<not> changed ''dry-run'' then True else moDryRun c),
      moYes := (if msSkipConfirm input \<and> \<not> changed ''yes'' then True else moYes c)\<rparr>"

definition migrateParseStdin ::
  "stdin_reader \<Rightarrow> err + string \<Rightarrow> (string \<Rightarrow> err + MigrateStdin) \<Rightarrow> (string \<Rightarrow> bool) \<Rightarrow> RunCommand \<Rightarrow> err + RunCommand" where
  "migrateParseStdin reader text unmarshal changed c =
     (case CheckPiped reader of
        Some e \<Rightarrow> Inl e
      | None \<Rightarrow>
          (case StdinParse unmarshal text of
             Inl e \<Rightarrow> Inl (wrapf ''parsing stdin'' e)
           | Inr input \<Rightarrow> Inr (migrateApplyStdin changed input c)))"

definition RunComplete ::
  "migrate_env \<Rightarrow> stdin_reader \<Rightarrow> err + string \<Rightarrow> (string \<Rightarrow> err + MigrateStdin) \<Rightarrow> (string \<Rightarrow> bool) \<Rightarrow> RunCommand
     \<Rightarrow> RunCommand \<times> err option" where
  "RunComplete env reader text unmarshal changed c =
     (case (if rcFromStdin c then migrateParseStdin reader text unmarshal changed c else Inr c) of
        Inl e \<Rightarrow> (c, NewExitCodeError ExitValidation (Some e))
      | Inr c1 \<Rightarrow> complete_common env c1)"

definition RunValidate :: "RunCommand \<Rightarrow> err option" where
  "RunValidate c = validate_common ''run'' c"

definition validation_error :: "string \<Rightarrow> err" where
  "validation_error msg = ExitCodeError ExitValidation (NewError msg)"

definition run_target :: "Version \<Rightarrow> Version \<Rightarrow> 'z MigrateOptions_scheme \<Rightarrow> string \<Rightarrow> MigrateTarget" where
  "run_target current target c dir = \<lparr>tgCurrent = Some current, tgTarget = Some target, tgDryRun = moDryRun c,
     tgSkipConfirm = moYes c, tgOutputDir = dir\<rparr>"

text \<open>The loop over the migrations: the state, the items so far and the error that ended it.\<close>

fun run_loop ::
  "'s ActionRegistry \<Rightarrow> MigrateTarget \<Rightarrow> string \<Rightarrow> string list \<Rightarrow> 's
     \<Rightarrow> string + ('s \<times> MigrationResultItem list \<times> err option)" where
  "run_loop r target phase [] s = Inr (s, [], None)"
| "run_loop r target phase (mid # ids) s =
     (case ActionGet r mid of
        None \<Rightarrow> Inr (s, [], Some (validation_error (''migration '' @ go_quote mid @ '' not found'')))
      | Some a \<Rightarrow>
          (case actRun a of
             None \<Rightarrow> Inr (s, [], Some (validation_error (''migration '' @ go_quote mid @ '' has no run task'')))
           | Some t \<Rightarrow>
               (case tkExecute t target s of
                  (s1, res, Some e) \<Rightarrow> Inr (s1, [], Some (ExitCodeError ExitValidation (wrapf ''migration failed'' e)))
                | (s1, None, None) \<Rightarrow> Inl nil_dereference
                | (s1, Some res, None) \<Rightarrow>
                    if \<not> arCompleted res then Inr (s1, [], Some (validation_error (''migration halted: '' @ mid)))
                    else bind_res (run_loop r target phase ids s1) (\<lambda>(s2, items, eo). Inr (s2,
                      \<lparr>miID = mid, miCompleted = arCompleted res, miSkipped = False, miHasSkippedSteps = HasSkippedSteps res,
                       miHasFailedSteps = HasFailedSteps res, miPhaseMismatch = (actPhase a \<noteq> phase)\<rparr> # items, eo)))))"

text \<open>\<open>reportRunSummary\<close> without its texts.\<close>

definition reportRunSummary :: "bool \<Rightarrow> bool \<Rightarrow> err option" where
  "reportRunSummary hasFailures hasSkips =
     (if hasFailures then Some (NewError ''one or more migrations completed with failures'') else None)"

definition migrate_result ::
  "semver_lib \<Rightarrow> string \<Rightarrow> int \<Rightarrow> Version \<Rightarrow> Version \<Rightarrow> string \<Rightarrow> bool \<Rightarrow> string \<Rightarrow> MigrationResultItem list \<Rightarrow> MigrateResult" where
  "migrate_result sv kind errs current target phase dry dir items =
     \<lparr>mrKind = kind, mrStatus = NewStatus (countWarnings items) errs, mrCurrentVersion = sv_String sv current,
      mrTargetVersion = sv_String sv target, mrPhase = phase, mrDryRun = dry, mrOutputDir = dir, mrMigrations = items\<rparr>"

definition writeRunResult ::
  "semver_lib \<Rightarrow> migrate_writer \<Rightarrow> RunCommand \<Rightarrow> Version \<Rightarrow> Version \<Rightarrow> string \<Rightarrow> MigrationResultItem list
     \<Rightarrow> MigrateResult list \<times> err option" where
  "writeRunResult sv w c current target phase items =
     (let result = migrate_result sv ''MigrateRunResult'' (countErrors items) current target phase (moDryRun c) [] items in
      if countErrors items > 0 then
        (case writeStructuredOutput w (moOutputFormat c) result of
           (docs, Some e) \<Rightarrow> (docs, Some e)
         | (docs, None) \<Rightarrow> (docs, Some (NewError ''one or more migrations completed with failures'')))
      else writeStructuredOutput w (moOutputFormat c) result)"

definition runMigrationMode ::
  "semver_lib \<Rightarrow> migrate_writer \<Rightarrow> 's ActionRegistry \<Rightarrow> RunCommand \<Rightarrow> Version \<Rightarrow> Version \<Rightarrow> string \<Rightarrow> 's
     \<Rightarrow> string + ('s \<times> MigrateResult list \<times> err option)" where
  "runMigrationMode sv w r c current target phase s =
     bind_res (run_loop r (run_target current target c []) phase (moMigrationIDs c) s) (\<lambda>(s', items, eo).
       case eo of
         Some e \<Rightarrow> Inr (s', [], Some e)
       | None \<Rightarrow>
           if moOutputFormat c \<noteq> ''table'' then Inr (s', writeRunResult sv w c current target phase items)
           else Inr (s', [], reportRunSummary (list_ex miHasFailedSteps items) (list_ex miHasSkippedSteps items)))"

text \<open>
  The start of \<open>Run\<close> for \<open>run\<close> and \<open>prepare\<close>: the phase and the migrations, or the error. Both
  dereference the target version that \<open>Complete\<close> has parsed.
\<close>

definition resolve_run ::
  "semver_lib \<Rightarrow> 's ActionRegistry \<Rightarrow> err + Version \<Rightarrow> 'z MigrateOptions_scheme
     \<Rightarrow> string + (err + Version \<times> Version \<times> string \<times> string list)" where
  "resolve_run sv r detect c =
     (case detect of
        Inl e \<Rightarrow> Inr (Inl (wrapf ''detecting cluster version'' e))
      | Inr current \<Rightarrow>
          bind_res (resolvePhaseAndMigrations sv (moParsedPhase c) (moMigrationIDs c) (Some current) (moParsedTarget c) r)
            (\<lambda>x. case x of
               Inl e \<Rightarrow> Inr (Inl e)
             | Inr (phase, ids) \<Rightarrow>
                 if ids = [] then Inr (Inl (validation_error (''no applicable migrations found for phase '' @ phase)))
                 else (case moParsedTarget c of None \<Rightarrow> Inl nil_dereference
                   | Some target \<Rightarrow> Inr (Inr (current, target, phase, ids)))))"

definition RunRun ::
  "semver_lib \<Rightarrow> migrate_writer \<Rightarrow> 's ActionRegistry \<Rightarrow> err + Version \<Rightarrow> RunCommand \<Rightarrow> 's
     \<Rightarrow> string + ('s \<times> MigrateResult list \<times> err option)" where
  "RunRun sv w r detect c s =
     bind_res (resolve_run sv r detect c) (\<lambda>x. case x of
         Inl e \<Rightarrow> Inr (s, [], Some e)
       | Inr (current, target, phase, ids) \<Rightarrow>
           runMigrationMode sv w r (c\<lparr>moMigrationIDs := ids\<rparr>) current target phase s)"

section \<open>\<open>migrate prepare\<close> (\<open>command_prepare.go\<close>)\<close>

text \<open>\<open>defaultBackupDir\<close>: a directory below the current one, else below the temporary one.\<close>

definition defaultBackupDir :: "err + string \<Rightarrow> err + string \<Rightarrow> err + string" where
  "defaultBackupDir here tmp =
     (case here of Inr dir \<Rightarrow> Inr dir
      | Inl _ \<Rightarrow> (case tmp of Inl e \<Rightarrow> Inl (wrapf ''creating default backup directory'' e) | Inr dir \<Rightarrow> Inr dir))"

definition PrepareComplete ::
  "migrate_env \<Rightarrow> err + string \<Rightarrow> err + string \<Rightarrow> PrepareCommand \<Rightarrow> PrepareCommand \<times> err option" where
  "PrepareComplete env here tmp c =
     (case complete_common env c of
        (c1, Some e) \<Rightarrow> (c1, Some e)
      | (c1, None) \<Rightarrow>
          if pcOutputDir c1 \<noteq> [] then (c1, None)
          else (case defaultBackupDir here tmp of
              Inl e \<Rightarrow> (c1, Some e)
            | Inr dir \<Rightarrow> (c1\<lparr>pcOutputDir := dir\<rparr>, None)))"

definition PrepareValidate :: "PrepareCommand \<Rightarrow> err option" where
  "PrepareValidate c = validate_common ''prepare'' c"

fun prepare_loop ::
  "'s ActionRegistry \<Rightarrow> MigrateTarget \<Rightarrow> string \<Rightarrow> string list \<Rightarrow> 's
     \<Rightarrow> string + ('s \<times> MigrationResultItem list \<times> err option)" where
  "prepare_loop r target phase [] s = Inr (s, [], None)"
| "prepare_loop r target phase (mid # ids) s =
     (case ActionGet r mid of
        None \<Rightarrow> Inr (s, [], Some (validation_error (''migration '' @ go_quote mid @ '' not found'')))
      | Some a \<Rightarrow>
          (let mismatch = (actPhase a \<noteq> phase) in
           case actPrepare a of
             None \<Rightarrow> bind_res (prepare_loop r target phase ids s) (\<lambda>(s2, items, eo). Inr (s2,
                 \<lparr>miID = mid, miCompleted = False, miSkipped = True, miHasSkippedSteps = False, miHasFailedSteps = False,
                  miPhaseMismatch = mismatch\<rparr> # items, eo))
           | Some t \<Rightarrow>
               (case tkExecute t target s of
                  (s1, res, Some e) \<Rightarrow> Inr (s1, [], Some (ExitCodeError ExitValidation (wrapf ''preparation failed'' e)))
                | (s1, None, None) \<Rightarrow> Inl nil_dereference
                | (s1, Some res, None) \<Rightarrow>
                    if \<not> arCompleted res then Inr (s1, [], Some (validation_error (''preparation halted: '' @ mid)))
                    else bind_res (prepare_loop r target phase ids s1) (\<lambda>(s2, items, eo). Inr (s2,
                      \<lparr>miID = mid, miCompleted = arCompleted res, miSkipped = False, miHasSkippedSteps = HasSkippedSteps res,
                       miHasFailedSteps = False, miPhaseMismatch = mismatch\<rparr> # items, eo)))))"

definition writePrepareResult ::
  "semver_lib \<Rightarrow> migrate_writer \<Rightarrow> PrepareCommand \<Rightarrow> Version \<Rightarrow> Version \<Rightarrow> string \<Rightarrow> MigrationResultItem list
     \<Rightarrow> MigrateResult list \<times> err option" where
  "writePrepareResult sv w c current target phase items =
     writeStructuredOutput w (moOutputFormat c)
       (migrate_result sv ''MigratePrepareResult'' 0 current target phase (moDryRun c) (pcOutputDir c) items)"

definition runPrepareMode ::
  "semver_lib \<Rightarrow> migrate_writer \<Rightarrow> 's ActionRegistry \<Rightarrow> PrepareCommand \<Rightarrow> Version \<Rightarrow> Version \<Rightarrow> string \<Rightarrow> 's
     \<Rightarrow> string + ('s \<times> MigrateResult list \<times> err option)" where
  "runPrepareMode sv w r c current target phase s =
     bind_res (prepare_loop r (run_target current target c (pcOutputDir c)) phase (moMigrationIDs c) s) (\<lambda>(s', items, eo).
       case eo of
         Some e \<Rightarrow> Inr (s', [], Some e)
       | None \<Rightarrow>
           if moOutputFormat c \<noteq> ''table'' then Inr (s', writePrepareResult sv w c current target phase items)
           else Inr (s', [], None))"

definition PrepareRun ::
  "semver_lib \<Rightarrow> migrate_writer \<Rightarrow> 's ActionRegistry \<Rightarrow> err + Version \<Rightarrow> PrepareCommand \<Rightarrow> 's
     \<Rightarrow> string + ('s \<times> MigrateResult list \<times> err option)" where
  "PrepareRun sv w r detect c s =
     bind_res (resolve_run sv r detect c) (\<lambda>x. case x of
         Inl e \<Rightarrow> Inr (s, [], Some e)
       | Inr (current, target, phase, ids) \<Rightarrow>
           runPrepareMode sv w r (c\<lparr>moMigrationIDs := ids\<rparr>) current target phase s)"

section \<open>\<open>migrate list\<close> (\<open>command_list.go\<close>)\<close>

record migrationRow =
  mrowID :: string
  mrowName :: string
  mrowPhase :: string
  mrowApplicable :: string
  mrowDescription :: string

definition ListComplete :: "migrate_env \<Rightarrow> ListCommand \<Rightarrow> ListCommand \<times> err option" where
  "ListComplete env c =
     (case MigrateSharedComplete env c of
        (c1, Some e) \<Rightarrow> (c1, Some (wrapf ''completing shared options'' e))
      | (c1, None) \<Rightarrow> complete_target env (if \<not> moVerbose c1 then c1\<lparr>moQuiet := True\<rparr> else c1))"

definition ListValidate :: "ListCommand \<Rightarrow> err option" where
  "ListValidate c =
     (case MigrateSharedValidate c of
        Some e \<Rightarrow> Some (wrapf ''validating shared options'' e)
      | None \<Rightarrow>
          if lcShowAll c \<and> moTargetVersion c \<noteq> [] then Some (NewError ''--all and --target-version are mutually exclusive'')
          else if \<not> lcShowAll c \<and> moTargetVersion c = [] then Some (NewError ''--target-version flag is required'')
          else map_option (wrapf ''validating phase'') (PhaseValidate (moPhase c)))"

fun buildRows :: "ListCommand \<Rightarrow> Version option \<Rightarrow> 's Action list \<Rightarrow> string + migrationRow list" where
  "buildRows c current [] = Inr []"
| "buildRows c current (a # as) =
     (let row = (\<lambda>s. \<lparr>mrowID = actID a, mrowName = actName a, mrowPhase = actPhase a, mrowApplicable = s,
                      mrowDescription = actDescription a\<rparr>) in
      if lcShowAll c \<and> moParsedTarget c = None then bind_res (buildRows c current as) (\<lambda>rows. Inr (row ''N/A'' # rows))
      else bind_res (actCanApply a (resolve_target current (moParsedTarget c))) (\<lambda>applicable.
        bind_res (buildRows c current as) (\<lambda>rows.
          if \<not> lcShowAll c \<and> \<not> applicable then Inr rows
          else Inr (row (if applicable then ''Yes'' else ''No'') # rows))))"

datatype list_out = ListMessage string | ListRows string "migrationRow list" | PhaseHint string

definition printPhaseHint :: "semver_lib \<Rightarrow> ListCommand \<Rightarrow> Version option \<Rightarrow> list_out list" where
  "printPhaseHint sv c current =
     (if moPhase c \<noteq> [] \<or> current = None \<or> moOutputFormat c \<noteq> ''table'' then []
      else case DetectPhase sv current (moParsedTarget c) of Inl _ \<Rightarrow> [] | Inr phase \<Rightarrow> [PhaseHint phase])"

text \<open>Rendering may fail with an error per format.\<close>

definition printRows :: "(string \<Rightarrow> err option) \<Rightarrow> ListCommand \<Rightarrow> migrationRow list \<Rightarrow> list_out list \<times> err option" where
  "printRows render c rows =
     (if moOutputFormat c \<in> {''table'', ''json'', ''yaml''} then
        (case render (moOutputFormat c) of Some e \<Rightarrow> ([], Some e) | None \<Rightarrow> ([ListRows (moOutputFormat c) rows], None))
      else ([], Some (NewError (''unsupported output format: '' @ moOutputFormat c))))"

definition ListRun ::
  "semver_lib \<Rightarrow> (string \<Rightarrow> err option) \<Rightarrow> 's ActionRegistry \<Rightarrow> err + Version \<Rightarrow> ListCommand
     \<Rightarrow> string + (list_out list \<times> err option)" where
  "ListRun sv render r detect c =
     (case (if lcShowAll c then Inr None else map_sum id Some detect) of
        Inl e \<Rightarrow> Inr ([], Some (wrapf ''detecting cluster version'' e))
      | Inr current \<Rightarrow>
          if ActionListAll r = [] then Inr ([ListMessage ''No migrations registered''], None)
          else let as = filterByPhase (ActionListAll r) (moPhase c) in
            if as = [] then Inr ([ListMessage (''No migrations found for phase '' @ go_quote (moPhase c))], None)
            else bind_res (buildRows c current as) (\<lambda>rows.
              if rows = [] then Inr ([ListMessage (''no migrations applicable for version '' @ moTargetVersion c)], None)
              else case printRows render c rows of
                  (out, Some e) \<Rightarrow> Inr (out, Some e)
                | (out, None) \<Rightarrow> Inr (out @ printPhaseHint sv c current, None)))"

section \<open>Runs of several migrations\<close>

text \<open>
  \<open>migrated r t ids s s' rs\<close>: the run tasks of the actions \<open>ids\<close>, in this order, each completed, lead from
  \<open>s\<close> to \<open>s'\<close> with the results \<open>rs\<close>. \<open>prepared\<close> says the same of the prepare tasks, where an action without
  one is passed over.
\<close>

inductive migrated ::
  "'s ActionRegistry \<Rightarrow> MigrateTarget \<Rightarrow> string list \<Rightarrow> 's \<Rightarrow> 's \<Rightarrow> ActionResult list \<Rightarrow> bool" for r t where
  migrated_none: "migrated r t [] s s []"
| migrated_step: "ActionGet r k = Some a \<Longrightarrow> actRun a = Some task \<Longrightarrow> tkExecute task t s = (s1, Some res, None)
    \<Longrightarrow> arCompleted res \<Longrightarrow> migrated r t ks s1 s2 rs \<Longrightarrow> migrated r t (k # ks) s s2 (res # rs)"

inductive prepared ::
  "'s ActionRegistry \<Rightarrow> MigrateTarget \<Rightarrow> string list \<Rightarrow> 's \<Rightarrow> 's \<Rightarrow> ActionResult option list \<Rightarrow> bool" for r t where
  prepared_none: "prepared r t [] s s []"
| prepared_skip: "ActionGet r k = Some a \<Longrightarrow> actPrepare a = None \<Longrightarrow> prepared r t ks s s2 rs
    \<Longrightarrow> prepared r t (k # ks) s s2 (None # rs)"
| prepared_step: "ActionGet r k = Some a \<Longrightarrow> actPrepare a = Some task \<Longrightarrow> tkExecute task t s = (s1, Some res, None)
    \<Longrightarrow> arCompleted res \<Longrightarrow> prepared r t ks s1 s2 rs \<Longrightarrow> prepared r t (k # ks) s s2 (Some res # rs)"

inductive_cases migrated_NilE: "migrated r t [] s s' rs"
inductive_cases migrated_ConsE: "migrated r t (k # ks) s s' rs"
inductive_cases prepared_NilE: "prepared r t [] s s' rs"
inductive_cases prepared_ConsE: "prepared r t (k # ks) s s' rs"

definition run_item :: "'s ActionRegistry \<Rightarrow> string \<Rightarrow> string \<Rightarrow> ActionResult \<Rightarrow> MigrationResultItem" where
  "run_item r phase k res = \<lparr>miID = k, miCompleted = True, miSkipped = False, miHasSkippedSteps = HasSkippedSteps res,
     miHasFailedSteps = HasFailedSteps res, miPhaseMismatch = (map_option actPhase (ActionGet r k) \<noteq> Some phase)\<rparr>"

definition prepare_item :: "'s ActionRegistry \<Rightarrow> string \<Rightarrow> string \<Rightarrow> ActionResult option \<Rightarrow> MigrationResultItem" where
  "prepare_item r phase k res = \<lparr>miID = k, miCompleted = (res \<noteq> None), miSkipped = (res = None),
     miHasSkippedSteps = (case res of None \<Rightarrow> False | Some x \<Rightarrow> HasSkippedSteps x), miHasFailedSteps = False,
     miPhaseMismatch = (map_option actPhase (ActionGet r k) \<noteq> Some phase)\<rparr>"

lemma run_loop_sound:
  "run_loop r t phase ids s = Inr (s', items, None) \<Longrightarrow>
     \<exists>rs. migrated r t ids s s' rs \<and> items = map2 (run_item r phase) ids rs"
proof (induction ids arbitrary: s s' items)
  case (Cons k ks)
  obtain a where a: "ActionGet r k = Some a" using Cons.prems by (cases "ActionGet r k") auto
  obtain task where task: "actRun a = Some task" using Cons.prems a by (cases "actRun a") auto
  obtain s1 ro eo where ex: "tkExecute task t s = (s1, ro, eo)" by (cases "tkExecute task t s")
  then obtain res where res: "ro = Some res" "eo = None" "arCompleted res"
    using Cons.prems a task by (cases eo; cases ro) (auto split: if_splits)
  then obtain items' where rest: "run_loop r t phase ks s1 = Inr (s', items', None)" "items = run_item r phase k res # items'"
    using Cons.prems a task ex by (auto simp: run_item_def)
  with Cons.IH [OF rest(1)] obtain rs
    where "migrated r t ks s1 s' rs" "items' = map2 (run_item r phase) ks rs" by blast
  then show ?case using migrated_step [OF a task _ res(3), of t s s1] ex res rest(2) by (intro exI [of _ "res # rs"]) simp
qed (auto intro: migrated_none)

lemma run_loop_complete:
  "migrated r t ids s s' rs \<Longrightarrow> run_loop r t phase ids s = Inr (s', map2 (run_item r phase) ids rs, None)"
  by (induction rule: migrated.induct) (simp_all add: run_item_def)

lemma prepare_loop_complete:
  "prepared r t ids s s' rs \<Longrightarrow> prepare_loop r t phase ids s = Inr (s', map2 (prepare_item r phase) ids rs, None)"
  by (induction rule: prepared.induct) (simp_all add: prepare_item_def)

lemma prepare_loop_sound:
  "prepare_loop r t phase ids s = Inr (s', items, None) \<Longrightarrow>
     \<exists>rs. prepared r t ids s s' rs \<and> items = map2 (prepare_item r phase) ids rs"
proof (induction ids arbitrary: s s' items)
  case (Cons k ks)
  obtain a where a: "ActionGet r k = Some a" using Cons.prems by (cases "ActionGet r k") auto
  show ?case
  proof (cases "actPrepare a")
    case None
    with Cons.prems a obtain items' where rest: "prepare_loop r t phase ks s = Inr (s', items', None)"
        "items = prepare_item r phase k None # items'"
      by (auto simp: prepare_item_def)
    with Cons.IH [OF rest(1)] obtain rs
      where "prepared r t ks s s' rs" "items' = map2 (prepare_item r phase) ks rs" by blast
    then show ?thesis using prepared_skip [OF a None] rest(2) by (intro exI [of _ "None # rs"]) simp
  next
    case (Some task)
    obtain s1 ro eo where ex: "tkExecute task t s = (s1, ro, eo)" by (cases "tkExecute task t s")
    then obtain res where res: "ro = Some res" "eo = None" "arCompleted res"
      using Cons.prems a Some by (cases eo; cases ro) (auto split: if_splits)
    then obtain items' where rest: "prepare_loop r t phase ks s1 = Inr (s', items', None)"
        "items = prepare_item r phase k (Some res) # items'"
      using Cons.prems a Some ex by (auto simp: prepare_item_def)
    with Cons.IH [OF rest(1)] obtain rs
      where "prepared r t ks s1 s' rs" "items' = map2 (prepare_item r phase) ks rs" by blast
    then show ?thesis using prepared_step [OF a Some _ res(3), of t s s1] ex res rest(2)
      by (intro exI [of _ "Some res # rs"]) simp
  qed
qed (auto intro: prepared_none)

lemma run_loop_iff:
  "run_loop r t phase ids s = Inr (s', items, None) \<longleftrightarrow>
     (\<exists>rs. migrated r t ids s s' rs \<and> items = map2 (run_item r phase) ids rs)"
  using run_loop_sound [of r t phase ids s s' items] run_loop_complete [of r t ids s s' _ phase] by auto

lemma prepare_loop_iff:
  "prepare_loop r t phase ids s = Inr (s', items, None) \<longleftrightarrow>
     (\<exists>rs. prepared r t ids s s' rs \<and> items = map2 (prepare_item r phase) ids rs)"
  using prepare_loop_sound [of r t phase ids s s' items] prepare_loop_complete [of r t ids s s' _ phase] by auto

lemma migrated_length: "migrated r t ids s s' rs \<Longrightarrow> length rs = length ids"
  by (induction rule: migrated.induct) simp_all

lemma migrated_run_task: "migrated r t ids s s' rs \<Longrightarrow> k \<in> set ids \<Longrightarrow> \<exists>a. ActionGet r k = Some a \<and> actRun a \<noteq> None"
  by (induction rule: migrated.induct) auto

text \<open>A writer that fails at no format.\<close>

definition writer_ok :: "migrate_writer \<Rightarrow> bool" where
  "writer_ok w \<longleftrightarrow> mwMarshal w = (\<lambda>f d. None) \<and> mwWrite w = (\<lambda>f d. None)"

definition structured_docs :: "string \<Rightarrow> MigrateResult \<Rightarrow> MigrateResult list" where
  "structured_docs format d = (if format = ''table'' then [] else [d])"

lemma validate_common_format: "validate_common verb c = None \<Longrightarrow> moOutputFormat c \<in> {''table'', ''json'', ''yaml''}"
  by (auto simp: validate_common_def MigrateSharedValidate_def MigrateFormatValidate_def split: option.splits if_splits)

lemma writeStructuredOutput_ok:
  "writer_ok w \<Longrightarrow> format \<in> {''json'', ''yaml''} \<Longrightarrow> writeStructuredOutput w format d = ([d], None)"
  by (auto simp: writeStructuredOutput_def writer_ok_def)

lemma failed_items:
  "length rs = length ids \<Longrightarrow> list_ex miHasFailedSteps (map2 (run_item r phase) ids rs) \<longleftrightarrow> list_ex HasFailedSteps rs"
  by (induction rs ids rule: list_induct2) (simp_all add: run_item_def)

lemma countErrors_zero: "countErrors items > 0 \<longleftrightarrow> list_ex miHasFailedSteps items"
  by (induction items) (auto simp: countErrors_def)

lemma runMigrationMode_iff:
  assumes "writer_ok w" "moOutputFormat c \<in> {''table'', ''json'', ''yaml''}"
  shows "runMigrationMode sv w r c current target phase s = Inr (s', docs, None) \<longleftrightarrow>
    (\<exists>rs. migrated r (run_target current target c []) (moMigrationIDs c) s s' rs \<and> \<not> list_ex HasFailedSteps rs
       \<and> docs = structured_docs (moOutputFormat c) (migrate_result sv ''MigrateRunResult'' 0 current target phase
           (moDryRun c) [] (map2 (run_item r phase) (moMigrationIDs c) rs)))"
proof -
  let ?t = "run_target current target c []" and ?out = "moOutputFormat c"
  define finish where "finish items = (if ?out \<noteq> ''table'' then writeRunResult sv w c current target phase items
    else ([], reportRunSummary (list_ex miHasFailedSteps items) (list_ex miHasSkippedSteps items)))" for items
  have fin: "finish items = (docs, None) \<longleftrightarrow> \<not> list_ex miHasFailedSteps items
      \<and> docs = structured_docs ?out (migrate_result sv ''MigrateRunResult'' 0 current target phase (moDryRun c) [] items)" for items
  proof (cases "?out = ''table''")
    case True
    then show ?thesis by (auto simp: finish_def reportRunSummary_def structured_docs_def)
  next
    case False
    then have "writeStructuredOutput w ?out d = ([d], None)" for d
      using assms by (intro writeStructuredOutput_ok) auto
    moreover have "countErrors items = 0" if "\<not> list_ex miHasFailedSteps items"
      using that countErrors_zero [of items] by (simp add: countErrors_def)
    ultimately show ?thesis using False countErrors_zero [of items]
      by (auto simp: finish_def writeRunResult_def Let_def structured_docs_def)
  qed
  have "runMigrationMode sv w r c current target phase s = Inr (s', docs, None) \<longleftrightarrow>
      (\<exists>items. run_loop r ?t phase (moMigrationIDs c) s = Inr (s', items, None) \<and> finish items = (docs, None))"
    by (auto simp: runMigrationMode_def finish_def split: option.splits)
  then show ?thesis
    unfolding fin run_loop_iff using failed_items migrated_length by metis
qed

lemma runPrepareMode_iff:
  assumes "writer_ok w" "moOutputFormat c \<in> {''table'', ''json'', ''yaml''}"
  shows "runPrepareMode sv w r c current target phase s = Inr (s', docs, None) \<longleftrightarrow>
    (\<exists>rs. prepared r (run_target current target c (pcOutputDir c)) (moMigrationIDs c) s s' rs
       \<and> docs = structured_docs (moOutputFormat c) (migrate_result sv ''MigratePrepareResult'' 0 current target phase
           (moDryRun c) (pcOutputDir c) (map2 (prepare_item r phase) (moMigrationIDs c) rs)))"
proof (cases "moOutputFormat c = ''table''")
  case True
  then show ?thesis
    by (auto simp: runPrepareMode_def structured_docs_def prepare_loop_iff split: option.splits)
next
  case False
  then have "writeStructuredOutput w (moOutputFormat c) d = ([d], None)" for d
    using assms by (intro writeStructuredOutput_ok) auto
  with False show ?thesis
    by (auto simp: runPrepareMode_def structured_docs_def writePrepareResult_def prepare_loop_iff split: option.splits)
qed

lemma resolve_run_ok:
  assumes "moParsedTarget c = Some target"
    and "resolvePhaseAndMigrations sv (moParsedPhase c) (moMigrationIDs c) (Some current) (Some target) r = Inr (Inr (phase, ids))"
  shows "resolve_run sv r (Inr current) c =
    Inr (if ids = [] then Inl (validation_error (''no applicable migrations found for phase '' @ phase))
         else Inr (current, target, phase, ids))"
  using assms by (simp add: resolve_run_def)

lemma applicable_ids_sorted:
  "applicable_ids t as = Inr ids \<Longrightarrow> sorted_wrt (\<lambda>a b. actID a < actID b) as \<Longrightarrow> sorted_wrt (<) ids"
proof (induction as arbitrary: ids)
  case (Cons a as)
  then obtain b ids' where b: "actCanApply a t = Inr b" "applicable_ids t as = Inr ids'"
      "ids = (if b then actID a # ids' else ids')"
    by auto
  with Cons.IH [OF b(2)] Cons.prems(2) applicable_ids_iff [OF b(2)] show ?case by auto
qed simp

lemma resolved_ids:
  assumes "wf_actions r" "given = []" "phase \<noteq> []"
    and "resolvePhaseAndMigrations sv asked given (Some current) (Some target) r = Inr (Inr (phase, ids))"
  shows "sorted_wrt (<) ids \<and> (\<forall>k. k \<in> set ids \<longleftrightarrow> (\<exists>a. ActionGet r k = Some a
    \<and> actPhase a = phase \<and> actCanApply a (resolve_target (Some current) (Some target)) = Inr True))"
proof -
  let ?t = "resolve_target (Some current) (Some target)"
  have app: "applicable_ids ?t (filter (\<lambda>a. actPhase a = phase) (ActionListAll r)) = Inr ids"
    using assms(2-4) by (auto simp: resolvePhaseAndMigrations_def DetectPhase_def filterByPhase_def split: if_splits)
  have "sorted_wrt (<) ids"
    using applicable_ids_sorted [OF app] ActionListAll_sorted [OF assms(1)] by (simp add: sorted_wrt_filter)
  moreover have "k \<in> set ids \<longleftrightarrow> (\<exists>a. ActionGet r k = Some a \<and> actPhase a = phase \<and> actCanApply a ?t = Inr True)" for k
    unfolding applicable_ids_iff [OF app] actions.get_items [OF assms(1)] by auto
  ultimately show ?thesis by blast
qed

lemma RunRun_migrated:
  assumes "RunRun sv w r (Inr current) c s = Inr (s', docs, None)" and "moParsedTarget c = Some target"
  obtains phase ids rs where
    "resolvePhaseAndMigrations sv (moParsedPhase c) (moMigrationIDs c) (Some current) (Some target) r = Inr (Inr (phase, ids))"
    "migrated r (run_target current target c []) ids s s' rs"
proof -
  obtain phase ids where sel: "resolvePhaseAndMigrations sv (moParsedPhase c) (moMigrationIDs c) (Some current) (Some target) r
      = Inr (Inr (phase, ids))" "ids \<noteq> []"
      "runMigrationMode sv w r (c\<lparr>moMigrationIDs := ids\<rparr>) current target phase s = Inr (s', docs, None)"
  proof -
    obtain x where x: "resolve_run sv r (Inr current) c = Inr (Inr x)"
      "(case x of (cur, t, phase, ids) \<Rightarrow> runMigrationMode sv w r (c\<lparr>moMigrationIDs := ids\<rparr>) cur t phase s) = Inr (s', docs, None)"
      using assms(1) unfolding RunRun_def
      by (cases "resolve_run sv r (Inr current) c"; cases "projr (resolve_run sv r (Inr current) c)") auto
    obtain y where y: "resolvePhaseAndMigrations sv (moParsedPhase c) (moMigrationIDs c) (Some current) (Some target) r = Inr (Inr y)"
      using x(1) assms(2) unfolding resolve_run_def
      by (cases "resolvePhaseAndMigrations sv (moParsedPhase c) (moMigrationIDs c) (Some current) (Some target) r";
          cases "projr (resolvePhaseAndMigrations sv (moParsedPhase c) (moMigrationIDs c) (Some current) (Some target) r)") auto
    obtain phase ids where "y = (phase, ids)" by (cases y)
    with y have res: "resolvePhaseAndMigrations sv (moParsedPhase c) (moMigrationIDs c) (Some current) (Some target) r = Inr (Inr (phase, ids))"
      by simp
    from that [OF this] x resolve_run_ok [OF assms(2) this] show thesis by (auto split: if_splits)
  qed
  then obtain items where "run_loop r (run_target current target c []) phase ids s = Inr (s', items, None)"
    by (auto simp: runMigrationMode_def run_target_def split: option.splits if_splits)
  from run_loop_sound [OF this] obtain rs where "migrated r (run_target current target c []) ids s s' rs" by (elim exE conjE)
  with sel(1) show thesis by (rule that)
qed

lemmas can_defs = can_rhbok_def can_storage_version_def can_from_2x_def can_modelserving_def can_managed_isvc_def
  can_from_216_to_3x_def can_to_3x_def can_from_2x_to_3x_def can_target_3x_def can_llamastack_def can_ray_backup_def can_always_def

text \<open>With a current version, every registered action can say whether it applies.\<close>

lemma default_can_total: "e \<in> set default_actions \<Longrightarrow> \<exists>b. enCan e (resolve_target (Some v) t) = Inr b"
proof -
  define known where "known = [can_rhbok, can_storage_version, can_from_2x, can_modelserving, can_managed_isvc, can_from_216_to_3x,
    can_to_3x, can_from_2x_to_3x, can_target_3x, can_llamastack, can_ray_backup, can_always]"
  have "list_all (\<lambda>can. \<exists>b. can (resolve_target (Some v) t) = Inr b) known"
    by (auto simp: known_def can_defs resolve_target_def split: option.split)
  moreover have "list_all (\<lambda>e. enCan e \<in> set known) default_actions"
    by (simp add: default_actions_def known_def)
  ultimately show "e \<in> set default_actions \<Longrightarrow> \<exists>b. enCan e (resolve_target (Some v) t) = Inr b"
    by (auto simp: list_all_iff)
qed

section \<open>Properties\<close>

text \<open>
  C13. After \<open>RunValidate\<close>, \<open>migrate run\<close> returns without an error exactly if some migration was selected and
  the run tasks of all selected migrations, in order, exist, return without an error, complete and
  record no failed step; the state afterwards is the one these tasks lead to, in this order. A structured
  format then gets one document that lists the migrations with no errors, the table format none.
\<close>

theorem RunRun_success:
  assumes "RunValidate c = None" and "writer_ok w" and "moParsedTarget c = Some target"
    and "resolvePhaseAndMigrations sv (moParsedPhase c) (moMigrationIDs c) (Some current) (Some target) r = Inr (Inr (phase, ids))"
  shows "RunRun sv w r (Inr current) c s = Inr (s', docs, None) \<longleftrightarrow>
    ids \<noteq> [] \<and> (\<exists>rs. migrated r (run_target current target c []) ids s s' rs \<and> \<not> list_ex HasFailedSteps rs
       \<and> docs = structured_docs (moOutputFormat c) (migrate_result sv ''MigrateRunResult'' 0 current target phase
           (moDryRun c) [] (map2 (run_item r phase) ids rs)))"
proof -
  have "moOutputFormat (c\<lparr>moMigrationIDs := ids\<rparr>) \<in> {''table'', ''json'', ''yaml''}"
    using validate_common_format assms(1) by (simp add: RunValidate_def)
  from runMigrationMode_iff [OF assms(2) this, of sv r current target phase s s' docs] show ?thesis
    using resolve_run_ok [OF assms(3,4)] by (simp add: RunRun_def run_target_def)
qed

text \<open>
  C19. After \<open>PrepareValidate\<close>, \<open>migrate prepare\<close> returns without an error exactly if some migration was
  selected and all prepare tasks, where there are any, return without an error and complete. Failed
  steps play no role: the document counts no errors and marks no migration as failed.
\<close>

theorem PrepareRun_success:
  assumes "PrepareValidate c = None" and "writer_ok w" and "moParsedTarget c = Some target"
    and "resolvePhaseAndMigrations sv (moParsedPhase c) (moMigrationIDs c) (Some current) (Some target) r = Inr (Inr (phase, ids))"
  shows "PrepareRun sv w r (Inr current) c s = Inr (s', docs, None) \<longleftrightarrow>
    ids \<noteq> [] \<and> (\<exists>rs. prepared r (run_target current target c (pcOutputDir c)) ids s s' rs
       \<and> docs = structured_docs (moOutputFormat c) (migrate_result sv ''MigratePrepareResult'' 0 current target phase
           (moDryRun c) (pcOutputDir c) (map2 (prepare_item r phase) ids rs)))"
proof -
  have "moOutputFormat (c\<lparr>moMigrationIDs := ids\<rparr>) \<in> {''table'', ''json'', ''yaml''}"
    using validate_common_format assms(1) by (simp add: PrepareValidate_def)
  from runPrepareMode_iff [OF assms(2) this, of sv r current target phase s s' docs] show ?thesis
    using resolve_run_ok [OF assms(3,4)] by (simp add: PrepareRun_def run_target_def)
qed

text \<open>An action whose tasks count their executions and record one failed step if asked to.\<close>

definition counting_result :: "bool \<Rightarrow> ActionResult" where
  "counting_result failed = (NewActionResult [] [] [] [])\<lparr>arCompleted := True,
     arSteps := [ActionStep ''step'' [] (if failed then StepFailed else StepCompleted) [] 0 [] []]\<rparr>"

definition counting_task :: "bool \<Rightarrow> nat Task" where
  "counting_task failed = \<lparr>tkValidate = \<lambda>t s. (s, None, None), tkExecute = \<lambda>t s. (s + 1, Some (counting_result failed), None)\<rparr>"

definition counting_action :: "bool \<Rightarrow> nat Action" where
  "counting_action failed = \<lparr>actID = ''a.b'', actName = [], actDescription = [], actGroup = GroupMigration,
     actPhase = PhasePreUpgrade, actCanApply = can_always, actPrepare = Some (counting_task failed),
     actRun = Some (counting_task failed), actFlags = None\<rparr>"

definition counting_registry :: "bool \<Rightarrow> nat ActionRegistry" where
  "counting_registry failed = [(''a.b'', counting_action failed)]"

lemmas counting_defs = ActionGet_def counting_registry_def counting_action_def counting_task_def counting_result_def

definition quiet_writer :: migrate_writer where
  "quiet_writer = \<lparr>mwMarshal = \<lambda>f d. None, mwWrite = \<lambda>f d. None\<rparr>"

definition sample_run :: RunCommand where
  "sample_run = \<lparr>moOutputFormat = ''json'', moVerbose = True, moTimeout = 1, moClient = True, moQuiet = True, moDryRun = False,
     moYes = True, moMigrationIDs = [''a.b''], moTargetVersion = ''3.0.0'', moPhase = [], moParsedTarget = Some (sample_version 3 0),
     moParsedPhase = [], rcFromStdin = False\<rparr>"

definition sample_prepare :: PrepareCommand where
  "sample_prepare = \<lparr>moOutputFormat = ''json'', moVerbose = True, moTimeout = 1, moClient = True, moQuiet = True, moDryRun = False,
     moYes = True, moMigrationIDs = [''a.b''], moTargetVersion = ''3.0.0'', moPhase = [], moParsedTarget = Some (sample_version 3 0),
     moParsedPhase = [], pcOutputDir = ''backup''\<rparr>"

lemma migrated_counting: "migrated (counting_registry f) t [''a.b''] 0 1 [counting_result f]"
  by (rule migrated_step [of _ _ "counting_action f" "counting_task f", OF _ _ _ _ migrated_none]) (simp_all add: counting_defs)

lemma prepared_counting: "prepared (counting_registry f) t [''a.b''] 0 1 [Some (counting_result f)]"
  by (rule prepared_step [of _ _ "counting_action f" "counting_task f", OF _ _ _ _ prepared_none]) (simp_all add: counting_defs)

lemma resolve_counting:
  "resolvePhaseAndMigrations sample_semver [] [''a.b''] (Some (sample_version 2 25)) (Some (sample_version 3 0)) r
     = Inr (Inr (PhasePreUpgrade, [''a.b'']))"
  by (simp add: resolvePhaseAndMigrations_def DetectPhase_def sample_semver_def sample_version_def)

theorem RunRun_success_witness:
  "\<exists>docs. RunRun sample_semver quiet_writer (counting_registry False) (Inr (sample_version 2 25)) sample_run 0 = Inr (1, docs, None)"
proof -
  have "RunValidate sample_run = None" by code_simp
  moreover have "writer_ok quiet_writer" by (simp add: writer_ok_def quiet_writer_def)
  moreover have "moParsedTarget sample_run = Some (sample_version 3 0)" by (simp add: sample_run_def)
  moreover have "resolvePhaseAndMigrations sample_semver (moParsedPhase sample_run) (moMigrationIDs sample_run)
      (Some (sample_version 2 25)) (Some (sample_version 3 0)) (counting_registry False) = Inr (Inr (PhasePreUpgrade, [''a.b'']))"
    using resolve_counting by (simp add: sample_run_def)
  moreover have "\<not> list_ex HasFailedSteps [counting_result False]" by (simp add: HasFailedSteps_def counting_result_def)
  ultimately show ?thesis using migrated_counting by (subst RunRun_success) blast+
qed

theorem PrepareRun_success_witness:
  "\<exists>docs. PrepareRun sample_semver quiet_writer (counting_registry True) (Inr (sample_version 2 25)) sample_prepare 0 = Inr (1, docs, None)
     \<and> HasFailedSteps (counting_result True)"
proof -
  have "PrepareValidate sample_prepare = None" by code_simp
  moreover have "writer_ok quiet_writer" by (simp add: writer_ok_def quiet_writer_def)
  moreover have "moParsedTarget sample_prepare = Some (sample_version 3 0)" by (simp add: sample_prepare_def)
  moreover have "resolvePhaseAndMigrations sample_semver (moParsedPhase sample_prepare) (moMigrationIDs sample_prepare)
      (Some (sample_version 2 25)) (Some (sample_version 3 0)) (counting_registry True) = Inr (Inr (PhasePreUpgrade, [''a.b'']))"
    using resolve_counting by (simp add: sample_prepare_def)
  moreover have "HasFailedSteps (counting_result True)" by (simp add: HasFailedSteps_def counting_result_def)
  ultimately show ?thesis using prepared_counting by (subst PrepareRun_success) blast+
qed

text \<open>
  Without explicit identifiers, \<open>run\<close> and \<open>prepare\<close> select exactly the registered actions of the
  phase that apply to the versions, each once and in the order of identifiers; the phase is the one asked
  for, else the one that the order of the versions gives. Explicit identifiers are taken as they are.
\<close>

theorem resolvePhaseAndMigrations_selects:
  assumes "wf_actions r"
    and "resolvePhaseAndMigrations sv asked given (Some current) (Some target) r = Inr (Inr (phase, ids))"
  shows "phase = (if asked \<noteq> [] then asked else if sv_LT sv current target then PhasePreUpgrade else PhasePostUpgrade)
    \<and> (given \<noteq> [] \<longrightarrow> ids = given)
    \<and> (given = [] \<longrightarrow> sorted_wrt (<) ids \<and> (\<forall>k. k \<in> set ids \<longleftrightarrow> (\<exists>a. ActionGet r k = Some a
         \<and> actPhase a = phase \<and> actCanApply a (resolve_target (Some current) (Some target)) = Inr True)))"
proof -
  have phase: "phase = (if asked \<noteq> [] then asked else if sv_LT sv current target then PhasePreUpgrade else PhasePostUpgrade)"
    using assms(2) by (auto simp: resolvePhaseAndMigrations_def DetectPhase_def split: if_splits)
  moreover have "given \<noteq> [] \<longrightarrow> ids = given"
    using assms(2) by (auto simp: resolvePhaseAndMigrations_def DetectPhase_def split: if_splits)
  moreover have "phase \<noteq> []" using phase by (auto split: if_splits)
  ultimately show ?thesis using resolved_ids [OF assms(1) _ _ assms(2)] by blast
qed

theorem resolvePhaseAndMigrations_selects_witness:
  "\<exists>ids. resolvePhaseAndMigrations sample_semver [] [] (Some (sample_version 2 25)) (Some (sample_version 3 0)) (counting_registry False)
      = Inr (Inr (PhasePreUpgrade, ids)) \<and> ''a.b'' \<in> set ids"
proof -
  have wf: "wf_actions (counting_registry False)" by (simp add: wf_actions_def counting_registry_def counting_action_def)
  have sel: "resolvePhaseAndMigrations sample_semver [] [] (Some (sample_version 2 25)) (Some (sample_version 3 0))
      (counting_registry False) = Inr (Inr (PhasePreUpgrade, [''a.b'']))"
    by code_simp
  from resolvePhaseAndMigrations_selects [OF wf sel]
  have "sorted_wrt (<) [''a.b''] \<and> (\<forall>k. k \<in> set [''a.b''] \<longleftrightarrow> (\<exists>a. ActionGet (counting_registry False) k = Some a
      \<and> actPhase a = PhasePreUpgrade
      \<and> actCanApply a (resolve_target (Some (sample_version 2 25)) (Some (sample_version 3 0))) = Inr True))"
    by blast
  with sel show ?thesis by (intro exI [of _ "[''a.b'']"]) simp
qed

text \<open>
  C20. With the registered actions, \<open>migrate run --phase pre-upgrade\<close> towards 3.0 up to 3.5 never succeeds:
  \<open>llamastack.backup\<close> is of this phase and applies to these targets, but it has no run task.
\<close>

theorem pre_upgrade_run_never_succeeds:
  assumes "newDefaultRegistry prep run = Inr r"
    and "moParsedPhase c = PhasePreUpgrade" and "moMigrationIDs c = []" and "moParsedTarget c = Some target"
    and "Major target = 3" and "Minor target \<le> 5"
  shows "RunRun sv w r (Inr current) c s \<noteq> Inr (s', docs, None)"
proof
  assume ok: "RunRun sv w r (Inr current) c s = Inr (s', docs, None)"
  let ?t = "resolve_target (Some current) (Some target)"
  let ?k = "''llamastack.backup''"
  obtain phase ids rs where sel: "resolvePhaseAndMigrations sv (moParsedPhase c) (moMigrationIDs c) (Some current) (Some target) r
      = Inr (Inr (phase, ids))" and rs: "migrated r (run_target current target c []) ids s s' rs"
    using RunRun_migrated [OF ok assms(4)] by blast
  have phase: "phase = PhasePreUpgrade"
    using sel assms(2) by (auto simp: resolvePhaseAndMigrations_def split: if_splits)
  have wf: "wf_actions r" using newDefaultRegistry_ok [of prep run] assms(1) by auto
  define e where "e = the (find (\<lambda>e. enID e = ?k) default_actions)"
  have e: "ActionGet r ?k = Some (mk_action prep run e)" "enPhase e = PhasePreUpgrade" "enCan e = can_llamastack" "\<not> enRun e"
    using assms(1) by (auto simp: ActionGet_def newDefaultRegistry_eq default_actions_def e_def)
  have "actCanApply (mk_action prep run e) ?t = Inr True"
    using assms(5,6) e(3) by (simp add: can_llamastack_def resolve_target_def)
  moreover have "actPhase (mk_action prep run e) = phase" using e(2) phase by simp
  moreover have "phase \<noteq> []" using phase by simp
  ultimately have "?k \<in> set ids" using resolved_ids [OF wf assms(3) _ sel] e(1) by blast
  from migrated_run_task [OF rs this] show False using e by simp
qed

text \<open>A call for the phase before the upgrade, with tasks that would all complete.\<close>

theorem pre_upgrade_run_never_succeeds_witness:
  "\<exists>r. newDefaultRegistry (\<lambda>_. counting_task False) (\<lambda>_. counting_task False) = Inr r
     \<and> RunValidate (sample_run\<lparr>moMigrationIDs := [], moPhase := PhasePreUpgrade, moParsedPhase := PhasePreUpgrade\<rparr>) = None
     \<and> RunRun sample_semver quiet_writer r (Inr (sample_version 2 25))
         (sample_run\<lparr>moMigrationIDs := [], moPhase := PhasePreUpgrade, moParsedPhase := PhasePreUpgrade\<rparr>) 0 \<noteq> Inr (3, [], None)"
proof -
  let ?c = "sample_run\<lparr>moMigrationIDs := [], moPhase := PhasePreUpgrade, moParsedPhase := PhasePreUpgrade\<rparr>"
  obtain r where r: "newDefaultRegistry (\<lambda>_. counting_task False) (\<lambda>_. counting_task False) = Inr r"
    using newDefaultRegistry_ok by blast
  have "RunValidate ?c = None" by code_simp
  moreover have "moParsedPhase ?c = PhasePreUpgrade" "moMigrationIDs ?c = []" "moParsedTarget ?c = Some (sample_version 3 0)"
    "Major (sample_version 3 0) = 3" "Minor (sample_version 3 0) \<le> 5"
    by (simp_all add: sample_run_def sample_version_def zero_version_def)
  ultimately show ?thesis using r pre_upgrade_run_never_succeeds [OF r] by blast
qed

text \<open>
  \<open>migrate list\<close> never panics on the registered actions: although the actions for model serving read
  the current version without a check, \<open>ListComplete\<close> and \<open>ListValidate\<close> let \<open>--all\<close> pass only without a target, and
  then no action is asked whether it applies.
\<close>

theorem ListRun_no_panic:
  assumes "newDefaultRegistry prep run = Inr r"
    and "moParsedTarget c = None" and "ListComplete env c = (c', None)" and "ListValidate c' = None"
  shows "\<exists>out eo. ListRun sv render r detect c' = Inr (out, eo)"
proof -
  have "complete_target env d = (c', None) \<Longrightarrow> moParsedTarget d = None \<Longrightarrow>
      (moTargetVersion c' = [] \<longleftrightarrow> moParsedTarget c' = None)" for d
    by (auto simp: complete_target_def split: if_splits sum.splits)
  then have target: "moTargetVersion c' = [] \<longleftrightarrow> moParsedTarget c' = None"
    using assms(2,3) by (auto simp: ListComplete_def MigrateSharedComplete_def split: option.splits if_splits)
  have all: "lcShowAll c' \<longleftrightarrow> moTargetVersion c' = []"
    using assms(4) by (auto simp: ListValidate_def split: option.splits if_splits)
  have can: "\<exists>b. actCanApply a (resolve_target (Some v) (moParsedTarget c')) = Inr b" if "a \<in> set (ActionListAll r)" for a v
  proof -
    from that obtain e where "e \<in> set default_actions" "a = mk_action prep run e"
      using newDefaultRegistry_ok [of prep run] assms(1) by auto
    then show ?thesis using default_can_total [of e v] by simp
  qed
  have rows: "\<exists>rows. buildRows c' current as = Inr rows"
    if "set as \<subseteq> set (ActionListAll r)" "lcShowAll c' \<or> current \<noteq> None" for as current
    using that
  proof (induction as)
    case (Cons a as)
    then obtain rest where rest: "buildRows c' current as = Inr rest" by auto
    show ?case
    proof (cases "lcShowAll c'")
      case True
      then show ?thesis using rest all target by simp
    next
      case False
      then obtain v where v: "current = Some v" using Cons.prems(2) by auto
      moreover have "a \<in> set (ActionListAll r)" using Cons.prems(1) by simp
      ultimately obtain b where "actCanApply a (resolve_target current (moParsedTarget c')) = Inr b" using can by blast
      then show ?thesis using False rest by auto
    qed
  qed simp
  show ?thesis
  proof (cases "if lcShowAll c' then Inr None else map_sum id Some detect")
    case (Inr current)
    then have "lcShowAll c' \<or> current \<noteq> None" by (cases detect) (auto split: if_splits)
    moreover have "set (filterByPhase (ActionListAll r) (moPhase c')) \<subseteq> set (ActionListAll r)" by (auto simp: filterByPhase_def)
    ultimately obtain rs where "buildRows c' current (filterByPhase (ActionListAll r) (moPhase c')) = Inr rs" using rows by blast
    with Inr show ?thesis by (auto simp: ListRun_def Let_def split: prod.splits option.splits)
  qed (simp add: ListRun_def)
qed

definition sample_list :: ListCommand where
  "sample_list = \<lparr>moOutputFormat = ''table'', moVerbose = False, moTimeout = 1, moClient = False, moQuiet = False, moDryRun = False,
     moYes = False, moMigrationIDs = [], moTargetVersion = [], moPhase = [], moParsedTarget = None, moParsedPhase = [],
     lcShowAll = True\<rparr>"

theorem ListRun_no_panic_witness:
  "\<exists>r out eo. newDefaultRegistry (\<lambda>_. idle_task) (\<lambda>_. idle_task) = Inr r \<and> ListValidate sample_list = None
     \<and> ListRun sample_semver (\<lambda>_. None) r (Inl (NewError [])) (sample_list\<lparr>moClient := True, moQuiet := True\<rparr>) = Inr (out, eo)"
proof -
  let ?env = "\<lparr>gvRest = None, gvClient = None, gvSemver = sample_semver\<rparr>"
  obtain r where r: "newDefaultRegistry (\<lambda>_. idle_task) (\<lambda>_. idle_task) = Inr r"
    using newDefaultRegistry_ok by blast
  have "moParsedTarget sample_list = None" by (simp add: sample_list_def)
  moreover have "ListComplete ?env sample_list = (sample_list\<lparr>moClient := True, moQuiet := True\<rparr>, None)"
    by (simp add: ListComplete_def MigrateSharedComplete_def complete_target_def sample_list_def)
  moreover have "ListValidate (sample_list\<lparr>moClient := True, moQuiet := True\<rparr>) = None" "ListValidate sample_list = None"
    by code_simp+
  ultimately show ?thesis using ListRun_no_panic [OF r] r by blast
qed

end
