(* ===== verification/KubeClient.thy ===== *)
theory KubeClient
  imports Resources Versions
begin

text \<open>
  Access to the cluster: \<open>pkg/util/client/helpers.go\<close> and \<open>errors.go\<close>, the queries of
  \<open>pkg/util/jq/jq.go\<close>, the component states of \<open>pkg/util/components\<close> and the accessors of
  \<open>pkg/util/kube\<close>. The API server, its error predicates and the jq interpreter are arguments. A reader
  gives the same answers during one command.
\<close>

section \<open>Objects\<close>

text \<open>A number is an integer, as the API machinery reads it, or else a decimal with its text.\<close>

datatype json = JNull | JBool bool | JNum int | JFloat string | JStr string | JArr "json list" | JObj "(string, json) gomap"

fun json_field :: "string \<Rightarrow> json \<Rightarrow> json option" where
  "json_field k (JObj fs) = map_of fs k"
| "json_field k _ = None"

text \<open>\<open>unstructured.NestedString\<close>, with the empty string where there is none.\<close>

fun nested_string :: "string list \<Rightarrow> json \<Rightarrow> string" where
  "nested_string [] v = (case v of JStr s \<Rightarrow> s | _ \<Rightarrow> [])"
| "nested_string (k # ks) v = (case json_field k v of None \<Rightarrow> [] | Some w \<Rightarrow> nested_string ks w)"

definition u_name :: "json \<Rightarrow> string" where
  "u_name v = nested_string [''metadata'', ''name''] v"

definition u_namespace :: "json \<Rightarrow> string" where
  "u_namespace v = nested_string [''metadata'', ''namespace''] v"

text \<open>\<open>metav1.PartialObjectMetadata\<close> as it is read; \<open>poTypeMeta\<close> is the API version and the kind, which may be empty.\<close>

record PartialObject =
  poNamespace :: string
  poName :: string
  poUID :: string
  poLabels :: "(string, string) gomap"
  poAnnotations :: "(string, string) gomap"
  poOwners :: "string list"
  poFinalizers :: "string list"
  poTypeMeta :: "string \<times> string"

section \<open>Accessors (\<open>pkg/util/kube\<close>)\<close>

text \<open>A nil map reads as an empty one.\<close>

definition map_get :: "(string, string) gomap \<Rightarrow> string \<Rightarrow> string" where
  "map_get m k = (case map_of m k of None \<Rightarrow> [] | Some v \<Rightarrow> v)"

definition IsManaged :: "PartialObject \<Rightarrow> bool" where
  "IsManaged obj = (map_get (poAnnotations obj) ''opendatahub.io/managed'' \<noteq> ''false'')"

definition GetAnnotation :: "PartialObject \<Rightarrow> string \<Rightarrow> string" where
  "GetAnnotation obj k = map_get (poAnnotations obj) k"

definition HasAnnotation :: "PartialObject \<Rightarrow> string \<Rightarrow> string \<Rightarrow> bool" where
  "HasAnnotation obj k v = (map_of (poAnnotations obj) k = Some v)"

definition ContainsAnnotation :: "PartialObject \<Rightarrow> string \<Rightarrow> bool" where
  "ContainsAnnotation obj k = (map_of (poAnnotations obj) k \<noteq> None)"

definition GetLabel :: "PartialObject \<Rightarrow> string \<Rightarrow> string" where
  "GetLabel obj k = map_get (poLabels obj) k"

definition HasLabel :: "PartialObject \<Rightarrow> string \<Rightarrow> string \<Rightarrow> bool" where
  "HasLabel obj k v = (map_of (poLabels obj) k = Some v)"

definition ContainsLabel :: "PartialObject \<Rightarrow> string \<Rightarrow> bool" where
  "ContainsLabel obj k = (map_of (poLabels obj) k \<noteq> None)"

definition ToNamespacedNames :: "PartialObject list \<Rightarrow> (string \<times> string) list" where
  "ToNamespacedNames items = map (\<lambda>x. (poNamespace x, poName x)) items"

section \<open>Queries (\<open>jq.go\<close>)\<close>

text \<open>The interpreter: the error of parsing, and the first result of a run, if there is one.\<close>

record gojq =
  gqParse :: "string \<Rightarrow> err option"
  gqRun :: "string \<Rightarrow> json \<Rightarrow> (err + json) option"

abbreviation ErrNotFound :: err where "ErrNotFound \<equiv> Sentinel JqErrNotFound"

definition is_ErrNotFound :: "err \<Rightarrow> bool" where
  "is_ErrNotFound = errors_is (\<lambda>x. x = ErrNotFound)"

text \<open>
  \<open>Query[T]\<close>: \<open>conv\<close> is the assertion to \<open>T\<close> with the conversion through JSON after it, \<open>zero\<close> the zero
  value of \<open>T\<close>.
\<close>

definition Query :: "gojq \<Rightarrow> (json \<Rightarrow> err + 'a) \<Rightarrow> 'a \<Rightarrow> json \<Rightarrow> string \<Rightarrow> err + 'a" where
  "Query gq conv zero v q =
     (case gqParse gq q of
        Some e \<Rightarrow> Inl (wrapf ''failed to parse jq query'' e)
      | None \<Rightarrow>
          (case gqRun gq q v of
             None \<Rightarrow> Inr zero
           | Some (Inl e) \<Rightarrow> Inl (wrapf ''jq query error'' e)
           | Some (Inr r) \<Rightarrow> if r = JNull then Inl ErrNotFound else conv r))"

fun json_kind :: "json \<Rightarrow> string" where
  "json_kind JNull = ''null''"
| "json_kind (JBool b) = ''bool''"
| "json_kind (JNum n) = ''number''"
| "json_kind (JFloat s) = ''number''"
| "json_kind (JStr s) = ''string''"
| "json_kind (JArr xs) = ''array''"
| "json_kind (JObj fs) = ''object''"

definition unmarshal_error :: "string \<Rightarrow> json \<Rightarrow> err" where
  "unmarshal_error ty v = wrapf (''unmarshaling to type '' @ ty)
     (NewError (''json: cannot unmarshal '' @ json_kind v @ '' into Go value of type '' @ ty))"

fun as_string :: "json \<Rightarrow> err + string" where
  "as_string (JStr s) = Inr s"
| "as_string v = Inl (unmarshal_error ''string'' v)"

fun as_bool :: "json \<Rightarrow> err + bool" where
  "as_bool (JBool b) = Inr b"
| "as_bool v = Inl (unmarshal_error ''bool'' v)"

definition Matches :: "gojq \<Rightarrow> json \<Rightarrow> string \<Rightarrow> bool" where
  "Matches gq v q = (case Query gq as_bool False v q of Inl _ \<Rightarrow> False | Inr b \<Rightarrow> b)"

definition Predicate :: "gojq \<Rightarrow> string \<Rightarrow> json \<Rightarrow> err + bool" where
  "Predicate gq q v = (case Query gq as_bool False v q of Inl _ \<Rightarrow> Inr False | Inr b \<Rightarrow> Inr b)"

text \<open>\<open>Transform\<close> on the formatted expression: the object afterwards, or the error.\<close>

definition Transform :: "gojq \<Rightarrow> json \<Rightarrow> string \<Rightarrow> err + json" where
  "Transform gq v q =
     (case gqParse gq q of
        Some e \<Rightarrow> Inl (wrapf ''failed to parse jq expression'' e)
      | None \<Rightarrow>
          (case gqRun gq q v of
             None \<Rightarrow> Inl (NewError ''transform returned no result'')
           | Some (Inl e) \<Rightarrow> Inl (wrapf ''transform error'' e)
           | Some (Inr (JObj fs)) \<Rightarrow> Inr (JObj fs)
           | Some (Inr r) \<Rightarrow> Inl (NewError (''transform result is not a map: '' @ json_kind r))))"

section \<open>Component states (\<open>pkg/util/components\<close>)\<close>

abbreviation ManagementStateManaged :: string where "ManagementStateManaged \<equiv> ''Managed''"
abbreviation ManagementStateUnmanaged :: string where "ManagementStateUnmanaged \<equiv> ''Unmanaged''"
abbreviation ManagementStateRemoved :: string where "ManagementStateRemoved \<equiv> ''Removed''"

definition state_query :: "gojq \<Rightarrow> json \<Rightarrow> string \<Rightarrow> string \<Rightarrow> err + string" where
  "state_query gq obj path label =
     (case Query gq as_string [] obj path of
        Inl e \<Rightarrow> if is_ErrNotFound e then Inr ManagementStateRemoved
                 else Inl (wrapf (''querying '' @ label @ '' managementState'') e)
      | Inr s \<Rightarrow> Inr s)"

definition GetManagementState :: "gojq \<Rightarrow> json \<Rightarrow> string \<Rightarrow> err + string" where
  "GetManagementState gq obj key = state_query gq obj (''.spec.components.'' @ key @ ''.managementState'') key"

definition has_state :: "err + string \<Rightarrow> string list \<Rightarrow> bool" where
  "has_state r states = (case r of Inl _ \<Rightarrow> False | Inr s \<Rightarrow> if states = [] then True else s \<in> set states)"

definition HasManagementState :: "gojq \<Rightarrow> json \<Rightarrow> string \<Rightarrow> string list \<Rightarrow> bool" where
  "HasManagementState gq obj key states = has_state (GetManagementState gq obj key) states"

definition GetSubComponentManagementState :: "gojq \<Rightarrow> json \<Rightarrow> string \<Rightarrow> string \<Rightarrow> err + string" where
  "GetSubComponentManagementState gq obj parent sub =
     state_query gq obj (''.spec.components.'' @ parent @ ''.'' @ sub @ ''.managementState'') (parent @ ''.'' @ sub)"

definition HasSubComponentManagementState :: "gojq \<Rightarrow> json \<Rightarrow> string \<Rightarrow> string \<Rightarrow> string list \<Rightarrow> bool" where
  "HasSubComponentManagementState gq obj parent sub states =
     has_state (GetSubComponentManagementState gq obj parent sub) states"

section \<open>Listing with pages (\<open>helpers.go\<close>)\<close>

record ListResourcesConfig =
  lrNamespace :: string
  lrLabelSelector :: string
  lrFieldSelector :: string
  lrLimit :: int

definition list_all_config :: ListResourcesConfig where
  "list_all_config = \<lparr>lrNamespace = [], lrLabelSelector = [], lrFieldSelector = [], lrLimit = 0\<rparr>"

definition WithNamespace :: "string \<Rightarrow> ListResourcesConfig \<Rightarrow> ListResourcesConfig" where
  "WithNamespace ns c = c\<lparr>lrNamespace := ns\<rparr>"

definition WithLabelSelector :: "string \<Rightarrow> ListResourcesConfig \<Rightarrow> ListResourcesConfig" where
  "WithLabelSelector sel c = c\<lparr>lrLabelSelector := sel\<rparr>"

definition WithFieldSelector :: "string \<Rightarrow> ListResourcesConfig \<Rightarrow> ListResourcesConfig" where
  "WithFieldSelector sel c = c\<lparr>lrFieldSelector := sel\<rparr>"

definition WithLimit :: "int \<Rightarrow> ListResourcesConfig \<Rightarrow> ListResourcesConfig" where
  "WithLimit limit c = c\<lparr>lrLimit := limit\<rparr>"

text \<open>The server: a page of items with the token of the next one; the empty token is the last.\<close>

record kube_server =
  ksList :: "ResourceType \<Rightarrow> ListResourcesConfig \<Rightarrow> string \<Rightarrow> err + json list \<times> string"
  ksListMeta :: "ResourceType \<Rightarrow> ListResourcesConfig \<Rightarrow> string \<Rightarrow> err + PartialObject list \<times> string"
  ksGet :: "ResourceType \<Rightarrow> string \<Rightarrow> string \<Rightarrow> err + json"

definition IsPermissionError :: "api_preds \<Rightarrow> err \<Rightarrow> bool" where
  "IsPermissionError api e = (api IsForbidden e \<or> api IsUnauthorized e)"

text \<open>The loop both listings share; it ends only if the server stops sending tokens.\<close>

partial_function (option) list_pages ::
  "(string \<Rightarrow> err + 'a list \<times> string) \<Rightarrow> (err \<Rightarrow> bool) \<Rightarrow> string \<Rightarrow> int \<Rightarrow> string \<Rightarrow> 'a list \<Rightarrow> (err + 'a list) option" where
  "list_pages fetch perm msg limit token all =
     (case fetch token of
        Inl e \<Rightarrow> Some (if perm e then Inr [] else Inl (wrapf msg e))
      | Inr (items, next) \<Rightarrow>
          (let all' = all @ items in
           if limit > 0 \<and> int (length all') \<ge> limit then Some (Inr all')
           else if next = [] then Some (Inr all')
           else list_pages fetch perm msg limit next all'))"

declare list_pages.simps [code]

definition ListResources ::
  "api_preds \<Rightarrow> kube_server \<Rightarrow> ResourceType \<Rightarrow> ListResourcesConfig \<Rightarrow> (err + json list) option" where
  "ListResources api ks rt cfg =
     list_pages (ksList ks rt cfg) (IsPermissionError api) ''listing resources'' (lrLimit cfg) [] []"

definition ListMetadata ::
  "api_preds \<Rightarrow> kube_server \<Rightarrow> ResourceType \<Rightarrow> ListResourcesConfig \<Rightarrow> (err + PartialObject list) option" where
  "ListMetadata api ks rt cfg =
     list_pages (ksListMeta ks rt cfg) (IsPermissionError api) ''listing metadata for resources'' (lrLimit cfg) [] []"

text \<open>\<open>Get\<close> returns a nil resource without an error if permission is missing.\<close>

definition ClientGet :: "api_preds \<Rightarrow> kube_server \<Rightarrow> ResourceType \<Rightarrow> string \<Rightarrow> string \<Rightarrow> err + json option" where
  "ClientGet api ks rt ns name =
     (case ksGet ks rt ns name of
        Inl e \<Rightarrow> if IsPermissionError api e then Inr None else Inl (wrapf ''getting resource'' e)
      | Inr v \<Rightarrow> Inr (Some v))"

section \<open>Readers\<close>

text \<open>
  The interface \<open>Reader\<close> as the helpers use it. \<open>rdOLM\<close>: the subscriptions of all namespaces, if there is an
  OLM client. \<open>rdDiscovery\<close>: \<open>None\<close> if the reader has no discovery client,
  else the served group versions with the number of their resources (\<open>None\<close> inside is a nil list).
\<close>

record SubscriptionSpec =
  spChannel :: string
  spPackage :: string
  spStartingCSV :: string

record Subscription =
  subName :: string
  subSpec :: "SubscriptionSpec option"
  subInstalledCSV :: string

record SubscriptionInfo =
  siName :: string
  siChannel :: string
  siVersion :: string

record reader =
  rdApi :: api_preds
  rdNoMatch :: "err \<Rightarrow> bool"
  rdNewNotFound :: "string \<Rightarrow> string \<Rightarrow> string \<Rightarrow> err"
  rdList :: "ResourceType \<Rightarrow> ListResourcesConfig \<Rightarrow> err + json list"
  rdListMeta :: "ResourceType \<Rightarrow> ListResourcesConfig \<Rightarrow> err + PartialObject list"
  rdGet :: "ResourceType \<Rightarrow> string \<Rightarrow> string \<Rightarrow> err + json option"
  rdDiscovery :: "(string \<times> nat) list option option"
  rdOLM :: "(err + Subscription list) option"
  rdGojq :: gojq

definition IsResourceTypeNotFound :: "reader \<Rightarrow> err \<Rightarrow> bool" where
  "IsResourceTypeNotFound r e = (rdNoMatch r e \<or> rdApi r IsNotFound e)"

definition GetSingleton :: "reader \<Rightarrow> ResourceType \<Rightarrow> err + json" where
  "GetSingleton r rt =
     (case rdList r rt list_all_config of
        Inl e \<Rightarrow> Inl (wrapf (''listing '' @ rtKind rt @ '' resources'') e)
      | Inr [] \<Rightarrow> Inl (rdNewNotFound r (rtGroup rt) (rtResource rt) [])
      | Inr [v] \<Rightarrow> Inr v
      | Inr vs \<Rightarrow> Inl (NewError (''expected single '' @ rtKind rt @ '' resource, found '' @ itoa (length vs))))"

definition hasGroupVersion :: "(string \<times> nat) list option \<Rightarrow> string \<Rightarrow> bool" where
  "hasGroupVersion served gv =
     (case served of None \<Rightarrow> False
      | Some ls \<Rightarrow> (case map_of ls gv of None \<Rightarrow> False | Some n \<Rightarrow> n > 0))"

text \<open>\<open>Inr None\<close> asks for the fallback to version 1.\<close>

definition tryGetV2Singleton :: "reader \<Rightarrow> (string \<times> nat) list option \<Rightarrow> ResourceType \<Rightarrow> err + json option" where
  "tryGetV2Singleton r disc rt =
     (if \<not> hasGroupVersion disc (APIVersion rt) then Inr None
      else case GetSingleton r rt of
          Inl e \<Rightarrow> if IsResourceTypeNotFound r e then Inr None else Inl (wrapf ''getting v2 singleton'' e)
        | Inr v \<Rightarrow> Inr (Some v))"

definition getSingletonWithDiscovery :: "reader \<Rightarrow> ResourceType \<Rightarrow> ResourceType \<Rightarrow> err + json" where
  "getSingletonWithDiscovery r v2 v1 =
     (case rdDiscovery r of
        None \<Rightarrow> GetSingleton r v2
      | Some disc \<Rightarrow>
          (case tryGetV2Singleton r disc v2 of
             Inl e \<Rightarrow> Inl (wrapf (''getting '' @ rtKind v2 @ '' (v2)'') e)
           | Inr (Some v) \<Rightarrow> Inr v
           | Inr None \<Rightarrow>
               (case GetSingleton r v1 of
                  Inl e \<Rightarrow> Inl (wrapf (''getting '' @ rtKind v1 @ '' (v1)'') e)
                | Inr v \<Rightarrow> Inr v)))"

definition GetDataScienceCluster :: "reader \<Rightarrow> err + json" where
  "GetDataScienceCluster r = getSingletonWithDiscovery r rt_DataScienceCluster rt_DataScienceClusterV1"

definition GetDSCInitialization :: "reader \<Rightarrow> err + json" where
  "GetDSCInitialization r = getSingletonWithDiscovery r rt_DSCInitialization rt_DSCInitializationV1"

definition GetApplicationsNamespace :: "reader \<Rightarrow> err + string" where
  "GetApplicationsNamespace r =
     (case GetDSCInitialization r of
        Inl e \<Rightarrow> Inl e
      | Inr dsci \<Rightarrow>
          (let missing = rdNewNotFound r [] ''applicationsNamespace'' ''spec.applicationsNamespace'' in
           case Query (rdGojq r) as_string [] dsci ''.spec.applicationsNamespace'' of
             Inl e \<Rightarrow> Inl (if is_ErrNotFound e then missing else wrapf ''querying applicationsNamespace'' e)
           | Inr ns \<Rightarrow> if ns = [] then Inl missing else Inr ns))"

record DSCINamespaces =
  dnApplications :: string
  dnMonitoring :: string

definition query_or_empty :: "reader \<Rightarrow> json \<Rightarrow> string \<Rightarrow> string \<Rightarrow> err + string" where
  "query_or_empty r v q what =
     (case Query (rdGojq r) as_string [] v q of
        Inl e \<Rightarrow> if is_ErrNotFound e then Inr [] else Inl (wrapf (''querying '' @ what) e)
      | Inr s \<Rightarrow> Inr s)"

definition GetDSCINamespaces :: "reader \<Rightarrow> err + DSCINamespaces" where
  "GetDSCINamespaces r =
     bind_res (GetDSCInitialization r) (\<lambda>dsci.
       bind_res (query_or_empty r dsci ''.spec.applicationsNamespace'' ''applicationsNamespace'') (\<lambda>appNS.
         bind_res (query_or_empty r dsci ''.spec.monitoring.namespace'' ''monitoring namespace'') (\<lambda>monNS.
           Inr \<lparr>dnApplications = appNS, dnMonitoring = (if monNS \<noteq> [] then monNS else appNS)\<rparr>)))"

text \<open>\<open>List[T]\<close>: the filter may fail; a type that is not installed has no items.\<close>

fun filter_items :: "string \<Rightarrow> ('a \<Rightarrow> err + bool) \<Rightarrow> 'a list \<Rightarrow> err + 'a list" where
  "filter_items kind f [] = Inr []"
| "filter_items kind f (x # xs) =
     (case f x of
        Inl e \<Rightarrow> Inl (wrapf (''filtering '' @ kind @ '' resources'') e)
      | Inr match \<Rightarrow> bind_res (filter_items kind f xs) (\<lambda>ys. Inr (if match then x # ys else ys)))"

definition list_filtered ::
  "reader \<Rightarrow> string \<Rightarrow> string \<Rightarrow> err + 'a list \<Rightarrow> ('a \<Rightarrow> err + bool) option \<Rightarrow> err + 'a list" where
  "list_filtered r what kind items f =
     (case items of
        Inl e \<Rightarrow> if IsResourceTypeNotFound r (wrapf (''listing '' @ what) e) then Inr [] else Inl (wrapf (''listing '' @ what) e)
      | Inr xs \<Rightarrow> (case f of None \<Rightarrow> Inr xs | Some g \<Rightarrow> filter_items kind g xs))"

definition ListObjects :: "reader \<Rightarrow> ResourceType \<Rightarrow> (json \<Rightarrow> err + bool) option \<Rightarrow> err + json list" where
  "ListObjects r rt f = list_filtered r (rtKind rt) (rtKind rt) (rdList r rt list_all_config) f"

definition ListObjectsMetadata :: "reader \<Rightarrow> ResourceType \<Rightarrow> (PartialObject \<Rightarrow> err + bool) option \<Rightarrow> err + PartialObject list" where
  "ListObjectsMetadata r rt f = list_filtered r (rtKind rt @ '' metadata'') (rtKind rt) (rdListMeta r rt list_all_config) f"

definition BuildResourceNameSet :: "reader \<Rightarrow> ResourceType \<Rightarrow> err + (string \<times> string) list" where
  "BuildResourceNameSet r rt =
     (case rdListMeta r rt list_all_config of
        Inl e \<Rightarrow> if IsResourceTypeNotFound r e then Inr [] else Inl (wrapf (''listing '' @ rtKind rt) e)
      | Inr items \<Rightarrow> Inr (remdups (ToNamespacedNames items)))"

section \<open>Operators (\<open>pkg/util/kube/olm/subscriptions.go\<close>)\<close>

text \<open>The first subscription that matches; without an OLM client there are no subscriptions (\<open>olm_reader.go\<close>).\<close>

definition ListSubscriptions :: "reader \<Rightarrow> err + Subscription list" where
  "ListSubscriptions r = (case rdOLM r of None \<Rightarrow> Inr [] | Some subs \<Rightarrow> subs)"

definition subscription_info :: "Subscription \<Rightarrow> SubscriptionInfo" where
  "subscription_info sub = \<lparr>siName = subName sub, siChannel = (case subSpec sub of None \<Rightarrow> [] | Some sp \<Rightarrow> spChannel sp),
     siVersion = subInstalledCSV sub\<rparr>"

definition FindOperator :: "reader \<Rightarrow> (SubscriptionInfo \<Rightarrow> bool) \<Rightarrow> err + SubscriptionInfo option" where
  "FindOperator r matcher =
     (case ListSubscriptions r of
        Inl e \<Rightarrow> Inl (wrapf ''listing subscriptions'' e)
      | Inr subs \<Rightarrow> Inr (find matcher (map subscription_info subs)))"

definition Found :: "SubscriptionInfo option \<Rightarrow> bool" where
  "Found s = (s \<noteq> None)"

definition GetVersion :: "SubscriptionInfo option \<Rightarrow> string" where
  "GetVersion s = (case s of None \<Rightarrow> [] | Some i \<Rightarrow> siVersion i)"

section \<open>Custom resource definitions\<close>

record crd =
  crdGroup :: string
  crdPlural :: string
  crdVersions :: "(string \<times> bool) list"
  crdConditions :: "(string \<times> string) list"

definition crdToGVR :: "crd \<Rightarrow> string \<times> string \<times> string" where
  "crdToGVR c = (crdGroup c, (case filter snd (crdVersions c) of [] \<Rightarrow> [] | v # _ \<Rightarrow> fst v), crdPlural c)"

definition isCRDEstablished :: "crd \<Rightarrow> bool" where
  "isCRDEstablished c = (case filter (\<lambda>(t, s). t = ''Established'') (crdConditions c) of [] \<Rightarrow> False | (t, s) # _ \<Rightarrow> s = ''True'')"

definition DiscoverGVRs :: "(string \<Rightarrow> err + crd list) \<Rightarrow> string option \<Rightarrow> err + (string \<times> string \<times> string) list" where
  "DiscoverGVRs listCRDs selector =
     (case listCRDs (case selector of None \<Rightarrow> ''platform.opendatahub.io/part-of'' | Some s \<Rightarrow> s) of
        Inl e \<Rightarrow> Inl (wrapf ''failed to list CRDs'' e)
      | Inr crds \<Rightarrow> Inr (map crdToGVR (filter isCRDEstablished crds)))"

section \<open>Lemmas\<close>

text \<open>The pages a server gives from a token on.\<close>

inductive pages_from :: "(string \<Rightarrow> err + 'a list \<times> string) \<Rightarrow> string \<Rightarrow> 'a list list \<Rightarrow> bool" for fetch where
  last_page: "fetch t = Inr (xs, []) \<Longrightarrow> pages_from fetch t [xs]"
| next_page: "fetch t = Inr (xs, n) \<Longrightarrow> n \<noteq> [] \<Longrightarrow> pages_from fetch n ps \<Longrightarrow> pages_from fetch t (xs # ps)"

text \<open>How many pages are read until there are enough items.\<close>

fun pages_needed :: "int \<Rightarrow> int \<Rightarrow> 'a list list \<Rightarrow> nat" where
  "pages_needed limit n [] = 0"
| "pages_needed limit n (p # ps) =
     (if limit > 0 \<and> n + int (length p) \<ge> limit then 1 else Suc (pages_needed limit (n + int (length p)) ps))"

lemma list_pages_eq:
  "pages_from fetch t ps \<Longrightarrow>
     list_pages fetch perm msg limit t acc = Some (Inr (acc @ concat (take (pages_needed limit (int (length acc)) ps) ps)))"
proof (induction arbitrary: acc rule: pages_from.induct)
  case (last_page t xs)
  then show ?case by (simp add: list_pages.simps Let_def)
next
  case (next_page t xs n ps)
  have len: "int (length (acc @ xs)) = int (length acc) + int (length xs)" by simp
  show ?case
  proof (cases "limit > 0 \<and> int (length acc) + int (length xs) \<ge> limit")
    case True
    then show ?thesis using next_page.hyps(1) by (simp add: list_pages.simps)
  next
    case False
    then have "list_pages fetch perm msg limit t acc = list_pages fetch perm msg limit n (acc @ xs)"
      using next_page.hyps by (subst list_pages.simps) (auto simp: Let_def)
    then show ?thesis using next_page.IH [of "acc @ xs"] False by (auto simp: len)
  qed
qed

lemma pages_needed_all: "limit \<le> 0 \<Longrightarrow> pages_needed limit n ps = length ps"
  by (induction ps arbitrary: n) auto

lemma pages_needed_bound:
  assumes "limit > 0" "n < limit" "list_all (\<lambda>p. int (length p) \<le> limit) ps"
  shows "n + int (length (concat (take (pages_needed limit n ps) ps))) < 2 * limit
    \<and> (pages_needed limit n ps < length ps \<longrightarrow> n + int (length (concat (take (pages_needed limit n ps) ps))) \<ge> limit)"
  using assms(2,3)
proof (induction ps arbitrary: n)
  case (Cons p ps)
  show ?case
  proof (cases "n + int (length p) \<ge> limit")
    case True
    then show ?thesis using Cons.prems assms(1) by simp
  next
    case False
    then show ?thesis using Cons.IH [of "n + int (length p)"] Cons.prems(2) by (simp add: add.assoc)
  qed
qed (use assms(1) in simp)

text \<open>What the helpers use of the error predicates: wrapping does not change them.\<close>

definition error_laws :: "reader \<Rightarrow> bool" where
  "error_laws r \<longleftrightarrow> (\<forall>m e. rdApi r IsNotFound (wrapf m e) = rdApi r IsNotFound e)
     \<and> (\<forall>m e. rdNoMatch r (wrapf m e) = rdNoMatch r e)
     \<and> (\<forall>g p n. rdApi r IsNotFound (rdNewNotFound r g p n))
     \<and> (\<forall>m. \<not> rdApi r IsNotFound (NewError m) \<and> \<not> rdNoMatch r (NewError m))"

lemma error_laws_wrap [simp]:
  "error_laws r \<Longrightarrow> rdApi r IsNotFound (wrapf m e) = rdApi r IsNotFound e"
  "error_laws r \<Longrightarrow> IsResourceTypeNotFound r (wrapf m e) = IsResourceTypeNotFound r e"
  "error_laws r \<Longrightarrow> rdApi r IsNotFound (rdNewNotFound r g p n)"
  "error_laws r \<Longrightarrow> IsResourceTypeNotFound r (rdNewNotFound r g p n)"
  "error_laws r \<Longrightarrow> \<not> rdApi r IsNotFound (NewError msg)"
  "error_laws r \<Longrightarrow> \<not> IsResourceTypeNotFound r (NewError msg)"
  by (simp_all add: error_laws_def IsResourceTypeNotFound_def)

lemma GetSingleton_single: "rdList r rt list_all_config = Inr xs \<Longrightarrow> GetSingleton r rt = Inr v \<longleftrightarrow> xs = [v]"
  by (auto simp: GetSingleton_def split: list.splits)

lemma GetSingleton_not_found:
  "error_laws r \<Longrightarrow> rdList r rt list_all_config = Inr xs \<Longrightarrow>
     (\<exists>e. GetSingleton r rt = Inl e \<and> rdApi r IsNotFound e) \<longleftrightarrow> xs = []"
  by (auto simp: GetSingleton_def split: list.splits)

lemma GetSingleton_Inl:
  "error_laws r \<Longrightarrow> rdList r rt list_all_config = Inr xs \<Longrightarrow> GetSingleton r rt = Inl e \<Longrightarrow>
     IsResourceTypeNotFound r e \<longleftrightarrow> xs = []"
  by (auto simp: GetSingleton_def split: list.splits)

section \<open>Properties\<close>

text \<open>
  C23. Listing ends whenever the server's pages end, and without a limit it returns the items of all pages in
  order. With a limit it stops at the first page that brings the number of items to the limit or above;
  from pages within the limit this is at most one less than twice the limit, not the limit itself.
\<close>

theorem ListResources_pages:
  assumes "pages_from (ksList ks rt cfg) [] ps"
    and "list_all (\<lambda>p. int (length p) \<le> lrLimit cfg) ps \<or> lrLimit cfg \<le> 0"
  shows "\<exists>n items. ListResources api ks rt cfg = Some (Inr items) \<and> items = concat (take n ps)
    \<and> (lrLimit cfg \<le> 0 \<longrightarrow> n = length ps)
    \<and> (lrLimit cfg > 0 \<longrightarrow> int (length items) < 2 * lrLimit cfg
         \<and> (n < length ps \<longrightarrow> int (length items) \<ge> lrLimit cfg))"
proof -
  let ?n = "pages_needed (lrLimit cfg) 0 ps"
  have "ListResources api ks rt cfg = Some (Inr (concat (take ?n ps)))"
    using list_pages_eq [OF assms(1), of _ _ "lrLimit cfg" "[]"] by (simp add: ListResources_def)
  moreover have "lrLimit cfg \<le> 0 \<longrightarrow> ?n = length ps" by (simp add: pages_needed_all)
  moreover have "lrLimit cfg > 0 \<longrightarrow> int (length (concat (take ?n ps))) < 2 * lrLimit cfg
      \<and> (?n < length ps \<longrightarrow> int (length (concat (take ?n ps))) \<ge> lrLimit cfg)"
    using assms(2) pages_needed_bound [of "lrLimit cfg" 0 ps] by auto
  ultimately show ?thesis by blast
qed

text \<open>A server with two pages, for a limit of two: one item, then two more.\<close>

definition sample_server :: kube_server where
  "sample_server = \<lparr>ksList = \<lambda>rt cfg t. if t = [] then Inr ([JNum 1], ''next'') else Inr ([JNum 2, JNum 3], []),
     ksListMeta = \<lambda>rt cfg t. Inr ([], []), ksGet = \<lambda>rt ns n. Inr JNull\<rparr>"

theorem ListResources_pages_witness:
  "\<exists>n items. ListResources (\<lambda>_ _. False) sample_server rt_Pod (WithLimit 2 list_all_config) = Some (Inr items)
     \<and> items = concat (take n [[JNum 1], [JNum 2, JNum 3]]) \<and> int (length items) < 4 \<and> items = [JNum 1, JNum 2, JNum 3]"
proof -
  let ?cfg = "WithLimit 2 list_all_config"
  have pages: "pages_from (ksList sample_server rt_Pod ?cfg) [] [[JNum 1], [JNum 2, JNum 3]]"
    by (rule next_page [of _ _ _ "''next''"], simp_all add: sample_server_def)
      (rule last_page, simp)
  have lim: "lrLimit ?cfg = 2" by (simp add: WithLimit_def list_all_config_def)
  have run: "ListResources (\<lambda>_ _. False) sample_server rt_Pod ?cfg = Some (Inr [JNum 1, JNum 2, JNum 3])"
    using list_pages_eq [OF pages, of "IsPermissionError (\<lambda>_ _. False)" "''listing resources''" 2 "[]"] lim
    by (simp add: ListResources_def)
  show ?thesis using ListResources_pages [OF pages, of "\<lambda>_ _. False"] lim run by auto
qed

text \<open>
  The \<open>DataScienceCluster\<close> of the cluster: with discovery, version 2 is used if it is served and has
  an instance, else version 1; the result is the instance if there is exactly one, an error that
  says not found if there is none, and another error if there are several.
\<close>

theorem GetDataScienceCluster_outcome:
  assumes "error_laws r" and "rdDiscovery r = Some disc"
    and "rdList r rt_DataScienceCluster list_all_config = Inr xs2"
    and "rdList r rt_DataScienceClusterV1 list_all_config = Inr xs1"
    and "xs = (if hasGroupVersion disc (APIVersion rt_DataScienceCluster) \<and> xs2 \<noteq> [] then xs2 else xs1)"
  shows "(GetDataScienceCluster r = Inr v \<longleftrightarrow> xs = [v])
    \<and> ((\<exists>e. GetDataScienceCluster r = Inl e \<and> rdApi r IsNotFound e) \<longleftrightarrow> xs = [])"
proof (cases "hasGroupVersion disc (APIVersion rt_DataScienceCluster) \<and> xs2 \<noteq> []")
  case True
  note s2 = GetSingleton_single [OF assms(3)] and n2 = GetSingleton_Inl [OF assms(1,3)]
  show ?thesis
  proof (cases "GetSingleton r rt_DataScienceCluster")
    case (Inl e)
    then have "\<not> IsResourceTypeNotFound r e" using n2 True by simp
    then have "GetDataScienceCluster r = Inl (wrapf (''getting '' @ rtKind rt_DataScienceCluster @ '' (v2)'') (wrapf ''getting v2 singleton'' e))"
        "\<not> rdApi r IsNotFound e"
      using Inl True assms(2) by (auto simp: GetDataScienceCluster_def getSingletonWithDiscovery_def tryGetV2Singleton_def
          IsResourceTypeNotFound_def)
    then show ?thesis using s2 [of v] Inl True assms(1,5) by auto
  next
    case (Inr w)
    then have "GetDataScienceCluster r = Inr w"
      using True assms(2) by (auto simp: GetDataScienceCluster_def getSingletonWithDiscovery_def tryGetV2Singleton_def)
    then show ?thesis using s2 Inr True assms(5) by auto
  qed
next
  case False
  have "tryGetV2Singleton r disc rt_DataScienceCluster = Inr None"
  proof (cases "hasGroupVersion disc (APIVersion rt_DataScienceCluster)")
    case True
    then have "xs2 = []" using False by simp
    then obtain e where "GetSingleton r rt_DataScienceCluster = Inl e" "IsResourceTypeNotFound r e"
      using GetSingleton_not_found [OF assms(1,3)] by (auto simp: IsResourceTypeNotFound_def)
    with True show ?thesis by (simp add: tryGetV2Singleton_def)
  qed (simp add: tryGetV2Singleton_def)
  then have "GetDataScienceCluster r = (case GetSingleton r rt_DataScienceClusterV1 of
      Inl e \<Rightarrow> Inl (wrapf (''getting '' @ rtKind rt_DataScienceClusterV1 @ '' (v1)'') e) | Inr v \<Rightarrow> Inr v)"
    using assms(2) by (simp add: GetDataScienceCluster_def getSingletonWithDiscovery_def)
  then show ?thesis
    using GetSingleton_single [OF assms(4)] GetSingleton_not_found [OF assms(1,4)] False assms(1,5)
    by (auto split: sum.splits)
qed

text \<open>A reader over a table of objects; a missing resource is the error \<open>NotFound\<close>, kept under wrapping.\<close>

definition sample_not_found :: "err \<Rightarrow> bool" where
  "sample_not_found = errors_is (\<lambda>x. case x of Foreign k m \<Rightarrow> k = ''NotFound'' | _ \<Rightarrow> False)"

definition sample_reader :: "gojq \<Rightarrow> (ResourceType \<Rightarrow> json list) \<Rightarrow> reader" where
  "sample_reader gq objs = \<lparr>rdApi = \<lambda>p e. p = IsNotFound \<and> sample_not_found e, rdNoMatch = \<lambda>e. False,
     rdNewNotFound = \<lambda>g p n. Foreign ''NotFound'' p, rdList = \<lambda>rt cfg. Inr (objs rt), rdListMeta = \<lambda>rt cfg. Inr [],
     rdGet = \<lambda>rt ns n. Inr None, rdDiscovery = Some (Some [(''datasciencecluster.opendatahub.io/v2'', 2)]), rdOLM = None, rdGojq = gq\<rparr>"

lemma sample_error_laws: "error_laws (sample_reader gq objs)"
  by (simp add: error_laws_def sample_reader_def sample_not_found_def errors_is_def wrapf_def)

definition no_queries :: gojq where
  "no_queries = \<lparr>gqParse = \<lambda>q. None, gqRun = \<lambda>q v. Some (Inr JNull)\<rparr>"

theorem GetDataScienceCluster_outcome_witness:
  "GetDataScienceCluster (sample_reader no_queries (\<lambda>rt. if rtVersion rt = ''v1'' then [JNum 7] else [])) = Inr (JNum 7)"
proof -
  let ?r = "sample_reader no_queries (\<lambda>rt. if rtVersion rt = ''v1'' then [JNum 7] else [])"
  have "rdDiscovery ?r = Some (Some [(''datasciencecluster.opendatahub.io/v2'', 2)])"
      "rdList ?r rt_DataScienceCluster list_all_config = Inr []" "rdList ?r rt_DataScienceClusterV1 list_all_config = Inr [JNum 7]"
    by (simp_all add: sample_reader_def rt_DataScienceCluster_def rt_DataScienceClusterV1_def mk_resource_def)
  from GetDataScienceCluster_outcome [OF sample_error_laws this refl] show ?thesis by simp
qed

end
