(* ===== verification/LintValidate.thy ===== *)
theory LintValidate
  imports KubeClient LintRegistry
begin

text \<open>
  The builders of \<open>pkg/lint/check/validate\<close> that most checks are made of, and \<open>BaseCheck\<close> of
  \<open>pkg/lint/check/base.go\<close>. A check returns a panic (\<open>Inl\<close>), an error or a result; what a callback does
  to the result it is given is the result it returns.
\<close>

section \<open>Checks\<close>

record BaseCheck =
  bcGroup :: CheckGroupT
  bcKind :: string
  bcType :: string
  bcID :: string
  bcName :: string
  bcDescription :: string
  bcRemediation :: string

type_synonym lint_target = "reader Target"
type_synonym checked = "string + (err + DiagnosticResult)"

definition BaseNewResult :: "BaseCheck \<Rightarrow> DiagnosticResult" where
  "BaseNewResult b = NewResult (bcGroup b) (bcKind b) (bcType b) (bcDescription b)"

abbreviation ConditionTypeValidated :: string where "ConditionTypeValidated \<equiv> ''Validated''"
abbreviation ConditionTypeAvailable :: string where "ConditionTypeAvailable \<equiv> ''Available''"
abbreviation ConditionTypeReady :: string where "ConditionTypeReady \<equiv> ''Ready''"
abbreviation ConditionTypeCompatible :: string where "ConditionTypeCompatible \<equiv> ''Compatible''"
abbreviation ConditionTypeConfigured :: string where "ConditionTypeConfigured \<equiv> ''Configured''"
abbreviation ConditionTypeMigrationRequired :: string where "ConditionTypeMigrationRequired \<equiv> ''MigrationRequired''"

abbreviation ReasonRequirementsMet :: string where "ReasonRequirementsMet \<equiv> ''RequirementsMet''"
abbreviation ReasonResourceFound :: string where "ReasonResourceFound \<equiv> ''ResourceFound''"
abbreviation ReasonResourceAvailable :: string where "ReasonResourceAvailable \<equiv> ''ResourceAvailable''"
abbreviation ReasonConfigurationValid :: string where "ReasonConfigurationValid \<equiv> ''ConfigurationValid''"
abbreviation ReasonVersionCompatible :: string where "ReasonVersionCompatible \<equiv> ''VersionCompatible''"
abbreviation ReasonComponentRenamed :: string where "ReasonComponentRenamed \<equiv> ''ComponentRenamed''"
abbreviation ReasonMigrationPending :: string where "ReasonMigrationPending \<equiv> ''MigrationPending''"
abbreviation ReasonNoMigrationRequired :: string where "ReasonNoMigrationRequired \<equiv> ''NoMigrationRequired''"
abbreviation ReasonResourceNotFound :: string where "ReasonResourceNotFound \<equiv> ''ResourceNotFound''"
abbreviation ReasonResourceUnavailable :: string where "ReasonResourceUnavailable \<equiv> ''ResourceUnavailable''"
abbreviation ReasonConfigurationInvalid :: string where "ReasonConfigurationInvalid \<equiv> ''ConfigurationInvalid''"
abbreviation ReasonVersionIncompatible :: string where "ReasonVersionIncompatible \<equiv> ''VersionIncompatible''"
abbreviation ReasonDeprecated :: string where "ReasonDeprecated \<equiv> ''Deprecated''"
abbreviation ReasonWorkloadsImpacted :: string where "ReasonWorkloadsImpacted \<equiv> ''WorkloadsImpacted''"
abbreviation ReasonDefaultLocalQueueConflict :: string where "ReasonDefaultLocalQueueConflict \<equiv> ''DefaultLocalQueueConflict''"
abbreviation ReasonInsufficientData :: string where "ReasonInsufficientData \<equiv> ''InsufficientData''"

abbreviation AnnotationComponentManagementState :: string where
  "AnnotationComponentManagementState \<equiv> ''component.opendatahub.io/management-state''"
abbreviation AnnotationCheckTargetVersion :: string where
  "AnnotationCheckTargetVersion \<equiv> ''check.opendatahub.io/target-version''"
abbreviation AnnotationImpactedWorkloadCount :: string where
  "AnnotationImpactedWorkloadCount \<equiv> ''workload.opendatahub.io/impacted-count''"
abbreviation annotationInstalledVersion :: string where
  "annotationInstalledVersion \<equiv> ''operator.opendatahub.io/installed-version''"

text \<open>Recurring steps: an error, a result, a new condition set on a result, an annotation.\<close>

definition chk_error :: "err \<Rightarrow> checked" where
  "chk_error e = Inr (Inl e)"

definition chk_done :: "DiagnosticResult \<Rightarrow> checked" where
  "chk_done dr = Inr (Inr dr)"

definition set_new_condition :: "DiagnosticResult \<Rightarrow> string \<Rightarrow> ConditionStatus \<Rightarrow> ConditionOption list \<Rightarrow> checked" where
  "set_new_condition dr t status opts = bind_res (NewCondition t status opts) (\<lambda>c. chk_done (SetCondition dr c))"

definition bind_checked :: "checked \<Rightarrow> (DiagnosticResult \<Rightarrow> checked) \<Rightarrow> checked" where
  "bind_checked r f = (case r of Inl p \<Rightarrow> Inl p | Inr (Inl e) \<Rightarrow> Inr (Inl e) | Inr (Inr dr) \<Rightarrow> f dr)"

definition annotate :: "string \<Rightarrow> string \<Rightarrow> DiagnosticResult \<Rightarrow> DiagnosticResult" where
  "annotate k v dr = dr\<lparr>Annotations := AList.update k v (Annotations dr)\<rparr>"

definition annotate_target :: "semver_lib \<Rightarrow> lint_target \<Rightarrow> DiagnosticResult \<Rightarrow> DiagnosticResult" where
  "annotate_target sv t dr = (case TargetVersion t of None \<Rightarrow> dr
     | Some v \<Rightarrow> annotate AnnotationCheckTargetVersion (sv_String sv v) dr)"

section \<open>Components (\<open>component.go\<close>)\<close>

record ComponentBuilder =
  cbCheck :: BaseCheck
  cbName :: string
  cbStates :: "string list"
  cbLoadNamespace :: bool

definition Component :: "BaseCheck \<Rightarrow> ComponentBuilder" where
  "Component b = \<lparr>cbCheck = b, cbName = bcKind b, cbStates = [], cbLoadNamespace = False\<rparr>"

definition WithComponentName :: "string \<Rightarrow> ComponentBuilder \<Rightarrow> ComponentBuilder" where
  "WithComponentName n b = b\<lparr>cbName := n\<rparr>"

definition InState :: "string list \<Rightarrow> ComponentBuilder \<Rightarrow> ComponentBuilder" where
  "InState states b = b\<lparr>cbStates := states\<rparr>"

definition WithApplicationsNamespace :: "ComponentBuilder \<Rightarrow> ComponentBuilder" where
  "WithApplicationsNamespace b = b\<lparr>cbLoadNamespace := True\<rparr>"

record ComponentRequest =
  rqTarget :: lint_target
  rqResult :: DiagnosticResult
  rqDSC :: json
  rqState :: string
  rqNamespace :: string

text \<open>The result for a missing singleton: one condition, in place of any others.\<close>

definition not_found_result :: "BaseCheck \<Rightarrow> string \<Rightarrow> checked" where
  "not_found_result b msg =
     bind_res (NewCondition ConditionTypeAvailable ConditionFalse [WithReason ReasonResourceNotFound, WithMessage msg])
       (\<lambda>c. chk_done ((BaseNewResult b)\<lparr>Conditions := [c]\<rparr>))"

definition ComponentRun ::
  "semver_lib \<Rightarrow> lint_target \<Rightarrow> ComponentBuilder \<Rightarrow> (ComponentRequest \<Rightarrow> checked) \<Rightarrow> checked" where
  "ComponentRun sv t b fn =
     (let r = tgtClient t in
      case GetDataScienceCluster r of
        Inl e \<Rightarrow> if rdApi r IsNotFound e then not_found_result (cbCheck b) ''No DataScienceCluster found''
                 else chk_error (wrapf ''getting DataScienceCluster'' e)
      | Inr dsc \<Rightarrow>
          (case GetManagementState (rdGojq r) dsc (cbName b) of
             Inl e \<Rightarrow> chk_error (wrapf (''querying '' @ cbName b @ '' managementState'') e)
           | Inr state \<Rightarrow>
               if cbStates b \<noteq> [] \<and> state \<notin> set (cbStates b) then
                 set_new_condition (BaseNewResult (cbCheck b)) ConditionTypeConfigured ConditionTrue [WithReason ReasonRequirementsMet]
               else
                 (let dr = annotate_target sv t (annotate AnnotationComponentManagementState state (BaseNewResult (cbCheck b)));
                      req = \<lparr>rqTarget = t, rqResult = dr, rqDSC = dsc, rqState = state, rqNamespace = []\<rparr> in
                  if cbLoadNamespace b then
                    (case GetApplicationsNamespace r of
                       Inl e \<Rightarrow>
                         if rdApi r IsNotFound e then
                           set_new_condition dr ConditionTypeAvailable ConditionFalse
                             [WithReason ReasonResourceNotFound, WithMessage ''No DSCInitialization found'']
                         else chk_error (wrapf ''getting applications namespace'' e)
                     | Inr ns \<Rightarrow> fn (req\<lparr>rqNamespace := ns\<rparr>))
                  else fn req)))"

fun set_conditions :: "DiagnosticResult \<Rightarrow> (string + Condition) list \<Rightarrow> checked" where
  "set_conditions dr [] = chk_done dr"
| "set_conditions dr (c # cs) = bind_res c (\<lambda>c'. set_conditions (SetCondition dr c') cs)"

definition ComponentComplete ::
  "semver_lib \<Rightarrow> lint_target \<Rightarrow> ComponentBuilder \<Rightarrow> (ComponentRequest \<Rightarrow> (string + Condition) list) \<Rightarrow> checked" where
  "ComponentComplete sv t b fn = ComponentRun sv t b (\<lambda>req. set_conditions (rqResult req) (fn req))"

text \<open>\<open>Removal\<close>: the message is a function of the state and the label of the target version.\<close>

definition Removal :: "(string \<Rightarrow> string \<Rightarrow> string) \<Rightarrow> ConditionOption list \<Rightarrow> ComponentRequest \<Rightarrow> checked" where
  "Removal format opts req =
     set_new_condition (rqResult req) ConditionTypeCompatible ConditionFalse
       ([WithReason ReasonVersionIncompatible, WithMessage (format (rqState req) (MajorMinorLabel (TargetVersion (rqTarget req))))] @ opts)"

section \<open>DSC and DSCI (\<open>dsc.go\<close>, \<open>dsci.go\<close>)\<close>

definition singleton_run ::
  "semver_lib \<Rightarrow> lint_target \<Rightarrow> BaseCheck \<Rightarrow> string \<Rightarrow> err + json \<Rightarrow> (DiagnosticResult \<Rightarrow> json \<Rightarrow> checked) \<Rightarrow> checked" where
  "singleton_run sv t b kind obj fn =
     (case obj of
        Inl e \<Rightarrow> if rdApi (tgtClient t) IsNotFound e then not_found_result b (''No '' @ kind @ '' found'')
                 else chk_error (wrapf (''getting '' @ kind) e)
      | Inr v \<Rightarrow> fn (annotate_target sv t (BaseNewResult b)) v)"

definition DSCRun :: "semver_lib \<Rightarrow> lint_target \<Rightarrow> BaseCheck \<Rightarrow> (DiagnosticResult \<Rightarrow> json \<Rightarrow> checked) \<Rightarrow> checked" where
  "DSCRun sv t b fn = singleton_run sv t b ''DataScienceCluster'' (GetDataScienceCluster (tgtClient t)) fn"

definition DSCIRun :: "semver_lib \<Rightarrow> lint_target \<Rightarrow> BaseCheck \<Rightarrow> (DiagnosticResult \<Rightarrow> json \<Rightarrow> checked) \<Rightarrow> checked" where
  "DSCIRun sv t b fn = singleton_run sv t b ''DSCInitialization'' (GetDSCInitialization (tgtClient t)) fn"

section \<open>Operators (\<open>operator.go\<close>)\<close>

record OperatorBuilder =
  obCheck :: BaseCheck
  obNames :: "string list"
  obChannels :: "string list"
  obCondition :: "bool \<Rightarrow> string \<Rightarrow> string + Condition"

definition Operator :: "BaseCheck \<Rightarrow> OperatorBuilder" where
  "Operator b = \<lparr>obCheck = b, obNames = [], obChannels = [], obCondition = (\<lambda>found version.
     if \<not> found then NewCondition ConditionTypeAvailable ConditionFalse
       [WithReason ReasonResourceNotFound, WithMessage (bcKind b @ '' operator is not installed'')]
     else NewCondition ConditionTypeAvailable ConditionTrue
       [WithReason ReasonResourceFound, WithMessage (bcKind b @ '' operator installed: '' @ version)])\<rparr>"

definition buildMatcher :: "OperatorBuilder \<Rightarrow> SubscriptionInfo \<Rightarrow> bool" where
  "buildMatcher b sub =
     (if siName sub \<notin> set (if obNames b = [] then [bcKind (obCheck b)] else obNames b) then False
      else if obChannels b \<noteq> [] then (if siChannel sub = [] then False else siChannel sub \<in> set (obChannels b))
      else True)"

definition OperatorRun :: "semver_lib \<Rightarrow> lint_target \<Rightarrow> OperatorBuilder \<Rightarrow> checked" where
  "OperatorRun sv t b =
     (let dr = annotate_target sv t (BaseNewResult (obCheck b)) in
      if rdOLM (tgtClient t) = None then
        bind_res (obCondition b False []) (\<lambda>c. chk_done (dr\<lparr>Conditions := [c\<lparr>CondMessage := ''OLM client not available''\<rparr>]\<rparr>))
      else case FindOperator (tgtClient t) (buildMatcher b) of
          Inl e \<Rightarrow> chk_error (wrapf (''checking '' @ bcKind (obCheck b) @ '' operator presence'') e)
        | Inr info \<Rightarrow>
            bind_res (obCondition b (Found info) (GetVersion info)) (\<lambda>c.
              (let dr' = dr\<lparr>Conditions := [c]\<rparr> in
               chk_done (if GetVersion info \<noteq> [] then annotate annotationInstalledVersion (GetVersion info) dr' else dr'))))"

section \<open>Workloads (\<open>workload.go\<close>)\<close>

text \<open>
  The builder over the listed items: their list (an error of the listing included), the names of an item,
  the optional filter and the components. The callback says with its result whether it has set the
  impacted objects; a result of \<open>None\<close> is nil: the check is left out of the output.
\<close>

record 'a WorkloadBuilder =
  wbCheck :: BaseCheck
  wbType :: ResourceType
  wbItems :: "err + 'a list"
  wbNames :: "'a \<Rightarrow> string \<times> string"
  wbFilter :: "('a \<Rightarrow> err + bool) option"
  wbComponents :: "string list"

type_synonym maybe_checked = "string + (err + DiagnosticResult option)"

definition Workloads :: "BaseCheck \<Rightarrow> lint_target \<Rightarrow> ResourceType \<Rightarrow> json WorkloadBuilder" where
  "Workloads b t rt = \<lparr>wbCheck = b, wbType = rt, wbItems = rdList (tgtClient t) rt list_all_config,
     wbNames = (\<lambda>v. (u_namespace v, u_name v)), wbFilter = None, wbComponents = []\<rparr>"

definition WorkloadsMetadata :: "BaseCheck \<Rightarrow> lint_target \<Rightarrow> ResourceType \<Rightarrow> PartialObject WorkloadBuilder" where
  "WorkloadsMetadata b t rt = \<lparr>wbCheck = b, wbType = rt, wbItems = rdListMeta (tgtClient t) rt list_all_config,
     wbNames = (\<lambda>x. (poNamespace x, poName x)), wbFilter = None, wbComponents = []\<rparr>"

definition WorkloadFilter :: "('a \<Rightarrow> err + bool) \<Rightarrow> 'a WorkloadBuilder \<Rightarrow> 'a WorkloadBuilder" where
  "WorkloadFilter f b = b\<lparr>wbFilter := Some f\<rparr>"

definition ForComponent :: "string list \<Rightarrow> 'a WorkloadBuilder \<Rightarrow> 'a WorkloadBuilder" where
  "ForComponent names b = b\<lparr>wbComponents := names\<rparr>"

definition checkComponentState :: "reader \<Rightarrow> string list \<Rightarrow> err + bool" where
  "checkComponentState r names =
     (case GetDataScienceCluster r of
        Inl e \<Rightarrow> if rdApi r IsNotFound e then Inr False else Inl (wrapf ''getting DataScienceCluster'' e)
      | Inr dsc \<Rightarrow> Inr (list_ex (\<lambda>n. \<not> HasManagementState (rdGojq r) dsc n [ManagementStateRemoved]) names))"

text \<open>The listed and filtered items.\<close>

definition workload_items :: "reader \<Rightarrow> 'a WorkloadBuilder \<Rightarrow> err + 'a list" where
  "workload_items r b =
     (let kind = rtKind (wbType b) in
      bind_res (case wbItems b of
          Inl e \<Rightarrow> if IsResourceTypeNotFound r e then Inr [] else Inl (wrapf (''listing '' @ kind @ '' resources'') e)
        | Inr xs \<Rightarrow> Inr xs)
        (\<lambda>xs. case wbFilter b of None \<Rightarrow> Inr xs | Some f \<Rightarrow> filter_items kind f xs))"

definition WorkloadRun ::
  "semver_lib \<Rightarrow> lint_target \<Rightarrow> 'a WorkloadBuilder
     \<Rightarrow> (DiagnosticResult \<Rightarrow> 'a list \<Rightarrow> string + (err + DiagnosticResult \<times> bool)) \<Rightarrow> maybe_checked" where
  "WorkloadRun sv t b fn =
     (let r = tgtClient t; dr = annotate_target sv t (BaseNewResult (wbCheck b)) in
      case (if wbComponents b = [] then Inr True else checkComponentState r (wbComponents b)) of
        Inl e \<Rightarrow> Inr (Inl e)
      | Inr active \<Rightarrow>
          if \<not> active then Inr (Inr None)
          else case workload_items r b of
              Inl e \<Rightarrow> Inr (Inl e)
            | Inr items \<Rightarrow>
                bind_res (fn (annotate AnnotationImpactedWorkloadCount (itoa (length items)) dr) items) (\<lambda>x.
                  case x of
                    Inl e \<Rightarrow> Inr (Inl e)
                  | Inr (dr', assigned) \<Rightarrow> Inr (Inr (Some
                      (if \<not> assigned \<and> items \<noteq> [] then SetImpactedObjects dr' (wbType b) (map (wbNames b) items) else dr')))))"

definition unassigned :: "checked \<Rightarrow> string + (err + DiagnosticResult \<times> bool)" where
  "unassigned r = bind_res r (\<lambda>x. Inr (map_sum id (\<lambda>dr. (dr, False)) x))"

definition WorkloadComplete ::
  "semver_lib \<Rightarrow> lint_target \<Rightarrow> 'a WorkloadBuilder \<Rightarrow> ('a list \<Rightarrow> (string + Condition) list) \<Rightarrow> maybe_checked" where
  "WorkloadComplete sv t b fn = WorkloadRun sv t b (\<lambda>dr items. unassigned (set_conditions dr (fn items)))"

section \<open>Accelerator profiles (\<open>accelerator.go\<close>)\<close>

abbreviation AnnotationAcceleratorName :: string where "AnnotationAcceleratorName \<equiv> ''opendatahub.io/accelerator-name''"
abbreviation AnnotationAcceleratorNamespace :: string where
  "AnnotationAcceleratorNamespace \<equiv> ''opendatahub.io/accelerator-profile-namespace''"

fun accelerator_refs ::
  "string \<Rightarrow> (string \<times> string) list \<Rightarrow> PartialObject list \<Rightarrow> (string \<times> string) list \<times> nat" where
  "accelerator_refs appNS profiles [] = ([], 0)"
| "accelerator_refs appNS profiles (w # ws) =
     (let ns = GetAnnotation w AnnotationAcceleratorNamespace; name = GetAnnotation w AnnotationAcceleratorName;
          (impacted, missing) = accelerator_refs appNS profiles ws in
      if name = [] then (impacted, missing)
      else ((poNamespace w, poName w) # impacted,
            if (if ns = [] then appNS else ns, name) \<in> set profiles then missing else missing + 1))"

definition FilterWorkloadsWithAcceleratorRefs :: "reader \<Rightarrow> PartialObject list \<Rightarrow> err + (string \<times> string) list \<times> nat" where
  "FilterWorkloadsWithAcceleratorRefs r items =
     (case GetApplicationsNamespace r of
        Inl e \<Rightarrow> Inl (wrapf ''getting applications namespace'' e)
      | Inr appNS \<Rightarrow>
          (case BuildResourceNameSet r rt_AcceleratorProfile of
             Inl e \<Rightarrow> Inl (wrapf ''building AcceleratorProfile cache'' e)
           | Inr profiles \<Rightarrow> Inr (accelerator_refs appNS profiles items)))"

definition FindWorkloadsWithAcceleratorRefs :: "lint_target \<Rightarrow> ResourceType \<Rightarrow> err + (string \<times> string) list \<times> nat" where
  "FindWorkloadsWithAcceleratorRefs t rt =
     (case rdListMeta (tgtClient t) rt list_all_config of
        Inl e \<Rightarrow> if IsResourceTypeNotFound (tgtClient t) e then Inr ([], 0) else Inl (wrapf (''listing '' @ rtKind rt) e)
      | Inr items \<Rightarrow> FilterWorkloadsWithAcceleratorRefs (tgtClient t) items)"

section \<open>Well-formed outcomes\<close>

text \<open>
  What the executor asks of a check: no panic, and a result, if there is one, that passes
  \<open>ResultValidate\<close>. \<open>dr_ok\<close> holds while a result is still being built.
\<close>

definition cond_ok :: "Condition \<Rightarrow> bool" where
  "cond_ok c \<longleftrightarrow> validateCondition c = None \<and> ConditionValidate c = None"

definition dr_ok :: "DiagnosticResult \<Rightarrow> bool" where
  "dr_ok dr \<longleftrightarrow> Group dr \<noteq> [] \<and> Kind dr \<noteq> [] \<and> Name dr \<noteq> []
     \<and> list_all (\<lambda>(k, v). isValidAnnotationKey k) (Annotations dr) \<and> list_all cond_ok (Conditions dr)"

definition checked_ok :: "checked \<Rightarrow> bool" where
  "checked_ok r \<longleftrightarrow> (case r of Inl p \<Rightarrow> False | Inr (Inl e) \<Rightarrow> True | Inr (Inr dr) \<Rightarrow> dr_ok dr \<and> Conditions dr \<noteq> [])"

definition maybe_ok :: "maybe_checked \<Rightarrow> bool" where
  "maybe_ok r \<longleftrightarrow> (case r of Inl p \<Rightarrow> False | Inr (Inl e) \<Rightarrow> True | Inr (Inr None) \<Rightarrow> True
     | Inr (Inr (Some dr)) \<Rightarrow> dr_ok dr \<and> Conditions dr \<noteq> [])"

definition base_ok :: "BaseCheck \<Rightarrow> bool" where
  "base_ok b \<longleftrightarrow> bcGroup b \<noteq> [] \<and> bcKind b \<noteq> [] \<and> bcType b \<noteq> []"

definition built_ok :: "string + Condition \<Rightarrow> bool" where
  "built_ok r \<longleftrightarrow> (\<exists>c. r = Inr c \<and> cond_ok c)"

named_theorems check_ok

lemma cond_ok_message: "cond_ok (c\<lparr>CondMessage := m\<rparr>) = cond_ok c"
  unfolding cond_ok_def validateCondition_def ConditionValidate_def by simp

lemma checked_ok_valid: "checked_ok r \<Longrightarrow> r = Inr (Inr dr) \<Longrightarrow> ResultValidate dr = None"
  by (auto simp: checked_ok_def dr_ok_def ResultValidate_def cond_ok_def list_all_iff first_some_None_iff annotationKeyError_def
      split: option.split)

lemma maybe_ok_valid: "maybe_ok r \<Longrightarrow> r = Inr (Inr (Some dr)) \<Longrightarrow> ResultValidate dr = None"
  by (auto simp: maybe_ok_def dr_ok_def ResultValidate_def cond_ok_def list_all_iff first_some_None_iff annotationKeyError_def
      split: option.split)

lemma checked_ok_simps [simp]:
  "checked_ok (chk_error e)" "checked_ok (chk_done dr) \<longleftrightarrow> dr_ok dr \<and> Conditions dr \<noteq> []" "checked_ok (Inr (Inl e))"
  "checked_ok (Inr (Inr dr)) \<longleftrightarrow> dr_ok dr \<and> Conditions dr \<noteq> []" "\<not> checked_ok (Inl p)"
  by (simp_all add: checked_ok_def chk_error_def chk_done_def)

lemma dr_ok_new [check_ok]: "base_ok b \<Longrightarrow> dr_ok (BaseNewResult b)"
  by (simp add: dr_ok_def base_ok_def BaseNewResult_def NewResult_def)

lemma list_all_update: "list_all P l \<Longrightarrow> P (k, v) \<Longrightarrow> list_all P (AList.update k v l)"
  by (induction l) auto

lemma dr_ok_annotate: "isValidAnnotationKey k \<Longrightarrow> dr_ok dr \<Longrightarrow> dr_ok (annotate k v dr)"
  by (simp add: dr_ok_def annotate_def list_all_update)

lemma annotation_keys [simp]:
  "isValidAnnotationKey AnnotationComponentManagementState" "isValidAnnotationKey AnnotationCheckTargetVersion"
  "isValidAnnotationKey AnnotationImpactedWorkloadCount" "isValidAnnotationKey annotationInstalledVersion"
  "isValidAnnotationKey AnnotationResourceCRDName"
  by code_simp+

lemma Conditions_annotate [simp]: "Conditions (annotate k v dr) = Conditions dr"
  by (simp add: annotate_def)

lemma dr_ok_annotate_target [check_ok]: "dr_ok dr \<Longrightarrow> dr_ok (annotate_target sv t dr)"
  by (simp add: annotate_target_def dr_ok_annotate split: option.split)

lemma set_condition_all: "list_all P cs \<Longrightarrow> P c \<Longrightarrow> list_all P (set_condition c cs)"
  by (induction cs) auto

lemma set_condition_nonempty [simp]: "set_condition c cs \<noteq> []"
  by (cases cs) auto

lemma dr_ok_SetCondition: "dr_ok dr \<Longrightarrow> cond_ok c \<Longrightarrow> dr_ok (SetCondition dr c) \<and> Conditions (SetCondition dr c) \<noteq> []"
  by (simp add: dr_ok_def SetCondition_def set_condition_all)

lemma set_new_condition_ok [check_ok]:
  "dr_ok dr \<Longrightarrow> built_ok (NewCondition t st opts) \<Longrightarrow> checked_ok (set_new_condition dr t st opts)"
  by (auto simp: set_new_condition_def built_ok_def dr_ok_SetCondition)

lemmas build_simps = built_ok_def NewCondition_def condition_options ConditionValidate_def deriveImpact_def Let_def
  cond_ok_def validateCondition_def

text \<open>Conditions as the checks build them: any message, a reason, an impact of the three where one is needed.\<close>

lemma built_ok_True [check_ok]:
  "t \<noteq> [] \<Longrightarrow> r \<noteq> [] \<Longrightarrow> built_ok (NewCondition t ConditionTrue [WithReason r])"
  "t \<noteq> [] \<Longrightarrow> r \<noteq> [] \<Longrightarrow> built_ok (NewCondition t ConditionTrue [WithReason r, WithMessage m])"
  "t \<noteq> [] \<Longrightarrow> r \<noteq> [] \<Longrightarrow> built_ok (NewCondition t ConditionTrue [WithReason r, WithMessage m, WithRemediation w])"
  by (simp_all add: build_simps)

lemma built_ok_False [check_ok]:
  "t \<noteq> [] \<Longrightarrow> r \<noteq> [] \<Longrightarrow> built_ok (NewCondition t ConditionFalse [WithReason r, WithMessage m])"
  "t \<noteq> [] \<Longrightarrow> r \<noteq> [] \<Longrightarrow> built_ok (NewCondition t ConditionFalse [WithReason r, WithMessage m, WithRemediation w])"
  by (simp_all add: build_simps)

lemma built_ok_impact [check_ok]:
  "t \<noteq> [] \<Longrightarrow> r \<noteq> [] \<Longrightarrow> i \<in> {ImpactProhibited, ImpactBlocking, ImpactAdvisory} \<Longrightarrow>
     built_ok (NewCondition t ConditionFalse [WithReason r, WithMessage m, WithImpact i])"
  "t \<noteq> [] \<Longrightarrow> r \<noteq> [] \<Longrightarrow> i \<in> {ImpactProhibited, ImpactBlocking, ImpactAdvisory} \<Longrightarrow>
     built_ok (NewCondition t ConditionFalse [WithReason r, WithMessage m, WithImpact i, WithRemediation w])"
  by (auto simp: build_simps)

lemma not_found_result_ok [check_ok]: "base_ok b \<Longrightarrow> checked_ok (not_found_result b msg)"
  using built_ok_False(1) [of ConditionTypeAvailable ReasonResourceNotFound msg] dr_ok_new [of b]
  by (auto simp: not_found_result_def built_ok_def dr_ok_def)

lemma bind_checked_ok:
  "checked_ok r \<Longrightarrow> (\<And>dr. dr_ok dr \<Longrightarrow> Conditions dr \<noteq> [] \<Longrightarrow> checked_ok (f dr)) \<Longrightarrow> checked_ok (bind_checked r f)"
  by (cases r; cases "projr r") (auto simp: bind_checked_def)

lemma set_conditions_ok:
  "dr_ok dr \<Longrightarrow> list_all built_ok cs \<Longrightarrow> cs \<noteq> [] \<or> Conditions dr \<noteq> [] \<Longrightarrow> checked_ok (set_conditions dr cs)"
proof (induction cs arbitrary: dr)
  case (Cons c cs)
  then obtain c' where "c = Inr c'" "cond_ok c'" by (auto simp: built_ok_def)
  then show ?case using Cons.IH [of "SetCondition dr c'"] Cons.prems dr_ok_SetCondition by auto
qed simp

lemma ComponentRun_target_ok:
  assumes "base_ok (cbCheck b)" and "\<And>req. dr_ok (rqResult req) \<Longrightarrow> rqTarget req = t \<Longrightarrow> checked_ok (fn req)"
  shows "checked_ok (ComponentRun sv t b fn)"
proof -
  have dr: "dr_ok (annotate_target sv t (annotate AnnotationComponentManagementState state (BaseNewResult (cbCheck b))))" for state
    by (intro dr_ok_annotate_target dr_ok_annotate dr_ok_new assms(1)) simp
  have fn: "checked_ok (fn req)" if "dr_ok (rqResult req)" "rqTarget req = t" for req using assms(2) that by blast
  have cond: "checked_ok (set_new_condition dr ConditionTypeConfigured ConditionTrue [WithReason ReasonRequirementsMet])"
      "checked_ok (set_new_condition dr ConditionTypeAvailable ConditionFalse [WithReason ReasonResourceNotFound, WithMessage m])"
      if "dr_ok dr" for dr m
    using that by (auto intro: check_ok)
  show ?thesis unfolding ComponentRun_def
    by (auto simp: Let_def not_found_result_ok [OF assms(1)] dr dr_ok_new [OF assms(1)] intro!: fn cond split: sum.split)
qed

lemma ComponentRun_ok:
  assumes "base_ok (cbCheck b)" and "\<And>req. dr_ok (rqResult req) \<Longrightarrow> checked_ok (fn req)"
  shows "checked_ok (ComponentRun sv t b fn)"
  by (rule ComponentRun_target_ok) (use assms in simp_all)

lemma ComponentComplete_ok:
  assumes "base_ok (cbCheck b)" and "\<And>req. fn req \<noteq> [] \<and> list_all built_ok (fn req)"
  shows "checked_ok (ComponentComplete sv t b fn)"
  unfolding ComponentComplete_def using assms by (intro ComponentRun_ok set_conditions_ok) auto

lemma singleton_run_ok:
  assumes "base_ok b" and "\<And>dr v. dr_ok dr \<Longrightarrow> checked_ok (fn dr v)"
  shows "checked_ok (singleton_run sv t b kind obj fn)"
  unfolding singleton_run_def
  using assms by (auto intro!: assms(2) check_ok split: sum.split)

lemma OperatorRun_ok:
  assumes "base_ok (obCheck b)" and "\<And>found v. built_ok (obCondition b found v)"
  shows "checked_ok (OperatorRun sv t b)"
proof -
  have dr: "dr_ok (annotate_target sv t (BaseNewResult (obCheck b)))" by (intro check_ok assms(1))
  have c: "\<exists>c. obCondition b found v = Inr c \<and> cond_ok c \<and> cond_ok (c\<lparr>CondMessage := m\<rparr>)" for found v m
    using assms(2) [of found v] unfolding built_ok_def by (auto simp: cond_ok_message)
  show ?thesis
  proof (cases "rdOLM (tgtClient t) = None")
    case True
    from c [of False "[]" "''OLM client not available''"] True dr show ?thesis
      by (auto simp: OperatorRun_def Let_def dr_ok_def)
  next
    case False
    show ?thesis
    proof (cases "FindOperator (tgtClient t) (buildMatcher b)")
      case (Inl e)
      with False show ?thesis by (auto simp: OperatorRun_def Let_def)
    next
      case (Inr info)
      obtain c where "obCondition b (Found info) (GetVersion info) = Inr c" "cond_ok c" using c by blast
      moreover from this dr have "dr_ok ((annotate_target sv t (BaseNewResult (obCheck b)))\<lparr>Conditions := [c]\<rparr>)" by (simp add: dr_ok_def)
      ultimately show ?thesis using False Inr by (auto simp: OperatorRun_def Let_def intro!: dr_ok_annotate)
    qed
  qed
qed

lemma dr_ok_SetImpactedObjects: "dr_ok dr \<Longrightarrow> dr_ok (SetImpactedObjects dr rt ns)"
  by (simp add: dr_ok_def SetImpactedObjects_def list_all_update)

lemma dr_ok_AddImpactedObjects: "dr_ok dr \<Longrightarrow> dr_ok (AddImpactedObjects dr rt ns) \<and> Conditions (AddImpactedObjects dr rt ns) = Conditions dr"
  by (simp add: dr_ok_def AddImpactedObjects_def list_all_update split: option.split)

text \<open>A callback of a workload builder: no panic, and a good result.\<close>

definition callback_ok :: "string + (err + DiagnosticResult \<times> bool) \<Rightarrow> bool" where
  "callback_ok r \<longleftrightarrow> (case r of Inl p \<Rightarrow> False | Inr (Inl e) \<Rightarrow> True | Inr (Inr (dr, b)) \<Rightarrow> dr_ok dr \<and> Conditions dr \<noteq> [])"

lemma callback_cases:
  assumes "callback_ok r"
  obtains e where "r = Inr (Inl e)" | dr b where "r = Inr (Inr (dr, b))" "dr_ok dr" "Conditions dr \<noteq> []"
  using assms that by (cases r; cases "projr r") (auto simp: callback_ok_def)

lemma unassigned_ok: "checked_ok r \<Longrightarrow> callback_ok (unassigned r)"
  by (cases r; cases "projr r") (auto simp: unassigned_def callback_ok_def)

lemma maybe_ok_simps [simp]:
  "maybe_ok (Inr (Inl e))" "maybe_ok (Inr (Inr None))" "maybe_ok (Inr (Inr (Some dr))) \<longleftrightarrow> dr_ok dr \<and> Conditions dr \<noteq> []"
  by (simp_all add: maybe_ok_def)

lemma WorkloadRun_ok:
  assumes "base_ok (wbCheck b)" and "\<And>dr items. dr_ok dr \<Longrightarrow> callback_ok (fn dr items)"
  shows "maybe_ok (WorkloadRun sv t b fn)"
proof -
  let ?active = "if wbComponents b = [] then Inr True else checkComponentState (tgtClient t) (wbComponents b)"
  have run: "WorkloadRun sv t b fn = (case ?active of Inl e \<Rightarrow> Inr (Inl e) | Inr active \<Rightarrow>
      if \<not> active then Inr (Inr None) else case workload_items (tgtClient t) b of Inl e \<Rightarrow> Inr (Inl e)
        | Inr items \<Rightarrow> bind_res (fn (annotate AnnotationImpactedWorkloadCount (itoa (length items))
              (annotate_target sv t (BaseNewResult (wbCheck b)))) items) (\<lambda>x. case x of Inl e \<Rightarrow> Inr (Inl e)
            | Inr (dr', assigned) \<Rightarrow> Inr (Inr (Some
                (if \<not> assigned \<and> items \<noteq> [] then SetImpactedObjects dr' (wbType b) (map (wbNames b) items) else dr')))))"
    by (simp add: WorkloadRun_def Let_def)
  show ?thesis
  proof (cases ?active)
    case (Inr active)
    show ?thesis
    proof (cases "workload_items (tgtClient t) b")
      case items: (Inr items)
      have "dr_ok (annotate AnnotationImpactedWorkloadCount (itoa (length items)) (annotate_target sv t (BaseNewResult (wbCheck b))))"
        by (intro dr_ok_annotate check_ok assms(1)) simp
      from assms(2) [OF this, of items] show ?thesis
        unfolding run Inr using items
        by (cases rule: callback_cases) (auto simp: dr_ok_SetImpactedObjects, auto simp: SetImpactedObjects_def)
    qed (simp add: run Inr)
  qed (simp add: run)
qed

lemma WorkloadComplete_ok:
  assumes "base_ok (wbCheck b)" and "\<And>items. fn items \<noteq> [] \<and> list_all built_ok (fn items)"
  shows "maybe_ok (WorkloadComplete sv t b fn)"
  unfolding WorkloadComplete_def using assms by (intro WorkloadRun_ok unassigned_ok set_conditions_ok) auto

end
