(* ===== verification/KueueIntegrity.thy ===== *)
theory KueueIntegrity
  imports LintValidate
begin

text \<open>
  The Kueue consistency check: \<open>pkg/lint/checks/kueue/discovery\<close> and \<open>pkg/lint/checks/workloads/kueue\<close>
  (\<open>support.go\<close>, \<open>graph.go\<close>, \<open>invariants.go\<close>, \<open>check.go\<close>). Sets of namespaces are lists without repetition.
\<close>

abbreviation LabelKueueManaged :: string where "LabelKueueManaged \<equiv> ''kueue-managed''"
abbreviation LabelKueueOpenshiftManaged :: string where "LabelKueueOpenshiftManaged \<equiv> ''kueue.openshift.io/managed''"
abbreviation LabelKueueQueueName :: string where "LabelKueueQueueName \<equiv> ''kueue.x-k8s.io/queue-name''"

section \<open>Discovery\<close>

definition MonitoredWorkloadTypes :: "ResourceType list" where
  "MonitoredWorkloadTypes = [rt_Notebook, rt_InferenceService, rt_LLMInferenceService, rt_RayCluster, rt_RayJob, rt_PyTorchJob]"

definition insert_all :: "string list \<Rightarrow> string list \<Rightarrow> string list" where
  "insert_all xs s = fold List.insert xs s"

fun enabled_loop :: "reader \<Rightarrow> string list \<Rightarrow> string list \<Rightarrow> err + string list" where
  "enabled_loop r [] enabled = Inr enabled"
| "enabled_loop r (sel # sels) enabled =
     (case rdListMeta r rt_Namespace (WithLabelSelector sel list_all_config) of
        Inl e \<Rightarrow> Inl (wrapf ''listing kueue-enabled namespaces'' e)
      | Inr items \<Rightarrow> enabled_loop r sels (insert_all (map poName items) enabled))"

definition KueueEnabledNamespaces :: "reader \<Rightarrow> err + string list" where
  "KueueEnabledNamespaces r = enabled_loop r [LabelKueueManaged @ ''=true'', LabelKueueOpenshiftManaged @ ''=true''] []"

fun labeled_loop :: "reader \<Rightarrow> ResourceType list \<Rightarrow> string list \<Rightarrow> err + string list" where
  "labeled_loop r [] namespaces = Inr namespaces"
| "labeled_loop r (rt # rts) namespaces =
     (case rdListMeta r rt (WithLabelSelector LabelKueueQueueName list_all_config) of
        Inl e \<Rightarrow> if IsResourceTypeNotFound r e then labeled_loop r rts namespaces
                 else Inl (wrapf (''listing '' @ rtKind rt @ '' with kueue label'') e)
      | Inr items \<Rightarrow> labeled_loop r rts (insert_all (map poNamespace items) namespaces))"

definition WorkloadLabeledNamespaces :: "reader \<Rightarrow> err + string list" where
  "WorkloadLabeledNamespaces r = labeled_loop r MonitoredWorkloadTypes []"

section \<open>The ownership graph (\<open>graph.go\<close>)\<close>

definition intermediateTypes :: "ResourceType list" where
  "intermediateTypes = [rt_Deployment, rt_StatefulSet, rt_ReplicaSet, rt_DaemonSet, rt_Job, rt_CronJob, rt_Pod]"

record graphNode =
  gnUID :: string
  gnName :: string
  gnNamespace :: string
  gnKind :: string
  gnLabels :: "(string, string) gomap"

type_synonym ownershipGraph = "(string, graphNode list) gomap"

definition newGraphNode :: "PartialObject \<Rightarrow> string \<Rightarrow> graphNode" where
  "newGraphNode item kind = \<lparr>gnUID = poUID item, gnName = poName item, gnNamespace = poNamespace item, gnKind = kind,
     gnLabels = poLabels item\<rparr>"

definition children :: "ownershipGraph \<Rightarrow> string \<Rightarrow> graphNode list" where
  "children g uid = (case map_of g uid of None \<Rightarrow> [] | Some ns \<Rightarrow> ns)"

definition add_node :: "graphNode \<Rightarrow> string list \<Rightarrow> ownershipGraph \<Rightarrow> ownershipGraph" where
  "add_node n owners g = fold (\<lambda>uid g. AList.update uid (children g uid @ [n]) g) owners g"

fun build_loop :: "reader \<Rightarrow> string \<Rightarrow> ResourceType list \<Rightarrow> ownershipGraph \<Rightarrow> err + ownershipGraph" where
  "build_loop r ns [] g = Inr g"
| "build_loop r ns (rt # rts) g =
     (case rdListMeta r rt (WithNamespace ns list_all_config) of
        Inl e \<Rightarrow> if IsResourceTypeNotFound r e then build_loop r ns rts g
                 else Inl (wrapf (''listing '' @ rtKind rt @ '' in namespace '' @ ns) e)
      | Inr items \<Rightarrow> build_loop r ns rts (fold (\<lambda>item g. add_node (newGraphNode item (rtKind rt)) (poOwners item) g) items g))"

definition buildGraph :: "reader \<Rightarrow> string \<Rightarrow> err + ownershipGraph" where
  "buildGraph r ns = build_loop r ns intermediateTypes []"

text \<open>The walk with its queue and visited set. It ends also on cyclic owner references.\<close>

function walk :: "ownershipGraph \<Rightarrow> string list \<Rightarrow> string list \<Rightarrow> graphNode list" where
  "walk g [] visited = []"
| "walk g (u # queue) visited =
     (if u \<in> set visited then walk g queue visited
      else children g u @ walk g (queue @ map gnUID (children g u)) (u # visited))"
  by pat_completeness auto
termination
proof (relation "inv_image (less_than <*lex*> less_than)
    (\<lambda>(g, queue, visited). (card (fst ` set g - set visited), length queue))")
  fix g :: ownershipGraph and u :: string and queue visited :: "string list"
  assume u: "u \<notin> set visited"
  show "((g, queue @ map gnUID (children g u), u # visited), (g, u # queue, visited)) \<in>
    inv_image (less_than <*lex*> less_than) (\<lambda>(g, queue, visited). (card (fst ` set g - set visited), length queue))"
  proof (cases "u \<in> fst ` set g")
    case True
    then have "fst ` set g - set (u # visited) \<subset> fst ` set g - set visited" using u by auto
    then have "card (fst ` set g - set (u # visited)) < card (fst ` set g - set visited)" by (intro psubset_card_mono) auto
    then show ?thesis by simp
  next
    case False
    then have "map_of g u = None" by (simp add: map_of_eq_None_iff)
    then have "children g u = []" by (simp add: children_def)
    moreover have "fst ` set g - set (u # visited) = fst ` set g - set visited" using False by auto
    ultimately show ?thesis by simp
  qed
qed auto

definition walkSubtree :: "ownershipGraph \<Rightarrow> string \<Rightarrow> graphNode list" where
  "walkSubtree g root = walk g [root] []"

section \<open>The invariants (\<open>invariants.go\<close>)\<close>

text \<open>A top-level custom resource: its metadata with its type, as \<open>listWorkloadsInNamespace\<close> makes it.\<close>

record workload =
  wlObj :: PartialObject
  wlType :: ResourceType

record violation =
  vioNamespace :: string
  vioName :: string
  vioKind :: string
  vioAPIVersion :: string
  vioMessage :: string

definition wl_violation :: "workload \<Rightarrow> string \<Rightarrow> violation" where
  "wl_violation w msg = \<lparr>vioNamespace = poNamespace (wlObj w), vioName = poName (wlObj w), vioKind = rtKind (wlType w),
     vioAPIVersion = APIVersion (wlType w), vioMessage = msg\<rparr>"

definition ident :: "string \<Rightarrow> string \<Rightarrow> string \<Rightarrow> string" where
  "ident kind ns name = kind @ '' '' @ ns @ ''/'' @ name"

definition wl_ident :: "workload \<Rightarrow> string" where
  "wl_ident w = ident (rtKind (wlType w)) (poNamespace (wlObj w)) (poName (wlObj w))"

definition queue_of :: "(string, string) gomap \<Rightarrow> string option" where
  "queue_of labels = map_of labels LabelKueueQueueName"

definition checkNamespaceToWorkload :: "workload \<Rightarrow> string list \<Rightarrow> violation option" where
  "checkNamespaceToWorkload cr kueueNamespaces =
     (if poNamespace (wlObj cr) \<notin> set kueueNamespaces then None
      else if queue_of (poLabels (wlObj cr)) \<noteq> None then None
      else Some (wl_violation cr (wl_ident cr @ '' is in kueue-managed namespace '' @ poNamespace (wlObj cr)
        @ '' but missing kueue.x-k8s.io/queue-name label'')))"

definition checkWorkloadToNamespace :: "workload \<Rightarrow> string list \<Rightarrow> violation option" where
  "checkWorkloadToNamespace cr kueueNamespaces =
     (case queue_of (poLabels (wlObj cr)) of
        None \<Rightarrow> None
      | Some q \<Rightarrow>
          if poNamespace (wlObj cr) \<in> set kueueNamespaces then None
          else Some (wl_violation cr (wl_ident cr @ '' has kueue.x-k8s.io/queue-name='' @ q @ '' but namespace is not kueue-managed'')))"

fun disagreement :: "workload \<Rightarrow> graphNode list \<Rightarrow> violation option" where
  "disagreement cr [] = None"
| "disagreement cr (d # ds) =
     (let child = ident (gnKind d) (gnNamespace d) (gnName d) in
      case (queue_of (poLabels (wlObj cr)), queue_of (gnLabels d)) of
        (Some q, None) \<Rightarrow> Some (wl_violation cr (wl_ident cr @ '' has kueue.x-k8s.io/queue-name='' @ q @ '' but descendant ''
          @ child @ '' is missing the label''))
      | (None, Some q) \<Rightarrow> Some (wl_violation cr (child @ '' has kueue.x-k8s.io/queue-name='' @ q @ '' but ancestor ''
          @ wl_ident cr @ '' does not have the label''))
      | (Some q, Some q') \<Rightarrow>
          if q \<noteq> q' then Some (wl_violation cr (child @ '' has kueue.x-k8s.io/queue-name='' @ q' @ '' but root ''
            @ wl_ident cr @ '' has kueue.x-k8s.io/queue-name='' @ q))
          else disagreement cr ds
      | (None, None) \<Rightarrow> disagreement cr ds)"

definition checkOwnerTreeConsistency :: "workload \<Rightarrow> ownershipGraph \<Rightarrow> violation option" where
  "checkOwnerTreeConsistency cr g = disagreement cr (walkSubtree g (poUID (wlObj cr)))"

section \<open>The check (\<open>check.go\<close>)\<close>

fun workloads_loop :: "reader \<Rightarrow> string \<Rightarrow> ResourceType list \<Rightarrow> err + workload list" where
  "workloads_loop r ns [] = Inr []"
| "workloads_loop r ns (rt # rts) =
     (case rdListMeta r rt (WithNamespace ns list_all_config) of
        Inl e \<Rightarrow> if IsResourceTypeNotFound r e then workloads_loop r ns rts
                 else Inl (wrapf (''listing '' @ rtKind rt @ '' in namespace '' @ ns) e)
      | Inr items \<Rightarrow> bind_res (workloads_loop r ns rts) (\<lambda>rest.
          Inr (map (\<lambda>x. \<lparr>wlObj = x, wlType = rt\<rparr>) items @ rest)))"

definition listWorkloadsInNamespace :: "reader \<Rightarrow> string \<Rightarrow> err + workload list" where
  "listWorkloadsInNamespace r ns = workloads_loop r ns MonitoredWorkloadTypes"

definition workload_violation :: "string list \<Rightarrow> ownershipGraph \<Rightarrow> workload \<Rightarrow> violation option" where
  "workload_violation kueueNamespaces g cr =
     (case checkNamespaceToWorkload cr kueueNamespaces of Some v \<Rightarrow> Some v
      | None \<Rightarrow> (case checkWorkloadToNamespace cr kueueNamespaces of Some v \<Rightarrow> Some v
      | None \<Rightarrow> checkOwnerTreeConsistency cr g))"

definition checkNamespace :: "reader \<Rightarrow> string \<Rightarrow> string list \<Rightarrow> err + violation list" where
  "checkNamespace r ns kueueNamespaces =
     (case listWorkloadsInNamespace r ns of
        Inl e \<Rightarrow> Inl e
      | Inr [] \<Rightarrow> Inr []
      | Inr ws \<Rightarrow>
          (case buildGraph r ns of
             Inl e \<Rightarrow> Inl (wrapf ''building ownership graph'' e)
           | Inr g \<Rightarrow> Inr (List.map_filter (workload_violation kueueNamespaces g) ws)))"

fun namespaces_loop :: "reader \<Rightarrow> string list \<Rightarrow> string list \<Rightarrow> err + violation list" where
  "namespaces_loop r kueueNamespaces [] = Inr []"
| "namespaces_loop r kueueNamespaces (ns # nss) =
     (case checkNamespace r ns kueueNamespaces of
        Inl e \<Rightarrow> Inl (wrapf (''checking namespace '' @ ns) e)
      | Inr vs \<Rightarrow> bind_res (namespaces_loop r kueueNamespaces nss) (\<lambda>rest. Inr (vs @ rest)))"

definition resource_key :: "violation \<Rightarrow> string \<times> string \<times> string \<times> string" where
  "resource_key v = (vioKind v, vioAPIVersion v, vioNamespace v, vioName v)"

fun unique_loop :: "(string \<times> string \<times> string \<times> string) list \<Rightarrow> violation list \<Rightarrow> violation list" where
  "unique_loop seen [] = []"
| "unique_loop seen (v # vs) =
     (if resource_key v \<in> set seen then unique_loop seen vs else v # unique_loop (resource_key v # seen) vs)"

definition uniqueResources :: "violation list \<Rightarrow> violation list" where
  "uniqueResources vs = unique_loop [] vs"

abbreviation AnnotationObjectContext :: string where "AnnotationObjectContext \<equiv> ''result.opendatahub.io/context''"
abbreviation AnnotationObjectCRDName :: string where "AnnotationObjectCRDName \<equiv> ''result.opendatahub.io/crd-name''"

definition buildCRDFQNLookup :: "(string, string) gomap" where
  "buildCRDFQNLookup = fold (\<lambda>rt m. AList.update (APIVersion rt @ ''/'' @ rtKind rt) (CRDFQN rt) m) MonitoredWorkloadTypes []"

definition impacted_violation :: "violation \<Rightarrow> ObjectMeta" where
  "impacted_violation v = \<lparr>omAPIVersion = vioAPIVersion v, omKind = vioKind v, omNamespace = vioNamespace v, omName = vioName v,
     omAnnotations = (if vioMessage v \<noteq> [] then [(AnnotationObjectContext, vioMessage v)] else [])
       @ (case map_of buildCRDFQNLookup (vioAPIVersion v @ ''/'' @ vioKind v) of None \<Rightarrow> [] | Some f \<Rightarrow> [(AnnotationObjectCRDName, f)])\<rparr>"

definition populateImpactedObjects :: "DiagnosticResult \<Rightarrow> violation list \<Rightarrow> DiagnosticResult" where
  "populateImpactedObjects dr vs = dr\<lparr>ImpactedObjects := map impacted_violation vs\<rparr>"

abbreviation conditionTypeKueueConsistency :: string where "conditionTypeKueueConsistency \<equiv> ''KueueConsistency''"

abbreviation remediationConsistency :: string where
  "remediationConsistency \<equiv> ''Ensure kueue-managed namespaces and workload kueue.x-k8s.io/queue-name labels are consistent. Add the kueue-managed or kueue.openshift.io/managed label to namespaces with kueue workloads, or add the kueue.x-k8s.io/queue-name label to all workloads in kueue-enabled namespaces''"

definition DataIntegrityCheck :: BaseCheck where
  "DataIntegrityCheck = \<lparr>bcGroup = GroupWorkload, bcKind = ''kueue'', bcType = ''data-integrity'',
     bcID = ''workloads.kueue.data-integrity'', bcName = ''Workloads :: Kueue :: Data Integrity'',
     bcDescription = ''Verifies that kueue namespace labels and workload queue-name labels are consistent across the cluster'',
     bcRemediation = remediationConsistency\<rparr>"

definition IsKueueUnmanaged :: "lint_target \<Rightarrow> err + bool" where
  "IsKueueUnmanaged t =
     (case GetDataScienceCluster (tgtClient t) of
        Inl e \<Rightarrow> Inl (wrapf ''getting DataScienceCluster'' e)
      | Inr dsc \<Rightarrow> Inr (HasManagementState (rdGojq (tgtClient t)) dsc ''kueue'' [ManagementStateUnmanaged]))"

definition DataIntegrityCanApply :: "lint_target \<Rightarrow> err + bool" where
  "DataIntegrityCanApply t = (case IsKueueUnmanaged t of Inl e \<Rightarrow> Inl (wrapf ''checking kueue state'' e) | Inr b \<Rightarrow> Inr b)"

definition DataIntegrityValidate :: "semver_lib \<Rightarrow> lint_target \<Rightarrow> checked" where
  "DataIntegrityValidate sv t =
     (let r = tgtClient t; dr = annotate_target sv t (BaseNewResult DataIntegrityCheck) in
      case KueueEnabledNamespaces r of
        Inl e \<Rightarrow> chk_error (wrapf ''finding kueue-enabled namespaces'' e)
      | Inr kueueNamespaces \<Rightarrow>
          (case WorkloadLabeledNamespaces r of
             Inl e \<Rightarrow> chk_error (wrapf ''finding workload-labeled namespaces'' e)
           | Inr workloadNamespaces \<Rightarrow>
               (let relevant = insert_all workloadNamespaces kueueNamespaces in
                if relevant = [] then
                  bind_checked (set_new_condition dr conditionTypeKueueConsistency ConditionTrue [WithReason ReasonRequirementsMet,
                      WithMessage ''No kueue-managed namespaces or kueue-labeled workloads found''])
                    (\<lambda>dr'. chk_done (annotate AnnotationImpactedWorkloadCount ''0'' dr'))
                else case namespaces_loop r kueueNamespaces (sort_slice (<) relevant) of
                    Inl e \<Rightarrow> chk_error e
                  | Inr violations \<Rightarrow>
                      (let impacted = uniqueResources violations;
                           dr1 = annotate AnnotationImpactedWorkloadCount (itoa (length impacted)) dr in
                       if violations = [] then
                         set_new_condition dr1 conditionTypeKueueConsistency ConditionTrue [WithReason ReasonRequirementsMet,
                           WithMessage ''All monitored workloads are consistent with kueue namespace configuration'']
                       else bind_checked (set_new_condition dr1 conditionTypeKueueConsistency ConditionFalse
                           [WithReason ReasonConfigurationInvalid, WithMessage (''Found '' @ itoa (length violations)
                             @ '' kueue consistency violation(s) across monitored workloads''), WithImpact ImpactAdvisory,
                            WithRemediation remediationConsistency])
                         (\<lambda>dr2. chk_done (populateImpactedObjects dr2 impacted))))))"

section \<open>Lemmas: the walk\<close>

definition node_succs :: "ownershipGraph \<Rightarrow> string \<Rightarrow> string set" where
  "node_succs g u = gnUID ` set (children g u)"

lemma walk_sound:
  "n \<in> set (walk g queue visited) \<Longrightarrow>
     \<exists>u\<in>set queue. \<exists>v. (u, v) \<in> {(a, b). b \<in> node_succs g a}\<^sup>* \<and> n \<in> set (children g v)"
proof (induction g queue visited rule: walk.induct)
  case (2 g u queue visited)
  show ?case
  proof (cases "u \<in> set visited")
    case True
    with 2 show ?thesis by auto
  next
    case False
    show ?thesis
    proof (cases "n \<in> set (children g u)")
      case True
      then show ?thesis by auto
    next
      case new: False
      with 2 False obtain u' v where uv: "u' \<in> set queue \<or> u' \<in> gnUID ` set (children g u)"
          "(u', v) \<in> {(a, b). b \<in> node_succs g a}\<^sup>*" "n \<in> set (children g v)" by auto
      show ?thesis
      proof (cases "u' \<in> set queue")
        case True
        with uv show ?thesis by auto
      next
        case False
        with uv(1) have "(u, u') \<in> {(a, b). b \<in> node_succs g a}" by (auto simp: node_succs_def)
        with uv(2,3) show ?thesis by (meson converse_rtrancl_into_rtrancl list.set_intros(1))
      qed
    qed
  qed
qed simp

lemma walk_closed:
  "(\<forall>u\<in>set queue. u \<notin> set visited \<longrightarrow> set (children g u) \<subseteq> set (walk g queue visited))
    \<and> (\<forall>n\<in>set (walk g queue visited). gnUID n \<notin> set visited \<longrightarrow> set (children g (gnUID n)) \<subseteq> set (walk g queue visited))"
proof (induction g queue visited rule: walk.induct)
  case (2 g u queue visited)
  show ?case
  proof (cases "u \<in> set visited")
    case True
    with 2 show ?thesis by auto
  next
    case False
    let ?w = "walk g (queue @ map gnUID (children g u)) (u # visited)"
    have a: "x \<in> set queue \<or> x \<in> gnUID ` set (children g u) \<Longrightarrow> x \<notin> set visited \<Longrightarrow> x \<noteq> u \<Longrightarrow> set (children g x) \<subseteq> set ?w" for x
      using "2.IH"(2) [OF False] by auto
    have b: "n \<in> set ?w \<Longrightarrow> gnUID n \<notin> set visited \<Longrightarrow> gnUID n \<noteq> u \<Longrightarrow> set (children g (gnUID n)) \<subseteq> set ?w" for n
      using "2.IH"(2) [OF False] by auto
    have w: "walk g (u # queue) visited = children g u @ ?w" using False by simp
    have "set (children g x) \<subseteq> set (children g u) \<union> set ?w" if "x \<in> set (u # queue)" "x \<notin> set visited" for x
      using a [of x] that by (cases "x = u") auto
    moreover have "set (children g (gnUID n)) \<subseteq> set (children g u) \<union> set ?w"
      if "n \<in> set (children g u) \<union> set ?w" "gnUID n \<notin> set visited" for n
      using a [of "gnUID n"] b [of n] that by (cases "gnUID n = u") auto
    ultimately show ?thesis unfolding w by (metis set_append)
  qed
qed simp

interpretation owner_graph: visit_closure "node_succs g" "\<lambda>r. insert r (gnUID ` set (walkSubtree g r))" for g
proof unfold_locales
  fix r x y
  let ?w = "walkSubtree g r"
  show "r \<in> insert r (gnUID ` set ?w)" by simp
  have "set (children g x) \<subseteq> set ?w" if "x \<in> insert r (gnUID ` set ?w)" for x
    using walk_closed [of "[r]" "[]" g] that by (auto simp: walkSubtree_def)
  then show "x \<in> insert r (gnUID ` set ?w) \<Longrightarrow> y \<in> node_succs g x \<Longrightarrow> y \<in> insert r (gnUID ` set ?w)"
    by (auto simp: node_succs_def)
  show "(r, x) \<in> {(a, b). b \<in> node_succs g a}\<^sup>*" if x: "x \<in> insert r (gnUID ` set ?w)"
  proof (cases "x = r")
    case False
    with x obtain n where n: "n \<in> set ?w" "x = gnUID n" by auto
    then obtain v where "(r, v) \<in> {(a, b). b \<in> node_succs g a}\<^sup>*" "n \<in> set (children g v)"
      using walk_sound [of n g "[r]" "[]"] by (auto simp: walkSubtree_def)
    moreover from this(2) n have "(v, x) \<in> {(a, b). b \<in> node_succs g a}" by (auto simp: node_succs_def)
    ultimately show ?thesis by (meson rtrancl_into_rtrancl)
  qed simp
qed

lemma walkSubtree_reach:
  "set (walkSubtree g r) = {n. \<exists>v. (r, v) \<in> {(a, b). b \<in> node_succs g a}\<^sup>* \<and> n \<in> set (children g v)}"
proof -
  have "n \<in> set (walkSubtree g r)" if "(r, v) \<in> {(a, b). b \<in> node_succs g a}\<^sup>*" "n \<in> set (children g v)" for n v
  proof -
    have "v = r \<or> (\<exists>m\<in>set (walkSubtree g r). v = gnUID m)" using owner_graph.reach_visited [OF that(1)] by auto
    then show ?thesis using walk_closed [of "[r]" "[]" g] that(2) by (auto simp: walkSubtree_def)
  qed
  then show ?thesis using walk_sound [of _ g "[r]" "[]"] by (auto simp: walkSubtree_def)
qed

section \<open>Lemmas: the cluster\<close>

text \<open>
  A cluster, and a reader that answers from it: namespace and label selectors restrict a listing, a type
  that is not installed has no objects, the monitored types are namespaced and namespaces have names.
\<close>

record kueue_cluster =
  kcNamespaces :: "PartialObject list"
  kcObjects :: "ResourceType \<Rightarrow> PartialObject list"

definition listed :: "reader \<Rightarrow> err + PartialObject list \<Rightarrow> PartialObject list \<Rightarrow> bool" where
  "listed r res xs \<longleftrightarrow> (case res of Inr ys \<Rightarrow> ys = xs | Inl e \<Rightarrow> IsResourceTypeNotFound r e \<and> xs = [])"

definition answers :: "reader \<Rightarrow> kueue_cluster \<Rightarrow> bool" where
  "answers r C \<longleftrightarrow>
     (\<forall>rt ns. ns \<noteq> [] \<longrightarrow> listed r (rdListMeta r rt (WithNamespace ns list_all_config)) (filter (\<lambda>x. poNamespace x = ns) (kcObjects C rt)))
     \<and> (\<forall>rt. listed r (rdListMeta r rt (WithLabelSelector LabelKueueQueueName list_all_config))
          (filter (\<lambda>x. ContainsLabel x LabelKueueQueueName) (kcObjects C rt)))
     \<and> (\<forall>k. rdListMeta r rt_Namespace (WithLabelSelector (k @ ''=true'') list_all_config)
          = Inr (filter (\<lambda>x. HasLabel x k ''true'') (kcNamespaces C)))
     \<and> (\<forall>x\<in>set (kcNamespaces C). poName x \<noteq> [])
     \<and> (\<forall>rt\<in>set MonitoredWorkloadTypes. \<forall>x\<in>set (kcObjects C rt). poNamespace x \<noteq> [])"

definition managed :: "kueue_cluster \<Rightarrow> string \<Rightarrow> bool" where
  "managed C ns \<longleftrightarrow> (\<exists>n\<in>set (kcNamespaces C). poName n = ns
     \<and> (HasLabel n LabelKueueManaged ''true'' \<or> HasLabel n LabelKueueOpenshiftManaged ''true''))"

definition workloads :: "kueue_cluster \<Rightarrow> workload set" where
  "workloads C = {w. wlType w \<in> set MonitoredWorkloadTypes \<and> wlObj w \<in> set (kcObjects C (wlType w))}"

abbreviation wl_ns :: "workload \<Rightarrow> string" where "wl_ns w \<equiv> poNamespace (wlObj w)"
abbreviation wl_queue :: "workload \<Rightarrow> string option" where "wl_queue w \<equiv> queue_of (poLabels (wlObj w))"

text \<open>Objects of the intermediate types in a namespace that name an owner, and what a workload so owns.\<close>

definition owned :: "kueue_cluster \<Rightarrow> string \<Rightarrow> string \<Rightarrow> PartialObject \<Rightarrow> bool" where
  "owned C ns u x \<longleftrightarrow> (\<exists>rt\<in>set intermediateTypes. x \<in> set (kcObjects C rt)) \<and> poNamespace x = ns \<and> u \<in> set (poOwners x)"

definition descendant :: "kueue_cluster \<Rightarrow> workload \<Rightarrow> PartialObject \<Rightarrow> bool" where
  "descendant C w x \<longleftrightarrow> (\<exists>u. (poUID (wlObj w), u) \<in> {(a, b). \<exists>y. owned C (wl_ns w) a y \<and> b = poUID y}\<^sup>* \<and> owned C (wl_ns w) u x)"

definition relevant_ns :: "kueue_cluster \<Rightarrow> string \<Rightarrow> bool" where
  "relevant_ns C ns \<longleftrightarrow> managed C ns \<or> (\<exists>w\<in>workloads C. wl_ns w = ns \<and> wl_queue w \<noteq> None)"

definition violates :: "kueue_cluster \<Rightarrow> workload \<Rightarrow> bool" where
  "violates C w \<longleftrightarrow> (managed C (wl_ns w) \<noteq> (wl_queue w \<noteq> None))
     \<or> relevant_ns C (wl_ns w) \<and> (\<exists>x. descendant C w x \<and> queue_of (poLabels x) \<noteq> wl_queue w)"

lemma set_insert_all [simp]: "set (insert_all xs s) = set xs \<union> set s"
  unfolding insert_all_def by (induction xs arbitrary: s) auto

lemma KueueEnabledNamespaces_managed:
  "answers r C \<Longrightarrow> \<exists>ks. KueueEnabledNamespaces r = Inr ks \<and> set ks = {ns. managed C ns}"
  unfolding KueueEnabledNamespaces_def answers_def managed_def by (auto simp del: append_Cons)

lemma labeled_loop_set:
  assumes "answers r C"
  shows "\<exists>ns. labeled_loop r rts acc = Inr ns \<and>
    set ns = set acc \<union> (\<Union>rt\<in>set rts. poNamespace ` {x \<in> set (kcObjects C rt). ContainsLabel x LabelKueueQueueName})"
proof (induction rts arbitrary: acc)
  case (Cons rt rts)
  let ?l = "rdListMeta r rt (WithLabelSelector LabelKueueQueueName list_all_config)"
  have l: "listed r ?l (filter (\<lambda>x. ContainsLabel x LabelKueueQueueName) (kcObjects C rt))"
    using assms unfolding answers_def by blast
  show ?case
  proof (cases ?l)
    case (Inl e)
    then have e: "IsResourceTypeNotFound r e" "filter (\<lambda>x. ContainsLabel x LabelKueueQueueName) (kcObjects C rt) = []"
      using l by (simp_all add: listed_def)
    then show ?thesis using Cons [of acc] Inl by (auto simp: filter_empty_conv)
  next
    case (Inr ys)
    then show ?thesis using l Cons [of "insert_all (map poNamespace ys) acc"] by (auto simp: listed_def)
  qed
qed simp

lemma WorkloadLabeledNamespaces_set:
  "answers r C \<Longrightarrow> \<exists>ns. WorkloadLabeledNamespaces r = Inr ns \<and> set ns = {wl_ns w |w. w \<in> workloads C \<and> wl_queue w \<noteq> None}"
proof -
  assume "answers r C"
  then obtain ns where ns: "labeled_loop r MonitoredWorkloadTypes [] = Inr ns"
    "set ns = (\<Union>rt\<in>set MonitoredWorkloadTypes. poNamespace ` {x \<in> set (kcObjects C rt). ContainsLabel x LabelKueueQueueName})"
    using labeled_loop_set [of r C MonitoredWorkloadTypes "[]"] by auto
  have "poNamespace x \<in> {wl_ns w |w. w \<in> workloads C \<and> wl_queue w \<noteq> None}"
    if "rt \<in> set MonitoredWorkloadTypes" "x \<in> set (kcObjects C rt)" "ContainsLabel x LabelKueueQueueName" for rt x
    using that by (intro CollectI exI [of _ "\<lparr>wlObj = x, wlType = rt\<rparr>"]) (simp add: workloads_def queue_of_def ContainsLabel_def)
  moreover have "wl_ns w \<in> set ns" if "w \<in> workloads C" "wl_queue w \<noteq> None" for w
    unfolding ns(2) using that by (auto simp: workloads_def queue_of_def ContainsLabel_def)
  ultimately have "set ns = {wl_ns w |w. w \<in> workloads C \<and> wl_queue w \<noteq> None}" unfolding ns(2) by blast
  with ns(1) show ?thesis unfolding WorkloadLabeledNamespaces_def by blast
qed

lemma workload_eta [simp]: "w = \<lparr>wlObj = x, wlType = rt\<rparr> \<longleftrightarrow> wlObj w = x \<and> wlType w = rt"
  by (cases w) auto

lemma answers_relevant: "answers r C \<Longrightarrow> relevant_ns C ns \<Longrightarrow> ns \<noteq> []"
  unfolding relevant_ns_def managed_def workloads_def answers_def by auto

lemma workloads_loop_set:
  assumes "answers r C" and "ns \<noteq> []"
  shows "\<exists>ws. workloads_loop r ns rts = Inr ws \<and> set ws = {w. wlType w \<in> set rts \<and> wlObj w \<in> set (kcObjects C (wlType w)) \<and> wl_ns w = ns}"
proof (induction rts)
  case (Cons rt rts)
  let ?l = "rdListMeta r rt (WithNamespace ns list_all_config)"
  have l: "listed r ?l (filter (\<lambda>x. poNamespace x = ns) (kcObjects C rt))"
    using assms unfolding answers_def by blast
  obtain ws where ws: "workloads_loop r ns rts = Inr ws"
      "set ws = {w. wlType w \<in> set rts \<and> wlObj w \<in> set (kcObjects C (wlType w)) \<and> wl_ns w = ns}"
    using Cons.IH by blast
  show ?case
  proof (cases ?l)
    case (Inl e)
    then have e: "IsResourceTypeNotFound r e" "filter (\<lambda>x. poNamespace x = ns) (kcObjects C rt) = []"
      using l by (simp_all add: listed_def)
    then show ?thesis using ws Inl by (auto simp: filter_empty_conv)
  next
    case (Inr ys)
    have img: "(\<lambda>x. \<lparr>wlObj = x, wlType = rt\<rparr>) ` set ys
        = {w. wlType w = rt \<and> wlObj w \<in> set (kcObjects C rt) \<and> wl_ns w = ns}"
      using l Inr by (force simp: listed_def)
    have "workloads_loop r ns (rt # rts) = Inr (map (\<lambda>x. \<lparr>wlObj = x, wlType = rt\<rparr>) ys @ ws)" using Inr ws(1) by simp
    moreover have "set (map (\<lambda>x. \<lparr>wlObj = x, wlType = rt\<rparr>) ys @ ws)
        = {w. wlType w \<in> set (rt # rts) \<and> wlObj w \<in> set (kcObjects C (wlType w)) \<and> wl_ns w = ns}"
      using img ws(2) by auto
    ultimately show ?thesis by blast
  qed
qed simp

lemma children_update: "children (AList.update k v g) u = (if u = k then v else children g u)"
  by (simp add: children_def)

lemma children_add_node:
  "set (children (add_node n owners g) u) = set (children g u) \<union> (if u \<in> set owners then {n} else {})"
  unfolding add_node_def by (induction owners arbitrary: g) (auto simp: children_update)

lemma children_add_nodes:
  "set (children (fold (\<lambda>x g. add_node (newGraphNode x k) (poOwners x) g) items g) u)
     = set (children g u) \<union> {newGraphNode x k |x. x \<in> set items \<and> u \<in> set (poOwners x)}"
  by (induction items arbitrary: g) (auto simp: children_add_node)

definition owned_nodes :: "kueue_cluster \<Rightarrow> string \<Rightarrow> ResourceType list \<Rightarrow> string \<Rightarrow> graphNode set" where
  "owned_nodes C ns rts u =
     (\<Union>rt\<in>set rts. (\<lambda>x. newGraphNode x (rtKind rt)) ` {x \<in> set (kcObjects C rt). poNamespace x = ns \<and> u \<in> set (poOwners x)})"

lemma build_loop_children:
  assumes "answers r C" and "ns \<noteq> []"
  shows "\<exists>g'. build_loop r ns rts g = Inr g' \<and> (\<forall>u. set (children g' u) = set (children g u)
    \<union> owned_nodes C ns rts u)"
proof (induction rts arbitrary: g)
  case (Cons rt rts)
  let ?l = "rdListMeta r rt (WithNamespace ns list_all_config)"
  have l: "listed r ?l (filter (\<lambda>x. poNamespace x = ns) (kcObjects C rt))"
    using assms unfolding answers_def by blast
  show ?case
  proof (cases ?l)
    case (Inl e)
    then have "IsResourceTypeNotFound r e" "filter (\<lambda>x. poNamespace x = ns) (kcObjects C rt) = []"
      using l by (simp_all add: listed_def)
    then show ?thesis using Cons [of g] Inl by (auto simp: filter_empty_conv owned_nodes_def)
  next
    case (Inr ys)
    then have ys: "set ys = {x \<in> set (kcObjects C rt). poNamespace x = ns}" using l by (auto simp: listed_def)
    let ?g = "fold (\<lambda>x g. add_node (newGraphNode x (rtKind rt)) (poOwners x) g) ys g"
    obtain g' where g': "build_loop r ns rts ?g = Inr g'" "\<forall>u. set (children g' u) = set (children ?g u)
        \<union> owned_nodes C ns rts u"
      using Cons.IH by blast
    have "build_loop r ns (rt # rts) g = Inr g'" using Inr g'(1) by simp
    moreover have "set (children g' u) = set (children g u)
        \<union> owned_nodes C ns (rt # rts) u" for u
      using g'(2) ys by (auto simp: children_add_nodes owned_nodes_def)
    ultimately show ?thesis by blast
  qed
qed (simp add: owned_nodes_def)

lemma disagreement_iff:
  "disagreement cr ds \<noteq> None \<longleftrightarrow> (\<exists>d\<in>set ds. queue_of (gnLabels d) \<noteq> wl_queue cr)"
  by (induction ds) (auto simp: Let_def split: option.splits)

lemma disagreement_key: "disagreement cr ds = Some v \<Longrightarrow> \<exists>m. v = wl_violation cr m"
  by (induction ds) (auto simp: Let_def split: option.splits if_splits)

definition wl_key :: "workload \<Rightarrow> string \<times> string \<times> string \<times> string" where
  "wl_key w = (rtKind (wlType w), APIVersion (wlType w), wl_ns w, poName (wlObj w))"

lemma workload_violation_key: "workload_violation ks g w = Some v \<Longrightarrow> resource_key v = wl_key w"
  by (auto simp: workload_violation_def checkNamespaceToWorkload_def checkWorkloadToNamespace_def checkOwnerTreeConsistency_def
      resource_key_def wl_key_def wl_violation_def split: option.splits if_splits dest!: disagreement_key)

lemma graph_descendants:
  assumes "\<forall>u. set (children g u) = owned_nodes C (wl_ns w) intermediateTypes u"
  shows "(\<exists>d\<in>set (walkSubtree g (poUID (wlObj w))). P (gnLabels d)) \<longleftrightarrow> (\<exists>x. descendant C w x \<and> P (poLabels x))"
proof -
  have own: "(\<exists>d\<in>set (children g u). Q (gnUID d) (gnLabels d)) \<longleftrightarrow> (\<exists>x. owned C (wl_ns w) u x \<and> Q (poUID x) (poLabels x))" for u Q
    using assms by (auto simp: owned_nodes_def owned_def newGraphNode_def)
  have "b \<in> node_succs g a \<longleftrightarrow> (\<exists>y. owned C (wl_ns w) a y \<and> b = poUID y)" for a b
    using own [of a "\<lambda>u l. b = u"] by (auto simp: node_succs_def)
  then have rel: "{(a, b). b \<in> node_succs g a} = {(a, b). \<exists>y. owned C (wl_ns w) a y \<and> b = poUID y}" by simp
  have "(\<exists>d\<in>set (walkSubtree g (poUID (wlObj w))). P (gnLabels d)) \<longleftrightarrow>
      (\<exists>v. (poUID (wlObj w), v) \<in> {(a, b). \<exists>y. owned C (wl_ns w) a y \<and> b = poUID y}\<^sup>* \<and> (\<exists>d\<in>set (children g v). P (gnLabels d)))"
    unfolding walkSubtree_reach rel by blast
  also have "\<dots> \<longleftrightarrow> (\<exists>x. descendant C w x \<and> P (poLabels x))"
    unfolding own [of _ "\<lambda>u l. P l"] descendant_def by blast
  finally show ?thesis .
qed

lemma workload_violation_iff:
  assumes "\<forall>u. set (children g u) = owned_nodes C (wl_ns w) intermediateTypes u" and "set ks = {ns. managed C ns}"
    and "relevant_ns C (wl_ns w)"
  shows "workload_violation ks g w \<noteq> None \<longleftrightarrow> violates C w"
proof -
  have "checkOwnerTreeConsistency w g \<noteq> None \<longleftrightarrow> (\<exists>x. descendant C w x \<and> queue_of (poLabels x) \<noteq> wl_queue w)"
    unfolding checkOwnerTreeConsistency_def disagreement_iff
    using graph_descendants [OF assms(1), of "\<lambda>l. queue_of l \<noteq> wl_queue w"] .
  then show ?thesis using assms(2,3)
    by (auto simp: workload_violation_def checkNamespaceToWorkload_def checkWorkloadToNamespace_def violates_def split: option.split)
qed

lemma set_map_filter: "set (List.map_filter f xs) = {y. \<exists>x\<in>set xs. f x = Some y}"
  by (induction xs) (auto simp: map_filter_simps split: option.splits)

lemma checkNamespace_keys:
  assumes "answers r C" and "set ks = {ns. managed C ns}" and "relevant_ns C ns"
  shows "\<exists>vs. checkNamespace r ns ks = Inr vs \<and> resource_key ` set vs = wl_key ` {w \<in> workloads C. wl_ns w = ns \<and> violates C w}"
proof -
  have ns: "ns \<noteq> []" using answers_relevant assms(1,3) .
  obtain ws where ws: "listWorkloadsInNamespace r ns = Inr ws"
      "set ws = {w \<in> workloads C. wl_ns w = ns}"
    using workloads_loop_set [OF assms(1) ns, of MonitoredWorkloadTypes]
    by (auto simp: listWorkloadsInNamespace_def workloads_def)
  obtain g where g: "buildGraph r ns = Inr g" "\<forall>u. set (children g u) = owned_nodes C ns intermediateTypes u"
    using build_loop_children [OF assms(1) ns, of intermediateTypes "[]"]
    by (auto simp: buildGraph_def children_def)
  let ?vs = "List.map_filter (workload_violation ks g) ws"
  have "checkNamespace r ns ks = Inr ?vs"
    using ws(1) g(1) by (cases ws) (simp_all add: checkNamespace_def map_filter_simps)
  moreover have "workload_violation ks g w \<noteq> None \<longleftrightarrow> violates C w" if "w \<in> set ws" for w
    using workload_violation_iff [of g C w ks] g(2) assms(2,3) ws(2) that by auto
  then have "resource_key ` set ?vs = wl_key ` {w \<in> set ws. violates C w}"
    by (force simp: set_map_filter dest: workload_violation_key)
  ultimately show ?thesis using ws(2) by auto
qed

lemma namespaces_loop_keys:
  assumes "answers r C" and "set ks = {ns. managed C ns}" and "\<forall>ns\<in>set nss. relevant_ns C ns"
  shows "\<exists>vs. namespaces_loop r ks nss = Inr vs \<and> resource_key ` set vs = wl_key ` {w \<in> workloads C. wl_ns w \<in> set nss \<and> violates C w}"
  using assms(3)
proof (induction nss)
  case (Cons ns nss)
  obtain vs where vs: "checkNamespace r ns ks = Inr vs" "resource_key ` set vs = wl_key ` {w \<in> workloads C. wl_ns w = ns \<and> violates C w}"
    using checkNamespace_keys [OF assms(1,2), of ns] Cons.prems by auto
  obtain rest where rest: "namespaces_loop r ks nss = Inr rest"
      "resource_key ` set rest = wl_key ` {w \<in> workloads C. wl_ns w \<in> set nss \<and> violates C w}"
    using Cons by auto
  have "namespaces_loop r ks (ns # nss) = Inr (vs @ rest)" using vs(1) rest(1) by simp
  moreover have "resource_key ` set (vs @ rest) = wl_key ` {w \<in> workloads C. wl_ns w \<in> set (ns # nss) \<and> violates C w}"
    unfolding set_append image_Un vs(2) rest(2) by auto
  ultimately show ?case by blast
qed simp

lemma unique_loop_keys:
  "resource_key ` set (unique_loop seen vs) = resource_key ` set vs - set seen \<and> distinct (map resource_key (unique_loop seen vs))"
  by (induction seen vs rule: unique_loop.induct) auto

lemma no_violation_iff:
  "(\<forall>w\<in>workloads C. \<not> violates C w) \<longleftrightarrow>
     (\<forall>w\<in>workloads C. (managed C (wl_ns w) \<longleftrightarrow> wl_queue w \<noteq> None)
        \<and> (wl_queue w \<noteq> None \<longrightarrow> (\<forall>x. descendant C w x \<longrightarrow> queue_of (poLabels x) = wl_queue w)))"
proof
  assume "\<forall>w\<in>workloads C. \<not> violates C w"
  then show "\<forall>w\<in>workloads C. (managed C (wl_ns w) \<longleftrightarrow> wl_queue w \<noteq> None)
        \<and> (wl_queue w \<noteq> None \<longrightarrow> (\<forall>x. descendant C w x \<longrightarrow> queue_of (poLabels x) = wl_queue w))"
    unfolding violates_def relevant_ns_def by metis
next
  assume ok: "\<forall>w\<in>workloads C. (managed C (wl_ns w) \<longleftrightarrow> wl_queue w \<noteq> None)
        \<and> (wl_queue w \<noteq> None \<longrightarrow> (\<forall>x. descendant C w x \<longrightarrow> queue_of (poLabels x) = wl_queue w))"
  show "\<forall>w\<in>workloads C. \<not> violates C w"
  proof
    fix w
    assume w: "w \<in> workloads C"
    show "\<not> violates C w"
    proof (cases "wl_queue w")
      case None
      then have "\<not> managed C (wl_ns w)" using ok w by auto
      then have "\<not> relevant_ns C (wl_ns w)" using ok unfolding relevant_ns_def by metis
      then show ?thesis using None ok w by (auto simp: violates_def)
    next
      case (Some q)
      then show ?thesis using ok w by (auto simp: violates_def)
    qed
  qed
qed

lemma NewCondition_status: "NewCondition t st [WithReason r, WithMessage m] = Inr c \<Longrightarrow> CondStatus c = st"
  "NewCondition t st [WithReason r, WithMessage m, WithImpact i, WithRemediation w] = Inr c \<Longrightarrow> CondStatus c = st"
  by (auto simp: NewCondition_def Let_def condition_options split: option.splits)

lemma single_condition:
  assumes "built_ok (NewCondition t st opts)" "dr_ok dr" "Conditions dr = []"
    and "\<And>c. NewCondition t st opts = Inr c \<Longrightarrow> CondStatus c = st"
  obtains c where "set_new_condition dr t st opts = chk_done (dr\<lparr>Conditions := [c]\<rparr>)" "CondStatus c = st" "dr_ok (dr\<lparr>Conditions := [c]\<rparr>)"
  using assms by (auto simp: built_ok_def set_new_condition_def SetCondition_def dr_ok_def)

definition object_key :: "ObjectMeta \<Rightarrow> string \<times> string \<times> string \<times> string" where
  "object_key m = (omKind m, omAPIVersion m, omNamespace m, omName m)"

lemma object_key_impacted [simp]: "object_key (impacted_violation v) = resource_key v"
  by (simp add: object_key_def impacted_violation_def resource_key_def)

lemma annotate_same: "Conditions (annotate k v dr) = Conditions dr" "ImpactedObjects (annotate k v dr) = ImpactedObjects dr"
  by (simp_all add: annotate_def)

text \<open>What the check returns, in terms of the violations it finds.\<close>

lemma DataIntegrity_run:
  assumes "answers (tgtClient t) C"
  obtains vs dr c where "DataIntegrityValidate sv t = chk_done dr" "Conditions dr = [c]" "dr_ok dr"
    "CondStatus c = (if vs = [] then ConditionTrue else ConditionFalse)"
    "ImpactedObjects dr = map impacted_violation (uniqueResources vs)"
    "resource_key ` set vs = wl_key ` {w \<in> workloads C. violates C w}"
proof -
  let ?dr = "annotate_target sv t (BaseNewResult DataIntegrityCheck)"
  have dr: "dr_ok ?dr" by (intro check_ok) (simp add: base_ok_def DataIntegrityCheck_def)
  have conds: "Conditions ?dr = []" "ImpactedObjects ?dr = []"
    by (simp_all add: annotate_target_def annotate_def BaseNewResult_def NewResult_def split: option.split)
  obtain ks where ks: "KueueEnabledNamespaces (tgtClient t) = Inr ks" "set ks = {ns. managed C ns}"
    using KueueEnabledNamespaces_managed [OF assms] by blast
  obtain ls where ls: "WorkloadLabeledNamespaces (tgtClient t) = Inr ls" "set ls = {wl_ns w |w. w \<in> workloads C \<and> wl_queue w \<noteq> None}"
    using WorkloadLabeledNamespaces_set [OF assms] by blast
  have rel: "set (insert_all ls ks) = {ns. relevant_ns C ns}" using ks ls by (auto simp: relevant_ns_def)
  have "\<forall>ns\<in>set (sort_slice (<) (insert_all ls ks)). relevant_ns C ns" using rel by auto
  from namespaces_loop_keys [OF assms ks(2) this] obtain vs
    where vs: "namespaces_loop (tgtClient t) ks (sort_slice (<) (insert_all ls ks)) = Inr vs"
      "resource_key ` set vs = wl_key ` {w \<in> workloads C. wl_ns w \<in> set (insert_all ls ks) \<and> violates C w}"
    by auto
  have "{w \<in> workloads C. wl_ns w \<in> set (insert_all ls ks) \<and> violates C w} = {w \<in> workloads C. violates C w}"
    unfolding rel by (auto simp: violates_def relevant_ns_def)
  with vs have keys: "resource_key ` set vs = wl_key ` {w \<in> workloads C. violates C w}" by simp
  let ?dr1 = "annotate AnnotationImpactedWorkloadCount (itoa (length (uniqueResources vs))) ?dr"
  have dr1: "dr_ok ?dr1" "Conditions ?dr1 = []" "ImpactedObjects ?dr1 = []"
    using dr conds by (simp_all add: dr_ok_annotate, simp add: annotate_def)
  consider (none) "insert_all ls ks = []" "vs = []" | (clean) "insert_all ls ks \<noteq> []" "vs = []" | (found) "insert_all ls ks \<noteq> []" "vs \<noteq> []"
    using vs(2) by (cases "insert_all ls ks = []") auto
  then show thesis
  proof cases
    case none
    have "built_ok (NewCondition conditionTypeKueueConsistency ConditionTrue [WithReason ReasonRequirementsMet,
          WithMessage ''No kueue-managed namespaces or kueue-labeled workloads found''])"
      by (rule built_ok_True(2)) simp_all
    then obtain c where c: "set_new_condition ?dr conditionTypeKueueConsistency ConditionTrue [WithReason ReasonRequirementsMet,
          WithMessage ''No kueue-managed namespaces or kueue-labeled workloads found''] = chk_done (?dr\<lparr>Conditions := [c]\<rparr>)"
        "CondStatus c = ConditionTrue" "dr_ok (?dr\<lparr>Conditions := [c]\<rparr>)"
      using dr conds(1) by (rule single_condition) (erule NewCondition_status(1), assumption)
    have "DataIntegrityValidate sv t = chk_done (annotate AnnotationImpactedWorkloadCount ''0'' (?dr\<lparr>Conditions := [c]\<rparr>))"
      using ks(1) ls(1) none c(1) by (simp add: DataIntegrityValidate_def Let_def bind_checked_def chk_done_def)
    from that [OF this _ _ _ _ keys] show thesis using c(2,3) none(2) conds(2) by (simp add: dr_ok_annotate annotate_same uniqueResources_def)
  next
    case clean
    have "built_ok (NewCondition conditionTypeKueueConsistency ConditionTrue [WithReason ReasonRequirementsMet,
          WithMessage ''All monitored workloads are consistent with kueue namespace configuration''])"
      by (rule built_ok_True(2)) simp_all
    then obtain c where c: "set_new_condition ?dr1 conditionTypeKueueConsistency ConditionTrue [WithReason ReasonRequirementsMet,
          WithMessage ''All monitored workloads are consistent with kueue namespace configuration''] = chk_done (?dr1\<lparr>Conditions := [c]\<rparr>)"
        "CondStatus c = ConditionTrue" "dr_ok (?dr1\<lparr>Conditions := [c]\<rparr>)"
      using dr1(1,2) by (rule single_condition) (erule NewCondition_status(1), assumption)
    have "DataIntegrityValidate sv t = chk_done (?dr1\<lparr>Conditions := [c]\<rparr>)"
      using ks(1) ls(1) clean vs(1) c(1) by (simp add: DataIntegrityValidate_def Let_def)
    from that [OF this _ _ _ _ keys] show thesis using c(2,3) clean(2) dr1(3) by (simp add: uniqueResources_def)
  next
    case found
    have "built_ok (NewCondition conditionTypeKueueConsistency ConditionFalse
          [WithReason ReasonConfigurationInvalid, WithMessage (''Found '' @ itoa (length vs)
             @ '' kueue consistency violation(s) across monitored workloads''), WithImpact ImpactAdvisory,
           WithRemediation remediationConsistency])"
      by (rule built_ok_impact(2)) simp_all
    then obtain c where c: "set_new_condition ?dr1 conditionTypeKueueConsistency ConditionFalse
          [WithReason ReasonConfigurationInvalid, WithMessage (''Found '' @ itoa (length vs)
             @ '' kueue consistency violation(s) across monitored workloads''), WithImpact ImpactAdvisory,
           WithRemediation remediationConsistency] = chk_done (?dr1\<lparr>Conditions := [c]\<rparr>)"
        "CondStatus c = ConditionFalse" "dr_ok (?dr1\<lparr>Conditions := [c]\<rparr>)"
      using dr1(1,2) by (rule single_condition) (erule NewCondition_status(2), assumption)
    have "DataIntegrityValidate sv t = chk_done (populateImpactedObjects (?dr1\<lparr>Conditions := [c]\<rparr>) (uniqueResources vs))"
      using ks(1) ls(1) found vs(1) c(1) by (simp add: DataIntegrityValidate_def Let_def bind_checked_def chk_done_def)
    from that [OF this _ _ _ _ keys] show thesis using c(2,3) found(2) by (simp add: populateImpactedObjects_def dr_ok_def)
  qed
qed

section \<open>Properties\<close>

text \<open>
  C22. The walk of the ownership graph ends on every graph, also with cyclic owner references, and collects
  exactly the resources that the root reaches over one or more owner references.
\<close>

theorem walkSubtree_descendants:
  "gnUID ` set (walkSubtree g root) = {u. (root, u) \<in> {(a, b). b \<in> gnUID ` set (children g a)}\<^sup>+}
    \<and> set (walkSubtree g root) = (\<Union>u\<in>insert root (gnUID ` set (walkSubtree g root)). set (children g u))"
proof -
  let ?S = "{(a, b). b \<in> node_succs g a}"
  have "gnUID ` set (walkSubtree g root) = {u. (root, u) \<in> ?S\<^sup>+}"
    unfolding walkSubtree_reach trancl_unfold_right by (auto simp: node_succs_def relcomp_unfold image_iff)
  moreover have "set (walkSubtree g root) = (\<Union>u\<in>insert root (gnUID ` set (walkSubtree g root)). set (children g u))"
    unfolding owner_graph.visit_eq_reachable by (auto simp: walkSubtree_reach)
  ultimately show ?thesis unfolding node_succs_def by simp
qed

text \<open>
  C21. On a cluster that the reader answers from, the consistency check always gives a result with one
  condition; the impacted objects are, each once, exactly the monitored workloads that violate one of the
  invariants. The condition is true exactly if every monitored workload has a queue name just if its
  namespace is managed, and all resources a workload with a queue name owns have the same queue name.
\<close>

theorem DataIntegrity_verdict:
  assumes "answers (tgtClient t) C"
  shows "\<exists>dr c. DataIntegrityValidate sv t = Inr (Inr dr) \<and> Conditions dr = [c] \<and> ResultValidate dr = None
    \<and> object_key ` set (ImpactedObjects dr) = wl_key ` {w \<in> workloads C. violates C w}
    \<and> distinct (map object_key (ImpactedObjects dr))
    \<and> (CondStatus c = ConditionTrue \<longleftrightarrow> (\<forall>w\<in>workloads C. (managed C (wl_ns w) \<longleftrightarrow> wl_queue w \<noteq> None)
         \<and> (wl_queue w \<noteq> None \<longrightarrow> (\<forall>x. descendant C w x \<longrightarrow> queue_of (poLabels x) = wl_queue w))))"
proof -
  let ?bad = "{w \<in> workloads C. violates C w}"
  obtain vs dr c where run: "DataIntegrityValidate sv t = chk_done dr" "Conditions dr = [c]" "dr_ok dr"
      "CondStatus c = (if vs = [] then ConditionTrue else ConditionFalse)"
      "ImpactedObjects dr = map impacted_violation (uniqueResources vs)" "resource_key ` set vs = wl_key ` ?bad"
    by (rule DataIntegrity_run [OF assms])
  have valid: "ResultValidate dr = None" using run(2,3) by (intro checked_ok_valid [of "chk_done dr"]) (simp_all add: chk_done_def)
  have keys: "object_key ` set (ImpactedObjects dr) = wl_key ` ?bad" "distinct (map object_key (ImpactedObjects dr))"
    using unique_loop_keys [of "[]" vs] run(5,6) by (simp_all add: uniqueResources_def image_image comp_def)
  have "resource_key ` set vs = {} \<longleftrightarrow> wl_key ` ?bad = {}" unfolding run(6) ..
  then have "vs = [] \<longleftrightarrow> ?bad = {}" unfolding image_is_empty set_empty .
  then have "CondStatus c = ConditionTrue \<longleftrightarrow> ?bad = {}" using run(4) by (cases "vs = []") simp_all
  also have "\<dots> \<longleftrightarrow> (\<forall>w\<in>workloads C. \<not> violates C w)" by blast
  finally have "CondStatus c = ConditionTrue \<longleftrightarrow> (\<forall>w\<in>workloads C. \<not> violates C w)" .
  note verdict = this [unfolded no_violation_iff]
  note res = run(1) [unfolded chk_done_def]
  show ?thesis by (rule exI [of _ dr], rule exI [of _ c], intro conjI) (rule res run(2) valid keys verdict)+
qed

definition sample_object :: "string \<Rightarrow> string \<Rightarrow> string \<Rightarrow> (string, string) gomap \<Rightarrow> string list \<Rightarrow> PartialObject" where
  "sample_object ns n uid ls owners = \<lparr>poNamespace = ns, poName = n, poUID = uid, poLabels = ls, poAnnotations = [], poOwners = owners, poFinalizers = [], poTypeMeta = ([], [])\<rparr>"

definition sample_cluster :: kueue_cluster where
  "sample_cluster = \<lparr>kcNamespaces = [sample_object [] ''team'' ''u0'' [(LabelKueueManaged, ''true'')] []],
     kcObjects = \<lambda>rt. if rt = rt_Notebook then [sample_object ''team'' ''nb'' ''u1'' [] []] else []\<rparr>"

definition cluster_reader :: "kueue_cluster \<Rightarrow> reader" where
  "cluster_reader C = (sample_reader no_queries (\<lambda>rt. []))
     \<lparr>rdListMeta := \<lambda>rt cfg.
        if lrNamespace cfg \<noteq> [] then Inr (filter (\<lambda>x. poNamespace x = lrNamespace cfg) (kcObjects C rt))
        else if lrLabelSelector cfg = LabelKueueQueueName then Inr (filter (\<lambda>x. ContainsLabel x LabelKueueQueueName) (kcObjects C rt))
        else Inr (filter (\<lambda>x. HasLabel x (take (length (lrLabelSelector cfg) - 5) (lrLabelSelector cfg)) ''true'') (kcNamespaces C))\<rparr>"

definition cluster_target :: "kueue_cluster \<Rightarrow> lint_target" where
  "cluster_target C = \<lparr>tgtClient = cluster_reader C, CurrentVersion = None, TargetVersion = None, tgtIO = False, tgtDebug = False\<rparr>"

lemma selector_not_queue: "k @ ''=true'' \<noteq> LabelKueueQueueName"
proof
  assume "k @ ''=true'' = LabelKueueQueueName"
  then have "set (k @ ''=true'') = set LabelKueueQueueName" by (rule arg_cong)
  moreover have "CHR ''='' \<in> set (k @ ''=true'')" unfolding set_append by (rule UnI2) simp
  moreover have "CHR ''='' \<notin> set LabelKueueQueueName" by simp
  ultimately show False by metis
qed

lemma cluster_reader_answers: "answers (cluster_reader sample_cluster) sample_cluster"
proof -
  let ?r = "cluster_reader sample_cluster"
  have "rdListMeta ?r rt (WithNamespace ns list_all_config) = Inr (filter (\<lambda>x. poNamespace x = ns) (kcObjects sample_cluster rt))"
    if "ns \<noteq> []" for rt ns
    using that by (simp add: cluster_reader_def WithNamespace_def)
  moreover have "rdListMeta ?r rt (WithLabelSelector LabelKueueQueueName list_all_config)
      = Inr (filter (\<lambda>x. ContainsLabel x LabelKueueQueueName) (kcObjects sample_cluster rt))" for rt
    by (simp add: cluster_reader_def WithLabelSelector_def list_all_config_def)
  moreover have "rdListMeta ?r rt_Namespace (WithLabelSelector (k @ ''=true'') list_all_config)
      = Inr (filter (\<lambda>x. HasLabel x k ''true'') (kcNamespaces sample_cluster))" for k
    using selector_not_queue [of k] by (simp add: cluster_reader_def WithLabelSelector_def list_all_config_def)
  moreover have "\<forall>x\<in>set (kcNamespaces sample_cluster). poName x \<noteq> []" "\<forall>x\<in>set (kcObjects sample_cluster rt). poNamespace x \<noteq> []" for rt
    by (simp_all add: sample_cluster_def sample_object_def)
  ultimately show ?thesis unfolding answers_def listed_def by simp
qed

theorem DataIntegrity_verdict_witness:
  "\<exists>dr c. DataIntegrityValidate sample_semver (cluster_target sample_cluster) = Inr (Inr dr) \<and> Conditions dr = [c]
    \<and> CondStatus c \<noteq> ConditionTrue"
proof -
  let ?w = "\<lparr>wlObj = sample_object ''team'' ''nb'' ''u1'' [] [], wlType = rt_Notebook\<rparr>"
  have "?w \<in> workloads sample_cluster" "managed sample_cluster (wl_ns ?w)" "wl_queue ?w = None"
    by (simp_all add: workloads_def sample_cluster_def MonitoredWorkloadTypes_def managed_def sample_object_def HasLabel_def queue_of_def)
  then have bad: "\<not> (\<forall>w\<in>workloads sample_cluster. (managed sample_cluster (wl_ns w) \<longleftrightarrow> wl_queue w \<noteq> None)
      \<and> (wl_queue w \<noteq> None \<longrightarrow> (\<forall>x. descendant sample_cluster w x \<longrightarrow> queue_of (poLabels x) = wl_queue w)))"
    by blast
  have "answers (tgtClient (cluster_target sample_cluster)) sample_cluster"
    using cluster_reader_answers by (simp add: cluster_target_def)
  from DataIntegrity_verdict [OF this, of sample_semver] bad show ?thesis by (elim exE conjE) (intro exI conjI, assumption+, simp)
qed

end
