(* ===== verification/Unstructured.thy ===== *)
theory Unstructured
  imports KubeClient
begin

text \<open>
  The accessors of \<open>k8s.io/apimachinery\<close>'s package \<open>unstructured\<close> on objects, as the migrations use them: reading and
  setting nested fields of maps, with the errors of \<open>SetNested\<dots>\<close> ignored as the callers do.
\<close>

section \<open>Accessors\<close>

fun is_JObj :: "json \<Rightarrow> bool" where
  "is_JObj (JObj fs) = True"
| "is_JObj _ = False"

fun nested :: "string list \<Rightarrow> json \<Rightarrow> json option" where
  "nested [] v = Some v"
| "nested (k # ks) v = Option.bind (json_field k v) (nested ks)"

definition nested_map :: "string list \<Rightarrow> json \<Rightarrow> json option" where
  "nested_map p v = (case nested p v of Some (JObj fs) \<Rightarrow> Some (JObj fs) | _ \<Rightarrow> None)"

definition nested_slice :: "string list \<Rightarrow> json \<Rightarrow> json list option" where
  "nested_slice p v = (case nested p v of Some (JArr xs) \<Rightarrow> Some xs | _ \<Rightarrow> None)"

definition nested_bool :: "string list \<Rightarrow> json \<Rightarrow> bool" where
  "nested_bool p v = (case nested p v of Some (JBool b) \<Rightarrow> b | _ \<Rightarrow> False)"

text \<open>\<open>Query[map[string]any]\<close>: \<open>None\<close> is the nil map.\<close>

fun as_map :: "json \<Rightarrow> err + (string, json) gomap option" where
  "as_map (JObj fs) = Inr (Some fs)"
| "as_map v = Inl (unmarshal_error ''map[string]interface {}'' v)"

text \<open>The assertions \<open>v.(string)\<close>, \<open>v.(bool)\<close> and \<open>v.([]any)\<close> with the zero value on failure.\<close>

fun string_or_empty :: "json option \<Rightarrow> string" where
  "string_or_empty (Some (JStr s)) = s"
| "string_or_empty _ = []"

fun bool_or_false :: "json option \<Rightarrow> bool" where
  "bool_or_false (Some (JBool b)) = b"
| "bool_or_false _ = False"

fun slice_or_nil :: "json option \<Rightarrow> json list" where
  "slice_or_nil (Some (JArr vs)) = vs"
| "slice_or_nil _ = []"

text \<open>\<open>Query[[]any]\<close>.\<close>

fun as_array :: "json \<Rightarrow> err + json list" where
  "as_array (JArr xs) = Inr xs"
| "as_array v = Inl (unmarshal_error ''[]interface {}'' v)"

fun set_field :: "string \<Rightarrow> json \<Rightarrow> json \<Rightarrow> json" where
  "set_field k x (JObj fs) = JObj (AList.update k x fs)"
| "set_field k x v = v"

fun remove_field :: "string \<Rightarrow> json \<Rightarrow> json" where
  "remove_field k (JObj fs) = JObj (AList.delete k fs)"
| "remove_field k v = v"

text \<open>\<open>GetAnnotations\<close> and \<open>GetLabels\<close>: a map with a value that is no string reads as none.\<close>

fun string_map :: "(string, json) gomap \<Rightarrow> (string, string) gomap option" where
  "string_map [] = Some []"
| "string_map ((k, JStr s) # fs) = map_option (\<lambda>m. (k, s) # m) (string_map fs)"
| "string_map _ = None"

definition nested_string_map :: "string list \<Rightarrow> json \<Rightarrow> (string, string) gomap" where
  "nested_string_map p v =
     (case nested p v of
        Some (JObj fs) \<Rightarrow> (case string_map fs of None \<Rightarrow> [] | Some m \<Rightarrow> m)
      | _ \<Rightarrow> [])"

definition u_annotations :: "json \<Rightarrow> (string, string) gomap" where
  "u_annotations v = nested_string_map [''metadata'', ''annotations''] v"

definition u_labels :: "json \<Rightarrow> (string, string) gomap" where
  "u_labels v = nested_string_map [''metadata'', ''labels''] v"

fun remove_nested :: "string list \<Rightarrow> json \<Rightarrow> json" where
  "remove_nested [] v = v"
| "remove_nested [k] v = remove_field k v"
| "remove_nested (k # ks) v =
     (case json_field k v of
        Some (JObj fs) \<Rightarrow> set_field k (remove_nested ks (JObj fs)) v
      | _ \<Rightarrow> v)"

text \<open>A missing map on the way is created; a value on the way that is no map stops the update.\<close>

fun set_nested :: "string list \<Rightarrow> json \<Rightarrow> json \<Rightarrow> json" where
  "set_nested [] x v = v"
| "set_nested [k] x v = set_field k x v"
| "set_nested (k # ks) x v =
     (case json_field k v of
        None \<Rightarrow> set_field k (set_nested ks x (JObj [])) v
      | Some (JObj fs) \<Rightarrow> set_field k (set_nested ks x (JObj fs)) v
      | Some w \<Rightarrow> v)"

text \<open>The setters of metadata: the empty string removes the field.\<close>

definition set_metadata :: "string \<Rightarrow> string \<Rightarrow> json \<Rightarrow> json" where
  "set_metadata k x v =
     (if x = [] then remove_nested [''metadata'', k] v else set_nested [''metadata'', k] (JStr x) v)"

section \<open>Lemmas\<close>



lemma json_field_set [simp]: "json_field k (set_field k' x (JObj fs)) = (if k = k' then Some x else map_of fs k)"
  by (simp add: update_conv')

lemma json_field_remove [simp]: "json_field k (remove_field k' (JObj fs)) = (if k = k' then None else map_of fs k)"
  by (simp add: delete_conv')

lemma is_JObj_set_field [simp]: "is_JObj (set_field k x v) = is_JObj v"
  by (cases v) auto

lemma is_JObj_set_nested [simp]: "is_JObj (set_nested p x v) = is_JObj v"
  by (cases "(p, x, v)" rule: set_nested.cases) (auto split: option.split json.split)

lemma nested_append: "nested (p @ q) v = Option.bind (nested p v) (nested q)"
  by (induction p arbitrary: v) (auto intro!: bind_option_cong)

lemma nested_map_Some: "nested_map p v = Some w \<longleftrightarrow> nested p v = Some w \<and> (\<exists>fs. w = JObj fs)"
  by (auto simp: nested_map_def split: option.splits json.splits)

lemma nested_slice_Some: "nested_slice p v = Some xs \<longleftrightarrow> nested p v = Some (JArr xs)"
  by (auto simp: nested_slice_def split: option.splits json.splits)

text \<open>A field that is there can be replaced.\<close>

lemma nested_set_same: "p \<noteq> [] \<Longrightarrow> nested p v \<noteq> None \<Longrightarrow> nested p (set_nested p x v) = Some x"
proof (induction p x v rule: set_nested.induct)
  case (2 k x v)
  then show ?case by (cases v) (auto simp: update_conv')
next
  case (3 k k' ks x v)
  from 3(4) obtain fs w where v: "v = JObj fs" "map_of fs k = Some w" "nested (k' # ks) w \<noteq> None"
    by (cases v; cases "json_field k v") auto
  from v(3) obtain gs where w: "w = JObj gs" by (cases w) auto
  have "nested (k' # ks) (set_nested (k' # ks) x (JObj gs)) = Some x" using 3(2) v w by auto
  then show ?case using v(1,2) w by (simp add: update_conv')
qed simp

lemma nested_set_other: "nested (k # p) (set_nested (k' # q) x v) = nested (k # p) v" if "k \<noteq> k'"
  using that by (cases q; cases v) (auto simp: update_conv' split: option.splits json.splits)

lemma nested_Cons_JObj: "nested (k # p) (JObj fs) = Option.bind (map_of fs k) (nested p)"
  by simp

end
