(* ===== verification/ComponentChecks.thy ===== *)
theory ComponentChecks
  imports KueueIntegrity Unstructured
begin

text \<open>
  The checks of \<open>pkg/lint/checks/components\<close> other than the capacity check of the dashboard: for each one the data of
  its constructor, when it applies (\<open>CanApply\<close>) and what it returns (\<open>Validate\<close>).
\<close>

section \<open>Common guards and queries\<close>

definition component_in_state :: "lint_target \<Rightarrow> string \<Rightarrow> string list \<Rightarrow> err + bool" where
  "component_in_state t key states =
     (case GetDataScienceCluster (tgtClient t) of
        Inl e \<Rightarrow> Inl (wrapf ''getting DataScienceCluster'' e)
      | Inr dsc \<Rightarrow> Inr (HasManagementState (rdGojq (tgtClient t)) dsc key states))"

definition upgrade_2x_3x :: "lint_target \<Rightarrow> bool" where
  "upgrade_2x_3x t = IsUpgradeFrom2xTo3x (CurrentVersion t) (TargetVersion t)"

definition upgrade_within_3x :: "semver_lib \<Rightarrow> lint_target \<Rightarrow> nat \<Rightarrow> bool" where
  "upgrade_within_3x sv t minor =
     (case (CurrentVersion t, TargetVersion t) of
        (Some c, Some v) \<Rightarrow> sv_LT sv c v \<and> \<not> SameMajorMinor (CurrentVersion t) (TargetVersion t)
          \<and> IsVersion3x (TargetVersion t) \<and> IsVersionAtLeast (TargetVersion t) 3 minor
      | _ \<Rightarrow> False)"

definition target_label :: "lint_target \<Rightarrow> string" where
  "target_label t = MajorMinorLabel (TargetVersion t)"

definition query_string :: "lint_target \<Rightarrow> json \<Rightarrow> string \<Rightarrow> err + string" where
  "query_string t v q = Query (rdGojq (tgtClient t)) as_string [] v q"

section \<open>Removed components\<close>

definition CodeFlareRemovalCheck :: BaseCheck where
  "CodeFlareRemovalCheck = \<lparr>bcGroup = ''component'', bcKind = ''ray'', bcType = ''removal'',
     bcID = ''components.ray.codeflare-removal'',
     bcName = ''Components :: Ray :: CodeFlare Removal (3.x)'',
     bcDescription = ''Validates that the CodeFlare security layer is disabled before upgrading from RHOAI 2.x to 3.x'',
     bcRemediation = ''Disable CodeFlare by setting managementState to 'Removed' in DataScienceCluster before upgrading''\<rparr>"

definition CodeFlareRemovalCanApply :: "lint_target \<Rightarrow> err + bool" where
  "CodeFlareRemovalCanApply t =
     (if \<not> upgrade_2x_3x t then Inr False else component_in_state t ''codeflare'' [ManagementStateManaged])"

definition CodeFlareRemovalValidate :: "semver_lib \<Rightarrow> lint_target \<Rightarrow> checked" where
  "CodeFlareRemovalValidate sv t =
     ComponentRun sv t (WithComponentName ''codeflare'' (Component CodeFlareRemovalCheck))
       (Removal (\<lambda>s v. (''CodeFlare is enabled (state: '' @ s @ '') but will be removed in RHOAI '' @ v))
          [WithImpact ImpactBlocking, WithRemediation (bcRemediation CodeFlareRemovalCheck)])"

definition ModelMeshRemovalCheck :: BaseCheck where
  "ModelMeshRemovalCheck = \<lparr>bcGroup = ''component'', bcKind = ''modelmeshserving'', bcType = ''removal'',
     bcID = ''components.modelmesh.removal'',
     bcName = ''Components :: ModelMesh Serving :: Removal (3.x)'',
     bcDescription = ''Validates that ModelMesh Serving is disabled before upgrading from RHOAI 2.x to 3.x (component will be removed)'',
     bcRemediation = ''Disable ModelMesh Serving by setting managementState to 'Removed' in DataScienceCluster before upgrading''\<rparr>"

definition ModelMeshRemovalCanApply :: "lint_target \<Rightarrow> err + bool" where
  "ModelMeshRemovalCanApply t =
     (if \<not> upgrade_2x_3x t then Inr False else component_in_state t ''modelmeshserving'' [ManagementStateManaged])"

definition ModelMeshRemovalValidate :: "semver_lib \<Rightarrow> lint_target \<Rightarrow> checked" where
  "ModelMeshRemovalValidate sv t =
     ComponentRun sv t (Component ModelMeshRemovalCheck)
       (Removal (\<lambda>s v. (''ModelMesh Serving is enabled (state: '' @ s @ '') but will be removed in RHOAI '' @ v))
          [WithImpact ImpactBlocking, WithRemediation (bcRemediation ModelMeshRemovalCheck)])"

definition LlamaStackRemovalCheck :: BaseCheck where
  "LlamaStackRemovalCheck = \<lparr>bcGroup = ''component'', bcKind = ''llamastackoperator'', bcType = ''removal'',
     bcID = ''components.llamastackoperator.removal'',
     bcName = ''Components :: LlamaStack Operator :: Removal (3.5+)'',
     bcDescription = ''Validates that LlamaStack Operator is disabled before upgrading to RHOAI 3.5+ (component is replaced by ogx)'',
     bcRemediation = ''Disable LlamaStack Operator by setting managementState to 'Removed' in DataScienceCluster before upgrading''\<rparr>"

definition LlamaStackRemovalCanApply :: "semver_lib \<Rightarrow> lint_target \<Rightarrow> err + bool" where
  "LlamaStackRemovalCanApply sv t =
     (if \<not> upgrade_within_3x sv t 5 then Inr False
      else component_in_state t ''llamastackoperator'' [ManagementStateManaged])"

definition LlamaStackRemovalValidate :: "semver_lib \<Rightarrow> lint_target \<Rightarrow> checked" where
  "LlamaStackRemovalValidate sv t =
     ComponentRun sv t (Component LlamaStackRemovalCheck)
       (Removal (\<lambda>s v. (''LlamaStack Operator is enabled (state: '' @ s @ '') but is replaced by ogx in RHOAI '' @ v))
          [WithImpact ImpactBlocking, WithRemediation (bcRemediation LlamaStackRemovalCheck)])"

definition TrainingOperatorRemovalCheck :: BaseCheck where
  "TrainingOperatorRemovalCheck = \<lparr>bcGroup = ''component'', bcKind = ''trainingoperator'', bcType = ''removal'',
     bcID = ''components.trainingoperator.removal'',
     bcName = ''Components :: TrainingOperator :: Removal (3.6)'',
     bcDescription = ''Validates that TrainingOperator (Kubeflow Training Operator v1) is disabled before upgrading to RHOAI 3.6 (component is removed, use Trainer v2)'',
     bcRemediation = ''Before upgrading, drain active PyTorchJobs then set trainingoperator managementState to 'Removed' in DataScienceCluster and delete the TrainingOperator CR.''\<rparr>"

definition TrainingOperatorRemovalCanApply :: "lint_target \<Rightarrow> err + bool" where
  "TrainingOperatorRemovalCanApply t =
     (if \<not> IsVersionAtLeast (TargetVersion t) 3 6 then Inr False
      else component_in_state t ''trainingoperator'' [ManagementStateManaged])"

definition TrainingOperatorRemovalValidate :: "semver_lib \<Rightarrow> lint_target \<Rightarrow> checked" where
  "TrainingOperatorRemovalValidate sv t =
     ComponentRun sv t (Component TrainingOperatorRemovalCheck)
       (Removal (\<lambda>s v. (''TrainingOperator (Kubeflow v1) is enabled (state: '' @ s @ '') but is removed in RHOAI '' @ v @ ''. Use Trainer v2 instead.''))
          [WithImpact ImpactBlocking, WithRemediation (bcRemediation TrainingOperatorRemovalCheck)])"

definition TrainingOperatorDeprecationCheck :: BaseCheck where
  "TrainingOperatorDeprecationCheck = \<lparr>bcGroup = ''component'', bcKind = ''trainingoperator'', bcType = ''deprecation'',
     bcID = ''components.trainingoperator.deprecation'',
     bcName = (''Components :: TrainingOperator :: Deprecation (3.3'' @ [CHR 0xE2, CHR 0x80, CHR 0x93] @ ''3.5)''),
     bcDescription = ''Validates that TrainingOperator (Kubeflow Training Operator v1) deprecation is acknowledged - removed in RHOAI 3.6, use Trainer v2'',
     bcRemediation = ''Plan migration from TrainingOperator (Kubeflow v1) to Trainer v2 before upgrading to 3.6''\<rparr>"

definition TrainingOperatorDeprecationCanApply :: "lint_target \<Rightarrow> err + bool" where
  "TrainingOperatorDeprecationCanApply t =
     (if \<not> IsVersionAtLeast (TargetVersion t) 3 3 then Inr False
      else if IsVersionAtLeast (TargetVersion t) 3 6 then Inr False
      else component_in_state t ''trainingoperator'' [ManagementStateManaged])"

definition newDeprecationCondition :: "ComponentRequest \<Rightarrow> (string + Condition) list" where
  "newDeprecationCondition req =
     [NewCondition ConditionTypeCompatible ConditionFalse
        [WithReason ReasonDeprecated,
         WithMessage (''TrainingOperator (Kubeflow Training Operator v1) is enabled (state: '' @ rqState req @ '') but is deprecated since RHOAI 3.3 and removed in 3.6. Migrate to Trainer v2.''),
         WithImpact ImpactAdvisory,
         WithRemediation ''Plan migration from TrainingOperator (Kubeflow v1) to Trainer v2 before upgrading to 3.6'']]"

definition TrainingOperatorDeprecationValidate :: "semver_lib \<Rightarrow> lint_target \<Rightarrow> checked" where
  "TrainingOperatorDeprecationValidate sv t = ComponentComplete sv t (Component TrainingOperatorDeprecationCheck) newDeprecationCondition"

section \<open>Renamed components\<close>

definition PipelinesRenamingCheck :: BaseCheck where
  "PipelinesRenamingCheck = \<lparr>bcGroup = ''component'', bcKind = ''datasciencepipelines'', bcType = ''renaming'',
     bcID = ''components.datasciencepipelines.renaming'',
     bcName = ''Components :: DataSciencePipelines :: Component Renaming (3.x)'',
     bcDescription = ''Informs about DataSciencePipelines component renaming to AIPipelines in DSC v2 (RHOAI 3.x)'',
     bcRemediation = ''No action required - the component will be automatically renamed. Update any automation referencing '.spec.components.datasciencepipelines' to use '.spec.components.aipipelines' after upgrade''\<rparr>"

definition PipelinesRenamingCanApply :: "lint_target \<Rightarrow> err + bool" where
  "PipelinesRenamingCanApply t =
     (if \<not> upgrade_2x_3x t then Inr False else component_in_state t ''datasciencepipelines'' [ManagementStateManaged])"

definition PipelinesRenamingValidate :: "semver_lib \<Rightarrow> lint_target \<Rightarrow> checked" where
  "PipelinesRenamingValidate sv t = ComponentComplete sv t (Component PipelinesRenamingCheck) (\<lambda>req.
     [NewCondition ConditionTypeCompatible ConditionFalse
        [WithReason ReasonComponentRenamed,
         WithMessage (''DataSciencePipelines component (state: '' @ rqState req @ '') will be renamed to AIPipelines in DSC v2 (RHOAI '' @ target_label (rqTarget req) @ ''). The field path changes from '.spec.components.datasciencepipelines' to '.spec.components.aipipelines'' @ [CHR 0x27]),
         WithImpact ImpactAdvisory,
         WithRemediation ''No action required - the component will be automatically renamed. Update any automation referencing '.spec.components.datasciencepipelines' to use '.spec.components.aipipelines' after upgrade'']])"

definition FeastRenamingCheck :: BaseCheck where
  "FeastRenamingCheck = \<lparr>bcGroup = ''component'', bcKind = ''feastoperator'', bcType = ''renaming'',
     bcID = ''components.feastoperator.renaming'',
     bcName = ''Components :: Feature Store :: Data Renaming (DSC v3)'',
     bcDescription = ''Informs about Feature Store / Feast Operator exposure under components.data in DSC v3 (RHOAI 3.6+)'',
     bcRemediation = ''No action required - DSC v2 compatibility is retained. From RHOAI 3.6 onward, use DSC v3 '.spec.components.data.featureStore' (and '.spec.components.data.dataRegistry' for Data Registry) instead of '.spec.components.feastoperator' in new or updated configuration''\<rparr>"

definition FeastRenamingCanApply :: "semver_lib \<Rightarrow> lint_target \<Rightarrow> err + bool" where
  "FeastRenamingCanApply sv t =
     (if \<not> upgrade_within_3x sv t 6 then Inr False else component_in_state t ''feastoperator'' [ManagementStateManaged])"

definition FeastRenamingValidate :: "semver_lib \<Rightarrow> lint_target \<Rightarrow> checked" where
  "FeastRenamingValidate sv t =
     ComponentComplete sv t (InState [ManagementStateManaged] (Component FeastRenamingCheck)) (\<lambda>req.
       [NewCondition ConditionTypeCompatible ConditionTrue
          [WithReason ReasonComponentRenamed,
           WithMessage (''Feature Store component (state: '' @ rqState req @ '') is exposed as components.data.featureStore in DSC v3, available from RHOAI 3.6''),
           WithRemediation (bcRemediation FeastRenamingCheck)]])"

definition ModelRegistryRenamingCheck :: BaseCheck where
  "ModelRegistryRenamingCheck = \<lparr>bcGroup = ''component'', bcKind = ''modelregistry'', bcType = ''renaming'',
     bcID = ''components.modelregistry.renaming'',
     bcName = ''Components :: Model Registry :: AI Hub Renaming (DSC v3)'',
     bcDescription = ''Informs about Model Registry component renaming to AI Hub in DSC v3 (RHOAI 3.6+)'',
     bcRemediation = ''No action required - DSC v2 compatibility is retained. From RHOAI 3.6 onward, use DSC v3 '.spec.components.aiHub' instead of '.spec.components.modelregistry' in new or updated configuration''\<rparr>"

definition ModelRegistryRenamingCanApply :: "semver_lib \<Rightarrow> lint_target \<Rightarrow> err + bool" where
  "ModelRegistryRenamingCanApply sv t =
     (if \<not> upgrade_within_3x sv t 6 then Inr False else component_in_state t ''modelregistry'' [ManagementStateManaged])"

definition ModelRegistryRenamingValidate :: "semver_lib \<Rightarrow> lint_target \<Rightarrow> checked" where
  "ModelRegistryRenamingValidate sv t =
     ComponentComplete sv t (InState [ManagementStateManaged] (Component ModelRegistryRenamingCheck)) (\<lambda>req.
       [NewCondition ConditionTypeCompatible ConditionTrue
          [WithReason ReasonComponentRenamed,
           WithMessage (''Model Registry component (state: '' @ rqState req @ '') is renamed to AI Hub in DSC v3, available from RHOAI 3.6''),
           WithRemediation (bcRemediation ModelRegistryRenamingCheck)]])"

section \<open>KServe\<close>

definition ServerlessRemovalCheck :: BaseCheck where
  "ServerlessRemovalCheck = \<lparr>bcGroup = ''component'', bcKind = ''kserve'', bcType = ''serverless-removal'',
     bcID = ''components.kserve.serverless-removal'',
     bcName = ''Components :: KServe :: Serverless Removal (3.x)'',
     bcDescription = ''Validates that KServe serverless mode is disabled before upgrading from RHOAI 2.x to 3.x (serverless support will be removed)'',
     bcRemediation = ''Disable KServe serverless mode by setting serving.managementState to 'Removed' in DataScienceCluster before upgrading''\<rparr>"

definition ServerlessRemovalCanApply :: "lint_target \<Rightarrow> err + bool" where
  "ServerlessRemovalCanApply t =
     (if \<not> upgrade_2x_3x t then Inr False else component_in_state t ''kserve'' [ManagementStateManaged])"

definition ServerlessRemovalValidate :: "semver_lib \<Rightarrow> lint_target \<Rightarrow> checked" where
  "ServerlessRemovalValidate sv t = ComponentRun sv t (Component ServerlessRemovalCheck) (\<lambda>req.
     (let dr = rqResult req; tv = target_label (rqTarget req) in
      case query_string (rqTarget req) (rqDSC req) ''.spec.components.kserve.serving.managementState'' of
        Inl e \<Rightarrow>
          if is_ErrNotFound e then
            set_new_condition dr ConditionTypeCompatible ConditionTrue
              [WithReason ReasonVersionCompatible,
               WithMessage (''KServe serverless mode is not configured - ready for RHOAI '' @ tv @ '' upgrade'')]
          else chk_error (wrapf ''querying kserve serving managementState'' e)
      | Inr state \<Rightarrow>
          if state = ManagementStateManaged \<or> state = ManagementStateUnmanaged then
            set_new_condition dr ConditionTypeCompatible ConditionFalse
              [WithReason ReasonVersionIncompatible,
               WithMessage (''KServe serverless mode is enabled (state: '' @ state @ '') but will be removed in RHOAI '' @ tv),
               WithImpact ImpactBlocking, WithRemediation (bcRemediation ServerlessRemovalCheck)]
          else
            set_new_condition dr ConditionTypeCompatible ConditionTrue
              [WithReason ReasonVersionCompatible,
               WithMessage (''KServe serverless mode is disabled (state: '' @ state @ '') - ready for RHOAI '' @ tv @ '' upgrade'')]))"

definition ServiceMeshRemovalCheck :: BaseCheck where
  "ServiceMeshRemovalCheck = \<lparr>bcGroup = ''component'', bcKind = ''kserve'', bcType = ''servicemesh-removal'',
     bcID = ''components.kserve.servicemesh-removal'',
     bcName = ''Components :: KServe :: ServiceMesh Removal (3.x)'',
     bcDescription = ''Validates that ServiceMesh is disabled before upgrading from RHOAI 2.x to 3.x (no longer required, OpenShift 4.19+ handles service mesh internally)'',
     bcRemediation = ''Disable ServiceMesh by setting managementState to 'Removed' in DSCInitialization before upgrading''\<rparr>"

definition ServiceMeshRemovalCanApply :: "lint_target \<Rightarrow> err + bool" where
  "ServiceMeshRemovalCanApply t = Inr (upgrade_2x_3x t)"

definition ServiceMeshRemovalValidate :: "semver_lib \<Rightarrow> lint_target \<Rightarrow> checked" where
  "ServiceMeshRemovalValidate sv t = DSCIRun sv t ServiceMeshRemovalCheck (\<lambda>dr dsci.
     case query_string t dsci ''.spec.serviceMesh.managementState'' of
        Inl e \<Rightarrow>
          if is_ErrNotFound e then
            set_new_condition dr ConditionTypeConfigured ConditionFalse
              [WithReason ReasonResourceNotFound, WithMessage ''ServiceMesh is not configured in DSCInitialization'']
          else chk_error (wrapf ''querying servicemesh managementState'' e)
      | Inr state \<Rightarrow>
          if state = ManagementStateManaged \<or> state = ManagementStateUnmanaged then
            set_new_condition dr ConditionTypeCompatible ConditionFalse
              [WithReason ReasonVersionIncompatible,
               WithMessage (''ServiceMesh is enabled (state: '' @ state @ '') but is no longer required by RHOAI '' @ target_label t @ ''. OpenShift 4.19+ handles service mesh internally''),
               WithImpact ImpactBlocking, WithRemediation (bcRemediation ServiceMeshRemovalCheck)]
          else
            set_new_condition dr ConditionTypeCompatible ConditionTrue
              [WithReason ReasonVersionCompatible,
               WithMessage (''ServiceMesh is disabled (state: '' @ state @ '') - ready for RHOAI '' @ target_label t @ '' upgrade'')])"

definition ServiceMeshOperatorCheck :: BaseCheck where
  "ServiceMeshOperatorCheck = \<lparr>bcGroup = ''component'', bcKind = ''kserve'', bcType = ''servicemesh-operator-upgrade'',
     bcID = ''components.kserve.servicemesh-operator-upgrade'',
     bcName = ''Components :: KServe :: ServiceMesh Operator Upgrade (3.x)'',
     bcDescription = ''Validates that Service Mesh Operator v2 is not installed when upgrading to RHOAI 3.x (no longer required, OpenShift 4.19+ handles service mesh internally)'',
     bcRemediation = []\<rparr>"

definition ServiceMeshOperatorCanApply :: "lint_target \<Rightarrow> err + bool" where
  "ServiceMeshOperatorCanApply t = Inr (upgrade_2x_3x t)"

definition servicemesh_condition :: "string \<Rightarrow> bool \<Rightarrow> string \<Rightarrow> string + Condition" where
  "servicemesh_condition tv found operatorVersion =
     (if \<not> found then
        NewCondition ConditionTypeCompatible ConditionTrue
          [WithReason ReasonVersionCompatible,
           WithMessage (''Service Mesh Operator v2 is not installed - ready for RHOAI '' @ tv @ '' upgrade'')]
      else
        NewCondition ConditionTypeCompatible ConditionFalse
          [WithReason ReasonVersionIncompatible,
           WithMessage (''Service Mesh Operator v2 ('' @ operatorVersion @ '') is installed but no longer required by RHOAI '' @ tv @ '' and should be removed. OpenShift 4.19+ handles service mesh internally'')])"

definition ServiceMeshOperatorValidate :: "semver_lib \<Rightarrow> lint_target \<Rightarrow> checked" where
  "ServiceMeshOperatorValidate sv t =
     OperatorRun sv t ((Operator ServiceMeshOperatorCheck)
       \<lparr>obNames := [''servicemeshoperator''], obChannels := [''stable'', ''v2.x''], obCondition := servicemesh_condition (target_label t)\<rparr>)"

definition hasLLMInferenceServices :: "lint_target \<Rightarrow> err + bool" where
  "hasLLMInferenceServices t =
     (case rdListMeta (tgtClient t) rt_LLMInferenceService (WithLimit 1 list_all_config) of
        Inl e \<Rightarrow> if IsResourceTypeNotFound (tgtClient t) e then Inr False
                 else Inl (wrapf ''listing LLMInferenceService resources'' e)
      | Inr items \<Rightarrow> Inr (items \<noteq> []))"

definition blocking_condition :: "DiagnosticResult \<Rightarrow> string \<Rightarrow> string \<Rightarrow> string \<Rightarrow> checked" where
  "blocking_condition dr ctype reason msg =
     set_new_condition dr ctype ConditionFalse [WithReason reason, WithMessage msg, WithImpact ImpactBlocking]"

definition validateReadyCondition :: "lint_target \<Rightarrow> DiagnosticResult \<Rightarrow> json \<Rightarrow> string \<Rightarrow> checked" where
  "validateReadyCondition t dr obj name =
     (case query_string t obj ''.status.conditions[] | select(.type == \"Ready\") | .status'' of
        Inl e \<Rightarrow>
          if is_ErrNotFound e then
            blocking_condition dr ConditionTypeReady ReasonInsufficientData (name @ '' resource found but Ready condition is missing'')
          else chk_error (wrapf (''querying '' @ name @ '' Ready condition'') e)
      | Inr status \<Rightarrow>
          if status = [] then
            blocking_condition dr ConditionTypeReady ReasonInsufficientData (name @ '' resource found but Ready condition status is empty'')
          else if status \<noteq> ''True'' then
            blocking_condition dr ConditionTypeReady ReasonResourceUnavailable
              (name @ '' is not ready (status: '' @ status @ ''). '' @ name @ '' must be ready for llm-d'')
          else
            set_new_condition dr ConditionTypeReady ConditionTrue
              [WithReason ReasonResourceAvailable, WithMessage (name @ '' is installed and ready'')])"

definition KuadrantReadinessCheck :: BaseCheck where
  "KuadrantReadinessCheck = \<lparr>bcGroup = ''component'', bcKind = ''kserve'', bcType = ''kuadrant-readiness'',
     bcID = ''components.kserve.kuadrant-readiness'',
     bcName = ''Components :: KServe :: Kuadrant Readiness'',
     bcDescription = ''Validates that the Kuadrant resource is present and ready (required for llm-d)'',
     bcRemediation = []\<rparr>"

definition KuadrantReadinessCanApply :: "lint_target \<Rightarrow> err + bool" where
  "KuadrantReadinessCanApply t = (if \<not> upgrade_2x_3x t then Inr False else hasLLMInferenceServices t)"

definition KuadrantReadinessValidate :: "semver_lib \<Rightarrow> lint_target \<Rightarrow> checked" where
  "KuadrantReadinessValidate sv t =
     (let dr = BaseNewResult KuadrantReadinessCheck in
      case rdGet (tgtClient t) rt_Kuadrant ''kuadrant-system'' ''kuadrant'' of
        Inl e \<Rightarrow>
          if rdApi (tgtClient t) IsNotFound e then
            blocking_condition dr ConditionTypeReady ReasonResourceNotFound ''Kuadrant resource not found. Kuadrant must be installed for llm-d''
          else chk_error (wrapf ''getting Kuadrant resource'' e)
      | Inr None \<Rightarrow>
          blocking_condition dr ConditionTypeReady ReasonInsufficientData ''Unable to read Kuadrant resource (insufficient permissions)''
      | Inr (Some obj) \<Rightarrow> validateReadyCondition t dr obj ''Kuadrant'')"

definition AuthorinoTLSReadinessCheck :: BaseCheck where
  "AuthorinoTLSReadinessCheck = \<lparr>bcGroup = ''component'', bcKind = ''kserve'', bcType = ''authorino-tls-readiness'',
     bcID = ''components.kserve.authorino-tls-readiness'',
     bcName = ''Components :: KServe :: Authorino TLS Readiness'',
     bcDescription = ''Validates that Authorino is configured with TLS and ready (required for llm-d)'',
     bcRemediation = []\<rparr>"

definition AuthorinoTLSReadinessCanApply :: "lint_target \<Rightarrow> err + bool" where
  "AuthorinoTLSReadinessCanApply t = (if \<not> upgrade_2x_3x t then Inr False else hasLLMInferenceServices t)"

definition validateAuthorinoTLS :: "lint_target \<Rightarrow> DiagnosticResult \<Rightarrow> json \<Rightarrow> checked" where
  "validateAuthorinoTLS t dr obj =
     (case Query (rdGojq (tgtClient t)) as_bool False obj ''.spec.listener.tls.enabled'' of
        Inl e \<Rightarrow>
          if is_ErrNotFound e then
            blocking_condition dr ConditionTypeConfigured ReasonConfigurationInvalid
              ''Authorino listener TLS configuration is missing. TLS must be configured for llm-d''
          else chk_error (wrapf ''querying Authorino TLS enabled'' e)
      | Inr tlsEnabled \<Rightarrow>
          if \<not> tlsEnabled then
            blocking_condition dr ConditionTypeConfigured ReasonConfigurationInvalid
              ''Authorino listener TLS is not enabled. TLS must be enabled for llm-d''
          else case query_string t obj ''.spec.listener.tls.certSecretRef.name'' of
              Inl e \<Rightarrow>
                if is_ErrNotFound e then
                  blocking_condition dr ConditionTypeConfigured ReasonConfigurationInvalid
                    ''Authorino TLS certSecretRef is not configured. A TLS certificate secret is required for llm-d''
                else chk_error (wrapf ''querying Authorino TLS certSecretRef'' e)
            | Inr certSecret \<Rightarrow>
                if certSecret = [] then
                  blocking_condition dr ConditionTypeConfigured ReasonConfigurationInvalid
                    ''Authorino TLS certSecretRef.name is empty. A TLS certificate secret is required for llm-d''
                else
                  set_new_condition dr ConditionTypeConfigured ConditionTrue
                    [WithReason ReasonConfigurationValid,
                     WithMessage (''Authorino TLS is enabled with certificate secret '' @ go_quote (certSecret))])"

definition AuthorinoTLSReadinessValidate :: "semver_lib \<Rightarrow> lint_target \<Rightarrow> checked" where
  "AuthorinoTLSReadinessValidate sv t =
     (let dr = BaseNewResult AuthorinoTLSReadinessCheck in
      case rdGet (tgtClient t) rt_Authorino ''kuadrant-system'' ''authorino'' of
        Inl e \<Rightarrow>
          if rdApi (tgtClient t) IsNotFound e then
            blocking_condition dr ConditionTypeReady ReasonResourceNotFound
              ''Authorino resource not found. Authorino with TLS must be installed for llm-d''
          else chk_error (wrapf ''getting Authorino resource'' e)
      | Inr None \<Rightarrow>
          blocking_condition dr ConditionTypeReady ReasonInsufficientData ''Unable to read Authorino resource (insufficient permissions)''
      | Inr (Some obj) \<Rightarrow>
          bind_checked (validateAuthorinoTLS t dr obj) (\<lambda>dr'. validateReadyCondition t dr' obj ''Authorino''))"

definition variantAutoscalingType :: ResourceType where
  "variantAutoscalingType = mk_resource ''llmd.ai'' ''v1alpha1'' ''VariantAutoscaling'' ''variantautoscalings''"

abbreviation wvaControllerDeployment :: string where "wvaControllerDeployment \<equiv> ''workload-variant-autoscaler-controller-manager''"
abbreviation wvaConfigMapName :: string where "wvaConfigMapName \<equiv> ''inferenceservice-config''"
abbreviation wvaConfigMapKey :: string where "wvaConfigMapKey \<equiv> ''autoscaling-wva-controller-config''"
abbreviation variantAutoscalingCRD :: string where "variantAutoscalingCRD \<equiv> ''variantautoscalings.llmd.ai''"

definition WVARemovalCheck :: BaseCheck where
  "WVARemovalCheck = \<lparr>bcGroup = ''component'', bcKind = ''kserve'', bcType = ''wva-removal'',
     bcID = ''components.kserve.wva-removal'',
     bcName = ''Components :: KServe :: WVA Removal (3.6)'',
     bcDescription = ''Validates that Workload Variant Autoscaler is turned off and its controller and custom resources are gone before upgrading to RHOAI 3.6'',
     bcRemediation = ''Set spec.components.kserve.wva.managementState to Removed, delete leftover VariantAutoscaling resources, and delete the workload-variant-autoscaler-controller-manager deployment before upgrading. A leftover variantautoscalings.llmd.ai CRD is removed by kserve-module after upgrade.''\<rparr>"

definition WVARemovalCanApply :: "lint_target \<Rightarrow> err + bool" where
  "WVARemovalCanApply t =
     (if TargetVersion t = None \<or> \<not> IsVersionAtLeast (TargetVersion t) 3 6 then Inr False
      else if CurrentVersion t \<noteq> None \<and> IsVersionAtLeast (CurrentVersion t) 3 6 then Inr False
      else Inr True)"

definition namedResourceExists :: "reader \<Rightarrow> ResourceType \<Rightarrow> string \<Rightarrow> string \<Rightarrow> err + bool" where
  "namedResourceExists r rt name ns =
     (case rdGet r rt ns name of
        Inl e \<Rightarrow> if rdApi r IsNotFound e then Inr False else Inl (wrapf (''getting '' @ rtResource rt @ '' '' @ name) e)
      | Inr obj \<Rightarrow> Inr (obj \<noteq> None))"

definition wvaManagementStateBlocker :: "ComponentRequest \<Rightarrow> err + string list" where
  "wvaManagementStateBlocker req =
     (case query_string (rqTarget req) (rqDSC req) ''.spec.components.kserve.wva.managementState'' of
        Inl e \<Rightarrow> if is_ErrNotFound e then Inr [] else Inl (wrapf ''querying kserve wva managementState'' e)
      | Inr state \<Rightarrow> Inr (if state = ManagementStateManaged
          then [''spec.components.kserve.wva.managementState is Managed''] else []))"

definition wvaDeploymentBlocker :: "ComponentRequest \<Rightarrow> err + string list" where
  "wvaDeploymentBlocker req =
     (case namedResourceExists (tgtClient (rqTarget req)) rt_Deployment wvaControllerDeployment (rqNamespace req) of
        Inl e \<Rightarrow> Inl (wrapf ''checking WVA deployment'' e)
      | Inr found \<Rightarrow> Inr (if found then [''deployment '' @ rqNamespace req @ ''/'' @ wvaControllerDeployment @ '' exists''] else []))"

definition wvaCustomResourceFindings :: "ComponentRequest \<Rightarrow> err + string list \<times> string list" where
  "wvaCustomResourceFindings req =
     (let r = tgtClient (rqTarget req) in
      case namedResourceExists r rt_CustomResourceDefinition variantAutoscalingCRD [] of
        Inl e \<Rightarrow> Inl (wrapf ''checking VariantAutoscaling CRD'' e)
      | Inr crdExists \<Rightarrow>
          if \<not> crdExists then Inr ([], [])
          else case (case rdList r variantAutoscalingType list_all_config of
                Inl e \<Rightarrow> if IsResourceTypeNotFound r e then Inr [] else Inl (wrapf ''listing VariantAutoscaling resources'' e)
              | Inr items \<Rightarrow> Inr items) of
              Inl e \<Rightarrow> Inl e
            | Inr items \<Rightarrow>
                if items = [] then Inr ([], [''CRD '' @ variantAutoscalingCRD @ '' still exists''])
                else Inr ([''VariantAutoscaling resources exist: ''
                   @ str_join '', '' (map (\<lambda>v. u_namespace v @ ''/'' @ u_name v) items)], []))"

definition wvaConfigMapAdvisory :: "ComponentRequest \<Rightarrow> err + string list" where
  "wvaConfigMapAdvisory req =
     (let r = tgtClient (rqTarget req) in
      case rdGet r rt_ConfigMap (rqNamespace req) wvaConfigMapName of
        Inl e \<Rightarrow> if rdApi r IsNotFound e then Inr [] else Inl (wrapf ''checking inferenceservice-config'' e)
      | Inr None \<Rightarrow> Inr []
      | Inr (Some cm) \<Rightarrow>
          (case query_string (rqTarget req) cm ''.data[\"autoscaling-wva-controller-config\"]'' of
             Inl e \<Rightarrow> if is_ErrNotFound e then Inr [] else Inl (wrapf (''querying '' @ wvaConfigMapKey) e)
           | Inr v \<Rightarrow> Inr [''ConfigMap '' @ rqNamespace req @ ''/'' @ wvaConfigMapName @ '' still contains '' @ wvaConfigMapKey]))"

definition wvaUpgradeFindings :: "ComponentRequest \<Rightarrow> err + string list \<times> string list" where
  "wvaUpgradeFindings req =
     bind_res (wvaManagementStateBlocker req) (\<lambda>b1.
     bind_res (wvaDeploymentBlocker req) (\<lambda>b2.
     bind_res (wvaCustomResourceFindings req) (\<lambda>(b3, a3).
     bind_res (wvaConfigMapAdvisory req) (\<lambda>a4. Inr (b1 @ b2 @ b3, a3 @ a4)))))"

definition WVARemovalValidate :: "semver_lib \<Rightarrow> lint_target \<Rightarrow> checked" where
  "WVARemovalValidate sv t = ComponentRun sv t (WithApplicationsNamespace (Component WVARemovalCheck)) (\<lambda>req.
     case wvaUpgradeFindings req of
       Inl e \<Rightarrow> chk_error e
     | Inr (blockers, advisories) \<Rightarrow>
         (let tv = target_label (rqTarget req) in
          if blockers \<noteq> [] then
            set_new_condition (rqResult req) ConditionTypeCompatible ConditionFalse
              [WithReason ReasonVersionIncompatible,
               WithMessage (''WVA is still present and blocks the RHOAI '' @ tv @ '' upgrade: '' @ str_join ''; '' blockers),
               WithImpact ImpactBlocking, WithRemediation (bcRemediation WVARemovalCheck)]
          else if advisories \<noteq> [] then
            set_new_condition (rqResult req) ConditionTypeCompatible ConditionFalse
              [WithReason ReasonVersionIncompatible,
               WithMessage (''WVA leftovers will be removed during the RHOAI '' @ tv @ '' upgrade: '' @ str_join ''; '' advisories),
               WithImpact ImpactAdvisory, WithRemediation (bcRemediation WVARemovalCheck)]
          else
            set_new_condition (rqResult req) ConditionTypeCompatible ConditionTrue
              [WithReason ReasonVersionCompatible,
               WithMessage ''WVA is not enabled and no WVA controller or custom resources were found'']))"

section \<open>Kueue\<close>

text \<open>
  The name \<open>defaultLocalQueueName\<close> is read with \<open>NestedString\<close>; the empty string it gives for an absent
  or wrongly typed field is not the name that is looked for.
\<close>

definition detectDefaultLocalQueue :: "reader \<Rightarrow> json \<Rightarrow> err + string list \<times> (string \<times> string) list" where
  "detectDefaultLocalQueue r dsc =
     (let t1 = (if nested_string [''spec'', ''components'', ''kueue'', ''defaultLocalQueueName''] dsc = ''default''
                then [''DSC spec.components.kueue.defaultLocalQueueName is set to '' @ go_quote ''default''] else []) in
      case (case rdListMeta r rt_LocalQueue list_all_config of
              Inl e \<Rightarrow> if IsResourceTypeNotFound r e then Inr [] else Inl (wrapf ''listing LocalQueues'' e)
            | Inr items \<Rightarrow> Inr (ToNamespacedNames (filter (\<lambda>x. poName x = ''default'') items))) of
        Inl e \<Rightarrow> Inl e
      | Inr impacted \<Rightarrow>
          Inr (t1 @ (if impacted \<noteq> [] then [''a LocalQueue named '' @ go_quote ''default'' @ '' exists in the cluster''] else []), impacted))"

definition isKueueInUse :: "reader \<Rightarrow> err + bool" where
  "isKueueInUse r =
     (case KueueEnabledNamespaces r of
        Inl e \<Rightarrow> Inl (wrapf ''finding kueue-enabled namespaces'' e)
      | Inr ks \<Rightarrow>
          if ks \<noteq> [] then Inr True
          else case WorkloadLabeledNamespaces r of
              Inl e \<Rightarrow> Inl (wrapf ''finding workload-labeled namespaces'' e)
            | Inr ws \<Rightarrow> Inr (ws \<noteq> []))"

definition ManagementStateCheck :: BaseCheck where
  "ManagementStateCheck = \<lparr>bcGroup = ''component'', bcKind = ''kueue'', bcType = ''management-state'',
     bcID = ''components.kueue.management-state'',
     bcName = ''Components :: Kueue :: Management State (3.x)'',
     bcDescription = ''Validates that Kueue managementState is Removed before upgrading to RHOAI 3.x'',
     bcRemediation = []\<rparr>"

definition ManagementStateCanApply :: "lint_target \<Rightarrow> err + bool" where
  "ManagementStateCanApply t =
     (if \<not> upgrade_2x_3x t then Inr False
      else component_in_state t ''kueue'' [ManagementStateManaged, ManagementStateUnmanaged])"

definition addDefaultLocalQueueWarning :: "ComponentRequest \<Rightarrow> DiagnosticResult \<Rightarrow> checked" where
  "addDefaultLocalQueueWarning req dr =
     (case detectDefaultLocalQueue (tgtClient (rqTarget req)) (rqDSC req) of
        Inl e \<Rightarrow> chk_error (wrapf ''detecting default LocalQueue'' e)
      | Inr (triggers, impacted) \<Rightarrow>
          if triggers = [] then chk_done dr
          else
            bind_checked (set_new_condition dr ConditionTypeConfigured ConditionFalse
              [WithReason ReasonDefaultLocalQueueConflict,
               WithMessage (''Potential \"default\" LocalQueue naming conflict detected ('' @ str_join ''; '' triggers @ ''). When Kueue is Unmanaged, workloads in kueue-managed namespaces that are not explicitly assigned to a queue are implicitly placed on the LocalQueue named \"default\", which may route them to an unintended queue.''),
               WithImpact ImpactAdvisory,
               WithRemediation ''Rename spec.components.kueue.defaultLocalQueueName to a value other than \"default\", drain workloads from the existing \"default\" LocalQueue, and delete it''])
              (\<lambda>dr'. chk_done (if impacted \<noteq> [] then AddImpactedObjects dr' rt_LocalQueue impacted else dr')))"

definition kueue_validateManaged :: "ComponentRequest \<Rightarrow> string \<Rightarrow> checked" where
  "kueue_validateManaged req label =
     (case isKueueInUse (tgtClient (rqTarget req)) of
        Inl e \<Rightarrow> chk_error (wrapf ''checking kueue usage'' e)
      | Inr kueueInUse \<Rightarrow>
          if \<not> kueueInUse then
            set_new_condition (rqResult req) ConditionTypeCompatible ConditionFalse
              [WithReason ReasonVersionIncompatible,
               WithMessage (''The '' @ label @ '' upgrade supports the Kueue managementState of Removed or Unmanaged. The Kueue managementState is currently Managed but no workloads on the cluster are using Kueue. Set the Kueue managementState to Removed or Unmanaged and then re-run this check to proceed with migration.''),
               WithImpact ImpactBlocking]
          else
            bind_checked (set_new_condition (rqResult req) ConditionTypeCompatible ConditionFalse
              [WithReason ReasonVersionIncompatible,
               WithMessage (''The '' @ label @ '' upgrade does not support the Kueue managementState of Managed. Migrate Kueue to Unmanaged with the Red Hat build of Kueue Operator before upgrading.''),
               WithImpact ImpactProhibited,
               WithRemediation ''Migrate to the Red Hat build of Kueue operator following https://docs.redhat.com/en/documentation/red_hat_openshift_ai_self-managed/2.25/html/managing_openshift_ai/managing-workloads-with-kueue#migrating-to-the-rhbok-operator_kueue before upgrading''])
              (addDefaultLocalQueueWarning req))"

definition kueue_validateUnmanaged :: "ComponentRequest \<Rightarrow> string \<Rightarrow> checked" where
  "kueue_validateUnmanaged req label =
     bind_checked (set_new_condition (rqResult req) ConditionTypeCompatible ConditionTrue
       [WithReason ReasonVersionCompatible,
        WithMessage (''The Kueue managementState is Unmanaged, which is supported for the '' @ label @ '' upgrade.'')])
       (addDefaultLocalQueueWarning req)"

definition ManagementStateValidate :: "semver_lib \<Rightarrow> lint_target \<Rightarrow> checked" where
  "ManagementStateValidate sv t = ComponentRun sv t (Component ManagementStateCheck) (\<lambda>req.
     (let label = target_label (rqTarget req) in
      if rqState req = ManagementStateManaged then kueue_validateManaged req label
      else if rqState req = ManagementStateUnmanaged then kueue_validateUnmanaged req label
      else chk_error (NewError (''unexpected management state '' @ go_quote (rqState req) @ '' for kueue''))))"

definition OperatorInstalledCheck :: BaseCheck where
  "OperatorInstalledCheck = \<lparr>bcGroup = ''component'', bcKind = ''kueue'', bcType = ''operator-installed'',
     bcID = ''components.kueue.operator-installed'',
     bcName = ''Components :: Kueue :: Operator Installed'',
     bcDescription = ''Validates Red Hat build of Kueue operator installation is consistent with Kueue management state'',
     bcRemediation = []\<rparr>"

definition OperatorInstalledCanApply :: "lint_target \<Rightarrow> err + bool" where
  "OperatorInstalledCanApply t = component_in_state t ''kueue'' [ManagementStateManaged, ManagementStateUnmanaged]"

definition OperatorInstalledValidate :: "semver_lib \<Rightarrow> lint_target \<Rightarrow> checked" where
  "OperatorInstalledValidate sv t = ComponentRun sv t (Component OperatorInstalledCheck) (\<lambda>req.
     if rqState req = ManagementStateManaged then
       set_new_condition (rqResult req) ConditionTypeCompatible ConditionFalse
         [WithReason ReasonVersionIncompatible,
          WithMessage (''Kueue managementState is Managed '' @ [CHR 0xE2, CHR 0x80, CHR 0x94] @ '' migration to the Red Hat build of Kueue operator is required before upgrading''),
          WithImpact ImpactProhibited,
          WithRemediation ''Migrate to the Red Hat build of Kueue operator following https://docs.redhat.com/en/documentation/red_hat_openshift_ai_self-managed/2.25/html/managing_openshift_ai/managing-workloads-with-kueue#migrating-to-the-rhbok-operator_kueue before upgrading'']
     else case FindOperator (tgtClient (rqTarget req)) (\<lambda>sub. siName sub = ''kueue-operator'') of
         Inl e \<Rightarrow> chk_error (wrapf ''checking Red Hat build of Kueue operator presence'' e)
       | Inr info \<Rightarrow>
           (let dr = (if GetVersion info \<noteq> [] then annotate annotationInstalledVersion (GetVersion info) (rqResult req) else rqResult req) in
            if \<not> Found info then
              blocking_condition dr ConditionTypeCompatible ReasonVersionIncompatible
                (''Red Hat build of Kueue operator is not installed but Kueue managementState is Unmanaged '' @ [CHR 0xE2, CHR 0x80, CHR 0x94] @ '' Red Hat build of Kueue operator is required'')
            else
              set_new_condition dr ConditionTypeCompatible ConditionTrue
                [WithReason ReasonVersionCompatible,
                 WithMessage (''Red Hat build of Kueue operator installed: '' @ GetVersion info)]))"

section \<open>AI gateway\<close>

abbreviation kserveMaaSField :: string where "kserveMaaSField \<equiv> ''.spec.components.kserve.modelsAsService.managementState''"

definition MaaSFieldMigrationCheck :: BaseCheck where
  "MaaSFieldMigrationCheck = \<lparr>bcGroup = ''component'', bcKind = ''aigateway'', bcType = ''maas-field-migration'',
     bcID = ''components.aigateway.maas-field-migration'',
     bcName = ''Components :: AIGateway :: MaaS Field Migration (deprecated field)'',
     bcDescription = ''Detects when Models as a Service is configured via the deprecated kserve.modelsAsService field instead of the canonical aigateway.modelsAsAService location for RHOAI 3.5+ targets; the deprecated stanza is removed in DSC v3'',
     bcRemediation = ''Set spec.components.aigateway.managementState: Managed and spec.components.aigateway.modelsAsAService.managementState: Managed in DataScienceCluster, then set spec.components.kserve.modelsAsService.managementState: Removed to clear the deprecated field''\<rparr>"

definition MaaSFieldMigrationCanApply :: "semver_lib \<Rightarrow> lint_target \<Rightarrow> err + bool" where
  "MaaSFieldMigrationCanApply sv t =
     (if \<not> upgrade_within_3x sv t 5 then Inr False
      else case GetDataScienceCluster (tgtClient t) of
          Inl e \<Rightarrow> Inl (wrapf ''getting DataScienceCluster'' e)
        | Inr dsc \<Rightarrow>
            (case query_string t dsc kserveMaaSField of
               Inl e \<Rightarrow> if is_ErrNotFound e then Inr False else Inl (wrapf ''querying kserve modelsAsService state'' e)
             | Inr state \<Rightarrow> Inr (state = ManagementStateManaged \<or> state = ManagementStateUnmanaged)))"

definition MaaSFieldMigrationValidate :: "semver_lib \<Rightarrow> lint_target \<Rightarrow> checked" where
  "MaaSFieldMigrationValidate sv t = DSCRun sv t MaaSFieldMigrationCheck (\<lambda>dr dsc.
     case query_string t dsc kserveMaaSField of
       Inl e \<Rightarrow>
         if is_ErrNotFound e then
           set_new_condition dr ConditionTypeConfigured ConditionTrue
             [WithReason ReasonRequirementsMet,
              WithMessage ''Models as a Service is not configured via the deprecated kserve.modelsAsService field'']
         else chk_error (wrapf ''querying kserve modelsAsService state'' e)
     | Inr state \<Rightarrow>
         if state = ManagementStateManaged \<or> state = ManagementStateUnmanaged then
           set_new_condition dr ConditionTypeCompatible ConditionFalse
             [WithReason ReasonVersionIncompatible,
              WithMessage (''Models as a Service is enabled via the deprecated kserve.modelsAsService field (state: '' @ state @ ''). In RHOAI '' @ target_label t @ '', MaaS is configured under aigateway.modelsAsAService''),
              WithImpact ImpactAdvisory, WithRemediation (bcRemediation MaaSFieldMigrationCheck)]
         else
           set_new_condition dr ConditionTypeConfigured ConditionTrue
             [WithReason ReasonRequirementsMet,
              WithMessage ''Models as a Service is not enabled via the deprecated kserve.modelsAsService field''])"

section \<open>Dashboard\<close>

definition AcceleratorProfileMigrationCheck :: BaseCheck where
  "AcceleratorProfileMigrationCheck = \<lparr>bcGroup = ''component'', bcKind = ''dashboard'', bcType = ''acceleratorprofile-migration'',
     bcID = ''components.dashboard.acceleratorprofile-migration'',
     bcName = ''Components :: Dashboard :: AcceleratorProfile Migration (3.x)'',
     bcDescription = ''Lists deprecated AcceleratorProfiles that will be auto-migrated to HardwareProfiles (infrastructure.opendatahub.io) during upgrade'',
     bcRemediation = ''Deprecated AcceleratorProfiles will be automatically migrated to HardwareProfiles (infrastructure.opendatahub.io) during upgrade - no manual action required''\<rparr>"

definition AcceleratorProfileMigrationCanApply :: "lint_target \<Rightarrow> err + bool" where
  "AcceleratorProfileMigrationCanApply t = Inr (upgrade_2x_3x t)"

definition AcceleratorProfileMigrationValidate :: "semver_lib \<Rightarrow> lint_target \<Rightarrow> maybe_checked" where
  "AcceleratorProfileMigrationValidate sv t =
     WorkloadComplete sv t (WorkloadsMetadata AcceleratorProfileMigrationCheck t rt_AcceleratorProfile) (\<lambda>items.
       if items = [] then
         [NewCondition ConditionTypeMigrationRequired ConditionTrue
            [WithReason ReasonNoMigrationRequired, WithMessage ''No deprecated AcceleratorProfiles found - no migration required'']]
       else
         [NewCondition ConditionTypeMigrationRequired ConditionFalse
            [WithReason ReasonMigrationPending,
             WithMessage (''Found '' @ itoa (length items) @ '' deprecated AcceleratorProfile(s) that will be automatically migrated to HardwareProfiles (infrastructure.opendatahub.io) during upgrade''),
             WithImpact ImpactAdvisory, WithRemediation (bcRemediation AcceleratorProfileMigrationCheck)]])"

definition HardwareProfileMigrationCheck :: BaseCheck where
  "HardwareProfileMigrationCheck = \<lparr>bcGroup = ''component'', bcKind = ''dashboard'', bcType = ''hardwareprofile-migration'',
     bcID = ''components.dashboard.hardwareprofile-migration'',
     bcName = ''Components :: Dashboard :: HardwareProfile Migration (3.x)'',
     bcDescription = ''Lists legacy HardwareProfiles (opendatahub.io) that will be auto-migrated to HardwareProfiles (infrastructure.opendatahub.io) during upgrade'',
     bcRemediation = ''Legacy HardwareProfiles will be automatically migrated to HardwareProfiles (infrastructure.opendatahub.io) during upgrade - no manual action required''\<rparr>"

definition HardwareProfileMigrationCanApply :: "lint_target \<Rightarrow> err + bool" where
  "HardwareProfileMigrationCanApply t = Inr (upgrade_2x_3x t)"

definition HardwareProfileMigrationValidate :: "semver_lib \<Rightarrow> lint_target \<Rightarrow> maybe_checked" where
  "HardwareProfileMigrationValidate sv t =
     WorkloadComplete sv t (WorkloadsMetadata HardwareProfileMigrationCheck t rt_HardwareProfile) (\<lambda>items.
       if items = [] then
         [NewCondition ConditionTypeMigrationRequired ConditionTrue
            [WithReason ReasonNoMigrationRequired,
             WithMessage ''No legacy HardwareProfiles found in opendatahub.io API group - no migration required'']]
       else
         [NewCondition ConditionTypeMigrationRequired ConditionFalse
            [WithReason ReasonMigrationPending,
             WithMessage (''Found '' @ itoa (length items) @ '' legacy HardwareProfile(s) (opendatahub.io) that will be automatically migrated to HardwareProfiles (infrastructure.opendatahub.io) during upgrade''),
             WithImpact ImpactAdvisory, WithRemediation (bcRemediation HardwareProfileMigrationCheck)]])"

definition AuthModelMigrationCheck :: BaseCheck where
  "AuthModelMigrationCheck = \<lparr>bcGroup = ''component'', bcKind = ''dashboard'', bcType = ''auth-model-migration'',
     bcID = ''components.dashboard.auth-model-migration'',
     bcName = ''Components :: Dashboard :: Auth Model Migration (3.x)'',
     bcDescription = ''Detects dashboard pods using legacy oauth-proxy sidecar that will be migrated to kube-rbac-proxy'',
     bcRemediation = ''The operator will automatically migrate the auth model during upgrade - no manual action required''\<rparr>"

definition AuthModelMigrationCanApply :: "lint_target \<Rightarrow> err + bool" where
  "AuthModelMigrationCanApply t = Inr (upgrade_2x_3x t)"

definition hasContainer :: "gojq \<Rightarrow> json \<Rightarrow> string \<Rightarrow> bool" where
  "hasContainer gq pod name =
     (case Query gq as_array [] pod ''.spec.containers'' of
        Inl e \<Rightarrow> False
      | Inr containers \<Rightarrow> list_ex (\<lambda>raw. case raw of JObj fs \<Rightarrow> nested_string [''name''] raw = name | _ \<Rightarrow> False) containers)"

definition checkAuthModel :: "ComponentRequest \<Rightarrow> checked" where
  "checkAuthModel req =
     (let r = tgtClient (rqTarget req); dr = rqResult req in
      case rdList r rt_Pod (WithLabelSelector ''app=rhods-dashboard'' (WithNamespace (rqNamespace req) list_all_config)) of
        Inl e \<Rightarrow> chk_error (wrapf ''listing dashboard pods'' e)
      | Inr pods \<Rightarrow>
          if pods = [] then
            set_new_condition dr ''AuthModelMigration'' ConditionTrue [WithReason ReasonRequirementsMet, WithMessage ''No dashboard pods found'']
          else
            (let legacyCount = length (filter (\<lambda>pod. hasContainer (rdGojq r) pod ''oauth-proxy'') pods) in
             if legacyCount > 0 then
               set_new_condition dr ''AuthModelMigration'' ConditionFalse
                 [WithReason ReasonMigrationPending,
                  WithMessage (''Found '' @ itoa legacyCount @ '' dashboard pod(s) still using oauth-proxy sidecar - operator will migrate automatically''),
                  WithImpact ImpactAdvisory, WithRemediation (bcRemediation AuthModelMigrationCheck)]
             else
               set_new_condition dr ''AuthModelMigration'' ConditionTrue
                 [WithReason ReasonRequirementsMet, WithMessage ''No oauth-proxy sidecar found on dashboard pods'']))"

definition AuthModelMigrationValidate :: "semver_lib \<Rightarrow> lint_target \<Rightarrow> checked" where
  "AuthModelMigrationValidate sv t = ComponentRun sv t (WithApplicationsNamespace (Component AuthModelMigrationCheck)) checkAuthModel"

definition ConfigCompatibilityCheck :: BaseCheck where
  "ConfigCompatibilityCheck = \<lparr>bcGroup = ''component'', bcKind = ''dashboard'', bcType = ''config-compatibility'',
     bcID = ''components.dashboard.config-compatibility'',
     bcName = ''Components :: Dashboard :: Config Compatibility (3.x)'',
     bcDescription = ''Verifies OdhDashboardConfig exists and reports its version annotation'',
     bcRemediation = ''If OdhDashboardConfig is missing after upgrade, recreate it with the appropriate settings''\<rparr>"

definition ConfigCompatibilityCanApply :: "lint_target \<Rightarrow> err + bool" where
  "ConfigCompatibilityCanApply t = Inr (upgrade_2x_3x t)"

definition checkConfig :: "ComponentRequest \<Rightarrow> checked" where
  "checkConfig req =
     (let r = tgtClient (rqTarget req); dr = rqResult req; ct = ''ConfigCompatibility'' in
      case rdGet r rt_OdhDashboardConfig (rqNamespace req) ''odh-dashboard-config'' of
        Inl e \<Rightarrow>
          if rdApi r IsNotFound e then
            set_new_condition dr ct ConditionFalse
              [WithReason ReasonResourceNotFound,
               WithMessage ''OdhDashboardConfig not found in applications namespace - configuration may need to be recreated after upgrade'',
               WithImpact ImpactAdvisory, WithRemediation (bcRemediation ConfigCompatibilityCheck)]
          else chk_error (wrapf ''getting OdhDashboardConfig'' e)
      | Inr None \<Rightarrow>
          set_new_condition dr ct ConditionFalse
            [WithReason ReasonInsufficientData, WithMessage ''OdhDashboardConfig access restricted - unable to verify'',
             WithImpact ImpactAdvisory, WithRemediation (bcRemediation ConfigCompatibilityCheck)]
      | Inr (Some config) \<Rightarrow>
          (let v = map_get (u_annotations config) ''platform.opendatahub.io/version'' in
           set_new_condition dr ct ConditionTrue
             [WithReason ReasonResourceFound,
              WithMessage (''OdhDashboardConfig '' @ go_quote (''odh-dashboard-config'') @ '' found (version: '' @ (if v = [] then ''unknown'' else v) @ '')'')]))"

definition ConfigCompatibilityValidate :: "semver_lib \<Rightarrow> lint_target \<Rightarrow> checked" where
  "ConfigCompatibilityValidate sv t = ComponentRun sv t (WithApplicationsNamespace (Component ConfigCompatibilityCheck)) checkConfig"

definition RolloutStrategyCheck :: BaseCheck where
  "RolloutStrategyCheck = \<lparr>bcGroup = ''component'', bcKind = ''dashboard'', bcType = ''rollout-strategy'',
     bcID = ''components.dashboard.rollout-strategy'',
     bcName = ''Components :: Dashboard :: Rollout Strategy (3.x)'',
     bcDescription = ''Detects a dashboard rolling update deadlock caused by an effective maxUnavailable of 0'',
     bcRemediation = ''Set maxUnavailable to at least 1 in the deployment rollout strategy, or make sure the cluster has headroom to schedule the surge pods alongside the existing ones''\<rparr>"

definition RolloutStrategyCanApply :: "lint_target \<Rightarrow> err + bool" where
  "RolloutStrategyCanApply t = Inr (upgrade_2x_3x t)"

text \<open>
  Floating point: \<open>flInt\<close> truncates a literal, \<open>flPercent up p n\<close> is \<open>p / 100 * n\<close> rounded up or down, or
  \<open>None\<close> if \<open>p\<close> is no number, \<open>flFormat\<close> is the verb \<open>%v\<close>. Whole numbers of an object reach the query
  results as integers.
\<close>

record float_lib =
  flInt :: "string \<Rightarrow> int"
  flPercent :: "bool \<Rightarrow> string \<Rightarrow> int \<Rightarrow> int option"
  flFormat :: "string \<Rightarrow> string"

definition atoi :: "string \<Rightarrow> int option" where
  "atoi s =
     (let neg = (s \<noteq> [] \<and> hd s = CHR ''-''); ds = (if s \<noteq> [] \<and> (hd s = CHR ''-'' \<or> hd s = CHR ''+'') then tl s else s);
          n = foldl (\<lambda>a c. 10 * a + (int (of_char c) - 48)) 0 ds; v = (if neg then - n else n) in
      if ds = [] \<or> \<not> list_all (\<lambda>c. CHR ''0'' \<le> c \<and> c \<le> CHR ''9'') ds then None
      else if v < - (2 ^ 63) \<or> v > 2 ^ 63 - 1 then None else Some v)"

definition resolveFencepost :: "float_lib \<Rightarrow> json option \<Rightarrow> int \<Rightarrow> string \<Rightarrow> bool \<Rightarrow> int" where
  "resolveFencepost fl raw replicas defaultValue up =
     (case (case raw of None \<Rightarrow> JStr defaultValue | Some v \<Rightarrow> v) of
        JFloat s \<Rightarrow> flInt fl s
      | JStr v \<Rightarrow>
          if has_suffix v ''%'' then (case flPercent fl up (butlast v) replicas of None \<Rightarrow> 1 | Some n \<Rightarrow> n)
          else (case atoi v of None \<Rightarrow> 1 | Some n \<Rightarrow> n)
      | _ \<Rightarrow> 1)"

definition describeFencepost :: "float_lib \<Rightarrow> json option \<Rightarrow> string \<Rightarrow> string" where
  "describeFencepost fl raw defaultValue =
     (case raw of None \<Rightarrow> defaultValue @ '' (Kubernetes default)''
      | Some (JStr s) \<Rightarrow> s | Some (JFloat s) \<Rightarrow> flFormat fl s | Some v \<Rightarrow> [])"

definition query_any :: "gojq \<Rightarrow> json \<Rightarrow> string \<Rightarrow> json option" where
  "query_any gq v q = (case Query gq Inr JNull v q of Inl e \<Rightarrow> None | Inr JNull \<Rightarrow> None | Inr x \<Rightarrow> Some x)"

definition query_int :: "float_lib \<Rightarrow> gojq \<Rightarrow> json \<Rightarrow> string \<Rightarrow> int" where
  "query_int fl gq v q = (case query_any gq v q of Some (JNum n) \<Rightarrow> n | Some (JFloat s) \<Rightarrow> flInt fl s | _ \<Rightarrow> 0)"

definition getDashboardDeployment :: "reader \<Rightarrow> string \<Rightarrow> err + json option" where
  "getDashboardDeployment r ns =
     (case rdGet r rt_Deployment ns ''rhods-dashboard'' of
        Inl e \<Rightarrow> if rdApi r IsNotFound e then Inr None else Inl (wrapf ''getting dashboard deployment'' e)
      | Inr d \<Rightarrow> Inr d)"

definition rollout_condition :: "float_lib \<Rightarrow> gojq \<Rightarrow> json \<Rightarrow> DiagnosticResult \<Rightarrow> checked" where
  "rollout_condition fl gq deploy dr =
     (let ct = ''RolloutStrategy''; replicas = query_int fl gq deploy ''.spec.replicas'';
          rollout_ok = set_new_condition dr ct ConditionTrue
            [WithReason ReasonRequirementsMet, WithMessage ''Deployment rollout strategy allows progress''] in
      if (case Query gq as_string [] deploy ''.spec.strategy.type'' of Inl e \<Rightarrow> False | Inr s \<Rightarrow> s = ''Recreate'') then
        set_new_condition dr ct ConditionTrue
          [WithReason ReasonRequirementsMet, WithMessage ''Deployment uses the Recreate strategy - no rolling update constraints apply'']
      else if replicas < 2 then rollout_ok
      else
        (let maxUnavailRaw = query_any gq deploy ''.spec.strategy.rollingUpdate.maxUnavailable'';
             maxSurgeRaw = query_any gq deploy ''.spec.strategy.rollingUpdate.maxSurge'';
             maxUnavailable = resolveFencepost fl maxUnavailRaw replicas ''25%'' False;
             maxSurge = resolveFencepost fl maxSurgeRaw replicas ''25%'' True in
         if maxUnavailable = 0 \<and> maxSurge > 0 then
           set_new_condition dr ct ConditionFalse
             [WithReason ReasonWorkloadsImpacted,
              WithMessage (''Deployment '' @ go_quote ''rhods-dashboard'' @ '' has '' @ itoa (nat replicas) @ '' replica(s) with maxUnavailable=''
                @ describeFencepost fl maxUnavailRaw ''25%'' @ '', which resolves to 0 - the rolling update can only progress by surging ''
                @ itoa (nat maxSurge) @ '' extra pod(s), and will stall if the cluster cannot schedule them alongside the existing pods''),
              WithImpact ImpactAdvisory, WithRemediation (bcRemediation RolloutStrategyCheck)]
         else rollout_ok))"

definition checkRolloutStrategy :: "float_lib \<Rightarrow> ComponentRequest \<Rightarrow> checked" where
  "checkRolloutStrategy fl req =
     (let r = tgtClient (rqTarget req) in
      case getDashboardDeployment r (rqNamespace req) of
        Inl e \<Rightarrow> chk_error e
      | Inr None \<Rightarrow>
          set_new_condition (rqResult req) ''RolloutStrategy'' ConditionTrue
            [WithReason ReasonResourceNotFound, WithMessage ''Dashboard deployment not found - rollout strategy cannot be evaluated'']
      | Inr (Some deploy) \<Rightarrow> rollout_condition fl (rdGojq r) deploy (rqResult req))"

definition RolloutStrategyValidate :: "float_lib \<Rightarrow> semver_lib \<Rightarrow> lint_target \<Rightarrow> checked" where
  "RolloutStrategyValidate fl sv t =
     ComponentRun sv t (WithApplicationsNamespace (Component RolloutStrategyCheck)) (checkRolloutStrategy fl)"

definition RouteMigrationCheck :: BaseCheck where
  "RouteMigrationCheck = \<lparr>bcGroup = ''component'', bcKind = ''dashboard'', bcType = ''route-migration'',
     bcID = ''components.dashboard.route-migration'',
     bcName = ''Components :: Dashboard :: Route Migration (3.x)'',
     bcDescription = ''Detects legacy dashboard routes that will change during upgrade to gateway-based routing'',
     bcRemediation = ''Update any bookmarks, scripts, or integrations referencing the old dashboard URL after upgrade''\<rparr>"

definition RouteMigrationCanApply :: "lint_target \<Rightarrow> err + bool" where
  "RouteMigrationCanApply t = Inr (upgrade_2x_3x t)"

definition legacyDashboardRouteNames :: "string list" where
  "legacyDashboardRouteNames = [''rhods-dashboard'', ''odh-dashboard'']"

definition checkRoute :: "ComponentRequest \<Rightarrow> checked" where
  "checkRoute req =
     (case rdList (tgtClient (rqTarget req)) rt_Route (WithNamespace (rqNamespace req) list_all_config) of
        Inl e \<Rightarrow> chk_error (wrapf ''listing routes'' e)
      | Inr routes \<Rightarrow>
          (let found = filter (\<lambda>n. n \<in> set legacyDashboardRouteNames) (map u_name routes) in
           if found \<noteq> [] then
             set_new_condition (rqResult req) ''RouteMigration'' ConditionFalse
               [WithReason ReasonMigrationPending,
                WithMessage (''Dashboard route(s) '' @ str_join '', '' (map go_quote (sort_slice (<) found)) @ '' found - URL will change after upgrade to a gateway-based route''),
                WithImpact ImpactAdvisory, WithRemediation (bcRemediation RouteMigrationCheck)]
           else
             set_new_condition (rqResult req) ''RouteMigration'' ConditionTrue
               [WithReason ReasonRequirementsMet, WithMessage ''No legacy dashboard routes found'']))"

definition RouteMigrationValidate :: "semver_lib \<Rightarrow> lint_target \<Rightarrow> checked" where
  "RouteMigrationValidate sv t = ComponentRun sv t (WithApplicationsNamespace (Component RouteMigrationCheck)) checkRoute"

section \<open>Lemmas\<close>

text \<open>Every check returns an error or a result that passes the validation of results.\<close>

lemma builder_check [simp]:
  "cbCheck (Component b) = b" "cbCheck (WithComponentName n cb) = cbCheck cb" "cbCheck (InState ss cb) = cbCheck cb"
  "cbCheck (WithApplicationsNamespace cb) = cbCheck cb" "wbCheck (WorkloadsMetadata b t rt) = b"
  by (simp_all add: Component_def WithComponentName_def InState_def WithApplicationsNamespace_def WorkloadsMetadata_def)

lemma component_bases_ok [simp]:
  "base_ok CodeFlareRemovalCheck" "base_ok ModelMeshRemovalCheck" "base_ok LlamaStackRemovalCheck"
  "base_ok TrainingOperatorRemovalCheck" "base_ok TrainingOperatorDeprecationCheck" "base_ok PipelinesRenamingCheck"
  "base_ok FeastRenamingCheck" "base_ok ModelRegistryRenamingCheck" "base_ok ServerlessRemovalCheck"
  "base_ok ServiceMeshRemovalCheck" "base_ok ServiceMeshOperatorCheck" "base_ok KuadrantReadinessCheck"
  "base_ok AuthorinoTLSReadinessCheck" "base_ok WVARemovalCheck" "base_ok ManagementStateCheck"
  "base_ok OperatorInstalledCheck" "base_ok MaaSFieldMigrationCheck" "base_ok AcceleratorProfileMigrationCheck"
  "base_ok HardwareProfileMigrationCheck" "base_ok AuthModelMigrationCheck" "base_ok ConfigCompatibilityCheck"
  "base_ok RolloutStrategyCheck" "base_ok RouteMigrationCheck"
  by (simp_all add: base_ok_def CodeFlareRemovalCheck_def ModelMeshRemovalCheck_def LlamaStackRemovalCheck_def
      TrainingOperatorRemovalCheck_def TrainingOperatorDeprecationCheck_def PipelinesRenamingCheck_def FeastRenamingCheck_def
      ModelRegistryRenamingCheck_def ServerlessRemovalCheck_def ServiceMeshRemovalCheck_def ServiceMeshOperatorCheck_def
      KuadrantReadinessCheck_def AuthorinoTLSReadinessCheck_def WVARemovalCheck_def ManagementStateCheck_def
      OperatorInstalledCheck_def MaaSFieldMigrationCheck_def AcceleratorProfileMigrationCheck_def
      HardwareProfileMigrationCheck_def AuthModelMigrationCheck_def ConfigCompatibilityCheck_def RolloutStrategyCheck_def
      RouteMigrationCheck_def)

lemma blocking_condition_ok: "dr_ok dr \<Longrightarrow> ct \<noteq> [] \<Longrightarrow> reason \<noteq> [] \<Longrightarrow> checked_ok (blocking_condition dr ct reason msg)"
  unfolding blocking_condition_def by (intro set_new_condition_ok built_ok_impact(1)) simp_all

lemma pass_ok: "dr_ok dr \<Longrightarrow> ct \<noteq> [] \<Longrightarrow> reason \<noteq> [] \<Longrightarrow>
    checked_ok (set_new_condition dr ct ConditionTrue [WithReason reason, WithMessage m])"
  by (intro set_new_condition_ok built_ok_True(2))

lemma fail_ok: "dr_ok dr \<Longrightarrow> ct \<noteq> [] \<Longrightarrow> reason \<noteq> [] \<Longrightarrow>
    checked_ok (set_new_condition dr ct ConditionFalse [WithReason reason, WithMessage m])"
  by (intro set_new_condition_ok built_ok_False(1))

lemma impact_ok:
  "dr_ok dr \<Longrightarrow> ct \<noteq> [] \<Longrightarrow> reason \<noteq> [] \<Longrightarrow> i \<in> {ImpactProhibited, ImpactBlocking, ImpactAdvisory} \<Longrightarrow>
     checked_ok (set_new_condition dr ct ConditionFalse [WithReason reason, WithMessage m, WithImpact i])"
  "dr_ok dr \<Longrightarrow> ct \<noteq> [] \<Longrightarrow> reason \<noteq> [] \<Longrightarrow> i \<in> {ImpactProhibited, ImpactBlocking, ImpactAdvisory} \<Longrightarrow>
     checked_ok (set_new_condition dr ct ConditionFalse [WithReason reason, WithMessage m, WithImpact i, WithRemediation w])"
  by (intro set_new_condition_ok built_ok_impact; assumption)+

lemmas condition_ok = blocking_condition_ok pass_ok fail_ok impact_ok

lemma Removal_ok: "dr_ok (rqResult req) \<Longrightarrow> checked_ok (Removal fmt [WithImpact ImpactBlocking, WithRemediation w] req)"
  unfolding Removal_def by (simp add: condition_ok)

lemma removal_checks_ok:
  "checked_ok (CodeFlareRemovalValidate sv t)" "checked_ok (ModelMeshRemovalValidate sv t)"
  "checked_ok (LlamaStackRemovalValidate sv t)" "checked_ok (TrainingOperatorRemovalValidate sv t)"
  unfolding CodeFlareRemovalValidate_def ModelMeshRemovalValidate_def LlamaStackRemovalValidate_def
    TrainingOperatorRemovalValidate_def
  by (intro ComponentRun_ok Removal_ok; simp)+

lemma completed_checks_ok:
  "checked_ok (TrainingOperatorDeprecationValidate sv t)" "checked_ok (PipelinesRenamingValidate sv t)"
  "checked_ok (FeastRenamingValidate sv t)" "checked_ok (ModelRegistryRenamingValidate sv t)"
  unfolding TrainingOperatorDeprecationValidate_def PipelinesRenamingValidate_def FeastRenamingValidate_def
    ModelRegistryRenamingValidate_def newDeprecationCondition_def
  by (intro ComponentComplete_ok; simp add: built_ok_impact built_ok_True)+

lemma kserve_checks_ok:
  "checked_ok (ServerlessRemovalValidate sv t)" "checked_ok (ServiceMeshRemovalValidate sv t)"
  "checked_ok (ServiceMeshOperatorValidate sv t)"
proof -
  show "checked_ok (ServerlessRemovalValidate sv t)" unfolding ServerlessRemovalValidate_def
    by (intro ComponentRun_ok) (simp_all add: Let_def condition_ok split: sum.split)
  show "checked_ok (ServiceMeshRemovalValidate sv t)" unfolding ServiceMeshRemovalValidate_def DSCIRun_def
    by (intro singleton_run_ok) (simp_all add: condition_ok split: sum.split)
  show "checked_ok (ServiceMeshOperatorValidate sv t)" unfolding ServiceMeshOperatorValidate_def
    by (intro OperatorRun_ok) (simp_all add: Operator_def servicemesh_condition_def built_ok_True built_ok_False)
qed

lemma validateReadyCondition_ok: "dr_ok dr \<Longrightarrow> checked_ok (validateReadyCondition t dr obj name)"
  unfolding validateReadyCondition_def by (simp add: condition_ok split: sum.split)

lemma validateAuthorinoTLS_ok: "dr_ok dr \<Longrightarrow> checked_ok (validateAuthorinoTLS t dr obj)"
  unfolding validateAuthorinoTLS_def by (simp add: condition_ok split: sum.split)

lemma readiness_checks_ok:
  "checked_ok (KuadrantReadinessValidate sv t)" "checked_ok (AuthorinoTLSReadinessValidate sv t)"
proof -
  have dr: "dr_ok (BaseNewResult KuadrantReadinessCheck)" "dr_ok (BaseNewResult AuthorinoTLSReadinessCheck)"
    by (intro dr_ok_new; simp)+
  show "checked_ok (KuadrantReadinessValidate sv t)" unfolding KuadrantReadinessValidate_def Let_def
    using dr(1) by (auto simp: condition_ok validateReadyCondition_ok split: sum.split option.split)
  show "checked_ok (AuthorinoTLSReadinessValidate sv t)" unfolding AuthorinoTLSReadinessValidate_def Let_def
    using dr(2) by (auto simp: condition_ok intro!: bind_checked_ok validateAuthorinoTLS_ok validateReadyCondition_ok
        split: sum.split option.split)
qed

lemma wva_ok: "checked_ok (WVARemovalValidate sv t)"
  unfolding WVARemovalValidate_def by (intro ComponentRun_ok) (simp_all add: Let_def condition_ok split: sum.split prod.split)

lemma addDefaultLocalQueueWarning_ok: "dr_ok dr \<Longrightarrow> Conditions dr \<noteq> [] \<Longrightarrow> checked_ok (addDefaultLocalQueueWarning req dr)"
  unfolding addDefaultLocalQueueWarning_def
  by (auto simp: dr_ok_AddImpactedObjects intro!: bind_checked_ok impact_ok split: sum.split)

lemma kueue_checks_ok: "checked_ok (ManagementStateValidate sv t)" "checked_ok (OperatorInstalledValidate sv t)"
proof -
  show "checked_ok (ManagementStateValidate sv t)"
    unfolding ManagementStateValidate_def kueue_validateManaged_def kueue_validateUnmanaged_def
    by (intro ComponentRun_ok) (auto simp: Let_def condition_ok intro!: bind_checked_ok addDefaultLocalQueueWarning_ok split: sum.split)
  show "checked_ok (OperatorInstalledValidate sv t)"
    unfolding OperatorInstalledValidate_def
    by (intro ComponentRun_ok) (auto simp: Let_def condition_ok dr_ok_annotate split: sum.split)
qed

lemma maas_ok: "checked_ok (MaaSFieldMigrationValidate sv t)"
  unfolding MaaSFieldMigrationValidate_def DSCRun_def
  by (intro singleton_run_ok) (simp_all add: condition_ok split: sum.split)

lemma profile_checks_ok: "maybe_ok (AcceleratorProfileMigrationValidate sv t)" "maybe_ok (HardwareProfileMigrationValidate sv t)"
  unfolding AcceleratorProfileMigrationValidate_def HardwareProfileMigrationValidate_def
  by (intro WorkloadComplete_ok; simp add: built_ok_impact built_ok_True)+

lemma rollout_condition_ok: "dr_ok dr \<Longrightarrow> checked_ok (rollout_condition fl gq deploy dr)"
  unfolding rollout_condition_def by (simp add: Let_def condition_ok)

lemma dashboard_checks_ok:
  "checked_ok (AuthModelMigrationValidate sv t)" "checked_ok (ConfigCompatibilityValidate sv t)"
  "checked_ok (RolloutStrategyValidate fl sv t)" "checked_ok (RouteMigrationValidate sv t)"
proof -
  show "checked_ok (AuthModelMigrationValidate sv t)" unfolding AuthModelMigrationValidate_def checkAuthModel_def
    by (intro ComponentRun_ok) (simp_all add: Let_def condition_ok split: sum.split)
  show "checked_ok (ConfigCompatibilityValidate sv t)" unfolding ConfigCompatibilityValidate_def checkConfig_def
    by (intro ComponentRun_ok) (auto simp: Let_def condition_ok split: sum.split option.split)
  show "checked_ok (RolloutStrategyValidate fl sv t)" unfolding RolloutStrategyValidate_def checkRolloutStrategy_def
    by (intro ComponentRun_ok) (auto simp: Let_def condition_ok rollout_condition_ok split: sum.split option.split)
  show "checked_ok (RouteMigrationValidate sv t)" unfolding RouteMigrationValidate_def checkRoute_def
    by (intro ComponentRun_ok) (simp_all add: Let_def condition_ok split: sum.split)
qed

text \<open>A component that is in the state a removal check asks for.\<close>

lemma component_in_state_True:
  "component_in_state t key [s] = Inr True \<Longrightarrow>
     \<exists>dsc. GetDataScienceCluster (tgtClient t) = Inr dsc \<and> GetManagementState (rdGojq (tgtClient t)) dsc key = Inr s"
  by (auto simp: component_in_state_def HasManagementState_def has_state_def split: sum.splits)

lemma ComponentRun_state:
  assumes "GetDataScienceCluster (tgtClient t) = Inr dsc" "GetManagementState (rdGojq (tgtClient t)) dsc (cbName b) = Inr s"
    and "cbStates b = []" "\<not> cbLoadNamespace b"
  shows "\<exists>dr. ComponentRun sv t b fn = fn \<lparr>rqTarget = t, rqResult = dr, rqDSC = dsc, rqState = s, rqNamespace = []\<rparr>
    \<and> Conditions dr = []"
  using assms by (auto simp: ComponentRun_def Let_def annotate_target_def BaseNewResult_def NewResult_def split: option.split)

definition blocks :: "checked \<Rightarrow> bool" where
  "blocks r = (case r of Inr (Inr dr) \<Rightarrow> GetImpact dr = ImpactBlocking \<and> ResultValidate dr = None | _ \<Rightarrow> False)"

lemma Removal_blocks:
  assumes "Conditions (rqResult req) = []"
  shows "\<exists>dr. Removal fmt [WithImpact ImpactBlocking, WithRemediation w] req = Inr (Inr dr) \<and> GetImpact dr = ImpactBlocking"
  using assms by (simp add: Removal_def set_new_condition_def build_simps SetCondition_def GetImpact_def chk_done_def)

lemma removal_run_blocks:
  assumes "component_in_state t key [ManagementStateManaged] = Inr True"
    and "cbName b = key" "cbStates b = []" "\<not> cbLoadNamespace b"
    and "checked_ok (ComponentRun sv t b (Removal fmt [WithImpact ImpactBlocking, WithRemediation w]))"
  shows "blocks (ComponentRun sv t b (Removal fmt [WithImpact ImpactBlocking, WithRemediation w]))"
proof -
  let ?fn = "Removal fmt [WithImpact ImpactBlocking, WithRemediation w]"
  obtain dsc where dsc: "GetDataScienceCluster (tgtClient t) = Inr dsc"
      "GetManagementState (rdGojq (tgtClient t)) dsc key = Inr ManagementStateManaged"
    using component_in_state_True [OF assms(1)] by blast
  obtain dr0 where run: "ComponentRun sv t b ?fn = ?fn \<lparr>rqTarget = t, rqResult = dr0, rqDSC = dsc, rqState = ManagementStateManaged, rqNamespace = []\<rparr>"
      "Conditions dr0 = []"
    using ComponentRun_state [OF dsc(1), of b ManagementStateManaged sv ?fn] dsc(2) assms(2-4) by blast
  obtain dr where "ComponentRun sv t b ?fn = Inr (Inr dr)" "GetImpact dr = ImpactBlocking"
    using Removal_blocks [of "\<lparr>rqTarget = t, rqResult = dr0, rqDSC = dsc, rqState = ManagementStateManaged, rqNamespace = []\<rparr>"] run by auto
  then show ?thesis using checked_ok_valid [OF assms(5), of dr] by (simp add: blocks_def)
qed

text \<open>An integer for \<open>maxUnavailable\<close> or \<open>maxSurge\<close> is never read: it counts as 1, also where it is 0.\<close>

theorem integer_fencepost_ignored: "resolveFencepost fl (Some (JNum n)) replicas dflt up = 1"
  by (simp add: resolveFencepost_def)

section \<open>Properties\<close>

text \<open>
  A removal check that applies blocks the upgrade: for CodeFlare, ModelMesh, LlamaStack and the
  training operator, when \<open>CanApply\<close> says yes, \<open>Validate\<close> returns a valid result of blocking impact, whatever
  the rest of the cluster says. The deprecation notice of the training operator never applies together with
  its removal.
\<close>

theorem removal_checks_block:
  "(CodeFlareRemovalCanApply t = Inr True \<longrightarrow> blocks (CodeFlareRemovalValidate sv t))
   \<and> (ModelMeshRemovalCanApply t = Inr True \<longrightarrow> blocks (ModelMeshRemovalValidate sv t))
   \<and> (LlamaStackRemovalCanApply sv t = Inr True \<longrightarrow> blocks (LlamaStackRemovalValidate sv t))
   \<and> (TrainingOperatorRemovalCanApply t = Inr True \<longrightarrow> blocks (TrainingOperatorRemovalValidate sv t)
        \<and> TrainingOperatorDeprecationCanApply t = Inr False)"
proof (intro conjI impI)
  assume "CodeFlareRemovalCanApply t = Inr True"
  then have "component_in_state t ''codeflare'' [ManagementStateManaged] = Inr True"
    by (simp add: CodeFlareRemovalCanApply_def split: if_splits)
  from removal_run_blocks [OF this] show "blocks (CodeFlareRemovalValidate sv t)"
    using removal_checks_ok(1) [of sv t] by (simp add: CodeFlareRemovalValidate_def Component_def WithComponentName_def)
next
  assume "ModelMeshRemovalCanApply t = Inr True"
  then have "component_in_state t ''modelmeshserving'' [ManagementStateManaged] = Inr True"
    by (simp add: ModelMeshRemovalCanApply_def split: if_splits)
  from removal_run_blocks [OF this] show "blocks (ModelMeshRemovalValidate sv t)"
    using removal_checks_ok(2) [of sv t] by (simp add: ModelMeshRemovalValidate_def Component_def ModelMeshRemovalCheck_def)
next
  assume "LlamaStackRemovalCanApply sv t = Inr True"
  then have "component_in_state t ''llamastackoperator'' [ManagementStateManaged] = Inr True"
    by (simp add: LlamaStackRemovalCanApply_def split: if_splits)
  from removal_run_blocks [OF this] show "blocks (LlamaStackRemovalValidate sv t)"
    using removal_checks_ok(3) [of sv t] by (simp add: LlamaStackRemovalValidate_def Component_def LlamaStackRemovalCheck_def)
next
  assume "TrainingOperatorRemovalCanApply t = Inr True"
  then have t: "component_in_state t ''trainingoperator'' [ManagementStateManaged] = Inr True" "IsVersionAtLeast (TargetVersion t) 3 6"
    by (simp_all add: TrainingOperatorRemovalCanApply_def split: if_splits)
  from removal_run_blocks [OF t(1)] show "blocks (TrainingOperatorRemovalValidate sv t)"
    using removal_checks_ok(4) [of sv t]
    by (simp add: TrainingOperatorRemovalValidate_def Component_def TrainingOperatorRemovalCheck_def)
  show "TrainingOperatorDeprecationCanApply t = Inr False"
    using t(2) by (simp add: TrainingOperatorDeprecationCanApply_def)
qed

definition managed_target :: lint_target where
  "managed_target = \<lparr>tgtClient = sample_reader \<lparr>gqParse = \<lambda>q. None, gqRun = \<lambda>q v. Some (Inr (JStr ManagementStateManaged))\<rparr> (\<lambda>rt. [JObj []]),
     CurrentVersion = Some (sample_version 2 25), TargetVersion = Some (sample_version 3 6), tgtIO = False, tgtDebug = False\<rparr>"

lemma managed_target_applies:
  "CodeFlareRemovalCanApply managed_target = Inr True" "ModelMeshRemovalCanApply managed_target = Inr True"
  "LlamaStackRemovalCanApply sample_semver managed_target = Inr True" "TrainingOperatorRemovalCanApply managed_target = Inr True"
  by code_simp+

theorem removal_checks_block_witness:
  "blocks (CodeFlareRemovalValidate sample_semver managed_target) \<and> blocks (ModelMeshRemovalValidate sample_semver managed_target)
   \<and> blocks (LlamaStackRemovalValidate sample_semver managed_target) \<and> blocks (TrainingOperatorRemovalValidate sample_semver managed_target)"
  using removal_checks_block [of managed_target sample_semver] unfolding managed_target_applies by simp

end
