(* ===== verification/PlatformChecks.thy ===== *)
theory PlatformChecks
  imports ComponentChecks
begin

text \<open>
  The checks of \<open>pkg/lint/checks/dependencies\<close> and \<open>pkg/lint/checks/platform\<close>. The cluster version
  that \<open>DetectOpenShiftVersion\<close> reads is the argument \<open>cv\<close>; the decoder of \<open>metav1.Condition\<close> is the
  argument \<open>asCond\<close>.
\<close>

abbreviation ReasonDependencyUnavailable :: string where "ReasonDependencyUnavailable \<equiv> ''DependencyUnavailable''"
abbreviation ReasonCheckSkipped :: string where "ReasonCheckSkipped \<equiv> ''CheckSkipped''"

section \<open>cert-manager and OpenShift\<close>

definition CertManagerCheck :: BaseCheck where
  "CertManagerCheck = \<lparr>bcGroup = ''dependency'', bcKind = ''cert-manager'', bcType = ''installed'',
     bcID = ''dependencies.certmanager.installed'',
     bcName = ''Dependencies :: cert-manager :: Installed'',
     bcDescription = ''Reports the cert-manager operator installation status and version'',
     bcRemediation = []\<rparr>"

definition certmanager_condition :: "bool \<Rightarrow> string \<Rightarrow> string + Condition" where
  "certmanager_condition found version =
     (if \<not> found then
        NewCondition ConditionTypeAvailable ConditionFalse
          [WithReason ReasonResourceNotFound, WithMessage ''cert-manager Operator for Red Hat OpenShift is not installed'',
           WithImpact ImpactBlocking]
      else
        NewCondition ConditionTypeAvailable ConditionTrue
          [WithReason ReasonResourceFound, WithMessage (''cert-manager Operator for Red Hat OpenShift installed: '' @ version)])"

definition CertManagerValidate :: "semver_lib \<Rightarrow> lint_target \<Rightarrow> checked" where
  "CertManagerValidate sv t =
     OperatorRun sv t ((Operator CertManagerCheck)
       \<lparr>obNames := [''cert-manager'', ''openshift-cert-manager-operator''], obCondition := certmanager_condition\<rparr>)"

definition plain_version :: "nat \<Rightarrow> nat \<Rightarrow> nat \<Rightarrow> Version" where
  "plain_version a b c = \<lparr>Major = a, Minor = b, Patch = c, Pre = [], Build = []\<rparr>"

definition OpenShiftCheck :: BaseCheck where
  "OpenShiftCheck = \<lparr>bcGroup = ''dependency'', bcKind = ''openshift-platform'', bcType = ''version-requirement'',
     bcID = ''dependencies.openshift.version-requirement'',
     bcName = ''Dependencies :: OpenShift :: Version Requirement (3.x)'',
     bcDescription = ''Validates that OpenShift is at least version 4.19.9 when upgrading to RHOAI 3.x'',
     bcRemediation = []\<rparr>"

definition OpenShiftCanApply :: "lint_target \<Rightarrow> err + bool" where
  "OpenShiftCanApply t = Inr (IsVersion3x (CurrentVersion t) \<or> IsVersion3x (TargetVersion t))"

definition OpenShiftValidate :: "semver_lib \<Rightarrow> (err + ClusterVersionObj) option \<Rightarrow> lint_target \<Rightarrow> checked" where
  "OpenShiftValidate sv cv t =
     (let dr = BaseNewResult OpenShiftCheck; tv = target_label t; minVersion = plain_version 4 19 9; mv = sv_String sv minVersion in
      case DetectOpenShiftVersion sv cv of
        Inl e \<Rightarrow>
          blocking_condition dr ConditionTypeCompatible ReasonInsufficientData
            (''Unable to detect OpenShift version: '' @ err_string e @ ''. RHOAI '' @ tv @ '' requires OpenShift '' @ mv @ '' or later'')
      | Inr ver \<Rightarrow>
          if \<not> sv_LT sv ver minVersion then
            set_new_condition dr ConditionTypeCompatible ConditionTrue
              [WithReason ReasonVersionCompatible,
               WithMessage (''OpenShift '' @ sv_String sv ver @ '' meets RHOAI '' @ tv @ '' minimum version requirement ('' @ mv @ ''+)'')]
          else
            blocking_condition dr ConditionTypeCompatible ReasonVersionIncompatible
              (''OpenShift '' @ sv_String sv ver @ '' does not meet RHOAI '' @ tv @ '' minimum version requirement ('' @ mv @ ''+). Upgrade OpenShift to '' @ mv @ '' or later before upgrading RHOAI''))"

section \<open>Shared service mesh and serverless\<close>

definition RHOAIManagedNamespaces :: "reader \<Rightarrow> string list \<Rightarrow> string list" where
  "RHOAIManagedNamespaces r wellKnown =
     wellKnown @ (case GetDSCINamespaces r of Inl e \<Rightarrow> []
       | Inr ns \<Rightarrow> filter (\<lambda>n. n \<noteq> []) [dnApplications ns, dnMonitoring ns])"

definition CollectNamespaces :: "json list list \<Rightarrow> string list" where
  "CollectNamespaces slices = sort_slice (<) (remdups (map u_namespace (concat slices)))"

definition AddAllImpactedObjects :: "DiagnosticResult \<Rightarrow> (ResourceType \<times> json list) list \<Rightarrow> DiagnosticResult" where
  "AddAllImpactedObjects dr entries =
     fold (\<lambda>(rt, items) d. if items \<noteq> [] then AddImpactedObjects d rt (map (\<lambda>v. (u_namespace v, u_name v)) items) else d) entries dr"

definition IsNonRHOAIFilter :: "string list \<Rightarrow> json \<Rightarrow> err + bool" where
  "IsNonRHOAIFilter nss item = Inr (u_namespace item \<notin> set nss)"

fun list_each :: "reader \<Rightarrow> (json \<Rightarrow> err + bool) \<Rightarrow> (ResourceType \<times> string) list \<Rightarrow> err + json list list" where
  "list_each r keep [] = Inr []"
| "list_each r keep ((rt, label) # types) =
     (case ListObjects r rt (Some keep) of
        Inl e \<Rightarrow> Inl (wrapf (''listing '' @ label) e)
      | Inr items \<Rightarrow> bind_res (list_each r keep types) (\<lambda>rest. Inr (items # rest)))"

definition shared_usage :: "lint_target \<Rightarrow> BaseCheck \<Rightarrow> string list \<Rightarrow> (ResourceType \<times> string) list \<Rightarrow> string \<Rightarrow> string \<Rightarrow> checked" where
  "shared_usage t b wellKnown types none_msg what =
     (let r = tgtClient t; dr = BaseNewResult b; keep = IsNonRHOAIFilter (RHOAIManagedNamespaces r wellKnown) in
      case list_each r keep types of
        Inl e \<Rightarrow> chk_error e
      | Inr slices \<Rightarrow>
          (let total = length (concat slices) in
           if total = 0 then
             set_new_condition dr ConditionTypeValidated ConditionTrue [WithReason ReasonRequirementsMet, WithMessage none_msg]
           else
             bind_checked (set_new_condition dr ConditionTypeValidated ConditionFalse
               [WithReason ReasonWorkloadsImpacted,
                WithMessage (''Found '' @ itoa total @ '' '' @ what @ '' resource(s) outside RHOAI-managed namespaces in: ''
                  @ str_join '', '' (CollectNamespaces slices) @ ''. These may be impacted by the RHOAI migration''),
                WithRemediation (bcRemediation b)])
               (\<lambda>dr'. chk_done (AddAllImpactedObjects dr' (zip (map fst types) slices)))))"

definition SharedOSSMCheck :: BaseCheck where
  "SharedOSSMCheck = \<lparr>bcGroup = ''dependency'', bcKind = ''shared-ossm'', bcType = ''shared-usage'',
     bcID = ''dependencies.shared-ossm.shared-usage'',
     bcName = ''Dependencies :: Shared OSSM :: Shared Usage Detection'',
     bcDescription = ''Detects OpenShift Service Mesh resources shared between RHOAI and non-AI workloads'',
     bcRemediation = ''Review the identified Service Mesh resources before migration. Non-AI workloads sharing OSSM may be impacted by the RHOAI 2.x to 3.x migration.''\<rparr>"

definition SharedOSSMCanApply :: "lint_target \<Rightarrow> err + bool" where
  "SharedOSSMCanApply t = Inr (upgrade_2x_3x t)"

definition SharedOSSMValidate :: "lint_target \<Rightarrow> checked" where
  "SharedOSSMValidate t =
     shared_usage t SharedOSSMCheck [''istio-system'', ''openshift-operators'']
       [(rt_ServiceMeshControlPlane, ''ServiceMeshControlPlanes''), (rt_ServiceMeshMemberRoll, ''ServiceMeshMemberRolls''),
        (rt_ServiceMeshMember, ''ServiceMeshMembers'')]
       ''No shared OSSM resources detected outside RHOAI-managed namespaces'' ''OSSM''"

definition SharedServerlessCheck :: BaseCheck where
  "SharedServerlessCheck = \<lparr>bcGroup = ''dependency'', bcKind = ''shared-serverless'', bcType = ''shared-usage'',
     bcID = ''dependencies.shared-serverless.shared-usage'',
     bcName = ''Dependencies :: Shared Serverless :: Shared Usage Detection'',
     bcDescription = ''Detects Knative/Serverless resources shared between RHOAI and non-AI workloads'',
     bcRemediation = ''Review the identified Knative/Serverless resources before migration. Non-AI workloads using OpenShift Serverless may be impacted by the RHOAI 2.x to 3.x migration.''\<rparr>"

definition SharedServerlessCanApply :: "lint_target \<Rightarrow> err + bool" where
  "SharedServerlessCanApply t = Inr (upgrade_2x_3x t)"

definition SharedServerlessValidate :: "lint_target \<Rightarrow> checked" where
  "SharedServerlessValidate t =
     shared_usage t SharedServerlessCheck
       [''istio-system'', ''knative-serving'', ''knative-eventing'', ''openshift-serverless'', ''openshift-operators'']
       [(rt_KnativeService, ''Knative Services''), (rt_KnativeServing, ''KnativeServings''), (rt_KnativeEventing, ''KnativeEventings'')]
       ''No shared Serverless resources detected outside RHOAI-managed namespaces'' ''Serverless''"

section \<open>Service mesh v3 (\<open>servicemesh.go\<close>)\<close>

definition ServiceMeshCheck :: BaseCheck where
  "ServiceMeshCheck = \<lparr>bcGroup = ''dependency'', bcKind = ''servicemesh-v3'', bcType = ''installed'',
     bcID = ''dependencies.servicemesh.installed'',
     bcName = ''Dependencies :: Service Mesh v3 :: Installed'',
     bcDescription = ''Validates that the required Service Mesh v3 version is available to install from the cluster's operator catalog'',
     bcRemediation = []\<rparr>"

definition ServiceMeshCanApply :: "lint_target \<Rightarrow> err + bool" where
  "ServiceMeshCanApply t = Inr (upgrade_2x_3x t)"

definition findSubscription :: "Subscription list \<Rightarrow> Subscription option" where
  "findSubscription subs = find (\<lambda>s. subName s = ''servicemeshoperator3'') subs"

definition isNoOLMMode :: "reader \<Rightarrow> bool" where
  "isNoOLMMode r = (case rdOLM r of None \<Rightarrow> True | Some (Inl e) \<Rightarrow> False | Some (Inr subs) \<Rightarrow> findSubscription subs = None)"

definition failed_condition :: "DiagnosticResult \<Rightarrow> string \<Rightarrow> string \<Rightarrow> string \<Rightarrow> string \<Rightarrow> Impact \<Rightarrow> checked" where
  "failed_condition dr ctype reason msg remediation impact =
     set_new_condition dr ctype ConditionFalse
       [WithReason reason, WithMessage msg, WithRemediation remediation, WithImpact impact]"

text \<open>An environment variable of the deployment, or (\<open>Inl\<close>) what the check returns instead.\<close>

definition extractEnvVar :: "lint_target \<Rightarrow> json \<Rightarrow> DiagnosticResult \<Rightarrow> string \<Rightarrow> checked + string" where
  "extractEnvVar t deploy dr envName =
     (case query_string t deploy (''[.spec.template.spec.containers[].env[]? | select(.name == \"'' @ envName @ ''\") | .value] | first'') of
        Inl e \<Rightarrow> Inl (
          if is_ErrNotFound e then
            failed_condition dr ConditionTypeAvailable ReasonDependencyUnavailable
              (envName @ '' env var not found on ingress-operator deployment'')
              (''Verify the ingress-operator deployment in the openshift-ingress-operator namespace has the '' @ envName @ '' environment variable.'')
              ImpactBlocking
          else chk_error (wrapf (''querying '' @ envName) e))
      | Inr v \<Rightarrow>
          if v = [] then Inl (
            failed_condition dr ConditionTypeAvailable ReasonDependencyUnavailable
              (envName @ '' env var is empty on ingress-operator deployment'')
              (''Verify the ingress-operator deployment in the openshift-ingress-operator namespace has a non-empty '' @ envName @ '' environment variable.'')
              ImpactBlocking)
          else Inr v)"

definition mirror_remediation :: "string \<Rightarrow> string \<Rightarrow> string" where
  "mirror_remediation csv channel =
     (''Mirror '' @ csv @ '' into the '' @ [CHR 0x27] @ channel @ [CHR 0x27] @ '' channel of the redhat-operators catalog source in the openshift-marketplace namespace. See the pre-requisite instructions in the RHOAI 2.x to 3.x upgrade guide.'')"

fun string_or_null :: "json \<Rightarrow> string option" where
  "string_or_null (JStr s) = Some s"
| "string_or_null JNull = Some []"
| "string_or_null v = None"

fun as_strings :: "json \<Rightarrow> err + string list" where
  "as_strings (JArr xs) = (case those (map string_or_null xs) of
     None \<Rightarrow> Inl (unmarshal_error ''[]string'' (JArr xs)) | Some ss \<Rightarrow> Inr ss)"
| "as_strings v = Inl (unmarshal_error ''[]string'' v)"

definition catalog_filter :: "gojq \<Rightarrow> json \<Rightarrow> err + bool" where
  "catalog_filter gq pm =
     (if u_name pm \<noteq> ''servicemeshoperator3'' \<or> u_namespace pm \<noteq> ''openshift-marketplace'' then Inr False
      else case Query gq as_string [] pm ''.status.catalogSource'' of Inl e \<Rightarrow> Inr False
        | Inr src \<Rightarrow> Inr (src = ''redhat-operators''))"

definition validateCatalogCSV :: "lint_target \<Rightarrow> DiagnosticResult \<Rightarrow> string \<Rightarrow> string \<Rightarrow> string \<Rightarrow> checked" where
  "validateCatalogCSV t dr requiredCSV requiredChannel displayVersion =
     (let r = tgtClient t in
      case ListObjects r rt_PackageManifest (Some (catalog_filter (rdGojq r))) of
        Inl e \<Rightarrow> chk_error (wrapf ''listing PackageManifests'' e)
      | Inr [] \<Rightarrow>
          failed_condition dr ConditionTypeAvailable ReasonResourceNotFound
            (''servicemeshoperator3 PackageManifest not found in redhat-operators catalog (required: '' @ requiredCSV @ '' in '' @ [CHR 0x27] @ requiredChannel @ [CHR 0x27] @ '' channel)'')
            (mirror_remediation requiredCSV requiredChannel) ImpactBlocking
      | Inr (pm # _) \<Rightarrow>
          (case Query (rdGojq r) as_strings [] pm (''[.status.channels[]? | select(.name == \"'' @ requiredChannel @ ''\") | .entries[]?.name]'') of
             Inl e \<Rightarrow> chk_error (wrapf ''querying available CSVs'' e)
           | Inr availableCSVs \<Rightarrow>
               if requiredCSV \<in> set availableCSVs then
                 set_new_condition dr ConditionTypeAvailable ConditionTrue
                   [WithReason ReasonResourceFound,
                    WithMessage (''Red Hat Service Mesh v3 ('' @ requiredCSV @ '') is available in the '' @ [CHR 0x27] @ requiredChannel @ [CHR 0x27] @ '' channel of the 'redhat-operators' cluster catalog'')]
               else
                 failed_condition dr ConditionTypeAvailable ReasonDependencyUnavailable
                   (''Red Hat Service Mesh v3 version '' @ displayVersion @ '' is not available in the '' @ [CHR 0x27] @ requiredChannel @ [CHR 0x27] @ '' channel of the cluster catalog'')
                   (mirror_remediation requiredCSV requiredChannel) ImpactBlocking))"

definition ServiceMeshValidate :: "lint_target \<Rightarrow> checked" where
  "ServiceMeshValidate t =
     (let r = tgtClient t; dr = BaseNewResult ServiceMeshCheck in
      case rdGet r rt_Deployment ''openshift-ingress-operator'' ''ingress-operator'' of
        Inl e \<Rightarrow>
          if rdApi r IsNotFound e then
            failed_condition dr ConditionTypeAvailable ReasonResourceNotFound
              ''ingress-operator deployment not found in openshift-ingress-operator namespace; unable to determine required OSSM version (expected on HCP clusters)''
              ''If this is a Hosted Control Plane (HCP) cluster, this check can be safely ignored. Otherwise, verify that the openshift-ingress-operator namespace and ingress-operator deployment exist.''
              ImpactAdvisory
          else chk_error (wrapf ''getting ingress-operator deployment'' e)
      | Inr None \<Rightarrow>
          failed_condition dr ConditionTypeAvailable ReasonInsufficientData
            ''Unable to read ingress-operator deployment (insufficient permissions)''
            ''Grant read access to deployments in the openshift-ingress-operator namespace.'' ImpactBlocking
      | Inr (Some deploy) \<Rightarrow>
          if isNoOLMMode r then
            set_new_condition dr ConditionTypeAvailable ConditionTrue
              [WithReason ReasonRequirementsMet,
               WithMessage (''Gateway API is managed by the Cluster Ingress Operator (noOLM mode); '' @ ''servicemeshoperator3'' @ '' catalog entry not required'')]
          else case extractEnvVar t deploy dr ''GATEWAY_API_OPERATOR_VERSION'' of
              Inl early \<Rightarrow> early
            | Inr requiredCSV \<Rightarrow>
                (case extractEnvVar t deploy dr ''GATEWAY_API_OPERATOR_CHANNEL'' of
                   Inl early \<Rightarrow> early
                 | Inr requiredChannel \<Rightarrow>
                     validateCatalogCSV t dr requiredCSV requiredChannel (trim_prefix requiredCSV ''servicemeshoperator3.v'')))"

section \<open>Service mesh v3.4 (\<open>ossm34.go\<close>)\<close>

definition OSSM34Check :: BaseCheck where
  "OSSM34Check = \<lparr>bcGroup = ''dependency'', bcKind = ''ossm-v3-compatibility'', bcType = ''compatibility'',
     bcID = ''dependencies.ossm-v3-compatibility.compatibility'',
     bcName = ''Dependencies :: OSSM v3 Compatibility :: Version Compatibility'',
     bcDescription = ''Detects servicemeshoperator3 subscription drift to v3.4.0+ which causes GatewayConfig failures on unpatched OCP 4.19-4.21'',
     bcRemediation = ''Do not approve servicemeshoperator3 InstallPlans beyond v3.3.x on OCP 4.19-4.21. Upgrade to OpenShift Container Platform 4.21.22 or higher to resolve via the Sail Library (no OLM dependency). See https://access.redhat.com/solutions/7145505 for details.''\<rparr>"

definition OSSM34CanApply :: "lint_target \<Rightarrow> err + bool" where
  "OSSM34CanApply t = Inr (IsVersion3x (TargetVersion t))"

definition parseCSVVersion :: "semver_lib \<Rightarrow> string \<Rightarrow> err + Version" where
  "parseCSVVersion sv csv =
     (let versionStr = trim_prefix csv ''servicemeshoperator3.v'' in
      if versionStr = csv then
        Inl (NewError (''CSV '' @ go_quote (csv) @ '' does not start with expected prefix '' @ go_quote (''servicemeshoperator3.v'')))
      else case sv_Parse sv versionStr of
          Inl e \<Rightarrow> Inl (wrapf (''parsing version '' @ go_quote (versionStr)) e)
        | Inr v \<Rightarrow> Inr v)"

definition buildDriftMessage :: "string \<Rightarrow> string \<Rightarrow> string \<Rightarrow> string" where
  "buildDriftMessage installedVersion installedCSV startingCSV =
     (''servicemeshoperator3 is installed at '' @ installedVersion @ '' (CSV: '' @ installedCSV @ ''), which is affected by a known issue: OSSM v3.4.0+ rejects Istio v1.26.2 as end-of-life on OCP 4.19-4.21, causing GatewayConfig to get stuck NotReady'')
     @ (if startingCSV \<noteq> [] \<and> startingCSV \<noteq> installedCSV then ''. Subscription has drifted from pinned version '' @ startingCSV else [])"

definition ossm34_installed ::
  "semver_lib \<Rightarrow> (err + ClusterVersionObj) option \<Rightarrow> DiagnosticResult \<Rightarrow> Subscription \<Rightarrow> checked" where
  "ossm34_installed sv cv dr sub =
     (let installedCSV = subInstalledCSV sub; ct = ConditionTypeCompatible in
      if installedCSV = [] then
        set_new_condition dr ct ConditionTrue
          [WithReason ReasonRequirementsMet,
           WithMessage ''servicemeshoperator3 subscription has no installed CSV; operator may be pending installation'']
      else case parseCSVVersion sv installedCSV of
          Inl e \<Rightarrow>
            set_new_condition dr ct ConditionUnknown
              [WithReason ReasonInsufficientData,
               WithMessage (''Unable to parse version from installed CSV '' @ go_quote (installedCSV) @ '': '' @ err_string e)]
        | Inr v \<Rightarrow>
            if \<not> sv_LT sv v (plain_version 3 4 0) then
              (case DetectOpenShiftVersion sv cv of
                 Inr ocp \<Rightarrow>
                   if \<not> sv_LT sv ocp (plain_version 4 21 22) then
                     set_new_condition dr ct ConditionTrue
                       [WithReason ReasonVersionCompatible,
                        WithMessage (''servicemeshoperator3 is at '' @ sv_String sv v @ '' (affected), but OCP '' @ sv_String sv ocp @ '' includes the fix (Sail Library); no action required'')]
                   else failed_condition dr ct ReasonVersionIncompatible
                       (buildDriftMessage (sv_String sv v) installedCSV (case subSpec sub of None \<Rightarrow> [] | Some sp \<Rightarrow> spStartingCSV sp))
                       (bcRemediation OSSM34Check) ImpactBlocking
               | Inl e \<Rightarrow> failed_condition dr ct ReasonVersionIncompatible
                   (buildDriftMessage (sv_String sv v) installedCSV (case subSpec sub of None \<Rightarrow> [] | Some sp \<Rightarrow> spStartingCSV sp))
                   (bcRemediation OSSM34Check) ImpactBlocking)
            else
              set_new_condition dr ct ConditionTrue
                [WithReason ReasonVersionCompatible,
                 WithMessage (''servicemeshoperator3 is installed at '' @ sv_String sv v @ '', which is not affected by the OSSM v3.4 compatibility issue'')])"

definition OSSM34Validate :: "semver_lib \<Rightarrow> (err + ClusterVersionObj) option \<Rightarrow> lint_target \<Rightarrow> checked" where
  "OSSM34Validate sv cv t =
     (let dr = BaseNewResult OSSM34Check in
      case rdOLM (tgtClient t) of
        None \<Rightarrow>
          set_new_condition dr ConditionTypeCompatible ConditionTrue
            [WithReason ReasonCheckSkipped, WithMessage ''OLM client not available; skipping OSSM v3 compatibility check'']
      | Some (Inl e) \<Rightarrow> chk_error (wrapf ''listing subscriptions'' e)
      | Some (Inr subs) \<Rightarrow>
          (case findSubscription subs of
             None \<Rightarrow>
               set_new_condition dr ConditionTypeCompatible ConditionTrue
                 [WithReason ReasonRequirementsMet,
                  WithMessage ''servicemeshoperator3 subscription not found; OSSM v3 is not installed via OLM'']
           | Some sub \<Rightarrow> ossm34_installed sv cv dr sub))"

section \<open>Orphaned definitions (\<open>orphanedcrds.go\<close>)\<close>

definition OrphanedCRDsCheck :: BaseCheck where
  "OrphanedCRDsCheck = \<lparr>bcGroup = ''dependency'', bcKind = ''orphaned-sm2-crds'', bcType = ''readiness'',
     bcID = ''dependencies.orphaned-sm2-crds.readiness'',
     bcName = ''Dependencies :: Orphaned SM2 CRDs :: Readiness'',
     bcDescription = ''Detects orphaned *.istio.io CRDs from Service Mesh v2 that block Data Science Gateway post-upgrade'',
     bcRemediation = (''Delete the orphaned CRDs before upgrading: oc get crd -l maistra-version -o name | grep -E '' @ [CHR 0x27, CHR 0x5C] @ ''.istio'' @ [CHR 0x5C] @ ''.io$' | xargs oc delete crd'')\<rparr>"

definition OrphanedCRDsCanApply :: "lint_target \<Rightarrow> err + bool" where
  "OrphanedCRDsCanApply t = Inr (upgrade_2x_3x t)"

definition filterIstioCRDs :: "json list \<Rightarrow> json list" where
  "filterIstioCRDs crds = filter (\<lambda>c. has_suffix (u_name c) ''.istio.io'') crds"

definition isSM2OperatorInstalled :: "reader \<Rightarrow> err + bool" where
  "isSM2OperatorInstalled r =
     (case rdOLM r of
        None \<Rightarrow> Inr False
      | Some (Inl e) \<Rightarrow> Inl (wrapf ''listing subscriptions'' e)
      | Some (Inr subs) \<Rightarrow>
          Inr (list_ex (\<lambda>s. case subSpec s of None \<Rightarrow> False | Some sp \<Rightarrow> spPackage sp = ''servicemeshoperator'') subs))"

definition extractGVR :: "gojq \<Rightarrow> json \<Rightarrow> ResourceType option" where
  "extractGVR gq crd =
     (case Query gq as_string [] crd ''.spec.group'' of Inl e \<Rightarrow> None | Inr g \<Rightarrow>
       (case Query gq as_string [] crd ''.spec.names.plural'' of Inl e \<Rightarrow> None | Inr res \<Rightarrow>
         (case Query gq as_string [] crd ''[.spec.versions[]? | select(.served == true) | .name] | first'' of
            Inl e \<Rightarrow> None
          | Inr ver \<Rightarrow> if ver = [] then None else Some (mk_resource g ver [] res))))"

fun countActiveResources :: "reader \<Rightarrow> json list \<Rightarrow> err + nat" where
  "countActiveResources r [] = Inr 0"
| "countActiveResources r (crd # crds) =
     (case extractGVR (rdGojq r) crd of
        None \<Rightarrow> countActiveResources r crds
      | Some gvr \<Rightarrow>
          (case rdList r gvr list_all_config of
             Inl e \<Rightarrow> Inl (wrapf (''listing resources for CRD '' @ go_quote (u_name crd)) e)
           | Inr items \<Rightarrow> bind_res (countActiveResources r crds) (\<lambda>n. Inr (length items + n))))"

definition remediationOrphaned :: string where
  "remediationOrphaned = bcRemediation OrphanedCRDsCheck"

definition orphaned_condition :: "DiagnosticResult \<Rightarrow> json list \<Rightarrow> err + nat \<Rightarrow> checked" where
  "orphaned_condition dr crds active =
     (let n = length crds in
      case active of
        Inl e \<Rightarrow>
          set_new_condition dr ConditionTypeAvailable ConditionUnknown
            [WithReason ReasonInsufficientData,
             WithMessage (''Found '' @ itoa n @ '' orphaned *.istio.io CRD(s) from Service Mesh v2 but unable to verify whether active custom resources exist: '' @ err_string e @ ''. Manual inspection required before deletion''),
             WithRemediation ''Verify RBAC permissions allow listing custom resources, then re-run the check. Do not delete CRDs until active resource count is confirmed to be zero'',
             WithImpact ImpactBlocking]
      | Inr activeCount \<Rightarrow>
          if activeCount > 0 then
            failed_condition dr ConditionTypeAvailable ReasonDependencyUnavailable
              (''Found '' @ itoa n @ '' orphaned *.istio.io CRD(s) from Service Mesh v2 with '' @ itoa activeCount @ '' active custom resource instance(s) across them. Manual review required before deletion'')
              (''Review and remove active custom resources before deleting the orphaned CRDs. Run: for crd in $(oc get crd -l maistra-version -o custom-columns=NAME:.metadata.name --no-headers | grep -E '' @ [CHR 0x27, CHR 0x5C] @ ''.istio'' @ [CHR 0x5C] @ ''.io$'); do echo \"$crd: $(oc get $crd -A --no-headers 2>/dev/null | wc -l) instances\"; done'')
              ImpactBlocking
          else
            failed_condition dr ConditionTypeAvailable ReasonDependencyUnavailable
              (''Found '' @ itoa n @ '' orphaned *.istio.io CRD(s) from Service Mesh v2 (label '' @ go_quote (''maistra-version'') @ ''): '' @ str_join '', '' (map u_name crds) @ ''. These stale CRDs block the Data Science Gateway post-upgrade'')
              remediationOrphaned ImpactBlocking)"

definition OrphanedCRDsValidate :: "lint_target \<Rightarrow> checked" where
  "OrphanedCRDsValidate t =
     (let r = tgtClient t; dr = BaseNewResult OrphanedCRDsCheck in
      case rdList r rt_CustomResourceDefinition (WithLabelSelector ''maistra-version'' list_all_config) of
        Inl e \<Rightarrow> chk_error (wrapf (''listing CRDs with label '' @ go_quote (''maistra-version'')) e)
      | Inr crds \<Rightarrow>
          (let istioCRDs = filterIstioCRDs crds in
           if istioCRDs = [] then
             set_new_condition dr ConditionTypeAvailable ConditionTrue
               [WithReason ReasonRequirementsMet, WithMessage ''No orphaned Service Mesh v2 *.istio.io CRDs detected'']
           else case isSM2OperatorInstalled r of
               Inl e \<Rightarrow> chk_error (wrapf ''checking SM2 operator subscription'' e)
             | Inr sm2Installed \<Rightarrow>
                 if sm2Installed then
                   set_new_condition dr ConditionTypeAvailable ConditionTrue
                     [WithReason ReasonRequirementsMet,
                      WithMessage (''Service Mesh v2 operator subscription found; *.istio.io CRDs with label '' @ go_quote (''maistra-version'') @ '' are managed by the operator, not orphaned'')]
                 else
                   bind_checked (orphaned_condition dr istioCRDs (countActiveResources r istioCRDs))
                     (\<lambda>dr'. chk_done (AddAllImpactedObjects dr' [(rt_CustomResourceDefinition, istioCRDs)]))))"

section \<open>DataScienceCluster\<close>

record kube_condition =
  kcType :: string
  kcStatus :: string
  kcReason :: string
  kcMessage :: string

type_synonym condition_decoder = "json \<Rightarrow> err + kube_condition"

definition DataScienceClusterReadinessCheck :: BaseCheck where
  "DataScienceClusterReadinessCheck = \<lparr>bcGroup = ''platform'', bcKind = ''dsc'', bcType = ''readiness'',
     bcID = ''platform.dsc.readiness'',
     bcName = ''Platform :: DSC :: Readiness Check'',
     bcDescription = ''Validates that DataScienceCluster is in Ready state'',
     bcRemediation = []\<rparr>"

definition dsc_validateReadyCondition :: "condition_decoder \<Rightarrow> gojq \<Rightarrow> DiagnosticResult \<Rightarrow> json \<Rightarrow> string \<Rightarrow> string \<Rightarrow> checked" where
  "dsc_validateReadyCondition asCond gq dr obj name expectedStatus =
     (case Query gq asCond \<lparr>kcType = [], kcStatus = [], kcReason = [], kcMessage = []\<rparr> obj
         ''.status.conditions // [] | .[] | select(.type == \"Ready\")'' of
        Inl e \<Rightarrow>
          if is_ErrNotFound e then
            blocking_condition dr ConditionTypeReady ReasonInsufficientData (name @ '' resource found but Ready condition is missing'')
          else chk_error (wrapf (''querying '' @ name @ '' ready condition'') e)
      | Inr c \<Rightarrow>
          if kcType c = [] then
            blocking_condition dr ConditionTypeReady ReasonInsufficientData (name @ '' resource found but Ready condition is missing'')
          else if kcStatus c \<noteq> expectedStatus then
            blocking_condition dr ConditionTypeReady ReasonResourceUnavailable
              (name @ '' is not ready (status: '' @ kcStatus c @ '') due to '' @ [CHR 0x27] @ kcMessage c @ [CHR 0x27] @ ''. '' @ name @ '' must be ready before upgrading'')
          else
            set_new_condition dr ConditionTypeReady ConditionTrue
              [WithReason ReasonResourceAvailable, WithMessage (name @ '' is ready'')])"

definition DataScienceClusterReadinessValidate :: "condition_decoder \<Rightarrow> semver_lib \<Rightarrow> lint_target \<Rightarrow> checked" where
  "DataScienceClusterReadinessValidate asCond sv t = DSCRun sv t DataScienceClusterReadinessCheck (\<lambda>dr dsc.
     dsc_validateReadyCondition asCond (rdGojq (tgtClient t)) dr dsc ''DataScienceCluster'' ConditionTrue)"

definition StorageVersionCheck :: BaseCheck where
  "StorageVersionCheck = \<lparr>bcGroup = ''platform'', bcKind = ''dsc'', bcType = ''storage-version'',
     bcID = ''platform.dsc.storage-version'',
     bcName = ''Platform :: DSC :: Storage Version'',
     bcDescription = ''Validates that DataScienceCluster v1 is absent from CRD storedVersions'',
     bcRemediation = ''Run odh migrate run --migration dsc.storage-version.migrate --target-version 3.6.0 before removing v1 from the DataScienceCluster CRD.''\<rparr>"

definition StorageVersionCanApply :: "lint_target \<Rightarrow> err + bool" where
  "StorageVersionCanApply t = Inr (IsVersionAtLeast (TargetVersion t) 3 6)"

definition StorageVersionValidate :: "semver_lib \<Rightarrow> lint_target \<Rightarrow> checked" where
  "StorageVersionValidate sv t =
     (let r = tgtClient t; name = CRDFQN rt_DataScienceCluster in
      case rdGet r rt_CustomResourceDefinition [] name of
        Inl e \<Rightarrow> chk_error (wrapf ''reading DataScienceCluster CRD'' e)
      | Inr None \<Rightarrow> chk_error (NewError (''reading DataScienceCluster CRD '' @ name @ '': no resource returned''))
      | Inr (Some crd) \<Rightarrow>
          (case Query (rdGojq r) as_strings [] crd ''.status.storedVersions'' of
             Inl e \<Rightarrow> chk_error (wrapf ''reading DataScienceCluster storedVersions'' e)
           | Inr storedVersions \<Rightarrow>
               if storedVersions = [] \<or> [] \<in> set storedVersions then
                 chk_error (NewError (''DataScienceCluster CRD '' @ name @ '' has invalid storedVersions''))
               else
                 (let dr = annotate_target sv t (BaseNewResult StorageVersionCheck) in
                  if ''v1'' \<in> set storedVersions then
                    set_new_condition dr ''StorageVersionMigrated'' ConditionFalse
                      [WithReason ReasonMigrationPending,
                       WithMessage ''DataScienceCluster CRD storedVersions contains v1; migrate stored objects before retiring v1'',
                       WithImpact ImpactBlocking, WithRemediation (bcRemediation StorageVersionCheck)]
                  else
                    set_new_condition dr ''StorageVersionMigrated'' ConditionTrue
                      [WithReason ReasonNoMigrationRequired,
                       WithMessage ''DataScienceCluster CRD storedVersions does not contain v1''])))"

section \<open>DSCInitialization\<close>

abbreviation monitoringNotManagedExpr :: string where
  "monitoringNotManagedExpr \<equiv> ''.spec.monitoring.managementState != \"Managed\"''"
abbreviation metricsUnconfiguredExpr :: string where
  "metricsUnconfiguredExpr \<equiv> ''.spec.monitoring.metrics.storage == null and (.spec.monitoring.metrics.exporters | length) == 0''"
abbreviation tracesUnconfiguredExpr :: string where
  "tracesUnconfiguredExpr \<equiv> ''.spec.monitoring.traces.storage == null and (.spec.monitoring.traces.exporters | length) == 0''"

definition isExpectedUnconfiguredMonitoringFalse :: "gojq \<Rightarrow> kube_condition \<Rightarrow> json \<Rightarrow> bool" where
  "isExpectedUnconfiguredMonitoringFalse gq c obj =
     (let ty = kcType c; notManaged = Matches gq obj monitoringNotManagedExpr;
          noMetrics = Matches gq obj metricsUnconfiguredExpr; noTraces = Matches gq obj tracesUnconfiguredExpr in
      if kcStatus c \<noteq> ConditionFalse then False
      else if ty \<in> {''MonitoringStackAvailable'', ''ThanosQuerierAvailable'', ''NodeMetricsEndpointAvailable'',
          ''PersesPrometheusDataSourceAvailable''} then notManaged \<or> noMetrics
      else if ty \<in> {''TempoAvailable'', ''PersesTempoDataSourceAvailable''} then notManaged \<or> noTraces
      else if ty \<in> {''OpenTelemetryCollectorAvailable'', ''PersesAvailable''} then notManaged \<or> noMetrics \<and> noTraces
      else if ty = ''AlertingAvailable'' then notManaged \<or> Matches gq obj ''.spec.monitoring.alerting == null''
      else if ty = ''MonitoringReady'' then kcReason c = ''Removed'' \<and> notManaged
      else False)"

definition isExpectedCapabilityServiceMeshFalse :: "kube_condition \<Rightarrow> bool" where
  "isExpectedCapabilityServiceMeshFalse c =
     (kcType c = ''CapabilityServiceMesh'' \<and> kcStatus c = ConditionFalse \<and> (kcReason c = ''Removed'' \<or> kcReason c = ''Unmanaged''))"

definition isExpectedCapabilityServiceMeshAuthFalse :: "kube_condition \<Rightarrow> bool" where
  "isExpectedCapabilityServiceMeshAuthFalse c =
     (kcType c = ''CapabilityServiceMeshAuthorization'' \<and> kcStatus c = ConditionFalse \<and> kcReason c \<noteq> ''NotReady'')"

definition unhappy :: "gojq \<Rightarrow> json \<Rightarrow> kube_condition \<Rightarrow> bool" where
  "unhappy gq obj c =
     (let expectFalse = (kcType c = ''Progressing'' \<or> kcType c = ''Degraded'') in
      (expectFalse \<and> kcStatus c \<noteq> ConditionFalse \<or> \<not> expectFalse \<and> kcStatus c \<noteq> ConditionTrue)
      \<and> \<not> (isExpectedCapabilityServiceMeshFalse c \<or> isExpectedCapabilityServiceMeshAuthFalse c
            \<or> isExpectedUnconfiguredMonitoringFalse gq c obj))"

fun decode_all :: "condition_decoder \<Rightarrow> json list \<Rightarrow> err + kube_condition list" where
  "decode_all asCond [] = Inr []"
| "decode_all asCond (v # vs) = bind_res (asCond v) (\<lambda>c. bind_res (decode_all asCond vs) (\<lambda>cs. Inr (c # cs)))"

definition as_conditions :: "condition_decoder \<Rightarrow> json \<Rightarrow> err + kube_condition list" where
  "as_conditions asCond v = (case v of JArr vs \<Rightarrow> decode_all asCond vs | _ \<Rightarrow> Inl (unmarshal_error ''[]v1.Condition'' v))"

definition collectUnhappyDSCIConditionMessages :: "condition_decoder \<Rightarrow> gojq \<Rightarrow> json \<Rightarrow> err + string list" where
  "collectUnhappyDSCIConditionMessages asCond gq obj =
     (case Query gq (as_conditions asCond) [] obj ''.status.conditions'' of
        Inl e \<Rightarrow> if is_ErrNotFound e then Inr [] else Inl (wrapf ''querying DSCI conditions'' e)
      | Inr cs \<Rightarrow> Inr (map (\<lambda>c. kcType c @ '': '' @ kcMessage c) (filter (\<lambda>c. unhappy gq obj c \<and> kcMessage c \<noteq> []) cs)))"

definition validatePhaseReady :: "condition_decoder \<Rightarrow> gojq \<Rightarrow> DiagnosticResult \<Rightarrow> json \<Rightarrow> string \<Rightarrow> checked" where
  "validatePhaseReady asCond gq dr obj name =
     (case Query gq as_string [] obj ''.status.phase'' of
        Inl e \<Rightarrow>
          if is_ErrNotFound e then
            blocking_condition dr ConditionTypeReady ReasonInsufficientData (name @ '' resource found but phase field is missing'')
          else chk_error (wrapf (''querying '' @ name @ '' phase'') e)
      | Inr phase \<Rightarrow>
          if phase = [] then
            blocking_condition dr ConditionTypeReady ReasonInsufficientData (name @ '' resource found but phase is empty'')
          else case collectUnhappyDSCIConditionMessages asCond gq obj of
              Inl e \<Rightarrow> chk_error (wrapf (''collecting conditions from '' @ name) e)
            | Inr msgs \<Rightarrow>
                if phase \<noteq> ''Ready'' then
                  blocking_condition dr ConditionTypeReady ReasonResourceUnavailable
                    ((name @ '' is not ready (phase: '' @ phase @ ''). '' @ name @ '' must be ready before upgrading'')
                     @ (if msgs \<noteq> [] then ''. Conditions: '' @ str_join ''; '' msgs else []))
                else if msgs \<noteq> [] then
                  blocking_condition dr ConditionTypeReady ReasonResourceUnavailable
                    (name @ '' phase is Ready but some conditions are not expected. Conditions: '' @ str_join ''; '' msgs)
                else
                  set_new_condition dr ConditionTypeReady ConditionTrue
                    [WithReason ReasonResourceAvailable, WithMessage (name @ '' is ready'')])"

definition DSCInitializationReadinessCheck :: BaseCheck where
  "DSCInitializationReadinessCheck = \<lparr>bcGroup = ''platform'', bcKind = ''dsci'', bcType = ''readiness'',
     bcID = ''platform.dsci.readiness'',
     bcName = ''Platform :: DSCI :: Readiness Check'',
     bcDescription = ''Validates that DSCInitialization is in Ready state before upgrading to RHOAI 3.x'',
     bcRemediation = []\<rparr>"

definition DSCInitializationReadinessValidate :: "condition_decoder \<Rightarrow> semver_lib \<Rightarrow> lint_target \<Rightarrow> checked" where
  "DSCInitializationReadinessValidate asCond sv t = DSCIRun sv t DSCInitializationReadinessCheck (\<lambda>dr dsci.
     validatePhaseReady asCond (rdGojq (tgtClient t)) dr dsci ''DSCInitialization'')"

section \<open>Lemmas\<close>

lemma platform_bases_ok [simp]:
  "base_ok CertManagerCheck" "base_ok OpenShiftCheck" "base_ok SharedOSSMCheck" "base_ok SharedServerlessCheck"
  "base_ok ServiceMeshCheck" "base_ok OSSM34Check" "base_ok OrphanedCRDsCheck" "base_ok DataScienceClusterReadinessCheck"
  "base_ok StorageVersionCheck" "base_ok DSCInitializationReadinessCheck"
  by (simp_all add: base_ok_def CertManagerCheck_def OpenShiftCheck_def SharedOSSMCheck_def SharedServerlessCheck_def
      ServiceMeshCheck_def OSSM34Check_def OrphanedCRDsCheck_def DataScienceClusterReadinessCheck_def StorageVersionCheck_def
      DSCInitializationReadinessCheck_def)

lemma failed_condition_ok:
  "dr_ok dr \<Longrightarrow> ct \<noteq> [] \<Longrightarrow> reason \<noteq> [] \<Longrightarrow> i \<in> {ImpactProhibited, ImpactBlocking, ImpactAdvisory} \<Longrightarrow>
     checked_ok (failed_condition dr ct reason msg w i)"
  unfolding failed_condition_def by (intro set_new_condition_ok) (auto simp: build_simps)

lemma remediation_ok: "dr_ok dr \<Longrightarrow> ct \<noteq> [] \<Longrightarrow> reason \<noteq> [] \<Longrightarrow>
    checked_ok (set_new_condition dr ct ConditionFalse [WithReason reason, WithMessage m, WithRemediation w])"
  by (intro set_new_condition_ok built_ok_False(2))

lemma unknown_ok:
  "dr_ok dr \<Longrightarrow> ct \<noteq> [] \<Longrightarrow> reason \<noteq> [] \<Longrightarrow>
     checked_ok (set_new_condition dr ct ConditionUnknown [WithReason reason, WithMessage m])"
  "dr_ok dr \<Longrightarrow> ct \<noteq> [] \<Longrightarrow> reason \<noteq> [] \<Longrightarrow>
     checked_ok (set_new_condition dr ct ConditionUnknown [WithReason reason, WithMessage m, WithRemediation w, WithImpact ImpactBlocking])"
  by (intro set_new_condition_ok; simp add: build_simps)+

lemmas outcome_ok = condition_ok failed_condition_ok remediation_ok unknown_ok

lemma AddAllImpactedObjects_ok:
  "dr_ok dr \<Longrightarrow> dr_ok (AddAllImpactedObjects dr es) \<and> Conditions (AddAllImpactedObjects dr es) = Conditions dr"
  unfolding AddAllImpactedObjects_def
  by (induction es arbitrary: dr) (auto simp: dr_ok_AddImpactedObjects)

lemma shared_usage_ok: "base_ok b \<Longrightarrow> checked_ok (shared_usage t b wk types m w)"
  unfolding shared_usage_def Let_def
  by (auto simp: outcome_ok dr_ok_new AddAllImpactedObjects_ok intro!: bind_checked_ok split: sum.split)

lemma dependency_checks_ok:
  "checked_ok (CertManagerValidate sv t)" "checked_ok (OpenShiftValidate sv cv t)" "checked_ok (SharedOSSMValidate t)"
  "checked_ok (SharedServerlessValidate t)"
proof -
  show "checked_ok (CertManagerValidate sv t)" unfolding CertManagerValidate_def
    by (intro OperatorRun_ok) (simp_all add: Operator_def certmanager_condition_def built_ok_True built_ok_impact)
  show "checked_ok (OpenShiftValidate sv cv t)" unfolding OpenShiftValidate_def
    by (simp add: Let_def outcome_ok dr_ok_new split: sum.split)
qed (simp_all add: SharedOSSMValidate_def SharedServerlessValidate_def shared_usage_ok)

lemma extractEnvVar_ok: "dr_ok dr \<Longrightarrow> extractEnvVar t deploy dr n = Inl r \<Longrightarrow> checked_ok r"
  by (auto simp: extractEnvVar_def outcome_ok split: sum.splits if_splits)

lemma validateCatalogCSV_ok: "dr_ok dr \<Longrightarrow> checked_ok (validateCatalogCSV t dr csv ch v)"
  unfolding validateCatalogCSV_def Let_def by (auto simp: outcome_ok split: sum.split list.split)

lemma ServiceMesh_ok: "checked_ok (ServiceMeshValidate t)"
proof -
  have dr: "dr_ok (BaseNewResult ServiceMeshCheck)" by (intro dr_ok_new) simp
  then show ?thesis unfolding ServiceMeshValidate_def Let_def
    by (auto simp: outcome_ok validateCatalogCSV_ok dest: extractEnvVar_ok split: sum.split option.split)
qed

lemma OSSM34_ok: "checked_ok (OSSM34Validate sv cv t)"
proof -
  have dr: "dr_ok (BaseNewResult OSSM34Check)" by (intro dr_ok_new) simp
  then have "checked_ok (ossm34_installed sv cv (BaseNewResult OSSM34Check) sub)" for sub
    unfolding ossm34_installed_def Let_def by (auto simp: outcome_ok split: sum.split)
  with dr show ?thesis unfolding OSSM34Validate_def Let_def by (auto simp: outcome_ok split: sum.split option.split)
qed

lemma OrphanedCRDs_ok: "checked_ok (OrphanedCRDsValidate t)"
proof -
  have dr: "dr_ok (BaseNewResult OrphanedCRDsCheck)" by (intro dr_ok_new) simp
  then have "checked_ok (orphaned_condition (BaseNewResult OrphanedCRDsCheck) crds n)" for crds n
    unfolding orphaned_condition_def Let_def by (auto simp: outcome_ok split: sum.split)
  with dr show ?thesis unfolding OrphanedCRDsValidate_def Let_def
    by (auto simp: outcome_ok AddAllImpactedObjects_ok intro!: bind_checked_ok split: sum.split)
qed

lemma platform_checks_ok:
  "checked_ok (DataScienceClusterReadinessValidate asCond sv t)" "checked_ok (StorageVersionValidate sv t)"
  "checked_ok (DSCInitializationReadinessValidate asCond sv t)"
proof -
  show "checked_ok (DataScienceClusterReadinessValidate asCond sv t)"
    unfolding DataScienceClusterReadinessValidate_def DSCRun_def dsc_validateReadyCondition_def
    by (intro singleton_run_ok) (simp_all add: outcome_ok split: sum.split)
  have "dr_ok (annotate_target sv t (BaseNewResult StorageVersionCheck))" by (intro check_ok) simp
  then show "checked_ok (StorageVersionValidate sv t)" unfolding StorageVersionValidate_def Let_def
    by (auto simp: outcome_ok split: sum.split option.split)
  show "checked_ok (DSCInitializationReadinessValidate asCond sv t)"
    unfolding DSCInitializationReadinessValidate_def DSCIRun_def validatePhaseReady_def
    by (intro singleton_run_ok) (auto simp: outcome_ok split: sum.split)
qed

lemma set_new_condition_done:
  "built_ok (NewCondition ct st opts) \<Longrightarrow> \<exists>c. set_new_condition dr ct st opts = chk_done (SetCondition dr c) \<and> cond_ok c"
  by (auto simp: built_ok_def set_new_condition_def)

lemma DataIntegrity_ok: "checked_ok (DataIntegrityValidate sv t)"
proof -
  have dr: "dr_ok (annotate_target sv t (BaseNewResult DataIntegrityCheck))"
    by (intro check_ok) (simp add: base_ok_def DataIntegrityCheck_def)
  have imp: "dr_ok d \<Longrightarrow> Conditions d \<noteq> [] \<Longrightarrow> dr_ok (populateImpactedObjects d vs) \<and> Conditions (populateImpactedObjects d vs) \<noteq> []" for d vs
    by (simp add: populateImpactedObjects_def dr_ok_def)
  show ?thesis unfolding DataIntegrityValidate_def Let_def using dr
    by (auto simp: dr_ok_annotate outcome_ok imp intro!: bind_checked_ok split: sum.split)
qed

lemmas all_checks_ok = removal_checks_ok completed_checks_ok kserve_checks_ok readiness_checks_ok wva_ok kueue_checks_ok maas_ok
  dashboard_checks_ok dependency_checks_ok ServiceMesh_ok OSSM34_ok OrphanedCRDs_ok platform_checks_ok DataIntegrity_ok

section \<open>Properties\<close>

text \<open>
  When the check of the \<open>DSCInitialization\<close> returns a result on a cluster that has one with readable
  conditions, it passes exactly if the phase is Ready and every unexpected condition has an empty message, and
  else it blocks: a condition in an unexpected state that carries no message is not reported.
\<close>

theorem DSCI_readiness_passes:
  assumes "GetDSCInitialization (tgtClient t) = Inr dsci"
    and "Query (rdGojq (tgtClient t)) (as_conditions asCond) [] dsci ''.status.conditions'' = Inr cs"
    and "DSCInitializationReadinessValidate asCond sv t = Inr (Inr dr)"
  shows "GetImpact dr = (if Query (rdGojq (tgtClient t)) as_string [] dsci ''.status.phase'' = Inr ''Ready''
      \<and> (\<forall>c\<in>set cs. unhappy (rdGojq (tgtClient t)) dsci c \<longrightarrow> kcMessage c = []) then ImpactNone else ImpactBlocking)"
proof -
  let ?gq = "rdGojq (tgtClient t)"
  let ?dr = "annotate_target sv t (BaseNewResult DSCInitializationReadinessCheck)"
  let ?msgs = "map (\<lambda>c. kcType c @ '': '' @ kcMessage c) (filter (\<lambda>c. unhappy ?gq dsci c \<and> kcMessage c \<noteq> []) cs)"
  have conds: "Conditions ?dr = []"
    by (simp add: annotate_target_def BaseNewResult_def NewResult_def split: option.split)
  have msgs: "collectUnhappyDSCIConditionMessages asCond ?gq dsci = Inr ?msgs"
    using assms(2) by (simp add: collectUnhappyDSCIConditionMessages_def)
  have none: "?msgs = [] \<longleftrightarrow> (\<forall>c\<in>set cs. unhappy ?gq dsci c \<longrightarrow> kcMessage c = [])"
    by (auto simp: filter_empty_conv)
  have block: "blocking_condition ?dr ConditionTypeReady r m = Inr (Inr d) \<Longrightarrow> GetImpact d = ImpactBlocking" for r m d
    using conds by (auto simp: blocking_condition_def set_new_condition_def build_simps SetCondition_def GetImpact_def chk_done_def)
  have pass: "set_new_condition ?dr ConditionTypeReady ConditionTrue [WithReason r, WithMessage m] = Inr (Inr d) \<Longrightarrow> GetImpact d = ImpactNone" for r m d
    using conds by (auto simp: set_new_condition_def build_simps SetCondition_def GetImpact_def chk_done_def)
  have run: "validatePhaseReady asCond ?gq ?dr dsci ''DSCInitialization'' = Inr (Inr dr)"
    using assms(1,3) by (simp add: DSCInitializationReadinessValidate_def DSCIRun_def singleton_run_def)
  show ?thesis
  proof (cases "Query ?gq as_string [] dsci ''.status.phase''")
    case (Inl e)
    then show ?thesis using run by (auto simp: validatePhaseReady_def chk_error_def split: if_splits intro!: block)
  next
    case (Inr phase)
    then show ?thesis
      using run unfolding validatePhaseReady_def Inr sum.case msgs none [symmetric]
      by (auto split: if_splits simp del: map_is_Nil_conv intro!: block pass)
  qed
qed

definition degraded_queries :: gojq where
  "degraded_queries = \<lparr>gqParse = \<lambda>q. None,
     gqRun = \<lambda>q v. Some (Inr (if q = ''.status.phase'' then JStr ''Ready'' else if q = ''.status.conditions'' then JArr [JNull] else JNull))\<rparr>"

definition degraded_target :: lint_target where
  "degraded_target = \<lparr>tgtClient = sample_reader degraded_queries (\<lambda>rt. [JObj []]), CurrentVersion = None, TargetVersion = None,
     tgtIO = False, tgtDebug = False\<rparr>"

definition degraded_condition :: condition_decoder where
  "degraded_condition v = Inr \<lparr>kcType = ''Degraded'', kcStatus = ConditionTrue, kcReason = ''Failed'', kcMessage = []\<rparr>"

definition degraded_result :: "DiagnosticResult option" where
  "degraded_result = (case DSCInitializationReadinessValidate degraded_condition sample_semver degraded_target of
     Inr (Inr dr) \<Rightarrow> Some dr | _ \<Rightarrow> None)"

lemma degraded_returns: "degraded_result \<noteq> None"
  by code_simp

theorem DSCI_readiness_passes_witness:
  "\<exists>dr. DSCInitializationReadinessValidate degraded_condition sample_semver degraded_target = Inr (Inr dr) \<and> GetImpact dr = ImpactNone"
proof -
  obtain dr where dr: "DSCInitializationReadinessValidate degraded_condition sample_semver degraded_target = Inr (Inr dr)"
    using degraded_returns unfolding degraded_result_def by (auto split: sum.splits)
  have "GetDSCInitialization (tgtClient degraded_target) = Inr (JObj [])" by code_simp
  moreover have "Query (rdGojq (tgtClient degraded_target)) (as_conditions degraded_condition) [] (JObj []) ''.status.conditions''
      = Inr [\<lparr>kcType = ''Degraded'', kcStatus = ConditionTrue, kcReason = ''Failed'', kcMessage = []\<rparr>]" by code_simp
  moreover have "Query (rdGojq (tgtClient degraded_target)) as_string [] (JObj []) ''.status.phase'' = Inr ''Ready''" by code_simp
  ultimately have "GetImpact dr = ImpactNone" using DSCI_readiness_passes [OF _ _ dr] by fastforce
  with dr show ?thesis by blast
qed

end
