(* ===== verification/RayProcess.thy ===== *)
theory RayProcess
  imports Unstructured
begin

text \<open>
  Cleaning of RayClusters for version 3: \<open>pkg/migrate/raycluster/constants.go\<close> and \<open>process.go\<close>. The functions
  of the source change an object in place; here they return it. A slice that was never appended to and a
  nil map are \<open>JNull\<close>, the value they are written as and, for every reader of the package, read as.
\<close>

section \<open>Tables (\<open>constants.go\<close>)\<close>

abbreviation SecureNetworkAnnotation :: string where "SecureNetworkAnnotation \<equiv> ''odh.ray.io/secure-trusted-network''"
abbreviation DefaultNamespace :: string where "DefaultNamespace \<equiv> ''default''"

definition TLSEnvVars :: "string list" where
  "TLSEnvVars = [''RAY_USE_TLS'', ''RAY_TLS_SERVER_CERT'', ''RAY_TLS_SERVER_KEY'', ''RAY_TLS_CA_CERT'']"

definition VolumesToRemove :: "string list" where
  "VolumesToRemove = [''ca-vol'', ''proxy-tls-secret'', ''server-cert'']"

definition VolumeMountsToRemove :: "string list" where
  "VolumeMountsToRemove = [''ca-vol'', ''server-cert'']"

definition ContainersToRemove :: "string list" where
  "ContainersToRemove = [''oauth-proxy'']"

definition CodeFlareInitContainers :: "string list" where
  "CodeFlareInitContainers = [''create-cert'']"

definition KueueAnnotationsToStrip :: "string list" where
  "KueueAnnotationsToStrip = [''kueue.x-k8s.io/workload'', ''kueue.x-k8s.io/podset'']"

definition AutogeneratedFields :: "string list" where
  "AutogeneratedFields = [''creationTimestamp'', ''resourceVersion'', ''uid'', ''selfLink'', ''managedFields'',
     ''finalizers'', ''generation'', ''status'', ''workload.codeflare.dev/user'', ''workload.codeflare.dev/userid'',
     ''podSetInfos'']"

section \<open>Removing fields\<close>

text \<open>Arrays directly inside arrays are not entered.\<close>

fun RemoveAutogeneratedFields :: "json \<Rightarrow> json" and
  remove_generated :: "(string, json) gomap \<Rightarrow> (string, json) gomap" and
  remove_generated_items :: "json list \<Rightarrow> json list"
where
  "RemoveAutogeneratedFields (JObj fs) = JObj (remove_generated fs)"
| "RemoveAutogeneratedFields v = v"
| "remove_generated [] = []"
| "remove_generated ((k, v) # fs) =
     (if k \<in> set AutogeneratedFields then remove_generated fs
      else (k, case v of JObj gs \<Rightarrow> RemoveAutogeneratedFields v
                       | JArr xs \<Rightarrow> JArr (remove_generated_items xs)
                       | _ \<Rightarrow> v) # remove_generated fs)"
| "remove_generated_items [] = []"
| "remove_generated_items (x # xs) = RemoveAutogeneratedFields x # remove_generated_items xs"

definition stripFromMap :: "json \<Rightarrow> json" where
  "stripFromMap ann = fold remove_field KueueAnnotationsToStrip ann"

text \<open>The annotations of a group's pod template.\<close>

definition strip_template :: "json \<Rightarrow> json" where
  "strip_template g =
     (case nested_map [''template'', ''metadata''] g of
        None \<Rightarrow> g
      | Some meta \<Rightarrow>
          (case nested_map [''annotations''] meta of
             None \<Rightarrow> g
           | Some ann \<Rightarrow> set_nested [''template'', ''metadata''] (set_nested [''annotations''] (stripFromMap ann) meta) g))"

definition RemoveKueueWorkloadAnnotations :: "json \<Rightarrow> json" where
  "RemoveKueueWorkloadAnnotations rc =
     (let rc = (case nested_map [''metadata'', ''annotations''] rc of
                  None \<Rightarrow> rc
                | Some ann \<Rightarrow> set_nested [''metadata'', ''annotations''] (stripFromMap ann) rc) in
      case nested_map [''spec''] rc of
        None \<Rightarrow> rc
      | Some spec \<Rightarrow>
          (let spec = (case nested_map [''headGroupSpec''] spec of
                         None \<Rightarrow> spec
                       | Some head \<Rightarrow> set_nested [''headGroupSpec''] (strip_template head) spec) in
           case nested_slice [''workerGroupSpecs''] spec of
             None \<Rightarrow> set_nested [''spec''] spec rc
           | Some workers \<Rightarrow>
               set_nested [''spec''] (set_nested [''workerGroupSpecs''] (JArr (map strip_template workers)) spec) rc))"

section \<open>Detecting TLS and OAuth components\<close>

definition item_name :: "json \<Rightarrow> string" where
  "item_name v = nested_string [''name''] v"

definition items_of :: "string \<Rightarrow> json \<Rightarrow> json list" where
  "items_of k v = (case nested_slice [k] v of None \<Rightarrow> [] | Some xs \<Rightarrow> xs)"

definition checkPodSpecForTLSOAuth :: "json \<Rightarrow> string \<Rightarrow> string list" where
  "checkPodSpecForTLSOAuth podSpec g =
     concat (map (\<lambda>c.
        (if item_name c \<in> set ContainersToRemove then [g @ '': oauth-proxy sidecar container''] else [])
        @ (case find (\<lambda>e. item_name e \<in> set TLSEnvVars) (items_of ''env'' c) of
             None \<Rightarrow> [] | Some e \<Rightarrow> [g @ '': TLS env var '' @ item_name e])) (items_of ''containers'' podSpec))
     @ map (\<lambda>c. g @ '': initContainer '' @ [CHR 0x27] @ item_name c @ [CHR 0x27] @ '' (cert generation)'')
         (filter (\<lambda>c. item_name c \<in> set CodeFlareInitContainers) (items_of ''initContainers'' podSpec))
     @ map (\<lambda>v. g @ '': TLS volume '' @ item_name v)
         (filter (\<lambda>v. item_name v \<in> set VolumesToRemove) (items_of ''volumes'' podSpec))"

fun check_workers :: "nat \<Rightarrow> json list \<Rightarrow> string list" where
  "check_workers i [] = []"
| "check_workers i (w # ws) =
     (case nested_map [''template'', ''spec''] w of
        None \<Rightarrow> []
      | Some template \<Rightarrow> checkPodSpecForTLSOAuth template (''worker['' @ itoa i @ '']''))
     @ check_workers (Suc i) ws"

definition tls_components :: "json \<Rightarrow> string list" where
  "tls_components spec =
     (case nested_map [''headGroupSpec''] spec of
        None \<Rightarrow> []
      | Some head \<Rightarrow>
          (if nested_bool [''enableIngress''] head then [''head: enableIngress=true''] else [])
          @ (case nested_map [''template'', ''spec''] head of
               None \<Rightarrow> [] | Some template \<Rightarrow> checkPodSpecForTLSOAuth template ''head''))
     @ check_workers 0 (items_of ''workerGroupSpecs'' spec)"

definition HasTLSOAuthComponents :: "json \<Rightarrow> bool \<times> string list" where
  "HasTLSOAuthComponents rc =
     (case nested_map [''spec''] rc of
        None \<Rightarrow> (False, [])
      | Some spec \<Rightarrow> (length (tls_components spec) > 0, tls_components spec))"

section \<open>Cleaning\<close>

text \<open>The two ways a filtered slice is put back: the field is removed if nothing is left, or set in any case.\<close>

definition keep_or_remove :: "string \<Rightarrow> string list \<Rightarrow> json \<Rightarrow> json" where
  "keep_or_remove k names v =
     (case nested_slice [k] v of
        None \<Rightarrow> v
      | Some xs \<Rightarrow>
          (let kept = filter (\<lambda>x. item_name x \<notin> set names) xs in
           if length kept = 0 then remove_field k v else set_nested [k] (JArr kept) v))"

definition slice_value :: "json list \<Rightarrow> json" where
  "slice_value xs = (if xs = [] then JNull else JArr xs)"

definition cleanContainerTLSComponents :: "json \<Rightarrow> json" where
  "cleanContainerTLSComponents container =
     keep_or_remove ''volumeMounts'' VolumeMountsToRemove (keep_or_remove ''env'' TLSEnvVars container)"

definition cleanPodSpecTLSComponents :: "json \<Rightarrow> json" where
  "cleanPodSpecTLSComponents podSpec =
     (let containers = items_of ''containers'' podSpec;
          removedOAuthProxy = (\<exists>c\<in>set containers. item_name c \<in> set ContainersToRemove);
          p1 = (case nested_slice [''containers''] podSpec of
                  None \<Rightarrow> podSpec
                | Some cs \<Rightarrow> set_nested [''containers'']
                    (slice_value (map cleanContainerTLSComponents (filter (\<lambda>c. item_name c \<notin> set ContainersToRemove) cs))) podSpec);
          p2 = keep_or_remove ''initContainers'' CodeFlareInitContainers p1;
          p3 = (if removedOAuthProxy then remove_field ''serviceAccountName'' p2 else p2) in
      case nested_slice [''volumes''] p3 of
        None \<Rightarrow> p3
      | Some vs \<Rightarrow> set_nested [''volumes''] (slice_value (filter (\<lambda>v. item_name v \<notin> set VolumesToRemove) vs)) p3)"

definition clean_template :: "json \<Rightarrow> json" where
  "clean_template g =
     (case nested_map [''template'', ''spec''] g of
        None \<Rightarrow> g
      | Some template \<Rightarrow> set_nested [''template'', ''spec''] (cleanPodSpecTLSComponents template) g)"

definition clean_worker :: "json \<Rightarrow> json" where
  "clean_worker w = (case w of JObj fs \<Rightarrow> clean_template w | _ \<Rightarrow> JNull)"

definition clean_head :: "json \<Rightarrow> json" where
  "clean_head head =
     clean_template (if nested_bool [''enableIngress''] head
       then set_nested [''enableIngress''] (JBool False) head else head)"

definition clean_spec :: "json \<Rightarrow> json" where
  "clean_spec spec =
     (let spec = (case nested_map [''headGroupSpec''] spec of
                    None \<Rightarrow> spec
                  | Some head \<Rightarrow> set_nested [''headGroupSpec''] (clean_head head) spec) in
      case nested_slice [''workerGroupSpecs''] spec of
        None \<Rightarrow> spec
      | Some workers \<Rightarrow> set_nested [''workerGroupSpecs''] (JArr (map clean_worker workers)) spec)"

definition ProcessRayClusterYAML :: "json \<Rightarrow> json" where
  "ProcessRayClusterYAML rc =
     (case nested_map [''spec''] rc of
        None \<Rightarrow> rc
      | Some spec \<Rightarrow> set_nested [''spec''] (clean_spec spec) rc)"

section \<open>Migration state\<close>

definition some_components :: "string list \<Rightarrow> string" where
  "some_components components = (case components of [] \<Rightarrow> [] | c # cs \<Rightarrow> c @ concat (map (\<lambda>x. '', '' @ x) (take 2 cs)))"

definition IsClusterMigrated :: "json \<Rightarrow> bool \<times> string" where
  "IsClusterMigrated rc =
     (let hasAnnotation = (map_get (u_annotations rc) SecureNetworkAnnotation = ''true'');
          (hasTLS, components) = HasTLSOAuthComponents rc in
      if hasAnnotation \<and> \<not> hasTLS then (True, ''Already migrated (has annotation, no TLS/OAuth components)'')
      else if hasAnnotation \<and> hasTLS then
        (False, if components = [] then ''Partially migrated (has annotation but still has components)''
                else ''Partially migrated (has annotation but still has: '' @ some_components components @ '')'')
      else if \<not> hasAnnotation \<and> \<not> hasTLS then (False, ''Needs annotation only (no TLS/OAuth components found)'')
      else
        (False, if components = [] then ''Needs migration (has TLS/OAuth components)''
                else ''Needs migration (has: '' @ some_components components @ '')''))"


section \<open>Correctness\<close>

text \<open>Each step of the cleaning as an update of one field.\<close>

lemma json_field_set_one: "json_field k (set_nested [k'] x v) = (if k = k' \<and> is_JObj v then Some x else json_field k v)"
  by (cases v) (auto simp: nested_slice_Some)

lemma json_field_remove_field: "json_field k (remove_field k' v) = (if k = k' then None else json_field k v)"
  by (cases v) (auto simp: delete_conv')

lemma nested_slice_JObj: "nested_slice [k] v = Some xs \<Longrightarrow> is_JObj v"
  by (cases v) (auto simp: nested_slice_Some)

lemma items_of_field: "items_of k v = (case json_field k v of Some (JArr xs) \<Rightarrow> xs | _ \<Rightarrow> [])"
  by (auto simp: items_of_def nested_slice_def split: option.splits json.splits)

lemma items_slice_value [simp]: "(case slice_value xs of JArr ys \<Rightarrow> ys | _ \<Rightarrow> []) = xs"
  by (simp add: slice_value_def)

lemma items_of_set: "is_JObj v \<Longrightarrow> items_of k (set_nested [k'] (slice_value xs) v) = (if k = k' then xs else items_of k v)"
  by (cases v) (auto simp: items_of_field slice_value_def)

lemma items_of_keep_or_remove:
  "items_of k (keep_or_remove k' names v) =
     (if k = k' then filter (\<lambda>x. item_name x \<notin> set names) (items_of k v) else items_of k v)"
  by (cases v) (auto simp: keep_or_remove_def items_of_field nested_slice_def Let_def update_conv' delete_conv'
      split: option.splits json.splits)

lemma is_JObj_keep_or_remove [simp]: "is_JObj (keep_or_remove k names v) = is_JObj v"
  by (cases v) (auto simp: keep_or_remove_def Let_def split: option.splits)

lemma items_of_remove_field: "items_of k (remove_field k' v) = (if k = k' then [] else items_of k v)"
  by (simp add: items_of_field json_field_remove_field)

lemma item_name_keep_or_remove: "k \<noteq> ''name'' \<Longrightarrow> item_name (keep_or_remove k names v) = item_name v"
  by (cases v) (auto simp: keep_or_remove_def item_name_def Let_def update_conv' delete_conv' split: option.splits)

lemma item_name_cleanContainer: "item_name (cleanContainerTLSComponents c) = item_name c"
  by (simp add: cleanContainerTLSComponents_def item_name_keep_or_remove)

lemma env_cleanContainer:
  "items_of ''env'' (cleanContainerTLSComponents c) = filter (\<lambda>e. item_name e \<notin> set TLSEnvVars) (items_of ''env'' c)"
  by (simp add: cleanContainerTLSComponents_def items_of_keep_or_remove)

text \<open>The lists of a cleaned pod specification.\<close>

definition set_slice :: "string \<Rightarrow> (json list \<Rightarrow> json list) \<Rightarrow> json \<Rightarrow> json" where
  "set_slice k f v = (case nested_slice [k] v of None \<Rightarrow> v | Some xs \<Rightarrow> set_nested [k] (slice_value (f xs)) v)"

lemma items_of_set_slice: "f [] = [] \<Longrightarrow> items_of k (set_slice k' f v) = (if k = k' then f (items_of k v) else items_of k v)"
  by (cases "nested_slice [k'] v")
    (use items_of_set [of v k k'] nested_slice_JObj [of k' v] in \<open>auto simp: set_slice_def items_of_def\<close>)

lemma is_JObj_set_slice [simp]: "is_JObj (set_slice k f v) = is_JObj v"
  by (cases v) (auto simp: set_slice_def split: option.splits)

lemma is_JObj_remove_field [simp]: "is_JObj (remove_field k v) = is_JObj v"
  by (cases v) auto

lemma cleanPodSpec_steps:
  "cleanPodSpecTLSComponents p =
     set_slice ''volumes'' (filter (\<lambda>v. item_name v \<notin> set VolumesToRemove))
       ((if \<exists>c\<in>set (items_of ''containers'' p). item_name c \<in> set ContainersToRemove
         then remove_field ''serviceAccountName'' else (\<lambda>x. x))
        (keep_or_remove ''initContainers'' CodeFlareInitContainers
          (set_slice ''containers''
             (\<lambda>cs. map cleanContainerTLSComponents (filter (\<lambda>c. item_name c \<notin> set ContainersToRemove) cs)) p)))"
  by (simp add: cleanPodSpecTLSComponents_def set_slice_def Let_def if_distrib [of "\<lambda>f. f _"] cong: if_cong)

lemma cleaned_items:
  "items_of ''containers'' (cleanPodSpecTLSComponents p) =
     map cleanContainerTLSComponents (filter (\<lambda>c. item_name c \<notin> set ContainersToRemove) (items_of ''containers'' p))"
  "items_of ''initContainers'' (cleanPodSpecTLSComponents p) =
     filter (\<lambda>c. item_name c \<notin> set CodeFlareInitContainers) (items_of ''initContainers'' p)"
  "items_of ''volumes'' (cleanPodSpecTLSComponents p) =
     filter (\<lambda>v. item_name v \<notin> set VolumesToRemove) (items_of ''volumes'' p)"
  by (simp_all add: cleanPodSpec_steps items_of_set_slice items_of_keep_or_remove items_of_remove_field)

lemma find_filter_not: "find P (filter (\<lambda>x. \<not> P x) xs) = None"
  by (simp add: find_None_iff)

lemma checkPodSpec_clean: "checkPodSpecForTLSOAuth (cleanPodSpecTLSComponents p) g = []"
  by (auto simp: checkPodSpecForTLSOAuth_def cleaned_items item_name_cleanContainer env_cleanContainer find_filter_not
      split: option.splits)


lemma set_nested_Some_JObj: "nested_map [k] v = Some w \<Longrightarrow> is_JObj v"
  by (cases v) (auto simp: nested_map_Some)

lemma template_spec: "nested_map [''template'', ''spec''] (clean_template g) =
    map_option cleanPodSpecTLSComponents (nested_map [''template'', ''spec''] g)"
proof (cases "nested_map [''template'', ''spec''] g")
  case (Some t)
  then have t: "nested [''template'', ''spec''] g = Some t" and "is_JObj t" by (auto simp: nested_map_Some)
  then have "is_JObj (cleanPodSpecTLSComponents t)" by (cases t) (auto simp: cleanPodSpec_steps is_JObj_set_slice)
  moreover have "nested [''template'', ''spec''] (clean_template g) = Some (cleanPodSpecTLSComponents t)"
    using Some t by (simp add: clean_template_def nested_set_same del: nested.simps set_nested.simps)
  ultimately show ?thesis using Some by (cases "cleanPodSpecTLSComponents t") (auto simp: nested_map_def)
qed (simp add: clean_template_def)


lemma nested_bool_clean_template: "k \<noteq> ''template'' \<Longrightarrow> nested_bool [k] (clean_template g) = nested_bool [k] g"
  by (auto simp: clean_template_def nested_bool_def nested_set_other split: option.split simp del: nested.simps set_nested.simps)

lemma head_clean: "\<not> nested_bool [''enableIngress''] (clean_head head)"
proof -
  have "nested_bool [''enableIngress''] (set_nested [''enableIngress''] (JBool False) v) = False" for v
    by (cases v) (auto simp: nested_bool_def)
  then show ?thesis by (simp add: clean_head_def nested_bool_clean_template del: set_nested.simps)
qed

lemma nested_map_set_other:
  "k \<noteq> k' \<Longrightarrow> nested_map (k # p) (set_nested (k' # q) x v) = nested_map (k # p) v"
  by (simp add: nested_map_def nested_set_other del: nested.simps set_nested.simps)

lemma head_template: "nested_map [''template'', ''spec''] (clean_head head) =
    map_option cleanPodSpecTLSComponents (nested_map [''template'', ''spec''] head)"
  by (simp add: clean_head_def template_spec nested_map_set_other del: set_nested.simps)

lemma worker_template: "nested_map [''template'', ''spec''] (clean_worker w) =
    map_option cleanPodSpecTLSComponents (nested_map [''template'', ''spec''] w)"
  by (cases w) (simp_all add: clean_worker_def template_spec, simp_all add: nested_map_def)

lemma check_workers_clean: "check_workers i (map clean_worker ws) = []"
  by (induction ws arbitrary: i) (auto simp: worker_template checkPodSpec_clean split: option.splits)

lemma is_JObj_clean_template [simp]: "is_JObj (clean_template g) = is_JObj g"
  by (simp add: clean_template_def split: option.split del: set_nested.simps)

lemma is_JObj_clean_head [simp]: "is_JObj (clean_head h) = is_JObj h"
  by (cases h) (auto simp: clean_head_def)

text \<open>The two parts of a cleaned specification.\<close>

lemma clean_spec_head: "nested_map [''headGroupSpec''] (clean_spec s) = map_option clean_head (nested_map [''headGroupSpec''] s)"
proof -
  have "nested_map [''headGroupSpec''] (clean_spec s) = nested_map [''headGroupSpec'']
      (case nested_map [''headGroupSpec''] s of None \<Rightarrow> s | Some h \<Rightarrow> set_nested [''headGroupSpec''] (clean_head h) s)"
    by (auto simp: clean_spec_def Let_def nested_map_set_other simp del: set_nested.simps split: option.split)
  also have "\<dots> = map_option clean_head (nested_map [''headGroupSpec''] s)"
  proof (cases "nested_map [''headGroupSpec''] s")
    case (Some h)
    then have h: "nested [''headGroupSpec''] s = Some h" "is_JObj h" by (auto simp: nested_map_Some)
    then have "nested [''headGroupSpec''] (set_nested [''headGroupSpec''] (clean_head h) s) = Some (clean_head h)"
      by (simp add: nested_set_same del: nested.simps set_nested.simps)
    moreover have "is_JObj (clean_head h)" using h(2) by simp
    ultimately show ?thesis using Some by (cases "clean_head h") (auto simp: nested_map_def)
  qed simp
  finally show ?thesis .
qed

lemma clean_spec_workers: "items_of ''workerGroupSpecs'' (clean_spec s) = map clean_worker (items_of ''workerGroupSpecs'' s)"
proof -
  let ?s = "case nested_map [''headGroupSpec''] s of None \<Rightarrow> s | Some h \<Rightarrow> set_nested [''headGroupSpec''] (clean_head h) s"
  have same: "nested_slice [''workerGroupSpecs''] ?s = nested_slice [''workerGroupSpecs''] s"
    by (auto simp: nested_slice_def nested_set_other simp del: nested.simps set_nested.simps split: option.split)
  show ?thesis
  proof (cases "nested_slice [''workerGroupSpecs''] s")
    case None
    then show ?thesis using same by (simp add: clean_spec_def items_of_def Let_def del: set_nested.simps)
  next
    case (Some ws)
    with same have "nested_slice [''workerGroupSpecs''] ?s = Some ws" by (rule trans)
    then have "nested [''workerGroupSpecs''] ?s = Some (JArr ws)" by (simp only: nested_slice_Some)
    then have "nested [''workerGroupSpecs''] (set_nested [''workerGroupSpecs''] (JArr (map clean_worker ws)) ?s)
        = Some (JArr (map clean_worker ws))"
      by (simp add: nested_set_same del: nested.simps set_nested.simps)
    then show ?thesis using same Some
      by (simp add: clean_spec_def items_of_def Let_def nested_slice_def del: nested.simps set_nested.simps)
  qed
qed

lemma tls_components_clean: "tls_components (clean_spec s) = []"
  by (auto simp: tls_components_def clean_spec_head clean_spec_workers check_workers_clean head_clean head_template
      checkPodSpec_clean split: option.split)

lemma ProcessRayClusterYAML_clean: "HasTLSOAuthComponents (ProcessRayClusterYAML rc) = (False, [])"
proof (cases "nested_map [''spec''] rc")
  case (Some s)
  then have "nested [''spec''] rc = Some s" by (simp add: nested_map_Some del: nested.simps)
  then have "nested [''spec''] (ProcessRayClusterYAML rc) = Some (clean_spec s)"
    using Some by (simp add: ProcessRayClusterYAML_def nested_set_same del: nested.simps set_nested.simps)
  then show ?thesis
    using tls_components_clean [of s]
    by (auto simp: HasTLSOAuthComponents_def nested_map_def simp del: nested.simps split: option.split json.split)
qed (simp add: HasTLSOAuthComponents_def ProcessRayClusterYAML_def)

end
