(* ===== verification/MigrateTask.thy ===== *)
theory MigrateTask
  imports Unstructured MigrateAction Stdin
begin

text \<open>
  What the tasks of migrations share: the cluster they change, the prompt of
  \<open>pkg/util/confirmation/confirmation.go\<close>, and steps of the recorder. The cluster is an argument: the type
  \<open>'s\<close> is its state, with whatever else happens to it while a task waits. \<open>Inl\<close> of a string is a panic.
\<close>

section \<open>The cluster\<close>

text \<open>
  \<open>clReader\<close> is the client as a reader of one state, the other operations are those of the dynamic client,
  with a namespace that is empty for resources without one. \<open>clSleep\<close>: time passes, or the context ends
  first. \<open>clLine\<close> is what reading a line from the input returns.
\<close>

record 's cluster =
  clReader :: "'s \<Rightarrow> reader"
  clGet :: "ResourceType \<Rightarrow> string \<Rightarrow> string \<Rightarrow> 's \<Rightarrow> err + json"
  clList :: "ResourceType \<Rightarrow> ListResourcesConfig \<Rightarrow> 's \<Rightarrow> err + json list"
  clCreate :: "ResourceType \<Rightarrow> string \<Rightarrow> json \<Rightarrow> 's \<Rightarrow> 's \<times> (err + json)"
  clUpdate :: "ResourceType \<Rightarrow> string \<Rightarrow> json \<Rightarrow> 's \<Rightarrow> 's \<times> (err + json)"
  clPatch :: "ResourceType \<Rightarrow> string \<Rightarrow> string \<Rightarrow> string \<Rightarrow> json \<Rightarrow> 's \<Rightarrow> 's \<times> (err + json)"
  clDelete :: "ResourceType \<Rightarrow> string \<Rightarrow> string \<Rightarrow> 's \<Rightarrow> 's \<times> err option"
  clCtx :: "'s \<Rightarrow> err option"
  clSleep :: "int \<Rightarrow> 's \<Rightarrow> 's \<times> err option"
  clLine :: "'s \<Rightarrow> 's \<times> (err + string)"

definition seconds :: "int \<Rightarrow> int" where
  "seconds n = n * 1000000000"

definition Prompt :: "'s cluster \<Rightarrow> 's \<Rightarrow> 's \<times> bool" where
  "Prompt cl s =
     (case clLine cl s of
        (s', Inl _) \<Rightarrow> (s', False)
      | (s', Inr response) \<Rightarrow> (s', trim_space (to_lower response) \<in> {''y'', ''yes''}))"

text \<open>\<open>GroupVersionKind\<close> of an object: group and version.\<close>

definition object_group_version :: "json \<Rightarrow> string \<times> string" where
  "object_group_version v =
     (case split_on CHR ''/'' (nested_string [''apiVersion''] v) of
        [ver] \<Rightarrow> ([], ver)
      | [g, ver] \<Rightarrow> (g, ver)
      | _ \<Rightarrow> ([], []))"

section \<open>Polling\<close>

text \<open>
  The loops \<open>for range maxAttempts\<close>: before each attempt the context is asked, after it the loop sleeps.
  \<open>Inl\<close> is the context's error, \<open>Inr None\<close> that the attempts are used up.
\<close>

fun poll :: "'s cluster \<Rightarrow> int \<Rightarrow> ('s \<Rightarrow> 'a option) \<Rightarrow> nat \<Rightarrow> 's \<Rightarrow> 's \<times> (err + 'a option)" where
  "poll cl interval attempt 0 s = (s, Inr None)"
| "poll cl interval attempt (Suc n) s =
     (case clCtx cl s of
        Some e \<Rightarrow> (s, Inl e)
      | None \<Rightarrow>
          (case attempt s of
             Some a \<Rightarrow> (s, Inr (Some a))
           | None \<Rightarrow>
               (case clSleep cl interval s of
                  (s', Some e) \<Rightarrow> (s', Inl e)
                | (s', None) \<Rightarrow> poll cl interval attempt n s')))"

lemma poll_attempt: "poll cl d f n s = (s', Inr (Some a)) \<Longrightarrow> f s' = Some a"
  by (induction cl d f n s rule: poll.induct) (auto split: option.splits prod.splits)

text \<open>States that only waiting leads to.\<close>

inductive waited :: "'s cluster \<Rightarrow> int \<Rightarrow> 's \<Rightarrow> 's \<Rightarrow> bool" for cl d where
  waited_refl: "waited cl d s s"
| waited_sleep: "waited cl d s s' \<Longrightarrow> clSleep cl d s' = (s'', r) \<Longrightarrow> waited cl d s s''"

lemma waited_trans: "waited cl d b c \<Longrightarrow> waited cl d a b \<Longrightarrow> waited cl d a c"
  by (induction rule: waited.induct) (auto intro: waited.intros)

lemma poll_waited: "poll cl d f n s = (s', r) \<Longrightarrow> waited cl d s s'"
proof (induction cl d f n s rule: poll.induct)
  case (2 cl d f n s)
  then show ?case
    by (auto split: option.splits prod.splits intro: waited.intros waited_trans [OF _ waited_sleep [OF waited_refl]])
qed (simp add: waited_refl)

section \<open>Steps\<close>

text \<open>A step under the root, completed with a status and a message.\<close>

definition record_step :: "int \<Rightarrow> recorder \<Rightarrow> string \<Rightarrow> string \<Rightarrow> StepStatus \<Rightarrow> string \<Rightarrow> recorder" where
  "record_step now r name description status message =
     (case RecChild now r 0 name description of (r', p) \<Rightarrow> RecCompletef r' p status message)"


section \<open>What a task writes\<close>

text \<open>
  An invariant of the cluster's state that some writes keep: waiting and prompting keep it too, so a task
  keeps it if its writes are of that kind.
\<close>

locale guarded_cluster =
  fixes cl :: "'s cluster"
    and I :: "'s \<Rightarrow> bool"
    and creates :: "ResourceType \<Rightarrow> string \<Rightarrow> json \<Rightarrow> bool"
    and updates :: "ResourceType \<Rightarrow> string \<Rightarrow> json \<Rightarrow> bool"
    and patches :: "ResourceType \<Rightarrow> string \<Rightarrow> string \<Rightarrow> string \<Rightarrow> json \<Rightarrow> bool"
    and deletes :: "ResourceType \<Rightarrow> string \<Rightarrow> string \<Rightarrow> bool"
  assumes create: "I s \<Longrightarrow> creates rt ns v \<Longrightarrow> I (fst (clCreate cl rt ns v s))"
    and update: "I s \<Longrightarrow> updates rt ns v \<Longrightarrow> I (fst (clUpdate cl rt ns v s))"
    and patch: "I s \<Longrightarrow> patches rt ns name ty v \<Longrightarrow> I (fst (clPatch cl rt ns name ty v s))"
    and delete: "I s \<Longrightarrow> deletes rt ns name \<Longrightarrow> I (fst (clDelete cl rt ns name s))"
    and sleep: "I s \<Longrightarrow> I (fst (clSleep cl d s))"
    and line: "I s \<Longrightarrow> I (fst (clLine cl s))"
begin

lemma created: "clCreate cl rt ns v s = (s', r) \<Longrightarrow> I s \<Longrightarrow> creates rt ns v \<Longrightarrow> I s'"
  using create [of s rt ns v] by simp

lemma updated: "clUpdate cl rt ns v s = (s', r) \<Longrightarrow> I s \<Longrightarrow> updates rt ns v \<Longrightarrow> I s'"
  using update [of s rt ns v] by simp

lemma patched: "clPatch cl rt ns name ty v s = (s', r) \<Longrightarrow> I s \<Longrightarrow> patches rt ns name ty v \<Longrightarrow> I s'"
  using patch [of s rt ns name ty v] by simp

lemma deleted: "clDelete cl rt ns name s = (s', r) \<Longrightarrow> I s \<Longrightarrow> deletes rt ns name \<Longrightarrow> I s'"
  using delete [of s rt ns name] by simp

lemma slept: "clSleep cl d s = (s', r) \<Longrightarrow> I s \<Longrightarrow> I s'"
  using sleep [of s d] by simp

lemma waiting: "waited cl d s s' \<Longrightarrow> I s \<Longrightarrow> I s'"
  by (induction rule: waited.induct) (auto dest: slept)

lemma polled: "poll cl d f n s = (s', r) \<Longrightarrow> I s \<Longrightarrow> I s'"
  by (rule waiting [OF poll_waited])

lemma prompted: "Prompt cl s = (s', b) \<Longrightarrow> I s \<Longrightarrow> I s'"
  using line [of s] by (cases "clLine cl s"; cases "snd (clLine cl s)") (simp_all add: Prompt_def del: insert_iff)

end

text \<open>A cluster that keeps a record of the writes sent to it.\<close>

datatype cluster_write =
    WCreate ResourceType string json
  | WUpdate ResourceType string json
  | WPatch ResourceType string string string json
  | WDelete ResourceType string string

definition log_write :: "cluster_write \<Rightarrow> ('s \<Rightarrow> 's \<times> 'a) \<Rightarrow> 's \<times> cluster_write list \<Rightarrow> ('s \<times> cluster_write list) \<times> 'a" where
  "log_write w f st = (case f (fst st) of (s', x) \<Rightarrow> ((s', snd st @ [w]), x))"

definition log_pass :: "('s \<Rightarrow> 's \<times> 'a) \<Rightarrow> 's \<times> cluster_write list \<Rightarrow> ('s \<times> cluster_write list) \<times> 'a" where
  "log_pass f st = (case f (fst st) of (s', x) \<Rightarrow> ((s', snd st), x))"

definition logged :: "'s cluster \<Rightarrow> ('s \<times> cluster_write list) cluster" where
  "logged cl = \<lparr>
     clReader = (\<lambda>st. clReader cl (fst st)),
     clGet = (\<lambda>rt ns name st. clGet cl rt ns name (fst st)),
     clList = (\<lambda>rt cfg st. clList cl rt cfg (fst st)),
     clCreate = (\<lambda>rt ns v. log_write (WCreate rt ns v) (clCreate cl rt ns v)),
     clUpdate = (\<lambda>rt ns v. log_write (WUpdate rt ns v) (clUpdate cl rt ns v)),
     clPatch = (\<lambda>rt ns name ty v. log_write (WPatch rt ns name ty v) (clPatch cl rt ns name ty v)),
     clDelete = (\<lambda>rt ns name. log_write (WDelete rt ns name) (clDelete cl rt ns name)),
     clCtx = (\<lambda>st. clCtx cl (fst st)),
     clSleep = (\<lambda>d. log_pass (clSleep cl d)),
     clLine = log_pass (clLine cl)\<rparr>"

definition writes_ok :: "(cluster_write \<Rightarrow> bool) \<Rightarrow> 's \<times> cluster_write list \<Rightarrow> bool" where
  "writes_ok ok st \<longleftrightarrow> (\<forall>w\<in>set (snd st). ok w)"

interpretation lg: guarded_cluster "logged cl" "writes_ok ok" "\<lambda>rt ns v. ok (WCreate rt ns v)"
  "\<lambda>rt ns v. ok (WUpdate rt ns v)" "\<lambda>rt ns name ty v. ok (WPatch rt ns name ty v)" "\<lambda>rt ns name. ok (WDelete rt ns name)"
  for cl ok
  by unfold_locales (auto simp: logged_def log_write_def log_pass_def writes_ok_def split: prod.splits)

end
