(* ===== verification/BackupWriter.thy ===== *)
theory BackupWriter
  imports Unstructured
begin

text \<open>
  Files below a directory the user named, and the writer of resources, \<open>pkg/backup/resource_writer.go\<close>. YAML and failures
  of the file system are arguments.
\<close>

section \<open>Files\<close>

datatype fnode = FFile string | FDir "(string, fnode) gomap"

type_synonym path = "string list"

fun fs_lookup :: "path \<Rightarrow> fnode \<Rightarrow> fnode option" where
  "fs_lookup [] f = Some f"
| "fs_lookup (n # p) (FDir es) = Option.bind (map_of es n) (fs_lookup p)"
| "fs_lookup (n # p) (FFile d) = None"

text \<open>Only in a directory that exists.\<close>

fun fs_put :: "path \<Rightarrow> fnode \<Rightarrow> fnode \<Rightarrow> fnode" where
  "fs_put [] x f = f"
| "fs_put [n] x (FDir es) = FDir (AList.update n x es)"
| "fs_put (n # p) x (FDir es) =
     (case map_of es n of None \<Rightarrow> FDir es | Some f \<Rightarrow> FDir (AList.update n (fs_put p x f) es))"
| "fs_put p x (FFile d) = FFile d"

fun fs_remove :: "path \<Rightarrow> fnode \<Rightarrow> fnode" where
  "fs_remove [] f = f"
| "fs_remove [n] (FDir es) = FDir (AList.delete n es)"
| "fs_remove (n # p) (FDir es) =
     (case map_of es n of None \<Rightarrow> FDir es | Some f \<Rightarrow> FDir (AList.update n (fs_remove p f) es))"
| "fs_remove p (FFile d) = FFile d"

fun is_dir :: "fnode \<Rightarrow> bool" where
  "is_dir (FDir es) = True"
| "is_dir (FFile d) = False"

text \<open>
  \<open>feMkdir\<close>, \<open>feWrite\<close> and \<open>feRead\<close> are errors of the system; a write that fails may leave a file behind.
  \<open>feNotDir\<close> is the error of making a directory where there is a file.
\<close>

record file_env =
  feMkdir :: "path \<Rightarrow> err option"
  feNotDir :: "path \<Rightarrow> err"
  feWrite :: "path \<Rightarrow> string \<Rightarrow> (err \<times> string option) option"
  feRead :: "path \<Rightarrow> err option"
  feEncode :: "json \<Rightarrow> err + string"
  feDecode :: "string \<Rightarrow> err + json"

definition mkdir_all :: "file_env \<Rightarrow> path \<Rightarrow> fnode option \<Rightarrow> err + fnode" where
  "mkdir_all fe p root =
     (case root of
        None \<Rightarrow> (case feMkdir fe p of None \<Rightarrow> Inr (FDir []) | Some e \<Rightarrow> Inl e)
      | Some f \<Rightarrow>
          (case fs_lookup p f of
             Some (FDir es) \<Rightarrow> Inr f
           | Some (FFile d) \<Rightarrow> Inl (feNotDir fe p)
           | None \<Rightarrow> (case feMkdir fe p of None \<Rightarrow> Inr (fs_put p (FDir []) f) | Some e \<Rightarrow> Inl e)))"

section \<open>Writing resources (\<open>resource_writer.go\<close>)\<close>

text \<open>\<open>os.MkdirAll\<close>: every directory on the way; one that was made stays if a later one fails.\<close>

fun mkdir_path :: "file_env \<Rightarrow> path \<Rightarrow> path \<Rightarrow> fnode option \<Rightarrow> fnode option \<times> err option" where
  "mkdir_path fe made [] root = (case mkdir_all fe made root of Inl e \<Rightarrow> (root, Some e) | Inr f \<Rightarrow> (Some f, None))"
| "mkdir_path fe made (n # p) root =
     (case mkdir_all fe made root of
        Inl e \<Rightarrow> (root, Some e)
      | Inr f \<Rightarrow> mkdir_path fe (made @ [n]) p (Some f))"

definition resource_filename :: "ResourceType \<Rightarrow> json \<Rightarrow> string" where
  "resource_filename rt obj = rtResource rt @ (if rtGroup rt \<noteq> [] then ''.'' @ rtGroup rt else []) @ ''-'' @ u_name obj @ ''.yaml''"

definition writeResourceToDir :: "file_env \<Rightarrow> path \<Rightarrow> ResourceType \<Rightarrow> json \<Rightarrow> fnode \<Rightarrow> fnode \<times> err option" where
  "writeResourceToDir fe dir rt obj root =
     (case feEncode fe obj of
        Inl e \<Rightarrow> (root, Some (wrapf ''marshaling to YAML'' e))
      | Inr d \<Rightarrow>
          (case feWrite fe (dir @ [resource_filename rt obj]) d of
             None \<Rightarrow> (fs_put (dir @ [resource_filename rt obj]) (FFile d) root, None)
           | Some (e, None) \<Rightarrow> (root, Some (wrapf ''writing file'' e))
           | Some (e, Some d') \<Rightarrow> (fs_put (dir @ [resource_filename rt obj]) (FFile d') root, Some (wrapf ''writing file'' e))))"

definition WriteResourceFlat :: "file_env \<Rightarrow> path \<Rightarrow> ResourceType \<Rightarrow> json \<Rightarrow> fnode \<Rightarrow> fnode \<times> err option" where
  "WriteResourceFlat = writeResourceToDir"

definition WriteResourceToFile :: "file_env \<Rightarrow> path \<Rightarrow> ResourceType \<Rightarrow> json \<Rightarrow> fnode option \<Rightarrow> fnode option \<times> err option" where
  "WriteResourceToFile fe outputDir rt obj root =
     (let nsDir = outputDir @ [if u_namespace obj = [] then ''cluster-scoped'' else u_namespace obj] in
      case mkdir_path fe [] nsDir root of
        (root', Some e) \<Rightarrow> (root', Some (wrapf ''creating namespace directory'' e))
      | (None, None) \<Rightarrow> (None, None)
      | (Some f, None) \<Rightarrow> (case writeResourceToDir fe nsDir rt obj f of (f', e) \<Rightarrow> (Some f', e)))"

fun WriteResourcesToDir :: "file_env \<Rightarrow> path \<Rightarrow> ResourceType \<Rightarrow> json list \<Rightarrow> fnode option \<Rightarrow> fnode option \<times> err option" where
  "WriteResourcesToDir fe outputDir rt [] root = (root, None)"
| "WriteResourcesToDir fe outputDir rt (x # xs) root =
     (case WriteResourceToFile fe outputDir rt x root of
        (root', Some e) \<Rightarrow> (root', Some (wrapf (''writing resource '' @ u_name x) e))
      | (root', None) \<Rightarrow> WriteResourcesToDir fe outputDir rt xs root')"

text \<open>The documents written to standard output instead.\<close>

definition WriteResourceToStdout :: "file_env \<Rightarrow> json \<Rightarrow> err + string" where
  "WriteResourceToStdout fe obj =
     (case feEncode fe obj of Inl e \<Rightarrow> Inl (wrapf ''marshaling to YAML'' e) | Inr d \<Rightarrow> Inr (''---'' @ nl @ d))"

text \<open>\<open>strings.SplitN(s, ".", 2)\<close>.\<close>

definition parseGVRString :: "string \<Rightarrow> string \<times> string \<times> string" where
  "parseGVRString s =
     (case split_on CHR ''.'' s of
        [] \<Rightarrow> ([], ''v1'', [])
      | [r] \<Rightarrow> ([], ''v1'', r)
      | r # rest \<Rightarrow> (str_join ''.'' rest, ''v1'', r))"

lemma mkdir_path_some: "mkdir_path fe d p root = (root', None) \<Longrightarrow> root' \<noteq> None"
  by (induction fe d p root rule: mkdir_path.induct) (auto split: sum.splits)

end
