(* ===== verification/RayCluster.thy ===== *)
theory RayCluster
  imports RayProcess MigrateTask BackupWriter
begin

text \<open>
  Backup and migration of RayClusters: \<open>backup.go\<close>, \<open>clusters.go\<close>, \<open>list.go\<close>, \<open>migrate.go\<close>, \<open>preflight.go\<close>
  and \<open>route.go\<close> of \<open>pkg/migrate/raycluster\<close>, and the tasks of \<open>pkg/migrate/actions/raycluster\<close>. Progress
  texts are left out. The backup directory is a tree of files; a path is the list of names below the
  directory (or file) that the user named. YAML and failures of the file system are arguments.
\<close>

section \<open>Clusters (\<open>clusters.go\<close>)\<close>

text \<open>A cluster may be nil: \<open>Get\<close> returns nil without an error if permission is missing.\<close>

fun list_namespaces :: "reader \<Rightarrow> bool \<Rightarrow> string list \<Rightarrow> err + json option list" where
  "list_namespaces r strict [] = Inr []"
| "list_namespaces r strict (ns # nss) =
     (case rdList r rt_RayCluster (WithNamespace ns list_all_config) of
        Inl e \<Rightarrow> if strict then Inl (wrapf (''listing RayClusters in namespace '' @ ns) e)
                 else list_namespaces r strict nss
      | Inr found \<Rightarrow> bind_res (list_namespaces r strict nss) (\<lambda>rest. Inr (map Some found @ rest)))"

definition GetClusters :: "reader \<Rightarrow> string \<Rightarrow> string \<Rightarrow> err + json option list" where
  "GetClusters r clusterName namespace =
     (if clusterName \<noteq> [] \<and> namespace = [] then
        Inl (NewError ''namespace must be specified when targeting a specific cluster'')
      else if clusterName \<noteq> [] then
        (case rdGet r rt_RayCluster namespace clusterName of
           Inl e \<Rightarrow> if rdApi r IsNotFound e then Inr []
                    else Inl (wrapf (''getting RayCluster '' @ clusterName @ '' in '' @ namespace) e)
         | Inr rc \<Rightarrow> Inr [rc])
      else if namespace \<noteq> [] then list_namespaces r True [namespace]
      else
        (case rdList r rt_Namespace list_all_config of
           Inl e \<Rightarrow> Inl (wrapf ''listing namespaces'' e)
         | Inr nsList \<Rightarrow> list_namespaces r False (map u_name nsList)))"

definition ns_or_default :: "json \<Rightarrow> string" where
  "ns_or_default rc = (if u_namespace rc = [] then DefaultNamespace else u_namespace rc)"

abbreviation BackupSubdirRHOAI2x :: string where "BackupSubdirRHOAI2x \<equiv> ''rhoai-2.x''"
abbreviation BackupSubdirRHOAI3x :: string where "BackupSubdirRHOAI3x \<equiv> ''rhoai-3.x''"

section \<open>Backup (\<open>backup.go\<close>)\<close>

record PreflightCheck =
  pcName :: string
  pcPassed :: bool
  pcMessage :: string
  pcRequired :: bool
  pcHelp :: string
  pcDetails :: "string list"

definition reportPreflightChecks :: "PreflightCheck list \<Rightarrow> err option" where
  "reportPreflightChecks checks =
     (if \<exists>c\<in>set checks. \<not> pcPassed c \<and> pcRequired c then Some (NewError ''pre-upgrade checks failed'') else None)"

definition ensureBackupDirs :: "file_env \<Rightarrow> fnode option \<Rightarrow> fnode option \<times> err option" where
  "ensureBackupDirs fe root =
     (case mkdir_all fe [] root of
        Inl e \<Rightarrow> (root, Some (wrapf ''create backup directory'' e))
      | Inr f \<Rightarrow>
          (case mkdir_all fe [BackupSubdirRHOAI2x] (Some f) of
             Inl e \<Rightarrow> (Some f, Some (wrapf (''create backup subdirectory '' @ BackupSubdirRHOAI2x) e))
           | Inr f2 \<Rightarrow>
               (case mkdir_all fe [BackupSubdirRHOAI3x] (Some f2) of
                  Inl e \<Rightarrow> (Some f2, Some (wrapf (''create backup subdirectory '' @ BackupSubdirRHOAI3x) e))
                | Inr f3 \<Rightarrow> (Some f3, None))))"

definition writeUnstructuredToFile :: "file_env \<Rightarrow> json \<Rightarrow> path \<Rightarrow> fnode \<Rightarrow> fnode \<times> err option" where
  "writeUnstructuredToFile fe u p root =
     (case feEncode fe u of
        Inl e \<Rightarrow> (root, Some (wrapf ''marshaling YAML'' e))
      | Inr d \<Rightarrow>
          (case feWrite fe p d of
             None \<Rightarrow> (fs_put p (FFile d) root, None)
           | Some (e, None) \<Rightarrow> (root, Some (wrapf (''writing file '' @ str_join ''/'' p) e))
           | Some (e, Some d') \<Rightarrow> (fs_put p (FFile d') root, Some (wrapf (''writing file '' @ str_join ''/'' p) e))))"

definition backup_filename :: "json \<Rightarrow> string" where
  "backup_filename rc = ''raycluster-'' @ u_name rc @ ''-'' @ ns_or_default rc @ ''.yaml''"

definition processed :: "json \<Rightarrow> json" where
  "processed rc = ProcessRayClusterYAML (RemoveAutogeneratedFields rc)"

definition backupCluster :: "file_env \<Rightarrow> json \<Rightarrow> fnode \<Rightarrow> fnode \<times> (err + path)" where
  "backupCluster fe rc root =
     (let f2x = [BackupSubdirRHOAI2x, backup_filename rc]; f3x = [BackupSubdirRHOAI3x, backup_filename rc];
          what = ''backing up '' @ ns_or_default rc @ ''/'' @ u_name rc in
      case writeUnstructuredToFile fe (RemoveAutogeneratedFields rc) f2x root of
        (root1, Some e) \<Rightarrow> (root1, Inl (wrapf (what @ '' (RHOAI 2.x)'') e))
      | (root1, None) \<Rightarrow>
          (case writeUnstructuredToFile fe (processed rc) f3x root1 of
             (root2, Some e) \<Rightarrow> (fs_remove f2x root2, Inl (wrapf (what @ '' (RHOAI 3.x)'') e))
           | (root2, None) \<Rightarrow> (root2, Inr f3x)))"

fun backup_all :: "file_env \<Rightarrow> json option list \<Rightarrow> path list \<Rightarrow> fnode \<Rightarrow> string + fnode \<times> path list \<times> err option" where
  "backup_all fe [] saved root = Inr (root, saved, None)"
| "backup_all fe (None # rcs) saved root = Inl nil_dereference"
| "backup_all fe (Some rc # rcs) saved root =
     (case backupCluster fe rc root of
        (root', Inl e) \<Rightarrow> Inr (root', saved, Some e)
      | (root', Inr f) \<Rightarrow> backup_all fe rcs (saved @ [f]) root')"

definition PreUpgrade ::
  "file_env \<Rightarrow> reader \<Rightarrow> string \<Rightarrow> string \<Rightarrow> string \<Rightarrow> PreflightCheck list \<Rightarrow> fnode option
     \<Rightarrow> string + fnode option \<times> path list \<times> err option" where
  "PreUpgrade fe r outputDir clusterName namespace checks root =
     (if outputDir = [] then Inr (root, [], Some (NewError ''output directory is required''))
      else case reportPreflightChecks checks of
          Some e \<Rightarrow> Inr (root, [], Some e)
        | None \<Rightarrow>
            (case ensureBackupDirs fe root of
               (root', Some e) \<Rightarrow> Inr (root', [], Some e)
             | (root', None) \<Rightarrow>
                 (case GetClusters r clusterName namespace of
                    Inl e \<Rightarrow> Inr (root', [], Some e)
                  | Inr clusters \<Rightarrow>
                      if length clusters = 0 then Inr (root', [], None)
                      else (case root' of
                              None \<Rightarrow> Inr (root', [], None)
                            | Some f \<Rightarrow> bind_res (backup_all fe clusters [] f)
                                (\<lambda>(f', saved, e). Inr (Some f', saved, e))))))"

section \<open>Reading a backup (\<open>migrate.go\<close>)\<close>

text \<open>\<open>filepath.Ext\<close>.\<close>

definition path_ext :: "string \<Rightarrow> string" where
  "path_ext s =
     (let t = takeWhile (\<lambda>c. c \<noteq> CHR ''.'' \<and> c \<noteq> CHR ''/'') (rev s) in
      if length t < length s \<and> rev s ! length t = CHR ''.'' then CHR ''.'' # rev t else [])"

definition isYAMLFile :: "string \<Rightarrow> bool" where
  "isYAMLFile name = (path_ext name = ''.yaml'' \<or> path_ext name = ''.yml'')"

definition collectYAMLFromDir :: "path \<Rightarrow> fnode \<Rightarrow> path list" where
  "collectYAMLFromDir dir root =
     (case fs_lookup dir root of
        Some (FDir es) \<Rightarrow>
          map (\<lambda>(n, f). dir @ [n]) (filter (\<lambda>(n, f). \<not> is_dir f \<and> isYAMLFile n) (sort_slice (\<lambda>a b. fst a < fst b) es))
      | _ \<Rightarrow> [])"

definition collectYAMLFiles :: "string \<Rightarrow> fnode \<Rightarrow> path list" where
  "collectYAMLFiles backupPath root =
     (case root of
        FFile d \<Rightarrow> if isYAMLFile backupPath then [[]] else []
      | FDir es \<Rightarrow>
          (let yamlFiles = collectYAMLFromDir [] root in
           if length yamlFiles = 0 then
             (case fs_lookup [BackupSubdirRHOAI3x] root of
                Some (FDir es') \<Rightarrow> collectYAMLFromDir [BackupSubdirRHOAI3x] root
              | _ \<Rightarrow> yamlFiles)
           else yamlFiles))"

definition parseOneBackupFile :: "file_env \<Rightarrow> fnode \<Rightarrow> path \<Rightarrow> string \<Rightarrow> string \<Rightarrow> (json \<times> path) option" where
  "parseOneBackupFile fe root f clusterName namespace =
     (case (feRead fe f, fs_lookup f root) of
        (None, Some (FFile d)) \<Rightarrow>
          (case feDecode fe d of
             Inl e \<Rightarrow> None
           | Inr obj \<Rightarrow>
               if nested_string [''kind''] obj \<noteq> ''RayCluster'' then None
               else if clusterName \<noteq> [] \<and> u_name obj \<noteq> clusterName then None
               else if namespace \<noteq> [] \<and> ns_or_default obj \<noteq> namespace then None
               else Some (obj, f))
      | _ \<Rightarrow> None)"

definition parseBackupItems :: "file_env \<Rightarrow> fnode \<Rightarrow> path list \<Rightarrow> string \<Rightarrow> string \<Rightarrow> (json \<times> path) list" where
  "parseBackupItems fe root fs clusterName namespace =
     List.map_filter (\<lambda>f. parseOneBackupFile fe root f clusterName namespace) fs"


section \<open>Routes (\<open>route.go\<close>)\<close>

definition query_string :: "gojq \<Rightarrow> json \<Rightarrow> string \<Rightarrow> string" where
  "query_string gq v q = (case Query gq as_string [] v q of Inl _ \<Rightarrow> [] | Inr s \<Rightarrow> s)"

text \<open>A query on a nil object dereferences it.\<close>

definition query_object :: "gojq \<Rightarrow> json option \<Rightarrow> string \<Rightarrow> string + string" where
  "query_object gq v q = (case v of None \<Rightarrow> Inl nil_dereference | Some x \<Rightarrow> Inr (query_string gq x q))"

fun routes_in :: "reader \<Rightarrow> string \<Rightarrow> string list \<Rightarrow> json list" where
  "routes_in r sel [] = []"
| "routes_in r sel (ns # nss) =
     (case rdList r rt_HTTPRoute (WithLabelSelector sel (WithNamespace ns list_all_config)) of
        Inr (x # xs) \<Rightarrow> x # xs
      | _ \<Rightarrow> routes_in r sel nss)"

definition cluster_routes :: "reader \<Rightarrow> string \<Rightarrow> json list" where
  "cluster_routes r sel =
     (case rdList r rt_HTTPRoute (WithLabelSelector sel list_all_config) of
        Inr (x # xs) \<Rightarrow> x # xs
      | _ \<Rightarrow> routes_in r sel [''redhat-ods-applications'', ''opendatahub'', ''default'', ''ray-system''])"

definition route_selector :: "string \<Rightarrow> string \<Rightarrow> string" where
  "route_selector name ns = ''ray.io/cluster-name='' @ name @ '',ray.io/cluster-namespace='' @ ns"

definition GetClusterRoute :: "reader \<Rightarrow> string \<Rightarrow> string \<Rightarrow> string + string" where
  "GetClusterRoute r clusterName namespace =
     (case cluster_routes r (route_selector clusterName namespace) of
        [] \<Rightarrow> Inr []
      | httpRoute # _ \<Rightarrow>
          (let gq = rdGojq r; gatewayName = query_string gq httpRoute ''.spec.parentRefs[0].name'';
               gatewayNS = query_string gq httpRoute ''.spec.parentRefs[0].namespace'' in
           if gatewayName = [] \<or> gatewayNS = [] then Inr []
           else case rdGet r rt_Gateway gatewayNS gatewayName of
               Inl _ \<Rightarrow> Inr []
             | Inr gateway \<Rightarrow>
                 bind_res (query_object gq gateway ''.spec.listeners[0].hostname'') (\<lambda>hostname.
                   let url = (\<lambda>h. if h = [] then [] else ''https://'' @ h @ ''/ray/'' @ namespace @ ''/'' @ clusterName) in
                   if hostname \<noteq> [] then Inr (url hostname)
                   else case rdGet r rt_Route gatewayNS gatewayName of
                       Inl _ \<Rightarrow> Inr []
                     | Inr route \<Rightarrow> bind_res (query_object gq route ''.spec.host'') (\<lambda>h. Inr (url h)))))"

section \<open>Waiting (\<open>migrate.go\<close>)\<close>

abbreviation deletionWaitMaxAttempts :: nat where "deletionWaitMaxAttempts \<equiv> 60"
abbreviation wait_interval :: int where "wait_interval \<equiv> seconds 2"

definition waitForDeletion :: "'s cluster \<Rightarrow> string \<Rightarrow> string \<Rightarrow> 's \<Rightarrow> 's \<times> bool \<times> err option" where
  "waitForDeletion cl ns name s =
     (case poll cl wait_interval
             (\<lambda>s. case clGet cl rt_RayCluster ns name s of
                    Inl e \<Rightarrow> Some (if rdApi (clReader cl s) IsNotFound e then None else Some e)
                  | Inr _ \<Rightarrow> None) deletionWaitMaxAttempts s of
        (s', Inl e) \<Rightarrow> (s', False, Some (wrapf (''context cancelled waiting for deletion of '' @ name) e))
      | (s', Inr None) \<Rightarrow> (s', False, Some (NewError ''timeout waiting for cluster deletion''))
      | (s', Inr (Some None)) \<Rightarrow> (s', True, None)
      | (s', Inr (Some (Some e))) \<Rightarrow> (s', False, Some (wrapf (''checking deletion status of '' @ name) e)))"

definition max_attempts :: "int \<Rightarrow> nat" where
  "max_attempts timeout = nat (max (timeout div wait_interval) 1)"

text \<open>A panic ends the loop; an attempt that yields nothing goes on.\<close>

definition waitForClusterRoute :: "'s cluster \<Rightarrow> string \<Rightarrow> string \<Rightarrow> int \<Rightarrow> 's \<Rightarrow> string + ('s \<times> string)" where
  "waitForClusterRoute cl name ns timeout s =
     (case poll cl wait_interval
             (\<lambda>s. case GetClusterRoute (clReader cl s) name ns of
                    Inl p \<Rightarrow> Some (Inl p)
                  | Inr url \<Rightarrow> if url \<noteq> [] then Some (Inr url) else None) (max_attempts timeout) s of
        (s', Inr (Some (Inl p))) \<Rightarrow> Inl p
      | (s', Inr (Some (Inr url))) \<Rightarrow> Inr (s', url)
      | (s', _) \<Rightarrow> Inr (s', []))"

definition getClusterState :: "reader \<Rightarrow> string \<Rightarrow> string \<Rightarrow> string + string" where
  "getClusterState r name ns =
     (case rdGet r rt_RayCluster ns name of
        Inl _ \<Rightarrow> Inr []
      | Inr rc \<Rightarrow> query_object (rdGojq r) rc ''.status.state'')"

definition waitForClusterReady :: "'s cluster \<Rightarrow> string \<Rightarrow> string \<Rightarrow> int \<Rightarrow> 's \<Rightarrow> string + ('s \<times> string)" where
  "waitForClusterReady cl name ns timeout s =
     (case poll cl wait_interval
             (\<lambda>s. case getClusterState (clReader cl s) name ns of
                    Inl p \<Rightarrow> Some (Inl p)
                  | Inr state \<Rightarrow> if state = ''ready'' then Some (Inr state) else None) (max_attempts timeout) s of
        (s', Inl e) \<Rightarrow> Inr (s', [])
      | (s', Inr (Some (Inl p))) \<Rightarrow> Inl p
      | (s', Inr (Some (Inr state))) \<Rightarrow> Inr (s', state)
      | (s', Inr None) \<Rightarrow> bind_res (getClusterState (clReader cl s') name ns) (\<lambda>state. Inr (s', state)))"

definition clusterStateMessage :: "string \<Rightarrow> string" where
  "clusterStateMessage state =
     (if state = ''ready'' then ''ready'' else if state = [] then ''not yet ready (timeout)'' else state @ '' (not yet ready)'')"

section \<open>Live migration\<close>

record PostUpgradeResult =
  purMigrated :: nat
  purSkipped :: nat
  purFailed :: nat

record migrateOptions =
  mgDryRun :: bool
  mgSkipConfirm :: bool
  mgRouteTimeout :: int

definition no_result :: PostUpgradeResult where
  "no_result = \<lparr>purMigrated = 0, purSkipped = 0, purFailed = 0\<rparr>"

fun analyzeClusters :: "json option list \<Rightarrow> string + (json list \<times> json list)" where
  "analyzeClusters [] = Inr ([], [])"
| "analyzeClusters (None # rcs) = Inl nil_dereference"
| "analyzeClusters (Some rc # rcs) =
     bind_res (analyzeClusters rcs) (\<lambda>(toMigrate, already).
       Inr (if fst (IsClusterMigrated rc) then (toMigrate, rc # already) else (rc # toMigrate, already)))"

definition confirmLiveMigration :: "'s cluster \<Rightarrow> migrateOptions \<Rightarrow> 's \<Rightarrow> 's \<times> bool" where
  "confirmLiveMigration cl opts s = (if mgDryRun opts \<or> mgSkipConfirm opts then (s, True) else Prompt cl s)"

definition is_old_account :: "string \<Rightarrow> string \<Rightarrow> bool" where
  "is_old_account clusterName name = (has_prefix name (clusterName @ ''-oauth-proxy-'') \<and> name \<noteq> clusterName @ ''-oauth-proxy-sa'')"

definition cleanupOldServiceAccounts :: "'s cluster \<Rightarrow> string \<Rightarrow> string \<Rightarrow> 's \<Rightarrow> 's" where
  "cleanupOldServiceAccounts cl namespace clusterName s =
     (case rdList (clReader cl s) rt_ServiceAccount (WithNamespace namespace list_all_config) of
        Inl _ \<Rightarrow> s
      | Inr sas \<Rightarrow> fold (\<lambda>name s. fst (clDelete cl rt_ServiceAccount namespace name s))
                     (filter (is_old_account clusterName) (map u_name sas)) s)"

definition keep_metadata :: "string \<Rightarrow> json \<Rightarrow> json \<Rightarrow> json" where
  "keep_metadata k latest v =
     (let x = nested_string [''metadata'', k] latest in if x \<noteq> [] then set_metadata k x v else v)"

definition cleaned_cluster :: "json \<Rightarrow> json" where
  "cleaned_cluster latest = keep_metadata ''uid'' latest (keep_metadata ''resourceVersion'' latest (processed latest))"

definition wait_and_report :: "'s cluster \<Rightarrow> string \<Rightarrow> string \<Rightarrow> int \<Rightarrow> 's \<Rightarrow> string + ('s \<times> err option)" where
  "wait_and_report cl name ns timeout s =
     bind_res (waitForClusterReady cl name ns timeout s) (\<lambda>(s', state).
     bind_res (waitForClusterRoute cl name ns timeout s') (\<lambda>(s'', url). Inr (s'', None)))"

definition migrateSingleClusterLive :: "'s cluster \<Rightarrow> string \<Rightarrow> string \<Rightarrow> int \<Rightarrow> 's \<Rightarrow> string + ('s \<times> err option)" where
  "migrateSingleClusterLive cl name ns routeTimeout s =
     (case clGet cl rt_RayCluster ns name s of
        Inl e \<Rightarrow> Inr (s, Some (wrapf (''fetching cluster '' @ name) e))
      | Inr latest \<Rightarrow>
          (let s1 = cleanupOldServiceAccounts cl ns name s in
           case clUpdate cl rt_RayCluster ns (cleaned_cluster latest) s1 of
             (s2, Inl e) \<Rightarrow> Inr (s2, Some (wrapf (''updating cluster '' @ name) e))
           | (s2, Inr _) \<Rightarrow> wait_and_report cl name ns routeTimeout s2))"

text \<open>The loops over clusters: the number of those that succeeded and of those that did not.\<close>

fun migrate_each ::
  "(json \<Rightarrow> 's \<Rightarrow> string + ('s \<times> err option)) \<Rightarrow> bool \<Rightarrow> json list \<Rightarrow> 's \<Rightarrow> string + ('s \<times> nat \<times> nat)" where
  "migrate_each one dry [] s = Inr (s, 0, 0)"
| "migrate_each one dry (rc # rcs) s =
     (if dry then bind_res (migrate_each one dry rcs s) (\<lambda>(s', m, f). Inr (s', Suc m, f))
      else bind_res (one rc s) (\<lambda>(s', e).
        bind_res (migrate_each one dry rcs s') (\<lambda>(s'', m, f).
          Inr (s'', if e = None then (Suc m, f) else (m, Suc f)))))"

definition executeLiveMigration ::
  "'s cluster \<Rightarrow> json list \<Rightarrow> migrateOptions \<Rightarrow> 's \<Rightarrow> string + ('s \<times> nat \<times> nat)" where
  "executeLiveMigration cl toMigrate opts s =
     migrate_each (\<lambda>rc. migrateSingleClusterLive cl (u_name rc) (ns_or_default rc) (mgRouteTimeout opts))
       (mgDryRun opts) toMigrate s"

definition postUpgradeLive ::
  "'s cluster \<Rightarrow> string \<Rightarrow> string \<Rightarrow> migrateOptions \<Rightarrow> 's \<Rightarrow> string + ('s \<times> (err + PostUpgradeResult))" where
  "postUpgradeLive cl clusterName namespace opts s =
     (if clusterName \<noteq> [] \<and> namespace = [] then
        Inr (s, Inl (NewError ''namespace must be specified when migrating a specific cluster''))
      else case GetClusters (clReader cl s) clusterName namespace of
          Inl e \<Rightarrow> Inr (s, Inl e)
        | Inr clusters \<Rightarrow>
            if length clusters = 0 then Inr (s, Inr no_result)
            else bind_res (analyzeClusters clusters) (\<lambda>(toMigrate, already).
              let skipped = no_result\<lparr>purSkipped := length already\<rparr> in
              if length toMigrate = 0 then Inr (s, Inr skipped)
              else case confirmLiveMigration cl opts s of
                  (s', False) \<Rightarrow> Inr (s', Inr skipped)
                | (s', True) \<Rightarrow>
                    bind_res (executeLiveMigration cl toMigrate opts s') (\<lambda>(s'', m, f).
                      Inr (s'', Inr (skipped\<lparr>purMigrated := m, purFailed := f\<rparr>)))))"

section \<open>Restoring a backup\<close>

definition confirmBackupRestore :: "'s cluster \<Rightarrow> migrateOptions \<Rightarrow> 's \<Rightarrow> 's \<times> bool" where
  "confirmBackupRestore cl opts s = (if mgDryRun opts \<or> mgSkipConfirm opts then (s, True) else Prompt cl s)"

definition restored_cluster :: "json \<Rightarrow> json" where
  "restored_cluster u = set_metadata ''uid'' [] (set_metadata ''resourceVersion'' [] (RemoveKueueWorkloadAnnotations u))"

definition restoreSingleCluster ::
  "'s cluster \<Rightarrow> json \<Rightarrow> string \<Rightarrow> string \<Rightarrow> int \<Rightarrow> 's \<Rightarrow> string + ('s \<times> err option)" where
  "restoreSingleCluster cl u name ns routeTimeout s =
     (let create = (\<lambda>s. case clCreate cl rt_RayCluster ns (restored_cluster u) s of
             (s', Inl e) \<Rightarrow> Inr (s', Some (wrapf (''creating cluster '' @ name) e))
           | (s', Inr _) \<Rightarrow> wait_and_report cl name ns routeTimeout s') in
      case clGet cl rt_RayCluster ns name s of
        Inl e \<Rightarrow> if rdApi (clReader cl s) IsNotFound e then create s
                 else Inr (s, Some (wrapf (''checking existing cluster '' @ name) e))
      | Inr _ \<Rightarrow>
          (case clDelete cl rt_RayCluster ns name s of
             (s1, Some e) \<Rightarrow> Inr (s1, Some (wrapf ''delete failed'' e))
           | (s1, None) \<Rightarrow>
               (case waitForDeletion cl ns name s1 of
                  (s2, deleted, e) \<Rightarrow> if \<not> deleted then Inr (s2, e) else create s2)))"

definition executeBackupRestore ::
  "'s cluster \<Rightarrow> (json \<times> path) list \<Rightarrow> migrateOptions \<Rightarrow> 's \<Rightarrow> string + ('s \<times> nat \<times> nat)" where
  "executeBackupRestore cl toApply opts s =
     migrate_each (\<lambda>u. restoreSingleCluster cl u (u_name u) (ns_or_default u) (mgRouteTimeout opts))
       (mgDryRun opts) (map fst toApply) s"

definition postUpgradeFromBackup ::
  "'s cluster \<Rightarrow> file_env \<Rightarrow> fnode option \<Rightarrow> string \<Rightarrow> string \<Rightarrow> string \<Rightarrow> migrateOptions \<Rightarrow> 's
     \<Rightarrow> string + ('s \<times> (err + PostUpgradeResult))" where
  "postUpgradeFromBackup cl fe root backupPath clusterName namespace opts s =
     (case root of
        None \<Rightarrow> Inr (s, Inl (NewError (''backup path does not exist: '' @ backupPath)))
      | Some f \<Rightarrow>
          (let yamlFiles = collectYAMLFiles backupPath f;
               toApply = parseBackupItems fe f yamlFiles clusterName namespace in
           if length yamlFiles = 0 then Inr (s, Inr no_result)
           else if length toApply = 0 then Inr (s, Inr no_result)
           else case confirmBackupRestore cl opts s of
               (s', False) \<Rightarrow> Inr (s', Inr no_result)
             | (s', True) \<Rightarrow>
                 bind_res (executeBackupRestore cl toApply opts s') (\<lambda>(s'', m, f).
                   Inr (s'', Inr (no_result\<lparr>purMigrated := m, purFailed := f\<rparr>)))))"

record PostUpgradeOptions =
  puClusterName :: string
  puNamespace :: string
  puDryRun :: bool
  puSkipConfirm :: bool
  puFromBackup :: string
  puRouteTimeout :: int

abbreviation DefaultRouteTimeout :: int where "DefaultRouteTimeout \<equiv> seconds 120"

text \<open>\<open>root\<close> is what the path of the backup names.\<close>

definition PostUpgrade ::
  "'s cluster \<Rightarrow> file_env \<Rightarrow> fnode option \<Rightarrow> PostUpgradeOptions \<Rightarrow> 's \<Rightarrow> string + ('s \<times> (err + PostUpgradeResult))" where
  "PostUpgrade cl fe root popts s =
     (let opts = \<lparr>mgDryRun = puDryRun popts, mgSkipConfirm = puSkipConfirm popts,
        mgRouteTimeout = (if puRouteTimeout popts \<le> 0 then DefaultRouteTimeout else puRouteTimeout popts)\<rparr> in
      if puFromBackup popts \<noteq> [] then
        postUpgradeFromBackup cl fe root (puFromBackup popts) (puClusterName popts) (puNamespace popts) opts s
      else postUpgradeLive cl (puClusterName popts) (puNamespace popts) opts s)"


section \<open>Checks before the upgrade (\<open>preflight.go\<close>)\<close>

definition checkPermissions :: "reader \<Rightarrow> bool \<times> string list" where
  "checkPermissions r =
     (let ns = (case rdList r rt_Namespace list_all_config of Inl _ \<Rightarrow> False | Inr _ \<Rightarrow> True);
          rc = (case rdList r rt_RayCluster list_all_config of Inl _ \<Rightarrow> False | Inr _ \<Rightarrow> True) in
      (ns \<and> rc, [if ns then ''List namespaces: OK'' else ''List namespaces: DENIED'',
                 if rc then ''List RayClusters: OK'' else ''List RayClusters: DENIED'']))"

text \<open>\<open>crd\<close>: the error of getting a definition with the client of API extensions.\<close>

definition checkCertManager :: "(string \<Rightarrow> err option) \<Rightarrow> reader \<Rightarrow> bool \<times> string" where
  "checkCertManager crd r =
     (case crd ''certificates.cert-manager.io'' of
        None \<Rightarrow> (True, ''cert-manager CRD found'')
      | Some e \<Rightarrow>
          if \<not> rdApi r IsNotFound e then (False, ''could not check cert-manager CRD: '' @ err_string e)
          else case rdGet r rt_Namespace [] ''cert-manager'' of
              Inr _ \<Rightarrow> (True, ''cert-manager namespace found'')
            | Inl e \<Rightarrow>
                if \<not> rdApi r IsNotFound e then (False, ''could not check cert-manager namespace: '' @ err_string e)
                else case rdGet r rt_Namespace [] ''openshift-cert-manager'' of
                    Inr _ \<Rightarrow> (True, ''openshift-cert-manager namespace found'')
                  | Inl e \<Rightarrow>
                      if \<not> rdApi r IsNotFound e
                      then (False, ''could not check openshift-cert-manager namespace: '' @ err_string e)
                      else (False, ''cert-manager not detected''))"

text \<open>
  One attempt of the retry: whether it is finished, or the error that ends it. \<open>retry\<close> is
  \<open>wait.ExponentialBackoffWithContext\<close> with the delays of the source.
\<close>

definition patch_attempt :: "'s cluster \<Rightarrow> 's \<Rightarrow> 's \<times> (err + bool)" where
  "patch_attempt cl s =
     (let r = clReader cl s in
      case GetDataScienceCluster r of
        Inl e \<Rightarrow> (s, Inl (wrapf ''getting DataScienceCluster'' e))
      | Inr latest \<Rightarrow>
          (let state = to_lower (query_string (rdGojq r) latest ''.spec.components.codeflare.managementState'') in
           if state = ''removed'' \<or> state = ''unmanaged'' then (s, Inr True)
           else case Transform (rdGojq r) latest (''.spec.components.codeflare.managementState = '' @ go_quote ''Removed'') of
               Inl e \<Rightarrow> (s, Inl (wrapf ''setting codeflare managementState'' e))
             | Inr updated \<Rightarrow>
                 (case object_group_version updated of (g, ver) \<Rightarrow>
                  case clUpdate cl (rt_DataScienceCluster\<lparr>rtGroup := g, rtVersion := ver\<rparr>) [] updated s of
                    (s', Inl e) \<Rightarrow> if rdApi r IsConflict e then (s', Inr False)
                                   else (s', Inl (wrapf ''updating DataScienceCluster'' e))
                  | (s', Inr _) \<Rightarrow> (s', Inr True))))"

type_synonym 's backoff = "('s \<Rightarrow> 's \<times> (err + bool)) \<Rightarrow> 's \<Rightarrow> 's \<times> err option"

definition patchCodeflareToRemoved :: "'s backoff \<Rightarrow> 's cluster \<Rightarrow> 's \<Rightarrow> 's \<times> err option" where
  "patchCodeflareToRemoved retry cl s =
     (case retry (patch_attempt cl) s of (s', e) \<Rightarrow> (s', map_option (wrapf ''patching codeflare to Removed'') e))"

text \<open>A map, or the nil map.\<close>

fun as_object :: "json \<Rightarrow> err + json option" where
  "as_object (JObj fs) = Inr (Some (JObj fs))"
| "as_object v = Inl (unmarshal_error ''map[string]interface {}'' v)"

definition checkCodeflareOperator :: "'s backoff \<Rightarrow> 's cluster \<Rightarrow> bool \<Rightarrow> 's \<Rightarrow> 's \<times> bool \<times> string" where
  "checkCodeflareOperator retry cl autoRemove s =
     (let r = clReader cl s; q = (\<lambda>t. [CHR 0x27] @ t @ [CHR 0x27]) in
      case GetDataScienceCluster r of
        Inl e \<Rightarrow> if rdApi r IsNotFound e then (s, True, ''DataScienceCluster CRD not found (OK to proceed)'')
                 else (s, False, ''Could not check DataScienceCluster: '' @ err_string e)
      | Inr dsc \<Rightarrow>
          (let n = query_string (rdGojq r) dsc ''.metadata.name''; dscName = (if n = [] then ''unknown'' else n) in
           case Query (rdGojq r) as_object None dsc ''.spec.components'' of
             Inl e \<Rightarrow> (s, True, ''No components in DSC (OK to proceed)'')
           | Inr None \<Rightarrow> (s, True, ''No components in DSC (OK to proceed)'')
           | Inr (Some components) \<Rightarrow>
               (case nested_map [''codeflare''] components of
                  None \<Rightarrow> (s, True, ''codeflare not present in DSC '' @ q dscName @ '' (OK to proceed)'')
                | Some codeflare \<Rightarrow>
                    (let state = to_lower (nested_string [''managementState''] codeflare) in
                     if state = ''removed'' then (s, True, ''codeflare is Removed in DSC '' @ q dscName)
                     else if state = ''unmanaged'' then (s, True, ''codeflare is Unmanaged in DSC '' @ q dscName)
                     else if state = ''managed'' then
                       if autoRemove then
                         (case patchCodeflareToRemoved retry cl s of
                            (s', Some e) \<Rightarrow> (s', False, ''failed to auto-remove codeflare in DSC '' @ q dscName @ '': '' @ err_string e)
                          | (s', None) \<Rightarrow> (s', True, ''Set codeflare to Removed in DataScienceCluster '' @ q dscName))
                       else (s, False, ''codeflare is Managed in DSC '' @ q dscName @ '' (should be Removed)'')
                     else if state = [] then
                       (s, True, ''codeflare present without managementState in DSC '' @ q dscName @ '' (OK to proceed)'')
                     else (s, False, ''codeflare is '' @ q state @ '' in DSC '' @ q dscName)))))"

definition codeflare_help :: string where
  "codeflare_help = ''Set codeflare to Removed in your DataScienceCluster before upgrading: oc patch datasciencecluster <name> --type merge -p ''
     @ [CHR 0x27] @ ''{'' @ go_quote ''spec'' @ '':{'' @ go_quote ''components'' @ '':{'' @ go_quote ''codeflare'' @ '':{''
     @ go_quote ''managementState'' @ '':'' @ go_quote ''Removed'' @ ''}}}}'' @ [CHR 0x27]"

definition RunPreUpgradeChecks ::
  "'s backoff \<Rightarrow> (string \<Rightarrow> err option) \<Rightarrow> 's cluster \<Rightarrow> bool \<Rightarrow> 's \<Rightarrow> 's \<times> PreflightCheck list" where
  "RunPreUpgradeChecks retry crd cl autoRemove s =
     (let r = clReader cl s; (permOK, permDetails) = checkPermissions r; (certOK, certMsg) = checkCertManager crd r in
      case checkCodeflareOperator retry cl autoRemove s of
        (s', cfOK, cfMsg) \<Rightarrow> (s', [
          \<lparr>pcName = ''Permissions'', pcPassed = permOK,
            pcMessage = (if permOK then ''All required permissions granted'' else ''Missing permissions''),
            pcRequired = True, pcHelp = [], pcDetails = permDetails\<rparr>,
          \<lparr>pcName = ''cert-manager'', pcPassed = certOK, pcMessage = certMsg, pcRequired = True,
            pcHelp = ''cert-manager is required for RHOAI 3.x. Install it via OperatorHub before proceeding with the upgrade.'',
            pcDetails = []\<rparr>,
          \<lparr>pcName = ''codeflare-operator'', pcPassed = cfOK, pcMessage = cfMsg, pcRequired = True,
            pcHelp = codeflare_help, pcDetails = []\<rparr>]))"

section \<open>Listing (\<open>list.go\<close>)\<close>

record ClusterInfo =
  ciName :: string
  ciNamespace :: string
  ciStatus :: string
  ciNumWorkers :: int
  ciMigrated :: bool
  ciMigrationStatus :: string
  ciComponents :: "string list"

text \<open>\<open>trunc\<close> is the conversion of a decimal to an integer.\<close>

definition clusterInfoFrom :: "gojq \<Rightarrow> (string \<Rightarrow> int) \<Rightarrow> json \<Rightarrow> ClusterInfo" where
  "clusterInfoFrom gq trunc rc =
     (let status = query_string gq rc ''.status.state'' in
      \<lparr>ciName = u_name rc, ciNamespace = ns_or_default rc, ciStatus = (if status = [] then ''unknown'' else status),
       ciNumWorkers = (case nested_slice [''spec'', ''workerGroupSpecs''] rc of
           Some (w # ws) \<Rightarrow> (case json_field ''replicas'' w of Some (JNum n) \<Rightarrow> n | Some (JFloat d) \<Rightarrow> trunc d | _ \<Rightarrow> 0)
         | _ \<Rightarrow> 0),
       ciMigrated = fst (IsClusterMigrated rc), ciMigrationStatus = snd (IsClusterMigrated rc),
       ciComponents = snd (HasTLSOAuthComponents rc)\<rparr>)"

datatype list_format = FormatYAML | FormatJSON | FormatTable

text \<open>What is printed, apart from its layout: the format and the rows; \<open>marshal\<close> is the error of encoding them.\<close>

fun list_infos :: "gojq \<Rightarrow> (string \<Rightarrow> int) \<Rightarrow> json option list \<Rightarrow> string + ClusterInfo list" where
  "list_infos gq trunc [] = Inr []"
| "list_infos gq trunc (None # rcs) = Inl nil_dereference"
| "list_infos gq trunc (Some rc # rcs) =
     bind_res (list_infos gq trunc rcs) (\<lambda>infos. Inr (clusterInfoFrom gq trunc rc # infos))"

definition ListRayClusters ::
  "reader \<Rightarrow> (string \<Rightarrow> int) \<Rightarrow> (list_format \<Rightarrow> ClusterInfo list \<Rightarrow> err option) \<Rightarrow> string \<Rightarrow> string
     \<Rightarrow> string + (err + ClusterInfo list \<times> list_format option)" where
  "ListRayClusters r trunc marshal namespace outputFormat =
     (case GetClusters r [] namespace of
        Inl e \<Rightarrow> Inr (Inl e)
      | Inr clusters \<Rightarrow>
          if length clusters = 0 then Inr (Inr ([], None))
          else bind_res (list_infos (rdGojq r) trunc clusters) (\<lambda>infos.
            if outputFormat = ''yaml'' then
              (case marshal FormatYAML infos of
                 Some e \<Rightarrow> Inr (Inl (wrapf ''marshal YAML'' e)) | None \<Rightarrow> Inr (Inr (infos, Some FormatYAML)))
            else if outputFormat = ''json'' then
              (case marshal FormatJSON infos of
                 Some e \<Rightarrow> Inr (Inl (wrapf ''marshal JSON'' e)) | None \<Rightarrow> Inr (Inr (infos, Some FormatJSON)))
            else if outputFormat = ''table'' \<or> outputFormat = [] then Inr (Inr (infos, Some FormatTable))
            else Inr (Inl (NewError (''unsupported output format: '' @ outputFormat)))))"

section \<open>Tasks (\<open>pkg/migrate/actions/raycluster\<close>)\<close>

record ray_options =
  roClusterName :: string
  roNamespace :: string
  roOutputDir :: string
  roFromBackup :: string
  roRouteTimeout :: int

fun record_checks :: "int \<Rightarrow> nat \<Rightarrow> PreflightCheck list \<Rightarrow> recorder \<Rightarrow> recorder" where
  "record_checks now p [] rc = rc"
| "record_checks now p (c # cs) rc =
     record_checks now p cs (RecRecordf now rc p (pcName c) (pcMessage c)
       (if pcPassed c then StepCompleted else if pcRequired c then StepFailed else StepSkipped))"

text \<open>Both tasks of the prepare phase do this.\<close>

definition runPreflightChecks ::
  "'s backoff \<Rightarrow> (string \<Rightarrow> err option) \<Rightarrow> 's cluster \<Rightarrow> int \<Rightarrow> recorder \<Rightarrow> 's \<Rightarrow> 's \<times> recorder" where
  "runPreflightChecks retry crd cl now rec s =
     (case RecChild now rec 0 ''preflight-checks'' ''Run RayCluster pre-upgrade checks'' of (rec1, p) \<Rightarrow>
      case RunPreUpgradeChecks retry crd cl False s of (s', checks) \<Rightarrow>
        (let rec2 = record_checks now p checks rec1 in
         (s', if \<exists>c\<in>set checks. \<not> pcPassed c \<and> pcRequired c then
                RecCompletef rec2 p StepFailed (''Pre-upgrade checks failed '' @ [CHR 0xE2, CHR 0x80, CHR 0x94] @ '' resolve issues before proceeding'')
              else if \<forall>c\<in>set checks. pcPassed c then RecCompletef rec2 p StepCompleted ''All pre-upgrade checks passed''
              else RecCompletef rec2 p StepCompleted ''Pre-upgrade checks completed with warnings'')))"

definition backupPrepare_Execute ::
  "'s backoff \<Rightarrow> (string \<Rightarrow> err option) \<Rightarrow> 's cluster \<Rightarrow> int \<Rightarrow> recorder \<Rightarrow> 's \<Rightarrow> 's \<times> ActionResult" where
  "backupPrepare_Execute retry crd cl now rec s =
     (case runPreflightChecks retry crd cl now rec s of (s', rec') \<Rightarrow> (s', RecBuild rec' 0))"

definition backup_step :: "int \<Rightarrow> recorder \<Rightarrow> StepStatus \<Rightarrow> string \<Rightarrow> ActionResult" where
  "backup_step now rec st msg =
     RecBuild (record_step now rec ''backup-rayclusters'' ''Backup RayCluster configurations'' st msg) 0"

text \<open>The state is the cluster's and what the output directory names.\<close>

definition backupRun_Execute ::
  "'s backoff \<Rightarrow> (string \<Rightarrow> err option) \<Rightarrow> file_env \<Rightarrow> 's cluster \<Rightarrow> ray_options \<Rightarrow> MigrateTarget \<Rightarrow> int \<Rightarrow> recorder
     \<Rightarrow> 's \<times> fnode option \<Rightarrow> string + (('s \<times> fnode option) \<times> ActionResult)" where
  "backupRun_Execute retry crd fe cl ro target now rec st =
     (let outputDir = (if tgOutputDir target \<noteq> [] then tgOutputDir target else roOutputDir ro);
          step = backup_step now rec; (s, root) = st in
      case RunPreUpgradeChecks retry crd cl (\<not> tgDryRun target) s of
        (s', checks) \<Rightarrow>
          if tgDryRun target then
            Inr ((s', root),
              case GetClusters (clReader cl s') (roClusterName ro) (roNamespace ro) of
                Inl e \<Rightarrow> step StepFailed (''Failed to list RayClusters: '' @ err_string e)
              | Inr clusters \<Rightarrow>
                  if length clusters = 0 then step StepSkipped ''Dry-run: no RayClusters found to backup''
                  else step StepSkipped (''Dry-run: would backup '' @ itoa (length clusters) @ '' RayCluster(s) to '' @ outputDir))
          else
            bind_res (PreUpgrade fe (clReader cl s') outputDir (roClusterName ro) (roNamespace ro) checks root)
              (\<lambda>(root', saved, e). Inr ((s', root'),
                case e of
                  Some e \<Rightarrow> step StepFailed (''Pre-upgrade backup failed: '' @ err_string e)
                | None \<Rightarrow>
                    if length saved = 0 then step StepSkipped ''No RayClusters found to backup''
                    else step StepCompleted (''Backed up '' @ itoa (length saved) @ '' RayCluster(s) to '' @ outputDir))))"

definition migrateRun_Execute ::
  "file_env \<Rightarrow> fnode option \<Rightarrow> 's cluster \<Rightarrow> ray_options \<Rightarrow> MigrateTarget \<Rightarrow> int \<Rightarrow> recorder \<Rightarrow> 's
     \<Rightarrow> string + ('s \<times> ActionResult)" where
  "migrateRun_Execute fe root cl ro target now rec s =
     (let step = (\<lambda>st msg. RecBuild (record_step now rec ''post-upgrade-migration'' ''Migrate RayClusters to RHOAI 3.x'' st msg) 0);
          popts = \<lparr>puClusterName = roClusterName ro, puNamespace = roNamespace ro, puDryRun = tgDryRun target,
            puSkipConfirm = tgSkipConfirm target, puFromBackup = roFromBackup ro, puRouteTimeout = roRouteTimeout ro\<rparr> in
      bind_res (PostUpgrade cl fe root popts s) (\<lambda>(s', res). Inr (s',
        case res of
          Inl e \<Rightarrow> step StepFailed (''Post-upgrade migration failed: '' @ err_string e)
        | Inr res \<Rightarrow>
            if tgDryRun target then
              step StepSkipped (''Dry-run: '' @ itoa (purMigrated res) @ '' would be migrated, '' @ itoa (purSkipped res) @ '' skipped'')
            else step StepCompleted (''Migrated: '' @ itoa (purMigrated res) @ '', Skipped: '' @ itoa (purSkipped res)
              @ '', Failed: '' @ itoa (purFailed res)))))"

end
