(* ===== verification/Canonical.thy ===== *)
theory Canonical
  imports Unstructured
begin

text \<open>
  JSON values up to the order of the keys. A map of Go has no order, while an association list has one: encoders write the keys
  sorted, so what is read back is the value in canonical form. Decoding YAML to an untyped value also turns every integer into a
  floating point number. Both are given by what a number becomes.
\<close>

fun canon_with :: "(int \<Rightarrow> json) \<Rightarrow> json \<Rightarrow> json" where
  "canon_with f (JArr xs) = JArr (map (canon_with f) xs)"
| "canon_with f (JObj fs) = JObj (sort_slice (\<lambda>a b. fst a < fst b) (map (\<lambda>(k, v). (k, canon_with f v)) fs))"
| "canon_with f (JNum n) = f n"
| "canon_with f v = v"

abbreviation canon :: "json \<Rightarrow> json" where "canon \<equiv> canon_with JNum"

text \<open>What decoding gives of YAML that was encoded: \<open>float\<close> is the floating point number next to an integer.\<close>

definition yaml_value :: "(int \<Rightarrow> string) \<Rightarrow> json \<Rightarrow> json" where
  "yaml_value float = canon_with (\<lambda>n. JFloat (float n))"

lemma map_of_slice_insert:
  "map_of (slice_insert (\<lambda>a b. fst a < (fst b :: string)) x xs) = map_of (x # xs)"
  by (induction xs) (auto simp: fun_upd_twist)

lemma map_of_sort: "map_of (sort_slice (\<lambda>a b. fst a < (fst b :: string)) xs) = map_of xs"
  by (induction xs) (auto simp: sort_slice_def map_of_slice_insert)

lemma json_field_canon: "(\<And>n. \<not> is_JObj (f n)) \<Longrightarrow> json_field k (canon_with f v) = map_option (canon_with f) (json_field k v)"
proof (cases v)
  case (JNum n)
  assume "\<And>n. \<not> is_JObj (f n)"
  then show ?thesis using JNum by (cases "f n") (auto dest: spec [of _ n], metis is_JObj.simps(1))
qed (auto simp: map_of_sort map_of_map)

lemma json_field_canon_JNum [simp]: "json_field k (canon v) = map_option canon (json_field k v)"
  by (rule json_field_canon) simp

lemma nested_string_yaml: "nested_string p (yaml_value float v) = nested_string p v"
  by (induction p arbitrary: v) (auto simp: yaml_value_def json_field_canon split: option.split json.split)

lemma is_JObj_canon [simp]: "is_JObj (canon v) = is_JObj v"
  by (cases v) simp_all

text \<open>A value in canonical form stays as it is.\<close>

lemma sort_sorted: "sorted (map fst xs) \<Longrightarrow> sort_slice (\<lambda>a b. fst a < (fst b :: string)) xs = xs"
proof (induction xs)
  case (Cons x xs)
  then show ?case by (cases xs) (auto simp: sort_slice_Cons)
qed simp

lemma slice_insert_key_map:
  assumes "\<And>x. key (g x) = key x"
  shows "slice_insert (\<lambda>a b. key a < (key b :: string)) (g x) (map g xs) = map g (slice_insert (\<lambda>a b. key a < key b) x xs)"
  by (induction xs) (simp_all add: assms)

lemma sort_slice_key_map:
  assumes "\<And>x. key (g x) = key x"
  shows "sort_slice (\<lambda>a b. key a < (key b :: string)) (map g xs) = map g (sort_slice (\<lambda>a b. key a < key b) xs)"
  by (induction xs) (simp_all add: sort_slice_Cons slice_insert_key_map [of key g, OF assms])

lemma canon_canon [simp]: "canon (canon v) = canon v"
proof (induction v)
  case (JObj fs)
  let ?s = "sort_slice (\<lambda>a b. fst a < fst b) :: (string \<times> json) list \<Rightarrow> (string \<times> json) list"
  let ?g = "\<lambda>(k, v). (k, canon v)"
  have key: "fst (?g x) = fst x" for x by (simp add: split_def)
  have "map ?g (map ?g fs) = map ?g fs" using JObj by (auto simp: split_def prod_set_simps)
  then have "map ?g (?s (map ?g fs)) = ?s (map ?g fs)" using sort_slice_key_map [of fst ?g, OF key, symmetric] by metis
  moreover have "?s (?s (map ?g fs)) = ?s (map ?g fs)" by (rule sort_sorted) (rule sorted_sort_slice)
  ultimately show ?case by simp
qed simp_all

lemma option_canon_canon [simp]: "map_option canon (map_option canon x) = map_option canon x"
  by (cases x) simp_all

text \<open>Values without floating point numbers, whose text may be read back as that of an integer.\<close>

fun no_float :: "json \<Rightarrow> bool" where
  "no_float (JArr xs) = list_all no_float xs"
| "no_float (JObj fs) = list_all (\<lambda>(k, v). no_float v) fs"
| "no_float (JFloat s) = False"
| "no_float v = True"

lemma no_float_canon [simp]: "no_float (canon v) = no_float v"
proof (induction v)
  case (JArr xs)
  then show ?case by (induction xs) auto
next
  case (JObj fs)
  then have "no_float (canon (snd f)) = no_float (snd f)" if "f \<in> set fs" for f
    using that by (cases f) (auto intro: JObj)
  then show ?case by (simp add: list_all_iff split_def)
qed simp_all

lemma no_float_field: "no_float (JObj fs) \<Longrightarrow> map_of fs k = Some v \<Longrightarrow> no_float v"
  by (auto simp: list_all_iff dest: map_of_SomeD)

lemma no_float_update: "no_float (JObj fs) \<Longrightarrow> no_float v \<Longrightarrow> no_float (JObj (AList.update k v fs))"
  by (induction fs) auto

lemma string_or_empty_canon [simp]: "string_or_empty (map_option canon w) = string_or_empty w"
proof (cases w)
  case (Some v)
  then show ?thesis by (cases v) simp_all
qed simp

end
