(* ===== verification/RayMigration.thy ===== *)
theory RayMigration
  imports RayCluster Canonical
begin

text \<open>
  Correctness of the RayCluster migration: processed clusters carry no TLS or OAuth components, a live
  migration writes only such clusters, a dry run writes nothing, a deletion is waited for, and a backup can be
  read back.
\<close>

section \<open>Correctness of the migration\<close>

lemma checkCodeflare_keeps: "fst (checkCodeflareOperator retry cl False s) = s"
  by (auto simp: checkCodeflareOperator_def Let_def split: sum.split option.split)

lemma RunPreUpgradeChecks_keeps: "RunPreUpgradeChecks retry crd cl False s = (s', cs) \<Longrightarrow> s' = s"
  using checkCodeflare_keeps [of retry cl s] by (auto simp: RunPreUpgradeChecks_def Let_def split: prod.splits)

lemma migrate_each_dry: "migrate_each one True rcs s = Inr (s, length rcs, 0)"
  by (induction rcs) auto

lemma migrate_each_counts: "migrate_each one dry rcs s = Inr (s', m, f) \<Longrightarrow> m + f = length rcs"
  by (induction rcs arbitrary: s m f) (auto split: if_splits)

lemma analyzeClusters_length: "analyzeClusters cs = Inr (ms, as) \<Longrightarrow> length ms + length as = length cs"
  by (induction cs arbitrary: ms as rule: analyzeClusters.induct) (auto split: if_splits)

lemma PostUpgrade_dry: "puDryRun popts \<Longrightarrow> PostUpgrade cl fe root popts s = Inr (s', res) \<Longrightarrow> s' = s"
  by (auto simp: PostUpgrade_def postUpgradeFromBackup_def postUpgradeLive_def executeBackupRestore_def
      executeLiveMigration_def migrate_each_dry confirmLiveMigration_def confirmBackupRestore_def Let_def
      split: if_splits option.splits sum.splits prod.splits)

text \<open>
  A dry run of either task changes nothing: the state of the cluster and the backup directory afterwards
  are those before.
\<close>

theorem ray_dry_run:
  assumes "tgDryRun target"
  shows "(backupRun_Execute retry crd fe cl ro target now rec st = Inr (st', res) \<longrightarrow> st' = st)
    \<and> (migrateRun_Execute fe root cl ro target now rec s = Inr (s', res') \<longrightarrow> s' = s)"
  using assms
  by (auto simp: backupRun_Execute_def migrateRun_Execute_def Let_def dest: PostUpgrade_dry [rotated] RunPreUpgradeChecks_keeps
      split: prod.splits)

text \<open>
  A live migration that returns accounts for every cluster it found: those already migrated are
  skipped, and if the user agreed, each of the others is counted as migrated or as failed.
\<close>

theorem postUpgradeLive_accounts:
  assumes "GetClusters (clReader cl s) clusterName namespace = Inr clusters"
    and "postUpgradeLive cl clusterName namespace opts s = Inr (s', Inr res)"
  shows "purMigrated res + purSkipped res + purFailed res = length clusters
    \<or> purMigrated res = 0 \<and> purFailed res = 0 \<and> \<not> snd (confirmLiveMigration cl opts s)"
  using assms
  by (auto simp: postUpgradeLive_def no_result_def executeLiveMigration_def Let_def
      dest!: migrate_each_counts analyzeClusters_length split: if_splits prod.splits bool.splits)


context guarded_cluster
begin

lemma ready_keeps: "waitForClusterReady cl name ns t s = Inr (s', x) \<Longrightarrow> I s \<Longrightarrow> I s'"
  by (auto simp: waitForClusterReady_def dest!: polled split: prod.splits sum.splits option.splits)

lemma route_keeps: "waitForClusterRoute cl name ns t s = Inr (s', x) \<Longrightarrow> I s \<Longrightarrow> I s'"
  by (auto simp: waitForClusterRoute_def dest!: polled split: prod.splits sum.splits option.splits)

lemma wait_and_report_keeps: "wait_and_report cl name ns t s = Inr (s', e) \<Longrightarrow> I s \<Longrightarrow> I s'"
  by (auto simp: wait_and_report_def dest!: ready_keeps route_keeps)

lemma cleanup_keeps:
  assumes "I s" and "\<And>ns n. is_old_account name n \<Longrightarrow> deletes rt_ServiceAccount ns n"
  shows "I (cleanupOldServiceAccounts cl ns name s)"
proof -
  have "\<forall>n\<in>set ns'. is_old_account name n \<Longrightarrow> I s \<Longrightarrow> I (fold (\<lambda>n s. fst (clDelete cl rt_ServiceAccount ns n s)) ns' s)" for ns' s
    by (induction ns' arbitrary: s) (auto intro: delete assms(2))
  then show ?thesis using assms(1) by (auto simp: cleanupOldServiceAccounts_def split: sum.split)
qed

lemma migrateSingle_keeps:
  assumes "migrateSingleClusterLive cl name ns t s = Inr (s', e)" and "I s"
    and "\<And>c ns n. is_old_account c n \<Longrightarrow> deletes rt_ServiceAccount ns n"
    and "\<And>ns v. updates rt_RayCluster ns (cleaned_cluster v)"
  shows "I s'"
  using assms(1,2) cleanup_keeps [OF assms(2) assms(3)]
  by (auto simp: migrateSingleClusterLive_def Let_def dest!: wait_and_report_keeps updated [OF _ _ assms(4)]
      split: sum.splits prod.splits)

lemma migrate_each_keeps:
  assumes "\<And>rc s s' e. one rc s = Inr (s', e) \<Longrightarrow> I s \<Longrightarrow> I s'"
  shows "migrate_each one dry rcs s = Inr (s', m, f) \<Longrightarrow> I s \<Longrightarrow> I s'"
proof (induction rcs arbitrary: s m f)
  case (Cons rc rcs)
  show ?case
  proof (cases dry)
    case True
    then show ?thesis using Cons by (auto simp: migrate_each_dry)
  next
    case False
    then obtain s1 e m1 f1 where "one rc s = Inr (s1, e)" "migrate_each one dry rcs s1 = Inr (s', m1, f1)"
      using Cons.prems(1) by auto
    then show ?thesis using Cons.IH assms Cons.prems(2) by metis
  qed
qed simp

lemma postUpgradeLive_keeps:
  assumes "postUpgradeLive cl name ns opts s = Inr (s', r)" and "I s"
    and "\<And>c ns n. is_old_account c n \<Longrightarrow> deletes rt_ServiceAccount ns n"
    and "\<And>ns v. updates rt_RayCluster ns (cleaned_cluster v)"
  shows "I s'"
  using assms(1,2)
  by (auto simp: postUpgradeLive_def executeLiveMigration_def confirmLiveMigration_def Let_def
      dest!: migrate_each_keeps [rotated] prompted
      intro: migrateSingle_keeps [OF _ _ assms(3,4)] split: if_splits sum.splits prod.splits bool.splits)

end

lemma json_field_set_metadata: "k \<noteq> ''metadata'' \<Longrightarrow> json_field k (set_metadata j x v) = json_field k v"
  by (cases v) (auto simp: set_metadata_def split: option.split json.split)

lemma spec_set_metadata: "nested_map [''spec''] (set_metadata j x v) = nested_map [''spec''] v"
  by (simp add: nested_map_def json_field_set_metadata)

lemma cleaned_cluster_clean: "HasTLSOAuthComponents (cleaned_cluster v) = (False, [])"
proof -
  have "nested_map [''spec''] (cleaned_cluster v) = nested_map [''spec''] (processed v)"
    by (simp add: cleaned_cluster_def keep_metadata_def Let_def spec_set_metadata)
  then show ?thesis
    using ProcessRayClusterYAML_clean [of "RemoveAutogeneratedFields v"]
    by (simp add: HasTLSOAuthComponents_def processed_def)
qed

text \<open>What a live migration may write.\<close>

definition live_write :: "cluster_write \<Rightarrow> bool" where
  "live_write w \<longleftrightarrow>
     (case w of
        WUpdate rt ns v \<Rightarrow> rt = rt_RayCluster \<and> HasTLSOAuthComponents v = (False, [])
      | WDelete rt ns name \<Rightarrow> rt = rt_ServiceAccount \<and> (\<exists>c. is_old_account c name)
      | _ \<Rightarrow> False)"

text \<open>
  C14. Whatever the cluster answers, a live migration writes nothing but RayClusters without any TLS or OAuth
  component, and deletes nothing but service accounts of the old OAuth proxies.
\<close>

theorem live_migration_writes:
  assumes "puFromBackup popts = []"
    and "PostUpgrade (logged cl) fe root popts (s, []) = Inr ((s', ws), res)"
    and "w \<in> set ws"
  shows "live_write w"
proof -
  have "writes_ok live_write ((s', ws))"
    using assms(1,2)
    by (auto simp: PostUpgrade_def Let_def intro!: lg.postUpgradeLive_keeps [where ok = live_write and s' = "(s', ws)"])
      (auto simp: writes_ok_def live_write_def cleaned_cluster_clean)
  then show ?thesis using assms(3) by (simp add: writes_ok_def)
qed

section \<open>Deletion before restoring\<close>

primrec sleeps :: "'s cluster \<Rightarrow> nat \<Rightarrow> 's \<Rightarrow> 's" where
  "sleeps cl 0 s = s"
| "sleeps cl (Suc n) s = sleeps cl n (fst (clSleep cl wait_interval s))"

lemma poll_reaches:
  assumes "k < n" and "\<And>i. i \<le> k \<Longrightarrow> clCtx cl (sleeps cl i s) = None"
    and "\<And>i. i < k \<Longrightarrow> snd (clSleep cl wait_interval (sleeps cl i s)) = None \<and> f (sleeps cl i s) = None"
    and "f (sleeps cl k s) = Some a"
  shows "poll cl wait_interval f n s = (sleeps cl k s, Inr (Some a))"
  using assms
proof (induction n arbitrary: k s)
  case (Suc n)
  show ?case
  proof (cases k)
    case 0
    then show ?thesis using Suc.prems(2) [of 0] Suc.prems(4) by simp
  next
    case (Suc j)
    let ?t = "fst (clSleep cl wait_interval s)"
    have "poll cl wait_interval f n ?t = (sleeps cl j ?t, Inr (Some a))"
    proof (rule Suc.IH)
      show "j < n" using Suc.prems(1) Suc by simp
      show "clCtx cl (sleeps cl i ?t) = None" if "i \<le> j" for i
        using Suc.prems(2) [of "Suc i"] that Suc by simp
      show "snd (clSleep cl wait_interval (sleeps cl i ?t)) = None \<and> f (sleeps cl i ?t) = None" if "i < j" for i
        using Suc.prems(3) [of "Suc i"] that Suc by simp
      show "f (sleeps cl j ?t) = Some a" using Suc.prems(4) Suc by simp
    qed
    moreover have "clCtx cl s = None" "clSleep cl wait_interval s = (?t, None)" "f s = None"
      using Suc.prems(2) [of 0] Suc.prems(3) [of 0] Suc by (auto simp: prod_eq_iff)
    ultimately show ?thesis using Suc by (cases "clSleep cl wait_interval s") simp
  qed
qed simp

text \<open>
  If a deleted cluster is gone within 60 intervals of two seconds, and the context lives that long, the
  wait returns success at the first attempt that finds it gone.
\<close>

theorem waitForDeletion_completes:
  assumes "k < 60" and "\<And>i. i \<le> k \<Longrightarrow> clCtx cl (sleeps cl i s) = None"
    and "\<And>i. i < k \<Longrightarrow> snd (clSleep cl wait_interval (sleeps cl i s)) = None"
    and "\<And>i. i < k \<Longrightarrow> \<exists>v. clGet cl rt_RayCluster ns name (sleeps cl i s) = Inr v"
    and "clGet cl rt_RayCluster ns name (sleeps cl k s) = Inl e"
    and "rdApi (clReader cl (sleeps cl k s)) IsNotFound e"
  shows "waitForDeletion cl ns name s = (sleeps cl k s, True, None)"
proof -
  let ?f = "\<lambda>s. case clGet cl rt_RayCluster ns name s of
      Inl e \<Rightarrow> Some (if rdApi (clReader cl s) IsNotFound e then None else Some e) | Inr _ \<Rightarrow> None"
  have "poll cl wait_interval ?f deletionWaitMaxAttempts s = (sleeps cl k s, Inr (Some None))"
  proof (rule poll_reaches)
    show "snd (clSleep cl wait_interval (sleeps cl i s)) = None \<and> ?f (sleeps cl i s) = None" if "i < k" for i
      using assms(3,4) [OF that] by auto
  qed (use assms in simp_all)
  then show ?thesis by (simp add: waitForDeletion_def)
qed

section \<open>A backup can be read back\<close>

lemma string_remove_generated:
  "k \<notin> set AutogeneratedFields \<Longrightarrow> map_of fs k = Some (JStr s) \<Longrightarrow> map_of (remove_generated fs) k = Some (JStr s)"
  by (induction fs) auto

lemma kind_processed: "nested_string [''kind''] rc = ''RayCluster'' \<Longrightarrow> nested_string [''kind''] (processed rc) = ''RayCluster''"
proof -
  assume "nested_string [''kind''] rc = ''RayCluster''"
  then obtain fs where rc: "rc = JObj fs" "map_of fs ''kind'' = Some (JStr ''RayCluster'')"
    by (cases rc) (auto split: option.splits json.splits)
  have "''kind'' \<notin> set AutogeneratedFields" by (simp add: AutogeneratedFields_def)
  then have "json_field ''kind'' (RemoveAutogeneratedFields rc) = Some (JStr ''RayCluster'')"
    using rc by (simp add: string_remove_generated)
  then have "json_field ''kind'' (processed rc) = Some (JStr ''RayCluster'')"
    by (simp add: processed_def ProcessRayClusterYAML_def json_field_set_one split: option.split del: set_nested.simps)
  then show ?thesis by simp
qed

lemma path_ext_yaml: "path_ext (s @ ''.yaml'') = ''.yaml''"
  by (simp add: path_ext_def)

lemma isYAMLFile_backup [simp]: "isYAMLFile (backup_filename rc)"
  using path_ext_yaml [of "''raycluster-'' @ u_name rc @ ''-'' @ ns_or_default rc"]
  by (simp add: isYAMLFile_def backup_filename_def)

lemma writeUnstructured_ok:
  "writeUnstructuredToFile fe u p root = (root', None) \<Longrightarrow> \<exists>d. feEncode fe u = Inr d \<and> root' = fs_put p (FFile d) root"
  by (auto simp: writeUnstructuredToFile_def split: sum.splits option.splits prod.splits)


definition backup_tree :: "(string, fnode) gomap \<Rightarrow> (string, fnode) gomap \<Rightarrow> fnode" where
  "backup_tree e2 e3 = FDir [(BackupSubdirRHOAI2x, FDir e2), (BackupSubdirRHOAI3x, FDir e3)]"

lemma put_backup_tree:
  "fs_put [BackupSubdirRHOAI2x, n] x (backup_tree e2 e3) = backup_tree (AList.update n x e2) e3"
  "fs_put [BackupSubdirRHOAI3x, n] x (backup_tree e2 e3) = backup_tree e2 (AList.update n x e3)"
  by (simp_all add: backup_tree_def)

lemma ensureBackupDirs_fresh: "ensureBackupDirs fe None = (root, None) \<Longrightarrow> root = Some (backup_tree [] [])"
  by (auto simp: ensureBackupDirs_def mkdir_all_def backup_tree_def split: option.splits sum.splits)

lemma alist_update_absent: "k \<notin> fst ` set m \<Longrightarrow> AList.update k v m = m @ [(k, v)]"
  by (induction m) auto

definition encoded :: "file_env \<Rightarrow> json \<Rightarrow> string" where
  "encoded fe rc = projr (feEncode fe (processed rc))"

lemma backup_all_tree:
  assumes "backup_all fe (map Some rcs) saved (backup_tree e2 e3) = Inr (root, saved', None)"
    and "distinct (map fst e3 @ map backup_filename rcs)"
  shows "\<exists>e2'. root = backup_tree e2' (e3 @ map (\<lambda>rc. (backup_filename rc, FFile (encoded fe rc))) rcs)
     \<and> (\<forall>rc\<in>set rcs. feEncode fe (processed rc) = Inr (encoded fe rc))"
  using assms
proof (induction rcs arbitrary: saved e2 e3)
  case (Cons rc rcs)
  let ?n = "backup_filename rc"
  from Cons.prems(1) obtain root1 where b: "backupCluster fe rc (backup_tree e2 e3) = (root1, Inr [BackupSubdirRHOAI3x, ?n])"
      and rest: "backup_all fe (map Some rcs) (saved @ [[BackupSubdirRHOAI3x, ?n]]) root1 = Inr (root, saved', None)"
    by (auto simp: backupCluster_def Let_def split: prod.splits sum.splits option.splits)
  from b obtain d2 d3 where d: "root1 = fs_put [BackupSubdirRHOAI3x, ?n] (FFile d3)
        (fs_put [BackupSubdirRHOAI2x, ?n] (FFile d2) (backup_tree e2 e3))" "feEncode fe (processed rc) = Inr d3"
    by (auto simp: backupCluster_def Let_def simp del: fs_put.simps dest!: writeUnstructured_ok
        split: prod.splits sum.splits option.splits)
  have fresh: "?n \<notin> fst ` set e3" using Cons.prems(2) by auto
  have root1: "root1 = backup_tree (AList.update ?n (FFile d2) e2) (e3 @ [(?n, FFile d3)])"
    unfolding d(1) put_backup_tree alist_update_absent [OF fresh] ..
  have "distinct (map fst (e3 @ [(?n, FFile d3)]) @ map backup_filename rcs)" using Cons.prems(2) by auto
  from Cons.IH [OF rest [unfolded root1] this] d(2) show ?case by (auto simp: encoded_def)
qed auto

lemma collect_backup_tree:
  "collectYAMLFiles dir (backup_tree e2 e3) = collectYAMLFromDir [BackupSubdirRHOAI3x] (backup_tree e2 e3)"
  by (simp add: collectYAMLFiles_def backup_tree_def collectYAMLFromDir_def sort_slice_def)

lemma mset_map_filter: "mset xs = mset ys \<Longrightarrow> mset (List.map_filter f xs) = mset (List.map_filter f ys)"
  by (metis map_filter_def mset_filter mset_map)

text \<open>
  C15. Round trip: if a backup of clusters to a new directory succeeds, then reading that directory as a backup
  yields exactly the processed clusters, each once and from its own file, provided that the clusters are
  RayClusters whose file names differ. YAML that was encoded decodes to the same value, except that every integer
  comes back as the floating point number \<open>float\<close> and that the keys of an object are sorted: this is what the items read
  back are, compared with the processed clusters (\<open>yaml_value\<close>).
\<close>

theorem backup_roundtrip:
  assumes yaml: "\<And>v d. feEncode fe v = Inr d \<Longrightarrow> feDecode fe d = Inr (yaml_value float v)" "\<And>p. feRead fe p = None"
    and clusters: "GetClusters r clusterName namespace = Inr (map Some rcs)" "rcs \<noteq> []"
    and kinds: "\<And>rc. rc \<in> set rcs \<Longrightarrow> nested_string [''kind''] rc = ''RayCluster''"
    and names: "distinct (map backup_filename rcs)"
    and ok: "PreUpgrade fe r dir clusterName namespace checks None = Inr (root, saved, None)"
  shows "\<exists>f. root = Some f \<and> mset (parseBackupItems fe f (collectYAMLFiles path f) [] [])
    = mset (map (\<lambda>rc. (yaml_value float (processed rc), [BackupSubdirRHOAI3x, backup_filename rc])) rcs)"
proof -
  from ok clusters obtain f0 where f0: "ensureBackupDirs fe None = (Some f0, None)"
    and b: "\<exists>f. root = Some f \<and> backup_all fe (map Some rcs) [] f0 = Inr (f, saved, None)"
    by (auto simp: PreUpgrade_def dest: ensureBackupDirs_fresh split: if_splits option.splits prod.splits)
  from f0 have "f0 = backup_tree [] []" using ensureBackupDirs_fresh by blast
  with b backup_all_tree [of fe rcs "[]" "[]" "[]" _ saved] names obtain e2 where
    root: "root = Some (backup_tree e2 (map (\<lambda>rc. (backup_filename rc, FFile (encoded fe rc))) rcs))"
    and enc: "\<And>rc. rc \<in> set rcs \<Longrightarrow> feEncode fe (processed rc) = Inr (encoded fe rc)" by auto
  let ?es = "map (\<lambda>rc. (backup_filename rc, FFile (encoded fe rc))) rcs"
  let ?f = "backup_tree e2 ?es" and ?p = "\<lambda>rc. [BackupSubdirRHOAI3x, backup_filename rc]"
  have "mset (collectYAMLFromDir [BackupSubdirRHOAI3x] ?f) = mset (map ?p rcs)"
  proof -
    have "collectYAMLFromDir [BackupSubdirRHOAI3x] ?f = map (\<lambda>(n, f). [BackupSubdirRHOAI3x, n])
        (filter (\<lambda>(n, f). \<not> is_dir f \<and> isYAMLFile n) (sort_slice (\<lambda>a b. fst a < fst b) ?es))"
      by (simp add: collectYAMLFromDir_def backup_tree_def)
    moreover have "filter (\<lambda>(n, f). \<not> is_dir f \<and> isYAMLFile n) (sort_slice (\<lambda>a b. fst a < fst b) ?es)
        = sort_slice (\<lambda>a b. fst a < fst b) ?es"
      by (rule filter_True) auto
    ultimately show ?thesis by (simp add: image_mset.compositionality comp_def)
  qed
  then have "mset (parseBackupItems fe ?f (collectYAMLFiles path ?f) [] [])
      = mset (List.map_filter (\<lambda>p. parseOneBackupFile fe ?f p [] []) (map ?p rcs))"
    unfolding parseBackupItems_def collect_backup_tree by (rule mset_map_filter)
  moreover have "parseOneBackupFile fe ?f (?p rc) [] [] = Some (yaml_value float (processed rc), ?p rc)" if "rc \<in> set rcs" for rc
  proof -
    have "map_of ?es (backup_filename rc) = Some (FFile (encoded fe rc))"
      using names that by (intro map_of_is_SomeI) (auto simp: comp_def)
    then have "fs_lookup (?p rc) ?f = Some (FFile (encoded fe rc))" by (simp add: backup_tree_def)
    moreover have "feDecode fe (encoded fe rc) = Inr (yaml_value float (processed rc))" using yaml(1) enc that by blast
    moreover have "nested_string [''kind''] (yaml_value float (processed rc)) = ''RayCluster''"
      using kinds [OF that] by (simp only: nested_string_yaml kind_processed)
    ultimately show ?thesis using yaml(2) by (simp add: parseOneBackupFile_def del: fs_lookup.simps nested_string.simps)
  qed
  then have "List.map_filter (\<lambda>p. parseOneBackupFile fe ?f p [] []) (map ?p rcs) = map (\<lambda>rc. (yaml_value float (processed rc), ?p rc)) rcs"
    by (simp add: map_filter_def filter_map comp_def cong: map_cong filter_cong)
  ultimately show ?thesis using root by simp
qed

text \<open>
  Two different clusters may have the same file name; the second then replaces the first.
\<close>

definition sample_ray :: "string \<Rightarrow> string \<Rightarrow> json" where
  "sample_ray name ns = JObj [(''kind'', JStr ''RayCluster''),
     (''metadata'', JObj [(''name'', JStr name), (''namespace'', JStr ns), (''uid'', JStr ''u'')]),
     (''spec'', JObj [(''maxReplicas'', JNum 2), (''headGroupSpec'', JObj [(''enableIngress'', JBool True), (''template'', JObj [(''spec'', JObj [
        (''containers'', JArr [JObj [(''name'', JStr ''ray-head'')], JObj [(''name'', JStr ''oauth-proxy'')]]),
        (''serviceAccountName'', JStr ''sa''), (''volumes'', JArr [JObj [(''name'', JStr ''ca-vol'')]])])])])])]"

lemma backup_names_collide:
  "sample_ray ''a'' ''b-c'' \<noteq> sample_ray ''a-b'' ''c''
     \<and> backup_filename (sample_ray ''a'' ''b-c'') = backup_filename (sample_ray ''a-b'' ''c'')"
  by (simp add: sample_ray_def backup_filename_def u_name_def u_namespace_def ns_or_default_def)



text \<open>
  The check of permissions passes although the server denies every request: the client answers a denied
  listing with an empty list, and the check looks for an error.
\<close>

theorem denied_permissions_pass:
  assumes "\<And>rt cfg. ListResources api ks rt cfg = Some (rdList r rt cfg)"
    and "\<And>rt cfg token. \<exists>e. ksList ks rt cfg token = Inl e \<and> IsPermissionError api e"
  shows "checkPermissions r = (True, [''List namespaces: OK'', ''List RayClusters: OK''])"
proof -
  have "rdList r rt cfg = Inr []" for rt cfg
  proof -
    obtain e where "ksList ks rt cfg [] = Inl e" "IsPermissionError api e" using assms(2) by blast
    then have "ListResources api ks rt cfg = Some (Inr [])"
      by (simp add: ListResources_def list_pages.simps)
    then show ?thesis using assms(1) [of rt cfg] by simp
  qed
  then show ?thesis by (simp add: checkPermissions_def)
qed

section \<open>Examples\<close>

lemma case_sum_FalseD: "(case x of Inl a \<Rightarrow> False | Inr b \<Rightarrow> P b) \<Longrightarrow> \<exists>b. x = Inr b \<and> P b"
  by (cases x) auto

text \<open>A cluster with at most one RayCluster and an old service account; every request succeeds.\<close>

definition ray_sample :: "json option cluster" where
  "ray_sample = \<lparr>
     clReader = (\<lambda>s. (sample_reader no_queries
         (\<lambda>rt. if rtKind rt = ''RayCluster'' then (case s of None \<Rightarrow> [] | Some v \<Rightarrow> [v])
               else if rtKind rt = ''Namespace'' then [JObj [(''metadata'', JObj [(''name'', JStr ''b'')])]]
               else if rtKind rt = ''ServiceAccount'' then [JObj [(''metadata'', JObj [(''name'', JStr ''a-oauth-proxy-x'')])]]
               else []))\<lparr>rdGet := \<lambda>rt ns name. Inr s\<rparr>),
     clGet = (\<lambda>rt ns name s. case s of None \<Rightarrow> Inl (Foreign ''NotFound'' name) | Some v \<Rightarrow> Inr v),
     clList = (\<lambda>rt cfg s. Inr []),
     clCreate = (\<lambda>rt ns v s. (Some v, Inr v)),
     clUpdate = (\<lambda>rt ns v s. (Some v, Inr v)),
     clPatch = (\<lambda>rt ns name ty v s. (s, Inr v)),
     clDelete = (\<lambda>rt ns name s. (if rtKind rt = ''RayCluster'' then None else s, None)),
     clCtx = (\<lambda>s. None),
     clSleep = (\<lambda>d s. (s, None)),
     clLine = (\<lambda>s. (s, Inr ''y''))\<rparr>"

text \<open>An encoding as text of the objects the examples write; a number is written as a floating point number with no fraction.\<close>

definition float64 :: "int \<Rightarrow> string" where "float64 n = (if n < 0 then ''-'' else []) @ itoa (nat \<bar>n\<bar>) @ ''.0''"

definition ray_files :: file_env where
  "ray_files = \<lparr>feMkdir = (\<lambda>p. None), feNotDir = (\<lambda>p. NewError ''not a directory''), feWrite = (\<lambda>p d. None), feRead = (\<lambda>p. None),
     feEncode = (\<lambda>v. if v = processed (sample_ray ''a'' ''b'') then Inr ''3'' else
        if v = RemoveAutogeneratedFields (sample_ray ''a'' ''b'') then Inr ''2'' else Inl (NewError ''unknown'')),
     feDecode = (\<lambda>d. if d = ''3'' then Inr (yaml_value float64 (processed (sample_ray ''a'' ''b'')))
        else if d = ''2'' then Inr (yaml_value float64 (RemoveAutogeneratedFields (sample_ray ''a'' ''b''))) else Inl (NewError ''unknown''))\<rparr>"

definition ray_popts :: PostUpgradeOptions where
  "ray_popts = \<lparr>puClusterName = [], puNamespace = [], puDryRun = False, puSkipConfirm = True, puFromBackup = [], puRouteTimeout = 1\<rparr>"

definition live_run :: "string + ((json option \<times> cluster_write list) \<times> (err + PostUpgradeResult))" where
  "live_run = PostUpgrade (logged ray_sample) ray_files None ray_popts (Some (sample_ray ''a'' ''b''), [])"

lemma live_run_writes: "case live_run of Inl _ \<Rightarrow> False | Inr ((s, ws), r) \<Rightarrow> length ws = 2 \<and> (case r of Inl _ \<Rightarrow> False | Inr x \<Rightarrow> purMigrated x = 1)"
  by code_simp

theorem live_migration_writes_witness:
  "\<exists>s ws res. live_run = Inr ((s, ws), res) \<and> length ws = 2 \<and> (\<forall>w\<in>set ws. live_write w)"
proof -
  from case_sum_FalseD [OF live_run_writes] obtain s ws res where run: "live_run = Inr ((s, ws), res)" "length ws = 2"
    by (auto simp del: One_nat_def)
  have "live_write w" if "w \<in> set ws" for w
    using live_migration_writes [OF _ run(1) [unfolded live_run_def] that] by (simp add: ray_popts_def)
  then show ?thesis using run by blast
qed

definition ray_target :: "bool \<Rightarrow> MigrateTarget" where
  "ray_target dry = \<lparr>tgCurrent = None, tgTarget = None, tgDryRun = dry, tgSkipConfirm = True, tgOutputDir = ''out''\<rparr>"

definition ray_opts :: ray_options where
  "ray_opts = \<lparr>roClusterName = [], roNamespace = [], roOutputDir = [], roFromBackup = [], roRouteTimeout = 1\<rparr>"

definition dry_backup :: "string + ((json option \<times> fnode option) \<times> ActionResult)" where
  "dry_backup = backupRun_Execute (\<lambda>f s. (s, None)) (\<lambda>n. None) ray_files ray_sample ray_opts (ray_target True) 0 NewRootRecorder
     (Some (sample_ray ''a'' ''b''), None)"

definition dry_migration :: "string + (json option \<times> ActionResult)" where
  "dry_migration = migrateRun_Execute ray_files None ray_sample ray_opts (ray_target True) 0 NewRootRecorder (Some (sample_ray ''a'' ''b''))"

lemma dry_runs_return: "\<not> isl dry_backup \<and> \<not> isl dry_migration"
  by code_simp

theorem ray_dry_run_witness:
  "(\<exists>res. dry_backup = Inr ((Some (sample_ray ''a'' ''b''), None), res))
   \<and> (\<exists>res. dry_migration = Inr (Some (sample_ray ''a'' ''b''), res))"
proof -
  obtain st res s res' where runs: "dry_backup = Inr (st, res)" "dry_migration = Inr (s, res')"
    using dry_runs_return by (metis sum.collapse(2) surj_pair)
  have "tgDryRun (ray_target True)" by (simp add: ray_target_def)
  note ray_dry_run [OF this, of "\<lambda>f s. (s, None)" "\<lambda>n. None" ray_files ray_sample ray_opts 0 NewRootRecorder
      "(Some (sample_ray ''a'' ''b''), None)" st res None "Some (sample_ray ''a'' ''b'')" s res']
  then show ?thesis using runs unfolding dry_backup_def dry_migration_def by auto
qed

theorem postUpgradeLive_accounts_witness:
  "\<exists>s res. postUpgradeLive ray_sample [] [] \<lparr>mgDryRun = True, mgSkipConfirm = True, mgRouteTimeout = 1\<rparr> (Some (sample_ray ''a'' ''b'')) = Inr (s, Inr res)
     \<and> purMigrated res + purSkipped res + purFailed res = 1"
proof -
  let ?o = "\<lparr>mgDryRun = True, mgSkipConfirm = True, mgRouteTimeout = 1\<rparr>" and ?s = "Some (sample_ray ''a'' ''b'')"
  have "GetClusters (clReader ray_sample ?s) [] [] = Inr [?s]" by code_simp
  moreover have "\<exists>s res. postUpgradeLive ray_sample [] [] ?o ?s = Inr (s, Inr res)"
  proof -
    have "case postUpgradeLive ray_sample [] [] ?o ?s of Inl _ \<Rightarrow> False | Inr (s, res) \<Rightarrow> \<not> isl res" by code_simp
    from case_sum_FalseD [OF this] show ?thesis by (auto, metis sum.collapse(2))
  qed
  moreover have "snd (confirmLiveMigration ray_sample ?o ?s)" by (simp add: confirmLiveMigration_def)
  ultimately show ?thesis using postUpgradeLive_accounts [of ray_sample ?s "[]" "[]" "[?s]" ?o] by auto
qed

theorem waitForDeletion_completes_witness:
  "waitForDeletion ray_sample ''b'' ''a'' None = (None, True, None)"
  using waitForDeletion_completes [of 0 ray_sample None "''b''" "''a''" "Foreign ''NotFound'' ''a''"]
  by (simp add: ray_sample_def sample_reader_def sample_not_found_def errors_is_def)

text \<open>A denied listing.\<close>

theorem denied_permissions_pass_witness:
  "checkPermissions ((sample_reader no_queries (\<lambda>rt. []))\<lparr>rdList := \<lambda>rt cfg. Inr []\<rparr>)
     = (True, [''List namespaces: OK'', ''List RayClusters: OK''])"
proof (rule denied_permissions_pass)
  let ?ks = "\<lparr>ksList = \<lambda>rt cfg token. Inl (NewError ''denied''), ksListMeta = \<lambda>rt cfg token. Inl (NewError ''denied''),
      ksGet = \<lambda>rt ns name. Inl (NewError ''denied'')\<rparr> :: kube_server"
  show "ListResources (\<lambda>p e. p = IsForbidden) ?ks rt cfg
      = Some (rdList ((sample_reader no_queries (\<lambda>rt. []))\<lparr>rdList := \<lambda>rt cfg. Inr []\<rparr>) rt cfg)" for rt cfg
    by (simp add: ListResources_def list_pages.simps IsPermissionError_def)
  show "\<exists>e. ksList ?ks rt cfg token = Inl e \<and> IsPermissionError (\<lambda>p e. p = IsForbidden) e" for rt cfg token
    by (simp add: IsPermissionError_def)
qed

theorem backup_roundtrip_witness:
  "\<exists>f saved. PreUpgrade ray_files (clReader ray_sample (Some (sample_ray ''a'' ''b''))) ''out'' [] [] [] None = Inr (Some f, saved, None)
     \<and> mset (parseBackupItems ray_files f (collectYAMLFiles ''out'' f) [] [])
       = mset [(yaml_value float64 (processed (sample_ray ''a'' ''b'')), [BackupSubdirRHOAI3x, ''raycluster-a-b.yaml''])]"
proof -
  let ?r = "clReader ray_sample (Some (sample_ray ''a'' ''b''))"
  have "case PreUpgrade ray_files ?r ''out'' [] [] [] None of Inr (Some f, saved, None) \<Rightarrow> True | _ \<Rightarrow> False" by code_simp
  then obtain f saved where run: "PreUpgrade ray_files ?r ''out'' [] [] [] None = Inr (Some f, saved, None)"
    by (auto split: sum.splits option.splits)
  have gc: "GetClusters ?r [] [] = Inr (map Some [sample_ray ''a'' ''b''])" by code_simp
  have kind: "nested_string [''kind''] rc = ''RayCluster''" if "rc \<in> set [sample_ray ''a'' ''b'']" for rc
    using that by (simp add: sample_ray_def)
  have name: "backup_filename (sample_ray ''a'' ''b'') = ''raycluster-a-b.yaml''" by code_simp
  have dec: "feDecode ray_files d = Inr (yaml_value float64 v)" if "feEncode ray_files v = Inr d" for v d
    using that by (auto simp: ray_files_def split: if_splits)
  have rd: "feRead ray_files p = None" for p by (simp add: ray_files_def)
  show ?thesis
    using backup_roundtrip [OF dec rd gc _ kind _ run, where path = "''out''"] run name by auto
qed

end
