(* ===== verification/WorkloadChecks.thy ===== *)
theory WorkloadChecks
  imports PlatformChecks
begin

text \<open>
  The checks of \<open>pkg/lint/checks/workloads\<close> for Ray, Trainer, the training operator, LlamaStack, OGX, AI pipelines and
  KServe, with the helpers of \<open>pkg/aipipelines\<close> and \<open>pkg/util/inspect\<close>. The decoder of the KServe
  configuration is the argument \<open>disallowed\<close>.
\<close>

abbreviation ReasonFeatureRemoved :: string where "ReasonFeatureRemoved \<equiv> ''FeatureRemoved''"
abbreviation ReasonConfigurationUnmanaged :: string where "ReasonConfigurationUnmanaged \<equiv> ''ConfigurationUnmanaged''"
abbreviation ReasonAPIAccessDenied :: string where "ReasonAPIAccessDenied \<equiv> ''APIAccessDenied''"

text \<open>The two outcomes of most workload checks.\<close>

definition workload_pass :: "string \<Rightarrow> string \<Rightarrow> string + Condition" where
  "workload_pass ct msg = NewCondition ct ConditionTrue [WithReason ReasonVersionCompatible, WithMessage msg]"

definition workload_fail :: "string \<Rightarrow> string \<Rightarrow> Impact \<Rightarrow> BaseCheck \<Rightarrow> string \<Rightarrow> string + Condition" where
  "workload_fail ct reason impact b msg =
     NewCondition ct ConditionFalse [WithReason reason, WithMessage msg, WithImpact impact, WithRemediation (bcRemediation b)]"

text \<open>A query whose missing field has a default; other errors stay.\<close>

definition query_default :: "gojq \<Rightarrow> (json \<Rightarrow> err + 'a) \<Rightarrow> 'a \<Rightarrow> json \<Rightarrow> string \<Rightarrow> err + 'a" where
  "query_default gq conv d v q =
     (case Query gq conv d v q of Inl e \<Rightarrow> if is_ErrNotFound e then Inr d else Inl e | Inr x \<Rightarrow> Inr x)"

section \<open>Ray\<close>

definition AppWrapperCleanupCheck :: BaseCheck where
  "AppWrapperCleanupCheck = \<lparr>bcGroup = ''workload'', bcKind = ''ray'', bcType = ''impacted-workloads'',
     bcID = ''workloads.ray.appwrapper-cleanup'',
     bcName = ''Workloads :: Ray :: AppWrapper Cleanup (3.x)'',
     bcDescription = ''Lists AppWrappers managed by CodeFlare that will be impacted in RHOAI 3.x'',
     bcRemediation = ''Remove redundant AppWrapper CRs or install the AppWrapper controller separately before upgrading''\<rparr>"

definition AppWrapperCleanupCanApply :: "lint_target \<Rightarrow> err + bool" where
  "AppWrapperCleanupCanApply t =
     (if \<not> upgrade_2x_3x t then Inr False else component_in_state t ''codeflare'' [ManagementStateManaged])"

definition AppWrapperCleanupValidate :: "semver_lib \<Rightarrow> lint_target \<Rightarrow> maybe_checked" where
  "AppWrapperCleanupValidate sv t =
     WorkloadComplete sv t (WorkloadsMetadata AppWrapperCleanupCheck t rt_AppWrapper) (\<lambda>items.
       if length items > 0 then
         [workload_fail ''AppWrapperCompatible'' ReasonVersionIncompatible ImpactAdvisory AppWrapperCleanupCheck
            (''Found '' @ itoa (length items) @ '' AppWrapper workload CRs. The AppWrapper controller has been removed from OpenShift AI as part of the broader CodeFlare Operator removal process. Please remove any redundant CRs or install AppWrapper separately'')]
       else
         [workload_pass ''AppWrapperCompatible'' (''No AppWrapper(s) found - ready for RHOAI '' @ target_label t @ '' upgrade'')])"

abbreviation finalizerCodeFlareOAuth :: string where "finalizerCodeFlareOAuth \<equiv> ''ray.openshift.ai/oauth-finalizer''"
abbreviation RayPreUpgradeBackupAnnotation :: string where "RayPreUpgradeBackupAnnotation \<equiv> ''odh.ray.io/pre-upgrade-backup-taken''"

definition RayImpactedCheck :: BaseCheck where
  "RayImpactedCheck = \<lparr>bcGroup = ''workload'', bcKind = ''ray'', bcType = ''impacted-workloads'',
     bcID = ''workloads.ray.impacted-workloads'',
     bcName = ''Workloads :: Ray :: Impacted Workloads (3.x)'',
     bcDescription = ''Lists RayClusters managed by CodeFlare that will be impacted in RHOAI 3.x (CodeFlare not available)'',
     bcRemediation = ''Delete or back up CodeFlare-managed RayClusters before upgrading, as CodeFlare will not be available in RHOAI 3.x''\<rparr>"

definition RayImpactedCanApply :: "lint_target \<Rightarrow> err + bool" where
  "RayImpactedCanApply t =
     (if \<not> upgrade_2x_3x t then Inr False else component_in_state t ''ray'' [ManagementStateManaged])"

definition newCodeFlareRayClusterCondition :: "lint_target \<Rightarrow> PartialObject list \<Rightarrow> string + Condition" where
  "newCodeFlareRayClusterCondition t items =
     (let total = length items; ct = ''CodeFlareRayClustersCompatible'';
          withAnnotation = length (filter (\<lambda>x. GetAnnotation x RayPreUpgradeBackupAnnotation \<noteq> []) items) in
      if total = 0 then
        workload_pass ct (''No CodeFlare-managed RayCluster(s) found - ready for RHOAI '' @ target_label t @ '' upgrade'')
      else if withAnnotation = total then
        workload_pass ct (''All '' @ itoa total @ '' CodeFlare-managed RayCluster(s) have completed pre-upgrade steps - ready for RHOAI '' @ target_label t)
      else
        workload_fail ct ReasonVersionIncompatible ImpactAdvisory RayImpactedCheck
          (''Found '' @ itoa (total - withAnnotation) @ '' CodeFlare-managed RayCluster(s) which have not had pre-upgrade steps completed, not ready for RHOAI '' @ target_label t @ '' upgrade''))"

definition ray_object :: "PartialObject \<Rightarrow> ObjectMeta" where
  "ray_object x =
     \<lparr>omAPIVersion = (if fst (poTypeMeta x) = [] then APIVersion rt_RayCluster else fst (poTypeMeta x)),
      omKind = (if snd (poTypeMeta x) = [] then rtKind rt_RayCluster else snd (poTypeMeta x)),
      omNamespace = poNamespace x, omName = poName x, omAnnotations = poAnnotations x\<rparr>"

definition RayImpactedValidate :: "semver_lib \<Rightarrow> lint_target \<Rightarrow> maybe_checked" where
  "RayImpactedValidate sv t =
     WorkloadRun sv t (WorkloadFilter (\<lambda>x. Inr (finalizerCodeFlareOAuth \<in> set (poFinalizers x)))
       (WorkloadsMetadata RayImpactedCheck t rt_RayCluster)) (\<lambda>dr items.
         bind_res (newCodeFlareRayClusterCondition t items) (\<lambda>c.
           Inr (Inr ((SetCondition dr c)\<lparr>ImpactedObjects := map ray_object items\<rparr>, True))))"

section \<open>Trainer\<close>

definition trainer_applies :: "lint_target \<Rightarrow> string \<Rightarrow> err + bool" where
  "trainer_applies t component =
     (if \<not> IsVersionAtLeast (TargetVersion t) 3 6 \<or> IsVersionAtLeast (CurrentVersion t) 3 6 then Inr False
      else component_in_state t component [ManagementStateManaged])"

definition NumProcPerNodeCheck :: BaseCheck where
  "NumProcPerNodeCheck = \<lparr>bcGroup = ''workload'', bcKind = ''trainer'', bcType = ''impacted-workloads'',
     bcID = ''workloads.trainer.numprocpernode'',
     bcName = ''Workloads :: Trainer :: numProcPerNode (3.6+)'',
     bcDescription = ''Detects TrainJobs with a string numProcPerNode value that prevents the Trainer controller from starting after an OpenShift AI 3.6 upgrade'',
     bcRemediation = ''Delete TrainJobs with a string spec.trainer.numProcPerNode value before upgrading. The field is immutable. Consult the TrainJob owner before deletion; recreate the TrainJob after the upgrade, if desired, with a nil value, which is equivalent to auto.''\<rparr>"

definition NumProcPerNodeCanApply :: "lint_target \<Rightarrow> err + bool" where
  "NumProcPerNodeCanApply t = trainer_applies t ''trainer''"

definition hasStringNumProcPerNode :: "gojq \<Rightarrow> json \<Rightarrow> err + bool" where
  "hasStringNumProcPerNode gq obj =
     bind_res (query_default gq Inr JNull obj ''.spec.trainer.numProcPerNode'')
       (\<lambda>v. Inr (case v of JStr s \<Rightarrow> True | _ \<Rightarrow> False))"

definition NumProcPerNodeValidate :: "semver_lib \<Rightarrow> lint_target \<Rightarrow> maybe_checked" where
  "NumProcPerNodeValidate sv t =
     WorkloadComplete sv t (WorkloadFilter (hasStringNumProcPerNode (rdGojq (tgtClient t)))
       (ForComponent [''trainer''] (Workloads NumProcPerNodeCheck t rt_TrainJob))) (\<lambda>items.
         if length items = 0 then
           [workload_pass ''NumProcPerNodeCompatible'' ''No TrainJob(s) with a string numProcPerNode value found - ready for OpenShift AI 3.6 Trainer upgrade'']
         else
           [workload_fail ''NumProcPerNodeCompatible'' ReasonWorkloadsImpacted ImpactBlocking NumProcPerNodeCheck
              (''Found '' @ itoa (length items) @ '' TrainJob(s) with a string spec.trainer.numProcPerNode value. These TrainJobs must be deleted before upgrading to OpenShift AI 3.6 or the Trainer controller will not start. Consult the TrainJob owner before deleting them.'')])"

definition PodTemplateOverridesCheck :: BaseCheck where
  "PodTemplateOverridesCheck = \<lparr>bcGroup = ''workload'', bcKind = ''trainer'', bcType = ''impacted-workloads'',
     bcID = ''workloads.trainer.podtemplateoverrides'',
     bcName = ''Workloads :: Trainer :: PodTemplateOverrides (3.6+)'',
     bcDescription = ''Detects TrainJobs using podTemplateOverrides that may fail pause/resume after upgrading to OpenShift AI 3.6'',
     bcRemediation = ''We recommend waiting for TrainJobs that use podTemplateOverrides to complete before upgrading when possible. After upgrade, recreate TrainJobs using runtimePatches. See https://access.redhat.com/articles/7146204''\<rparr>"

definition PodTemplateOverridesCanApply :: "lint_target \<Rightarrow> err + bool" where
  "PodTemplateOverridesCanApply t = trainer_applies t ''trainer''"

definition hasPodTemplateOverrides :: "gojq \<Rightarrow> json \<Rightarrow> err + bool" where
  "hasPodTemplateOverrides gq obj =
     bind_res (query_default gq as_array [] obj ''.spec.podTemplateOverrides'') (\<lambda>xs. Inr (length xs > 0))"

definition PodTemplateOverridesValidate :: "semver_lib \<Rightarrow> lint_target \<Rightarrow> maybe_checked" where
  "PodTemplateOverridesValidate sv t =
     WorkloadComplete sv t (WorkloadFilter (hasPodTemplateOverrides (rdGojq (tgtClient t)))
       (ForComponent [''trainer''] (Workloads PodTemplateOverridesCheck t rt_TrainJob))) (\<lambda>items.
         if length items = 0 then
           [workload_pass ''PodTemplateOverridesCompatible'' ''No TrainJob(s) with podTemplateOverrides found - ready for OpenShift AI 3.6 Trainer upgrade'']
         else
           [workload_fail ''PodTemplateOverridesCompatible'' ReasonWorkloadsImpacted ImpactAdvisory PodTemplateOverridesCheck
              (''Found '' @ itoa (length items) @ '' TrainJob(s) that use podTemplateOverrides. In OpenShift AI 3.6, Trainer v2.3 removes podTemplateOverrides and replaces it with runtimePatches. Pause and resume of these pre-upgrade TrainJobs may fail after upgrade, including when managed by Kueue. We recommend waiting for these jobs to complete before upgrading when possible. After upgrade, recreate TrainJobs using runtimePatches. See https://access.redhat.com/articles/7146204'')])"

section \<open>Training operator\<close>

definition PyTorchJobsCheck :: BaseCheck where
  "PyTorchJobsCheck = \<lparr>bcGroup = ''workload'', bcKind = ''trainingoperator'', bcType = ''impacted-workloads'',
     bcID = ''workloads.trainingoperator.impacted-workloads'',
     bcName = ''Workloads :: TrainingOperator :: Impacted Workloads (3.3+)'',
     bcDescription = ''Lists PyTorchJobs using deprecated TrainingOperator (Kubeflow v1) that will be impacted by removal in 3.6 and transition to Trainer v2'',
     bcRemediation = ''Complete or delete active PyTorchJobs before upgrading; migrate to Trainer v2 TrainJob API''\<rparr>"

definition PyTorchJobsCanApply :: "lint_target \<Rightarrow> err + bool" where
  "PyTorchJobsCanApply t =
     (if \<not> IsVersionAtLeast (TargetVersion t) 3 3 then Inr False
      else component_in_state t ''trainingoperator'' [ManagementStateManaged])"

definition isJobCompleted :: "gojq \<Rightarrow> json \<Rightarrow> err + bool" where
  "isJobCompleted gq job =
     (case Query gq as_array [] job ''.status.conditions'' of
        Inl e \<Rightarrow> if is_ErrNotFound e then Inr False else Inl (wrapf ''querying job conditions'' e)
      | Inr conditions \<Rightarrow> Inr (list_ex (\<lambda>c.
          nested_string [''type''] c \<in> set [''Succeeded'', ''Failed''] \<and> nested_string [''status''] c = ''True'') conditions))"

text \<open>The numbers of active and of completed jobs.\<close>

fun count_jobs :: "gojq \<Rightarrow> json list \<Rightarrow> err + nat \<times> nat" where
  "count_jobs gq [] = Inr (0, 0)"
| "count_jobs gq (j # js) =
     (case isJobCompleted gq j of
        Inl e \<Rightarrow> Inl (wrapf (''checking job '' @ u_namespace j @ ''/'' @ u_name j @ '' completion'') e)
      | Inr is_done \<Rightarrow> bind_res (count_jobs gq js) (\<lambda>(active, completed).
          Inr (if is_done then (active, Suc completed) else (Suc active, completed))))"

definition newPyTorchJobCondition :: "nat \<Rightarrow> nat \<Rightarrow> bool \<Rightarrow> string + Condition" where
  "newPyTorchJobCondition active completed isRemoval =
     (let ct = ''PyTorchJobsCompatible''; impact = (if isRemoval then ImpactBlocking else ImpactAdvisory);
          verb = (if isRemoval then ''removed in 3.6'' else ''deprecated'');
          fail = workload_fail ct ReasonWorkloadsImpacted impact PyTorchJobsCheck in
      if active + completed = 0 then workload_pass ct ''No PyTorchJob(s) found - no workloads impacted by TrainingOperator removal''
      else if active > 0 \<and> completed > 0 then
        fail (''Found '' @ itoa (active + completed) @ '' PyTorchJob(s) ('' @ itoa active @ '' active, '' @ itoa completed @ '' completed) - TrainingOperator (Kubeflow v1) is '' @ verb @ '', migrate to Trainer v2'')
      else if active > 0 then
        fail (''Found '' @ itoa active @ '' active PyTorchJob(s) - TrainingOperator (Kubeflow v1) is '' @ verb @ '', drain and migrate to Trainer v2'')
      else workload_pass ct (''Found '' @ itoa completed @ '' completed PyTorchJob(s) - workloads previously used TrainingOperator (Kubeflow v1)''))"

definition PyTorchJobsValidate :: "semver_lib \<Rightarrow> lint_target \<Rightarrow> maybe_checked" where
  "PyTorchJobsValidate sv t =
     WorkloadRun sv t (Workloads PyTorchJobsCheck t rt_PyTorchJob) (\<lambda>dr items.
       case count_jobs (rdGojq (tgtClient t)) items of
         Inl e \<Rightarrow> Inr (Inl e)
       | Inr (active, completed) \<Rightarrow> unassigned (set_conditions dr
           [newPyTorchJobCondition active completed (IsVersionAtLeast (TargetVersion t) 3 6)]))"

section \<open>LlamaStack and OGX\<close>

definition marked_object :: "ResourceType \<Rightarrow> (string, string) gomap \<Rightarrow> json \<Rightarrow> ObjectMeta" where
  "marked_object rt anns v = (impacted_object rt (u_namespace v, u_name v))\<lparr>omAnnotations := anns\<rparr>"

text \<open>Both checks: one condition, and the distributions with the action they need.\<close>

definition distributions ::
  "string \<Rightarrow> (nat \<Rightarrow> string + Condition) \<Rightarrow> (string + Condition) \<Rightarrow> DiagnosticResult \<Rightarrow> json list \<Rightarrow> string + (err + DiagnosticResult \<times> bool)" where
  "distributions action some none dr items =
     (if length items = 0 then unassigned (set_conditions dr [none])
      else bind_res (some (length items)) (\<lambda>c. Inr (Inr ((SetCondition dr c)
        \<lparr>ImpactedObjects := map (marked_object rt_LlamaStackDistribution [(''upgrade.action'', action)]) items\<rparr>, True))))"

definition LlamaStackConfigCheck :: BaseCheck where
  "LlamaStackConfigCheck = \<lparr>bcGroup = ''workload'', bcKind = ''llamastackdistribution'', bcType = ''config'',
     bcID = ''workloads.llamastack.config'',
     bcName = ''Workloads :: LlamaStack :: Upgrade Preparation (2.x to 3.3+)'',
     bcDescription = ''Identifies LlamaStackDistribution resources that require deletion and recreation for RHOAI 3.3+ upgrade'',
     bcRemediation = ''Run 'kubectl odh migrate prepare' to back up LlamaStack resources, coordinate with owners about data loss, then delete and recreate LlamaStackDistributions after upgrade following RHOAI 3.3+ documentation''\<rparr>"

definition LlamaStackConfigCanApply :: "lint_target \<Rightarrow> err + bool" where
  "LlamaStackConfigCanApply t =
     (if \<not> upgrade_2x_3x t then Inr False else component_in_state t ''llamastackoperator'' [ManagementStateManaged])"

definition LlamaStackConfigValidate :: "semver_lib \<Rightarrow> lint_target \<Rightarrow> maybe_checked" where
  "LlamaStackConfigValidate sv t =
     WorkloadRun sv t (Workloads LlamaStackConfigCheck t rt_LlamaStackDistribution)
       (distributions ''requires-recreation''
         (\<lambda>n. NewCondition ''RequiresRecreation'' ConditionFalse
            [WithReason ''ArchitecturalIncompatibility'',
             WithMessage (''Found '' @ itoa n @ '' LlamaStackDistribution(s) that must be deleted and recreated after RHOAI 3.3+ upgrade. In-place upgrade is not supported. ALL DATA WILL BE LOST - Archive data before upgrade.''),
             WithImpact ImpactBlocking,
             WithRemediation ''1. Run 'kubectl odh migrate prepare' to back up existing LlamaStack configurations and pod data. 2. Coordinate with LLSD owners about data loss and recreation requirements. 3. After RHOAI 3.3+ upgrade, delete old LLSDs and create new ones following RHOAI 3.3+ documentation.''])
         (NewCondition ''RequiresRecreation'' ConditionTrue
            [WithReason ReasonResourceNotFound,
             WithMessage ''No LlamaStackDistribution resources found - upgrade can proceed without LlamaStack-specific actions'']))"

definition LlamaStackMigrationCheck :: BaseCheck where
  "LlamaStackMigrationCheck = \<lparr>bcGroup = ''workload'', bcKind = ''llamastackdistribution'', bcType = ''migration'',
     bcID = ''workloads.llamastack.migration'',
     bcName = ''Workloads :: LlamaStack :: CR Migration (3.4 to 3.5)'',
     bcDescription = ''Identifies LlamaStackDistribution resources that must be migrated to OGXServer v1beta1 for RHOAI 3.5 upgrade'',
     bcRemediation = ''Back up LlamaStack resources using 'odh-cli migrate prepare --migration llamastack.backup', then recreate as OGXServer v1beta1 CRs after upgrade following the OGX migration guide''\<rparr>"

definition LlamaStackMigrationCanApply :: "lint_target \<Rightarrow> err + bool" where
  "LlamaStackMigrationCanApply t =
     (if \<not> IsUpgradeFrom34To35 (CurrentVersion t) (TargetVersion t) then Inr False
      else component_in_state t ''llamastackoperator'' [ManagementStateManaged])"

definition LlamaStackMigrationValidate :: "semver_lib \<Rightarrow> lint_target \<Rightarrow> maybe_checked" where
  "LlamaStackMigrationValidate sv t =
     WorkloadRun sv t (Workloads LlamaStackMigrationCheck t rt_LlamaStackDistribution)
       (distributions ''requires-migration-to-ogxserver''
         (\<lambda>n. workload_fail ''RequiresMigration'' ''CRTypeMigration'' ImpactBlocking LlamaStackMigrationCheck
            (''Found '' @ itoa n @ '' LlamaStackDistribution(s) that must be migrated to OGXServer v1beta1 after RHOAI 3.5 upgrade. The LlamaStackDistribution CRD is removed in 3.5 and replaced by OGXServer.''))
         (NewCondition ''RequiresMigration'' ConditionTrue
            [WithReason ReasonResourceNotFound,
             WithMessage ''No LlamaStackDistribution resources found - no CR migration needed for 3.5 upgrade'']))"

definition ExternalAccessTLSCheck :: BaseCheck where
  "ExternalAccessTLSCheck = \<lparr>bcGroup = ''workload'', bcKind = ''ogx'', bcType = ''impacted-workloads'',
     bcID = ''workloads.ogx.externalaccess-tls'',
     bcName = ''Workloads :: OGX :: External Access TLS (3.6+)'',
     bcDescription = ''Detects OGXServers with external access enabled and no hostname or TLS Secret, which OpenShift AI 3.6 requires'',
     bcRemediation = ''After upgrading, set spec.network.externalAccess.hostname and spec.network.externalAccess.tls.secretName on each listed OGXServer. The Secret must be a TLS Secret for that hostname in the OGXServer's namespace. If an OGXServer does not need external access, set spec.network.externalAccess.enabled to false before upgrading instead.''\<rparr>"

definition ExternalAccessTLSCanApply :: "lint_target \<Rightarrow> err + bool" where
  "ExternalAccessTLSCanApply t = trainer_applies t ''ogx''"

definition lacksExternalAccessTLS :: "gojq \<Rightarrow> json \<Rightarrow> err + bool" where
  "lacksExternalAccessTLS gq obj =
     bind_res (query_default gq as_bool False obj ''.spec.network.externalAccess.enabled'') (\<lambda>enabled.
       if \<not> enabled then Inr False
       else bind_res (query_default gq as_string [] obj ''.spec.network.externalAccess.hostname'') (\<lambda>hostname.
         bind_res (query_default gq as_string [] obj ''.spec.network.externalAccess.tls.secretName'') (\<lambda>secretName.
           Inr (hostname = [] \<or> secretName = []))))"

definition ExternalAccessTLSValidate :: "semver_lib \<Rightarrow> lint_target \<Rightarrow> maybe_checked" where
  "ExternalAccessTLSValidate sv t =
     WorkloadComplete sv t (WorkloadFilter (lacksExternalAccessTLS (rdGojq (tgtClient t)))
       (ForComponent [''ogx''] (Workloads ExternalAccessTLSCheck t rt_OGXServer))) (\<lambda>items.
         if length items = 0 then
           [workload_pass ''ExternalAccessTLSConfigured'' ''No OGXServer(s) with external access enabled and a missing hostname or TLS Secret found - ready for OpenShift AI 3.6'']
         else
           [workload_fail ''ExternalAccessTLSConfigured'' ReasonWorkloadsImpacted ImpactAdvisory ExternalAccessTLSCheck
              (''Found '' @ itoa (length items) @ '' OGXServer(s) with external access enabled and a missing hostname or TLS Secret. OpenShift AI 3.6 requires both when external access is enabled, and rejects changes to these OGXServer(s) that leave external access enabled without both'')])"

section \<open>AI pipelines (\<open>pkg/aipipelines\<close>)\<close>

abbreviation ComponentKeyV1 :: string where "ComponentKeyV1 \<equiv> ''datasciencepipelines''"
abbreviation ComponentKeyV2 :: string where "ComponentKeyV2 \<equiv> ''aipipelines''"

definition ListDSPAs :: "reader \<Rightarrow> err + json list \<times> ResourceType" where
  "ListDSPAs r =
     (case rdList r rt_DataSciencePipelinesApplicationV1 list_all_config of
        Inr xs \<Rightarrow> Inr (xs, rt_DataSciencePipelinesApplicationV1)
      | Inl e \<Rightarrow>
          if \<not> rdApi r IsNotFound e then Inl (wrapf ''listing DataSciencePipelinesApplications v1'' e)
          else case rdList r rt_DataSciencePipelinesApplicationV1Alpha1 list_all_config of
              Inl e \<Rightarrow> Inl (wrapf ''listing DataSciencePipelinesApplications v1alpha1'' e)
            | Inr xs \<Rightarrow> Inr (xs, rt_DataSciencePipelinesApplicationV1Alpha1))"

definition HasDSPAs :: "reader \<Rightarrow> err + bool" where
  "HasDSPAs r = bind_res (ListDSPAs r) (\<lambda>(xs, rt). Inr (length xs > 0))"

definition ShouldApplyChecks :: "json \<Rightarrow> reader \<Rightarrow> err + bool" where
  "ShouldApplyChecks dsc r =
     (if HasManagementState (rdGojq r) dsc ComponentKeyV2 [ManagementStateManaged]
         \<or> HasManagementState (rdGojq r) dsc ComponentKeyV1 [ManagementStateManaged] then Inr True
      else case HasDSPAs r of
          Inl e \<Rightarrow> Inl (wrapf ''checking for DataSciencePipelinesApplications'' e)
        | Inr exists \<Rightarrow> Inr exists)"

definition HasComponentKey :: "gojq \<Rightarrow> json \<Rightarrow> string \<Rightarrow> err + bool" where
  "HasComponentKey gq dsc key =
     (case Query gq Inr JNull dsc (''.spec.components.'' @ key) of
        Inl e \<Rightarrow> if is_ErrNotFound e then Inr False else Inl (wrapf (''querying .spec.components.'' @ key) e)
      | Inr v \<Rightarrow> Inr True)"

definition UsesComponentKeyV2 :: "gojq \<Rightarrow> json \<Rightarrow> err + bool" where
  "UsesComponentKeyV2 gq dsc = HasComponentKey gq dsc ComponentKeyV2"

definition EffectiveManagementState :: "gojq \<Rightarrow> json \<Rightarrow> err + string" where
  "EffectiveManagementState gq dsc =
     (case UsesComponentKeyV2 gq dsc of
        Inl e \<Rightarrow> Inl (wrapf ''checking AI Pipelines v2 component key'' e)
      | Inr usesV2 \<Rightarrow>
          (let key = (if usesV2 then ComponentKeyV2 else ComponentKeyV1) in
           case GetManagementState gq dsc key of
             Inl e \<Rightarrow> Inl (wrapf (''querying '' @ key @ '' management state'') e)
           | Inr state \<Rightarrow> Inr state))"

fun HasFields :: "gojq \<Rightarrow> json \<Rightarrow> string list \<Rightarrow> err + json list" where
  "HasFields gq v [] = Inr []"
| "HasFields gq v (q # qs) =
     (case Query gq Inr JNull v q of
        Inl e \<Rightarrow> if is_ErrNotFound e then HasFields gq v qs else Inl (wrapf (''querying '' @ q) e)
      | Inr x \<Rightarrow> bind_res (HasFields gq v qs) (\<lambda>xs. Inr (x # xs)))"

text \<open>Roles (\<open>rbac\<close>): the two regular expressions are written out.\<close>

record Classification =
  clNeedsFix :: bool
  clRoleName :: string
  clNamespace :: string
  clRouteVerbs :: "string list"

definition IsSystemNamespace :: "string \<Rightarrow> bool" where
  "IsSystemNamespace ns =
     (ns = ''kube-system'' \<or> ns = ''default''
      \<or> (has_prefix ns ''openshift'' \<or> has_prefix ns ''redhat-ods-'') \<and> CHR 0x0A \<notin> set ns)"

definition operatorManagedRole :: "string \<Rightarrow> bool" where
  "operatorManagedRole name = (has_prefix name ''ds-pipeline-'' \<or> has_prefix name ''pipeline-runner-'')"

definition ExtractStringSlice :: "json \<Rightarrow> string \<Rightarrow> string list \<times> bool" where
  "ExtractStringSlice obj key =
     (case json_field key obj of
        Some (JArr xs) \<Rightarrow>
          (let out = concat (map (\<lambda>v. case v of JStr s \<Rightarrow> [s] | _ \<Rightarrow> []) xs) in (out, length out > 0))
      | _ \<Rightarrow> ([], False))"

definition containsStringOrWildcard :: "string list \<Rightarrow> string \<Rightarrow> bool" where
  "containsStringOrWildcard xs target = list_ex (\<lambda>v. v = target \<or> v = ''*'') xs"

fun mergeStringSlices :: "string list \<Rightarrow> string list \<Rightarrow> string list" where
  "mergeStringSlices a [] = a"
| "mergeStringSlices a (v # b) = mergeStringSlices (if v \<in> set a then a else a @ [v]) b"

abbreviation dspaAPIGroup :: string where "dspaAPIGroup \<equiv> ''datasciencepipelinesapplications.opendatahub.io''"
abbreviation dspaAPISubresource :: string where "dspaAPISubresource \<equiv> ''datasciencepipelinesapplications/api''"
abbreviation routeAPIGroup :: string where "routeAPIGroup \<equiv> ''route.openshift.io''"

text \<open>The loop over the rules: the route rule seen, the subresource seen, the verbs merged so far.\<close>

fun classify_rules :: "json list \<Rightarrow> bool \<times> bool \<times> string list \<Rightarrow> bool \<times> bool \<times> string list" where
  "classify_rules [] acc = acc"
| "classify_rules (JObj fs # rs) (route, dspa, verbs) =
     (let rule = JObj fs; groups = fst (ExtractStringSlice rule ''apiGroups''); res = fst (ExtractStringSlice rule ''resources'');
          isRoute = containsStringOrWildcard groups routeAPIGroup in
      classify_rules rs
        (route \<or> isRoute,
         dspa \<or> containsStringOrWildcard groups dspaAPIGroup \<and> containsStringOrWildcard res dspaAPISubresource,
         if isRoute then mergeStringSlices verbs (fst (ExtractStringSlice rule ''verbs'')) else verbs))"
| "classify_rules (r # rs) acc = classify_rules rs acc"

definition ClassifyRole :: "json \<Rightarrow> Classification" where
  "ClassifyRole role =
     (let c = \<lparr>clNeedsFix = False, clRoleName = u_name role, clNamespace = u_namespace role, clRouteVerbs = []\<rparr> in
      if IsSystemNamespace (clNamespace c) then c
      else if operatorManagedRole (clRoleName c) then c
      else case nested_slice [''rules''] role of
          None \<Rightarrow> c
        | Some rules \<Rightarrow>
            (case classify_rules rules (False, False, []) of
               (route, dspa, verbs) \<Rightarrow> c\<lparr>clNeedsFix := route \<and> \<not> dspa, clRouteVerbs := verbs\<rparr>))"

definition FindRolesNeedingFix :: "reader \<Rightarrow> err + Classification list" where
  "FindRolesNeedingFix r =
     (case rdList r rt_Role list_all_config of
        Inl e \<Rightarrow> Inl (wrapf ''listing roles'' e)
      | Inr roles \<Rightarrow> Inr (filter clNeedsFix (map ClassifyRole roles)))"

definition pipelines_apply :: "lint_target \<Rightarrow> err + bool" where
  "pipelines_apply t =
     (if \<not> upgrade_2x_3x t then Inr False
      else case GetDataScienceCluster (tgtClient t) of
          Inl e \<Rightarrow> Inl (wrapf ''getting DataScienceCluster'' e)
        | Inr dsc \<Rightarrow>
            (case ShouldApplyChecks dsc (tgtClient t) of
               Inl e \<Rightarrow> Inl (wrapf ''checking AI Pipelines component applicability'' e)
             | Inr b \<Rightarrow> Inr b))"

definition CustomRBACAPISubresourceCheck :: BaseCheck where
  "CustomRBACAPISubresourceCheck = \<lparr>bcGroup = ''workload'', bcKind = ''datasciencepipelines'', bcType = ''custom-rbac-api-subresource'',
     bcID = ''workloads.datasciencepipelines.custom-rbac-api-subresource'',
     bcName = ''Workloads :: DataSciencePipelines :: Custom RBAC API Subresource (3.x)'',
     bcDescription = ''Validates that custom Roles with route.openshift.io permissions also grant the datasciencepipelinesapplications/api subresource required after the kube-rbac-proxy migration in RHOAI 3.x'',
     bcRemediation = ''Run 'kubectl odh migrate run -m ai-pipelines.update-dsp-role' to patch affected Roles''\<rparr>"

definition CustomRBACAPISubresourceCanApply :: "lint_target \<Rightarrow> err + bool" where
  "CustomRBACAPISubresourceCanApply t = pipelines_apply t"

text \<open>The count, the impacted objects and the condition that two of the checks set.\<close>

definition count_and_set ::
  "ResourceType \<Rightarrow> (string \<times> string) list \<Rightarrow> (string + Condition) \<Rightarrow> (string + Condition) \<Rightarrow> DiagnosticResult \<Rightarrow> checked" where
  "count_and_set rt impacted some none dr =
     (let dr' = annotate AnnotationImpactedWorkloadCount (itoa (length impacted)) dr in
      if length impacted > 0 then set_conditions (SetImpactedObjects dr' rt impacted) [some] else set_conditions dr' [none])"

definition CustomRBACAPISubresourceValidate :: "semver_lib \<Rightarrow> lint_target \<Rightarrow> checked" where
  "CustomRBACAPISubresourceValidate sv t =
     (case FindRolesNeedingFix (tgtClient t) of
        Inl e \<Rightarrow> chk_error (wrapf ''scanning roles for DSPA API subresource gaps'' e)
      | Inr roles \<Rightarrow>
          count_and_set rt_Role (map (\<lambda>c. (clNamespace c, clRoleName c)) roles)
            (workload_fail ConditionTypeCompatible ReasonVersionIncompatible ImpactBlocking CustomRBACAPISubresourceCheck
               (''Found '' @ itoa (length roles) @ '' custom Role(s) with route.openshift.io permissions missing the datasciencepipelinesapplications/api subresource required in RHOAI '' @ target_label t))
            (workload_pass ConditionTypeCompatible
               (''No custom Roles missing datasciencepipelinesapplications/api subresource - ready for RHOAI '' @ target_label t @ '' upgrade''))
            (annotate_target sv t (BaseNewResult CustomRBACAPISubresourceCheck)))"

definition InstructLabRemovalCheck :: BaseCheck where
  "InstructLabRemovalCheck = \<lparr>bcGroup = ''workload'', bcKind = ''datasciencepipelines'', bcType = ''instructlab-removal'',
     bcID = ''workloads.datasciencepipelines.instructlab-removal'',
     bcName = ''Workloads :: DataSciencePipelines :: Deprecated apiServer Managed-Pipelines Fields (3.x)'',
     bcDescription = ''Validates that DSPA objects do not use deprecated apiServer fields before upgrading to RHOAI 3.x'',
     bcRemediation = ''Remove .spec.apiServer.managedPipelines.instructLab and the deprecated .spec.apiServer fields runtimeGenericImage, toolboxImage, rhelAIImage, and initResources from affected DSPA objects before upgrading''\<rparr>"

definition InstructLabRemovalCanApply :: "lint_target \<Rightarrow> err + bool" where
  "InstructLabRemovalCanApply t = pipelines_apply t"

definition deprecatedAPIServerFieldPaths :: "string list" where
  "deprecatedAPIServerFieldPaths = [''.spec.apiServer.managedPipelines.instructLab'', ''.spec.apiServer.runtimeGenericImage'',
     ''.spec.apiServer.toolboxImage'', ''.spec.apiServer.rhelAIImage'', ''.spec.apiServer.initResources'']"

fun impacted_dspas :: "gojq \<Rightarrow> json list \<Rightarrow> err + (string \<times> string) list" where
  "impacted_dspas gq [] = Inr []"
| "impacted_dspas gq (d # ds) =
     (case HasFields gq d deprecatedAPIServerFieldPaths of
        Inl e \<Rightarrow> Inl (wrapf (''querying deprecated apiServer fields for DSPA '' @ u_namespace d @ ''/'' @ u_name d) e)
      | Inr found \<Rightarrow> bind_res (impacted_dspas gq ds) (\<lambda>rest.
          Inr (if length found = 0 then rest else (u_namespace d, u_name d) # rest)))"

definition InstructLabRemovalValidate :: "semver_lib \<Rightarrow> lint_target \<Rightarrow> checked" where
  "InstructLabRemovalValidate sv t =
     (let r = tgtClient t; gq = rdGojq r; dr = annotate_target sv t (BaseNewResult InstructLabRemovalCheck) in
      case GetDataScienceCluster r of
        Inl e \<Rightarrow> chk_error (wrapf ''getting DataScienceCluster'' e)
      | Inr dsc \<Rightarrow>
          (case EffectiveManagementState gq dsc of
             Inl e \<Rightarrow> chk_error (wrapf ''resolving AI Pipelines management state'' e)
           | Inr state \<Rightarrow>
               (case ListDSPAs r of
                  Inl e \<Rightarrow> chk_error (wrapf ''listing DataSciencePipelinesApplications'' e)
                | Inr (dspas, rt) \<Rightarrow>
                    (case impacted_dspas gq dspas of
                       Inl e \<Rightarrow> chk_error e
                     | Inr impacted \<Rightarrow>
                         count_and_set rt impacted
                           (workload_fail ConditionTypeCompatible ReasonFeatureRemoved ImpactAdvisory InstructLabRemovalCheck
                              (''Found '' @ itoa (length impacted) @ '' DataSciencePipelinesApplication(s) with deprecated apiServer managed-pipelines fields removed in RHOAI '' @ target_label t))
                           (workload_pass ConditionTypeCompatible
                              (''No DataSciencePipelinesApplications found using deprecated apiServer managed-pipelines fields - ready for RHOAI '' @ target_label t @ '' upgrade''))
                           (annotate AnnotationComponentManagementState state dr)))))"

definition StoredVersionRemovalCheck :: BaseCheck where
  "StoredVersionRemovalCheck = \<lparr>bcGroup = ''workload'', bcKind = ''datasciencepipelines'', bcType = ''stored-version-removal'',
     bcID = ''workloads.datasciencepipelines.stored-version-removal'',
     bcName = ''Workloads :: DataSciencePipelines :: v1alpha1 StoredVersion Removal (3.x)'',
     bcDescription = ''Validates that the DataSciencePipelinesApplication CRD does not have v1alpha1 in status.storedVersions before upgrading to RHOAI 3.x'',
     bcRemediation = ''Migrate all DataSciencePipelinesApplication resources from v1alpha1 to v1''\<rparr>"

definition StoredVersionRemovalCanApply :: "lint_target \<Rightarrow> err + bool" where
  "StoredVersionRemovalCanApply t = Inr (upgrade_2x_3x t)"

abbreviation dspaCRDName :: string where
  "dspaCRDName \<equiv> ''datasciencepipelinesapplications.datasciencepipelinesapplications.opendatahub.io''"

definition hasDeprecatedVersion :: "json list \<Rightarrow> bool" where
  "hasDeprecatedVersion stored = (JStr ''v1alpha1'' \<in> set stored)"

definition StoredVersionRemovalValidate :: "semver_lib \<Rightarrow> lint_target \<Rightarrow> checked" where
  "StoredVersionRemovalValidate sv t =
     (let r = tgtClient t; dr = annotate_target sv t (BaseNewResult StoredVersionRemovalCheck) in
      case rdGet r rt_CustomResourceDefinition [] dspaCRDName of
        Inl e \<Rightarrow>
          if rdApi r IsNotFound e then
            set_new_condition dr ConditionTypeCompatible ConditionTrue
              [WithReason ReasonResourceNotFound,
               WithMessage ''DataSciencePipelinesApplication CRD not found - DataSciencePipelines may not be installed'']
          else chk_error (wrapf (''getting CRD '' @ dspaCRDName) e)
      | Inr None \<Rightarrow>
          set_new_condition dr ConditionTypeCompatible ConditionUnknown
            [WithReason ReasonAPIAccessDenied, WithMessage (''Unable to access CRD '' @ dspaCRDName @ '' - insufficient permissions'')]
      | Inr (Some crd) \<Rightarrow>
          (case Query (rdGojq r) as_array [] crd ''.status.storedVersions'' of
             Inl e \<Rightarrow> chk_error (wrapf (''querying status.storedVersions for CRD '' @ dspaCRDName) e)
           | Inr stored \<Rightarrow>
               if hasDeprecatedVersion stored then
                 set_conditions dr [workload_fail ConditionTypeCompatible ReasonVersionIncompatible ImpactBlocking StoredVersionRemovalCheck
                   (''Some DataSciencePipelinesApplication resources still use the deprecated '' @ ''v1alpha1'' @ '' API version which will be removed in RHOAI '' @ target_label t)]
               else
                 set_conditions dr [workload_pass ConditionTypeCompatible
                   (''No DataSciencePipelinesApplication resources using deprecated '' @ ''v1alpha1'' @ '' API version - ready for RHOAI '' @ target_label t @ '' upgrade'')]))"

section \<open>KServe\<close>

definition kserve_or_modelmesh :: "lint_target \<Rightarrow> err + bool" where
  "kserve_or_modelmesh t =
     (if \<not> upgrade_2x_3x t then Inr False
      else bind_res (component_in_state t ''kserve'' [ManagementStateManaged]) (\<lambda>k.
        bind_res (component_in_state t ''modelmeshserving'' [ManagementStateManaged]) (\<lambda>m. Inr (k \<or> m))))"

definition ISVCAcceleratorMigrationCheck :: BaseCheck where
  "ISVCAcceleratorMigrationCheck = \<lparr>bcGroup = ''workload'', bcKind = ''kserve'', bcType = ''impacted-workloads'',
     bcID = ''workloads.kserve.accelerator-migration'',
     bcName = ''Workloads :: KServe :: AcceleratorProfile Migration (3.x)'',
     bcDescription = ''Detects InferenceService CRs referencing deprecated AcceleratorProfiles that will be auto-migrated to HardwareProfiles (infrastructure.opendatahub.io) during upgrade'',
     bcRemediation = ''Deprecated AcceleratorProfiles will be automatically migrated to HardwareProfiles (infrastructure.opendatahub.io) during upgrade - no manual action required''\<rparr>"

definition ISVCAcceleratorMigrationCanApply :: "lint_target \<Rightarrow> err + bool" where
  "ISVCAcceleratorMigrationCanApply t = kserve_or_modelmesh t"

definition newISVCAcceleratorMigrationCondition :: "nat \<Rightarrow> nat \<Rightarrow> string + Condition" where
  "newISVCAcceleratorMigrationCondition totalImpacted totalMissing =
     (let ct = ''AcceleratorProfileCompatible'' in
      if totalImpacted = 0 then
        workload_pass ct ''No InferenceServices found using deprecated AcceleratorProfiles - no migration needed''
      else if totalMissing > 0 then
        workload_fail ct ReasonResourceNotFound ImpactAdvisory ISVCAcceleratorMigrationCheck
          (''Found '' @ itoa totalImpacted @ '' InferenceService(s) referencing deprecated AcceleratorProfiles ('' @ itoa totalMissing @ '' missing): AcceleratorProfiles and InferenceService references are automatically migrated to HardwareProfiles (infrastructure.opendatahub.io) during upgrade'')
      else
        workload_fail ct ReasonConfigurationInvalid ImpactAdvisory ISVCAcceleratorMigrationCheck
          (''Found '' @ itoa totalImpacted @ '' InferenceService(s) using deprecated AcceleratorProfiles: AcceleratorProfiles and InferenceService references are automatically migrated to HardwareProfiles (infrastructure.opendatahub.io) during upgrade''))"

definition append_conditions :: "DiagnosticResult \<Rightarrow> (string + Condition) list \<Rightarrow> checked" where
  "append_conditions dr cs = fold (\<lambda>c r. bind_checked r (\<lambda>dr. bind_res c (\<lambda>c. chk_done (dr\<lparr>Conditions := Conditions dr @ [c]\<rparr>)))) cs (chk_done dr)"

definition ISVCAcceleratorMigrationValidate :: "semver_lib \<Rightarrow> lint_target \<Rightarrow> checked" where
  "ISVCAcceleratorMigrationValidate sv t =
     (case FindWorkloadsWithAcceleratorRefs t rt_InferenceService of
        Inl e \<Rightarrow> chk_error (wrapf ''finding InferenceServices with AcceleratorProfiles'' e)
      | Inr (impacted, missing) \<Rightarrow>
          bind_checked (append_conditions (annotate AnnotationImpactedWorkloadCount (itoa (length impacted))
              (annotate_target sv t (BaseNewResult ISVCAcceleratorMigrationCheck)))
              [newISVCAcceleratorMigrationCondition (length impacted) missing])
            (\<lambda>dr. chk_done (if length impacted > 0 then SetImpactedObjects dr rt_InferenceService impacted else dr)))"

definition ISVCHardwareProfileCheck :: BaseCheck where
  "ISVCHardwareProfileCheck = \<lparr>bcGroup = ''workload'', bcKind = ''kserve'', bcType = ''config-migration'',
     bcID = ''workloads.kserve.hardwareprofile-migration'',
     bcName = ''Workloads :: KServe :: Legacy HardwareProfile Migration'',
     bcDescription = ''Detects InferenceService CRs carrying the legacy opendatahub.io/legacy-hardware-profile-name annotation that may need attention'',
     bcRemediation = ''Update InferenceServices to use current HardwareProfiles and remove the legacy-hardware-profile-name annotation''\<rparr>"

definition ISVCHardwareProfileCanApply :: "lint_target \<Rightarrow> err + bool" where
  "ISVCHardwareProfileCanApply t =
     (if \<not> upgrade_2x_3x t then Inr False else component_in_state t ''kserve'' [ManagementStateManaged])"

abbreviation AnnotationLegacyHardwareProfile :: string where "AnnotationLegacyHardwareProfile \<equiv> ''opendatahub.io/legacy-hardware-profile-name''"

definition legacy_profile_condition :: "BaseCheck \<Rightarrow> string \<Rightarrow> string \<Rightarrow> 'a list \<Rightarrow> (string + Condition) list" where
  "legacy_profile_condition b none some items =
     (if length items = 0 then
        [NewCondition ''HardwareProfileCompatible'' ConditionTrue [WithReason ReasonNoMigrationRequired, WithMessage none]]
      else [workload_fail ''HardwareProfileCompatible'' ReasonMigrationPending ImpactAdvisory b (''Found '' @ itoa (length items) @ some)])"

definition ISVCHardwareProfileValidate :: "semver_lib \<Rightarrow> lint_target \<Rightarrow> maybe_checked" where
  "ISVCHardwareProfileValidate sv t =
     WorkloadComplete sv t (WorkloadFilter (\<lambda>x. Inr (GetAnnotation x AnnotationLegacyHardwareProfile \<noteq> []))
       (WorkloadsMetadata ISVCHardwareProfileCheck t rt_InferenceService))
       (legacy_profile_condition ISVCHardwareProfileCheck
          ''No InferenceServices found with legacy hardware profile annotation - no migration needed''
          '' InferenceService(s) with legacy hardware profile annotation that may need attention'')"

definition InferenceServiceConfigCheck :: BaseCheck where
  "InferenceServiceConfigCheck = \<lparr>bcGroup = ''workload'', bcKind = ''kserve'', bcType = ''impacted-workloads'',
     bcID = ''workloads.kserve.inferenceservice-config'',
     bcName = ''Workloads :: KServe :: InferenceService Config Migration'',
     bcDescription = ''Validates that inferenceservice-config ConfigMap has opendatahub.io/managed=false and includes hardware-profile annotations in serviceAnnotationDisallowedList before upgrading to RHOAI 3.x'',
     bcRemediation = ''Set the annotation opendatahub.io/managed=false on the inferenceservice-config ConfigMap, and add opendatahub.io/hardware-profile-name and opendatahub.io/hardware-profile-namespace to the serviceAnnotationDisallowedList in the inferenceService data key''\<rparr>"

definition InferenceServiceConfigCanApply :: "lint_target \<Rightarrow> err + bool" where
  "InferenceServiceConfigCanApply t =
     (if \<not> upgrade_2x_3x t then Inr False else component_in_state t ''kserve'' [ManagementStateManaged])"

definition requiredDisallowedAnnotations :: "string list" where
  "requiredDisallowedAnnotations = [''opendatahub.io/hardware-profile-name'', ''opendatahub.io/hardware-profile-namespace'']"

definition findMissingDisallowedAnnotations :: "(string \<Rightarrow> err + string list) \<Rightarrow> gojq \<Rightarrow> json \<Rightarrow> string list \<Rightarrow> err + string list" where
  "findMissingDisallowedAnnotations disallowed gq cm required =
     (case Query gq as_string [] cm ''.data.inferenceService'' of
        Inl e \<Rightarrow> Inr required
      | Inr d \<Rightarrow>
          (case disallowed d of
             Inl e \<Rightarrow> Inl (wrapf ''parsing inferenceService JSON'' e)
           | Inr xs \<Rightarrow> Inr (filter (\<lambda>a. a \<notin> set xs) required)))"

text \<open>A ConfigMap that may not be read is nil, and its annotations are asked for.\<close>

definition checkInferenceServiceConfig :: "(string \<Rightarrow> err + string list) \<Rightarrow> ComponentRequest \<Rightarrow> checked" where
  "checkInferenceServiceConfig disallowed req =
     (let r = tgtClient (rqTarget req); dr = rqResult req; tv = target_label (rqTarget req); b = InferenceServiceConfigCheck in
      case rdGet r rt_ConfigMap (rqNamespace req) ''inferenceservice-config'' of
        Inl e \<Rightarrow>
          if rdApi r IsNotFound e then
            set_conditions dr [workload_pass ConditionTypeCompatible
              (''inferenceservice-config ConfigMap not found in namespace '' @ rqNamespace req @ '' - no migration needed'')]
          else chk_error (wrapf ''getting inferenceservice-config ConfigMap'' e)
      | Inr None \<Rightarrow> Inl nil_dereference
      | Inr (Some cm) \<Rightarrow>
          if map_get (u_annotations cm) ''opendatahub.io/managed'' \<noteq> ''false'' then
            set_conditions dr [workload_fail ConditionTypeConfigured ReasonConfigurationUnmanaged ImpactAdvisory b
              (''inferenceservice-config ConfigMap must have '' @ ''opendatahub.io/managed'' @ ''=false and include hardware-profile annotations in serviceAnnotationDisallowedList, otherwise models may get restarted during upgrade to RHOAI '' @ tv)]
          else
            (case findMissingDisallowedAnnotations disallowed (rdGojq r) cm requiredDisallowedAnnotations of
               Inl e \<Rightarrow> chk_error (wrapf ''checking serviceAnnotationDisallowedList'' e)
             | Inr missing \<Rightarrow>
                 if length missing > 0 then
                   set_conditions dr [workload_fail ConditionTypeConfigured ReasonConfigurationInvalid ImpactAdvisory b
                     (''inferenceservice-config ConfigMap must include the following annotations in serviceAnnotationDisallowedList to prevent models from being restarted during upgrade to RHOAI '' @ tv @ '': '' @ str_join '', '' missing)]
                 else
                   set_conditions dr [workload_pass ConditionTypeCompatible
                     (''inferenceservice-config ConfigMap has '' @ ''opendatahub.io/managed'' @ ''=false and serviceAnnotationDisallowedList includes required hardware-profile annotations - ready for RHOAI '' @ tv @ '' upgrade'')]))"

definition InferenceServiceConfigValidate :: "(string \<Rightarrow> err + string list) \<Rightarrow> semver_lib \<Rightarrow> lint_target \<Rightarrow> checked" where
  "InferenceServiceConfigValidate disallowed sv t =
     ComponentRun sv t (WithApplicationsNamespace (Component InferenceServiceConfigCheck)) (checkInferenceServiceConfig disallowed)"

text \<open>The filter on the deployment mode concerns the verbose text only and is left out.\<close>

definition KServeImpactedCheck :: BaseCheck where
  "KServeImpactedCheck = \<lparr>bcGroup = ''workload'', bcKind = ''kserve'', bcType = ''impacted-workloads'',
     bcID = ''workloads.kserve.impacted-workloads'',
     bcName = ''Workloads :: KServe :: Impacted Workloads (3.x)'',
     bcDescription = ''Lists InferenceServices and ServingRuntimes using deprecated deployment modes (ModelMesh, Serverless), removed ServingRuntimes, or ServingRuntimes referencing deprecated AcceleratorProfiles that will be impacted in RHOAI 3.x'',
     bcRemediation = ''Migrate InferenceServices from Serverless/ModelMesh to RawDeployment mode, update ServingRuntimes to supported versions, and review AcceleratorProfile references before upgrading''\<rparr>"

definition KServeImpactedCanApply :: "lint_target \<Rightarrow> err + bool" where
  "KServeImpactedCanApply t = kserve_or_modelmesh t"

abbreviation annotationDeploymentMode :: string where "annotationDeploymentMode \<equiv> ''serving.kserve.io/deploymentMode''"
abbreviation runtimeField :: string where "runtimeField \<equiv> ''.spec.predictor.model.runtime''"

definition isImpactedISVC :: "PartialObject \<Rightarrow> err + bool" where
  "isImpactedISVC x =
     Inr (HasAnnotation x annotationDeploymentMode ''Serverless'' \<or> HasAnnotation x annotationDeploymentMode ''ModelMesh'')"

definition runtime_error :: "json \<Rightarrow> err \<Rightarrow> err" where
  "runtime_error obj e = wrapf (''querying runtime for '' @ u_namespace obj @ ''/'' @ u_name obj) e"

definition isUsingRemovedRuntime :: "gojq \<Rightarrow> json \<Rightarrow> err + bool" where
  "isUsingRemovedRuntime gq obj =
     (case Query gq as_string [] obj runtimeField of
        Inl e \<Rightarrow> if is_ErrNotFound e then Inr False else Inl (runtime_error obj e)
      | Inr rt \<Rightarrow> Inr (rt \<in> set [''ovms'', ''caikit-standalone-serving-template'', ''caikit-tgis-serving-template'']))"

definition newWorkloadCompatibilityCondition :: "string \<Rightarrow> nat \<Rightarrow> string \<Rightarrow> string \<Rightarrow> string + Condition" where
  "newWorkloadCompatibilityCondition ct n what tv =
     (if n > 0 then
        workload_fail ct ReasonVersionIncompatible ImpactBlocking KServeImpactedCheck
          (''Found '' @ itoa n @ '' '' @ what @ '' - will be impacted in RHOAI '' @ tv)
      else workload_pass ct (''No '' @ what @ '' found - ready for RHOAI '' @ tv @ '' upgrade''))"

definition newAcceleratorSRCondition :: "string \<Rightarrow> nat \<Rightarrow> string \<Rightarrow> string + Condition" where
  "newAcceleratorSRCondition ct n what =
     (if n > 0 then
        workload_fail ct ReasonConfigurationInvalid ImpactAdvisory KServeImpactedCheck
          (''Found '' @ itoa n @ '' '' @ what @ '' - AcceleratorProfiles will be auto-migrated to HardwareProfiles during upgrade'')
      else workload_pass ct (''No '' @ what @ '' found''))"

text \<open>One of the \<open>append\<dots>\<close> functions: a condition and the objects it is about.\<close>

definition append_finding :: "(string + Condition) \<Rightarrow> (err + ObjectMeta list) \<Rightarrow> DiagnosticResult \<Rightarrow> checked" where
  "append_finding c objs dr =
     bind_checked (append_conditions dr [c]) (\<lambda>dr.
       case objs of Inl e \<Rightarrow> chk_error e | Inr os \<Rightarrow> chk_done (dr\<lparr>ImpactedObjects := ImpactedObjects dr @ os\<rparr>))"

definition meta_object :: "ResourceType \<Rightarrow> (PartialObject \<Rightarrow> (string, string) gomap) \<Rightarrow> PartialObject \<Rightarrow> ObjectMeta" where
  "meta_object rt anns x = (impacted_object rt (poNamespace x, poName x))\<lparr>omAnnotations := anns x\<rparr>"

definition appendISVCCondition :: "PartialObject list \<Rightarrow> string \<Rightarrow> string \<Rightarrow> string \<Rightarrow> string \<Rightarrow> DiagnosticResult \<Rightarrow> checked" where
  "appendISVCCondition isvcs ct mode what tv dr =
     (let filtered = filter (\<lambda>x. HasAnnotation x annotationDeploymentMode mode) isvcs in
      append_finding (newWorkloadCompatibilityCondition ct (length filtered) what tv)
        (Inr (map (meta_object rt_InferenceService (\<lambda>x. [(annotationDeploymentMode, mode)])) filtered)) dr)"

definition appendModelMeshSRCondition :: "json list \<Rightarrow> string \<Rightarrow> DiagnosticResult \<Rightarrow> checked" where
  "appendModelMeshSRCondition srs tv dr =
     append_finding (newWorkloadCompatibilityCondition ''ModelMeshServingRuntimesCompatible'' (length srs) ''ModelMesh ServingRuntime(s)'' tv)
       (Inr (map (marked_object rt_ServingRuntime []) srs)) dr"

fun runtime_objects :: "gojq \<Rightarrow> json list \<Rightarrow> err + ObjectMeta list" where
  "runtime_objects gq [] = Inr []"
| "runtime_objects gq (x # xs) =
     (case Query gq as_string [] x runtimeField of
        Inl e \<Rightarrow> Inl (runtime_error x e)
      | Inr rt \<Rightarrow> bind_res (runtime_objects gq xs) (\<lambda>os. Inr (marked_object rt_InferenceService [(''serving.kserve.io/runtime'', rt)] x # os)))"

definition appendRemovedRuntimeISVCCondition :: "gojq \<Rightarrow> json list \<Rightarrow> string \<Rightarrow> DiagnosticResult \<Rightarrow> checked" where
  "appendRemovedRuntimeISVCCondition gq items tv dr =
     append_finding (newWorkloadCompatibilityCondition ''RemovedServingRuntimesCompatible'' (length items)
         ''InferenceService(s) using removed ServingRuntime(s)'' tv) (runtime_objects gq items) dr"

definition appendAcceleratorOnlySRCondition :: "PartialObject list \<Rightarrow> DiagnosticResult \<Rightarrow> checked" where
  "appendAcceleratorOnlySRCondition items dr =
     append_finding (newAcceleratorSRCondition ''AcceleratorOnlyServingRuntimesCompatible'' (length items)
         ''ServingRuntime(s) with AcceleratorProfile annotation only'')
       (Inr (map (meta_object rt_ServingRuntime (\<lambda>x. [(AnnotationAcceleratorName, GetAnnotation x AnnotationAcceleratorName)])) items)) dr"

abbreviation annotationHardwareProfileName :: string where "annotationHardwareProfileName \<equiv> ''opendatahub.io/hardware-profile-name''"

definition appendAcceleratorAndHWProfileSRCondition :: "PartialObject list \<Rightarrow> DiagnosticResult \<Rightarrow> checked" where
  "appendAcceleratorAndHWProfileSRCondition items dr =
     append_finding (newAcceleratorSRCondition ''AcceleratorAndHWProfileServingRuntimesCompatible'' (length items)
         ''ServingRuntime(s) with both AcceleratorProfile and HardwareProfile annotations'')
       (Inr (map (meta_object rt_ServingRuntime (\<lambda>x. [(AnnotationAcceleratorName, GetAnnotation x AnnotationAcceleratorName),
          (annotationHardwareProfileName, GetAnnotation x annotationHardwareProfileName)])) items)) dr"

fun runtime_users :: "gojq \<Rightarrow> (string \<times> string) list \<Rightarrow> json list \<Rightarrow> err + json list" where
  "runtime_users gq srs [] = Inr []"
| "runtime_users gq srs (x # xs) =
     (case Query gq as_string [] x runtimeField of
        Inl e \<Rightarrow> if is_ErrNotFound e then runtime_users gq srs xs else Inl (runtime_error x e)
      | Inr rt \<Rightarrow> bind_res (runtime_users gq srs xs) (\<lambda>ys. Inr (if (u_namespace x, rt) \<in> set srs then x # ys else ys)))"

definition appendAcceleratorSRISVCCondition :: "gojq \<Rightarrow> PartialObject list \<Rightarrow> json list \<Rightarrow> DiagnosticResult \<Rightarrow> checked" where
  "appendAcceleratorSRISVCCondition gq srs isvcs dr =
     (case runtime_users gq (ToNamespacedNames srs) isvcs of
        Inl e \<Rightarrow> chk_error e
      | Inr impacted \<Rightarrow>
          append_finding (newAcceleratorSRCondition ''AcceleratorServingRuntimeISVCsCompatible'' (length impacted)
              ''InferenceService(s) referencing AcceleratorProfile-linked ServingRuntime(s)'') (runtime_objects gq impacted) dr)"

definition lift_check :: "err + 'a \<Rightarrow> ('a \<Rightarrow> checked) \<Rightarrow> checked" where
  "lift_check r f = (case r of Inl e \<Rightarrow> chk_error e | Inr x \<Rightarrow> f x)"

definition KServeImpactedValidate :: "semver_lib \<Rightarrow> lint_target \<Rightarrow> checked" where
  "KServeImpactedValidate sv t =
     (let r = tgtClient t; gq = rdGojq r; tv = target_label t; dr = annotate_target sv t (BaseNewResult KServeImpactedCheck) in
      lift_check (ListObjectsMetadata r rt_InferenceService (Some isImpactedISVC)) (\<lambda>allISVCs.
      lift_check (ListObjects r rt_ServingRuntime (Some (Predicate gq ''.spec.multiModel == true''))) (\<lambda>impactedSRs.
      lift_check (ListObjects r rt_InferenceService (Some (isUsingRemovedRuntime gq))) (\<lambda>removed.
      lift_check (ListObjectsMetadata r rt_ServingRuntime (Some (\<lambda>x. Inr (GetAnnotation x AnnotationAcceleratorName \<noteq> [])))) (\<lambda>accelerated.
      lift_check (ListObjects r rt_InferenceService None) (\<lambda>full.
        bind_checked (appendISVCCondition allISVCs ''ServerlessInferenceServicesCompatible'' ''Serverless'' ''Serverless InferenceService(s)'' tv dr) (\<lambda>dr.
        bind_checked (appendISVCCondition allISVCs ''ModelMeshInferenceServicesCompatible'' ''ModelMesh'' ''ModelMesh InferenceService(s)'' tv dr) (\<lambda>dr.
        bind_checked (appendModelMeshSRCondition impactedSRs tv dr) (\<lambda>dr.
        bind_checked (appendRemovedRuntimeISVCCondition gq removed tv dr) (\<lambda>dr.
        bind_checked (appendAcceleratorOnlySRCondition (filter (\<lambda>x. GetAnnotation x annotationHardwareProfileName = []) accelerated) dr) (\<lambda>dr.
        bind_checked (appendAcceleratorAndHWProfileSRCondition (filter (\<lambda>x. GetAnnotation x annotationHardwareProfileName \<noteq> []) accelerated) dr) (\<lambda>dr.
        bind_checked (appendAcceleratorSRISVCCondition gq accelerated full dr) (\<lambda>dr.
          chk_done (annotate AnnotationImpactedWorkloadCount (itoa (length (ImpactedObjects dr))) dr))))))))))))))"

section \<open>Valid outcomes\<close>

lemma workload_bases_ok [simp]:
  "base_ok AppWrapperCleanupCheck" "base_ok RayImpactedCheck" "base_ok NumProcPerNodeCheck" "base_ok PodTemplateOverridesCheck"
  "base_ok PyTorchJobsCheck" "base_ok LlamaStackConfigCheck" "base_ok LlamaStackMigrationCheck" "base_ok ExternalAccessTLSCheck"
  "base_ok CustomRBACAPISubresourceCheck" "base_ok InstructLabRemovalCheck" "base_ok StoredVersionRemovalCheck"
  "base_ok ISVCAcceleratorMigrationCheck" "base_ok ISVCHardwareProfileCheck" "base_ok InferenceServiceConfigCheck" "base_ok KServeImpactedCheck"
  by code_simp+

lemma workload_built_ok:
  "ct \<noteq> [] \<Longrightarrow> built_ok (workload_pass ct msg)"
  "ct \<noteq> [] \<Longrightarrow> reason \<noteq> [] \<Longrightarrow> impact \<in> {ImpactProhibited, ImpactBlocking, ImpactAdvisory} \<Longrightarrow>
     built_ok (workload_fail ct reason impact b msg)"
  by (simp_all add: workload_pass_def workload_fail_def built_ok_True built_ok_impact)

lemma built_ok_Unknown: "t \<noteq> [] \<Longrightarrow> r \<noteq> [] \<Longrightarrow> built_ok (NewCondition t ConditionUnknown [WithReason r, WithMessage m])"
  by (simp add: build_simps)

lemma workload_condition_ok:
  "built_ok (newCodeFlareRayClusterCondition t items)"
  "built_ok (newPyTorchJobCondition active completed removal)"
  "built_ok (newISVCAcceleratorMigrationCondition n m)"
  "ct \<noteq> [] \<Longrightarrow> built_ok (newWorkloadCompatibilityCondition ct n what tv)"
  "ct \<noteq> [] \<Longrightarrow> built_ok (newAcceleratorSRCondition ct n what)"
  unfolding newCodeFlareRayClusterCondition_def newPyTorchJobCondition_def newISVCAcceleratorMigrationCondition_def
    newWorkloadCompatibilityCondition_def newAcceleratorSRCondition_def Let_def
  by (simp_all add: workload_built_ok)

lemma set_one_ok: "dr_ok dr \<Longrightarrow> built_ok c \<Longrightarrow> checked_ok (set_conditions dr [c])"
  by (rule set_conditions_ok) simp_all

lemma count_and_set_ok: "dr_ok dr \<Longrightarrow> built_ok some \<Longrightarrow> built_ok none \<Longrightarrow> checked_ok (count_and_set rt impacted some none dr)"
  by (simp add: count_and_set_def Let_def set_one_ok dr_ok_annotate dr_ok_SetImpactedObjects del: set_conditions.simps)

lemma append_one_ok:
  assumes "dr_ok dr" and "built_ok c"
  shows "checked_ok (append_conditions dr [c])"
proof -
  obtain c' where "c = Inr c'" "cond_ok c'" using assms(2) by (auto simp: built_ok_def)
  then show ?thesis using assms(1) by (simp add: append_conditions_def bind_checked_def dr_ok_def chk_done_def checked_ok_def)
qed

lemma append_finding_ok:
  assumes "dr_ok dr" and "built_ok c"
  shows "checked_ok (append_finding c objs dr)"
  unfolding append_finding_def
  by (rule bind_checked_ok [OF append_one_ok [OF assms]]) (auto simp: dr_ok_def split: sum.split)

lemma callback_set_ok: "dr_ok dr \<Longrightarrow> built_ok c \<Longrightarrow> callback_ok (unassigned (set_conditions dr [c]))"
  using set_one_ok [of dr c] by (cases "set_conditions dr [c]"; cases "projr (set_conditions dr [c])")
    (auto simp: callback_ok_def unassigned_def)

lemma callback_assign_ok:
  assumes "dr_ok dr" and "built_ok c"
  shows "callback_ok (bind_res c (\<lambda>c. Inr (Inr ((SetCondition dr c)\<lparr>ImpactedObjects := os\<rparr>, True))))"
proof -
  obtain c' where "c = Inr c'" "cond_ok c'" using assms(2) by (auto simp: built_ok_def)
  then show ?thesis using dr_ok_SetCondition [OF assms(1), of c'] by (simp add: callback_ok_def dr_ok_def)
qed

lemma workload_builder_check [simp]:
  "wbCheck (Workloads b t rt) = b" "wbCheck (WorkloadsMetadata b t rt) = b" "wbCheck (WorkloadFilter f wb) = wbCheck wb"
  "wbCheck (ForComponent ns wb) = wbCheck wb"
  by (simp_all add: Workloads_def WorkloadsMetadata_def WorkloadFilter_def ForComponent_def)

lemma complete_checks_ok:
  "maybe_ok (AppWrapperCleanupValidate sv t)" "maybe_ok (NumProcPerNodeValidate sv t)" "maybe_ok (PodTemplateOverridesValidate sv t)"
  "maybe_ok (ExternalAccessTLSValidate sv t)" "maybe_ok (ISVCHardwareProfileValidate sv t)"
  unfolding AppWrapperCleanupValidate_def NumProcPerNodeValidate_def PodTemplateOverridesValidate_def
    ExternalAccessTLSValidate_def ISVCHardwareProfileValidate_def legacy_profile_condition_def
  by (intro WorkloadComplete_ok; simp add: workload_built_ok built_ok_True)+

lemma run_checks_ok:
  "maybe_ok (RayImpactedValidate sv t)" "maybe_ok (PyTorchJobsValidate sv t)" "maybe_ok (LlamaStackConfigValidate sv t)"
  "maybe_ok (LlamaStackMigrationValidate sv t)"
  unfolding RayImpactedValidate_def PyTorchJobsValidate_def LlamaStackConfigValidate_def LlamaStackMigrationValidate_def distributions_def
  by (intro WorkloadRun_ok; auto simp: callback_set_ok callback_assign_ok workload_condition_ok workload_built_ok built_ok_True
      built_ok_impact callback_ok_def [of "Inr (Inl e)" for e] simp del: set_conditions.simps split: sum.split)+


lemma pipelines_checks_ok:
  "checked_ok (CustomRBACAPISubresourceValidate sv t)" "checked_ok (InstructLabRemovalValidate sv t)"
  "checked_ok (StoredVersionRemovalValidate sv t)"
proof -
  have dr: "dr_ok (annotate_target sv t (BaseNewResult b))" if "base_ok b" for b using that by (intro check_ok)
  show "checked_ok (CustomRBACAPISubresourceValidate sv t)" "checked_ok (InstructLabRemovalValidate sv t)"
    unfolding CustomRBACAPISubresourceValidate_def InstructLabRemovalValidate_def Let_def
    by (auto simp: count_and_set_ok workload_built_ok dr dr_ok_annotate split: sum.split)
  show "checked_ok (StoredVersionRemovalValidate sv t)"
    unfolding StoredVersionRemovalValidate_def Let_def
    by (auto simp: set_one_ok set_new_condition_ok built_ok_True built_ok_Unknown workload_built_ok dr
        simp del: set_conditions.simps split: sum.split option.split)
qed

lemma lift_check_ok: "(\<And>x. r = Inr x \<Longrightarrow> checked_ok (f x)) \<Longrightarrow> checked_ok (lift_check r f)"
  by (auto simp: lift_check_def split: sum.split)

lemma kserve_finding_ok:
  assumes "dr_ok dr"
  shows "ct \<noteq> [] \<Longrightarrow> checked_ok (appendISVCCondition isvcs ct mode what tv dr)"
    "checked_ok (appendModelMeshSRCondition srs tv dr)" "checked_ok (appendRemovedRuntimeISVCCondition gq items tv dr)"
    "checked_ok (appendAcceleratorOnlySRCondition ps dr)" "checked_ok (appendAcceleratorAndHWProfileSRCondition ps dr)"
    "checked_ok (appendAcceleratorSRISVCCondition gq ps full dr)"
  unfolding appendISVCCondition_def appendModelMeshSRCondition_def appendRemovedRuntimeISVCCondition_def
    appendAcceleratorOnlySRCondition_def appendAcceleratorAndHWProfileSRCondition_def appendAcceleratorSRISVCCondition_def Let_def
  by (auto simp: append_finding_ok [OF assms] workload_condition_ok split: sum.split)

lemma kserve_workload_checks_ok: "checked_ok (ISVCAcceleratorMigrationValidate sv t)" "checked_ok (KServeImpactedValidate sv t)"
proof -
  have dr: "dr_ok (annotate_target sv t (BaseNewResult b))" if "base_ok b" for b using that by (intro check_ok)
  show "checked_ok (ISVCAcceleratorMigrationValidate sv t)"
    unfolding ISVCAcceleratorMigrationValidate_def
    by (auto intro!: bind_checked_ok append_one_ok dr_ok_annotate dr workload_condition_ok
        simp: dr_ok_SetImpactedObjects SetImpactedObjects_def [of _ _ ns for ns, THEN arg_cong [where f = Conditions]] split: sum.split)
  show "checked_ok (KServeImpactedValidate sv t)"
    unfolding KServeImpactedValidate_def Let_def
    by (intro lift_check_ok bind_checked_ok kserve_finding_ok dr) (simp_all add: dr_ok_annotate)
qed

text \<open>The remaining check panics if the ConfigMap may not be read.\<close>

lemma InferenceServiceConfig_ok:
  assumes "\<And>ns. rdGet (tgtClient t) rt_ConfigMap ns ''inferenceservice-config'' \<noteq> Inr None"
  shows "checked_ok (InferenceServiceConfigValidate disallowed sv t)"
  unfolding InferenceServiceConfigValidate_def
proof (rule ComponentRun_target_ok)
  show "base_ok (cbCheck (WithApplicationsNamespace (Component InferenceServiceConfigCheck)))"
    by (simp add: WithApplicationsNamespace_def Component_def)
  show "checked_ok (checkInferenceServiceConfig disallowed req)" if "dr_ok (rqResult req)" "rqTarget req = t" for req
    using that assms [of "rqNamespace req"]
    by (auto simp: checkInferenceServiceConfig_def Let_def set_one_ok workload_built_ok simp del: set_conditions.simps
        split: sum.split option.split)
qed

end
