(* ===== verification/NotebookChecks.thy ===== *)
theory NotebookChecks
  imports WorkloadChecks Stdin
begin

text \<open>
  The checks of \<open>pkg/lint/checks/workloads\<close> for guardrails and for notebooks, except the analysis of notebook
  images (theory \<open>NotebookImages\<close>). The YAML decoder of the guardrails configuration is the argument \<open>yamlMap\<close>. Where
  the code ranges over a set of namespaces, in an order Go leaves open, the model takes them in the order they
  were inserted: the order decides only which of several errors is returned.
\<close>

abbreviation ConditionTypeConfigurationValid :: string where "ConditionTypeConfigurationValid \<equiv> ''ConfigurationValid''"

section \<open>Guardrails (\<open>guardrails/otel_migration.go\<close>, \<open>guardrails/impacted.go\<close>)\<close>

definition OtelMigrationCheck :: BaseCheck where
  "OtelMigrationCheck = \<lparr>bcGroup = ''workload'', bcKind = ''guardrails'', bcType = ''config-migration'',
     bcID = ''workloads.guardrails.otel-config-migration'',
     bcName = ''Workloads :: Guardrails :: OTEL Config Migration (3.x)'',
     bcDescription = ''Detects GuardrailsOrchestrator CRs using deprecated otelExporter configuration fields that need migration'',
     bcRemediation = []\<rparr>"

definition guardrails_apply :: "lint_target \<Rightarrow> err + bool" where
  "guardrails_apply t =
     (if \<not> upgrade_2x_3x t then Inr False else component_in_state t ''trustyai'' [ManagementStateManaged])"

definition OtelMigrationCanApply :: "lint_target \<Rightarrow> err + bool" where
  "OtelMigrationCanApply t = guardrails_apply t"

definition hasDeprecatedOtelFields :: "gojq \<Rightarrow> json \<Rightarrow> err + bool" where
  "hasDeprecatedOtelFields gq v =
     (case Query gq as_map None v ''.spec.otelExporter'' of
        Inl e \<Rightarrow> if is_ErrNotFound e then Inr False else Inl e
      | Inr m \<Rightarrow> Inr (case m of None \<Rightarrow> False | Some fs \<Rightarrow> length fs > 0))"

definition newOtelMigrationCondition :: "nat \<Rightarrow> string + Condition" where
  "newOtelMigrationCondition n =
     (if n = 0 then workload_pass ''OtelConfigCompatible'' ''No GuardrailsOrchestrators found using deprecated otelExporter fields''
      else NewCondition ''OtelConfigCompatible'' ConditionFalse
        [WithReason ReasonConfigurationInvalid,
         WithMessage (''Found '' @ itoa n @ '' GuardrailsOrchestrator(s) using deprecated otelExporter fields - migrate to new format before upgrading''),
         WithImpact ImpactAdvisory])"

definition OtelMigrationValidate :: "semver_lib \<Rightarrow> lint_target \<Rightarrow> maybe_checked" where
  "OtelMigrationValidate sv t =
     WorkloadComplete sv t (WorkloadFilter (hasDeprecatedOtelFields (rdGojq (tgtClient t)))
       (Workloads OtelMigrationCheck t rt_GuardrailsOrchestrator)) (\<lambda>items. [newOtelMigrationCondition (length items)])"

definition GuardrailsImpactedCheck :: BaseCheck where
  "GuardrailsImpactedCheck = \<lparr>bcGroup = ''workload'', bcKind = ''guardrails'', bcType = ''impacted-workloads'',
     bcID = ''workloads.guardrails.impacted-workloads'',
     bcName = ''Workloads :: Guardrails :: Impacted Workloads (3.x)'',
     bcDescription = ''Detects GuardrailsOrchestrator CRs with configuration that will be impacted in RHOAI 3.x upgrade'',
     bcRemediation = ''Review and fix GuardrailsOrchestrator configuration before upgrading to ensure correct operation in RHOAI 3.x''\<rparr>"

definition GuardrailsImpactedCanApply :: "lint_target \<Rightarrow> err + bool" where
  "GuardrailsImpactedCanApply t = guardrails_apply t"

abbreviation annotationOrchestratorConfig :: string where "annotationOrchestratorConfig \<equiv> ''guardrails.opendatahub.io/orchestrator-config''"
abbreviation annotationGatewayConfig :: string where "annotationGatewayConfig \<equiv> ''guardrails.opendatahub.io/gateway-config''"
abbreviation annotationBuiltinDetectors :: string where "annotationBuiltinDetectors \<equiv> ''guardrails.opendatahub.io/builtin-detectors''"
abbreviation annotationOrchestratorCM :: string where "annotationOrchestratorCM \<equiv> ''guardrails.opendatahub.io/orchestrator-configmap''"
abbreviation annotationGatewayCM :: string where "annotationGatewayCM \<equiv> ''guardrails.opendatahub.io/gateway-configmap''"
abbreviation annotationIssues :: string where "annotationIssues \<equiv> ''guardrails.opendatahub.io/issues''"

record crConfig =
  orchestratorConfigName :: string
  gatewayConfigName :: string

record crResult =
  orchCMName :: string
  gatewayCMName :: string
  crAnnotations :: "(string, string) gomap"

record specResult =
  srConfig :: crConfig
  orchConfigFail :: bool
  gatewayFail :: bool
  detectorsFail :: bool
  gatewayConfigFail :: bool

definition checkStringFieldMissing :: "gojq \<Rightarrow> json \<Rightarrow> string \<Rightarrow> string \<times> bool" where
  "checkStringFieldMissing gq v q =
     (case Query gq as_string [] v q of Inl _ \<Rightarrow> ([], True) | Inr s \<Rightarrow> if s = [] then ([], True) else (s, False))"

definition checkBoolNotTrue :: "gojq \<Rightarrow> json \<Rightarrow> string \<Rightarrow> bool" where
  "checkBoolNotTrue gq v q = (case Query gq as_bool False v q of Inl _ \<Rightarrow> True | Inr b \<Rightarrow> \<not> b)"

definition validateCRSpec :: "gojq \<Rightarrow> json \<Rightarrow> specResult" where
  "validateCRSpec gq v =
     (let (orch, orchFail) = checkStringFieldMissing gq v ''.spec.orchestratorConfig'';
          (gate, gateFail) = checkStringFieldMissing gq v ''.spec.guardrailsGatewayConfig'' in
      \<lparr>srConfig = \<lparr>orchestratorConfigName = orch, gatewayConfigName = gate\<rparr>, orchConfigFail = orchFail,
       gatewayFail = checkBoolNotTrue gq v ''.spec.enableGuardrailsGateway'',
       detectorsFail = checkBoolNotTrue gq v ''.spec.enableBuiltInDetectors'', gatewayConfigFail = gateFail\<rparr>)"

text \<open>\<open>Query[any]\<close> has no conversion; of all values only the empty string prints as nothing.\<close>

definition validateOrchestratorConfigData :: "gojq \<Rightarrow> json \<Rightarrow> string list" where
  "validateOrchestratorConfigData gq config =
     (let hostBad = (case Query gq as_string [] config ''.chat_generation.service.hostname'' of Inl _ \<Rightarrow> True | Inr s \<Rightarrow> s = []);
          portBad = (case Query gq Inr JNull config ''.chat_generation.service.port'' of Inl _ \<Rightarrow> True | Inr p \<Rightarrow> p = JStr []);
          detBad = (case Query gq Inr JNull config ''.detectors'' of Inl _ \<Rightarrow> True | Inr d \<Rightarrow> d = JArr []) in
      (if hostBad \<or> portBad then [''chat_generation.service misconfiguration''] else [])
      @ (if detBad then [''detectors misconfiguration''] else []))"

definition validateOrchestratorConfigMap :: "(string \<Rightarrow> err + json) \<Rightarrow> reader \<Rightarrow> string \<Rightarrow> string \<Rightarrow> string list" where
  "validateOrchestratorConfigMap yamlMap r ns name =
     (case rdGet r rt_ConfigMap ns name of
        Inl _ \<Rightarrow> [''orchestrator ConfigMap not found'']
      | Inr None \<Rightarrow> [''orchestrator ConfigMap not found'']
      | Inr (Some cm) \<Rightarrow>
          (case Query (rdGojq r) as_string [] cm ''.data[\"config.yaml\"]'' of
             Inl e \<Rightarrow> if is_ErrNotFound e then [''orchestrator ConfigMap missing config.yaml'']
                      else [''failed to query config.yaml from orchestrator ConfigMap: '' @ err_string e]
           | Inr configYAML \<Rightarrow>
               if configYAML = [] then [''orchestrator ConfigMap has empty config.yaml'']
               else (case yamlMap configYAML of
                   Inl _ \<Rightarrow> [''orchestrator ConfigMap has invalid config.yaml'']
                 | Inr config \<Rightarrow> validateOrchestratorConfigData (rdGojq r) config)))"

definition validateGatewayConfigMap :: "reader \<Rightarrow> string \<Rightarrow> string \<Rightarrow> string list" where
  "validateGatewayConfigMap r ns name =
     (case rdGet r rt_ConfigMap ns name of Inr (Some _) \<Rightarrow> [] | _ \<Rightarrow> [''gateway ConfigMap not found''])"

definition issue_annotation :: "string \<Rightarrow> string list \<Rightarrow> (string, string) gomap" where
  "issue_annotation k issues = (if issues = [] then [] else [(k, str_join ''; '' issues)])"

definition validateCR :: "(string \<Rightarrow> err + json) \<Rightarrow> reader \<Rightarrow> json \<Rightarrow> crResult" where
  "validateCR yamlMap r v =
     (let sr = validateCRSpec (rdGojq r) v; orch = orchestratorConfigName (srConfig sr); gate = gatewayConfigName (srConfig sr);
          ns = u_namespace v in
      \<lparr>orchCMName = orch, gatewayCMName = gate, crAnnotations =
         (if orchConfigFail sr then [(annotationOrchestratorConfig, ''not set'')] else [])
         @ issue_annotation annotationGatewayConfig
             ((if gatewayFail sr then [''enableGuardrailsGateway not enabled''] else [])
              @ (if gatewayConfigFail sr then [''guardrailsGatewayConfig not set''] else []))
         @ (if detectorsFail sr then [(annotationBuiltinDetectors, ''not enabled'')] else [])
         @ (if orch \<noteq> [] then issue_annotation annotationOrchestratorCM (validateOrchestratorConfigMap yamlMap r ns orch) else [])
         @ (if gate \<noteq> [] then issue_annotation annotationGatewayCM (validateGatewayConfigMap r ns gate) else [])\<rparr>)"

definition impacted_configmap :: "string \<Rightarrow> string \<Rightarrow> string option \<Rightarrow> ObjectMeta list" where
  "impacted_configmap ns name issues =
     (case issues of
        None \<Rightarrow> []
      | Some is \<Rightarrow> if name = [] then []
                   else [(impacted_object rt_ConfigMap (ns, name))\<lparr>omAnnotations := [(annotationIssues, is)]\<rparr>])"

definition impactedConfigMaps :: "json \<Rightarrow> crResult \<Rightarrow> ObjectMeta list" where
  "impactedConfigMaps v cr =
     impacted_configmap (u_namespace v) (orchCMName cr) (map_of (crAnnotations cr) annotationOrchestratorCM)
     @ impacted_configmap (u_namespace v) (gatewayCMName cr) (map_of (crAnnotations cr) annotationGatewayCM)"

definition newConfigurationCondition :: "nat \<Rightarrow> nat \<Rightarrow> string + Condition" where
  "newConfigurationCondition n impacted =
     (if n = 0 then workload_pass ConditionTypeConfigurationValid ''No GuardrailsOrchestrators found''
      else if impacted = 0 then NewCondition ConditionTypeConfigurationValid ConditionTrue
        [WithReason ReasonConfigurationValid, WithMessage (''All '' @ itoa n @ '' GuardrailsOrchestrator(s) configured correctly'')]
      else workload_fail ConditionTypeConfigurationValid ReasonConfigurationInvalid ImpactAdvisory GuardrailsImpactedCheck
        (''Found '' @ itoa impacted @ '' misconfigured GuardrailsOrchestrator(s)''))"

definition GuardrailsImpactedValidate :: "(string \<Rightarrow> err + json) \<Rightarrow> semver_lib \<Rightarrow> lint_target \<Rightarrow> checked" where
  "GuardrailsImpactedValidate yamlMap sv t =
     (case ListObjects (tgtClient t) rt_GuardrailsOrchestrator None of
        Inl e \<Rightarrow> chk_error (wrapf ''listing GuardrailsOrchestrators'' e)
      | Inr orchestrators \<Rightarrow>
          (let dr = annotate_target sv t (BaseNewResult GuardrailsImpactedCheck);
               crs = map (\<lambda>v. (v, validateCR yamlMap (tgtClient t) v)) orchestrators;
               impacted = filter (\<lambda>(v, cr). length (crAnnotations cr) > 0) crs;
               objs = concat (map (\<lambda>(v, cr).
                 (if length (crAnnotations cr) > 0 then [marked_object rt_GuardrailsOrchestrator (crAnnotations cr) v] else [])
                 @ impactedConfigMaps v cr) crs) in
           bind_checked (append_conditions (dr\<lparr>ImpactedObjects := objs\<rparr>) [newConfigurationCondition (length orchestrators) (length impacted)])
             (\<lambda>dr. chk_done (annotate AnnotationImpactedWorkloadCount (itoa (length objs)) dr))))"

section \<open>Helpers of the notebook checks (\<open>notebook/utils.go\<close>)\<close>

record NotebookContainer =
  ncName :: string
  ncImage :: string

definition IsInfrastructureContainer :: "string \<Rightarrow> string \<Rightarrow> bool" where
  "IsInfrastructureContainer name img = (name = ''oauth-proxy'' \<and> str_contains img ''ose-oauth-proxy-rhel9'')"

fun notebook_container :: "json \<Rightarrow> NotebookContainer option" where
  "notebook_container (JObj fs) =
     (let name = string_or_empty (map_of fs ''name''); img = string_or_empty (map_of fs ''image'') in
      if IsInfrastructureContainer name img then None else Some \<lparr>ncName = name, ncImage = img\<rparr>)"
| "notebook_container _ = None"

definition ExtractWorkloadContainers :: "gojq \<Rightarrow> json \<Rightarrow> err + NotebookContainer list" where
  "ExtractWorkloadContainers gq nb =
     (case Query gq as_array [] nb ''.spec.template.spec.containers'' of
        Inl e \<Rightarrow> Inl (wrapf ''querying containers'' e)
      | Inr raw \<Rightarrow> Inr (List.map_filter notebook_container raw))"

fun storage_version :: "json \<Rightarrow> string option" where
  "storage_version (JObj fs) =
     (let name = string_or_empty (map_of fs ''name'') in
      if bool_or_false (map_of fs ''storage'') \<and> name \<noteq> [] then Some name else None)"
| "storage_version _ = None"

definition resolveResourceType :: "reader \<Rightarrow> ResourceType \<Rightarrow> err + ResourceType" where
  "resolveResourceType r rt =
     (let crdName = rtResource rt @ ''.'' @ rtGroup rt in
      case rdGet r rt_CustomResourceDefinition [] crdName of
        Inl e \<Rightarrow> Inl (wrapf (''getting CRD '' @ crdName) e)
      | Inr None \<Rightarrow> Inl (NewError (''unable to read CRD '' @ crdName @ '': insufficient permissions''))
      | Inr (Some crd) \<Rightarrow>
          (case Query (rdGojq r) as_array [] crd ''.spec.versions'' of
             Inl e \<Rightarrow> Inl (wrapf (''reading versions from CRD '' @ crdName) e)
           | Inr versions \<Rightarrow>
               (case first_some storage_version versions of
                  None \<Rightarrow> Inl (NewError (''no storage version found in CRD '' @ crdName))
                | Some name \<Rightarrow> Inr (rt\<lparr>rtVersion := name\<rparr>))))"

section \<open>Accelerator profiles (\<open>notebook/accelerator_migration.go\<close>)\<close>

definition AcceleratorMigrationCheck :: BaseCheck where
  "AcceleratorMigrationCheck = \<lparr>bcGroup = ''workload'', bcKind = ''notebook'', bcType = ''acceleratorprofile-migration'',
     bcID = ''workloads.notebook.accelerator-migration'',
     bcName = ''Workloads :: Notebook :: AcceleratorProfile Migration (3.x)'',
     bcDescription = ''Detects Notebook (workbench) CRs referencing deprecated AcceleratorProfiles that will be auto-migrated to HardwareProfiles (infrastructure.opendatahub.io) during upgrade'',
     bcRemediation = ''Deprecated AcceleratorProfiles will be automatically migrated to HardwareProfiles (infrastructure.opendatahub.io) during upgrade - no manual action required''\<rparr>"

definition AcceleratorMigrationCanApply :: "lint_target \<Rightarrow> err + bool" where
  "AcceleratorMigrationCanApply t = Inr (upgrade_2x_3x t)"

definition newAcceleratorMigrationCondition :: "nat \<Rightarrow> nat \<Rightarrow> string + Condition" where
  "newAcceleratorMigrationCondition totalImpacted totalMissing =
     (let ct = ''AcceleratorProfileCompatible'' in
      if totalImpacted = 0 then workload_pass ct ''No Notebooks found using deprecated AcceleratorProfiles - no migration needed''
      else if totalMissing > 0 then
        workload_fail ct ReasonResourceNotFound ImpactAdvisory AcceleratorMigrationCheck
          (''Found '' @ itoa totalImpacted @ '' Notebook(s) referencing deprecated AcceleratorProfiles ('' @ itoa totalMissing @ '' missing): AcceleratorProfiles and Notebook references are automatically migrated to HardwareProfiles (infrastructure.opendatahub.io) during upgrade'')
      else
        workload_fail ct ReasonMigrationPending ImpactAdvisory AcceleratorMigrationCheck
          (''Found '' @ itoa totalImpacted @ '' Notebook(s) using deprecated AcceleratorProfiles: AcceleratorProfiles and Notebook references are automatically migrated to HardwareProfiles (infrastructure.opendatahub.io) during upgrade''))"

text \<open>The end of three notebook checks: the count, one more condition, the impacted notebooks.\<close>

definition report_notebooks :: "(string \<times> string) list \<Rightarrow> (string + Condition) \<Rightarrow> DiagnosticResult \<Rightarrow> string + (err + DiagnosticResult \<times> bool)" where
  "report_notebooks impacted c dr =
     bind_res (append_conditions (annotate AnnotationImpactedWorkloadCount (itoa (length impacted)) dr) [c]) (\<lambda>x. case x of
       Inl e \<Rightarrow> Inr (Inl e)
     | Inr dr \<Rightarrow> Inr (Inr (SetImpactedObjects dr rt_Notebook impacted, True)))"

definition checkAcceleratorRefs :: "reader \<Rightarrow> DiagnosticResult \<Rightarrow> PartialObject list \<Rightarrow> string + (err + DiagnosticResult \<times> bool)" where
  "checkAcceleratorRefs r dr items =
     (case FilterWorkloadsWithAcceleratorRefs r items of
        Inl e \<Rightarrow> Inr (Inl e)
      | Inr (impacted, missing) \<Rightarrow> report_notebooks impacted (newAcceleratorMigrationCondition (length impacted) missing) dr)"

definition notebooks_meta :: "BaseCheck \<Rightarrow> lint_target \<Rightarrow> PartialObject WorkloadBuilder" where
  "notebooks_meta b t = ForComponent [''workbenches''] (WorkloadsMetadata b t rt_Notebook)"

definition notebooks :: "BaseCheck \<Rightarrow> lint_target \<Rightarrow> json WorkloadBuilder" where
  "notebooks b t = ForComponent [''workbenches''] (Workloads b t rt_Notebook)"

definition AcceleratorMigrationValidate :: "semver_lib \<Rightarrow> lint_target \<Rightarrow> maybe_checked" where
  "AcceleratorMigrationValidate sv t =
     WorkloadRun sv t (notebooks_meta AcceleratorMigrationCheck t) (checkAcceleratorRefs (tgtClient t))"

section \<open>Connections (\<open>notebook/connection_integrity.go\<close>)\<close>

abbreviation AnnotationConnections :: string where "AnnotationConnections \<equiv> ''opendatahub.io/connections''"

definition ConnectionIntegrityCheck :: BaseCheck where
  "ConnectionIntegrityCheck = \<lparr>bcGroup = ''workload'', bcKind = ''notebook'', bcType = ''data-integrity'',
     bcID = ''workloads.notebook.connection-integrity'',
     bcName = ''Workloads :: Notebook :: Connection Integrity'',
     bcDescription = ''Verifies that Notebooks referencing connections have backing Secrets that exist on the cluster'',
     bcRemediation = ''Create the missing connection Secret or update the Notebook annotations to reference an existing connection''\<rparr>"

definition ConnectionIntegrityCanApply :: "lint_target \<Rightarrow> err + bool" where
  "ConnectionIntegrityCanApply t = Inr True"

text \<open>\<open>strings.Cut\<close> with a separator of one byte: the parts around the first one, if there is one.\<close>

definition cut_char :: "char \<Rightarrow> string \<Rightarrow> string \<times> string \<times> bool" where
  "cut_char c s = (takeWhile (\<lambda>x. x \<noteq> c) s, drop 1 (dropWhile (\<lambda>x. x \<noteq> c) s), c \<in> set s)"

definition parse_connection :: "string \<Rightarrow> string \<Rightarrow> (string \<times> string) option" where
  "parse_connection nbNS part =
     (if part = [] then None
      else let (ns, name, hasSep) = cut_char (CHR ''/'') part;
               ref = (if hasSep then (if ns \<noteq> [] then ns else nbNS, name) else (nbNS, ns)) in
        if snd ref \<noteq> [] then Some ref else None)"

definition parseConnections :: "string \<Rightarrow> string \<Rightarrow> (string \<times> string) list" where
  "parseConnections value nbNS = List.map_filter (\<lambda>p. parse_connection nbNS (trim_space p)) (split_on (CHR '','') value)"

text \<open>The names that exist in some namespaces; a type the cluster does not have has none.\<close>

fun names_in :: "reader \<Rightarrow> ResourceType \<Rightarrow> string \<Rightarrow> string list \<Rightarrow> err + (string \<times> string) list" where
  "names_in r rt what [] = Inr []"
| "names_in r rt what (ns # rest) =
     (case rdListMeta r rt (WithNamespace ns list_all_config) of
        Inl e \<Rightarrow> if IsResourceTypeNotFound r e then names_in r rt what rest
                 else Inl (wrapf (''listing '' @ what @ '' in namespace '' @ ns) e)
      | Inr xs \<Rightarrow> map_sum id (\<lambda>ys. ToNamespacedNames xs @ ys) (names_in r rt what rest))"

definition buildSecretCache :: "reader \<Rightarrow> string list \<Rightarrow> err + (string \<times> string) list" where
  "buildSecretCache r namespaces = names_in r rt_Secret ''Secrets'' namespaces"

definition connected_notebooks :: "PartialObject list \<Rightarrow> ((string \<times> string) \<times> (string \<times> string) list) list" where
  "connected_notebooks items = List.map_filter (\<lambda>nb.
     let value = GetAnnotation nb AnnotationConnections; refs = parseConnections value (poNamespace nb) in
     if value = [] \<or> refs = [] then None else Some ((poNamespace nb, poName nb), refs)) items"

definition newConnectionCondition :: "nat \<Rightarrow> string + Condition" where
  "newConnectionCondition n =
     (if n = 0 then NewCondition ''ConnectionIntegrity'' ConditionTrue
        [WithReason ReasonRequirementsMet, WithMessage ''All Notebook connections reference existing Secrets'']
      else workload_fail ''ConnectionIntegrity'' ReasonResourceNotFound ImpactBlocking ConnectionIntegrityCheck
        (''Found '' @ itoa n @ '' Notebook(s) referencing connection Secrets that do not exist on the cluster''))"

definition dangling :: "(string \<times> string) list \<Rightarrow> ((string \<times> string) \<times> (string \<times> string) list) list \<Rightarrow> (string \<times> string) list" where
  "dangling cache nbs = map fst (filter (\<lambda>(n, refs). \<exists>ref\<in>set refs. ref \<notin> set cache) nbs)"

definition checkConnections :: "reader \<Rightarrow> DiagnosticResult \<Rightarrow> PartialObject list \<Rightarrow> string + (err + DiagnosticResult \<times> bool)" where
  "checkConnections r dr items =
     (let connected = connected_notebooks items in
      case buildSecretCache r (remdups (map fst (concat (map snd connected)))) of
        Inl e \<Rightarrow> Inr (Inl e)
      | Inr cache \<Rightarrow> (let impacted = dangling cache connected in report_notebooks impacted (newConnectionCondition (length impacted)) dr))"

definition ConnectionIntegrityValidate :: "semver_lib \<Rightarrow> lint_target \<Rightarrow> maybe_checked" where
  "ConnectionIntegrityValidate sv t =
     WorkloadRun sv t (notebooks_meta ConnectionIntegrityCheck t) (checkConnections (tgtClient t))"

section \<open>Container names (\<open>notebook/container_name.go\<close>)\<close>

definition ContainerNameCheck :: BaseCheck where
  "ContainerNameCheck = \<lparr>bcGroup = ''workload'', bcKind = ''notebook'', bcType = ''config-migration'',
     bcID = ''workloads.notebook.container-name-mismatch'',
     bcName = ''Workloads :: Notebook :: Container Name Mismatch'',
     bcDescription = ''Detects Dashboard-managed Notebook (workbench) CRs where the primary container name does not match the Notebook CR name'',
     bcRemediation = ''Rename the primary container in the Notebook spec to match the Notebook CR name''\<rparr>"

definition ContainerNameCanApply :: "lint_target \<Rightarrow> err + bool" where
  "ContainerNameCanApply t = Inr True"

definition hasDashboardAnnotation :: "(string, string) gomap \<Rightarrow> bool" where
  "hasDashboardAnnotation anns =
     (map_get anns AnnotationAcceleratorName \<noteq> [] \<or> map_get anns ''notebooks.opendatahub.io/last-size-selection'' \<noteq> [])"

definition hasDashboardAnnotationAndNameMismatch :: "gojq \<Rightarrow> json \<Rightarrow> err + bool" where
  "hasDashboardAnnotationAndNameMismatch gq nb =
     (if \<not> hasDashboardAnnotation (u_annotations nb) then Inr False
      else case ExtractWorkloadContainers gq nb of
          Inl e \<Rightarrow> Inl (wrapf (''extracting containers from notebook '' @ u_namespace nb @ ''/'' @ u_name nb) e)
        | Inr [] \<Rightarrow> Inr False
        | Inr (c # _) \<Rightarrow> Inr (ncName c \<noteq> u_name nb))"

definition newContainerNameCondition :: "nat \<Rightarrow> string + Condition" where
  "newContainerNameCondition n =
     (if n = 0 then NewCondition ''ContainerNameValid'' ConditionTrue
        [WithReason ReasonConfigurationValid, WithMessage ''No Notebooks found with container name mismatch'']
      else workload_fail ''ContainerNameValid'' ReasonConfigurationInvalid ImpactAdvisory ContainerNameCheck
        (''Found '' @ itoa n @ '' Notebook(s) where the primary container name does not match the Notebook CR name''))"

definition ContainerNameValidate :: "semver_lib \<Rightarrow> lint_target \<Rightarrow> maybe_checked" where
  "ContainerNameValidate sv t =
     WorkloadComplete sv t (WorkloadFilter (hasDashboardAnnotationAndNameMismatch (rdGojq (tgtClient t))) (notebooks ContainerNameCheck t))
       (\<lambda>items. [newContainerNameCondition (length items)])"

section \<open>Hardware profiles (\<open>notebook/hardware_profile_integrity.go\<close>, \<open>notebook/hardwareprofile_migration.go\<close>)\<close>

abbreviation AnnotationHardwareProfileName :: string where "AnnotationHardwareProfileName \<equiv> ''opendatahub.io/hardware-profile-name''"
abbreviation AnnotationHardwareProfileNamespace :: string where
  "AnnotationHardwareProfileNamespace \<equiv> ''opendatahub.io/hardware-profile-namespace''"

definition HardwareProfileIntegrityCheck :: BaseCheck where
  "HardwareProfileIntegrityCheck = \<lparr>bcGroup = ''workload'', bcKind = ''notebook'', bcType = ''data-integrity'',
     bcID = ''workloads.notebook.hardware-profile-integrity'',
     bcName = ''Workloads :: Notebook :: HardwareProfile Integrity'',
     bcDescription = ''Verifies that Notebooks referencing infrastructure HardwareProfiles point to profiles that exist on the cluster'',
     bcRemediation = ''Create the missing HardwareProfile or update the Notebook annotations to reference an existing profile''\<rparr>"

definition HardwareProfileIntegrityCanApply :: "lint_target \<Rightarrow> err + bool" where
  "HardwareProfileIntegrityCanApply t = Inr True"

definition referenced_profiles :: "PartialObject list \<Rightarrow> ((string \<times> string) \<times> (string \<times> string) list) list" where
  "referenced_profiles items = List.map_filter (\<lambda>nb.
     let name = GetAnnotation nb AnnotationHardwareProfileName; ns = GetAnnotation nb AnnotationHardwareProfileNamespace in
     if name = [] then None
     else Some ((poNamespace nb, poName nb), [(if ns = [] then poNamespace nb else ns, name)])) items"

definition populateProfileCache :: "reader \<Rightarrow> ResourceType \<Rightarrow> string list \<Rightarrow> err + (string \<times> string) list" where
  "populateProfileCache r hwp namespaces = names_in r hwp ''HardwareProfiles'' namespaces"

definition profile_cache :: "reader \<Rightarrow> ((string \<times> string) \<times> (string \<times> string) list) list \<Rightarrow> err + (string \<times> string) list" where
  "profile_cache r referenced =
     (if referenced = [] then Inr []
      else case resolveResourceType r rt_InfrastructureHardwareProfile of
          Inl e \<Rightarrow> if rdApi r IsNotFound e then Inr [] else Inl (wrapf ''resolving HardwareProfile version'' e)
        | Inr hwp \<Rightarrow> populateProfileCache r hwp (remdups (map fst (concat (map snd referenced)))))"

definition newProfileIntegrityCondition :: "nat \<Rightarrow> string + Condition" where
  "newProfileIntegrityCondition n =
     (if n = 0 then NewCondition ''HardwareProfileIntegrity'' ConditionTrue
        [WithReason ReasonRequirementsMet, WithMessage ''All Notebooks reference existing HardwareProfiles'']
      else workload_fail ''HardwareProfileIntegrity'' ReasonResourceNotFound ImpactBlocking HardwareProfileIntegrityCheck
        (''Found '' @ itoa n @ '' Notebook(s) referencing HardwareProfiles that do not exist on the cluster''))"

definition checkHardwareProfiles :: "reader \<Rightarrow> DiagnosticResult \<Rightarrow> PartialObject list \<Rightarrow> string + (err + DiagnosticResult \<times> bool)" where
  "checkHardwareProfiles r dr items =
     (let referenced = referenced_profiles items in
      case profile_cache r referenced of
        Inl e \<Rightarrow> Inr (Inl e)
      | Inr cache \<Rightarrow> (let impacted = dangling cache referenced in report_notebooks impacted (newProfileIntegrityCondition (length impacted)) dr))"

definition HardwareProfileIntegrityValidate :: "semver_lib \<Rightarrow> lint_target \<Rightarrow> maybe_checked" where
  "HardwareProfileIntegrityValidate sv t =
     WorkloadRun sv t (notebooks_meta HardwareProfileIntegrityCheck t) (checkHardwareProfiles (tgtClient t))"

definition NotebookHardwareProfileCheck :: BaseCheck where
  "NotebookHardwareProfileCheck = \<lparr>bcGroup = ''workload'', bcKind = ''notebook'', bcType = ''config-migration'',
     bcID = ''workloads.notebook.hardwareprofile-migration'',
     bcName = ''Workloads :: Notebook :: Legacy HardwareProfile Migration'',
     bcDescription = ''Detects Notebook CRs carrying the legacy opendatahub.io/legacy-hardware-profile-name annotation that may need attention'',
     bcRemediation = ''Update Notebooks to use current HardwareProfiles and remove the legacy-hardware-profile-name annotation''\<rparr>"

definition NotebookHardwareProfileCanApply :: "lint_target \<Rightarrow> err + bool" where
  "NotebookHardwareProfileCanApply t = Inr (upgrade_2x_3x t)"

definition NotebookHardwareProfileValidate :: "semver_lib \<Rightarrow> lint_target \<Rightarrow> maybe_checked" where
  "NotebookHardwareProfileValidate sv t =
     WorkloadComplete sv t (WorkloadFilter (\<lambda>x. Inr (GetAnnotation x AnnotationLegacyHardwareProfile \<noteq> []))
       (notebooks_meta NotebookHardwareProfileCheck t))
       (legacy_profile_condition NotebookHardwareProfileCheck
          ''No Notebooks found with legacy hardware profile annotation - no migration needed''
          '' Notebook(s) with legacy hardware profile annotation that may need attention'')"

section \<open>Notebooks that run (\<open>notebook/non_stopped_workloads.go\<close>)\<close>

abbreviation ContainerStateRunning :: string where "ContainerStateRunning \<equiv> ''running''"
abbreviation ContainerStateWaiting :: string where "ContainerStateWaiting \<equiv> ''waiting''"
abbreviation AnnotationKubeflowResourceStopped :: string where "AnnotationKubeflowResourceStopped \<equiv> ''kubeflow-resource-stopped''"
abbreviation AnnotationCheckContainerState :: string where "AnnotationCheckContainerState \<equiv> ''check.opendatahub.io/container-state''"
abbreviation AnnotationCheckContainerWaitReason :: string where
  "AnnotationCheckContainerWaitReason \<equiv> ''check.opendatahub.io/container-wait-reason''"

definition NonStoppedWorkloadsCheck :: BaseCheck where
  "NonStoppedWorkloadsCheck = \<lparr>bcGroup = ''workload'', bcKind = ''notebook'', bcType = ''workload-state'',
     bcID = ''workloads.notebook.non-stopped-workloads'',
     bcName = ''Workloads :: Notebook :: Non-Stopped Workloads'',
     bcDescription = ''Detects Notebook CRs that are not stopped on the cluster'',
     bcRemediation = ''Save all pending work in running Notebooks, then stop them before upgrading''\<rparr>"

definition NonStoppedWorkloadsCanApply :: "lint_target \<Rightarrow> err + bool" where
  "NonStoppedWorkloadsCanApply t = Inr (upgrade_2x_3x t)"

definition isNotStopped :: "json \<Rightarrow> err + bool" where
  "isNotStopped nb = Inr (map_of (u_annotations nb) AnnotationKubeflowResourceStopped = None)"

record notebookState =
  nsState :: string
  nsWaitReason :: string

definition map_or_nil :: "err + 'a option \<Rightarrow> 'a option" where
  "map_or_nil r = (case r of Inl _ \<Rightarrow> None | Inr m \<Rightarrow> m)"

definition classifyNotebook :: "gojq \<Rightarrow> json \<Rightarrow> notebookState" where
  "classifyNotebook gq nb =
     (case map_or_nil (Query gq as_map None nb ''.status.containerState.running'') of
        Some _ \<Rightarrow> \<lparr>nsState = ContainerStateRunning, nsWaitReason = []\<rparr>
      | None \<Rightarrow>
          (case map_or_nil (Query gq as_map None nb ''.status.containerState.waiting'') of
             Some fs \<Rightarrow> \<lparr>nsState = ContainerStateWaiting, nsWaitReason = string_or_empty (map_of fs ''reason'')\<rparr>
           | None \<Rightarrow> \<lparr>nsState = ContainerStateWaiting, nsWaitReason = []\<rparr>))"

definition state_annotations :: "notebookState \<Rightarrow> (string, string) gomap" where
  "state_annotations st = (AnnotationCheckContainerState, nsState st)
     # (if nsWaitReason st \<noteq> [] then [(AnnotationCheckContainerWaitReason, nsWaitReason st)] else [])"

definition non_stopped_message :: "nat \<Rightarrow> nat \<Rightarrow> nat \<Rightarrow> string" where
  "non_stopped_message n running waiting = str_join nl
     ((''Found '' @ itoa n @ '' non-stopped Notebook(s):'')
      # (if running > 0 then [(''  - '' @ itoa running @ '' running (should be stopped before upgrade)'')] else [])
      @ (if waiting > 0 then [(''  - '' @ itoa waiting @ '' waiting (should be stopped or deleted before upgrade)'')] else []))"

definition analyzeNonStoppedWorkloads :: "gojq \<Rightarrow> DiagnosticResult \<Rightarrow> json list \<Rightarrow> string + (err + DiagnosticResult \<times> bool)" where
  "analyzeNonStoppedWorkloads gq dr items =
     (if items = [] then unassigned (set_conditions dr
        [NewCondition ''NonStoppedWorkloads'' ConditionTrue [WithReason ReasonRequirementsMet, WithMessage ''All Notebooks are stopped'']])
      else
        let states = map (classifyNotebook gq) items;
            running = length (filter (\<lambda>s. nsState s = ContainerStateRunning) states);
            waiting = length (filter (\<lambda>s. nsState s = ContainerStateWaiting) states) in
        bind_res (workload_fail ''NonStoppedWorkloads'' ReasonWorkloadsImpacted ImpactAdvisory NonStoppedWorkloadsCheck
            (non_stopped_message (length items) running waiting))
          (\<lambda>c. Inr (Inr ((SetCondition (annotate AnnotationResourceCRDName (CRDFQN rt_Notebook) dr) c)
            \<lparr>ImpactedObjects := map (\<lambda>nb. marked_object rt_Notebook (state_annotations (classifyNotebook gq nb)) nb) items\<rparr>, True))))"

definition NonStoppedWorkloadsValidate :: "semver_lib \<Rightarrow> lint_target \<Rightarrow> maybe_checked" where
  "NonStoppedWorkloadsValidate sv t =
     WorkloadRun sv t (WorkloadFilter isNotStopped (notebooks NonStoppedWorkloadsCheck t))
       (analyzeNonStoppedWorkloads (rdGojq (tgtClient t)))"

section \<open>Valid results\<close>

lemma notebook_bases_ok [simp]:
  "base_ok OtelMigrationCheck" "base_ok GuardrailsImpactedCheck" "base_ok AcceleratorMigrationCheck" "base_ok ConnectionIntegrityCheck"
  "base_ok ContainerNameCheck" "base_ok HardwareProfileIntegrityCheck" "base_ok NotebookHardwareProfileCheck" "base_ok NonStoppedWorkloadsCheck"
  by (simp_all add: base_ok_def OtelMigrationCheck_def GuardrailsImpactedCheck_def AcceleratorMigrationCheck_def ConnectionIntegrityCheck_def
      ContainerNameCheck_def HardwareProfileIntegrityCheck_def NotebookHardwareProfileCheck_def NonStoppedWorkloadsCheck_def)

lemma notebook_condition_ok:
  "built_ok (newOtelMigrationCondition n)" "built_ok (newConfigurationCondition n m)" "built_ok (newAcceleratorMigrationCondition n m)"
  "built_ok (newConnectionCondition n)" "built_ok (newContainerNameCondition n)" "built_ok (newProfileIntegrityCondition n)"
  by (simp_all add: newOtelMigrationCondition_def newConfigurationCondition_def newAcceleratorMigrationCondition_def Let_def
      newConnectionCondition_def newContainerNameCondition_def newProfileIntegrityCondition_def workload_built_ok built_ok_True built_ok_impact)

lemma report_notebooks_ok:
  assumes "dr_ok dr" and "built_ok c"
  shows "callback_ok (report_notebooks impacted c dr)"
proof -
  have ok: "checked_ok (append_conditions (annotate AnnotationImpactedWorkloadCount (itoa (length impacted)) dr) [c])" (is "checked_ok ?r")
    using assms by (intro append_one_ok dr_ok_annotate) simp_all
  have "Conditions (SetImpactedObjects d rt ns) = Conditions d" for d rt ns by (simp add: SetImpactedObjects_def)
  then show ?thesis using ok
    by (cases ?r; cases "projr ?r") (auto simp: report_notebooks_def callback_ok_def checked_ok_def dr_ok_SetImpactedObjects)
qed

lemma wbCheck_notebooks [simp]: "wbCheck (notebooks b t) = b" "wbCheck (notebooks_meta b t) = b"
  by (simp_all add: notebooks_def notebooks_meta_def)

lemma guardrails_checks_ok: "maybe_ok (OtelMigrationValidate sv t)" "checked_ok (GuardrailsImpactedValidate yamlMap sv t)"
proof -
  show "maybe_ok (OtelMigrationValidate sv t)"
    unfolding OtelMigrationValidate_def by (intro WorkloadComplete_ok) (simp_all add: notebook_condition_ok)
  have dr: "dr_ok ((annotate_target sv t (BaseNewResult GuardrailsImpactedCheck))\<lparr>ImpactedObjects := os\<rparr>)" for os
  proof -
    have "dr_ok (annotate_target sv t (BaseNewResult GuardrailsImpactedCheck))" by (intro check_ok) simp
    then show ?thesis by (simp add: dr_ok_def)
  qed
  show "checked_ok (GuardrailsImpactedValidate yamlMap sv t)"
    unfolding GuardrailsImpactedValidate_def Let_def
    by (auto intro!: bind_checked_ok append_one_ok dr dr_ok_annotate simp: notebook_condition_ok split: sum.split)
qed

lemma notebook_checks_ok:
  "maybe_ok (AcceleratorMigrationValidate sv t)" "maybe_ok (ConnectionIntegrityValidate sv t)" "maybe_ok (ContainerNameValidate sv t)"
  "maybe_ok (HardwareProfileIntegrityValidate sv t)" "maybe_ok (NotebookHardwareProfileValidate sv t)"
  "maybe_ok (NonStoppedWorkloadsValidate sv t)"
proof -
  show "maybe_ok (AcceleratorMigrationValidate sv t)" "maybe_ok (ConnectionIntegrityValidate sv t)" "maybe_ok (HardwareProfileIntegrityValidate sv t)"
    unfolding AcceleratorMigrationValidate_def ConnectionIntegrityValidate_def HardwareProfileIntegrityValidate_def
      checkAcceleratorRefs_def checkConnections_def checkHardwareProfiles_def Let_def
    by (intro WorkloadRun_ok; auto simp: report_notebooks_ok notebook_condition_ok callback_ok_def [of "Inr (Inl e)" for e] split: sum.split)+
  show "maybe_ok (ContainerNameValidate sv t)" "maybe_ok (NotebookHardwareProfileValidate sv t)"
    unfolding ContainerNameValidate_def NotebookHardwareProfileValidate_def legacy_profile_condition_def
    by (intro WorkloadComplete_ok; simp add: notebook_condition_ok workload_built_ok built_ok_True)+
  show "maybe_ok (NonStoppedWorkloadsValidate sv t)"
    unfolding NonStoppedWorkloadsValidate_def analyzeNonStoppedWorkloads_def Let_def
    by (intro WorkloadRun_ok) (auto intro!: callback_set_ok callback_assign_ok dr_ok_annotate simp: workload_built_ok built_ok_True simp del: set_conditions.simps)
qed

end
