(* ===== verification/NotebookImages.thy ===== *)
theory NotebookImages
  imports NotebookChecks
begin

text \<open>
  The analysis of notebook images, \<open>pkg/lint/checks/workloads/notebook/impacted.go\<close>: which image a notebook
  uses, which image stream of the platform it comes from, and whether it works in version 3. The debug log is
  not modelled. A range over the map of image streams is in the order in which they were inserted.
\<close>

abbreviation nginxFixMinTag :: string where "nginxFixMinTag \<equiv> ''2025.2''"
abbreviation nginxFixMinRHOAIVersion :: string where "nginxFixMinRHOAIVersion \<equiv> ''3.0''"
abbreviation ootbLabel :: string where "ootbLabel \<equiv> ''app.kubernetes.io/part-of=workbenches''"
abbreviation ootbPlatformVersionAnnotation :: string where "ootbPlatformVersionAnnotation \<equiv> ''platform.opendatahub.io/version''"

datatype ImageStatus = ImageStatusGood | ImageStatusPreUpgradeActionRequired | ImageStatusPostUpgradeActionRequired
  | ImageStatusCustom | ImageStatusVerifyFailed

fun image_status_string :: "ImageStatus \<Rightarrow> string" where
  "image_status_string ImageStatusGood = ''GOOD''"
| "image_status_string ImageStatusPreUpgradeActionRequired = ''PRE_UPGRADE_ACTION_REQUIRED''"
| "image_status_string ImageStatusPostUpgradeActionRequired = ''POST_UPGRADE_ACTION_REQUIRED''"
| "image_status_string ImageStatusCustom = ''CUSTOM''"
| "image_status_string ImageStatusVerifyFailed = ''VERIFY_FAILED''"

datatype NotebookType = NotebookTypeJupyter | NotebookTypeRStudio | NotebookTypeCodeServer | NotebookTypeUnknown

fun notebook_type_string :: "NotebookType \<Rightarrow> string" where
  "notebook_type_string NotebookTypeJupyter = ''jupyter''"
| "notebook_type_string NotebookTypeRStudio = ''rstudio''"
| "notebook_type_string NotebookTypeCodeServer = ''codeserver''"
| "notebook_type_string NotebookTypeUnknown = ''unknown''"

record ootbImageStream =
  oisName :: string
  oisType :: NotebookType
  DockerImageRepository :: string

record notebookAnalysis =
  naNamespace :: string
  naName :: string
  naStatus :: ImageStatus
  naReason :: string
  naImageRef :: string

record imageAnalysis =
  iaContainerName :: string
  iaImageRef :: string
  iaStatus :: ImageStatus
  iaReason :: string

record imageRef =
  irName :: string
  irTag :: string
  irSHA :: string
  irFullPath :: string

record ootbImageInput =
  inputStream :: string
  inputTag :: string
  inputSHA :: string
  inputType :: NotebookType

definition image_result :: "ImageStatus \<Rightarrow> string \<Rightarrow> imageAnalysis" where
  "image_result st reason = \<lparr>iaContainerName = [], iaImageRef = [], iaStatus = st, iaReason = reason\<rparr>"

section \<open>Image references and version tags\<close>

text \<open>The parts of a string before and after the last occurrence of a byte (\<open>strings.LastIndex\<close>).\<close>

definition split_last :: "char \<Rightarrow> string \<Rightarrow> (string \<times> string) option" where
  "split_last c s =
     (if c \<in> set s then Some (rev (tl (dropWhile (\<lambda>x. x \<noteq> c) (rev s))), rev (takeWhile (\<lambda>x. x \<noteq> c) (rev s))) else None)"

definition parseImageReference :: "string \<Rightarrow> imageRef" where
  "parseImageReference img =
     (let (path, sha) = (case split_last (CHR ''@'') img of None \<Rightarrow> (img, []) | Some (p, d) \<Rightarrow> (p, d));
          (full, tag) = (case split_last (CHR '':'') path of
             None \<Rightarrow> (path, [])
           | Some (p, t) \<Rightarrow> if CHR ''/'' \<in> set t then (path, []) else (p, t)) in
      \<lparr>irName = (case split_last (CHR ''/'') full of None \<Rightarrow> full | Some (_, n) \<Rightarrow> n),
       irTag = tag, irSHA = sha, irFullPath = full\<rparr>)"

definition digits :: "string \<Rightarrow> bool" where
  "digits s = (s \<noteq> [] \<and> list_all (\<lambda>c. CHR ''0'' \<le> c \<and> c \<le> CHR ''9'') s)"

text \<open>\<open>strconv.Atoi\<close> on digits, the error dropped: out of range it still returns the largest integer.\<close>

definition decimal :: "string \<Rightarrow> int" where
  "decimal s = foldl (\<lambda>a c. 10 * a + (int (of_char c) - 48)) 0 s"

definition atoi_clamped :: "string \<Rightarrow> int" where
  "atoi_clamped s = min (decimal s) (2 ^ 63 - 1)"

text \<open>The submatches of \<open>^(\d{4})\.(\d+)$\<close> and of \<open>^rhoai-(\d+)\.(\d+)(?:\.\d+)?$\<close>.\<close>

definition versionTagRegex :: "string \<Rightarrow> (string \<times> string) option" where
  "versionTagRegex tag =
     (case split_on (CHR ''.'') tag of
        [y, m] \<Rightarrow> if digits y \<and> length y = 4 \<and> digits m then Some (y, m) else None
      | _ \<Rightarrow> None)"

definition rhoaiVersionRegex :: "string \<Rightarrow> (string \<times> string) option" where
  "rhoaiVersionRegex s =
     (if \<not> has_prefix s ''rhoai-'' then None
      else case split_on (CHR ''.'') (drop 6 s) of
          [a, b] \<Rightarrow> if digits a \<and> digits b then Some (a, b) else None
        | [a, b, p] \<Rightarrow> if digits a \<and> digits b \<and> digits p then Some (a, b) else None
        | _ \<Rightarrow> None)"

definition isValidVersionTag :: "string \<Rightarrow> bool" where
  "isValidVersionTag tag = (versionTagRegex tag \<noteq> None)"

definition isTagGTE :: "string \<Rightarrow> string \<Rightarrow> bool" where
  "isTagGTE tag1 tag2 =
     (case (versionTagRegex tag1, versionTagRegex tag2) of
        (Some (y1, m1), Some (y2, m2)) \<Rightarrow>
          atoi_clamped y1 > atoi_clamped y2 \<or> atoi_clamped y1 = atoi_clamped y2 \<and> atoi_clamped m1 \<ge> atoi_clamped m2
      | _ \<Rightarrow> False)"

text \<open>\<open>Inl\<close> is the panic when the package is loaded.\<close>

definition mustParseVersionParts :: "string \<Rightarrow> string + int \<times> int" where
  "mustParseVersionParts v =
     (let (majorStr, minorStr, ok) = cut_char (CHR ''.'') v;
          failed = (\<lambda>s. ''strconv.Atoi: parsing '' @ go_quote s @ '': ''
            @ (if digits (if s \<noteq> [] \<and> hd s \<in> {CHR ''+'', CHR ''-''} then tl s else s) then ''value out of range'' else ''invalid syntax'')) in
      if \<not> ok then Inl (''invalid version format: '' @ v)
      else case atoi majorStr of
          None \<Rightarrow> Inl (''invalid major version in '' @ v @ '': '' @ failed majorStr)
        | Some major \<Rightarrow>
            (case atoi minorStr of
               None \<Rightarrow> Inl (''invalid minor version in '' @ v @ '': '' @ failed minorStr)
             | Some minor \<Rightarrow> Inr (major, minor)))"

definition nginxFixMin :: "int \<times> int" where
  "nginxFixMin = projr (mustParseVersionParts nginxFixMinRHOAIVersion)"

definition isCompliantBuildRef :: "string \<Rightarrow> bool" where
  "isCompliantBuildRef buildRef =
     (case rhoaiVersionRegex buildRef of
        None \<Rightarrow> False
      | Some (a, b) \<Rightarrow> atoi_clamped a > fst nginxFixMin \<or> atoi_clamped a = fst nginxFixMin \<and> atoi_clamped b \<ge> snd nginxFixMin)"

section \<open>Image streams\<close>

definition hasAnnotationWithName :: "gojq \<Rightarrow> json \<Rightarrow> string \<Rightarrow> string \<Rightarrow> bool" where
  "hasAnnotationWithName gq is key name =
     (case Query gq as_string [] is
        (''.spec.tags[]? | .annotations['' @ go_quote (key) @ ''] // \"\" | try fromjson | .[]? | select(.name | ascii_downcase == '' @ go_quote (to_lower name) @ '') | .name'') of
        Inl _ \<Rightarrow> False
      | Inr matched \<Rightarrow> to_lower matched = to_lower name)"

definition determineNotebookType :: "gojq \<Rightarrow> json \<Rightarrow> NotebookType" where
  "determineNotebookType gq is =
     (let deps = ''opendatahub.io/notebook-python-dependencies''; soft = ''opendatahub.io/notebook-software'' in
      if hasAnnotationWithName gq is deps ''jupyterlab'' then NotebookTypeJupyter
      else if hasAnnotationWithName gq is soft ''code-server'' \<or> hasAnnotationWithName gq is deps ''code-server'' then NotebookTypeCodeServer
      else if hasAnnotationWithName gq is soft ''R'' then NotebookTypeRStudio
      else NotebookTypeUnknown)"

definition add_ootb :: "gojq \<Rightarrow> json \<Rightarrow> (string, ootbImageStream) gomap \<Rightarrow> (string, ootbImageStream) gomap" where
  "add_ootb gq is m =
     (let name = u_name is in
      if has_prefix name ''runtime-'' then m
      else if map_get (u_annotations is) ootbPlatformVersionAnnotation = [] then m
      else AList.update name \<lparr>oisName = name, oisType = determineNotebookType gq is,
          DockerImageRepository = (case Query gq as_string [] is ''.status.dockerImageRepository'' of Inl _ \<Rightarrow> [] | Inr s \<Rightarrow> s)\<rparr> m)"

definition discoverOOTBImageStreams :: "reader \<Rightarrow> string \<Rightarrow> err + (string, ootbImageStream) gomap \<times> json list" where
  "discoverOOTBImageStreams r appNS =
     (case rdList r rt_ImageStream (WithLabelSelector ootbLabel (WithNamespace appNS list_all_config)) of
        Inl e \<Rightarrow> if IsResourceTypeNotFound r e then Inr ([], []) else Inl (wrapf ''listing ImageStreams'' e)
      | Inr streams \<Rightarrow> Inr (fold (add_ootb (rdGojq r)) streams [], streams))"

text \<open>The tag of an entry of \<open>.status.tags\<close> one of whose items has a field with a value.\<close>

fun item_has :: "string \<Rightarrow> string \<Rightarrow> json \<Rightarrow> bool" where
  "item_has k v (JObj fs) = (string_or_empty (map_of fs k) = v)"
| "item_has k v _ = False"

fun status_tag :: "string \<Rightarrow> string \<Rightarrow> json \<Rightarrow> string option" where
  "status_tag k v (JObj fs) =
     (if list_ex (item_has k v) (slice_or_nil (map_of fs ''items'')) then Some (string_or_empty (map_of fs ''tag'')) else None)"
| "status_tag k v _ = None"

fun spec_tag :: "string \<Rightarrow> json \<Rightarrow> string option" where
  "spec_tag ref (JObj fs) =
     (case map_of fs ''from'' of
        Some (JObj from) \<Rightarrow>
          if string_or_empty (map_of from ''kind'') = ''DockerImage'' \<and> string_or_empty (map_of from ''name'') = ref
          then Some (string_or_empty (map_of fs ''name'')) else None
      | _ \<Rightarrow> None)"
| "spec_tag ref _ = None"

definition tags_of :: "gojq \<Rightarrow> string \<Rightarrow> json \<Rightarrow> json list" where
  "tags_of gq q is = (case Query gq as_array [] is q of Inl _ \<Rightarrow> [] | Inr tags \<Rightarrow> tags)"

text \<open>The first image stream, and in it the first tag, that an entry test accepts.\<close>

definition find_stream :: "gojq \<Rightarrow> string \<Rightarrow> (json \<Rightarrow> string option) \<Rightarrow> json list \<Rightarrow> (string \<times> string) option" where
  "find_stream gq q test streams =
     first_some (\<lambda>is. map_option (\<lambda>tag. (u_name is, tag)) (first_some test (tags_of gq q is))) streams"

definition findImageStreamByDockerImageRef :: "gojq \<Rightarrow> string \<Rightarrow> json list \<Rightarrow> (string \<times> string) option" where
  "findImageStreamByDockerImageRef gq ref streams =
     (if ref = [] then None else find_stream gq ''.status.tags'' (status_tag ''dockerImageReference'' ref) streams)"

definition findImageStreamForSHA :: "gojq \<Rightarrow> string \<Rightarrow> json list \<Rightarrow> (string \<times> string) option" where
  "findImageStreamForSHA gq sha streams =
     (if sha = [] then None else find_stream gq ''.status.tags'' (status_tag ''image'' sha) streams)"

definition findImageStreamByDockerRepo :: "string \<Rightarrow> (string, ootbImageStream) gomap \<Rightarrow> ootbImageStream option" where
  "findImageStreamByDockerRepo path ootb =
     (if path = [] then None
      else List.find (\<lambda>is. DockerImageRepository is \<noteq> [] \<and> DockerImageRepository is = path) (map snd ootb))"

definition findImageStreamBySpecRef :: "gojq \<Rightarrow> string \<Rightarrow> json list \<Rightarrow> (string \<times> string) option" where
  "findImageStreamBySpecRef gq ref streams =
     (if ref = [] then None else find_stream gq ''.spec.tags'' (spec_tag ref) streams)"

definition findTagForSHA :: "gojq \<Rightarrow> string \<Rightarrow> string \<Rightarrow> json list \<Rightarrow> string" where
  "findTagForSHA gq sha name streams =
     (if sha = [] then []
      else case find_stream gq ''.status.tags'' (status_tag ''image'' sha) (filter (\<lambda>is. u_name is = name) streams) of
          None \<Rightarrow> [] | Some (_, tag) \<Rightarrow> tag)"

definition compliant_tag :: "string \<Rightarrow> json \<Rightarrow> string option" where
  "compliant_tag sha v =
     (case status_tag ''image'' sha v of
        Some tag \<Rightarrow> if isValidVersionTag tag \<and> isTagGTE tag nginxFixMinTag then Some tag else None
      | None \<Rightarrow> None)"

definition findCompliantTagForSHA :: "gojq \<Rightarrow> string \<Rightarrow> json list \<Rightarrow> string" where
  "findCompliantTagForSHA gq sha streams =
     (if sha = [] then []
      else case find_stream gq ''.status.tags'' (compliant_tag sha) streams of
          None \<Rightarrow> [] | Some (name, tag) \<Rightarrow> name @ '':'' @ tag)"

section \<open>Images\<close>

fun build_reference :: "json \<Rightarrow> string option" where
  "build_reference (JStr s) = (let p = ''OPENSHIFT_BUILD_REFERENCE='' in if has_prefix s p then Some (drop (length p) s) else None)"
| "build_reference _ = None"

definition extractBuildReference :: "gojq \<Rightarrow> json \<Rightarrow> string" where
  "extractBuildReference gq ist =
     (case Query gq as_array [] ist ''.image.dockerImageMetadata.Config.Env'' of
        Inl _ \<Rightarrow> []
      | Inr vars \<Rightarrow> (case first_some build_reference vars of None \<Rightarrow> [] | Some v \<Rightarrow> v))"

text \<open>A tag that may not be read is a nil object, and a query on it is a query on null.\<close>

definition analyzeRStudioImageCompat :: "reader \<Rightarrow> string \<Rightarrow> string \<Rightarrow> string \<Rightarrow> string \<Rightarrow> imageAnalysis" where
  "analyzeRStudioImageCompat r name imageTag sha appNS =
     (let istName = name @ '':'' @ (if imageTag = [] then ''latest'' else imageTag) in
      case rdGet r rt_ImageStreamTag appNS istName of
        Inl e \<Rightarrow> image_result ImageStatusVerifyFailed (''Could not fetch ImageStreamTag '' @ istName @ '': '' @ err_string e)
      | Inr got \<Rightarrow>
          (let ist = (case got of None \<Rightarrow> JNull | Some v \<Rightarrow> v); buildRef = extractBuildReference (rdGojq r) ist;
               currentSHA = (case Query (rdGojq r) as_string [] ist ''.image.metadata.name'' of Inl _ \<Rightarrow> [] | Inr s \<Rightarrow> s) in
           if buildRef = [] then image_result ImageStatusVerifyFailed (''RStudio image '' @ name @ '' has no OPENSHIFT_BUILD_REFERENCE'')
           else if sha \<noteq> [] \<and> currentSHA \<noteq> [] \<and> sha \<noteq> currentSHA then
             image_result ImageStatusPostUpgradeActionRequired ''RStudio image uses stale build (SHA mismatch), rebuild required after upgrade''
           else if isCompliantBuildRef buildRef then
             image_result ImageStatusGood (''RStudio image built from '' @ buildRef @ '' (>= rhoai-'' @ nginxFixMinRHOAIVersion @ '', has nginx fix)'')
           else image_result ImageStatusPostUpgradeActionRequired
             (''RStudio image built from '' @ buildRef @ '' (< rhoai-'' @ nginxFixMinRHOAIVersion @ '', lacks nginx fix, rebuild after upgrade to 3.x)'')))"

definition analyzeTagBasedImageCompat :: "gojq \<Rightarrow> string \<Rightarrow> string \<Rightarrow> string \<Rightarrow> NotebookType \<Rightarrow> json list \<Rightarrow> imageAnalysis" where
  "analyzeTagBasedImageCompat gq name imageTag sha ty streams =
     (let tag = (if imageTag = [] then findTagForSHA gq sha name streams else imageTag); nb = notebook_type_string ty;
          compliant = findCompliantTagForSHA gq sha streams in
      if isValidVersionTag tag then
        if isTagGTE tag nginxFixMinTag then
          image_result ImageStatusGood (nb @ '' image with tag '' @ tag @ '' (>= '' @ nginxFixMinTag @ '', has nginx fix)'')
        else if compliant \<noteq> [] then
          image_result ImageStatusGood (nb @ '' image '' @ name @ '':'' @ tag @ '' has same SHA as compliant '' @ compliant)
        else image_result ImageStatusPreUpgradeActionRequired (nb @ '' image with tag '' @ tag @ '' (< '' @ nginxFixMinTag @ '', lacks nginx fix)'')
      else if sha \<noteq> [] \<and> compliant \<noteq> [] then
        image_result ImageStatusGood (nb @ '' image has same SHA as compliant '' @ compliant)
      else image_result ImageStatusVerifyFailed (''Could not determine compatibility for '' @ nb @ '' image '' @ name))"

definition analyzeOOTBImage :: "reader \<Rightarrow> ootbImageInput \<Rightarrow> json list \<Rightarrow> string \<Rightarrow> imageAnalysis" where
  "analyzeOOTBImage r input streams appNS =
     (if inputType input = NotebookTypeJupyter then
        image_result ImageStatusGood ''Jupyter-based OOTB image (nginx compatible)''
      else if inputType input = NotebookTypeRStudio then
        analyzeRStudioImageCompat r (inputStream input) (inputTag input) (inputSHA input) appNS
      else analyzeTagBasedImageCompat (rdGojq r) (inputStream input) (inputTag input) (inputSHA input) (inputType input) streams)"

text \<open>A lookup counts only if it names an image stream of the platform.\<close>

definition ootb_lookup :: "(string, ootbImageStream) gomap \<Rightarrow> string \<Rightarrow> (string \<times> string) option \<Rightarrow> ootbImageInput option" where
  "ootb_lookup ootb sha found =
     (case found of
        None \<Rightarrow> None
      | Some (name, tag) \<Rightarrow>
          map_option (\<lambda>is. \<lparr>inputStream = name, inputTag = tag, inputSHA = sha, inputType = oisType is\<rparr>) (map_of ootb name))"

definition correlate :: "gojq \<Rightarrow> string \<Rightarrow> imageRef \<Rightarrow> (string, ootbImageStream) gomap \<Rightarrow> json list \<Rightarrow> ootbImageInput option" where
  "correlate gq img ref ootb streams =
     first_some (\<lambda>strategy. strategy)
       [ootb_lookup ootb (irSHA ref) (findImageStreamByDockerImageRef gq img streams),
        ootb_lookup ootb (irSHA ref) (findImageStreamForSHA gq (irSHA ref) streams),
        map_option (\<lambda>is. \<lparr>inputStream = oisName is, inputTag = irTag ref, inputSHA = irSHA ref, inputType = oisType is\<rparr>)
          (findImageStreamByDockerRepo (irFullPath ref) ootb),
        ootb_lookup ootb (irSHA ref) (findImageStreamBySpecRef gq img streams)]"

definition analyzeImage :: "reader \<Rightarrow> string \<Rightarrow> (string, ootbImageStream) gomap \<Rightarrow> json list \<Rightarrow> string \<Rightarrow> imageAnalysis" where
  "analyzeImage r img ootb streams appNS =
     (let ref = parseImageReference img in
      case correlate (rdGojq r) img ref ootb streams of
        Some input \<Rightarrow> analyzeOOTBImage r input streams appNS
      | None \<Rightarrow> image_result ImageStatusCustom (''Image '' @ [CHR 0x27] @ irName ref @ [CHR 0x27] @ '' is not a recognized OOTB notebook image''))"

section \<open>Notebooks\<close>

definition collectReasonsForStatus :: "imageAnalysis list \<Rightarrow> ImageStatus \<Rightarrow> string list \<times> string" where
  "collectReasonsForStatus analyses st =
     (let hits = filter (\<lambda>a. iaStatus a = st) analyses in
      (map (\<lambda>a. if iaContainerName a \<noteq> [] then iaContainerName a @ '': '' @ iaReason a else iaReason a) hits,
       case List.find (\<lambda>a. iaImageRef a \<noteq> []) hits of None \<Rightarrow> [] | Some a \<Rightarrow> iaImageRef a))"

definition findFirstWithStatus :: "imageAnalysis list \<Rightarrow> ImageStatus \<Rightarrow> imageAnalysis option" where
  "findFirstWithStatus analyses st = List.find (\<lambda>a. iaStatus a = st) analyses"

definition aggregateImageAnalyses :: "string \<Rightarrow> string \<Rightarrow> imageAnalysis list \<Rightarrow> notebookAnalysis" where
  "aggregateImageAnalyses ns name analyses =
     (let res = (\<lambda>st reason ref. \<lparr>naNamespace = ns, naName = name, naStatus = st, naReason = reason, naImageRef = ref\<rparr>);
          (pre, preRef) = collectReasonsForStatus analyses ImageStatusPreUpgradeActionRequired;
          (post, postRef) = collectReasonsForStatus analyses ImageStatusPostUpgradeActionRequired in
      if analyses = [] then res ImageStatusVerifyFailed ''No container images found'' []
      else if pre \<noteq> [] then res ImageStatusPreUpgradeActionRequired (str_join ''; '' pre) preRef
      else if post \<noteq> [] then res ImageStatusPostUpgradeActionRequired (str_join ''; '' post) postRef
      else case findFirstWithStatus analyses ImageStatusVerifyFailed of
          Some a \<Rightarrow> res ImageStatusVerifyFailed (iaReason a) (iaImageRef a)
        | None \<Rightarrow>
            (case findFirstWithStatus analyses ImageStatusCustom of
               Some a \<Rightarrow> res ImageStatusCustom (iaReason a) (iaImageRef a)
             | None \<Rightarrow> res ImageStatusGood ''All container images are compatible'' (iaImageRef (hd analyses))))"

definition analyze_container :: "reader \<Rightarrow> (string, ootbImageStream) gomap \<Rightarrow> json list \<Rightarrow> string \<Rightarrow> NotebookContainer \<Rightarrow> imageAnalysis" where
  "analyze_container r ootb streams appNS c =
     (if ncImage c = [] then
        (image_result ImageStatusVerifyFailed ''Container has no image specified'')\<lparr>iaContainerName := ncName c\<rparr>
      else (analyzeImage r (ncImage c) ootb streams appNS)\<lparr>iaContainerName := ncName c, iaImageRef := ncImage c\<rparr>)"

definition analyzeNotebook :: "reader \<Rightarrow> (string, ootbImageStream) gomap \<Rightarrow> json list \<Rightarrow> string \<Rightarrow> json \<Rightarrow> notebookAnalysis" where
  "analyzeNotebook r ootb streams appNS nb =
     (case ExtractWorkloadContainers (rdGojq r) nb of
        Inr (c # cs) \<Rightarrow> aggregateImageAnalyses (u_namespace nb) (u_name nb) (map (analyze_container r ootb streams appNS) (c # cs))
      | _ \<Rightarrow> \<lparr>naNamespace = u_namespace nb, naName = u_name nb, naStatus = ImageStatusVerifyFailed,
              naReason = ''Could not extract containers from notebook spec'', naImageRef = []\<rparr>)"

record statusCounter =
  scCount :: nat
  scImages :: "string list"

definition newStatusCounter :: statusCounter where
  "newStatusCounter = \<lparr>scCount = 0, scImages = []\<rparr>"

definition sc_add :: "string \<Rightarrow> statusCounter \<Rightarrow> statusCounter" where
  "sc_add ref sc = sc\<lparr>scCount := scCount sc + 1, scImages := (if ref \<noteq> [] then List.insert ref (scImages sc) else scImages sc)\<rparr>"

definition countByStatus :: "notebookAnalysis list \<Rightarrow> ImageStatus \<Rightarrow> statusCounter" where
  "countByStatus analyses st = fold (\<lambda>a sc. if naStatus a = st then sc_add (naImageRef a) sc else sc) analyses newStatusCounter"

definition NotebookImpactedCheck :: BaseCheck where
  "NotebookImpactedCheck = \<lparr>bcGroup = ''workload'', bcKind = ''notebook'', bcType = ''impacted-workloads'',
     bcID = ''workloads.notebook.impacted-workloads'',
     bcName = ''Workloads :: Notebook :: Impacted Workloads (3.x)'',
     bcDescription = ''Identifies Notebook (workbench) instances with images that will not work in RHOAI 3.x'',
     bcRemediation = ''Update workbenches with incompatible images to use 2025.2+ versions before upgrading''\<rparr>"

definition NotebookImpactedCanApply :: "lint_target \<Rightarrow> err + bool" where
  "NotebookImpactedCanApply t = Inr (upgrade_2x_3x t)"

definition image_summary :: "notebookAnalysis list \<Rightarrow> string \<Rightarrow> string" where
  "image_summary analyses label =
     (let n = (\<lambda>st. scCount (countByStatus analyses st)); i = (\<lambda>st. length (scImages (countByStatus analyses st))) in
      str_join nl
       [(''Found '' @ itoa (length analyses) @ '' Notebook(s) using '' @ itoa (length (remdups (filter (\<lambda>x. x \<noteq> []) (map naImageRef analyses)))) @ '' unique images:''),
        (''  - '' @ itoa (n ImageStatusGood) @ '' compatible ('' @ itoa (i ImageStatusGood) @ '' images, OOTB ready for '' @ label @ '')''),
        (''  - '' @ itoa (n ImageStatusCustom) @ '' custom ('' @ itoa (i ImageStatusCustom) @ '' images, user verification needed)''),
        (''  - '' @ itoa (n ImageStatusPreUpgradeActionRequired) @ '' incompatible ('' @ itoa (i ImageStatusPreUpgradeActionRequired) @ '' images, update recommended before upgrade)''),
        (''  - '' @ itoa (n ImageStatusPostUpgradeActionRequired) @ '' incompatible ('' @ itoa (i ImageStatusPostUpgradeActionRequired) @ '' images, must rebuild after upgrade to 3.x)''),
        (''  - '' @ itoa (n ImageStatusVerifyFailed) @ '' unverified ('' @ itoa (i ImageStatusVerifyFailed) @ '' images, could not determine status)'')])"

definition image_condition :: "notebookAnalysis list \<Rightarrow> string \<Rightarrow> string + Condition" where
  "image_condition analyses label =
     (let n = (\<lambda>st. scCount (countByStatus analyses st));
          fail = (\<lambda>remediation. NewCondition ''NotebooksCompatible'' ConditionFalse
            [WithReason ReasonWorkloadsImpacted, WithMessage (image_summary analyses label), WithImpact ImpactAdvisory, WithRemediation remediation]) in
      if n ImageStatusPreUpgradeActionRequired > 0 then fail (bcRemediation NotebookImpactedCheck)
      else if n ImageStatusPostUpgradeActionRequired > 0 \<or> n ImageStatusCustom > 0 \<or> n ImageStatusVerifyFailed > 0 then
        fail (''Verify custom images are compatible with RHOAI '' @ label @ '' before upgrading'')
      else workload_pass ''NotebooksCompatible'' (''All '' @ itoa (length analyses) @ '' Notebook(s) use compatible OOTB images''))"

definition impacted_notebook :: "notebookAnalysis \<Rightarrow> ObjectMeta" where
  "impacted_notebook a = (impacted_object rt_Notebook (naNamespace a, naName a))\<lparr>omAnnotations :=
     [(''check.opendatahub.io/image-status'', image_status_string (naStatus a)),
      (''check.opendatahub.io/image-ref'', naImageRef a),
      (''check.opendatahub.io/reason'', naReason a)]\<rparr>"

definition is_impacted :: "notebookAnalysis \<Rightarrow> bool" where
  "is_impacted a = (naStatus a \<in> {ImageStatusPreUpgradeActionRequired, ImageStatusPostUpgradeActionRequired, ImageStatusCustom})"

definition report_images :: "notebookAnalysis list \<Rightarrow> string \<Rightarrow> DiagnosticResult \<Rightarrow> string + (err + DiagnosticResult \<times> bool)" where
  "report_images analyses label dr =
     bind_res (image_condition analyses label) (\<lambda>c.
       Inr (Inr ((annotate AnnotationResourceCRDName (CRDFQN rt_Notebook) (SetCondition dr c))
         \<lparr>ImpactedObjects := map impacted_notebook (filter is_impacted analyses)\<rparr>, True)))"

definition analyzeNotebooks :: "lint_target \<Rightarrow> DiagnosticResult \<Rightarrow> json list \<Rightarrow> string + (err + DiagnosticResult \<times> bool)" where
  "analyzeNotebooks t dr items =
     (let r = tgtClient t in
      if items = [] then unassigned (set_conditions dr [workload_pass ''NotebooksCompatible'' ''No Notebook (workbench) instances found''])
      else case GetApplicationsNamespace r of
          Inl e \<Rightarrow> Inr (Inl (wrapf ''getting applications namespace'' e))
        | Inr appNS \<Rightarrow>
            (case discoverOOTBImageStreams r appNS of
               Inl e \<Rightarrow> Inr (Inl (wrapf ''discovering OOTB ImageStreams'' e))
             | Inr (ootb, streams) \<Rightarrow> report_images (map (analyzeNotebook r ootb streams appNS) items) (target_label t) dr))"

definition NotebookImpactedValidate :: "semver_lib \<Rightarrow> lint_target \<Rightarrow> maybe_checked" where
  "NotebookImpactedValidate sv t = WorkloadRun sv t (notebooks NotebookImpactedCheck t) (analyzeNotebooks t)"

section \<open>Image references\<close>

lemma split_last_None [simp]: "c \<notin> set s \<Longrightarrow> split_last c s = None"
  by (simp add: split_last_def)

lemma split_last_append [simp]: "c \<notin> set t \<Longrightarrow> split_last c (s @ c # t) = Some (s, t)"
proof -
  assume "c \<notin> set t"
  then have "\<forall>x\<in>set (rev t). x \<noteq> c" by auto
  then have "takeWhile (\<lambda>x. x \<noteq> c) (rev t @ c # rev s) = rev t" "dropWhile (\<lambda>x. x \<noteq> c) (rev t @ c # rev s) = c # rev s"
    by (simp_all add: takeWhile_append dropWhile_append)
  then show ?thesis by (simp add: split_last_def)
qed

text \<open>The notation that \<open>parseImageReference\<close> reads: a path, a tag and a digest, of which the last two may be missing.\<close>

definition image_reference :: "string \<Rightarrow> string \<Rightarrow> string \<Rightarrow> string" where
  "image_reference path tag sha = path @ (if tag = [] then [] else CHR '':'' # tag) @ (if sha = [] then [] else CHR ''@'' # sha)"

definition untagged :: "string \<Rightarrow> bool" where
  "untagged path = (case split_last (CHR '':'') path of None \<Rightarrow> True | Some (_, t) \<Rightarrow> CHR ''/'' \<in> set t)"

definition last_component :: "string \<Rightarrow> string" where
  "last_component path = (case split_last (CHR ''/'') path of None \<Rightarrow> path | Some (_, n) \<Rightarrow> n)"

lemma parse_path_digest:
  assumes "CHR ''@'' \<notin> set (path @ sha)" and "img = path @ (if sha = [] then [] else CHR ''@'' # sha)"
  shows "(case split_last (CHR ''@'') img of None \<Rightarrow> (img, []) | Some (p, d) \<Rightarrow> (p, d)) = (path, sha)"
  using assms by simp

lemma parse_path_tag:
  assumes "CHR '':'' \<notin> set tag" and "CHR ''/'' \<notin> set tag" and "tag = [] \<Longrightarrow> untagged path"
  shows "(case split_last (CHR '':'') (path @ (if tag = [] then [] else CHR '':'' # tag)) of None \<Rightarrow> (path @ (if tag = [] then [] else CHR '':'' # tag), [])
    | Some (p, t) \<Rightarrow> if CHR ''/'' \<in> set t then (path @ (if tag = [] then [] else CHR '':'' # tag), []) else (p, t)) = (path, tag)"
  using assms by (auto simp: untagged_def split: option.splits)

lemma parse_image_reference:
  assumes "CHR ''@'' \<notin> set (path @ tag @ sha)" and "CHR '':'' \<notin> set tag" and "CHR ''/'' \<notin> set tag" and "tag = [] \<Longrightarrow> untagged path"
  shows "parseImageReference (image_reference path tag sha) =
    \<lparr>irName = last_component path, irTag = tag, irSHA = sha, irFullPath = path\<rparr>"
proof -
  let ?p = "path @ (if tag = [] then [] else CHR '':'' # tag)"
  have "CHR ''@'' \<notin> set (?p @ sha)" "image_reference path tag sha = ?p @ (if sha = [] then [] else CHR ''@'' # sha)"
    using assms(1) by (auto simp: image_reference_def)
  from parse_path_digest [OF this] show ?thesis
    using parse_path_tag [OF assms(2,3,4)] by (simp only: parseImageReference_def Let_def prod.case last_component_def)
qed

section \<open>The status of a notebook\<close>

fun severity :: "ImageStatus \<Rightarrow> nat" where
  "severity ImageStatusGood = 0"
| "severity ImageStatusCustom = 1"
| "severity ImageStatusVerifyFailed = 2"
| "severity ImageStatusPostUpgradeActionRequired = 3"
| "severity ImageStatusPreUpgradeActionRequired = 4"

lemma collectReasons_Nil: "st \<in> iaStatus ` set analyses \<longleftrightarrow> fst (collectReasonsForStatus analyses st) \<noteq> []"
  by (auto simp: collectReasonsForStatus_def Let_def filter_empty_conv)

lemma findFirst_None: "st \<in> iaStatus ` set analyses \<longleftrightarrow> findFirstWithStatus analyses st \<noteq> None"
  by (auto simp: findFirstWithStatus_def find_None_iff)

text \<open>The first status of this list that a container has.\<close>

lemma aggregate_status:
  assumes "analyses \<noteq> []"
  shows "naStatus (aggregateImageAnalyses ns name analyses) =
    (let has = (\<lambda>st. st \<in> iaStatus ` set analyses) in
     if has ImageStatusPreUpgradeActionRequired then ImageStatusPreUpgradeActionRequired
     else if has ImageStatusPostUpgradeActionRequired then ImageStatusPostUpgradeActionRequired
     else if has ImageStatusVerifyFailed then ImageStatusVerifyFailed
     else if has ImageStatusCustom then ImageStatusCustom else ImageStatusGood)"
  unfolding aggregateImageAnalyses_def Let_def collectReasons_Nil [of ImageStatusPreUpgradeActionRequired]
    collectReasons_Nil [of ImageStatusPostUpgradeActionRequired] findFirst_None [of ImageStatusVerifyFailed] findFirst_None [of ImageStatusCustom]
  using assms by (simp split: prod.split option.split)

lemma severity_le_iff:
  "severity st \<le> 4" "severity st = 0 \<longleftrightarrow> st = ImageStatusGood" "severity st = 1 \<longleftrightarrow> st = ImageStatusCustom"
  "severity st = 2 \<longleftrightarrow> st = ImageStatusVerifyFailed" "severity st = 3 \<longleftrightarrow> st = ImageStatusPostUpgradeActionRequired"
  "severity st = 4 \<longleftrightarrow> st = ImageStatusPreUpgradeActionRequired"
  by (cases st; simp)+

lemma aggregate_mem:
  assumes "analyses \<noteq> []"
  shows "naStatus (aggregateImageAnalyses ns name analyses) \<in> iaStatus ` set analyses"
proof -
  have "iaStatus (hd analyses) \<in> iaStatus ` set analyses" using assms by simp
  then show ?thesis unfolding aggregate_status [OF assms] Let_def by (cases "iaStatus (hd analyses)") (simp_all del: image_iff)
qed

lemma aggregate_max:
  assumes "analyses \<noteq> []" and "a \<in> set analyses"
  shows "severity (iaStatus a) \<le> severity (naStatus (aggregateImageAnalyses ns name analyses))"
  unfolding aggregate_status [OF assms(1)] Let_def using imageI [OF assms(2), of iaStatus] by (cases "iaStatus a") simp_all

lemma analyzeNotebook_good:
  "naStatus (analyzeNotebook r ootb streams appNS nb) = ImageStatusGood \<longleftrightarrow>
    (\<exists>c cs. ExtractWorkloadContainers (rdGojq r) nb = Inr (c # cs)
       \<and> (\<forall>x\<in>set (c # cs). iaStatus (analyze_container r ootb streams appNS x) = ImageStatusGood))"
proof (cases "ExtractWorkloadContainers (rdGojq r) nb")
  case (Inr xs)
  show ?thesis
  proof (cases xs)
    case (Cons c cs)
    let ?as = "map (analyze_container r ootb streams appNS) (c # cs)"
    have "naStatus (aggregateImageAnalyses ns name ?as) = ImageStatusGood \<longleftrightarrow> (\<forall>a\<in>set ?as. iaStatus a = ImageStatusGood)" for ns name
      using aggregate_mem [of ?as ns name] aggregate_max [of ?as _ ns name] severity_le_iff(2) by (metis imageE le_zero_eq list.distinct(1) list.simps(9))
    then show ?thesis using Inr Cons by (auto simp: analyzeNotebook_def)
  qed (simp add: analyzeNotebook_def Inr)
qed (simp add: analyzeNotebook_def)

text \<open>An image that is judged by its tag is good only if the fix is in the tag, or in a tag of the same digest.\<close>

lemma tag_based_good:
  "iaStatus (analyzeTagBasedImageCompat gq name imageTag sha ty streams) = ImageStatusGood \<longleftrightarrow>
    (let tag = (if imageTag = [] then findTagForSHA gq sha name streams else imageTag) in
     isTagGTE tag nginxFixMinTag \<or> findCompliantTagForSHA gq sha streams \<noteq> [])"
proof -
  have "isTagGTE tag m \<Longrightarrow> isValidVersionTag tag" for tag m
    by (auto simp: isTagGTE_def isValidVersionTag_def split: option.splits)
  moreover have "findCompliantTagForSHA gq [] streams = []" by (simp add: findCompliantTagForSHA_def)
  ultimately show ?thesis by (auto simp: analyzeTagBasedImageCompat_def image_result_def Let_def)
qed

section \<open>The result of the check\<close>

lemma scCount_countByStatus: "scCount (countByStatus analyses st) = length (filter (\<lambda>a. naStatus a = st) analyses)"
proof -
  have "scCount (fold (\<lambda>a sc. if naStatus a = st then sc_add (naImageRef a) sc else sc) analyses sc)
      = scCount sc + length (filter (\<lambda>a. naStatus a = st) analyses)" for sc
    by (induction analyses arbitrary: sc) (auto simp: sc_add_def)
  then show ?thesis by (simp add: countByStatus_def newStatusCounter_def)
qed

lemma counted_iff: "0 < scCount (countByStatus analyses st) \<longleftrightarrow> st \<in> naStatus ` set analyses"
  by (auto simp: scCount_countByStatus length_greater_0_conv filter_empty_conv simp del: length_0_conv)

lemma image_condition_ok: "built_ok (image_condition analyses label)"
  by (simp add: image_condition_def Let_def workload_built_ok built_ok_impact)

lemma NotebookImpacted_base [simp]: "base_ok NotebookImpactedCheck"
  by (simp add: base_ok_def NotebookImpactedCheck_def)

lemma NotebookImpacted_ok: "maybe_ok (NotebookImpactedValidate sv t)"
proof -
  have "callback_ok (report_images analyses label dr)" if "dr_ok dr" for analyses label dr
  proof -
    obtain c where c: "image_condition analyses label = Inr c" "cond_ok c"
      using image_condition_ok [of analyses label] by (auto simp: built_ok_def)
    have "dr_ok (annotate AnnotationResourceCRDName (CRDFQN rt_Notebook) (SetCondition dr c))"
      using dr_ok_SetCondition [OF that c(2)] by (intro dr_ok_annotate) simp_all
    then show ?thesis using dr_ok_SetCondition [OF that c(2)]
      by (simp add: report_images_def c callback_ok_def dr_ok_def annotate_def)
  qed
  then show ?thesis
    unfolding NotebookImpactedValidate_def analyzeNotebooks_def Let_def
    by (intro WorkloadRun_ok) (auto intro!: callback_set_ok simp: workload_built_ok callback_ok_def [of "Inr (Inl e)" for e] simp del: set_conditions.simps split: sum.split)
qed

lemma WorkloadRun_result:
  assumes "WorkloadRun sv t b fn = Inr (Inr (Some dr))" and "workload_items (tgtClient t) b = Inr items"
  obtains dr' assigned where "fn (annotate AnnotationImpactedWorkloadCount (itoa (length items)) (annotate_target sv t (BaseNewResult (wbCheck b)))) items = Inr (Inr (dr', assigned))"
    and "dr = (if \<not> assigned \<and> items \<noteq> [] then SetImpactedObjects dr' (wbType b) (map (wbNames b) items) else dr')"
proof -
  let ?x = "fn (annotate AnnotationImpactedWorkloadCount (itoa (length items)) (annotate_target sv t (BaseNewResult (wbCheck b)))) items"
  have "\<exists>y. ?x = Inr (Inr y)"
    using assms by (cases ?x; cases "projr ?x") (auto simp: WorkloadRun_def Let_def split: sum.splits if_splits)
  then obtain dr' assigned where "?x = Inr (Inr (dr', assigned))" by auto
  with assms show thesis by (intro that [of dr' assigned]) (auto simp: WorkloadRun_def Let_def split: sum.splits if_splits)
qed

lemma image_condition_impact:
  assumes "image_condition analyses label = Inr c" and "Conditions dr = []"
  shows "GetImpact (SetCondition dr c) = (if \<forall>a\<in>set analyses. naStatus a = ImageStatusGood then ImpactNone else ImpactAdvisory)"
proof -
  have all: "(\<forall>a\<in>set analyses. naStatus a = ImageStatusGood) \<longleftrightarrow>
      ImageStatusPreUpgradeActionRequired \<notin> naStatus ` set analyses \<and> ImageStatusPostUpgradeActionRequired \<notin> naStatus ` set analyses
      \<and> ImageStatusCustom \<notin> naStatus ` set analyses \<and> ImageStatusVerifyFailed \<notin> naStatus ` set analyses"
    (is "?L \<longleftrightarrow> ?R")
  proof
    assume R: ?R
    have "naStatus a = ImageStatusGood" if "a \<in> set analyses" for a
      using R imageI [OF that, of naStatus] by (cases "naStatus a") simp_all
    then show ?L ..
  qed auto
  show ?thesis
    using assms unfolding all image_condition_def counted_iff Let_def
    by (auto simp: workload_pass_def build_simps SetCondition_def GetImpact_def simp del: image_iff split: if_splits)
qed

section \<open>Properties\<close>

text \<open>
  Reading an image reference inverts writing it: a path without a tag, a tag and a digest come back from
  the reference they make, whatever the registry's port, and the image name is the last component of the path.
\<close>

theorem image_reference_roundtrip:
  assumes "CHR ''@'' \<notin> set (path @ tag @ sha)" and "CHR '':'' \<notin> set tag" and "CHR ''/'' \<notin> set tag" and "tag = [] \<longrightarrow> untagged path"
  shows "parseImageReference (image_reference path tag sha) =
    \<lparr>irName = last_component path, irTag = tag, irSHA = sha, irFullPath = path\<rparr>"
  using assms by (intro parse_image_reference) simp_all

theorem image_reference_roundtrip_witness:
  "parseImageReference ''registry.svc:5000/ns/code-server:2025.2@sha256:0a'' =
     \<lparr>irName = ''code-server'', irTag = ''2025.2'', irSHA = ''sha256:0a'', irFullPath = ''registry.svc:5000/ns/code-server''\<rparr>"
proof -
  have "parseImageReference (image_reference ''registry.svc:5000/ns/code-server'' ''2025.2'' ''sha256:0a'') =
    \<lparr>irName = last_component ''registry.svc:5000/ns/code-server'', irTag = ''2025.2'', irSHA = ''sha256:0a'', irFullPath = ''registry.svc:5000/ns/code-server''\<rparr>"
    by (rule image_reference_roundtrip) simp_all
  moreover have "image_reference ''registry.svc:5000/ns/code-server'' ''2025.2'' ''sha256:0a'' = ''registry.svc:5000/ns/code-server:2025.2@sha256:0a''"
    by (simp add: image_reference_def)
  moreover have "last_component ''registry.svc:5000/ns/code-server'' = ''code-server''" by code_simp
  ultimately show ?thesis by simp
qed

text \<open>
  A notebook has the worst status of its containers: action before the upgrade, then action after it, then
  not verified, then custom, then good.
\<close>

theorem aggregate_severity:
  assumes "analyses \<noteq> []"
  shows "severity (naStatus (aggregateImageAnalyses ns name analyses)) = Max (severity ` iaStatus ` set analyses)"
  using aggregate_mem [OF assms, of ns name] aggregate_max [OF assms, of _ ns name]
  by (intro Max_eqI [symmetric]) auto

theorem aggregate_severity_witness:
  "severity (naStatus (aggregateImageAnalyses ''ns'' ''nb'' [image_result ImageStatusGood ''a'', image_result ImageStatusCustom ''b''])) = 1"
  using aggregate_severity [of "[image_result ImageStatusGood ''a'', image_result ImageStatusCustom ''b'']" "''ns''" "''nb''"]
  by (simp add: image_result_def)

text \<open>
  C28. The verdict of the image check on a cluster with notebooks whose image streams are known: it passes exactly if
  every notebook has workload containers and every one of them has a good image, and is advisory otherwise; the
  objects it reports are the notebooks that need an action or a verification by the user, in the order of the list.
\<close>

theorem NotebookImpacted_verdict:
  assumes "NotebookImpactedValidate sv t = Inr (Inr (Some dr))"
    and "workload_items (tgtClient t) (notebooks NotebookImpactedCheck t) = Inr items" and "items \<noteq> []"
    and "GetApplicationsNamespace (tgtClient t) = Inr appNS"
    and "discoverOOTBImageStreams (tgtClient t) appNS = Inr (ootb, streams)"
  shows "GetImpact dr =
      (if \<forall>nb\<in>set items. \<exists>c cs. ExtractWorkloadContainers (rdGojq (tgtClient t)) nb = Inr (c # cs)
            \<and> (\<forall>x\<in>set (c # cs). iaStatus (analyze_container (tgtClient t) ootb streams appNS x) = ImageStatusGood)
       then ImpactNone else ImpactAdvisory)
    \<and> map (\<lambda>x. (omNamespace x, omName x)) (ImpactedObjects dr) =
        map (\<lambda>nb. (u_namespace nb, u_name nb)) (filter (\<lambda>nb. is_impacted (analyzeNotebook (tgtClient t) ootb streams appNS nb)) items)"
proof -
  let ?as = "map (analyzeNotebook (tgtClient t) ootb streams appNS) items"
  let ?dr = "annotate AnnotationImpactedWorkloadCount (itoa (length items)) (annotate_target sv t (BaseNewResult NotebookImpactedCheck))"
  have conds: "Conditions ?dr = []"
    by (simp add: annotate_target_def annotate_def BaseNewResult_def NewResult_def split: option.split)
  obtain dr' a where "analyzeNotebooks t ?dr items = Inr (Inr (dr', a))"
      and dr: "dr = (if \<not> a \<and> items \<noteq> [] then SetImpactedObjects dr' (wbType (notebooks NotebookImpactedCheck t)) (map (wbNames (notebooks NotebookImpactedCheck t)) items) else dr')"
    by (rule WorkloadRun_result [OF assms(1) [unfolded NotebookImpactedValidate_def] assms(2), unfolded wbCheck_notebooks])
  then have "report_images ?as (target_label t) ?dr = Inr (Inr (dr', a))"
    using assms(3-5) by (simp add: analyzeNotebooks_def Let_def)
  then obtain c where c: "image_condition ?as (target_label t) = Inr c" and a
      and dr': "dr' = (annotate AnnotationResourceCRDName (CRDFQN rt_Notebook) (SetCondition ?dr c))\<lparr>ImpactedObjects := map impacted_notebook (filter is_impacted ?as)\<rparr>"
    by (auto simp: report_images_def)
  have "naNamespace (analyzeNotebook r ootb streams appNS nb) = u_namespace nb \<and> naName (analyzeNotebook r ootb streams appNS nb) = u_name nb" for r nb
    by (simp add: analyzeNotebook_def aggregateImageAnalyses_def Let_def split: sum.split list.split prod.split option.split)
  moreover have "GetImpact dr = GetImpact (SetCondition ?dr c)"
    using \<open>a\<close> dr dr' by (simp add: GetImpact_def annotate_def)
  ultimately show ?thesis
    using \<open>a\<close> dr dr' image_condition_impact [OF c conds]
    by (simp add: analyzeNotebook_good filter_map o_def impacted_notebook_def impacted_object_def)
qed

definition custom_image_queries :: gojq where
  "custom_image_queries = \<lparr>gqParse = \<lambda>q. None,
     gqRun = \<lambda>q v. Some (Inr (if q = ''.spec.applicationsNamespace'' then JStr ''apps''
       else if q = ''.spec.template.spec.containers'' then JArr [JObj [(''name'', JStr ''nb''), (''image'', JStr ''quay.io/me/lab:1'')]]
       else if q = ''.spec.components.workbenches.managementState'' then JStr ''Managed'' else JNull))\<rparr>"

definition custom_image_target :: lint_target where
  "custom_image_target = \<lparr>tgtClient = sample_reader custom_image_queries (\<lambda>rt.
       if rtKind rt = ''Notebook'' then [JObj [(''metadata'', JObj [(''name'', JStr ''nb''), (''namespace'', JStr ''team'')])]]
       else if rtKind rt = ''ImageStream'' then [] else [JObj []]),
     CurrentVersion = None, TargetVersion = None, tgtIO = False, tgtDebug = False\<rparr>"

theorem NotebookImpacted_verdict_witness:
  "\<exists>dr. NotebookImpactedValidate sample_semver custom_image_target = Inr (Inr (Some dr)) \<and> GetImpact dr = ImpactAdvisory
     \<and> map (\<lambda>x. (omNamespace x, omName x)) (ImpactedObjects dr) = [(''team'', ''nb'')]"
proof -
  let ?r = "tgtClient custom_image_target"
  let ?nb = "JObj [(''metadata'', JObj [(''name'', JStr ''nb''), (''namespace'', JStr ''team'')])]"
  have items: "workload_items ?r (notebooks NotebookImpactedCheck custom_image_target) = Inr [?nb]" by code_simp
  have ns: "GetApplicationsNamespace ?r = Inr ''apps''" by code_simp
  have streams: "discoverOOTBImageStreams ?r ''apps'' = Inr ([], [])" by code_simp
  have active: "checkComponentState ?r [''workbenches''] = Inr True" by code_simp
  have "\<exists>x. analyzeNotebooks custom_image_target d [?nb] = Inr (Inr x)" for d
  proof -
    obtain c where "image_condition [analyzeNotebook ?r [] [] ''apps'' ?nb] (target_label custom_image_target) = Inr c"
      using image_condition_ok by (fastforce simp: built_ok_def)
    then show ?thesis by (auto simp: analyzeNotebooks_def Let_def ns streams report_images_def)
  qed
  then obtain dr where dr: "NotebookImpactedValidate sample_semver custom_image_target = Inr (Inr (Some dr))"
    using active items unfolding NotebookImpactedValidate_def WorkloadRun_def Let_def
    by (fastforce simp: notebooks_def ForComponent_def Workloads_def)
  have status: "naStatus (analyzeNotebook ?r [] [] ''apps'' ?nb) = ImageStatusCustom" by code_simp
  have "is_impacted (analyzeNotebook ?r [] [] ''apps'' ?nb)" by (simp only: is_impacted_def status) simp
  moreover have "u_namespace ?nb = ''team''" "u_name ?nb = ''nb''" by code_simp+
  moreover have "\<not> (\<exists>c cs. ExtractWorkloadContainers (rdGojq ?r) ?nb = Inr (c # cs)
      \<and> (\<forall>x\<in>set (c # cs). iaStatus (analyze_container ?r [] [] ''apps'' x) = ImageStatusGood))"
    unfolding analyzeNotebook_good [symmetric] status by simp
  ultimately show ?thesis
    using NotebookImpacted_verdict [OF dr items _ ns streams] dr by simp
qed

end
