(* ===== verification/ResourceCapacity.thy ===== *)
theory ResourceCapacity
  imports NotebookChecks "HOL-Library.Word"
begin

text \<open>
  The capacity check of the dashboard, \<open>pkg/lint/checks/components/dashboard/resource_capacity.go\<close>: the request that the
  scheduler sees for a dashboard pod against the allocatable resources of the nodes. Amounts are Go's \<open>int64\<close>, so
  sums wrap. The quantities of the Kubernetes API are a parameter: how text is parsed, how a number is printed without
  exponent, and whether integers of a query result have the type \<open>int64\<close> that the code expects.
\<close>

type_synonym int64 = "64 word"

record quantity =
  MilliValue :: int64
  QValue :: int64

record quantity_lib =
  qlParse :: "string \<Rightarrow> quantity option"
  qlFormatFloat :: "string \<Rightarrow> string"
  qlInt64 :: bool
  qlNew :: "int \<Rightarrow> quantity"

abbreviation ReasonInsufficientCapacity :: string where "ReasonInsufficientCapacity \<equiv> ''InsufficientCapacity''"
abbreviation conditionTypeResourceCapacity :: string where "conditionTypeResourceCapacity \<equiv> ''ResourceCapacity''"
abbreviation remediationCapacityAdvisory :: string where
  "remediationCapacityAdvisory \<equiv> ''Ensure cluster has nodes with sufficient CPU/memory for dashboard pods. Consider enabling cluster autoscaler with larger instance types''"

record podResources =
  cpuMillis :: int64
  memoryBytes :: int64

record resourceLookupResult =
  rlResources :: podResources
  rlContainerCount :: nat
  rlFound :: bool

definition no_resources :: podResources where
  "no_resources = \<lparr>cpuMillis = 0, memoryBytes = 0\<rparr>"

definition nothing_found :: resourceLookupResult where
  "nothing_found = \<lparr>rlResources = no_resources, rlContainerCount = 0, rlFound = False\<rparr>"

text \<open>The builtin \<open>max\<close> and the comparison of signed integers.\<close>

definition smax :: "int64 \<Rightarrow> int64 \<Rightarrow> int64" where
  "smax a b = (if sint a < sint b then b else a)"

definition add_resources :: "podResources \<Rightarrow> podResources \<Rightarrow> podResources" where
  "add_resources a b = \<lparr>cpuMillis = cpuMillis a + cpuMillis b, memoryBytes = memoryBytes a + memoryBytes b\<rparr>"

definition max_resources :: "podResources \<Rightarrow> podResources \<Rightarrow> podResources" where
  "max_resources a b = \<lparr>cpuMillis = smax (cpuMillis a) (cpuMillis b), memoryBytes = smax (memoryBytes a) (memoryBytes b)\<rparr>"

definition some_resources :: "podResources \<Rightarrow> bool" where
  "some_resources r = (sint (cpuMillis r) > 0 \<or> sint (memoryBytes r) > 0)"

section \<open>Requests\<close>

fun parseQuantityAny :: "quantity_lib \<Rightarrow> json option \<Rightarrow> quantity option" where
  "parseQuantityAny ql (Some (JStr s)) = qlParse ql s"
| "parseQuantityAny ql (Some (JNum n)) = (if qlInt64 ql then Some (qlNew ql n) else None)"
| "parseQuantityAny ql (Some (JFloat s)) = qlParse ql (qlFormatFloat ql s)"
| "parseQuantityAny ql _ = None"

definition quantity_pair :: "quantity_lib \<Rightarrow> json option \<Rightarrow> json option \<Rightarrow> podResources" where
  "quantity_pair ql cpu mem =
     \<lparr>cpuMillis = (case parseQuantityAny ql cpu of None \<Rightarrow> 0 | Some q \<Rightarrow> MilliValue q),
      memoryBytes = (case parseQuantityAny ql mem of None \<Rightarrow> 0 | Some q \<Rightarrow> QValue q)\<rparr>"

text \<open>The field of a value asserted to be a map.\<close>

fun field_of :: "string \<Rightarrow> json option \<Rightarrow> json option" where
  "field_of k (Some (JObj fs)) = map_of fs k"
| "field_of k _ = None"

definition containerRequests :: "quantity_lib \<Rightarrow> json \<Rightarrow> podResources" where
  "containerRequests ql raw =
     (let requests = field_of ''requests'' (field_of ''resources'' (Some raw)) in
      quantity_pair ql (field_of ''cpu'' requests) (field_of ''memory'' requests))"

definition isNativeSidecar :: "json \<Rightarrow> bool" where
  "isNativeSidecar raw = (string_or_empty (field_of ''restartPolicy'' (Some raw)) = ''Always'')"

text \<open>The loop over the init containers: the sum, the number of containers and the largest request so far.\<close>

fun init_containers :: "quantity_lib \<Rightarrow> json list \<Rightarrow> podResources \<times> nat \<times> podResources \<Rightarrow> podResources \<times> nat \<times> podResources" where
  "init_containers ql [] acc = acc"
| "init_containers ql (raw # rest) (acc, n, maxInit) =
     (let req = containerRequests ql raw in
      if isNativeSidecar raw then init_containers ql rest (add_resources acc req, n + 1, maxInit)
      else init_containers ql rest (acc, n, max_resources maxInit req))"

definition effectivePodRequests :: "quantity_lib \<Rightarrow> gojq \<Rightarrow> json \<Rightarrow> string \<Rightarrow> err + podResources \<times> nat" where
  "effectivePodRequests ql gq obj path =
     (case Query gq as_map None obj path of
        Inl e \<Rightarrow> Inl (wrapf (''querying pod spec at '' @ path) e)
      | Inr spec \<Rightarrow>
          (let fs = (case spec of None \<Rightarrow> [] | Some fs \<Rightarrow> fs);
               containers = slice_or_nil (map_of fs ''containers'');
               regular = foldl (\<lambda>acc raw. add_resources acc (containerRequests ql raw)) no_resources containers;
               (acc, n, maxInit) = init_containers ql (slice_or_nil (map_of fs ''initContainers'')) (regular, length containers, no_resources) in
           Inr (max_resources acc maxInit, n)))"

definition getDeploymentPodResources :: "quantity_lib \<Rightarrow> reader \<Rightarrow> string \<Rightarrow> err + resourceLookupResult" where
  "getDeploymentPodResources ql r ns =
     (case getDashboardDeployment r ns of
        Inl e \<Rightarrow> Inl e
      | Inr None \<Rightarrow> Inr nothing_found
      | Inr (Some deploy) \<Rightarrow>
          (case effectivePodRequests ql (rdGojq r) deploy ''.spec.template.spec'' of
             Inl e \<Rightarrow> Inl (wrapf ''reading deployment container requests'' e)
           | Inr (req, n) \<Rightarrow> Inr \<lparr>rlResources = req, rlContainerCount = n, rlFound = True\<rparr>))"

definition pod_maximum :: "quantity_lib \<Rightarrow> gojq \<Rightarrow> json list \<Rightarrow> podResources \<times> nat" where
  "pod_maximum ql gq pods = foldl (\<lambda>(m, n) pod. case effectivePodRequests ql gq pod ''.spec'' of
       Inl _ \<Rightarrow> (m, n) | Inr (req, k) \<Rightarrow> (max_resources m req, max n k)) (no_resources, 0) pods"

definition getPodMaxResources :: "quantity_lib \<Rightarrow> reader \<Rightarrow> string \<Rightarrow> err + resourceLookupResult" where
  "getPodMaxResources ql r ns =
     (case rdList r rt_Pod (WithLabelSelector ''app=rhods-dashboard'' (WithNamespace ns list_all_config)) of
        Inl e \<Rightarrow> Inl (wrapf ''listing dashboard pods'' e)
      | Inr [] \<Rightarrow> Inr nothing_found
      | Inr pods \<Rightarrow>
          (let (m, n) = pod_maximum ql (rdGojq r) pods in
           Inr \<lparr>rlResources = m, rlContainerCount = n, rlFound = some_resources m\<rparr>))"

definition getRequiredResources :: "quantity_lib \<Rightarrow> reader \<Rightarrow> string \<Rightarrow> err + resourceLookupResult" where
  "getRequiredResources ql r ns =
     bind_res (getDeploymentPodResources ql r ns) (\<lambda>res. if rlFound res then Inr res else getPodMaxResources ql r ns)"

section \<open>Nodes and the verdict\<close>

definition node_allocatable :: "quantity_lib \<Rightarrow> gojq \<Rightarrow> json \<Rightarrow> podResources" where
  "node_allocatable ql gq node =
     quantity_pair ql (query_any gq node ''.status.allocatable.cpu'') (query_any gq node ''.status.allocatable.memory'')"

definition getNodeAllocatable :: "quantity_lib \<Rightarrow> reader \<Rightarrow> err + podResources list" where
  "getNodeAllocatable ql r =
     (case rdList r rt_Node list_all_config of
        Inl e \<Rightarrow> Inl (wrapf ''listing nodes'' e)
      | Inr nodes \<Rightarrow> Inr (filter some_resources (map (node_allocatable ql (rdGojq r)) nodes)))"

definition fits :: "podResources \<Rightarrow> podResources \<Rightarrow> bool" where
  "fits req n = (sint (cpuMillis n) \<ge> sint (cpuMillis req) \<and> sint (memoryBytes n) \<ge> sint (memoryBytes req))"

definition anyNodeFits :: "podResources \<Rightarrow> podResources list \<Rightarrow> bool" where
  "anyNodeFits req nodes = list_ex (fits req) nodes"

text \<open>\<open>strconv.FormatInt\<close>, and Go's division, which truncates.\<close>

definition format_int :: "int \<Rightarrow> string" where
  "format_int i = (if i < 0 then CHR ''-'' # itoa (nat (- i)) else itoa (nat i))"

definition quot :: "int \<Rightarrow> int \<Rightarrow> int" where
  "quot a b = (if a < 0 then - ((- a) div b) else a div b)"

definition formatCPU :: "int64 \<Rightarrow> string" where
  "formatCPU millis = (if sint millis mod 1000 = 0 then format_int (quot (sint millis) 1000) else format_int (sint millis) @ ''m'')"

definition formatMemory :: "int64 \<Rightarrow> string" where
  "formatMemory bytes =
     (let gi = 1024 * 1024 * 1024; mi = 1024 * 1024 in
      if sint bytes mod gi = 0 then format_int (quot (sint bytes) gi) @ ''Gi'' else format_int (quot (sint bytes) mi) @ ''Mi'')"

definition ResourceCapacityCheck :: BaseCheck where
  "ResourceCapacityCheck = \<lparr>bcGroup = ''component'', bcKind = ''dashboard'', bcType = ''resource-capacity'',
     bcID = ''components.dashboard.resource-capacity'',
     bcName = ''Components :: Dashboard :: Resource Capacity (3.x)'',
     bcDescription = ''Validates that cluster nodes have enough allocatable CPU and memory to schedule the new dashboard pods'',
     bcRemediation = ''Ensure cluster has nodes with sufficient CPU/memory for dashboard pods. Consider enabling cluster autoscaler with larger instance types''\<rparr>"

definition ResourceCapacityCanApply :: "lint_target \<Rightarrow> err + bool" where
  "ResourceCapacityCanApply t = Inr (upgrade_2x_3x t)"

definition setCapacityCondition ::
  "podResources \<Rightarrow> podResources list \<Rightarrow> nat \<Rightarrow> bool option \<Rightarrow> string + Condition" where
  "setCapacityCondition req nodes n hasAutoscaler =
     (let cpuStr = formatCPU (cpuMillis req); memStr = formatMemory (memoryBytes req);
          largest = foldl max_resources no_resources nodes in
      if \<not> anyNodeFits req nodes then
        NewCondition conditionTypeResourceCapacity ConditionFalse
          [WithReason ReasonInsufficientCapacity,
           WithMessage (''No node has sufficient allocatable resources for dashboard pods (need '' @ cpuStr @ '' CPU, '' @ memStr @ '' memory; largest node has '' @ formatCPU (cpuMillis largest) @ '' CPU, '' @ formatMemory (memoryBytes largest) @ '' memory). Add larger nodes or reduce pod resource requests''),
           WithImpact ImpactBlocking,
           WithRemediation (''Add nodes with at least '' @ cpuStr @ '' CPU and '' @ memStr @ '' memory allocatable, or enable cluster autoscaler with a machine pool using larger instance types'')]
      else if hasAutoscaler = Some False then
        NewCondition conditionTypeResourceCapacity ConditionFalse
          [WithReason ReasonWorkloadsImpacted,
           WithMessage (''Dashboard pods fit on cluster nodes but no cluster autoscaler detected - ensure sufficient node capacity for '' @ itoa n @ '' container(s) per pod''),
           WithImpact ImpactAdvisory, WithRemediation remediationCapacityAdvisory]
      else NewCondition conditionTypeResourceCapacity ConditionTrue
          [WithReason ReasonRequirementsMet, WithMessage (''Dashboard pods fit on cluster nodes (need '' @ cpuStr @ '' CPU, '' @ memStr @ '' memory)'')])"

definition checkCapacity :: "quantity_lib \<Rightarrow> ComponentRequest \<Rightarrow> checked" where
  "checkCapacity ql req =
     (let r = tgtClient (rqTarget req) in
      case getRequiredResources ql r (rqNamespace req) of
        Inl e \<Rightarrow> chk_error e
      | Inr lookup \<Rightarrow>
          if \<not> rlFound lookup then set_conditions (rqResult req)
            [NewCondition conditionTypeResourceCapacity ConditionTrue
              [WithReason ReasonRequirementsMet, WithMessage ''Could not determine dashboard pod resource requirements'']]
          else case getNodeAllocatable ql r of
              Inl e \<Rightarrow> chk_error e
            | Inr nodes \<Rightarrow>
                (let hasAutoscaler = (case rdList r rt_ClusterAutoscaler list_all_config of Inl _ \<Rightarrow> None | Inr xs \<Rightarrow> Some (xs \<noteq> [])) in
                 set_conditions (rqResult req) [setCapacityCondition (rlResources lookup) nodes (rlContainerCount lookup) hasAutoscaler]))"

definition ResourceCapacityValidate :: "quantity_lib \<Rightarrow> semver_lib \<Rightarrow> lint_target \<Rightarrow> checked" where
  "ResourceCapacityValidate ql sv t =
     ComponentRun sv t (WithApplicationsNamespace (Component ResourceCapacityCheck)) (checkCapacity ql)"

section \<open>The request of a pod\<close>

text \<open>
  In integers without bound, what the code adds up: the regular containers and the sidecars run together, any other init container alone.
\<close>

definition code_request :: "(podResources \<Rightarrow> int64) \<Rightarrow> quantity_lib \<Rightarrow> json list \<Rightarrow> json list \<Rightarrow> int" where
  "code_request f ql containers inits =
     (let need = (\<lambda>raw. sint (f (containerRequests ql raw))) in
      max (sum_list (map need (containers @ filter isNativeSidecar inits)))
          (foldl max 0 (map need (filter (\<lambda>raw. \<not> isNativeSidecar raw) inits))))"

text \<open>
  The rule of Kubernetes for the request of a pod, apart from the overhead of a runtime class: a sidecar keeps running once it has
  started, so that an init container runs beside the sidecars that come before it in the list. \<open>running\<close> is the sum of those.
\<close>

fun init_requests :: "(json \<Rightarrow> int) \<Rightarrow> int \<Rightarrow> json list \<Rightarrow> int list" where
  "init_requests need running [] = []"
| "init_requests need running (raw # rest) =
     (running + need raw) # init_requests need (if isNativeSidecar raw then running + need raw else running) rest"

definition scheduler_request :: "(podResources \<Rightarrow> int64) \<Rightarrow> quantity_lib \<Rightarrow> json list \<Rightarrow> json list \<Rightarrow> int" where
  "scheduler_request f ql containers inits =
     (let need = (\<lambda>raw. sint (f (containerRequests ql raw))) in
      max (sum_list (map need containers) + sum_list (map need (filter isNativeSidecar inits)))
          (foldl max 0 (init_requests need 0 inits)))"

text \<open>No init container comes after a sidecar, unless it is one too.\<close>

definition sidecars_last :: "json list \<Rightarrow> bool" where
  "sidecars_last inits \<longleftrightarrow> list_all isNativeSidecar (dropWhile (\<lambda>raw. \<not> isNativeSidecar raw) inits)"

lemma foldl_max_le: "foldl max (a :: int) xs \<le> b \<longleftrightarrow> a \<le> b \<and> (\<forall>x\<in>set xs. x \<le> b)"
  by (induction xs arbitrary: a) auto

lemma init_requests_above:
  assumes "\<And>raw. raw \<in> set inits \<Longrightarrow> 0 \<le> need raw" and "0 \<le> running"
  shows "raw \<in> set inits \<Longrightarrow> \<exists>x\<in>set (init_requests need running inits). need raw \<le> x"
  using assms
proof (induction inits arbitrary: running)
  case (Cons i inits)
  show ?case
  proof (cases "raw = i")
    case False
    then have "raw \<in> set inits" using Cons.prems(1) by simp
    moreover have "0 \<le> (if isNativeSidecar i then running + need i else running)"
      using Cons.prems(2) [of i] Cons.prems(3) by simp
    ultimately show ?thesis using Cons.IH Cons.prems(2) by fastforce
  qed (use Cons.prems(3) in simp)
qed simp

text \<open>The sidecars are counted with the containers; where they come last, nothing else depends on them.\<close>

lemma init_requests_sidecars:
  assumes "list_all isNativeSidecar inits" and "\<And>raw. raw \<in> set inits \<Longrightarrow> 0 \<le> need raw" and "x \<in> set (init_requests need running inits)"
  shows "x \<le> running + sum_list (map need inits)"
  using assms
proof (induction inits arbitrary: running)
  case (Cons i inits)
  have "0 \<le> sum_list (map need inits)" using Cons.prems(2) by (intro sum_list_nonneg) auto
  then show ?case using Cons.IH [of "running + need i"] Cons.prems by auto
qed simp

lemma init_requests_last:
  assumes "sidecars_last inits" and "\<And>raw. raw \<in> set inits \<Longrightarrow> 0 \<le> need raw" and "x \<in> set (init_requests need 0 inits)"
  shows "(\<exists>raw\<in>set inits. \<not> isNativeSidecar raw \<and> x = need raw) \<or> x \<le> sum_list (map need (filter isNativeSidecar inits))"
  using assms
proof (induction inits)
  case (Cons i inits)
  show ?case
  proof (cases "isNativeSidecar i")
    case True
    then have all: "list_all isNativeSidecar (i # inits)" using Cons.prems(1) by (simp add: sidecars_last_def)
    then have "filter isNativeSidecar (i # inits) = i # inits" by (auto simp: list_all_iff)
    then show ?thesis using init_requests_sidecars [OF all Cons.prems(2,3)] by simp
  next
    case False
    then have last: "sidecars_last inits" using Cons.prems(1) by (simp add: sidecars_last_def)
    from Cons.prems(3) False consider "x = need i" | "x \<in> set (init_requests need 0 inits)" by auto
    then show ?thesis
    proof cases
      case 2
      then show ?thesis using Cons.IH [OF last] Cons.prems(2) False by auto
    qed (use False in auto)
  qed
qed simp
lemma code_request_scheduler:
  assumes "\<And>raw. raw \<in> set (cs @ inits) \<Longrightarrow> 0 \<le> sint (f (containerRequests ql raw))"
  shows "code_request f ql cs inits \<le> scheduler_request f ql cs inits"
    and "sidecars_last inits \<Longrightarrow> code_request f ql cs inits = scheduler_request f ql cs inits"
proof -
  let ?need = "\<lambda>raw. sint (f (containerRequests ql raw))"
  let ?runs = "init_requests ?need 0 inits" and ?alone = "map ?need (filter (\<lambda>raw. \<not> isNativeSidecar raw) inits)"
  have pos: "0 \<le> ?need raw" if "raw \<in> set inits" for raw using assms that by simp
  have cs: "0 \<le> sum_list (map ?need cs)" using assms by (intro sum_list_nonneg) auto
  have above: "0 \<le> foldl max 0 xs" "x \<in> set xs \<Longrightarrow> x \<le> foldl max 0 xs" for x :: int and xs
    using foldl_max_le [of 0 xs "foldl max 0 xs"] by auto
  have "foldl max 0 ?alone \<le> foldl max 0 ?runs"
    unfolding foldl_max_le using above(1) above(2) [of _ ?runs] init_requests_above [of inits ?need 0, OF pos] by fastforce
  then show le: "code_request f ql cs inits \<le> scheduler_request f ql cs inits"
    by (simp add: code_request_def scheduler_request_def Let_def)
  assume "sidecars_last inits"
  then have "x \<le> max (sum_list (map ?need (filter isNativeSidecar inits))) (foldl max 0 ?alone)" if "x \<in> set ?runs" for x
    using init_requests_last [OF _ pos that] above(2) [of x ?alone] by fastforce
  then have "foldl max 0 ?runs \<le> max (sum_list (map ?need cs) + sum_list (map ?need (filter isNativeSidecar inits))) (foldl max 0 ?alone)"
    unfolding foldl_max_le using above(1) [of ?alone] cs by fastforce
  then show "code_request f ql cs inits = scheduler_request f ql cs inits"
    using le by (simp add: code_request_def scheduler_request_def Let_def)
qed

text \<open>The two amounts are added and compared alike; the lemmas speak of either.\<close>

definition amount :: "(podResources \<Rightarrow> int64) \<Rightarrow> bool" where
  "amount f \<longleftrightarrow> f no_resources = 0 \<and> (\<forall>a b. f (add_resources a b) = f a + f b) \<and> (\<forall>a b. f (max_resources a b) = smax (f a) (f b))"

lemma amounts: "amount cpuMillis" "amount memoryBytes"
  by (simp_all add: amount_def no_resources_def add_resources_def max_resources_def)

lemma sint_smax [simp]: "sint (smax a b) = max (sint a) (sint b)"
  by (simp add: smax_def)

lemma sint_add:
  assumes "0 \<le> sint a" and "0 \<le> sint b" and "sint a + sint b < 2 ^ 63"
  shows "sint (a + b :: int64) = sint a + sint b"
  using assms by (simp add: sint_word_ariths(1) signed_take_bit_int_eq_self)

lemma foldl_add_exact:
  assumes f: "amount f" and need: "\<And>raw. raw \<in> set xs \<Longrightarrow> 0 \<le> sint (f (containerRequests ql raw))"
    and "0 \<le> sint (f acc)" and "sint (f acc) + sum_list (map (\<lambda>raw. sint (f (containerRequests ql raw))) xs) < 2 ^ 63"
  shows "sint (f (foldl (\<lambda>acc raw. add_resources acc (containerRequests ql raw)) acc xs))
    = sint (f acc) + sum_list (map (\<lambda>raw. sint (f (containerRequests ql raw))) xs)"
  using assms(2-4)
proof (induction xs arbitrary: acc)
  case (Cons x xs)
  let ?x = "sint (f (containerRequests ql x))" and ?rest = "sum_list (map (\<lambda>raw. sint (f (containerRequests ql raw))) xs)"
  have "0 \<le> ?rest" using Cons.prems(1) by (intro sum_list_nonneg) auto
  then have "sint (f (add_resources acc (containerRequests ql x))) = sint (f acc) + ?x"
    using Cons.prems f by (simp add: amount_def sint_add)
  with Cons.IH [of "add_resources acc (containerRequests ql x)"] Cons.prems show ?case by simp
qed simp

lemma init_containers_exact:
  assumes f: "amount f" and need: "\<And>raw. raw \<in> set xs \<Longrightarrow> 0 \<le> sint (f (containerRequests ql raw))"
    and "0 \<le> sint (f acc)" and "sint (f acc) + sum_list (map (\<lambda>raw. sint (f (containerRequests ql raw))) (filter isNativeSidecar xs)) < 2 ^ 63"
    and "init_containers ql xs (acc, n, m) = (acc', n', m')"
  shows "sint (f acc') = sint (f acc) + sum_list (map (\<lambda>raw. sint (f (containerRequests ql raw))) (filter isNativeSidecar xs))
    \<and> sint (f m') = foldl max (sint (f m)) (map (\<lambda>raw. sint (f (containerRequests ql raw))) (filter (\<lambda>raw. \<not> isNativeSidecar raw) xs))
    \<and> n' = n + length (filter isNativeSidecar xs)"
  using assms(2-5)
proof (induction xs arbitrary: acc n m)
  case (Cons x xs)
  let ?x = "sint (f (containerRequests ql x))"
  let ?rest = "sum_list (map (\<lambda>raw. sint (f (containerRequests ql raw))) (filter isNativeSidecar xs))"
  have rest: "0 \<le> ?rest" using Cons.prems(1) by (intro sum_list_nonneg) auto
  show ?case
  proof (cases "isNativeSidecar x")
    case True
    then have "sint (f (add_resources acc (containerRequests ql x))) = sint (f acc) + ?x"
      using Cons.prems f rest by (simp add: amount_def sint_add)
    with True Cons.IH [of "add_resources acc (containerRequests ql x)" "n + 1" m] Cons.prems show ?thesis by (simp add: Let_def)
  next
    case False
    have "sint (f (max_resources m (containerRequests ql x))) = max (sint (f m)) ?x" using f by (simp add: amount_def)
    with False Cons.IH [of acc n "max_resources m (containerRequests ql x)"] Cons.prems show ?thesis by (simp add: Let_def)
  qed
qed simp

lemma effectivePodRequests_exact:
  assumes f: "amount f" and spec: "Query gq as_map None obj path = Inr (Some fs)"
    and cs: "cs = slice_or_nil (map_of fs ''containers'')" and inits: "inits = slice_or_nil (map_of fs ''initContainers'')"
    and need: "\<And>raw. raw \<in> set (cs @ inits) \<Longrightarrow> 0 \<le> sint (f (containerRequests ql raw))"
    and bound: "sum_list (map (\<lambda>raw. sint (f (containerRequests ql raw))) (cs @ filter isNativeSidecar inits)) < 2 ^ 63"
    and req: "effectivePodRequests ql gq obj path = Inr (req, n)"
  shows "sint (f req) = code_request f ql cs inits"
proof -
  let ?sum = "foldl (\<lambda>acc raw. add_resources acc (containerRequests ql raw)) no_resources cs"
  let ?S = "\<lambda>xs. sum_list (map (\<lambda>raw. sint (f (containerRequests ql raw))) xs)"
  obtain acc k m where init: "init_containers ql inits (?sum, length cs, no_resources) = (acc, k, m)" by (metis prod_cases3)
  have zero: "sint (f no_resources) = 0" using f by (simp add: amount_def)
  have pos: "0 \<le> ?S cs" "0 \<le> ?S (filter isNativeSidecar inits)" using need by (auto intro!: sum_list_nonneg)
  have sum: "sint (f ?sum) = ?S cs"
    using foldl_add_exact [OF f, of cs ql no_resources] need bound pos zero by simp
  have out: "sint (f acc) = ?S (cs @ filter isNativeSidecar inits)"
    "sint (f m) = foldl max 0 (map (\<lambda>raw. sint (f (containerRequests ql raw))) (filter (\<lambda>raw. \<not> isNativeSidecar raw) inits))"
    using init_containers_exact [OF f, of inits ql ?sum "length cs" no_resources acc k m] need bound pos sum zero init by simp_all
  have "req = max_resources acc m"
    using req spec init by (simp add: effectivePodRequests_def Let_def cs inits)
  then show ?thesis using f out by (simp add: amount_def code_request_def Let_def)
qed

lemma effectivePodRequests_returns:
  "Query gq as_map None obj path = Inr spec \<Longrightarrow> \<exists>req n. effectivePodRequests ql gq obj path = Inr (req, n)"
  by (simp add: effectivePodRequests_def Let_def split: prod.split)

section \<open>The result of the check\<close>

lemma ResourceCapacity_base [simp]: "base_ok ResourceCapacityCheck"
  by (simp add: base_ok_def ResourceCapacityCheck_def)

lemma setCapacityCondition_ok: "built_ok (setCapacityCondition req nodes n a)"
  by (simp add: setCapacityCondition_def Let_def built_ok_impact built_ok_True)

lemma ResourceCapacity_ok: "checked_ok (ResourceCapacityValidate ql sv t)"
  unfolding ResourceCapacityValidate_def
proof (rule ComponentRun_ok)
  show "base_ok (cbCheck (WithApplicationsNamespace (Component ResourceCapacityCheck)))"
    by (simp add: WithApplicationsNamespace_def Component_def)
  show "checked_ok (checkCapacity ql req)" if "dr_ok (rqResult req)" for req
    using that by (auto simp: checkCapacity_def Let_def set_one_ok setCapacityCondition_ok built_ok_True simp del: set_conditions.simps
        split: sum.split)
qed

lemma setCapacityCondition_impact:
  assumes "set_conditions dr [setCapacityCondition req nodes n a] = Inr (Inr d)" and "Conditions dr = []"
  shows "GetImpact d = (if \<not> anyNodeFits req nodes then ImpactBlocking else if a = Some False then ImpactAdvisory else ImpactNone)"
  using assms by (auto simp: setCapacityCondition_def Let_def build_simps SetCondition_def GetImpact_def chk_done_def split: if_splits)

section \<open>Properties\<close>

text \<open>
  C29. The capacity check against the scheduler, for a dashboard deployment whose requests are not
  negative and stay below \<open>2 ^ 63\<close> when added. If the check blocks, then no node has both the CPU and the memory that the
  scheduler needs for a pod. If no init container comes after a sidecar, the verdict is exact: it blocks exactly then, is advisory if a
  node has them but the cluster has no autoscaler, and else passes. (An init container after a sidecar is counted without it, so that
  the check may pass although no node has what the scheduler needs, see below.)
\<close>

theorem capacity_verdict:
  assumes "checkCapacity ql req = Inr (Inr dr)" and "Conditions (rqResult req) = []"
    and "getDashboardDeployment (tgtClient (rqTarget req)) (rqNamespace req) = Inr (Some deploy)"
    and "Query (rdGojq (tgtClient (rqTarget req))) as_map None deploy ''.spec.template.spec'' = Inr (Some fs)"
    and "cs = slice_or_nil (map_of fs ''containers'')" and "inits = slice_or_nil (map_of fs ''initContainers'')"
    and "\<forall>f\<in>{cpuMillis, memoryBytes}. (\<forall>raw\<in>set (cs @ inits). 0 \<le> sint (f (containerRequests ql raw)))
      \<and> sum_list (map (\<lambda>raw. sint (f (containerRequests ql raw))) (cs @ filter isNativeSidecar inits)) < 2 ^ 63"
    and "getNodeAllocatable ql (tgtClient (rqTarget req)) = Inr nodes"
  shows "let schedulable = (\<exists>n\<in>set nodes. scheduler_request cpuMillis ql cs inits \<le> sint (cpuMillis n)
          \<and> scheduler_request memoryBytes ql cs inits \<le> sint (memoryBytes n)) in
    (GetImpact dr = ImpactBlocking \<longrightarrow> \<not> schedulable)
    \<and> (sidecars_last inits \<longrightarrow> GetImpact dr =
        (if \<not> schedulable then ImpactBlocking
         else if rdList (tgtClient (rqTarget req)) rt_ClusterAutoscaler list_all_config = Inr [] then ImpactAdvisory else ImpactNone))"
proof -
  let ?r = "tgtClient (rqTarget req)"
  obtain need k where need: "effectivePodRequests ql (rdGojq ?r) deploy ''.spec.template.spec'' = Inr (need, k)"
    using effectivePodRequests_returns [OF assms(4), of ql] by auto
  have exact: "sint (cpuMillis need) = code_request cpuMillis ql cs inits" "sint (memoryBytes need) = code_request memoryBytes ql cs inits"
    using assms(7) by (intro effectivePodRequests_exact [OF _ assms(4,5,6) _ _ need]; simp add: amounts)+
  have below: "code_request f ql cs inits \<le> scheduler_request f ql cs inits"
      "sidecars_last inits \<Longrightarrow> code_request f ql cs inits = scheduler_request f ql cs inits" if "f \<in> {cpuMillis, memoryBytes}" for f
    using code_request_scheduler [of cs inits f ql] assms(7) that by blast+
  have "getRequiredResources ql ?r (rqNamespace req) = Inr \<lparr>rlResources = need, rlContainerCount = k, rlFound = True\<rparr>"
    using assms(3) need by (simp add: getRequiredResources_def getDeploymentPodResources_def)
  then have "set_conditions (rqResult req) [setCapacityCondition need nodes k
      (case rdList ?r rt_ClusterAutoscaler list_all_config of Inl _ \<Rightarrow> None | Inr xs \<Rightarrow> Some (xs \<noteq> []))] = Inr (Inr dr)"
    using assms(1,8) by (simp add: checkCapacity_def Let_def del: set_conditions.simps)
  from setCapacityCondition_impact [OF this assms(2)]
  have impact: "GetImpact dr =
    (if \<not> (\<exists>n\<in>set nodes. code_request cpuMillis ql cs inits \<le> sint (cpuMillis n) \<and> code_request memoryBytes ql cs inits \<le> sint (memoryBytes n))
     then ImpactBlocking else if rdList ?r rt_ClusterAutoscaler list_all_config = Inr [] then ImpactAdvisory else ImpactNone)"
    by (auto simp: anyNodeFits_def list_ex_iff fits_def exact split: sum.splits)
  have exact_verdict: "GetImpact dr =
    (if \<not> (\<exists>n\<in>set nodes. scheduler_request cpuMillis ql cs inits \<le> sint (cpuMillis n) \<and> scheduler_request memoryBytes ql cs inits \<le> sint (memoryBytes n))
     then ImpactBlocking else if rdList ?r rt_ClusterAutoscaler list_all_config = Inr [] then ImpactAdvisory else ImpactNone)"
    if "sidecars_last inits"
  proof -
    have "code_request cpuMillis ql cs inits = scheduler_request cpuMillis ql cs inits"
      "code_request memoryBytes ql cs inits = scheduler_request memoryBytes ql cs inits"
      by (rule below(2) [OF _ that]; simp)+
    then show ?thesis using impact by (simp only:)
  qed
  have "GetImpact dr = ImpactBlocking \<longrightarrow> \<not> (\<exists>n\<in>set nodes. scheduler_request cpuMillis ql cs inits \<le> sint (cpuMillis n)
      \<and> scheduler_request memoryBytes ql cs inits \<le> sint (memoryBytes n))"
    using below(1) [of cpuMillis] below(1) [of memoryBytes] by (auto simp: impact split: if_splits)
  then show ?thesis unfolding Let_def by (rule conjI) (rule impI, rule exact_verdict)
qed

definition small_node_queries :: gojq where
  "small_node_queries = \<lparr>gqParse = \<lambda>q. None,
     gqRun = \<lambda>q v. Some (Inr (if q = ''.spec.template.spec'' then
         JObj [(''containers'', JArr [JObj [(''resources'', JObj [(''requests'', JObj [(''cpu'', JStr ''2''), (''memory'', JStr ''1Ki'')])])]]),
               (''initContainers'', JArr [JObj [(''resources'', JObj [(''requests'', JObj [(''cpu'', JStr ''4'')])])]])]
       else if q = ''.status.allocatable.cpu'' then JStr ''3'' else if q = ''.status.allocatable.memory'' then JStr ''1Ki'' else JNull))\<rparr>"

definition small_quantities :: quantity_lib where
  "small_quantities = \<lparr>qlParse = \<lambda>s. map_of [(''2'', \<lparr>MilliValue = 2000, QValue = 2\<rparr>), (''3'', \<lparr>MilliValue = 3000, QValue = 3\<rparr>),
       (''4'', \<lparr>MilliValue = 4000, QValue = 4\<rparr>), (''1Ki'', \<lparr>MilliValue = 1024000, QValue = 1024\<rparr>)] s,
     qlFormatFloat = \<lambda>s. s, qlInt64 = False, qlNew = \<lambda>n. \<lparr>MilliValue = word_of_int (1000 * n), QValue = word_of_int n\<rparr>\<rparr>"

text \<open>A sidecar of 2 CPUs before an init container of 4 needs 6; the code finds 4.\<close>

lemma sidecar_not_counted:
  "let container = (\<lambda>fs cpu. JObj ((''resources'', JObj [(''requests'', JObj [(''cpu'', JStr cpu)])]) # fs));
       cs = [container [] ''2'']; inits = [container [(''restartPolicy'', JStr ''Always'')] ''2'', container [] ''4''] in
   code_request cpuMillis small_quantities cs inits = 4000 \<and> scheduler_request cpuMillis small_quantities cs inits = 6000"
  by code_simp

definition small_node_reader :: reader where
  "small_node_reader = (sample_reader small_node_queries (\<lambda>rt. [JObj []]))\<lparr>rdGet := \<lambda>rt ns n. Inr (Some (JObj []))\<rparr>"

definition small_node_request :: ComponentRequest where
  "small_node_request = \<lparr>rqTarget = \<lparr>tgtClient = small_node_reader, CurrentVersion = None, TargetVersion = None, tgtIO = False,
       tgtDebug = False\<rparr>, rqResult = BaseNewResult ResourceCapacityCheck, rqDSC = JObj [], rqState = ''Managed'', rqNamespace = ''apps''\<rparr>"

theorem capacity_verdict_witness:
  "\<exists>dr. checkCapacity small_quantities small_node_request = Inr (Inr dr) \<and> GetImpact dr = ImpactBlocking"
proof -
  let ?ql = small_quantities
  let ?cs = "[JObj [(''resources'', JObj [(''requests'', JObj [(''cpu'', JStr ''2''), (''memory'', JStr ''1Ki'')])])]]"
  let ?is = "[JObj [(''resources'', JObj [(''requests'', JObj [(''cpu'', JStr ''4'')])])]]"
  let ?fs = "[(''containers'', JArr ?cs), (''initContainers'', JArr ?is)]"
  let ?r = "tgtClient (rqTarget small_node_request)"
  have deploy: "getDashboardDeployment ?r (rqNamespace small_node_request) = Inr (Some (JObj []))" by code_simp
  have spec: "Query (rdGojq ?r) as_map None (JObj []) ''.spec.template.spec'' = Inr (Some ?fs)" by code_simp
  have nodes: "getNodeAllocatable ?ql ?r = Inr [\<lparr>cpuMillis = 3000, memoryBytes = 1024\<rparr>]" by code_simp
  have req: "containerRequests ?ql (hd ?cs) = \<lparr>cpuMillis = 2000, memoryBytes = 1024\<rparr>" "containerRequests ?ql (hd ?is) = \<lparr>cpuMillis = 4000, memoryBytes = 0\<rparr>"
    by code_simp+
  have side: "\<not> isNativeSidecar (hd ?is)" by code_simp
  have "\<exists>need k. effectivePodRequests ?ql (rdGojq ?r) (JObj []) ''.spec.template.spec'' = Inr (need, k)"
    by (rule effectivePodRequests_returns [OF spec])
  then obtain need k where "getRequiredResources ?ql ?r (rqNamespace small_node_request) = Inr \<lparr>rlResources = need, rlContainerCount = k, rlFound = True\<rparr>"
    by (auto simp: getRequiredResources_def getDeploymentPodResources_def deploy)
  moreover obtain c where "setCapacityCondition need [\<lparr>cpuMillis = 3000, memoryBytes = 1024\<rparr>] k
      (case rdList ?r rt_ClusterAutoscaler list_all_config of Inl _ \<Rightarrow> None | Inr xs \<Rightarrow> Some (xs \<noteq> [])) = Inr c"
    using setCapacityCondition_ok unfolding built_ok_def by meson
  ultimately obtain dr where dr: "checkCapacity ?ql small_node_request = Inr (Inr dr)"
    using nodes by (auto simp: checkCapacity_def Let_def chk_done_def)
  have conds: "Conditions (rqResult small_node_request) = []"
    by (simp add: small_node_request_def BaseNewResult_def NewResult_def)
  have low: "\<not> (\<exists>n\<in>set [\<lparr>cpuMillis = 3000, memoryBytes = 1024\<rparr>]. scheduler_request cpuMillis ?ql ?cs ?is \<le> sint (cpuMillis n)
      \<and> scheduler_request memoryBytes ?ql ?cs ?is \<le> sint (memoryBytes n))"
    using req side by (simp add: scheduler_request_def Let_def)
  have amounts: "\<forall>f\<in>{cpuMillis, memoryBytes}. (\<forall>raw\<in>set (?cs @ ?is). 0 \<le> sint (f (containerRequests ?ql raw)))
      \<and> sum_list (map (\<lambda>raw. sint (f (containerRequests ?ql raw))) (?cs @ filter isNativeSidecar ?is)) < 2 ^ 63"
    using req side by simp
  have lists: "?cs = slice_or_nil (map_of ?fs ''containers'')" "?is = slice_or_nil (map_of ?fs ''initContainers'')" by simp_all
  have last: "sidecars_last ?is" using side by (simp add: sidecars_last_def)
  note verdict = capacity_verdict [OF dr conds deploy spec lists amounts nodes, unfolded Let_def, THEN conjunct2, THEN mp, OF last]
  have "GetImpact dr = ImpactBlocking" by (rule trans [OF verdict if_P [OF low]])
  with dr show ?thesis by blast
qed

end
