(* ===== verification/LintChecks.thy ===== *)
theory LintChecks
  imports NotebookImages ResourceCapacity
begin

text \<open>
  The checks of the lint command together: every check that \<open>pkg/lint/command.go\<close> registers, with its model, and the
  outcome that no cluster can avoid.
\<close>

section \<open>The registered checks\<close>

text \<open>The checks in the order of their registration, with what they are given by other code.\<close>

record check_env =
  ceSemver :: semver_lib
  ceFloat :: float_lib
  ceClusterVersion :: "(err + ClusterVersionObj) option"
  ceCond :: condition_decoder
  ceQuantity :: quantity_lib
  ceYaml :: "string \<Rightarrow> err + json"
  ceDisallowed :: "string \<Rightarrow> err + string list"

definition some_result :: "checked \<Rightarrow> maybe_checked" where
  "some_result r = map_sum id (map_sum id Some) r"

definition lint_checks :: "check_env \<Rightarrow> (BaseCheck \<times> (lint_target \<Rightarrow> err + bool) \<times> (lint_target \<Rightarrow> maybe_checked)) list" where
  "lint_checks env =
    [(DSCInitializationReadinessCheck, (\<lambda>t. Inr True), \<lambda>t. some_result (DSCInitializationReadinessValidate (ceCond env) (ceSemver env) t)),
     (DataScienceClusterReadinessCheck, (\<lambda>t. Inr True), \<lambda>t. some_result (DataScienceClusterReadinessValidate (ceCond env) (ceSemver env) t)),
     (StorageVersionCheck, StorageVersionCanApply, \<lambda>t. some_result (StorageVersionValidate (ceSemver env) t)),
     (MaaSFieldMigrationCheck, MaaSFieldMigrationCanApply (ceSemver env), \<lambda>t. some_result (MaaSFieldMigrationValidate (ceSemver env) t)),
     (CodeFlareRemovalCheck, CodeFlareRemovalCanApply, \<lambda>t. some_result (CodeFlareRemovalValidate (ceSemver env) t)),
     (AcceleratorProfileMigrationCheck, AcceleratorProfileMigrationCanApply, \<lambda>t. AcceleratorProfileMigrationValidate (ceSemver env) t),
     (HardwareProfileMigrationCheck, HardwareProfileMigrationCanApply, \<lambda>t. HardwareProfileMigrationValidate (ceSemver env) t),
     (AuthModelMigrationCheck, AuthModelMigrationCanApply, \<lambda>t. some_result (AuthModelMigrationValidate (ceSemver env) t)),
     (RouteMigrationCheck, RouteMigrationCanApply, \<lambda>t. some_result (RouteMigrationValidate (ceSemver env) t)),
     (ResourceCapacityCheck, ResourceCapacityCanApply, \<lambda>t. some_result (ResourceCapacityValidate (ceQuantity env) (ceSemver env) t)),
     (RolloutStrategyCheck, RolloutStrategyCanApply, \<lambda>t. some_result (RolloutStrategyValidate (ceFloat env) (ceSemver env) t)),
     (ConfigCompatibilityCheck, ConfigCompatibilityCanApply, \<lambda>t. some_result (ConfigCompatibilityValidate (ceSemver env) t)),
     (PipelinesRenamingCheck, PipelinesRenamingCanApply, \<lambda>t. some_result (PipelinesRenamingValidate (ceSemver env) t)),
     (FeastRenamingCheck, FeastRenamingCanApply (ceSemver env), \<lambda>t. some_result (FeastRenamingValidate (ceSemver env) t)),
     (ServerlessRemovalCheck, ServerlessRemovalCanApply, \<lambda>t. some_result (ServerlessRemovalValidate (ceSemver env) t)),
     (WVARemovalCheck, WVARemovalCanApply, \<lambda>t. some_result (WVARemovalValidate (ceSemver env) t)),
     (KuadrantReadinessCheck, KuadrantReadinessCanApply, \<lambda>t. some_result (KuadrantReadinessValidate (ceSemver env) t)),
     (AuthorinoTLSReadinessCheck, AuthorinoTLSReadinessCanApply, \<lambda>t. some_result (AuthorinoTLSReadinessValidate (ceSemver env) t)),
     (ServiceMeshOperatorCheck, ServiceMeshOperatorCanApply, \<lambda>t. some_result (ServiceMeshOperatorValidate (ceSemver env) t)),
     (ServiceMeshRemovalCheck, ServiceMeshRemovalCanApply, \<lambda>t. some_result (ServiceMeshRemovalValidate (ceSemver env) t)),
     (ManagementStateCheck, ManagementStateCanApply, \<lambda>t. some_result (ManagementStateValidate (ceSemver env) t)),
     (OperatorInstalledCheck, OperatorInstalledCanApply, \<lambda>t. some_result (OperatorInstalledValidate (ceSemver env) t)),
     (LlamaStackRemovalCheck, LlamaStackRemovalCanApply (ceSemver env), \<lambda>t. some_result (LlamaStackRemovalValidate (ceSemver env) t)),
     (ModelMeshRemovalCheck, ModelMeshRemovalCanApply, \<lambda>t. some_result (ModelMeshRemovalValidate (ceSemver env) t)),
     (ModelRegistryRenamingCheck, ModelRegistryRenamingCanApply (ceSemver env), \<lambda>t. some_result (ModelRegistryRenamingValidate (ceSemver env) t)),
     (TrainingOperatorDeprecationCheck, TrainingOperatorDeprecationCanApply, \<lambda>t. some_result (TrainingOperatorDeprecationValidate (ceSemver env) t)),
     (TrainingOperatorRemovalCheck, TrainingOperatorRemovalCanApply, \<lambda>t. some_result (TrainingOperatorRemovalValidate (ceSemver env) t)),
     (CertManagerCheck, (\<lambda>t. Inr True), \<lambda>t. some_result (CertManagerValidate (ceSemver env) t)),
     (OpenShiftCheck, OpenShiftCanApply, \<lambda>t. some_result (OpenShiftValidate (ceSemver env) (ceClusterVersion env) t)),
     (OrphanedCRDsCheck, OrphanedCRDsCanApply, \<lambda>t. some_result (OrphanedCRDsValidate t)),
     (OSSM34Check, OSSM34CanApply, \<lambda>t. some_result (OSSM34Validate (ceSemver env) (ceClusterVersion env) t)),
     (ServiceMeshCheck, ServiceMeshCanApply, \<lambda>t. some_result (ServiceMeshValidate t)),
     (SharedOSSMCheck, SharedOSSMCanApply, \<lambda>t. some_result (SharedOSSMValidate t)),
     (SharedServerlessCheck, SharedServerlessCanApply, \<lambda>t. some_result (SharedServerlessValidate t)),
     (AppWrapperCleanupCheck, AppWrapperCleanupCanApply, \<lambda>t. AppWrapperCleanupValidate (ceSemver env) t),
     (CustomRBACAPISubresourceCheck, CustomRBACAPISubresourceCanApply, \<lambda>t. some_result (CustomRBACAPISubresourceValidate (ceSemver env) t)),
     (InstructLabRemovalCheck, InstructLabRemovalCanApply, \<lambda>t. some_result (InstructLabRemovalValidate (ceSemver env) t)),
     (StoredVersionRemovalCheck, StoredVersionRemovalCanApply, \<lambda>t. some_result (StoredVersionRemovalValidate (ceSemver env) t)),
     (GuardrailsImpactedCheck, GuardrailsImpactedCanApply, \<lambda>t. some_result (GuardrailsImpactedValidate (ceYaml env) (ceSemver env) t)),
     (OtelMigrationCheck, OtelMigrationCanApply, \<lambda>t. OtelMigrationValidate (ceSemver env) t),
     (InferenceServiceConfigCheck, InferenceServiceConfigCanApply, \<lambda>t. some_result (InferenceServiceConfigValidate (ceDisallowed env) (ceSemver env) t)),
     (ISVCAcceleratorMigrationCheck, ISVCAcceleratorMigrationCanApply, \<lambda>t. some_result (ISVCAcceleratorMigrationValidate (ceSemver env) t)),
     (ISVCHardwareProfileCheck, ISVCHardwareProfileCanApply, \<lambda>t. ISVCHardwareProfileValidate (ceSemver env) t),
     (KServeImpactedCheck, KServeImpactedCanApply, \<lambda>t. some_result (KServeImpactedValidate (ceSemver env) t)),
     (DataIntegrityCheck, DataIntegrityCanApply, \<lambda>t. some_result (DataIntegrityValidate (ceSemver env) t)),
     (LlamaStackConfigCheck, LlamaStackConfigCanApply, \<lambda>t. LlamaStackConfigValidate (ceSemver env) t),
     (LlamaStackMigrationCheck, LlamaStackMigrationCanApply, \<lambda>t. LlamaStackMigrationValidate (ceSemver env) t),
     (ExternalAccessTLSCheck, ExternalAccessTLSCanApply, \<lambda>t. ExternalAccessTLSValidate (ceSemver env) t),
     (AcceleratorMigrationCheck, AcceleratorMigrationCanApply, \<lambda>t. AcceleratorMigrationValidate (ceSemver env) t),
     (ContainerNameCheck, ContainerNameCanApply, \<lambda>t. ContainerNameValidate (ceSemver env) t),
     (NotebookHardwareProfileCheck, NotebookHardwareProfileCanApply, \<lambda>t. NotebookHardwareProfileValidate (ceSemver env) t),
     (ConnectionIntegrityCheck, ConnectionIntegrityCanApply, \<lambda>t. ConnectionIntegrityValidate (ceSemver env) t),
     (HardwareProfileIntegrityCheck, HardwareProfileIntegrityCanApply, \<lambda>t. HardwareProfileIntegrityValidate (ceSemver env) t),
     (NotebookImpactedCheck, NotebookImpactedCanApply, \<lambda>t. NotebookImpactedValidate (ceSemver env) t),
     (NonStoppedWorkloadsCheck, NonStoppedWorkloadsCanApply, \<lambda>t. NonStoppedWorkloadsValidate (ceSemver env) t),
     (RayImpactedCheck, RayImpactedCanApply, \<lambda>t. RayImpactedValidate (ceSemver env) t),
     (NumProcPerNodeCheck, NumProcPerNodeCanApply, \<lambda>t. NumProcPerNodeValidate (ceSemver env) t),
     (PodTemplateOverridesCheck, PodTemplateOverridesCanApply, \<lambda>t. PodTemplateOverridesValidate (ceSemver env) t),
     (PyTorchJobsCheck, PyTorchJobsCanApply, \<lambda>t. PyTorchJobsValidate (ceSemver env) t)]"

lemma some_result_ok: "checked_ok r \<Longrightarrow> maybe_ok (some_result r)"
  by (cases r; cases "projr r") (auto simp: some_result_def)

definition base_row :: "BaseCheck \<Rightarrow> CheckGroupT \<times> string \<times> string \<times> string" where
  "base_row b = (bcGroup b, bcKind b, bcType b, bcID b)"

lemma lint_checks_rows: "map (base_row \<circ> fst) (lint_checks env) = lint_check_table"
proof -
  have "map (base_row \<circ> fst) (lint_checks env) = map base_row
    [DSCInitializationReadinessCheck, DataScienceClusterReadinessCheck, StorageVersionCheck, MaaSFieldMigrationCheck, CodeFlareRemovalCheck, AcceleratorProfileMigrationCheck, HardwareProfileMigrationCheck, AuthModelMigrationCheck, RouteMigrationCheck, ResourceCapacityCheck, RolloutStrategyCheck, ConfigCompatibilityCheck, PipelinesRenamingCheck, FeastRenamingCheck, ServerlessRemovalCheck, WVARemovalCheck, KuadrantReadinessCheck, AuthorinoTLSReadinessCheck, ServiceMeshOperatorCheck, ServiceMeshRemovalCheck, ManagementStateCheck, OperatorInstalledCheck, LlamaStackRemovalCheck, ModelMeshRemovalCheck, ModelRegistryRenamingCheck, TrainingOperatorDeprecationCheck, TrainingOperatorRemovalCheck, CertManagerCheck, OpenShiftCheck, OrphanedCRDsCheck, OSSM34Check, ServiceMeshCheck, SharedOSSMCheck, SharedServerlessCheck, AppWrapperCleanupCheck, CustomRBACAPISubresourceCheck, InstructLabRemovalCheck, StoredVersionRemovalCheck, GuardrailsImpactedCheck, OtelMigrationCheck, InferenceServiceConfigCheck, ISVCAcceleratorMigrationCheck, ISVCHardwareProfileCheck, KServeImpactedCheck, DataIntegrityCheck, LlamaStackConfigCheck, LlamaStackMigrationCheck, ExternalAccessTLSCheck, AcceleratorMigrationCheck, ContainerNameCheck, NotebookHardwareProfileCheck, ConnectionIntegrityCheck, HardwareProfileIntegrityCheck, NotebookImpactedCheck, NonStoppedWorkloadsCheck, RayImpactedCheck, NumProcPerNodeCheck, PodTemplateOverridesCheck, PyTorchJobsCheck]"
    by (simp only: lint_checks_def list.map o_apply fst_conv)
  also have "\<dots> = lint_check_table" by code_simp
  finally show ?thesis .
qed

text \<open>The one check that can panic, and when.\<close>

definition config_hidden :: "lint_target \<Rightarrow> bool" where
  "config_hidden t = (case GetApplicationsNamespace (tgtClient t) of Inl _ \<Rightarrow> False
     | Inr ns \<Rightarrow> rdGet (tgtClient t) rt_ConfigMap ns ''inferenceservice-config'' = Inr None)"

lemmas registered_checks_ok = all_checks_ok profile_checks_ok complete_checks_ok run_checks_ok pipelines_checks_ok kserve_workload_checks_ok
  guardrails_checks_ok notebook_checks_ok NotebookImpacted_ok ResourceCapacity_ok

text \<open>A run that does not panic does what it would do if a panic were an error.\<close>

lemma ComponentRun_recover:
  assumes "ComponentRun sv t b fn = Inr x"
  shows "ComponentRun sv t b (\<lambda>req. case fn req of Inl p \<Rightarrow> chk_error e | Inr y \<Rightarrow> Inr y) = Inr x"
  using assms by (auto simp: ComponentRun_def Let_def split: sum.splits if_splits)

lemma InferenceServiceConfig_returns:
  assumes "InferenceServiceConfigValidate disallowed sv t = Inr x"
  shows "checked_ok (Inr x)"
proof -
  have "checked_ok (ComponentRun sv t (WithApplicationsNamespace (Component InferenceServiceConfigCheck))
      (\<lambda>req. case checkInferenceServiceConfig disallowed req of Inl p \<Rightarrow> chk_error e | Inr y \<Rightarrow> Inr y))" for e
  proof (rule ComponentRun_ok)
    show "base_ok (cbCheck (WithApplicationsNamespace (Component InferenceServiceConfigCheck)))"
      by (simp add: WithApplicationsNamespace_def Component_def)
    show "checked_ok (case checkInferenceServiceConfig disallowed req of Inl p \<Rightarrow> chk_error e | Inr y \<Rightarrow> Inr y)"
      if dr: "dr_ok (rqResult req)" for req
    proof (cases "checkInferenceServiceConfig disallowed req")
      case (Inr y)
      moreover have "checked_ok (Inr y)"
      proof (cases "rdGet (tgtClient (rqTarget req)) rt_ConfigMap (rqNamespace req) ''inferenceservice-config'' = Inr None")
        case True
        then show ?thesis using Inr by (simp add: checkInferenceServiceConfig_def Let_def)
      next
        case False
        then have "checked_ok (checkInferenceServiceConfig disallowed req)" using dr
          by (auto simp: checkInferenceServiceConfig_def Let_def set_one_ok workload_built_ok simp del: set_conditions.simps
              split: sum.split option.split)
        then show ?thesis using Inr by simp
      qed
      ultimately show ?thesis by simp
    qed simp
  qed
  then show ?thesis using ComponentRun_recover [OF assms [unfolded InferenceServiceConfigValidate_def]] by metis
qed

lemma InferenceServiceConfig_panics:
  assumes "InferenceServiceConfigValidate disallowed sv t = Inl p"
  shows "config_hidden t"
proof (rule ccontr)
  assume visible: "\<not> config_hidden t"
  let ?fn = "\<lambda>req. if GetApplicationsNamespace (tgtClient t) = Inr (rqNamespace req) then checkInferenceServiceConfig disallowed req else chk_error undefined"
  have "checked_ok (ComponentRun sv t (WithApplicationsNamespace (Component InferenceServiceConfigCheck)) ?fn)"
  proof (rule ComponentRun_target_ok)
    show "base_ok (cbCheck (WithApplicationsNamespace (Component InferenceServiceConfigCheck)))"
      by (simp add: WithApplicationsNamespace_def Component_def)
    show "checked_ok (?fn req)" if "dr_ok (rqResult req)" "rqTarget req = t" for req
      using that visible
      by (auto simp: config_hidden_def checkInferenceServiceConfig_def Let_def set_one_ok workload_built_ok simp del: set_conditions.simps
          split: sum.split option.split)
  qed
  moreover have "ComponentRun sv t (WithApplicationsNamespace (Component InferenceServiceConfigCheck)) ?fn = Inl p"
    using assms unfolding InferenceServiceConfigValidate_def
    by (auto simp: ComponentRun_def Let_def WithApplicationsNamespace_def split: sum.splits if_splits)
  ultimately show False by simp
qed

text \<open>What a check may do on a target: an error, no result, or a valid one; the panic of the one check.\<close>

definition outcome_valid :: "lint_target \<Rightarrow> BaseCheck \<Rightarrow> maybe_checked \<Rightarrow> bool" where
  "outcome_valid t b r =
     (case r of
        Inl _ \<Rightarrow> bcID b = ''workloads.kserve.inferenceservice-config'' \<and> config_hidden t
      | Inr (Inr (Some dr)) \<Rightarrow> ResultValidate dr = None
      | _ \<Rightarrow> True)"

lemma maybe_ok_outcome: "maybe_ok r \<Longrightarrow> outcome_valid t b r"
  using maybe_ok_valid [of r] by (auto simp: outcome_valid_def maybe_ok_def split: sum.split option.split)

lemma inferenceservice_outcome: "outcome_valid t InferenceServiceConfigCheck (some_result (InferenceServiceConfigValidate d sv t))"
proof (cases "InferenceServiceConfigValidate d sv t")
  case (Inl p)
  then show ?thesis
    using InferenceServiceConfig_panics [OF Inl] by (simp add: outcome_valid_def some_result_def InferenceServiceConfigCheck_def)
next
  case (Inr x)
  show ?thesis
    unfolding Inr by (intro maybe_ok_outcome some_result_ok InferenceServiceConfig_returns [OF Inr])
qed

section \<open>Properties\<close>

text \<open>
  C24. The checks modelled here are the checks the lint command registers, all of them, in the order of registration
  and under the same group, kind, type and identifier. Whatever the cluster answers, no check panics or returns a result
  that the validation of results rejects, with one exception: the check of the KServe configuration panics
  when its ConfigMap may not be read.
\<close>

theorem lint_checks_valid:
  "map (\<lambda>(b, can, val). (bcGroup b, bcKind b, bcType b, bcID b)) (lint_checks env) = lint_check_table
   \<and> list_all (\<lambda>(b, can, val). outcome_valid t b (val t)) (lint_checks env)"
proof (rule conjI)
  show "map (\<lambda>(b, can, val). (bcGroup b, bcKind b, bcType b, bcID b)) (lint_checks env) = lint_check_table"
    using lint_checks_rows [of env] by (simp add: base_row_def [abs_def] o_def split_def)
  show "list_all (\<lambda>(b, can, val). outcome_valid t b (val t)) (lint_checks env)"
    unfolding lint_checks_def list.pred_inject prod.case
    by (intro conjI TrueI list.pred_inject(1) inferenceservice_outcome) (intro maybe_ok_outcome some_result_ok registered_checks_ok)+
qed

end
