(* ===== verification/VerboseFormat.thy ===== *)
theory VerboseFormat
  imports NotebookImages LintOutput
begin

text \<open>
  The detail that \<open>lint --verbose\<close> prints below a check: \<open>pkg/lint/check/verbose_formatter.go\<close> with its default and its
  qualified listing, and the two listings of the notebook checks. The output is the list of the lines written.
\<close>

section \<open>Grouping\<close>

text \<open>\<open>m[k] = append(m[k], x)\<close>, and the loop that groups a slice by a key; then the keys in sorted order.\<close>

definition append_at :: "'k \<Rightarrow> 'v \<Rightarrow> ('k, 'v list) gomap \<Rightarrow> ('k, 'v list) gomap" where
  "append_at k x m = AList.update k ((case map_of m k of None \<Rightarrow> [] | Some xs \<Rightarrow> xs) @ [x]) m"

definition group_by :: "('a \<Rightarrow> 'k) \<Rightarrow> ('a \<Rightarrow> 'v) \<Rightarrow> 'a list \<Rightarrow> ('k, 'v list) gomap" where
  "group_by key val xs = fold (\<lambda>x. append_at (key x) (val x)) xs []"

definition sorted_entries :: "(string, 'v) gomap \<Rightarrow> (string \<times> 'v) list" where
  "sorted_entries m = map (\<lambda>k. (k, the (map_of m k))) (sort (map fst m))"

section \<open>The default listing\<close>

definition formatImpactedObject :: "ObjectMeta \<Rightarrow> string" where
  "formatImpactedObject obj = (if omKind obj \<noteq> [] then omName obj @ '' ('' @ omKind obj @ '')'' else omName obj)"

definition groupByNamespace :: "ObjectMeta list \<Rightarrow> (string \<times> ObjectMeta list) list" where
  "groupByNamespace objects = sorted_entries (group_by omNamespace (\<lambda>x. x) objects)"

text \<open>The requester of a namespace; \<open>None\<close> is a nil map.\<close>

definition requester_of :: "(string, string) gomap option \<Rightarrow> string \<Rightarrow> string" where
  "requester_of requesters ns = (case requesters of None \<Rightarrow> [] | Some m \<Rightarrow> map_get m ns)"

definition DefaultFormatVerboseOutput :: "(string, string) gomap option \<Rightarrow> DiagnosticResult \<Rightarrow> string list" where
  "DefaultFormatVerboseOutput requesters dr =
     concat (map (\<lambda>(ns, objects).
       if ns = [] then map (\<lambda>x. ''    - '' @ formatImpactedObject x) objects
       else (''    '' @ (if requester_of requesters ns \<noteq> [] then ns @ '' (requester: '' @ requester_of requesters ns @ '')'' else ns) @ '':'')
            # map (\<lambda>x. ''      - '' @ formatImpactedObject x) objects)
       (groupByNamespace (ImpactedObjects dr)))"

section \<open>The qualified listing\<close>

definition DeriveCRDFQNFromTypeMeta :: "ObjectMeta list \<Rightarrow> string" where
  "DeriveCRDFQNFromTypeMeta objects =
     (case objects of
        [] \<Rightarrow> []
      | obj # _ \<Rightarrow>
          if omKind obj = [] then []
          else let plural = to_lower (omKind obj) @ ''s''; (grp, rest, found) = cut_char (CHR ''/'') (omAPIVersion obj) in
            if omAPIVersion obj = [] then plural
            else if \<not> found then plural
            else plural @ ''.'' @ grp)"

definition CRDFullyQualifiedName :: "DiagnosticResult \<Rightarrow> string" where
  "CRDFullyQualifiedName dr =
     (let name = map_get (Annotations dr) AnnotationResourceCRDName in
      if name \<noteq> [] then name else DeriveCRDFQNFromTypeMeta (ImpactedObjects dr))"

definition add_kind :: "ObjectMeta \<Rightarrow> (string, string) gomap \<Rightarrow> (string, string) gomap" where
  "add_kind obj m =
     (if map_of m (omKind obj) \<noteq> None then m
      else let name = map_get (omAnnotations obj) AnnotationObjectCRDName in
        AList.update (omKind obj) (if name \<noteq> [] then name else DeriveCRDFQNFromTypeMeta [obj]) m)"

definition buildCRDFQNByKind :: "DiagnosticResult \<Rightarrow> (string, string) gomap" where
  "buildCRDFQNByKind dr =
     (let m = fold add_kind (ImpactedObjects dr) []; name = map_get (Annotations dr) AnnotationResourceCRDName in
      if length m = 1 \<and> name \<noteq> [] then map (\<lambda>(k, v). (k, name)) m else m)"

record qualifiedObject =
  qoName :: string
  qoCRDFQN :: string
  qoContext :: string

definition qualify :: "(string, string) gomap \<Rightarrow> ObjectMeta \<Rightarrow> qualifiedObject" where
  "qualify fqn obj = \<lparr>qoName = omName obj, qoCRDFQN = map_get fqn (omKind obj), qoContext = map_get (omAnnotations obj) AnnotationObjectContext\<rparr>"

definition qualified_less :: "qualifiedObject \<Rightarrow> qualifiedObject \<Rightarrow> bool" where
  "qualified_less a b = (if qoCRDFQN a \<noteq> qoCRDFQN b then qoCRDFQN a < qoCRDFQN b else qoName a < qoName b)"

abbreviation em_dash :: string where "em_dash \<equiv> [CHR 0xE2, CHR 0x80, CHR 0x94]"

definition writeQualifiedObjects :: "qualifiedObject list \<Rightarrow> string \<Rightarrow> string list" where
  "writeQualifiedObjects objects indent =
     concat (map (\<lambda>x. (indent @ ''- '' @ qoCRDFQN x @ ''/'' @ qoName x)
       # (if qoContext x \<noteq> [] then [indent @ ''  '' @ em_dash @ '' ('' @ qoContext x @ '')''] else [])) objects)"

definition namespaceHeader :: "(string, string) gomap option \<Rightarrow> string \<Rightarrow> string" where
  "namespaceHeader requesters ns =
     (if requester_of requesters ns \<noteq> [] then ''namespace: '' @ ns @ '' | requester: '' @ requester_of requesters ns else ''namespace: '' @ ns)"

definition qualified_groups :: "DiagnosticResult \<Rightarrow> (string \<times> qualifiedObject list) list" where
  "qualified_groups dr =
     map (\<lambda>(ns, os). (ns, sort_slice qualified_less os))
       (sorted_entries (group_by omNamespace (qualify (buildCRDFQNByKind dr)) (ImpactedObjects dr)))"

definition qualified_group :: "(string, string) gomap option \<Rightarrow> string \<times> qualifiedObject list \<Rightarrow> string list" where
  "qualified_group requesters g =
     (if fst g = [] then writeQualifiedObjects (snd g) ''      ''
      else (''      '' @ namespaceHeader requesters (fst g)) # writeQualifiedObjects (snd g) ''        '')"

text \<open>A blank line between the groups.\<close>

fun separated :: "string list list \<Rightarrow> string list" where
  "separated [] = []"
| "separated [g] = g"
| "separated (g # gs) = g @ [] # separated gs"

definition EnhancedFormatVerboseOutput :: "(string, string) gomap option \<Rightarrow> DiagnosticResult \<Rightarrow> string list" where
  "EnhancedFormatVerboseOutput requesters dr = separated (map (qualified_group requesters) (qualified_groups dr))"

section \<open>Notebooks by state\<close>

definition writeNamespaceGroups :: "string \<Rightarrow> ObjectMeta list \<Rightarrow> string \<Rightarrow> (string, string) gomap option \<Rightarrow> string list" where
  "writeNamespaceGroups crdName objects indent requesters =
     concat (map (\<lambda>(ns, names). (indent @ namespaceHeader requesters ns) # map (\<lambda>n. indent @ ''  - '' @ crdName @ ''/'' @ n) (sort names))
       (sorted_entries (group_by omNamespace omName objects)))"

definition state_of :: "ObjectMeta \<Rightarrow> string" where
  "state_of obj = map_get (omAnnotations obj) AnnotationCheckContainerState"

definition wait_reason :: "ObjectMeta \<Rightarrow> string" where
  "wait_reason obj = (let reason = map_get (omAnnotations obj) AnnotationCheckContainerWaitReason in if reason = [] then ''Unknown'' else reason)"

definition NonStoppedFormatVerboseOutput :: "(string, string) gomap option \<Rightarrow> DiagnosticResult \<Rightarrow> string list" where
  "NonStoppedFormatVerboseOutput requesters dr =
     (let crdName = CRDFullyQualifiedName dr;
          running = filter (\<lambda>x. state_of x = ContainerStateRunning) (ImpactedObjects dr);
          byReason = group_by wait_reason (\<lambda>x. x) (filter (\<lambda>x. state_of x = ContainerStateWaiting) (ImpactedObjects dr)) in
      (if length running > 0 then
         (''    running ('' @ itoa (length running) @ '' notebooks):'') # writeNamespaceGroups crdName running ''      '' requesters @ [[]]
       else [])
      @ (if length byReason > 0 then
           (''    waiting ('' @ itoa (sum_list (map (length \<circ> snd) byReason)) @ '' notebooks):'')
           # concat (map (\<lambda>(reason, objs).
               (''      '' @ reason @ '' ('' @ itoa (length objs) @ ''):'') # writeNamespaceGroups crdName objs ''        '' requesters @ [[]])
             (sorted_entries byReason))
         else []))"

section \<open>Notebooks by image\<close>

record imageGroup =
  igImageRef :: string
  igImageStatus :: string
  igNamespaces :: "(string, string list) gomap"
  igCount :: nat

definition imageStatusOrder :: "string \<Rightarrow> nat" where
  "imageStatusOrder status =
     (if status = image_status_string ImageStatusPreUpgradeActionRequired then 0
      else if status = image_status_string ImageStatusPostUpgradeActionRequired then 1
      else if status = image_status_string ImageStatusCustom then 2
      else 3)"

definition imageStatusLabel :: "string \<Rightarrow> string" where
  "imageStatusLabel status =
     (if status = image_status_string ImageStatusGood then ''compatible image''
      else if status = image_status_string ImageStatusCustom then ''custom image''
      else if status = image_status_string ImageStatusPreUpgradeActionRequired then ''incompatible image''
      else if status = image_status_string ImageStatusPostUpgradeActionRequired then ''incompatible image (post-upgrade rebuild)''
      else if status = image_status_string ImageStatusVerifyFailed then ''unverified image''
      else ''image'')"

definition image_of :: "ObjectMeta \<Rightarrow> string" where
  "image_of obj = (let ref = map_get (omAnnotations obj) ''check.opendatahub.io/image-ref'' in if ref = [] then ''(unknown image)'' else ref)"

text \<open>The first group of an image takes its status; later notebooks join it.\<close>

fun add_to_groups :: "ObjectMeta \<Rightarrow> imageGroup list \<Rightarrow> imageGroup list" where
  "add_to_groups obj [] =
     [\<lparr>igImageRef = image_of obj, igImageStatus = map_get (omAnnotations obj) ''check.opendatahub.io/image-status'',
       igNamespaces = [(omNamespace obj, [omName obj])], igCount = 1\<rparr>]"
| "add_to_groups obj (g # gs) =
     (if igImageRef g = image_of obj
      then g\<lparr>igNamespaces := append_at (omNamespace obj) (omName obj) (igNamespaces g), igCount := igCount g + 1\<rparr> # gs
      else g # add_to_groups obj gs)"

definition image_groups :: "ObjectMeta list \<Rightarrow> imageGroup list" where
  "image_groups objects = fold add_to_groups objects []"

definition image_group_less :: "imageGroup \<Rightarrow> imageGroup \<Rightarrow> bool" where
  "image_group_less a b =
     (let oa = imageStatusOrder (igImageStatus a); ob = imageStatusOrder (igImageStatus b) in
      if oa \<noteq> ob then oa < ob else igImageRef a < igImageRef b)"

definition image_group_lines :: "string \<Rightarrow> imageGroup \<Rightarrow> string list" where
  "image_group_lines crdName g =
     (''    '' @ imageStatusLabel (igImageStatus g) @ '': '' @ igImageRef g @ '' ('' @ itoa (igCount g) @ '' notebooks)'')
     # concat (map (\<lambda>(ns, names).
         if ns = [] then map (\<lambda>n. ''      - '' @ crdName @ ''/'' @ n) (sort names)
         else (''      - namespace: '' @ ns) # map (\<lambda>n. ''           - '' @ crdName @ ''/'' @ n) (sort names))
         (sorted_entries (igNamespaces g)))
     @ [[]]"

definition NotebookImpactedFormatVerboseOutput :: "DiagnosticResult \<Rightarrow> string list" where
  "NotebookImpactedFormatVerboseOutput dr =
     concat (map (image_group_lines (CRDFullyQualifiedName dr)) (sort_slice image_group_less (image_groups (ImpactedObjects dr))))"

section \<open>What grouping keeps\<close>

lemma group_by_snoc: "group_by key val (xs @ [x]) = append_at (key x) (val x) (group_by key val xs)"
  by (simp add: group_by_def)

lemma map_of_group_by:
  "map_of (group_by key val xs) k = (if k \<in> key ` set xs then Some (map val (filter (\<lambda>x. key x = k) xs)) else None)"
proof (induction xs rule: rev_induct)
  case Nil
  then show ?case by (simp add: group_by_def)
next
  case (snoc x xs)
  have [simp]: "k \<notin> key ` set xs \<Longrightarrow> filter (\<lambda>x. key x = k) xs = []" for k by (auto simp: filter_empty_conv)
  from snoc show ?case by (auto simp: group_by_snoc append_at_def)
qed

lemma wf_group_by: "wf_gomap (group_by key val xs)"
  by (induction xs rule: rev_induct) (simp_all add: group_by_snoc append_at_def, simp add: group_by_def)

lemma keys_group_by: "set (map fst (group_by key val xs)) = key ` set xs"
proof -
  have "dom (map_of (group_by key val xs)) = key ` set xs" by (auto simp: dom_def map_of_group_by split: if_splits)
  then show ?thesis by (simp add: dom_map_of_conv_image_fst)
qed

lemma sort_keys_group_by: "sort (map fst (group_by key val xs)) = sorted_list_of_set (key ` set xs)"
  using wf_group_by [of key val xs] keys_group_by [of key val xs] by (metis sorted_list_of_set.idem_if_sorted_distinct distinct_sort set_sort sorted_sort)

lemma sorted_entries_group_by:
  "sorted_entries (group_by key val xs) = map (\<lambda>k. (k, map val (filter (\<lambda>x. key x = k) xs))) (sorted_list_of_set (key ` set xs))"
  unfolding sorted_entries_def sort_keys_group_by by (simp add: map_of_group_by)

lemma concat_groups: "mset (concat (map (\<lambda>k. filter (\<lambda>x. key x = k) xs) (sorted_list_of_set (key ` set xs)))) = mset xs"
proof -
  have "mset (concat (map (\<lambda>k. filter (\<lambda>x. key x = k) xs) ks)) = mset (filter (\<lambda>x. key x \<in> set ks) xs)" if "distinct ks" for ks
    using that
  proof (induction ks)
    case (Cons k ks)
    have "mset (filter (\<lambda>x. key x = k \<or> key x \<in> set ks) xs) = mset (filter (\<lambda>x. key x = k) xs) + mset (filter (\<lambda>x. key x \<in> set ks) xs)"
      using Cons.prems by (induction xs) auto
    with Cons show ?case by simp
  qed simp
  from this [of "sorted_list_of_set (key ` set xs)"] show ?thesis by simp
qed

lemma concat_entries: "mset (concat (map snd (sorted_entries (group_by key val xs)))) = image_mset val (mset xs)"
proof -
  have "map snd (sorted_entries (group_by key val xs)) = map (map val) (map (\<lambda>k. filter (\<lambda>x. key x = k) xs) (sorted_list_of_set (key ` set xs)))"
    by (simp add: sorted_entries_group_by)
  then show ?thesis by (simp only: map_concat [symmetric] mset_map concat_groups)
qed

lemma mset_concat_sorted: "mset (concat (map (sort_slice lt \<circ> snd) gs)) = mset (concat (map snd gs))"
  by (induction gs) simp_all

text \<open>One group per image, with as many notebooks as use it.\<close>

lemma add_to_groups_refs:
  "distinct (map igImageRef gs) \<Longrightarrow> distinct (map igImageRef (add_to_groups obj gs))"
  "set (map igImageRef (add_to_groups obj gs)) = insert (image_of obj) (set (map igImageRef gs))"
  by (induction gs) auto

lemma add_to_groups_count:
  assumes "distinct (map igImageRef gs)" and "g \<in> set (add_to_groups obj gs)"
  shows "(\<exists>h\<in>set gs. igImageRef h = igImageRef g \<and> igCount g = igCount h + (if image_of obj = igImageRef g then 1 else 0))
    \<or> igImageRef g = image_of obj \<and> igCount g = 1 \<and> image_of obj \<notin> set (map igImageRef gs)"
  using assms
proof (induction gs)
  case (Cons h gs)
  show ?case
  proof (cases "igImageRef h = image_of obj")
    case True
    then consider "g = h\<lparr>igNamespaces := append_at (omNamespace obj) (omName obj) (igNamespaces h), igCount := igCount h + 1\<rparr>" | "g \<in> set gs"
      using Cons.prems by auto
    then show ?thesis
    proof cases
      case 2
      have "igImageRef g \<noteq> image_of obj"
      proof
        assume "igImageRef g = image_of obj"
        then have "igImageRef h \<in> igImageRef ` set gs" using 2 True by (intro image_eqI [of _ _ g]) simp_all
        then show False using Cons.prems(1) by simp
      qed
      then show ?thesis using 2 by auto
    qed (use True in auto)
  next
    case False
    then consider "g = h" | "g \<in> set (add_to_groups obj gs)" using Cons.prems(2) by auto
    then show ?thesis
    proof cases
      case 2
      from Cons.IH [OF _ 2] Cons.prems(1) False show ?thesis by auto
    qed (use False in auto)
  qed
qed simp

lemma image_groups_counts:
  "distinct (map igImageRef (image_groups objs)) \<and> set (map igImageRef (image_groups objs)) = image_of ` set objs
   \<and> (\<forall>g\<in>set (image_groups objs). igCount g = length (filter (\<lambda>x. image_of x = igImageRef g) objs))"
proof (induction objs rule: rev_induct)
  case Nil
  then show ?case by (simp add: image_groups_def)
next
  case (snoc x xs)
  have step: "image_groups (xs @ [x]) = add_to_groups x (image_groups xs)" by (simp add: image_groups_def)
  have none: "image_of x \<notin> image_of ` set xs \<Longrightarrow> filter (\<lambda>y. image_of y = image_of x) xs = []"
    by (rule filter_False) (auto intro: image_eqI sym)
  have "igCount g = length (filter (\<lambda>y. image_of y = igImageRef g) (xs @ [x]))" if "g \<in> set (image_groups (xs @ [x]))" for g
  proof -
    from add_to_groups_count [OF conjunct1 [OF snoc] that [unfolded step]]
    consider h where "h \<in> set (image_groups xs)" "igImageRef h = igImageRef g" "igCount g = igCount h + (if image_of x = igImageRef g then 1 else 0)"
      | "igImageRef g = image_of x" "igCount g = 1" "image_of x \<notin> set (map igImageRef (image_groups xs))" by blast
    then show ?thesis
    proof cases
      case 1
      then have "igCount h = length (filter (\<lambda>y. image_of y = igImageRef g) xs)" using snoc by metis
      then show ?thesis using 1 by simp
    next
      case 2
      then have "filter (\<lambda>y. image_of y = image_of x) xs = []" using snoc none by metis
      then show ?thesis using 2 by simp
    qed
  qed
  then show ?case
    using add_to_groups_refs(1) [of "image_groups xs" x] add_to_groups_refs(2) [of x "image_groups xs"] snoc unfolding step by simp
qed

section \<open>Properties\<close>

text \<open>
  The verbose listings lose no object and repeat none: the default listing has one group per namespace, in
  sorted order, with the objects of that namespace in the order of the result; the qualified listing sorts
  within the groups, and together they hold every impacted object once.
\<close>

theorem verbose_groups_partition:
  "groupByNamespace objs = map (\<lambda>ns. (ns, filter (\<lambda>x. omNamespace x = ns) objs)) (sorted_list_of_set (omNamespace ` set objs))
   \<and> map fst (qualified_groups dr) = sorted_list_of_set (omNamespace ` set (ImpactedObjects dr))
   \<and> mset (concat (map snd (qualified_groups dr))) = image_mset (qualify (buildCRDFQNByKind dr)) (mset (ImpactedObjects dr))"
proof (intro conjI)
  show "groupByNamespace objs = map (\<lambda>ns. (ns, filter (\<lambda>x. omNamespace x = ns) objs)) (sorted_list_of_set (omNamespace ` set objs))"
    by (simp add: groupByNamespace_def sorted_entries_group_by)
  show "map fst (qualified_groups dr) = sorted_list_of_set (omNamespace ` set (ImpactedObjects dr))"
    by (simp add: qualified_groups_def sorted_entries_group_by o_def split_def)
  have "map snd (qualified_groups dr) = map (sort_slice qualified_less \<circ> snd)
      (sorted_entries (group_by omNamespace (qualify (buildCRDFQNByKind dr)) (ImpactedObjects dr)))"
    by (simp add: qualified_groups_def split_def)
  then show "mset (concat (map snd (qualified_groups dr))) = image_mset (qualify (buildCRDFQNByKind dr)) (mset (ImpactedObjects dr))"
    by (simp only: mset_concat_sorted concat_entries)
qed

end
