(* ===== verification/Discovery.thy ===== *)
theory Discovery
  imports KubeClient
begin

text \<open>
  Where the operator runs (\<open>pkg/util/client/discovery.go\<close>) and which components the platform has
  (\<open>pkg/resources/component_crs.go\<close>): helpers of the commands \<open>events\<close>, \<open>logs\<close>, \<open>status\<close> and \<open>components\<close>. The
  cluster service versions of all namespaces are an argument, \<open>None\<close> if there is no OLM client.
\<close>

section \<open>Components (\<open>component_crs.go\<close>)\<close>

abbreviation ComponentLabelKey :: string where "ComponentLabelKey \<equiv> ''app.kubernetes.io/part-of''"

definition newComponentCR :: "string \<Rightarrow> string \<Rightarrow> ResourceType" where
  "newComponentCR plural kind = mk_resource ''components.platform.opendatahub.io'' ''v1alpha1'' kind plural"

definition ComponentCRResourceTypes :: "(string, ResourceType) gomap" where
  "ComponentCRResourceTypes =
    [(''aigateway'', newComponentCR ''aigateways'' ''AIGateway''),
     (''aipipelines'', newComponentCR ''datasciencepipelines'' ''DataSciencePipelines''),
     (''dashboard'', newComponentCR ''dashboards'' ''Dashboard''),
     (''feastoperator'', newComponentCR ''feastoperators'' ''FeastOperator''),
     (''kserve'', newComponentCR ''kserves'' ''Kserve''),
     (''llamastackoperator'', newComponentCR ''llamastackoperators'' ''LlamaStackOperator''),
     (''mlflowoperator'', newComponentCR ''mlflowoperators'' ''MLflowOperator''),
     (''modelregistry'', newComponentCR ''modelregistries'' ''ModelRegistry''),
     (''ray'', newComponentCR ''rays'' ''Ray''),
     (''sparkoperator'', newComponentCR ''sparkoperators'' ''SparkOperator''),
     (''trainer'', newComponentCR ''trainers'' ''Trainer''),
     (''trainingoperator'', newComponentCR ''trainingoperators'' ''TrainingOperator''),
     (''trustyai'', newComponentCR ''trustyais'' ''TrustyAI''),
     (''workbenches'', newComponentCR ''workbenches'' ''Workbenches'')]"

definition ComponentNames :: "string list" where
  "ComponentNames = sort (map fst ComponentCRResourceTypes)"

definition GetComponentCR :: "string \<Rightarrow> ResourceType option" where
  "GetComponentCR name = map_of ComponentCRResourceTypes name"

definition componentLabelOverrides :: "(string, string) gomap" where
  "componentLabelOverrides =
    [(''aipipelines'', ''data-science-pipelines-operator''), (''modelregistry'', ''model-registry-operator'')]"

definition GetComponentLabelValue :: "string \<Rightarrow> string" where
  "GetComponentLabelValue component =
     (case map_of componentLabelOverrides component of Some v \<Rightarrow> v | None \<Rightarrow> component)"

section \<open>The operator (\<open>discovery.go\<close>)\<close>

abbreviation DefaultRHOAIOperatorNamespace :: string where "DefaultRHOAIOperatorNamespace \<equiv> ''redhat-ods-operator''"
abbreviation DefaultODHOperatorNamespace :: string where "DefaultODHOperatorNamespace \<equiv> ''opendatahub''"
abbreviation DefaultOpenShiftOperatorsNS :: string where "DefaultOpenShiftOperatorsNS \<equiv> ''openshift-operators''"

record csv_object =
  csvName :: string
  csvNamespace :: string
  csvLabels :: "(string, string) gomap"
  csvDeployments :: "string list"

record OperatorInfo =
  oiNamespace :: string
  oiDeploymentName :: string

definition is_operator_csv :: "csv_object \<Rightarrow> bool" where
  "is_operator_csv csv = (has_prefix (csvName csv) ''rhods-operator.'' \<or> has_prefix (csvName csv) ''opendatahub-operator.'')"

definition operator_info :: "csv_object \<Rightarrow> OperatorInfo" where
  "operator_info csv =
     (let copiedFrom = map_get (csvLabels csv) ''olm.copiedFrom'' in
      \<lparr>oiNamespace = (if copiedFrom \<noteq> [] then copiedFrom else csvNamespace csv),
       oiDeploymentName = (case csvDeployments csv of [] \<Rightarrow> [] | d # _ \<Rightarrow> d)\<rparr>)"

definition DiscoverOperatorFromOLM :: "reader \<Rightarrow> (err + csv_object list) option \<Rightarrow> err + OperatorInfo option" where
  "DiscoverOperatorFromOLM r olm =
     (case olm of
        None \<Rightarrow> Inr None
      | Some (Inl e) \<Rightarrow> if \<not> rdApi r IsNotFound e then Inl (wrapf ''listing ClusterServiceVersions'' e) else Inr None
      | Some (Inr csvs) \<Rightarrow> Inr (map_option operator_info (List.find is_operator_csv csvs)))"

definition operator_candidates :: "(string \<times> string) list" where
  "operator_candidates = List.product [DefaultRHOAIOperatorNamespace, DefaultODHOperatorNamespace, DefaultOpenShiftOperatorsNS]
     [''rhods-operator'', ''opendatahub-operator-controller-manager'']"

text \<open>The loop over the candidates, with the first error other than not found.\<close>

fun probe_candidates :: "reader \<Rightarrow> (string \<times> string) list \<Rightarrow> err option \<Rightarrow> err + string" where
  "probe_candidates r [] firstErr = (case firstErr of Some e \<Rightarrow> Inl e | None \<Rightarrow> Inl ErrOperatorNamespaceNotFound)"
| "probe_candidates r ((ns, name) # rest) firstErr =
     (case rdGet r rt_Deployment ns name of
        Inr _ \<Rightarrow> Inr ns
      | Inl e \<Rightarrow> probe_candidates r rest
          (if \<not> rdApi r IsNotFound e \<and> firstErr = None then
             Some (case Classify (rdApi r) (Some e) of Some s \<Rightarrow> Structured (fst s) (snd s) | None \<Rightarrow> e)
           else firstErr))"

definition discoverOperatorNamespaceFromDefaults :: "reader \<Rightarrow> err + string" where
  "discoverOperatorNamespaceFromDefaults r = probe_candidates r operator_candidates None"

definition DiscoverOperatorNamespace :: "reader \<Rightarrow> (err + csv_object list) option \<Rightarrow> err + string" where
  "DiscoverOperatorNamespace r olm =
     (case discoverOperatorNamespaceFromDefaults r of
        Inr ns \<Rightarrow> Inr ns
      | Inl defaultsErr \<Rightarrow>
          (case DiscoverOperatorFromOLM r olm of
             Inl e \<Rightarrow> Inl e
           | Inr (Some info) \<Rightarrow> if oiNamespace info \<noteq> [] then Inr (oiNamespace info) else Inl defaultsErr
           | Inr None \<Rightarrow> Inl defaultsErr))"

definition DiscoverOperatorNamespaceWithInfo :: "reader \<Rightarrow> OperatorInfo option \<Rightarrow> err + string" where
  "DiscoverOperatorNamespaceWithInfo r info =
     (case info of
        Some i \<Rightarrow> if oiNamespace i \<noteq> [] then Inr (oiNamespace i) else discoverOperatorNamespaceFromDefaults r
      | None \<Rightarrow> discoverOperatorNamespaceFromDefaults r)"

section \<open>Outcomes\<close>

text \<open>The first candidate that can be got without an error is taken; else discovery fails.\<close>

lemma probe_candidates_find:
  "case List.find (\<lambda>c. \<not> isl (rdGet r rt_Deployment (fst c) (snd c))) cs of
     Some c \<Rightarrow> probe_candidates r cs firstErr = Inr (fst c)
   | None \<Rightarrow> isl (probe_candidates r cs firstErr)"
proof (induction cs arbitrary: firstErr)
  case (Cons c cs)
  then show ?case by (cases c; cases "rdGet r rt_Deployment (fst c) (snd c)"; cases "List.find (\<lambda>c. \<not> isl (rdGet r rt_Deployment (fst c) (snd c))) cs") simp_all
qed (simp split: option.split)

text \<open>
  A client that may not read deployments takes the first well-known namespace for the operator's: the
  reader answers a forbidden read with no object and no error, and discovery asks only for the error.
\<close>

theorem forbidden_operator_found:
  assumes "\<And>ns name. rdGet r rt_Deployment ns name = ClientGet (rdApi r) ks rt_Deployment ns name"
    and "ksGet ks rt_Deployment ''redhat-ods-operator'' ''rhods-operator'' = Inl e" and "rdApi r IsForbidden e"
  shows "DiscoverOperatorNamespace r olm = Inr ''redhat-ods-operator''"
  using assms
  by (simp add: DiscoverOperatorNamespace_def discoverOperatorNamespaceFromDefaults_def operator_candidates_def ClientGet_def IsPermissionError_def)

definition denying_server :: kube_server where
  "denying_server = \<lparr>ksList = \<lambda>rt cfg tok. Inr ([], []), ksListMeta = \<lambda>rt cfg tok. Inr ([], []),
     ksGet = \<lambda>rt ns n. Inl (Foreign ''Forbidden'' ''deployments is forbidden'')\<rparr>"

definition denied_reader :: reader where
  "denied_reader = (sample_reader no_queries (\<lambda>rt. []))\<lparr>rdApi := (\<lambda>p e. p = IsForbidden),
     rdGet := ClientGet (\<lambda>p e. p = IsForbidden) denying_server\<rparr>"

theorem forbidden_operator_found_witness: "DiscoverOperatorNamespace denied_reader None = Inr ''redhat-ods-operator''"
  by (rule forbidden_operator_found [of denied_reader denying_server "Foreign ''Forbidden'' ''deployments is forbidden''"])
     (simp_all add: denied_reader_def denying_server_def)

end
