(* ===== verification/Runes.thy ===== *)
theory Runes
  imports Prelude
begin

text \<open>
  Go strings as text: the runes of a string in UTF-8 (\<open>[]rune(s)\<close>), where every byte that is not part of a valid
  encoding counts as U+FFFD, and the string of a slice of runes (\<open>string(r)\<close>).
\<close>

section \<open>Decoding\<close>

abbreviation RuneError :: nat where "RuneError \<equiv> 0xFFFD"

definition continuation :: "nat \<Rightarrow> bool" where
  "continuation b \<longleftrightarrow> 0x80 \<le> b \<and> b \<le> 0xBF"

text \<open>The rune that starts with a byte above 0x7F, and how many bytes follow the first.\<close>

fun multibyte :: "nat \<Rightarrow> nat list \<Rightarrow> (nat \<times> nat) option" where
  "multibyte b (c1 # c2 # c3 # bs) =
     (if 0xC2 \<le> b \<and> b \<le> 0xDF \<and> continuation c1 then Some ((b - 0xC0) * 64 + (c1 - 0x80), 1)
      else if 0xE0 \<le> b \<and> b \<le> 0xEF \<and> (if b = 0xE0 then 0xA0 else 0x80) \<le> c1 \<and> c1 \<le> (if b = 0xED then 0x9F else 0xBF) \<and> continuation c2 then
        Some ((b - 0xE0) * 4096 + (c1 - 0x80) * 64 + (c2 - 0x80), 2)
      else if 0xF0 \<le> b \<and> b \<le> 0xF4 \<and> (if b = 0xF0 then 0x90 else 0x80) \<le> c1 \<and> c1 \<le> (if b = 0xF4 then 0x8F else 0xBF)
          \<and> continuation c2 \<and> continuation c3 then
        Some ((b - 0xF0) * 262144 + (c1 - 0x80) * 4096 + (c2 - 0x80) * 64 + (c3 - 0x80), 3)
      else None)"
| "multibyte b [c1, c2] =
     (if 0xC2 \<le> b \<and> b \<le> 0xDF \<and> continuation c1 then Some ((b - 0xC0) * 64 + (c1 - 0x80), 1)
      else if 0xE0 \<le> b \<and> b \<le> 0xEF \<and> (if b = 0xE0 then 0xA0 else 0x80) \<le> c1 \<and> c1 \<le> (if b = 0xED then 0x9F else 0xBF) \<and> continuation c2 then
        Some ((b - 0xE0) * 4096 + (c1 - 0x80) * 64 + (c2 - 0x80), 2)
      else None)"
| "multibyte b [c1] = (if 0xC2 \<le> b \<and> b \<le> 0xDF \<and> continuation c1 then Some ((b - 0xC0) * 64 + (c1 - 0x80), 1) else None)"
| "multibyte b [] = None"

function decode_runes :: "nat list \<Rightarrow> nat list" where
  "decode_runes [] = []"
| "decode_runes (b # bs) =
     (if b < 0x80 then b # decode_runes bs
      else case multibyte b bs of
          None \<Rightarrow> RuneError # decode_runes bs
        | Some (r, n) \<Rightarrow> r # decode_runes (drop n bs))"
  by pat_completeness auto
termination by (relation "measure length") auto

definition runes :: "string \<Rightarrow> nat list" where
  "runes s = decode_runes (map of_char s)"

section \<open>Encoding\<close>

definition valid_rune :: "nat \<Rightarrow> bool" where
  "valid_rune r \<longleftrightarrow> r < 0xD800 \<or> 0xDFFF < r \<and> r \<le> 0x10FFFF"

definition encode_rune :: "nat \<Rightarrow> nat list" where
  "encode_rune r =
     (if r < 0x80 then [r]
      else if r < 0x800 then [0xC0 + r div 64, 0x80 + r mod 64]
      else if \<not> valid_rune r then [0xEF, 0xBF, 0xBD]
      else if r < 0x10000 then [0xE0 + r div 4096, 0x80 + r div 64 mod 64, 0x80 + r mod 64]
      else [0xF0 + r div 262144, 0x80 + r div 4096 mod 64, 0x80 + r div 64 mod 64, 0x80 + r mod 64])"

definition rune_string :: "nat list \<Rightarrow> string" where
  "rune_string rs = map char_of (concat (map encode_rune rs))"

section \<open>Round trip\<close>

lemma encode_rune_byte: "b \<in> set (encode_rune r) \<Longrightarrow> b < 256"
  by (auto simp: encode_rune_def valid_rune_def split: if_splits)

lemma map_of_char_string: "(\<And>b. b \<in> set bs \<Longrightarrow> b < 256) \<Longrightarrow> map of_char (map char_of bs :: string) = (bs :: nat list)"
  by (induction bs) (auto simp: of_char_of)

lemma decode_two:
  assumes "0x80 \<le> r" and "r < 0x800"
  shows "decode_runes (encode_rune r @ bs) = r # decode_runes bs"
proof -
  define b c1 where "b = 0xC0 + r div 64" and "c1 = 0x80 + r mod 64"
  have enc: "encode_rune r = [b, c1]" using assms by (simp add: encode_rune_def b_def c1_def)
  have "2 \<le> r div 64" "r div 64 \<le> 31" using assms div_le_mono [of 128 r 64] div_le_mono [of r 2047 64] by simp_all
  then have b: "0xC2 \<le> b" "b \<le> 0xDF" by (simp_all add: b_def)
  have "continuation c1" by (auto simp: c1_def continuation_def)
  moreover have "(b - 0xC0) * 64 + (c1 - 0x80) = r" by (simp add: b_def c1_def)
  ultimately have "multibyte b (c1 # bs) = Some (r, 1)" using b by (cases bs; cases "tl bs") auto
  then show ?thesis using b by (simp add: enc)
qed

lemma digits_64: "(r :: nat) = r div 4096 * 4096 + r div 64 mod 64 * 64 + r mod 64"
proof -
  have "r div 64 = r div 4096 * 64 + r div 64 mod 64" by (simp add: div_mult2_eq [of r 64 64, simplified] mult.commute)
  then show ?thesis using div_mult_mod_eq [of r 64] by linarith
qed

lemma decode_three:
  assumes "0x800 \<le> r" and "r < 0x10000" and "valid_rune r"
  shows "decode_runes (encode_rune r @ bs) = r # decode_runes bs"
proof -
  define b c1 c2 where "b = 0xE0 + r div 4096" and "c1 = 0x80 + r div 64 mod 64" and "c2 = 0x80 + r mod 64"
  have enc: "encode_rune r = [b, c1, c2]" using assms by (simp add: encode_rune_def b_def c1_def c2_def)
  have b: "0xE0 \<le> b" "b \<le> 0xEF" using assms(2) by (auto simp: b_def)
  have lo: "b = 0xE0 \<Longrightarrow> 0xA0 \<le> c1" using assms(1) digits_64 [of r] mod_less_divisor [of 64 r] unfolding b_def c1_def by linarith
  have hi: "b = 0xED \<Longrightarrow> c1 \<le> 0x9F" using assms(2,3) digits_64 [of r] mod_less_divisor [of 64 r] mod_less_divisor [of 64 "r div 64"]
    unfolding b_def c1_def valid_rune_def by linarith
  have "0x80 \<le> c1" "c1 \<le> 0xBF" "continuation c2" by (auto simp: c1_def c2_def continuation_def)
  moreover have "(b - 0xE0) * 4096 + (c1 - 0x80) * 64 + (c2 - 0x80) = r" using digits_64 [of r] by (simp add: b_def c1_def c2_def)
  ultimately have "multibyte b (c1 # c2 # bs) = Some (r, 2)"
    using b lo hi by (cases bs) (auto simp: continuation_def)
  then show ?thesis using b by (simp add: enc)
qed

lemma decode_four:
  assumes "0x10000 \<le> r" and "valid_rune r"
  shows "decode_runes (encode_rune r @ bs) = r # decode_runes bs"
proof -
  define b c1 c2 c3 where "b = 0xF0 + r div 262144" and "c1 = 0x80 + r div 4096 mod 64" and "c2 = 0x80 + r div 64 mod 64" and "c3 = 0x80 + r mod 64"
  have max: "r \<le> 0x10FFFF" using assms by (auto simp: valid_rune_def)
  have enc: "encode_rune r = [b, c1, c2, c3]" using assms by (simp add: encode_rune_def b_def c1_def c2_def c3_def)
  have b: "0xF0 \<le> b" "b \<le> 0xF4" using max by (auto simp: b_def)
  have top: "r div 4096 = r div 262144 * 64 + r div 4096 mod 64" by (simp add: div_mult2_eq [of r 4096 64, simplified] mult.commute)
  have lo: "b = 0xF0 \<Longrightarrow> 0x90 \<le> c1" using assms(1) top div_le_mono [OF assms(1), of 4096] unfolding b_def c1_def by simp
  have hi: "b = 0xF4 \<Longrightarrow> c1 \<le> 0x8F" using top div_le_mono [OF max, of 4096] unfolding b_def c1_def by simp
  have "0x80 \<le> c1" "c1 \<le> 0xBF" "continuation c2" "continuation c3" by (auto simp: c1_def c2_def c3_def continuation_def)
  moreover have "(b - 0xF0) * 262144 + (c1 - 0x80) * 4096 + (c2 - 0x80) * 64 + (c3 - 0x80) = r"
    using digits_64 [of r] top by (simp add: b_def c1_def c2_def c3_def)
  ultimately have "multibyte b (c1 # c2 # c3 # bs) = Some (r, 3)"
    using b lo hi by (auto simp: continuation_def)
  then show ?thesis using b by (simp add: enc)
qed

lemma decode_encode: "valid_rune r \<Longrightarrow> decode_runes (encode_rune r @ bs) = r # decode_runes bs"
  using decode_two decode_three decode_four by (cases "r < 0x80"; cases "r < 0x800"; cases "r < 0x10000") (auto simp: encode_rune_def)

lemma runes_rune_string: "(\<And>r. r \<in> set rs \<Longrightarrow> valid_rune r) \<Longrightarrow> runes (rune_string rs) = rs"
proof -
  assume "\<And>r. r \<in> set rs \<Longrightarrow> valid_rune r"
  then have "decode_runes (concat (map encode_rune rs)) = rs" by (induction rs) (auto simp: decode_encode)
  moreover have "map of_char (rune_string rs) = concat (map encode_rune rs)"
    unfolding rune_string_def by (rule map_of_char_string) (auto dest: encode_rune_byte)
  ultimately show ?thesis by (simp add: runes_def)
qed

text \<open>Decoding gives valid runes only.\<close>

lemma multibyte_valid: "multibyte b bs = Some (r, n) \<Longrightarrow> valid_rune r"
  by (cases "(b, bs)" rule: multibyte.cases) (auto simp: valid_rune_def continuation_def split: if_splits, arith+)

lemma decode_runes_valid: "r \<in> set (decode_runes bs) \<Longrightarrow> valid_rune r"
proof (induction bs rule: decode_runes.induct)
  case (2 b bs)
  then show ?case by (auto simp: valid_rune_def [of "65533"] valid_rune_def [of b] dest: multibyte_valid split: if_splits option.splits)
qed simp

lemma runes_valid: "r \<in> set (runes s) \<Longrightarrow> valid_rune r"
  by (simp add: runes_def decode_runes_valid)

end
