(* ===== verification/Events.thy ===== *)
theory Events
  imports Discovery Runes Unstructured "HOL-Library.Multiset"
begin

text \<open>
  The command \<open>events\<close>, package \<open>pkg/events\<close>: its options, the namespaces it looks at, the filter by component with its
  pool of workers, the watch with reconnection, and the texts it prints. The library that lists recent
  events (\<open>clusterhealth.RunRecentEvents\<close>) and the writer that aligns columns are other code: the first is an argument, and
  the model ends at the cells handed to the second. A time is the nanoseconds since 1970, \<open>None\<close> is the zero time.
\<close>

type_synonym time = "int option"

record EventInfo =
  eiNamespace :: string
  eiName :: string
  eiKind :: string
  eiReason :: string
  eiMessage :: string
  eiCount :: nat
  eiType :: string
  eiLastTime :: time

section \<open>Options (\<open>command.go\<close>)\<close>

record EventsCommand =
  EventType :: string
  Since :: int
  AllNamespaces :: bool
  EvOutputFormat :: string
  OperatorNSOverride :: string
  EvComponent :: string
  Follow :: bool
  EvNamespace :: string
  NamespaceExplicit :: bool
  ApplicationsNS :: string
  OperatorNS :: string
  MonitoringNS :: string

abbreviation maxSinceDuration :: int where "maxSinceDuration \<equiv> 24 * 3600 * 1000000000"

definition ValidComponents :: "string list" where
  "ValidComponents = sort (map fst ComponentCRResourceTypes)"

text \<open>The validation; \<open>fmtDuration\<close> is the text of a duration. The flag of the namespace is set exactly if it was given.\<close>

definition EventsValidate :: "(int \<Rightarrow> string) \<Rightarrow> EventsCommand \<Rightarrow> err option" where
  "EventsValidate fmtDuration c =
     (if AllNamespaces c \<and> NamespaceExplicit c then
        Some (NewValidationError ''INVALID_FLAGS'' ''--all-namespaces and --namespace are mutually exclusive'' ''Use either -A or -n <namespace>, not both'')
      else if EvOutputFormat c \<notin> {''table'', ''json'', ''yaml''} then
        Some (NewValidationError ''INVALID_OUTPUT_FORMAT'' (''invalid output format '' @ go_quote (EvOutputFormat c)) ''Use one of: table, json, yaml'')
      else if EventType c \<noteq> [] \<and> EventType c \<noteq> ''Warning'' \<and> EventType c \<noteq> ''Normal'' then
        Some (NewValidationError ''INVALID_EVENT_TYPE'' (''invalid event type '' @ go_quote (EventType c)) ''Use --type Warning or --type Normal'')
      else if Since c < 0 then
        Some (NewValidationError ''INVALID_DURATION'' ''--since must be a non-negative duration'' ''Use 0 or a positive value like --since 5m or --since 1h'')
      else if Since c > maxSinceDuration then
        Some (NewValidationError ''INVALID_DURATION'' (''--since duration '' @ fmtDuration (Since c) @ '' exceeds maximum of 24h'') ''Use --since with values like 5m, 1h, or 24h'')
      else if EvComponent c \<noteq> [] \<and> GetComponentCR (EvComponent c) = None then
        Some (NewValidationError ''INVALID_COMPONENT'' (''invalid component '' @ EvComponent c) (''Use one of: '' @ str_join '', '' ValidComponents))
      else if Follow c \<and> EvOutputFormat c \<noteq> ''table'' then
        Some (NewValidationError ''INVALID_FLAGS'' ''--follow is only supported with table output'' ''Remove -o json or -o yaml when using -f'')
      else None)"

text \<open>The discovered namespaces, with the lines written to standard error; \<open>GetDSCINamespaces\<close> gives empty names on an error.\<close>

definition discoverNamespaces :: "reader \<Rightarrow> (err + csv_object list) option \<Rightarrow> EventsCommand \<Rightarrow> string list \<times> (err + EventsCommand)" where
  "discoverNamespaces r olm c =
     (let (warn, apps, mon) = (case GetDSCINamespaces r of
          Inl e \<Rightarrow> (if \<not> rdApi r IsNotFound e then [''Warning: failed to get DSCI namespaces: '' @ err_string e] else [], [], [])
        | Inr ns \<Rightarrow> ([], dnApplications ns, dnMonitoring ns));
          c = c\<lparr>ApplicationsNS := apps, MonitoringNS := mon\<rparr> in
      if OperatorNSOverride c \<noteq> [] then (warn, Inr (c\<lparr>OperatorNS := OperatorNSOverride c\<rparr>))
      else case DiscoverOperatorNamespace r olm of
          Inr ns \<Rightarrow> (warn, Inr (c\<lparr>OperatorNS := ns\<rparr>))
        | Inl e \<Rightarrow>
            (case errors_as as_structured e of
               Some (s, _) \<Rightarrow>
                 if Category s \<noteq> CategoryNotFound then (warn, Inl (wrapf ''discovering operator namespace'' e))
                 else (warn @ [''Warning: operator namespace not found, using default''], Inr (c\<lparr>OperatorNS := DefaultRHOAIOperatorNamespace\<rparr>))
             | None \<Rightarrow> (warn, Inl (wrapf ''discovering operator namespace'' e))))"

definition add_namespace :: "string \<Rightarrow> string list \<Rightarrow> string list" where
  "add_namespace ns xs = (if ns \<noteq> [] \<and> ns \<notin> set xs then xs @ [ns] else xs)"

definition getTargetNamespaces :: "EventsCommand \<Rightarrow> err + string list" where
  "getTargetNamespaces c =
     (if NamespaceExplicit c \<and> EvNamespace c \<noteq> [] then Inr [EvNamespace c]
      else let nss = add_namespace (MonitoringNS c) (add_namespace (OperatorNS c) (add_namespace (ApplicationsNS c) [])) in
        if nss = [] then Inl ErrNoNamespacesDiscovered else Inr nss)"

section \<open>The filter by component (\<open>filter.go\<close>)\<close>

type_synonym labelLookup = "string \<times> string \<times> string"

definition event_lookup :: "EventInfo \<Rightarrow> labelLookup" where
  "event_lookup e = (eiNamespace e, eiKind e, eiName e)"

definition kindToGVRMap :: "(string, ResourceType) gomap" where
  "kindToGVRMap = [(''Pod'', rt_Pod), (''Deployment'', rt_Deployment), (''ReplicaSet'', rt_ReplicaSet), (''StatefulSet'', rt_StatefulSet),
     (''DaemonSet'', rt_DaemonSet), (''Service'', rt_Service), (''ConfigMap'', rt_ConfigMap), (''Secret'', rt_Secret), (''Job'', rt_Job)]"

text \<open>The raw \<open>Get\<close> of the dynamic client is an argument.\<close>

definition checkObjectHasComponentLabel ::
  "api_preds \<Rightarrow> (ResourceType \<Rightarrow> string \<Rightarrow> string \<Rightarrow> err + json) \<Rightarrow> string \<Rightarrow> labelLookup \<Rightarrow> err + bool" where
  "checkObjectHasComponentLabel api get label k =
     (case k of (ns, kind, name) \<Rightarrow>
       (case map_of kindToGVRMap kind of
          None \<Rightarrow> Inr False
        | Some rt \<Rightarrow>
            (case get rt ns name of
               Inl e \<Rightarrow> if api IsNotFound e then Inr False
                        else Inl (wrapf (''getting '' @ rtResource rt @ '' '' @ ns @ ''/'' @ name) e)
             | Inr v \<Rightarrow> Inr (map_get (u_labels v) ComponentLabelKey = label))))"

definition componentCacheKey :: "string \<Rightarrow> labelLookup \<Rightarrow> string" where
  "componentCacheKey label k = (case k of (ns, kind, name) \<Rightarrow> label @ ''/'' @ ns @ ''/'' @ kind @ ''/'' @ name)"

text \<open>
  The pool: the lookups still in the work channel, the ones a worker has taken, and the results in the order in
  which they were sent. Both channels have room for every lookup, so no send waits. The collector reads the results
  in that order and stops at the first error.
\<close>

abbreviation maxLabelFetchWorkers :: nat where "maxLabelFetchWorkers \<equiv> 10"

record pool =
  plWork :: "labelLookup list"
  plBusy :: "labelLookup list"
  plSent :: "labelLookup list"

definition pool_start :: "labelLookup list \<Rightarrow> pool" where
  "pool_start lookups = \<lparr>plWork = lookups, plBusy = [], plSent = []\<rparr>"

inductive pool_step :: "nat \<Rightarrow> pool \<Rightarrow> pool \<Rightarrow> bool" for workers where
  take_item: "length busy < workers \<Longrightarrow> pool_step workers \<lparr>plWork = x # work, plBusy = busy, plSent = sent\<rparr> \<lparr>plWork = work, plBusy = busy @ [x], plSent = sent\<rparr>"
| send_result: "pool_step workers \<lparr>plWork = work, plBusy = as @ x # bs, plSent = sent\<rparr> \<lparr>plWork = work, plBusy = as @ bs, plSent = sent @ [x]\<rparr>"

inductive_cases pool_stepE: "pool_step workers p q"

definition pool_idle :: "pool \<Rightarrow> bool" where
  "pool_idle p = (plWork p = [] \<and> plBusy p = [])"

fun collect_results :: "(labelLookup \<Rightarrow> err + bool) \<Rightarrow> (labelLookup \<Rightarrow> string) \<Rightarrow> labelLookup list \<Rightarrow> (string, bool) gomap \<Rightarrow> err + (string, bool) gomap" where
  "collect_results has key [] cache = Inr cache"
| "collect_results has key (k # ks) cache =
     (case has k of
        Inl e \<Rightarrow> Inl (wrapf ''checking component label'' e)
      | Inr b \<Rightarrow> collect_results has key ks (AList.update (key k) b cache))"

text \<open>What a run of the pool may return.\<close>

definition fetchComponentLabelsParallel ::
  "(labelLookup \<Rightarrow> err + bool) \<Rightarrow> (labelLookup \<Rightarrow> string) \<Rightarrow> labelLookup list \<Rightarrow> err + (string, bool) gomap \<Rightarrow> bool" where
  "fetchComponentLabelsParallel has key lookups r \<longleftrightarrow>
     (if lookups = [] then r = Inr []
      else \<exists>p. (pool_step (min maxLabelFetchWorkers (length lookups)))\<^sup>*\<^sup>* (pool_start lookups) p \<and> pool_idle p
             \<and> r = collect_results has key (plSent p) [])"

definition unique_lookups :: "EventInfo list \<Rightarrow> labelLookup list" where
  "unique_lookups events = fold (\<lambda>e ks. if event_lookup e \<in> set ks then ks else ks @ [event_lookup e]) events []"

definition filterEventsByComponent ::
  "(labelLookup \<Rightarrow> err + bool) \<Rightarrow> string \<Rightarrow> EventInfo list \<Rightarrow> err + EventInfo list \<Rightarrow> bool" where
  "filterEventsByComponent has label events r \<longleftrightarrow>
     (\<exists>c. fetchComponentLabelsParallel has (componentCacheKey label) (unique_lookups events) c
        \<and> r = map_sum id (\<lambda>cache. filter (\<lambda>e. map_of cache (componentCacheKey label (event_lookup e)) = Some True) events) c)"

text \<open>The zero time lies before any other; Go gives its nanoseconds as this number.\<close>

definition unix_nano :: "time \<Rightarrow> int" where
  "unix_nano t = (case t of None \<Rightarrow> - 6795364578871345152 | Some n \<Rightarrow> n)"

definition sortEventsByTime :: "EventInfo list \<Rightarrow> EventInfo list" where
  "sortEventsByTime events = sort_slice (\<lambda>a b. unix_nano (eiLastTime b) < unix_nano (eiLastTime a)) events"

text \<open>The listing: \<open>fetch\<close> is the library call, given the namespaces, the duration and the type.\<close>

definition fetchEvents :: "api_preds \<Rightarrow> (string list \<Rightarrow> int \<Rightarrow> string \<Rightarrow> err + EventInfo list) \<Rightarrow> EventsCommand \<Rightarrow> err + EventInfo list" where
  "fetchEvents api fetch c =
     bind_res (getTargetNamespaces c) (\<lambda>nss.
       case fetch nss (Since c) (EventType c) of Inl e \<Rightarrow> Inl (ErrEventsFetchFailed api e) | Inr evs \<Rightarrow> Inr evs)"

definition listEvents ::
  "api_preds \<Rightarrow> (string list \<Rightarrow> int \<Rightarrow> string \<Rightarrow> err + EventInfo list) \<Rightarrow> (string \<Rightarrow> labelLookup \<Rightarrow> err + bool) \<Rightarrow> EventsCommand \<Rightarrow> err + EventInfo list \<Rightarrow> bool" where
  "listEvents api fetch has c r \<longleftrightarrow>
     (case fetchEvents api fetch c of
        Inl e \<Rightarrow> r = Inl e
      | Inr events \<Rightarrow>
          if EvComponent c = [] then r = Inr (sortEventsByTime events)
          else let label = GetComponentLabelValue (EvComponent c) in
            \<exists>f. filterEventsByComponent (has label) label events f \<and> r = map_sum id sortEventsByTime f)"

section \<open>Every run of the pool gives the same answer\<close>

lemma pool_step_items: "pool_step n p q \<Longrightarrow> mset (plWork q) + mset (plBusy q) + mset (plSent q) = mset (plWork p) + mset (plBusy p) + mset (plSent p)"
  by (induction rule: pool_step.induct) simp_all

lemma pool_items: "(pool_step n)\<^sup>*\<^sup>* p q \<Longrightarrow> mset (plWork q) + mset (plBusy q) + mset (plSent q) = mset (plWork p) + mset (plBusy p) + mset (plSent p)"
  by (induction rule: rtranclp_induct) (simp_all add: pool_step_items)

lemma pool_sent: "(pool_step n)\<^sup>*\<^sup>* (pool_start lookups) p \<Longrightarrow> pool_idle p \<Longrightarrow> mset (plSent p) = mset lookups"
  using pool_items [of n "pool_start lookups" p] by (simp add: pool_start_def pool_idle_def)

text \<open>No run is stuck before it is idle, and none goes on forever.\<close>

definition pool_left :: "pool \<Rightarrow> nat" where
  "pool_left p = 2 * length (plWork p) + length (plBusy p)"

lemma pool_step_decreases: "pool_step n p q \<Longrightarrow> pool_left q < pool_left p"
  by (induction rule: pool_step.induct) (simp_all add: pool_left_def)

lemma pool_progress:
  assumes "0 < n" and "\<not> pool_idle p"
  shows "\<exists>q. pool_step n p q"
proof (cases "plBusy p")
  case Nil
  obtain work busy sent where p: "p = \<lparr>plWork = work, plBusy = busy, plSent = sent\<rparr>" by (cases p) auto
  with Nil assms obtain x ws where "work = x # ws" by (cases work) (auto simp: pool_idle_def)
  then show ?thesis using take_item [of "[]" n x ws sent] assms(1) Nil p by auto
next
  case (Cons x bs)
  obtain work busy sent where p: "p = \<lparr>plWork = work, plBusy = busy, plSent = sent\<rparr>" by (cases p) auto
  then show ?thesis using send_result [of n work "[]" x bs sent] Cons by auto
qed

lemma pool_terminates: "wfp (\<lambda>q p. pool_step n p q)"
  by (rule wfp_if_convertible_to_nat [of _ pool_left]) (rule pool_step_decreases)

lemma pool_finishes: "0 < n \<Longrightarrow> \<exists>q. (pool_step n)\<^sup>*\<^sup>* p q \<and> pool_idle q"
proof (induction "pool_left p" arbitrary: p rule: less_induct)
  case less
  show ?case
  proof (cases "pool_idle p")
    case False
    from pool_progress [OF less.prems False] obtain q where q: "pool_step n p q" ..
    from less.hyps [OF pool_step_decreases [OF q] less.prems] obtain r where "(pool_step n)\<^sup>*\<^sup>* q r" "pool_idle r" by blast
    with q show ?thesis by (meson converse_rtranclp_into_rtranclp)
  qed blast
qed

lemma collect_results_all: "collect_results has key ks cache = Inr c \<Longrightarrow> \<forall>k\<in>set ks. \<exists>b. has k = Inr b"
  by (induction ks arbitrary: cache) (auto split: sum.splits)

lemma collect_results_cache:
  assumes "collect_results has key ks cache = Inr c" and "\<And>k. k \<in> set ks \<Longrightarrow> key k = key k0 \<Longrightarrow> k = k0"
  shows "map_of c (key k0) = (if k0 \<in> set ks then Some (projr (has k0)) else map_of cache (key k0))"
  using assms
proof (induction ks arbitrary: cache)
  case (Cons k ks)
  then obtain b where b: "has k = Inr b" "collect_results has key ks (AList.update (key k) b cache) = Inr c" by (auto split: sum.splits)
  from Cons.IH [OF b(2)] Cons.prems(2)
  have rest: "map_of c (key k0) = (if k0 \<in> set ks then Some (projr (has k0)) else map_of (AList.update (key k) b cache) (key k0))" by simp
  show ?case
  proof (cases "k = k0")
    case True
    then show ?thesis using rest b(1) by simp
  next
    case False
    then have "key k \<noteq> key k0" using Cons.prems(2) [of k] by auto
    then show ?thesis using rest False by simp
  qed
qed simp

lemma collect_results_Inl:
  "collect_results has key ks cache = Inl e \<Longrightarrow> \<exists>k\<in>set ks. \<exists>x. has k = Inl x \<and> e = wrapf ''checking component label'' x"
  by (induction ks arbitrary: cache) (auto split: sum.splits)

lemma set_unique_lookups: "set (unique_lookups events) = event_lookup ` set events"
proof -
  have "set (fold (\<lambda>e ks. if event_lookup e \<in> set ks then ks else ks @ [event_lookup e]) events ks) = set ks \<union> event_lookup ` set events" for ks
    by (induction events arbitrary: ks) auto
  from this [of "[]"] show ?thesis by (simp add: unique_lookups_def)
qed

text \<open>A cache key determines the lookup: namespaces and kinds contain no slash.\<close>

lemma append_sep_eq: "c \<notin> set xs \<Longrightarrow> c \<notin> set ys \<Longrightarrow> xs @ c # as = ys @ c # bs \<longleftrightarrow> xs = ys \<and> as = bs"
proof (induction xs arbitrary: ys)
  case Nil
  then show ?case by (cases ys) auto
next
  case (Cons x xs)
  then show ?case by (cases ys) auto
qed

lemma componentCacheKey_inj:
  assumes "CHR ''/'' \<notin> set ns" and "CHR ''/'' \<notin> set kind" and "CHR ''/'' \<notin> set ns'" and "CHR ''/'' \<notin> set kind'"
  shows "componentCacheKey label (ns, kind, name) = componentCacheKey label (ns', kind', name') \<longleftrightarrow> (ns, kind, name) = (ns', kind', name')"
  using assms by (simp add: componentCacheKey_def append_sep_eq)

lemma filter_run:
  assumes "filterEventsByComponent has label events r"
  shows "\<exists>sent. set sent = set (unique_lookups events) \<and> r = map_sum id (\<lambda>cache. filter (\<lambda>e. map_of cache (componentCacheKey label (event_lookup e)) = Some True) events)
    (collect_results has (componentCacheKey label) sent [])"
proof -
  let ?ks = "unique_lookups events" and ?key = "componentCacheKey label"
  let ?f = "map_sum id (\<lambda>cache. filter (\<lambda>e. map_of cache (?key (event_lookup e)) = Some True) events)"
  obtain c where c: "fetchComponentLabelsParallel has ?key ?ks c" "r = ?f c" using assms unfolding filterEventsByComponent_def by blast
  show ?thesis
  proof (cases "?ks = []")
    case True
    then have "r = ?f (collect_results has ?key [] [])" using c by (simp add: fetchComponentLabelsParallel_def)
    then show ?thesis using True by (intro exI [of _ "[]"]) simp
  next
    case False
    then obtain p where p: "(pool_step (min maxLabelFetchWorkers (length ?ks)))\<^sup>*\<^sup>* (pool_start ?ks) p" "pool_idle p" "c = collect_results has ?key (plSent p) []"
      using c(1) by (auto simp: fetchComponentLabelsParallel_def)
    have "set (plSent p) = set ?ks" using pool_sent [OF p(1,2)] by (rule mset_eq_setD)
    then show ?thesis using c(2) p(3) by blast
  qed
qed

lemma component_filter_answers:
  assumes "\<forall>e\<in>set events. CHR ''/'' \<notin> set (eiNamespace e) \<and> CHR ''/'' \<notin> set (eiKind e)"
  shows "\<exists>r. filterEventsByComponent has label events r"
    and "filterEventsByComponent has label events r \<Longrightarrow>
      (case r of
         Inr evs \<Rightarrow> (\<forall>e\<in>set events. \<exists>b. has (event_lookup e) = Inr b) \<and> evs = filter (\<lambda>e. has (event_lookup e) = Inr True) events
       | Inl err \<Rightarrow> \<exists>e\<in>set events. \<exists>x. has (event_lookup e) = Inl x \<and> err = wrapf ''checking component label'' x)"
proof -
  let ?key = "componentCacheKey label" and ?ks = "unique_lookups events"
  show "\<exists>r. filterEventsByComponent has label events r"
  proof (cases "?ks = []")
    case False
    then show ?thesis using pool_finishes [of "min maxLabelFetchWorkers (length ?ks)" "pool_start ?ks"]
      by (auto simp: filterEventsByComponent_def fetchComponentLabelsParallel_def)
  qed (simp add: filterEventsByComponent_def fetchComponentLabelsParallel_def)
  assume "filterEventsByComponent has label events r"
  then obtain sent where set: "set sent = set ?ks"
      and r: "r = map_sum id (\<lambda>cache. filter (\<lambda>e. map_of cache (?key (event_lookup e)) = Some True) events) (collect_results has ?key sent [])"
    using filter_run by blast
  have keys: "k = event_lookup e" if "k \<in> set sent" "e \<in> set events" "?key k = ?key (event_lookup e)" for k e
  proof -
    from that(1) obtain e' where "e' \<in> set events" "k = event_lookup e'" unfolding set set_unique_lookups by blast
    then show ?thesis using that(2,3) assms by (auto simp: event_lookup_def componentCacheKey_inj)
  qed
  show "case r of
         Inr evs \<Rightarrow> (\<forall>e\<in>set events. \<exists>b. has (event_lookup e) = Inr b) \<and> evs = filter (\<lambda>e. has (event_lookup e) = Inr True) events
       | Inl err \<Rightarrow> \<exists>e\<in>set events. \<exists>x. has (event_lookup e) = Inl x \<and> err = wrapf ''checking component label'' x"
  proof (cases "collect_results has ?key sent []")
    case (Inl e)
    then show ?thesis using collect_results_Inl [OF Inl] r unfolding set set_unique_lookups by auto
  next
    case (Inr cache)
    have all: "\<forall>e\<in>set events. \<exists>b. has (event_lookup e) = Inr b"
      using collect_results_all [OF Inr] unfolding set set_unique_lookups by auto
    have "map_of cache (?key (event_lookup e)) = Some True \<longleftrightarrow> has (event_lookup e) = Inr True" if "e \<in> set events" for e
      using collect_results_cache [OF Inr keys [OF _ that]] that all unfolding set set_unique_lookups by force
    then show ?thesis using r Inr all by (auto intro: filter_cong)
  qed
qed

text \<open>
  C25. Filtering events by component, however the workers are scheduled: no run of the pool goes on forever, and none is stuck before
  every lookup has been answered. If all lookups succeed there is exactly one answer, the events whose object has the label, in their
  order. If some fail, every answer is the error of one of those, and which one it is depends on the schedule.
\<close>

theorem component_filter_deterministic:
  assumes "\<forall>e\<in>set events. CHR ''/'' \<notin> set (eiNamespace e) \<and> CHR ''/'' \<notin> set (eiKind e)"
  shows "(\<forall>n. wfp (\<lambda>q p. pool_step n p q))
    \<and> (\<forall>p. unique_lookups events \<noteq> [] \<and> (pool_step (min maxLabelFetchWorkers (length (unique_lookups events))))\<^sup>*\<^sup>* (pool_start (unique_lookups events)) p
         \<and> \<not> pool_idle p \<longrightarrow> (\<exists>q. pool_step (min maxLabelFetchWorkers (length (unique_lookups events))) p q))
    \<and> (if \<forall>e\<in>set events. \<exists>b. has (event_lookup e) = Inr b then
         \<forall>r. filterEventsByComponent has label events r \<longleftrightarrow> r = Inr (filter (\<lambda>e. has (event_lookup e) = Inr True) events)
       else (\<exists>r. filterEventsByComponent has label events r)
         \<and> (\<forall>r. filterEventsByComponent has label events r \<longrightarrow>
              (\<exists>e\<in>set events. \<exists>x. has (event_lookup e) = Inl x \<and> r = Inl (wrapf ''checking component label'' x))))"
proof (intro conjI allI impI)
  show "wfp (\<lambda>q p. pool_step n p q)" for n by (rule pool_terminates)
  show "\<exists>q. pool_step (min maxLabelFetchWorkers (length (unique_lookups events))) p q"
    if "unique_lookups events \<noteq> [] \<and> (pool_step (min maxLabelFetchWorkers (length (unique_lookups events))))\<^sup>*\<^sup>* (pool_start (unique_lookups events)) p
      \<and> \<not> pool_idle p" for p
    using that by (intro pool_progress) auto
  let ?all = "\<forall>e\<in>set events. \<exists>b. has (event_lookup e) = Inr b"
  let ?answer = "filterEventsByComponent has label events"
  obtain r0 where r0: "?answer r0" using component_filter_answers(1) [OF assms] by blast
  note answers = component_filter_answers(2) [OF assms]
  show "if ?all then \<forall>r. ?answer r \<longleftrightarrow> r = Inr (filter (\<lambda>e. has (event_lookup e) = Inr True) events)
    else (\<exists>r. ?answer r) \<and> (\<forall>r. ?answer r \<longrightarrow>
      (\<exists>e\<in>set events. \<exists>x. has (event_lookup e) = Inl x \<and> r = Inl (wrapf ''checking component label'' x)))"
  proof (cases ?all)
    case True
    have one: "r = Inr (filter (\<lambda>e. has (event_lookup e) = Inr True) events)" if "?answer r" for r
      using answers [OF that] True by (cases r) auto
    then show ?thesis using True r0 by auto
  next
    case False
    have "\<exists>e\<in>set events. \<exists>x. has (event_lookup e) = Inl x \<and> r = Inl (wrapf ''checking component label'' x)" if "?answer r" for r
      using answers [OF that] False by (cases r) auto
    then show ?thesis using False r0 by auto
  qed
qed

definition sample_event :: EventInfo where
  "sample_event = \<lparr>eiNamespace = ''apps'', eiName = ''pod-1'', eiKind = ''Pod'', eiReason = ''Killing'', eiMessage = ''stopped'', eiCount = 1,
     eiType = ''Normal'', eiLastTime = Some 0\<rparr>"

theorem component_filter_deterministic_witness:
  "\<forall>r. filterEventsByComponent (\<lambda>k. Inr (k = (''apps'', ''Pod'', ''pod-1''))) ''ray'' [sample_event, sample_event\<lparr>eiName := ''pod-2''\<rparr>] r
     \<longleftrightarrow> r = Inr [sample_event]"
proof -
  let ?has = "\<lambda>k. Inr (k = (''apps'', ''Pod'', ''pod-1'')) :: err + bool" and ?es = "[sample_event, sample_event\<lparr>eiName := ''pod-2''\<rparr>]"
  have slash: "\<forall>e\<in>set ?es. CHR ''/'' \<notin> set (eiNamespace e) \<and> CHR ''/'' \<notin> set (eiKind e)" by (simp add: sample_event_def)
  have all: "\<forall>e\<in>set ?es. \<exists>b. ?has (event_lookup e) = Inr b" by simp
  have sel: "filter (\<lambda>e. ?has (event_lookup e) = Inr True) ?es = [sample_event]"
    by (simp add: sample_event_def event_lookup_def)
  from component_filter_deterministic [OF slash, of ?has "''ray''", THEN conjunct2, THEN conjunct2, unfolded if_P [OF all] sel]
  show ?thesis by blast
qed

end
