(* ===== verification/EventsWatch.thy ===== *)
theory EventsWatch
  imports Events LintOutput
begin

text \<open>
  The command \<open>events\<close>, continued: the watch of one namespace with its retries (\<open>filter.go\<close>) and the texts of the table and of the
  stream (\<open>output.go\<close>). What the API server answers is a script: failed attempts to watch, and sessions with the
  events they deliver until the connection closes; the context is cancelled where the script ends.
\<close>

section \<open>Watch events\<close>

datatype watch_type = Added | Modified | Deleted | Bookmark | WatchError

record core_event =
  coNamespace :: string
  coResourceVersion :: string
  coInvolved :: labelLookup
  coReason :: string
  coMessage :: string
  coCount :: nat
  coType :: string
  coLastTimestamp :: time
  coEventTime :: time

text \<open>The object of a watch event, if it is an event.\<close>

record watch_event =
  weType :: watch_type
  weObject :: "core_event option"

definition event_time :: "core_event \<Rightarrow> time" where
  "event_time e = (case coLastTimestamp e of None \<Rightarrow> coEventTime e | Some t \<Rightarrow> Some t)"

definition isEventBeforeCutoff :: "core_event \<Rightarrow> int \<Rightarrow> bool" where
  "isEventBeforeCutoff e cutoff = (case event_time e of None \<Rightarrow> False | Some t \<Rightarrow> t < cutoff)"

definition eventToEventInfo :: "core_event \<Rightarrow> EventInfo" where
  "eventToEventInfo e = (case coInvolved e of (ns, kind, name) \<Rightarrow>
     \<lparr>eiNamespace = coNamespace e, eiName = name, eiKind = kind, eiReason = coReason e, eiMessage = coMessage e, eiCount = coCount e,
      eiType = coType e, eiLastTime = event_time e\<rparr>)"

text \<open>
  The state of a watch: the cache of labels, how many lookups were made, the lines on standard error, and the events sent to
  the printer. The answer to a lookup may depend on when it is made.
\<close>

record watch_state =
  wsCache :: "(string, bool) gomap"
  wsCalls :: nat
  wsErr :: "string list"
  wsOut :: "core_event list"

definition checkEventMatchesComponentCached ::
  "(nat \<Rightarrow> labelLookup \<Rightarrow> err + bool) \<Rightarrow> string \<Rightarrow> core_event \<Rightarrow> watch_state \<Rightarrow> bool \<times> watch_state" where
  "checkEventMatchesComponentCached has label e st =
     (let key = componentCacheKey label (coInvolved e) in
      case map_of (wsCache st) key of
        Some b \<Rightarrow> (b, st)
      | None \<Rightarrow>
          (case has (wsCalls st) (coInvolved e) of
             Inl x \<Rightarrow> (False, st\<lparr>wsCalls := wsCalls st + 1, wsErr := wsErr st
               @ [''Warning: failed to check component label for '' @ fst (snd (coInvolved e)) @ ''/'' @ snd (snd (coInvolved e)) @ '': '' @ err_string x]\<rparr>)
           | Inr b \<Rightarrow> (b, st\<lparr>wsCalls := wsCalls st + 1, wsCache := AList.update key b (wsCache st)\<rparr>)))"

definition extractValidEvent ::
  "(nat \<Rightarrow> labelLookup \<Rightarrow> err + bool) \<Rightarrow> EventsCommand \<Rightarrow> int option \<Rightarrow> watch_event \<Rightarrow> watch_state \<Rightarrow> core_event option \<times> watch_state" where
  "extractValidEvent has c cutoff ev st =
     (if weType ev \<noteq> Added \<and> weType ev \<noteq> Modified then (None, st)
      else case weObject ev of
          None \<Rightarrow> (None, st)
        | Some e \<Rightarrow>
            if (case cutoff of None \<Rightarrow> False | Some t \<Rightarrow> isEventBeforeCutoff e t) then (None, st)
            else if EvComponent c \<noteq> [] then
              (case checkEventMatchesComponentCached has (GetComponentLabelValue (EvComponent c)) e st of
                 (b, st') \<Rightarrow> (if b then Some e else None, st'))
            else (Some e, st))"

text \<open>A session: the last resource version seen, before any filter.\<close>

fun processWatchEvents ::
  "(nat \<Rightarrow> labelLookup \<Rightarrow> err + bool) \<Rightarrow> EventsCommand \<Rightarrow> int option \<Rightarrow> watch_event list \<Rightarrow> string \<Rightarrow> watch_state \<Rightarrow> string \<times> watch_state" where
  "processWatchEvents has c cutoff [] lastRV st = (lastRV, st)"
| "processWatchEvents has c cutoff (ev # evs) lastRV st =
     (let rv = (case weObject ev of Some e \<Rightarrow> if coResourceVersion e \<noteq> [] then coResourceVersion e else lastRV | None \<Rightarrow> lastRV) in
      case extractValidEvent has c cutoff ev st of
        (None, st') \<Rightarrow> processWatchEvents has c cutoff evs rv st'
      | (Some e, st') \<Rightarrow> processWatchEvents has c cutoff evs rv (st'\<lparr>wsOut := wsOut st' @ [e]\<rparr>))"

section \<open>Reconnecting\<close>

datatype watch_attempt = WatchFailed err | WatchSession "watch_event list"
datatype watch_end = GaveUp | Cancelled

abbreviation maxWatchRetries :: nat where "maxWatchRetries \<equiv> 5"
abbreviation initialRetryBackoff :: nat where "initialRetryBackoff \<equiv> 1"
abbreviation maxRetryBackoff :: nat where "maxRetryBackoff \<equiv> 30"

record watch_loop =
  wlErrors :: nat
  wlBackoff :: nat
  wlVersion :: string
  wlSleeps :: "nat list"
  wlState :: watch_state

definition wl_err :: "string \<Rightarrow> watch_loop \<Rightarrow> watch_loop" where
  "wl_err line l = l\<lparr>wlState := (wlState l)\<lparr>wsErr := wsErr (wlState l) @ [line]\<rparr>\<rparr>"

text \<open>The loop; sleeps are in seconds. Each session starts from the resource version last seen.\<close>

fun watchNamespaceEvents ::
  "(nat \<Rightarrow> labelLookup \<Rightarrow> err + bool) \<Rightarrow> EventsCommand \<Rightarrow> int option \<Rightarrow> string \<Rightarrow> watch_attempt list \<Rightarrow> watch_loop \<Rightarrow> watch_end \<times> watch_loop" where
  "watchNamespaceEvents has c cutoff ns [] l = (Cancelled, l)"
| "watchNamespaceEvents has c cutoff ns (WatchFailed e # rest) l =
     (if wlErrors l + 1 \<ge> maxWatchRetries then
        (GaveUp, wl_err (''Error: failed to watch events in '' @ ns @ '' after '' @ itoa maxWatchRetries @ '' retries: '' @ err_string e)
           (l\<lparr>wlErrors := wlErrors l + 1\<rparr>))
      else watchNamespaceEvents has c cutoff ns rest
        (wl_err (''Warning: failed to watch events in '' @ ns @ '': '' @ err_string e @ '', retrying in '' @ itoa (wlBackoff l) @ ''s...'')
          (l\<lparr>wlErrors := wlErrors l + 1, wlSleeps := wlSleeps l @ [wlBackoff l], wlBackoff := min (2 * wlBackoff l) maxRetryBackoff\<rparr>)))"
| "watchNamespaceEvents has c cutoff ns (WatchSession evs # rest) l =
     (let (rv, st) = processWatchEvents has c cutoff evs [] (wlState l);
          l' = l\<lparr>wlErrors := 0, wlBackoff := initialRetryBackoff, wlVersion := (if rv \<noteq> [] then rv else wlVersion l), wlState := st\<rparr> in
      if rest = [] then (Cancelled, l')
      else watchNamespaceEvents has c cutoff ns rest
        (wl_err (''Warning: watch connection closed for '' @ ns @ '', reconnecting...'') (l'\<lparr>wlSleeps := wlSleeps l' @ [1]\<rparr>)))"

definition watch_start :: watch_loop where
  "watch_start = \<lparr>wlErrors = 0, wlBackoff = initialRetryBackoff, wlVersion = [], wlSleeps = [],
     wlState = \<lparr>wsCache = [], wsCalls = 0, wsErr = [], wsOut = []\<rparr>\<rparr>"

section \<open>Texts (\<open>output.go\<close>)\<close>

text \<open>The removal of the matches of \<open>\x1b\[[0-9;]*[a-zA-Z]\<close>: parameters and the final letter never overlap.\<close>

definition is_param :: "char \<Rightarrow> bool" where
  "is_param ch \<longleftrightarrow> (CHR ''0'' \<le> ch \<and> ch \<le> CHR ''9'') \<or> ch = CHR '';''"

definition is_letter :: "char \<Rightarrow> bool" where
  "is_letter ch \<longleftrightarrow> (CHR ''a'' \<le> ch \<and> ch \<le> CHR ''z'') \<or> (CHR ''A'' \<le> ch \<and> ch \<le> CHR ''Z'')"

definition csi_rest :: "string \<Rightarrow> string option" where
  "csi_rest s =
     (case s of
        a # b # rest \<Rightarrow>
          if a = CHR 0x1B \<and> b = CHR ''['' then
            (case dropWhile is_param rest of ch # tail \<Rightarrow> if is_letter ch then Some tail else None | [] \<Rightarrow> None)
          else None
      | _ \<Rightarrow> None)"

lemma length_csi_rest: "csi_rest s = Some t \<Longrightarrow> length t < length s"
proof -
  assume "csi_rest s = Some t"
  then obtain a b rest ch where s: "s = a # b # rest" and t: "dropWhile is_param rest = ch # t"
    by (auto simp: csi_rest_def split: list.splits if_splits)
  have "length (ch # t) \<le> length rest" using length_dropWhile_le [of is_param rest] by (simp only: t)
  then show ?thesis by (simp add: s)
qed

function strip_ansi :: "string \<Rightarrow> string" where
  "strip_ansi [] = []"
| "strip_ansi (ch # s) = (case csi_rest (ch # s) of Some rest \<Rightarrow> strip_ansi rest | None \<Rightarrow> ch # strip_ansi s)"
  by pat_completeness auto
termination by (relation "measure length") (auto dest: length_csi_rest)

definition sanitizeForTerminal :: "string \<Rightarrow> string" where
  "sanitizeForTerminal s = rune_string (filter (\<lambda>r. r \<ge> 32 \<or> r = 9) (runes (strip_ansi s)))"

definition truncate_runes :: "nat \<Rightarrow> string \<Rightarrow> string" where
  "truncate_runes n s = (if length (runes s) \<le> n then s else rune_string (take (n - 3) (runes s)) @ ''...'')"

definition truncateMessage :: "string \<Rightarrow> string" where
  "truncateMessage msg = truncate_runes 80 msg"

definition truncateField :: "string \<Rightarrow> nat \<Rightarrow> string" where
  "truncateField s maxWidth = (if maxWidth \<le> 3 then s else truncate_runes maxWidth s)"

text \<open>
  The age of a time; the difference of two times is cut at the range of \<open>int64\<close>. The days come from a division of floating point
  numbers, which is an argument.
\<close>

definition formatAgeFrom :: "(int \<Rightarrow> nat) \<Rightarrow> time \<Rightarrow> int \<Rightarrow> string" where
  "formatAgeFrom days t now =
     (case t of
        None \<Rightarrow> ''<unknown>''
      | Some n \<Rightarrow>
          (let d = max (- (2 ^ 63)) (min (2 ^ 63 - 1) (now - n)); second = 1000000000 in
           if d < 0 then ''0s''
           else if d < 60 * second then itoa (nat (d div second)) @ ''s''
           else if d < 3600 * second then itoa (nat (d div (60 * second))) @ ''m''
           else if d < 24 * 3600 * second then itoa (nat (d div (3600 * second))) @ ''h''
           else itoa (days d) @ ''d''))"

definition event_cells :: "(int \<Rightarrow> nat) \<Rightarrow> int \<Rightarrow> bool \<Rightarrow> EventInfo \<Rightarrow> string list" where
  "event_cells days now showNamespace e =
     (if showNamespace then [sanitizeForTerminal (eiNamespace e)] else [])
     @ [formatAgeFrom days (eiLastTime e) now, sanitizeForTerminal (eiType e), sanitizeForTerminal (eiReason e),
        sanitizeForTerminal (eiKind e) @ ''/'' @ sanitizeForTerminal (eiName e), itoa (eiCount e), truncateMessage (sanitizeForTerminal (eiMessage e))]"

definition table_header :: "bool \<Rightarrow> string list" where
  "table_header showNamespace =
     (if showNamespace then [''NAMESPACE''] else []) @ [''LAST SEEN'', ''TYPE'', ''REASON'', ''OBJECT'', ''COUNT'', ''MESSAGE'']"

text \<open>The rows given to the tab writer, or the text for no events.\<close>

definition EventsOutputTable :: "(int \<Rightarrow> nat) \<Rightarrow> int \<Rightarrow> bool \<Rightarrow> EventInfo list \<Rightarrow> string + string list list" where
  "EventsOutputTable days now showNamespace events =
     (if events = [] then Inl ''No events found.'' else Inr (table_header showNamespace # map (event_cells days now showNamespace) events))"

text \<open>The verb \<open>%-ns\<close> counts runes.\<close>

definition pad_right :: "nat \<Rightarrow> string \<Rightarrow> string" where
  "pad_right n s = s @ replicate (n - length (runes s)) (CHR '' '')"

fun pad_cells :: "nat list \<Rightarrow> string list \<Rightarrow> string list" where
  "pad_cells (w # ws) (x # xs) = pad_right w x # pad_cells ws xs"
| "pad_cells _ xs = xs"

definition stream_widths :: "bool \<Rightarrow> nat list" where
  "stream_widths showNamespace = (if showNamespace then [20] else []) @ [10, 8, 20, 40, 6]"

definition stream_line :: "bool \<Rightarrow> string list \<Rightarrow> string" where
  "stream_line showNamespace cells = str_join ''  '' (pad_cells (stream_widths showNamespace) cells) @ nl"

definition stream_cells :: "(int \<Rightarrow> nat) \<Rightarrow> int \<Rightarrow> bool \<Rightarrow> EventInfo \<Rightarrow> string list" where
  "stream_cells days now showNamespace e =
     (if showNamespace then [truncateField (sanitizeForTerminal (eiNamespace e)) 20] else [])
     @ [formatAgeFrom days (eiLastTime e) now, sanitizeForTerminal (eiType e), sanitizeForTerminal (eiReason e),
        truncateField (sanitizeForTerminal (eiKind e) @ ''/'' @ sanitizeForTerminal (eiName e)) 40, itoa (eiCount e),
        truncateMessage (sanitizeForTerminal (eiMessage e))]"

definition writeHeader :: "bool \<Rightarrow> string" where
  "writeHeader showNamespace = stream_line showNamespace (table_header showNamespace)"

definition writeEvent :: "(int \<Rightarrow> nat) \<Rightarrow> int \<Rightarrow> bool \<Rightarrow> EventInfo \<Rightarrow> string" where
  "writeEvent days now showNamespace e = stream_line showNamespace (stream_cells days now showNamespace e)"

definition toEventOutputList :: "(EventInfo \<Rightarrow> json) \<Rightarrow> EventInfo list \<Rightarrow> json" where
  "toEventOutputList enc events = JObj [(''apiVersion'', JStr ''v1''), (''kind'', JStr ''EventList''), (''items'', JArr (map enc events))]"

section \<open>When a watch ends\<close>

fun gives_up :: "nat \<Rightarrow> watch_attempt list \<Rightarrow> bool" where
  "gives_up k [] = False"
| "gives_up k (WatchFailed e # rest) = (k + 1 \<ge> maxWatchRetries \<or> gives_up (k + 1) rest)"
| "gives_up k (WatchSession evs # rest) = gives_up 0 rest"

lemma wl_err_errors [simp]: "wlErrors (wl_err line l) = wlErrors l"
  by (simp add: wl_err_def)

lemma watch_ends: "fst (watchNamespaceEvents has c cutoff ns attempts l) = GaveUp \<longleftrightarrow> gives_up (wlErrors l) attempts"
proof (induction has c cutoff ns attempts l rule: watchNamespaceEvents.induct)
  case (3 has c cutoff ns evs rest l)
  obtain rv st where step: "processWatchEvents has c cutoff evs [] (wlState l) = (rv, st)" by force
  show ?case using 3 [OF step [symmetric] refl] by (cases rest) (simp_all add: step Let_def)
qed simp_all

text \<open>The attempts begin with \<open>n\<close> failures.\<close>

definition leading_failures :: "nat \<Rightarrow> watch_attempt list \<Rightarrow> bool" where
  "leading_failures n attempts \<longleftrightarrow> (\<exists>es post. attempts = map WatchFailed es @ post \<and> length es = n)"

definition failure_run :: "watch_attempt list \<Rightarrow> bool" where
  "failure_run attempts \<longleftrightarrow> (\<exists>pre es post. attempts = pre @ map WatchFailed es @ post \<and> length es = maxWatchRetries)"

lemma leading_failures_simps [simp]:
  "leading_failures 0 attempts"
  "\<not> leading_failures (Suc n) []"
  "\<not> leading_failures (Suc n) (WatchSession evs # rest)"
  by (auto simp: leading_failures_def length_Suc_conv)

lemma leading_failures_Cons [simp]: "leading_failures (Suc n) (WatchFailed e # rest) \<longleftrightarrow> leading_failures n rest"
proof
  assume "leading_failures (Suc n) (WatchFailed e # rest)"
  then obtain es post where "WatchFailed e # rest = map WatchFailed es @ post" "length es = Suc n" unfolding leading_failures_def by blast
  then have "rest = map WatchFailed (tl es) @ post \<and> length (tl es) = n" by (cases es) simp_all
  then show "leading_failures n rest" unfolding leading_failures_def by blast
next
  assume "leading_failures n rest"
  then obtain es post where "rest = map WatchFailed es @ post" "length es = n" by (auto simp: leading_failures_def)
  then have "WatchFailed e # rest = map WatchFailed (e # es) @ post \<and> length (e # es) = Suc n" by simp
  then show "leading_failures (Suc n) (WatchFailed e # rest)" unfolding leading_failures_def by blast
qed

lemma leading_failures_mono: "leading_failures n attempts \<Longrightarrow> m \<le> n \<Longrightarrow> leading_failures m attempts"
proof (induction n arbitrary: m attempts)
  case (Suc n)
  then show ?case by (cases attempts; cases "hd attempts"; cases m) auto
qed simp

lemma failure_run_Nil: "\<not> failure_run []"
  by (auto simp: failure_run_def)

lemma failure_run_Cons: "failure_run (a # rest) \<longleftrightarrow> leading_failures maxWatchRetries (a # rest) \<or> failure_run rest"
proof
  assume "failure_run (a # rest)"
  then obtain pre es post where split: "a # rest = pre @ map WatchFailed es @ post" "length es = maxWatchRetries"
    unfolding failure_run_def by blast
  show "leading_failures maxWatchRetries (a # rest) \<or> failure_run rest"
    using split by (cases pre) (auto simp: leading_failures_def failure_run_def)
next
  assume "leading_failures maxWatchRetries (a # rest) \<or> failure_run rest"
  then show "failure_run (a # rest)"
  proof
    assume "leading_failures maxWatchRetries (a # rest)"
    then obtain es post where "a # rest = [] @ map WatchFailed es @ post \<and> length es = maxWatchRetries" by (auto simp: leading_failures_def)
    then show ?thesis unfolding failure_run_def by blast
  next
    assume "failure_run rest"
    then obtain pre es post where "a # rest = (a # pre) @ map WatchFailed es @ post \<and> length es = maxWatchRetries"
      by (auto simp: failure_run_def)
    then show ?thesis unfolding failure_run_def by blast
  qed
qed

lemma gives_up_iff: "k < maxWatchRetries \<Longrightarrow> gives_up k attempts \<longleftrightarrow> leading_failures (maxWatchRetries - k) attempts \<or> failure_run attempts"
proof (induction attempts arbitrary: k)
  case Nil
  then obtain n where "maxWatchRetries - k = Suc n" by (metis Suc_diff_Suc)
  then show ?case by (simp add: failure_run_Nil)
next
  case (Cons a rest)
  obtain n where n: "maxWatchRetries - k = Suc n" "n \<le> 4" using Cons.prems by (metis Suc_diff_Suc diff_le_self Suc_le_mono eval_nat_numeral(2,3) Num.BitM.simps)
  show ?case
  proof (cases a)
    case (WatchFailed e)
    have "gives_up k (a # rest) \<longleftrightarrow> leading_failures n rest \<or> failure_run rest"
    proof (cases "k = 4")
      case True
      then show ?thesis using n by (simp add: WatchFailed)
    next
      case False
      then have "k + 1 < maxWatchRetries" "n = maxWatchRetries - (k + 1)" using Cons.prems n by auto
      then show ?thesis using Cons.IH [of "k + 1"] by (simp add: WatchFailed)
    qed
    moreover have "failure_run (a # rest) \<longleftrightarrow> leading_failures 4 rest \<or> failure_run rest"
      using leading_failures_Cons [of 4 e rest] by (simp add: failure_run_Cons WatchFailed)
    ultimately show ?thesis using n leading_failures_mono [of 4 rest n] by (auto simp: WatchFailed)
  next
    case (WatchSession evs)
    have "leading_failures maxWatchRetries rest \<Longrightarrow> failure_run rest"
      using failure_run_Cons failure_run_def leading_failures_def by (metis append_Nil)
    moreover have "failure_run (a # rest) \<longleftrightarrow> failure_run rest" using leading_failures_simps(3) [of 4 evs rest] by (simp add: failure_run_Cons WatchSession)
    ultimately show ?thesis using Cons.IH [of 0] n by (auto simp: WatchSession)
  qed
qed

text \<open>
  C26. The watch of a namespace gives up exactly if the API server refused five attempts in a row: fewer failures between two sessions
  never end it, whatever was sent before.
\<close>

theorem watch_gives_up:
  "fst (watchNamespaceEvents has c cutoff ns attempts watch_start) = GaveUp \<longleftrightarrow>
   (\<exists>pre es post. attempts = pre @ map WatchFailed es @ post \<and> length es = maxWatchRetries)"
proof -
  have "leading_failures maxWatchRetries attempts \<Longrightarrow> failure_run attempts"
    unfolding leading_failures_def failure_run_def by (metis append_Nil)
  then have "gives_up 0 attempts \<longleftrightarrow> failure_run attempts" using gives_up_iff [of 0 attempts] by auto
  then show ?thesis unfolding failure_run_def by (simp add: watch_ends watch_start_def)
qed

section \<open>What reaches the terminal\<close>

definition safe_rune :: "nat \<Rightarrow> bool" where
  "safe_rune r \<longleftrightarrow> valid_rune r \<and> (r \<ge> 32 \<or> r = 9)"

definition safe_text :: "string \<Rightarrow> bool" where
  "safe_text s \<longleftrightarrow> (\<exists>rs. s = rune_string rs \<and> (\<forall>r \<in> set rs. safe_rune r))"

lemma rune_string_append: "rune_string (rs @ rs') = rune_string rs @ rune_string rs'"
  by (simp add: rune_string_def)

lemma safe_textI: "(\<And>r. r \<in> set rs \<Longrightarrow> safe_rune r) \<Longrightarrow> safe_text (rune_string rs)"
  by (auto simp: safe_text_def)

lemma safe_append [intro]: "safe_text s \<Longrightarrow> safe_text t \<Longrightarrow> safe_text (s @ t)"
proof -
  assume "safe_text s" "safe_text t"
  then obtain rs rs' where "s @ t = rune_string (rs @ rs') \<and> (\<forall>r \<in> set (rs @ rs'). safe_rune r)"
    by (auto simp: safe_text_def rune_string_append)
  then show ?thesis unfolding safe_text_def by blast
qed

lemma safe_runes: "safe_text s \<Longrightarrow> r \<in> set (runes s) \<Longrightarrow> safe_rune r"
  by (auto simp: safe_text_def runes_rune_string safe_rune_def)

lemma ascii_rune_string: "list_all (\<lambda>ch. of_char ch < (0x80 :: nat)) s \<Longrightarrow> rune_string (map of_char s) = s"
  by (induction s) (auto simp: rune_string_def encode_rune_def)

lemma safe_ascii: "list_all (\<lambda>ch. of_char ch < (0x80 :: nat) \<and> (of_char ch \<ge> (32 :: nat) \<or> of_char ch = (9 :: nat))) s \<Longrightarrow> safe_text s"
proof -
  assume ok: "list_all (\<lambda>ch. of_char ch < (0x80 :: nat) \<and> (of_char ch \<ge> (32 :: nat) \<or> of_char ch = (9 :: nat))) s"
  then have "rune_string (map of_char s) = s" by (intro ascii_rune_string) (auto simp: list_all_iff)
  moreover have "\<forall>r \<in> set (map of_char s). safe_rune r" using ok by (auto simp: list_all_iff safe_rune_def valid_rune_def)
  ultimately show ?thesis unfolding safe_text_def by metis
qed

lemma safe_sanitize [intro]: "safe_text (sanitizeForTerminal s)"
  unfolding sanitizeForTerminal_def by (rule safe_textI) (auto simp: safe_rune_def runes_valid)

lemma safe_truncate: "safe_text s \<Longrightarrow> safe_text (truncate_runes n s)"
proof -
  assume s: "safe_text s"
  have "safe_text (rune_string (take m (runes s)))" for m
    by (rule safe_textI) (auto dest: in_set_takeD safe_runes [OF s])
  moreover have "safe_text ''...''" by (rule safe_ascii) simp
  ultimately show ?thesis using s by (auto simp: truncate_runes_def)
qed

lemma safe_spaces [intro]: "safe_text (replicate n (CHR '' ''))"
  by (rule safe_ascii) (simp add: list_all_iff)

lemma safe_pad: "safe_text s \<Longrightarrow> safe_text (pad_right n s)"
  unfolding pad_right_def by blast

lemma safe_pad_cells: "list_all safe_text cells \<Longrightarrow> list_all safe_text (pad_cells ws cells)"
  by (induction ws cells rule: pad_cells.induct) (auto simp: safe_pad)

lemma safe_join: "safe_text sep \<Longrightarrow> list_all safe_text xs \<Longrightarrow> safe_text (str_join sep xs)"
proof (induction xs rule: str_join.induct [of _ sep])
  case 1
  show ?case by (simp add: safe_ascii)
qed auto

lemma safe_itoa: "safe_text (itoa n)"
proof (rule safe_ascii, induction n rule: itoa.induct)
  case (1 n)
  have "m < 10 \<Longrightarrow> (48 + m) mod 256 = 48 + m" for m :: nat by simp
  then show ?case using 1 by (subst itoa.simps) (auto simp: of_char_of)
qed

lemma safe_formatAge: "safe_text (formatAgeFrom days t now)"
proof -
  have "safe_text ''<unknown>''" "safe_text ''0s''" "safe_text ''s''" "safe_text ''m''" "safe_text ''h''" "safe_text ''d''"
    by (rule safe_ascii, simp)+
  then show ?thesis by (auto simp: formatAgeFrom_def Let_def safe_itoa split: option.splits)
qed

lemma safe_stream_cells: "list_all safe_text (stream_cells days now showNamespace e)"
proof -
  have "safe_text ''/''" by (rule safe_ascii) simp
  then have "safe_text (sanitizeForTerminal (eiKind e) @ ''/'' @ sanitizeForTerminal (eiName e))" by (intro safe_append safe_sanitize)
  then show ?thesis
    by (auto simp: stream_cells_def truncateField_def truncateMessage_def safe_truncate safe_sanitize safe_formatAge safe_itoa safe_append)
qed

lemma safe_text_runes: "safe_text s \<Longrightarrow> list_all (\<lambda>r. r \<ge> 32 \<or> r = 9) (runes s)"
  by (auto simp: list_all_iff safe_rune_def dest: safe_runes)

lemma encode_rune_above: "b \<in> set (encode_rune r) \<Longrightarrow> r \<ge> 32 \<or> r = 9 \<Longrightarrow> b \<ge> 32 \<or> b = 9"
  by (auto simp: encode_rune_def split: if_splits)

lemma safe_text_bytes: "safe_text s \<Longrightarrow> list_all (\<lambda>ch. of_char ch \<ge> (32 :: nat) \<or> of_char ch = (9 :: nat)) s"
proof -
  assume "safe_text s"
  then obtain rs where s: "s = rune_string rs" and rs: "\<forall>r \<in> set rs. safe_rune r" by (auto simp: safe_text_def)
  have "b \<ge> 32 \<or> b = 9" if "b \<in> set (concat (map encode_rune rs))" for b
    using that rs encode_rune_above by (auto simp: safe_rune_def)
  then have "\<forall>ch \<in> set s. of_char ch \<ge> (32 :: nat) \<or> of_char ch = (9 :: nat)"
    using encode_rune_byte by (fastforce simp: s rune_string_def of_char_of)
  then show ?thesis by (simp add: list_all_iff)
qed

text \<open>
  C27. The line printed for an event ends with its only newline, and no byte before it is below 32 except for tabs: so nothing in a
  reason, a message or a name brings an ESC, a carriage return or a newline to the terminal. The text of the cells is cut between
  characters, so the line is valid UTF-8. (DEL and the controls U+0080 to U+009F are printed, see below.)
\<close>

theorem event_line_safe:
  "\<exists>s. writeEvent days now showNamespace e = s @ nl \<and> list_all (\<lambda>ch. of_char ch \<ge> (32 :: nat) \<or> of_char ch = (9 :: nat)) s
     \<and> rune_string (runes s) = s"
proof -
  let ?s = "str_join ''  '' (pad_cells (stream_widths showNamespace) (stream_cells days now showNamespace e))"
  have "safe_text ''  ''" by (rule safe_ascii) simp
  then have safe: "safe_text ?s" by (intro safe_join safe_pad_cells safe_stream_cells)
  then obtain rs where "?s = rune_string rs" "\<forall>r \<in> set rs. valid_rune r" by (auto simp: safe_text_def safe_rune_def)
  then have "rune_string (runes ?s) = ?s" by (simp add: runes_rune_string)
  then show ?thesis using safe_text_bytes [OF safe] unfolding writeEvent_def stream_line_def by blast
qed

text \<open>The controls of the second block, U+0080 to U+009F, are kept: U+009B alone introduces an escape sequence on terminals that honour it.\<close>

lemma c1_control_kept: "sanitizeForTerminal [CHR 0xC2, CHR 0x9B, CHR ''3'', CHR ''1'', CHR ''m''] = [CHR 0xC2, CHR 0x9B, CHR ''3'', CHR ''1'', CHR ''m'']"
  by (simp add: sanitizeForTerminal_def csi_rest_def runes_def continuation_def rune_string_def encode_rune_def char_of_def bit_Suc_0_iff)

section \<open>Resource versions\<close>

text \<open>
  A session that delivers no event objects, as the one after an expired resource version does (an error object, then the close), leaves
  the resource version of the next attempt as it was.
\<close>

lemma no_objects_version:
  "list_all (\<lambda>ev. weObject ev = None) evs \<Longrightarrow> fst (processWatchEvents has c cutoff evs lastRV st) = lastRV"
  by (induction evs arbitrary: lastRV st) (auto simp: Let_def extractValidEvent_def)

lemma filtered_out: "snd (extractValidEvent has c cutoff ev st) = st' \<Longrightarrow> wsOut st' = wsOut st"
  by (auto simp: extractValidEvent_def checkEventMatchesComponentCached_def Let_def split: option.splits sum.splits prod.splits if_splits)

end
