(* ===== verification/TaskSteps.thy ===== *)
theory TaskSteps
  imports MigrateTask
begin

text \<open>
  Tasks that work through a list of resources: a state is that of the cluster with the recorder, and a step is recorded below a
  parent. The reader of a waiting loop only reads; \<open>pollUntil\<close> stands for \<open>wait.PollUntilContextTimeout\<close>.
\<close>

type_synonym 's task_state = "'s \<times> recorder"

definition open_step :: "int \<Rightarrow> nat \<Rightarrow> string \<Rightarrow> string \<Rightarrow> 's task_state \<Rightarrow> 's task_state \<times> nat" where
  "open_step now p name description st = (case RecChild now (snd st) p name description of (r, q) \<Rightarrow> ((fst st, r), q))"

definition close_step :: "nat \<Rightarrow> StepStatus \<Rightarrow> string \<Rightarrow> 's task_state \<Rightarrow> 's task_state" where
  "close_step p status message st = (fst st, RecCompletef (snd st) p status message)"

definition note_step :: "int \<Rightarrow> nat \<Rightarrow> string \<Rightarrow> string \<Rightarrow> StepStatus \<Rightarrow> 's task_state \<Rightarrow> 's task_state" where
  "note_step now p name message status st = (fst st, RecRecordf now (snd st) p name message status)"

definition on_cluster :: "('s \<Rightarrow> 's \<times> 'a) \<Rightarrow> 's task_state \<Rightarrow> 's task_state \<times> 'a" where
  "on_cluster f st = (case f (fst st) of (s, x) \<Rightarrow> ((s, snd st), x))"

text \<open>The result of a task: that of the recorder, or an error without a result.\<close>

definition build_result :: "'s task_state \<Rightarrow> 's \<times> ActionResult option \<times> err option" where
  "build_result st = (fst st, Some (RecBuild (snd st) 0), None)"

definition task_error :: "err \<Rightarrow> 's task_state \<Rightarrow> 's \<times> ActionResult option \<times> err option" where
  "task_error e st = (fst st, None, Some e)"

type_synonym 's poll_until = "('s \<Rightarrow> err + bool) \<Rightarrow> 's \<Rightarrow> 's \<times> err option"

text \<open>Waiting on a cluster that records writes.\<close>

definition logged_poll :: "'s poll_until \<Rightarrow> ('s \<times> cluster_write list) poll_until" where
  "logged_poll pollUntil f st = (case pollUntil (\<lambda>s. f (s, snd st)) (fst st) of (s', e) \<Rightarrow> ((s', snd st), e))"

section \<open>Lemmas\<close>

lemma step_states [simp]:
  "fst (fst (open_step now p name description st)) = fst st"
  "fst (close_step p status message st) = fst st"
  "fst (note_step now p name message status st) = fst st"
  by (auto simp: open_step_def close_step_def note_step_def split: prod.splits)

lemma open_stepD: "open_step now p name description st = (st', q) \<Longrightarrow> fst st' = fst st"
  using step_states(1) [of now p name description st] by simp

lemma on_clusterD: "on_cluster f st = (st', x) \<Longrightarrow> f (fst st) = (fst st', x)"
  by (auto simp: on_cluster_def split: prod.splits)

lemma fst_results [simp]: "fst (build_result st) = fst st" "fst (task_error e st) = fst st"
  by (simp_all add: build_result_def task_error_def)

end
