(* ===== verification/WorkbenchAuth.thy ===== *)
theory WorkbenchAuth
  imports TaskSteps BackupWriter KueueIntegrity
begin

text \<open>
  The migrations of workbenches from the OAuth proxy to kube-rbac-proxy: \<open>pkg/migrate/actions/workbenches\<close> with the actions
  \<open>authmodel\<close> (patch.go, lifecycle.go, run_task.go, prepare_task.go) and \<open>cleanup\<close>. A step of a task works on the state of the
  cluster and the recorder; lines printed beside the recorder are left out. \<open>wait.PollUntilContextTimeout\<close> and the encoder of JSON
  are arguments, as is the text of the present time.
\<close>

section \<open>Scope (\<open>options.go\<close>)\<close>

record SharedScopeOptions =
  WorkbenchNamespace :: string
  WorkbenchName :: string

definition ScopeValidate :: "SharedScopeOptions \<Rightarrow> err option" where
  "ScopeValidate o' =
     (if WorkbenchName o' \<noteq> [] \<and> WorkbenchNamespace o' = [] then Some (NewError ''--workbench-name requires --workbench-namespace'') else None)"

definition ListNotebooks :: "'s cluster \<Rightarrow> SharedScopeOptions \<Rightarrow> 's \<Rightarrow> err + json list" where
  "ListNotebooks cl o' s =
     (if WorkbenchName o' \<noteq> [] then
        (case clGet cl rt_Notebook (WorkbenchNamespace o') (WorkbenchName o') s of
           Inl e \<Rightarrow> Inl (wrapf (''getting notebook '' @ WorkbenchNamespace o' @ ''/'' @ WorkbenchName o') e)
         | Inr nb \<Rightarrow> Inr [nb])
      else
        (case rdList (clReader cl s) rt_Notebook
            (if WorkbenchNamespace o' \<noteq> [] then WithNamespace (WorkbenchNamespace o') list_all_config else list_all_config) of
           Inl e \<Rightarrow> Inl (wrapf ''listing notebooks'' e)
         | Inr nbs \<Rightarrow> Inr nbs))"

section \<open>Patches of a notebook (\<open>patch.go\<close>)\<close>

abbreviation annotationInjectAuth :: string where "annotationInjectAuth \<equiv> ''notebooks.opendatahub.io/inject-auth''"
abbreviation annotationInjectOAuth :: string where "annotationInjectOAuth \<equiv> ''notebooks.opendatahub.io/inject-oauth''"
abbreviation annotationOAuthLogoutURL :: string where "annotationOAuthLogoutURL \<equiv> ''notebooks.opendatahub.io/oauth-logout-url''"
abbreviation containerOAuthProxy :: string where "containerOAuthProxy \<equiv> ''oauth-proxy''"
abbreviation finalizerOAuthClient :: string where "finalizerOAuthClient \<equiv> ''notebook-oauth-client-finalizer.opendatahub.io''"
abbreviation envNotebookArgs :: string where "envNotebookArgs \<equiv> ''NOTEBOOK_ARGS''"
abbreviation tornadoSettingsPrefix :: string where "tornadoSettingsPrefix \<equiv> ''--ServerApp.tornado_settings=''"
abbreviation annotationResourceStopped :: string where "annotationResourceStopped \<equiv> ''kubeflow-resource-stopped''"

definition isOAuthVolumeName :: "string \<Rightarrow> bool" where
  "isOAuthVolumeName name \<longleftrightarrow> name \<in> set [''oauth-config'', ''oauth-client'', ''tls-certificates'']"

definition isArgWhitespace :: "char \<Rightarrow> bool" where
  "isArgWhitespace b \<longleftrightarrow> b \<in> set [CHR '' '', CHR 0x09, CHR 0x0A, CHR 0x0D]"

text \<open>The block that starts here: how many bytes until the depth is zero after one of them, all of them otherwise.\<close>

fun brace_length :: "int \<Rightarrow> string \<Rightarrow> nat" where
  "brace_length depth [] = 0"
| "brace_length depth (ch # s) =
     (let d = (if ch = CHR ''{'' then depth + 1 else if ch = CHR ''}'' then depth - 1 else depth) in
      if d = 0 then 1 else Suc (brace_length d s))"

definition findBraceEnd :: "string \<Rightarrow> nat \<Rightarrow> nat" where
  "findBraceEnd s start = start + brace_length 0 (drop start s)"

text \<open>The text after the prefix: how long the value of the argument is.\<close>

definition value_length :: "string \<Rightarrow> nat" where
  "value_length rest =
     (case rest of
        [] \<Rightarrow> 0
      | ch # _ \<Rightarrow> if ch = CHR ''{'' then findBraceEnd rest 0 else length (takeWhile (\<lambda>b. \<not> isArgWhitespace b) rest))"

definition trim_right :: "string \<Rightarrow> string" where
  "trim_right s = rev (dropWhile isArgWhitespace (rev s))"

lemma length_trim_right: "length (trim_right s) \<le> length s"
  by (simp add: trim_right_def) (metis length_dropWhile_le length_rev)

function removeTornadoArg :: "string \<Rightarrow> string" where
  "removeTornadoArg s =
     (case str_index s tornadoSettingsPrefix of
        None \<Rightarrow> s
      | Some idx \<Rightarrow>
          let rest = drop (idx + length tornadoSettingsPrefix) s in
          removeTornadoArg (trim_right (take idx s) @ drop (value_length rest) rest))"
  by pat_completeness auto

termination
proof (relation "measure length")
  fix s idx rest
  assume idx: "str_index s tornadoSettingsPrefix = Some idx" and rest: "rest = drop (idx + length tornadoSettingsPrefix) s"
  from str_index_Some [OF idx] obtain t where s: "s = take idx s @ tornadoSettingsPrefix @ t" and le: "idx \<le> length s" by blast
  have "length s = idx + length tornadoSettingsPrefix + length t"
    using arg_cong [OF s, of length] le by (simp only: length_append length_take min.absorb2)
  then have "length (trim_right (take idx s)) + (length rest - value_length rest) < length s"
    using length_trim_right [of "take idx s"] rest le by simp
  then show "(trim_right (take idx s) @ drop (value_length rest) rest, s) \<in> measure length" by simp
qed simp

declare removeTornadoArg.simps [simp del]

definition q_containers :: string where "q_containers = ''.spec.template.spec.containers''"
definition q_volumes :: string where "q_volumes = ''.spec.template.spec.volumes''"

fun named :: "string \<Rightarrow> json \<Rightarrow> bool" where
  "named name (JObj fs) = (string_or_empty (map_of fs ''name'') = name)"
| "named name _ = False"

fun name_is :: "(string \<Rightarrow> bool) \<Rightarrow> json \<Rightarrow> bool" where
  "name_is P (JObj fs) = P (string_or_empty (map_of fs ''name''))"
| "name_is P _ = False"

text \<open>An environment variable with the setting, and a container that has one.\<close>

fun tornado_env :: "json \<Rightarrow> bool" where
  "tornado_env (JObj fs) =
     (string_or_empty (map_of fs ''name'') = envNotebookArgs \<and> str_contains (string_or_empty (map_of fs ''value'')) tornadoSettingsPrefix)"
| "tornado_env _ = False"

fun tornado_container :: "json \<Rightarrow> bool" where
  "tornado_container (JObj fs) = list_ex tornado_env (slice_or_nil (map_of fs ''env''))"
| "tornado_container _ = False"

definition HasTornadoSettings :: "json list \<Rightarrow> bool" where
  "HasTornadoSettings containers = list_ex tornado_container containers"

definition hasInjectAuthAnnotation :: "json \<Rightarrow> bool" where
  "hasInjectAuthAnnotation nb \<longleftrightarrow> map_get (u_annotations nb) annotationInjectAuth = ''true''"

definition hasOAuthAnnotation :: "json \<Rightarrow> bool" where
  "hasOAuthAnnotation nb \<longleftrightarrow>
     map_of (u_annotations nb) annotationInjectOAuth \<noteq> None \<or> map_of (u_annotations nb) annotationOAuthLogoutURL \<noteq> None"

text \<open>What a query for a list finds, with no entries on an error.\<close>

definition listed :: "gojq \<Rightarrow> json \<Rightarrow> string \<Rightarrow> json list" where
  "listed gq nb q = (case Query gq as_array [] nb q of Inl e \<Rightarrow> [] | Inr xs \<Rightarrow> xs)"

definition hasOAuthProxyContainer :: "gojq \<Rightarrow> json \<Rightarrow> bool" where
  "hasOAuthProxyContainer gq nb = list_ex (named containerOAuthProxy) (listed gq nb q_containers)"

text \<open>\<open>GetFinalizers\<close>: a list with a value that is no string reads as none.\<close>

fun string_list :: "json list \<Rightarrow> string list option" where
  "string_list [] = Some []"
| "string_list (JStr s # vs) = map_option (\<lambda>ss. s # ss) (string_list vs)"
| "string_list _ = None"

definition u_finalizers :: "json \<Rightarrow> string list" where
  "u_finalizers v =
     (case nested_slice [''metadata'', ''finalizers''] v of
        None \<Rightarrow> [] | Some vs \<Rightarrow> (case string_list vs of None \<Rightarrow> [] | Some ss \<Rightarrow> ss))"

definition hasOAuthFinalizer :: "json \<Rightarrow> bool" where
  "hasOAuthFinalizer nb \<longleftrightarrow> finalizerOAuthClient \<in> set (u_finalizers nb)"

definition hasOAuthVolumes :: "gojq \<Rightarrow> json \<Rightarrow> bool" where
  "hasOAuthVolumes gq nb = list_ex (name_is isOAuthVolumeName) (listed gq nb q_volumes)"

definition hasTornadoSettings :: "gojq \<Rightarrow> json \<Rightarrow> bool" where
  "hasTornadoSettings gq nb = HasTornadoSettings (listed gq nb q_containers)"

definition needsAuthModelPatch :: "gojq \<Rightarrow> json \<Rightarrow> bool" where
  "needsAuthModelPatch gq nb \<longleftrightarrow>
     \<not> hasInjectAuthAnnotation nb \<or> hasOAuthAnnotation nb \<or> hasOAuthProxyContainer gq nb \<or> hasOAuthFinalizer nb
     \<or> hasOAuthVolumes gq nb \<or> hasTornadoSettings gq nb"

text \<open>\<open>SetAnnotations\<close>, \<open>SetFinalizers\<close>: nil removes the field.\<close>

definition set_annotations :: "(string, string) gomap \<Rightarrow> json \<Rightarrow> json" where
  "set_annotations m v = set_nested [''metadata'', ''annotations''] (JObj (map (\<lambda>(k, x). (k, JStr x)) m)) v"

definition set_finalizers :: "string list \<Rightarrow> json \<Rightarrow> json" where
  "set_finalizers fs v =
     (if fs = [] then remove_nested [''metadata'', ''finalizers''] v
      else set_nested [''metadata'', ''finalizers''] (JArr (map JStr fs)) v)"

definition addInjectAuthAnnotation :: "json \<Rightarrow> json" where
  "addInjectAuthAnnotation nb = set_annotations (AList.update annotationInjectAuth ''true'' (u_annotations nb)) nb"

definition annotations_or_nil :: "json \<Rightarrow> (string, string) gomap option" where
  "annotations_or_nil v = (case nested [''metadata'', ''annotations''] v of Some (JObj fs) \<Rightarrow> string_map fs | _ \<Rightarrow> None)"

definition removeAnnotation :: "string \<Rightarrow> json \<Rightarrow> json" where
  "removeAnnotation key nb =
     (case annotations_or_nil nb of None \<Rightarrow> nb | Some m \<Rightarrow> set_annotations (AList.delete key m) nb)"

text \<open>The formatted expression assigns the text of the list.\<close>

definition assign_list :: "gojq \<Rightarrow> (json \<Rightarrow> string) \<Rightarrow> string \<Rightarrow> json list \<Rightarrow> json \<Rightarrow> err + json" where
  "assign_list gq marshal q xs nb = Transform gq nb (q @ '' = '' @ marshal (JArr xs))"

definition removeOAuthProxyContainer :: "gojq \<Rightarrow> (json \<Rightarrow> string) \<Rightarrow> json \<Rightarrow> err + json" where
  "removeOAuthProxyContainer gq marshal nb =
     (case Query gq as_array [] nb q_containers of
        Inl e \<Rightarrow> Inl (wrapf ''querying containers'' e)
      | Inr containers \<Rightarrow>
          (case assign_list gq marshal q_containers (filter (\<lambda>c. \<not> named containerOAuthProxy c) containers) nb of
             Inl e \<Rightarrow> Inl (wrapf ''setting containers'' e)
           | Inr nb' \<Rightarrow> Inr nb'))"

definition removeOAuthFinalizer :: "json \<Rightarrow> json" where
  "removeOAuthFinalizer nb =
     (if u_finalizers nb = [] then nb else set_finalizers (filter (\<lambda>f. f \<noteq> finalizerOAuthClient) (u_finalizers nb)) nb)"

definition removeOAuthVolumes :: "gojq \<Rightarrow> (json \<Rightarrow> string) \<Rightarrow> json \<Rightarrow> err + json" where
  "removeOAuthVolumes gq marshal nb =
     (case Query gq as_array [] nb q_volumes of
        Inl e \<Rightarrow> Inl (wrapf ''querying volumes'' e)
      | Inr volumes \<Rightarrow>
          (case assign_list gq marshal q_volumes (filter (\<lambda>v. \<not> name_is isOAuthVolumeName v) volumes) nb of
             Inl e \<Rightarrow> Inl (wrapf ''setting volumes'' e)
           | Inr nb' \<Rightarrow> Inr nb'))"

fun strip_env :: "json \<Rightarrow> json" where
  "strip_env (JObj fs) =
     (if tornado_env (JObj fs)
      then JObj (AList.update ''value'' (JStr (trim_space (removeTornadoArg (string_or_empty (map_of fs ''value''))))) fs)
      else JObj fs)"
| "strip_env v = v"

fun strip_container :: "json \<Rightarrow> json" where
  "strip_container (JObj fs) =
     (case map_of fs ''env'' of
        Some (JArr envVars) \<Rightarrow> JObj (AList.update ''env'' (JArr (map strip_env envVars)) fs)
      | _ \<Rightarrow> JObj fs)"
| "strip_container v = v"

definition stripTornadoSettings :: "gojq \<Rightarrow> (json \<Rightarrow> string) \<Rightarrow> json \<Rightarrow> err + json" where
  "stripTornadoSettings gq marshal nb =
     (case Query gq as_array [] nb q_containers of
        Inl e \<Rightarrow> Inl (wrapf ''querying containers'' e)
      | Inr containers \<Rightarrow>
          if \<not> HasTornadoSettings containers then Inr nb
          else case assign_list gq marshal q_containers (map strip_container containers) nb of
              Inl e \<Rightarrow> Inl (wrapf ''setting containers'' e)
            | Inr nb' \<Rightarrow> Inr nb')"

definition applyAllPatches :: "gojq \<Rightarrow> (json \<Rightarrow> string) \<Rightarrow> json \<Rightarrow> err + json" where
  "applyAllPatches gq marshal nb =
     (case removeOAuthProxyContainer gq marshal
         (removeAnnotation annotationOAuthLogoutURL (removeAnnotation annotationInjectOAuth (addInjectAuthAnnotation nb))) of
        Inl e \<Rightarrow> Inl (wrapf ''removing oauth-proxy container'' e)
      | Inr nb1 \<Rightarrow>
          (case removeOAuthVolumes gq marshal (removeOAuthFinalizer nb1) of
             Inl e \<Rightarrow> Inl (wrapf ''removing OAuth volumes'' e)
           | Inr nb2 \<Rightarrow>
               (case stripTornadoSettings gq marshal nb2 of
                  Inl e \<Rightarrow> Inl (wrapf ''stripping tornado_settings'' e)
                | Inr nb3 \<Rightarrow> Inr nb3)))"

section \<open>Stopping and restarting (\<open>lifecycle.go\<close>)\<close>

definition nb_key :: "json \<Rightarrow> string" where
  "nb_key nb = u_namespace nb @ ''-'' @ u_name nb"

definition nb_label :: "json \<Rightarrow> string" where
  "nb_label nb = u_namespace nb @ ''/'' @ u_name nb"

definition stop_patch :: "json \<Rightarrow> json" where
  "stop_patch v = JObj [(''metadata'', JObj [(''annotations'', JObj [(annotationResourceStopped, v)])])]"

text \<open>\<open>NestedInt64\<close> on \<open>spec.replicas\<close>; the text of its error is shortened.\<close>

definition read_replicas :: "json \<Rightarrow> err + int option" where
  "read_replicas v =
     (let bad = NewError ''.spec.replicas accessor error'' in
      case json_field ''spec'' v of
        None \<Rightarrow> Inr None
      | Some JNull \<Rightarrow> Inr None
      | Some (JObj fs) \<Rightarrow> (case map_of fs ''replicas'' of None \<Rightarrow> Inr None | Some (JNum n) \<Rightarrow> Inr (Some n) | Some w \<Rightarrow> Inl bad)
      | Some w \<Rightarrow> Inl bad)"

definition scaled_down :: "'s cluster \<Rightarrow> string \<Rightarrow> string \<Rightarrow> 's \<Rightarrow> err + bool" where
  "scaled_down cl name namespace s =
     (case clGet cl rt_StatefulSet namespace name s of
        Inl e \<Rightarrow> if rdApi (clReader cl s) IsNotFound e then Inr True
                 else Inl (wrapf (''getting statefulset '' @ namespace @ ''/'' @ name) e)
      | Inr sts \<Rightarrow>
          (case read_replicas sts of
             Inl e \<Rightarrow> Inl (wrapf ''reading spec.replicas'' e)
           | Inr None \<Rightarrow> Inr True
           | Inr (Some n) \<Rightarrow> Inr (n = 0)))"

definition waitForStatefulSetScaleDown :: "'s poll_until \<Rightarrow> 's cluster \<Rightarrow> string \<Rightarrow> string \<Rightarrow> 's \<Rightarrow> 's \<times> err option" where
  "waitForStatefulSetScaleDown pollUntil cl name namespace s =
     (case pollUntil (scaled_down cl name namespace) s of
        (s', e) \<Rightarrow> (s', map_option (wrapf (''waiting for statefulset '' @ namespace @ ''/'' @ name @ '' scale-down'')) e))"

abbreviation MergePatchType :: string where "MergePatchType \<equiv> ''application/merge-patch+json''"

definition stopWorkbench ::
  "'s poll_until \<Rightarrow> 's cluster \<Rightarrow> int \<Rightarrow> string \<Rightarrow> json \<Rightarrow> nat \<Rightarrow> 's task_state \<Rightarrow> 's task_state \<times> err option" where
  "stopWorkbench pollUntil cl now timestamp nb p st =
     (case on_cluster (clPatch cl rt_Notebook (u_namespace nb) (u_name nb) MergePatchType (stop_patch (JStr timestamp))) st of
        (st1, Inl e) \<Rightarrow> (st1, Some (wrapf (''annotating notebook '' @ nb_label nb @ '' for stop'') e))
      | (st1, Inr _) \<Rightarrow>
          (let st2 = note_step now p (''stop-'' @ nb_key nb) (''Stopped '' @ nb_label nb @ '', waiting for scale-down'') StepCompleted st1 in
           case on_cluster (waitForStatefulSetScaleDown pollUntil cl (u_name nb) (u_namespace nb)) st2 of
             (st3, Some e) \<Rightarrow>
               (note_step now p (''wait-'' @ nb_key nb)
                  (''Timed out waiting for StatefulSet '' @ nb_label nb @ '' to scale down: '' @ err_string e) StepFailed st3, Some e)
           | (st3, None) \<Rightarrow> (st3, None)))"

definition restartWorkbench :: "'s cluster \<Rightarrow> int \<Rightarrow> json \<Rightarrow> nat \<Rightarrow> 's task_state \<Rightarrow> 's task_state" where
  "restartWorkbench cl now nb p st =
     (case on_cluster (clPatch cl rt_Notebook (u_namespace nb) (u_name nb) MergePatchType (stop_patch JNull)) st of
        (st1, Inl e) \<Rightarrow>
          note_step now p (''restart-'' @ nb_key nb) (''Failed to restart '' @ nb_label nb @ '': '' @ err_string e) StepFailed st1
      | (st1, Inr _) \<Rightarrow> note_step now p (''restart-'' @ nb_key nb) (''Restarted '' @ nb_label nb) StepCompleted st1)"

definition deleteStatefulSet :: "'s cluster \<Rightarrow> int \<Rightarrow> json \<Rightarrow> nat \<Rightarrow> 's task_state \<Rightarrow> 's task_state \<times> bool" where
  "deleteStatefulSet cl now nb p st =
     (case on_cluster (clDelete cl rt_StatefulSet (u_namespace nb) (u_name nb)) st of
        (st1, Some e) \<Rightarrow>
          if rdApi (clReader cl (fst st1)) IsNotFound e then
            (note_step now p (''delete-sts-'' @ nb_key nb) (''StatefulSet '' @ nb_label nb @ '' already absent'') StepCompleted st1, True)
          else
            (note_step now p (''delete-sts-'' @ nb_key nb)
               (''Failed to delete StatefulSet '' @ nb_label nb @ '': '' @ err_string e) StepFailed st1, False)
      | (st1, None) \<Rightarrow>
          (note_step now p (''delete-sts-'' @ nb_key nb) (''Deleted StatefulSet '' @ nb_label nb) StepCompleted st1, True))"

text \<open>The server writes a time where an object is being deleted.\<close>

definition terminating_pod :: "'s cluster \<Rightarrow> 's \<Rightarrow> json \<Rightarrow> bool" where
  "terminating_pod cl s nb =
     (case clGet cl rt_Pod (u_namespace nb) (u_name nb @ ''-0'') s of
        Inl e \<Rightarrow> False
      | Inr pod \<Rightarrow> nested_string [''metadata'', ''deletionTimestamp''] pod \<noteq> [])"

definition checkKueueTerminatingPods :: "'s cluster \<Rightarrow> int \<Rightarrow> json list \<Rightarrow> nat \<Rightarrow> 's task_state \<Rightarrow> 's task_state \<times> bool" where
  "checkKueueTerminatingPods cl now notebooks p st =
     (case KueueEnabledNamespaces (clReader cl (fst st)) of
        Inl e \<Rightarrow>
          (note_step now p ''kueue-check'' (''Failed to discover Kueue-managed namespaces: '' @ err_string e) StepFailed st, True)
      | Inr namespaces \<Rightarrow>
          (let kueueNotebooks = filter (\<lambda>nb. u_namespace nb \<in> set namespaces) notebooks;
               stuck = filter (terminating_pod cl (fst st)) kueueNotebooks in
           if namespaces = [] \<or> kueueNotebooks = [] then (st, False)
           else if stuck = [] then
             (note_step now p ''kueue-check'' ''No pods stuck in Terminating state in Kueue-managed namespaces'' StepCompleted st, False)
           else
             (note_step now p ''kueue-check''
                (''Found '' @ itoa (length stuck) @ '' pod(s) stuck in Terminating state in Kueue-managed namespaces'') StepFailed st, True)))"

section \<open>Cleaning up (\<open>cleanup/cleanup.go\<close>, \<open>migration_checks.go\<close>)\<close>

text \<open>The messages of the checks a migrated notebook passes; it passes if there is none.\<close>

definition migration_failures :: "gojq \<Rightarrow> json \<Rightarrow> string list" where
  "migration_failures gq nb =
     (let anns = u_annotations nb;
          inject = (if map_get anns annotationInjectAuth \<noteq> ''true'' then
            [''inject-auth annotation missing or not '' @ [CHR 0x27] @ ''true'' @ [CHR 0x27] @ '' (found: '' @ go_quote (map_get anns annotationInjectAuth) @ '')''] else []) in
      case Query gq as_array [] nb q_containers of
        Inl e \<Rightarrow> inject @ [''could not read containers: '' @ err_string e]
      | Inr containers \<Rightarrow>
          (let rbac = list_ex (named ''kube-rbac-proxy'') containers; oauth = list_ex (named containerOAuthProxy) containers in
           inject
           @ (if \<not> rbac then [''kube-rbac-proxy sidecar container missing''] else [])
           @ (if oauth then [''legacy oauth-proxy sidecar still present''] else [])
           @ (case map_of anns annotationInjectOAuth of
                Some v \<Rightarrow> if \<not> rbac \<or> oauth then [''legacy inject-oauth annotation still exists: '' @ go_quote v] else []
              | None \<Rightarrow> [])
           @ (if HasTornadoSettings containers then [''--ServerApp.tornado_settings still present in NOTEBOOK_ARGS''] else [])))"

definition CheckMigrationState :: "gojq \<Rightarrow> json \<Rightarrow> bool \<times> string list" where
  "CheckMigrationState gq nb = (migration_failures gq nb = [], migration_failures gq nb)"

definition resourceLabel :: "ResourceType \<Rightarrow> string \<Rightarrow> string \<Rightarrow> string" where
  "resourceLabel rt name namespace =
     (if namespace \<noteq> [] then rtResource rt @ ''/'' @ name @ '' in namespace '' @ go_quote namespace
      else rtResource rt @ ''/'' @ name @ '' (cluster-scoped)'')"

definition DeleteResourceIfPresent ::
  "'s cluster \<Rightarrow> int \<Rightarrow> bool \<Rightarrow> nat \<Rightarrow> ResourceType \<times> string \<times> string \<Rightarrow> 's task_state \<Rightarrow> 's task_state \<times> bool" where
  "DeleteResourceIfPresent cl now dryRun p res st =
     (case res of (rt, name, namespace) \<Rightarrow>
        let label = resourceLabel rt name namespace; stepID = ''delete-'' @ rtResource rt @ ''-'' @ name in
        if dryRun then (note_step now p stepID (''Would delete '' @ label) StepSkipped st, True)
        else case on_cluster (clDelete cl rt namespace name) st of
            (st1, Some e) \<Rightarrow>
              if rdApi (clReader cl (fst st1)) IsNotFound e then (note_step now p stepID (''Already absent: '' @ label) StepCompleted st1, True)
              else (note_step now p stepID (''Failed to delete '' @ label @ '': '' @ err_string e) StepFailed st1, False)
          | (st1, None) \<Rightarrow> (note_step now p stepID (''Deleted '' @ label) StepCompleted st1, True))"

datatype CleanupResult = CleanupResultCleaned | CleanupResultSkipped | CleanupResultFailed

definition oauth_resources :: "json \<Rightarrow> (ResourceType \<times> string \<times> string) list" where
  "oauth_resources nb =
     (let name = u_name nb; ns = u_namespace nb in
      [(rt_Route, name, ns), (rt_Service, name @ ''-tls'', ns), (rt_Secret, name @ ''-oauth-client'', ns),
       (rt_Secret, name @ ''-oauth-config'', ns), (rt_Secret, name @ ''-tls'', ns),
       (rt_OAuthClient, name @ ''-'' @ ns @ ''-oauth-client'', [])])"

fun delete_each :: "'s cluster \<Rightarrow> int \<Rightarrow> bool \<Rightarrow> nat \<Rightarrow> (ResourceType \<times> string \<times> string) list \<Rightarrow> 's task_state \<Rightarrow> 's task_state \<times> bool" where
  "delete_each cl now dryRun p [] st = (st, True)"
| "delete_each cl now dryRun p (r # rs) st =
     (case DeleteResourceIfPresent cl now dryRun p r st of (st1, ok) \<Rightarrow>
      case delete_each cl now dryRun p rs st1 of (st2, ok') \<Rightarrow> (st2, ok \<and> ok'))"

definition deleteOAuthResources :: "'s cluster \<Rightarrow> int \<Rightarrow> bool \<Rightarrow> json \<Rightarrow> nat \<Rightarrow> 's task_state \<Rightarrow> 's task_state \<times> CleanupResult" where
  "deleteOAuthResources cl now dryRun nb p st =
     (case delete_each cl now dryRun p (oauth_resources nb) st of
        (st1, False) \<Rightarrow> (close_step p StepFailed (''Cleanup partially failed for '' @ nb_label nb) st1, CleanupResultFailed)
      | (st1, True) \<Rightarrow>
          (if dryRun then close_step p StepSkipped (''Would clean up OAuth resources for '' @ nb_label nb) st1
           else close_step p StepCompleted (''Cleaned up OAuth resources for '' @ nb_label nb) st1, CleanupResultCleaned))"

definition open_cleanup :: "int \<Rightarrow> json \<Rightarrow> nat \<Rightarrow> 's task_state \<Rightarrow> 's task_state \<times> nat" where
  "open_cleanup now nb p = open_step now p (''cleanup-'' @ nb_key nb) (''Clean up OAuth resources for '' @ nb_label nb)"

definition CleanupNotebookAfterPatch :: "'s cluster \<Rightarrow> int \<Rightarrow> bool \<Rightarrow> json \<Rightarrow> nat \<Rightarrow> 's task_state \<Rightarrow> 's task_state \<times> CleanupResult" where
  "CleanupNotebookAfterPatch cl now dryRun nb p st = (case open_cleanup now nb p st of (st1, q) \<Rightarrow> deleteOAuthResources cl now dryRun nb q st1)"

definition CleanupNotebook :: "'s cluster \<Rightarrow> int \<Rightarrow> MigrateTarget \<Rightarrow> json \<Rightarrow> nat \<Rightarrow> 's task_state \<Rightarrow> 's task_state \<times> CleanupResult" where
  "CleanupNotebook cl now target nb p st =
     (case open_cleanup now nb p st of
        (st1, q) \<Rightarrow>
          (case CheckMigrationState (rdGojq (clReader cl (fst st1))) nb of
             (True, _) \<Rightarrow> deleteOAuthResources cl now (tgDryRun target) nb q st1
           | (False, failures) \<Rightarrow>
               (let st2 = note_step now q ''precheck'' (''Pre-check failed: '' @ str_join ''; '' failures) StepFailed st1 in
                if tgSkipConfirm target then
                  (close_step q StepFailed (''Skipping cleanup for '' @ nb_label nb
                     @ '': notebook has not been migrated to kube-rbac-proxy (run workbenches.patch-auth-model first)'') st2, CleanupResultFailed)
                else case on_cluster (Prompt cl) st2 of
                    (st3, False) \<Rightarrow>
                      (close_step q StepSkipped (''Skipped cleanup for '' @ nb_label nb @ '' (pre-check failed)'') st3, CleanupResultSkipped)
                  | (st3, True) \<Rightarrow>
                      deleteOAuthResources cl now (tgDryRun target) nb q
                        (note_step now q ''precheck-override'' ''Continuing cleanup despite failed pre-checks'' StepCompleted st3))))"

text \<open>The task of the action \<open>workbenches.cleanup-oauth\<close> (\<open>cleanup/run_task.go\<close>); 0 is the root step.\<close>

fun cleanup_checks :: "gojq \<Rightarrow> int \<Rightarrow> nat \<Rightarrow> json list \<Rightarrow> 's task_state \<Rightarrow> 's task_state \<times> nat" where
  "cleanup_checks gq now p [] st = (st, 0)"
| "cleanup_checks gq now p (nb # nbs) st =
     (case CheckMigrationState gq nb of
        (True, _) \<Rightarrow> cleanup_checks gq now p nbs st
      | (False, failures) \<Rightarrow>
          (case cleanup_checks gq now p nbs (note_step now p (''precheck-'' @ nb_key nb)
              (''Pre-check failed for '' @ nb_label nb @ '': '' @ str_join ''; '' failures) StepFailed st) of
             (st', n) \<Rightarrow> (st', Suc n)))"

definition invalid_flags :: "err \<Rightarrow> err" where
  "invalid_flags e = wrapf ''invalid flags'' e"

definition cleanupRun_Validate ::
  "'s cluster \<Rightarrow> int \<Rightarrow> SharedScopeOptions \<Rightarrow> 's task_state \<Rightarrow> 's \<times> ActionResult option \<times> err option" where
  "cleanupRun_Validate cl now scope st =
     (case ScopeValidate scope of
        Some e \<Rightarrow> task_error (invalid_flags e) st
      | None \<Rightarrow>
          (case open_step now 0 ''validate-cleanup-readiness'' ''Validate notebooks are ready for OAuth cleanup'' st of
             (st1, p) \<Rightarrow>
               (case ListNotebooks cl scope (fst st1) of
                  Inl e \<Rightarrow> build_result (close_step p StepFailed (''Failed to list Notebooks: '' @ err_string e) st1)
                | Inr notebooks \<Rightarrow>
                    if notebooks = [] then build_result (close_step p StepCompleted ''No Notebook instances found, nothing to clean up'' st1)
                    else case cleanup_checks (rdGojq (clReader cl (fst st1))) now p notebooks st1 of
                        (st2, failCount) \<Rightarrow> build_result
                          (if failCount > 0 then close_step p StepFailed (itoa failCount @ ''/'' @ itoa (length notebooks)
                             @ '' Notebook(s) failed migration pre-checks; resolve before cleanup'') st2
                           else close_step p StepCompleted (''All '' @ itoa (length notebooks)
                             @ '' Notebook(s) passed migration pre-checks and are ready for cleanup'') st2))))"

text \<open>How many were cleaned, skipped and failed.\<close>

fun cleanup_loop :: "'s cluster \<Rightarrow> int \<Rightarrow> MigrateTarget \<Rightarrow> json list \<Rightarrow> 's task_state \<Rightarrow> 's task_state \<times> nat \<times> nat \<times> nat" where
  "cleanup_loop cl now target [] st = (st, 0, 0, 0)"
| "cleanup_loop cl now target (nb # nbs) st =
     (case CleanupNotebook cl now target nb 0 st of (st1, r) \<Rightarrow>
      case cleanup_loop cl now target nbs st1 of (st2, cleaned, skipped, failed) \<Rightarrow>
        (st2, if r = CleanupResultCleaned then Suc cleaned else cleaned, if r = CleanupResultSkipped then Suc skipped else skipped,
         if r = CleanupResultFailed then Suc failed else failed))"

definition confirmed :: "'s cluster \<Rightarrow> MigrateTarget \<Rightarrow> 's task_state \<Rightarrow> 's task_state \<times> bool" where
  "confirmed cl target st = (if tgSkipConfirm target then (st, True) else on_cluster (Prompt cl) st)"

definition cleanup_summary :: "int \<Rightarrow> MigrateTarget \<Rightarrow> nat \<Rightarrow> nat \<Rightarrow> nat \<Rightarrow> nat \<Rightarrow> 's task_state \<Rightarrow> 's task_state" where
  "cleanup_summary now target n cleaned skipped failed st =
     (case open_step now 0 ''cleanup-summary'' ''Cleanup summary'' st of
        (st1, q) \<Rightarrow>
          if failed > 0 then close_step q StepFailed (''Cleaned '' @ itoa cleaned @ '', skipped '' @ itoa skipped @ '', failed '' @ itoa failed
            @ '' out of '' @ itoa n @ '' Notebook(s)'') st1
          else if tgDryRun target then
            close_step q StepSkipped (''Would clean up OAuth resources for '' @ itoa (n - skipped) @ '' Notebook(s)'') st1
          else close_step q StepCompleted (''Cleaned '' @ itoa cleaned @ '', skipped '' @ itoa skipped @ '' out of '' @ itoa n
            @ '' Notebook(s)'') st1)"

definition cleanupRun_Execute ::
  "'s cluster \<Rightarrow> int \<Rightarrow> SharedScopeOptions \<Rightarrow> MigrateTarget \<Rightarrow> 's task_state \<Rightarrow> 's \<times> ActionResult option \<times> err option" where
  "cleanupRun_Execute cl now scope target st =
     (case ScopeValidate scope of
        Some e \<Rightarrow> task_error (invalid_flags e) st
      | None \<Rightarrow>
          (case open_step now 0 ''discover-notebooks'' ''Discover notebooks for OAuth cleanup'' st of
             (st1, p) \<Rightarrow>
               (case ListNotebooks cl scope (fst st1) of
                  Inl e \<Rightarrow> build_result (close_step p StepFailed (''Failed to list Notebooks: '' @ err_string e) st1)
                | Inr notebooks \<Rightarrow>
                    if notebooks = [] then build_result (close_step p StepCompleted ''No Notebook instances found, nothing to clean up'' st1)
                    else
                      (let st2 = close_step p StepCompleted (''Found '' @ itoa (length notebooks) @ '' Notebook(s) for cleanup'') st1 in
                       case (if tgDryRun target then (st2, True) else confirmed cl target st2) of
                         (st3, False) \<Rightarrow> build_result (note_step now 0 ''cleanup-cancelled'' ''User cancelled cleanup'' StepSkipped st3)
                       | (st3, True) \<Rightarrow>
                           (case cleanup_loop cl now target notebooks st3 of
                              (st4, cleaned, skipped, failed) \<Rightarrow>
                                build_result (cleanup_summary now target (length notebooks) cleaned skipped failed st4))))))"

section \<open>The task of \<open>workbenches.patch-auth-model\<close> (\<open>authmodel/run_task.go\<close>)\<close>

record PatchAuthModelAction =
  paScope :: SharedScopeOptions
  SkipStop :: bool
  OnlyStopped :: bool
  WithCleanup :: bool

definition isStopped :: "json \<Rightarrow> bool" where
  "isStopped nb \<longleftrightarrow> map_get (u_annotations nb) annotationResourceStopped \<noteq> []"

definition validateFlags :: "PatchAuthModelAction \<Rightarrow> err option" where
  "validateFlags a =
     (case ScopeValidate (paScope a) of
        Some e \<Rightarrow> Some (invalid_flags e)
      | None \<Rightarrow> if SkipStop a \<and> OnlyStopped a then Some (NewError ''--skip-stop and --only-stopped are mutually exclusive'') else None)"

definition classifyNotebooks :: "gojq \<Rightarrow> json list \<Rightarrow> json list \<times> json list" where
  "classifyNotebooks gq nbs = (filter (needsAuthModelPatch gq) nbs, filter (\<lambda>nb. \<not> needsAuthModelPatch gq nb) nbs)"

definition authRun_Validate ::
  "'s cluster \<Rightarrow> int \<Rightarrow> PatchAuthModelAction \<Rightarrow> 's task_state \<Rightarrow> 's \<times> ActionResult option \<times> err option" where
  "authRun_Validate cl now a st =
     (case validateFlags a of
        Some e \<Rightarrow> task_error e st
      | None \<Rightarrow>
          (case open_step now 0 ''validate-auth-model-patch'' ''Validate notebooks for auth model patch'' st of
             (st1, p) \<Rightarrow>
               (case ListNotebooks cl (paScope a) (fst st1) of
                  Inl e \<Rightarrow> build_result (close_step p StepFailed (''Failed to list Notebooks: '' @ err_string e) st1)
                | Inr notebooks \<Rightarrow>
                    if notebooks = [] then build_result (close_step p StepCompleted ''No Notebook instances found'' st1)
                    else case classifyNotebooks (rdGojq (clReader cl (fst st1))) notebooks of
                        (toPatch, already) \<Rightarrow> build_result
                          (if toPatch = [] then close_step p StepCompleted (''All '' @ itoa (length already)
                             @ '' Notebook(s) already patched for 3.x auth model'') st1
                           else close_step p StepCompleted (''Found '' @ itoa (length toPatch) @ '' Notebook(s) needing auth model patch, ''
                             @ itoa (length already) @ '' already patched'') st1))))"

text \<open>The default mode: the notebooks to patch, as they are after stopping, and those that were stopped.\<close>

fun stop_loop ::
  "'s poll_until \<Rightarrow> 's cluster \<Rightarrow> int \<Rightarrow> string \<Rightarrow> bool \<Rightarrow> nat \<Rightarrow> json list \<Rightarrow> 's task_state \<Rightarrow> 's task_state \<times> json list \<times> json list" where
  "stop_loop pollUntil cl now ts dryRun p [] st = (st, [], [])"
| "stop_loop pollUntil cl now ts dryRun p (nb # nbs) st =
     (if isStopped nb then
        (case stop_loop pollUntil cl now ts dryRun p nbs st of (st', ps, ss) \<Rightarrow> (st', nb # ps, ss))
      else if dryRun then
        (case stop_loop pollUntil cl now ts dryRun p nbs (note_step now p (''would-stop-'' @ nb_key nb)
            (''Would stop '' @ nb_label nb @ '' before patching'') StepSkipped st) of (st', ps, ss) \<Rightarrow> (st', nb # ps, ss))
      else case stopWorkbench pollUntil cl now ts nb p st of
          (st1, Some e) \<Rightarrow>
            stop_loop pollUntil cl now ts dryRun p nbs (note_step now p (''stop-failed-'' @ nb_key nb)
              (''Failed to stop '' @ nb_label nb @ '', skipping: '' @ err_string e) StepFailed st1)
        | (st1, None) \<Rightarrow>
            (case clGet cl rt_Notebook (u_namespace nb) (u_name nb) (fst st1) of
               Inl e \<Rightarrow>
                 (case stop_loop pollUntil cl now ts dryRun p nbs (note_step now p (''refetch-failed-'' @ nb_key nb)
                     (''Failed to re-fetch '' @ nb_label nb @ '' after stop, skipping patch: '' @ err_string e) StepFailed st1) of
                    (st', ps, ss) \<Rightarrow> (st', ps, nb # ss))
             | Inr refreshed \<Rightarrow>
                 (case stop_loop pollUntil cl now ts dryRun p nbs st1 of (st', ps, ss) \<Rightarrow> (st', refreshed # ps, refreshed # ss))))"

definition handleLifecycle ::
  "'s poll_until \<Rightarrow> 's cluster \<Rightarrow> int \<Rightarrow> string \<Rightarrow> PatchAuthModelAction \<Rightarrow> bool \<Rightarrow> json list \<Rightarrow> 's task_state
     \<Rightarrow> 's task_state \<times> json list \<times> json list" where
  "handleLifecycle pollUntil cl now ts a dryRun nbs st =
     (if OnlyStopped a then
        (case open_step now 0 ''filter-stopped'' ''Filter to stopped workbenches only'' st of
           (st1, p) \<Rightarrow>
             (let stopped = filter isStopped nbs; running = filter (\<lambda>nb. \<not> isStopped nb) nbs in
              (if running \<noteq> [] then close_step p StepCompleted (''Skipping '' @ itoa (length running)
                 @ '' running Notebook(s), proceeding with '' @ itoa (length stopped) @ '' stopped'') st1
               else close_step p StepCompleted (''All '' @ itoa (length stopped) @ '' Notebook(s) are stopped'') st1, stopped, [])))
      else if SkipStop a then (st, nbs, [])
      else
        (case open_step now 0 ''auto-stop-workbenches'' ''Stop running workbenches before patching'' st of
           (st1, p) \<Rightarrow>
             (case stop_loop pollUntil cl now ts dryRun p nbs st1 of
                (st2, ps, ss) \<Rightarrow>
                  (if ss \<noteq> [] then close_step p StepCompleted (''Stopped '' @ itoa (length ss) @ '' running Notebook(s)'') st2
                   else close_step p StepCompleted ''No running Notebooks required stopping'' st2, ps, ss))))"

definition reportDryRun :: "int \<Rightarrow> json list \<Rightarrow> 's task_state \<Rightarrow> 's task_state" where
  "reportDryRun now toPatch st =
     (case open_step now 0 ''dry-run-report'' ''Dry-run: planned operations'' st of
        (st1, p) \<Rightarrow> close_step p StepSkipped (''Would patch '' @ itoa (length toPatch) @ '' Notebook(s)'')
          (fold (\<lambda>nb. note_step now p (''would-patch-'' @ nb_key nb) (''Would patch '' @ nb_label nb
             @ '': set inject-auth, remove oauth-proxy/volumes/finalizer/annotations/tornado_settings, delete StatefulSet'') StepSkipped)
             toPatch st1))"

text \<open>One notebook: the notebook as it was written, unless something failed.\<close>

definition patch_notebook ::
  "(json \<Rightarrow> string) \<Rightarrow> 's cluster \<Rightarrow> int \<Rightarrow> nat \<Rightarrow> json \<Rightarrow> 's task_state \<Rightarrow> 's task_state \<times> json option" where
  "patch_notebook marshal cl now p nb st =
     (case open_step now p (''patch-'' @ nb_key nb) (''Patch '' @ nb_label nb) st of
        (st1, q) \<Rightarrow>
          (case applyAllPatches (rdGojq (clReader cl (fst st1))) marshal nb of
             Inl e \<Rightarrow> (close_step q StepFailed (''Failed to apply patches to '' @ nb_label nb @ '': '' @ err_string e) st1, None)
           | Inr modified \<Rightarrow>
               (case on_cluster (clUpdate cl rt_Notebook (u_namespace nb) modified) st1 of
                  (st2, Inl e) \<Rightarrow> (close_step q StepFailed (''Failed to update '' @ nb_label nb @ '': '' @ err_string e) st2, None)
                | (st2, Inr _) \<Rightarrow>
                    (case deleteStatefulSet cl now nb q (note_step now q ''patch-applied'' (''Auth model patch applied to '' @ nb_label nb)
                        StepCompleted st2) of
                       (st3, False) \<Rightarrow> (close_step q StepFailed (''Patched '' @ nb_label nb
                          @ '' but StatefulSet deletion failed, may reconcile with old spec until controller catches up'') st3, None)
                     | (st3, True) \<Rightarrow> (close_step q StepCompleted (''Patched '' @ nb_label nb) st3, Some modified)))))"

fun patch_loop ::
  "(json \<Rightarrow> string) \<Rightarrow> 's cluster \<Rightarrow> int \<Rightarrow> nat \<Rightarrow> json list \<Rightarrow> 's task_state \<Rightarrow> 's task_state \<times> json list" where
  "patch_loop marshal cl now p [] st = (st, [])"
| "patch_loop marshal cl now p (nb # nbs) st =
     (case patch_notebook marshal cl now p nb st of (st1, r) \<Rightarrow>
      case patch_loop marshal cl now p nbs st1 of (st2, rs) \<Rightarrow>
        (st2, case r of None \<Rightarrow> rs | Some nb' \<Rightarrow> nb' # rs))"

definition patchNotebooks ::
  "(json \<Rightarrow> string) \<Rightarrow> 's cluster \<Rightarrow> int \<Rightarrow> json list \<Rightarrow> 's task_state \<Rightarrow> 's task_state \<times> json list" where
  "patchNotebooks marshal cl now toPatch st =
     (case open_step now 0 ''patch-auth-model'' ''Patch notebooks for kube-rbac-proxy auth model'' st of
        (st1, p) \<Rightarrow>
          (case patch_loop marshal cl now p toPatch st1 of
             (st2, patched) \<Rightarrow>
               (if length patched < length toPatch then
                  close_step p StepFailed (''Patched '' @ itoa (length patched) @ ''/'' @ itoa (length toPatch) @ '' Notebook(s), ''
                    @ itoa (length toPatch - length patched) @ '' failure(s)'') st2
                else close_step p StepCompleted (''Patched '' @ itoa (length patched) @ '' Notebook(s)'') st2, patched)))"

text \<open>How many were cleaned.\<close>

fun after_patch_loop :: "'s cluster \<Rightarrow> int \<Rightarrow> bool \<Rightarrow> nat \<Rightarrow> json list \<Rightarrow> 's task_state \<Rightarrow> 's task_state \<times> nat" where
  "after_patch_loop cl now dryRun p [] st = (st, 0)"
| "after_patch_loop cl now dryRun p (nb # nbs) st =
     (case clGet cl rt_Notebook (u_namespace nb) (u_name nb) (fst st) of
        Inl e \<Rightarrow> after_patch_loop cl now dryRun p nbs (note_step now p (''refetch-failed-'' @ nb_key nb)
          (''Failed to re-fetch '' @ nb_label nb @ '' for cleanup: '' @ err_string e) StepFailed st)
      | Inr refreshed \<Rightarrow>
          (case CleanupNotebookAfterPatch cl now dryRun refreshed p st of (st1, r) \<Rightarrow>
           case after_patch_loop cl now dryRun p nbs st1 of (st2, n) \<Rightarrow> (st2, if r = CleanupResultCleaned then Suc n else n)))"

definition runCleanup :: "'s cluster \<Rightarrow> int \<Rightarrow> MigrateTarget \<Rightarrow> json list \<Rightarrow> 's task_state \<Rightarrow> 's task_state" where
  "runCleanup cl now target patched st =
     (case (if tgDryRun target then (st, True) else confirmed cl target st) of
        (st1, False) \<Rightarrow> note_step now 0 ''cleanup-cancelled'' ''User cancelled OAuth cleanup'' StepSkipped st1
      | (st1, True) \<Rightarrow>
          (case open_step now 0 ''cleanup-oauth-resources'' ''Clean up legacy OAuth resources'' st1 of
             (st2, p) \<Rightarrow>
               (case after_patch_loop cl now (tgDryRun target) p patched st2 of
                  (st3, cleaned) \<Rightarrow>
                    if cleaned < length patched then
                      close_step p StepFailed (''Cleaned '' @ itoa cleaned @ ''/'' @ itoa (length patched) @ '' Notebook(s), ''
                        @ itoa (length patched - cleaned) @ '' failure(s)'') st3
                    else if tgDryRun target then
                      close_step p StepSkipped (''Would clean up OAuth resources for '' @ itoa (length patched) @ '' Notebook(s)'') st3
                    else close_step p StepCompleted (''Cleaned up OAuth resources for '' @ itoa cleaned @ '' Notebook(s)'') st3)))"

definition restartNotebooks :: "'s cluster \<Rightarrow> int \<Rightarrow> json list \<Rightarrow> 's task_state \<Rightarrow> 's task_state" where
  "restartNotebooks cl now stopped st =
     (if stopped = [] then st
      else case open_step now 0 ''restart-workbenches'' ''Restart workbenches stopped by this action'' st of
          (st1, p) \<Rightarrow> close_step p StepCompleted (''Restart complete for '' @ itoa (length stopped) @ '' Notebook(s)'')
            (fold (\<lambda>nb. restartWorkbench cl now nb p) stopped st1))"

definition after_patching :: "'s cluster \<Rightarrow> int \<Rightarrow> PatchAuthModelAction \<Rightarrow> MigrateTarget \<Rightarrow> json list \<Rightarrow> json list \<Rightarrow> 's task_state \<Rightarrow> 's task_state" where
  "after_patching cl now a target patched stopped st =
     (let st1 = (if WithCleanup a \<and> patched \<noteq> [] then runCleanup cl now target patched st else st);
          st2 = restartNotebooks cl now stopped st1 in
      if SkipStop a \<and> patched \<noteq> [] then
        (case open_step now 0 ''check-kueue-terminating'' ''Check for Kueue finalizer conflicts'' st2 of
           (st3, p) \<Rightarrow>
             (case checkKueueTerminatingPods cl now patched p st3 of
                (st4, True) \<Rightarrow> close_step p StepFailed ''Kueue finalizer conflicts detected'' st4
              | (st4, False) \<Rightarrow> close_step p StepCompleted ''Kueue terminating pod check complete'' st4))
      else st2)"

definition authRun_Execute ::
  "'s poll_until \<Rightarrow> (json \<Rightarrow> string) \<Rightarrow> 's cluster \<Rightarrow> int \<Rightarrow> string \<Rightarrow> PatchAuthModelAction \<Rightarrow> MigrateTarget \<Rightarrow> 's task_state
     \<Rightarrow> 's \<times> ActionResult option \<times> err option" where
  "authRun_Execute pollUntil marshal cl now ts a target st =
     (case validateFlags a of
        Some e \<Rightarrow> task_error e st
      | None \<Rightarrow>
          (case open_step now 0 ''discover-notebooks'' ''Discover notebooks for auth model patch'' st of
             (st1, p) \<Rightarrow>
               (case ListNotebooks cl (paScope a) (fst st1) of
                  Inl e \<Rightarrow> build_result (close_step p StepFailed (''Failed to list Notebooks: '' @ err_string e) st1)
                | Inr notebooks \<Rightarrow>
                    if notebooks = [] then build_result (close_step p StepCompleted ''No Notebook instances found, nothing to patch'' st1)
                    else case classifyNotebooks (rdGojq (clReader cl (fst st1))) notebooks of
                        (toPatch, already) \<Rightarrow>
                          (let st2 = close_step p StepCompleted (''Found '' @ itoa (length toPatch) @ '' Notebook(s) needing patch, ''
                                 @ itoa (length already) @ '' already patched'') st1 in
                           if toPatch = [] then build_result st2
                           else case handleLifecycle pollUntil cl now ts a (tgDryRun target) toPatch st2 of
                               (st3, toPatch', stopped) \<Rightarrow>
                                 if toPatch' = [] then build_result (restartNotebooks cl now stopped st3)
                                 else if tgDryRun target then build_result (reportDryRun now toPatch' st3)
                                 else case confirmed cl target st3 of
                                     (st4, False) \<Rightarrow> build_result (restartNotebooks cl now stopped
                                       (note_step now 0 ''patch-cancelled'' ''User cancelled auth model patch'' StepSkipped st4))
                                   | (st4, True) \<Rightarrow>
                                       (case patchNotebooks marshal cl now toPatch' st4 of
                                          (st5, patched) \<Rightarrow> build_result (after_patching cl now a target patched stopped st5))))))"

section \<open>Preparation (\<open>prepare_task.go\<close>)\<close>

definition authPrep_Validate ::
  "'s cluster \<Rightarrow> int \<Rightarrow> PatchAuthModelAction \<Rightarrow> 's task_state \<Rightarrow> 's \<times> ActionResult option \<times> err option" where
  "authPrep_Validate cl now a st =
     (case ScopeValidate (paScope a) of
        Some e \<Rightarrow> task_error (invalid_flags e) st
      | None \<Rightarrow>
          (case open_step now 0 ''validate-patch-readiness'' ''Validate notebooks for auth model patch'' st of
             (st1, p) \<Rightarrow>
               (case ListNotebooks cl (paScope a) (fst st1) of
                  Inl e \<Rightarrow> build_result (close_step p StepFailed (''Failed to list Notebooks: '' @ err_string e) st1)
                | Inr notebooks \<Rightarrow>
                    if notebooks = [] then build_result (close_step p StepCompleted ''No Notebook instances found'' st1)
                    else
                      (let gq = rdGojq (clReader cl (fst st1));
                           needsPatch = length (filter (needsAuthModelPatch gq) notebooks);
                           alreadyPatched = length (filter (\<lambda>nb. \<not> needsAuthModelPatch gq nb) notebooks) in
                       build_result
                         (if needsPatch = 0 then close_step p StepCompleted (''All '' @ itoa alreadyPatched
                            @ '' Notebook(s) already patched for 3.x auth model'') st1
                          else close_step p StepCompleted (''Found '' @ itoa needsPatch @ '' Notebook(s) needing auth model patch, ''
                            @ itoa alreadyPatched @ '' already patched'') st1)))))"

text \<open>The directory of a namespace below the output directory; \<open>order\<close> is the order in which the namespaces are visited.\<close>

definition namespace_dir :: "string \<Rightarrow> path" where
  "namespace_dir ns = (if ns = [] then [] else [ns])"

fun backup_namespaces :: "file_env \<Rightarrow> json list \<Rightarrow> string list \<Rightarrow> fnode option \<Rightarrow> fnode option \<times> (string \<times> err) option" where
  "backup_namespaces fe nbs [] root = (root, None)"
| "backup_namespaces fe nbs (ns # order) root =
     (case WriteResourcesToDir fe (namespace_dir ns) rt_Notebook (filter (\<lambda>nb. u_namespace nb = ns) nbs) root of
        (root', Some e) \<Rightarrow> (root', Some (ns, e))
      | (root', None) \<Rightarrow> backup_namespaces fe nbs order root')"

definition backupNotebooks ::
  "(string list \<Rightarrow> string list) \<Rightarrow> file_env \<Rightarrow> MigrateTarget \<Rightarrow> json list \<Rightarrow> nat \<Rightarrow> fnode option \<Rightarrow> 's task_state
     \<Rightarrow> fnode option \<times> 's task_state \<times> err option" where
  "backupNotebooks order fe target notebooks p root st =
     (if tgDryRun target then
        (root, close_step p StepSkipped (''Would backup '' @ itoa (length notebooks) @ '' Notebook(s) to '' @ tgOutputDir target) st, None)
      else
        (let namespaces = remdups (map u_namespace notebooks) in
         case backup_namespaces fe notebooks (order namespaces) root of
           (root', Some (ns, e)) \<Rightarrow>
             (root', close_step p StepFailed (''Failed to write Notebooks in namespace '' @ ns @ '': '' @ err_string e) st,
              Some (wrapf (''backup failed for namespace '' @ ns) e))
         | (root', None) \<Rightarrow>
             (root', close_step p StepCompleted (''Backed up '' @ itoa (length notebooks) @ '' Notebook(s) across ''
                @ itoa (length namespaces) @ '' namespace(s) to '' @ tgOutputDir target) st, None)))"

definition authPrep_Execute ::
  "(string list \<Rightarrow> string list) \<Rightarrow> file_env \<Rightarrow> 's cluster \<Rightarrow> int \<Rightarrow> PatchAuthModelAction \<Rightarrow> MigrateTarget \<Rightarrow> fnode option \<Rightarrow> 's task_state
     \<Rightarrow> fnode option \<times> 's \<times> ActionResult option \<times> err option" where
  "authPrep_Execute order fe cl now a target root st =
     (case ScopeValidate (paScope a) of
        Some e \<Rightarrow> (root, task_error (invalid_flags e) st)
      | None \<Rightarrow>
          (case open_step now 0 ''backup-notebooks'' ''Backup Notebook resources before auth model patch'' st of
             (st1, p) \<Rightarrow>
               (case ListNotebooks cl (paScope a) (fst st1) of
                  Inl e \<Rightarrow> (root, build_result (close_step p StepFailed (''Failed to list Notebooks: '' @ err_string e) st1))
                | Inr notebooks \<Rightarrow>
                    if notebooks = [] then (root, build_result (close_step p StepCompleted ''No Notebook instances found, nothing to backup'' st1))
                    else
                      (case backupNotebooks order fe target notebooks p root st1 of
                         (root', st2, Some e) \<Rightarrow> (root', task_error (wrapf ''notebook backup failed'' e) st2)
                       | (root', st2, None) \<Rightarrow> (root', build_result st2)))))"

end
