(* ===== verification/WorkbenchTasks.thy ===== *)
theory WorkbenchTasks
  imports WorkbenchAuth
begin

text \<open>
  The other migrations of workbenches: \<open>verify\<close> (checks.go, run_task.go, verify.go), \<open>kueue\<close> and \<open>upgrade\<close> below
  \<open>pkg/migrate/actions/workbenches\<close>. The value of a detail is its JSON text. The check of label values is an argument.
\<close>

section \<open>Details of a step\<close>

definition add_detail :: "nat \<Rightarrow> string \<Rightarrow> string \<Rightarrow> 's task_state \<Rightarrow> 's task_state" where
  "add_detail p key v st = (fst st, RecAddDetail (snd st) p key v)"

definition json_counts :: "(string \<times> nat) list \<Rightarrow> string" where
  "json_counts ks = ''{'' @ str_join '','' (map (\<lambda>(k, n). go_quote k @ '':'' @ itoa n) ks) @ ''}''"

definition json_strings :: "string list \<Rightarrow> string" where
  "json_strings xs = ''['' @ str_join '','' (map go_quote xs) @ '']''"

lemma fst_add_detail [simp]: "fst (add_detail p key v st) = fst st"
  by (simp add: add_detail_def)

section \<open>Verification (\<open>verify/verify.go\<close>, \<open>verify/checks.go\<close>)\<close>

record VerifyMigrationAction =
  vaScope :: SharedScopeOptions
  VerifyPhase :: string

definition validatePhase :: "VerifyMigrationAction \<Rightarrow> err option" where
  "validatePhase a =
     (if VerifyPhase a \<in> set [''migration'', ''cleanup'', ''all'', []] then None
      else Some (NewError (''invalid --verify-phase '' @ go_quote (VerifyPhase a) @ '': must be one of: migration, cleanup, all'')))"

definition effectivePhase :: "VerifyMigrationAction \<Rightarrow> string" where
  "effectivePhase a = (if VerifyPhase a = [] then ''migration'' else VerifyPhase a)"

definition includeMigration :: "VerifyMigrationAction \<Rightarrow> bool" where
  "includeMigration a \<longleftrightarrow> effectivePhase a = ''migration'' \<or> effectivePhase a = ''all''"

definition includeCleanup :: "VerifyMigrationAction \<Rightarrow> bool" where
  "includeCleanup a \<longleftrightarrow> effectivePhase a = ''cleanup'' \<or> effectivePhase a = ''all''"

datatype MigrationStatus = StatusLegacy | StatusMigrated | StatusUnreconciled | StatusInvalid | StatusUnknown

fun migration_status :: "MigrationStatus \<Rightarrow> string" where
  "migration_status StatusLegacy = ''LEGACY''"
| "migration_status StatusMigrated = ''MIGRATED''"
| "migration_status StatusUnreconciled = ''UNRECONCILED''"
| "migration_status StatusInvalid = ''INVALID''"
| "migration_status StatusUnknown = ''UNKNOWN''"

abbreviation StateRunning :: string where "StateRunning \<equiv> ''Running''"
abbreviation StateStopped :: string where "StateStopped \<equiv> ''Stopped''"
abbreviation StateStarting :: string where "StateStarting \<equiv> ''Starting''"
abbreviation StateError :: string where "StateError \<equiv> ''Error''"

definition ClassifyNotebook :: "gojq \<Rightarrow> json \<Rightarrow> MigrationStatus \<times> string" where
  "ClassifyNotebook gq nb =
     (let injectAuth = map_get (u_annotations nb) annotationInjectAuth;
          injectOAuth = map_get (u_annotations nb) annotationInjectOAuth in
      case Query gq as_array [] nb q_containers of
        Inl e \<Rightarrow> (StatusUnknown, ''could not read containers'')
      | Inr containers \<Rightarrow>
          (let hasKubeRBACProxy = list_ex (named ''kube-rbac-proxy'') containers;
               hasOAuthProxy = list_ex (named containerOAuthProxy) containers in
           if hasKubeRBACProxy \<and> hasOAuthProxy then (StatusInvalid, ''both kube-rbac-proxy and oauth-proxy sidecars present'')
           else if hasKubeRBACProxy then
             (StatusMigrated, if injectOAuth = ''true'' then ''leftover inject-oauth annotation'' else [])
           else if hasOAuthProxy then
             (if injectAuth = ''true'' then (StatusUnreconciled, ''inject-auth is set but oauth-proxy sidecar still present'')
              else (StatusLegacy, ''needs migration to 3.x''))
           else (StatusUnknown, ''no auth sidecars found'')))"

definition GetRunningState :: "'s cluster \<Rightarrow> 's \<Rightarrow> json \<Rightarrow> string \<times> string" where
  "GetRunningState cl s nb =
     (let stopped = map_get (u_annotations nb) annotationResourceStopped in
      if stopped \<noteq> [] then (StateStopped, ''since '' @ stopped)
      else case clGet cl rt_Pod (u_namespace nb) (u_name nb @ ''-0'') s of
          Inl e \<Rightarrow>
            if rdApi (clReader cl s) IsNotFound e then (StateStarting, ''no pod yet'')
            else (StateError, ''error checking pod '' @ go_quote (u_name nb @ ''-0'') @ '': '' @ err_string e)
        | Inr pod \<Rightarrow>
            (let phase = nested_string [''status'', ''phase''] pod in
             if phase = ''Running'' then (StateRunning, [])
             else if phase = ''Pending'' then (StateStarting, ''pod pending'')
             else (phase, [])))"

definition resourceExists :: "'s cluster \<Rightarrow> 's \<Rightarrow> ResourceType \<Rightarrow> string \<Rightarrow> string \<Rightarrow> err + bool" where
  "resourceExists cl s rt name namespace =
     (case clGet cl rt namespace name s of
        Inl e \<Rightarrow>
          if rdApi (clReader cl s) IsNotFound e then Inr False
          else Inl (wrapf (''getting '' @ rtResource rt @ '' '' @ go_quote name) e)
      | Inr _ \<Rightarrow> Inr True)"

definition cleanup_label :: "ResourceType \<Rightarrow> string \<Rightarrow> string" where
  "cleanup_label rt name = rtKind rt @ '' '' @ [CHR 0x27] @ name @ [CHR 0x27]"

definition cleanup_failures :: "'s cluster \<Rightarrow> 's \<Rightarrow> json \<Rightarrow> string list" where
  "cleanup_failures cl s nb =
     concat (map (\<lambda>(rt, name, namespace).
        case resourceExists cl s rt name namespace of
          Inl e \<Rightarrow> [''error checking '' @ cleanup_label rt name @ '': '' @ err_string e]
        | Inr True \<Rightarrow> [cleanup_label rt name @ '' still exists'']
        | Inr False \<Rightarrow> []) (oauth_resources nb))"

definition CheckCleanupState :: "'s cluster \<Rightarrow> 's \<Rightarrow> json \<Rightarrow> bool \<times> string list" where
  "CheckCleanupState cl s nb = (cleanup_failures cl s nb = [], cleanup_failures cl s nb)"

text \<open>Counters of the task (\<open>verify/run_task.go\<close>).\<close>

record verifySummary =
  vsLegacy :: nat
  vsMigrated :: nat
  vsUnreconciled :: nat
  vsInvalid :: nat
  vsUnknown :: nat
  vsRunning :: nat
  vsStopped :: nat
  vsStarting :: nat
  vsOther :: nat
  vsClassificationFail :: nat
  vsMigrationPass :: nat
  vsMigrationFail :: nat
  vsCleanupPass :: nat
  vsCleanupFail :: nat

definition newSummary :: verifySummary where
  "newSummary = \<lparr>vsLegacy = 0, vsMigrated = 0, vsUnreconciled = 0, vsInvalid = 0, vsUnknown = 0, vsRunning = 0, vsStopped = 0,
     vsStarting = 0, vsOther = 0, vsClassificationFail = 0, vsMigrationPass = 0, vsMigrationFail = 0, vsCleanupPass = 0, vsCleanupFail = 0\<rparr>"

fun countStatus :: "MigrationStatus \<Rightarrow> verifySummary \<Rightarrow> verifySummary" where
  "countStatus StatusLegacy s = s\<lparr>vsLegacy := Suc (vsLegacy s)\<rparr>"
| "countStatus StatusMigrated s = s\<lparr>vsMigrated := Suc (vsMigrated s)\<rparr>"
| "countStatus StatusUnreconciled s = s\<lparr>vsUnreconciled := Suc (vsUnreconciled s)\<rparr>"
| "countStatus StatusInvalid s = s\<lparr>vsInvalid := Suc (vsInvalid s)\<rparr>"
| "countStatus StatusUnknown s = s\<lparr>vsUnknown := Suc (vsUnknown s)\<rparr>"

definition countRunState :: "string \<Rightarrow> verifySummary \<Rightarrow> verifySummary" where
  "countRunState state s =
     (if state = StateRunning then s\<lparr>vsRunning := Suc (vsRunning s)\<rparr>
      else if state = StateStopped then s\<lparr>vsStopped := Suc (vsStopped s)\<rparr>
      else if state = StateStarting then s\<lparr>vsStarting := Suc (vsStarting s)\<rparr>
      else s\<lparr>vsOther := Suc (vsOther s)\<rparr>)"

definition with_text :: "string \<Rightarrow> string \<Rightarrow> string" where
  "with_text status txt0 = (if txt0 \<noteq> [] then status @ '' ('' @ txt0 @ '')'' else status)"

definition classification_ok :: "MigrationStatus \<Rightarrow> bool" where
  "classification_ok status \<longleftrightarrow> status = StatusMigrated \<or> status = StatusLegacy"

text \<open>A group of checks: the step it records.\<close>

definition note_checks :: "int \<Rightarrow> nat \<Rightarrow> string \<Rightarrow> string \<Rightarrow> bool \<times> string list \<Rightarrow> 's task_state \<Rightarrow> 's task_state" where
  "note_checks now p name kind verdict st =
     (case verdict of
        (True, _) \<Rightarrow> note_step now p name (kind @ '' checks: all passed'') StepCompleted st
      | (False, failures) \<Rightarrow> note_step now p name (kind @ '' checks failed: '' @ str_join ''; '' failures) StepFailed st)"

definition verifyNotebook ::
  "'s cluster \<Rightarrow> int \<Rightarrow> VerifyMigrationAction \<Rightarrow> json \<Rightarrow> 's task_state \<times> verifySummary \<Rightarrow> 's task_state \<times> verifySummary" where
  "verifyNotebook cl now a nb stsum =
     (case stsum of
        (st, sm) \<Rightarrow>
          (case open_step now 0 (''verify-'' @ nb_key nb) (''Verify '' @ nb_label nb) st of
             (st1, p) \<Rightarrow>
               (case ClassifyNotebook (rdGojq (clReader cl (fst st1))) nb of
                  (status, detail) \<Rightarrow>
                    (case GetRunningState cl (fst st1) nb of
                       (runState, runDetail) \<Rightarrow>
                         (let statusMsg = with_text (migration_status status) detail;
                              stateMsg = with_text runState runDetail;
                              ok = classification_ok status;
                              sm1 = countRunState runState (countStatus status sm);
                              sm2 = (if ok then sm1 else sm1\<lparr>vsClassificationFail := Suc (vsClassificationFail sm1)\<rparr>);
                              st2 = note_step now p ''classification'' (''Status: '' @ statusMsg @ '' | State: '' @ stateMsg)
                                (if ok then StepCompleted else StepFailed) st1;
                              migration = CheckMigrationState (rdGojq (clReader cl (fst st1))) nb;
                              st3 = (if includeMigration a then note_checks now p ''migration-checks'' ''Migration'' migration st2 else st2);
                              sm3 = (if includeMigration a then
                                 (if fst migration then sm2\<lparr>vsMigrationPass := Suc (vsMigrationPass sm2)\<rparr>
                                  else sm2\<lparr>vsMigrationFail := Suc (vsMigrationFail sm2)\<rparr>) else sm2);
                              cleaned = CheckCleanupState cl (fst st1) nb;
                              st4 = (if includeCleanup a then note_checks now p ''cleanup-checks'' ''Cleanup'' cleaned st3 else st3);
                              sm4 = (if includeCleanup a then
                                 (if fst cleaned then sm3\<lparr>vsCleanupPass := Suc (vsCleanupPass sm3)\<rparr>
                                  else sm3\<lparr>vsCleanupFail := Suc (vsCleanupFail sm3)\<rparr>) else sm3) in
                          if ok \<and> (includeMigration a \<longrightarrow> fst migration) \<and> (includeCleanup a \<longrightarrow> fst cleaned) then
                            (close_step p StepCompleted (''All checks passed for '' @ nb_label nb @ '' ['' @ statusMsg @ '']'') st4, sm4)
                          else
                            (close_step p StepFailed (''Some checks failed for '' @ nb_label nb @ '' ['' @ statusMsg @ '']'') st4, sm4))))))"

definition totalFailed :: "verifySummary \<Rightarrow> nat" where
  "totalFailed sm = vsClassificationFail sm + vsMigrationFail sm + vsCleanupFail sm"

definition buildSummaryStep :: "int \<Rightarrow> VerifyMigrationAction \<Rightarrow> verifySummary \<Rightarrow> nat \<Rightarrow> 's task_state \<Rightarrow> 's task_state" where
  "buildSummaryStep now a sm n st =
     (case open_step now 0 ''summary'' ''Verification summary'' st of
        (st1, p) \<Rightarrow>
          (let st2 = add_detail p ''byRunState'' (json_counts [(''other'', vsOther sm), (''running'', vsRunning sm),
                 (''starting'', vsStarting sm), (''stopped'', vsStopped sm)])
                 (add_detail p ''byStatus'' (json_counts [(''invalid'', vsInvalid sm), (''legacy'', vsLegacy sm),
                   (''migrated'', vsMigrated sm), (''unknown'', vsUnknown sm), (''unreconciled'', vsUnreconciled sm)])
                   (add_detail p ''total'' (itoa n) st1));
               st3 = (if includeMigration a then add_detail p ''migrationFail'' (itoa (vsMigrationFail sm))
                 (add_detail p ''migrationPass'' (itoa (vsMigrationPass sm)) st2) else st2);
               st4 = (if includeCleanup a then add_detail p ''cleanupFail'' (itoa (vsCleanupFail sm))
                 (add_detail p ''cleanupPass'' (itoa (vsCleanupPass sm)) st3) else st3);
               st5 = (if vsClassificationFail sm > 0 then add_detail p ''classificationFail'' (itoa (vsClassificationFail sm)) st4 else st4) in
           if totalFailed sm > 0 then
             close_step p StepFailed (''Verified '' @ itoa n @ '' Notebook(s): '' @ itoa (totalFailed sm) @ '' with failures'') st5
           else close_step p StepCompleted (''Verified '' @ itoa n @ '' Notebook(s): all checks passed'') st5))"

text \<open>The task records in a recorder of its own; \<open>Validate\<close> is the same.\<close>

definition verifyRun_Execute ::
  "bool \<Rightarrow> 's cluster \<Rightarrow> int \<Rightarrow> VerifyMigrationAction \<Rightarrow> 's \<Rightarrow> 's \<times> ActionResult option \<times> err option" where
  "verifyRun_Execute hasIO cl now a s =
     (case ScopeValidate (vaScope a) of
        Some e \<Rightarrow> (s, None, Some (invalid_flags e))
      | None \<Rightarrow>
          (case validatePhase a of
             Some e \<Rightarrow> (s, None, Some e)
           | None \<Rightarrow>
               (case open_step now 0 ''discover-notebooks'' ''Discover notebooks for migration verification'' (s, NewVerboseRootRecorder hasIO) of
                  (st1, p) \<Rightarrow>
                    (case ListNotebooks cl (vaScope a) (fst st1) of
                       Inl e \<Rightarrow> build_result (close_step p StepFailed (''Failed to list Notebooks: '' @ err_string e) st1)
                     | Inr notebooks \<Rightarrow>
                         if notebooks = [] then build_result (close_step p StepCompleted ''No Notebook instances found'' st1)
                         else
                           (case fold (verifyNotebook cl now a) notebooks
                               (close_step p StepCompleted (''Found '' @ itoa (length notebooks) @ '' Notebook(s) to verify'') st1, newSummary) of
                              (st2, sm) \<Rightarrow> build_result (buildSummaryStep now a sm (length notebooks) st2))))))"

definition verifyRun_Validate ::
  "bool \<Rightarrow> 's cluster \<Rightarrow> int \<Rightarrow> VerifyMigrationAction \<Rightarrow> 's \<Rightarrow> 's \<times> ActionResult option \<times> err option" where
  "verifyRun_Validate = verifyRun_Execute"

section \<open>The label of the queue (\<open>kueue/kueue.go\<close>, \<open>kueue/run_task.go\<close>)\<close>

record AttachKueueLabelAction =
  QueueName :: string
  kaScope :: SharedScopeOptions

definition queueName :: "AttachKueueLabelAction \<Rightarrow> string" where
  "queueName a = (if QueueName a = [] then ''default'' else QueueName a)"

definition kueueManagedNamespaces :: "reader \<Rightarrow> err + string list" where
  "kueueManagedNamespaces r =
     (case KueueEnabledNamespaces r of Inl e \<Rightarrow> Inl (wrapf ''listing Kueue-enabled namespaces'' e) | Inr ns \<Rightarrow> Inr ns)"

definition hasQueueNameLabel :: "json \<Rightarrow> bool" where
  "hasQueueNameLabel nb \<longleftrightarrow> map_of (u_labels nb) LabelKueueQueueName \<noteq> None"

definition label_patch :: "string \<Rightarrow> json" where
  "label_patch q = JObj [(''metadata'', JObj [(''labels'', JObj [(LabelKueueQueueName, JStr q)])])]"

definition patchLabel :: "'s cluster \<Rightarrow> AttachKueueLabelAction \<Rightarrow> json \<Rightarrow> 's \<Rightarrow> 's \<times> err option" where
  "patchLabel cl a nb s =
     (case clPatch cl rt_Notebook (u_namespace nb) (u_name nb) MergePatchType (label_patch (queueName a)) s of
        (s', Inl e) \<Rightarrow> (s', Some (wrapf (''patching notebook '' @ nb_label nb) e))
      | (s', Inr _) \<Rightarrow> (s', None))"

definition findEligibleNotebooks :: "'s cluster \<Rightarrow> AttachKueueLabelAction \<Rightarrow> 's \<Rightarrow> err + json list" where
  "findEligibleNotebooks cl a s =
     (case kueueManagedNamespaces (clReader cl s) of
        Inl e \<Rightarrow> Inl e
      | Inr namespaces \<Rightarrow>
          if namespaces = [] then Inr []
          else case ListNotebooks cl (kaScope a) s of
              Inl e \<Rightarrow> Inl (wrapf ''listing notebooks'' e)
            | Inr notebooks \<Rightarrow> Inr (filter (\<lambda>nb. u_namespace nb \<in> set namespaces \<and> \<not> hasQueueNameLabel nb) notebooks))"

fun label_loop :: "'s cluster \<Rightarrow> int \<Rightarrow> AttachKueueLabelAction \<Rightarrow> nat \<Rightarrow> json list \<Rightarrow> 's task_state \<Rightarrow> 's task_state \<times> nat" where
  "label_loop cl now a p [] st = (st, 0)"
| "label_loop cl now a p (nb # nbs) st =
     (case open_step now p (''label-'' @ nb_key nb) (''Label '' @ nb_label nb) st of
        (st1, q) \<Rightarrow>
          (case on_cluster (patchLabel cl a nb) st1 of
             (st2, Some e) \<Rightarrow>
               (case label_loop cl now a p nbs (close_step q StepFailed (''Failed to label notebook '' @ nb_label nb @ '': '' @ err_string e) st2) of
                  (st3, n) \<Rightarrow> (st3, n))
           | (st2, None) \<Rightarrow>
               (case label_loop cl now a p nbs (close_step q StepCompleted (''Added label queue-name='' @ queueName a @ '' to '' @ nb_label nb) st2) of
                  (st3, n) \<Rightarrow> (st3, Suc n))))"

definition applyLabels :: "'s cluster \<Rightarrow> int \<Rightarrow> AttachKueueLabelAction \<Rightarrow> MigrateTarget \<Rightarrow> json list \<Rightarrow> 's task_state \<Rightarrow> 's task_state" where
  "applyLabels cl now a target notebooks st =
     (case open_step now 0 ''apply-kueue-labels'' ''Apply Kueue queue-name labels'' st of
        (st1, p) \<Rightarrow>
          if tgDryRun target then
            close_step p StepSkipped (''Would label '' @ itoa (length notebooks) @ '' notebook(s) with queue-name='' @ queueName a)
              (fold (\<lambda>nb. note_step now p ''would-label'' (''Would add label '' @ LabelKueueQueueName @ ''='' @ queueName a
                 @ '' to '' @ nb_label nb) StepSkipped) notebooks st1)
          else case confirmed cl target st1 of
              (st2, False) \<Rightarrow> close_step p StepSkipped ''User cancelled modification'' st2
            | (st2, True) \<Rightarrow>
                (case label_loop cl now a p notebooks st2 of
                   (st3, successCount) \<Rightarrow>
                     if successCount < length notebooks then
                       close_step p StepFailed (''Labeled '' @ itoa successCount @ ''/'' @ itoa (length notebooks) @ '' notebook(s), ''
                         @ itoa (length notebooks - successCount) @ '' failure(s)'') st3
                     else close_step p StepCompleted (''Labeled '' @ itoa successCount @ '' notebook(s) with queue-name='' @ queueName a) st3))"

definition queue_error :: "(string \<Rightarrow> string list) \<Rightarrow> AttachKueueLabelAction \<Rightarrow> err option" where
  "queue_error validLabel a =
     (case ScopeValidate (kaScope a) of
        Some e \<Rightarrow> Some (invalid_flags e)
      | None \<Rightarrow>
          if validLabel (queueName a) \<noteq> [] then
            Some (NewError (''invalid --queue-name '' @ go_quote (queueName a) @ '': '' @ str_join ''; '' (validLabel (queueName a))))
          else None)"

definition kueueRun_Validate ::
  "(string \<Rightarrow> string list) \<Rightarrow> 's cluster \<Rightarrow> int \<Rightarrow> AttachKueueLabelAction \<Rightarrow> 's task_state \<Rightarrow> 's \<times> ActionResult option \<times> err option" where
  "kueueRun_Validate validLabel cl now a st =
     (case queue_error validLabel a of
        Some e \<Rightarrow> task_error e st
      | None \<Rightarrow>
          (case open_step now 0 ''validate-kueue-labels'' ''Validate Kueue label requirements'' st of
             (st1, p) \<Rightarrow>
               (case findEligibleNotebooks cl a (fst st1) of
                  Inl e \<Rightarrow> build_result (close_step p StepFailed (''Failed to discover eligible notebooks: '' @ err_string e) st1)
                | Inr eligible \<Rightarrow>
                    build_result
                      (if eligible = [] then close_step p StepCompleted ''No notebooks require the Kueue queue-name label'' st1
                       else close_step p StepCompleted (''Found '' @ itoa (length eligible)
                         @ '' notebook(s) in Kueue-managed namespaces missing the queue-name label'') st1))))"

definition kueueRun_Execute ::
  "(string \<Rightarrow> string list) \<Rightarrow> 's cluster \<Rightarrow> int \<Rightarrow> AttachKueueLabelAction \<Rightarrow> MigrateTarget \<Rightarrow> 's task_state
     \<Rightarrow> 's \<times> ActionResult option \<times> err option" where
  "kueueRun_Execute validLabel cl now a target st =
     (case queue_error validLabel a of
        Some e \<Rightarrow> task_error e st
      | None \<Rightarrow>
          (case open_step now 0 ''discover-notebooks'' ''Discover notebooks requiring Kueue label'' st of
             (st1, p) \<Rightarrow>
               (case findEligibleNotebooks cl a (fst st1) of
                  Inl e \<Rightarrow> build_result (close_step p StepFailed (''Failed to discover eligible notebooks: '' @ err_string e) st1)
                | Inr eligible \<Rightarrow>
                    if eligible = [] then build_result (close_step p StepCompleted ''No notebooks require the Kueue queue-name label'' st1)
                    else build_result (applyLabels cl now a target eligible
                      (close_step p StepCompleted (''Found '' @ itoa (length eligible) @ '' notebook(s) requiring the queue-name label'') st1)))))"

section \<open>Container names (\<open>upgrade/upgrade.go\<close>)\<close>

record WorkbenchUpgradeAction =
  ForceNonStopped :: bool

definition listNotebooks :: "'s cluster \<Rightarrow> 's \<Rightarrow> err + json list" where
  "listNotebooks cl s =
     (case rdList (clReader cl s) rt_Notebook list_all_config of Inl e \<Rightarrow> Inl (wrapf ''listing notebooks'' e) | Inr nbs \<Rightarrow> Inr nbs)"

definition hasDashboardAnnotation_upgrade :: "json \<Rightarrow> bool" where
  "hasDashboardAnnotation_upgrade nb \<longleftrightarrow>
     map_get (u_annotations nb) ''opendatahub.io/accelerator-name'' \<noteq> []
     \<or> map_get (u_annotations nb) ''notebooks.opendatahub.io/last-size-selection'' \<noteq> []"

definition isInfrastructureContainer :: "string \<Rightarrow> string \<Rightarrow> bool" where
  "isInfrastructureContainer name img \<longleftrightarrow> name = containerOAuthProxy \<and> str_contains img ''ose-oauth-proxy-rhel9''"

text \<open>The name and the image of a container that is not part of the infrastructure.\<close>

fun workload_container :: "json \<Rightarrow> (string \<times> string) option" where
  "workload_container (JObj fs) =
     (let name = string_or_empty (map_of fs ''name''); img = string_or_empty (map_of fs ''image'') in
      if isInfrastructureContainer name img then None else Some (name, img))"
| "workload_container v = None"

definition extractWorkloadContainers :: "gojq \<Rightarrow> json \<Rightarrow> err + (string \<times> string) list" where
  "extractWorkloadContainers gq nb =
     (case Query gq as_array [] nb q_containers of
        Inl e \<Rightarrow> Inl (wrapf ''querying containers'' e)
      | Inr containers \<Rightarrow> Inr (List.map_filter workload_container containers))"

definition hasContainerNameMismatch :: "gojq \<Rightarrow> json \<Rightarrow> err + bool" where
  "hasContainerNameMismatch gq nb =
     (if \<not> hasDashboardAnnotation_upgrade nb then Inr False
      else case extractWorkloadContainers gq nb of
          Inl e \<Rightarrow> Inl e
        | Inr containers \<Rightarrow>
            (case containers of
               [(name, img)] \<Rightarrow> Inr (name \<noteq> u_name nb)
             | _ \<Rightarrow> Inr False))"

text \<open>The first workload container gets the name; its old name comes with the list.\<close>

fun rename_first :: "string \<Rightarrow> json list \<Rightarrow> json list \<times> string" where
  "rename_first name [] = ([], [])"
| "rename_first name (c # cs) =
     (case (c, workload_container c) of
        (JObj fs, Some (old, img)) \<Rightarrow> (JObj (AList.update ''name'' (JStr name) fs) # cs, old)
      | _ \<Rightarrow> (case rename_first name cs of (cs', old) \<Rightarrow> (c # cs', old)))"

definition fixContainerName :: "gojq \<Rightarrow> (json \<Rightarrow> string) \<Rightarrow> json \<Rightarrow> err + json \<times> string" where
  "fixContainerName gq marshal nb =
     (case extractWorkloadContainers gq nb of
        Inl e \<Rightarrow> Inl e
      | Inr ws \<Rightarrow>
          if length ws \<noteq> 1 then
            Inl (NewError (''expected exactly 1 workload container, found '' @ itoa (length ws)))
          else case Query gq as_array [] nb q_containers of
              Inl e \<Rightarrow> Inl (wrapf ''querying containers'' e)
            | Inr rawContainers \<Rightarrow>
                (case rename_first (u_name nb) rawContainers of
                   (renamed, oldName) \<Rightarrow>
                     (case assign_list gq marshal q_containers renamed nb of
                        Inl e \<Rightarrow> Inl (wrapf ''setting containers'' e)
                      | Inr nb' \<Rightarrow> Inr (nb', oldName))))"

definition updateNotebook :: "'s cluster \<Rightarrow> json \<Rightarrow> 's \<Rightarrow> 's \<times> err option" where
  "updateNotebook cl nb s =
     (case clUpdate cl rt_Notebook (u_namespace nb) nb s of
        (s', Inl e) \<Rightarrow> (s', Some (wrapf (''updating notebook '' @ nb_label nb) e))
      | (s', Inr _) \<Rightarrow> (s', None))"

definition handleNonStoppedNotebooks ::
  "int \<Rightarrow> WorkbenchUpgradeAction \<Rightarrow> MigrateTarget \<Rightarrow> json list \<Rightarrow> nat \<Rightarrow> 's task_state \<Rightarrow> 's task_state \<times> json list" where
  "handleNonStoppedNotebooks now a target notebooks p st =
     (case open_step now p ''check-non-stopped'' ''Check for non-stopped workbenches'' st of
        (st1, q) \<Rightarrow>
          (let stopped = filter isStopped notebooks; nonStopped = filter (\<lambda>nb. \<not> isStopped nb) notebooks;
               names = map nb_label nonStopped; st2 = add_detail q ''non_stopped_notebooks'' (json_strings names) st1 in
           if nonStopped = [] then (close_step q StepCompleted (''All '' @ itoa (length notebooks) @ '' Notebook(s) are stopped'') st1, stopped)
           else if ForceNonStopped a then
             (close_step q StepCompleted (''Including '' @ itoa (length nonStopped) @ '' non-stopped Notebook(s) (--force-non-stopped): ''
                @ str_join '', '' names) st2, notebooks)
           else if tgDryRun target then
             (close_step q StepSkipped (''Found '' @ itoa (length nonStopped) @ '' non-stopped Notebook(s) (would skip in dry-run): ''
                @ str_join '', '' names) st2, stopped)
           else
             (close_step q StepCompleted (''Skipping '' @ itoa (length nonStopped) @ '' non-stopped Notebook(s), proceeding with ''
                @ itoa (length stopped) @ '' stopped Notebook(s)'') st2, stopped)))"

text \<open>The directories of the backup are those of \<open>backup_namespaces\<close>.\<close>

definition upgrade_backup ::
  "(string list \<Rightarrow> string list) \<Rightarrow> file_env \<Rightarrow> int \<Rightarrow> MigrateTarget \<Rightarrow> json list \<Rightarrow> nat \<Rightarrow> fnode option \<Rightarrow> 's task_state
     \<Rightarrow> fnode option \<times> 's task_state \<times> err option" where
  "upgrade_backup order fe now target notebooks p root st =
     (case open_step now p ''backup-notebooks'' ''Backup Notebook resources'' st of
        (st1, q) \<Rightarrow> backupNotebooks order fe target notebooks q root st1)"

text \<open>Preparation (\<open>upgrade/prepare_task.go\<close>).\<close>

definition upgradePrep_Validate :: "'s cluster \<Rightarrow> int \<Rightarrow> 's task_state \<Rightarrow> 's \<times> ActionResult option \<times> err option" where
  "upgradePrep_Validate cl now st =
     (case open_step now 0 ''validate-notebooks'' ''Check for Notebook resources'' st of
        (st1, p) \<Rightarrow> build_result
          (case listNotebooks cl (fst st1) of
             Inl e \<Rightarrow> close_step p StepFailed (''Failed to list Notebooks: '' @ err_string e) st1
           | Inr notebooks \<Rightarrow>
               if notebooks = [] then close_step p StepCompleted ''No Notebook instances found'' st1
               else close_step p StepCompleted (''Found '' @ itoa (length notebooks) @ '' Notebook(s) across the cluster'') st1))"

definition upgradePrep_Execute ::
  "(string list \<Rightarrow> string list) \<Rightarrow> file_env \<Rightarrow> 's cluster \<Rightarrow> int \<Rightarrow> MigrateTarget \<Rightarrow> fnode option \<Rightarrow> 's task_state
     \<Rightarrow> fnode option \<times> 's \<times> ActionResult option \<times> err option" where
  "upgradePrep_Execute order fe cl now target root st =
     (case open_step now 0 ''prepare-backup'' ''Prepare workbench backup'' st of
        (st1, p) \<Rightarrow>
          (case listNotebooks cl (fst st1) of
             Inl e \<Rightarrow> (root, build_result (close_step p StepFailed (''Failed to list Notebooks: '' @ err_string e) st1))
           | Inr notebooks \<Rightarrow>
               if notebooks = [] then (root, build_result (close_step p StepCompleted ''No Notebook instances found, nothing to back up'' st1))
               else case upgrade_backup order fe now target notebooks p root st1 of
                   (root', st2, Some e) \<Rightarrow>
                     (root', fst st2, Some (RecBuild (snd st2) 0), Some (wrapf ''prepare backup failed'' e))
                 | (root', st2, None) \<Rightarrow> (root', build_result (close_step p StepCompleted ''Backup phase complete'' st2))))"

text \<open>The task (\<open>upgrade/run_task.go\<close>).\<close>

fun auth_failures :: "gojq \<Rightarrow> int \<Rightarrow> nat \<Rightarrow> json list \<Rightarrow> 's task_state \<Rightarrow> 's task_state \<times> nat" where
  "auth_failures gq now p [] st = (st, 0)"
| "auth_failures gq now p (nb # nbs) st =
     (case CheckMigrationState gq nb of
        (True, _) \<Rightarrow> auth_failures gq now p nbs st
      | (False, failures) \<Rightarrow>
          (case auth_failures gq now p nbs (note_step now p (''auth-model-'' @ nb_key nb)
              (nb_label nb @ '' needs auth model patch: '' @ str_join ''; '' failures) StepFailed st) of
             (st', n) \<Rightarrow> (st', Suc n)))"

definition verifyAuthModel :: "gojq \<Rightarrow> int \<Rightarrow> json list \<Rightarrow> 's task_state \<Rightarrow> 's task_state" where
  "verifyAuthModel gq now notebooks st =
     (case open_step now 0 ''verify-auth-model'' ''Verify workbench auth model migration'' st of
        (st1, p) \<Rightarrow>
          (case auth_failures gq now p notebooks st1 of
             (st2, n) \<Rightarrow>
               if n > 0 then close_step p StepFailed (itoa n @ '' stopped Notebook(s) still have legacy OAuth-proxy sidecar '' @ [CHR 0xE2, CHR 0x80, CHR 0x94]
                 @ '' run workbenches.patch-auth-model to complete migration'') st2
               else close_step p StepCompleted (''All '' @ itoa (length notebooks) @ '' stopped Notebook(s) have correct auth model'') st2))"

text \<open>The notebooks with a mismatch and the number of those that could not be inspected; \<open>text\<close> begins the message.\<close>

fun inspect_names :: "gojq \<Rightarrow> string \<Rightarrow> int \<Rightarrow> nat \<Rightarrow> json list \<Rightarrow> 's task_state \<Rightarrow> 's task_state \<times> json list \<times> nat" where
  "inspect_names gq begins now p [] st = (st, [], 0)"
| "inspect_names gq begins now p (nb # nbs) st =
     (case hasContainerNameMismatch gq nb of
        Inl e \<Rightarrow>
          (case inspect_names gq begins now p nbs (note_step now p ''check-error'' (begins @ nb_label nb @ '': '' @ err_string e) StepFailed st) of
             (st', xs, n) \<Rightarrow> (st', xs, Suc n))
      | Inr mismatch \<Rightarrow>
          (case inspect_names gq begins now p nbs st of (st', xs, n) \<Rightarrow> (st', if mismatch then nb # xs else xs, n)))"

definition upgradeRun_Validate ::
  "'s cluster \<Rightarrow> int \<Rightarrow> WorkbenchUpgradeAction \<Rightarrow> MigrateTarget \<Rightarrow> 's task_state \<Rightarrow> 's \<times> ActionResult option \<times> err option" where
  "upgradeRun_Validate cl now a target st =
     (case open_step now 0 ''validate-prerequisites'' ''Validate migration prerequisites'' st of
        (st1, p) \<Rightarrow>
          (case listNotebooks cl (fst st1) of
             Inl e \<Rightarrow> build_result (close_step p StepFailed (''Failed to list Notebooks: '' @ err_string e) st1)
           | Inr notebooks \<Rightarrow>
               if notebooks = [] then build_result (close_step p StepCompleted ''No Notebook instances found, nothing to migrate'' st1)
               else case handleNonStoppedNotebooks now a target notebooks p st1 of
                   (st2, stopped) \<Rightarrow>
                     if stopped = [] then
                       build_result (close_step p StepSkipped ''No eligible Notebook(s) to validate (all non-stopped)'' st2)
                     else
                       (let gq = rdGojq (clReader cl (fst st2)) in
                        case inspect_names gq ''Failed to inspect Notebook '' now p stopped st2 of
                          (st3, mismatches, errs) \<Rightarrow>
                            build_result (verifyAuthModel gq now stopped
                              (if errs > 0 then
                                 close_step p StepFailed (''Failed to inspect '' @ itoa errs @ '' Notebook(s); resolve validation errors first'') st3
                               else if mismatches \<noteq> [] then
                                 close_step p StepCompleted (''Found '' @ itoa (length mismatches)
                                   @ '' Notebook(s) with container name mismatches requiring update'') st3
                               else close_step p StepCompleted (''All '' @ itoa (length stopped)
                                   @ '' stopped Notebook(s) have correct container names'') st3)))))"

text \<open>The number of notebooks that were fixed.\<close>

fun applyContainerFixes ::
  "(json \<Rightarrow> string) \<Rightarrow> 's cluster \<Rightarrow> int \<Rightarrow> nat \<Rightarrow> json list \<Rightarrow> 's task_state \<Rightarrow> 's task_state \<times> nat" where
  "applyContainerFixes marshal cl now p [] st = (st, 0)"
| "applyContainerFixes marshal cl now p (nb # nbs) st =
     (case open_step now p (''fix-'' @ nb_key nb) (''Fix container name in '' @ nb_label nb) st of
        (st1, q) \<Rightarrow>
          (case fixContainerName (rdGojq (clReader cl (fst st1))) marshal nb of
             Inl e \<Rightarrow>
               (case applyContainerFixes marshal cl now p nbs
                   (close_step q StepFailed (''Failed to fix container name: '' @ err_string e) st1) of
                  (st', n) \<Rightarrow> (st', n))
           | Inr (patched, oldName) \<Rightarrow>
               (case on_cluster (updateNotebook cl patched) st1 of
                  (st2, Some e) \<Rightarrow>
                    (case applyContainerFixes marshal cl now p nbs
                        (close_step q StepFailed (''Failed to update Notebook '' @ nb_label nb @ '': '' @ err_string e) st2) of
                       (st', n) \<Rightarrow> (st', n))
                | (st2, None) \<Rightarrow>
                    (case applyContainerFixes marshal cl now p nbs
                        (close_step q StepCompleted (''Renamed container '' @ go_quote oldName @ '' to '' @ go_quote (u_name nb)) st2) of
                       (st', n) \<Rightarrow> (st', Suc n)))))"

definition note_planned_fix :: "gojq \<Rightarrow> int \<Rightarrow> nat \<Rightarrow> json \<Rightarrow> 's task_state \<Rightarrow> 's task_state" where
  "note_planned_fix gq now p nb st =
     (case extractWorkloadContainers gq nb of
        Inr ((name, img) # cs) \<Rightarrow>
          note_step now p ''would-fix'' (''Would rename container '' @ go_quote name @ '' to '' @ go_quote (u_name nb) @ '' in '' @ nb_label nb)
            StepSkipped st
      | _ \<Rightarrow> st)"

definition fixContainerNames ::
  "(json \<Rightarrow> string) \<Rightarrow> 's cluster \<Rightarrow> int \<Rightarrow> MigrateTarget \<Rightarrow> json list \<Rightarrow> 's task_state \<Rightarrow> 's task_state" where
  "fixContainerNames marshal cl now target notebooks st =
     (case open_step now 0 ''fix-container-names'' ''Fix container name mismatches'' st of
        (st1, p) \<Rightarrow>
          (let gq = rdGojq (clReader cl (fst st1)) in
           case inspect_names gq ''Error checking '' now p notebooks st1 of
             (st2, toFix, errs) \<Rightarrow>
               if toFix = [] \<and> errs > 0 then
                 close_step p StepFailed (''Failed to inspect '' @ itoa errs @ '' Notebook(s), no fixable mismatches found'') st2
               else if toFix = [] then
                 close_step p StepCompleted (''All '' @ itoa (length notebooks) @ '' Notebook(s) have correct container names, no changes needed'') st2
               else if tgDryRun target then
                 (let st3 = fold (note_planned_fix gq now p) toFix st2 in
                  if errs > 0 then
                    close_step p StepFailed (''Would fix '' @ itoa (length toFix) @ '' Notebook(s), but failed to inspect '' @ itoa errs) st3
                  else close_step p StepSkipped (''Would fix container names in '' @ itoa (length toFix) @ '' Notebook(s)'') st3)
               else case confirmed cl target st2 of
                   (st3, False) \<Rightarrow> close_step p StepSkipped ''User cancelled modification'' st3
                 | (st3, True) \<Rightarrow>
                     (case applyContainerFixes marshal cl now p toFix st3 of
                        (st4, ok) \<Rightarrow>
                          if ok < length toFix \<or> errs > 0 then
                            close_step p StepFailed (''Fixed '' @ itoa ok @ ''/'' @ itoa (length toFix) @ '' Notebook(s), ''
                              @ itoa (length toFix - ok) @ '' update failure(s), '' @ itoa errs @ '' inspection failure(s)'') st4
                          else close_step p StepCompleted (''Fixed container names in '' @ itoa ok @ ''/'' @ itoa (length toFix)
                              @ '' Notebook(s)'') st4)))"

definition upgradeRun_Execute ::
  "(json \<Rightarrow> string) \<Rightarrow> 's cluster \<Rightarrow> int \<Rightarrow> WorkbenchUpgradeAction \<Rightarrow> MigrateTarget \<Rightarrow> 's task_state
     \<Rightarrow> 's \<times> ActionResult option \<times> err option" where
  "upgradeRun_Execute marshal cl now a target st =
     (case open_step now 0 ''list-notebooks'' ''List Notebook resources'' st of
        (st1, p) \<Rightarrow>
          (case listNotebooks cl (fst st1) of
             Inl e \<Rightarrow> build_result (close_step p StepFailed (''Failed to list Notebooks: '' @ err_string e) st1)
           | Inr notebooks \<Rightarrow>
               if notebooks = [] then build_result (close_step p StepCompleted ''No Notebook instances found, nothing to migrate'' st1)
               else case handleNonStoppedNotebooks now a target notebooks 0
                   (close_step p StepCompleted (''Found '' @ itoa (length notebooks) @ '' Notebook(s)'') st1) of
                   (st2, stopped) \<Rightarrow>
                     if stopped = [] then
                       build_result (note_step now 0 ''no-eligible-notebooks'' ''No eligible Notebook(s) to migrate (all non-stopped)'' StepSkipped st2)
                     else
                       (let st3 = fixContainerNames marshal cl now target stopped st2 in
                        build_result (verifyAuthModel (rdGojq (clReader cl (fst st3))) now stopped st3))))"

end
