(* ===== verification/WorkbenchArgs.thy ===== *)
theory WorkbenchArgs
  imports WorkbenchAuth Canonical
begin

text \<open>
  The arguments of a notebook server, in the value of \<open>NOTEBOOK_ARGS\<close>: what \<open>removeTornadoArg\<close> makes of a value that is a row of
  arguments is the row without the settings of the proxy (\<open>pkg/migrate/actions/workbenches/authmodel/patch.go\<close>).
\<close>

section \<open>Arguments of the notebook\<close>

lemma has_prefix_append_self: "has_prefix (p @ b) p"
  by (simp add: has_prefix_append)

lemma str_contains_iff: "str_contains s p \<longleftrightarrow> (\<exists>a b. s = a @ p @ b)"
proof
  assume "str_contains s p"
  then obtain i where "str_index s p = Some i" by (auto simp: str_contains_def)
  from str_index_Some [OF this] show "\<exists>a b. s = a @ p @ b" by blast
next
  assume "\<exists>a b. s = a @ p @ b"
  then obtain a b where s: "s = a @ p @ b" by blast
  have "str_index (a @ p @ b) p \<noteq> None"
  proof (induction a)
    case Nil
    show ?case using has_prefix_append_self [of p b] by (cases "p @ b") auto
  qed auto
  then show "str_contains s p" by (simp add: s str_contains_def)
qed

lemma removeTornadoArg_clean: "\<not> str_contains (removeTornadoArg s) tornadoSettingsPrefix"
proof (induction s rule: removeTornadoArg.induct)
  case (1 s)
  show ?case
  proof (cases "str_index s tornadoSettingsPrefix")
    case None
    then show ?thesis by (subst removeTornadoArg.simps) (simp add: str_contains_def)
  next
    case (Some idx)
    let ?rest = "drop (idx + length tornadoSettingsPrefix) s"
    have "removeTornadoArg s = removeTornadoArg (trim_right (take idx s) @ drop (value_length ?rest) ?rest)"
      by (subst removeTornadoArg.simps) (simp only: Some option.case Let_def)
    then show ?thesis using 1 [OF Some refl] by (simp only: not_False_eq_True)
  qed
qed

lemma trim_space_part: "\<exists>a b. s = a @ trim_space s @ b"
proof -
  let ?t = "dropWhile is_space s"
  have "s = takeWhile is_space s @ ?t" by simp
  moreover have "rev ?t = takeWhile is_space (rev ?t) @ dropWhile is_space (rev ?t)" by simp
  then have "?t = rev (dropWhile is_space (rev ?t)) @ rev (takeWhile is_space (rev ?t))"
    by (metis rev_append rev_rev_ident)
  ultimately show ?thesis unfolding trim_space_def by metis
qed

lemma trim_space_contains: "str_contains (trim_space s) p \<Longrightarrow> str_contains s p"
proof -
  assume "str_contains (trim_space s) p"
  then obtain a b where "trim_space s = a @ p @ b" by (auto simp: str_contains_iff)
  moreover obtain c d where "s = c @ trim_space s @ d" using trim_space_part by blast
  ultimately have "s = (c @ a) @ p @ (b @ d)" by simp
  then show ?thesis unfolding str_contains_iff by blast
qed

section \<open>A row of arguments\<close>

text \<open>
  The value as its author sees it: arguments with blanks before them. A setting of the proxy is a word, or a block in
  braces that may hold blanks; the other arguments are words without the name of the setting.
\<close>

definition blank :: "char \<Rightarrow> bool" where
  "blank c \<longleftrightarrow> c \<in> {CHR '' '', CHR 0x09, CHR 0x0A, CHR 0x0D}"

definition depth :: "string \<Rightarrow> int" where
  "depth s = int (count_list s (CHR ''{'')) - int (count_list s (CHR ''}''))"

definition block :: "string \<Rightarrow> bool" where
  "block v \<longleftrightarrow> v \<noteq> [] \<and> hd v = CHR ''{'' \<and> depth v = 0 \<and> (\<forall>n<length v. n = 0 \<or> depth (take n v) \<noteq> 0)"

definition settings_value :: "string \<Rightarrow> bool" where
  "settings_value v \<longleftrightarrow> block v \<or> ((v = [] \<or> hd v \<noteq> CHR ''{'') \<and> \<not> list_ex blank v)"

definition tornado_setting :: "string \<Rightarrow> bool" where
  "tornado_setting a \<longleftrightarrow> has_prefix a tornadoSettingsPrefix \<and> settings_value (drop (length tornadoSettingsPrefix) a)"

definition plain_argument :: "string \<Rightarrow> bool" where
  "plain_argument a \<longleftrightarrow> a \<noteq> [] \<and> \<not> list_ex blank a \<and> \<not> str_contains a tornadoSettingsPrefix"

definition argument_row :: "(string \<times> string) list \<Rightarrow> bool" where
  "argument_row args \<longleftrightarrow> list_all (\<lambda>(w, a). list_all blank w \<and> (plain_argument a \<or> tornado_setting a)) args
     \<and> list_all (\<lambda>(w, a). w \<noteq> []) (tl args)"

definition row_text :: "(string \<times> string) list \<Rightarrow> string" where
  "row_text args = concat (map (\<lambda>(w, a). w @ a) args)"

lemma row_text_simps [simp]: "row_text [] = []" "row_text ((w, a) # args) = w @ a @ row_text args"
  by (simp_all add: row_text_def)

lemma blank_iff: "isArgWhitespace = blank"
  by (auto simp: isArgWhitespace_def blank_def)

section \<open>Finding a setting\<close>

lemma depth_Cons: "depth (c # s) = (if c = CHR ''{'' then depth s + 1 else if c = CHR ''}'' then depth s - 1 else depth s)"
  by (auto simp: depth_def)

lemma brace_length_block:
  "v \<noteq> [] \<Longrightarrow> d + depth v = 0 \<Longrightarrow> (\<And>n. 0 < n \<Longrightarrow> n < length v \<Longrightarrow> d + depth (take n v) \<noteq> 0) \<Longrightarrow> brace_length d (v @ r) = length v"
proof (induction v arbitrary: d)
  case (Cons c v)
  let ?d = "if c = CHR ''{'' then d + 1 else if c = CHR ''}'' then d - 1 else d"
  have eq: "d + depth (c # s) = ?d + depth s" for s by (simp add: depth_Cons)
  show ?case
  proof (cases "v = []")
    case True
    then have "?d = 0" using Cons.prems(2) eq [of "[]"] by (simp add: depth_def split: if_splits)
    then show ?thesis using True by (simp add: Let_def)
  next
    case False
    have "?d \<noteq> 0" using Cons.prems(3) [of 1] False eq [of "[]"] by (simp add: depth_def)
    moreover have "brace_length ?d (v @ r) = length v"
    proof (rule Cons.IH [OF False])
      show "?d + depth v = 0" using Cons.prems(2) eq by simp
      show "?d + depth (take n v) \<noteq> 0" if "0 < n" "n < length v" for n
        using Cons.prems(3) [of "Suc n"] that eq [of "take n v"] by simp
    qed
    ultimately show ?thesis by (simp add: Let_def)
  qed
qed simp

lemma value_length_value:
  assumes "settings_value v" and "r = [] \<or> blank (hd r)"
  shows "value_length (v @ r) = length v"
proof (cases "block v")
  case True
  then obtain v' where v: "v = CHR ''{'' # v'" by (cases v) (auto simp: block_def)
  have "brace_length 0 (v @ r) = length v" using True by (intro brace_length_block) (auto simp: block_def)
  then show ?thesis by (simp add: value_length_def v findBraceEnd_def)
next
  case False
  then have v: "v = [] \<or> hd v \<noteq> CHR ''{''" "\<not> list_ex blank v" using assms(1) by (auto simp: settings_value_def)
  have word: "takeWhile (\<lambda>b. \<not> blank b) (v @ r) = v"
    using v(2) assms(2) by (cases r) (simp_all add: list_ex_iff takeWhile_append)
  have "\<not> blank (CHR ''{'')" by (simp add: blank_def)
  then have "v @ r = [] \<or> hd (v @ r) \<noteq> CHR ''{''" using v(1) assms(2) by (cases v; cases r) auto
  then show ?thesis using word by (cases "v @ r") (auto simp: value_length_def blank_iff)
qed

lemma prefix_words: "\<not> list_ex blank tornadoSettingsPrefix"
  by (simp add: blank_def)

lemma str_index_first:
  "(\<And>i. i < length x \<Longrightarrow> \<not> has_prefix (drop i (x @ p @ r)) p) \<Longrightarrow> str_index (x @ p @ r) p = Some (length x)"
proof (induction x)
  case Nil
  show ?case using has_prefix_append_self [of p r] by (cases "p @ r") auto
next
  case (Cons c x)
  have "\<not> has_prefix (c # x @ p @ r) p" using Cons.prems [of 0] by simp
  moreover have "str_index (x @ p @ r) p = Some (length x)" by (rule Cons.IH) (use Cons.prems [of "Suc _"] in auto)
  ultimately show ?case by simp
qed

lemma occurs_in_front:
  assumes "has_prefix (drop i (x @ y)) p" and "i < length x" and "blank (last x)" and "\<not> list_ex blank p" and "p \<noteq> []"
  shows "str_contains x p"
proof -
  from assms(1) obtain t where t: "drop i (x @ y) = p @ t" by (auto simp: has_prefix_iff)
  have "length p \<le> length x - i"
  proof (rule ccontr)
    assume "\<not> length p \<le> length x - i"
    then have j: "length x - 1 - i < length p" using assms(2) by simp
    then have "p ! (length x - 1 - i) = drop i (x @ y) ! (length x - 1 - i)" by (simp only: t nth_append if_True)
    also have "\<dots> = (x @ y) ! (length x - 1)" using assms(2) by (subst nth_drop) simp_all
    also have "\<dots> = last x" using assms(2) by (cases x rule: rev_cases) (simp_all add: nth_append)
    finally show False using assms(3,4) j by (auto simp: list_ex_iff dest: nth_mem)
  qed
  then have "drop i x = p @ take (length x - i - length p) t"
    using arg_cong [OF t, of "take (length x - i)"] assms(2) by simp
  then have "x = take i x @ p @ take (length x - i - length p) t" by (metis append_take_drop_id)
  then show ?thesis unfolding str_contains_iff by blast
qed

lemma contains_blank:
  assumes "\<not> str_contains x p" and "\<not> str_contains y p" and "list_all blank w" and "w \<noteq> []" and "\<not> list_ex blank p" and "p \<noteq> []"
  shows "\<not> str_contains (x @ w @ y) p"
  using assms(1,3,4)
proof (induction w arbitrary: x)
  case (Cons c w)
  have one: "\<not> str_contains (x @ c # z) p" if "\<not> str_contains z p" for z
  proof
    assume "str_contains (x @ c # z) p"
    then obtain a b where eq: "x @ c # z = a @ p @ b" by (auto simp: str_contains_iff)
    have c: "c \<notin> set p" using Cons.prems(2) assms(5) by (auto simp: list_ex_iff)
    show False
    proof (cases "length x < length a")
      case True
      then have "z = drop (Suc (length x)) a @ p @ b"
        using arg_cong [OF eq, of "drop (Suc (length x))"] by simp
      with that show False unfolding str_contains_iff by blast
    next
      case False
      show False
      proof (cases "length a + length p \<le> length x")
        case True
        have "x = a @ p @ take (length x - length a - length p) b"
          using arg_cong [OF eq, of "take (length x)"] False True by simp
        then show False using Cons.prems(1) unfolding str_contains_iff by blast
      next
        case no: False
        then have "p ! (length x - length a) = c"
          using arg_cong [OF eq, of "\<lambda>s. s ! length x"] False by (auto simp: nth_append split: if_splits)
        then show False using c no False by (auto dest!: nth_mem [of "length x - length a" p])
      qed
    qed
  qed
  show ?case
  proof (cases w)
    case Nil
    then show ?thesis using one [OF assms(2)] by simp
  next
    case (Cons d w')
    have "\<not> str_contains (x @ [c]) p" using one [of "[]"] assms(6) by (simp add: str_contains_def)
    from Cons.IH [OF this] show ?thesis using Cons.prems Cons by simp
  qed
qed simp

section \<open>Removing the settings\<close>

lemma trim_right_blanks: "list_all blank w \<Longrightarrow> K = [] \<or> \<not> blank (last K) \<Longrightarrow> trim_right (K @ w) = K"
proof -
  assume w: "list_all blank w" and K: "K = [] \<or> \<not> blank (last K)"
  have "dropWhile blank (rev w @ rev K) = dropWhile blank (rev K)" using w by (simp add: list_all_iff dropWhile_append)
  also have "\<dots> = rev K" using K by (cases "rev K") (auto simp: last_rev [symmetric])
  finally show ?thesis by (simp add: trim_right_def blank_iff)
qed

text \<open>What stands before the next argument: text without the setting that does not end in a blank.\<close>

definition cleaned :: "string \<Rightarrow> bool" where
  "cleaned K \<longleftrightarrow> \<not> str_contains K tornadoSettingsPrefix \<and> (K = [] \<or> \<not> blank (last K))"

lemma cleaned_Nil [simp]: "cleaned []"
  by (simp add: cleaned_def str_contains_def)

lemma cleaned_blanks:
  assumes "cleaned K" and "list_all blank w"
  shows "\<not> str_contains (K @ w) tornadoSettingsPrefix"
proof (cases "w = []")
  case False
  have "\<not> str_contains [] tornadoSettingsPrefix" by (simp add: str_contains_def)
  from contains_blank [OF _ this assms(2) False prefix_words] show ?thesis using assms(1) by (simp add: cleaned_def)
qed (use assms(1) in \<open>simp add: cleaned_def\<close>)

lemma removes_setting:
  assumes "cleaned K" and "list_all blank w" and "K = [] \<or> w \<noteq> []" and "tornado_setting a" and "r = [] \<or> blank (hd r)"
  shows "removeTornadoArg (K @ w @ a @ r) = removeTornadoArg (K @ r)"
proof -
  let ?p = tornadoSettingsPrefix
  obtain v where a: "a = ?p @ v" and v: "settings_value v"
    using assms(4) unfolding tornado_setting_def has_prefix_iff by fastforce
  have "\<not> has_prefix (drop i ((K @ w) @ ?p @ v @ r)) ?p" if i: "i < length (K @ w)" for i
  proof
    assume occ: "has_prefix (drop i ((K @ w) @ ?p @ v @ r)) ?p"
    have "w \<noteq> []" using assms(3) i by auto
    then have "blank (last (K @ w))" using assms(2) by (simp add: list_all_iff)
    from occurs_in_front [OF occ i this prefix_words] cleaned_blanks [OF assms(1,2)] show False by simp
  qed
  then have idx: "str_index ((K @ w) @ ?p @ v @ r) ?p = Some (length (K @ w))" by (rule str_index_first)
  have rest: "drop (length (K @ w) + length ?p) ((K @ w) @ ?p @ v @ r) = v @ r" by (simp only: drop_append) simp
  have "removeTornadoArg ((K @ w) @ ?p @ v @ r) = removeTornadoArg (trim_right (K @ w) @ drop (value_length (v @ r)) (v @ r))"
    by (subst removeTornadoArg.simps) (simp only: idx option.case Let_def rest, simp)
  also have "\<dots> = removeTornadoArg (K @ r)"
    using trim_right_blanks [OF assms(2), of K] assms(1) value_length_value [OF v assms(5)] by (simp add: cleaned_def)
  finally show ?thesis by (simp only: a append_assoc)
qed

lemma removeTornadoArg_row_from:
  assumes "list_all blank t"
  shows "cleaned K \<Longrightarrow> argument_row args \<Longrightarrow> K = [] \<or> args = [] \<or> fst (hd args) \<noteq> [] \<Longrightarrow>
    removeTornadoArg (K @ row_text args @ t) = K @ row_text (filter (\<lambda>(w, a). plain_argument a) args) @ t"
proof (induction args arbitrary: K)
  case Nil
  then show ?case using cleaned_blanks [OF Nil(1) assms] by (subst removeTornadoArg.simps) (simp add: str_contains_def)
next
  case (Cons x args)
  obtain w a where x: "x = (w, a)" by (cases x)
  have w: "list_all blank w" "K = [] \<or> w \<noteq> []" and row: "argument_row args" and next': "args = [] \<or> fst (hd args) \<noteq> []"
    using Cons.prems(2,3) by (cases args; auto simp: x argument_row_def)+
  show ?case
  proof (cases "plain_argument a")
    case True
    have "\<not> str_contains (K @ w @ a) tornadoSettingsPrefix"
    proof (cases "w = []")
      case False
      show ?thesis by (rule contains_blank [OF _ _ w(1) False prefix_words]) (use True Cons.prems(1) in \<open>simp_all add: plain_argument_def cleaned_def\<close>)
    qed (use True w(2) in \<open>simp add: plain_argument_def\<close>)
    moreover have "\<not> blank (last a)" "a \<noteq> []" using True by (auto simp: plain_argument_def list_ex_iff)
    ultimately have "cleaned (K @ w @ a)" by (simp add: cleaned_def)
    from Cons.IH [OF this row] next' show ?thesis using True by (simp add: x)
  next
    case False
    then have set: "tornado_setting a" using Cons.prems(2) by (simp add: argument_row_def x)
    have "row_text args @ t = [] \<or> blank (hd (row_text args @ t))"
    proof (cases args)
      case Nil
      then show ?thesis using assms by (cases t) simp_all
    next
      case (Cons y ys)
      then obtain u b where y: "y = (u, b)" "u \<noteq> []" "list_all blank u" using next' row by (cases y) (auto simp: argument_row_def)
      then show ?thesis using Cons by (cases u) simp_all
    qed
    from removes_setting [OF Cons.prems(1) w set this] Cons.IH [OF Cons.prems(1) row] next' False show ?thesis by (simp add: x)
  qed
qed

lemma removeTornadoArg_row:
  "argument_row args \<Longrightarrow> list_all blank t \<Longrightarrow>
    removeTornadoArg (row_text args @ t) = row_text (filter (\<lambda>(w, a). plain_argument a) args) @ t"
  using removeTornadoArg_row_from [of t "[]" args] by simp

end
