(* ===== verification/WorkbenchMigration.thy ===== *)
theory WorkbenchMigration
  imports WorkbenchArgs "HOL-Library.Countable"
begin

text \<open>
  Correctness of the migration of workbenches: a patched notebook needs no patch, what else it says is unchanged, and what the
  tasks write.
\<close>

section \<open>Environment of a container\<close>

lemma strip_env_clean: "\<not> tornado_env (strip_env v)"
  using trim_space_contains removeTornadoArg_clean by (cases v) (auto simp: update_conv')

lemma strip_container_clean: "\<not> tornado_container (strip_container v)"
proof (cases v)
  case (JObj fs)
  show ?thesis
  proof (cases "map_of fs ''env''")
    case (Some w)
    then show ?thesis by (cases w) (auto simp: JObj update_conv' list_ex_iff strip_env_clean)
  qed (simp add: JObj)
qed auto

lemma strip_container_name [simp]: "named name (strip_container v) = named name v"
  by (cases v) (auto simp: update_conv' split: option.split json.split)

text \<open>What the patches look at does not depend on the order of keys.\<close>

lemma slice_or_nil_canon [simp]: "slice_or_nil (map_option canon w) = map canon (slice_or_nil w)"
proof (cases w)
  case (Some v)
  then show ?thesis by (cases v) simp_all
qed simp

lemma looks_canon [simp]:
  "named name (canon v) = named name v" "name_is P (canon v) = name_is P v"
  "tornado_env (canon v) = tornado_env v" "tornado_container (canon v) = tornado_container v"
proof -
  show "named name (canon v) = named name v" "name_is P (canon v) = name_is P v"
    by (cases v; simp add: map_of_sort map_of_map)+
  show env: "tornado_env (canon v) = tornado_env v" for v
    by (cases v) (simp_all add: map_of_sort map_of_map)
  show "tornado_container (canon v) = tornado_container v"
    by (cases v) (simp_all add: map_of_sort map_of_map list_ex_iff env)
qed

text \<open>A container that was written twice.\<close>

definition patched_container :: "json \<Rightarrow> json" where
  "patched_container c = canon (strip_container (canon c))"

lemma patched_clean_list: "\<not> HasTornadoSettings (map patched_container cs)"
  by (auto simp: HasTornadoSettings_def list_ex_iff strip_container_clean patched_container_def)

lemma named_patched [simp]: "named name (patched_container c) = named name c"
  by (simp add: patched_container_def)

lemma no_float_strip_env: "no_float v \<Longrightarrow> no_float (strip_env v)"
  by (cases v) (simp_all add: no_float_update del: no_float.simps(2))

lemma no_float_strip [simp]: "no_float c \<Longrightarrow> no_float (strip_container c)"
proof (cases c)
  case (JObj fs)
  assume c: "no_float c"
  show ?thesis
  proof (cases "map_of fs ''env''")
    case (Some w)
    then have "no_float w" using no_float_field c JObj by blast
    then show ?thesis using c JObj Some
      by (cases w) (simp_all add: no_float_update no_float_strip_env list_all_iff del: no_float.simps(2))
  qed (use c JObj in simp)
qed simp_all

section \<open>Patches\<close>

text \<open>
  What the patches use of jq: a path of names reads what is there, and \<open>path = list\<close> sets it, where the objects on the way exist.
  \<open>marshal\<close> is the text of a list: \<open>encoding/json\<close> writes the keys of an object sorted, so jq reads the list in canonical form. The
  law is for lists without floating point numbers, and a pod template has none.
\<close>

definition pod_spec :: "json \<Rightarrow> bool" where
  "pod_spec nb \<longleftrightarrow> (\<exists>fs md. nested [''spec'', ''template'', ''spec''] nb = Some (JObj fs) \<and> no_float (JObj fs)
     \<and> json_field ''metadata'' nb = Some (JObj md))"

definition pod_path :: "string \<Rightarrow> string list" where
  "pod_path k = [''spec'', ''template'', ''spec'', k]"

definition jq_paths :: "gojq \<Rightarrow> (json \<Rightarrow> string) \<Rightarrow> bool" where
  "jq_paths gq marshal \<longleftrightarrow>
     (\<forall>nb. pod_spec nb \<longrightarrow> (\<forall>k\<in>{''containers'', ''volumes''}.
        gqParse gq (''.spec.template.spec.'' @ k) = None
        \<and> gqRun gq (''.spec.template.spec.'' @ k) nb = Some (Inr (case nested (pod_path k) nb of None \<Rightarrow> JNull | Some v \<Rightarrow> v))
        \<and> (\<forall>xs. list_all no_float xs \<longrightarrow>
          gqParse gq (''.spec.template.spec.'' @ k @ '' = '' @ marshal (JArr xs)) = None
          \<and> gqRun gq (''.spec.template.spec.'' @ k @ '' = '' @ marshal (JArr xs)) nb
            = Some (Inr (set_nested (pod_path k) (canon (JArr xs)) nb)))))"

lemma jq_path_laws:
  assumes "jq_paths gq marshal" and "pod_spec nb" and "k = ''containers'' \<or> k = ''volumes''"
  shows "gqParse gq (''.spec.template.spec.'' @ k) = None
    \<and> gqRun gq (''.spec.template.spec.'' @ k) nb = Some (Inr (case nested (pod_path k) nb of None \<Rightarrow> JNull | Some v \<Rightarrow> v))
    \<and> (list_all no_float xs \<longrightarrow> gqParse gq (''.spec.template.spec.'' @ k @ '' = '' @ marshal (JArr xs)) = None
    \<and> gqRun gq (''.spec.template.spec.'' @ k @ '' = '' @ marshal (JArr xs)) nb
      = Some (Inr (set_nested (pod_path k) (JArr (map canon xs)) nb)))"
proof -
  have "k \<in> {''containers'', ''volumes''}" using assms(3) by (simp only: insert_iff empty_iff simp_thms)
  note assms(1) [unfolded jq_paths_def, rule_format, OF assms(2) this]
  then show ?thesis unfolding canon_with.simps by blast
qed

lemma query_list:
  assumes "jq_paths gq marshal" and "pod_spec nb" and "k = ''containers'' \<or> k = ''volumes''"
  shows "Query gq as_array [] nb (''.spec.template.spec.'' @ k) =
    (case nested (pod_path k) nb of None \<Rightarrow> Inl ErrNotFound | Some JNull \<Rightarrow> Inl ErrNotFound | Some v \<Rightarrow> as_array v)"
proof -
  show ?thesis using jq_path_laws [OF assms] by (simp add: Query_def split: option.split json.split)
qed

lemma pod_spec_JObj: "pod_spec nb \<Longrightarrow> is_JObj nb"
  by (cases nb) (auto simp: pod_spec_def)

lemma assign_list_set:
  assumes "jq_paths gq marshal" and "pod_spec nb" and "k = ''containers'' \<or> k = ''volumes''" and "list_all no_float xs"
  shows "assign_list gq marshal (''.spec.template.spec.'' @ k) xs nb = Inr (set_nested (pod_path k) (JArr (map canon xs)) nb)"
proof -
  obtain fs where "set_nested (pod_path k) (JArr (map canon xs)) nb = JObj fs"
    using pod_spec_JObj [OF assms(2)] is_JObj_set_nested [of "pod_path k" "JArr (map canon xs)" nb] by (metis is_JObj.elims(2))
  then show ?thesis using jq_path_laws [OF assms(1-3), of xs] assms(4) by (simp add: assign_list_def Transform_def)
qed

text \<open>Setting a list of the pod template leaves the rest as it is.\<close>

lemma nested_set_sibling: "k \<noteq> k' \<Longrightarrow> nested (ks @ [k]) (set_nested (ks @ k' # q) x v) = nested (ks @ [k]) v"
proof (induction ks arbitrary: v)
  case Nil
  then show ?case by (cases q; cases v) (auto simp: update_conv' split: option.split json.split)
next
  case (Cons a ks)
  obtain b bs where path: "ks @ k' # q = b # bs" by (cases "ks @ k' # q") auto
  show ?case
  proof (cases v)
    case (JObj fs)
    have empty: "nested (ks @ [k]) (JObj []) = None" for ks by (induction ks) simp_all
    show ?thesis using Cons.IH [OF Cons.prems] empty [of ks]
      by (auto simp: JObj path update_conv' split: option.split json.split)
  qed (simp_all add: path)
qed

lemma nested_set_path:
  assumes "nested ks v = Some (JObj fs)"
  shows "nested ks (set_nested (ks @ [k]) x v) = Some (JObj (AList.update k x fs))"
  using assms
proof (induction ks arbitrary: v)
  case (Cons a ks)
  obtain b bs where path: "ks @ [k] = b # bs" by (cases "ks @ [k]") auto
  obtain gs w where w: "v = JObj gs" "map_of gs a = Some w" "nested ks w = Some (JObj fs)"
    using Cons.prems by (cases v; cases "json_field a v") auto
  obtain hs where hs: "w = JObj hs" using w(3) by (cases ks; cases w) auto
  show ?case using Cons.IH [OF w(3)] w unfolding hs by (simp add: path update_conv')
qed simp

lemma nested_last: "nested ks v = Some w \<Longrightarrow> nested (ks @ [k]) v = json_field k w"
proof (induction ks arbitrary: v)
  case Nil
  then show ?case by (cases "json_field k w") simp_all
qed (auto simp: bind_eq_Some_conv)

lemma json_field_set_other: "k \<noteq> k' \<Longrightarrow> json_field k (set_nested (k' # q) x v) = json_field k v"
  by (cases q; cases v) (auto simp: update_conv' split: option.splits json.splits)

lemma pod_path_append: "pod_path k = [''spec'', ''template'', ''spec''] @ [k]"
  by (simp add: pod_path_def)

lemma pod_spec_set: "pod_spec nb \<Longrightarrow> no_float x \<Longrightarrow> pod_spec (set_nested (pod_path k) x nb)"
proof -
  assume x: "no_float x" and "pod_spec nb"
  then obtain fs md where nb: "nested [''spec'', ''template'', ''spec''] nb = Some (JObj fs)" "no_float (JObj fs)"
    "json_field ''metadata'' nb = Some (JObj md)" by (auto simp: pod_spec_def)
  have "json_field ''metadata'' (set_nested (pod_path k) x nb) = json_field ''metadata'' nb"
    unfolding pod_path_def by (rule json_field_set_other) simp
  then have "json_field ''metadata'' (set_nested (pod_path k) x nb) = Some (JObj md)" using nb(3) by (rule trans)
  then show ?thesis using nested_set_path [OF nb(1), of k x] no_float_update [OF nb(2) x, of k]
    unfolding pod_spec_def pod_path_append by (intro exI conjI)
qed

lemma slice_no_float: "pod_spec nb \<Longrightarrow> nested_slice (pod_path k) nb = Some xs \<Longrightarrow> list_all no_float xs"
proof -
  assume "pod_spec nb" and xs: "nested_slice (pod_path k) nb = Some xs"
  then obtain fs where nb: "nested [''spec'', ''template'', ''spec''] nb = Some (JObj fs)" "no_float (JObj fs)"
    by (auto simp: pod_spec_def)
  have "map_of fs k = Some (JArr xs)"
    using nested_last [OF nb(1), of k] xs by (auto simp: nested_slice_def pod_path_append simp del: nested.simps append.simps split: option.splits json.splits)
  from no_float_field [OF nb(2) this] show ?thesis by simp
qed

lemma nested_set_pod [simp]:
  "pod_spec nb \<Longrightarrow> nested (pod_path k) (set_nested (pod_path k) x nb) = Some x"
  "k \<noteq> k' \<Longrightarrow> nested (pod_path k) (set_nested (pod_path k') x nb) = nested (pod_path k) nb"
proof -
  show "nested (pod_path k) (set_nested (pod_path k) x nb) = Some x" if "pod_spec nb"
  proof -
    from that obtain fs where nb: "nested [''spec'', ''template'', ''spec''] nb = Some (JObj fs)" by (auto simp: pod_spec_def)
    show ?thesis unfolding pod_path_append nested_last [OF nested_set_path [OF nb]] by (simp add: update_conv')
  qed
  show "k \<noteq> k' \<Longrightarrow> nested (pod_path k) (set_nested (pod_path k') x nb) = nested (pod_path k) nb"
    unfolding pod_path_append by (rule nested_set_sibling)
qed

text \<open>What is beside the pod.\<close>

lemma nested_set_beside:
  "k \<noteq> ''template'' \<Longrightarrow> nested [''spec'', k] (set_nested (pod_path j) x nb) = nested [''spec'', k] nb"
  "k \<noteq> ''spec'' \<Longrightarrow> nested [''spec'', ''template'', k] (set_nested (pod_path j) x nb) = nested [''spec'', ''template'', k] nb"
  "k \<noteq> ''spec'' \<Longrightarrow> json_field k (set_nested (pod_path j) x nb) = json_field k nb"
proof -
  show "nested [''spec'', k] (set_nested (pod_path j) x nb) = nested [''spec'', k] nb" if "k \<noteq> ''template''"
    using nested_set_sibling [OF that, of "[''spec'']" "[''spec'', j]" x nb] unfolding pod_path_def append.simps .
  show "nested [''spec'', ''template'', k] (set_nested (pod_path j) x nb) = nested [''spec'', ''template'', k] nb" if "k \<noteq> ''spec''"
    using nested_set_sibling [OF that, of "[''spec'', ''template'']" "[j]" x nb] unfolding pod_path_def append.simps .
  show "json_field k (set_nested (pod_path j) x nb) = json_field k nb" if "k \<noteq> ''spec''"
    unfolding pod_path_def by (rule json_field_set_other) (use that in simp)
qed

lemma nested_metadata_set_pod [simp]: "nested (''metadata'' # p) (set_nested (pod_path k) x nb) = nested (''metadata'' # p) nb"
  unfolding pod_path_def by (rule nested_set_other) simp

text \<open>Changes of metadata leave the pod template as it is.\<close>

definition same_pod :: "json \<Rightarrow> json \<Rightarrow> bool" where
  "same_pod nb nb' \<longleftrightarrow> (\<forall>k. k \<noteq> ''metadata'' \<longrightarrow> json_field k nb' = json_field k nb) \<and> (pod_spec nb \<longrightarrow> pod_spec nb')"

lemma same_pod_nested: "same_pod nb nb' \<Longrightarrow> nested (''spec'' # p) nb' = nested (''spec'' # p) nb"
  by (simp add: same_pod_def)

lemma same_podI:
  assumes "\<And>k. k \<noteq> ''metadata'' \<Longrightarrow> json_field k nb' = json_field k nb"
    and "\<And>md. json_field ''metadata'' nb = Some (JObj md) \<Longrightarrow> \<exists>md'. json_field ''metadata'' nb' = Some (JObj md')"
  shows "same_pod nb nb'"
proof -
  have "nested [''spec'', ''template'', ''spec''] nb' = nested [''spec'', ''template'', ''spec''] nb" using assms(1) [of "''spec''"] by simp
  then have "pod_spec nb'" if "pod_spec nb" using that assms(2) unfolding pod_spec_def by metis
  then show ?thesis using assms(1) unfolding same_pod_def by blast
qed

lemma same_pod_trans: "same_pod a b \<Longrightarrow> same_pod b c \<Longrightarrow> same_pod a c"
  by (simp add: same_pod_def)

lemma same_pod_refl [simp]: "same_pod a a"
  by (simp add: same_pod_def)

lemma metadata_set: "json_field ''metadata'' nb = Some (JObj md) \<Longrightarrow>
    json_field ''metadata'' (set_nested [''metadata'', k] x nb) = Some (JObj (AList.update k x md))"
  by (cases nb) (auto simp: update_conv')

lemma same_pod_set: "same_pod nb (set_nested [''metadata'', k] x nb)"
  by (rule same_podI) (simp_all only: json_field_set_other not_False_eq_True, use metadata_set in blast)

lemma metadata_remove: "json_field ''metadata'' nb = Some (JObj md) \<Longrightarrow>
    json_field ''metadata'' (remove_nested [''metadata'', k] nb) = Some (JObj (AList.delete k md))"
  by (cases nb) (auto simp: update_conv')

lemma json_field_remove_other: "k \<noteq> k' \<Longrightarrow> json_field k (remove_nested (k' # q) v) = json_field k v"
  by (cases q; cases v) (auto simp: update_conv' delete_conv' split: option.splits json.splits)

lemma same_pod_remove: "same_pod nb (remove_nested [''metadata'', k] nb)"
  by (rule same_podI) (simp_all only: json_field_remove_other not_False_eq_True, use metadata_remove in blast)

lemma string_map_strings [simp]: "string_map (map (\<lambda>(k, x). (k, JStr x)) m) = Some m"
  by (induction m) auto

lemma string_list_strings [simp]: "string_list (map JStr ss) = Some ss"
  by (induction ss) auto

lemma nested_metadata: "json_field ''metadata'' nb = Some (JObj md) \<Longrightarrow> nested [''metadata'', k] nb = map_of md k"
  by (cases "map_of md k") simp_all

text \<open>What the setters of annotations and finalizers do to each other, and to the pod.\<close>

definition has_metadata :: "json \<Rightarrow> bool" where
  "has_metadata nb \<longleftrightarrow> (\<exists>md. json_field ''metadata'' nb = Some (JObj md))"

lemma nested_set_metadata:
  "has_metadata nb \<Longrightarrow> nested [''metadata'', k] (set_nested [''metadata'', k'] x nb) = (if k = k' then Some x else nested [''metadata'', k] nb)"
proof -
  assume "has_metadata nb"
  then obtain md where md: "json_field ''metadata'' nb = Some (JObj md)" by (auto simp: has_metadata_def)
  show ?thesis unfolding nested_metadata [OF metadata_set [OF md]] nested_metadata [OF md] by (simp add: update_conv')
qed

lemma nested_remove_metadata:
  "has_metadata nb \<Longrightarrow> nested [''metadata'', k] (remove_nested [''metadata'', k'] nb) = (if k = k' then None else nested [''metadata'', k] nb)"
proof -
  assume "has_metadata nb"
  then obtain md where md: "json_field ''metadata'' nb = Some (JObj md)" by (auto simp: has_metadata_def)
  show ?thesis unfolding nested_metadata [OF metadata_remove [OF md]] nested_metadata [OF md] by (simp add: delete_conv')
qed

lemma has_metadata_set [simp]: "has_metadata nb \<Longrightarrow> has_metadata (set_nested [''metadata'', k] x nb)"
  using metadata_set unfolding has_metadata_def by blast

lemma has_metadata_remove [simp]: "has_metadata nb \<Longrightarrow> has_metadata (remove_nested [''metadata'', k] nb)"
  using metadata_remove unfolding has_metadata_def by blast

lemma pod_spec_metadata: "pod_spec nb \<Longrightarrow> has_metadata nb"
  unfolding pod_spec_def has_metadata_def by blast

lemma annotations_set [simp]:
  "has_metadata nb \<Longrightarrow> annotations_or_nil (set_annotations m nb) = Some m"
  "has_metadata nb \<Longrightarrow> u_annotations (set_annotations m nb) = m"
  by (simp_all add: set_annotations_def annotations_or_nil_def u_annotations_def nested_string_map_def nested_set_metadata del: nested.simps set_nested.simps)

text \<open>The rest of the metadata and the pod are those of another notebook.\<close>

definition same_rest :: "json \<Rightarrow> json \<Rightarrow> bool" where
  "same_rest nb nb' \<longleftrightarrow> same_pod nb nb' \<and> (has_metadata nb \<longrightarrow> has_metadata nb' \<and>
     (\<forall>k. k \<noteq> ''annotations'' \<and> k \<noteq> ''finalizers'' \<longrightarrow> nested [''metadata'', k] nb' = nested [''metadata'', k] nb))"

lemma same_rest_refl [simp]: "same_rest nb nb"
  by (simp add: same_rest_def)

lemma same_rest_trans: "same_rest a b \<Longrightarrow> same_rest b c \<Longrightarrow> same_rest a c"
  unfolding same_rest_def by (intro conjI impI) (blast intro: same_pod_trans, simp_all del: nested.simps)

lemma same_rest_annotations: "same_rest nb (set_annotations m nb)"
  unfolding same_rest_def set_annotations_def using same_pod_set nested_set_metadata has_metadata_set by simp

lemma same_rest_finalizers: "same_rest nb (set_finalizers fs nb)"
  unfolding same_rest_def set_finalizers_def
  using same_pod_set same_pod_remove nested_set_metadata nested_remove_metadata has_metadata_set has_metadata_remove by simp

lemma finalizers_annotations [simp]: "has_metadata nb \<Longrightarrow> u_finalizers (set_annotations m nb) = u_finalizers nb"
  by (simp add: u_finalizers_def set_annotations_def nested_slice_def nested_set_metadata del: nested.simps set_nested.simps)

lemma finalizers_set [simp]: "has_metadata nb \<Longrightarrow> u_finalizers (set_finalizers fs nb) = fs"
  by (simp add: u_finalizers_def set_finalizers_def nested_slice_def nested_set_metadata nested_remove_metadata
      del: nested.simps set_nested.simps remove_nested.simps)

lemma annotations_finalizers [simp]: "has_metadata nb \<Longrightarrow> u_annotations (set_finalizers fs nb) = u_annotations nb"
  by (simp add: u_annotations_def nested_string_map_def set_finalizers_def nested_set_metadata nested_remove_metadata
      del: nested.simps set_nested.simps remove_nested.simps)

text \<open>The annotations after the first three patches.\<close>

definition with_auth_annotations :: "json \<Rightarrow> json" where
  "with_auth_annotations nb = removeAnnotation annotationOAuthLogoutURL (removeAnnotation annotationInjectOAuth (addInjectAuthAnnotation nb))"

lemma has_metadata_annotations [simp]: "has_metadata nb \<Longrightarrow> has_metadata (set_annotations m nb)"
  by (simp add: set_annotations_def del: set_nested.simps)

lemma with_auth_annotations_eq:
  assumes "has_metadata nb"
  shows "\<exists>a b. with_auth_annotations nb = set_annotations (AList.delete annotationOAuthLogoutURL (AList.delete annotationInjectOAuth
    (AList.update annotationInjectAuth ''true'' (u_annotations nb)))) (set_annotations b (set_annotations a nb))"
  using assms by (auto simp: with_auth_annotations_def removeAnnotation_def addInjectAuthAnnotation_def)

lemma with_auth_annotations_facts:
  assumes "has_metadata nb"
  shows "hasInjectAuthAnnotation (with_auth_annotations nb)" and "\<not> hasOAuthAnnotation (with_auth_annotations nb)"
    and "u_finalizers (with_auth_annotations nb) = u_finalizers nb" and "same_rest nb (with_auth_annotations nb)"
proof -
  obtain a b where eq: "with_auth_annotations nb = set_annotations (AList.delete annotationOAuthLogoutURL (AList.delete annotationInjectOAuth
    (AList.update annotationInjectAuth ''true'' (u_annotations nb)))) (set_annotations b (set_annotations a nb))"
    using with_auth_annotations_eq [OF assms] by blast
  show "hasInjectAuthAnnotation (with_auth_annotations nb)" "\<not> hasOAuthAnnotation (with_auth_annotations nb)"
    using assms by (simp_all add: eq hasInjectAuthAnnotation_def hasOAuthAnnotation_def map_get_def delete_conv' update_conv')
  show "u_finalizers (with_auth_annotations nb) = u_finalizers nb" using assms by (simp add: eq)
  show "same_rest nb (with_auth_annotations nb)" unfolding eq by (meson same_rest_annotations same_rest_trans)
qed

lemma removeOAuthFinalizer_facts:
  assumes "has_metadata nb"
  shows "\<not> hasOAuthFinalizer (removeOAuthFinalizer nb)" and "u_annotations (removeOAuthFinalizer nb) = u_annotations nb"
    and "same_rest nb (removeOAuthFinalizer nb)"
  using assms same_rest_finalizers by (simp_all add: removeOAuthFinalizer_def hasOAuthFinalizer_def)

section \<open>All patches\<close>

lemma q_parts: "q_containers = ''.spec.template.spec.'' @ ''containers''" "q_volumes = ''.spec.template.spec.'' @ ''volumes''"
  by (simp_all add: q_containers_def q_volumes_def)

lemma as_array_slice: "(case nested p nb of None \<Rightarrow> Inl ErrNotFound | Some JNull \<Rightarrow> Inl ErrNotFound | Some v \<Rightarrow> as_array v) = Inr xs
    \<longleftrightarrow> nested_slice p nb = Some xs"
  by (auto simp: nested_slice_def split: option.split json.split)

lemma query_slice:
  assumes "jq_paths gq marshal" and "pod_spec nb"
  shows "Query gq as_array [] nb q_containers = Inr xs \<longleftrightarrow> nested_slice (pod_path ''containers'') nb = Some xs"
    and "Query gq as_array [] nb q_volumes = Inr xs \<longleftrightarrow> nested_slice (pod_path ''volumes'') nb = Some xs"
  unfolding q_parts
  by (subst query_list [OF assms], simp only: simp_thms, rule as_array_slice)
    (subst query_list [OF assms], simp only: simp_thms, rule as_array_slice)

lemma listed_slice:
  assumes "jq_paths gq marshal" and "pod_spec nb"
  shows "nested_slice (pod_path ''containers'') nb = Some xs \<Longrightarrow> listed gq nb q_containers = xs"
    and "nested_slice (pod_path ''volumes'') nb = Some xs \<Longrightarrow> listed gq nb q_volumes = xs"
  using query_slice [OF assms, THEN iffD2] by (simp_all add: listed_def)

lemma assign_containers:
  assumes "jq_paths gq marshal" and "pod_spec nb" and "list_all no_float xs"
  shows "assign_list gq marshal q_containers xs nb = Inr (set_nested (pod_path ''containers'') (JArr (map canon xs)) nb)"
    and "assign_list gq marshal q_volumes xs nb = Inr (set_nested (pod_path ''volumes'') (JArr (map canon xs)) nb)"
  unfolding q_parts using assign_list_set [OF assms(1,2) _ assms(3)] by (simp_all del: append.simps)

lemma update_same: "map_of fs k = Some v \<Longrightarrow> AList.update k v fs = fs"
  by (induction fs) auto

lemma strip_env_same: "\<not> tornado_env v \<Longrightarrow> strip_env v = v"
  by (cases v) auto

lemma strip_container_same: "\<not> tornado_container c \<Longrightarrow> strip_container c = c"
proof (cases c)
  case (JObj fs)
  assume clean: "\<not> tornado_container c"
  show ?thesis
  proof (cases "map_of fs ''env''")
    case (Some w)
    show ?thesis
    proof (cases w)
      case (JArr vs)
      have "map strip_env vs = vs" using clean Some JArr JObj by (auto simp: list_ex_iff strip_env_same intro!: map_idI)
      then show ?thesis using Some JArr by (simp add: JObj update_same)
    qed (simp_all add: JObj Some)
  qed (simp add: JObj)
qed auto

lemma strip_list_same: "\<not> HasTornadoSettings cs \<Longrightarrow> map strip_container cs = cs"
  by (auto simp: HasTornadoSettings_def list_ex_iff strip_container_same intro!: map_idI)

text \<open>The notebook that the patches make of one with both lists.\<close>

definition kept_containers :: "json list \<Rightarrow> json list" where
  "kept_containers = filter (\<lambda>c. \<not> named containerOAuthProxy c)"

definition kept_volumes :: "json list \<Rightarrow> json list" where
  "kept_volumes = filter (\<lambda>v. \<not> name_is isOAuthVolumeName v)"

definition patched_notebook :: "json list \<Rightarrow> json list \<Rightarrow> json \<Rightarrow> json" where
  "patched_notebook cs vs nb =
     (let nb1 = set_nested (pod_path ''containers'') (JArr (map canon (kept_containers cs))) (with_auth_annotations nb);
          nb2 = set_nested (pod_path ''volumes'') (JArr (map canon (kept_volumes vs))) (removeOAuthFinalizer nb1) in
      if HasTornadoSettings (map canon (kept_containers cs))
      then set_nested (pod_path ''containers'') (JArr (map patched_container (kept_containers cs))) nb2
      else nb2)"

lemma kept_no_float:
  "list_all no_float cs \<Longrightarrow> list_all no_float (kept_containers cs)" "list_all no_float vs \<Longrightarrow> list_all no_float (kept_volumes vs)"
  by (auto simp: kept_containers_def kept_volumes_def list_all_iff)

lemma no_float_lists [simp]:
  "list_all no_float cs \<Longrightarrow> no_float (JArr (map canon cs))" "list_all no_float cs \<Longrightarrow> no_float (JArr (map patched_container cs))"
  by (simp_all add: list_all_iff patched_container_def)

lemma patched_containers: "map patched_container cs = map canon (map strip_container (map canon cs))"
  by (simp add: patched_container_def)

lemma patched_container_same: "\<not> HasTornadoSettings (map canon cs) \<Longrightarrow> map patched_container cs = map canon cs"
  using strip_list_same [of "map canon cs"] by (auto simp: patched_container_def)

lemma same_rest_pod: "same_rest nb nb' \<Longrightarrow> nested (pod_path k) nb' = nested (pod_path k) nb"
  unfolding same_rest_def pod_path_def by (elim conjE) (rule same_pod_nested)

lemma same_rest_spec: "same_rest nb nb' \<Longrightarrow> pod_spec nb \<Longrightarrow> pod_spec nb'"
  unfolding same_rest_def same_pod_def by blast

lemma same_rest_slice: "same_rest nb nb' \<Longrightarrow> nested_slice (pod_path k) nb' = nested_slice (pod_path k) nb"
  using same_rest_pod by (simp add: nested_slice_def)

lemma metadata_set_pod [simp]:
  "u_annotations (set_nested (pod_path k) x nb) = u_annotations nb"
  "u_finalizers (set_nested (pod_path k) x nb) = u_finalizers nb"
  "has_metadata (set_nested (pod_path k) x nb) = has_metadata nb"
  by (simp_all add: u_annotations_def nested_string_map_def u_finalizers_def nested_slice_def has_metadata_def json_field_set_other pod_path_def
      nested_set_other del: nested.simps set_nested.simps)

lemma slice_set_pod [simp]:
  "pod_spec nb \<Longrightarrow> nested_slice (pod_path k) (set_nested (pod_path k) (JArr xs) nb) = Some xs"
  "k \<noteq> k' \<Longrightarrow> nested_slice (pod_path k) (set_nested (pod_path k') x nb) = nested_slice (pod_path k) nb"
  by (simp_all add: nested_slice_def)

text \<open>The notebooks between the patches.\<close>

lemma between_patches:
  assumes pod: "pod_spec nb"
    and cs: "nested_slice (pod_path ''containers'') nb = Some cs"
  defines "nb1 \<equiv> set_nested (pod_path ''containers'') (JArr (map canon (kept_containers cs))) (with_auth_annotations nb)"
  shows "pod_spec (with_auth_annotations nb)" and "pod_spec nb1" and "pod_spec (removeOAuthFinalizer nb1)"
    and "same_rest nb (with_auth_annotations nb)" and "same_rest nb1 (removeOAuthFinalizer nb1)"
    and "list_all no_float (kept_containers cs)"
proof -
  show a: "same_rest nb (with_auth_annotations nb)" using with_auth_annotations_facts pod_spec_metadata [OF pod] by blast
  show k: "list_all no_float (kept_containers cs)" by (rule kept_no_float) (rule slice_no_float [OF pod cs])
  show pa: "pod_spec (with_auth_annotations nb)" by (rule same_rest_spec [OF a pod])
  show p1: "pod_spec nb1" unfolding nb1_def by (rule pod_spec_set [OF pa]) (rule no_float_lists(1) [OF k])
  show f: "same_rest nb1 (removeOAuthFinalizer nb1)" by (rule removeOAuthFinalizer_facts(3) [OF pod_spec_metadata [OF p1]])
  show "pod_spec (removeOAuthFinalizer nb1)" by (rule same_rest_spec [OF f p1])
qed

lemma apply_patches:
  assumes jq: "jq_paths gq marshal" and pod: "pod_spec nb"
    and cs: "nested_slice (pod_path ''containers'') nb = Some cs" and vs: "nested_slice (pod_path ''volumes'') nb = Some vs"
  shows "applyAllPatches gq marshal nb = Inr (patched_notebook cs vs nb)"
proof -
  let ?cs = "kept_containers cs" and ?vs = "kept_volumes vs"
  let ?a = "with_auth_annotations nb"
  let ?nb1 = "set_nested (pod_path ''containers'') (JArr (map canon ?cs)) ?a"
  let ?f = "removeOAuthFinalizer ?nb1"
  let ?nb2 = "set_nested (pod_path ''volumes'') (JArr (map canon ?vs)) ?f"
  note between = between_patches [OF pod cs]
  note pa = between(1) and pf = between(3) and a = between(4) and f = between(5) and kc = between(6)
  have kv: "list_all no_float ?vs" by (rule kept_no_float) (rule slice_no_float [OF pod vs])
  have p2: "pod_spec ?nb2" by (rule pod_spec_set [OF pf]) (rule no_float_lists(1) [OF kv])
  have "nested_slice (pod_path ''containers'') ?a = Some cs" using same_rest_slice [OF a] cs by simp
  then have first: "removeOAuthProxyContainer gq marshal ?a = Inr ?nb1"
    using query_slice(1) [OF jq pa, THEN iffD2] assign_containers(1) [OF jq pa kc] by (simp add: removeOAuthProxyContainer_def kept_containers_def)
  have "nested_slice (pod_path ''volumes'') ?f = Some vs" using same_rest_slice [OF f] same_rest_slice [OF a] vs by simp
  then have second: "removeOAuthVolumes gq marshal ?f = Inr ?nb2"
    using query_slice(2) [OF jq pf, THEN iffD2] assign_containers(2) [OF jq pf kv] by (simp add: removeOAuthVolumes_def kept_volumes_def)
  have "nested_slice (pod_path ''containers'') ?nb2 = Some (map canon ?cs)" using same_rest_slice [OF f] pa by simp
  then have q: "Query gq as_array [] ?nb2 q_containers = Inr (map canon ?cs)" by (rule query_slice(1) [OF jq p2, THEN iffD2])
  have "list_all no_float (map strip_container (map canon ?cs))" using kc by (simp add: list_all_iff)
  note assign_containers(1) [OF jq p2 this, folded patched_containers]
  then have "stripTornadoSettings gq marshal ?nb2 = Inr (patched_notebook cs vs nb)"
    unfolding stripTornadoSettings_def q sum.case patched_notebook_def Let_def by (simp only: sum.case if_not_P if_P split: if_split) blast
  then show ?thesis using first second by (simp add: applyAllPatches_def with_auth_annotations_def)
qed

lemma apply_patches_without_list:
  assumes jq: "jq_paths gq marshal" and pod: "pod_spec nb"
    and none: "nested_slice (pod_path ''containers'') nb = None \<or> nested_slice (pod_path ''volumes'') nb = None"
  shows "isl (applyAllPatches gq marshal nb)"
proof -
  let ?a = "with_auth_annotations nb"
  have a: "same_rest nb ?a" using with_auth_annotations_facts pod_spec_metadata [OF pod] by blast
  then have pa: "pod_spec ?a" by (rule same_rest_spec [OF _ pod])
  show ?thesis
  proof (cases "Query gq as_array [] ?a q_containers")
    case (Inl e)
    then show ?thesis by (simp add: applyAllPatches_def removeOAuthProxyContainer_def with_auth_annotations_def)
  next
    case (Inr cs)
    then have cs: "nested_slice (pod_path ''containers'') nb = Some cs" using query_slice(1) [OF jq pa] same_rest_slice [OF a] by simp
    then have novols: "nested_slice (pod_path ''volumes'') nb = None" using none by simp
    note between = between_patches [OF pod cs]
    let ?nb1 = "set_nested (pod_path ''containers'') (JArr (map canon (kept_containers cs))) ?a"
    let ?f = "removeOAuthFinalizer ?nb1"
    have "nested_slice (pod_path ''volumes'') ?f = None" using same_rest_slice [OF between(5)] same_rest_slice [OF a] novols by simp
    then have "\<exists>e. Query gq as_array [] ?f q_volumes = Inl e"
      using query_slice(2) [OF jq between(3)] by (cases "Query gq as_array [] ?f q_volumes") auto
    then show ?thesis using Inr assign_containers(1) [OF jq pa between(6)]
      by (auto simp: applyAllPatches_def removeOAuthProxyContainer_def removeOAuthVolumes_def with_auth_annotations_def kept_containers_def)
  qed
qed

lemma patched_facts:
  assumes pod: "pod_spec nb"
    and cs: "nested_slice (pod_path ''containers'') nb = Some cs" and vs: "nested_slice (pod_path ''volumes'') nb = Some vs"
  defines "nb' \<equiv> patched_notebook cs vs nb"
  shows "pod_spec nb'"
    and "nested_slice (pod_path ''containers'') nb' = Some (map patched_container (kept_containers cs))"
    and "nested_slice (pod_path ''volumes'') nb' = Some (map canon (kept_volumes vs))"
    and "u_annotations nb' = u_annotations (with_auth_annotations nb)"
    and "u_finalizers nb' = filter (\<lambda>f. f \<noteq> finalizerOAuthClient) (u_finalizers nb)"
    and "k \<noteq> ''containers'' \<Longrightarrow> k \<noteq> ''volumes'' \<Longrightarrow> nested (pod_path k) nb' = nested (pod_path k) nb"
    and "k \<noteq> ''annotations'' \<Longrightarrow> k \<noteq> ''finalizers'' \<Longrightarrow> nested [''metadata'', k] nb' = nested [''metadata'', k] nb"
proof -
  let ?cs = "kept_containers cs" and ?vs = "kept_volumes vs"
  let ?a = "with_auth_annotations nb"
  let ?nb1 = "set_nested (pod_path ''containers'') (JArr (map canon ?cs)) ?a"
  let ?f = "removeOAuthFinalizer ?nb1"
  let ?nb2 = "set_nested (pod_path ''volumes'') (JArr (map canon ?vs)) ?f"
  note between = between_patches [OF pod cs]
  note pa = between(1) and p1 = between(2) and pf = between(3) and a = between(4) and f = between(5) and kc = between(6)
  have m: "has_metadata nb" by (rule pod_spec_metadata [OF pod])
  have kv: "list_all no_float ?vs" by (rule kept_no_float) (rule slice_no_float [OF pod vs])
  have p2: "pod_spec ?nb2" by (rule pod_spec_set [OF pf]) (rule no_float_lists(1) [OF kv])
  have anns: "u_annotations ?f = u_annotations ?nb1" using removeOAuthFinalizer_facts(2) [OF pod_spec_metadata [OF p1]] .
  have fin: "u_finalizers ?f = filter (\<lambda>f. f \<noteq> finalizerOAuthClient) (u_finalizers nb)"
    using with_auth_annotations_facts(3) [OF m] pod_spec_metadata [OF p1] by (simp add: removeOAuthFinalizer_def)
  have nb': "nb' = (if HasTornadoSettings (map canon ?cs) then set_nested (pod_path ''containers'') (JArr (map patched_container ?cs)) ?nb2 else ?nb2)"
    by (simp add: nb'_def patched_notebook_def Let_def)
  show "pod_spec nb'" using p2 pod_spec_set [OF p2 no_float_lists(2) [OF kc]] by (simp add: nb' del: no_float.simps)
  show "nested_slice (pod_path ''containers'') nb' = Some (map patched_container ?cs)"
    using p2 same_rest_slice [OF f] pa patched_container_same [of ?cs] by (simp add: nb')
  show "nested_slice (pod_path ''volumes'') nb' = Some (map canon ?vs)" using pf by (simp add: nb')
  show "u_annotations nb' = u_annotations ?a" using anns by (simp add: nb')
  show "u_finalizers nb' = filter (\<lambda>f. f \<noteq> finalizerOAuthClient) (u_finalizers nb)" using fin by (simp add: nb')
  show "k \<noteq> ''containers'' \<Longrightarrow> k \<noteq> ''volumes'' \<Longrightarrow> nested (pod_path k) nb' = nested (pod_path k) nb"
    using same_rest_pod [OF f] same_rest_pod [OF a] by (simp add: nb')
  show "nested [''metadata'', k] nb' = nested [''metadata'', k] nb" if "k \<noteq> ''annotations''" "k \<noteq> ''finalizers''"
    using that f a m pod_spec_metadata [OF p1] by (simp add: nb' same_rest_def del: nested.simps)
qed

lemma patched_beside:
  fixes vs :: "json list"
  assumes pod: "pod_spec nb" and cs: "nested_slice (pod_path ''containers'') nb = Some cs"
  defines "nb' \<equiv> patched_notebook cs vs nb"
  shows "k \<noteq> ''metadata'' \<Longrightarrow> k \<noteq> ''spec'' \<Longrightarrow> json_field k nb' = json_field k nb"
    and "k \<noteq> ''template'' \<Longrightarrow> nested [''spec'', k] nb' = nested [''spec'', k] nb"
    and "k \<noteq> ''spec'' \<Longrightarrow> nested [''spec'', ''template'', k] nb' = nested [''spec'', ''template'', k] nb"
proof -
  note between = between_patches [OF pod cs]
  note a = between(4) [unfolded same_rest_def] and f = between(5) [unfolded same_rest_def]
  note same = a [THEN conjunct1] f [THEN conjunct1]
  note nested = same [THEN same_pod_nested]
  show "k \<noteq> ''template'' \<Longrightarrow> nested [''spec'', k] nb' = nested [''spec'', k] nb"
    unfolding nb'_def patched_notebook_def Let_def by (simp only: nested_set_beside nested not_False_eq_True split: if_split) blast
  show "k \<noteq> ''spec'' \<Longrightarrow> nested [''spec'', ''template'', k] nb' = nested [''spec'', ''template'', k] nb"
    unfolding nb'_def patched_notebook_def Let_def by (simp only: nested_set_beside nested not_False_eq_True split: if_split) blast
  show "json_field k nb' = json_field k nb" if "k \<noteq> ''metadata''" "k \<noteq> ''spec''"
    using that same unfolding nb'_def patched_notebook_def Let_def same_pod_def
    by (simp only: nested_set_beside not_False_eq_True split: if_split) blast
qed

lemma patched_migrated:
  assumes "jq_paths gq marshal" and "pod_spec nb"
    and "nested_slice (pod_path ''containers'') nb = Some cs" and "nested_slice (pod_path ''volumes'') nb = Some vs"
  shows "\<not> needsAuthModelPatch gq (patched_notebook cs vs nb)"
proof -
  let ?nb' = "patched_notebook cs vs nb"
  note facts = patched_facts [OF assms(2-4)]
  have m: "has_metadata nb" by (rule pod_spec_metadata [OF assms(2)])
  have "listed gq ?nb' q_containers = map patched_container (kept_containers cs)" "listed gq ?nb' q_volumes = map canon (kept_volumes vs)"
    using listed_slice [OF assms(1) facts(1)] facts(2,3) by blast+
  then have "\<not> hasOAuthProxyContainer gq ?nb'" "\<not> hasOAuthVolumes gq ?nb'" "\<not> hasTornadoSettings gq ?nb'"
    by (simp_all add: hasOAuthProxyContainer_def hasOAuthVolumes_def hasTornadoSettings_def list_ex_iff patched_clean_list
        kept_containers_def kept_volumes_def)
  moreover have "hasInjectAuthAnnotation ?nb'" "\<not> hasOAuthAnnotation ?nb'"
    using with_auth_annotations_facts(1,2) [OF m] facts(4) by (simp_all add: hasInjectAuthAnnotation_def hasOAuthAnnotation_def)
  moreover have "\<not> hasOAuthFinalizer ?nb'" using facts(5) by (simp add: hasOAuthFinalizer_def)
  ultimately show ?thesis by (simp add: needsAuthModelPatch_def)
qed

lemma applied_lists:
  assumes "jq_paths gq marshal" and "pod_spec nb" and "applyAllPatches gq marshal nb = Inr nb'"
  obtains cs vs where "nested_slice (pod_path ''containers'') nb = Some cs" "nested_slice (pod_path ''volumes'') nb = Some vs"
    "nb' = patched_notebook cs vs nb"
proof -
  obtain cs vs where lists: "nested_slice (pod_path ''containers'') nb = Some cs" "nested_slice (pod_path ''volumes'') nb = Some vs"
    using apply_patches_without_list [OF assms(1,2)] assms(3) by fastforce
  then show thesis using that apply_patches [OF assms(1,2) lists] assms(3) by simp
qed

lemma applied_migrated:
  assumes "jq_paths gq marshal" and "pod_spec nb" and "applyAllPatches gq marshal nb = Inr nb'"
  shows "\<not> needsAuthModelPatch gq nb'"
proof -
  from assms obtain cs vs where "nested_slice (pod_path ''containers'') nb = Some cs" "nested_slice (pod_path ''volumes'') nb = Some vs"
    "nb' = patched_notebook cs vs nb" by (rule applied_lists)
  then show ?thesis using patched_migrated [OF assms(1,2)] by blast
qed

section \<open>The migrated notebook\<close>

text \<open>
  What a migration means, without the patches: the values of fields are compared in canonical form. Of a value of
  \<open>NOTEBOOK_ARGS\<close> that is a row of arguments, the settings of the proxy are gone, with the blanks before them, and the other
  arguments stay as they are.
\<close>

definition has_name :: "string list \<Rightarrow> json \<Rightarrow> bool" where
  "has_name ns v \<longleftrightarrow> (\<exists>n\<in>set ns. json_field ''name'' v = Some (JStr n))"

definition settings_removed :: "string \<Rightarrow> string \<Rightarrow> bool" where
  "settings_removed v v' \<longleftrightarrow> (\<forall>args t. argument_row args \<and> list_all blank t \<and> v = row_text args @ t
     \<longrightarrow> v' = trim_space (row_text (filter (\<lambda>(w, a). plain_argument a) args) @ t))"

definition same_fields :: "string \<Rightarrow> json \<Rightarrow> json \<Rightarrow> bool" where
  "same_fields k v v' \<longleftrightarrow> (\<forall>j. j \<noteq> k \<longrightarrow> json_field j v' = map_option canon (json_field j v))"

definition migrated_variable :: "json \<Rightarrow> json \<Rightarrow> bool" where
  "migrated_variable e e' \<longleftrightarrow>
     (if \<exists>a b. json_field ''name'' e = Some (JStr ''NOTEBOOK_ARGS'') \<and> json_field ''value'' e = Some (JStr (a @ tornadoSettingsPrefix @ b))
      then same_fields ''value'' e e' \<and> (\<exists>v v'. json_field ''value'' e = Some (JStr v) \<and> json_field ''value'' e' = Some (JStr v') \<and> settings_removed v v')
      else e' = canon e)"

definition migrated_container :: "json \<Rightarrow> json \<Rightarrow> bool" where
  "migrated_container c c' \<longleftrightarrow>
     (case json_field ''env'' c of
        Some (JArr es) \<Rightarrow> same_fields ''env'' c c' \<and> (\<exists>es'. json_field ''env'' c' = Some (JArr es') \<and> list_all2 migrated_variable es es')
      | _ \<Rightarrow> c' = canon c)"

lemma string_or_empty_iff: "s \<noteq> [] \<Longrightarrow> string_or_empty w = s \<longleftrightarrow> w = Some (JStr s)"
proof (cases w)
  case (Some v)
  then show "s \<noteq> [] \<Longrightarrow> ?thesis" by (cases v) auto
qed auto

lemma tornado_env_iff:
  "tornado_env e \<longleftrightarrow> (\<exists>a b. json_field ''name'' e = Some (JStr ''NOTEBOOK_ARGS'') \<and> json_field ''value'' e = Some (JStr (a @ tornadoSettingsPrefix @ b)))"
proof (cases e)
  case (JObj fs)
  have "str_contains (string_or_empty w) tornadoSettingsPrefix \<longleftrightarrow> (\<exists>a b. w = Some (JStr (a @ tornadoSettingsPrefix @ b)))" for w
  proof -
    have "str_contains s tornadoSettingsPrefix \<longleftrightarrow> (\<exists>a b. s = a @ tornadoSettingsPrefix @ b)" for s by (rule str_contains_iff)
    moreover have "\<not> str_contains [] tornadoSettingsPrefix" by (simp add: str_contains_def)
    ultimately show ?thesis by (cases w rule: string_or_empty.cases) (simp_all only: string_or_empty.simps option.inject json.inject json.distinct option.distinct simp_thms)
  qed
  then show ?thesis unfolding JObj tornado_env.simps json_field.simps
    by (simp only: string_or_empty_iff [of envNotebookArgs] list.distinct not_False_eq_True ex_simps)
qed simp_all

lemma json_field_strip_env:
  "k \<noteq> ''value'' \<Longrightarrow> json_field k (strip_env e) = json_field k e"
  "tornado_env e \<Longrightarrow> json_field ''value'' (strip_env e)
     = Some (JStr (trim_space (removeTornadoArg (string_or_empty (json_field ''value'' e)))))"
  by (cases e; simp add: update_conv')+

lemma variable_migrated: "migrated_variable e (canon (strip_env (canon e)))"
proof (cases "tornado_env e")
  case True
  then obtain v where v: "json_field ''value'' e = Some (JStr v)" using tornado_env_iff by blast
  have "same_fields ''value'' e (canon (strip_env (canon e)))"
    unfolding same_fields_def using json_field_strip_env(1) by simp
  moreover have "json_field ''value'' (canon (strip_env (canon e))) = Some (JStr (trim_space (removeTornadoArg v)))"
    using json_field_strip_env(2) [of "canon e"] True v by simp
  moreover have "settings_removed v (trim_space (removeTornadoArg v))"
    unfolding settings_removed_def by (auto simp: removeTornadoArg_row)
  ultimately show ?thesis using True v unfolding migrated_variable_def tornado_env_iff [symmetric] by (simp only: if_True) blast
next
  case False
  then show ?thesis unfolding migrated_variable_def tornado_env_iff [symmetric] by (simp add: strip_env_same)
qed

lemma json_field_strip_container:
  "k \<noteq> ''env'' \<Longrightarrow> json_field k (strip_container c) = json_field k c"
  "json_field ''env'' c = Some (JArr es) \<Longrightarrow> json_field ''env'' (strip_container c) = Some (JArr (map strip_env es))"
  by (cases c; auto simp: update_conv' split: option.split json.split)+

lemma container_migrated: "migrated_container c (patched_container c)"
proof (cases "\<exists>es. json_field ''env'' c = Some (JArr es)")
  case True
  then obtain es where es: "json_field ''env'' c = Some (JArr es)" by blast
  have "same_fields ''env'' c (patched_container c)"
    unfolding same_fields_def patched_container_def using json_field_strip_container(1) by simp
  moreover have "json_field ''env'' (patched_container c) = Some (JArr (map (\<lambda>e. canon (strip_env (canon e))) es))"
    using json_field_strip_container(2) [of "canon c"] es by (simp add: patched_container_def comp_def)
  moreover have "list_all2 migrated_variable es (map (\<lambda>e. canon (strip_env (canon e))) es)"
    by (simp add: list_all2_map2 list_all2_same variable_migrated)
  ultimately show ?thesis unfolding migrated_container_def es option.case json.case by blast
next
  case False
  have "strip_container (canon c) = canon c"
  proof (cases "canon c")
    case (JObj fs)
    have "map_of fs ''env'' = map_option canon (json_field ''env'' c)" using json_field_canon_JNum [of "''env''" c] JObj by simp
    moreover have "canon w = JArr xs \<Longrightarrow> \<exists>ys. w = JArr ys" for w xs by (cases w) simp_all
    ultimately have "map_of fs ''env'' \<noteq> Some (JArr xs)" for xs using False by auto
    then show ?thesis by (cases "map_of fs ''env''") (auto simp: JObj split: json.split)
  qed simp_all
  then show ?thesis using False by (auto simp: migrated_container_def patched_container_def split: option.split json.split)
qed

lemma kept_eq:
  "kept_containers = filter (\<lambda>c. \<not> has_name [''oauth-proxy''] c)"
  "kept_volumes = filter (\<lambda>v. \<not> has_name [''oauth-config'', ''oauth-client'', ''tls-certificates''] v)"
proof -
  have "named containerOAuthProxy c = has_name [''oauth-proxy''] c" for c
    by (cases c) (simp_all add: has_name_def string_or_empty_iff)
  then show "kept_containers = filter (\<lambda>c. \<not> has_name [''oauth-proxy''] c)" by (simp add: kept_containers_def)
  have "name_is isOAuthVolumeName v = has_name [''oauth-config'', ''oauth-client'', ''tls-certificates''] v" for v
    by (cases v) (simp_all add: has_name_def isOAuthVolumeName_def string_or_empty_iff)
  then show "kept_volumes = filter (\<lambda>v. \<not> has_name [''oauth-config'', ''oauth-client'', ''tls-certificates''] v)"
    by (simp add: kept_volumes_def)
qed

lemma with_auth_annotations_lookup:
  assumes "has_metadata nb"
  shows "map_of (u_annotations (with_auth_annotations nb)) k =
    (if k = annotationInjectAuth then Some ''true'' else if k \<in> set [annotationInjectOAuth, annotationOAuthLogoutURL] then None
     else map_of (u_annotations nb) k)"
proof -
  obtain a b where eq: "with_auth_annotations nb = set_annotations (AList.delete annotationOAuthLogoutURL (AList.delete annotationInjectOAuth
    (AList.update annotationInjectAuth ''true'' (u_annotations nb)))) (set_annotations b (set_annotations a nb))"
    using with_auth_annotations_eq [OF assms] by blast
  show ?thesis using assms by (auto simp: eq delete_conv' update_conv')
qed

text \<open>
  C30. The patches of a notebook fail exactly if it has no list of containers or no list of volumes. Else they give a notebook
  that needs no patch: the annotation of the new model is set and the two of the old one are gone, and so are the finalizer,
  the container and the three volumes of the old proxy; in the other containers nothing changes but the values of
  \<open>NOTEBOOK_ARGS\<close> that have the setting, and of these, when they are a row of arguments, all arguments but the setting stay.
  Everything else is as it was: the other annotations and finalizers, the other metadata, the other fields of the pod, of its
  template, of the specification and of the object.
\<close>

theorem applyAllPatches_migrates:
  assumes "jq_paths gq marshal" and "pod_spec nb"
  shows "case applyAllPatches gq marshal nb of
      Inl e \<Rightarrow> nested_slice (pod_path ''containers'') nb = None \<or> nested_slice (pod_path ''volumes'') nb = None
    | Inr nb' \<Rightarrow> \<not> needsAuthModelPatch gq nb'
        \<and> (\<exists>cs vs cs'. nested_slice (pod_path ''containers'') nb = Some cs \<and> nested_slice (pod_path ''volumes'') nb = Some vs
          \<and> nested_slice (pod_path ''containers'') nb' = Some cs'
          \<and> list_all2 migrated_container (filter (\<lambda>c. \<not> has_name [''oauth-proxy''] c) cs) cs'
          \<and> nested_slice (pod_path ''volumes'') nb'
            = Some (map canon (filter (\<lambda>v. \<not> has_name [''oauth-config'', ''oauth-client'', ''tls-certificates''] v) vs)))
        \<and> (\<forall>k. map_of (u_annotations nb') k =
            (if k = annotationInjectAuth then Some ''true'' else if k \<in> set [annotationInjectOAuth, annotationOAuthLogoutURL] then None
             else map_of (u_annotations nb) k))
        \<and> u_finalizers nb' = filter (\<lambda>f. f \<noteq> finalizerOAuthClient) (u_finalizers nb)
        \<and> (\<forall>k. k \<noteq> ''annotations'' \<and> k \<noteq> ''finalizers'' \<longrightarrow> nested [''metadata'', k] nb' = nested [''metadata'', k] nb)
        \<and> (\<forall>k. k \<noteq> ''containers'' \<and> k \<noteq> ''volumes'' \<longrightarrow> nested (pod_path k) nb' = nested (pod_path k) nb)
        \<and> (\<forall>k. k \<noteq> ''spec'' \<longrightarrow> nested [''spec'', ''template'', k] nb' = nested [''spec'', ''template'', k] nb)
        \<and> (\<forall>k. k \<noteq> ''template'' \<longrightarrow> nested [''spec'', k] nb' = nested [''spec'', k] nb)
        \<and> (\<forall>k. k \<noteq> ''metadata'' \<and> k \<noteq> ''spec'' \<longrightarrow> json_field k nb' = json_field k nb)"
proof (cases "\<exists>cs vs. nested_slice (pod_path ''containers'') nb = Some cs \<and> nested_slice (pod_path ''volumes'') nb = Some vs")
  case True
  then obtain cs vs where lists: "nested_slice (pod_path ''containers'') nb = Some cs" "nested_slice (pod_path ''volumes'') nb = Some vs" by blast
  note facts = patched_facts [OF assms(2) lists]
  have cs: "list_all2 migrated_container (kept_containers cs) (map patched_container (kept_containers cs))"
    by (simp add: list_all2_map2 list_all2_same container_migrated)
  show ?thesis unfolding apply_patches [OF assms lists] sum.case kept_eq [symmetric]
  proof (intro conjI allI impI)
    show "\<not> needsAuthModelPatch gq (patched_notebook cs vs nb)" by (rule patched_migrated [OF assms lists])
    show "\<exists>cs' vs' cs''. nested_slice (pod_path ''containers'') nb = Some cs' \<and> nested_slice (pod_path ''volumes'') nb = Some vs'
          \<and> nested_slice (pod_path ''containers'') (patched_notebook cs vs nb) = Some cs''
          \<and> list_all2 migrated_container (kept_containers cs') cs''
          \<and> nested_slice (pod_path ''volumes'') (patched_notebook cs vs nb) = Some (map canon (kept_volumes vs'))"
      using lists facts(2,3) cs by blast
    show "map_of (u_annotations (patched_notebook cs vs nb)) k =
            (if k = annotationInjectAuth then Some ''true'' else if k \<in> set [annotationInjectOAuth, annotationOAuthLogoutURL] then None
             else map_of (u_annotations nb) k)" for k
      unfolding facts(4) by (rule with_auth_annotations_lookup [OF pod_spec_metadata [OF assms(2)]])
    show "u_finalizers (patched_notebook cs vs nb) = filter (\<lambda>f. f \<noteq> finalizerOAuthClient) (u_finalizers nb)" by (rule facts(5))
  qed (erule conjE, erule (1) facts(6,7) | rule patched_beside [OF assms(2) lists(1)]; (elim conjE)?, assumption)+
next
  case False
  then have none: "nested_slice (pod_path ''containers'') nb = None \<or> nested_slice (pod_path ''volumes'') nb = None" by auto
  then show ?thesis using apply_patches_without_list [OF assms none] by (cases "applyAllPatches gq marshal nb") simp_all
qed

section \<open>What the tasks write\<close>

text \<open>
  A cluster with an invariant that also says whether the user consents: stopping and restarting notebooks needs no consent,
  updates and deletions do; a question settles whether there is consent, and a run that asks no questions has it. The notebooks
  that are worked on are \<open>good\<close>, and stay so when they are fetched again and when they are patched.
\<close>

locale consented_tasks =
  fixes cl :: "'s cluster"
    and J :: "bool \<Rightarrow> 's \<Rightarrow> bool"
    and updates :: "ResourceType \<Rightarrow> string \<Rightarrow> json \<Rightarrow> bool"
    and patches :: "ResourceType \<Rightarrow> string \<Rightarrow> string \<Rightarrow> string \<Rightarrow> json \<Rightarrow> bool"
    and deletes :: "ResourceType \<Rightarrow> string \<Rightarrow> string \<Rightarrow> bool"
    and pollUntil :: "'s poll_until"
    and marshal :: "json \<Rightarrow> string"
    and target :: MigrateTarget
    and good :: "json \<Rightarrow> bool"
  assumes update: "J True s \<Longrightarrow> updates rt ns v \<Longrightarrow> J True (fst (clUpdate cl rt ns v s))"
    and patch: "J b s \<Longrightarrow> patches rt ns name ty v \<Longrightarrow> J b (fst (clPatch cl rt ns name ty v s))"
    and delete: "J True s \<Longrightarrow> deletes rt ns name \<Longrightarrow> J True (fst (clDelete cl rt ns name s))"
    and prompt: "J b s \<Longrightarrow> J (snd (Prompt cl s)) (fst (Prompt cl s))"
    and unasked: "tgSkipConfirm target \<Longrightarrow> J b s \<Longrightarrow> J True s"
    and weaken: "J b s \<Longrightarrow> J False s"
    and poll: "J b s \<Longrightarrow> J b (fst (pollUntil f s))"
    and refetched: "good nb \<Longrightarrow> clGet cl rt_Notebook (u_namespace nb) (u_name nb) s = Inr nb' \<Longrightarrow> good nb'"
    and applied: "good nb \<Longrightarrow> applyAllPatches (rdGojq (clReader cl s)) marshal nb = Inr nb' \<Longrightarrow> good nb'"

text \<open>The cluster after each operation, without the steps recorded.\<close>

lemma on_cluster_eq: "on_cluster f st = ((fst (f (fst st)), snd st), snd (f (fst st)))"
  by (simp add: on_cluster_def split_def)

named_theorems cluster_after

lemma after_stop [cluster_after]:
  "fst (fst (stopWorkbench pu cl now ts nb p st)) =
    (let r = clPatch cl rt_Notebook (u_namespace nb) (u_name nb) MergePatchType (stop_patch (JStr ts)) (fst st) in
     if isl (snd r) then fst r else fst (pu (scaled_down cl (u_name nb) (u_namespace nb)) (fst r)))"
  by (simp add: stopWorkbench_def waitForStatefulSetScaleDown_def on_cluster_eq split_def Let_def split: sum.split option.split)

lemma after_restart [cluster_after]:
  "fst (restartWorkbench cl now nb p st) =
    fst (clPatch cl rt_Notebook (u_namespace nb) (u_name nb) MergePatchType (stop_patch JNull) (fst st))"
  by (simp add: restartWorkbench_def on_cluster_eq split_def split: sum.split)

lemma after_delete_sts [cluster_after]:
  "fst (fst (deleteStatefulSet cl now nb p st)) = fst (clDelete cl rt_StatefulSet (u_namespace nb) (u_name nb) (fst st))"
  by (simp add: deleteStatefulSet_def on_cluster_eq split_def split: option.split)

lemma after_kueue_check [cluster_after]: "fst (fst (checkKueueTerminatingPods cl now nbs p st)) = fst st"
  by (simp add: checkKueueTerminatingPods_def Let_def split: sum.split)

lemma after_delete [cluster_after]:
  "fst (fst (DeleteResourceIfPresent cl now dry p (rt, name, ns) st)) = (if dry then fst st else fst (clDelete cl rt ns name (fst st)))"
  by (simp add: DeleteResourceIfPresent_def Let_def on_cluster_eq split_def split: option.split)

lemma after_cleanup [cluster_after]:
  "fst (fst (deleteOAuthResources cl now dry nb p st)) = fst (fst (delete_each cl now dry p (oauth_resources nb) st))"
  by (simp add: deleteOAuthResources_def split_def split: bool.split)

lemma after_patch_cleanup [cluster_after]:
  "fst (fst (CleanupNotebookAfterPatch cl now dry nb p st)) =
    fst (fst (deleteOAuthResources cl now dry nb (snd (open_cleanup now nb p st)) (fst (open_cleanup now nb p st))))"
  by (simp add: CleanupNotebookAfterPatch_def split_def)

lemma after_open_cleanup [simp]: "fst (fst (open_cleanup now nb p st)) = fst st"
  by (simp add: open_cleanup_def)

lemma after_patch_notebook [cluster_after]:
  "fst (fst (patch_notebook marshal cl now p nb st)) =
    (case applyAllPatches (rdGojq (clReader cl (fst st))) marshal nb of
       Inl e \<Rightarrow> fst st
     | Inr modified \<Rightarrow>
         (let r = clUpdate cl rt_Notebook (u_namespace nb) modified (fst st) in
          if isl (snd r) then fst r else fst (clDelete cl rt_StatefulSet (u_namespace nb) (u_name nb) (fst r))))"
  by (simp add: patch_notebook_def on_cluster_eq split_def Let_def cluster_after split: sum.split bool.split)

lemma after_patchNotebooks [cluster_after]:
  "fst (fst (patchNotebooks marshal cl now nbs st)) =
    (let st1 = open_step now 0 ''patch-auth-model'' ''Patch notebooks for kube-rbac-proxy auth model'' st in
     fst (fst (patch_loop marshal cl now (snd st1) nbs (fst st1))))"
  by (simp add: patchNotebooks_def split_def Let_def)

lemma open_step_pair: "open_step now p a b st = ((fst st, snd (fst (open_step now p a b st))), snd (open_step now p a b st))"
  by (simp add: prod_eq_iff)

lemma after_notes [simp]: "fst (fold (\<lambda>nb. note_step now p (a nb) (b nb) c) nbs st) = fst st"
  by (induction nbs arbitrary: st) simp_all

lemma after_report [cluster_after]: "fst (reportDryRun now toPatch st) = fst st"
  by (simp add: reportDryRun_def split_def)

lemma after_after_patching [cluster_after]:
  "fst (after_patching cl now a target patched stopped st) =
    fst (restartNotebooks cl now stopped (if WithCleanup a \<and> patched \<noteq> [] then runCleanup cl now target patched st else st))"
proof -
  have "fst (if c then case open_step now 0 d d' st' of (st3, p) \<Rightarrow>
      case checkKueueTerminatingPods cl now patched p st3 of
        (st4, True) \<Rightarrow> close_step p StepFailed m st4 | (st4, False) \<Rightarrow> close_step p StepCompleted m' st4 else st') = fst st'"
    for c d d' m m' and st' :: "'a task_state"
    by (simp add: split_def cluster_after split: bool.split)
  then show ?thesis unfolding after_patching_def Let_def .
qed

lemma patch_loop_results:
  "r \<in> set (snd (patch_loop marshal cl now p nbs st)) \<Longrightarrow>
    \<exists>nb\<in>set nbs. \<exists>s. applyAllPatches (rdGojq (clReader cl s)) marshal nb = Inr r"
proof (induction nbs arbitrary: st)
  case (Cons nb nbs)
  have one: "\<exists>s. applyAllPatches (rdGojq (clReader cl s)) marshal nb = Inr r"
    if "snd (patch_notebook marshal cl now p nb st) = Some r" for r
    using that by (auto simp: patch_notebook_def split_def split: sum.splits bool.splits)
  from Cons.prems consider "snd (patch_notebook marshal cl now p nb st) = Some r"
    | "r \<in> set (snd (patch_loop marshal cl now p nbs (fst (patch_notebook marshal cl now p nb st))))"
    by (auto simp: split_def split: option.splits)
  then show ?case
  proof cases
    case 1
    then show ?thesis using one by auto
  next
    case 2
    then show ?thesis using Cons.IH by fastforce
  qed
qed simp

context consented_tasks
begin

lemma stop_keeps:
  assumes "J b (fst st)" and "patches rt_Notebook (u_namespace nb) (u_name nb) MergePatchType (stop_patch (JStr ts))"
  shows "J b (fst (fst (stopWorkbench pollUntil cl now ts nb p st)))"
  using patch [OF assms] poll by (simp add: cluster_after Let_def)

lemma stop_loop_keeps:
  assumes "J b (fst st)" and "list_all good nbs"
    and "\<And>nb. \<not> dry \<Longrightarrow> good nb \<Longrightarrow> patches rt_Notebook (u_namespace nb) (u_name nb) MergePatchType (stop_patch (JStr ts))"
  shows "J b (fst (fst (stop_loop pollUntil cl now ts dry p nbs st)))"
  using assms(1,2)
proof (induction nbs arbitrary: st)
  case (Cons nb nbs)
  have stop: "J b (fst (fst (stopWorkbench pollUntil cl now ts nb p st)))" if "\<not> dry"
    using stop_keeps [OF Cons.prems(1) assms(3)] that Cons.prems(2) by simp
  show ?case
    using Cons stop by (cases dry) (simp_all add: split_def split: option.split sum.split)
qed simp

lemma stop_loop_dry: "dry \<Longrightarrow> snd (snd (stop_loop pollUntil cl now ts dry p nbs st)) = []"
  by (induction nbs arbitrary: st) (simp_all add: split_def)

lemma stop_loop_good:
  assumes "list_all good nbs"
  shows "list_all good (fst (snd (stop_loop pollUntil cl now ts dry p nbs st)))"
    and "list_all good (snd (snd (stop_loop pollUntil cl now ts dry p nbs st)))"
  using assms
proof (induction nbs arbitrary: st)
  case (Cons nb nbs)
  have again: "good nb'" if "list_all good (nb # nbs)" "clGet cl rt_Notebook (u_namespace nb) (u_name nb) s = Inr nb'" for s nb'
    using refetched [OF _ that(2)] that(1) by simp
  { case 1
    have "list_all good (fst (snd (stop_loop pollUntil cl now ts dry p nbs st)))" for st using Cons.IH(1) 1 by simp
    then show ?case using again [OF 1] 1 by (cases dry) (simp_all add: split_def split: option.split sum.split) }
  { case 2
    have "list_all good (snd (snd (stop_loop pollUntil cl now ts dry p nbs st)))" for st using Cons.IH(2) 2 by simp
    then show ?case using again [OF 2] 2 by (cases dry) (simp_all add: split_def split: option.split sum.split) }
qed simp_all

lemma lifecycle_keeps:
  assumes "J b (fst st)" and "list_all good nbs"
    and "\<And>nb. \<not> dry \<Longrightarrow> \<not> SkipStop a \<Longrightarrow> \<not> OnlyStopped a \<Longrightarrow> good nb
      \<Longrightarrow> patches rt_Notebook (u_namespace nb) (u_name nb) MergePatchType (stop_patch (JStr ts))"
  shows "J b (fst (fst (handleLifecycle pollUntil cl now ts a dry nbs st)))"
proof (cases "OnlyStopped a \<or> SkipStop a")
  case True
  then show ?thesis using assms(1) by (auto simp: handleLifecycle_def Let_def split_def)
next
  case False
  then show ?thesis using stop_loop_keeps [OF _ assms(2)] assms(1,3) by (simp add: handleLifecycle_def Let_def split_def)
qed

lemma lifecycle_good:
  assumes "list_all good nbs"
  shows "list_all good (fst (snd (handleLifecycle pollUntil cl now ts a dry nbs st)))"
    and "list_all good (snd (snd (handleLifecycle pollUntil cl now ts a dry nbs st)))"
  using stop_loop_good [OF assms] assms by (auto simp: handleLifecycle_def Let_def split_def list_all_iff)

lemma lifecycle_none:
  "dry \<or> SkipStop a \<or> OnlyStopped a \<Longrightarrow> snd (snd (handleLifecycle pollUntil cl now ts a dry nbs st)) = []"
  by (cases "dry \<and> \<not> OnlyStopped a \<and> \<not> SkipStop a") (auto simp: handleLifecycle_def Let_def split_def stop_loop_dry)

lemma restart_keeps:
  assumes "J b (fst st)" and "list_all good stopped"
    and "\<And>nb. stopped \<noteq> [] \<Longrightarrow> good nb \<Longrightarrow> patches rt_Notebook (u_namespace nb) (u_name nb) MergePatchType (stop_patch JNull)"
  shows "J b (fst (restartNotebooks cl now stopped st))"
proof (cases "stopped = []")
  case False
  have "J b (fst (fold (\<lambda>nb. restartWorkbench cl now nb p) nbs st))" if "J b (fst st)" "list_all good nbs"
    for p nbs and st :: "'s task_state"
    using that patch [OF _ assms(3) [OF False]] by (induction nbs arbitrary: st) (simp_all add: cluster_after)
  then show ?thesis using assms(1,2) by (simp add: restartNotebooks_def split_def)
qed (use assms(1) in \<open>simp add: restartNotebooks_def\<close>)

lemma patch_loop_keeps:
  assumes "J True (fst st)" and "list_all good nbs"
    and "\<And>s nb nb'. good nb \<Longrightarrow> applyAllPatches (rdGojq (clReader cl s)) marshal nb = Inr nb' \<Longrightarrow> updates rt_Notebook (u_namespace nb) nb'"
    and "\<And>nb. good nb \<Longrightarrow> deletes rt_StatefulSet (u_namespace nb) (u_name nb)"
  shows "J True (fst (fst (patch_loop marshal cl now p nbs st)))"
  using assms(1,2)
proof (induction nbs arbitrary: st)
  case (Cons nb nbs)
  have "J True (fst (fst (patch_notebook marshal cl now p nb st)))"
    using Cons.prems assms(3) [of nb "fst st"] update delete [OF _ assms(4)] by (auto simp: cluster_after Let_def split: sum.split)
  then show ?case using Cons by (simp add: split_def)
qed simp

lemma delete_each_keeps:
  assumes "dry \<and> J b (fst st) \<or> \<not> dry \<and> b \<and> J True (fst st)" and "\<And>rt name ns. \<not> dry \<Longrightarrow> (rt, name, ns) \<in> set rs \<Longrightarrow> deletes rt ns name"
  shows "J b (fst (fst (delete_each cl now dry p rs st)))"
  using assms
proof (induction rs arbitrary: st)
  case (Cons r rs)
  obtain rt name ns where r: "r = (rt, name, ns)" by (cases r)
  have "dry \<and> J b (fst (fst (DeleteResourceIfPresent cl now dry p r st))) \<or> \<not> dry \<and> b \<and> J True (fst (fst (DeleteResourceIfPresent cl now dry p r st)))"
    using Cons.prems delete [of "fst st" rt ns name] unfolding r by (auto simp: cluster_after)
  then show ?case using Cons by (simp add: split_def)
qed auto

lemma after_patch_keeps:
  assumes "dry \<and> J b (fst st) \<or> \<not> dry \<and> b \<and> J True (fst st)" and "list_all good nbs"
    and "\<And>rt name ns nb. \<not> dry \<Longrightarrow> good nb \<Longrightarrow> (rt, name, ns) \<in> set (oauth_resources nb) \<Longrightarrow> deletes rt ns name"
  shows "J b (fst (fst (after_patch_loop cl now dry p nbs st)))"
  using assms(1,2)
proof (induction nbs arbitrary: st)
  case (Cons nb nbs)
  have one: "J b (fst (fst (CleanupNotebookAfterPatch cl now dry nb' p st)))"
    if "clGet cl rt_Notebook (u_namespace nb) (u_name nb) (fst st) = Inr nb'" for nb'
  proof -
    have "good nb'" using refetched [OF _ that] Cons.prems(2) by simp
    then show ?thesis unfolding cluster_after by (intro delete_each_keeps) (use Cons.prems(1) assms(3) in simp_all)
  qed
  have b: "dry \<and> J b s \<or> \<not> dry \<and> b \<and> J True s" if "J b s" for s using that Cons.prems(1) by auto
  show ?case using Cons one b by (auto simp: split_def split: sum.split)
qed auto

lemma confirm_keeps: "J b (fst st) \<Longrightarrow> J (snd (confirmed cl target st)) (fst (fst (confirmed cl target st)))"
  using prompt [of b "fst st"] unasked [of b "fst st"] by (simp add: confirmed_def on_cluster_eq)

lemma runCleanup_keeps:
  assumes "J b (fst st)" and "list_all good patched" and "\<not> tgDryRun target"
    and "\<And>rt name ns nb. good nb \<Longrightarrow> (rt, name, ns) \<in> set (oauth_resources nb) \<Longrightarrow> deletes rt ns name"
  shows "J False (fst (runCleanup cl now target patched st))"
proof -
  have loop: "J False (fst (fst (after_patch_loop cl now False p patched st)))" if "J True (fst st)" for p and st :: "'s task_state"
    by (rule weaken, rule after_patch_keeps) (use that assms(2,4) in simp_all)
  show ?thesis using confirm_keeps [OF assms(1)] weaken [OF confirm_keeps [OF assms(1)]] loop assms(3)
    by (cases "snd (confirmed cl target st)") (simp_all add: runCleanup_def split_def Let_def)
qed

lemma after_patching_keeps:
  assumes "J b (fst st)" and "list_all good patched" and "list_all good stopped" and "\<not> tgDryRun target"
    and "\<And>nb. stopped \<noteq> [] \<Longrightarrow> good nb \<Longrightarrow> patches rt_Notebook (u_namespace nb) (u_name nb) MergePatchType (stop_patch JNull)"
    and "\<And>rt name ns nb. WithCleanup a \<Longrightarrow> good nb \<Longrightarrow> (rt, name, ns) \<in> set (oauth_resources nb) \<Longrightarrow> deletes rt ns name"
  shows "J False (fst (after_patching cl now a target patched stopped st))"
proof -
  let ?st = "if WithCleanup a \<and> patched \<noteq> [] then runCleanup cl now target patched st else st"
  have "J False (fst ?st)" using runCleanup_keeps [OF assms(1,2,4,6)] weaken [OF assms(1)] by simp
  then have "J False (fst (restartNotebooks cl now stopped ?st))" by (rule restart_keeps [OF _ assms(3,5)])
  then show ?thesis unfolding cluster_after .
qed

lemma patched_good:
  assumes "list_all good toPatch"
  shows "list_all good (snd (patchNotebooks marshal cl now toPatch st))"
proof -
  have "list_all good (snd (patch_loop marshal cl now p toPatch st))" for p and st :: "'s task_state"
    using assms patch_loop_results [of _ marshal cl now p toPatch st] applied unfolding list_all_iff by blast
  then show ?thesis by (simp add: patchNotebooks_def split_def Let_def)
qed

lemma execute_keeps:
  assumes "J False (fst st)"
    and listed: "\<And>nbs. ListNotebooks cl (paScope a) (fst st) = Inr nbs \<Longrightarrow> list_all good (filter (needsAuthModelPatch (rdGojq (clReader cl (fst st)))) nbs)"
    and changed: "\<And>s nb nb'. \<not> tgDryRun target \<Longrightarrow> validateFlags a = None \<Longrightarrow> good nb \<Longrightarrow> applyAllPatches (rdGojq (clReader cl s)) marshal nb = Inr nb'
        \<Longrightarrow> updates rt_Notebook (u_namespace nb) nb'"
    and stops: "\<And>nb v. \<not> tgDryRun target \<Longrightarrow> validateFlags a = None \<Longrightarrow> \<not> SkipStop a \<Longrightarrow> \<not> OnlyStopped a \<Longrightarrow> good nb \<Longrightarrow> v = JStr ts \<or> v = JNull
        \<Longrightarrow> patches rt_Notebook (u_namespace nb) (u_name nb) MergePatchType (stop_patch v)"
    and sets: "\<And>nb. \<not> tgDryRun target \<Longrightarrow> validateFlags a = None \<Longrightarrow> good nb \<Longrightarrow> deletes rt_StatefulSet (u_namespace nb) (u_name nb)"
    and cleans: "\<And>rt name ns nb. \<not> tgDryRun target \<Longrightarrow> validateFlags a = None \<Longrightarrow> WithCleanup a \<Longrightarrow> good nb
        \<Longrightarrow> (rt, name, ns) \<in> set (oauth_resources nb) \<Longrightarrow> deletes rt ns name"
  shows "J False (fst (authRun_Execute pollUntil marshal cl now ts a target st))"
proof (cases "validateFlags a")
  case (Some e)
  then show ?thesis using assms(1) by (simp add: authRun_Execute_def)
next
  case None
  show ?thesis
  proof (cases "ListNotebooks cl (paScope a) (fst st)")
    case (Inl e)
    then show ?thesis using assms(1) None by (simp add: authRun_Execute_def split_def)
  next
    case (Inr nbs)
    let ?nbs = "filter (needsAuthModelPatch (rdGojq (clReader cl (fst st)))) nbs"
    let ?life = "\<lambda>st. handleLifecycle pollUntil cl now ts a (tgDryRun target) ?nbs st"
    note good = listed [OF Inr]
    have life: "J False (fst (fst (?life st')))" if "J False (fst st')" for st' :: "'s task_state"
      by (rule lifecycle_keeps [OF that good]) (use stops None in blast)
    have mark: "patches rt_Notebook (u_namespace nb) (u_name nb) MergePatchType (stop_patch JNull)"
      if "snd (snd (?life st')) \<noteq> []" "good nb" for nb and st' :: "'s task_state"
      using that lifecycle_none [of "tgDryRun target" a now ts ?nbs st'] stops None by blast
    have rest: "J False (fst (restartNotebooks cl now (snd (snd (?life st'))) st''))" if "J b (fst st'')" for b and st' st'' :: "'s task_state"
      by (rule restart_keeps [OF weaken [OF that] lifecycle_good(2) [OF good]]) (rule mark)
    have patching: "J True (fst (fst (patchNotebooks marshal cl now toPatch st')))"
      if "\<not> tgDryRun target" "J True (fst st')" "list_all good toPatch" for toPatch and st' :: "'s task_state"
      unfolding cluster_after Let_def
      by (rule patch_loop_keeps) (use that changed sets None in simp_all)
    have after: "J False (fst (after_patching cl now a target patched (snd (snd (?life st''))) st'))"
      if "\<not> tgDryRun target" "J True (fst st')" "list_all good patched" for patched and st' st'' :: "'s task_state"
      by (rule after_patching_keeps [OF that(2,3) lifecycle_good(2) [OF good] that(1) mark]) (use that cleans None in simp_all)
    have asked: "J (snd (confirmed cl target st')) (fst (fst (confirmed cl target st')))" if "J False (fst st')" for st' :: "'s task_state"
      by (rule confirm_keeps [OF that])
    show ?thesis
    proof (cases "tgDryRun target")
      case True
      then show ?thesis using assms(1) life rest [of False] weaken
        by (simp add: authRun_Execute_def None Inr split_def Let_def classifyNotebooks_def after_report)
    next
      case False
      have yes: "J True (fst (fst (confirmed cl target st')))" if "J False (fst st')" "snd (confirmed cl target st')" for st' :: "'s task_state"
        using asked [OF that(1)] that(2) by simp
      show ?thesis using assms(1) life rest [of False] weaken [OF asked] yes patching patched_good lifecycle_good(1) [OF good] after False
        by (simp add: authRun_Execute_def None Inr split_def Let_def classifyNotebooks_def split: bool.split)
    qed
  qed
qed

end

section \<open>Writes and answers\<close>

text \<open>A cluster that records what is written to it and what the user answers, in order.\<close>

datatype trace_entry = Wrote cluster_write | Answered bool

definition trace_entry_of :: "trace_entry \<Rightarrow> ('s \<Rightarrow> 's \<times> 'a) \<Rightarrow> 's \<times> trace_entry list \<Rightarrow> ('s \<times> trace_entry list) \<times> 'a" where
  "trace_entry_of x f st = (case f (fst st) of (s', r) \<Rightarrow> ((s', snd st @ [x]), r))"

definition traced :: "'s cluster \<Rightarrow> ('s \<times> trace_entry list) cluster" where
  "traced cl = \<lparr>
     clReader = (\<lambda>st. clReader cl (fst st)),
     clGet = (\<lambda>rt ns name st. clGet cl rt ns name (fst st)),
     clList = (\<lambda>rt cfg st. clList cl rt cfg (fst st)),
     clCreate = (\<lambda>rt ns v. trace_entry_of (Wrote (WCreate rt ns v)) (clCreate cl rt ns v)),
     clUpdate = (\<lambda>rt ns v. trace_entry_of (Wrote (WUpdate rt ns v)) (clUpdate cl rt ns v)),
     clPatch = (\<lambda>rt ns name ty v. trace_entry_of (Wrote (WPatch rt ns name ty v)) (clPatch cl rt ns name ty v)),
     clDelete = (\<lambda>rt ns name. trace_entry_of (Wrote (WDelete rt ns name)) (clDelete cl rt ns name)),
     clCtx = (\<lambda>st. clCtx cl (fst st)),
     clSleep = (\<lambda>d st. case clSleep cl d (fst st) of (s', r) \<Rightarrow> ((s', snd st), r)),
     clLine = (\<lambda>st. trace_entry_of (Answered (snd (Prompt cl (fst st)))) (clLine cl) st)\<rparr>"

definition traced_poll :: "'s poll_until \<Rightarrow> ('s \<times> trace_entry list) poll_until" where
  "traced_poll pollUntil f st = (case pollUntil (\<lambda>s. f (s, snd st)) (fst st) of (s', e) \<Rightarrow> ((s', snd st), e))"

text \<open>The last answer is yes, or no question is asked.\<close>

definition consents :: "MigrateTarget \<Rightarrow> trace_entry list \<Rightarrow> bool" where
  "consents target xs \<longleftrightarrow> tgSkipConfirm target \<or>
     (let answers = filter (\<lambda>x. \<exists>b. x = Answered b) xs in answers \<noteq> [] \<and> last answers = Answered True)"

definition trace_ok :: "(trace_entry list \<Rightarrow> cluster_write \<Rightarrow> bool) \<Rightarrow> trace_entry list \<Rightarrow> bool" where
  "trace_ok ok tr \<longleftrightarrow> (\<forall>xs w ys. tr = xs @ Wrote w # ys \<longrightarrow> ok xs w)"

lemma trace_ok_Nil [simp]: "trace_ok ok []"
  by (simp add: trace_ok_def)

lemma trace_ok_Wrote: "trace_ok ok tr \<Longrightarrow> ok tr w \<Longrightarrow> trace_ok ok (tr @ [Wrote w])"
  unfolding trace_ok_def by (auto simp: append_eq_append_conv2 Cons_eq_append_conv append_eq_Cons_conv)

lemma trace_ok_Answered: "trace_ok ok tr \<Longrightarrow> trace_ok ok (tr @ [Answered b])"
  unfolding trace_ok_def by (auto simp: append_eq_append_conv2 Cons_eq_append_conv append_eq_Cons_conv)

lemma consents_simps [simp]:
  "consents target (xs @ [Wrote w]) = consents target xs"
  "consents target (xs @ [Answered b]) = (tgSkipConfirm target \<or> b)"
  by (auto simp: consents_def Let_def)

lemma prompt_traced:
  "Prompt (traced cl) st = ((fst (Prompt cl (fst st)), snd st @ [Answered (snd (Prompt cl (fst st)))]), snd (Prompt cl (fst st)))"
  by (simp add: Prompt_def traced_def trace_entry_of_def split: prod.splits sum.splits)

lemma ListNotebooks_traced: "ListNotebooks (traced cl) scope st = ListNotebooks cl scope (fst st)"
  by (simp add: ListNotebooks_def traced_def)

text \<open>The writes that the migration may send: to the notebooks \<open>T\<close>, given by namespace and name, and what belongs to them.\<close>

definition auth_write ::
  "gojq \<Rightarrow> (json \<Rightarrow> string) \<Rightarrow> string \<Rightarrow> PatchAuthModelAction \<Rightarrow> (string \<times> string) set \<Rightarrow> bool \<Rightarrow> cluster_write \<Rightarrow> bool" where
  "auth_write gq marshal ts a T consent w \<longleftrightarrow>
     (case w of
        WCreate rt ns v \<Rightarrow> False
      | WUpdate rt ns v \<Rightarrow> consent \<and> rt = rt_Notebook \<and> (ns, u_name v) \<in> T \<and> u_namespace v = ns \<and> \<not> needsAuthModelPatch gq v
          \<and> (\<exists>nb. pod_spec nb \<and> applyAllPatches gq marshal nb = Inr v)
      | WPatch rt ns n ty v \<Rightarrow> \<not> SkipStop a \<and> \<not> OnlyStopped a \<and> rt = rt_Notebook \<and> (ns, n) \<in> T \<and> ty = MergePatchType
          \<and> (\<exists>x. (x = JStr ts \<or> x = JNull) \<and> v = JObj [(''metadata'', JObj [(''annotations'', JObj [(''kubeflow-resource-stopped'', x)])])])
      | WDelete rt ns n \<Rightarrow> consent \<and>
          (rt = rt_StatefulSet \<and> (ns, n) \<in> T
           \<or> WithCleanup a \<and> (\<exists>ns' n'. (ns', n') \<in> T \<and> (rt, ns, n) \<in> set [(rt_Route, ns', n'), (rt_Service, ns', n' @ ''-tls''),
               (rt_Secret, ns', n' @ ''-oauth-client''), (rt_Secret, ns', n' @ ''-oauth-config''), (rt_Secret, ns', n' @ ''-tls''),
               (rt_OAuthClient, [], n' @ ''-'' @ ns' @ ''-oauth-client'')])))"

text \<open>The notebooks that a cluster serves, and a cluster that serves, under a name, the notebook of that name.\<close>

definition served :: "'s cluster \<Rightarrow> json \<Rightarrow> bool" where
  "served cl nb \<longleftrightarrow> (\<exists>s ns n. clGet cl rt_Notebook ns n s = Inr nb)
     \<or> (\<exists>s cfg nbs. rdList (clReader cl s) rt_Notebook cfg = Inr nbs \<and> nb \<in> set nbs)"

definition serves_by_name :: "'s cluster \<Rightarrow> bool" where
  "serves_by_name cl \<longleftrightarrow> (\<forall>ns n s nb. clGet cl rt_Notebook ns n s = Inr nb \<longrightarrow> u_namespace nb = ns \<and> u_name nb = n)"

definition in_scope :: "(string \<times> string) set \<Rightarrow> json \<Rightarrow> bool" where
  "in_scope T nb \<longleftrightarrow> (u_namespace nb, u_name nb) \<in> T \<and> pod_spec nb"

lemma listed_served: "ListNotebooks cl scope s = Inr nbs \<Longrightarrow> nb \<in> set nbs \<Longrightarrow> served cl nb"
  unfolding ListNotebooks_def served_def by (cases "WorkbenchName scope = []") (auto split: sum.splits)

lemma nested_string_nested: "nested_string p v = string_or_empty (nested p v)"
proof (induction p arbitrary: v)
  case Nil
  then show ?case by (cases v) simp_all
next
  case (Cons k p)
  then show ?case by (cases "json_field k v") simp_all
qed

lemma applied_names:
  assumes "jq_paths gq marshal" and "pod_spec nb" and "applyAllPatches gq marshal nb = Inr nb'"
  shows "u_name nb' = u_name nb" and "u_namespace nb' = u_namespace nb" and "pod_spec nb'"
proof -
  from assms obtain cs vs where "nested_slice (pod_path ''containers'') nb = Some cs" "nested_slice (pod_path ''volumes'') nb = Some vs"
    "nb' = patched_notebook cs vs nb" by (rule applied_lists)
  note facts = patched_facts [OF assms(2) this(1,2), folded this(3)]
  show "pod_spec nb'" by (rule facts(1))
  show "u_name nb' = u_name nb" "u_namespace nb' = u_namespace nb"
    unfolding u_name_def u_namespace_def nested_string_nested using facts(7) [of "''name''"] facts(7) [of "''namespace''"] by (simp_all del: nested.simps)
qed

text \<open>The notebooks that are worked on: those given, what is fetched for one of them, and what is made of one of them.\<close>

inductive tracked :: "'s cluster \<Rightarrow> (json \<Rightarrow> string) \<Rightarrow> (json \<Rightarrow> bool) \<Rightarrow> json \<Rightarrow> bool" for cl marshal given where
  tracked_given: "given nb \<Longrightarrow> tracked cl marshal given nb"
| tracked_fetched: "tracked cl marshal given nb \<Longrightarrow> clGet cl rt_Notebook (u_namespace nb) (u_name nb) s = Inr nb' \<Longrightarrow> tracked cl marshal given nb'"
| tracked_patched: "tracked cl marshal given nb \<Longrightarrow> applyAllPatches (rdGojq (clReader cl s)) marshal nb = Inr nb' \<Longrightarrow> tracked cl marshal given nb'"

definition consent_kept :: "(bool \<Rightarrow> cluster_write \<Rightarrow> bool) \<Rightarrow> MigrateTarget \<Rightarrow> bool \<Rightarrow> 's \<times> trace_entry list \<Rightarrow> bool" where
  "consent_kept ok target b st \<longleftrightarrow> trace_ok (\<lambda>xs. ok (consents target xs)) (snd st) \<and> (b \<longrightarrow> consents target (snd st))"

lemma consent_kept_write:
  "consent_kept ok target b st \<Longrightarrow> ok True w \<Longrightarrow> (\<not> b \<Longrightarrow> ok False w) \<Longrightarrow> consent_kept ok target b (s', snd st @ [Wrote w])"
  unfolding consent_kept_def by (cases "consents target (snd st)") (auto intro: trace_ok_Wrote)

interpretation ct: consented_tasks "traced cl" "consent_kept ok target" "\<lambda>rt ns v. ok True (WUpdate rt ns v)"
  "\<lambda>rt ns name ty v. ok False (WPatch rt ns name ty v) \<and> ok True (WPatch rt ns name ty v)" "\<lambda>rt ns name. ok True (WDelete rt ns name)"
  "traced_poll pu" marshal target "tracked cl marshal given"
  for cl ok target pu marshal given
proof
  show "consent_kept ok target True (fst (clUpdate (traced cl) rt ns v st))"
    if "consent_kept ok target True st" "ok True (WUpdate rt ns v)" for st rt ns v
    using consent_kept_write [OF that] by (simp add: traced_def trace_entry_of_def split_def)
  show "consent_kept ok target b (fst (clPatch (traced cl) rt ns name ty v st))"
    if "consent_kept ok target b st" "ok False (WPatch rt ns name ty v) \<and> ok True (WPatch rt ns name ty v)" for b st rt ns name ty v
    using consent_kept_write [OF that(1) conjunct2 [OF that(2)] conjunct1 [OF that(2)]] by (simp add: traced_def trace_entry_of_def split_def)
  show "consent_kept ok target True (fst (clDelete (traced cl) rt ns name st))"
    if "consent_kept ok target True st" "ok True (WDelete rt ns name)" for st rt ns name
    using consent_kept_write [OF that] by (simp add: traced_def trace_entry_of_def split_def)
  show "consent_kept ok target (snd (Prompt (traced cl) st)) (fst (Prompt (traced cl) st))" if "consent_kept ok target b st" for b st
    using that by (simp add: prompt_traced consent_kept_def trace_ok_Answered)
  show "consent_kept ok target True st" if "tgSkipConfirm target" "consent_kept ok target b st" for b and st :: "'a \<times> trace_entry list"
    using that by (simp add: consent_kept_def consents_def)
  show "consent_kept ok target False st" if "consent_kept ok target b st" for b and st :: "'a \<times> trace_entry list"
    using that by (simp add: consent_kept_def)
  show "consent_kept ok target b (fst (traced_poll pu f st))" if "consent_kept ok target b st" for b f st
    using that by (simp add: consent_kept_def traced_poll_def split_def)
  show "tracked cl marshal given nb'"
    if "tracked cl marshal given nb" "clGet (traced cl) rt_Notebook (u_namespace nb) (u_name nb) st = Inr nb'" for nb nb' st
    using that by (auto simp: traced_def intro: tracked_fetched)
  show "tracked cl marshal given nb'"
    if "tracked cl marshal given nb" "applyAllPatches (rdGojq (clReader (traced cl) st)) marshal nb = Inr nb'" for nb nb' st
    using that by (auto simp: traced_def intro: tracked_patched)
qed

lemma tracked_in_scope:
  assumes "\<And>s. rdGojq (clReader cl s) = gq" and "jq_paths gq marshal" and "\<And>nb. served cl nb \<Longrightarrow> pod_spec nb" and "serves_by_name cl"
    and "tracked cl marshal (in_scope T) nb"
  shows "in_scope T nb"
  using assms(5)
proof (induction rule: tracked.induct)
  case (tracked_fetched nb s nb')
  then show ?case using assms(3) [of nb'] assms(4) unfolding in_scope_def serves_by_name_def served_def by metis
next
  case (tracked_patched nb s nb')
  then show ?case using applied_names [OF assms(2), of nb nb'] assms(1) by (simp add: in_scope_def)
qed

text \<open>What the task does to a notebook is permitted.\<close>

lemma auth_write_update:
  assumes "jq_paths gq marshal" and "in_scope T nb" and "applyAllPatches gq marshal nb = Inr nb'"
  shows "auth_write gq marshal ts a T True (WUpdate rt_Notebook (u_namespace nb) nb')"
proof -
  have nb: "pod_spec nb" "(u_namespace nb, u_name nb) \<in> T" using assms(2) unfolding in_scope_def by blast+
  note names = applied_names [OF assms(1) nb(1) assms(3)]
  show ?thesis unfolding auth_write_def cluster_write.case
    by (intro conjI TrueI refl exI [of _ nb] applied_migrated [OF assms(1) nb(1) assms(3)] nb(1) assms(3) names(2)) (simp only: names nb(2))
qed

lemma auth_write_stop:
  assumes "in_scope T nb" and "\<not> SkipStop a" and "\<not> OnlyStopped a" and "v = JStr ts \<or> v = JNull"
  shows "auth_write gq marshal ts a T c (WPatch rt_Notebook (u_namespace nb) (u_name nb) MergePatchType (stop_patch v))"
  unfolding auth_write_def cluster_write.case stop_patch_def
  by (intro conjI refl exI [of _ v] assms(2-4)) (rule assms(1) [unfolded in_scope_def, THEN conjunct1])

lemma auth_write_set:
  assumes "in_scope T nb"
  shows "auth_write gq marshal ts a T True (WDelete rt_StatefulSet (u_namespace nb) (u_name nb))"
  unfolding auth_write_def cluster_write.case using assms [unfolded in_scope_def, THEN conjunct1] by (simp only: simp_thms)

lemma auth_write_cleanup:
  assumes "in_scope T nb" and "WithCleanup a" and "(rt, name, ns) \<in> set (oauth_resources nb)"
  shows "auth_write gq marshal ts a T True (WDelete rt ns name)"
proof -
  have T: "(u_namespace nb, u_name nb) \<in> T" using assms(1) unfolding in_scope_def by blast
  have "(\<lambda>(rt, name, ns). (rt, ns, name)) ` set (oauth_resources nb) = set [(rt_Route, u_namespace nb, u_name nb), (rt_Service, u_namespace nb, u_name nb @ ''-tls''),
      (rt_Secret, u_namespace nb, u_name nb @ ''-oauth-client''), (rt_Secret, u_namespace nb, u_name nb @ ''-oauth-config''),
      (rt_Secret, u_namespace nb, u_name nb @ ''-tls''), (rt_OAuthClient, [], u_name nb @ ''-'' @ u_namespace nb @ ''-oauth-client'')]"
    unfolding oauth_resources_def Let_def by (simp only: set_simps image_insert image_empty prod.case)
  note imageI [OF assms(3), of "\<lambda>(rt, name, ns). (rt, ns, name)", unfolded this prod.case]
  then show ?thesis unfolding auth_write_def cluster_write.case
    by (intro conjI TrueI disjI2 assms(2) exI [of _ "u_namespace nb"] exI [of _ "u_name nb"] T)
qed

text \<open>
  C31. The migration of workbenches, on a cluster whose notebooks have a pod template and are served under their names, and however its
  waits end: every write is to one of the notebooks that were listed and need the patch, or to what belongs to it. It sends patches
  of nothing but the mark of a stopped notebook, and none if notebooks are not to be stopped; updates of nothing but notebooks,
  to a patched one that needs no patch any more; and deletions of nothing but the StatefulSet of such a notebook and, if asked
  to clean up, the Route, the Service, the three Secrets and the OAuthClient of its old proxy. For updates and deletions the
  last answer of the user was yes, unless the run asks no questions. A dry run writes nothing.
\<close>

theorem auth_model_writes:
  assumes "\<And>s. rdGojq (clReader cl s) = gq" and "jq_paths gq marshal" and "\<And>nb. served cl nb \<Longrightarrow> pod_spec nb" and "serves_by_name cl"
    and "authRun_Execute (traced_poll pu) marshal (traced cl) now ts a target ((s, []), r) = ((s', xs @ Wrote w # ys), res)"
  shows "\<not> tgDryRun target \<and> validateFlags a = None \<and> (\<exists>nbs. ListNotebooks cl (paScope a) s = Inr nbs
    \<and> auth_write gq marshal ts a ((\<lambda>nb. (u_namespace nb, u_name nb)) ` {nb \<in> set nbs. needsAuthModelPatch gq nb}) (consents target xs) w)"
proof -
  define T where "T = (\<Union>nbs\<in>{nbs. ListNotebooks cl (paScope a) s = Inr nbs}. (\<lambda>nb. (u_namespace nb, u_name nb)) ` {nb \<in> set nbs. needsAuthModelPatch gq nb})"
  let ?ok = "\<lambda>c w. \<not> tgDryRun target \<and> validateFlags a = None \<and> auth_write gq marshal ts a T c w"
  have gq: "rdGojq (clReader (traced cl) st) = gq" for st using assms(1) by (simp add: traced_def)
  have scope: "in_scope T nb" if "tracked cl marshal (in_scope T) nb" for nb
    using assms(1-4) that by (rule tracked_in_scope)
  have "consent_kept ?ok target False (fst (authRun_Execute (traced_poll pu) marshal (traced cl) now ts a target ((s, []), r)))"
  proof (rule ct.execute_keeps [where given = "in_scope T"])
    show "list_all (tracked cl marshal (in_scope T)) (filter (needsAuthModelPatch (rdGojq (clReader (traced cl) (fst ((s, []), r))))) nbs)"
      if "ListNotebooks (traced cl) (paScope a) (fst ((s, []), r)) = Inr nbs" for nbs
    proof -
      from that have nbs: "ListNotebooks cl (paScope a) s = Inr nbs" by (simp add: ListNotebooks_traced)
      have "in_scope T nb" if "nb \<in> set nbs" "needsAuthModelPatch gq nb" for nb
        unfolding in_scope_def T_def using that nbs assms(3) [OF listed_served [OF nbs that(1)]] by blast
      then show ?thesis unfolding gq list_all_iff set_filter by (auto intro: tracked_given)
    qed
    show "?ok True (WUpdate rt_Notebook (u_namespace nb) nb')" if "\<not> tgDryRun target" "validateFlags a = None" "tracked cl marshal (in_scope T) nb"
      "applyAllPatches (rdGojq (clReader (traced cl) st)) marshal nb = Inr nb'" for st nb nb'
      by (intro conjI that(1,2)) (rule auth_write_update [OF assms(2) scope [OF that(3)] that(4) [unfolded gq]])
    show "?ok False (WPatch rt_Notebook (u_namespace nb) (u_name nb) MergePatchType (stop_patch v))
        \<and> ?ok True (WPatch rt_Notebook (u_namespace nb) (u_name nb) MergePatchType (stop_patch v))"
      if "\<not> tgDryRun target" "validateFlags a = None" "\<not> SkipStop a" "\<not> OnlyStopped a" "tracked cl marshal (in_scope T) nb" "v = JStr ts \<or> v = JNull" for nb v
      by (intro conjI that(1,2) auth_write_stop [OF scope [OF that(5)] that(3,4,6)])
    show "?ok True (WDelete rt_StatefulSet (u_namespace nb) (u_name nb))"
      if "\<not> tgDryRun target" "validateFlags a = None" "tracked cl marshal (in_scope T) nb" for nb
      by (intro conjI that(1,2) auth_write_set [OF scope [OF that(3)]])
    show "?ok True (WDelete rt ns name)"
      if "\<not> tgDryRun target" "validateFlags a = None" "WithCleanup a" "tracked cl marshal (in_scope T) nb" "(rt, name, ns) \<in> set (oauth_resources nb)" for rt name ns nb
      by (intro conjI that(1,2) auth_write_cleanup [OF scope [OF that(4)] that(3,5)])
  qed (simp add: consent_kept_def)
  then have ok: "?ok (consents target xs) w" unfolding assms(5) consent_kept_def trace_ok_def fst_conv snd_conv by blast
  obtain nbs where nbs: "ListNotebooks cl (paScope a) s = Inr nbs"
  proof (cases "ListNotebooks cl (paScope a) s")
    case (Inl e)
    then have "\<not> auth_write gq marshal ts a T c w" for c by (auto simp: auth_write_def T_def split: cluster_write.splits)
    then show thesis using ok by blast
  qed (rule that)
  then have "T = (\<lambda>nb. (u_namespace nb, u_name nb)) ` {nb \<in> set nbs. needsAuthModelPatch gq nb}" by (simp add: T_def)
  then show ?thesis using ok nbs by blast
qed

section \<open>Witnesses\<close>

instance json :: countable
  by countable_datatype

text \<open>A jq that knows the two paths, and a text of a value that it can read: as many strokes as the number of its canonical form.\<close>

definition strokes :: "json \<Rightarrow> string" where
  "strokes v = replicate (to_nat (canon v)) CHR ''|''"

definition path_run :: "string \<Rightarrow> string \<Rightarrow> json \<Rightarrow> json option" where
  "path_run k e nb =
     (let p = ''.spec.template.spec.'' @ k in
      if e = p then Some (case nested (pod_path k) nb of None \<Rightarrow> JNull | Some v \<Rightarrow> v)
      else if has_prefix e (p @ '' = '') then Some (set_nested (pod_path k) (from_nat (length (drop (length p + 3) e))) nb)
      else None)"

definition path_jq :: gojq where
  "path_jq = \<lparr>gqParse = (\<lambda>e. None),
     gqRun = (\<lambda>e nb. map_option Inr (case path_run ''containers'' e nb of None \<Rightarrow> path_run ''volumes'' e nb | v \<Rightarrow> v))\<rparr>"

lemma path_jq_paths: "jq_paths path_jq strokes"
proof -
  have "path_run k (''.spec.template.spec.'' @ k) nb = Some (case nested (pod_path k) nb of None \<Rightarrow> JNull | Some v \<Rightarrow> v)" for k nb
    by (simp add: path_run_def Let_def)
  moreover have "path_run k (''.spec.template.spec.'' @ k @ '' = '' @ strokes v) nb = Some (set_nested (pod_path k) (canon v) nb)" for k v nb
    using has_prefix_append_self [of "''.spec.template.spec.'' @ k @ '' = ''" "strokes v"]
    by (simp add: path_run_def Let_def strokes_def)
  moreover have "path_run ''containers'' (''.spec.template.spec.'' @ ''volumes'' @ e) nb = None" for e nb
    by (simp add: path_run_def Let_def has_prefix_def)
  moreover from this [of "[]"] have "path_run ''containers'' (''.spec.template.spec.'' @ ''volumes'') nb = None" for nb
    by simp
  ultimately show ?thesis by (simp add: jq_paths_def path_jq_def del: append_Cons)
qed

definition sample_container :: "json \<Rightarrow> json" where
  "sample_container args = JObj [(''name'', JStr ''wb''), (''env'', JArr [JObj [(''value'', args), (''name'', JStr ''NOTEBOOK_ARGS'')]])]"

definition sample_notebook :: json where
  "sample_notebook = JObj [
     (''metadata'', JObj [(''name'', JStr ''wb''), (''namespace'', JStr ''ds''),
        (''annotations'', JObj [(annotationInjectOAuth, JStr ''true''), (''team'', JStr ''red'')])]),
     (''spec'', JObj [(''template'', JObj [(''spec'', JObj [
        (''containers'', JArr [sample_container (JStr ''--ServerApp.port=8888 --ServerApp.tornado_settings={}''), JObj [(''name'', JStr containerOAuthProxy)]]),
        (''volumes'', JArr [JObj [(''name'', JStr ''oauth-config'')], JObj [(''name'', JStr ''data'')]])])])])]"

lemma sample_pod_spec: "pod_spec sample_notebook"
  by (simp add: pod_spec_def sample_notebook_def sample_container_def)

lemma sample_lists:
  "nested_slice (pod_path ''containers'') sample_notebook
    = Some [sample_container (JStr ''--ServerApp.port=8888 --ServerApp.tornado_settings={}''), JObj [(''name'', JStr containerOAuthProxy)]]"
  "nested_slice (pod_path ''volumes'') sample_notebook = Some [JObj [(''name'', JStr ''oauth-config'')], JObj [(''name'', JStr ''data'')]]"
  by (simp_all add: sample_notebook_def pod_path_def nested_slice_def)

lemma sample_arguments: "settings_removed ''--ServerApp.port=8888 --ServerApp.tornado_settings={}'' v \<Longrightarrow> v = ''--ServerApp.port=8888''"
proof -
  let ?args = "[([], ''--ServerApp.port=8888''), ('' '', ''--ServerApp.tornado_settings={}'')]"
  assume removed: "settings_removed ''--ServerApp.port=8888 --ServerApp.tornado_settings={}'' v"
  have plain: "plain_argument ''--ServerApp.port=8888''" "\<not> plain_argument ''--ServerApp.tornado_settings={}''" by code_simp+
  have "tornado_setting ''--ServerApp.tornado_settings={}''" by code_simp
  then have "argument_row ?args" using plain by (simp add: argument_row_def blank_def)
  moreover have "list_all blank []" by simp
  moreover have "''--ServerApp.port=8888 --ServerApp.tornado_settings={}'' = row_text ?args @ []" by (simp add: row_text_def)
  ultimately have "v = trim_space (row_text (filter (\<lambda>(w, a). plain_argument a) ?args) @ [])"
    using removed unfolding settings_removed_def by blast
  also have "\<dots> = trim_space ''--ServerApp.port=8888''" using plain by (simp add: row_text_def)
  also have "\<dots> = ''--ServerApp.port=8888''" by code_simp
  finally show ?thesis .
qed

lemma sample_migrated:
  assumes "migrated_container (sample_container (JStr ''--ServerApp.port=8888 --ServerApp.tornado_settings={}'')) c"
  shows "\<exists>e. json_field ''env'' c = Some (JArr [e]) \<and> json_field ''value'' e = Some (JStr ''--ServerApp.port=8888'')"
proof -
  let ?v = "''--ServerApp.port=8888 --ServerApp.tornado_settings={}''"
  let ?e = "JObj [(''value'', JStr ?v), (''name'', JStr ''NOTEBOOK_ARGS'')]"
  have "json_field ''env'' (sample_container (JStr ?v)) = Some (JArr [?e])" by (simp add: sample_container_def)
  then obtain e where e: "json_field ''env'' c = Some (JArr [e])" and m: "migrated_variable ?e e"
    using assms by (auto simp: migrated_container_def list_all2_Cons1)
  have "\<exists>a b. json_field ''name'' ?e = Some (JStr ''NOTEBOOK_ARGS'') \<and> json_field ''value'' ?e = Some (JStr (a @ tornadoSettingsPrefix @ b))"
    by (intro exI [of _ "''--ServerApp.port=8888 ''"] exI [of _ "''{}''"]) simp
  with m obtain v v' where v: "json_field ''value'' ?e = Some (JStr v)" "json_field ''value'' e = Some (JStr v')" "settings_removed v v'"
    unfolding migrated_variable_def by (simp only: if_True) blast
  have "v = ?v" using v(1) by simp
  then show ?thesis using e v(2,3) sample_arguments by blast
qed

theorem applyAllPatches_migrates_witness:
  "\<exists>nb' c e. applyAllPatches path_jq strokes sample_notebook = Inr nb' \<and> \<not> needsAuthModelPatch path_jq nb'
     \<and> nested_slice (pod_path ''volumes'') nb' = Some [JObj [(''name'', JStr ''data'')]]
     \<and> map_of (u_annotations nb') ''team'' = Some ''red''
     \<and> nested_slice (pod_path ''containers'') nb' = Some [c] \<and> json_field ''env'' c = Some (JArr [e])
     \<and> json_field ''value'' e = Some (JStr ''--ServerApp.port=8888'')"
proof -
  obtain nb' where nb': "applyAllPatches path_jq strokes sample_notebook = Inr nb'"
    using apply_patches [OF path_jq_paths sample_pod_spec sample_lists] by blast
  note migrated = applyAllPatches_migrates [OF path_jq_paths sample_pod_spec, unfolded nb' sum.case sample_lists option.inject]
  have names: "has_name [''oauth-proxy''] (JObj [(''name'', JStr containerOAuthProxy)])" "\<not> has_name [''oauth-proxy''] (sample_container v)"
    "has_name [''oauth-config'', ''oauth-client'', ''tls-certificates''] (JObj [(''name'', JStr ''oauth-config'')])"
    "\<not> has_name [''oauth-config'', ''oauth-client'', ''tls-certificates''] (JObj [(''name'', JStr ''data'')])" for v
    by (simp_all add: has_name_def sample_container_def)
  have team: "map_of (u_annotations sample_notebook) ''team'' = Some ''red''"
    by (simp add: sample_notebook_def u_annotations_def nested_string_map_def)
  from conjunct1 [OF conjunct2 [OF migrated]] obtain cs vs cs' where
    cs: "[sample_container (JStr ''--ServerApp.port=8888 --ServerApp.tornado_settings={}''), JObj [(''name'', JStr containerOAuthProxy)]] = cs"
    and vs: "[JObj [(''name'', JStr ''oauth-config'')], JObj [(''name'', JStr ''data'')]] = vs"
    and cs': "nested_slice (pod_path ''containers'') nb' = Some cs'" "list_all2 migrated_container (filter (\<lambda>c. \<not> has_name [''oauth-proxy''] c) cs) cs'"
    and vs': "nested_slice (pod_path ''volumes'') nb'
      = Some (map canon (filter (\<lambda>v. \<not> has_name [''oauth-config'', ''oauth-client'', ''tls-certificates''] v) vs))"
    by (elim conjE exE) (rule that)
  have "filter (\<lambda>c. \<not> has_name [''oauth-proxy''] c) cs = [sample_container (JStr ''--ServerApp.port=8888 --ServerApp.tornado_settings={}'')]"
    unfolding cs [symmetric] by (simp only: filter.simps names not_True_eq_False not_False_eq_True if_True if_False)
  moreover have "filter (\<lambda>v. \<not> has_name [''oauth-config'', ''oauth-client'', ''tls-certificates''] v) vs = [JObj [(''name'', JStr ''data'')]]"
    unfolding vs [symmetric] by (simp only: filter.simps names not_True_eq_False not_False_eq_True if_True if_False)
  moreover have "canon (JObj [(''name'', JStr ''data'')]) = JObj [(''name'', JStr ''data'')]" by (simp add: sort_slice_def)
  ultimately obtain c where c: "nested_slice (pod_path ''containers'') nb' = Some [c]"
    "migrated_container (sample_container (JStr ''--ServerApp.port=8888 --ServerApp.tornado_settings={}'')) c"
    "nested_slice (pod_path ''volumes'') nb' = Some [JObj [(''name'', JStr ''data'')]]"
    using cs' vs' by (auto simp only: list_all2_Cons1 list_all2_Nil list.map)
  have "map_of (u_annotations nb') ''team'' = Some ''red''"
    using spec [OF conjunct1 [OF conjunct2 [OF conjunct2 [OF migrated]]], of "''team''"] team by simp
  then show ?thesis using sample_migrated [OF c(2)] c(1,3) nb' conjunct1 [OF migrated] by blast
qed

definition wb_cluster :: "nat cluster" where
  "wb_cluster = \<lparr>
     clReader = (\<lambda>s. (sample_reader path_jq (\<lambda>rt. []))\<lparr>rdList := (\<lambda>rt cfg. Inr [sample_notebook])\<rparr>),
     clGet = (\<lambda>rt ns name s. if ns = ''ds'' \<and> name = ''wb'' then Inr sample_notebook else Inl (NewError ''not found'')),
     clList = (\<lambda>rt cfg s. Inr []),
     clCreate = (\<lambda>rt ns v s. (s, Inr v)),
     clUpdate = (\<lambda>rt ns v s. (s, Inr v)),
     clPatch = (\<lambda>rt ns name ty v s. (s, Inr v)),
     clDelete = (\<lambda>rt ns name s. (s, None)),
     clCtx = (\<lambda>s. None),
     clSleep = (\<lambda>d s. (s, None)),
     clLine = (\<lambda>s. (s, Inr ''y''))\<rparr>"

definition wb_action :: PatchAuthModelAction where
  "wb_action = \<lparr>paScope = \<lparr>WorkbenchNamespace = [], WorkbenchName = []\<rparr>, SkipStop = True, OnlyStopped = False, WithCleanup = False\<rparr>"

definition wb_target :: MigrateTarget where
  "wb_target = \<lparr>tgCurrent = None, tgTarget = None, tgDryRun = False, tgSkipConfirm = True, tgOutputDir = []\<rparr>"

definition asking_target :: MigrateTarget where
  "asking_target = wb_target\<lparr>tgSkipConfirm := False\<rparr>"

definition wb_run :: "(nat \<times> trace_entry list) \<times> ActionResult option \<times> err option" where
  "wb_run = authRun_Execute (traced_poll (\<lambda>f s. (s, None))) strokes (traced wb_cluster) 0 ''now'' wb_action asking_target ((0, []), NewRootRecorder)"

lemma sample_names: "u_namespace sample_notebook = ''ds''" "u_name sample_notebook = ''wb''"
  by (simp_all add: u_namespace_def u_name_def sample_notebook_def)

lemma sample_needs: "needsAuthModelPatch path_jq sample_notebook"
  by (simp add: needsAuthModelPatch_def hasInjectAuthAnnotation_def sample_notebook_def u_annotations_def nested_string_map_def map_get_def)

lemma wb_prompt: "Prompt wb_cluster s = (s, True)"
proof -
  have "trim_space (to_lower ''y'') \<in> {''y'', ''yes''}" by code_simp
  then show ?thesis by (simp add: Prompt_def wb_cluster_def)
qed

lemma wb_run_trace:
  assumes "applyAllPatches path_jq strokes sample_notebook = Inr nb'"
  shows "snd (fst wb_run) = [Answered True, Wrote (WUpdate rt_Notebook ''ds'' nb'), Wrote (WDelete rt_StatefulSet ''ds'' ''wb'')]"
proof -
  have prompt: "Prompt (traced wb_cluster) st = ((fst st, snd st @ [Answered True]), True)" for st by (simp add: prompt_traced wb_prompt)
  have cl: "rdGojq (clReader (traced wb_cluster) st) = path_jq"
    "rdList (clReader (traced wb_cluster) st) rt cfg = Inr [sample_notebook]"
    "clUpdate (traced wb_cluster) rt ns v st = ((fst st, snd st @ [Wrote (WUpdate rt ns v)]), Inr v)"
    "clDelete (traced wb_cluster) rt ns n st = ((fst st, snd st @ [Wrote (WDelete rt ns n)]), None)" for st rt cfg ns v n
    by (simp_all add: traced_def wb_cluster_def sample_reader_def trace_entry_of_def)
  show ?thesis
    by (simp add: wb_run_def authRun_Execute_def wb_action_def asking_target_def wb_target_def validateFlags_def ScopeValidate_def ListNotebooks_def
        classifyNotebooks_def sample_needs handleLifecycle_def confirmed_def on_cluster_eq split_def Let_def cluster_after assms cl prompt
        sample_names restartNotebooks_def)
qed

theorem auth_model_writes_witness:
  "\<exists>nb' ys. snd (fst wb_run) = [Answered True] @ Wrote (WUpdate rt_Notebook ''ds'' nb') # ys
     \<and> auth_write path_jq strokes ''now'' wb_action {(''ds'', ''wb'')} True (WUpdate rt_Notebook ''ds'' nb')"
proof -
  obtain nb' where nb': "applyAllPatches path_jq strokes sample_notebook = Inr nb'"
    using apply_patches [OF path_jq_paths sample_pod_spec sample_lists] by blast
  let ?ys = "[Wrote (WDelete rt_StatefulSet ''ds'' ''wb'')]"
  have trace: "snd (fst wb_run) = [Answered True] @ Wrote (WUpdate rt_Notebook ''ds'' nb') # ?ys" using wb_run_trace [OF nb'] by simp
  then have run: "authRun_Execute (traced_poll (\<lambda>f s. (s, None))) strokes (traced wb_cluster) 0 ''now'' wb_action asking_target ((0, []), NewRootRecorder)
      = ((fst (fst wb_run), [Answered True] @ Wrote (WUpdate rt_Notebook ''ds'' nb') # ?ys), snd wb_run)"
    by (metis prod.collapse wb_run_def)
  have gq: "rdGojq (clReader wb_cluster s) = path_jq" for s by (simp add: wb_cluster_def sample_reader_def)
  have pod: "pod_spec nb" if "served wb_cluster nb" for nb using that sample_pod_spec by (auto simp: served_def wb_cluster_def split: if_splits)
  have byname: "serves_by_name wb_cluster" by (auto simp: serves_by_name_def wb_cluster_def sample_names split: if_splits)
  have nbs: "ListNotebooks wb_cluster (paScope wb_action) 0 = Inr [sample_notebook]"
    by (simp add: ListNotebooks_def wb_action_def wb_cluster_def)
  have T: "(\<lambda>nb. (u_namespace nb, u_name nb)) ` {nb \<in> set [sample_notebook]. needsAuthModelPatch path_jq nb} = {(''ds'', ''wb'')}"
    using sample_needs sample_names by (auto simp: image_def)
  have yes: "consents asking_target [Answered True] = True" using consents_simps(2) [of asking_target "[]" True] by simp
  have "\<exists>nbs. ListNotebooks wb_cluster (paScope wb_action) 0 = Inr nbs \<and> auth_write path_jq strokes ''now'' wb_action
      ((\<lambda>nb. (u_namespace nb, u_name nb)) ` {nb \<in> set nbs. needsAuthModelPatch path_jq nb}) (consents asking_target [Answered True])
      (WUpdate rt_Notebook ''ds'' nb')"
    by (rule auth_model_writes [OF gq path_jq_paths _ byname run, THEN conjunct2, THEN conjunct2]) (rule pod)
  then have "auth_write path_jq strokes ''now'' wb_action {(''ds'', ''wb'')} True (WUpdate rt_Notebook ''ds'' nb')"
    unfolding T [symmetric] nbs sum.inject yes by (elim conjE exE) (simp only:)
  then show ?thesis by (intro exI conjI) (rule trace)
qed

end
