(* ===== verification/WorkbenchFacts.thy ===== *)
theory WorkbenchFacts
  imports WorkbenchTasks WorkbenchMigration
begin

text \<open>
  Correctness of the tasks that label, upgrade and verify workbenches: which writes they send, what a repaired notebook looks like,
  and what the summary of a verification counts.
\<close>

section \<open>The writes in the log\<close>

text \<open>The log after each operation.\<close>

definition log_of :: "('s \<times> cluster_write list) task_state \<Rightarrow> cluster_write list" where
  "log_of st = snd (fst st)"

lemma log_steps [simp]:
  "log_of (fst (open_step now p name description st)) = log_of st"
  "log_of (close_step p status message st) = log_of st"
  "log_of (note_step now p name message status st) = log_of st"
  "log_of (add_detail p key v st) = log_of st"
  "log_of ((s, ws), r) = ws"
  by (simp_all add: log_of_def)

lemma prompt_logged: "Prompt (logged cl) st = (case Prompt cl (fst st) of (s, b) \<Rightarrow> ((s, snd st), b))"
  by (simp add: Prompt_def logged_def log_pass_def split: prod.splits sum.splits)

lemma confirmed_log [simp]:
  "log_of (fst (confirmed (logged cl) target st)) = log_of st"
  "snd (confirmed (logged cl) target st) \<longleftrightarrow> tgSkipConfirm target \<or> snd (Prompt cl (fst (fst st)))"
  by (simp_all add: confirmed_def on_cluster_eq prompt_logged log_of_def split: prod.split)

lemma logged_simps [simp]:
  "clReader (logged cl) st = clReader cl (fst st)"
  "clGet (logged cl) rt ns n st = clGet cl rt ns n (fst st)"
  by (simp_all add: logged_def)

lemma ListNotebooks_logged [simp]: "ListNotebooks (logged cl) scope st = ListNotebooks cl scope (fst st)"
  by (simp add: ListNotebooks_def)

section \<open>Labels\<close>

definition label_write :: "AttachKueueLabelAction \<Rightarrow> json \<Rightarrow> cluster_write" where
  "label_write a nb = WPatch rt_Notebook (u_namespace nb) (u_name nb) MergePatchType (label_patch (queueName a))"

lemma patchLabel_log: "log_of (fst (on_cluster (patchLabel (logged cl) a nb) st)) = log_of st @ [label_write a nb]"
  by (simp add: on_cluster_eq patchLabel_def logged_def log_write_def log_of_def label_write_def split: prod.split sum.split)

lemma label_loop_log: "log_of (fst (label_loop (logged cl) now a p nbs st)) = log_of st @ map (label_write a) nbs"
proof (induction nbs arbitrary: st)
  case (Cons nb nbs)
  show ?case
    by (simp add: split_def Cons.IH patchLabel_log split: option.split)
qed simp

lemma log_notes [simp]: "log_of (fold (\<lambda>nb. note_step now p (a nb) (b nb) c) nbs st) = log_of st"
  by (induction nbs arbitrary: st) simp_all

lemma applyLabels_log:
  "log_of (applyLabels (logged cl) now a target nbs st) =
    (if tgDryRun target \<or> \<not> (tgSkipConfirm target \<or> snd (Prompt cl (fst (fst st)))) then log_of st
     else log_of st @ map (label_write a) nbs)"
  by (simp add: applyLabels_def split_def label_loop_log split: bool.split)

text \<open>
  C32. The action that attaches the label of a queue sends one patch to each notebook that is in a namespace enabled for Kueue and has no
  such label yet, in the order of the listing, and nothing else: a notebook that has a label keeps it, and without the consent of the
  user, or in a dry run, nothing is sent.
\<close>

theorem kueue_label_writes:
  assumes "queue_error validLabel a = None" and "KueueEnabledNamespaces (clReader cl s) = Inr namespaces"
    and "ListNotebooks cl (kaScope a) s = Inr nbs"
  shows "snd (fst (kueueRun_Execute validLabel (logged cl) now a target ((s, []), r))) =
    (if tgDryRun target \<or> \<not> (tgSkipConfirm target \<or> snd (Prompt cl s)) then []
     else map (label_write a) (filter (\<lambda>nb. u_namespace nb \<in> set namespaces \<and> \<not> hasQueueNameLabel nb) nbs))"
proof -
  let ?el = "filter (\<lambda>nb. u_namespace nb \<in> set namespaces \<and> \<not> hasQueueNameLabel nb) nbs"
  have found: "findEligibleNotebooks (logged cl) a (s, ws) = Inr ?el" for ws
    using assms(2,3) by (cases namespaces) (simp_all add: findEligibleNotebooks_def kueueManagedNamespaces_def)
  show ?thesis
    using assms(1) by (cases "?el = []") (simp_all add: kueueRun_Execute_def split_def found applyLabels_log [unfolded log_of_def])
qed

section \<open>Container names\<close>

lemma rename_first_only:
  assumes "List.map_filter workload_container cs = [(old, img)]"
  shows "\<exists>as fs bs. cs = as @ JObj fs # bs \<and> workload_container (JObj fs) = Some (old, img)
    \<and> (\<forall>c\<in>set as \<union> set bs. workload_container c = None)
    \<and> rename_first name cs = (as @ JObj (AList.update ''name'' (JStr name) fs) # bs, old)"
  using assms
proof (induction cs)
  case (Cons c cs)
  show ?case
  proof (cases "workload_container c")
    case None
    then obtain as fs bs where rest: "cs = as @ JObj fs # bs" "workload_container (JObj fs) = Some (old, img)"
      "\<forall>c\<in>set as \<union> set bs. workload_container c = None"
      "rename_first name cs = (as @ JObj (AList.update ''name'' (JStr name) fs) # bs, old)"
      using Cons by (auto simp: List.map_filter_simps)
    have "rename_first name (c # cs) = (c # as @ JObj (AList.update ''name'' (JStr name) fs) # bs, old)"
      using None rest(4) by (cases c) simp_all
    then show ?thesis using rest None by (intro exI [of _ "c # as"] exI [of _ fs] exI [of _ bs]) simp
  next
    case (Some x)
    then obtain fs where c: "c = JObj fs" by (cases c) simp_all
    have x: "x = (old, img)" and none: "List.map_filter workload_container cs = []"
      using Cons.prems Some by (simp_all add: List.map_filter_simps)
    have "\<forall>d\<in>set cs. workload_container d = None" using none by (induction cs) (auto simp: List.map_filter_simps split: option.splits)
    then show ?thesis using Some x unfolding c by (intro exI [of _ "[]"] exI [of _ fs] exI [of _ cs]) simp
  qed
qed (simp add: List.map_filter_simps)

lemma renamed_workload:
  assumes "workload_container (JObj fs) = Some (old, img)" and "\<forall>c\<in>set as \<union> set bs. workload_container c = None"
  shows "List.map_filter workload_container (as @ JObj (AList.update ''name'' (JStr name) fs) # bs) \<in> {[], [(name, img)]}"
proof -
  have empty: "List.map_filter workload_container cs = []" if "\<forall>c\<in>set cs. workload_container c = None" for cs
    using that by (induction cs) (auto simp: List.map_filter_simps)
  have "workload_container (JObj (AList.update ''name'' (JStr name) fs)) \<in> {None, Some (name, img)}"
    using assms(1) by (auto simp: Let_def update_conv' split: if_splits)
  then show ?thesis using empty [of as] empty [of bs] assms(2) by (auto simp: List.map_filter_def)
qed

lemma workload_container_canon [simp]: "workload_container (canon c) = workload_container c"
  by (cases c) (simp_all add: map_of_sort map_of_map)

lemma map_filter_canon: "List.map_filter workload_container (map canon cs) = List.map_filter workload_container cs"
  by (simp add: List.map_filter_def filter_map comp_def)

lemma rename_no_float: "list_all no_float (as @ JObj fs # bs) \<Longrightarrow> list_all no_float (as @ JObj (AList.update k (JStr n) fs) # bs)"
  using no_float_update [of fs "JStr n" k] by simp

lemma names_set_pod [simp]:
  "u_name (set_nested (pod_path k) x nb) = u_name nb" "u_namespace (set_nested (pod_path k) x nb) = u_namespace nb"
  by (simp_all add: u_name_def u_namespace_def pod_path_def json_field_set_other del: set_nested.simps)

text \<open>
  C33. A notebook whose container has the wrong name can be repaired: only that container changes, and only its name, to that of the
  notebook; the repaired notebook has no mismatch, and the rest of its pod and its metadata are as they were. The containers
  are written with the keys of their objects sorted.
\<close>

theorem fixContainerName_repairs:
  assumes "jq_paths gq marshal" and "pod_spec nb" and "hasContainerNameMismatch gq nb = Inr True"
  shows "\<exists>nb' old as fs bs. fixContainerName gq marshal nb = Inr (nb', old) \<and> old \<noteq> u_name nb
    \<and> hasContainerNameMismatch gq nb' = Inr False
    \<and> nested_slice (pod_path ''containers'') nb = Some (as @ JObj fs # bs)
    \<and> nested_slice (pod_path ''containers'') nb' = Some (map canon (as @ JObj (AList.update ''name'' (JStr (u_name nb)) fs) # bs))
    \<and> old = string_or_empty (map_of fs ''name'')
    \<and> (\<forall>k. k \<noteq> ''containers'' \<longrightarrow> nested (pod_path k) nb' = nested (pod_path k) nb)
    \<and> json_field ''metadata'' nb' = json_field ''metadata'' nb"
proof -
  obtain old img where dash: "hasDashboardAnnotation_upgrade nb" and ws: "extractWorkloadContainers gq nb = Inr [(old, img)]" and old: "old \<noteq> u_name nb"
    using assms(3) by (auto simp: hasContainerNameMismatch_def split: if_splits sum.splits list.splits prod.splits)
  then obtain cs where q: "Query gq as_array [] nb q_containers = Inr cs" and one: "List.map_filter workload_container cs = [(old, img)]"
    by (auto simp: extractWorkloadContainers_def split: sum.splits)
  from rename_first_only [OF one, of "u_name nb"] obtain as fs bs where cs: "cs = as @ JObj fs # bs"
    and fs: "workload_container (JObj fs) = Some (old, img)" and others: "\<forall>c\<in>set as \<union> set bs. workload_container c = None"
    and renamed: "rename_first (u_name nb) cs = (as @ JObj (AList.update ''name'' (JStr (u_name nb)) fs) # bs, old)" by blast
  let ?cs = "as @ JObj (AList.update ''name'' (JStr (u_name nb)) fs) # bs"
  let ?nb = "set_nested (pod_path ''containers'') (JArr (map canon ?cs)) nb"
  have slice: "nested_slice (pod_path ''containers'') nb = Some cs" by (rule query_slice(1) [OF assms(1,2), THEN iffD1, OF q])
  have fl: "list_all no_float ?cs" using slice_no_float [OF assms(2) slice] unfolding cs by (rule rename_no_float)
  have fixed: "fixContainerName gq marshal nb = Inr (?nb, old)"
    using assign_containers(1) [OF assms(1,2) fl] by (simp add: fixContainerName_def ws q renamed)
  have pod: "pod_spec ?nb" by (rule pod_spec_set [OF assms(2) no_float_lists(1) [OF fl]])
  have "Query gq as_array [] ?nb q_containers = Inr (map canon ?cs)"
    by (rule query_slice(1) [OF assms(1) pod, THEN iffD2]) (rule slice_set_pod(1) [OF assms(2)])
  then have "extractWorkloadContainers gq ?nb \<in> {Inr [], Inr [(u_name nb, img)]}"
    using renamed_workload [OF fs others, of "u_name nb"] by (auto simp: extractWorkloadContainers_def map_filter_canon simp del: map_append list.map)
  then have "hasContainerNameMismatch gq ?nb = Inr False"
    by (auto simp: hasContainerNameMismatch_def)
  moreover note slice
  moreover have "old = string_or_empty (map_of fs ''name'')" using fs by (auto simp: Let_def split: if_splits)
  moreover have "json_field ''metadata'' ?nb = json_field ''metadata'' nb"
    unfolding pod_path_def by (rule json_field_set_other) simp
  ultimately show ?thesis using fixed old cs assms(2)
    by (intro exI [of _ ?nb] exI [of _ old] exI [of _ as] exI [of _ fs] exI [of _ bs]) simp
qed

section \<open>The writes of the upgrade\<close>

definition fix_write :: "gojq \<Rightarrow> (json \<Rightarrow> string) \<Rightarrow> json \<Rightarrow> cluster_write list" where
  "fix_write gq marshal nb =
     (case fixContainerName gq marshal nb of Inl e \<Rightarrow> [] | Inr (nb', old) \<Rightarrow> [WUpdate rt_Notebook (u_namespace nb') nb'])"

lemma updateNotebook_log:
  "log_of (fst (on_cluster (updateNotebook (logged cl) nb) st)) = log_of st @ [WUpdate rt_Notebook (u_namespace nb) nb]"
  by (simp add: on_cluster_eq updateNotebook_def logged_def log_write_def log_of_def split: prod.split sum.split)

lemma applyContainerFixes_log:
  assumes "\<And>s. rdGojq (clReader cl s) = gq"
  shows "log_of (fst (applyContainerFixes marshal (logged cl) now p nbs st)) = log_of st @ concat (map (fix_write gq marshal) nbs)"
proof (induction nbs arbitrary: st)
  case (Cons nb nbs)
  show ?case
  proof (cases "fixContainerName gq marshal nb")
    case (Inl e)
    then show ?thesis by (simp add: split_def Cons.IH assms fix_write_def)
  next
    case (Inr r)
    then show ?thesis by (cases r) (simp add: split_def Cons.IH assms fix_write_def updateNotebook_log split: option.split)
  qed
qed simp

lemma inspect_names_log [simp]:
  "log_of (fst (inspect_names gq begins now p nbs st)) = log_of st"
  "fst (fst (inspect_names gq begins now p nbs st)) = fst st"
  "fst (snd (inspect_names gq begins now p nbs st)) = filter (\<lambda>nb. hasContainerNameMismatch gq nb = Inr True) nbs"
  by (induction nbs arbitrary: st) (simp_all add: split_def split: sum.split)

lemma planned_log [simp]: "log_of (fold (note_planned_fix gq now p) nbs st) = log_of st"
  by (induction nbs arbitrary: st) (simp_all add: note_planned_fix_def split: sum.split list.split prod.split)

lemma fixContainerNames_log:
  assumes "\<And>s. rdGojq (clReader cl s) = gq"
  shows "log_of (fixContainerNames marshal (logged cl) now target nbs st) =
    (if tgDryRun target \<or> \<not> (tgSkipConfirm target \<or> snd (Prompt cl (fst (fst st)))) then log_of st
     else log_of st @ concat (map (fix_write gq marshal) (filter (\<lambda>nb. hasContainerNameMismatch gq nb = Inr True) nbs)))"
  using assms
  by (cases "filter (\<lambda>nb. hasContainerNameMismatch gq nb = Inr True) nbs = []")
    (simp_all add: fixContainerNames_def split_def Let_def applyContainerFixes_log split: bool.split)

lemma auth_failures_state [simp]: "fst (fst (auth_failures gq now p nbs st)) = fst st"
  by (induction nbs arbitrary: st) (simp_all add: split_def split: bool.split)

lemma verifyAuthModel_state [simp]: "fst (verifyAuthModel gq now nbs st) = fst st"
  by (simp add: verifyAuthModel_def split_def)

lemma handleNonStopped_log [simp]:
  "log_of (fst (handleNonStoppedNotebooks now a target nbs p st)) = log_of st"
  "fst (fst (handleNonStoppedNotebooks now a target nbs p st)) = fst st"
  "snd (handleNonStoppedNotebooks now a target nbs p st) = filter (\<lambda>nb. ForceNonStopped a \<or> isStopped nb) nbs"
  by (auto simp: handleNonStoppedNotebooks_def split_def Let_def filter_empty_conv filter_id_conv)

text \<open>
  C34. The upgrade of workbenches sends one update for each notebook that has a mismatch and can be repaired, in the order of the
  listing, with the repaired notebook, and nothing else: notebooks that run are left alone unless that is forced, and without the
  consent of the user, or in a dry run, nothing is sent.
\<close>

theorem upgrade_writes:
  assumes "\<And>s. rdGojq (clReader cl s) = gq" and "rdList (clReader cl s) rt_Notebook list_all_config = Inr nbs"
  shows "snd (fst (upgradeRun_Execute marshal (logged cl) now a target ((s, []), r))) =
    (if tgDryRun target \<or> \<not> (tgSkipConfirm target \<or> snd (Prompt cl s)) then []
     else concat (map (fix_write gq marshal)
       (filter (\<lambda>nb. hasContainerNameMismatch gq nb = Inr True) (filter (\<lambda>nb. ForceNonStopped a \<or> isStopped nb) nbs))))"
  using assms
  by (cases "filter (\<lambda>nb. ForceNonStopped a \<or> isStopped nb) nbs = []")
    (simp_all add: upgradeRun_Execute_def listNotebooks_def split_def Let_def fixContainerNames_log [unfolded log_of_def])

section \<open>The summary of a verification\<close>

lemma count_fails [simp]:
  "vsClassificationFail (countStatus status sm) = vsClassificationFail sm" "vsMigrationFail (countStatus status sm) = vsMigrationFail sm"
  "vsCleanupFail (countStatus status sm) = vsCleanupFail sm"
  "vsClassificationFail (countRunState state sm) = vsClassificationFail sm" "vsMigrationFail (countRunState state sm) = vsMigrationFail sm"
  "vsCleanupFail (countRunState state sm) = vsCleanupFail sm"
  by (cases status; simp add: countRunState_def)+

lemma note_checks_state [simp]: "fst (note_checks now p name kind verdict st) = fst st"
  by (simp add: note_checks_def split: prod.split bool.split)

lemma verifyNotebook_state [simp]: "fst (fst (verifyNotebook cl now a nb (st, sm))) = fst st"
  by (simp add: verifyNotebook_def split_def Let_def)

lemma verifyNotebook_counts:
  "totalFailed (snd (verifyNotebook cl now a nb (st, sm))) = totalFailed sm
     + of_bool (\<not> classification_ok (fst (ClassifyNotebook (rdGojq (clReader cl (fst st))) nb)))
     + of_bool (includeMigration a \<and> \<not> fst (CheckMigrationState (rdGojq (clReader cl (fst st))) nb))
     + of_bool (includeCleanup a \<and> \<not> fst (CheckCleanupState cl (fst st) nb))"
  by (simp add: verifyNotebook_def split_def Let_def totalFailed_def)

lemma verify_fold_counts:
  "totalFailed (snd (fold (verifyNotebook cl now a) nbs (st, sm))) = totalFailed sm
     + length (filter (\<lambda>nb. \<not> classification_ok (fst (ClassifyNotebook (rdGojq (clReader cl (fst st))) nb))) nbs)
     + length (filter (\<lambda>nb. includeMigration a \<and> \<not> fst (CheckMigrationState (rdGojq (clReader cl (fst st))) nb)) nbs)
     + length (filter (\<lambda>nb. includeCleanup a \<and> \<not> fst (CheckCleanupState cl (fst st) nb)) nbs)"
proof (induction nbs arbitrary: st sm)
  case (Cons nb nbs)
  obtain st' sm' where step: "verifyNotebook cl now a nb (st, sm) = (st', sm')" by fastforce
  then have "fst st' = fst st" using verifyNotebook_state [of cl now a nb st sm] by simp
  then show ?case
    using verifyNotebook_counts [of cl now a nb st sm] Cons.IH [of st' sm'] step by simp
qed simp

text \<open>A notebook that is classified as none of legacy and migrated fails the checks of its migration as well.\<close>

lemma misclassified_fails: "\<not> classification_ok (fst (ClassifyNotebook gq nb)) \<Longrightarrow> \<not> fst (CheckMigrationState gq nb)"
  by (auto simp: ClassifyNotebook_def CheckMigrationState_def migration_failures_def classification_ok_def Let_def split: sum.splits if_splits)

text \<open>
  The number of failures in the summary of a verification is not that of the notebooks that fail: it adds those that fail each
  group of checks, and a notebook that is neither legacy nor migrated always fails the checks of the migration too, so it counts twice
  where these are included.
\<close>

theorem verify_summary_counts:
  "totalFailed (snd (fold (verifyNotebook cl now a) nbs (st, newSummary))) =
      length (filter (\<lambda>nb. \<not> classification_ok (fst (ClassifyNotebook (rdGojq (clReader cl (fst st))) nb))) nbs)
      + length (filter (\<lambda>nb. includeMigration a \<and> \<not> fst (CheckMigrationState (rdGojq (clReader cl (fst st))) nb)) nbs)
      + length (filter (\<lambda>nb. includeCleanup a \<and> \<not> fst (CheckCleanupState cl (fst st) nb)) nbs)
    \<and> {nb. \<not> classification_ok (fst (ClassifyNotebook (rdGojq (clReader cl (fst st))) nb))} \<subseteq> {nb. \<not> fst (CheckMigrationState (rdGojq (clReader cl (fst st))) nb)}"
  using verify_fold_counts [of cl now a nbs st newSummary] misclassified_fails by (auto simp: totalFailed_def newSummary_def)

section \<open>Witnesses\<close>

definition named_notebook :: json where
  "named_notebook = JObj [
     (''metadata'', JObj [(''name'', JStr ''wb''), (''namespace'', JStr ''ds''),
        (''annotations'', JObj [(annotationResourceStopped, JStr ''now''), (''opendatahub.io/accelerator-name'', JStr ''gpu'')])]),
     (''spec'', JObj [(''template'', JObj [(''spec'', JObj [
        (''containers'', JArr [JObj [(''name'', JStr ''other'')], JObj [(''name'', JStr containerOAuthProxy),
           (''image'', JStr ''ose-oauth-proxy-rhel9'')]])])])])]"

lemma named_pod_spec: "pod_spec named_notebook"
  by (simp add: pod_spec_def named_notebook_def)

lemma named_mismatch: "hasContainerNameMismatch path_jq named_notebook = Inr True"
proof -
  have "nested_slice (pod_path ''containers'') named_notebook = Some [JObj [(''name'', JStr ''other'')],
     JObj [(''name'', JStr containerOAuthProxy), (''image'', JStr ''ose-oauth-proxy-rhel9'')]]"
    by (simp add: named_notebook_def pod_path_def nested_slice_def)
  note q = query_slice(1) [OF path_jq_paths named_pod_spec, THEN iffD2, OF this]
  have dash: "hasDashboardAnnotation_upgrade named_notebook"
    by (simp add: hasDashboardAnnotation_upgrade_def named_notebook_def u_annotations_def nested_string_map_def map_get_def)
  have other: "u_name named_notebook = ''wb''" by (simp add: u_name_def named_notebook_def)
  have infra: "isInfrastructureContainer containerOAuthProxy ''ose-oauth-proxy-rhel9''" "\<not> isInfrastructureContainer ''other'' []"
    by code_simp+
  show ?thesis
    by (simp add: hasContainerNameMismatch_def dash extractWorkloadContainers_def q List.map_filter_simps infra Let_def other)
qed

theorem fixContainerName_repairs_witness:
  "\<exists>nb' old. fixContainerName path_jq strokes named_notebook = Inr (nb', old) \<and> hasContainerNameMismatch path_jq nb' = Inr False
     \<and> json_field ''metadata'' nb' = json_field ''metadata'' named_notebook"
  using fixContainerName_repairs [OF path_jq_paths named_pod_spec named_mismatch] by blast

definition facts_cluster :: "nat cluster" where
  "facts_cluster = wb_cluster\<lparr>clReader := (\<lambda>s. (sample_reader path_jq (\<lambda>rt. [named_notebook]))\<lparr>
     rdListMeta := (\<lambda>rt cfg. Inr [\<lparr>poNamespace = [], poName = ''ds'', poUID = [], poLabels = [], poAnnotations = [], poOwners = [],
       poFinalizers = [], poTypeMeta = ([], [])\<rparr>])\<rparr>)\<rparr>"

lemma stopped_named: "isStopped named_notebook"
  by (simp add: isStopped_def named_notebook_def u_annotations_def nested_string_map_def map_get_def)

theorem upgrade_writes_witness:
  "snd (fst (upgradeRun_Execute strokes (logged facts_cluster) 0 \<lparr>ForceNonStopped = False\<rparr> wb_target ((0, []), NewRootRecorder)))
     = fix_write path_jq strokes named_notebook"
proof -
  have "rdGojq (clReader facts_cluster s) = path_jq" for s by (simp add: facts_cluster_def sample_reader_def)
  moreover have "rdList (clReader facts_cluster 0) rt_Notebook list_all_config = Inr [named_notebook]"
    by (simp add: facts_cluster_def sample_reader_def)
  ultimately show ?thesis
    using upgrade_writes [of facts_cluster path_jq 0 "[named_notebook]" strokes 0 "\<lparr>ForceNonStopped = False\<rparr>" wb_target NewRootRecorder]
    by (simp add: wb_target_def stopped_named named_mismatch)
qed

definition facts_queue :: AttachKueueLabelAction where
  "facts_queue = \<lparr>QueueName = ''q'', kaScope = \<lparr>WorkbenchNamespace = [], WorkbenchName = []\<rparr>\<rparr>"

theorem kueue_label_writes_witness:
  "snd (fst (kueueRun_Execute (\<lambda>v. []) (logged facts_cluster) 0 facts_queue wb_target ((0, []), NewRootRecorder)))
     = [label_write facts_queue named_notebook]"
proof -
  have "queue_error (\<lambda>v. []) facts_queue = None"
    by (simp add: queue_error_def ScopeValidate_def facts_queue_def)
  moreover have "KueueEnabledNamespaces (clReader facts_cluster 0) = Inr [''ds'']"
    by (simp add: KueueEnabledNamespaces_def facts_cluster_def sample_reader_def insert_all_def)
  moreover have "ListNotebooks facts_cluster (kaScope facts_queue) 0 = Inr [named_notebook]"
    by (simp add: ListNotebooks_def facts_queue_def facts_cluster_def sample_reader_def)
  moreover have "u_namespace named_notebook = ''ds''" "\<not> hasQueueNameLabel named_notebook"
    by (simp_all add: u_namespace_def named_notebook_def hasQueueNameLabel_def u_labels_def nested_string_map_def)
  ultimately show ?thesis
    using kueue_label_writes [of "\<lambda>v. []" facts_queue facts_cluster 0 "[''ds'']" "[named_notebook]" 0 wb_target NewRootRecorder]
    by (simp add: wb_target_def)
qed

end
