(* ===== verification/Components.thy ===== *)
theory Components
  imports EventsWatch MigrateTask PlatformChecks
begin

text \<open>
  The commands that list, describe, enable and disable components: \<open>pkg/components\<close>, \<open>pkg/util/conditions\<close> and
  \<open>cmd/components\<close>. The decoder of conditions, the text of a patch and a patch that the server only validates are arguments. The
  goroutines that read the health of components write to different places, so their order does not matter.
\<close>

section \<open>Conditions (\<open>pkg/util/conditions\<close>)\<close>

definition FindCondition :: "kube_condition list \<Rightarrow> string \<Rightarrow> kube_condition option" where
  "FindCondition conditions conditionType = find (\<lambda>c. kcType c = conditionType) conditions"

definition FindReady :: "kube_condition list \<Rightarrow> kube_condition option" where
  "FindReady conditions = FindCondition conditions ''Ready''"

definition ConditionIsTrue :: "kube_condition list \<Rightarrow> string \<Rightarrow> bool" where
  "ConditionIsTrue conditions ty = (case FindCondition conditions ty of None \<Rightarrow> False | Some c \<Rightarrow> kcStatus c = ConditionTrue)"

definition ConditionIsFalse :: "kube_condition list \<Rightarrow> string \<Rightarrow> bool" where
  "ConditionIsFalse conditions ty = (case FindCondition conditions ty of None \<Rightarrow> False | Some c \<Rightarrow> kcStatus c = ConditionFalse)"

definition CollectMessages :: "kube_condition list \<Rightarrow> string list \<Rightarrow> string" where
  "CollectMessages conditions types =
     str_join ''; '' (map kcMessage (filter (\<lambda>c. kcType c \<in> set types \<and> kcStatus c = ConditionTrue \<and> kcMessage c \<noteq> []) conditions))"

definition CollectDegradedMessages :: "kube_condition list \<Rightarrow> string" where
  "CollectDegradedMessages conditions = CollectMessages conditions [''Degraded'']"

section \<open>Types (\<open>types.go\<close>)\<close>

record ComponentInfo =
  ciName :: string
  ciState :: string
  ciReady :: "bool option"
  ciMessage :: string

definition IsActive :: "ComponentInfo \<Rightarrow> bool" where
  "IsActive c \<longleftrightarrow> ciState c = ManagementStateManaged \<or> ciState c = ManagementStateUnmanaged"

record ComponentList =
  clStatus :: Status
  clComponents :: "ComponentInfo list"

definition NewComponentList :: "ComponentInfo list \<Rightarrow> ComponentList" where
  "NewComponentList components =
     (let active = filter IsActive components in
      \<lparr>clStatus = NewStatus (int (length (filter (\<lambda>c. ciReady c = None) active))) (int (length (filter (\<lambda>c. ciReady c = Some False) active))),
       clComponents = components\<rparr>)"

definition ErrComponentNotFound :: "string \<Rightarrow> string list \<Rightarrow> err" where
  "ErrComponentNotFound name available =
     Structured \<lparr>Code = ''COMPONENT_NOT_FOUND'', Message = ''component '' @ go_quote name @ '' not found in DataScienceCluster'',
       Category = CategoryNotFound, ExitCodeField = 0, Retriable = False,
       Suggestion = ''Available components: '' @ str_join '', '' available\<rparr> None"

definition ErrInvalidOutputFormat :: "string \<Rightarrow> err" where
  "ErrInvalidOutputFormat format =
     Structured \<lparr>Code = ''INVALID_OUTPUT_FORMAT'',
       Message = ''invalid output format '' @ go_quote format @ '' (must be one of: table, json, yaml)'',
       Category = CategoryValidation, ExitCodeField = 0, Retriable = False,
       Suggestion = ''Use --output with one of: table, json, yaml''\<rparr> None"

definition ErrUserAborted :: err where
  "ErrUserAborted =
     Structured \<lparr>Code = ''USER_ABORTED'', Message = ''aborted by user'', Category = CategoryValidation, ExitCodeField = 0,
       Retriable = False, Suggestion = ''Use --yes flag to skip confirmation''\<rparr> None"

section \<open>Discovery (\<open>discovery.go\<close>)\<close>

definition q_components :: string where "q_components = ''.spec.components''"

definition getManagementState :: "json \<Rightarrow> string \<Rightarrow> string" where
  "getManagementState dsc name =
     (let state = nested_string [''spec'', ''components'', name, ''managementState''] dsc in
      if state = [] then ManagementStateRemoved else state)"

definition ExtractComponents :: "gojq \<Rightarrow> json \<Rightarrow> err + ComponentInfo list" where
  "ExtractComponents gq dsc =
     (case Query gq as_map None dsc q_components of
        Inl e \<Rightarrow> Inl (wrapf ''querying spec.components'' e)
      | Inr None \<Rightarrow> Inr []
      | Inr (Some m) \<Rightarrow>
          Inr (sort_key ciName (map (\<lambda>name. \<lparr>ciName = name, ciState = getManagementState dsc name, ciReady = None, ciMessage = []\<rparr>)
            (map fst m))))"

definition DiscoverComponents :: "reader \<Rightarrow> err + ComponentInfo list" where
  "DiscoverComponents r =
     (case GetDataScienceCluster r of
        Inl e \<Rightarrow> Inl (wrapf ''getting DataScienceCluster'' e)
      | Inr dsc \<Rightarrow> ExtractComponents (rdGojq r) dsc)"

definition sortedKeys :: "(string, json) gomap option \<Rightarrow> string list" where
  "sortedKeys m = (case m of None \<Rightarrow> [] | Some fs \<Rightarrow> sort (map fst fs))"

definition GetComponentFromDSC :: "gojq \<Rightarrow> json \<Rightarrow> string \<Rightarrow> err + ComponentInfo" where
  "GetComponentFromDSC gq dsc name =
     (case Query gq as_map None dsc q_components of
        Inl e \<Rightarrow> Inl (wrapf ''querying spec.components'' e)
      | Inr m \<Rightarrow>
          if Option.bind m (\<lambda>fs. map_of fs name) = None then Inl (ErrComponentNotFound name (sortedKeys m))
          else Inr \<lparr>ciName = name, ciState = getManagementState dsc name, ciReady = None, ciMessage = []\<rparr>)"

definition GetComponent :: "reader \<Rightarrow> string \<Rightarrow> err + ComponentInfo" where
  "GetComponent r name =
     (case GetDataScienceCluster r of
        Inl e \<Rightarrow> Inl (wrapf ''getting DataScienceCluster'' e)
      | Inr dsc \<Rightarrow> GetComponentFromDSC (rdGojq r) dsc name)"

section \<open>Health (\<open>health.go\<close>)\<close>

record HealthInfo =
  hiReady :: "bool option"
  hiMessage :: string
  hiConditions :: "kube_condition list"

definition extractHealthFromCR :: "condition_decoder \<Rightarrow> gojq \<Rightarrow> json \<Rightarrow> err + HealthInfo" where
  "extractHealthFromCR asCond gq cr =
     (case (case Query gq (as_conditions asCond) [] cr ''.status.conditions // []'' of
          Inl e \<Rightarrow> if is_ErrNotFound e then Inr [] else Inl (wrapf ''querying conditions'' e)
        | Inr cs \<Rightarrow> Inr cs) of
        Inl e \<Rightarrow> Inl e
      | Inr conds \<Rightarrow>
          (let ready = FindReady conds;
               message = (case ready of Some c \<Rightarrow> if kcStatus c \<noteq> ConditionTrue then kcMessage c else [] | None \<Rightarrow> []) in
           Inr \<lparr>hiReady = map_option (\<lambda>c. kcStatus c = ConditionTrue) ready,
             hiMessage = (if message = [] then CollectDegradedMessages conds else message), hiConditions = conds\<rparr>))"

definition GetComponentHealth :: "condition_decoder \<Rightarrow> reader \<Rightarrow> string \<Rightarrow> err + HealthInfo" where
  "GetComponentHealth asCond r name =
     (case GetComponentCR name of
        None \<Rightarrow> Inl (NewError (''unknown component CR for '' @ go_quote name))
      | Some rt \<Rightarrow>
          (case rdList r rt list_all_config of
             Inl e \<Rightarrow>
               if IsResourceTypeNotFound r e then Inl (wrapf ''component CR API unavailable'' e)
               else Inl (wrapf ''listing component CR'' e)
           | Inr [] \<Rightarrow> Inr \<lparr>hiReady = None, hiMessage = [], hiConditions = []\<rparr>
           | Inr (cr # _) \<Rightarrow> extractHealthFromCR asCond (rdGojq r) cr))"

definition enrich_component :: "condition_decoder \<Rightarrow> reader \<Rightarrow> ComponentInfo \<Rightarrow> ComponentInfo" where
  "enrich_component asCond r c =
     (if \<not> IsActive c then c
      else case GetComponentHealth asCond r (ciName c) of
          Inl e \<Rightarrow> if IsResourceTypeNotFound r e then c else c\<lparr>ciMessage := err_string e\<rparr>
        | Inr h \<Rightarrow> c\<lparr>ciReady := hiReady h, ciMessage := hiMessage h\<rparr>)"

definition EnrichWithHealth :: "condition_decoder \<Rightarrow> reader \<Rightarrow> ComponentInfo list \<Rightarrow> ComponentInfo list" where
  "EnrichWithHealth asCond r components = map (enrich_component asCond r) components"

section \<open>Changing the state (\<open>mutate.go\<close>)\<close>

record MutateConfig =
  mcName :: string
  mcTarget :: string
  mcVerb :: string
  mcDry :: bool
  mcSkip :: bool

definition buildComponentPatch :: "string \<Rightarrow> string \<Rightarrow> json" where
  "buildComponentPatch name state =
     JObj [(''spec'', JObj [(''components'', JObj [(name, JObj [(''managementState'', JStr state)])])])]"

text \<open>The method \<open>Patch\<close> of the client; the data are never empty here.\<close>

type_synonym 's dry_patch = "ResourceType \<Rightarrow> string \<Rightarrow> string \<Rightarrow> json \<Rightarrow> 's \<Rightarrow> err + json"

definition ClientPatch :: "'s cluster \<Rightarrow> 's dry_patch \<Rightarrow> bool \<Rightarrow> ResourceType \<Rightarrow> string \<Rightarrow> string \<Rightarrow> json \<Rightarrow> 's \<Rightarrow> 's \<times> (err + json)" where
  "ClientPatch cl dryPatch dry rt name ty data s =
     (if name = [] then (s, Inl (NewError ''resource name cannot be empty''))
      else case (if dry then (s, dryPatch rt name ty data s) else clPatch cl rt [] name ty data s) of
          (s', Inl e) \<Rightarrow> (s', Inl (wrapf ''patching resource'' e))
        | (s', Inr v) \<Rightarrow> (s', Inr v))"

text \<open>The state, the lines printed and the error.\<close>

definition mutate_patch ::
  "(json \<Rightarrow> string) \<Rightarrow> 's cluster \<Rightarrow> 's dry_patch \<Rightarrow> MutateConfig \<Rightarrow> json \<Rightarrow> 's \<Rightarrow> 's \<times> string list \<times> err option" where
  "mutate_patch indent cl dryPatch cfg dsc s =
     (let patch = buildComponentPatch (mcName cfg) (mcTarget cfg);
          lines = (if mcDry cfg then [''DRY RUN: Validating patch against API server...'', [], indent patch, []] else []) in
      case ClientPatch cl dryPatch (mcDry cfg) rt_DataScienceCluster (u_name dsc) ''application/merge-patch+json'' patch s of
        (s', Inl e) \<Rightarrow> (s', lines, Some (wrapf ''patching DataScienceCluster'' e))
      | (s', Inr _) \<Rightarrow>
          (s', lines @ [if mcDry cfg then ''DRY RUN: Patch validated successfully. No changes made.''
             else ''Component '' @ [CHR 0x27] @ mcName cfg @ [CHR 0x27] @ '' '' @ mcVerb cfg @ ''d successfully (managementState: ''
               @ mcTarget cfg @ '')''], None))"

definition MutateComponentState ::
  "(json \<Rightarrow> string) \<Rightarrow> 's cluster \<Rightarrow> 's dry_patch \<Rightarrow> MutateConfig \<Rightarrow> 's \<Rightarrow> 's \<times> string list \<times> err option" where
  "MutateComponentState indent cl dryPatch cfg s =
     (case GetDataScienceCluster (clReader cl s) of
        Inl e \<Rightarrow> (s, [], Some (wrapf ''getting DataScienceCluster'' e))
      | Inr dsc \<Rightarrow>
          (case GetComponentFromDSC (rdGojq (clReader cl s)) dsc (mcName cfg) of
             Inl e \<Rightarrow> (s, [], Some (wrapf ''getting component'' e))
           | Inr component \<Rightarrow>
               if ciState component = mcTarget cfg then
                 (s, [''Component '' @ [CHR 0x27] @ mcName cfg @ [CHR 0x27] @ '' is already '' @ mcVerb cfg @ ''d ('' @ mcTarget cfg @ '')''], None)
               else if \<not> mcSkip cfg \<and> \<not> mcDry cfg then
                 (case Prompt cl s of
                    (s1, False) \<Rightarrow> (s1, [], Some ErrUserAborted)
                  | (s1, True) \<Rightarrow> mutate_patch indent cl dryPatch cfg dsc s1)
               else mutate_patch indent cl dryPatch cfg dsc s))"

section \<open>\<open>enable\<close> and \<open>disable\<close> (\<open>commands.go\<close>)\<close>

text \<open>The two commands have the same fields.\<close>

record MutateCommand =
  mdName :: string
  mdNames :: "string list"
  mdDryRun :: bool
  mdYes :: bool
  mdFromStdin :: bool

record ComponentsStdin =
  csComponents :: "string list"
  csDryRun :: bool
  csSkipConfirm :: bool

text \<open>The names without the spaces around them, or the position of an empty one.\<close>

fun trim_names_components :: "nat \<Rightarrow> string list \<Rightarrow> err + string list" where
  "trim_names_components i [] = Inr []"
| "trim_names_components i (n # ns) =
     (if trim_space n = [] then Inl (NewError (''empty component name at index '' @ itoa i))
      else case trim_names_components (Suc i) ns of Inl e \<Rightarrow> Inl e | Inr ns' \<Rightarrow> Inr (trim_space n # ns'))"

definition applyStdinInput_components :: "(string \<Rightarrow> bool) \<Rightarrow> ComponentsStdin \<Rightarrow> MutateCommand \<Rightarrow> err + MutateCommand" where
  "applyStdinInput_components changed input c =
     (case trim_names_components 0 (csComponents input) of
        Inl e \<Rightarrow> Inl e
      | Inr names \<Rightarrow>
          if names \<noteq> [] \<and> mdName c \<noteq> [] then Inl (NewError ''cannot specify both positional component and components in stdin'')
          else Inr (c\<lparr>mdNames := (if names \<noteq> [] then names else mdNames c),
              mdDryRun := (if csDryRun input \<and> \<not> changed ''dry-run'' then True else mdDryRun c),
              mdYes := (if csSkipConfirm input \<and> \<not> changed ''yes'' then True else mdYes c)\<rparr>))"

definition parseStdinConfig_components ::
  "stdin_reader \<Rightarrow> err + string \<Rightarrow> (string \<Rightarrow> err + ComponentsStdin) \<Rightarrow> (string \<Rightarrow> bool) \<Rightarrow> MutateCommand \<Rightarrow> err + MutateCommand" where
  "parseStdinConfig_components reader input unmarshal changed c =
     (case CheckPiped reader of
        Some e \<Rightarrow> Inl e
      | None \<Rightarrow>
          (case StdinParse unmarshal input of
             Inl e \<Rightarrow> Inl (wrapf ''parsing stdin'' e)
           | Inr v \<Rightarrow> applyStdinInput_components changed v c))"

text \<open>\<open>newClient\<close> is the error of creating the client.\<close>

definition MutateComplete ::
  "err option \<Rightarrow> stdin_reader \<Rightarrow> err + string \<Rightarrow> (string \<Rightarrow> err + ComponentsStdin) \<Rightarrow> (string \<Rightarrow> bool) \<Rightarrow> MutateCommand
     \<Rightarrow> MutateCommand \<times> err option" where
  "MutateComplete newClient reader input unmarshal changed c =
     (case (if mdFromStdin c then parseStdinConfig_components reader input unmarshal changed c else Inr c) of
        Inl e \<Rightarrow> (c, NewExitCodeError ExitValidation (Some e))
      | Inr c1 \<Rightarrow>
          (let c2 = (if mdNames c1 = [] \<and> mdName c1 \<noteq> [] then c1\<lparr>mdNames := [mdName c1]\<rparr> else c1) in
           case newClient of Some e \<Rightarrow> (c2, Some (wrapf ''creating Kubernetes client'' e)) | None \<Rightarrow> (c2, None)))"

definition MutateValidate :: "MutateCommand \<Rightarrow> err option" where
  "MutateValidate c = (if mdNames c = [] then Some (NewError ''at least one component name is required'') else None)"

definition mutate_config :: "string \<Rightarrow> string \<Rightarrow> MutateCommand \<Rightarrow> string \<Rightarrow> MutateConfig" where
  "mutate_config target verb c name = \<lparr>mcName = name, mcTarget = target, mcVerb = verb, mcDry = mdDryRun c, mcSkip = mdYes c\<rparr>"

text \<open>The lines printed, those to the error stream among them, and the names that failed.\<close>

fun mutate_loop ::
  "(json \<Rightarrow> string) \<Rightarrow> 's cluster \<Rightarrow> 's dry_patch \<Rightarrow> string \<Rightarrow> string \<Rightarrow> string \<Rightarrow> MutateCommand \<Rightarrow> string list \<Rightarrow> 's
     \<Rightarrow> 's \<times> string list \<times> string list" where
  "mutate_loop indent cl dryPatch target verb doing c [] s = (s, [], [])"
| "mutate_loop indent cl dryPatch target verb doing c (n # ns) s =
     (case MutateComponentState indent cl dryPatch (mutate_config target verb c n) s of
        (s1, out, e) \<Rightarrow>
          (case mutate_loop indent cl dryPatch target verb doing c ns s1 of
             (s2, out', failed) \<Rightarrow>
               (case e of
                  None \<Rightarrow> (s2, out @ out', failed)
                | Some e \<Rightarrow>
                    (s2, out @ (''Error '' @ doing @ '' '' @ [CHR 0x27] @ n @ [CHR 0x27] @ '': '' @ err_string e) # out', n # failed))))"

definition mutate_run ::
  "(json \<Rightarrow> string) \<Rightarrow> 's cluster \<Rightarrow> 's dry_patch \<Rightarrow> string \<Rightarrow> string \<Rightarrow> string \<Rightarrow> MutateCommand \<Rightarrow> 's \<Rightarrow> 's \<times> string list \<times> err option" where
  "mutate_run indent cl dryPatch target verb doing c s =
     (case mutate_loop indent cl dryPatch target verb doing c (mdNames c) s of
        (s', out, failed) \<Rightarrow>
          (s', out, if failed = [] then None
             else Some (NewError (''failed to '' @ verb @ '' '' @ itoa (length failed) @ '' component(s): '' @ str_join '', '' failed))))"

definition EnableRun :: "(json \<Rightarrow> string) \<Rightarrow> 's cluster \<Rightarrow> 's dry_patch \<Rightarrow> MutateCommand \<Rightarrow> 's \<Rightarrow> 's \<times> string list \<times> err option" where
  "EnableRun indent cl dryPatch = mutate_run indent cl dryPatch ManagementStateManaged ''enable'' ''enabling''"

definition DisableRun :: "(json \<Rightarrow> string) \<Rightarrow> 's cluster \<Rightarrow> 's dry_patch \<Rightarrow> MutateCommand \<Rightarrow> 's \<Rightarrow> 's \<times> string list \<times> err option" where
  "DisableRun indent cl dryPatch = mutate_run indent cl dryPatch ManagementStateRemoved ''disable'' ''disabling''"

section \<open>\<open>list\<close> (\<open>list.go\<close>)\<close>

record ListCommand_components =
  lcSchema :: bool
  lcOutputFormat :: string
  lcVerbose :: bool
  lcQuiet :: bool

definition ListComplete_components :: "err option \<Rightarrow> ListCommand_components \<Rightarrow> err option" where
  "ListComplete_components newClient c =
     (if lcSchema c then None
      else if lcVerbose c \<and> lcQuiet c then Some (NewError ''--verbose and --quiet are mutually exclusive'')
      else map_option (wrapf ''creating Kubernetes client'') newClient)"

definition output_format_error :: "string \<Rightarrow> err option" where
  "output_format_error format = (if format \<in> set [''table'', ''json'', ''yaml''] then None else Some (ErrInvalidOutputFormat format))"

definition ListValidate_components :: "ListCommand_components \<Rightarrow> err option" where
  "ListValidate_components c = (if lcSchema c then None else output_format_error (lcOutputFormat c))"

definition readyFormatter :: "bool option \<Rightarrow> string" where
  "readyFormatter ready = (case ready of None \<Rightarrow> ''-'' | Some True \<Rightarrow> ''Yes'' | Some False \<Rightarrow> ''No'')"

text \<open>The header and the rows of the table, with a column of messages if there is one.\<close>

definition component_table :: "ComponentInfo list \<Rightarrow> string list list" where
  "component_table components =
     (let msg = list_ex (\<lambda>c. ciMessage c \<noteq> []) components in
      ([''NAME'', ''STATE'', ''READY''] @ (if msg then [''MESSAGE''] else []))
      # map (\<lambda>c. [ciName c, ciState c, readyFormatter (ciReady c)] @ (if msg then [ciMessage c] else [])) components)"

datatype components_output =
    OutSchema string
  | OutTable "string list list"
  | OutList string ComponentList

definition list_output :: "string \<Rightarrow> ComponentInfo list \<Rightarrow> components_output" where
  "list_output format components =
     (if format = ''json'' \<or> format = ''yaml'' then OutList format (NewComponentList components) else OutTable (component_table components))"

definition ListRun_components :: "condition_decoder \<Rightarrow> reader \<Rightarrow> ListCommand_components \<Rightarrow> err + components_output" where
  "ListRun_components asCond r c =
     (if lcSchema c then Inr (OutSchema ''component_list'')
      else case DiscoverComponents r of
          Inl e \<Rightarrow> Inl (wrapf ''discovering components'' e)
        | Inr components \<Rightarrow> Inr (list_output (lcOutputFormat c) (EnrichWithHealth asCond r components)))"

section \<open>\<open>describe\<close> (\<open>describe.go\<close>)\<close>

record ComponentDetails =
  cdName :: string
  cdState :: string
  cdReady :: "bool option"
  cdMessage :: string
  cdConditions :: "kube_condition list"

definition details_status :: "ComponentDetails \<Rightarrow> Status" where
  "details_status d =
     (if cdState d \<noteq> ManagementStateManaged \<and> cdState d \<noteq> ManagementStateUnmanaged then NewStatus 0 0
      else NewStatus (if cdReady d = None then 1 else 0) (if cdReady d = Some False then 1 else 0))"

record DescribeCommand =
  dcSchema :: bool
  dcComponentName :: string
  dcOutputFormat :: string
  dcVerbose :: bool
  dcQuiet :: bool

definition DescribeComplete :: "err option \<Rightarrow> DescribeCommand \<Rightarrow> err option" where
  "DescribeComplete newClient c =
     (if dcSchema c then None
      else if dcVerbose c \<and> dcQuiet c then Some (NewError ''--verbose and --quiet are mutually exclusive'')
      else map_option (wrapf ''creating Kubernetes client'') newClient)"

definition DescribeValidate :: "DescribeCommand \<Rightarrow> err option" where
  "DescribeValidate c =
     (if dcSchema c then None
      else if dcComponentName c = [] then Some (NewError ''component name is required'')
      else output_format_error (dcOutputFormat c))"

definition truncateString :: "string \<Rightarrow> nat \<Rightarrow> string" where
  "truncateString s maxLen =
     (if length (runes s) \<le> maxLen then s else rune_string (take (maxLen - 3) (runes s)) @ ''...'')"

definition condition_line :: "string \<Rightarrow> string \<Rightarrow> string \<Rightarrow> string \<Rightarrow> string" where
  "condition_line ty status reason message = ''  '' @ pad_right 15 ty @ '' '' @ pad_right 8 status @ '' '' @ pad_right 25 reason @ '' '' @ message"

definition details_lines :: "ComponentDetails \<Rightarrow> string list" where
  "details_lines d =
     [''Name:              '' @ cdName d, ''Management State:  '' @ cdState d]
     @ (case cdReady d of None \<Rightarrow> [] | Some b \<Rightarrow> [''Ready:             '' @ (if b then ''Yes'' else ''No'')])
     @ (if cdMessage d \<noteq> [] then [''Message:           '' @ cdMessage d] else [])
     @ (if cdConditions d \<noteq> [] then
          [[], ''Conditions:'', condition_line ''TYPE'' ''STATUS'' ''REASON'' ''MESSAGE'']
          @ map (\<lambda>c. condition_line (kcType c) (kcStatus c) (truncateString (kcReason c) 25) (truncateString (kcMessage c) 50)) (cdConditions d)
        else [])"

datatype describe_output =
    DescSchema string
  | DescLines "string list"
  | DescResult string Status ComponentDetails

text \<open>With the warning printed if the health cannot be read.\<close>

definition DescribeRun :: "condition_decoder \<Rightarrow> reader \<Rightarrow> DescribeCommand \<Rightarrow> err + describe_output \<times> string list" where
  "DescribeRun asCond r c =
     (if dcSchema c then Inr (DescSchema ''component_details'', [])
      else case GetComponent r (dcComponentName c) of
          Inl e \<Rightarrow> Inl (wrapf ''getting component'' e)
        | Inr component \<Rightarrow>
            (let d = \<lparr>cdName = ciName component, cdState = ciState component, cdReady = None, cdMessage = [], cdConditions = []\<rparr>;
                 (d', warnings) =
                   (if \<not> IsActive component then (d, [])
                    else case GetComponentHealth asCond r (dcComponentName c) of
                        Inl e \<Rightarrow> (d, [''warning: could not fetch health: '' @ err_string e])
                      | Inr h \<Rightarrow> (d\<lparr>cdReady := hiReady h, cdMessage := hiMessage h, cdConditions := hiConditions h\<rparr>, [])) in
             Inr (if dcOutputFormat c = ''json'' \<or> dcOutputFormat c = ''yaml'' then DescResult (dcOutputFormat c) (details_status d') d'
                  else DescLines (details_lines d'), warnings)))"

section \<open>The commands (\<open>cmd/components\<close>)\<close>

text \<open>The numbers of arguments that are accepted.\<close>

definition describe_args :: "DescribeCommand \<Rightarrow> nat \<Rightarrow> bool" where
  "describe_args c n \<longleftrightarrow> (if dcSchema c then n = 0 else n = 1)"

definition mutate_args :: "MutateCommand \<Rightarrow> nat \<Rightarrow> bool" where
  "mutate_args c n \<longleftrightarrow> (if mdFromStdin c then n \<le> 1 else n = 1)"

text \<open>\<open>runCommand_components\<close>: the first error is rendered, and what comes after it is not run.\<close>

definition runCommand_components ::
  "(err option \<Rightarrow> string list \<times> err option) \<Rightarrow> err option \<Rightarrow> err option \<Rightarrow> ('s \<Rightarrow> 's \<times> err option) \<Rightarrow> 's \<Rightarrow> 's \<times> string list \<times> err option" where
  "runCommand_components handle complete validate run s =
     (case complete of
        Some e \<Rightarrow> (s, handle (Some e))
      | None \<Rightarrow>
          (case validate of
             Some e \<Rightarrow> (s, handle (Some e))
           | None \<Rightarrow>
               (case run s of
                  (s', Some e) \<Rightarrow> (s', handle (Some e))
                | (s', None) \<Rightarrow> (s', [], None))))"

text \<open>\<open>enable\<close> and \<open>disable\<close> have no output format.\<close>

definition mutate_command ::
  "(err option \<Rightarrow> string \<Rightarrow> string list \<times> err option) \<Rightarrow> MutateCommand \<times> err option \<Rightarrow>
     (MutateCommand \<Rightarrow> 's \<Rightarrow> 's \<times> string list \<times> err option) \<Rightarrow> 's \<Rightarrow> 's \<times> string list \<times> err option" where
  "mutate_command handle completed run s =
     (case completed of
        (c, e) \<Rightarrow> runCommand_components (\<lambda>e. handle e []) e (MutateValidate c) (\<lambda>s. case run c s of (s', out, e) \<Rightarrow> (s', e)) s)"

end
