(* ===== verification/ComponentsFacts.thy ===== *)
theory ComponentsFacts
  imports Components
begin

text \<open>
  Enabling and disabling components: how the states of the components change when the server merges the patches it accepts, and what
  happens when the configuration and the answers to the prompts come from the same input.
\<close>

section \<open>Merging a patch\<close>

text \<open>A JSON merge patch, and the server's promise for those that are sent here.\<close>

function merge_json :: "json \<Rightarrow> json \<Rightarrow> json" where
  "merge_json t (JObj ps) =
     JObj (fold (\<lambda>(k, v) fs. if v = JNull then AList.delete k fs
        else AList.update k (merge_json (case map_of fs k of None \<Rightarrow> JNull | Some w \<Rightarrow> w) v) fs) ps
      (case t of JObj fs \<Rightarrow> fs | _ \<Rightarrow> []))"
| "merge_json t JNull = JNull"
| "merge_json t (JBool b) = JBool b"
| "merge_json t (JNum n) = JNum n"
| "merge_json t (JFloat x) = JFloat x"
| "merge_json t (JStr s) = JStr s"
| "merge_json t (JArr vs) = JArr vs"
  by pat_completeness auto
termination
proof (relation "measure (\<lambda>(t, p). size p)", simp_all)
  show "size y < Suc (size_list (size_prod (\<lambda>x. 0) size) ps)" if "x \<in> set ps" "(k, y) = x"
    for ps :: "(string, json) gomap" and x k y
    using that by (induction ps) auto
qed

text \<open>The state of each component that the specification has.\<close>

definition component_states :: "json \<Rightarrow> string \<Rightarrow> string option" where
  "component_states dsc name =
     (case nested [''spec'', ''components''] dsc of
        Some (JObj fs) \<Rightarrow> if map_of fs name = None then None else Some (getManagementState dsc name)
      | _ \<Rightarrow> None)"

definition components_object :: "json \<Rightarrow> bool" where
  "components_object dsc \<longleftrightarrow> (\<exists>fs. nested [''spec'', ''components''] dsc = Some (JObj fs))"

lemma merge_one: "v \<noteq> JNull \<Longrightarrow> merge_json (JObj fs) (JObj [(k, v)])
    = JObj (AList.update k (merge_json (case map_of fs k of None \<Rightarrow> JNull | Some w \<Rightarrow> w) v) fs)"
  by simp

lemma merge_component:
  assumes "nested [''spec'', ''components''] dsc = Some (JObj cs)" and "state \<noteq> []"
  shows "\<exists>fs. nested [''spec'', ''components''] (merge_json dsc (buildComponentPatch name state)) = Some (JObj (AList.update name (JObj fs) cs)) \<and> map_of fs ''managementState'' = Some (JStr state)"
proof -
  obtain fs sp where d: "dsc = JObj fs" and sp: "map_of fs ''spec'' = Some (JObj sp)" and cs: "map_of sp ''components'' = Some (JObj cs)"
    using assms(1) by (cases dsc) (auto split: option.splits elim!: json_field.elims simp: bind_eq_Some_conv)
  let ?c = "case map_of cs name of None \<Rightarrow> JNull | Some w \<Rightarrow> w"
  obtain gs where gs: "merge_json ?c (JObj [(''managementState'', JStr state)]) = JObj gs" "map_of gs ''managementState'' = Some (JStr state)"
    by (cases ?c) (auto simp: update_conv')
  have "nested [''spec'', ''components''] (merge_json dsc (buildComponentPatch name state)) = Some (JObj (AList.update name (JObj gs) cs))"
    by (simp add: buildComponentPatch_def d sp cs update_conv' merge_one gs(1) del: merge_json.simps(1))
  then show ?thesis using gs(2) by blast
qed

lemma state_nested:
  assumes "nested [''spec'', ''components''] dsc = Some (JObj cs)"
  shows "getManagementState dsc name = (case map_of cs name of None \<Rightarrow> ManagementStateRemoved
    | Some v \<Rightarrow> let state = nested_string [''managementState''] v in if state = [] then ManagementStateRemoved else state)"
proof -
  have "nested_string [''spec'', ''components'', name, ''managementState''] dsc
      = (case map_of cs name of None \<Rightarrow> [] | Some v \<Rightarrow> nested_string [''managementState''] v)"
    using assms by (cases dsc) (auto simp: bind_eq_Some_conv split: option.splits)
  then show ?thesis by (simp add: getManagementState_def Let_def split: option.split)
qed

lemma component_states_merge:
  assumes "components_object dsc" and "state \<noteq> []"
  shows "component_states (merge_json dsc (buildComponentPatch name state)) = (component_states dsc)(name \<mapsto> state)" and "components_object (merge_json dsc (buildComponentPatch name state))"
proof -
  obtain cs where cs: "nested [''spec'', ''components''] dsc = Some (JObj cs)" using assms(1) by (auto simp: components_object_def)
  from merge_component [OF cs assms(2), of name] obtain fs where
    new: "nested [''spec'', ''components''] (merge_json dsc (buildComponentPatch name state)) = Some (JObj (AList.update name (JObj fs) cs))"
      and state: "map_of fs ''managementState'' = Some (JStr state)" by blast
  show "components_object (merge_json dsc (buildComponentPatch name state))" using new by (auto simp: components_object_def)
  show "component_states (merge_json dsc (buildComponentPatch name state)) = (component_states dsc)(name \<mapsto> state)"
  proof
    fix n
    show "component_states (merge_json dsc (buildComponentPatch name state)) n = ((component_states dsc)(name \<mapsto> state)) n"
      using assms(2) state unfolding component_states_def state_nested [OF cs] state_nested [OF new] cs new
      by (cases "n = name") (simp_all add: update_conv' del: nested.simps)
  qed
qed

section \<open>The states after a command\<close>

text \<open>
  What the commands rely on: jq finds the components where there are any; the server merges a patch it accepts into the specification,
  and keeps the specification if it rejects one; and nobody else changes it meanwhile. The rest of the resource, such as its resource
  version or its status, may change at any time.
\<close>

definition components_jq :: "gojq \<Rightarrow> bool" where
  "components_jq gq \<longleftrightarrow> gqParse gq q_components = None
     \<and> (\<forall>dsc fs. nested [''spec'', ''components''] dsc = Some (JObj fs) \<longrightarrow> gqRun gq q_components dsc = Some (Inr (JObj fs)))"

definition spec_is :: "'s cluster \<Rightarrow> 's \<Rightarrow> json \<Rightarrow> bool" where
  "spec_is cl s v \<longleftrightarrow> (\<exists>dsc. GetDataScienceCluster (clReader cl s) = Inr dsc \<and> u_name dsc = u_name v
     \<and> json_field ''spec'' dsc = json_field ''spec'' v)"

definition merging_server :: "'s cluster \<Rightarrow> bool" where
  "merging_server cl \<longleftrightarrow>
     (\<forall>s dsc. GetDataScienceCluster (clReader cl s) = Inr dsc \<longrightarrow>
        spec_is cl (fst (Prompt cl s)) dsc
        \<and> (\<forall>name state. case clPatch cl rt_DataScienceCluster [] (u_name dsc) ''application/merge-patch+json'' (buildComponentPatch name state) s of
             (s', Inl e) \<Rightarrow> spec_is cl s' dsc
           | (s', Inr v) \<Rightarrow> spec_is cl s' (merge_json dsc (buildComponentPatch name state))))"

lemma component_states_spec:
  assumes "json_field ''spec'' dsc' = json_field ''spec'' dsc"
  shows "component_states dsc' = component_states dsc" and "components_object dsc' = components_object dsc"
proof -
  have n: "nested [''spec'', ''components''] dsc' = nested [''spec'', ''components''] dsc" using assms by simp
  have "getManagementState dsc' name = getManagementState dsc name" for name using assms by (simp add: getManagementState_def Let_def)
  then show "component_states dsc' = component_states dsc" unfolding component_states_def n by (intro ext) (simp only:)
  show "components_object dsc' = components_object dsc" unfolding components_object_def n ..
qed

lemma spec_isD:
  assumes "spec_is cl s v" and "components_object v"
  shows "\<exists>dsc. GetDataScienceCluster (clReader cl s) = Inr dsc \<and> u_name dsc = u_name v \<and> components_object dsc
    \<and> component_states dsc = component_states v"
  using assms component_states_spec unfolding spec_is_def by blast

lemma GetComponentFromDSC_states:
  assumes "components_jq gq" and "components_object dsc"
  shows "GetComponentFromDSC gq dsc name = (case component_states dsc name of
      None \<Rightarrow> Inl (ErrComponentNotFound name (sortedKeys (case nested [''spec'', ''components''] dsc of Some (JObj fs) \<Rightarrow> Some fs | _ \<Rightarrow> None)))
    | Some state \<Rightarrow> Inr \<lparr>ciName = name, ciState = state, ciReady = None, ciMessage = []\<rparr>)"
proof -
  obtain cs where cs: "nested [''spec'', ''components''] dsc = Some (JObj cs)" using assms(2) by (auto simp: components_object_def)
  have q: "Query gq as_map None dsc q_components = Inr (Some cs)"
    using assms(1) cs by (simp add: components_jq_def Query_def del: nested.simps)
  show ?thesis
    by (cases "map_of cs name") (simp_all add: GetComponentFromDSC_def component_states_def cs q del: nested.simps)
qed

definition with_state :: "json \<Rightarrow> string set \<Rightarrow> string \<Rightarrow> string \<Rightarrow> string option" where
  "with_state dsc names state n = (if n \<in> names then Some state else component_states dsc n)"

text \<open>One component: unless it fails, it has the state; whether it fails or not, nothing else changes.\<close>

lemma mutate_one:
  assumes "merging_server cl" and "\<And>s. components_jq (rdGojq (clReader cl s))" and "mcTarget cfg \<noteq> []" and "\<not> mcDry cfg"
    and "GetDataScienceCluster (clReader cl s) = Inr dsc" and "components_object dsc"
    and "MutateComponentState indent cl dryPatch cfg s = (s', out, e)"
  shows "\<exists>dsc'. GetDataScienceCluster (clReader cl s') = Inr dsc' \<and> components_object dsc'
    \<and> (component_states dsc' = (component_states dsc)(mcName cfg \<mapsto> mcTarget cfg) \<or> e \<noteq> None \<and> component_states dsc' = component_states dsc)"
proof -
  have patch: "\<exists>dsc'. GetDataScienceCluster (clReader cl s2) = Inr dsc' \<and> components_object dsc'
      \<and> (component_states dsc' = (component_states dsc)(mcName cfg \<mapsto> mcTarget cfg) \<or> e2 \<noteq> None \<and> component_states dsc' = component_states dsc)"
    if run: "mutate_patch indent cl dryPatch cfg dsc s1 = (s2, out2, e2)"
      and s1: "GetDataScienceCluster (clReader cl s1) = Inr dsc1" "u_name dsc1 = u_name dsc" "components_object dsc1" "component_states dsc1 = component_states dsc"
    for s1 s2 out2 e2 dsc1
  proof -
    let ?p = "buildComponentPatch (mcName cfg) (mcTarget cfg)"
    let ?r = "clPatch cl rt_DataScienceCluster [] (u_name dsc) ''application/merge-patch+json'' ?p s1"
    have server: "case ?r of (s', Inl e) \<Rightarrow> spec_is cl s' dsc1 | (s', Inr v) \<Rightarrow> spec_is cl s' (merge_json dsc1 ?p)"
      using assms(1) [unfolded merging_server_def, THEN spec, THEN spec, THEN mp, OF s1(1), THEN conjunct2, THEN spec, THEN spec, of "mcName cfg" "mcTarget cfg"]
      unfolding s1(2) .
    show ?thesis
    proof (cases "u_name dsc = []")
      case True
      then have "fst (mutate_patch indent cl dryPatch cfg dsc s1) = s1 \<and> snd (snd (mutate_patch indent cl dryPatch cfg dsc s1)) \<noteq> None"
        by (simp add: mutate_patch_def ClientPatch_def Let_def)
      then have "s2 = s1" "e2 \<noteq> None" by (simp_all add: run)
      then show ?thesis using s1 by blast
    next
      case False
      obtain s3 r where r: "?r = (s3, r)" by (cases ?r)
      have patched: "ClientPatch cl dryPatch False rt_DataScienceCluster (u_name dsc) ''application/merge-patch+json'' ?p s1
          = (s3, case r of Inl e \<Rightarrow> Inl (wrapf ''patching resource'' e) | Inr v \<Rightarrow> Inr v)"
        using False r by (simp add: ClientPatch_def split: sum.split)
      have "fst (mutate_patch indent cl dryPatch cfg dsc s1) = s3 \<and> (snd (snd (mutate_patch indent cl dryPatch cfg dsc s1)) = None \<longleftrightarrow> \<not> isl r)"
        using assms(4) by (cases r) (simp_all add: mutate_patch_def Let_def patched)
      then have s2: "s2 = s3" and e2: "e2 = None \<longleftrightarrow> \<not> isl r" by (simp_all add: run)
      note merged = component_states_merge [OF s1(3) assms(3), of "mcName cfg"]
      show ?thesis
      proof (cases r)
        case (Inl e)
        then show ?thesis using spec_isD [of cl s3 dsc1] server [unfolded r] s1(3,4) s2 e2 by auto
      next
        case (Inr v)
        then show ?thesis using spec_isD [of cl s3 "merge_json dsc1 ?p"] server [unfolded r] merged s1(4) s2 by auto
      qed
    qed
  qed
  note comp = GetComponentFromDSC_states [OF assms(2,6), of s "mcName cfg"]
  show ?thesis
  proof (cases "component_states dsc (mcName cfg)")
    case None
    then show ?thesis using assms(5,6,7) comp by (auto simp: MutateComponentState_def)
  next
    case (Some state)
    show ?thesis
    proof (cases "state = mcTarget cfg")
      case True
      then have "component_states dsc = (component_states dsc)(mcName cfg \<mapsto> mcTarget cfg)" using Some by auto
      then show ?thesis using assms(5,6,7) comp Some True by (auto simp: MutateComponentState_def)
    next
      case False
      obtain s1 b where p: "Prompt cl s = (s1, b)" by fastforce
      have "spec_is cl s1 dsc"
        using assms(1) [unfolded merging_server_def, THEN spec, THEN spec, THEN mp, OF assms(5), THEN conjunct1] by (simp add: p)
      from spec_isD [OF this assms(6)] obtain dsc1 where s1: "GetDataScienceCluster (clReader cl s1) = Inr dsc1" "u_name dsc1 = u_name dsc"
        "components_object dsc1" "component_states dsc1 = component_states dsc" by blast
      have "mutate_patch indent cl dryPatch cfg dsc (if mcSkip cfg then s else s1) = (s', out, e) \<or> s' = s1 \<and> e \<noteq> None"
        using assms(4,5,7) comp Some False p by (auto simp: MutateComponentState_def split: if_splits bool.splits)
      then show ?thesis
      proof
        assume "mutate_patch indent cl dryPatch cfg dsc (if mcSkip cfg then s else s1) = (s', out, e)"
        then show ?thesis using patch [OF _ s1] patch [OF _ assms(5) refl assms(6) refl] by (cases "mcSkip cfg") simp_all
      next
        assume "s' = s1 \<and> e \<noteq> None"
        then show ?thesis using s1 by blast
      qed
    qed
  qed
qed

lemma mutate_loop_states:
  assumes "merging_server cl" and "\<And>s. components_jq (rdGojq (clReader cl s))" and "target \<noteq> []" and "\<not> mdDryRun c"
    and "GetDataScienceCluster (clReader cl s) = Inr dsc" and "components_object dsc"
    and "mutate_loop indent cl dryPatch target verb doing c ns s = (s', out, failed)"
  shows "\<exists>dsc' changed. GetDataScienceCluster (clReader cl s') = Inr dsc' \<and> component_states dsc' = with_state dsc changed target
    \<and> set ns - set failed \<subseteq> changed \<and> changed \<subseteq> set ns"
  using assms(5,6,7)
proof (induction ns arbitrary: s dsc s' out failed)
  case Nil
  then have "component_states dsc = with_state dsc {} target" by (auto simp: with_state_def)
  then show ?case using Nil by (intro exI [of _ dsc] exI [of _ "{}"]) simp
next
  case (Cons n ns)
  let ?cfg = "mutate_config target verb c n"
  obtain s1 out1 e1 where one: "MutateComponentState indent cl dryPatch ?cfg s = (s1, out1, e1)" by (cases "MutateComponentState indent cl dryPatch ?cfg s")
  obtain s2 out2 failed2 where rest: "mutate_loop indent cl dryPatch target verb doing c ns s1 = (s2, out2, failed2)"
    by (cases "mutate_loop indent cl dryPatch target verb doing c ns s1")
  have res: "s' = s2" "failed = (if e1 = None then failed2 else n # failed2)"
    using Cons.prems(3) one rest by (auto split: option.splits)
  from mutate_one [OF assms(1,2) _ _ Cons.prems(1,2) one] assms(3,4) obtain dsc1 where
    dsc1: "GetDataScienceCluster (clReader cl s1) = Inr dsc1" "components_object dsc1"
      and step: "component_states dsc1 = (component_states dsc)(n \<mapsto> target) \<or> e1 \<noteq> None \<and> component_states dsc1 = component_states dsc"
    by (auto simp: mutate_config_def)
  from Cons.IH [OF dsc1 rest] obtain dsc' changed where
    after: "GetDataScienceCluster (clReader cl s2) = Inr dsc'" "component_states dsc' = with_state dsc1 changed target"
      "set ns - set failed2 \<subseteq> changed" "changed \<subseteq> set ns" by blast
  from step show ?case
  proof
    assume "component_states dsc1 = (component_states dsc)(n \<mapsto> target)"
    then have "component_states dsc' = with_state dsc (insert n changed) target" using after(2) by (auto simp: with_state_def)
    then show ?thesis using after res by (intro exI [of _ dsc'] exI [of _ "insert n changed"]) (auto split: if_splits)
  next
    assume "e1 \<noteq> None \<and> component_states dsc1 = component_states dsc"
    then have "component_states dsc' = with_state dsc changed target" "e1 \<noteq> None" using after(2) by (auto simp: with_state_def)
    then show ?thesis using after res by (intro exI [of _ dsc'] exI [of _ changed]) auto
  qed
qed

text \<open>
  C35. Enabling or disabling components, if it is no dry run and reports no error, sets the state of exactly the components that were
  named: every one of them has the new state afterwards, and every other component has the state it had. This holds for a server that
  merges the patches it accepts into the specification, while nobody else changes it.
\<close>

theorem components_run_sets_states:
  assumes "merging_server cl" and "\<And>s. components_jq (rdGojq (clReader cl s))"
    and "GetDataScienceCluster (clReader cl s) = Inr dsc" and "components_object dsc" and "\<not> mdDryRun c"
    and "(run, target) \<in> {(EnableRun indent cl dryPatch, ManagementStateManaged), (DisableRun indent cl dryPatch, ManagementStateRemoved)}"
    and "run c s = (s', out, None)"
  shows "\<exists>dsc'. GetDataScienceCluster (clReader cl s') = Inr dsc'
    \<and> (\<forall>n. component_states dsc' n = (if n \<in> set (mdNames c) then Some target else component_states dsc n))"
proof -
  obtain verb doing where target: "target \<noteq> []" and run: "run = mutate_run indent cl dryPatch target verb doing"
    using assms(6) by (auto simp: EnableRun_def DisableRun_def)
  obtain out' failed where loop: "mutate_loop indent cl dryPatch target verb doing c (mdNames c) s = (s', out', failed)" "failed = []"
    using assms(7) unfolding run by (auto simp: mutate_run_def split: prod.splits if_splits)
  from mutate_loop_states [OF assms(1,2) target assms(5,3,4) loop(1)] loop(2) show ?thesis
    by (auto simp: with_state_def fun_eq_iff)
qed

section \<open>Prompts at the end of the input\<close>

lemma mutate_at_eof:
  assumes "clLine cl = (\<lambda>s. (s, Inl eof))" and "\<not> mcSkip cfg" and "\<not> mcDry cfg"
  shows "fst (MutateComponentState indent (logged cl) dryPatch cfg st) = st
    \<and> (snd (snd (MutateComponentState indent (logged cl) dryPatch cfg st)) = None
      \<longleftrightarrow> (\<exists>ci. GetComponent (clReader cl (fst st)) (mcName cfg) = Inr ci \<and> ciState ci = mcTarget cfg))"
proof -
  have reader: "clReader (logged cl) st = clReader cl (fst st)" by (simp add: logged_def)
  have prompt: "Prompt (logged cl) st = (st, False)"
    by (simp add: Prompt_def logged_def log_pass_def assms(1))
  show ?thesis
    using assms(2,3) by (simp add: MutateComponentState_def GetComponent_def reader prompt split: sum.split)
qed

lemma mutate_loop_at_eof:
  assumes "clLine cl = (\<lambda>s. (s, Inl eof))" and "\<not> mdYes c" and "\<not> mdDryRun c"
  shows "fst (mutate_loop indent (logged cl) dryPatch target verb doing c ns st) = st
    \<and> (snd (snd (mutate_loop indent (logged cl) dryPatch target verb doing c ns st)) = []
      \<longleftrightarrow> (\<forall>n\<in>set ns. \<exists>ci. GetComponent (clReader cl (fst st)) n = Inr ci \<and> ciState ci = target))"
proof (induction ns)
  case (Cons n ns)
  have cfg: "\<not> mcSkip (mutate_config target verb c n)" "\<not> mcDry (mutate_config target verb c n)" using assms(2,3) by (simp_all add: mutate_config_def)
  have names: "mcName (mutate_config target verb c n) = n" "mcTarget (mutate_config target verb c n) = target" by (simp_all add: mutate_config_def)
  note one = mutate_at_eof [OF assms(1) cfg, of indent dryPatch st, unfolded names]
  obtain st1 out1 e1 where m: "MutateComponentState indent (logged cl) dryPatch (mutate_config target verb c n) st = (st1, out1, e1)"
    by (cases "MutateComponentState indent (logged cl) dryPatch (mutate_config target verb c n) st")
  show ?case
  proof (cases e1)
    case None
    then show ?thesis using one Cons.IH by (simp add: m split_def)
  next
    case (Some e)
    then show ?thesis using one Cons.IH by (simp add: m split_def)
  qed
qed simp

text \<open>
  C36. Once the configuration has been read from the input, the input is at its end, and reading the answer to a prompt is an error.
  So without the flag or the field that skips the prompts, a command that is configured from the input sends nothing to the cluster:
  it succeeds only if every component has the state already.
\<close>

theorem configured_from_stdin_aborts:
  assumes "clLine cl = (\<lambda>s. (s, Inl eof))" and "\<not> mdYes c" and "\<not> mdDryRun c"
    and "mutate_run indent (logged cl) dryPatch target verb doing c (s, []) = ((s', ws), out, e)"
  shows "ws = [] \<and> (e = None \<longleftrightarrow> (\<forall>n\<in>set (mdNames c). \<exists>ci. GetComponent (clReader cl s) n = Inr ci \<and> ciState ci = target))"
proof -
  obtain st1 out1 failed where l: "mutate_loop indent (logged cl) dryPatch target verb doing c (mdNames c) (s, []) = (st1, out1, failed)"
    by (cases "mutate_loop indent (logged cl) dryPatch target verb doing c (mdNames c) (s, [])")
  show ?thesis
    using mutate_loop_at_eof [OF assms(1,2,3), of indent dryPatch target verb doing "mdNames c" "(s, [])", unfolded l] assms(4)
    by (cases "failed = []") (auto simp: mutate_run_def l)
qed

section \<open>Witnesses\<close>

definition sample_dsc :: json where
  "sample_dsc = JObj [(''metadata'', JObj [(''name'', JStr ''dsc''), (''resourceVersion'', JStr ''1'')]),
     (''spec'', JObj [(''components'', JObj [(''ray'', JObj [(''managementState'', JStr ''Removed'')]), (''kserve'', JObj [(''managementState'', JStr ''Managed'')])])])]"

definition path_components :: gojq where
  "path_components = \<lparr>gqParse = (\<lambda>e. None),
     gqRun = (\<lambda>e v. Some (case nested [''spec'', ''components''] v of None \<Rightarrow> Inl (NewError ''no components'') | Some w \<Rightarrow> Inr w))\<rparr>"

definition dsc_cluster :: "bool \<Rightarrow> json cluster" where
  "dsc_cluster eof = \<lparr>
     clReader = (\<lambda>s. (sample_reader path_components (\<lambda>rt. [s]))\<lparr>rdDiscovery := None\<rparr>),
     clGet = (\<lambda>rt ns name s. Inr s),
     clList = (\<lambda>rt cfg s. Inr []),
     clCreate = (\<lambda>rt ns v s. (s, Inr v)),
     clUpdate = (\<lambda>rt ns v s. (s, Inr v)),
     clPatch = (\<lambda>rt ns name ty v s. (set_nested [''metadata'', ''resourceVersion''] (JStr (''1'' @ nested_string [''metadata'', ''resourceVersion''] s))
       (merge_json s v), Inr v)),
     clDelete = (\<lambda>rt ns name s. (s, None)),
     clCtx = (\<lambda>s. None),
     clSleep = (\<lambda>d s. (s, None)),
     clLine = (\<lambda>s. (s, if eof then Inl (NewError ''EOF'') else Inr ''y''))\<rparr>"

definition mutate_ray :: MutateCommand where
  "mutate_ray = \<lparr>mdName = ''ray'', mdNames = [''ray''], mdDryRun = False, mdYes = False, mdFromStdin = False\<rparr>"

lemma dsc_cluster_get: "GetDataScienceCluster (clReader (dsc_cluster eof) s) = Inr s"
  by (simp add: dsc_cluster_def GetDataScienceCluster_def getSingletonWithDiscovery_def GetSingleton_def sample_reader_def)

lemma next_version:
  "json_field ''spec'' (set_nested [''metadata'', ''resourceVersion''] x v) = json_field ''spec'' v"
  "u_name (set_nested [''metadata'', ''resourceVersion''] x v) = u_name v"
  by (cases v; auto simp: u_name_def update_conv' split: option.splits json.splits)+

lemma dsc_cluster_merges: "merging_server (dsc_cluster eof)"
proof -
  have "fst (Prompt (dsc_cluster eof) s) = s" for s by (cases eof) (simp_all add: Prompt_def dsc_cluster_def)
  then show ?thesis
    by (simp add: merging_server_def spec_is_def dsc_cluster_get) (simp add: dsc_cluster_def next_version del: set_nested.simps)
qed

lemma dsc_cluster_jq: "components_jq (rdGojq (clReader (dsc_cluster eof) s))"
  by (simp add: components_jq_def dsc_cluster_def sample_reader_def path_components_def del: nested.simps)

lemma sample_dsc_components: "components_object sample_dsc"
  by (simp add: components_object_def sample_dsc_def)

lemma sample_ray_enabled: "snd (snd (EnableRun (\<lambda>v. []) (dsc_cluster False) (\<lambda>rt n ty v s. Inr v) mutate_ray sample_dsc)) = None"
  by code_simp

theorem components_run_sets_states_witness:
  "\<exists>s' out dsc'. EnableRun (\<lambda>v. []) (dsc_cluster False) (\<lambda>rt n ty v s. Inr v) mutate_ray sample_dsc = (s', out, None)
     \<and> GetDataScienceCluster (clReader (dsc_cluster False) s') = Inr dsc'
     \<and> component_states dsc' ''ray'' = Some ManagementStateManaged \<and> component_states dsc' ''kserve'' = component_states sample_dsc ''kserve''"
proof -
  let ?run = "EnableRun (\<lambda>v. []) (dsc_cluster False) (\<lambda>rt n ty v s. Inr v)"
  obtain s' out where run: "?run mutate_ray sample_dsc = (s', out, None)"
    using sample_ray_enabled by (metis prod.collapse)
  have "(?run, ManagementStateManaged) \<in> {(?run, ManagementStateManaged),
      (DisableRun (\<lambda>v. []) (dsc_cluster False) (\<lambda>rt n ty v s. Inr v), ManagementStateRemoved)}" by (rule insertI1)
  from components_run_sets_states [OF dsc_cluster_merges dsc_cluster_jq dsc_cluster_get sample_dsc_components _ this run]
  obtain dsc' where "GetDataScienceCluster (clReader (dsc_cluster False) s') = Inr dsc'"
    "\<forall>n. component_states dsc' n = (if n \<in> set (mdNames mutate_ray) then Some ManagementStateManaged else component_states sample_dsc n)"
    by (auto simp: mutate_ray_def)
  then show ?thesis using run by (simp add: mutate_ray_def)
qed

theorem configured_from_stdin_aborts_witness:
  "\<exists>st out e. mutate_run (\<lambda>v. []) (logged (dsc_cluster True)) (\<lambda>rt n ty v s. Inr v) ManagementStateManaged ''enable'' ''enabling'' mutate_ray
       (sample_dsc, []) = (st, out, e) \<and> snd st = []"
proof -
  obtain s' ws out e where run: "mutate_run (\<lambda>v. []) (logged (dsc_cluster True)) (\<lambda>rt n ty v s. Inr v) ManagementStateManaged ''enable''
      ''enabling'' mutate_ray (sample_dsc, []) = ((s', ws), out, e)" by (metis prod.collapse)
  have eof: "clLine (dsc_cluster True) = (\<lambda>s. (s, Inl (NewError ''EOF'')))" by (simp add: dsc_cluster_def)
  have "ws = []" using configured_from_stdin_aborts [OF eof _ _ run] by (simp add: mutate_ray_def)
  then show ?thesis using run by auto
qed

end
