(* ===== verification/BackupResolve.thy ===== *)
theory BackupResolve
  imports BackupWriter
begin

text \<open>
  The resources that a workload refers to: \<open>pkg/util/kube/dependencies.go\<close>, \<open>StripFields\<close> of \<open>resources.go\<close>, and
  \<open>pkg/backup/dependencies\<close> with the resolvers of Notebooks and DataSciencePipelinesApplications. Decoding JSON into the types
  of \<open>k8s.io/api/core/v1\<close> is an argument, and so is the order in which Go visits a map.
\<close>

section \<open>References (\<open>dependencies.go\<close>)\<close>

text \<open>The fields of \<open>corev1\<close> that are read; \<open>None\<close> is a nil pointer. \<open>SrcOther\<close> is a value of another type, with its name.\<close>

record EnvFromSource =
  efConfigMapRef :: "string option"
  efSecretRef :: "string option"

record EnvVarSource =
  vfConfigMapKeyRef :: "string option"
  vfSecretKeyRef :: "string option"

record EnvVar =
  evName :: string
  evValueFrom :: "EnvVarSource option"

record Container =
  ctName :: string
  ctEnvFrom :: "EnvFromSource list"
  ctEnv :: "EnvVar list"

record Volume =
  voName :: string
  voConfigMap :: "string option"
  voSecret :: "string option"
  voPVC :: "string option"

datatype ref_source = SrcVolume Volume | SrcContainer Container | SrcOther string

definition sets_List :: "string list \<Rightarrow> string list" where
  "sets_List xs = sort_slice (\<lambda>a b. a < b) (remdups xs)"

text \<open>The names that a loop inserts: those that are not empty.\<close>

definition ref_names :: "('a \<Rightarrow> string) \<Rightarrow> 'a list \<Rightarrow> string list" where
  "ref_names f xs = filter (\<lambda>n. n \<noteq> []) (map f xs)"

definition ref_or_empty :: "string option \<Rightarrow> string" where
  "ref_or_empty ref = (case ref of Some n \<Rightarrow> (if n \<noteq> [] then n else []) | None \<Rightarrow> [])"

definition ExtractConfigMapRefsFromVolume :: "Volume \<Rightarrow> string" where
  "ExtractConfigMapRefsFromVolume v = ref_or_empty (voConfigMap v)"

definition ExtractSecretRefsFromVolume :: "Volume \<Rightarrow> string" where
  "ExtractSecretRefsFromVolume v = ref_or_empty (voSecret v)"

definition ExtractPVCRefsFromVolume :: "Volume \<Rightarrow> string" where
  "ExtractPVCRefsFromVolume v = ref_or_empty (voPVC v)"

definition ExtractConfigMapRefsFromVolumes :: "Volume list \<Rightarrow> string list" where
  "ExtractConfigMapRefsFromVolumes vs = sets_List (ref_names ExtractConfigMapRefsFromVolume vs)"

definition ExtractSecretRefsFromVolumes :: "Volume list \<Rightarrow> string list" where
  "ExtractSecretRefsFromVolumes vs = sets_List (ref_names ExtractSecretRefsFromVolume vs)"

definition ExtractPVCRefsFromVolumes :: "Volume list \<Rightarrow> string list" where
  "ExtractPVCRefsFromVolumes vs = sets_List (ref_names ExtractPVCRefsFromVolume vs)"

definition ExtractConfigMapRefFromEnvFromSource :: "EnvFromSource \<Rightarrow> string" where
  "ExtractConfigMapRefFromEnvFromSource ef = ref_or_empty (efConfigMapRef ef)"

definition ExtractSecretRefFromEnvFromSource :: "EnvFromSource \<Rightarrow> string" where
  "ExtractSecretRefFromEnvFromSource ef = ref_or_empty (efSecretRef ef)"

definition ExtractConfigMapRefFromEnvVar :: "EnvVar \<Rightarrow> string" where
  "ExtractConfigMapRefFromEnvVar ev = (case evValueFrom ev of None \<Rightarrow> [] | Some vf \<Rightarrow> ref_or_empty (vfConfigMapKeyRef vf))"

definition ExtractSecretRefFromEnvVar :: "EnvVar \<Rightarrow> string" where
  "ExtractSecretRefFromEnvVar ev = (case evValueFrom ev of None \<Rightarrow> [] | Some vf \<Rightarrow> ref_or_empty (vfSecretKeyRef vf))"

definition ExtractConfigMapRefs :: "Container \<Rightarrow> string list" where
  "ExtractConfigMapRefs c =
     sets_List (ref_names ExtractConfigMapRefFromEnvFromSource (ctEnvFrom c) @ ref_names ExtractConfigMapRefFromEnvVar (ctEnv c))"

definition ExtractSecretRefs :: "Container \<Rightarrow> string list" where
  "ExtractSecretRefs c =
     sets_List (ref_names ExtractSecretRefFromEnvFromSource (ctEnvFrom c) @ ref_names ExtractSecretRefFromEnvVar (ctEnv c))"

text \<open>The loop over sources; without a function for containers, a container is not supported.\<close>

definition unsupported_source :: "string \<Rightarrow> string \<Rightarrow> err" where
  "unsupported_source what ty = NewError (''unsupported source type for '' @ what @ '' extraction: '' @ ty)"

fun source_names ::
  "string \<Rightarrow> (Volume \<Rightarrow> string) \<Rightarrow> (Container \<Rightarrow> string list) option \<Rightarrow> ref_source list \<Rightarrow> err + string list" where
  "source_names what f g [] = Inr []"
| "source_names what f g (SrcVolume v # ss) =
     bind_res (source_names what f g ss) (\<lambda>ns. Inr ((if f v \<noteq> [] then [f v] else []) @ ns))"
| "source_names what f g (SrcContainer c # ss) =
     (case g of
        None \<Rightarrow> Inl (unsupported_source what ''v1.Container'')
      | Some h \<Rightarrow> bind_res (source_names what f g ss) (\<lambda>ns. Inr (h c @ ns)))"
| "source_names what f g (SrcOther ty # ss) = Inl (unsupported_source what ty)"

definition ExtractConfigMapRefsFromSources :: "ref_source list \<Rightarrow> err + string list" where
  "ExtractConfigMapRefsFromSources ss =
     bind_res (source_names ''ConfigMap'' ExtractConfigMapRefsFromVolume (Some ExtractConfigMapRefs) ss) (\<lambda>ns. Inr (sets_List ns))"

definition ExtractSecretRefsFromSources :: "ref_source list \<Rightarrow> err + string list" where
  "ExtractSecretRefsFromSources ss =
     bind_res (source_names ''Secret'' ExtractSecretRefsFromVolume (Some ExtractSecretRefs) ss) (\<lambda>ns. Inr (sets_List ns))"

definition ExtractPVCRefsFromSources :: "ref_source list \<Rightarrow> err + string list" where
  "ExtractPVCRefsFromSources ss =
     bind_res (source_names ''PVC'' ExtractPVCRefsFromVolume None ss) (\<lambda>ns. Inr (sets_List ns))"

section \<open>Parallel fetches\<close>

text \<open>A nil resource without an error is a permission that the client hides.\<close>

definition fetch_one :: "reader \<Rightarrow> string \<Rightarrow> ResourceType \<Rightarrow> string \<Rightarrow> err + json" where
  "fetch_one r ns rt name =
     (case rdGet r rt ns name of
        Inl e \<Rightarrow> Inl e
      | Inr None \<Rightarrow> Inl (NewError (''secrets '' @ go_quote name @ '' is forbidden: User cannot get resource ''
          @ go_quote (rtResource rt) @ '' in API group '' @ go_quote (rtGroup rt) @ '' in the namespace '' @ go_quote ns))
      | Inr (Some v) \<Rightarrow> Inr v)"

text \<open>What the goroutine of index \<open>i\<close> writes into the two arrays.\<close>

type_synonym fetch_arrays = "json option list \<times> err option list"

definition fetch_slot :: "reader \<Rightarrow> string \<Rightarrow> ResourceType \<Rightarrow> string list \<Rightarrow> nat \<Rightarrow> fetch_arrays \<Rightarrow> fetch_arrays" where
  "fetch_slot r ns rt names i a =
     (case fetch_one r ns rt (names ! i) of
        Inl e \<Rightarrow> (fst a, (snd a)[i := Some e])
      | Inr v \<Rightarrow> ((fst a)[i := Some v], snd a))"

definition run_fetches :: "reader \<Rightarrow> string \<Rightarrow> ResourceType \<Rightarrow> string list \<Rightarrow> nat list \<Rightarrow> fetch_arrays" where
  "run_fetches r ns rt names is =
     fold (fetch_slot r ns rt names) is (replicate (length names) None, replicate (length names) None)"

fun collect_fetched ::
  "string list \<Rightarrow> json option list \<Rightarrow> err option list \<Rightarrow> json list \<times> (string, err) gomap \<Rightarrow> json list \<times> (string, err) gomap" where
  "collect_fetched (n # ns) (Some v # xs) (e # es) acc = collect_fetched ns xs es (fst acc @ [v], snd acc)"
| "collect_fetched (n # ns) (None # xs) (Some e # es) acc = collect_fetched ns xs es (fst acc, AList.update n e (snd acc))"
| "collect_fetched (n # ns) (None # xs) (None # es) acc = collect_fetched ns xs es acc"
| "collect_fetched _ _ _ acc = acc"

text \<open>The goroutines finish in the order \<open>is\<close>; none of them returns an error.\<close>

definition FetchResourcesByNameWithErrors ::
  "nat list \<Rightarrow> reader \<Rightarrow> string \<Rightarrow> ResourceType \<Rightarrow> string list \<Rightarrow> json list \<times> (string, err) gomap" where
  "FetchResourcesByNameWithErrors is r ns rt names =
     (if names = [] then ([], [])
      else case run_fetches r ns rt names is of (items, fetchErrors) \<Rightarrow> collect_fetched names items fetchErrors ([], []))"

definition FetchResourcesByName :: "nat list \<Rightarrow> reader \<Rightarrow> string \<Rightarrow> ResourceType \<Rightarrow> string list \<Rightarrow> json list" where
  "FetchResourcesByName is r ns rt names = fst (FetchResourcesByNameWithErrors is r ns rt names)"

definition FetchResourcesByNameWithMissing ::
  "nat list \<Rightarrow> reader \<Rightarrow> string \<Rightarrow> ResourceType \<Rightarrow> string list \<Rightarrow> json list \<times> string list" where
  "FetchResourcesByNameWithMissing is r ns rt names =
     (case FetchResourcesByNameWithErrors is r ns rt names of (items, errors) \<Rightarrow> (items, map fst errors))"

section \<open>Stripping fields (\<open>resources.go\<close>)\<close>

definition StripFields :: "gojq \<Rightarrow> json \<Rightarrow> string list \<Rightarrow> err + json" where
  "StripFields gq obj paths =
     (if paths = [] then Inr obj
      else case Transform gq obj (''del('' @ str_join '', '' paths @ '')'') of
             Inl e \<Rightarrow> Inl (wrapf ''applying JQ transform'' e)
           | Inr v \<Rightarrow> Inr v)"

section \<open>Resolvers (\<open>resolver.go\<close>, \<open>registry.go\<close>)\<close>

text \<open>A group, a version and a plural name.\<close>

type_synonym gvr = "string \<times> string \<times> string"

record BackupDependency =
  dpGVR :: gvr
  dpResource :: "json option"
  dpName :: string
  dpError :: "err option"

record Resolver =
  rvResolve :: "reader \<Rightarrow> json \<Rightarrow> err + BackupDependency list"
  rvCanHandle :: "gvr \<Rightarrow> bool"

type_synonym dep_registry = "Resolver list"

definition NewRegistry_backup :: dep_registry where "NewRegistry_backup = []"

definition Register_backup :: "Resolver \<Rightarrow> dep_registry \<Rightarrow> dep_registry" where
  "Register_backup rv reg = reg @ [rv]"

text \<open>\<open>Inl\<close> is a panic.\<close>

definition MustRegister_backup :: "Resolver option \<Rightarrow> dep_registry \<Rightarrow> string + dep_registry" where
  "MustRegister_backup rv reg =
     (case rv of None \<Rightarrow> Inl ''cannot register nil resolver'' | Some x \<Rightarrow> Inr (Register_backup x reg))"

definition gvr_string :: "gvr \<Rightarrow> string" where
  "gvr_string g = fst g @ ''/'' @ fst (snd g) @ '', Resource='' @ snd (snd g)"

definition GetResolver :: "dep_registry \<Rightarrow> gvr \<Rightarrow> err + Resolver" where
  "GetResolver reg g =
     (case find (\<lambda>rv. rvCanHandle rv g) reg of
        Some rv \<Rightarrow> Inr rv
      | None \<Rightarrow> Inl (NewError (''no dependency resolver registered for '' @ gvr_string g)))"

section \<open>Fetching dependencies (\<open>helpers.go\<close>)\<close>

text \<open>
  What a fetch depends on: the order in which its goroutines finish, and that in which Go visits the map of errors.
\<close>

record fetch_env =
  feDone :: "string list \<Rightarrow> nat list"
  feVisit :: "(string, err) gomap \<Rightarrow> (string, err) gomap"

definition found_dep :: "ResourceType \<Rightarrow> json \<Rightarrow> BackupDependency" where
  "found_dep rt v = \<lparr>dpGVR = GVR rt, dpResource = Some v, dpName = u_name v, dpError = None\<rparr>"

definition missing_dep :: "ResourceType \<Rightarrow> string \<times> err \<Rightarrow> BackupDependency" where
  "missing_dep rt ne = \<lparr>dpGVR = GVR rt, dpResource = None, dpName = fst ne, dpError = Some (snd ne)\<rparr>"

text \<open>The two loops at the ends of the helpers: only what was found, or also what was not.\<close>

definition fetch_found :: "fetch_env \<Rightarrow> reader \<Rightarrow> string \<Rightarrow> ResourceType \<Rightarrow> string list \<Rightarrow> BackupDependency list" where
  "fetch_found fv r ns rt names = map (found_dep rt) (FetchResourcesByName (feDone fv names) r ns rt names)"

definition fetch_all :: "fetch_env \<Rightarrow> reader \<Rightarrow> string \<Rightarrow> ResourceType \<Rightarrow> string list \<Rightarrow> BackupDependency list" where
  "fetch_all fv r ns rt names =
     (case FetchResourcesByNameWithErrors (feDone fv names) r ns rt names of
        (items, errors) \<Rightarrow> map (found_dep rt) items @ map (missing_dep rt) (feVisit fv errors))"

definition ResolveConfigMaps :: "fetch_env \<Rightarrow> reader \<Rightarrow> string \<Rightarrow> ref_source list \<Rightarrow> err + BackupDependency list" where
  "ResolveConfigMaps fv r ns ss =
     (case ExtractConfigMapRefsFromSources ss of
        Inl e \<Rightarrow> Inl (wrapf ''extracting ConfigMap references'' e)
      | Inr names \<Rightarrow> Inr (fetch_found fv r ns rt_ConfigMap names))"

definition ResolveSecrets :: "fetch_env \<Rightarrow> reader \<Rightarrow> string \<Rightarrow> ref_source list \<Rightarrow> err + BackupDependency list" where
  "ResolveSecrets fv r ns ss =
     (case ExtractSecretRefsFromSources ss of
        Inl e \<Rightarrow> Inl (wrapf ''extracting Secret references'' e)
      | Inr names \<Rightarrow> Inr (fetch_all fv r ns rt_Secret names))"

definition ResolvePVCs :: "fetch_env \<Rightarrow> reader \<Rightarrow> string \<Rightarrow> ref_source list \<Rightarrow> err + BackupDependency list" where
  "ResolvePVCs fv r ns ss =
     (case ExtractPVCRefsFromSources ss of
        Inl e \<Rightarrow> Inl (wrapf ''extracting PVC references'' e)
      | Inr names \<Rightarrow> Inr (fetch_found fv r ns rt_PersistentVolumeClaim names))"

section \<open>Notebooks (\<open>notebooks/resolver.go\<close>)\<close>

record typed_decoders =
  tdVolumes :: "json \<Rightarrow> err + Volume list"
  tdContainers :: "json \<Rightarrow> err + Container list"

definition notebook_CanHandle :: "gvr \<Rightarrow> bool" where
  "notebook_CanHandle g \<longleftrightarrow> fst g = rtGroup rt_Notebook \<and> snd (snd g) = rtResource rt_Notebook"

definition query_list :: "gojq \<Rightarrow> (json \<Rightarrow> err + 'a list) \<Rightarrow> string \<Rightarrow> string \<Rightarrow> json \<Rightarrow> err + 'a list" where
  "query_list gq conv what q obj =
     (case Query gq conv [] obj q of
        Inl e \<Rightarrow> if is_ErrNotFound e then Inr [] else Inl (wrapf (''querying '' @ what) e)
      | Inr xs \<Rightarrow> Inr xs)"

definition extractVolumes :: "typed_decoders \<Rightarrow> gojq \<Rightarrow> json \<Rightarrow> err + Volume list" where
  "extractVolumes td gq obj = query_list gq (tdVolumes td) ''volumes'' ''.spec.template.spec.volumes // []'' obj"

definition extractContainers :: "typed_decoders \<Rightarrow> gojq \<Rightarrow> json \<Rightarrow> err + Container list" where
  "extractContainers td gq obj = query_list gq (tdContainers td) ''containers'' ''.spec.template.spec.containers // []'' obj"

definition trusted_ca_name :: "string \<Rightarrow> bool" where
  "trusted_ca_name n = has_suffix ''trusted-ca-bundle'' n"

definition trusted_ca :: "string option \<Rightarrow> bool" where
  "trusted_ca ref = (case ref of None \<Rightarrow> False | Some n \<Rightarrow> trusted_ca_name n)"

definition env_trusted_ca :: "EnvVar \<Rightarrow> bool" where
  "env_trusted_ca ev = (case evValueFrom ev of None \<Rightarrow> False | Some vf \<Rightarrow> trusted_ca (vfConfigMapKeyRef vf))"

definition filterContainerConfigMapRefs :: "Container \<Rightarrow> Container" where
  "filterContainerConfigMapRefs c =
     c\<lparr>ctEnvFrom := filter (\<lambda>ef. \<not> trusted_ca (efConfigMapRef ef)) (ctEnvFrom c),
       ctEnv := filter (\<lambda>ev. \<not> env_trusted_ca ev) (ctEnv c)\<rparr>"

fun filterTrustedCABundleSources :: "ref_source list \<Rightarrow> ref_source list" where
  "filterTrustedCABundleSources [] = []"
| "filterTrustedCABundleSources (SrcVolume v # ss) =
     (if trusted_ca (voConfigMap v) then filterTrustedCABundleSources ss
      else SrcVolume v # filterTrustedCABundleSources ss)"
| "filterTrustedCABundleSources (SrcContainer c # ss) =
     SrcContainer (filterContainerConfigMapRefs c) # filterTrustedCABundleSources ss"
| "filterTrustedCABundleSources (SrcOther ty # ss) = SrcOther ty # filterTrustedCABundleSources ss"

definition notebook_Resolve :: "typed_decoders \<Rightarrow> fetch_env \<Rightarrow> reader \<Rightarrow> json \<Rightarrow> err + BackupDependency list" where
  "notebook_Resolve td fv r obj =
     bind_res (extractVolumes td (rdGojq r) obj) (\<lambda>volumes.
     bind_res (extractContainers td (rdGojq r) obj) (\<lambda>containers.
       let ns = u_namespace obj;
           filtered = filterTrustedCABundleSources (map SrcVolume volumes @ map SrcContainer containers) in
       case ResolveConfigMaps fv r ns filtered of
         Inl e \<Rightarrow> Inl (wrapf ''resolving ConfigMaps'' e)
       | Inr configMapDeps \<Rightarrow>
           (case ResolveSecrets fv r ns filtered of
              Inl e \<Rightarrow> Inl (wrapf ''resolving Secrets'' e)
            | Inr secretDeps \<Rightarrow>
                (case ResolvePVCs fv r ns (map SrcVolume volumes) of
                   Inl e \<Rightarrow> Inl (wrapf ''resolving PVCs'' e)
                 | Inr pvcDeps \<Rightarrow> Inr (configMapDeps @ secretDeps @ pvcDeps)))))"

definition NewNotebookResolver :: "typed_decoders \<Rightarrow> fetch_env \<Rightarrow> Resolver" where
  "NewNotebookResolver td fv = \<lparr>rvResolve = notebook_Resolve td fv, rvCanHandle = notebook_CanHandle\<rparr>"

section \<open>Pipelines applications (\<open>dspa/resolver.go\<close>)\<close>

definition dspa_CanHandle :: "gvr \<Rightarrow> bool" where
  "dspa_CanHandle g \<longleftrightarrow> fst g = rtGroup rt_DataSciencePipelinesApplicationV1
     \<and> snd (snd g) = rtResource rt_DataSciencePipelinesApplicationV1"

definition queryStringField :: "gojq \<Rightarrow> json \<Rightarrow> string \<Rightarrow> string" where
  "queryStringField gq obj path = (case Query gq as_string [] obj path of Inl e \<Rightarrow> [] | Inr s \<Rightarrow> s)"

definition dspa_secret_paths :: "string list" where
  "dspa_secret_paths =
     [''.spec.objectStorage.externalStorage.s3CredentialsSecret.secretName'',
      ''.spec.objectStorage.minio.s3CredentialsSecret.secretName'',
      ''.spec.database.mariaDB.passwordSecret.name'',
      ''.spec.database.externalDB.passwordSecret.name'']"

definition dspa_secret_names :: "gojq \<Rightarrow> json \<Rightarrow> string list" where
  "dspa_secret_names gq obj = ref_names (queryStringField gq obj) dspa_secret_paths"

definition dspa_resolveSecrets :: "fetch_env \<Rightarrow> reader \<Rightarrow> string \<Rightarrow> json \<Rightarrow> BackupDependency list" where
  "dspa_resolveSecrets fv r ns obj =
     (let secretNames = dspa_secret_names (rdGojq r) obj in
      if secretNames = [] then [] else fetch_all fv r ns rt_Secret secretNames)"

definition dspa_configmap_names :: "gojq \<Rightarrow> json \<Rightarrow> string list" where
  "dspa_configmap_names gq obj =
     (let ca = queryStringField gq obj ''.spec.apiServer.cABundle.configMapName'' in
      (if ca \<noteq> [] \<and> ca \<noteq> ''trusted-ca-bundle'' then [ca] else [])
      @ ref_names (queryStringField gq obj)
          [''.spec.apiServer.customServerConfigMap.name'', ''.spec.apiServer.customKfpLauncherConfigMap''])"

definition dspa_resolveConfigMaps :: "fetch_env \<Rightarrow> reader \<Rightarrow> string \<Rightarrow> json \<Rightarrow> BackupDependency list" where
  "dspa_resolveConfigMaps fv r ns obj =
     (let configMapNames = dspa_configmap_names (rdGojq r) obj in
      if configMapNames = [] then [] else fetch_found fv r ns rt_ConfigMap configMapNames)"

definition dspa_deployed :: "gojq \<Rightarrow> json \<Rightarrow> string \<Rightarrow> bool" where
  "dspa_deployed gq obj path = (case Query gq as_bool False obj path of Inl e \<Rightarrow> False | Inr b \<Rightarrow> b)"

definition dspa_pvc_names :: "gojq \<Rightarrow> json \<Rightarrow> string list" where
  "dspa_pvc_names gq obj =
     (if dspa_deployed gq obj ''.spec.database.mariaDB.deploy'' then [''mariadb-'' @ u_name obj] else [])
     @ (if dspa_deployed gq obj ''.spec.objectStorage.minio.deploy'' then [''minio-'' @ u_name obj] else [])"

definition dspa_resolvePVCs :: "fetch_env \<Rightarrow> reader \<Rightarrow> string \<Rightarrow> json \<Rightarrow> BackupDependency list" where
  "dspa_resolvePVCs fv r ns obj =
     (let pvcNames = dspa_pvc_names (rdGojq r) obj in
      if pvcNames = [] then [] else fetch_found fv r ns rt_PersistentVolumeClaim pvcNames)"

text \<open>The three parts cannot fail, as the fetches do not.\<close>

definition dspa_Resolve :: "fetch_env \<Rightarrow> reader \<Rightarrow> json \<Rightarrow> err + BackupDependency list" where
  "dspa_Resolve fv r obj =
     Inr (dspa_resolveSecrets fv r (u_namespace obj) obj @ dspa_resolveConfigMaps fv r (u_namespace obj) obj
          @ dspa_resolvePVCs fv r (u_namespace obj) obj)"

definition NewDSPAResolver :: "fetch_env \<Rightarrow> Resolver" where
  "NewDSPAResolver fv = \<lparr>rvResolve = dspa_Resolve fv, rvCanHandle = dspa_CanHandle\<rparr>"

end
