(* ===== verification/BackupResolveFacts.thy ===== *)
theory BackupResolveFacts
  imports BackupResolve
begin

text \<open>
  What the resolvers of the backup find: the parallel fetches do not depend on the order in which they finish, a
  dependency has a resource unless it has an error, and a Notebook's dependencies are what its volumes and containers name.
\<close>

section \<open>Fetches\<close>

definition fetched :: "reader \<Rightarrow> string \<Rightarrow> ResourceType \<Rightarrow> string \<Rightarrow> json option" where
  "fetched r ns rt n = (case fetch_one r ns rt n of Inl e \<Rightarrow> None | Inr v \<Rightarrow> Some v)"

definition fetch_failed :: "reader \<Rightarrow> string \<Rightarrow> ResourceType \<Rightarrow> string \<Rightarrow> err option" where
  "fetch_failed r ns rt n = (case fetch_one r ns rt n of Inl e \<Rightarrow> Some e | Inr v \<Rightarrow> None)"

lemma fetched_Inl [simp]:
  "fetch_one r ns rt n = Inl e \<Longrightarrow> fetched r ns rt n = None"
  "fetch_one r ns rt n = Inl e \<Longrightarrow> fetch_failed r ns rt n = Some e"
  by (simp_all add: fetched_def fetch_failed_def)

lemma fetched_Inr [simp]:
  "fetch_one r ns rt n = Inr v \<Longrightarrow> fetched r ns rt n = Some v"
  "fetch_one r ns rt n = Inr v \<Longrightarrow> fetch_failed r ns rt n = None"
  by (simp_all add: fetched_def fetch_failed_def)

lemma fetched_Some: "fetched r ns rt n = Some v \<longleftrightarrow> fetch_one r ns rt n = Inr v"
  by (simp add: fetched_def split: sum.split)

lemma fetch_failed_Some: "fetch_failed r ns rt n = Some e \<longleftrightarrow> fetch_one r ns rt n = Inl e"
  by (simp add: fetch_failed_def split: sum.split)

lemma length_fetch_slot [simp]:
  "length (fst (fetch_slot r ns rt names i a)) = length (fst a)"
  "length (snd (fetch_slot r ns rt names i a)) = length (snd a)"
  by (simp_all add: fetch_slot_def split: sum.split)

lemma length_fold_fetch [simp]:
  "length (fst (fold (fetch_slot r ns rt names) is a)) = length (fst a)"
  "length (snd (fold (fetch_slot r ns rt names) is a)) = length (snd a)"
  by (induction "is" arbitrary: a) simp_all

lemma nth_fold_fetch:
  assumes "j < length (fst a)" "j < length (snd a)" "distinct is"
    and "fst a ! j = None" "snd a ! j = None"
  shows "fst (fold (fetch_slot r ns rt names) is a) ! j = (if j \<in> set is then fetched r ns rt (names ! j) else None)"
    and "snd (fold (fetch_slot r ns rt names) is a) ! j = (if j \<in> set is then fetch_failed r ns rt (names ! j) else None)"
proof -
  have keep: "j \<notin> set is \<Longrightarrow> fst (fold (fetch_slot r ns rt names) is a) ! j = fst a ! j
      \<and> snd (fold (fetch_slot r ns rt names) is a) ! j = snd a ! j" for a "is"
    by (induction "is" arbitrary: a) (auto simp: fetch_slot_def split: sum.split)
  have "fst (fold (fetch_slot r ns rt names) is a) ! j = (if j \<in> set is then fetched r ns rt (names ! j) else None)
      \<and> snd (fold (fetch_slot r ns rt names) is a) ! j = (if j \<in> set is then fetch_failed r ns rt (names ! j) else None)"
    using assms
  proof (induction "is" arbitrary: a)
    case (Cons i "is")
    show ?case
    proof (cases "i = j")
      case True
      define b where "b = fetch_slot r ns rt names j a"
      have "fst b ! j = fetched r ns rt (names ! j)" "snd b ! j = fetch_failed r ns rt (names ! j)"
        using True Cons.prems by (cases "fetch_one r ns rt (names ! j)"; simp add: b_def fetch_slot_def)+
      with Cons.prems keep [of "is" b] True show ?thesis by (simp flip: b_def)
    next
      case False
      with Cons.prems have "fst (fetch_slot r ns rt names i a) ! j = None" "snd (fetch_slot r ns rt names i a) ! j = None"
        by (auto simp: fetch_slot_def split: sum.split)
      with Cons.IH [of "fetch_slot r ns rt names i a"] Cons.prems False show ?thesis by simp
    qed
  qed simp
  then show "fst (fold (fetch_slot r ns rt names) is a) ! j = (if j \<in> set is then fetched r ns rt (names ! j) else None)"
    "snd (fold (fetch_slot r ns rt names) is a) ! j = (if j \<in> set is then fetch_failed r ns rt (names ! j) else None)"
    by simp_all
qed

lemma run_fetches_eq:
  assumes "mset is = mset [0..<length names]"
  shows "run_fetches r ns rt names is = (map (fetched r ns rt) names, map (fetch_failed r ns rt) names)"
proof -
  have "distinct is" using assms by (metis distinct_upt mset_eq_imp_distinct_iff)
  moreover have "set is = {0..<length names}" using mset_eq_setD [OF assms] by simp
  ultimately show ?thesis unfolding run_fetches_def
    by (intro prod_eqI nth_equalityI) (simp_all add: nth_fold_fetch)
qed

text \<open>The map of errors, and what it says: the error of every name that could not be fetched.\<close>

definition fetch_errors :: "reader \<Rightarrow> string \<Rightarrow> ResourceType \<Rightarrow> string list \<Rightarrow> (string, err) gomap \<Rightarrow> (string, err) gomap" where
  "fetch_errors r ns rt names m =
     fold (\<lambda>n m. case fetch_failed r ns rt n of None \<Rightarrow> m | Some e \<Rightarrow> AList.update n e m) names m"

lemma collect_fetched_eq:
  "collect_fetched names (map (fetched r ns rt) names) (map (fetch_failed r ns rt) names) acc =
     (fst acc @ List.map_filter (fetched r ns rt) names, fetch_errors r ns rt names (snd acc))"
proof (induction names arbitrary: acc)
  case (Cons n names)
  then show ?case by (cases "fetch_one r ns rt n") (simp_all add: fetch_errors_def map_filter_simps)
qed (simp add: fetch_errors_def map_filter_simps)

lemma fetch_with_errors_eq:
  assumes "mset is = mset [0..<length names]"
  shows "FetchResourcesByNameWithErrors is r ns rt names =
     (List.map_filter (fetched r ns rt) names, fetch_errors r ns rt names [])"
  by (simp add: FetchResourcesByNameWithErrors_def run_fetches_eq [OF assms] collect_fetched_eq)
    (simp add: map_filter_simps fetch_errors_def)

lemma fetch_errors_get:
  "map_of (fetch_errors r ns rt names m) n =
     (if n \<in> set names \<and> fetch_failed r ns rt n \<noteq> None then fetch_failed r ns rt n else map_of m n)"
proof (induction names arbitrary: m)
  case (Cons k names)
  have step: "fetch_errors r ns rt (k # names) m =
      fetch_errors r ns rt names (case fetch_failed r ns rt k of None \<Rightarrow> m | Some e \<Rightarrow> AList.update k e m)"
    by (simp add: fetch_errors_def)
  show ?case unfolding step Cons.IH by (auto simp: update_conv' split: option.splits)
qed (simp add: fetch_errors_def)

text \<open>The three functions, whatever the order in which the fetches finish.\<close>

lemma fetch_found_eq:
  assumes "mset (feDone fv names) = mset [0..<length names]"
  shows "fetch_found fv r ns rt names = map (found_dep rt) (List.map_filter (fetched r ns rt) names)"
  by (simp add: fetch_found_def FetchResourcesByName_def fetch_with_errors_eq [OF assms])

lemma fetch_all_eq:
  assumes "mset (feDone fv names) = mset [0..<length names]"
  shows "fetch_all fv r ns rt names =
     map (found_dep rt) (List.map_filter (fetched r ns rt) names) @ map (missing_dep rt) (feVisit fv (fetch_errors r ns rt names []))"
  by (simp add: fetch_all_def fetch_with_errors_eq [OF assms])

lemma set_map_filter_fetched: "set (List.map_filter (fetched r ns rt) names) = {v. \<exists>n\<in>set names. fetch_one r ns rt n = Inr v}"
  by (induction names) (auto simp: map_filter_simps fetched_Some split: option.split)

text \<open>
  Fetching resources by name in parallel gives the same result in whatever order the goroutines finish: the resources that
  could be fetched, in the order of their names, and for every other name its own error.
\<close>

theorem fetch_order_irrelevant:
  assumes "mset is = mset [0..<length names]"
  shows "\<exists>errs. FetchResourcesByNameWithErrors is r ns rt names = (List.map_filter (fetched r ns rt) names, errs)
    \<and> (\<forall>n. map_of errs n = (if n \<in> set names then fetch_failed r ns rt n else None))"
  using fetch_with_errors_eq [OF assms, of r ns rt] fetch_errors_get [of r ns rt names "[]"] by auto

section \<open>Resolvers\<close>

text \<open>
  What the other stages rely on: a dependency has no error only if it has a resource, and it is a ConfigMap, a Secret or a
  PersistentVolumeClaim.
\<close>

definition core_type :: "ResourceType \<Rightarrow> bool" where
  "core_type rt \<longleftrightarrow> rt \<in> {rt_ConfigMap, rt_Secret, rt_PersistentVolumeClaim}"

definition complete_dep :: "BackupDependency \<Rightarrow> bool" where
  "complete_dep d \<longleftrightarrow> (dpError d = None \<longleftrightarrow> dpResource d \<noteq> None) \<and> (\<exists>rt. core_type rt \<and> dpGVR d = GVR rt)"

lemma complete_deps: "core_type rt \<Longrightarrow> complete_dep (found_dep rt v)" "core_type rt \<Longrightarrow> complete_dep (missing_dep rt ne)"
  by (auto simp: complete_dep_def found_dep_def missing_dep_def)

lemma core_types [simp]: "core_type rt_ConfigMap" "core_type rt_Secret" "core_type rt_PersistentVolumeClaim"
  by (simp_all add: core_type_def)

locale dependency_resolver =
  fixes resolve :: "reader \<Rightarrow> json \<Rightarrow> err + BackupDependency list"
  assumes resolve_complete: "resolve r obj = Inr deps \<Longrightarrow> d \<in> set deps \<Longrightarrow> complete_dep d"
begin

lemma resource_if_no_error: "resolve r obj = Inr deps \<Longrightarrow> d \<in> set deps \<Longrightarrow> dpError d = None \<Longrightarrow> \<exists>v. dpResource d = Some v"
  using resolve_complete [of r obj deps d] by (auto simp: complete_dep_def)

lemma all_complete: "resolve r obj = Inr deps \<Longrightarrow> list_all complete_dep deps"
  using resolve_complete by (auto simp: list_all_iff)

end

lemma complete_fetches:
  "d \<in> set (fetch_found fv r ns rt names) \<Longrightarrow> core_type rt \<Longrightarrow> complete_dep d"
  "d \<in> set (fetch_all fv r ns rt names) \<Longrightarrow> core_type rt \<Longrightarrow> complete_dep d"
  by (auto simp: fetch_found_def fetch_all_def complete_deps split: prod.splits)

lemmas core_fetches = complete_fetches(1) [OF _ core_types(1)] complete_fetches(2) [OF _ core_types(2)]
  complete_fetches(1) [OF _ core_types(3)]

lemma complete_helpers:
  "ResolveConfigMaps fv r ns ss = Inr deps \<Longrightarrow> d \<in> set deps \<Longrightarrow> complete_dep d"
  "ResolveSecrets fv r ns ss = Inr deps \<Longrightarrow> d \<in> set deps \<Longrightarrow> complete_dep d"
  "ResolvePVCs fv r ns ss = Inr deps \<Longrightarrow> d \<in> set deps \<Longrightarrow> complete_dep d"
  by (auto simp: ResolveConfigMaps_def ResolveSecrets_def ResolvePVCs_def dest: core_fetches split: sum.splits)

lemma notebook_Resolve_parts:
  assumes "notebook_Resolve td fv r obj = Inr deps"
  obtains vs cs cms secs pvcs where
    "extractVolumes td (rdGojq r) obj = Inr vs" "extractContainers td (rdGojq r) obj = Inr cs"
    "ResolveConfigMaps fv r (u_namespace obj) (filterTrustedCABundleSources (map SrcVolume vs @ map SrcContainer cs)) = Inr cms"
    "ResolveSecrets fv r (u_namespace obj) (filterTrustedCABundleSources (map SrcVolume vs @ map SrcContainer cs)) = Inr secs"
    "ResolvePVCs fv r (u_namespace obj) (map SrcVolume vs) = Inr pvcs" "deps = cms @ secs @ pvcs"
proof -
  from assms obtain vs cs where ok: "extractVolumes td (rdGojq r) obj = Inr vs" "extractContainers td (rdGojq r) obj = Inr cs"
    by (auto simp: notebook_Resolve_def)
  note run = assms [unfolded notebook_Resolve_def ok bind_res_simps Let_def]
  define ss where "ss = filterTrustedCABundleSources (map SrcVolume vs @ map SrcContainer cs)"
  from run obtain cms where 1: "ResolveConfigMaps fv r (u_namespace obj) ss = Inr cms"
    by (cases "ResolveConfigMaps fv r (u_namespace obj) ss") (simp_all add: ss_def)
  from run 1 obtain secs where 2: "ResolveSecrets fv r (u_namespace obj) ss = Inr secs"
    by (cases "ResolveSecrets fv r (u_namespace obj) ss") (simp_all add: ss_def)
  from run 1 2 obtain pvcs where 3: "ResolvePVCs fv r (u_namespace obj) (map SrcVolume vs) = Inr pvcs"
    by (cases "ResolvePVCs fv r (u_namespace obj) (map SrcVolume vs)") (simp_all add: ss_def)
  from run 1 2 3 have "deps = cms @ secs @ pvcs" by (simp add: ss_def)
  with ok 1 2 3 show ?thesis by (intro that) (simp_all add: ss_def)
qed

interpretation notebook: dependency_resolver "notebook_Resolve td fv" for td fv
  by unfold_locales (auto elim!: notebook_Resolve_parts dest: complete_helpers)

interpretation dspa: dependency_resolver "dspa_Resolve fv" for fv
  by unfold_locales
    (auto simp: dspa_Resolve_def dspa_resolveSecrets_def dspa_resolveConfigMaps_def dspa_resolvePVCs_def Let_def
      dest: core_fetches split: if_splits)

section \<open>What a Notebook refers to\<close>

definition configmap_refs :: "Volume list \<Rightarrow> Container list \<Rightarrow> string set" where
  "configmap_refs vs cs =
     {n. n \<noteq> [] \<and> ((\<exists>v\<in>set vs. voConfigMap v = Some n)
       \<or> (\<exists>c\<in>set cs. (\<exists>ef\<in>set (ctEnvFrom c). efConfigMapRef ef = Some n)
            \<or> (\<exists>ev\<in>set (ctEnv c). \<exists>vf. evValueFrom ev = Some vf \<and> vfConfigMapKeyRef vf = Some n)))}"

lemma set_sets_List [simp]: "set (sets_List xs) = set xs"
  by (simp add: sets_List_def)

lemma set_ref_names [simp]: "set (ref_names f xs) = {n. n \<noteq> [] \<and> (\<exists>x\<in>set xs. f x = n)}"
  by (auto simp: ref_names_def)

text \<open>The names that are left when the references to trusted bundles are filtered out.\<close>

lemma set_ref_names_filtered:
  assumes "\<And>x. f x = ref_or_empty (g x)" and "\<And>x. bad x = trusted_ca (g x)"
  shows "set (ref_names f (filter (\<lambda>x. \<not> bad x) xs)) =
     {n. n \<noteq> [] \<and> \<not> trusted_ca_name n \<and> (\<exists>x\<in>set xs. g x = Some n)}"
proof -
  have "n \<noteq> [] \<Longrightarrow> \<not> trusted_ca y \<and> ref_or_empty y = n \<longleftrightarrow> y = Some n \<and> \<not> trusted_ca_name n" for y n
    by (cases y) (auto simp: ref_or_empty_def trusted_ca_def)
  then show ?thesis unfolding set_ref_names set_filter assms by blast
qed

lemma filterTrusted_append [simp]:
  "filterTrustedCABundleSources (xs @ ys) = filterTrustedCABundleSources xs @ filterTrustedCABundleSources ys"
  by (induction xs rule: filterTrustedCABundleSources.induct) auto

lemma filterTrusted_map [simp]:
  "filterTrustedCABundleSources (map SrcVolume vs) = map SrcVolume (filter (\<lambda>v. \<not> trusted_ca (voConfigMap v)) vs)"
  "filterTrustedCABundleSources (map SrcContainer cs) = map SrcContainer (map filterContainerConfigMapRefs cs)"
   apply (induction vs; simp)
  apply (induction cs; simp)
  done

lemma source_names_containers: "source_names what f (Some h) (map SrcContainer cs) = Inr (concat (map h cs))"
  by (induction cs) auto

lemma source_names_volumes: "source_names what f g (map SrcVolume vs) = Inr (ref_names f vs)"
  by (induction vs) (auto simp: ref_names_def)

lemma source_names_both:
  "source_names what f (Some h) (map SrcVolume vs @ map SrcContainer cs) = Inr (ref_names f vs @ concat (map h cs))"
  by (induction vs) (auto simp: source_names_containers ref_names_def)

definition notebook_sources :: "Volume list \<Rightarrow> Container list \<Rightarrow> ref_source list" where
  "notebook_sources vs cs = filterTrustedCABundleSources (map SrcVolume vs @ map SrcContainer cs)"

lemma set_ExtractConfigMapRefs_filtered:
  "set (ExtractConfigMapRefs (filterContainerConfigMapRefs c)) =
     {n. n \<noteq> [] \<and> \<not> trusted_ca_name n \<and> ((\<exists>ef\<in>set (ctEnvFrom c). efConfigMapRef ef = Some n)
        \<or> (\<exists>ev\<in>set (ctEnv c). \<exists>vf. evValueFrom ev = Some vf \<and> vfConfigMapKeyRef vf = Some n))}" (is "?L = ?R")
proof -
  have "env_trusted_ca ev = trusted_ca (Option.bind (evValueFrom ev) vfConfigMapKeyRef)" for ev
    by (simp add: env_trusted_ca_def trusted_ca_def split: option.split)
  moreover have "ExtractConfigMapRefFromEnvVar ev = ref_or_empty (Option.bind (evValueFrom ev) vfConfigMapKeyRef)" for ev
    by (simp add: ExtractConfigMapRefFromEnvVar_def ref_or_empty_def split: option.split)
  ultimately have "set (ref_names ExtractConfigMapRefFromEnvVar (filter (\<lambda>ev. \<not> env_trusted_ca ev) (ctEnv c))) =
      {n. n \<noteq> [] \<and> \<not> trusted_ca_name n
        \<and> (\<exists>ev\<in>set (ctEnv c). Option.bind (evValueFrom ev) vfConfigMapKeyRef = Some n)}"
    by (intro set_ref_names_filtered)
  moreover have "set (ref_names ExtractConfigMapRefFromEnvFromSource (filter (\<lambda>ef. \<not> trusted_ca (efConfigMapRef ef)) (ctEnvFrom c))) =
      {n. n \<noteq> [] \<and> \<not> trusted_ca_name n \<and> (\<exists>ef\<in>set (ctEnvFrom c). efConfigMapRef ef = Some n)}"
    by (intro set_ref_names_filtered) (simp_all add: ExtractConfigMapRefFromEnvFromSource_def)
  ultimately show ?thesis
    by (simp add: ExtractConfigMapRefs_def filterContainerConfigMapRefs_def bind_eq_Some_conv del: set_ref_names) blast
qed

lemma notebook_configmap_names:
  obtains names where "ExtractConfigMapRefsFromSources (notebook_sources vs cs) = Inr names"
    "set names = {n\<in>configmap_refs vs cs. \<not> trusted_ca_name n}"
proof -
  have v: "set (ref_names ExtractConfigMapRefsFromVolume (filter (\<lambda>v. \<not> trusted_ca (voConfigMap v)) vs)) =
      {n. n \<noteq> [] \<and> \<not> trusted_ca_name n \<and> (\<exists>v\<in>set vs. voConfigMap v = Some n)}"
    by (intro set_ref_names_filtered) (simp_all add: ExtractConfigMapRefsFromVolume_def)
  define names where "names = sets_List
    (ref_names ExtractConfigMapRefsFromVolume (filter (\<lambda>v. \<not> trusted_ca (voConfigMap v)) vs)
     @ concat (map ExtractConfigMapRefs (map filterContainerConfigMapRefs cs)))"
  have "ExtractConfigMapRefsFromSources (notebook_sources vs cs) = Inr names"
    by (simp add: ExtractConfigMapRefsFromSources_def notebook_sources_def source_names_both names_def del: map_map)
  moreover have "n \<in> set names \<longleftrightarrow> n \<in> {n\<in>configmap_refs vs cs. \<not> trusted_ca_name n}" for n
    unfolding names_def set_sets_List set_append v configmap_refs_def
    by (simp add: set_ExtractConfigMapRefs_filtered) blast
  ultimately show ?thesis using that by blast
qed

lemma notebook_secret_names: "\<exists>names. ExtractSecretRefsFromSources (notebook_sources vs cs) = Inr names"
  by (simp add: ExtractSecretRefsFromSources_def notebook_sources_def source_names_both del: map_map)

lemma notebook_pvc_names: "\<exists>names. ExtractPVCRefsFromSources (map SrcVolume vs) = Inr names"
  by (simp add: ExtractPVCRefsFromSources_def source_names_volumes)

lemma dep_fields [simp]:
  "dpGVR (found_dep rt v) = GVR rt" "dpGVR (missing_dep rt ne) = GVR rt"
  "dpResource (found_dep rt v) = Some v" "dpResource (missing_dep rt ne) = None"
  "dpError (found_dep rt v) = None" "dpError (missing_dep rt ne) = Some (snd ne)"
  by (simp_all add: found_dep_def missing_dep_def)

lemma gvr_core [simp]:
  "GVR rt_ConfigMap \<noteq> GVR rt_Secret" "GVR rt_Secret \<noteq> GVR rt_ConfigMap"
  "GVR rt_ConfigMap \<noteq> GVR rt_PersistentVolumeClaim" "GVR rt_PersistentVolumeClaim \<noteq> GVR rt_ConfigMap"
  by (simp_all add: GVR_def rt_ConfigMap_def rt_Secret_def rt_PersistentVolumeClaim_def mk_resource_def)

text \<open>Resolving succeeds, and its result is built from three lists of names.\<close>

lemma notebook_Resolve_eq:
  assumes "extractVolumes td (rdGojq r) obj = Inr vs" "extractContainers td (rdGojq r) obj = Inr cs"
  obtains cms secs pvcs where
    "set cms = {n\<in>configmap_refs vs cs. \<not> trusted_ca_name n}"
    "notebook_Resolve td fv r obj =
       Inr (fetch_found fv r (u_namespace obj) rt_ConfigMap cms @ fetch_all fv r (u_namespace obj) rt_Secret secs
            @ fetch_found fv r (u_namespace obj) rt_PersistentVolumeClaim pvcs)"
proof -
  obtain cms where c: "ExtractConfigMapRefsFromSources (notebook_sources vs cs) = Inr cms"
    "set cms = {n\<in>configmap_refs vs cs. \<not> trusted_ca_name n}" by (rule notebook_configmap_names)
  obtain secs where s: "ExtractSecretRefsFromSources (notebook_sources vs cs) = Inr secs" using notebook_secret_names by blast
  obtain pvcs where p: "ExtractPVCRefsFromSources (map SrcVolume vs) = Inr pvcs" using notebook_pvc_names by blast
  have "notebook_Resolve td fv r obj =
       Inr (fetch_found fv r (u_namespace obj) rt_ConfigMap cms @ fetch_all fv r (u_namespace obj) rt_Secret secs
            @ fetch_found fv r (u_namespace obj) rt_PersistentVolumeClaim pvcs)"
    unfolding notebook_Resolve_def assms bind_res_simps Let_def notebook_sources_def [symmetric]
      ResolveConfigMaps_def ResolveSecrets_def ResolvePVCs_def c(1) s p by simp
  with c(2) show ?thesis by (rule that)
qed

end
