(* ===== verification/BackupPipeline.thy ===== *)
theory BackupPipeline
  imports BackupResolveFacts
begin

text \<open>
  The backup command: \<open>pkg/backup/command.go\<close>, \<open>command_options.go\<close>, \<open>constants.go\<close> and the stages of
  \<open>pkg/backup/pipeline\<close>. The goroutines of a pipeline are a step relation: discovery, the resolver's workers
  and the writer share two bounded channels and a context that an error or the end of the time limit cancels.
\<close>

section \<open>Options\<close>

definition DefaultWorkloadTypes :: "string list" where
  "DefaultWorkloadTypes = [''notebooks.kubeflow.org'',
     ''datasciencepipelinesapplications.datasciencepipelinesapplications.opendatahub.io'']"

definition DefaultStripFields :: "string list" where
  "DefaultStripFields = [''.status'', ''.metadata.generation'', ''.metadata.resourceVersion'', ''.metadata.uid'',
     ''.metadata.creationTimestamp'', ''.metadata.managedFields'', ''.metadata.selfLink'',
     ''.metadata.annotations.'' @ [CHR 0x22] @ ''kubectl.kubernetes.io/last-applied-configuration'' @ [CHR 0x22]]"

text \<open>The flags of the command; a duration is in nanoseconds.\<close>

record backup_options =
  boOutputDir :: string
  boStripFields :: "string list"
  boIncludes :: "string list"
  boExcludes :: "string list"
  boMaxWorkers :: int
  boDependencies :: bool
  boDryRun :: bool
  boVerbose :: bool
  boTimeout :: int

definition NewCommand_backup :: backup_options where
  "NewCommand_backup = \<lparr>boOutputDir = [], boStripFields = [], boIncludes = [], boExcludes = [], boMaxWorkers = 0,
     boDependencies = True, boDryRun = False, boVerbose = False, boTimeout = 10 * 60 * 1000000000\<rparr>"

definition register_resolvers :: "typed_decoders \<Rightarrow> fetch_env \<Rightarrow> bool \<Rightarrow> string + dep_registry" where
  "register_resolvers td fv deps =
     (if deps then
        bind_res (MustRegister_backup (Some (NewNotebookResolver td fv)) NewRegistry_backup)
          (MustRegister_backup (Some (NewDSPAResolver fv)))
      else Inr NewRegistry_backup)"

definition detected_workers :: "nat \<Rightarrow> int" where
  "detected_workers cpus = (if cpus > 20 then 20 else int cpus)"

text \<open>\<open>clientErr\<close> is the error of making the client; the outer sum is a panic.\<close>

definition Complete_backup ::
  "typed_decoders \<Rightarrow> fetch_env \<Rightarrow> nat \<Rightarrow> err option \<Rightarrow> backup_options \<Rightarrow> string + (err + backup_options \<times> dep_registry)" where
  "Complete_backup td fv cpus clientErr c =
     (case clientErr of
        Some e \<Rightarrow> Inr (Inl e)
      | None \<Rightarrow>
          bind_res (register_resolvers td fv (boDependencies c)) (\<lambda>reg.
            Inr (Inr (c\<lparr>boVerbose := (boVerbose c \<or> boDryRun c),
                        boIncludes := (if boIncludes c = [] then DefaultWorkloadTypes else boIncludes c),
                        boStripFields := DefaultStripFields @ boStripFields c,
                        boMaxWorkers := (if boMaxWorkers c = 0 then detected_workers cpus else boMaxWorkers c)\<rparr>, reg))))"

definition Validate_backup :: "backup_options \<Rightarrow> err option" where
  "Validate_backup c = (if boTimeout c \<le> 0 then Some (NewError ''timeout must be greater than 0'') else None)"

definition group_resource :: "gvr \<Rightarrow> string" where
  "group_resource g = (if fst g = [] then snd (snd g) else snd (snd g) @ ''.'' @ fst g)"

definition resolveWorkloadGVRs :: "backup_options \<Rightarrow> gvr list" where
  "resolveWorkloadGVRs c =
     (let excludeSet = map (\<lambda>x. group_resource (parseGVRString x)) (boExcludes c) in
      filter (\<lambda>g. group_resource g \<notin> set excludeSet) (map parseGVRString (boIncludes c)))"

section \<open>Outputs\<close>

text \<open>
  The output directory as a tree of files (\<open>None\<close> if it does not exist), the text on stdout, the lines on stderr, and the
  panic that ended the program.
\<close>

record backup_out =
  bsFiles :: "fnode option"
  bsStdout :: string
  bsStderr :: "string list"
  bsPanic :: "string option"

definition errorf :: "string \<Rightarrow> backup_out \<Rightarrow> backup_out" where
  "errorf s st = st\<lparr>bsStderr := bsStderr st @ [s]\<rparr>"

definition go_panic :: "string \<Rightarrow> backup_out \<Rightarrow> backup_out" where
  "go_panic s st = st\<lparr>bsPanic := Some s\<rparr>"

text \<open>What a run works with. The file errors of \<open>bkFiles\<close> and its encoder are those of the writer.\<close>

record backup_env =
  bkOptions :: backup_options
  bkReader :: reader
  bkRegistry :: dep_registry
  bkFiles :: file_env

text \<open>A type of resource as the client takes it: only the plural name and the group version are known.\<close>

definition gvr_type :: "gvr \<Rightarrow> ResourceType" where
  "gvr_type g = mk_resource (fst g) (fst (snd g)) [] (snd (snd g))"

section \<open>Paths\<close>

text \<open>\<open>filepath.Join\<close> with \<open>Clean\<close>, on systems with \<open>/\<close>.\<close>

definition clean_elem :: "bool \<Rightarrow> string list \<Rightarrow> string \<Rightarrow> string list" where
  "clean_elem rooted st c =
     (if c = [] \<or> c = ''.'' then st
      else if c = ''..'' then
        (case st of
           [] \<Rightarrow> if rooted then [] else [''..'']
         | d # ds \<Rightarrow> if d = ''..'' then ''..'' # st else ds)
      else c # st)"

definition filepath_Clean :: "string \<Rightarrow> string" where
  "filepath_Clean s =
     (let rooted = has_prefix ''/'' s;
          body = str_join ''/'' (rev (foldl (clean_elem rooted) [] (split_on CHR ''/'' s))) in
      if rooted then ''/'' @ body else if body = [] then ''.'' else body)"

definition filepath_Join :: "string list \<Rightarrow> string" where
  "filepath_Join xs = (let ys = filter (\<lambda>x. x \<noteq> []) xs in if ys = [] then [] else filepath_Clean (str_join ''/'' ys))"

section \<open>Writing (\<open>writer.go\<close>, \<open>writeResource\<close>)\<close>

definition backup_file_path :: "string \<Rightarrow> string \<Rightarrow> gvr \<Rightarrow> string \<Rightarrow> string" where
  "backup_file_path outputDir namespace g name =
     (let gvrStr = (if fst g \<noteq> [] then snd (snd g) @ ''.'' @ fst g else snd (snd g)) in
      filepath_Join [outputDir, namespace, gvrStr @ ''-'' @ name @ ''.yaml''])"

definition logDryRunResource :: "backup_options \<Rightarrow> gvr \<Rightarrow> json \<Rightarrow> backup_out \<Rightarrow> backup_out" where
  "logDryRunResource c g obj st =
     (if boOutputDir c = [] then
        errorf (''Would write to stdout: '' @ u_namespace obj @ ''/'' @ u_name obj @ '' ('' @ snd (snd g) @ '')'') st
      else
        errorf (''Would create: '' @ backup_file_path (boOutputDir c)
          (if u_namespace obj = [] then ''cluster-scoped'' else u_namespace obj) g (u_name obj)) st)"

text \<open>A resource may be nil: the first access panics.\<close>

definition writeResource_backup :: "backup_env \<Rightarrow> gvr \<Rightarrow> json option \<Rightarrow> backup_out \<Rightarrow> backup_out \<times> err option" where
  "writeResource_backup E g mobj st =
     (case mobj of
        None \<Rightarrow> (go_panic nil_dereference st, None)
      | Some obj \<Rightarrow>
          (case StripFields (rdGojq (bkReader E)) obj (boStripFields (bkOptions E)) of
             Inl e \<Rightarrow> (st, Some (wrapf ''stripping fields'' e))
           | Inr stripped \<Rightarrow>
               if boDryRun (bkOptions E) then (logDryRunResource (bkOptions E) g stripped st, None)
               else if boOutputDir (bkOptions E) = [] then
                 (case WriteResourceToStdout (bkFiles E) stripped of
                    Inl e \<Rightarrow> (st, Some e)
                  | Inr d \<Rightarrow> (st\<lparr>bsStdout := bsStdout st @ d\<rparr>, None))
               else
                 (case WriteResourceToFile (bkFiles E) [] (gvr_type g) stripped (bsFiles st) of
                    (root, e) \<Rightarrow> (st\<lparr>bsFiles := root\<rparr>, e))))"

record WorkloadWithDeps =
  wdGVR :: gvr
  wdInstance :: json
  wdDeps :: "BackupDependency list"

definition getResourcePath :: "backup_options \<Rightarrow> gvr \<Rightarrow> json \<Rightarrow> string" where
  "getResourcePath c g obj =
     (let namespace = (if u_namespace obj = [] then ''cluster-scoped'' else u_namespace obj) in
      if boOutputDir c = [] then namespace @ ''/'' @ u_name obj @ '' ('' @ snd (snd g) @ '')''
      else backup_file_path (boOutputDir c) namespace g (u_name obj))"

text \<open>\<open>None\<close> if a dependency without an error has no resource.\<close>

fun dep_paths :: "backup_options \<Rightarrow> BackupDependency list \<Rightarrow> string list option" where
  "dep_paths c [] = Some []"
| "dep_paths c (d # ds) =
     (if dpError d \<noteq> None then dep_paths c ds
      else case dpResource d of
             None \<Rightarrow> None
           | Some v \<Rightarrow> map_option (\<lambda>ps. getResourcePath c (dpGVR d) v # ps) (dep_paths c ds))"

definition writeWorkloadWithDepsDryRun :: "backup_options \<Rightarrow> WorkloadWithDeps \<Rightarrow> backup_out \<Rightarrow> backup_out" where
  "writeWorkloadWithDepsDryRun c w st =
     (case dep_paths c (wdDeps w) of
        None \<Rightarrow> go_panic nil_dereference st
      | Some ps \<Rightarrow>
          fold (\<lambda>p. errorf (''    - '' @ p)) (getResourcePath c (wdGVR w) (wdInstance w) # ps)
            (errorf ''    Would create:'' (errorf [] st)))"

fun write_deps :: "backup_env \<Rightarrow> BackupDependency list \<Rightarrow> backup_out \<Rightarrow> backup_out" where
  "write_deps E [] st = st"
| "write_deps E (d # ds) st =
     (if dpError d \<noteq> None then write_deps E ds st
      else case writeResource_backup E (dpGVR d) (dpResource d) st of
             (st', e) \<Rightarrow>
               if bsPanic st' \<noteq> None then st'
               else (case e of
                       None \<Rightarrow> write_deps E ds st'
                     | Some x \<Rightarrow>
                         (case dpResource d of
                            None \<Rightarrow> go_panic nil_dereference st'
                          | Some v \<Rightarrow> write_deps E ds (errorf (''  Warning: Failed to write dependency '' @ u_namespace v @ ''/''
                              @ u_name v @ '': '' @ err_string x) st'))))"

definition writeWorkloadWithDeps :: "backup_env \<Rightarrow> WorkloadWithDeps \<Rightarrow> backup_out \<Rightarrow> backup_out \<times> err option" where
  "writeWorkloadWithDeps E w st =
     (if boDryRun (bkOptions E) then (writeWorkloadWithDepsDryRun (bkOptions E) w st, None)
      else case writeResource_backup E (wdGVR w) (Some (wdInstance w)) st of
             (st', Some e) \<Rightarrow> (st', Some (wrapf ''writing workload'' e))
           | (st', None) \<Rightarrow> (write_deps E (wdDeps w) st', None))"

text \<open>The body of the writer's loop.\<close>

definition writer_item :: "backup_env \<Rightarrow> WorkloadWithDeps \<Rightarrow> backup_out \<Rightarrow> backup_out" where
  "writer_item E w st =
     (case writeWorkloadWithDeps E w st of
        (st', None) \<Rightarrow> st'
      | (st', Some e) \<Rightarrow> errorf (''    Warning: Failed to write '' @ u_namespace (wdInstance w) @ ''/'' @ u_name (wdInstance w)
          @ '': '' @ err_string e) st')"

section \<open>Resolving (\<open>resolver.go\<close>)\<close>

definition resolveWorkload :: "backup_env \<Rightarrow> reader \<Rightarrow> gvr \<Rightarrow> json \<Rightarrow> err + WorkloadWithDeps" where
  "resolveWorkload E r g obj =
     (case GetResolver (bkRegistry E) g of
        Inl e \<Rightarrow> Inr \<lparr>wdGVR = g, wdInstance = obj, wdDeps = []\<rparr>
      | Inr rv \<Rightarrow>
          (case rvResolve rv r obj of
             Inl e \<Rightarrow> Inl (wrapf ''resolving dependencies'' e)
           | Inr deps \<Rightarrow> Inr \<lparr>wdGVR = g, wdInstance = obj, wdDeps = deps\<rparr>))"

definition upper_char :: "char \<Rightarrow> char" where
  "upper_char c = (if CHR ''a'' \<le> c \<and> c \<le> CHR ''z'' then char_of (of_char c - 32 :: nat) else c)"

text \<open>The name of a resource is ASCII; \<open>None\<close> is an index out of range, which the name \<open>s\<close> has.\<close>

definition formatResourceType :: "string \<Rightarrow> string option" where
  "formatResourceType r =
     (if r = ''configmaps'' then Some ''ConfigMap''
      else if r = ''secrets'' then Some ''Secret''
      else if r = ''persistentvolumeclaims'' then Some ''PVC''
      else if r \<noteq> [] then
        (case fst (cut_suffix r ''s'') of [] \<Rightarrow> None | c # cs \<Rightarrow> Some (upper_char c # cs))
      else Some r)"

definition formatErrorReason :: "err \<Rightarrow> string" where
  "formatErrorReason e =
     (let errMsg = err_string e in
      if str_contains errMsg ''forbidden'' then ''unauthorized''
      else if str_contains errMsg ''not found'' then ''not found''
      else if str_contains errMsg ''timeout'' then ''timeout''
      else if str_contains errMsg ''connection refused'' then ''connection error''
      else ''error'')"

definition dependency_line :: "BackupDependency \<Rightarrow> string option" where
  "dependency_line d =
     map_option (\<lambda>ty. case dpError d of
         Some e \<Rightarrow> ''  X '' @ ty @ '': '' @ dpName d @ '' ('' @ formatErrorReason e @ '')''
       | None \<Rightarrow> ''  '' @ [CHR 0xE2, CHR 0x86, CHR 0x92] @ '' '' @ ty @ '': '' @ dpName d)
       (formatResourceType (snd (snd (dpGVR d))))"

fun logDependencies :: "BackupDependency list \<Rightarrow> backup_out \<Rightarrow> backup_out" where
  "logDependencies [] st = st"
| "logDependencies (d # ds) st =
     (case dependency_line d of
        None \<Rightarrow> go_panic ''slice bounds out of range'' st
      | Some l \<Rightarrow> logDependencies ds (errorf l st))"

definition log_resolved :: "backup_env \<Rightarrow> WorkloadWithDeps \<Rightarrow> backup_out \<Rightarrow> backup_out" where
  "log_resolved E w st =
     (if boVerbose (bkOptions E) \<and> wdDeps w \<noteq> [] then
        logDependencies (wdDeps w)
          (errorf (''Resolving '' @ u_namespace (wdInstance w) @ ''/'' @ u_name (wdInstance w) @ ''...'') st)
      else st)"

end
