(* ===== verification/BackupRun.thy ===== *)
theory BackupRun
  imports BackupPipeline
begin

text \<open>
  The runs of a backup: the step relation of one pipeline, the runs of the command, and what they write. A context is
  \<open>None\<close> while it lives, and then its error. A reader may answer anything once the context has ended.
\<close>

section \<open>The pipeline (\<open>runPipeline\<close>)\<close>

datatype worker = Waiting | Resolving json | Holding WorkloadWithDeps | Returned "err option"

text \<open>
  \<open>ppItems\<close> is the list \<open>instances\<close> of discovery and \<open>ppSource\<close> what is left of it; \<open>ppWork\<close> and \<open>ppResolved\<close> are the
  buffers of the channels, \<open>ppWritten\<close> the items the writer took. \<open>ppParent\<close> is the context of the command and
  \<open>ppCtx\<close> that of the group; \<open>ppErr\<close> is the first error of the group.
\<close>

record pipe =
  ppListed :: bool
  ppItems :: "json list"
  ppSource :: "json list"
  ppClosed :: bool
  ppWork :: "json list"
  ppWorkers :: "worker list"
  ppResolved :: "WorkloadWithDeps list"
  ppResolvedClosed :: bool
  ppWritten :: "WorkloadWithDeps list"
  ppWriterDone :: bool
  ppParent :: "err option"
  ppCtx :: "err option"
  ppErr :: "err option"
  ppOut :: backup_out

definition pipe_init :: "backup_env \<Rightarrow> err option \<Rightarrow> backup_out \<Rightarrow> pipe" where
  "pipe_init E parent st =
     \<lparr>ppListed = False, ppItems = [], ppSource = [], ppClosed = False, ppWork = [],
      ppWorkers = replicate (nat (boMaxWorkers (bkOptions E))) Waiting, ppResolved = [], ppResolvedClosed = False,
      ppWritten = [], ppWriterDone = False, ppParent = parent, ppCtx = parent, ppErr = None, ppOut = st\<rparr>"

text \<open>A stage returns an error: the group keeps the first one and cancels its context.\<close>

definition stage_error :: "err \<Rightarrow> pipe \<Rightarrow> pipe" where
  "stage_error e p =
     p\<lparr>ppErr := (case ppErr p of None \<Rightarrow> Some e | x \<Rightarrow> x),
       ppCtx := (case ppCtx p of None \<Rightarrow> Some (Sentinel Canceled) | x \<Rightarrow> x)\<rparr>"

definition set_worker :: "nat \<Rightarrow> worker \<Rightarrow> pipe \<Rightarrow> pipe" where
  "set_worker i w p = p\<lparr>ppWorkers := (ppWorkers p)[i := w]\<rparr>"

definition put_out :: "(backup_out \<Rightarrow> backup_out) \<Rightarrow> pipe \<Rightarrow> pipe" where
  "put_out f p = p\<lparr>ppOut := f (ppOut p)\<rparr>"

fun worker_error :: "worker \<Rightarrow> err option" where
  "worker_error (Returned e) = e"
| "worker_error w = None"

fun has_returned :: "worker \<Rightarrow> bool" where
  "has_returned (Returned e) = True"
| "has_returned w = False"

text \<open>The error of \<open>ResolverStage.Run\<close>.\<close>

definition join_workers :: "pipe \<Rightarrow> pipe" where
  "join_workers p =
     (let q = p\<lparr>ppResolvedClosed := True\<rparr> in
      case first_some worker_error (ppWorkers p) of
        None \<Rightarrow> q
      | Some e \<Rightarrow> stage_error (wrapf ''resolver workers failed'' e) q)"

definition found_line :: "backup_env \<Rightarrow> gvr \<Rightarrow> json list \<Rightarrow> backup_out \<Rightarrow> backup_out" where
  "found_line E g items st =
     (if boVerbose (bkOptions E) then errorf (''Found '' @ itoa (length items) @ '' '' @ snd (snd g) @ nl) st else st)"

definition resolve_warning :: "json \<Rightarrow> err \<Rightarrow> backup_out \<Rightarrow> backup_out" where
  "resolve_warning obj e st =
     errorf (''    Warning: Failed to resolve '' @ u_namespace obj @ ''/'' @ u_name obj @ '': '' @ err_string e) st"

text \<open>The reader of a step: that of the command, or after the end of the context any other.\<close>

definition reader_at :: "backup_env \<Rightarrow> pipe \<Rightarrow> reader \<Rightarrow> bool" where
  "reader_at E p r \<longleftrightarrow> r = bkReader E \<or> ppCtx p \<noteq> None"

definition capacity :: "backup_env \<Rightarrow> nat" where
  "capacity E = nat (boMaxWorkers (bkOptions E))"

inductive pipe_step :: "backup_env \<Rightarrow> gvr \<Rightarrow> pipe \<Rightarrow> pipe \<Rightarrow> bool" for E :: backup_env and g :: gvr where
  list_ok: "bsPanic (ppOut p) = None \<Longrightarrow> \<not> ppListed p \<Longrightarrow> reader_at E p r \<Longrightarrow> rdList r (gvr_type g) list_all_config = Inr items \<Longrightarrow>
    pipe_step E g p (put_out (found_line E g items) (p\<lparr>ppListed := True, ppItems := items, ppSource := items\<rparr>))"
| list_fails: "bsPanic (ppOut p) = None \<Longrightarrow> \<not> ppListed p \<Longrightarrow> reader_at E p r \<Longrightarrow> rdList r (gvr_type g) list_all_config = Inl e \<Longrightarrow>
    pipe_step E g p (stage_error (wrapf ''listing resources'' e) (p\<lparr>ppListed := True, ppClosed := True\<rparr>))"
| send: "bsPanic (ppOut p) = None \<Longrightarrow> ppListed p \<Longrightarrow> \<not> ppClosed p \<Longrightarrow> ppSource p = x # xs \<Longrightarrow> length (ppWork p) < capacity E \<Longrightarrow>
    pipe_step E g p (p\<lparr>ppSource := xs, ppWork := ppWork p @ [x]\<rparr>)"
| send_cancelled: "bsPanic (ppOut p) = None \<Longrightarrow> ppListed p \<Longrightarrow> \<not> ppClosed p \<Longrightarrow> ppSource p \<noteq> [] \<Longrightarrow> ppCtx p = Some e \<Longrightarrow>
    pipe_step E g p (stage_error (wrapf ''discovery cancelled'' e) (p\<lparr>ppClosed := True\<rparr>))"
| close: "bsPanic (ppOut p) = None \<Longrightarrow> ppListed p \<Longrightarrow> \<not> ppClosed p \<Longrightarrow> ppSource p = [] \<Longrightarrow> pipe_step E g p (p\<lparr>ppClosed := True\<rparr>)"
| take_item: "bsPanic (ppOut p) = None \<Longrightarrow> i < length (ppWorkers p) \<Longrightarrow> ppWorkers p ! i = Waiting \<Longrightarrow> ppWork p = x # xs \<Longrightarrow>
    pipe_step E g p (set_worker i (Resolving x) (p\<lparr>ppWork := xs\<rparr>))"
| resolve_ok: "bsPanic (ppOut p) = None \<Longrightarrow> i < length (ppWorkers p) \<Longrightarrow> ppWorkers p ! i = Resolving x \<Longrightarrow> reader_at E p r \<Longrightarrow>
    resolveWorkload E r g x = Inr w \<Longrightarrow> pipe_step E g p (set_worker i (Holding w) (put_out (log_resolved E w) p))"
| resolve_fails: "bsPanic (ppOut p) = None \<Longrightarrow> i < length (ppWorkers p) \<Longrightarrow> ppWorkers p ! i = Resolving x \<Longrightarrow> reader_at E p r \<Longrightarrow>
    resolveWorkload E r g x = Inl e \<Longrightarrow> pipe_step E g p (set_worker i Waiting (put_out (resolve_warning x e) p))"
| emit: "bsPanic (ppOut p) = None \<Longrightarrow> i < length (ppWorkers p) \<Longrightarrow> ppWorkers p ! i = Holding w \<Longrightarrow> length (ppResolved p) < capacity E \<Longrightarrow>
    pipe_step E g p (set_worker i Waiting (p\<lparr>ppResolved := ppResolved p @ [w]\<rparr>))"
| worker_done: "bsPanic (ppOut p) = None \<Longrightarrow> i < length (ppWorkers p) \<Longrightarrow> ppWorkers p ! i = Waiting \<Longrightarrow> ppWork p = [] \<Longrightarrow> ppClosed p \<Longrightarrow>
    pipe_step E g p (set_worker i (Returned None) p)"
| worker_cancelled: "bsPanic (ppOut p) = None \<Longrightarrow> i < length (ppWorkers p) \<Longrightarrow> ppWorkers p ! i = Waiting \<or> (\<exists>w. ppWorkers p ! i = Holding w) \<Longrightarrow>
    ppCtx p = Some e \<Longrightarrow> pipe_step E g p (set_worker i (Returned (Some (wrapf ''resolver worker cancelled'' e))) p)"
| join: "bsPanic (ppOut p) = None \<Longrightarrow> \<not> ppResolvedClosed p \<Longrightarrow> list_all has_returned (ppWorkers p) \<Longrightarrow> pipe_step E g p (join_workers p)"
| write_item: "bsPanic (ppOut p) = None \<Longrightarrow> \<not> ppWriterDone p \<Longrightarrow> ppResolved p = w # ws \<Longrightarrow>
    pipe_step E g p (put_out (writer_item E w) (p\<lparr>ppResolved := ws, ppWritten := ppWritten p @ [w]\<rparr>))"
| write_done: "bsPanic (ppOut p) = None \<Longrightarrow> \<not> ppWriterDone p \<Longrightarrow> ppResolved p = [] \<Longrightarrow> ppResolvedClosed p \<Longrightarrow>
    pipe_step E g p (p\<lparr>ppWriterDone := True\<rparr>)"
| write_cancelled: "bsPanic (ppOut p) = None \<Longrightarrow> \<not> ppWriterDone p \<Longrightarrow> ppCtx p = Some e \<Longrightarrow>
    pipe_step E g p (stage_error (wrapf ''writer cancelled'' e) (p\<lparr>ppWriterDone := True\<rparr>))"
| parent_ends: "bsPanic (ppOut p) = None \<Longrightarrow> ppParent p = None \<Longrightarrow>
    pipe_step E g p (p\<lparr>ppParent := Some e, ppCtx := (case ppCtx p of None \<Rightarrow> Some e | x \<Rightarrow> x)\<rparr>)"

abbreviation pipe_reach :: "backup_env \<Rightarrow> gvr \<Rightarrow> pipe \<Rightarrow> pipe \<Rightarrow> bool" where
  "pipe_reach E g \<equiv> (pipe_step E g)\<^sup>*\<^sup>*"

text \<open>\<open>g.Wait()\<close> has returned.\<close>

definition pipe_finished :: "pipe \<Rightarrow> bool" where
  "pipe_finished p \<longleftrightarrow> ppClosed p \<and> ppResolvedClosed p \<and> ppWriterDone p"

definition pipeline_error :: "pipe \<Rightarrow> err option" where
  "pipeline_error p = map_option (wrapf ''pipeline execution failed'') (ppErr p)"

section \<open>The command (\<open>Run\<close>)\<close>

definition backup_failed_line :: "gvr \<Rightarrow> err option \<Rightarrow> backup_out \<Rightarrow> backup_out" where
  "backup_failed_line g e st =
     (case e of
        None \<Rightarrow> st
      | Some x \<Rightarrow> errorf (''Warning: Failed to backup '' @ snd (snd g) @ '': '' @ err_string x @ nl) st)"

text \<open>
  The loop over the types. Its context is that of the command, which may have ended before.
\<close>

inductive backup_types :: "backup_env \<Rightarrow> gvr list \<Rightarrow> err option \<Rightarrow> backup_out \<Rightarrow> backup_out \<Rightarrow> bool" for E :: backup_env where
  no_types: "backup_types E [] c st st"
| negative_workers: "boMaxWorkers (bkOptions E) < 0 \<Longrightarrow> backup_types E (g # gs) c st (go_panic ''makechan: size out of range'' st)"
| pipe_panics: "boMaxWorkers (bkOptions E) \<ge> 0 \<Longrightarrow> pipe_reach E g (pipe_init E c st) p \<Longrightarrow> bsPanic (ppOut p) \<noteq> None \<Longrightarrow>
    backup_types E (g # gs) c st (ppOut p)"
| pipe_returns: "boMaxWorkers (bkOptions E) \<ge> 0 \<Longrightarrow> pipe_reach E g (pipe_init E c st) p \<Longrightarrow> bsPanic (ppOut p) = None \<Longrightarrow>
    pipe_finished p \<Longrightarrow>
    backup_types E gs (ppParent p) (backup_failed_line g (pipeline_error p) (ppOut p)) st' \<Longrightarrow>
    backup_types E (g # gs) c st st'"

definition start_line :: "backup_options \<Rightarrow> nat \<Rightarrow> backup_out \<Rightarrow> backup_out" where
  "start_line c n st =
     (if boVerbose c then
        errorf ((if boDryRun c then ''Dry-run:'' else ''Backing up'') @ '' '' @ itoa n @ '' workload types ''
          @ (if boDependencies c then ''with dependencies'' else ''without dependencies'') @ '' (''
          @ (if boMaxWorkers c < 0 then ''-'' else []) @ itoa (nat (abs (boMaxWorkers c))) @ '' workers)...'') st
      else st)"

definition end_line :: "backup_options \<Rightarrow> backup_out \<Rightarrow> backup_out" where
  "end_line c st =
     (if bsPanic st \<noteq> None then st
      else if boDryRun c then errorf ''Dry-run complete (no files written)'' st
      else if boOutputDir c = [] \<and> boVerbose c then errorf ''Backup complete (stdout)'' st
      else errorf (''Backup complete: '' @ boOutputDir c) st)"

definition make_output_dir :: "backup_env \<Rightarrow> backup_out \<Rightarrow> backup_out \<times> err option" where
  "make_output_dir E st =
     (if boOutputDir (bkOptions E) = [] then (st, None)
      else case mkdir_path (bkFiles E) [] [] (bsFiles st) of
             (root, e) \<Rightarrow> (st\<lparr>bsFiles := root\<rparr>, map_option (wrapf ''creating output directory'') e))"

inductive backup_Run :: "backup_env \<Rightarrow> backup_out \<Rightarrow> backup_out \<times> err option \<Rightarrow> bool" for E :: backup_env where
  no_dir: "make_output_dir E st = (st', Some e) \<Longrightarrow> backup_Run E st (st', Some e)"
| run: "make_output_dir E st = (st', None) \<Longrightarrow>
    backup_types E (resolveWorkloadGVRs (bkOptions E)) None
      (start_line (bkOptions E) (length (resolveWorkloadGVRs (bkOptions E))) st') st'' \<Longrightarrow>
    backup_Run E st (end_line (bkOptions E) st'', None)"

end
