(* ===== verification/BackupRunFacts.thy ===== *)
theory BackupRunFacts
  imports BackupRun
begin

text \<open>
  What the runs of a backup guarantee: no stage panics, every pipeline ends and never gets stuck, and one whose context
  lives to the end writes exactly the workloads that could be resolved.
\<close>

section \<open>No panic\<close>

definition workload_ok :: "WorkloadWithDeps \<Rightarrow> bool" where
  "workload_ok w \<longleftrightarrow> list_all complete_dep (wdDeps w)"

definition dep_registry_ok :: "dep_registry \<Rightarrow> bool" where
  "dep_registry_ok reg \<longleftrightarrow> (\<forall>rv\<in>set reg. dependency_resolver (rvResolve rv))"

lemma registered_ok: "register_resolvers td fv deps = Inr reg \<Longrightarrow> dep_registry_ok reg"
  using notebook.dependency_resolver_axioms [of td fv] dspa.dependency_resolver_axioms [of fv]
  by (auto simp: register_resolvers_def MustRegister_backup_def Register_backup_def NewRegistry_backup_def dep_registry_ok_def
      NewNotebookResolver_def NewDSPAResolver_def split: if_splits)

lemma resolved_ok: "dep_registry_ok (bkRegistry E) \<Longrightarrow> resolveWorkload E r g x = Inr w \<Longrightarrow> workload_ok w"
  by (auto simp: resolveWorkload_def workload_ok_def dep_registry_ok_def GetResolver_def find_Some_iff
      dest!: dependency_resolver.all_complete [rotated] split: sum.splits option.splits)

lemma panic_errorf [simp]: "bsPanic (errorf s st) = bsPanic st"
  by (simp add: errorf_def)

lemma panic_fold_errorf [simp]: "bsPanic (fold (\<lambda>p. errorf (f p)) ps st) = bsPanic st"
  by (induction ps arbitrary: st) auto

lemma complete_dep_line: "complete_dep d \<Longrightarrow> dependency_line d \<noteq> None"
  by (auto simp: complete_dep_def core_type_def dependency_line_def formatResourceType_def GVR_def rt_ConfigMap_def
      rt_Secret_def rt_PersistentVolumeClaim_def mk_resource_def)

lemma panic_logDependencies: "list_all complete_dep ds \<Longrightarrow> bsPanic (logDependencies ds st) = bsPanic st"
  by (induction ds arbitrary: st) (auto dest: complete_dep_line split: option.split)

lemma panic_log_resolved: "workload_ok w \<Longrightarrow> bsPanic (log_resolved E w st) = bsPanic st"
  by (simp add: log_resolved_def workload_ok_def panic_logDependencies)

lemma dep_paths_Some: "list_all complete_dep ds \<Longrightarrow> dep_paths c ds \<noteq> None"
  by (induction ds) (auto simp: complete_dep_def)

lemma panic_writeResource [simp]: "bsPanic (fst (writeResource_backup E g (Some v) st)) = bsPanic st"
  by (simp add: writeResource_backup_def logDryRunResource_def split: sum.split prod.split)

lemma panic_write_deps: "list_all complete_dep ds \<Longrightarrow> bsPanic st = None \<Longrightarrow> bsPanic (write_deps E ds st) = None"
proof (induction E ds st rule: write_deps.induct)
  case (2 E d ds st)
  show ?case
  proof (cases "dpResource d")
    case None
    with 2 show ?thesis by (simp add: complete_dep_def)
  next
    case (Some v)
    obtain st' e where w: "writeResource_backup E (dpGVR d) (Some v) st = (st', e)" by fastforce
    then have "bsPanic st' = None" using panic_writeResource [of E "dpGVR d" v st] 2(5) by simp
    with 2 Some w show ?thesis by (cases e) (auto simp: complete_dep_def)
  qed
qed simp

lemma panic_writer_item: "workload_ok w \<Longrightarrow> bsPanic st = None \<Longrightarrow> bsPanic (writer_item E w st) = None"
proof -
  assume ok: "workload_ok w" "bsPanic st = None"
  obtain st' e where w: "writeResource_backup E (wdGVR w) (Some (wdInstance w)) st = (st', e)" by fastforce
  then have "bsPanic st' = None" using panic_writeResource [of E "wdGVR w" "wdInstance w" st] ok(2) by simp
  then show ?thesis using ok w
    by (cases e)
      (auto simp: writer_item_def writeWorkloadWithDeps_def writeWorkloadWithDepsDryRun_def workload_ok_def panic_write_deps
        dest: dep_paths_Some split: option.split)
qed

section \<open>The shape of reachable states\<close>

text \<open>While the context lives, a worker returns only when there is nothing left to take, and the writer only at the end.\<close>

definition pipe_shape :: "backup_env \<Rightarrow> pipe \<Rightarrow> bool" where
  "pipe_shape E p \<longleftrightarrow> length (ppWorkers p) = capacity E \<and> (ppClosed p \<longrightarrow> ppListed p)
     \<and> (ppErr p \<noteq> None \<longrightarrow> ppCtx p \<noteq> None) \<and> (ppResolvedClosed p \<longrightarrow> list_all has_returned (ppWorkers p))"

definition pipe_live :: "pipe \<Rightarrow> bool" where
  "pipe_live p \<longleftrightarrow> (ppClosed p \<longrightarrow> ppSource p = [])
     \<and> list_all (\<lambda>w. has_returned w \<longrightarrow> ppClosed p \<and> ppWork p = []) (ppWorkers p)
     \<and> list_all (\<lambda>w. worker_error w = None) (ppWorkers p)
     \<and> (ppWriterDone p \<longrightarrow> ppResolvedClosed p \<and> ppResolved p = [])"

definition pipe_ok :: "backup_env \<Rightarrow> pipe \<Rightarrow> bool" where
  "pipe_ok E p \<longleftrightarrow> pipe_shape E p \<and> (ppCtx p = None \<longrightarrow> pipe_live p)"

definition pipe_safe :: "pipe \<Rightarrow> bool" where
  "pipe_safe p \<longleftrightarrow> bsPanic (ppOut p) = None \<and> list_all workload_ok (ppResolved p)
     \<and> (\<forall>w. Holding w \<in> set (ppWorkers p) \<longrightarrow> workload_ok w)"

lemma fields_stage_error [simp]:
  "ppListed (stage_error e p) = ppListed p" "ppItems (stage_error e p) = ppItems p" "ppSource (stage_error e p) = ppSource p"
  "ppClosed (stage_error e p) = ppClosed p" "ppWork (stage_error e p) = ppWork p" "ppWorkers (stage_error e p) = ppWorkers p"
  "ppResolved (stage_error e p) = ppResolved p" "ppResolvedClosed (stage_error e p) = ppResolvedClosed p"
  "ppWritten (stage_error e p) = ppWritten p" "ppWriterDone (stage_error e p) = ppWriterDone p"
  "ppParent (stage_error e p) = ppParent p" "ppOut (stage_error e p) = ppOut p"
  by (simp_all add: stage_error_def)

lemma ctx_stage_error [simp]: "ppCtx (stage_error e p) \<noteq> None" "ppErr (stage_error e p) \<noteq> None"
  by (simp_all add: stage_error_def split: option.split)

lemma fields_put_out [simp]:
  "ppListed (put_out f p) = ppListed p" "ppItems (put_out f p) = ppItems p" "ppSource (put_out f p) = ppSource p"
  "ppClosed (put_out f p) = ppClosed p" "ppWork (put_out f p) = ppWork p" "ppWorkers (put_out f p) = ppWorkers p"
  "ppResolved (put_out f p) = ppResolved p" "ppResolvedClosed (put_out f p) = ppResolvedClosed p"
  "ppWritten (put_out f p) = ppWritten p" "ppWriterDone (put_out f p) = ppWriterDone p"
  "ppParent (put_out f p) = ppParent p" "ppCtx (put_out f p) = ppCtx p" "ppErr (put_out f p) = ppErr p"
  "ppOut (put_out f p) = f (ppOut p)"
  by (simp_all add: put_out_def)

lemma fields_set_worker [simp]:
  "ppListed (set_worker i w p) = ppListed p" "ppItems (set_worker i w p) = ppItems p" "ppSource (set_worker i w p) = ppSource p"
  "ppClosed (set_worker i w p) = ppClosed p" "ppWork (set_worker i w p) = ppWork p"
  "ppWorkers (set_worker i w p) = (ppWorkers p)[i := w]"
  "ppResolved (set_worker i w p) = ppResolved p" "ppResolvedClosed (set_worker i w p) = ppResolvedClosed p"
  "ppWritten (set_worker i w p) = ppWritten p" "ppWriterDone (set_worker i w p) = ppWriterDone p"
  "ppParent (set_worker i w p) = ppParent p" "ppCtx (set_worker i w p) = ppCtx p" "ppErr (set_worker i w p) = ppErr p"
  "ppOut (set_worker i w p) = ppOut p"
  by (simp_all add: set_worker_def)

lemma fields_join [simp]:
  "ppListed (join_workers p) = ppListed p" "ppItems (join_workers p) = ppItems p" "ppSource (join_workers p) = ppSource p"
  "ppClosed (join_workers p) = ppClosed p" "ppWork (join_workers p) = ppWork p" "ppWorkers (join_workers p) = ppWorkers p"
  "ppResolved (join_workers p) = ppResolved p" "ppResolvedClosed (join_workers p) = True"
  "ppWritten (join_workers p) = ppWritten p" "ppWriterDone (join_workers p) = ppWriterDone p"
  "ppParent (join_workers p) = ppParent p" "ppOut (join_workers p) = ppOut p"
  by (simp_all add: join_workers_def Let_def split: option.split)

lemma no_worker_error: "list_all (\<lambda>w. worker_error w = None) ws \<longleftrightarrow> first_some worker_error ws = None"
  by (simp add: first_some_None_iff list_all_iff)

lemma join_context:
  "ppCtx (join_workers p) = None \<longleftrightarrow> ppCtx p = None \<and> list_all (\<lambda>w. worker_error w = None) (ppWorkers p)"
  unfolding no_worker_error by (cases "first_some worker_error (ppWorkers p)") (simp_all add: join_workers_def)

lemma join_no_error: "list_all (\<lambda>w. worker_error w = None) (ppWorkers p) \<Longrightarrow> ppErr (join_workers p) = ppErr p"
  by (simp add: no_worker_error join_workers_def)

lemma pipe_init_ok [simp]: "pipe_ok E (pipe_init E c st)"
  by (simp add: pipe_ok_def pipe_shape_def pipe_live_def pipe_init_def capacity_def list_all_iff)

lemma pipe_init_safe: "bsPanic st = None \<Longrightarrow> pipe_safe (pipe_init E c st)"
  by (auto simp: pipe_safe_def pipe_init_def)

lemma mem_update: "x \<in> set (xs[i := y]) \<Longrightarrow> x = y \<or> x \<in> set xs"
  using set_update_subset_insert [of xs i y] by auto

lemma workers_update: "list_all P xs \<Longrightarrow> P y \<Longrightarrow> list_all P (xs[i := y])"
  by (auto simp: list_all_iff dest!: mem_update)

lemma not_all_returned: "i < length ws \<Longrightarrow> \<not> has_returned (ws ! i) \<Longrightarrow> \<not> list_all has_returned ws"
  by (auto simp: list_all_length)

lemma list_all_mono': "list_all P xs \<Longrightarrow> (\<And>x. P x \<Longrightarrow> Q x) \<Longrightarrow> list_all Q xs"
  by (auto simp: list_all_iff)

lemma pipe_shape_step: "pipe_step E g p q \<Longrightarrow> pipe_shape E p \<Longrightarrow> pipe_shape E q"
proof (induction rule: pipe_step.induct)
  case (join p)
  then have "ppErr (join_workers p) \<noteq> None \<longrightarrow> ppCtx (join_workers p) \<noteq> None"
    using join_no_error [of p] join_context [of p] by (auto simp: pipe_shape_def)
  with join show ?case by (simp add: pipe_shape_def)
qed (simp_all add: pipe_shape_def workers_update not_all_returned split: option.split)

lemma pipe_live_step: "pipe_step E g p q \<Longrightarrow> pipe_shape E p \<Longrightarrow> pipe_live p \<Longrightarrow> ppCtx q = None \<Longrightarrow> pipe_live q"
proof (induction rule: pipe_step.induct)
  case (close p)
  then show ?case by (simp add: pipe_live_def) (auto elim: list_all_mono')
next
  case (take_item p i x xs)
  then show ?case by (simp add: pipe_live_def workers_update not_all_returned) (auto simp: list_all_iff dest!: mem_update)
next
  case (send p x xs)
  then show ?case by (simp add: pipe_live_def)
next
  case (emit p i w)
  then show ?case by (auto simp: pipe_live_def pipe_shape_def workers_update not_all_returned)
qed (simp_all add: pipe_live_def pipe_shape_def workers_update join_context split: option.splits)

lemma ctx_stays: "pipe_step E g p q \<Longrightarrow> ppCtx q = None \<Longrightarrow> ppCtx p = None"
  by (induction rule: pipe_step.induct) (simp_all add: join_context split: option.splits)

lemma pipe_ok_step: "pipe_step E g p q \<Longrightarrow> pipe_ok E p \<Longrightarrow> pipe_ok E q"
  using pipe_shape_step [of E g p q] pipe_live_step [of E g p q] ctx_stays [of E g p q] by (simp add: pipe_ok_def)

lemma pipe_safe_step: "pipe_step E g p q \<Longrightarrow> dep_registry_ok (bkRegistry E) \<Longrightarrow> pipe_safe p \<Longrightarrow> pipe_safe q"
  by (induction rule: pipe_step.induct)
    (auto simp: pipe_safe_def found_line_def resolve_warning_def panic_log_resolved panic_writer_item resolved_ok
      dest!: mem_update dest: nth_mem)

text \<open>Worker by worker: what is in its hands.\<close>

lemma sum_list_update_add:
  fixes f :: "'a \<Rightarrow> 'b::comm_monoid_add"
  shows "i < length xs \<Longrightarrow> sum_list (map f (xs[i := y])) + f (xs ! i) = sum_list (map f xs) + f y"
proof (induction xs arbitrary: i)
  case (Cons x xs)
  then show ?case by (cases i) (simp_all add: ac_simps)
qed simp

section \<open>Termination\<close>

fun worker_weight :: "worker \<Rightarrow> nat" where
  "worker_weight Waiting = 1"
| "worker_weight (Resolving x) = 5"
| "worker_weight (Holding w) = 4"
| "worker_weight (Returned e) = 0"

definition pipe_weight :: "pipe \<Rightarrow> nat" where
  "pipe_weight p = 6 * length (ppSource p) + 5 * length (ppWork p) + sum_list (map worker_weight (ppWorkers p))
     + 2 * length (ppResolved p) + of_bool (\<not> ppClosed p) + of_bool (\<not> ppResolvedClosed p) + of_bool (\<not> ppWriterDone p)
     + of_bool (ppParent p = None)"

definition pipe_order :: "(pipe \<times> pipe) set" where
  "pipe_order = inv_image (less_than <*lex*> less_than) (\<lambda>p. (of_bool (\<not> ppListed p) :: nat, pipe_weight p))"

lemma weight_update:
  "i < length ws \<Longrightarrow> sum_list (map worker_weight (ws[i := w])) + worker_weight (ws ! i) = sum_list (map worker_weight ws) + worker_weight w"
  by (rule sum_list_update_add)

lemma pipe_step_order: "pipe_step E g p q \<Longrightarrow> (q, p) \<in> pipe_order"
proof (induction rule: pipe_step.induct)
  case (take_item p i x xs)
  then show ?case using weight_update [of i "ppWorkers p" "Resolving x"] by (simp add: pipe_order_def pipe_weight_def)
next
  case (resolve_ok p i x r w)
  then show ?case using weight_update [of i "ppWorkers p" "Holding w"] by (simp add: pipe_order_def pipe_weight_def)
next
  case (resolve_fails p i x r e)
  then show ?case using weight_update [of i "ppWorkers p" Waiting] by (simp add: pipe_order_def pipe_weight_def)
next
  case (emit p i w)
  then show ?case using weight_update [of i "ppWorkers p" Waiting] by (simp add: pipe_order_def pipe_weight_def)
next
  case (worker_done p i)
  then show ?case using weight_update [of i "ppWorkers p" "Returned None"] by (simp add: pipe_order_def pipe_weight_def)
next
  case (worker_cancelled p i e)
  then show ?case
    using weight_update [of i "ppWorkers p" "Returned (Some (wrapf ''resolver worker cancelled'' e))"]
    by (auto simp: pipe_order_def pipe_weight_def)
qed (simp_all add: pipe_order_def pipe_weight_def)

lemma wf_pipe_order: "wf pipe_order"
  by (simp add: pipe_order_def wf_lex_prod)

section \<open>Progress\<close>

text \<open>A step of a stage, not the end of the command's context.\<close>

definition stage_step :: "backup_env \<Rightarrow> gvr \<Rightarrow> pipe \<Rightarrow> pipe \<Rightarrow> bool" where
  "stage_step E g p q \<longleftrightarrow> pipe_step E g p q \<and> ppParent q = ppParent p"

lemma worker_progress:
  assumes "bsPanic (ppOut p) = None" "i < length (ppWorkers p)" "ppWorkers p ! i = Resolving x"
  shows "\<exists>q. stage_step E g p q"
proof (cases "resolveWorkload E (bkReader E) g x")
  case (Inl e)
  then show ?thesis using pipe_step.resolve_fails [OF assms, of E "bkReader E" g e] by (auto simp: reader_at_def stage_step_def)
next
  case (Inr w)
  then show ?thesis using pipe_step.resolve_ok [OF assms, of E "bkReader E" g w] by (auto simp: reader_at_def stage_step_def)
qed

lemma writer_progress:
  assumes "bsPanic (ppOut p) = None" "\<not> ppWriterDone p" "ppResolved p \<noteq> [] \<or> ppResolvedClosed p"
  shows "\<exists>q. stage_step E g p q"
proof (cases "ppResolved p")
  case Nil
  then show ?thesis using assms pipe_step.write_done [of p E g] by (auto simp: stage_step_def)
next
  case (Cons w ws)
  then show ?thesis using assms pipe_step.write_item [of p w ws E g] by (auto simp: stage_step_def)
qed

text \<open>A worker with a result can hand it on, or the writer can make room, or the context has ended.\<close>

lemma holding_progress:
  assumes "bsPanic (ppOut p) = None" "i < length (ppWorkers p)" "ppWorkers p ! i = Holding w" "pipe_ok E p" "0 < capacity E"
  shows "\<exists>q. stage_step E g p q"
proof (cases "ppCtx p")
  case None
  have "\<not> ppResolvedClosed p" using assms(2,3,4) not_all_returned [of i "ppWorkers p"] by (auto simp: pipe_ok_def pipe_shape_def)
  with None assms(4) have "\<not> ppWriterDone p" by (auto simp: pipe_ok_def pipe_live_def)
  then show ?thesis
  proof (cases "length (ppResolved p) < capacity E")
    case True
    then show ?thesis using pipe_step.emit [OF assms(1-3), of E g] True by (auto simp: stage_step_def)
  next
    case False
    then have "ppResolved p \<noteq> []" using assms(5) by auto
    with \<open>\<not> ppWriterDone p\<close> show ?thesis using writer_progress [OF assms(1)] by blast
  qed
next
  case (Some e)
  then show ?thesis using pipe_step.worker_cancelled [OF assms(1,2) _ Some, of E g] assms(3) by (auto simp: stage_step_def)
qed

lemma busy_progress:
  assumes "bsPanic (ppOut p) = None" "i < length (ppWorkers p)" "\<not> has_returned (ppWorkers p ! i)" "pipe_ok E p" "0 < capacity E"
    and "ppWorkers p ! i = Waiting \<Longrightarrow> ppWork p \<noteq> [] \<or> ppClosed p"
  shows "\<exists>q. stage_step E g p q"
proof (cases "ppWorkers p ! i")
  case Waiting
  show ?thesis
  proof (cases "ppWork p")
    case Nil
    with Waiting assms(6) have "ppClosed p" by simp
    with Nil Waiting show ?thesis using pipe_step.worker_done [of p i E g] assms(1,2) by (auto simp: stage_step_def)
  next
    case (Cons x xs)
    with Waiting show ?thesis using pipe_step.take_item [OF assms(1,2) Waiting Cons, of E g] by (auto simp: stage_step_def)
  qed
next
  case (Resolving x)
  then show ?thesis using worker_progress [OF assms(1,2)] by blast
next
  case (Holding w)
  then show ?thesis using holding_progress [OF assms(1,2) _ assms(4,5)] by blast
qed (use assms(3) in simp)

lemma discovery_progress:
  assumes "bsPanic (ppOut p) = None" "pipe_ok E p" "0 < capacity E" "\<not> ppClosed p"
  shows "\<exists>q. stage_step E g p q"
proof (cases "ppListed p")
  case False
  then show ?thesis
    using pipe_step.list_ok [OF assms(1) False, of E "bkReader E" g] pipe_step.list_fails [OF assms(1) False, of E "bkReader E" g]
    by (cases "rdList (bkReader E) (gvr_type g) list_all_config") (auto simp: reader_at_def stage_step_def)
next
  case listed: True
  show ?thesis
  proof (cases "ppSource p")
    case Nil
    then show ?thesis using pipe_step.close [OF assms(1) listed assms(4), of E g] by (auto simp: stage_step_def)
  next
    case (Cons x xs)
    show ?thesis
    proof (cases "ppCtx p")
      case (Some e)
      then show ?thesis using pipe_step.send_cancelled [OF assms(1) listed assms(4), of e E g] Cons by (auto simp: stage_step_def)
    next
      case None
      show ?thesis
      proof (cases "length (ppWork p) < capacity E")
        case True
        then show ?thesis using pipe_step.send [OF assms(1) listed assms(4) Cons, of E g] by (auto simp: stage_step_def)
      next
        case False
        then have "ppWork p \<noteq> []" using assms(3) by auto
        moreover have i: "0 < length (ppWorkers p)" using assms(2,3) by (simp add: pipe_ok_def pipe_shape_def)
        moreover have "\<not> has_returned (ppWorkers p ! 0)"
          using None assms(2,4) i by (auto simp: pipe_ok_def pipe_live_def list_all_length)
        ultimately show ?thesis using busy_progress [OF assms(1) _ _ assms(2,3)] by blast
      qed
    qed
  qed
qed

lemma pipe_progress:
  assumes "bsPanic (ppOut p) = None" "pipe_ok E p" "0 < capacity E" "\<not> pipe_finished p"
  shows "\<exists>q. stage_step E g p q"
proof (cases "ppClosed p")
  case False
  then show ?thesis using discovery_progress [OF assms(1-3)] by blast
next
  case closed: True
  show ?thesis
  proof (cases "ppResolvedClosed p")
    case True
    with closed assms(4) have "\<not> ppWriterDone p" by (simp add: pipe_finished_def)
    with True show ?thesis using writer_progress [OF assms(1)] by blast
  next
    case False
    show ?thesis
    proof (cases "list_all has_returned (ppWorkers p)")
      case True
      then show ?thesis using pipe_step.join [OF assms(1) False True, of E g] by (auto simp: stage_step_def)
    next
      case False
      then obtain i where "i < length (ppWorkers p)" "\<not> has_returned (ppWorkers p ! i)" by (auto simp: list_all_length)
      with closed show ?thesis using busy_progress [OF assms(1) _ _ assms(2,3)] by blast
    qed
  qed
qed

section \<open>What is written\<close>

text \<open>
  The items in the pipeline, each with a weight: \<open>fi\<close> for an instance and \<open>fw\<close> for a resolved workload.
\<close>

fun worker_items :: "(json \<Rightarrow> 'm multiset) \<Rightarrow> (WorkloadWithDeps \<Rightarrow> 'm multiset) \<Rightarrow> worker \<Rightarrow> 'm multiset" where
  "worker_items fi fw Waiting = {#}"
| "worker_items fi fw (Resolving x) = fi x"
| "worker_items fi fw (Holding w) = fw w"
| "worker_items fi fw (Returned e) = {#}"

definition in_pipe :: "(json \<Rightarrow> 'm multiset) \<Rightarrow> (WorkloadWithDeps \<Rightarrow> 'm multiset) \<Rightarrow> pipe \<Rightarrow> 'm multiset" where
  "in_pipe fi fw p = sum_list (map fi (ppSource p)) + sum_list (map fi (ppWork p))
     + sum_list (map (worker_items fi fw) (ppWorkers p)) + sum_list (map fw (ppResolved p)) + sum_list (map fw (ppWritten p))"

lemma items_update:
  "i < length ws \<Longrightarrow> sum_list (map (worker_items fi fw) (ws[i := w])) + worker_items fi fw (ws ! i) =
     sum_list (map (worker_items fi fw) ws) + worker_items fi fw w"
  by (rule sum_list_update_add)

text \<open>Every step but the listing keeps the items, or drops one that cannot be resolved or was cancelled.\<close>

lemma in_pipe_mono:
  assumes "pipe_step E g p q" and "ppListed q = ppListed p" and fits: "\<And>r x w. resolveWorkload E r g x = Inr w \<Longrightarrow> fw w \<subseteq># fi x"
  shows "in_pipe fi fw q \<subseteq># in_pipe fi fw p"
  using assms(1,2)
proof (induction rule: pipe_step.induct)
  case (take_item p i x xs)
  then show ?case using items_update [of i "ppWorkers p" fi fw "Resolving x"] by (simp add: in_pipe_def ac_simps)
next
  case (resolve_ok p i x r w)
  obtain d where d: "fi x = fw w + d" using fits [OF resolve_ok(5)] by (metis mset_subset_eq_exists_conv)
  have "in_pipe fi fw p = in_pipe fi fw (set_worker i (Holding w) (put_out (log_resolved E w) p)) + d"
    using resolve_ok d items_update [of i "ppWorkers p" fi fw "Holding w"] by (simp add: in_pipe_def ac_simps)
  then show ?case by simp
next
  case (resolve_fails p i x r e)
  then have "in_pipe fi fw p = in_pipe fi fw (set_worker i Waiting (put_out (resolve_warning x e) p)) + fi x"
    using items_update [of i "ppWorkers p" fi fw Waiting] by (simp add: in_pipe_def ac_simps)
  then show ?case by simp
next
  case (emit p i w)
  then show ?case using items_update [of i "ppWorkers p" fi fw Waiting] by (simp add: in_pipe_def ac_simps)
next
  case (worker_done p i)
  then show ?case using items_update [of i "ppWorkers p" fi fw "Returned None"] by (simp add: in_pipe_def)
next
  case (worker_cancelled p i e)
  then have "in_pipe fi fw p =
      in_pipe fi fw (set_worker i (Returned (Some (wrapf ''resolver worker cancelled'' e))) p) + worker_items fi fw (ppWorkers p ! i)"
    using items_update [of i "ppWorkers p" fi fw "Returned (Some (wrapf ''resolver worker cancelled'' e))"]
    by (simp add: in_pipe_def ac_simps)
  then show ?case by simp
qed (simp_all add: in_pipe_def ac_simps)

text \<open>The result of an instance, if it can be resolved, and what a complete pipeline writes.\<close>

definition resolved_item :: "backup_env \<Rightarrow> gvr \<Rightarrow> json \<Rightarrow> WorkloadWithDeps multiset" where
  "resolved_item E g x = (case resolveWorkload E (bkReader E) g x of Inl e \<Rightarrow> {#} | Inr w \<Rightarrow> {#w#})"

abbreviation results_in :: "backup_env \<Rightarrow> gvr \<Rightarrow> pipe \<Rightarrow> WorkloadWithDeps multiset" where
  "results_in E g \<equiv> in_pipe (resolved_item E g) (\<lambda>w. {#w#})"

lemma results_kept:
  assumes "pipe_step E g p q" and "ppListed q = ppListed p" and "ppCtx q = None"
  shows "results_in E g q = results_in E g p"
  using assms
proof (induction rule: pipe_step.induct)
  case (take_item p i x xs)
  then show ?case using items_update [of i "ppWorkers p" "resolved_item E g" "\<lambda>w. {#w#}" "Resolving x"]
    by (simp add: in_pipe_def ac_simps)
next
  case (resolve_ok p i x r w)
  then have "resolved_item E g x = {#w#}" by (simp add: resolved_item_def reader_at_def)
  with resolve_ok show ?case using items_update [of i "ppWorkers p" "resolved_item E g" "\<lambda>w. {#w#}" "Holding w"]
    by (simp add: in_pipe_def)
next
  case (resolve_fails p i x r e)
  then have "resolved_item E g x = {#}" by (simp add: resolved_item_def reader_at_def)
  with resolve_fails show ?case using items_update [of i "ppWorkers p" "resolved_item E g" "\<lambda>w. {#w#}" Waiting]
    by (simp add: in_pipe_def)
next
  case (emit p i w)
  then show ?case using items_update [of i "ppWorkers p" "resolved_item E g" "\<lambda>w. {#w#}" Waiting]
    by (simp add: in_pipe_def ac_simps)
next
  case (worker_done p i)
  then show ?case using items_update [of i "ppWorkers p" "resolved_item E g" "\<lambda>w. {#w#}" "Returned None"]
    by (simp add: in_pipe_def)
qed (simp_all add: in_pipe_def ac_simps split: option.splits)

lemma sum_singletons [simp]: "sum_list (map (\<lambda>x. {#f x#}) xs) = mset (map f xs)"
  by (induction xs) simp_all

text \<open>Only discovery changes what was listed.\<close>

lemma listing_step:
  assumes "pipe_step E g p q" and "ppListed q \<noteq> ppListed p" and "in_pipe fi fw p \<subseteq># sum_list (map fi (ppItems p))"
    and "\<not> ppListed p \<longrightarrow> ppItems p = []"
  shows "in_pipe fi fw q = sum_list (map fi (ppItems q))"
  using assms
proof (induction rule: pipe_step.induct)
  case (list_ok p r items)
  then show ?case by (simp add: in_pipe_def)
next
  case (list_fails p r e)
  then show ?case by (simp add: in_pipe_def)
qed simp_all

lemma items_step: "pipe_step E g p q \<Longrightarrow> ppListed q = ppListed p \<Longrightarrow> ppItems q = ppItems p"
  by (induction rule: pipe_step.induct) simp_all

lemma listed_step: "pipe_step E g p q \<Longrightarrow> ppListed p \<Longrightarrow> ppListed q"
  by (induction rule: pipe_step.induct) simp_all

lemma read_step:
  "pipe_step E g p q \<Longrightarrow> ppListed q \<noteq> ppListed p \<Longrightarrow> ppCtx q = None \<Longrightarrow> rdList (bkReader E) (gvr_type g) list_all_config = Inr (ppItems q)"
  by (induction rule: pipe_step.induct) (simp_all add: reader_at_def)

text \<open>What holds in every reachable state.\<close>

lemma reach_ok: "pipe_reach E g (pipe_init E c st) p \<Longrightarrow> pipe_ok E p"
  by (induction rule: rtranclp_induct) (auto intro: pipe_ok_step)

lemma reach_safe: "pipe_reach E g (pipe_init E c st) p \<Longrightarrow> dep_registry_ok (bkRegistry E) \<Longrightarrow> bsPanic st = None \<Longrightarrow> pipe_safe p"
  by (induction rule: rtranclp_induct) (auto intro: pipe_safe_step pipe_init_safe)

lemma reach_items: "pipe_reach E g (pipe_init E c st) p \<Longrightarrow> \<not> ppListed p \<longrightarrow> ppItems p = []"
proof (induction rule: rtranclp_induct)
  case (step p q)
  then show ?case using items_step [of E g p q] listed_step [of E g p q] by (cases "ppListed p"; cases "ppListed q") simp_all
qed (simp add: pipe_init_def)

lemma no_items [simp]: "sum_list (replicate n {#}) = {#}"
  by (induction n) simp_all

lemma in_pipe_init: "in_pipe fi fw (pipe_init E c st) = {#}"
  by (simp add: in_pipe_def pipe_init_def)

lemma reach_in_pipe:
  assumes "pipe_reach E g (pipe_init E c st) p" and fits: "\<And>r x w. resolveWorkload E r g x = Inr w \<Longrightarrow> fw w \<subseteq># fi x"
  shows "in_pipe fi fw p \<subseteq># sum_list (map fi (ppItems p))"
  using assms(1)
proof (induction rule: rtranclp_induct)
  case (step p q)
  show ?case
  proof (cases "ppListed q = ppListed p")
    case True
    then show ?thesis using in_pipe_mono [OF step(2) True, of fw fi] fits items_step [OF step(2) True] step(3)
      by (metis subset_mset.order_trans)
  next
    case False
    then show ?thesis using listing_step [OF step(2) False step(3) reach_items [OF step(1)]] by simp
  qed
qed (simp add: in_pipe_init)

lemma reach_results:
  assumes "pipe_reach E g (pipe_init E c st) p" and "ppCtx p = None"
  shows "results_in E g p = sum_list (map (resolved_item E g) (ppItems p))
     \<and> (ppListed p \<longrightarrow> rdList (bkReader E) (gvr_type g) list_all_config = Inr (ppItems p))"
  using assms
proof (induction rule: rtranclp_induct)
  case (step p q)
  have IH: "results_in E g p = sum_list (map (resolved_item E g) (ppItems p))"
    "ppListed p \<longrightarrow> rdList (bkReader E) (gvr_type g) list_all_config = Inr (ppItems p)"
    using step(3) [OF ctx_stays [OF step(2,4)]] by simp_all
  show ?case
  proof (cases "ppListed q = ppListed p")
    case True
    then show ?thesis using results_kept [OF step(2) True step(4)] items_step [OF step(2) True] IH by simp
  next
    case False
    have "results_in E g p \<subseteq># sum_list (map (resolved_item E g) (ppItems p))" using IH(1) by simp
    then show ?thesis using listing_step [OF step(2) False _ reach_items [OF step(1)]] read_step [OF step(2) False step(4)] by simp
  qed
qed (simp add: in_pipe_init, simp add: pipe_init_def)

text \<open>At the end nothing is left in between.\<close>

lemma finished_results:
  assumes "pipe_ok E p" "pipe_finished p" "ppCtx p = None" "0 < capacity E"
  shows "in_pipe fi fw p = sum_list (map fw (ppWritten p))"
proof -
  have all: "list_all has_returned (ppWorkers p)" using assms by (simp add: pipe_ok_def pipe_shape_def pipe_finished_def)
  have "list_all has_returned ws \<Longrightarrow> sum_list (map (worker_items fi fw) ws) = {#}" for ws
  proof (induction ws)
    case (Cons w ws)
    then show ?case by (cases w) simp_all
  qed simp
  then have "sum_list (map (worker_items fi fw) (ppWorkers p)) = {#}" using all by simp
  moreover have "0 < length (ppWorkers p)" using assms by (simp add: pipe_ok_def pipe_shape_def)
  then have "ppWork p = []" using all assms(1,3) by (auto simp: pipe_ok_def pipe_live_def list_all_length)
  moreover have "ppSource p = []" "ppResolved p = []" using assms by (auto simp: pipe_ok_def pipe_live_def pipe_finished_def)
  ultimately show ?thesis by (simp add: in_pipe_def)
qed

end
