(* ===== verification/BackupFacts.thy ===== *)
theory BackupFacts
  imports BackupRunFacts
begin

text \<open>
  The properties of the backup: what its runs write, that they end, what a dry run leaves alone, and what a Notebook's
  dependencies are; then the examples at which the properties are applied.
\<close>

section \<open>What reaches the files and stdout\<close>

definition outputs :: "backup_out \<Rightarrow> fnode option \<times> string" where
  "outputs st = (bsFiles st, bsStdout st)"

lemma outputs_errorf [simp]: "outputs (errorf s st) = outputs st"
  by (simp add: outputs_def errorf_def)

lemma outputs_go_panic [simp]: "outputs (go_panic s st) = outputs st"
  by (simp add: outputs_def go_panic_def)

lemma outputs_fold_errorf [simp]: "outputs (fold (\<lambda>p. errorf (f p)) ps st) = outputs st"
  by (induction ps arbitrary: st) auto

lemma outputs_logDependencies [simp]: "outputs (logDependencies ds st) = outputs st"
  by (induction ds arbitrary: st) (auto split: option.split)

lemma outputs_log_resolved [simp]: "outputs (log_resolved E w st) = outputs st"
  by (simp add: log_resolved_def)

lemma outputs_lines [simp]: "outputs (found_line E g items st) = outputs st" "outputs (resolve_warning x e st) = outputs st"
  by (simp_all add: found_line_def resolve_warning_def)

text \<open>Writing reads nothing of the state but the outputs.\<close>

lemma writeResource_cong:
  assumes "outputs st = outputs st'"
  shows "outputs (fst (writeResource_backup E g (Some v) st)) = outputs (fst (writeResource_backup E g (Some v) st'))"
    and "snd (writeResource_backup E g (Some v) st) = snd (writeResource_backup E g (Some v) st')"
proof -
  have eq: "bsFiles st' = bsFiles st" "bsStdout st' = bsStdout st" using assms by (simp_all add: outputs_def)
  have would: "outputs (logDryRunResource c g obj st) = outputs st" for c obj st by (simp add: logDryRunResource_def)
  have "outputs (fst (writeResource_backup E g (Some v) st)) = outputs (fst (writeResource_backup E g (Some v) st'))
      \<and> snd (writeResource_backup E g (Some v) st) = snd (writeResource_backup E g (Some v) st')"
  proof (cases "StripFields (rdGojq (bkReader E)) v (boStripFields (bkOptions E))")
    case (Inl e)
    then show ?thesis using assms by (simp add: writeResource_backup_def)
  next
    case (Inr v')
    consider (dry) "boDryRun (bkOptions E)" | (stdout) "\<not> boDryRun (bkOptions E)" "boOutputDir (bkOptions E) = []"
      | (to_dir) "\<not> boDryRun (bkOptions E)" "boOutputDir (bkOptions E) \<noteq> []" by blast
    then show ?thesis
    proof cases
      case dry
      then show ?thesis using Inr assms by (simp add: writeResource_backup_def would)
    next
      case stdout
      then show ?thesis using Inr assms
        by (cases "WriteResourceToStdout (bkFiles E) v'") (simp_all add: writeResource_backup_def outputs_def)
    next
      case to_dir
      obtain root e where "WriteResourceToFile (bkFiles E) [] (gvr_type g) v' (bsFiles st) = (root, e)" by fastforce
      then show ?thesis using to_dir Inr eq by (simp add: writeResource_backup_def outputs_def)
    qed
  qed
  then show "outputs (fst (writeResource_backup E g (Some v) st)) = outputs (fst (writeResource_backup E g (Some v) st'))"
    "snd (writeResource_backup E g (Some v) st) = snd (writeResource_backup E g (Some v) st')" by simp_all
qed

lemma write_deps_cong:
  "list_all complete_dep ds \<Longrightarrow> bsPanic st = None \<Longrightarrow> bsPanic st' = None \<Longrightarrow> outputs st = outputs st' \<Longrightarrow>
     outputs (write_deps E ds st) = outputs (write_deps E ds st')"
proof (induction ds arbitrary: st st')
  case (Cons d ds)
  have ds: "list_all complete_dep ds" using Cons.prems(1) by simp
  note IH0 = Cons.IH [OF ds Cons.prems(2-4)]
  show ?case
  proof (cases "dpResource d")
    case None
    then have "dpError d \<noteq> None" using Cons.prems(1) by (simp add: complete_dep_def)
    then show ?thesis using IH0 by simp
  next
    case (Some v)
    obtain t e t' e' where w: "writeResource_backup E (dpGVR d) (Some v) st = (t, e)"
      "writeResource_backup E (dpGVR d) (Some v) st' = (t', e')" by fastforce
    have "e' = e" "outputs t = outputs t'" "bsPanic t = None" "bsPanic t' = None"
      using writeResource_cong [OF Cons.prems(4), of E "dpGVR d" v] panic_writeResource [of E "dpGVR d" v st]
        panic_writeResource [of E "dpGVR d" v st'] w Cons.prems(2,3) by simp_all
    note IH1 = Cons.IH [OF ds \<open>bsPanic t = None\<close> \<open>bsPanic t' = None\<close> \<open>outputs t = outputs t'\<close>]
    have IH2: "outputs (write_deps E ds (errorf s t)) = outputs (write_deps E ds (errorf s t'))" for s
      by (rule Cons.IH [OF ds])
        (use \<open>bsPanic t = None\<close> \<open>bsPanic t' = None\<close> \<open>outputs t = outputs t'\<close> in simp_all)
    show ?thesis
    proof (cases "dpError d")
      case (Some x)
      then show ?thesis using IH0 by simp
    next
      case None
      then show ?thesis using w Some IH1 IH2 \<open>e' = e\<close> \<open>bsPanic t = None\<close> \<open>bsPanic t' = None\<close>
        by (cases e) simp_all
    qed
  qed
qed simp

lemma writer_item_cong:
  assumes "workload_ok w" "bsPanic st = None" "bsPanic st' = None" "outputs st = outputs st'"
  shows "outputs (writer_item E w st) = outputs (writer_item E w st')"
proof -
  obtain t e t' e' where w: "writeResource_backup E (wdGVR w) (Some (wdInstance w)) st = (t, e)"
    "writeResource_backup E (wdGVR w) (Some (wdInstance w)) st' = (t', e')" by fastforce
  have "e' = e" "outputs t = outputs t'" "bsPanic t = None" "bsPanic t' = None"
    using writeResource_cong [OF assms(4), of E "wdGVR w" "wdInstance w"] panic_writeResource [of E "wdGVR w" "wdInstance w" st]
      panic_writeResource [of E "wdGVR w" "wdInstance w" st'] w assms(2,3) by simp_all
  then show ?thesis using w assms write_deps_cong [of "wdDeps w" t t' E]
    by (cases e) (auto simp: writer_item_def writeWorkloadWithDeps_def writeWorkloadWithDepsDryRun_def workload_ok_def
        dest: dep_paths_Some split: option.split)
qed

text \<open>The items that were written are fit to be written.\<close>

definition written_ok :: "backup_env \<Rightarrow> backup_out \<Rightarrow> pipe \<Rightarrow> bool" where
  "written_ok E st p \<longleftrightarrow> outputs (ppOut p) = outputs (fold (writer_item E) (ppWritten p) st)
     \<and> bsPanic (fold (writer_item E) (ppWritten p) st) = None"

lemma written_step:
  "pipe_step E g p q \<Longrightarrow> pipe_safe p \<Longrightarrow> written_ok E st p \<Longrightarrow> written_ok E st q"
proof (induction rule: pipe_step.induct)
  case (write_item p w ws)
  then have "workload_ok w" "bsPanic (ppOut p) = None" by (simp_all add: pipe_safe_def)
  then show ?case using write_item.prems writer_item_cong [of w "ppOut p" "fold (writer_item E) (ppWritten p) st" E]
    panic_writer_item [of w "fold (writer_item E) (ppWritten p) st" E] by (simp add: written_ok_def)
qed (simp_all add: written_ok_def)

lemma reach_written:
  assumes "pipe_reach E g (pipe_init E c st) p" and "dep_registry_ok (bkRegistry E)" and "bsPanic st = None"
  shows "written_ok E st p"
  using assms(1)
proof (induction rule: rtranclp_induct)
  case (step p q)
  then show ?case using written_step [OF step(2) reach_safe [OF step(1) assms(2,3)]] by simp
qed (simp add: written_ok_def pipe_init_def assms(3))

section \<open>Runs that end\<close>

text \<open>Without an error of the listing, the stages alone never end the context.\<close>

lemma stage_step_live:
  assumes "pipe_step E g p q" "ppParent q = ppParent p" "pipe_ok E p" "ppCtx p = None"
    and "rdList (bkReader E) (gvr_type g) list_all_config = Inr items"
  shows "ppCtx q = None"
  using assms
proof (induction rule: pipe_step.induct)
  case (list_fails p r e)
  then show ?case by (simp add: reader_at_def)
next
  case (join p)
  then show ?case by (simp add: join_context pipe_ok_def pipe_live_def)
qed simp_all

lemma pipe_completes:
  assumes "dep_registry_ok (bkRegistry E)" and "0 < boMaxWorkers (bkOptions E)" and "bsPanic st = None"
  shows "\<exists>p. pipe_reach E g (pipe_init E c st) p \<and> pipe_finished p
    \<and> (c = None \<longrightarrow> rdList (bkReader E) (gvr_type g) list_all_config = Inr items \<longrightarrow> ppCtx p = None)"
proof -
  let ?good = "\<lambda>p. pipe_reach E g (pipe_init E c st) p
    \<and> (c = None \<longrightarrow> rdList (bkReader E) (gvr_type g) list_all_config = Inr items \<longrightarrow> ppCtx p = None)"
  have "?good p \<Longrightarrow> \<exists>q. ?good q \<and> pipe_finished q" for p
  proof (induction p rule: wf_induct_rule [OF wf_pipe_order])
    case (1 p)
    show ?case
    proof (cases "pipe_finished p")
      case False
      have "0 < capacity E" using assms(2) by (simp add: capacity_def)
      moreover have reach: "pipe_reach E g (pipe_init E c st) p" using 1(2) by simp
      moreover have "pipe_ok E p" "bsPanic (ppOut p) = None"
        using reach_ok [OF reach] reach_safe [OF reach assms(1,3)] by (simp_all add: pipe_safe_def)
      ultimately have "\<exists>q. stage_step E g p q" using pipe_progress False by blast
      then obtain q where q: "pipe_step E g p q" "ppParent q = ppParent p" by (auto simp only: stage_step_def)
      have "?good q"
        using 1(2) q stage_step_live [OF q reach_ok [OF reach], of items] by (auto intro: rtranclp.rtrancl_into_rtrancl)
      then show ?thesis using 1(1) [OF pipe_step_order [OF q(1)]] by blast
    qed (use 1(2) in blast)
  qed
  moreover have "?good (pipe_init E c st)" by (simp add: pipe_init_def)
  ultimately show ?thesis by blast
qed

lemma panic_failed_line [simp]: "bsPanic (backup_failed_line g e st) = bsPanic st"
  by (simp add: backup_failed_line_def split: option.split)

lemma types_no_panic:
  assumes "backup_types E gs c st st'" "dep_registry_ok (bkRegistry E)" "0 < boMaxWorkers (bkOptions E)" "bsPanic st = None"
  shows "bsPanic st' = None"
  using assms
proof (induction rule: backup_types.induct)
  case (pipe_panics g c st p gs)
  then show ?case using reach_safe [of E g c st p] by (simp add: pipe_safe_def)
qed auto

lemma types_run:
  assumes "dep_registry_ok (bkRegistry E)" "0 < boMaxWorkers (bkOptions E)" "bsPanic st = None"
  shows "\<exists>st'. backup_types E gs c st st'"
  using assms(3)
proof (induction gs arbitrary: c st)
  case Nil
  then show ?case using backup_types.no_types by blast
next
  case (Cons g gs)
  obtain p where p: "pipe_reach E g (pipe_init E c st) p" "pipe_finished p"
    using pipe_completes [OF assms(1,2) Cons.prems] by metis
  have safe: "bsPanic (ppOut p) = None" using reach_safe [OF p(1) assms(1) Cons.prems] by (simp add: pipe_safe_def)
  obtain st' where "backup_types E gs (ppParent p) (backup_failed_line g (pipeline_error p) (ppOut p)) st'"
    using Cons.IH [of "backup_failed_line g (pipeline_error p) (ppOut p)" "ppParent p"] safe by auto
  then show ?case using backup_types.pipe_returns [OF _ p(1) safe p(2)] assms(2) by (meson order.strict_implies_order)
qed

lemma panic_start_end:
  "bsPanic (start_line c n st) = bsPanic st" "bsPanic (end_line c st) = bsPanic st"
  "bsPanic (fst (make_output_dir E st)) = bsPanic st"
  by (simp_all add: start_line_def end_line_def make_output_dir_def split: prod.split)

lemma outputs_start_end [simp]:
  "outputs (start_line c n st) = outputs st" "outputs (end_line c st) = outputs st" "outputs (backup_failed_line g e st) = outputs st"
  by (simp_all add: start_line_def end_line_def backup_failed_line_def split: option.split)

text \<open>A dry run.\<close>

lemma outputs_dry_item: "boDryRun (bkOptions E) \<Longrightarrow> outputs (writer_item E w st) = outputs st"
  by (simp add: writer_item_def writeWorkloadWithDeps_def writeWorkloadWithDepsDryRun_def split: option.split)

lemma dry_step: "pipe_step E g p q \<Longrightarrow> boDryRun (bkOptions E) \<Longrightarrow> outputs (ppOut q) = outputs (ppOut p)"
  by (induction rule: pipe_step.induct) (simp_all add: outputs_dry_item)

lemma dry_reach: "pipe_reach E g (pipe_init E c st) p \<Longrightarrow> boDryRun (bkOptions E) \<Longrightarrow> outputs (ppOut p) = outputs st"
proof (induction rule: rtranclp_induct)
  case (step p q)
  then show ?case using dry_step by metis
qed (simp add: pipe_init_def)

lemma dry_types: "backup_types E gs c st st' \<Longrightarrow> boDryRun (bkOptions E) \<Longrightarrow> outputs st' = outputs st"
  by (induction rule: backup_types.induct) (auto dest: dry_reach)

section \<open>Properties\<close>

text \<open>
  C37. A pipeline whose context lives to the end returns no error, and its writer has taken, in some order, exactly the results
  of those instances of the listing that could be resolved; the files and stdout are what writing them in that order makes.
\<close>

theorem pipeline_writes_all:
  assumes "pipe_reach E g (pipe_init E c st) p" and "pipe_finished p" and "ppCtx p = None"
    and "dep_registry_ok (bkRegistry E)" and "0 < boMaxWorkers (bkOptions E)" and "bsPanic st = None"
  shows "pipeline_error p = None
    \<and> (\<exists>items. rdList (bkReader E) (gvr_type g) list_all_config = Inr items
         \<and> mset (ppWritten p) = sum_list (map (resolved_item E g) items))
    \<and> bsPanic (ppOut p) = None \<and> outputs (ppOut p) = outputs (fold (writer_item E) (ppWritten p) st)"
proof -
  have cap: "0 < capacity E" using assms(5) by (simp add: capacity_def)
  note ok = reach_ok [OF assms(1)]
  have "ppErr p = None" "ppListed p"
    using ok assms(2,3) by (auto simp: pipe_ok_def pipe_shape_def pipe_finished_def)
  moreover have "mset (ppWritten p) = sum_list (map (resolved_item E g) (ppItems p))"
    using reach_results [OF assms(1,3)] finished_results [OF ok assms(2,3) cap, of "resolved_item E g" "\<lambda>w. {#w#}"] by simp
  ultimately show ?thesis
    using reach_results [OF assms(1,3)] reach_written [OF assms(1,4,6)] reach_safe [OF assms(1,4,6)]
    by (simp add: pipeline_error_def written_ok_def pipe_safe_def)
qed

text \<open>
  Whatever is cancelled and whenever, a pipeline writes only instances that discovery found, and each one at most once.
\<close>

theorem pipeline_writes_found:
  assumes "pipe_reach E g (pipe_init E c st) p"
  shows "mset (map wdInstance (ppWritten p)) \<subseteq># mset (ppItems p)"
proof -
  have "wdInstance w = x" if "resolveWorkload E r g x = Inr w" for r x w
    using that by (auto simp: resolveWorkload_def split: sum.splits)
  then have "in_pipe (\<lambda>x. {#x#}) (\<lambda>w. {#wdInstance w#}) p \<subseteq># sum_list (map (\<lambda>x. {#x#}) (ppItems p))"
    by (intro reach_in_pipe [OF assms]) simp
  then have "mset (map wdInstance (ppWritten p)) \<subseteq># sum_list (map (\<lambda>x. {#x#}) (ppItems p))"
    unfolding in_pipe_def sum_singletons by (rule subset_mset.order_trans [rotated]) simp
  then show ?thesis using sum_singletons [of "\<lambda>x. x"] by simp
qed

text \<open>
  C38. No pipeline runs forever and none is ever stuck: its steps terminate whatever the interleaving, and in every reachable state in which not
  all stages have returned some stage can make a step, without waiting for the context to end.
\<close>

theorem pipeline_ends:
  assumes "dep_registry_ok (bkRegistry E)" and "0 < boMaxWorkers (bkOptions E)" and "bsPanic st = None"
  shows "wfP (\<lambda>q p. pipe_step E g p q)
    \<and> (\<forall>p. pipe_reach E g (pipe_init E c st) p \<longrightarrow> \<not> pipe_finished p \<longrightarrow> (\<exists>q. stage_step E g p q))"
proof -
  have "wfP (\<lambda>q p. pipe_step E g p q)"
    unfolding wfp_def by (rule wf_subset [OF wf_pipe_order]) (auto intro: pipe_step_order)
  moreover have "0 < capacity E" using assms(2) by (simp add: capacity_def)
  ultimately show ?thesis
    using pipe_progress reach_ok reach_safe [OF _ assms(1,3)] by (meson pipe_safe_def)
qed

text \<open>
  C39. With the options that \<open>Complete\<close> sets and a number of workers that is not negative, a backup always returns, without a
  panic; and it returns an error if and only if the output directory cannot be made, whatever fails in its pipelines.
\<close>

theorem backup_always_returns:
  assumes "Complete_backup td fv cpus None c = Inr (Inr (bkOptions E, bkRegistry E))"
    and "0 \<le> boMaxWorkers c" and "0 < cpus" and "bsPanic st = None"
  shows "(\<exists>st' e. backup_Run E st (st', e))
    \<and> (\<forall>st' e. backup_Run E st (st', e) \<longrightarrow> bsPanic st' = None \<and> e = snd (make_output_dir E st))"
proof -
  have "\<exists>reg. register_resolvers td fv (boDependencies c) = Inr reg"
    by (cases "boDependencies c") (simp_all add: register_resolvers_def MustRegister_backup_def)
  then obtain reg where reg: "register_resolvers td fv (boDependencies c) = Inr reg" by blast
  have c': "bkRegistry E = reg" "boMaxWorkers (bkOptions E) = (if boMaxWorkers c = 0 then detected_workers cpus else boMaxWorkers c)"
    using assms(1) by (auto simp: Complete_backup_def reg dest: arg_cong [of _ _ boMaxWorkers])
  then have E: "dep_registry_ok (bkRegistry E)" "0 < boMaxWorkers (bkOptions E)"
    using assms(2,3) registered_ok [OF reg] by (simp_all add: detected_workers_def)
  have "\<exists>st' e. backup_Run E st (st', e)"
  proof (cases "make_output_dir E st")
    case (Pair st1 e)
    define st2 where "st2 = start_line (bkOptions E) (length (resolveWorkloadGVRs (bkOptions E))) st1"
    have "bsPanic st2 = None" using panic_start_end(3) [of E st] Pair assms(4) by (simp add: st2_def panic_start_end)
    then obtain st' where "backup_types E (resolveWorkloadGVRs (bkOptions E)) None st2 st'" using types_run [OF E] by blast
    then show ?thesis using Pair backup_Run.no_dir [of E st st1] backup_Run.run [of E st st1 st'] unfolding st2_def by (cases e) auto
  qed
  moreover have "bsPanic st' = None \<and> e = snd (make_output_dir E st)" if "backup_Run E st (st', e)" for st' e
    using that
  proof cases
    case (no_dir e')
    then show ?thesis using panic_start_end(3) [of E st] assms(4) by simp
  next
    case (run st1 st2)
    then have "bsPanic st1 = None" using panic_start_end(3) [of E st] assms(4) by simp
    with run types_no_panic [OF run(4) E] show ?thesis by (simp add: panic_start_end)
  qed
  ultimately show ?thesis by blast
qed

text \<open>
  A dry run writes nothing to stdout and no files, however its pipelines interleave: all it leaves behind is the output
  directory, which it makes.
\<close>

theorem dry_run_writes_nothing:
  assumes "backup_Run E st (st', e)" and "boDryRun (bkOptions E)"
  shows "outputs st' = outputs (fst (make_output_dir E st))"
  using assms(1)
proof cases
  case (no_dir e')
  then show ?thesis by simp
next
  case (run st1 st2)
  then show ?thesis using dry_types [OF run(4) assms(2)] by simp
qed

text \<open>
  C40. A Notebook is resolved whenever its volumes and containers can be read. The ConfigMaps among its dependencies are
  exactly those that could be fetched under a name that a volume, an \<open>envFrom\<close> or a variable of it gives and that does not end
  in \<open>trusted-ca-bundle\<close>, in whatever order the parallel fetches finish; only Secrets leave a dependency with an error behind.
\<close>

theorem notebook_dependencies:
  assumes "extractVolumes td (rdGojq r) obj = Inr vs" "extractContainers td (rdGojq r) obj = Inr cs"
    and "\<And>names. mset (feDone fv names) = mset [0..<length names]"
  shows "\<exists>deps. notebook_Resolve td fv r obj = Inr deps
    \<and> (\<forall>v. (\<exists>d\<in>set deps. dpGVR d = GVR rt_ConfigMap \<and> dpResource d = Some v)
        \<longleftrightarrow> (\<exists>n. n \<in> configmap_refs vs cs \<and> \<not> trusted_ca_name n
              \<and> fetch_one r (u_namespace obj) rt_ConfigMap n = Inr v))
    \<and> (\<forall>d\<in>set deps. dpError d \<noteq> None \<longrightarrow> dpGVR d = GVR rt_Secret)"
proof -
  from assms(1,2) obtain cms secs pvcs where cms: "set cms = {n\<in>configmap_refs vs cs. \<not> trusted_ca_name n}"
    and run: "notebook_Resolve td fv r obj =
       Inr (fetch_found fv r (u_namespace obj) rt_ConfigMap cms @ fetch_all fv r (u_namespace obj) rt_Secret secs
            @ fetch_found fv r (u_namespace obj) rt_PersistentVolumeClaim pvcs)"
    by (rule notebook_Resolve_eq)
  show ?thesis unfolding run fetch_found_eq [OF assms(3)] fetch_all_eq [OF assms(3)]
    by (auto simp: cms set_map_filter_fetched bex_Un)
qed

text \<open>A negative number of workers passes \<open>Complete\<close> and \<open>Validate\<close>, and then the first channel panics.\<close>

lemma negative_workers_accepted:
  assumes "boMaxWorkers c < 0" and "Complete_backup td fv cpus None c = Inr (Inr (c', reg))"
  shows "Validate_backup c' = Validate_backup c \<and> boMaxWorkers c' < 0"
  using assms by (auto simp: Complete_backup_def Validate_backup_def)

lemma negative_workers_panic:
  assumes "boMaxWorkers (bkOptions E) < 0" "backup_types E (g # gs) c st st'"
  shows "bsPanic st' \<noteq> None"
  using assms(2)
proof cases
  case negative_workers
  then show ?thesis by (simp add: go_panic_def)
qed (use assms(1) in simp_all)

text \<open>The example of the help text excludes a type that is none of the default ones.\<close>

lemma documented_exclude:
  "map group_resource (resolveWorkloadGVRs (NewCommand_backup\<lparr>boIncludes := DefaultWorkloadTypes,
     boExcludes := [''datasciencepipelinesapplications.opendatahub.io'']\<rparr>)) = DefaultWorkloadTypes"
  by code_simp

section \<open>Witnesses\<close>

definition named_object :: "string \<Rightarrow> json" where
  "named_object n = JObj [(''metadata'', JObj [(''name'', JStr n), (''namespace'', JStr ''team'')])]"

definition bk_jq :: gojq where
  "bk_jq = \<lparr>gqParse = \<lambda>q. None, gqRun = \<lambda>q v. Some (Inr (if has_prefix ''del('' q then v else JArr []))\<rparr>"

definition bk_reader :: reader where
  "bk_reader = (sample_reader bk_jq (\<lambda>rt. [named_object ''lab'']))\<lparr>rdGet :=
     (\<lambda>rt ns n. Inr (if n = ''settings'' then Some (named_object n) else None))\<rparr>"

definition bk_decoders :: typed_decoders where
  "bk_decoders = \<lparr>tdVolumes = \<lambda>v. Inr
     [\<lparr>voName = ''a'', voConfigMap = Some ''settings'', voSecret = None, voPVC = None\<rparr>,
      \<lparr>voName = ''b'', voConfigMap = Some ''trusted-ca-bundle'', voSecret = None, voPVC = None\<rparr>,
      \<lparr>voName = ''c'', voConfigMap = None, voSecret = Some ''token'', voPVC = None\<rparr>], tdContainers = \<lambda>v. Inr []\<rparr>"

definition bk_fetch :: fetch_env where
  "bk_fetch = \<lparr>feDone = \<lambda>names. rev [0..<length names], feVisit = \<lambda>m. m\<rparr>"

definition bk_env :: "bool \<Rightarrow> backup_env" where
  "bk_env dry = \<lparr>bkOptions = NewCommand_backup\<lparr>boDryRun := dry, boVerbose := dry, boIncludes := DefaultWorkloadTypes,
       boStripFields := DefaultStripFields, boMaxWorkers := 1\<rparr>,
     bkReader = bk_reader, bkRegistry = [NewNotebookResolver bk_decoders bk_fetch, NewDSPAResolver bk_fetch],
     bkFiles = \<lparr>feMkdir = \<lambda>p. None, feNotDir = \<lambda>p. NewError ''not a directory'', feWrite = \<lambda>p d. None, feRead = \<lambda>p. None,
       feEncode = \<lambda>v. Inr ''doc'', feDecode = \<lambda>s. Inr JNull\<rparr>\<rparr>"

definition bk_out :: backup_out where
  "bk_out = \<lparr>bsFiles = None, bsStdout = [], bsStderr = [], bsPanic = None\<rparr>"

lemma bk_complete:
  "Complete_backup bk_decoders bk_fetch 1 None (NewCommand_backup\<lparr>boDryRun := dry\<rparr>) = Inr (Inr (bkOptions (bk_env dry), bkRegistry (bk_env dry)))"
  by (simp add: Complete_backup_def register_resolvers_def MustRegister_backup_def Register_backup_def NewRegistry_backup_def
      bk_env_def NewCommand_backup_def detected_workers_def)

lemma bk_settings:
  "dep_registry_ok (bkRegistry (bk_env dry))" "0 < boMaxWorkers (bkOptions (bk_env dry))" "bsPanic bk_out = None"
  "boDryRun (bkOptions (bk_env dry)) = dry" "boOutputDir (bkOptions (bk_env dry)) = []"
  using registered_ok [of bk_decoders bk_fetch True "bkRegistry (bk_env dry)"]
  by (simp_all add: register_resolvers_def MustRegister_backup_def Register_backup_def NewRegistry_backup_def bk_env_def
      NewCommand_backup_def bk_out_def)

lemma bk_query: "query_list bk_jq conv what q obj = (case conv (JArr []) of Inl e \<Rightarrow> if is_ErrNotFound e then Inr [] else Inl (wrapf (''querying '' @ what) e) | Inr xs \<Rightarrow> Inr xs)"
  if "\<not> has_prefix ''del('' q"
  using that by (simp add: query_list_def Query_def bk_jq_def)

lemma bk_volumes:
  "extractVolumes bk_decoders (rdGojq bk_reader) obj = tdVolumes bk_decoders JNull"
  "extractContainers bk_decoders (rdGojq bk_reader) obj = Inr []"
proof -
  have "rdGojq bk_reader = bk_jq" by (simp add: bk_reader_def sample_reader_def)
  then show "extractVolumes bk_decoders (rdGojq bk_reader) obj = tdVolumes bk_decoders JNull"
    "extractContainers bk_decoders (rdGojq bk_reader) obj = Inr []"
    unfolding extractVolumes_def extractContainers_def
    by (simp_all add: bk_query has_prefix_iff bk_decoders_def)
qed

theorem fetch_order_irrelevant_witness:
  "\<exists>errs. FetchResourcesByNameWithErrors [1, 0] bk_reader ''team'' rt_Secret [''token'', ''settings'']
     = ([named_object ''settings''], errs) \<and> map_of errs ''token'' \<noteq> None"
proof -
  have "mset [1, 0] = mset [0..<length [''token'', ''settings'']]" by (simp add: numeral_2_eq_2)
  then obtain errs where e: "FetchResourcesByNameWithErrors [1, 0] bk_reader ''team'' rt_Secret [''token'', ''settings''] =
      (List.map_filter (fetched bk_reader ''team'' rt_Secret) [''token'', ''settings''], errs)"
    "map_of errs ''token'' = fetch_failed bk_reader ''team'' rt_Secret ''token''"
    using fetch_order_irrelevant [of "[1, 0]" "[''token'', ''settings'']" bk_reader "''team''" rt_Secret] by auto
  then show ?thesis by (simp add: map_filter_simps fetched_def fetch_failed_def fetch_one_def bk_reader_def)
qed

theorem notebook_dependencies_witness:
  "\<exists>deps d. notebook_Resolve bk_decoders bk_fetch bk_reader (named_object ''lab'') = Inr deps
     \<and> d \<in> set deps \<and> dpGVR d = GVR rt_ConfigMap \<and> dpResource d = Some (named_object ''settings'')"
proof -
  obtain vs where vs: "tdVolumes bk_decoders JNull = Inr vs" "\<exists>v\<in>set vs. voConfigMap v = Some ''settings''"
    by (simp add: bk_decoders_def)
  have n: "''settings'' \<in> configmap_refs vs []" using vs(2) by (simp add: configmap_refs_def)
  have f: "fetch_one bk_reader (u_namespace (named_object ''lab'')) rt_ConfigMap ''settings'' = Inr (named_object ''settings'')"
    by (simp add: fetch_one_def bk_reader_def)
  have t: "\<not> trusted_ca_name ''settings''" by code_simp
  have vols: "extractVolumes bk_decoders (rdGojq bk_reader) (named_object ''lab'') = Inr vs"
    "extractContainers bk_decoders (rdGojq bk_reader) (named_object ''lab'') = Inr []" using bk_volumes vs(1) by simp_all
  have fetches: "mset (feDone bk_fetch names) = mset [0..<length names]" for names by (simp add: bk_fetch_def)
  obtain deps where deps: "notebook_Resolve bk_decoders bk_fetch bk_reader (named_object ''lab'') = Inr deps"
    "\<forall>v. (\<exists>d\<in>set deps. dpGVR d = GVR rt_ConfigMap \<and> dpResource d = Some v)
        \<longleftrightarrow> (\<exists>n. n \<in> configmap_refs vs [] \<and> \<not> trusted_ca_name n
              \<and> fetch_one bk_reader (u_namespace (named_object ''lab'')) rt_ConfigMap n = Inr v)"
    using notebook_dependencies [OF vols fetches] by blast
  have "\<exists>d\<in>set deps. dpGVR d = GVR rt_ConfigMap \<and> dpResource d = Some (named_object ''settings'')"
    by (rule deps(2) [THEN spec, THEN iffD2]) (use n f t in blast)
  with deps(1) show ?thesis by blast
qed

definition bk_type :: gvr where "bk_type = (''kubeflow.org'', ''v1'', ''notebooks'')"

lemma bk_list: "rdList (bkReader (bk_env dry)) (gvr_type bk_type) list_all_config = Inr [named_object ''lab'']"
  by (simp add: bk_env_def bk_reader_def sample_reader_def)

lemma bk_resolved: "\<exists>w. resolved_item (bk_env dry) bk_type (named_object ''lab'') = {#w#} \<and> wdInstance w = named_object ''lab''"
proof -
  obtain vs where "tdVolumes bk_decoders JNull = Inr vs" by (simp add: bk_decoders_def)
  then have "extractVolumes bk_decoders (rdGojq bk_reader) (named_object ''lab'') = Inr vs"
    "extractContainers bk_decoders (rdGojq bk_reader) (named_object ''lab'') = Inr []" using bk_volumes by simp_all
  then obtain deps where deps: "notebook_Resolve bk_decoders bk_fetch bk_reader (named_object ''lab'') = Inr deps"
    using notebook_Resolve_eq by metis
  have "GetResolver (bkRegistry (bk_env dry)) bk_type = Inr (NewNotebookResolver bk_decoders bk_fetch)"
    by (simp add: GetResolver_def bk_env_def NewNotebookResolver_def notebook_CanHandle_def bk_type_def rt_Notebook_def mk_resource_def)
  moreover have "bkReader (bk_env dry) = bk_reader" by (simp add: bk_env_def)
  ultimately show ?thesis using deps by (simp add: resolved_item_def resolveWorkload_def NewNotebookResolver_def)
qed

lemma bk_pipe:
  obtains p where "pipe_reach (bk_env dry) bk_type (pipe_init (bk_env dry) None bk_out) p" "pipe_finished p" "ppCtx p = None"
  using pipe_completes [OF bk_settings(1,2,3)] bk_list that by metis

theorem pipeline_writes_all_witness:
  "\<exists>p. pipe_reach (bk_env False) bk_type (pipe_init (bk_env False) None bk_out) p \<and> pipe_finished p
     \<and> map wdInstance (ppWritten p) = [named_object ''lab''] \<and> pipeline_error p = None"
proof -
  obtain p where p: "pipe_reach (bk_env False) bk_type (pipe_init (bk_env False) None bk_out) p" "pipe_finished p" "ppCtx p = None"
    by (rule bk_pipe)
  obtain w where w: "resolved_item (bk_env False) bk_type (named_object ''lab'') = {#w#}" "wdInstance w = named_object ''lab''"
    using bk_resolved by blast
  have "pipeline_error p = None" "mset (ppWritten p) = {#w#}"
    using pipeline_writes_all [OF p bk_settings(1,2,3)] bk_list [of False] w(1) by simp_all
  then show ?thesis using p w(2) by (intro exI [of _ p]) simp
qed

theorem pipeline_writes_found_witness:
  "\<exists>p. pipe_finished p \<and> ppItems p = [named_object ''lab''] \<and> mset (map wdInstance (ppWritten p)) \<subseteq># {#named_object ''lab''#}"
proof -
  obtain p where p: "pipe_reach (bk_env False) bk_type (pipe_init (bk_env False) None bk_out) p" "pipe_finished p" "ppCtx p = None"
    by (rule bk_pipe)
  have "ppListed p" using reach_ok [OF p(1)] p(2) by (simp add: pipe_ok_def pipe_shape_def pipe_finished_def)
  then have "ppItems p = [named_object ''lab'']" using reach_results [OF p(1,3)] bk_list [of False] by simp
  with pipeline_writes_found [OF p(1)] p(2) show ?thesis by auto
qed

theorem pipeline_ends_witness:
  "wfP (\<lambda>q p. pipe_step (bk_env False) bk_type p q)
     \<and> (\<exists>q. stage_step (bk_env False) bk_type (pipe_init (bk_env False) None bk_out) q)"
proof -
  have "\<not> pipe_finished (pipe_init (bk_env False) None bk_out)" by (simp add: pipe_finished_def pipe_init_def)
  then show ?thesis using pipeline_ends [OF bk_settings(1,2,3), of False bk_type None] by simp
qed

theorem backup_always_returns_witness: "\<exists>st'. backup_Run (bk_env False) bk_out (st', None) \<and> bsPanic st' = None"
proof -
  have "NewCommand_backup\<lparr>boDryRun := False\<rparr> = NewCommand_backup" "0 \<le> boMaxWorkers NewCommand_backup"
    by (simp_all add: NewCommand_backup_def)
  then have "(\<exists>st' e. backup_Run (bk_env False) bk_out (st', e))
    \<and> (\<forall>st' e. backup_Run (bk_env False) bk_out (st', e) \<longrightarrow> bsPanic st' = None \<and> e = snd (make_output_dir (bk_env False) bk_out))"
    using bk_complete [of False] bk_settings(3) by (intro backup_always_returns [of bk_decoders bk_fetch 1 NewCommand_backup]) simp_all
  then show ?thesis using bk_settings(5) [of False] by (auto simp: make_output_dir_def)
qed

theorem dry_run_writes_nothing_witness: "\<exists>st'. backup_Run (bk_env True) bk_out (st', None) \<and> outputs st' = (None, [])"
proof -
  have dir: "make_output_dir (bk_env True) bk_out = (bk_out, None)" using bk_settings(5) by (simp add: make_output_dir_def)
  obtain st' where st': "backup_Run (bk_env True) bk_out (end_line (bkOptions (bk_env True)) st', None)"
    using types_run [OF bk_settings(1,2) _, of "start_line c n bk_out" for c n] bk_settings(3) panic_start_end(1)
      backup_Run.run [OF dir] by metis
  then show ?thesis using dry_run_writes_nothing [OF st'] bk_settings(4) [of True] dir by (auto simp: outputs_def bk_out_def)
qed

end
