(* ===== verification/Spec2Isabelle.thy ===== *)
theory Spec2Isabelle
  imports LintCommand DepsCommand MigrateCommand PlatformChecks RayMigration LintChecks VerboseFormat EventsWatch WorkbenchFacts ComponentsFacts BackupFacts
begin

text \<open>
  A model of \<open>odh-cli\<close>, the command line client of Open Data Hub and Red Hat OpenShift AI. The program is a tree of commands
  (\<open>cmd/\<close>) whose work is done in \<open>pkg/\<close>; every command has the phases \<open>Complete\<close>, \<open>Validate\<close> and \<open>Run\<close>, reads a
  cluster through a client, and reports with a table, JSON or YAML and an exit code. The model follows this division: for each part
  there are the definitions of its state and of every operation, and below them the lemmas; a property of the program is a theorem
  after a text that names it. This theory only collects the others.

  \<^bold>\<open>How Go is modelled.\<close> A struct is a record, an enumeration a datatype (or a string, where the source keeps it open); a Go string
  is a list of bytes, ordered byte by byte; a map is an association list without repeated keys, and where a loop ranges over a map in
  an order Go leaves open, the order is an argument or the result is proved not to depend on it. Numbers are natural numbers or
  integers, but 64-bit words where an overflow matters (\<open>ResourceCapacity\<close>). A function that returns an error returns a sum;
  \<open>None\<close> and \<open>Some e\<close> are the two values of a returned \<open>error\<close>; a panic is \<open>Inl\<close> of a sum around the result. An error is a
  tree, so that wrapping, \<open>errors.Is\<close> and \<open>errors.As\<close> are as in the source (\<open>Errors\<close>). State is passed explicitly: the type \<open>'s\<close>
  is the state of the cluster with whatever else happens to it while the program waits.

  \<^bold>\<open>What is an argument.\<close> Code outside the repository is never defined here but passed in: the API server (\<open>reader\<close> in
  \<open>KubeClient\<close> for what is read, \<open>cluster\<close> in \<open>MigrateTask\<close> for what is changed), jq (\<open>gojq\<close>), the library of semantic versions,
  the YAML and JSON decoders and encoders, the parser of quantities, waiting and the clock, files (\<open>file_env\<close>), and what the user types.
  What is assumed of them is a named definition (\<open>error_laws\<close>, \<open>jq_paths\<close>, \<open>merging_server\<close>, \<open>\<dots>\<close>) in the hypotheses of
  a theorem, and a witness below the theorem applies it to a concrete instance.

  \<^bold>\<open>Shared ground.\<close> \<open>Prelude\<close> has the functions on strings, \<open>sort.Slice\<close>, and the interfaces of sorters and of closures of a
  successor function as locales; \<open>Glob\<close> is \<open>path.Match\<close>; \<open>Runes\<close> decodes and encodes UTF-8; \<open>Stdin\<close> is \<open>pkg/util/stdin\<close>;
  \<open>Unstructured\<close> has the accessors of JSON objects, \<open>Canonical\<close> what an encoder and a decoder make of one (sorted keys, and for YAML
  floating point numbers); \<open>Resources\<close> is \<open>pkg/resources\<close>; \<open>Versions\<close> is \<open>pkg/util/version\<close>.
  \<open>Errors\<close> is \<open>pkg/util/errors\<close> with \<open>main\<close>: wrapping, classification, exit codes and their precedence, rendering.
  \<open>KubeClient\<close> is \<open>pkg/util/client\<close>, \<open>pkg/util/jq\<close>, \<open>pkg/util/components\<close> and \<open>pkg/util/kube\<close>: lists page by page, singletons with
  fallback between versions, and denied requests that read as empty answers; \<open>Discovery\<close> finds the operator and the components.

  \<^bold>\<open>lint.\<close> A run selects checks from a registry, executes each one against a target and turns their results into a verdict and an
  exit code. \<open>LintResult\<close> (results, conditions, the envelope), \<open>LintRegistry\<close> (registry and selectors), \<open>LintExecutor\<close> (execution under a
  context, with errors as results, and a panic of a check as the panic of the run), \<open>LintOutput\<close> (flattening, filtering, sorting, totals), \<open>LintCommand\<close> (options, phases, verdict),
  \<open>VerboseFormat\<close> (listings). The checks are built with \<open>LintValidate\<close> (\<open>pkg/lint/check/validate\<close>) and are in \<open>ComponentChecks\<close>,
  \<open>ResourceCapacity\<close>, \<open>PlatformChecks\<close>, \<open>WorkloadChecks\<close>, \<open>NotebookChecks\<close>, \<open>NotebookImages\<close> and \<open>KueueIntegrity\<close>; \<open>LintChecks\<close>
  puts all of them in the order of their registration. The lemmas show what is executed and reported, that every result is
  valid, what decides the exit code, and for single checks the exact condition under which they pass; for the capacity of the nodes
  the requests are compared with those of the scheduler, which the check may undercount.

  \<^bold>\<open>deps.\<close> \<open>DepsManifest\<close> parses the manifest and computes transitive dependencies, \<open>DepsOlm\<close> compares it with the operators on the
  cluster, \<open>DepsInstall\<close> creates what is missing and waits for it, and \<open>DepsCommand\<close> is the command. The requests of an installation
  depend on the history of requests, which is threaded; a wait that has no bound is \<open>partial_function (option)\<close>, and the theorem on
  its outcome says when it returns. A dry run shows the requests that an installation would send, on a cluster that accepts them.

  \<^bold>\<open>migrate.\<close> An action has a task for preparing and one for running; tasks record steps in a tree with shared mutable nodes.
  \<open>MigrateRecorder\<close> models these as a store and proves that it implements a tree; \<open>MigrateAction\<close> is the registry of actions and their
  executor, \<open>MigrateCommand\<close> the commands \<open>run\<close>, \<open>prepare\<close> and \<open>list\<close>, \<open>MigrateTask\<close> what tasks share: a cluster, the log of its
  writes (\<open>logged\<close>) and the locale \<open>guarded_cluster\<close> of invariants that permitted writes keep, which is interpreted on the log, so that a
  theorem about a task bounds what it writes whatever the cluster answers. \<open>RayProcess\<close>, \<open>RayCluster\<close> and \<open>RayMigration\<close> are the
  migration of RayClusters with backup and restore (files are trees, \<open>BackupWriter\<close>); \<open>TaskSteps\<close>, \<open>WorkbenchAuth\<close>, \<open>WorkbenchTasks\<close>,
  \<open>WorkbenchArgs\<close>, \<open>WorkbenchMigration\<close> and \<open>WorkbenchFacts\<close> are the five migrations of workbenches. \<open>WorkbenchArgs\<close> says what a row of
  arguments of a notebook server is and what is left of it, and \<open>WorkbenchMigration\<close> states the migrated notebook without the
  patches; there the log also has the answers of the user (\<open>traced\<close>), and the locale \<open>consented_tasks\<close> is an invariant that
  needs consent for updates and deletions.

  \<^bold>\<open>events and components.\<close> \<open>Events\<close> and \<open>EventsWatch\<close> are the command \<open>events\<close>: the filter by component with its pool of
  workers as a step relation that ends under every schedule, the watch with its retries, and what reaches the terminal. \<open>Components\<close> and \<open>ComponentsFacts\<close> are the
  commands that list, describe, enable and disable components, with the map of component states as the specification.

  \<^bold>\<open>backup.\<close> \<open>BackupResolve\<close> finds what a workload refers to and fetches it in parallel (\<open>pkg/backup/dependencies\<close>,
  \<open>pkg/util/kube/dependencies.go\<close>); \<open>BackupPipeline\<close> has the options and the work of the stages, and \<open>BackupRun\<close> their
  composition: discovery, a number of resolvers and the writer are the steps of an inductive relation over two bounded channels and a
  context that may end at any moment. \<open>BackupResolveFacts\<close>, \<open>BackupRunFacts\<close> and \<open>BackupFacts\<close> show that the order of the fetches
  does not matter, that a pipeline always ends, that nothing is lost or written twice while the context lives, and what a run returns.
  The locale \<open>dependency_resolver\<close> is what the stages rely on; both resolvers of the program are interpretations of it.

  \<^bold>\<open>Loops and bounds.\<close> Recursion is structural or has a measure, with these exceptions. \<open>list_pages\<close> and the wait of an
  installation may go on for ever, so they are \<open>partial_function (option)\<close> and \<open>None\<close> means that they do not return; the waits of
  \<open>poll\<close> have the number of attempts that the timeouts of the source allow; \<open>walk\<close> on owner references, which may be cyclic, has a
  measure on the nodes not yet visited. A waiting loop of the client library is the argument \<open>pollUntil\<close>. No theorem rests on
  fuel.

  \<^bold>\<open>Not modelled.\<close> Printing: the table, JSON and YAML renderers, colours and progress texts; the models end at the rows and documents
  handed to them. Construction of clients, flags and help texts, mocks, generated schemas. The commands
  \<open>status\<close>, \<open>logs\<close>, \<open>get\<close>, \<open>diagnose\<close>, \<open>mcp\<close> and \<open>api\<close>, which mainly join calls of libraries of the platform to printers; and of the migrations, model serving, TrustyAI, the Kueue operator, AI Pipelines, training, the storage version of the
  DataScienceCluster and the backup of Llama Stack. Their place in the registry, with the versions they apply to, is in
  \<open>MigrateAction\<close>; their tasks need the model of a cluster of \<open>MigrateTask\<close> and would follow \<open>WorkbenchTasks\<close>.
\<close>

end
